(* ===== verification/Iov_Prelude.thy ===== *)
theory Iov_Prelude
  imports Complex_Main "HOL-Library.Word"
begin

text \<open>
  The prelude of the development: what every component of iov-core shares.

  \<^item> Thrown errors are values. JavaScript's \<open>throw new Error(message)\<close> is
    \<open>Inl message\<close> of the type \<open>'a result\<close>; the message keeps the static text
    of the source, interpolated values are left out. \<open>andThen\<close> is the
    sequencing of two statements of which the first may throw, \<open>mapM\<close> is
    \<open>Array.prototype.map\<close> with a callback that may throw.
  \<^item> JavaScript numbers: \<open>number\<close> holds the two infinities, NaN and the finite
    values as rationals (every finite double is one). The sources only ever
    test, compare and pass numbers on, or compute in the range in which double
    arithmetic is exact.
  \<^item> JavaScript strings are lists of code units; the model has the code units
    up to 255 (type \<open>string\<close>). A \<open>Uint8Array\<close> is a list of 8-bit words.
  \<^item> Two contracts used by many components, as locales: \<open>codec\<close> (a decoder that
    undoes an encoder on the valid values) and \<open>state_machine\<close> (an invariant
    that the steps of a component keep).
\<close>

section \<open>Thrown errors\<close>

type_synonym 'a result = "string + 'a"

abbreviation throw :: "string \<Rightarrow> 'a result" where
  "throw msg \<equiv> Inl msg"

abbreviation ok :: "'a \<Rightarrow> 'a result" where
  "ok x \<equiv> Inr x"

definition andThen :: "'a result \<Rightarrow> ('a \<Rightarrow> 'b result) \<Rightarrow> 'b result" where
  "andThen r f = (case r of Inl e \<Rightarrow> Inl e | Inr x \<Rightarrow> f x)"

lemma andThen_simps [simp]:
  "andThen (Inl e) f = Inl e"
  "andThen (Inr x) f = f x"
  by (simp_all add: andThen_def)

lemma andThen_eq_Inr:
  "andThen r f = Inr y \<longleftrightarrow> (\<exists>x. r = Inr x \<and> f x = Inr y)"
  by (cases r) auto

lemma andThen_eq_Inl:
  "andThen r f = Inl e \<longleftrightarrow> r = Inl e \<or> (\<exists>x. r = Inr x \<and> f x = Inl e)"
  by (cases r) auto

lemma andThen_assoc: "andThen (andThen r f) g = andThen r (\<lambda>x. andThen (f x) g)"
  by (cases r) auto

fun mapM :: "('a \<Rightarrow> 'b result) \<Rightarrow> 'a list \<Rightarrow> 'b list result" where
  "mapM f [] = ok []"
| "mapM f (x # xs) = andThen (f x) (\<lambda>y. andThen (mapM f xs) (\<lambda>ys. ok (y # ys)))"

lemma mapM_cong [fundef_cong]:
  "xs = ys \<Longrightarrow> (\<And>x. x \<in> set ys \<Longrightarrow> f x = g x) \<Longrightarrow> mapM f xs = mapM g ys"
  by (induction xs arbitrary: ys) auto

lemma mapM_ok: "(\<And>x. x \<in> set xs \<Longrightarrow> f x = ok (g x)) \<Longrightarrow> mapM f xs = ok (map g xs)"
  by (induction xs) auto

lemma mapM_eq_Inr: "mapM f xs = Inr ys \<longleftrightarrow> list_all2 (\<lambda>x y. f x = Inr y) xs ys"
  by (induction xs arbitrary: ys) (auto simp: andThen_eq_Inr list_all2_Cons1)

lemma mapM_map: "mapM f (map g xs) = mapM (f \<circ> g) xs"
  by (induction xs) auto

text \<open>A statement sequence that throws on the first element it cannot handle.\<close>

lemma mapM_error:
  "mapM f xs = Inl e \<Longrightarrow> \<exists>x \<in> set xs. f x = Inl e"
  by (induction xs) (auto simp: andThen_eq_Inl)

definition is_ok :: "'a result \<Rightarrow> bool" where
  "is_ok r = (case r of Inl _ \<Rightarrow> False | Inr _ \<Rightarrow> True)"

lemma is_ok_simps [simp]: "\<not> is_ok (Inl e)" "is_ok (Inr x)"
  by (simp_all add: is_ok_def)

lemma is_ok_iff: "is_ok r \<longleftrightarrow> (\<exists>x. r = Inr x)"
  by (cases r) auto

text \<open>
  A call that may not return: \<open>None\<close> is a call that runs for ever, \<open>Some\<close> its
  result. \<open>thenRun\<close> continues with the value of a call that returns one.
\<close>

type_synonym 'a run = "'a result option"

definition thenRun :: "'a run \<Rightarrow> ('a \<Rightarrow> 'b run) \<Rightarrow> 'b run" where
  "thenRun r f = (case r of None \<Rightarrow> None | Some (Inl e) \<Rightarrow> Some (Inl e) | Some (Inr x) \<Rightarrow> f x)"

lemma thenRun_simps [simp]:
  "thenRun None f = None"
  "thenRun (Some (Inl e)) f = Some (Inl e)"
  "thenRun (Some (Inr x)) f = f x"
  by (simp_all add: thenRun_def)

lemma thenRun_eq_ok: "thenRun r f = Some (Inr y) \<longleftrightarrow> (\<exists>x. r = Some (Inr x) \<and> f x = Some (Inr y))"
  by (auto simp: thenRun_def split: option.splits sum.splits)

text \<open>\<open>if (x) return f(x); ...rest\<close> on a property that may not be set.\<close>

definition if_set :: "'a option \<Rightarrow> ('a \<Rightarrow> 'b) \<Rightarrow> 'b \<Rightarrow> 'b" where
  "if_set x f rest = (case x of None \<Rightarrow> rest | Some y \<Rightarrow> f y)"

lemma if_set_simps [simp]: "if_set None f rest = rest" "if_set (Some y) f rest = f y"
  by (simp_all add: if_set_def)

section \<open>The codec contract\<close>

text \<open>
  An encoder that may throw, a decoder that may throw, and the values on which
  the decoder recovers what was encoded.
\<close>

locale codec =
  fixes enc :: "'a \<Rightarrow> 'b result"
    and dec :: "'b \<Rightarrow> 'a result"
    and valid :: "'a \<Rightarrow> bool"
  assumes round_trip: "valid x \<Longrightarrow> \<exists>w. enc x = ok w \<and> dec w = ok x"
begin

lemma enc_total: "valid x \<Longrightarrow> is_ok (enc x)"
  using round_trip [of x] by auto

lemma dec_enc: "valid x \<Longrightarrow> enc x = ok w \<Longrightarrow> dec w = ok x"
  using round_trip [of x] by auto

lemma dec_after_enc: "valid x \<Longrightarrow> andThen (enc x) dec = ok x"
  using round_trip [of x] by auto

lemma enc_injective: "valid x \<Longrightarrow> valid y \<Longrightarrow> enc x = enc y \<Longrightarrow> x = y"
  using round_trip [of x] round_trip [of y] by auto

lemma list_round_trip:
  "list_all valid xs \<Longrightarrow> \<exists>ws. mapM enc xs = ok ws \<and> mapM dec ws = ok xs"
proof (induction xs)
  case Nil
  then show ?case by simp
next
  case (Cons x xs)
  then obtain ws where "mapM enc xs = ok ws" "mapM dec ws = ok xs" by auto
  moreover obtain w where "enc x = ok w" "dec w = ok x"
    using Cons.prems round_trip [of x] by auto
  ultimately show ?case by (intro exI [of _ "w # ws"]) simp
qed

text \<open>The same with the encoded values named.\<close>

lemma image: "valid x \<Longrightarrow> enc x = ok (projr (enc x)) \<and> dec (projr (enc x)) = ok x"
  using round_trip [of x] by auto

lemma list_image:
  "list_all valid xs \<Longrightarrow> mapM enc xs = ok (map (\<lambda>x. projr (enc x)) xs)
     \<and> mapM dec (map (\<lambda>x. projr (enc x)) xs) = ok xs"
proof (induction xs)
  case (Cons x xs)
  then obtain w where "enc x = ok w" "dec w = ok x" using round_trip [of x] by auto
  with Cons show ?case by simp
qed simp

end

section \<open>The state machine contract\<close>

text \<open>
  A component keeps a state; an operation consumes an event, returns a value
  and may throw. A throwing operation leaves the state it was called in, as
  the sources throw before they write.
\<close>

definition next_state :: "('s \<Rightarrow> 'e \<Rightarrow> ('s \<times> 'o) result) \<Rightarrow> 's \<Rightarrow> 'e \<Rightarrow> 's" where
  "next_state step s e = (case step s e of Inl _ \<Rightarrow> s | Inr (s', _) \<Rightarrow> s')"

primrec run_events :: "('s \<Rightarrow> 'e \<Rightarrow> ('s \<times> 'o) result) \<Rightarrow> 's \<Rightarrow> 'e list \<Rightarrow> 's" where
  "run_events step s [] = s"
| "run_events step s (e # es) = run_events step (next_state step s e) es"

lemma run_events_append:
  "run_events step s (es @ fs) = run_events step (run_events step s es) fs"
  by (induction es arbitrary: s) auto

locale state_machine =
  fixes init :: "'s"
    and step :: "'s \<Rightarrow> 'e \<Rightarrow> ('s \<times> 'o) result"
    and inv :: "'s \<Rightarrow> bool"
  assumes inv_init: "inv init"
    and inv_step: "inv s \<Longrightarrow> step s e = ok (s', r) \<Longrightarrow> inv s'"
begin

lemma inv_next: "inv s \<Longrightarrow> inv (next_state step s e)"
  by (auto simp: next_state_def split: sum.splits prod.splits intro: inv_step)

lemma inv_run_from: "inv s \<Longrightarrow> inv (run_events step s es)"
  by (induction es arbitrary: s) (auto intro: inv_next)

lemma inv_run: "inv (run_events step init es)"
  by (rule inv_run_from) (rule inv_init)

end

text \<open>
  A component whose steps are those of an abstract machine, seen through the
  function \<open>abs\<close>: same result, same error, related states.
\<close>

definition map_state :: "('s \<Rightarrow> 't) \<Rightarrow> ('s \<times> 'o) result \<Rightarrow> ('t \<times> 'o) result" where
  "map_state f r = (case r of Inl e \<Rightarrow> Inl e | Inr (s, out) \<Rightarrow> Inr (f s, out))"

lemma map_state_simps [simp]:
  "map_state f (Inl e) = Inl e"
  "map_state f (Inr (s, out)) = Inr (f s, out)"
  by (simp_all add: map_state_def)

locale refined_machine = state_machine init step inv
  for init :: "'s" and step :: "'s \<Rightarrow> 'e \<Rightarrow> ('s \<times> 'o) result" and inv :: "'s \<Rightarrow> bool" +
  fixes abs :: "'s \<Rightarrow> 'a"
    and astep :: "'a \<Rightarrow> 'e \<Rightarrow> ('a \<times> 'o) result"
  assumes refines: "inv s \<Longrightarrow> map_state abs (step s e) = astep (abs s) e"
begin

lemma abs_next: "inv s \<Longrightarrow> abs (next_state step s e) = next_state astep (abs s) e"
  using refines [of s e] by (auto simp: next_state_def map_state_def split: sum.splits prod.splits)

lemma abs_run_from: "inv s \<Longrightarrow> abs (run_events step s es) = run_events astep (abs s) es"
  by (induction es arbitrary: s) (simp_all add: abs_next inv_next)

lemma abs_run: "abs (run_events step init es) = run_events astep (abs init) es"
  by (rule abs_run_from) (rule inv_init)

end

end
