(* ===== verification/Js_Runtime.thy ===== *)
theory Js_Runtime
  imports Iov_Prelude
begin

unbundle bit_operations_syntax

text \<open>
  What the sources use of the JavaScript language and its standard library:
  numbers (\<open>Number.isInteger\<close>, comparison, truthiness, the bitwise \<open>&\<close> on 32-bit
  integers), typed arrays of bytes, \<open>toString\<close> and \<open>parseInt\<close> in a radix,
  string slices. The lemmas are the facts the components rely on: printing a
  number and parsing it again is the identity, \<open>& 0xff\<close> is reduction modulo 256.
\<close>

section \<open>Numbers\<close>

datatype number = NaN | PosInfinity | NegInfinity | Num rat

definition int_num :: "int \<Rightarrow> number" where
  "int_num i = Num (of_int i)"

lemma int_num_eq_iff [simp]: "int_num i = int_num j \<longleftrightarrow> i = j"
  by (simp add: int_num_def)

lemma int_num_neq [simp]:
  "int_num i \<noteq> NaN" "int_num i \<noteq> PosInfinity" "int_num i \<noteq> NegInfinity"
  "NaN \<noteq> int_num i" "PosInfinity \<noteq> int_num i" "NegInfinity \<noteq> int_num i"
  by (simp_all add: int_num_def)

definition isNaN :: "number \<Rightarrow> bool" where
  "isNaN x = (x = NaN)"

fun isInteger :: "number \<Rightarrow> bool" where
  "isInteger (Num q) = (of_int \<lfloor>q\<rfloor> = q)"
| "isInteger _ = False"

lemma isInteger_int_num [simp]: "isInteger (int_num i)"
  by (simp add: int_num_def)

lemma isInteger_iff: "isInteger x \<longleftrightarrow> (\<exists>i. x = int_num i)"
proof (cases x)
  case (Num q)
  then show ?thesis by (auto simp: int_num_def)
qed (simp_all add: int_num_def)

text \<open>The order of numbers; a comparison with NaN is false.\<close>

fun num_less :: "number \<Rightarrow> number \<Rightarrow> bool" where
  "num_less NaN _ = False"
| "num_less _ NaN = False"
| "num_less (Num a) (Num b) = (a < b)"
| "num_less NegInfinity y = (y \<noteq> NegInfinity)"
| "num_less x NegInfinity = False"
| "num_less PosInfinity y = False"
| "num_less x PosInfinity = True"

lemma num_less_int [simp]: "num_less (int_num i) (int_num j) \<longleftrightarrow> i < j"
  by (simp add: int_num_def)

text \<open>\<open>x || null\<close> on numbers: zero and NaN are falsy.\<close>

definition truthy_num :: "number \<Rightarrow> bool" where
  "truthy_num x \<longleftrightarrow> x \<noteq> NaN \<and> x \<noteq> Num 0"

lemma truthy_int_num [simp]: "truthy_num (int_num i) \<longleftrightarrow> i \<noteq> 0"
  by (simp add: truthy_num_def int_num_def)

definition floor_num :: "number \<Rightarrow> int" where
  "floor_num x = (case x of Num q \<Rightarrow> \<lfloor>q\<rfloor> | _ \<Rightarrow> 0)"

lemma floor_int_num [simp]: "floor_num (int_num i) = i"
  by (simp add: floor_num_def int_num_def)

text \<open>\<open>a & b\<close>: both operands converted to 32-bit two's complement.\<close>

definition js_and :: "int \<Rightarrow> int \<Rightarrow> int" where
  "js_and a b = sint ((word_of_int a :: 32 word) AND word_of_int b)"

lemma js_and_0xff: "js_and a 255 = a mod 256"
proof -
  have m: "uint (255 :: 32 word) = mask 8" by (simp add: mask_eq_exp_minus_1)
  have u: "uint ((word_of_int a :: 32 word) AND 255) = a mod 256"
    unfolding uint_and m
    by (simp add: take_bit_eq_mask [symmetric] uint_word_of_int take_bit_eq_mod mod_mod_cancel)
  have "0 \<le> a mod 256" "a mod 256 < 256" by simp_all
  then have "signed_take_bit 31 (a mod 256) = a mod 256"
    by (intro signed_take_bit_int_eq_self) auto
  then show ?thesis by (simp add: js_and_def sint_uint u)
qed

section \<open>Bytes\<close>

type_synonym byte = "8 word"

text \<open>Storing an integer in a \<open>Uint8Array\<close> keeps it modulo 256.\<close>

definition toUint8 :: "int \<Rightarrow> byte" where
  "toUint8 i = word_of_int i"

lemma uint_toUint8 [simp]: "uint (toUint8 i) = i mod 256"
  by (simp add: toUint8_def uint_word_of_int)

lemma toUint8_uint [simp]: "toUint8 (uint b) = b"
  by (simp add: toUint8_def)

lemma byte_bounds: "0 \<le> uint (b :: byte)" "uint (b :: byte) < 256"
  using uint_lt2p [of b] by simp_all

lemma unat_byte_less: "unat (b :: byte) < 256"
  using unsigned_less [of b, where ?'a = nat] by simp

lemma toUint8_unat [simp]: "toUint8 (int (unat b)) = b"
  by (simp add: toUint8_def)

lemma unat_toUint8: "n < 256 \<Longrightarrow> unat (toUint8 (int n)) = n"
  by (simp add: toUint8_def unat_of_nat)

lemma of_char_less [simp]: "(of_char c :: nat) < 256"
  by (metis of_char_mod_256 mod_less_divisor zero_less_numeral)

section \<open>Printing and parsing integers in a radix\<close>

definition digit_char :: "nat \<Rightarrow> char" where
  "digit_char n = (if n < 10 then char_of (48 + n) else char_of (87 + n))"

definition digit_val :: "char \<Rightarrow> nat option" where
  "digit_val c = (let n = of_char c :: nat in
     if 48 \<le> n \<and> n \<le> 57 then Some (n - 48)
     else if 97 \<le> n \<and> n \<le> 102 then Some (n - 87)
     else if 65 \<le> n \<and> n \<le> 70 then Some (n - 55)
     else None)"

definition is_digit :: "char \<Rightarrow> bool" where
  "is_digit c = (let n = of_char c :: nat in 48 \<le> n \<and> n \<le> 57)"

lemma digit_char_zero: "digit_char 0 = CHR ''0''"
  by code_simp

lemma digit_val_digit_char [simp]: "n < 16 \<Longrightarrow> digit_val (digit_char n) = Some n"
  by (auto simp: digit_val_def digit_char_def)

lemma is_digit_digit_char [simp]: "n < 16 \<Longrightarrow> is_digit (digit_char n) \<longleftrightarrow> n < 10"
  by (auto simp: is_digit_def digit_char_def)

lemma digit_char_inj: "m < 16 \<Longrightarrow> n < 16 \<Longrightarrow> digit_char m = digit_char n \<Longrightarrow> m = n"
  by (metis digit_val_digit_char option.inject)

lemma is_digit_val: "is_digit c \<Longrightarrow> \<exists>n < 10. digit_val c = Some n \<and> c = digit_char n"
  by (auto simp: is_digit_def digit_val_def digit_char_def Let_def)

text \<open>\<open>Number.prototype.toString(radix)\<close> of a non-negative integer below \<open>10\<^sup>2\<^sup>1\<close>.\<close>

function to_base :: "nat \<Rightarrow> nat \<Rightarrow> string" where
  "to_base b n = (if n < b \<or> b < 2 then [digit_char n]
     else to_base b (n div b) @ [digit_char (n mod b)])"
  by pat_completeness auto
termination
  by (relation "measure snd") (auto intro: div_less_dividend)

declare to_base.simps [simp del]

text \<open>\<open>parseInt(s, radix)\<close> of a string of digits.\<close>

definition parse_base :: "nat \<Rightarrow> string \<Rightarrow> nat" where
  "parse_base b s = foldl (\<lambda>a c. a * b + (case digit_val c of None \<Rightarrow> 0 | Some d \<Rightarrow> d)) 0 s"

lemma parse_base_Nil [simp]: "parse_base b [] = 0"
  by (simp add: parse_base_def)

lemma parse_base_snoc [simp]:
  "parse_base b (s @ [c]) = parse_base b s * b + (case digit_val c of None \<Rightarrow> 0 | Some d \<Rightarrow> d)"
  by (simp add: parse_base_def)

lemma parse_base_append:
  "parse_base b (s @ t) = parse_base b s * b ^ length t + parse_base b t"
proof (induction t rule: rev_induct)
  case Nil
  then show ?case by simp
next
  case (snoc c t)
  have "parse_base b (s @ t @ [c]) = parse_base b ((s @ t) @ [c])" by simp
  then show ?case by (simp only: parse_base_snoc snoc) (simp add: algebra_simps)
qed

lemma parse_to_base: "2 \<le> b \<Longrightarrow> b \<le> 16 \<Longrightarrow> parse_base b (to_base b n) = n"
proof (induction n rule: less_induct)
  case (less n)
  show ?case
  proof (cases "n < b")
    case True
    with less.prems have "n < 16" by simp
    with True show ?thesis
      by (subst to_base.simps) (simp add: parse_base_def)
  next
    case False
    with less have "parse_base b (to_base b (n div b)) = n div b" by simp
    moreover have "n mod b < 16" using less.prems mod_less_divisor [of b n] by linarith
    ultimately show ?thesis using False less.prems
      by (subst to_base.simps) (simp add: mult.commute)
  qed
qed

lemma to_base_digits: "2 \<le> b \<Longrightarrow> b \<le> 10 \<Longrightarrow> list_all is_digit (to_base b n)"
proof (induction n rule: less_induct)
  case (less n)
  have "n mod b < 10" using less.prems mod_less_divisor [of b n] by linarith
  then show ?case using less
    by (subst to_base.simps) (auto simp: not_less)
qed

lemma to_base_not_Nil [simp]: "to_base b n \<noteq> []"
  by (subst to_base.simps) simp

lemma to_base_zero: "to_base b 0 = ''0''"
  by (subst to_base.simps) (auto simp: digit_char_zero)

lemma hd_to_base: "2 \<le> b \<Longrightarrow> b \<le> 16 \<Longrightarrow> n \<noteq> 0 \<Longrightarrow> hd (to_base b n) \<noteq> CHR ''0''"
proof (induction n rule: less_induct)
  case (less n)
  note z = digit_char_zero [symmetric]
  show ?case
  proof (cases "n < b")
    case True
    then have "n < 16" using less.prems by simp
    with less.prems(3) show ?thesis using True
      by (subst to_base.simps) (auto simp: z dest: digit_char_inj [rotated 2])
  next
    case False
    then have "n div b \<noteq> 0" using less.prems by (simp add: div_eq_0_iff)
    with False less have "hd (to_base b (n div b)) \<noteq> CHR ''0''" by simp
    with False less.prems show ?thesis by (subst to_base.simps) simp
  qed
qed

text \<open>A string of digits without a leading zero is what printing its value gives.\<close>

definition canonical_decimal :: "string \<Rightarrow> bool" where
  "canonical_decimal s \<longleftrightarrow> s \<noteq> [] \<and> list_all is_digit s \<and> (hd s = CHR ''0'' \<longrightarrow> s = ''0'')"

lemma parse_base_pos:
  "s \<noteq> [] \<Longrightarrow> list_all is_digit s \<Longrightarrow> hd s \<noteq> CHR ''0'' \<Longrightarrow> parse_base 10 s \<noteq> 0"
proof (induction s rule: rev_induct)
  case Nil
  then show ?case by simp
next
  case (snoc c s)
  note z = digit_char_zero [symmetric]
  from snoc.prems(2) obtain d where d: "d < 10" "digit_val c = Some d" "c = digit_char d"
    using is_digit_val [of c] by auto
  show ?case
  proof (cases s)
    case Nil
    with snoc.prems(3) d have "d \<noteq> 0" by (cases d) (auto simp: z)
    with Nil d show ?thesis using parse_base_snoc [of 10 "[]" c] by simp
  next
    case (Cons a t)
    with snoc have "parse_base 10 s \<noteq> 0" by simp
    then show ?thesis by simp
  qed
qed

lemma canonical_to_base: "canonical_decimal (to_base 10 n)"
  unfolding canonical_decimal_def
  using to_base_digits [of 10 n] hd_to_base [of 10 n]
  by (cases "n = 0") (auto simp: to_base_zero)

lemma to_base_parse: "canonical_decimal s \<Longrightarrow> to_base 10 (parse_base 10 s) = s"
proof (induction s rule: rev_induct)
  case Nil
  then show ?case by (simp add: canonical_decimal_def)
next
  case (snoc c s)
  note z = digit_char_zero [symmetric]
  from snoc.prems obtain d where d: "d < 10" "digit_val c = Some d" "c = digit_char d"
    using is_digit_val [of c] by (auto simp: canonical_decimal_def)
  show ?case
  proof (cases "s = []")
    case True
    with d show ?thesis using parse_base_snoc [of 10 "[]" c]
      by (subst to_base.simps) simp
  next
    case False
    with snoc.prems have c: "canonical_decimal s" and h: "hd s \<noteq> CHR ''0''"
      by (auto simp: canonical_decimal_def)
    have p: "parse_base 10 s \<noteq> 0"
      using False c h by (intro parse_base_pos) (auto simp: canonical_decimal_def)
    have v: "parse_base 10 (s @ [c]) = parse_base 10 s * 10 + d" using d by simp
    show ?thesis using p d snoc.IH [OF c]
      by (subst to_base.simps) (simp add: v)
  qed
qed

text \<open>\<open>toString()\<close> of an integer.\<close>

definition int_to_string :: "int \<Rightarrow> string" where
  "int_to_string i = (if i < 0 then ''-'' @ to_base 10 (nat (- i)) else to_base 10 (nat i))"

lemma to_base_inj: "to_base 10 m = to_base 10 n \<Longrightarrow> m = n"
  using parse_to_base [of 10 m, simplified] parse_to_base [of 10 n, simplified] by metis

section \<open>Slices\<close>

text \<open>\<open>s.slice(-n)\<close> and \<open>s.slice(0, -n)\<close> for a positive \<open>n\<close>: both clamp at the start.\<close>

definition slice_last :: "nat \<Rightarrow> 'a list \<Rightarrow> 'a list" where
  "slice_last n s = drop (length s - n) s"

definition slice_butlast :: "nat \<Rightarrow> 'a list \<Rightarrow> 'a list" where
  "slice_butlast n s = take (length s - n) s"

text \<open>\<open>s.slice(from, to)\<close> for non-negative bounds.\<close>

definition slice :: "nat \<Rightarrow> nat \<Rightarrow> 'a list \<Rightarrow> 'a list" where
  "slice from to s = drop from (take to s)"

lemma slice_append_last [simp]: "slice_butlast n s @ slice_last n s = s"
  by (simp add: slice_last_def slice_butlast_def)

definition startsWith :: "string \<Rightarrow> string \<Rightarrow> bool" where
  "startsWith s p \<longleftrightarrow> take (length p) s = p"

definition endsWith :: "string \<Rightarrow> string \<Rightarrow> bool" where
  "endsWith s p \<longleftrightarrow> length p \<le> length s \<and> slice_last (length p) s = p"

lemma startsWith_append [simp]: "startsWith (p @ s) p"
  by (simp add: startsWith_def)

lemma endsWith_append [simp]: "endsWith (s @ p) p"
  by (simp add: endsWith_def slice_last_def)

end
