(* ===== verification/Iov_Encoding.thy ===== *)
theory Iov_Encoding
  imports Js_Runtime
begin

text \<open>
  \<open>packages/iov-encoding/src/encoding.ts\<close>: the hexadecimal and the printable
  ASCII encodings of byte arrays. The lemmas show that both are codecs, which
  strings \<open>fromHex\<close> accepts and that it ignores the case of the digits.
\<close>

section \<open>Hexadecimal\<close>

definition toHexByte :: "byte \<Rightarrow> string" where
  "toHexByte b = slice_last 2 (''0'' @ to_base 16 (unat b))"

definition toHex :: "byte list \<Rightarrow> string" where
  "toHex data = concat (map toHexByte data)"

text \<open>The class \<open>[0-9a-f]\<close> of the expression \<open>/[0-9a-f]{2}/i\<close>.\<close>

definition is_hex_digit :: "char \<Rightarrow> bool" where
  "is_hex_digit c = (digit_val c \<noteq> None)"

fun fromHexLoop :: "string \<Rightarrow> byte list result" where
  "fromHexLoop [] = ok []"
| "fromHexLoop [c] = throw ''hex string contains invalid characters''"
| "fromHexLoop (c # d # rest) =
     (if is_hex_digit c \<and> is_hex_digit d
      then andThen (fromHexLoop rest) (\<lambda>bs. ok (toUint8 (int (parse_base 16 [c, d])) # bs))
      else throw ''hex string contains invalid characters'')"

definition fromHex :: "string \<Rightarrow> byte list result" where
  "fromHex hexstring =
     (if length hexstring mod 2 \<noteq> 0 then throw ''hex string length must be a multiple of 2''
      else fromHexLoop hexstring)"

lemma toHexByte_digits:
  "toHexByte b = [digit_char (unat b div 16), digit_char (unat b mod 16)]"
proof (cases "unat b < 16")
  case True
  then show ?thesis
    by (simp add: toHexByte_def to_base.simps [of 16 "unat b"] slice_last_def digit_char_zero)
next
  case False
  then have "unat b div 16 < 16" using unat_byte_less [of b] by simp
  with False show ?thesis
    by (simp add: toHexByte_def to_base.simps [of 16 "unat b"] to_base.simps [of 16 "unat b div 16"]
        slice_last_def)
qed

lemma length_toHexByte [simp]: "length (toHexByte b) = 2"
  by (simp add: toHexByte_digits)

lemma length_toHex [simp]: "length (toHex data) = 2 * length data"
  by (induction data) (auto simp: toHex_def)

lemma toHex_Nil [simp]: "toHex [] = []"
  by (simp add: toHex_def)

lemma toHex_Cons [simp]: "toHex (b # data) = toHexByte b @ toHex data"
  by (simp add: toHex_def)

lemma byte_nibbles: "unat (b :: byte) div 16 < 16" "unat (b :: byte) mod 16 < 16"
  using unat_byte_less [of b] by auto

lemma is_hex_digit_digit_char [simp]: "n < 16 \<Longrightarrow> is_hex_digit (digit_char n)"
  by (simp add: is_hex_digit_def)

lemma parse_base_pair:
  "parse_base 16 [c, d] =
     (case digit_val c of None \<Rightarrow> 0 | Some i \<Rightarrow> i) * 16 + (case digit_val d of None \<Rightarrow> 0 | Some i \<Rightarrow> i)"
  by (simp add: parse_base_def)

lemma fromHexLoop_toHexByte:
  "fromHexLoop (toHexByte b @ s) = andThen (fromHexLoop s) (\<lambda>bs. ok (b # bs))"
proof -
  have "parse_base 16 [digit_char (unat b div 16), digit_char (unat b mod 16)] = unat b"
    using byte_nibbles [of b] by (simp add: parse_base_pair)
  then show ?thesis using byte_nibbles [of b] by (simp add: toHexByte_digits)
qed

lemma fromHexLoop_toHex: "fromHexLoop (toHex data) = ok data"
  by (induction data) (simp_all add: fromHexLoop_toHexByte)

lemma fromHex_of_toHex: "fromHex (toHex bs) = ok bs"
  by (simp add: fromHex_def fromHexLoop_toHex)

interpretation hex: codec "\<lambda>data. ok (toHex data)" fromHex "\<lambda>_. True"
  by unfold_locales (simp add: fromHex_def fromHexLoop_toHex)

lemma fromHexLoop_accepts:
  "even (length s) \<Longrightarrow> is_ok (fromHexLoop s) \<longleftrightarrow> list_all is_hex_digit s"
proof (induction s rule: fromHexLoop.induct)
  case (3 c d rest)
  then show ?case
    by (cases "fromHexLoop rest") auto
qed auto

text \<open>Lower case of an ASCII letter, as \<open>String.prototype.toLowerCase\<close> has it.\<close>

definition lower_char :: "char \<Rightarrow> char" where
  "lower_char c = (let n = of_char c :: nat in if 65 \<le> n \<and> n \<le> 90 then char_of (n + 32) else c)"

lemma digit_char_digit_val: "digit_val c = Some d \<Longrightarrow> d < 16 \<and> digit_char d = lower_char c"
proof -
  assume a: "digit_val c = Some d"
  define n where "n = (of_char c :: nat)"
  have c: "c = char_of n" by (simp add: n_def)
  from a consider (dec) "48 \<le> n" "n \<le> 57" "d = n - 48"
    | (low) "97 \<le> n" "n \<le> 102" "d = n - 87" | (up) "65 \<le> n" "n \<le> 70" "d = n - 55"
    by (auto simp: digit_val_def n_def [symmetric] Let_def split: if_splits)
  then show ?thesis
  proof cases
    case dec
    then have "48 + (n - 48) = n" by simp
    with dec show ?thesis
      by (simp add: digit_char_def lower_char_def n_def [symmetric] c Let_def)
  next
    case low
    then have "87 + (n - 87) = n" "\<not> n - 87 < 10" "n - 87 < 16" "\<not> n \<le> 90" by simp_all
    with low show ?thesis
      by (simp add: digit_char_def lower_char_def n_def [symmetric] c Let_def)
  next
    case up
    then have "87 + (n - 55) = n + 32" "\<not> n - 55 < 10" "n - 55 < 16" "65 \<le> n" "n \<le> 90"
      by simp_all
    with up show ?thesis
      by (simp add: digit_char_def lower_char_def n_def [symmetric] Let_def)
  qed
qed

lemma toHexByte_parse:
  assumes "is_hex_digit c" "is_hex_digit d"
  shows "toHexByte (toUint8 (int (parse_base 16 [c, d]))) = [lower_char c, lower_char d]"
proof -
  from assms obtain i j where i: "digit_val c = Some i" and j: "digit_val d = Some j"
    by (auto simp: is_hex_digit_def)
  note ij = digit_char_digit_val [OF i] digit_char_digit_val [OF j]
  have p: "parse_base 16 [c, d] = i * 16 + j" by (simp add: parse_base_pair i j)
  have "unat (toUint8 (int (i * 16 + j))) = i * 16 + j"
    using ij by (intro unat_toUint8) linarith
  then show ?thesis using ij unfolding p by (simp add: toHexByte_digits)
qed

lemma toHex_fromHexLoop: "fromHexLoop s = ok bs \<Longrightarrow> toHex bs = map lower_char s"
proof (induction s arbitrary: bs rule: fromHexLoop.induct)
  case (3 c d rest)
  then show ?case
    by (auto simp: andThen_eq_Inr toHexByte_parse split: if_splits)
qed auto

section \<open>Printable ASCII\<close>

definition toAscii :: "string \<Rightarrow> byte list result" where
  "toAscii input = mapM (\<lambda>x. let charCode = of_char x :: nat in
     if charCode < 0x20 \<or> charCode > 0x7e
     then throw ''Cannot encode character that is out of printable ASCII range''
     else ok (toUint8 (int charCode))) input"

definition fromAscii :: "byte list \<Rightarrow> string result" where
  "fromAscii data = mapM (\<lambda>x.
     if unat x < 0x20 \<or> unat x > 0x7e
     then throw ''Cannot decode character that is out of printable ASCII range''
     else ok (char_of (unat x))) data"

definition printable :: "char \<Rightarrow> bool" where
  "printable c = (0x20 \<le> (of_char c :: nat) \<and> (of_char c :: nat) \<le> 0x7e)"

definition ascii_byte :: "char \<Rightarrow> byte" where
  "ascii_byte c = toUint8 (int (of_char c))"

lemma unat_ascii_byte [simp]: "unat (ascii_byte c) = of_char c"
  by (simp add: ascii_byte_def unat_toUint8)

lemma toAscii_ok: "list_all printable s \<Longrightarrow> toAscii s = ok (map ascii_byte s)"
  unfolding toAscii_def
  by (rule mapM_ok) (auto simp: printable_def list_all_iff ascii_byte_def Let_def)

lemma toAscii_iff: "toAscii s = ok bs \<longleftrightarrow> list_all printable s \<and> bs = map ascii_byte s"
proof (induction s arbitrary: bs)
  case Nil
  then show ?case by (auto simp: toAscii_def)
next
  case (Cons c s)
  have "toAscii (c # s) = (if printable c
      then andThen (toAscii s) (\<lambda>bs. ok (ascii_byte c # bs))
      else throw ''Cannot encode character that is out of printable ASCII range'')"
    by (simp add: toAscii_def printable_def ascii_byte_def Let_def)
  with Cons show ?case by (auto simp: andThen_eq_Inr)
qed

interpretation ascii: codec toAscii fromAscii "list_all printable"
proof unfold_locales
  fix s assume s: "list_all printable s"
  have "fromAscii (map ascii_byte s) = ok (map (char_of \<circ> unat) (map ascii_byte s))"
    unfolding fromAscii_def
    by (rule mapM_ok) (use s in \<open>auto simp: printable_def list_all_iff\<close>)
  then have "fromAscii (map ascii_byte s) = ok s" by (simp add: comp_def)
  with toAscii_ok [OF s] show "\<exists>w. toAscii s = ok w \<and> fromAscii w = ok s" by auto
qed

section \<open>UTF-8\<close>

text \<open>\<open>toUtf8\<close> of code units up to 255: one byte below 128, two bytes from there.\<close>

definition utf8_char :: "char \<Rightarrow> byte list" where
  "utf8_char c = (let n = of_char c :: nat in
     if n < 128 then [toUint8 (int n)] else [toUint8 (int (192 + n div 64)), toUint8 (int (128 + n mod 64))])"

definition toUtf8 :: "string \<Rightarrow> byte list" where
  "toUtf8 str = concat (map utf8_char str)"

text \<open>A decoder of what \<open>toUtf8\<close> writes, so no two strings have the same bytes.\<close>

fun demo_utf8_decode :: "byte list \<Rightarrow> string result" where
  "demo_utf8_decode [] = ok []"
| "demo_utf8_decode (b # bs) =
     (if uint b < 128 then andThen (demo_utf8_decode bs) (\<lambda>s. ok (char_of (nat (uint b)) # s))
      else case bs of [] \<Rightarrow> throw ''TypeError''
        | c # cs \<Rightarrow> andThen (demo_utf8_decode cs) (\<lambda>s. ok (char_of (nat ((uint b - 192) * 64 + (uint c - 128))) # s)))"

lemma demo_utf8: "demo_utf8_decode (toUtf8 s) = ok s"
proof (induction s)
  case (Cons c s)
  define n where "n = (of_char c :: nat)"
  have n: "n < 256" "char_of n = c" by (simp_all add: n_def)
  then have first: "(192 + int (n div 64)) mod 256 = 192 + int (n div 64)" by (intro mod_pos_pos_trivial) auto
  have "int (n div 64) * 64 + int (n mod 64) = int n" using div_mult_mod_eq [of "int n" 64] by (simp add: zdiv_int zmod_int)
  then have "nat ((192 + int (n div 64)) * 64 - 12288 + int (n mod 64)) = n" by (simp add: algebra_simps)
  with Cons n first show ?case by (simp add: toUtf8_def utf8_char_def Let_def flip: n_def)
qed (simp add: toUtf8_def)

lemma toUtf8_inj: "toUtf8 s = toUtf8 t \<Longrightarrow> s = t"
  by (metis demo_utf8 sum.inject(2))

section \<open>Upper and lower case\<close>

text \<open>\<open>String.prototype.toUpperCase\<close> on ASCII letters.\<close>

definition upper_char :: "char \<Rightarrow> char" where
  "upper_char c = (let n = of_char c :: nat in if 97 \<le> n \<and> n \<le> 122 then char_of (n - 32) else c)"

section \<open>Properties\<close>

lemma is_hex_digit_lower [simp]: "is_hex_digit (lower_char c) = is_hex_digit c"
proof -
  define n where "n = (of_char c :: nat)"
  have "n < 256" by (simp add: n_def)
  then show ?thesis
    by (auto simp: is_hex_digit_def digit_val_def lower_char_def n_def [symmetric] Let_def)
qed

lemma toHex_hex_digits: "list_all is_hex_digit (toHex bs)"
  using byte_nibbles by (induction bs) (auto simp: toHexByte_digits)

lemma toHex_inj: "toHex bs = toHex cs \<Longrightarrow> bs = cs"
  using hex.enc_injective [of bs cs] by simp

text \<open>
  \<open>fromHex\<close> is exactly the inverse of \<open>toHex\<close> up to the case of the digits:
  it returns the bytes \<open>bs\<close> for a string if and only if the string in lower
  case is what \<open>toHex\<close> prints for \<open>bs\<close>; it throws on every other string.
\<close>

lemma fromHex_iff_toHex: "fromHex s = ok bs \<longleftrightarrow> map lower_char s = toHex bs"
proof
  assume "fromHex s = ok bs"
  then show "map lower_char s = toHex bs"
    using toHex_fromHexLoop [of s bs] by (simp add: fromHex_def split: if_splits)
next
  assume a: "map lower_char s = toHex bs"
  then have "length s = 2 * length bs" by (metis length_map length_toHex)
  moreover have "list_all is_hex_digit s"
    using toHex_hex_digits [of bs] unfolding a [symmetric] by (simp add: list_all_iff)
  ultimately obtain cs where c: "fromHexLoop s = ok cs" "even (length s)"
    using fromHexLoop_accepts [of s] by (auto simp: is_ok_iff)
  then have "toHex cs = toHex bs" using toHex_fromHexLoop a by metis
  with c show "fromHex s = ok bs" using toHex_inj by (auto simp: fromHex_def)
qed

lemma char_of_unat_byte: "char_of (unat (b :: byte)) = c \<longleftrightarrow> b = ascii_byte c"
  by (auto simp: ascii_byte_def unat_byte_less unat_toUint8)

lemma fromAscii_iff: "fromAscii bs = ok s \<longleftrightarrow> list_all printable s \<and> bs = map ascii_byte s"
proof (induction bs arbitrary: s)
  case Nil
  then show ?case by (auto simp: fromAscii_def)
next
  case (Cons b bs)
  have step: "fromAscii (b # bs) = (if printable (char_of (unat b))
      then andThen (fromAscii bs) (\<lambda>s. ok (char_of (unat b) # s))
      else throw ''Cannot decode character that is out of printable ASCII range'')"
    using unat_byte_less [of b] by (simp add: fromAscii_def printable_def)
  show ?case
    unfolding step using Cons by (cases s) (auto simp: andThen_eq_Inr char_of_unat_byte)
qed

text \<open>
  \<open>toAscii\<close> and \<open>fromAscii\<close> are inverse partial functions: a string is
  encoded to some bytes exactly if these bytes are decoded to the string.
\<close>

lemma toAscii_iff_fromAscii: "toAscii s = ok bs \<longleftrightarrow> fromAscii bs = ok s"
  by (simp add: toAscii_iff fromAscii_iff)

section \<open>Upper case hexadecimal digits\<close>

definition no_lower_case :: "char \<Rightarrow> bool" where
  "no_lower_case c \<longleftrightarrow> \<not> (97 \<le> (of_char c :: nat) \<and> (of_char c :: nat) \<le> 122)"

lemma upper_lower: "no_lower_case c \<Longrightarrow> upper_char (lower_char c) = c"
proof -
  define n where "n = (of_char c :: nat)"
  have c: "c = char_of n" "n < 256" by (simp_all add: n_def)
  assume "no_lower_case c"
  with c show "upper_char (lower_char c) = c"
    by (auto simp: lower_char_def upper_char_def no_lower_case_def Let_def)
qed

lemma lower_upper:
  assumes "lower_char c = c"
  shows "lower_char (upper_char c) = c" "no_lower_case (upper_char c)"
proof -
  define n where "n = (of_char c :: nat)"
  have c: "c = char_of n" "n < 256" by (simp_all add: n_def)
  have "\<not> (65 \<le> n \<and> n \<le> 90)"
  proof
    assume u: "65 \<le> n \<and> n \<le> 90"
    then have "lower_char c = char_of (n + 32)" by (simp add: lower_char_def n_def)
    then have "(of_char c :: nat) = n + 32" using assms u by simp
    then show False by (simp add: n_def)
  qed
  with c show "lower_char (upper_char c) = c"
    "no_lower_case (upper_char c)"
    by (auto simp: lower_char_def upper_char_def no_lower_case_def Let_def)
qed

lemma toHex_lower: "map lower_char (toHex bs) = toHex bs"
  using toHex_fromHexLoop [OF fromHexLoop_toHex, of bs] by simp

lemma upper_hex_iff:
  "s = map upper_char (toHex bs) \<longleftrightarrow> list_all no_lower_case s \<and> fromHex s = ok bs"
proof
  have lower: "lower_char c = c" if "c \<in> set (toHex bs)" for c
    using toHex_lower [of bs] that map_eq_conv [of lower_char "toHex bs" "\<lambda>c. c"] by simp
  assume s: "s = map upper_char (toHex bs)"
  then have l: "map lower_char s = toHex bs"
    using lower lower_upper(1) by (simp add: map_idI)
  have "list_all is_hex_digit s"
    using toHex_hex_digits [of bs] unfolding l [symmetric] by (simp add: list_all_iff)
  moreover have "even (length s)" by (simp add: s)
  ultimately obtain cs where cs: "fromHexLoop s = ok cs"
    using fromHexLoop_accepts [of s] by (auto simp: is_ok_iff)
  then have "cs = bs" using toHex_fromHexLoop [OF cs] toHex_inj [of cs bs] l by simp
  with cs \<open>even (length s)\<close> show "list_all no_lower_case s \<and> fromHex s = ok bs"
    using lower lower_upper(2) by (auto simp: s fromHex_def list_all_iff)
next
  assume a: "list_all no_lower_case s \<and> fromHex s = ok bs"
  then have "toHex bs = map lower_char s"
    using toHex_fromHexLoop by (auto simp: fromHex_def split: if_splits)
  with a show "s = map upper_char (toHex bs)" by (simp add: list_all_iff upper_lower map_idI)
qed

end
