(* ===== verification/Iov_Integers.thy ===== *)
theory Iov_Integers
  imports Iov_Encoding
begin

text \<open>
  \<open>packages/iov-encoding/src/integers.ts\<close>: the range-checked integer classes
  \<open>Uint32\<close>, \<open>Int53\<close>, \<open>Uint53\<close> and \<open>Uint64\<close>. An instance is a value of a datatype
  with the class's \<open>data\<close> field; the \<open>new\<close> functions are the constructors with
  their checks. \<open>Uint64\<close> is built on the package bn.js, whose operations are the
  parameter \<open>bn_lib\<close>.
\<close>

section \<open>The package bn.js\<close>

text \<open>
  The operations of bn.js the sources call. A big number is represented by the
  integer it denotes; \<open>None\<close> is an assertion of the package that fails.
  \<open>bn_laws\<close> is the documented behaviour: the constructors read the value they
  are given, the operations are those of the integers, \<open>toNumber\<close> is exact on 53
  bits, \<open>toArray\<close> is the base 256 representation padded to a length.
\<close>

record bn_lib =
  bn_fromString :: "string \<Rightarrow> int"
  bn_fromNumber :: "number \<Rightarrow> int option"
  bn_fromBytes :: "byte list \<Rightarrow> int"
  bn_toString :: "int \<Rightarrow> string"
  bn_toNumber :: "int \<Rightarrow> number option"
  bn_toArrayBE :: "int \<Rightarrow> nat \<Rightarrow> byte list option"
  bn_toArrayLE :: "int \<Rightarrow> nat \<Rightarrow> byte list option"
  bn_add :: "int \<Rightarrow> int \<Rightarrow> int"
  bn_mul :: "int \<Rightarrow> int \<Rightarrow> int"
  bn_div :: "int \<Rightarrow> int \<Rightarrow> int"
  bn_mod :: "int \<Rightarrow> int \<Rightarrow> int"
  bn_pow :: "int \<Rightarrow> int \<Rightarrow> int"
  bn_gt :: "int \<Rightarrow> int \<Rightarrow> bool"
  bn_gte :: "int \<Rightarrow> int \<Rightarrow> bool"
  bn_isNeg :: "int \<Rightarrow> bool"
  bn_isZero :: "int \<Rightarrow> bool"

text \<open>Big-endian base 256.\<close>

definition be_value :: "byte list \<Rightarrow> int" where
  "be_value bs = foldl (\<lambda>a b. a * 256 + uint b) 0 bs"

primrec be_bytes :: "nat \<Rightarrow> int \<Rightarrow> byte list" where
  "be_bytes 0 v = []"
| "be_bytes (Suc n) v = be_bytes n (v div 256) @ [toUint8 v]"

lemma length_be_bytes [simp]: "length (be_bytes n v) = n"
  by (induction n arbitrary: v) auto

lemma be_value_Nil [simp]: "be_value [] = 0"
  by (simp add: be_value_def)

lemma be_value_snoc [simp]: "be_value (bs @ [b]) = be_value bs * 256 + uint b"
  by (simp add: be_value_def)

lemma be_value_bytes: "0 \<le> v \<Longrightarrow> v < 256 ^ n \<Longrightarrow> be_value (be_bytes n v) = v"
proof (induction n arbitrary: v)
  case 0
  then show ?case by simp
next
  case (Suc n)
  then have "v div 256 < 256 ^ n" by (simp add: div_less_iff_less_mult mult.commute)
  with Suc show ?case by (simp add: pos_imp_zdiv_nonneg_iff)
qed

lemma be_bytes_value: "be_bytes (length bs) (be_value bs) = bs"
proof (induction bs rule: rev_induct)
  case Nil
  then show ?case by simp
next
  case (snoc b bs)
  have "(be_value bs * 256 + uint b) div 256 = be_value bs"
    using byte_bounds [of b] by simp
  moreover have "toUint8 (be_value bs * 256 + uint b) = b"
    using byte_bounds [of b] by (intro word_uint_eqI) simp
  ultimately show ?case using snoc by simp
qed

lemma be_value_bounds: "0 \<le> be_value bs \<and> be_value bs < 256 ^ length bs"
proof (induction bs rule: rev_induct)
  case Nil
  then show ?case by simp
next
  case (snoc b bs)
  then show ?case using byte_bounds [of b] by simp
qed

definition safe_int :: "int \<Rightarrow> bool" where
  "safe_int i \<longleftrightarrow> -9007199254740991 \<le> i \<and> i \<le> 9007199254740991"

definition bn_laws :: "'a bn_lib_scheme \<Rightarrow> bool" where
  "bn_laws B \<longleftrightarrow>
     (\<forall>s. s \<noteq> [] \<and> list_all is_digit s \<longrightarrow> bn_fromString B s = int (parse_base 10 s)) \<and>
     (\<forall>i. safe_int i \<longrightarrow> bn_fromNumber B (int_num i) = Some i) \<and>
     (\<forall>bs. bn_fromBytes B bs = be_value bs) \<and>
     (\<forall>i. bn_toString B i = int_to_string i) \<and>
     (\<forall>i. safe_int i \<longrightarrow> bn_toNumber B i = Some (int_num i)) \<and>
     (\<forall>i n. 0 \<le> i \<and> i < 256 ^ n \<longrightarrow>
        bn_toArrayBE B i n = Some (be_bytes n i) \<and> bn_toArrayLE B i n = Some (rev (be_bytes n i))) \<and>
     (\<forall>i j. bn_add B i j = i + j) \<and> (\<forall>i j. bn_mul B i j = i * j) \<and>
     (\<forall>i j. 0 \<le> i \<and> 0 < j \<longrightarrow> bn_div B i j = i div j \<and> bn_mod B i j = i mod j) \<and>
     (\<forall>i j. 0 \<le> j \<longrightarrow> bn_pow B i j = i ^ nat j) \<and>
     (\<forall>i j. bn_gt B i j \<longleftrightarrow> j < i) \<and> (\<forall>i j. bn_gte B i j \<longleftrightarrow> j \<le> i) \<and>
     (\<forall>i. bn_isNeg B i \<longleftrightarrow> i < 0) \<and> (\<forall>i. bn_isZero B i \<longleftrightarrow> i = 0)"

text \<open>The laws one by one.\<close>

lemma bn_lawsD:
  assumes "bn_laws B"
  shows bn_fromString: "s \<noteq> [] \<Longrightarrow> list_all is_digit s \<Longrightarrow> bn_fromString B s = int (parse_base 10 s)"
    and bn_fromNumber: "safe_int i \<Longrightarrow> bn_fromNumber B (int_num i) = Some i"
    and bn_fromBytes: "bn_fromBytes B bs = be_value bs"
    and bn_toString: "bn_toString B i = int_to_string i"
    and bn_toNumber: "safe_int i \<Longrightarrow> bn_toNumber B i = Some (int_num i)"
    and bn_toArrayBE: "0 \<le> i \<Longrightarrow> i < 256 ^ n \<Longrightarrow> bn_toArrayBE B i n = Some (be_bytes n i)"
    and bn_toArrayLE: "0 \<le> i \<Longrightarrow> i < 256 ^ n \<Longrightarrow> bn_toArrayLE B i n = Some (rev (be_bytes n i))"
    and bn_add: "bn_add B i j = i + j"
    and bn_mul: "bn_mul B i j = i * j"
    and bn_div: "0 \<le> i \<Longrightarrow> 0 < j \<Longrightarrow> bn_div B i j = i div j"
    and bn_mod: "0 \<le> i \<Longrightarrow> 0 < j \<Longrightarrow> bn_mod B i j = i mod j"
    and bn_pow: "0 \<le> j \<Longrightarrow> bn_pow B i j = i ^ nat j"
    and bn_gt: "bn_gt B i j \<longleftrightarrow> j < i"
    and bn_gte: "bn_gte B i j \<longleftrightarrow> j \<le> i"
    and bn_isNeg: "bn_isNeg B i \<longleftrightarrow> i < 0"
    and bn_isZero: "bn_isZero B i \<longleftrightarrow> i = 0"
  using assms unfolding bn_laws_def by simp_all

text \<open>Integers with the library's interface: the laws can hold.\<close>

definition bn_int :: bn_lib where
  "bn_int = \<lparr>
     bn_fromString = (\<lambda>s. int (parse_base 10 s)),
     bn_fromNumber = (\<lambda>x. if isInteger x \<and> safe_int (floor_num x) then Some (floor_num x) else None),
     bn_fromBytes = be_value,
     bn_toString = int_to_string,
     bn_toNumber = (\<lambda>i. if safe_int i then Some (int_num i) else None),
     bn_toArrayBE = (\<lambda>i n. if 0 \<le> i \<and> i < 256 ^ n then Some (be_bytes n i) else None),
     bn_toArrayLE = (\<lambda>i n. if 0 \<le> i \<and> i < 256 ^ n then Some (rev (be_bytes n i)) else None),
     bn_add = (+), bn_mul = (*), bn_div = (div), bn_mod = (mod),
     bn_pow = (\<lambda>i j. i ^ nat j), bn_gt = (>), bn_gte = (\<ge>),
     bn_isNeg = (\<lambda>i. i < 0), bn_isZero = (\<lambda>i. i = 0)\<rparr>"

lemma bn_laws_extend: "bn_laws (bn_lib.extend bn_int m)"
  unfolding bn_laws_def by (simp add: bn_int_def bn_lib.defs)

lemma bn_laws_int: "bn_laws bn_int"
  unfolding bn_laws_def by (simp add: bn_int_def)

section \<open>Uint32\<close>

datatype Uint32 = Uint32 (u32_data: int)

definition new_Uint32 :: "number \<Rightarrow> Uint32 result" where
  "new_Uint32 input =
     (if isNaN input then throw ''Input is not a number''
      else if \<not> isInteger input then throw ''Input is not an integer''
      else if num_less input (int_num 0) \<or> num_less (int_num 4294967295) input
      then throw ''Input not in uint32 range''
      else ok (Uint32 (floor_num input)))"

text \<open>The loop over \<open>bytes\<close> in \<open>fromBigEndianBytes\<close> of both classes.\<close>

definition is_byte_number :: "number \<Rightarrow> bool" where
  "is_byte_number x \<longleftrightarrow> \<not> (\<not> isInteger x \<or> num_less (int_num 255) x \<or> num_less x (int_num 0))"

fun check_bytes :: "number list \<Rightarrow> unit result" where
  "check_bytes [] = ok ()"
| "check_bytes (x # xs) =
     (if \<not> is_byte_number x then throw ''Invalid value in byte'' else check_bytes xs)"

definition Uint32_fromBigEndianBytes :: "number list \<Rightarrow> Uint32 result" where
  "Uint32_fromBigEndianBytes bytes =
     (if length bytes \<noteq> 4 then throw ''Invalid input length. Expected 4 bytes.''
      else andThen (check_bytes bytes) (\<lambda>_.
        new_Uint32 (int_num (floor_num (bytes ! 0) * 2 ^ 24 + floor_num (bytes ! 1) * 2 ^ 16
          + floor_num (bytes ! 2) * 2 ^ 8 + floor_num (bytes ! 3)))))"

definition Uint32_toBytesBigEndian :: "Uint32 \<Rightarrow> byte list" where
  "Uint32_toBytesBigEndian u =
     [toUint8 (js_and (u32_data u div 2 ^ 24) 0xff),
      toUint8 (js_and (u32_data u div 2 ^ 16) 0xff),
      toUint8 (js_and (u32_data u div 2 ^ 8) 0xff),
      toUint8 (js_and (u32_data u div 2 ^ 0) 0xff)]"

definition Uint32_toBytesLittleEndian :: "Uint32 \<Rightarrow> byte list" where
  "Uint32_toBytesLittleEndian u =
     [toUint8 (js_and (u32_data u div 2 ^ 0) 0xff),
      toUint8 (js_and (u32_data u div 2 ^ 8) 0xff),
      toUint8 (js_and (u32_data u div 2 ^ 16) 0xff),
      toUint8 (js_and (u32_data u div 2 ^ 24) 0xff)]"

definition Uint32_toNumber :: "Uint32 \<Rightarrow> number" where
  "Uint32_toNumber u = int_num (u32_data u)"

definition Uint32_toString :: "Uint32 \<Rightarrow> string" where
  "Uint32_toString u = int_to_string (u32_data u)"

definition valid_Uint32 :: "Uint32 \<Rightarrow> bool" where
  "valid_Uint32 u \<longleftrightarrow> 0 \<le> u32_data u \<and> u32_data u < 2 ^ 32"

lemma new_Uint32_iff:
  "new_Uint32 x = ok u \<longleftrightarrow> x = int_num (u32_data u) \<and> valid_Uint32 u"
proof (cases "isInteger x")
  case True
  then obtain i where "x = int_num i" by (auto simp: isInteger_iff)
  then show ?thesis
    by (cases u) (auto simp: new_Uint32_def isNaN_def valid_Uint32_def)
next
  case False
  then show ?thesis by (auto simp: new_Uint32_def isInteger_iff)
qed

lemma new_Uint32_int [simp]:
  "0 \<le> i \<Longrightarrow> i < 2 ^ 32 \<Longrightarrow> new_Uint32 (int_num i) = ok (Uint32 i)"
  by (simp add: new_Uint32_iff valid_Uint32_def)

text \<open>A \<open>Uint8Array\<close> passed where an \<open>ArrayLike<number>\<close> is expected.\<close>

definition byte_numbers :: "byte list \<Rightarrow> number list" where
  "byte_numbers bs = map (\<lambda>b. int_num (uint b)) bs"

lemma is_byte_number_iff: "is_byte_number x \<longleftrightarrow> (\<exists>b. x = int_num (uint (b :: byte)))"
proof
  assume "is_byte_number x"
  then obtain i where i: "x = int_num i" "0 \<le> i" "i \<le> 255"
    by (auto simp: is_byte_number_def isInteger_iff)
  then have "uint (toUint8 i) = i" by simp
  with i show "\<exists>b. x = int_num (uint (b :: byte))" by metis
next
  assume "\<exists>b. x = int_num (uint (b :: byte))"
  then obtain b :: byte where "x = int_num (uint b)" by blast
  then show "is_byte_number x" using byte_bounds [of b] by (simp add: is_byte_number_def)
qed

lemma check_bytes_iff: "check_bytes xs = ok () \<longleftrightarrow> (\<exists>bs. xs = byte_numbers bs)"
proof (induction xs)
  case Nil
  then show ?case by (simp add: byte_numbers_def)
next
  case (Cons x xs)
  then show ?case
    by (auto simp: is_byte_number_iff byte_numbers_def Cons_eq_map_conv)
qed

lemma check_bytes_byte_numbers [simp]: "check_bytes (byte_numbers bs) = ok ()"
  unfolding check_bytes_iff by blast

lemma length_byte_numbers [simp]: "length (byte_numbers bs) = length bs"
  by (simp add: byte_numbers_def)

lemma nth_byte_numbers [simp]:
  "i < length bs \<Longrightarrow> byte_numbers bs ! i = int_num (uint (bs ! i))"
  by (simp add: byte_numbers_def)

lemma list_of_length_4: "length xs = 4 \<longleftrightarrow> (\<exists>a b c d. xs = [a, b, c, d])"
  by (auto simp: numeral_eq_Suc length_Suc_conv)

lemma Uint32_fromBigEndianBytes_value:
  assumes "length bs = 4"
  shows "Uint32_fromBigEndianBytes (byte_numbers bs) = ok (Uint32 (be_value bs))"
proof -
  from assms obtain a b c d where bs: "bs = [a, b, c, d]" by (auto simp: list_of_length_4)
  have v: "be_value bs = uint a * 2 ^ 24 + uint b * 2 ^ 16 + uint c * 2 ^ 8 + uint d"
    by (simp add: be_value_def bs)
  have "0 \<le> be_value bs \<and> be_value bs < 2 ^ 32" using be_value_bounds [of bs] assms by simp
  then have "new_Uint32 (int_num (be_value bs)) = ok (Uint32 (be_value bs))" by simp
  moreover have "byte_numbers bs ! 0 = int_num (uint a)" "byte_numbers bs ! 1 = int_num (uint b)"
    "byte_numbers bs ! 2 = int_num (uint c)" "byte_numbers bs ! 3 = int_num (uint d)"
    by (simp_all add: byte_numbers_def bs)
  ultimately show ?thesis
    using assms unfolding Uint32_fromBigEndianBytes_def v by simp
qed

lemma Uint32_bytes: "Uint32_toBytesBigEndian u = be_bytes 4 (u32_data u)"
proof -
  have "toUint8 (i mod 256) = toUint8 i" for i
    by (intro word_uint_eqI) simp
  then show ?thesis
    by (simp add: Uint32_toBytesBigEndian_def js_and_0xff numeral_eq_Suc zdiv_zmult2_eq [symmetric])
qed

lemma Uint32_bytes_rev: "Uint32_toBytesLittleEndian u = rev (Uint32_toBytesBigEndian u)"
  by (simp add: Uint32_toBytesLittleEndian_def Uint32_toBytesBigEndian_def)

interpretation uint32_bytes: codec "\<lambda>u. ok (byte_numbers (Uint32_toBytesBigEndian u))"
  Uint32_fromBigEndianBytes valid_Uint32
proof unfold_locales
  fix u assume "valid_Uint32 u"
  then have "be_value (be_bytes 4 (u32_data u)) = u32_data u"
    by (intro be_value_bytes) (auto simp: valid_Uint32_def)
  then show "\<exists>w. ok (byte_numbers (Uint32_toBytesBigEndian u)) = ok w \<and> Uint32_fromBigEndianBytes w = ok u"
    by (simp add: Uint32_bytes Uint32_fromBigEndianBytes_value)
qed

section \<open>Int53 and Uint53\<close>

datatype Int53 = Int53 (i53_data: int)

definition new_Int53 :: "number \<Rightarrow> Int53 result" where
  "new_Int53 input =
     (if isNaN input then throw ''Input is not a number''
      else if \<not> isInteger input then throw ''Input is not an integer''
      else if num_less input (int_num (-9007199254740991)) \<or> num_less (int_num 9007199254740991) input
      then throw ''Input not in int53 range''
      else ok (Int53 (floor_num input)))"

text \<open>The expressions \<open>/^-?[0-9]+$/\<close> and \<open>/^[0-9]+$/\<close>.\<close>

definition matches_digits :: "string \<Rightarrow> bool" where
  "matches_digits s \<longleftrightarrow> s \<noteq> [] \<and> list_all is_digit s"

definition matches_integer :: "string \<Rightarrow> bool" where
  "matches_integer s = (case s of [] \<Rightarrow> False
     | c # rest \<Rightarrow> if c = CHR ''-'' then matches_digits rest else matches_digits s)"

text \<open>
  \<open>Number.parseInt(str, 10)\<close> of such a string. Values of at least \<open>2\<^sup>1\<^sup>0\<^sup>2\<^sup>4 - 2\<^sup>9\<^sup>7\<^sup>0\<close>
  round to infinity. Below that, integers over 53 bits round to a double over
  53 bits; the model keeps the unrounded integer, which falls on the same side
  of the range check, the only use of the result.
\<close>

definition number_of_nat :: "nat \<Rightarrow> number" where
  "number_of_nat n = (if 2 ^ 1024 - 2 ^ 970 \<le> n then PosInfinity else int_num (int n))"

definition parseInt10 :: "string \<Rightarrow> number" where
  "parseInt10 s = (case s of [] \<Rightarrow> NaN
     | c # rest \<Rightarrow>
         if c = CHR ''-'' then
           (case number_of_nat (parse_base 10 rest) of
              PosInfinity \<Rightarrow> NegInfinity | x \<Rightarrow> int_num (- floor_num x))
         else number_of_nat (parse_base 10 s))"

definition Int53_fromString :: "string \<Rightarrow> Int53 result" where
  "Int53_fromString str =
     (if \<not> matches_integer str then throw ''Invalid string format''
      else new_Int53 (parseInt10 str))"

definition Int53_toNumber :: "Int53 \<Rightarrow> number" where
  "Int53_toNumber i = int_num (i53_data i)"

definition Int53_toString :: "Int53 \<Rightarrow> string" where
  "Int53_toString i = int_to_string (i53_data i)"

datatype Uint53 = Uint53 (u53_data: Int53)

definition new_Uint53 :: "number \<Rightarrow> Uint53 result" where
  "new_Uint53 input = andThen (new_Int53 input) (\<lambda>signed.
     if num_less (Int53_toNumber signed) (int_num 0) then throw ''Input is negative''
     else ok (Uint53 signed))"

definition Uint53_fromString :: "string \<Rightarrow> Uint53 result" where
  "Uint53_fromString str = andThen (Int53_fromString str) (\<lambda>signed. new_Uint53 (Int53_toNumber signed))"

definition Uint53_toNumber :: "Uint53 \<Rightarrow> number" where
  "Uint53_toNumber u = Int53_toNumber (u53_data u)"

definition Uint53_toString :: "Uint53 \<Rightarrow> string" where
  "Uint53_toString u = Int53_toString (u53_data u)"

definition valid_Int53 :: "Int53 \<Rightarrow> bool" where
  "valid_Int53 i = safe_int (i53_data i)"

definition valid_Uint53 :: "Uint53 \<Rightarrow> bool" where
  "valid_Uint53 u \<longleftrightarrow> valid_Int53 (u53_data u) \<and> 0 \<le> i53_data (u53_data u)"

lemma new_Int53_iff: "new_Int53 x = ok i \<longleftrightarrow> x = int_num (i53_data i) \<and> valid_Int53 i"
proof (cases "isInteger x")
  case True
  then obtain j where "x = int_num j" by (auto simp: isInteger_iff)
  then show ?thesis
    by (cases i) (auto simp: new_Int53_def isNaN_def valid_Int53_def safe_int_def)
next
  case False
  then show ?thesis by (auto simp: new_Int53_def isInteger_iff)
qed

lemma new_Int53_int [simp]: "safe_int i \<Longrightarrow> new_Int53 (int_num i) = ok (Int53 i)"
  by (simp add: new_Int53_iff valid_Int53_def)

lemma new_Uint53_iff:
  "new_Uint53 x = ok u \<longleftrightarrow> x = Uint53_toNumber u \<and> valid_Uint53 u"
  by (cases u)
     (auto simp: new_Uint53_def andThen_eq_Inr new_Int53_iff Uint53_toNumber_def Int53_toNumber_def
       valid_Uint53_def not_less intro: Int53.expand)

lemma new_Uint53_int [simp]:
  "0 \<le> i \<Longrightarrow> i \<le> 9007199254740991 \<Longrightarrow> new_Uint53 (int_num i) = ok (Uint53 (Int53 i))"
  by (simp add: new_Uint53_iff valid_Uint53_def valid_Int53_def safe_int_def Uint53_toNumber_def
      Int53_toNumber_def)

lemma number_of_nat_small [simp]: "n \<le> 9007199254740991 \<Longrightarrow> number_of_nat n = int_num (int n)"
  by (simp add: number_of_nat_def)

lemma is_digit_minus [simp]: "\<not> is_digit CHR ''-''"
  by (simp add: is_digit_def)

lemma to_base_10_digits: "list_all is_digit (to_base 10 n)"
  using to_base_digits [of 10 n] by simp

lemma matches_digits_to_base [simp]: "matches_digits (to_base 10 n)"
  by (simp add: matches_digits_def to_base_10_digits)

lemma digits_no_minus: "matches_digits s \<Longrightarrow> \<exists>c rest. s = c # rest \<and> c \<noteq> CHR ''-''"
  by (cases s) (auto simp: matches_digits_def)

lemma matches_integer_int_to_string [simp]: "matches_integer (int_to_string i)"
proof (cases "i < 0")
  case False
  have "matches_digits s \<Longrightarrow> matches_integer s" for s
    using digits_no_minus [of s] by (auto simp: matches_integer_def)
  with False show ?thesis by (simp add: int_to_string_def)
qed (simp add: matches_integer_def int_to_string_def)

lemma parse_to_base_10 [simp]: "parse_base 10 (to_base 10 n) = n"
  by (simp add: parse_to_base)

text \<open>The integer a decimal string denotes.\<close>

definition integer_value :: "string \<Rightarrow> int" where
  "integer_value s = (case s of [] \<Rightarrow> 0
     | c # rest \<Rightarrow> if c = CHR ''-'' then - int (parse_base 10 rest) else int (parse_base 10 s))"

lemma integer_value_int_to_string [simp]: "integer_value (int_to_string i) = i"
proof (cases "i < 0")
  case True
  then show ?thesis by (simp add: integer_value_def int_to_string_def)
next
  case False
  obtain c rest where c: "to_base 10 (nat i) = c # rest" "c \<noteq> CHR ''-''"
    using digits_no_minus [OF matches_digits_to_base [of "nat i"]] by auto
  have "integer_value (int_to_string i) = int (parse_base 10 (to_base 10 (nat i)))"
    unfolding integer_value_def int_to_string_def c(1) using False c(2) by simp
  with False show ?thesis by simp
qed

lemma number_of_nat_eq: "number_of_nat n = int_num i \<and> safe_int i \<longleftrightarrow> int n = i \<and> safe_int i"
  by (auto simp: number_of_nat_def safe_int_def)

lemma number_of_nat_cases: "number_of_nat n = PosInfinity \<or> number_of_nat n = int_num (int n)"
  by (simp add: number_of_nat_def)

lemma parseInt10_safe:
  "parseInt10 s = int_num i \<and> safe_int i \<and> s \<noteq> [] \<longleftrightarrow> integer_value s = i \<and> safe_int i \<and> s \<noteq> []"
proof (cases s)
  case (Cons c rest)
  show ?thesis
  proof (cases "c = CHR ''-''")
    case True
    have p: "parseInt10 s = (case number_of_nat (parse_base 10 rest) of
        PosInfinity \<Rightarrow> NegInfinity | x \<Rightarrow> int_num (- floor_num x))"
      by (simp add: parseInt10_def Cons True)
    have "number_of_nat (parse_base 10 rest) = PosInfinity \<Longrightarrow> \<not> safe_int (- int (parse_base 10 rest))"
      by (auto simp: number_of_nat_def safe_int_def split: if_splits)
    moreover have "(case int_num j of PosInfinity \<Rightarrow> NegInfinity | x \<Rightarrow> int_num (- floor_num x)) = int_num (- j)" for j
      by (simp add: int_num_def floor_num_def)
    moreover have "integer_value s = - int (parse_base 10 rest)"
      by (simp add: integer_value_def Cons True)
    ultimately show ?thesis
      using number_of_nat_cases [of "parse_base 10 rest"] unfolding p by auto
  next
    case False
    then show ?thesis
      using number_of_nat_eq [of "parse_base 10 s" i] by (auto simp: parseInt10_def integer_value_def Cons)
  qed
qed simp

lemma matches_integer_not_Nil: "matches_integer s \<Longrightarrow> s \<noteq> []"
  by (auto simp: matches_integer_def)

lemma Int53_fromString_iff:
  "Int53_fromString s = ok i \<longleftrightarrow>
     matches_integer s \<and> i53_data i = integer_value s \<and> safe_int (integer_value s)"
  using parseInt10_safe [of s "i53_data i"] matches_integer_not_Nil [of s]
  by (auto simp: Int53_fromString_def new_Int53_iff valid_Int53_def)

lemma Uint53_fromString_iff:
  "Uint53_fromString s = ok u \<longleftrightarrow> matches_integer s \<and> i53_data (u53_data u) = integer_value s \<and>
     0 \<le> integer_value s \<and> integer_value s \<le> 9007199254740991"
  by (auto simp: Uint53_fromString_def andThen_eq_Inr new_Uint53_iff Int53_fromString_iff
      Uint53_toNumber_def Int53_toNumber_def valid_Uint53_def valid_Int53_def safe_int_def
      intro: exI [of _ "u53_data u"])

interpretation int53_string: codec "\<lambda>i. ok (Int53_toString i)" Int53_fromString valid_Int53
  by unfold_locales (simp add: Int53_fromString_iff Int53_toString_def valid_Int53_def)

interpretation uint53_string: codec "\<lambda>u. ok (Uint53_toString u)" Uint53_fromString valid_Uint53
  by unfold_locales
     (simp add: Uint53_fromString_iff Uint53_toString_def Int53_toString_def valid_Uint53_def
       valid_Int53_def safe_int_def)

section \<open>Uint64\<close>

text \<open>The functions take the bn.js parameter \<open>B\<close>; the field \<open>data\<close> is a big number.\<close>

datatype Uint64 = Uint64 (u64_data: int)

definition uint64MaxValue :: "'a bn_lib_scheme \<Rightarrow> int" where
  "uint64MaxValue B = bn_fromString B ''18446744073709551615''"

definition new_Uint64 :: "'a bn_lib_scheme \<Rightarrow> int \<Rightarrow> Uint64 result" where
  "new_Uint64 B data =
     (if bn_isNeg B data then throw ''Input is negative''
      else if bn_gt B data (uint64MaxValue B) then throw ''Input exceeds uint64 range''
      else ok (Uint64 data))"

definition Uint64_fromBytesBigEndian :: "'a bn_lib_scheme \<Rightarrow> number list \<Rightarrow> Uint64 result" where
  "Uint64_fromBytesBigEndian B bytes =
     (if length bytes \<noteq> 8 then throw ''Invalid input length. Expected 8 bytes.''
      else andThen (check_bytes bytes) (\<lambda>_.
        let asArray = map (\<lambda>x. toUint8 (floor_num x)) bytes
        in new_Uint64 B (bn_fromBytes B asArray)))"

definition Uint64_fromString :: "'a bn_lib_scheme \<Rightarrow> string \<Rightarrow> Uint64 result" where
  "Uint64_fromString B str =
     (if \<not> matches_digits str then throw ''Invalid string format''
      else new_Uint64 B (bn_fromString B str))"

definition Uint64_fromNumber :: "'a bn_lib_scheme \<Rightarrow> number \<Rightarrow> Uint64 result" where
  "Uint64_fromNumber B input =
     (if isNaN input then throw ''Input is not a number''
      else case bn_fromNumber B input of
        None \<Rightarrow> throw ''Input is not a safe integer''
      | Some bigint \<Rightarrow> new_Uint64 B bigint)"

definition bn_assert :: "'b option \<Rightarrow> 'b result" where
  "bn_assert r = (case r of None \<Rightarrow> throw ''Assertion failed'' | Some x \<Rightarrow> ok x)"

definition Uint64_toBytesBigEndian :: "'a bn_lib_scheme \<Rightarrow> Uint64 \<Rightarrow> byte list result" where
  "Uint64_toBytesBigEndian B u = bn_assert (bn_toArrayBE B (u64_data u) 8)"

definition Uint64_toBytesLittleEndian :: "'a bn_lib_scheme \<Rightarrow> Uint64 \<Rightarrow> byte list result" where
  "Uint64_toBytesLittleEndian B u = bn_assert (bn_toArrayLE B (u64_data u) 8)"

definition Uint64_toString :: "'a bn_lib_scheme \<Rightarrow> Uint64 \<Rightarrow> string" where
  "Uint64_toString B u = bn_toString B (u64_data u)"

definition Uint64_toNumber :: "'a bn_lib_scheme \<Rightarrow> Uint64 \<Rightarrow> number result" where
  "Uint64_toNumber B u = bn_assert (bn_toNumber B (u64_data u))"

definition valid_Uint64 :: "Uint64 \<Rightarrow> bool" where
  "valid_Uint64 u \<longleftrightarrow> 0 \<le> u64_data u \<and> u64_data u < 2 ^ 64"

lemma uint64MaxValue_eq: "bn_laws B \<Longrightarrow> uint64MaxValue B = 2 ^ 64 - 1"
proof -
  assume B: "bn_laws B"
  have "list_all is_digit ''18446744073709551615'' \<and>
      parse_base 10 ''18446744073709551615'' = 18446744073709551615"
    by (simp add: is_digit_def parse_base_def digit_val_def)
  then show ?thesis by (simp add: uint64MaxValue_def bn_fromString [OF B])
qed

lemma new_Uint64_iff:
  "bn_laws B \<Longrightarrow> new_Uint64 B i = ok u \<longleftrightarrow> i = u64_data u \<and> valid_Uint64 u"
  by (cases u)
     (auto simp: new_Uint64_def bn_isNeg bn_gt uint64MaxValue_eq valid_Uint64_def)

lemma Uint64_fromString_iff:
  "bn_laws B \<Longrightarrow> Uint64_fromString B s = ok u \<longleftrightarrow>
     matches_digits s \<and> u64_data u = int (parse_base 10 s) \<and> parse_base 10 s < 2 ^ 64"
  by (auto simp: Uint64_fromString_def new_Uint64_iff bn_fromString matches_digits_def
      valid_Uint64_def)

lemma check_bytes_map:
  "map (\<lambda>x. toUint8 (floor_num x)) (byte_numbers bs) = bs"
  by (induction bs) (auto simp: byte_numbers_def)

lemma Uint64_fromBytesBigEndian_iff:
  assumes B: "bn_laws B"
  shows "Uint64_fromBytesBigEndian B xs = ok u \<longleftrightarrow>
     length xs = 8 \<and> (\<exists>bs. xs = byte_numbers bs \<and> u64_data u = be_value bs)"
proof -
  have "valid_Uint64 u" if "u64_data u = be_value bs" "length bs = 8" for bs
    using be_value_bounds [of bs] that by (simp add: valid_Uint64_def)
  then show ?thesis
    by (auto simp: Uint64_fromBytesBigEndian_def andThen_eq_Inr check_bytes_iff check_bytes_map
        bn_fromBytes [OF B] new_Uint64_iff [OF B] Let_def)
qed

lemma Uint64_toBytes_ok:
  assumes "bn_laws B" "valid_Uint64 u"
  shows "Uint64_toBytesBigEndian B u = ok (be_bytes 8 (u64_data u))"
    and "Uint64_toBytesLittleEndian B u = ok (rev (be_bytes 8 (u64_data u)))"
  using assms
  by (simp_all add: Uint64_toBytesBigEndian_def Uint64_toBytesLittleEndian_def bn_assert_def
      valid_Uint64_def bn_toArrayBE bn_toArrayLE)

lemma uint64_bytes_codec:
  assumes B: "bn_laws B"
  shows "codec (Uint64_toBytesBigEndian B) (\<lambda>bs. Uint64_fromBytesBigEndian B (byte_numbers bs))
    valid_Uint64"
proof
  fix u assume u: "valid_Uint64 u"
  then have "be_value (be_bytes 8 (u64_data u)) = u64_data u"
    by (intro be_value_bytes) (auto simp: valid_Uint64_def)
  with u show "\<exists>w. Uint64_toBytesBigEndian B u = ok w \<and>
      Uint64_fromBytesBigEndian B (byte_numbers w) = ok u"
    by (auto simp: Uint64_toBytes_ok [OF B] Uint64_fromBytesBigEndian_iff [OF B])
qed

lemma uint64_string_codec:
  assumes B: "bn_laws B"
  shows "codec (\<lambda>u. ok (Uint64_toString B u)) (Uint64_fromString B) valid_Uint64"
proof
  fix u assume u: "valid_Uint64 u"
  then have "Uint64_toString B u = to_base 10 (nat (u64_data u))"
    by (simp add: Uint64_toString_def bn_toString [OF B] int_to_string_def valid_Uint64_def)
  moreover have "nat (u64_data u) < 2 ^ 64" 
    using u by (simp add: valid_Uint64_def nat_less_iff)
  ultimately show "\<exists>w. ok (Uint64_toString B u) = ok w \<and> Uint64_fromString B w = ok u"
    using u by (simp add: Uint64_fromString_iff [OF B] valid_Uint64_def)
qed

section \<open>Properties\<close>

text \<open>
  The big-endian byte form of a \<open>Uint32\<close>: reading bytes succeeds exactly on
  the four bytes that some \<open>Uint32\<close> in range prints, and gives that value; every
  other input, including one with a wrong length or an element that is not a
  byte, throws.
\<close>

lemma Uint32_bytes_iff:
  "Uint32_fromBigEndianBytes xs = ok u \<longleftrightarrow>
     valid_Uint32 u \<and> xs = byte_numbers (Uint32_toBytesBigEndian u)"
proof
  assume a: "Uint32_fromBigEndianBytes xs = ok u"
  then obtain bs where bs: "xs = byte_numbers bs" "length bs = 4"
    by (auto simp: Uint32_fromBigEndianBytes_def andThen_eq_Inr check_bytes_iff split: if_splits)
  with a have "u = Uint32 (be_value bs)" by (simp add: Uint32_fromBigEndianBytes_value)
  with bs show "valid_Uint32 u \<and> xs = byte_numbers (Uint32_toBytesBigEndian u)"
    using be_value_bounds [of bs] be_bytes_value [of bs] by (simp add: valid_Uint32_def Uint32_bytes)
next
  assume "valid_Uint32 u \<and> xs = byte_numbers (Uint32_toBytesBigEndian u)"
  then show "Uint32_fromBigEndianBytes xs = ok u" using uint32_bytes.dec_enc [of u] by simp
qed

text \<open>
  \<open>Uint53.fromString\<close> accepts exactly the decimal integers from 0 to
  \<open>Number.MAX_SAFE_INTEGER\<close> (leading zeros and "-0" included) and gives the
  number the string denotes; reading what \<open>toString\<close> prints gives the value back.
\<close>

lemma Uint53_fromString_spec:
  "(Uint53_fromString s = ok u \<longleftrightarrow> matches_integer s \<and> Uint53_toNumber u = int_num (integer_value s) \<and>
      0 \<le> integer_value s \<and> integer_value s \<le> 9007199254740991) \<and>
   (valid_Uint53 u \<longleftrightarrow> Uint53_fromString (Uint53_toString u) = ok u)"
  by (auto simp: Uint53_fromString_iff Uint53_toNumber_def Int53_toNumber_def Uint53_toString_def
      Int53_toString_def valid_Uint53_def valid_Int53_def safe_int_def)

text \<open>
  The string and byte forms of a \<open>Uint64\<close>, given the documented behaviour of
  bn.js: for every value in range both round trips succeed, the little-endian
  bytes are the reversed big-endian bytes, and a string of digits is accepted
  exactly if it denotes less than \<open>2\<^sup>6\<^sup>4\<close>.
\<close>

lemma Uint64_conversions:
  assumes "bn_laws B" "valid_Uint64 u"
  shows "Uint64_fromString B (Uint64_toString B u) = ok u \<and>
    (\<exists>bs. Uint64_toBytesBigEndian B u = ok bs \<and> Uint64_toBytesLittleEndian B u = ok (rev bs)
       \<and> Uint64_fromBytesBigEndian B (byte_numbers bs) = ok u) \<and>
    (is_ok (Uint64_fromString B s) \<longleftrightarrow> matches_digits s \<and> parse_base 10 s < 2 ^ 64)"
proof (intro conjI)
  show "Uint64_fromString B (Uint64_toString B u) = ok u"
    using codec.dec_enc [OF uint64_string_codec [OF assms(1)] assms(2)] by simp
  show "\<exists>bs. Uint64_toBytesBigEndian B u = ok bs \<and> Uint64_toBytesLittleEndian B u = ok (rev bs)
      \<and> Uint64_fromBytesBigEndian B (byte_numbers bs) = ok u"
    using codec.dec_enc [OF uint64_bytes_codec [OF assms(1)] assms(2)] Uint64_toBytes_ok [OF assms]
    by simp
  show "is_ok (Uint64_fromString B s) \<longleftrightarrow> matches_digits s \<and> parse_base 10 s < 2 ^ 64"
    by (auto simp: is_ok_iff Uint64_fromString_iff [OF assms(1)]
        intro: exI [of _ "Uint64 (int (parse_base 10 s))"])
qed

end
