(* ===== verification/Bns_Wire.thy ===== *)
theory Bns_Wire
  imports Iov_Integers
begin

text \<open>
  \<open>packages/iov-bns/src/generated/codecimpl.d.ts\<close>: the objects of the protobuf
  layer that the BNS codec reads and writes, one record per interface (named
  \<open>namespace_Interface\<close>). A field is an option because every property of these
  interfaces may be null or undefined; \<open>number | Long\<close> is \<open>wire_int\<close>. Of the
  interfaces \<open>bnsd.ITx\<close>, \<open>bnsd.IProposalOptions\<close> and \<open>IUnion\<close> the records have the
  properties that the codec uses.

  What the codec relies on is what a message looks like after it was serialised and
  parsed again (the theories \<open>Pb_...\<close> show it for the message classes), the
  functions \<open>norm_...\<close>: a property that was not set is read as the default of its
  type (empty string, empty bytes, empty array, zero, false, and null for a
  message), and a 64-bit integer is read as a Long.
\<close>

section \<open>Scalars\<close>

datatype wire_int = JsNumber number | Long int

definition norm_number :: "number option \<Rightarrow> number option" where
  "norm_number x = Some (case x of None \<Rightarrow> int_num 0 | Some n \<Rightarrow> n)"

definition norm_string :: "string option \<Rightarrow> string option" where
  "norm_string x = Some (case x of None \<Rightarrow> [] | Some s \<Rightarrow> s)"

definition norm_bytes :: "byte list option \<Rightarrow> byte list option" where
  "norm_bytes x = Some (case x of None \<Rightarrow> [] | Some s \<Rightarrow> s)"

definition norm_bool :: "bool option \<Rightarrow> bool option" where
  "norm_bool x = Some (case x of None \<Rightarrow> False | Some b \<Rightarrow> b)"

definition norm_int64 :: "wire_int option \<Rightarrow> wire_int option" where
  "norm_int64 x = Some (Long (case x of None \<Rightarrow> 0 | Some (JsNumber n) \<Rightarrow> floor_num n | Some (Long i) \<Rightarrow> i))"

definition norm_repeated :: "('a \<Rightarrow> 'a) \<Rightarrow> 'a list option \<Rightarrow> 'a list option" where
  "norm_repeated f x = Some (case x of None \<Rightarrow> [] | Some xs \<Rightarrow> map f xs)"

lemma norm_scalar_simps [simp]:
  "norm_number None = Some (int_num 0)" "norm_number (Some n) = Some n"
  "norm_string None = Some []" "norm_string (Some s) = Some s"
  "norm_bytes None = Some []" "norm_bytes (Some b) = Some b"
  "norm_bool None = Some False" "norm_bool (Some c) = Some c"
  "norm_int64 None = Some (Long 0)" "norm_int64 (Some (JsNumber (int_num i))) = Some (Long i)"
  "norm_int64 (Some (Long i)) = Some (Long i)"
  "norm_repeated f None = Some []" "norm_repeated f (Some xs) = Some (map f xs)"
  by (simp_all add: norm_number_def norm_string_def norm_bytes_def norm_bool_def norm_int64_def
      norm_repeated_def)

section \<open>Messages\<close>

record weave_IMetadata =
  md_schema :: "number option"

definition norm_weave_IMetadata :: "weave_IMetadata \<Rightarrow> weave_IMetadata" where
  "norm_weave_IMetadata m = \<lparr>
     md_schema = norm_number (md_schema m)\<rparr>"

record coin_ICoin =
  coin_whole :: "wire_int option"
  coin_fractional :: "wire_int option"
  coin_ticker :: "string option"

definition norm_coin_ICoin :: "coin_ICoin \<Rightarrow> coin_ICoin" where
  "norm_coin_ICoin m = \<lparr>
     coin_whole = norm_int64 (coin_whole m),
     coin_fractional = norm_int64 (coin_fractional m),
     coin_ticker = norm_string (coin_ticker m)\<rparr>"

record IFraction =
  fr_numerator :: "number option"
  fr_denominator :: "number option"

definition norm_IFraction :: "IFraction \<Rightarrow> IFraction" where
  "norm_IFraction m = \<lparr>
     fr_numerator = norm_number (fr_numerator m),
     fr_denominator = norm_number (fr_denominator m)\<rparr>"

record cash_ISendMsg =
  sm_metadata :: "weave_IMetadata option"
  sm_source :: "byte list option"
  sm_destination :: "byte list option"
  sm_amount :: "coin_ICoin option"
  sm_memo :: "string option"
  sm_ref :: "byte list option"

definition norm_cash_ISendMsg :: "cash_ISendMsg \<Rightarrow> cash_ISendMsg" where
  "norm_cash_ISendMsg m = \<lparr>
     sm_metadata = map_option norm_weave_IMetadata (sm_metadata m),
     sm_source = norm_bytes (sm_source m),
     sm_destination = norm_bytes (sm_destination m),
     sm_amount = map_option norm_coin_ICoin (sm_amount m),
     sm_memo = norm_string (sm_memo m),
     sm_ref = norm_bytes (sm_ref m)\<rparr>"

record cash_IFeeInfo =
  fi_payer :: "byte list option"
  fi_fees :: "coin_ICoin option"

definition norm_cash_IFeeInfo :: "cash_IFeeInfo \<Rightarrow> cash_IFeeInfo" where
  "norm_cash_IFeeInfo m = \<lparr>
     fi_payer = norm_bytes (fi_payer m),
     fi_fees = map_option norm_coin_ICoin (fi_fees m)\<rparr>"

record aswap_ICreateMsg =
  ac_metadata :: "weave_IMetadata option"
  ac_source :: "byte list option"
  ac_preimageHash :: "byte list option"
  ac_destination :: "byte list option"
  ac_amount :: "coin_ICoin list option"
  ac_timeout :: "wire_int option"
  ac_memo :: "string option"

definition norm_aswap_ICreateMsg :: "aswap_ICreateMsg \<Rightarrow> aswap_ICreateMsg" where
  "norm_aswap_ICreateMsg m = \<lparr>
     ac_metadata = map_option norm_weave_IMetadata (ac_metadata m),
     ac_source = norm_bytes (ac_source m),
     ac_preimageHash = norm_bytes (ac_preimageHash m),
     ac_destination = norm_bytes (ac_destination m),
     ac_amount = norm_repeated norm_coin_ICoin (ac_amount m),
     ac_timeout = norm_int64 (ac_timeout m),
     ac_memo = norm_string (ac_memo m)\<rparr>"

record aswap_IReleaseMsg =
  ar_metadata :: "weave_IMetadata option"
  ar_swapId :: "byte list option"
  ar_preimage :: "byte list option"

definition norm_aswap_IReleaseMsg :: "aswap_IReleaseMsg \<Rightarrow> aswap_IReleaseMsg" where
  "norm_aswap_IReleaseMsg m = \<lparr>
     ar_metadata = map_option norm_weave_IMetadata (ar_metadata m),
     ar_swapId = norm_bytes (ar_swapId m),
     ar_preimage = norm_bytes (ar_preimage m)\<rparr>"

record aswap_IReturnMsg =
  at_metadata :: "weave_IMetadata option"
  at_swapId :: "byte list option"

definition norm_aswap_IReturnMsg :: "aswap_IReturnMsg \<Rightarrow> aswap_IReturnMsg" where
  "norm_aswap_IReturnMsg m = \<lparr>
     at_metadata = map_option norm_weave_IMetadata (at_metadata m),
     at_swapId = norm_bytes (at_swapId m)\<rparr>"

record username_IBlockchainAddress =
  ub_blockchainId :: "string option"
  ub_address :: "string option"

definition norm_username_IBlockchainAddress :: "username_IBlockchainAddress \<Rightarrow> username_IBlockchainAddress" where
  "norm_username_IBlockchainAddress m = \<lparr>
     ub_blockchainId = norm_string (ub_blockchainId m),
     ub_address = norm_string (ub_address m)\<rparr>"

record username_IRegisterTokenMsg =
  ur_metadata :: "weave_IMetadata option"
  ur_username :: "string option"
  ur_targets :: "username_IBlockchainAddress list option"

definition norm_username_IRegisterTokenMsg :: "username_IRegisterTokenMsg \<Rightarrow> username_IRegisterTokenMsg" where
  "norm_username_IRegisterTokenMsg m = \<lparr>
     ur_metadata = map_option norm_weave_IMetadata (ur_metadata m),
     ur_username = norm_string (ur_username m),
     ur_targets = norm_repeated norm_username_IBlockchainAddress (ur_targets m)\<rparr>"

record username_IChangeTokenTargetsMsg =
  uc_metadata :: "weave_IMetadata option"
  uc_username :: "string option"
  uc_newTargets :: "username_IBlockchainAddress list option"

definition norm_username_IChangeTokenTargetsMsg :: "username_IChangeTokenTargetsMsg \<Rightarrow> username_IChangeTokenTargetsMsg" where
  "norm_username_IChangeTokenTargetsMsg m = \<lparr>
     uc_metadata = map_option norm_weave_IMetadata (uc_metadata m),
     uc_username = norm_string (uc_username m),
     uc_newTargets = norm_repeated norm_username_IBlockchainAddress (uc_newTargets m)\<rparr>"

record username_ITransferTokenMsg =
  ut_metadata :: "weave_IMetadata option"
  ut_username :: "string option"
  ut_newOwner :: "byte list option"

definition norm_username_ITransferTokenMsg :: "username_ITransferTokenMsg \<Rightarrow> username_ITransferTokenMsg" where
  "norm_username_ITransferTokenMsg m = \<lparr>
     ut_metadata = map_option norm_weave_IMetadata (ut_metadata m),
     ut_username = norm_string (ut_username m),
     ut_newOwner = norm_bytes (ut_newOwner m)\<rparr>"

record account_IConfiguration =
  acf_metadata :: "weave_IMetadata option"
  acf_owner :: "byte list option"
  acf_validDomain :: "string option"
  acf_validName :: "string option"
  acf_validBlockchainId :: "string option"
  acf_validBlockchainAddress :: "string option"
  acf_domainRenew :: "wire_int option"
  acf_domainGracePeriod :: "wire_int option"

definition norm_account_IConfiguration :: "account_IConfiguration \<Rightarrow> account_IConfiguration" where
  "norm_account_IConfiguration m = \<lparr>
     acf_metadata = map_option norm_weave_IMetadata (acf_metadata m),
     acf_owner = norm_bytes (acf_owner m),
     acf_validDomain = norm_string (acf_validDomain m),
     acf_validName = norm_string (acf_validName m),
     acf_validBlockchainId = norm_string (acf_validBlockchainId m),
     acf_validBlockchainAddress = norm_string (acf_validBlockchainAddress m),
     acf_domainRenew = norm_int64 (acf_domainRenew m),
     acf_domainGracePeriod = norm_int64 (acf_domainGracePeriod m)\<rparr>"

record account_IUpdateConfigurationMsg =
  auc_metadata :: "weave_IMetadata option"
  auc_patch :: "account_IConfiguration option"

definition norm_account_IUpdateConfigurationMsg :: "account_IUpdateConfigurationMsg \<Rightarrow> account_IUpdateConfigurationMsg" where
  "norm_account_IUpdateConfigurationMsg m = \<lparr>
     auc_metadata = map_option norm_weave_IMetadata (auc_metadata m),
     auc_patch = map_option norm_account_IConfiguration (auc_patch m)\<rparr>"

record account_IAccountMsgFee =
  amf_msgPath :: "string option"
  amf_fee :: "coin_ICoin option"

definition norm_account_IAccountMsgFee :: "account_IAccountMsgFee \<Rightarrow> account_IAccountMsgFee" where
  "norm_account_IAccountMsgFee m = \<lparr>
     amf_msgPath = norm_string (amf_msgPath m),
     amf_fee = map_option norm_coin_ICoin (amf_fee m)\<rparr>"

record account_IRegisterDomainMsg =
  ard_metadata :: "weave_IMetadata option"
  ard_domain :: "string option"
  ard_admin :: "byte list option"
  ard_hasSuperuser :: "bool option"
  ard_broker :: "byte list option"
  ard_msgFees :: "account_IAccountMsgFee list option"
  ard_accountRenew :: "wire_int option"

definition norm_account_IRegisterDomainMsg :: "account_IRegisterDomainMsg \<Rightarrow> account_IRegisterDomainMsg" where
  "norm_account_IRegisterDomainMsg m = \<lparr>
     ard_metadata = map_option norm_weave_IMetadata (ard_metadata m),
     ard_domain = norm_string (ard_domain m),
     ard_admin = norm_bytes (ard_admin m),
     ard_hasSuperuser = norm_bool (ard_hasSuperuser m),
     ard_broker = norm_bytes (ard_broker m),
     ard_msgFees = norm_repeated norm_account_IAccountMsgFee (ard_msgFees m),
     ard_accountRenew = norm_int64 (ard_accountRenew m)\<rparr>"

record account_ITransferDomainMsg =
  atd_metadata :: "weave_IMetadata option"
  atd_domain :: "string option"
  atd_newAdmin :: "byte list option"

definition norm_account_ITransferDomainMsg :: "account_ITransferDomainMsg \<Rightarrow> account_ITransferDomainMsg" where
  "norm_account_ITransferDomainMsg m = \<lparr>
     atd_metadata = map_option norm_weave_IMetadata (atd_metadata m),
     atd_domain = norm_string (atd_domain m),
     atd_newAdmin = norm_bytes (atd_newAdmin m)\<rparr>"

record account_IRenewDomainMsg =
  arn_metadata :: "weave_IMetadata option"
  arn_domain :: "string option"

definition norm_account_IRenewDomainMsg :: "account_IRenewDomainMsg \<Rightarrow> account_IRenewDomainMsg" where
  "norm_account_IRenewDomainMsg m = \<lparr>
     arn_metadata = map_option norm_weave_IMetadata (arn_metadata m),
     arn_domain = norm_string (arn_domain m)\<rparr>"

record account_IDeleteDomainMsg =
  add_metadata :: "weave_IMetadata option"
  add_domain :: "string option"

definition norm_account_IDeleteDomainMsg :: "account_IDeleteDomainMsg \<Rightarrow> account_IDeleteDomainMsg" where
  "norm_account_IDeleteDomainMsg m = \<lparr>
     add_metadata = map_option norm_weave_IMetadata (add_metadata m),
     add_domain = norm_string (add_domain m)\<rparr>"

record account_IBlockchainAddress =
  aba_blockchainId :: "string option"
  aba_address :: "string option"

definition norm_account_IBlockchainAddress :: "account_IBlockchainAddress \<Rightarrow> account_IBlockchainAddress" where
  "norm_account_IBlockchainAddress m = \<lparr>
     aba_blockchainId = norm_string (aba_blockchainId m),
     aba_address = norm_string (aba_address m)\<rparr>"

record account_IRegisterAccountMsg =
  ara_metadata :: "weave_IMetadata option"
  ara_domain :: "string option"
  ara_name :: "string option"
  ara_owner :: "byte list option"
  ara_targets :: "account_IBlockchainAddress list option"
  ara_broker :: "byte list option"

definition norm_account_IRegisterAccountMsg :: "account_IRegisterAccountMsg \<Rightarrow> account_IRegisterAccountMsg" where
  "norm_account_IRegisterAccountMsg m = \<lparr>
     ara_metadata = map_option norm_weave_IMetadata (ara_metadata m),
     ara_domain = norm_string (ara_domain m),
     ara_name = norm_string (ara_name m),
     ara_owner = norm_bytes (ara_owner m),
     ara_targets = norm_repeated norm_account_IBlockchainAddress (ara_targets m),
     ara_broker = norm_bytes (ara_broker m)\<rparr>"

record account_ITransferAccountMsg =
  ata_metadata :: "weave_IMetadata option"
  ata_domain :: "string option"
  ata_name :: "string option"
  ata_newOwner :: "byte list option"

definition norm_account_ITransferAccountMsg :: "account_ITransferAccountMsg \<Rightarrow> account_ITransferAccountMsg" where
  "norm_account_ITransferAccountMsg m = \<lparr>
     ata_metadata = map_option norm_weave_IMetadata (ata_metadata m),
     ata_domain = norm_string (ata_domain m),
     ata_name = norm_string (ata_name m),
     ata_newOwner = norm_bytes (ata_newOwner m)\<rparr>"

record account_IReplaceAccountTargetsMsg =
  art_metadata :: "weave_IMetadata option"
  art_domain :: "string option"
  art_name :: "string option"
  art_newTargets :: "account_IBlockchainAddress list option"

definition norm_account_IReplaceAccountTargetsMsg :: "account_IReplaceAccountTargetsMsg \<Rightarrow> account_IReplaceAccountTargetsMsg" where
  "norm_account_IReplaceAccountTargetsMsg m = \<lparr>
     art_metadata = map_option norm_weave_IMetadata (art_metadata m),
     art_domain = norm_string (art_domain m),
     art_name = norm_string (art_name m),
     art_newTargets = norm_repeated norm_account_IBlockchainAddress (art_newTargets m)\<rparr>"

record account_IDeleteAccountMsg =
  ada_metadata :: "weave_IMetadata option"
  ada_domain :: "string option"
  ada_name :: "string option"

definition norm_account_IDeleteAccountMsg :: "account_IDeleteAccountMsg \<Rightarrow> account_IDeleteAccountMsg" where
  "norm_account_IDeleteAccountMsg m = \<lparr>
     ada_metadata = map_option norm_weave_IMetadata (ada_metadata m),
     ada_domain = norm_string (ada_domain m),
     ada_name = norm_string (ada_name m)\<rparr>"

record account_IFlushDomainMsg =
  afd_metadata :: "weave_IMetadata option"
  afd_domain :: "string option"

definition norm_account_IFlushDomainMsg :: "account_IFlushDomainMsg \<Rightarrow> account_IFlushDomainMsg" where
  "norm_account_IFlushDomainMsg m = \<lparr>
     afd_metadata = map_option norm_weave_IMetadata (afd_metadata m),
     afd_domain = norm_string (afd_domain m)\<rparr>"

record account_IRenewAccountMsg =
  arw_metadata :: "weave_IMetadata option"
  arw_domain :: "string option"
  arw_name :: "string option"

definition norm_account_IRenewAccountMsg :: "account_IRenewAccountMsg \<Rightarrow> account_IRenewAccountMsg" where
  "norm_account_IRenewAccountMsg m = \<lparr>
     arw_metadata = map_option norm_weave_IMetadata (arw_metadata m),
     arw_domain = norm_string (arw_domain m),
     arw_name = norm_string (arw_name m)\<rparr>"

record account_IAddAccountCertificateMsg =
  aac_metadata :: "weave_IMetadata option"
  aac_domain :: "string option"
  aac_name :: "string option"
  aac_certificate :: "byte list option"

definition norm_account_IAddAccountCertificateMsg :: "account_IAddAccountCertificateMsg \<Rightarrow> account_IAddAccountCertificateMsg" where
  "norm_account_IAddAccountCertificateMsg m = \<lparr>
     aac_metadata = map_option norm_weave_IMetadata (aac_metadata m),
     aac_domain = norm_string (aac_domain m),
     aac_name = norm_string (aac_name m),
     aac_certificate = norm_bytes (aac_certificate m)\<rparr>"

record account_IReplaceAccountMsgFeesMsg =
  arm_metadata :: "weave_IMetadata option"
  arm_domain :: "string option"
  arm_newMsgFees :: "account_IAccountMsgFee list option"

definition norm_account_IReplaceAccountMsgFeesMsg :: "account_IReplaceAccountMsgFeesMsg \<Rightarrow> account_IReplaceAccountMsgFeesMsg" where
  "norm_account_IReplaceAccountMsgFeesMsg m = \<lparr>
     arm_metadata = map_option norm_weave_IMetadata (arm_metadata m),
     arm_domain = norm_string (arm_domain m),
     arm_newMsgFees = norm_repeated norm_account_IAccountMsgFee (arm_newMsgFees m)\<rparr>"

record account_IDeleteAccountCertificateMsg =
  adc_metadata :: "weave_IMetadata option"
  adc_domain :: "string option"
  adc_name :: "string option"
  adc_certificateHash :: "byte list option"

definition norm_account_IDeleteAccountCertificateMsg :: "account_IDeleteAccountCertificateMsg \<Rightarrow> account_IDeleteAccountCertificateMsg" where
  "norm_account_IDeleteAccountCertificateMsg m = \<lparr>
     adc_metadata = map_option norm_weave_IMetadata (adc_metadata m),
     adc_domain = norm_string (adc_domain m),
     adc_name = norm_string (adc_name m),
     adc_certificateHash = norm_bytes (adc_certificateHash m)\<rparr>"

record multisig_IParticipant =
  mp_signature :: "byte list option"
  mp_weight :: "number option"

definition norm_multisig_IParticipant :: "multisig_IParticipant \<Rightarrow> multisig_IParticipant" where
  "norm_multisig_IParticipant m = \<lparr>
     mp_signature = norm_bytes (mp_signature m),
     mp_weight = norm_number (mp_weight m)\<rparr>"

record multisig_ICreateMsg =
  mc_metadata :: "weave_IMetadata option"
  mc_participants :: "multisig_IParticipant list option"
  mc_activationThreshold :: "number option"
  mc_adminThreshold :: "number option"

definition norm_multisig_ICreateMsg :: "multisig_ICreateMsg \<Rightarrow> multisig_ICreateMsg" where
  "norm_multisig_ICreateMsg m = \<lparr>
     mc_metadata = map_option norm_weave_IMetadata (mc_metadata m),
     mc_participants = norm_repeated norm_multisig_IParticipant (mc_participants m),
     mc_activationThreshold = norm_number (mc_activationThreshold m),
     mc_adminThreshold = norm_number (mc_adminThreshold m)\<rparr>"

record multisig_IUpdateMsg =
  mu_metadata :: "weave_IMetadata option"
  mu_contractId :: "byte list option"
  mu_participants :: "multisig_IParticipant list option"
  mu_activationThreshold :: "number option"
  mu_adminThreshold :: "number option"

definition norm_multisig_IUpdateMsg :: "multisig_IUpdateMsg \<Rightarrow> multisig_IUpdateMsg" where
  "norm_multisig_IUpdateMsg m = \<lparr>
     mu_metadata = map_option norm_weave_IMetadata (mu_metadata m),
     mu_contractId = norm_bytes (mu_contractId m),
     mu_participants = norm_repeated norm_multisig_IParticipant (mu_participants m),
     mu_activationThreshold = norm_number (mu_activationThreshold m),
     mu_adminThreshold = norm_number (mu_adminThreshold m)\<rparr>"

record escrow_ICreateMsg =
  ec_metadata :: "weave_IMetadata option"
  ec_source :: "byte list option"
  ec_arbiter :: "byte list option"
  ec_destination :: "byte list option"
  ec_amount :: "coin_ICoin list option"
  ec_timeout :: "wire_int option"
  ec_memo :: "string option"

definition norm_escrow_ICreateMsg :: "escrow_ICreateMsg \<Rightarrow> escrow_ICreateMsg" where
  "norm_escrow_ICreateMsg m = \<lparr>
     ec_metadata = map_option norm_weave_IMetadata (ec_metadata m),
     ec_source = norm_bytes (ec_source m),
     ec_arbiter = norm_bytes (ec_arbiter m),
     ec_destination = norm_bytes (ec_destination m),
     ec_amount = norm_repeated norm_coin_ICoin (ec_amount m),
     ec_timeout = norm_int64 (ec_timeout m),
     ec_memo = norm_string (ec_memo m)\<rparr>"

record escrow_IReleaseMsg =
  er_metadata :: "weave_IMetadata option"
  er_escrowId :: "byte list option"
  er_amount :: "coin_ICoin list option"

definition norm_escrow_IReleaseMsg :: "escrow_IReleaseMsg \<Rightarrow> escrow_IReleaseMsg" where
  "norm_escrow_IReleaseMsg m = \<lparr>
     er_metadata = map_option norm_weave_IMetadata (er_metadata m),
     er_escrowId = norm_bytes (er_escrowId m),
     er_amount = norm_repeated norm_coin_ICoin (er_amount m)\<rparr>"

record escrow_IReturnMsg =
  et_metadata :: "weave_IMetadata option"
  et_escrowId :: "byte list option"

definition norm_escrow_IReturnMsg :: "escrow_IReturnMsg \<Rightarrow> escrow_IReturnMsg" where
  "norm_escrow_IReturnMsg m = \<lparr>
     et_metadata = map_option norm_weave_IMetadata (et_metadata m),
     et_escrowId = norm_bytes (et_escrowId m)\<rparr>"

record escrow_IUpdatePartiesMsg =
  eu_metadata :: "weave_IMetadata option"
  eu_escrowId :: "byte list option"
  eu_source :: "byte list option"
  eu_arbiter :: "byte list option"
  eu_destination :: "byte list option"

definition norm_escrow_IUpdatePartiesMsg :: "escrow_IUpdatePartiesMsg \<Rightarrow> escrow_IUpdatePartiesMsg" where
  "norm_escrow_IUpdatePartiesMsg m = \<lparr>
     eu_metadata = map_option norm_weave_IMetadata (eu_metadata m),
     eu_escrowId = norm_bytes (eu_escrowId m),
     eu_source = norm_bytes (eu_source m),
     eu_arbiter = norm_bytes (eu_arbiter m),
     eu_destination = norm_bytes (eu_destination m)\<rparr>"

record gov_ICreateProposalMsg =
  gp_metadata :: "weave_IMetadata option"
  gp_title :: "string option"
  gp_rawOption :: "byte list option"
  gp_description :: "string option"
  gp_electionRuleId :: "byte list option"
  gp_startTime :: "wire_int option"
  gp_author :: "byte list option"

definition norm_gov_ICreateProposalMsg :: "gov_ICreateProposalMsg \<Rightarrow> gov_ICreateProposalMsg" where
  "norm_gov_ICreateProposalMsg m = \<lparr>
     gp_metadata = map_option norm_weave_IMetadata (gp_metadata m),
     gp_title = norm_string (gp_title m),
     gp_rawOption = norm_bytes (gp_rawOption m),
     gp_description = norm_string (gp_description m),
     gp_electionRuleId = norm_bytes (gp_electionRuleId m),
     gp_startTime = norm_int64 (gp_startTime m),
     gp_author = norm_bytes (gp_author m)\<rparr>"

record gov_IVoteMsg =
  gv_metadata :: "weave_IMetadata option"
  gv_proposalId :: "byte list option"
  gv_voter :: "byte list option"
  gv_selected :: "number option"

definition norm_gov_IVoteMsg :: "gov_IVoteMsg \<Rightarrow> gov_IVoteMsg" where
  "norm_gov_IVoteMsg m = \<lparr>
     gv_metadata = map_option norm_weave_IMetadata (gv_metadata m),
     gv_proposalId = norm_bytes (gv_proposalId m),
     gv_voter = norm_bytes (gv_voter m),
     gv_selected = norm_number (gv_selected m)\<rparr>"

section \<open>Messages of proposals\<close>

record gov_ICreateTextResolutionMsg =
  gt_metadata :: "weave_IMetadata option"
  gt_resolution :: "string option"

definition norm_gov_ICreateTextResolutionMsg :: "gov_ICreateTextResolutionMsg \<Rightarrow> gov_ICreateTextResolutionMsg" where
  "norm_gov_ICreateTextResolutionMsg m = \<lparr>
     gt_metadata = map_option norm_weave_IMetadata (gt_metadata m),
     gt_resolution = norm_string (gt_resolution m)\<rparr>"

record gov_IElector =
  ge_address :: "byte list option"
  ge_weight :: "number option"

definition norm_gov_IElector :: "gov_IElector \<Rightarrow> gov_IElector" where
  "norm_gov_IElector m = \<lparr>
     ge_address = norm_bytes (ge_address m),
     ge_weight = norm_number (ge_weight m)\<rparr>"

record gov_IUpdateElectorateMsg =
  gue_metadata :: "weave_IMetadata option"
  gue_electorateId :: "byte list option"
  gue_diffElectors :: "gov_IElector list option"

definition norm_gov_IUpdateElectorateMsg :: "gov_IUpdateElectorateMsg \<Rightarrow> gov_IUpdateElectorateMsg" where
  "norm_gov_IUpdateElectorateMsg m = \<lparr>
     gue_metadata = map_option norm_weave_IMetadata (gue_metadata m),
     gue_electorateId = norm_bytes (gue_electorateId m),
     gue_diffElectors = norm_repeated norm_gov_IElector (gue_diffElectors m)\<rparr>"

record gov_IUpdateElectionRuleMsg =
  gur_metadata :: "weave_IMetadata option"
  gur_electionRuleId :: "byte list option"
  gur_votingPeriod :: "number option"
  gur_threshold :: "IFraction option"
  gur_quorum :: "IFraction option"

definition norm_gov_IUpdateElectionRuleMsg :: "gov_IUpdateElectionRuleMsg \<Rightarrow> gov_IUpdateElectionRuleMsg" where
  "norm_gov_IUpdateElectionRuleMsg m = \<lparr>
     gur_metadata = map_option norm_weave_IMetadata (gur_metadata m),
     gur_electionRuleId = norm_bytes (gur_electionRuleId m),
     gur_votingPeriod = norm_number (gur_votingPeriod m),
     gur_threshold = map_option norm_IFraction (gur_threshold m),
     gur_quorum = map_option norm_IFraction (gur_quorum m)\<rparr>"

record weave_IPubKey =
  vk_type :: "string option"
  vk_data :: "byte list option"

definition norm_weave_IPubKey :: "weave_IPubKey \<Rightarrow> weave_IPubKey" where
  "norm_weave_IPubKey m = \<lparr>
     vk_type = norm_string (vk_type m),
     vk_data = norm_bytes (vk_data m)\<rparr>"

record weave_IValidatorUpdate =
  vu_pubKey :: "weave_IPubKey option"
  vu_power :: "wire_int option"

definition norm_weave_IValidatorUpdate :: "weave_IValidatorUpdate \<Rightarrow> weave_IValidatorUpdate" where
  "norm_weave_IValidatorUpdate m = \<lparr>
     vu_pubKey = map_option norm_weave_IPubKey (vu_pubKey m),
     vu_power = norm_int64 (vu_power m)\<rparr>"

record validators_IApplyDiffMsg =
  va_metadata :: "weave_IMetadata option"
  va_validatorUpdates :: "weave_IValidatorUpdate list option"

definition norm_validators_IApplyDiffMsg :: "validators_IApplyDiffMsg \<Rightarrow> validators_IApplyDiffMsg" where
  "norm_validators_IApplyDiffMsg m = \<lparr>
     va_metadata = map_option norm_weave_IMetadata (va_metadata m),
     va_validatorUpdates = norm_repeated norm_weave_IValidatorUpdate (va_validatorUpdates m)\<rparr>"

record msgfee_ISetMsgFeeMsg =
  mf_metadata :: "weave_IMetadata option"
  mf_msgPath :: "string option"
  mf_fee :: "coin_ICoin option"

definition norm_msgfee_ISetMsgFeeMsg :: "msgfee_ISetMsgFeeMsg \<Rightarrow> msgfee_ISetMsgFeeMsg" where
  "norm_msgfee_ISetMsgFeeMsg m = \<lparr>
     mf_metadata = map_option norm_weave_IMetadata (mf_metadata m),
     mf_msgPath = norm_string (mf_msgPath m),
     mf_fee = map_option norm_coin_ICoin (mf_fee m)\<rparr>"

record datamigration_IExecuteMigrationMsg =
  dm_metadata :: "weave_IMetadata option"
  dm_migrationId :: "string option"

definition norm_datamigration_IExecuteMigrationMsg :: "datamigration_IExecuteMigrationMsg \<Rightarrow> datamigration_IExecuteMigrationMsg" where
  "norm_datamigration_IExecuteMigrationMsg m = \<lparr>
     dm_metadata = map_option norm_weave_IMetadata (dm_metadata m),
     dm_migrationId = norm_string (dm_migrationId m)\<rparr>"

record migration_IUpgradeSchemaMsg =
  us_metadata :: "weave_IMetadata option"
  us_pkg :: "string option"
  us_toVersion :: "number option"

definition norm_migration_IUpgradeSchemaMsg :: "migration_IUpgradeSchemaMsg \<Rightarrow> migration_IUpgradeSchemaMsg" where
  "norm_migration_IUpgradeSchemaMsg m = \<lparr>
     us_metadata = map_option norm_weave_IMetadata (us_metadata m),
     us_pkg = norm_string (us_pkg m),
     us_toVersion = norm_number (us_toVersion m)\<rparr>"

record msgfee_IConfiguration =
  mfc_metadata :: "weave_IMetadata option"
  mfc_owner :: "byte list option"
  mfc_feeAdmin :: "byte list option"

definition norm_msgfee_IConfiguration :: "msgfee_IConfiguration \<Rightarrow> msgfee_IConfiguration" where
  "norm_msgfee_IConfiguration m = \<lparr>
     mfc_metadata = map_option norm_weave_IMetadata (mfc_metadata m),
     mfc_owner = norm_bytes (mfc_owner m),
     mfc_feeAdmin = norm_bytes (mfc_feeAdmin m)\<rparr>"

record msgfee_IUpdateConfigurationMsg =
  mfu_metadata :: "weave_IMetadata option"
  mfu_patch :: "msgfee_IConfiguration option"

definition norm_msgfee_IUpdateConfigurationMsg :: "msgfee_IUpdateConfigurationMsg \<Rightarrow> msgfee_IUpdateConfigurationMsg" where
  "norm_msgfee_IUpdateConfigurationMsg m = \<lparr>
     mfu_metadata = map_option norm_weave_IMetadata (mfu_metadata m),
     mfu_patch = map_option norm_msgfee_IConfiguration (mfu_patch m)\<rparr>"

record preregistration_IConfiguration =
  prc_metadata :: "weave_IMetadata option"
  prc_owner :: "byte list option"

definition norm_preregistration_IConfiguration :: "preregistration_IConfiguration \<Rightarrow> preregistration_IConfiguration" where
  "norm_preregistration_IConfiguration m = \<lparr>
     prc_metadata = map_option norm_weave_IMetadata (prc_metadata m),
     prc_owner = norm_bytes (prc_owner m)\<rparr>"

record preregistration_IUpdateConfigurationMsg =
  pru_metadata :: "weave_IMetadata option"
  pru_patch :: "preregistration_IConfiguration option"

definition norm_preregistration_IUpdateConfigurationMsg :: "preregistration_IUpdateConfigurationMsg \<Rightarrow> preregistration_IUpdateConfigurationMsg" where
  "norm_preregistration_IUpdateConfigurationMsg m = \<lparr>
     pru_metadata = map_option norm_weave_IMetadata (pru_metadata m),
     pru_patch = map_option norm_preregistration_IConfiguration (pru_patch m)\<rparr>"

record qualityscore_IConfiguration =
  qsc_metadata :: "weave_IMetadata option"
  qsc_owner :: "byte list option"
  qsc_c :: "IFraction option"
  qsc_k :: "IFraction option"
  qsc_kp :: "IFraction option"
  qsc_q0 :: "IFraction option"
  qsc_x :: "IFraction option"
  qsc_xInf :: "IFraction option"
  qsc_xSup :: "IFraction option"
  qsc_delta :: "IFraction option"

definition norm_qualityscore_IConfiguration :: "qualityscore_IConfiguration \<Rightarrow> qualityscore_IConfiguration" where
  "norm_qualityscore_IConfiguration m = \<lparr>
     qsc_metadata = map_option norm_weave_IMetadata (qsc_metadata m),
     qsc_owner = norm_bytes (qsc_owner m),
     qsc_c = map_option norm_IFraction (qsc_c m),
     qsc_k = map_option norm_IFraction (qsc_k m),
     qsc_kp = map_option norm_IFraction (qsc_kp m),
     qsc_q0 = map_option norm_IFraction (qsc_q0 m),
     qsc_x = map_option norm_IFraction (qsc_x m),
     qsc_xInf = map_option norm_IFraction (qsc_xInf m),
     qsc_xSup = map_option norm_IFraction (qsc_xSup m),
     qsc_delta = map_option norm_IFraction (qsc_delta m)\<rparr>"

record qualityscore_IUpdateConfigurationMsg =
  qsu_metadata :: "weave_IMetadata option"
  qsu_patch :: "qualityscore_IConfiguration option"

definition norm_qualityscore_IUpdateConfigurationMsg :: "qualityscore_IUpdateConfigurationMsg \<Rightarrow> qualityscore_IUpdateConfigurationMsg" where
  "norm_qualityscore_IUpdateConfigurationMsg m = \<lparr>
     qsu_metadata = map_option norm_weave_IMetadata (qsu_metadata m),
     qsu_patch = map_option norm_qualityscore_IConfiguration (qsu_patch m)\<rparr>"

record termdeposit_ICustomRate =
  tdr_address :: "byte list option"
  tdr_rate :: "IFraction option"

definition norm_termdeposit_ICustomRate :: "termdeposit_ICustomRate \<Rightarrow> termdeposit_ICustomRate" where
  "norm_termdeposit_ICustomRate m = \<lparr>
     tdr_address = norm_bytes (tdr_address m),
     tdr_rate = map_option norm_IFraction (tdr_rate m)\<rparr>"

record termdeposit_IDepositBonus =
  tdb_lockinPeriod :: "number option"
  tdb_bonus :: "IFraction option"

definition norm_termdeposit_IDepositBonus :: "termdeposit_IDepositBonus \<Rightarrow> termdeposit_IDepositBonus" where
  "norm_termdeposit_IDepositBonus m = \<lparr>
     tdb_lockinPeriod = norm_number (tdb_lockinPeriod m),
     tdb_bonus = map_option norm_IFraction (tdb_bonus m)\<rparr>"

record termdeposit_IConfiguration =
  tdc_metadata :: "weave_IMetadata option"
  tdc_owner :: "byte list option"
  tdc_admin :: "byte list option"
  tdc_bonuses :: "termdeposit_IDepositBonus list option"
  tdc_baseRates :: "termdeposit_ICustomRate list option"

definition norm_termdeposit_IConfiguration :: "termdeposit_IConfiguration \<Rightarrow> termdeposit_IConfiguration" where
  "norm_termdeposit_IConfiguration m = \<lparr>
     tdc_metadata = map_option norm_weave_IMetadata (tdc_metadata m),
     tdc_owner = norm_bytes (tdc_owner m),
     tdc_admin = norm_bytes (tdc_admin m),
     tdc_bonuses = norm_repeated norm_termdeposit_IDepositBonus (tdc_bonuses m),
     tdc_baseRates = norm_repeated norm_termdeposit_ICustomRate (tdc_baseRates m)\<rparr>"

record termdeposit_IUpdateConfigurationMsg =
  tdu_metadata :: "weave_IMetadata option"
  tdu_patch :: "termdeposit_IConfiguration option"

definition norm_termdeposit_IUpdateConfigurationMsg :: "termdeposit_IUpdateConfigurationMsg \<Rightarrow> termdeposit_IUpdateConfigurationMsg" where
  "norm_termdeposit_IUpdateConfigurationMsg m = \<lparr>
     tdu_metadata = map_option norm_weave_IMetadata (tdu_metadata m),
     tdu_patch = map_option norm_termdeposit_IConfiguration (tdu_patch m)\<rparr>"

record txfee_IConfiguration =
  tfc_metadata :: "weave_IMetadata option"
  tfc_owner :: "byte list option"
  tfc_freeBytes :: "number option"
  tfc_baseFee :: "coin_ICoin option"

definition norm_txfee_IConfiguration :: "txfee_IConfiguration \<Rightarrow> txfee_IConfiguration" where
  "norm_txfee_IConfiguration m = \<lparr>
     tfc_metadata = map_option norm_weave_IMetadata (tfc_metadata m),
     tfc_owner = norm_bytes (tfc_owner m),
     tfc_freeBytes = norm_number (tfc_freeBytes m),
     tfc_baseFee = map_option norm_coin_ICoin (tfc_baseFee m)\<rparr>"

record txfee_IUpdateConfigurationMsg =
  tfu_metadata :: "weave_IMetadata option"
  tfu_patch :: "txfee_IConfiguration option"

definition norm_txfee_IUpdateConfigurationMsg :: "txfee_IUpdateConfigurationMsg \<Rightarrow> txfee_IUpdateConfigurationMsg" where
  "norm_txfee_IUpdateConfigurationMsg m = \<lparr>
     tfu_metadata = map_option norm_weave_IMetadata (tfu_metadata m),
     tfu_patch = map_option norm_txfee_IConfiguration (tfu_patch m)\<rparr>"

record cash_IConfiguration =
  csc_metadata :: "weave_IMetadata option"
  csc_owner :: "byte list option"
  csc_collectorAddress :: "byte list option"
  csc_minimalFee :: "coin_ICoin option"

definition norm_cash_IConfiguration :: "cash_IConfiguration \<Rightarrow> cash_IConfiguration" where
  "norm_cash_IConfiguration m = \<lparr>
     csc_metadata = map_option norm_weave_IMetadata (csc_metadata m),
     csc_owner = norm_bytes (csc_owner m),
     csc_collectorAddress = norm_bytes (csc_collectorAddress m),
     csc_minimalFee = map_option norm_coin_ICoin (csc_minimalFee m)\<rparr>"

record cash_IUpdateConfigurationMsg =
  csu_metadata :: "weave_IMetadata option"
  csu_patch :: "cash_IConfiguration option"

definition norm_cash_IUpdateConfigurationMsg :: "cash_IUpdateConfigurationMsg \<Rightarrow> cash_IUpdateConfigurationMsg" where
  "norm_cash_IUpdateConfigurationMsg m = \<lparr>
     csu_metadata = map_option norm_weave_IMetadata (csu_metadata m),
     csu_patch = map_option norm_cash_IConfiguration (csu_patch m)\<rparr>"

record ExecuteProposalBatchMsg_IUnion =
  un_sendMsg :: "cash_ISendMsg option"

definition norm_IUnion :: "ExecuteProposalBatchMsg_IUnion \<Rightarrow> ExecuteProposalBatchMsg_IUnion" where
  "norm_IUnion m = \<lparr>un_sendMsg = map_option norm_cash_ISendMsg (un_sendMsg m)\<rparr>"

record bnsd_IExecuteProposalBatchMsg =
  eb_messages :: "ExecuteProposalBatchMsg_IUnion list option"

definition norm_bnsd_IExecuteProposalBatchMsg ::
  "bnsd_IExecuteProposalBatchMsg \<Rightarrow> bnsd_IExecuteProposalBatchMsg" where
  "norm_bnsd_IExecuteProposalBatchMsg m = \<lparr>eb_messages = norm_repeated norm_IUnion (eb_messages m)\<rparr>"

text \<open>The oneof of a proposal: the messages \<open>decodeRawProposalOption\<close> looks for.\<close>

record bnsd_IProposalOptions =
  po_govCreateTextResolutionMsg :: "gov_ICreateTextResolutionMsg option"
  po_escrowReleaseMsg :: "escrow_IReleaseMsg option"
  po_executeProposalBatchMsg :: "bnsd_IExecuteProposalBatchMsg option"
  po_govUpdateElectionRuleMsg :: "gov_IUpdateElectionRuleMsg option"
  po_govUpdateElectorateMsg :: "gov_IUpdateElectorateMsg option"
  po_validatorsApplyDiffMsg :: "validators_IApplyDiffMsg option"
  po_msgfeeSetMsgFeeMsg :: "msgfee_ISetMsgFeeMsg option"
  po_datamigrationExecuteMigrationMsg :: "datamigration_IExecuteMigrationMsg option"
  po_migrationUpgradeSchemaMsg :: "migration_IUpgradeSchemaMsg option"
  po_msgfeeUpdateConfigurationMsg :: "msgfee_IUpdateConfigurationMsg option"
  po_preregistrationUpdateConfigurationMsg :: "preregistration_IUpdateConfigurationMsg option"
  po_qualityscoreUpdateConfigurationMsg :: "qualityscore_IUpdateConfigurationMsg option"
  po_termdepositUpdateConfigurationMsg :: "termdeposit_IUpdateConfigurationMsg option"
  po_txfeeUpdateConfigurationMsg :: "txfee_IUpdateConfigurationMsg option"
  po_cashUpdateConfigurationMsg :: "cash_IUpdateConfigurationMsg option"
  po_accountUpdateConfigurationMsg :: "account_IUpdateConfigurationMsg option"
  po_accountRegisterDomainMsg :: "account_IRegisterDomainMsg option"
  po_accountRenewDomainMsg :: "account_IRenewDomainMsg option"
  po_accountReplaceAccountMsgFeesMsg :: "account_IReplaceAccountMsgFeesMsg option"
  po_accountReplaceAccountTargetsMsg :: "account_IReplaceAccountTargetsMsg option"
  po_accountAddAccountCertificateMsg :: "account_IAddAccountCertificateMsg option"
  po_accountDeleteAccountCertificateMsg :: "account_IDeleteAccountCertificateMsg option"

definition no_option :: bnsd_IProposalOptions where
  "no_option = \<lparr>
     po_govCreateTextResolutionMsg = None,
     po_escrowReleaseMsg = None,
     po_executeProposalBatchMsg = None,
     po_govUpdateElectionRuleMsg = None,
     po_govUpdateElectorateMsg = None,
     po_validatorsApplyDiffMsg = None,
     po_msgfeeSetMsgFeeMsg = None,
     po_datamigrationExecuteMigrationMsg = None,
     po_migrationUpgradeSchemaMsg = None,
     po_msgfeeUpdateConfigurationMsg = None,
     po_preregistrationUpdateConfigurationMsg = None,
     po_qualityscoreUpdateConfigurationMsg = None,
     po_termdepositUpdateConfigurationMsg = None,
     po_txfeeUpdateConfigurationMsg = None,
     po_cashUpdateConfigurationMsg = None,
     po_accountUpdateConfigurationMsg = None,
     po_accountRegisterDomainMsg = None,
     po_accountRenewDomainMsg = None,
     po_accountReplaceAccountMsgFeesMsg = None,
     po_accountReplaceAccountTargetsMsg = None,
     po_accountAddAccountCertificateMsg = None,
     po_accountDeleteAccountCertificateMsg = None\<rparr>"

definition norm_bnsd_IProposalOptions :: "bnsd_IProposalOptions \<Rightarrow> bnsd_IProposalOptions" where
  "norm_bnsd_IProposalOptions m = \<lparr>
     po_govCreateTextResolutionMsg = map_option norm_gov_ICreateTextResolutionMsg (po_govCreateTextResolutionMsg m),
     po_escrowReleaseMsg = map_option norm_escrow_IReleaseMsg (po_escrowReleaseMsg m),
     po_executeProposalBatchMsg = map_option norm_bnsd_IExecuteProposalBatchMsg (po_executeProposalBatchMsg m),
     po_govUpdateElectionRuleMsg = map_option norm_gov_IUpdateElectionRuleMsg (po_govUpdateElectionRuleMsg m),
     po_govUpdateElectorateMsg = map_option norm_gov_IUpdateElectorateMsg (po_govUpdateElectorateMsg m),
     po_validatorsApplyDiffMsg = map_option norm_validators_IApplyDiffMsg (po_validatorsApplyDiffMsg m),
     po_msgfeeSetMsgFeeMsg = map_option norm_msgfee_ISetMsgFeeMsg (po_msgfeeSetMsgFeeMsg m),
     po_datamigrationExecuteMigrationMsg = map_option norm_datamigration_IExecuteMigrationMsg (po_datamigrationExecuteMigrationMsg m),
     po_migrationUpgradeSchemaMsg = map_option norm_migration_IUpgradeSchemaMsg (po_migrationUpgradeSchemaMsg m),
     po_msgfeeUpdateConfigurationMsg = map_option norm_msgfee_IUpdateConfigurationMsg (po_msgfeeUpdateConfigurationMsg m),
     po_preregistrationUpdateConfigurationMsg = map_option norm_preregistration_IUpdateConfigurationMsg (po_preregistrationUpdateConfigurationMsg m),
     po_qualityscoreUpdateConfigurationMsg = map_option norm_qualityscore_IUpdateConfigurationMsg (po_qualityscoreUpdateConfigurationMsg m),
     po_termdepositUpdateConfigurationMsg = map_option norm_termdeposit_IUpdateConfigurationMsg (po_termdepositUpdateConfigurationMsg m),
     po_txfeeUpdateConfigurationMsg = map_option norm_txfee_IUpdateConfigurationMsg (po_txfeeUpdateConfigurationMsg m),
     po_cashUpdateConfigurationMsg = map_option norm_cash_IUpdateConfigurationMsg (po_cashUpdateConfigurationMsg m),
     po_accountUpdateConfigurationMsg = map_option norm_account_IUpdateConfigurationMsg (po_accountUpdateConfigurationMsg m),
     po_accountRegisterDomainMsg = map_option norm_account_IRegisterDomainMsg (po_accountRegisterDomainMsg m),
     po_accountRenewDomainMsg = map_option norm_account_IRenewDomainMsg (po_accountRenewDomainMsg m),
     po_accountReplaceAccountMsgFeesMsg = map_option norm_account_IReplaceAccountMsgFeesMsg (po_accountReplaceAccountMsgFeesMsg m),
     po_accountReplaceAccountTargetsMsg = map_option norm_account_IReplaceAccountTargetsMsg (po_accountReplaceAccountTargetsMsg m),
     po_accountAddAccountCertificateMsg = map_option norm_account_IAddAccountCertificateMsg (po_accountAddAccountCertificateMsg m),
     po_accountDeleteAccountCertificateMsg = map_option norm_account_IDeleteAccountCertificateMsg (po_accountDeleteAccountCertificateMsg m)\<rparr>"

section \<open>Transactions\<close>

text \<open>The message part of a transaction, \<open>BnsdTxMsg\<close> of \<open>types.ts\<close>, and the transaction.\<close>

record BnsdTxMsg =
  cashSendMsg :: "cash_ISendMsg option"
  aswapCreateMsg :: "aswap_ICreateMsg option"
  aswapReleaseMsg :: "aswap_IReleaseMsg option"
  aswapReturnMsg :: "aswap_IReturnMsg option"
  usernameRegisterTokenMsg :: "username_IRegisterTokenMsg option"
  usernameChangeTokenTargetsMsg :: "username_IChangeTokenTargetsMsg option"
  usernameTransferTokenMsg :: "username_ITransferTokenMsg option"
  accountUpdateConfigurationMsg :: "account_IUpdateConfigurationMsg option"
  accountRegisterDomainMsg :: "account_IRegisterDomainMsg option"
  accountTransferDomainMsg :: "account_ITransferDomainMsg option"
  accountRenewDomainMsg :: "account_IRenewDomainMsg option"
  accountDeleteDomainMsg :: "account_IDeleteDomainMsg option"
  accountRegisterAccountMsg :: "account_IRegisterAccountMsg option"
  accountTransferAccountMsg :: "account_ITransferAccountMsg option"
  accountReplaceAccountTargetsMsg :: "account_IReplaceAccountTargetsMsg option"
  accountDeleteAccountMsg :: "account_IDeleteAccountMsg option"
  accountFlushDomainMsg :: "account_IFlushDomainMsg option"
  accountRenewAccountMsg :: "account_IRenewAccountMsg option"
  accountAddAccountCertificateMsg :: "account_IAddAccountCertificateMsg option"
  accountReplaceAccountMsgFeesMsg :: "account_IReplaceAccountMsgFeesMsg option"
  accountDeleteAccountCertificateMsg :: "account_IDeleteAccountCertificateMsg option"
  multisigCreateMsg :: "multisig_ICreateMsg option"
  multisigUpdateMsg :: "multisig_IUpdateMsg option"
  escrowCreateMsg :: "escrow_ICreateMsg option"
  escrowReleaseMsg :: "escrow_IReleaseMsg option"
  escrowReturnMsg :: "escrow_IReturnMsg option"
  escrowUpdatePartiesMsg :: "escrow_IUpdatePartiesMsg option"
  govCreateProposalMsg :: "gov_ICreateProposalMsg option"
  govVoteMsg :: "gov_IVoteMsg option"

definition no_msg :: BnsdTxMsg where
  "no_msg = \<lparr>
     cashSendMsg = None,
     aswapCreateMsg = None,
     aswapReleaseMsg = None,
     aswapReturnMsg = None,
     usernameRegisterTokenMsg = None,
     usernameChangeTokenTargetsMsg = None,
     usernameTransferTokenMsg = None,
     accountUpdateConfigurationMsg = None,
     accountRegisterDomainMsg = None,
     accountTransferDomainMsg = None,
     accountRenewDomainMsg = None,
     accountDeleteDomainMsg = None,
     accountRegisterAccountMsg = None,
     accountTransferAccountMsg = None,
     accountReplaceAccountTargetsMsg = None,
     accountDeleteAccountMsg = None,
     accountFlushDomainMsg = None,
     accountRenewAccountMsg = None,
     accountAddAccountCertificateMsg = None,
     accountReplaceAccountMsgFeesMsg = None,
     accountDeleteAccountCertificateMsg = None,
     multisigCreateMsg = None,
     multisigUpdateMsg = None,
     escrowCreateMsg = None,
     escrowReleaseMsg = None,
     escrowReturnMsg = None,
     escrowUpdatePartiesMsg = None,
     govCreateProposalMsg = None,
     govVoteMsg = None\<rparr>"

definition norm_BnsdTxMsg :: "BnsdTxMsg \<Rightarrow> BnsdTxMsg" where
  "norm_BnsdTxMsg m = \<lparr>
     cashSendMsg = map_option norm_cash_ISendMsg (cashSendMsg m),
     aswapCreateMsg = map_option norm_aswap_ICreateMsg (aswapCreateMsg m),
     aswapReleaseMsg = map_option norm_aswap_IReleaseMsg (aswapReleaseMsg m),
     aswapReturnMsg = map_option norm_aswap_IReturnMsg (aswapReturnMsg m),
     usernameRegisterTokenMsg = map_option norm_username_IRegisterTokenMsg (usernameRegisterTokenMsg m),
     usernameChangeTokenTargetsMsg = map_option norm_username_IChangeTokenTargetsMsg (usernameChangeTokenTargetsMsg m),
     usernameTransferTokenMsg = map_option norm_username_ITransferTokenMsg (usernameTransferTokenMsg m),
     accountUpdateConfigurationMsg = map_option norm_account_IUpdateConfigurationMsg (accountUpdateConfigurationMsg m),
     accountRegisterDomainMsg = map_option norm_account_IRegisterDomainMsg (accountRegisterDomainMsg m),
     accountTransferDomainMsg = map_option norm_account_ITransferDomainMsg (accountTransferDomainMsg m),
     accountRenewDomainMsg = map_option norm_account_IRenewDomainMsg (accountRenewDomainMsg m),
     accountDeleteDomainMsg = map_option norm_account_IDeleteDomainMsg (accountDeleteDomainMsg m),
     accountRegisterAccountMsg = map_option norm_account_IRegisterAccountMsg (accountRegisterAccountMsg m),
     accountTransferAccountMsg = map_option norm_account_ITransferAccountMsg (accountTransferAccountMsg m),
     accountReplaceAccountTargetsMsg = map_option norm_account_IReplaceAccountTargetsMsg (accountReplaceAccountTargetsMsg m),
     accountDeleteAccountMsg = map_option norm_account_IDeleteAccountMsg (accountDeleteAccountMsg m),
     accountFlushDomainMsg = map_option norm_account_IFlushDomainMsg (accountFlushDomainMsg m),
     accountRenewAccountMsg = map_option norm_account_IRenewAccountMsg (accountRenewAccountMsg m),
     accountAddAccountCertificateMsg = map_option norm_account_IAddAccountCertificateMsg (accountAddAccountCertificateMsg m),
     accountReplaceAccountMsgFeesMsg = map_option norm_account_IReplaceAccountMsgFeesMsg (accountReplaceAccountMsgFeesMsg m),
     accountDeleteAccountCertificateMsg = map_option norm_account_IDeleteAccountCertificateMsg (accountDeleteAccountCertificateMsg m),
     multisigCreateMsg = map_option norm_multisig_ICreateMsg (multisigCreateMsg m),
     multisigUpdateMsg = map_option norm_multisig_IUpdateMsg (multisigUpdateMsg m),
     escrowCreateMsg = map_option norm_escrow_ICreateMsg (escrowCreateMsg m),
     escrowReleaseMsg = map_option norm_escrow_IReleaseMsg (escrowReleaseMsg m),
     escrowReturnMsg = map_option norm_escrow_IReturnMsg (escrowReturnMsg m),
     escrowUpdatePartiesMsg = map_option norm_escrow_IUpdatePartiesMsg (escrowUpdatePartiesMsg m),
     govCreateProposalMsg = map_option norm_gov_ICreateProposalMsg (govCreateProposalMsg m),
     govVoteMsg = map_option norm_gov_IVoteMsg (govVoteMsg m)\<rparr>"

record crypto_IPublicKey =
  pub_ed25519 :: "byte list option"

definition norm_crypto_IPublicKey :: "crypto_IPublicKey \<Rightarrow> crypto_IPublicKey" where
  "norm_crypto_IPublicKey m = \<lparr>
     pub_ed25519 = norm_bytes (pub_ed25519 m)\<rparr>"

record crypto_IPrivateKey =
  priv_ed25519 :: "byte list option"

definition norm_crypto_IPrivateKey :: "crypto_IPrivateKey \<Rightarrow> crypto_IPrivateKey" where
  "norm_crypto_IPrivateKey m = \<lparr>
     priv_ed25519 = norm_bytes (priv_ed25519 m)\<rparr>"

record crypto_ISignature =
  sg_ed25519 :: "byte list option"

definition norm_crypto_ISignature :: "crypto_ISignature \<Rightarrow> crypto_ISignature" where
  "norm_crypto_ISignature m = \<lparr>
     sg_ed25519 = norm_bytes (sg_ed25519 m)\<rparr>"

record sigs_IStdSignature =
  ss_sequence :: "wire_int option"
  ss_pubkey :: "crypto_IPublicKey option"
  ss_signature :: "crypto_ISignature option"

definition norm_sigs_IStdSignature :: "sigs_IStdSignature \<Rightarrow> sigs_IStdSignature" where
  "norm_sigs_IStdSignature m = \<lparr>
     ss_sequence = norm_int64 (ss_sequence m),
     ss_pubkey = map_option norm_crypto_IPublicKey (ss_pubkey m),
     ss_signature = map_option norm_crypto_ISignature (ss_signature m)\<rparr>"

record bnsd_ITx =
  itx_msg :: BnsdTxMsg
  itx_fees :: "cash_IFeeInfo option"
  itx_signatures :: "sigs_IStdSignature list option"
  itx_multisig :: "byte list list option"

definition norm_bnsd_ITx :: "bnsd_ITx \<Rightarrow> bnsd_ITx" where
  "norm_bnsd_ITx m = \<lparr>
     itx_msg = norm_BnsdTxMsg (itx_msg m),
     itx_fees = map_option norm_cash_IFeeInfo (itx_fees m),
     itx_signatures = norm_repeated norm_sigs_IStdSignature (itx_signatures m),
     itx_multisig = norm_repeated (\<lambda>b. b) (itx_multisig m)\<rparr>"

text \<open>The unfolding of all message normalisations.\<close>

lemmas norm_defs =
  norm_weave_IMetadata_def
  norm_coin_ICoin_def
  norm_IFraction_def
  norm_cash_ISendMsg_def
  norm_cash_IFeeInfo_def
  norm_aswap_ICreateMsg_def
  norm_aswap_IReleaseMsg_def
  norm_aswap_IReturnMsg_def
  norm_username_IBlockchainAddress_def
  norm_username_IRegisterTokenMsg_def
  norm_username_IChangeTokenTargetsMsg_def
  norm_username_ITransferTokenMsg_def
  norm_account_IConfiguration_def
  norm_account_IUpdateConfigurationMsg_def
  norm_account_IAccountMsgFee_def
  norm_account_IRegisterDomainMsg_def
  norm_account_ITransferDomainMsg_def
  norm_account_IRenewDomainMsg_def
  norm_account_IDeleteDomainMsg_def
  norm_account_IBlockchainAddress_def
  norm_account_IRegisterAccountMsg_def
  norm_account_ITransferAccountMsg_def
  norm_account_IReplaceAccountTargetsMsg_def
  norm_account_IDeleteAccountMsg_def
  norm_account_IFlushDomainMsg_def
  norm_account_IRenewAccountMsg_def
  norm_account_IAddAccountCertificateMsg_def
  norm_account_IReplaceAccountMsgFeesMsg_def
  norm_account_IDeleteAccountCertificateMsg_def
  norm_multisig_IParticipant_def
  norm_multisig_ICreateMsg_def
  norm_multisig_IUpdateMsg_def
  norm_escrow_ICreateMsg_def
  norm_escrow_IReleaseMsg_def
  norm_escrow_IReturnMsg_def
  norm_escrow_IUpdatePartiesMsg_def
  norm_gov_ICreateProposalMsg_def
  norm_gov_IVoteMsg_def
  norm_gov_ICreateTextResolutionMsg_def
  norm_gov_IElector_def
  norm_gov_IUpdateElectorateMsg_def
  norm_gov_IUpdateElectionRuleMsg_def
  norm_weave_IPubKey_def
  norm_weave_IValidatorUpdate_def
  norm_validators_IApplyDiffMsg_def
  norm_msgfee_ISetMsgFeeMsg_def
  norm_datamigration_IExecuteMigrationMsg_def
  norm_migration_IUpgradeSchemaMsg_def
  norm_msgfee_IConfiguration_def
  norm_msgfee_IUpdateConfigurationMsg_def
  norm_preregistration_IConfiguration_def
  norm_preregistration_IUpdateConfigurationMsg_def
  norm_qualityscore_IConfiguration_def
  norm_qualityscore_IUpdateConfigurationMsg_def
  norm_termdeposit_ICustomRate_def
  norm_termdeposit_IDepositBonus_def
  norm_termdeposit_IConfiguration_def
  norm_termdeposit_IUpdateConfigurationMsg_def
  norm_txfee_IConfiguration_def
  norm_txfee_IUpdateConfigurationMsg_def
  norm_cash_IConfiguration_def
  norm_cash_IUpdateConfigurationMsg_def
  norm_crypto_IPublicKey_def
  norm_crypto_IPrivateKey_def
  norm_crypto_ISignature_def
  norm_sigs_IStdSignature_def
  norm_IUnion_def norm_bnsd_IExecuteProposalBatchMsg_def

end
