(* ===== verification/Iov_Json.thy ===== *)
theory Iov_Json
  imports Iov_Encoding
begin

text \<open>
  \<open>packages/iov-encoding/src/json.ts\<close>, \<open>typechecks.ts\<close> and
  \<open>transactionencoder.ts\<close>: JavaScript values, the test whether a value is
  compatible with JSON, and the encoding of transactions as JSON in which
  strings and byte arrays carry a prefix. The lemmas show that the encoder
  only produces compatible values and that the decoder recovers what was
  encoded, less the dictionary entries JSON cannot hold.
\<close>

section \<open>Values\<close>

text \<open>
  An object is the list of its own properties in the order of \<open>Object.keys\<close>.
  \<open>Special tag\<close> is any other object, for which \<open>Object.prototype.toString\<close> gives
  \<open>tag\<close> (a Date, a Map, ...); \<open>BufferObj\<close> is a node.js Buffer.
\<close>

datatype js_value =
    Undefined
  | Null
  | Boolean bool
  | Number number
  | Str string
  | Uint8Arr "byte list"
  | BufferObj "byte list"
  | Arr "js_value list"
  | Obj "(string \<times> js_value) list"
  | FunctionObj
  | Special string

fun js_typeof :: "js_value \<Rightarrow> string" where
  "js_typeof Undefined = ''undefined''"
| "js_typeof (Boolean _) = ''boolean''"
| "js_typeof (Number _) = ''number''"
| "js_typeof (Str _) = ''string''"
| "js_typeof FunctionObj = ''function''"
| "js_typeof _ = ''object''"

text \<open>\<open>Object.prototype.toString.call(data)\<close>.\<close>

fun js_tag :: "js_value \<Rightarrow> string" where
  "js_tag Undefined = ''[object Undefined]''"
| "js_tag Null = ''[object Null]''"
| "js_tag (Boolean _) = ''[object Boolean]''"
| "js_tag (Number _) = ''[object Number]''"
| "js_tag (Str _) = ''[object String]''"
| "js_tag (Uint8Arr _) = ''[object Uint8Array]''"
| "js_tag (BufferObj _) = ''[object Uint8Array]''"
| "js_tag (Arr _) = ''[object Array]''"
| "js_tag (Obj _) = ''[object Object]''"
| "js_tag FunctionObj = ''[object Function]''"
| "js_tag (Special tag) = tag"

definition isNonNullObject :: "js_value \<Rightarrow> bool" where
  "isNonNullObject data \<longleftrightarrow> js_typeof data = ''object'' \<and> data \<noteq> Null"

definition isUint8Array :: "js_value \<Rightarrow> bool" where
  "isUint8Array data =
     (if \<not> isNonNullObject data then False
      else if js_tag data \<noteq> ''[object Uint8Array]'' then False
      else case data of BufferObj _ \<Rightarrow> False | _ \<Rightarrow> True)"

section \<open>JSON compatibility\<close>

text \<open>
  The own properties of an object that \<open>Special\<close> stands for are not in the
  model; a \<open>Special\<close> value never has the tag \<open>[object Object]\<close>.
\<close>

fun isJsonCompatibleValue :: "js_value \<Rightarrow> bool"
  and isJsonCompatibleArray :: "js_value \<Rightarrow> bool"
  and isJsonCompatibleDictionary :: "js_value \<Rightarrow> bool"
where
  "isJsonCompatibleValue value =
     (if js_typeof value = ''string'' \<or> js_typeof value = ''number'' \<or> js_typeof value = ''boolean''
         \<or> value = Null \<or> isJsonCompatibleArray value \<or> isJsonCompatibleDictionary value
      then True else False)"
| "isJsonCompatibleArray value =
     (case value of Arr items \<Rightarrow> list_all isJsonCompatibleValue items | _ \<Rightarrow> False)"
| "isJsonCompatibleDictionary data =
     (case data of Obj entries \<Rightarrow> list_all (\<lambda>(key, x). isJsonCompatibleValue x) entries | _ \<Rightarrow> False)"

declare isJsonCompatibleValue.simps [simp del]
declare isJsonCompatibleArray.simps [simp del]
declare isJsonCompatibleDictionary.simps [simp del]

lemma isJsonCompatibleValue_simps [simp]:
  "isJsonCompatibleValue Null"
  "isJsonCompatibleValue (Boolean b)"
  "isJsonCompatibleValue (Number x)"
  "isJsonCompatibleValue (Str s)"
  "isJsonCompatibleValue (Arr items) = list_all isJsonCompatibleValue items"
  "isJsonCompatibleValue (Obj entries) = list_all (\<lambda>(key, x). isJsonCompatibleValue x) entries"
  "\<not> isJsonCompatibleValue Undefined"
  "\<not> isJsonCompatibleValue (Uint8Arr bs)"
  "\<not> isJsonCompatibleValue (BufferObj bs)"
  "\<not> isJsonCompatibleValue FunctionObj"
  "\<not> isJsonCompatibleValue (Special tag)"
  by (simp_all add: isJsonCompatibleValue.simps [of "_ _"] isJsonCompatibleValue.simps [of Null]
      isJsonCompatibleValue.simps [of Undefined] isJsonCompatibleValue.simps [of FunctionObj]
      isJsonCompatibleArray.simps isJsonCompatibleDictionary.simps)

section \<open>TransactionEncoder\<close>

text \<open>
  \<open>out[key] = value\<close> on an object literal: an own property is overwritten or
  appended, except that assigning to \<open>__proto__\<close> never creates one.
\<close>

fun objUpdate :: "(string \<times> 'a) list \<Rightarrow> string \<Rightarrow> 'a \<Rightarrow> (string \<times> 'a) list" where
  "objUpdate [] key value = [(key, value)]"
| "objUpdate ((k, v) # rest) key value =
     (if k = key then (k, value) # rest else (k, v) # objUpdate rest key value)"

definition objSet :: "(string \<times> js_value) list \<Rightarrow> string \<Rightarrow> js_value \<Rightarrow> (string \<times> js_value) list" where
  "objSet out key value = (if key = ''__proto__'' then out else objUpdate out key value)"

fun toJson :: "js_value \<Rightarrow> js_value result"
  and toJsonEntries :: "(string \<times> js_value) list \<Rightarrow> (string \<times> js_value) list
    \<Rightarrow> (string \<times> js_value) list result"
where
  "toJson (Number x) = ok (Number x)"
| "toJson (Boolean b) = ok (Boolean b)"
| "toJson Null = ok Null"
| "toJson (Str s) = ok (Str (''string:'' @ s))"
| "toJson (Uint8Arr bs) = ok (Str (''bytes:'' @ toHex bs))"
| "toJson (Arr items) = andThen (mapM toJson items) (\<lambda>out. ok (Arr out))"
| "toJson (Obj entries) = andThen (toJsonEntries entries []) (\<lambda>out. ok (Obj out))"
| "toJson _ = throw ''Cannot encode type to JSON''"
| "toJsonEntries [] out = ok out"
| "toJsonEntries ((key, value) # rest) out =
     (if value = Undefined then toJsonEntries rest out
      else andThen (toJson value) (\<lambda>j. toJsonEntries rest (objSet out key j)))"

fun fromJson :: "js_value \<Rightarrow> js_value result"
  and fromJsonEntries :: "(string \<times> js_value) list \<Rightarrow> (string \<times> js_value) list
    \<Rightarrow> (string \<times> js_value) list result"
where
  "fromJson (Number x) = ok (Number x)"
| "fromJson (Boolean b) = ok (Boolean b)"
| "fromJson Null = ok Null"
| "fromJson (Str s) =
     (if startsWith s ''string:'' then ok (Str (drop (length ''string:'') s))
      else if startsWith s ''bytes:''
      then andThen (fromHex (drop (length ''bytes:'') s)) (\<lambda>bs. ok (Uint8Arr bs))
      else throw ''Found string with unknown prefix'')"
| "fromJson (Arr items) = andThen (mapM fromJson items) (\<lambda>out. ok (Arr out))"
| "fromJson (Obj entries) = andThen (fromJsonEntries entries []) (\<lambda>out. ok (Obj out))"
| "fromJson _ = throw ''Cannot decode type from JSON''"
| "fromJsonEntries [] out = ok out"
| "fromJsonEntries ((key, value) # rest) out =
     andThen (fromJson value) (\<lambda>v. fromJsonEntries rest (objSet out key v))"

text \<open>What JSON keeps of a value, and the values that can be encoded.\<close>

fun json_part :: "js_value \<Rightarrow> js_value" where
  "json_part (Arr items) = Arr (map json_part items)"
| "json_part (Obj entries) = Obj (map (\<lambda>(k, v). (k, json_part v))
     (filter (\<lambda>(k, v). v \<noteq> Undefined \<and> k \<noteq> ''__proto__'') entries))"
| "json_part v = v"

fun encodable :: "js_value \<Rightarrow> bool" where
  "encodable (Arr items) = list_all encodable items"
| "encodable (Obj entries) \<longleftrightarrow> distinct (map fst entries)
     \<and> list_all (\<lambda>(k, v). v = Undefined \<or> encodable v) entries"
| "encodable Undefined = False"
| "encodable (BufferObj _) = False"
| "encodable FunctionObj = False"
| "encodable (Special _) = False"
| "encodable _ = True"

lemma objUpdate_new: "key \<notin> set (map fst out) \<Longrightarrow> objUpdate out key v = out @ [(key, v)]"
  by (induction out) auto

text \<open>The loops over the entries, given what happens to each value.\<close>

abbreviation kept :: "string \<times> js_value \<Rightarrow> bool" where
  "kept e \<equiv> snd e \<noteq> Undefined \<and> fst e \<noteq> ''__proto__''"

lemma toJsonEntries_ok:
  "distinct (map fst entries) \<Longrightarrow> set (map fst entries) \<inter> set (map fst out) = {} \<Longrightarrow>
   (\<And>k v. (k, v) \<in> set entries \<Longrightarrow> v \<noteq> Undefined \<Longrightarrow> toJson v = ok (g v)) \<Longrightarrow>
   toJsonEntries entries out = ok (out @ map (\<lambda>(k, v). (k, g v)) (filter kept entries))"
proof (induction entries arbitrary: out)
  case Nil
  then show ?case by simp
next
  case (Cons e entries)
  obtain k v where e: "e = (k, v)" by (cases e)
  have k: "k \<notin> set (map fst out)" using Cons.prems(2) by (simp add: e)
  show ?case
  proof (cases "v = Undefined")
    case True
    then show ?thesis using Cons by (simp add: e)
  next
    case False
    then have "toJson v = ok (g v)" using Cons.prems(3) [of k v] by (simp add: e)
    moreover have "objSet out k (g v) = out @ (if k = ''__proto__'' then [] else [(k, g v)])"
      using k by (simp add: objSet_def objUpdate_new)
    moreover have "toJsonEntries entries (out @ (if k = ''__proto__'' then [] else [(k, g v)]))
        = ok ((out @ (if k = ''__proto__'' then [] else [(k, g v)])) @
            map (\<lambda>(k, v). (k, g v)) (filter kept entries))"
      using Cons.prems by (intro Cons.IH) (auto simp: e)
    ultimately show ?thesis using False by (simp add: e)
  qed
qed

lemma fromJsonEntries_ok:
  "distinct (map fst entries) \<Longrightarrow> set (map fst entries) \<inter> set (map fst out) = {} \<Longrightarrow>
   ''__proto__'' \<notin> set (map fst entries) \<Longrightarrow>
   (\<And>k v. (k, v) \<in> set entries \<Longrightarrow> fromJson (g v) = ok (h v)) \<Longrightarrow>
   fromJsonEntries (map (\<lambda>(k, v). (k, g v)) entries) out = ok (out @ map (\<lambda>(k, v). (k, h v)) entries)"
proof (induction entries arbitrary: out)
  case Nil
  then show ?case by simp
next
  case (Cons e entries)
  obtain k v where e: "e = (k, v)" by (cases e)
  have "fromJson (g v) = ok (h v)" using Cons.prems(4) [of k v] by (simp add: e)
  moreover have "objSet out k (h v) = out @ [(k, h v)]"
    using Cons.prems(2,3) by (auto simp: e objSet_def objUpdate_new)
  moreover have "fromJsonEntries (map (\<lambda>(k, v). (k, g v)) entries) (out @ [(k, h v)])
      = ok ((out @ [(k, h v)]) @ map (\<lambda>(k, v). (k, h v)) entries)"
    using Cons.prems by (intro Cons.IH) (auto simp: e)
  ultimately show ?case by (simp add: e)
qed

text \<open>The encoding of a value that can be encoded, as a total function.\<close>

fun json_image :: "js_value \<Rightarrow> js_value" where
  "json_image (Str s) = Str (''string:'' @ s)"
| "json_image (Uint8Arr bs) = Str (''bytes:'' @ toHex bs)"
| "json_image (Arr items) = Arr (map json_image items)"
| "json_image (Obj entries) = Obj (map (\<lambda>(k, v). (k, json_image v))
     (filter (\<lambda>(k, v). v \<noteq> Undefined \<and> k \<noteq> ''__proto__'') entries))"
| "json_image v = v"

lemma filter_kept: "filter (\<lambda>(k, v). v \<noteq> Undefined \<and> k \<noteq> ''__proto__'') entries = filter kept entries"
  by (auto intro: filter_cong)

lemma distinct_filter_keys: "distinct (map fst xs) \<Longrightarrow> distinct (map fst (filter P xs))"
  by (induction xs) auto

lemma json_image_correct:
  "encodable v \<Longrightarrow> toJson v = ok (json_image v) \<and> isJsonCompatibleValue (json_image v)
     \<and> fromJson (json_image v) = ok (json_part v)"
proof (induction v)
  case (Arr items)
  then have "mapM toJson items = ok (map json_image items)"
    by (intro mapM_ok) (auto simp: list_all_iff)
  moreover have "mapM fromJson (map json_image items) = ok (map json_part items)"
    unfolding mapM_map using Arr by (intro mapM_ok) (auto simp: list_all_iff)
  moreover have "list_all isJsonCompatibleValue (map json_image items)"
    using Arr by (auto simp: list_all_iff)
  ultimately show ?case by simp
next
  case (Obj entries)
  have IH: "toJson v = ok (json_image v) \<and> isJsonCompatibleValue (json_image v)
      \<and> fromJson (json_image v) = ok (json_part v)" if "(k, v) \<in> set entries" "v \<noteq> Undefined" for k v
    using Obj.IH [of "(k, v)" v] Obj.prems that by (auto simp: list_all_iff)
  have d: "distinct (map fst entries)" using Obj.prems by simp
  have "toJsonEntries entries [] = ok ([] @ map (\<lambda>(k, v). (k, json_image v)) (filter kept entries))"
    using d IH by (intro toJsonEntries_ok) auto
  moreover have "fromJsonEntries (map (\<lambda>(k, v). (k, json_image v)) (filter kept entries)) []
      = ok ([] @ map (\<lambda>(k, v). (k, json_part v)) (filter kept entries))"
    using distinct_filter_keys [OF d] IH by (intro fromJsonEntries_ok) auto
  moreover have "list_all (\<lambda>(k, x). isJsonCompatibleValue x)
      (map (\<lambda>(k, v). (k, json_image v)) (filter kept entries))"
    using IH by (auto simp: list_all_iff)
  ultimately show ?case by (simp add: filter_kept)
next
  case (Str s)
  then show ?case using startsWith_append [of "''string:''" s] by simp
next
  case (Uint8Arr bs)
  have "\<not> startsWith (''bytes:'' @ toHex bs) ''string:''" by (simp add: startsWith_def)
  then show ?case using startsWith_append [of "''bytes:''" "toHex bs"] hex.dec_enc [of bs] by simp
qed simp_all

text \<open>What cannot be encoded is rejected, at any depth.\<close>

lemma toJsonEntries_error:
  "(k, v) \<in> set entries \<Longrightarrow> v \<noteq> Undefined \<Longrightarrow> \<not> is_ok (toJson v) \<Longrightarrow> \<not> is_ok (toJsonEntries entries out)"
proof (induction entries arbitrary: out)
  case (Cons e entries)
  then show ?case
    by (cases e; cases "toJson (snd e)") (auto simp: is_ok_iff)
qed simp

lemma mapM_not_ok: "x \<in> set xs \<Longrightarrow> \<not> is_ok (f x) \<Longrightarrow> \<not> is_ok (mapM f xs)"
  by (auto simp: is_ok_iff mapM_eq_Inr list_all2_conv_all_nth in_set_conv_nth)

fun unsupported :: "js_value \<Rightarrow> bool" where
  "unsupported (Arr items) = list_ex unsupported items"
| "unsupported (Obj entries) = list_ex (\<lambda>(k, v). v \<noteq> Undefined \<and> unsupported v) entries"
| "unsupported Undefined = True"
| "unsupported (BufferObj _) = True"
| "unsupported FunctionObj = True"
| "unsupported (Special _) = True"
| "unsupported _ = False"

lemma unsupported_rejected: "unsupported v \<Longrightarrow> \<not> is_ok (toJson v)"
proof (induction v)
  case (Arr items)
  then obtain x where "x \<in> set items" "\<not> is_ok (toJson x)" by (auto simp: list_ex_iff)
  then have "\<not> is_ok (mapM toJson items)" by (rule mapM_not_ok)
  then show ?case by (cases "mapM toJson items") auto
next
  case (Obj entries)
  then obtain k x where "(k, x) \<in> set entries" "x \<noteq> Undefined" "\<not> is_ok (toJson x)"
    by (fastforce simp: list_ex_iff)
  then have "\<not> is_ok (toJsonEntries entries [])" by (rule toJsonEntries_error)
  then show ?case by (cases "toJsonEntries entries []") auto
qed simp_all

section \<open>Properties\<close>

text \<open>
  The JSON encoding of transactions: every value built from the supported
  types is encoded, the result is compatible with JSON, and decoding it gives
  the value back without the dictionary entries that are \<open>undefined\<close> or named
  \<open>__proto__\<close>.
\<close>

lemma toJson_fromJson:
  "encodable v \<Longrightarrow> \<exists>j. toJson v = ok j \<and> isJsonCompatibleValue j \<and> fromJson j = ok (json_part v)"
  using json_image_correct [of v] by blast

text \<open>
  The encoder throws on every value that holds, at any depth, something JSON
  cannot represent (a function, a Buffer, a special object, an \<open>undefined\<close> array
  element).
\<close>

lemma toJson_rejects_unsupported: "unsupported v \<Longrightarrow> \<not> is_ok (toJson v)"
  by (rule unsupported_rejected)

end
