(* ===== verification/Bcp_Types.thy ===== *)
theory Bcp_Types
  imports Iov_Json
begin

text \<open>
  \<open>packages/iov-bcp/src/transactions.ts\<close> and \<open>atomicswaptypes.ts\<close>: the data of the
  blockchain-independent protocol, the equality tests on public keys,
  identities and swap ids, and the run-time type guards, which test arbitrary
  JavaScript values. An optional property is an option.
\<close>

section \<open>Keys and identities\<close>

datatype Algorithm = Ed25519 | Secp256k1

record PubkeyBundle =
  pk_algo :: Algorithm
  pk_data :: "byte list"

text \<open>\<open>left.every((value, index) => value === right[index])\<close>.\<close>

fun every_equal :: "byte list \<Rightarrow> byte list \<Rightarrow> bool" where
  "every_equal [] right = True"
| "every_equal (v # left) right =
     (case right of [] \<Rightarrow> False | w # right' \<Rightarrow> v = w \<and> every_equal left right')"

definition pubkeyBundleEquals :: "PubkeyBundle \<Rightarrow> PubkeyBundle \<Rightarrow> bool" where
  "pubkeyBundleEquals left right \<longleftrightarrow>
     pk_algo left = pk_algo right \<and>
     length (pk_data left) = length (pk_data right) \<and>
     every_equal (pk_data left) (pk_data right)"

type_synonym ChainId = string

record Identity =
  id_chainId :: ChainId
  id_pubkey :: PubkeyBundle

definition identityEquals :: "Identity \<Rightarrow> Identity \<Rightarrow> bool" where
  "identityEquals left right \<longleftrightarrow>
     id_chainId left = id_chainId right \<and> pubkeyBundleEquals (id_pubkey left) (id_pubkey right)"

type_synonym Nonce = number

record SwapId =
  swap_prefix :: "string option"
  swap_data :: "byte list"

definition swapIdEquals :: "SwapId \<Rightarrow> SwapId \<Rightarrow> bool" where
  "swapIdEquals left right \<longleftrightarrow>
     swap_prefix left = swap_prefix right \<and>
     length (swap_data left) = length (swap_data right) \<and>
     every_equal (swap_data left) (swap_data right)"

lemma every_equal_iff: "length left = length right \<Longrightarrow> every_equal left right \<longleftrightarrow> left = right"
  by (induction left right rule: list_induct2) auto

lemma pubkeyBundleEquals_iff [simp]: "pubkeyBundleEquals left right \<longleftrightarrow> left = right"
  by (cases left; cases right) (auto simp: pubkeyBundleEquals_def every_equal_iff)

lemma swapIdEquals_iff [simp]: "swapIdEquals left right \<longleftrightarrow> left = right"
  by (cases left; cases right) (auto simp: swapIdEquals_def every_equal_iff)

lemma identityEquals_iff [simp]: "identityEquals left right \<longleftrightarrow> left = right"
  by (cases left; cases right) (auto simp: identityEquals_def)

datatype PrehashType = PrehashNone | PrehashSha512 | PrehashSha256 | PrehashKeccak256

record SigningJob =
  job_bytes :: "byte list"
  job_prehashType :: PrehashType

record FullSignature =
  sig_nonce :: Nonce
  sig_pubkey :: PubkeyBundle
  sig_signature :: "byte list"

text \<open>
  A signed transaction, over the transactions of a chain, and the interface that a
  codec of a chain implements.
\<close>

record 'tx SignedTx =
  stx_transaction :: 'tx
  stx_signatures :: "FullSignature list"

record 'tx TxCodec =
  codec_parseBytes :: "byte list \<Rightarrow> ChainId \<Rightarrow> 'tx SignedTx result"
  codec_identityToAddress :: "Identity \<Rightarrow> string result"
  codec_isValidAddress :: "string \<Rightarrow> bool"
  codec_bytesToSign :: "'tx \<Rightarrow> Nonce \<Rightarrow> SigningJob result"
  codec_bytesToPost :: "'tx SignedTx \<Rightarrow> byte list result"
  codec_identifier :: "'tx SignedTx \<Rightarrow> string result"

section \<open>Amounts, fees and transactions\<close>

type_synonym Address = string

record Amount =
  am_quantity :: string
  am_fractionalDigits :: number
  am_tokenTicker :: string

record Fee =
  fee_tokens :: "Amount option"
  fee_gasPrice :: "Amount option"
  fee_gasLimit :: "string option"
  fee_payer :: "Address option"

record SendTransaction =
  send_amount :: Amount
  send_sender :: Address
  send_senderPubkey :: "PubkeyBundle option"
  send_recipient :: Address
  send_memo :: "string option"

datatype SwapTimeout = BlockHeightTimeout number | TimestampTimeout number

fun isBlockHeightTimeout :: "SwapTimeout \<Rightarrow> bool" where
  "isBlockHeightTimeout (BlockHeightTimeout height) = True"
| "isBlockHeightTimeout (TimestampTimeout timestamp) = False"

fun isTimestampTimeout :: "SwapTimeout \<Rightarrow> bool" where
  "isTimestampTimeout (BlockHeightTimeout height) = False"
| "isTimestampTimeout (TimestampTimeout timestamp) = True"

record SwapOfferTransaction =
  offer_swapId :: "SwapId option"
  offer_amounts :: "Amount list"
  offer_sender :: Address
  offer_recipient :: Address
  offer_timeout :: SwapTimeout
  offer_hash :: "byte list"
  offer_memo :: "string option"

record SwapClaimTransaction =
  claim_preimage :: "byte list"
  claim_swapId :: SwapId

record SwapAbortTransaction =
  abort_swapId :: SwapId

section \<open>Swaps\<close>

record SwapData =
  sd_id :: SwapId
  sd_sender :: Address
  sd_recipient :: Address
  sd_hash :: "byte list"
  sd_amounts :: "Amount list"
  sd_timeout :: SwapTimeout
  sd_memo :: "string option"

datatype AtomicSwap =
    OpenSwap SwapData
  | ClaimedSwap SwapData "byte list"
  | AbortedSwap SwapData

fun isOpenSwap :: "AtomicSwap \<Rightarrow> bool" where
  "isOpenSwap (OpenSwap _) = True"
| "isOpenSwap _ = False"

fun isClaimedSwap :: "AtomicSwap \<Rightarrow> bool" where
  "isClaimedSwap (ClaimedSwap _ _) = True"
| "isClaimedSwap _ = False"

fun isAbortedSwap :: "AtomicSwap \<Rightarrow> bool" where
  "isAbortedSwap (AbortedSwap _) = True"
| "isAbortedSwap _ = False"

section \<open>Type guards on values\<close>

text \<open>The property access \<open>data.key\<close> on a non-null object.\<close>

definition js_get :: "js_value \<Rightarrow> string \<Rightarrow> js_value" where
  "js_get data key = (case data of
     Obj entries \<Rightarrow> (case map_of entries key of None \<Rightarrow> Undefined | Some v \<Rightarrow> v)
   | _ \<Rightarrow> Undefined)"

definition isPubkeyBundle :: "js_value \<Rightarrow> bool" where
  "isPubkeyBundle data \<longleftrightarrow>
     isNonNullObject data \<and>
     (js_get data ''algo'' = Str ''ed25519'' \<or> js_get data ''algo'' = Str ''secp256k1'') \<and>
     isUint8Array (js_get data ''data'')"

definition isIdentity :: "js_value \<Rightarrow> bool" where
  "isIdentity data \<longleftrightarrow>
     isNonNullObject data \<and> js_typeof (js_get data ''chainId'') = ''string'' \<and>
     isPubkeyBundle (js_get data ''pubkey'')"

definition isFullSignature :: "js_value \<Rightarrow> bool" where
  "isFullSignature data =
     (if \<not> isNonNullObject data then False
      else js_typeof (js_get data ''nonce'') = ''number'' \<and> isPubkeyBundle (js_get data ''pubkey'') \<and>
        isUint8Array (js_get data ''signature''))"

definition isAmount :: "js_value \<Rightarrow> bool" where
  "isAmount data \<longleftrightarrow>
     isNonNullObject data \<and>
     js_typeof (js_get data ''quantity'') = ''string'' \<and>
     js_typeof (js_get data ''fractionalDigits'') = ''number'' \<and>
     js_typeof (js_get data ''tokenTicker'') = ''string''"

definition isFee :: "js_value \<Rightarrow> bool" where
  "isFee data \<longleftrightarrow>
     isNonNullObject data \<and>
     (isAmount (js_get data ''tokens'') \<or>
      (isAmount (js_get data ''gasPrice'') \<and> js_typeof (js_get data ''gasLimit'') = ''string''))"

definition isUnsignedTransaction :: "js_value \<Rightarrow> bool" where
  "isUnsignedTransaction data =
     (if \<not> isNonNullObject data then False
      else js_typeof (js_get data ''kind'') = ''string'' \<and>
        (js_get data ''fee'' = Undefined \<or> isFee (js_get data ''fee'')) \<and>
        js_typeof (js_get data ''chainId'') = ''string'')"

definition isNonEmptyArray :: "'a list \<Rightarrow> bool" where
  "isNonEmptyArray data \<longleftrightarrow> length data \<ge> 1"

definition newNonEmptyArray :: "'a list \<Rightarrow> 'a list result" where
  "newNonEmptyArray data = (if \<not> isNonEmptyArray data then throw ''Array is empty'' else ok data)"

definition isArrayOfFullSignature :: "js_value \<Rightarrow> bool" where
  "isArrayOfFullSignature signatures =
     (case signatures of Arr items \<Rightarrow> list_all isFullSignature items | _ \<Rightarrow> False)"

definition isSignedTransaction :: "js_value \<Rightarrow> bool" where
  "isSignedTransaction data =
     (if \<not> isNonNullObject data then False
      else if \<not> isUnsignedTransaction (js_get data ''transaction'') then False
      else case js_get data ''signatures'' of
        Arr items \<Rightarrow> isArrayOfFullSignature (Arr items) \<and> isNonEmptyArray items
      | _ \<Rightarrow> False)"

text \<open>The guards look only at what the JSON encoding of a value keeps.\<close>

lemma json_part_Undefined_iff [simp]: "json_part v = Undefined \<longleftrightarrow> v = Undefined"
  by (cases v) auto

lemma map_of_json_part:
  "k \<noteq> ''__proto__'' \<Longrightarrow> distinct (map fst entries) \<Longrightarrow>
   map_of (map (\<lambda>(k, v). (k, json_part v)) (filter kept entries)) k =
     (case map_of entries k of None \<Rightarrow> None | Some v \<Rightarrow> if v = Undefined then None else Some (json_part v))"
proof (induction entries)
  case (Cons e entries)
  have "map_of (map (\<lambda>(k, v). (k, json_part v)) (filter kept entries)) k = None"
    if "k \<notin> fst ` set entries"
    using that by (force simp: map_of_eq_None_iff)
  with Cons show ?case by (cases e) auto
qed simp

lemma js_get_json_part:
  "encodable data \<Longrightarrow> k \<noteq> ''__proto__'' \<Longrightarrow> js_get (json_part data) k = json_part (js_get data k)"
  by (cases data)
     (auto simp: js_get_def filter_kept map_of_json_part split: option.splits)

lemma encodable_js_get: "encodable data \<Longrightarrow> js_get data k \<noteq> Undefined \<Longrightarrow> encodable (js_get data k)"
proof (cases data)
  case (Obj entries)
  assume e: "encodable data" and u: "js_get data k \<noteq> Undefined"
  then obtain v where v: "map_of entries k = Some v" "js_get data k = v"
    by (auto simp: js_get_def Obj split: option.splits)
  then have "(k, v) \<in> set entries" by (simp add: map_of_SomeD)
  with e u v show ?thesis by (auto simp: Obj list_all_iff)
qed (simp_all add: js_get_def)

lemma js_typeof_json_part [simp]: "js_typeof (json_part v) = js_typeof v"
  by (cases v) auto

lemma isNonNullObject_json_part [simp]: "isNonNullObject (json_part v) = isNonNullObject v"
  by (cases v) (auto simp: isNonNullObject_def)

lemma isUint8Array_json_part [simp]: "isUint8Array (json_part v) = isUint8Array v"
  by (cases v) (auto simp: isUint8Array_def)

lemma json_part_Str_iff [simp]: "json_part v = Str s \<longleftrightarrow> v = Str s"
  by (cases v) auto

lemma js_get_Undefined [simp]: "js_get Undefined k = Undefined"
  by (simp add: js_get_def)

lemma isNonNullObject_Undefined [simp]: "\<not> isNonNullObject Undefined"
  by (simp add: isNonNullObject_def)

lemma isAmount_json_part:
  "encodable v \<or> v = Undefined \<Longrightarrow> isAmount (json_part v) = isAmount v"
  by (auto simp: isAmount_def js_get_json_part)

lemma encodable_get: "encodable v \<Longrightarrow> encodable (js_get v k) \<or> js_get v k = Undefined"
  using encodable_js_get by blast

lemma isFee_json_part:
  "encodable v \<or> v = Undefined \<Longrightarrow> isFee (json_part v) = isFee v"
  by (auto simp: isFee_def js_get_json_part isAmount_json_part encodable_get)

lemma isUnsignedTransaction_json_part:
  "encodable v \<or> v = Undefined \<Longrightarrow> isUnsignedTransaction (json_part v) = isUnsignedTransaction v"
  by (auto simp: isUnsignedTransaction_def js_get_json_part isFee_json_part encodable_get)

lemma isPubkeyBundle_json_part:
  "encodable v \<or> v = Undefined \<Longrightarrow> isPubkeyBundle (json_part v) = isPubkeyBundle v"
  by (auto simp: isPubkeyBundle_def js_get_json_part)

lemma isFullSignature_json_part:
  "encodable v \<or> v = Undefined \<Longrightarrow> isFullSignature (json_part v) = isFullSignature v"
  by (auto simp: isFullSignature_def js_get_json_part isPubkeyBundle_json_part encodable_get)

lemma isArrayOfFullSignature_json_part:
  "encodable v \<Longrightarrow> isArrayOfFullSignature (json_part v) = isArrayOfFullSignature v"
  by (cases v) (auto simp: isArrayOfFullSignature_def list_all_iff isFullSignature_json_part)

lemma isSignedTransaction_json_part:
  assumes "encodable v"
  shows "isSignedTransaction (json_part v) = isSignedTransaction v"
proof -
  have t: "isUnsignedTransaction (json_part (js_get v ''transaction''))
      = isUnsignedTransaction (js_get v ''transaction'')"
    using encodable_get [OF assms] by (rule isUnsignedTransaction_json_part)
  show ?thesis
  proof (cases "\<exists>items. js_get v ''signatures'' = Arr items")
    case True
    then obtain items where i: "js_get v ''signatures'' = Arr items" by blast
    then have "encodable (Arr items)" using encodable_js_get [OF assms, of "''signatures''"] by simp
    then have "isArrayOfFullSignature (Arr (map json_part items)) = isArrayOfFullSignature (Arr items)"
      using isArrayOfFullSignature_json_part [of "Arr items"] by simp
    then show ?thesis using assms t i
      by (simp add: isSignedTransaction_def js_get_json_part isNonEmptyArray_def)
  next
    case False
    then have "\<And>items. js_get (json_part v) ''signatures'' \<noteq> Arr items"
      using assms by (cases "js_get v ''signatures''") (auto simp: js_get_json_part)
    with False show ?thesis
      by (auto simp: isSignedTransaction_def split: js_value.splits)
  qed
qed

section \<open>Properties\<close>

text \<open>
  C15. A value without repeated keys that the JSON encoding accepts (\<open>encodable\<close>: no function,
  no \<open>undefined\<close> in an array, no object of another class, at any depth) passes the run-time
  test for a signed transaction exactly if what \<open>fromJson\<close> gives after \<open>toJson\<close> does,
  and likewise for unsigned transactions.
\<close>

theorem signed_transaction_survives_json:
  "encodable v \<Longrightarrow>
     \<exists>w. andThen (toJson v) fromJson = ok w \<and> (isSignedTransaction w \<longleftrightarrow> isSignedTransaction v)
       \<and> (isUnsignedTransaction w \<longleftrightarrow> isUnsignedTransaction v)"
  using json_image_correct [of v]
  by (auto simp: isSignedTransaction_json_part isUnsignedTransaction_json_part)

text \<open>A send with a fee in gas and one signature, and the same without its signature.\<close>

definition demo_signed_value :: "js_value list \<Rightarrow> js_value" where
  "demo_signed_value signatures = Obj [(''transaction'', Obj [(''kind'', Str ''bcp/send''), (''chainId'', Str ''x''),
       (''fee'', Obj [(''gasPrice'', Obj [(''quantity'', Str ''5''), (''fractionalDigits'', Number (int_num 9)),
          (''tokenTicker'', Str ''IOV'')]), (''gasLimit'', Str ''10'')]), (''memo'', Undefined)]),
     (''signatures'', Arr signatures)]"

definition demo_signature_value :: js_value where
  "demo_signature_value = Obj [(''nonce'', Number (int_num 7)),
     (''pubkey'', Obj [(''algo'', Str ''ed25519''), (''data'', Uint8Arr [1, 2])]), (''signature'', Uint8Arr [3])]"

lemma signed_transaction_survives_json_witness:
  "(\<exists>w. andThen (toJson (demo_signed_value [demo_signature_value])) fromJson = ok w \<and> isSignedTransaction w) \<and>
   (\<exists>w. andThen (toJson (demo_signed_value [])) fromJson = ok w \<and> \<not> isSignedTransaction w)"
proof -
  note defs = demo_signed_value_def demo_signature_value_def
  have e: "encodable (demo_signed_value [demo_signature_value])" "encodable (demo_signed_value [])"
    by (simp_all add: defs)
  have "isSignedTransaction (demo_signed_value [demo_signature_value])" "\<not> isSignedTransaction (demo_signed_value [])"
    by (simp_all add: defs isSignedTransaction_def isUnsignedTransaction_def isFee_def isAmount_def isArrayOfFullSignature_def
        isFullSignature_def isPubkeyBundle_def isUint8Array_def isNonEmptyArray_def isNonNullObject_def js_get_def)
  then show ?thesis using signed_transaction_survives_json [OF e(1)] signed_transaction_survives_json [OF e(2)] by blast
qed

end
