(* ===== verification/Bns_Types.thy ===== *)
theory Bns_Types
  imports Bcp_Types
begin

text \<open>
  \<open>packages/iov-bns/src/types.ts\<close>: the transactions of the BNS and the actions of
  its governance proposals. The interfaces that extend \<open>UnsignedTransaction\<close> are
  the constructors of \<open>TxContent\<close>, which carry the properties of the interface; the
  properties all transactions share are the record \<open>UnsignedTransaction\<close>. A
  dictionary of electors or validators is the list of its entries in the order
  of \<open>Object.entries\<close>.
\<close>

section \<open>Accounts and usernames\<close>

record ChainAddressPair =
  cap_chainId :: ChainId
  cap_address :: Address

record AccountConfiguration =
  acc_owner :: Address
  acc_validDomain :: string
  acc_validName :: string
  acc_validBlockchainId :: string
  acc_validBlockchainAddress :: string
  acc_domainRenew :: number
  acc_domainGracePeriod :: number

record AccountMsgFee =
  acm_msgPath :: string
  acm_fee :: Amount

section \<open>Configurations\<close>

record Fraction =
  frac_numerator :: number
  frac_denominator :: number

record CashConfiguration =
  cash_owner :: Address
  cash_collectorAddress :: Address
  cash_minimalFee :: "Amount option"

record TxFeeConfiguration =
  txf_owner :: Address
  txf_freeBytes :: "number option"
  txf_baseFee :: "Amount option"

record MsgFeeConfiguration =
  mfg_owner :: Address
  mfg_feeAdmin :: "Address option"

record PreRegistrationConfiguration =
  pre_owner :: Address

record QualityScoreConfiguration =
  qs_owner :: Address
  qs_c :: Fraction
  qs_k :: Fraction
  qs_kp :: Fraction
  qs_q0 :: Fraction
  qs_x :: Fraction
  qs_xInf :: Fraction
  qs_xSup :: Fraction
  qs_delta :: Fraction

record TermDepositStandardRate =
  tsr_lockinPeriod :: number
  tsr_rate :: Fraction

record TermDepositCustomRate =
  tcr_address :: Address
  tcr_rate :: Fraction

record TermDepositConfiguration =
  td_owner :: Address
  td_admin :: "Address option"
  td_standardRates :: "TermDepositStandardRate list"
  td_customRates :: "TermDepositCustomRate list"

section \<open>Proposals\<close>

text \<open>\<open>Validators\<close> and \<open>Electors\<close>: the single property of an entry is its value.\<close>

type_synonym Validators = "(string \<times> number) list"
type_synonym Electors = "(string \<times> number) list"

datatype VoteOption = Yes | No | Abstain

record SendAction =
  sa_sender :: Address
  sa_recipient :: Address
  sa_amount :: Amount
  sa_memo :: "string option"

text \<open>In \<open>quorum?: Fraction | null\<close> undefined and null are the same to the codec.\<close>

record UpdateElectionRuleAction =
  uer_electionRuleId :: number
  uer_threshold :: "Fraction option"
  uer_quorum :: "Fraction option"
  uer_votingPeriod :: number

record RegisterDomainAction =
  rda_domain :: string
  rda_admin :: Address
  rda_broker :: "Address option"
  rda_hasSuperuser :: bool
  rda_msgFees :: "AccountMsgFee list"
  rda_accountRenew :: number

record SetAccountTargetsAction =
  sat_domain :: string
  sat_name :: string
  sat_newTargets :: "ChainAddressPair list"

record AddAccountCertificateAction =
  aca_domain :: string
  aca_name :: string
  aca_certificate :: "byte list"

record DeleteAccountCertificateAction =
  dca_domain :: string
  dca_name :: string
  dca_certificateHash :: "byte list"

datatype ProposalAction =
    CreateTextResolution string
  | ExecuteProposalBatch "ProposalAction list"
  | ReleaseEscrow (re_escrowId: number) (re_amount: Amount)
  | SendAct SendAction
  | SetMsgFee (smf_msgPath: string) (smf_fee: Amount)
  | SetValidators Validators
  | UpdateElectorate (ue_electorateId: number) (ue_diffElectors: Electors)
  | UpdateElectionRule UpdateElectionRuleAction
  | ExecuteMigration string
  | UpgradeSchema (usa_pkg: string) (usa_toVersion: number)
  | SetMsgFeeConfiguration MsgFeeConfiguration
  | SetPreRegistrationConfiguration PreRegistrationConfiguration
  | SetQualityScoreConfiguration QualityScoreConfiguration
  | SetTermDepositConfiguration TermDepositConfiguration
  | SetTxFeeConfiguration TxFeeConfiguration
  | SetCashConfiguration CashConfiguration
  | SetAccountConfiguration AccountConfiguration
  | RegisterDomainAct RegisterDomainAction
  | RenewDomainAct string
  | SetAccountMsgFees (saf_domain: string) (saf_newMsgFees: "AccountMsgFee list")
  | SetAccountTargets SetAccountTargetsAction
  | AddAccountCertificateAct AddAccountCertificateAction
  | DeleteAccountCertificateAct DeleteAccountCertificateAction

section \<open>Transactions\<close>

record RegisterUsernameTx =
  run_username :: string
  run_targets :: "ChainAddressPair list"

record UpdateTargetsOfUsernameTx =
  utu_username :: string
  utu_targets :: "ChainAddressPair list"

record TransferUsernameTx =
  tu_username :: string
  tu_newOwner :: Address

record UpdateAccountConfigurationTx =
  uac_configuration :: AccountConfiguration

record RegisterDomainTx =
  rd_domain :: string
  rd_admin :: Address
  rd_hasSuperuser :: bool
  rd_broker :: "Address option"
  rd_msgFees :: "AccountMsgFee list"
  rd_accountRenew :: number

record TransferDomainTx =
  trd_domain :: string
  trd_newAdmin :: Address

record RenewDomainTx =
  rnd_domain :: string

record DeleteDomainTx =
  dd_domain :: string

record RegisterAccountTx =
  ra_domain :: string
  ra_name :: string
  ra_owner :: Address
  ra_targets :: "ChainAddressPair list"
  ra_broker :: "Address option"

record TransferAccountTx =
  ta_domain :: string
  ta_name :: string
  ta_newOwner :: Address

record ReplaceAccountTargetsTx =
  rat_domain :: string
  rat_name :: "string option"
  rat_newTargets :: "ChainAddressPair list"

record DeleteAccountTx =
  da_domain :: string
  da_name :: string

record DeleteAllAccountsTx =
  daa_domain :: string

record RenewAccountTx =
  rna_domain :: string
  rna_name :: string

record AddAccountCertificateTx =
  adac_domain :: string
  adac_name :: string
  adac_certificate :: "byte list"

record ReplaceAccountMsgFeesTx =
  ramf_domain :: string
  ramf_newMsgFees :: "AccountMsgFee list"

record DeleteAccountCertificateTx =
  dac_domain :: string
  dac_name :: string
  dac_certificateHash :: "byte list"

record Participant =
  part_address :: Address
  part_weight :: number

record CreateMultisignatureTx =
  cm_participants :: "Participant list"
  cm_activationThreshold :: number
  cm_adminThreshold :: number

record UpdateMultisignatureTx =
  um_contractId :: number
  um_participants :: "Participant list"
  um_activationThreshold :: number
  um_adminThreshold :: number

record CreateEscrowTx =
  ce_sender :: Address
  ce_arbiter :: Address
  ce_recipient :: Address
  ce_amounts :: "Amount list"
  ce_timeout :: number
  ce_memo :: "string option"

record ReleaseEscrowTx =
  rel_escrowId :: number
  rel_amounts :: "Amount list"

record ReturnEscrowTx =
  ret_escrowId :: number

record UpdateEscrowPartiesTx =
  uep_escrowId :: number
  uep_sender :: "Address option"
  uep_arbiter :: "Address option"
  uep_recipient :: "Address option"

record CreateProposalTx =
  cp_title :: string
  cp_action :: ProposalAction
  cp_description :: string
  cp_electionRuleId :: number
  cp_startTime :: number
  cp_author :: Address

record VoteTx =
  vote_proposalId :: number
  vote_selection :: VoteOption
  vote_voter :: "Address option"

text \<open>\<open>OtherKind\<close> is a transaction of any other kind, of another chain for instance.\<close>

datatype TxContent =
    Send SendTransaction
  | SwapOffer SwapOfferTransaction
  | SwapClaim SwapClaimTransaction
  | SwapAbort SwapAbortTransaction
  | RegisterUsername RegisterUsernameTx
  | UpdateTargetsOfUsername UpdateTargetsOfUsernameTx
  | TransferUsername TransferUsernameTx
  | UpdateAccountConfiguration UpdateAccountConfigurationTx
  | RegisterDomain RegisterDomainTx
  | TransferDomain TransferDomainTx
  | RenewDomain RenewDomainTx
  | DeleteDomain DeleteDomainTx
  | RegisterAccount RegisterAccountTx
  | TransferAccount TransferAccountTx
  | ReplaceAccountTargets ReplaceAccountTargetsTx
  | DeleteAccount DeleteAccountTx
  | DeleteAllAccounts DeleteAllAccountsTx
  | RenewAccount RenewAccountTx
  | AddAccountCertificate AddAccountCertificateTx
  | ReplaceAccountMsgFees ReplaceAccountMsgFeesTx
  | DeleteAccountCertificate DeleteAccountCertificateTx
  | CreateMultisignature CreateMultisignatureTx
  | UpdateMultisignature UpdateMultisignatureTx
  | CreateEscrow CreateEscrowTx
  | ReleaseEscrowT ReleaseEscrowTx
  | ReturnEscrow ReturnEscrowTx
  | UpdateEscrowParties UpdateEscrowPartiesTx
  | CreateProposal CreateProposalTx
  | VoteT VoteTx
  | OtherKind string

fun kind :: "TxContent \<Rightarrow> string" where
  "kind (Send _) = ''bcp/send''"
| "kind (SwapOffer _) = ''bcp/swap_offer''"
| "kind (SwapClaim _) = ''bcp/swap_claim''"
| "kind (SwapAbort _) = ''bcp/swap_abort''"
| "kind (RegisterUsername _) = ''bns/register_username''"
| "kind (UpdateTargetsOfUsername _) = ''bns/update_targets_of_username''"
| "kind (TransferUsername _) = ''bns/transfer_username''"
| "kind (UpdateAccountConfiguration _) = ''bns/update_account_configuration''"
| "kind (RegisterDomain _) = ''bns/register_domain''"
| "kind (TransferDomain _) = ''bns/transfer_domain''"
| "kind (RenewDomain _) = ''bns/renew_domain''"
| "kind (DeleteDomain _) = ''bns/delete_domain''"
| "kind (RegisterAccount _) = ''bns/register_account''"
| "kind (TransferAccount _) = ''bns/transfer_account''"
| "kind (ReplaceAccountTargets _) = ''bns/replace_account_targets''"
| "kind (DeleteAccount _) = ''bns/delete_account''"
| "kind (DeleteAllAccounts _) = ''bns/delete_all_accounts''"
| "kind (RenewAccount _) = ''bns/renew_account''"
| "kind (AddAccountCertificate _) = ''bns/add_account_certificate''"
| "kind (ReplaceAccountMsgFees _) = ''bns/replace_account_msg_fees''"
| "kind (DeleteAccountCertificate _) = ''bns/delete_account_certificate''"
| "kind (CreateMultisignature _) = ''bns/create_multisignature_contract''"
| "kind (UpdateMultisignature _) = ''bns/update_multisignature_contract''"
| "kind (CreateEscrow _) = ''bns/create_escrow''"
| "kind (ReleaseEscrowT _) = ''bns/release_escrow''"
| "kind (ReturnEscrow _) = ''bns/return_escrow''"
| "kind (UpdateEscrowParties _) = ''bns/update_escrow_parties''"
| "kind (CreateProposal _) = ''bns/create_proposal''"
| "kind (VoteT _) = ''bns/vote''"
| "kind (OtherKind k) = k"

text \<open>\<open>multisig\<close> is the property that \<open>MultisignatureTx\<close> adds.\<close>

record UnsignedTransaction =
  tx_chainId :: ChainId
  tx_fee :: "Fee option"
  tx_multisig :: "number list option"
  tx_content :: TxContent

type_synonym SignedTransaction = "UnsignedTransaction SignedTx"

definition isSendTransaction :: "UnsignedTransaction \<Rightarrow> bool" where
  "isSendTransaction transaction \<longleftrightarrow> kind (tx_content transaction) = ''bcp/send''"

definition isSwapOfferTransaction :: "UnsignedTransaction \<Rightarrow> bool" where
  "isSwapOfferTransaction transaction \<longleftrightarrow> kind (tx_content transaction) = ''bcp/swap_offer''"

definition isSwapClaimTransaction :: "UnsignedTransaction \<Rightarrow> bool" where
  "isSwapClaimTransaction transaction \<longleftrightarrow> kind (tx_content transaction) = ''bcp/swap_claim''"

definition isSwapAbortTransaction :: "UnsignedTransaction \<Rightarrow> bool" where
  "isSwapAbortTransaction transaction \<longleftrightarrow> kind (tx_content transaction) = ''bcp/swap_abort''"

definition isSwapTransaction :: "UnsignedTransaction \<Rightarrow> bool" where
  "isSwapTransaction transaction \<longleftrightarrow> isSwapOfferTransaction transaction
     \<or> isSwapClaimTransaction transaction \<or> isSwapAbortTransaction transaction"

definition isBnsTx :: "UnsignedTransaction \<Rightarrow> bool" where
  "isBnsTx transaction =
     (if isSendTransaction transaction \<or> isSwapOfferTransaction transaction
         \<or> isSwapClaimTransaction transaction \<or> isSwapAbortTransaction transaction
      then True
      else startsWith (kind (tx_content transaction)) ''bns/'')"

definition isMultisignatureTx :: "UnsignedTransaction \<Rightarrow> bool" where
  "isMultisignatureTx transaction = (case tx_multisig transaction of None \<Rightarrow> False | Some _ \<Rightarrow> True)"

text \<open>
  A content constructor other than \<open>OtherKind\<close> has a kind of its own; an
  \<open>OtherKind\<close> value is only meant for kinds that none of them has.
\<close>

fun is_other :: "TxContent \<Rightarrow> bool" where
  "is_other (OtherKind _) = True"
| "is_other _ = False"

lemma isBnsTx_known: "\<not> is_other (tx_content tx) \<Longrightarrow> isBnsTx tx"
  by (cases "tx_content tx")
     (simp_all add: isBnsTx_def isSendTransaction_def isSwapOfferTransaction_def
       isSwapClaimTransaction_def isSwapAbortTransaction_def startsWith_def)

end
