(* ===== verification/Bns_Util.thy ===== *)
theory Bns_Util
  imports Bns_Wire Bns_Types
begin

text \<open>
  The helpers of the BNS codec in \<open>packages/iov-bns/src\<close>: \<open>util.ts\<close>,
  \<open>conditions.ts\<close>, \<open>encodinghelpers.ts\<close>, \<open>decodinghelpers.ts\<close>, \<open>constants.ts\<close> and
  the amounts of \<open>decodeobjects.ts\<close>. The packages bech32, long, sha.js and the
  generated protobuf code are the parameter \<open>bns_libs\<close>, an extension of the bn.js
  parameter. The lemmas show the codec laws of addresses, numeric ids and
  amounts that the message codecs build on.
\<close>

section \<open>The libraries\<close>

record bns_libs = bn_lib +
  bech32_encode :: "string \<Rightarrow> byte list \<Rightarrow> string option"
  bech32_decode :: "string \<Rightarrow> (string \<times> byte list) option"
  sha256 :: "byte list \<Rightarrow> byte list"
  long_toInt :: "int \<Rightarrow> int"
  long_bytesBE :: "number \<Rightarrow> byte list"
  options_encode :: "bnsd_IProposalOptions \<Rightarrow> byte list"
  options_decode :: "byte list \<Rightarrow> bnsd_IProposalOptions option"
  tx_encode :: "bnsd_ITx \<Rightarrow> byte list"
  tx_decode :: "byte list \<Rightarrow> bnsd_ITx option"

text \<open>
  The documented behaviour the codec relies on: a bech32 address of up to 20
  bytes can be decoded again, SHA-256 gives 32 bytes, \<open>Long.toInt\<close> gives a 32-bit integer
  and keeps the value of a Long in that range, and a Long made from a
  non-negative safe integer has that integer's eight big-endian bytes.
\<close>

definition int32 :: "int \<Rightarrow> bool" where
  "int32 i \<longleftrightarrow> - (2 ^ 31) \<le> i \<and> i < 2 ^ 31"

definition bech32_laws :: "bns_libs \<Rightarrow> bool" where
  "bech32_laws L \<longleftrightarrow> (\<forall>p d. p \<in> {''iov'', ''tiov''} \<and> length d \<le> 20 \<longrightarrow>
     (\<exists>a. bech32_encode L p d = Some a \<and> a \<noteq> [] \<and> bech32_decode L a = Some (p, d)))"

definition long_laws :: "bns_libs \<Rightarrow> bool" where
  "long_laws L \<longleftrightarrow> (\<forall>i. int32 (long_toInt L i)) \<and> (\<forall>i. int32 i \<longrightarrow> long_toInt L i = i) \<and>
     (\<forall>i. 0 \<le> i \<and> i \<le> 9007199254740991 \<longrightarrow> long_bytesBE L (int_num i) = be_bytes 8 i)"

definition bns_laws :: "bns_libs \<Rightarrow> bool" where
  "bns_laws L \<longleftrightarrow> bn_laws L \<and> bech32_laws L \<and> long_laws L \<and> (\<forall>b. length (sha256 L b) = 32)"

lemma bns_lawsD:
  assumes "bns_laws L"
  shows bns_bn: "bn_laws L" and bns_bech32: "bech32_laws L" and bns_long: "long_laws L"
    and length_sha256: "length (sha256 L b) = 32"
  using assms by (simp_all add: bns_laws_def)

section \<open>Constants and addresses\<close>

definition mainnetChainId :: ChainId where
  "mainnetChainId = ''iov-mainnet''"

definition weaveFractionalDigits :: nat where
  "weaveFractionalDigits = 9"

definition addressPrefix :: "ChainId \<Rightarrow> string" where
  "addressPrefix chainId = (if chainId = mainnetChainId then ''iov'' else ''tiov'')"

definition encodeBnsAddress :: "bns_libs \<Rightarrow> string \<Rightarrow> byte list \<Rightarrow> Address result" where
  "encodeBnsAddress L prefix bytes = (case bech32_encode L prefix bytes of
     None \<Rightarrow> throw ''Exceeds length limit'' | Some address \<Rightarrow> ok address)"

definition decodeBnsAddress :: "bns_libs \<Rightarrow> Address \<Rightarrow> (string \<times> byte list) result" where
  "decodeBnsAddress L address = (case bech32_decode L address of
     None \<Rightarrow> throw ''Invalid bech32''
   | Some (prefix, data) \<Rightarrow>
       if prefix \<noteq> ''iov'' \<and> prefix \<noteq> ''tiov''
       then throw ''Invalid bech32 prefix. Must be iov or tiov.''
       else if length data \<noteq> 20 then throw ''Invalid data length. Expected 20 bytes.''
       else ok (prefix, data))"

text \<open>\<open>decodeBnsAddress(address).data\<close>.\<close>

definition addressData :: "bns_libs \<Rightarrow> Address \<Rightarrow> byte list result" where
  "addressData L address = andThen (decodeBnsAddress L address) (\<lambda>decoded. ok (snd decoded))"

definition isValidAddress :: "bns_libs \<Rightarrow> string \<Rightarrow> bool" where
  "isValidAddress L address = (case decodeBnsAddress L address of Inl _ \<Rightarrow> False | Inr _ \<Rightarrow> True)"

fun algoToPrefix :: "Algorithm \<Rightarrow> byte list result" where
  "algoToPrefix Ed25519 = toAscii ''sigs/ed25519/''"
| "algoToPrefix Secp256k1 = toAscii ''sigs/secp256k1/''"

definition keyToIdentifier :: "PubkeyBundle \<Rightarrow> byte list result" where
  "keyToIdentifier key = andThen (algoToPrefix (pk_algo key)) (\<lambda>p. ok (p @ pk_data key))"

definition pubkeyToAddress :: "bns_libs \<Rightarrow> PubkeyBundle \<Rightarrow> string \<Rightarrow> Address result" where
  "pubkeyToAddress L pubkey prefix =
     (if pk_algo pubkey \<noteq> Ed25519 then throw ''Public key must be Ed25519''
      else andThen (keyToIdentifier pubkey) (\<lambda>ident.
        encodeBnsAddress L prefix (slice 0 20 (sha256 L ident))))"

definition identityToAddress :: "bns_libs \<Rightarrow> Identity \<Rightarrow> Address result" where
  "identityToAddress L identity = pubkeyToAddress L (id_pubkey identity) (addressPrefix (id_chainId identity))"

text \<open>An address of the network with this prefix.\<close>

definition address_of :: "bns_libs \<Rightarrow> string \<Rightarrow> Address \<Rightarrow> bool" where
  "address_of L prefix a \<longleftrightarrow> (\<exists>d. length d = 20 \<and> bech32_encode L prefix d = Some a)"

lemma addressPrefix_cases: "addressPrefix c \<in> {''iov'', ''tiov''}"
  by (simp add: addressPrefix_def)

lemma addressData_length: "addressData L a = ok d \<Longrightarrow> length d = 20"
  by (auto simp: addressData_def decodeBnsAddress_def andThen_eq_Inr split: option.splits if_splits)

lemma encodeBnsAddress_ok:
  assumes "bns_laws L" "length d = 20"
  shows "\<exists>a. encodeBnsAddress L (addressPrefix c) d = ok a \<and> a \<noteq> [] \<and> address_of L (addressPrefix c) a
    \<and> addressData L a = ok d"
proof -
  obtain a where a: "bech32_encode L (addressPrefix c) d = Some a" "a \<noteq> []"
    "bech32_decode L a = Some (addressPrefix c, d)"
    using bns_bech32 [OF assms(1)] assms(2) addressPrefix_cases [of c] unfolding bech32_laws_def
    by (metis order_refl)
  then have "addressData L a = ok d"
    using assms(2) addressPrefix_cases [of c] by (auto simp: addressData_def decodeBnsAddress_def)
  with a show ?thesis using assms(2) by (auto simp: encodeBnsAddress_def address_of_def)
qed

lemma address_ofE:
  assumes "bns_laws L" "address_of L (addressPrefix c) a"
  obtains d where "length d = 20" "a \<noteq> []" "addressData L a = ok d"
    "encodeBnsAddress L (addressPrefix c) d = ok a"
proof -
  obtain d where d: "length d = 20" "encodeBnsAddress L (addressPrefix c) d = ok a"
    using assms(2) by (auto simp: address_of_def encodeBnsAddress_def)
  with encodeBnsAddress_ok [OF assms(1) d(1), of c] that show thesis by auto
qed

lemma address_codec:
  assumes L: "bns_laws L"
  shows "codec (addressData L) (encodeBnsAddress L (addressPrefix c)) (address_of L (addressPrefix c))"
  by unfold_locales (use L in \<open>auto elim: address_ofE\<close>)

lemma address_not_empty:
  assumes "bns_laws L" "address_of L (addressPrefix c) a"
  shows "a \<noteq> []"
  using assms by (auto elim: address_ofE)

section \<open>Sign bytes\<close>

definition signCodev1 :: "byte list" where
  "signCodev1 = [0, 0xca, 0xfe, 0]"

definition appendSignBytes :: "bns_libs \<Rightarrow> byte list \<Rightarrow> ChainId \<Rightarrow> Nonce \<Rightarrow> byte list result" where
  "appendSignBytes L bz chainId nonce =
     (if length chainId > 255 then throw ''chainId must not exceed a length of 255 characters''
      else andThen (toAscii chainId) (\<lambda>c.
        ok (signCodev1 @ [toUint8 (int (length chainId))] @ c @ long_bytesBE L nonce @ bz)))"

definition safe_nonce :: "Nonce \<Rightarrow> bool" where
  "safe_nonce n \<longleftrightarrow> (\<exists>i. n = int_num i \<and> 0 \<le> i \<and> i \<le> 9007199254740991)"

lemma long_bytesBE_safe:
  assumes "bns_laws L" "safe_nonce n"
  shows "long_bytesBE L n = be_bytes 8 (floor_num n)"
  using bns_long [OF assms(1)] assms(2) by (auto simp: safe_nonce_def long_laws_def)

lemma be_bytes_8_inj:
  "safe_nonce m \<Longrightarrow> safe_nonce n \<Longrightarrow> be_bytes 8 (floor_num m) = be_bytes 8 (floor_num n) \<Longrightarrow> m = n"
proof -
  assume "safe_nonce m" "safe_nonce n" and e: "be_bytes 8 (floor_num m) = be_bytes 8 (floor_num n)"
  then obtain i j where i: "m = int_num i" "0 \<le> i" "i \<le> 9007199254740991"
    and j: "n = int_num j" "0 \<le> j" "j \<le> 9007199254740991"
    unfolding safe_nonce_def by blast
  have "be_bytes 8 i = be_bytes 8 j" using e by (simp only: i(1) j(1) floor_int_num)
  then have "be_value (be_bytes 8 i) = be_value (be_bytes 8 j)" by (rule arg_cong)
  moreover have "be_value (be_bytes 8 i) = i" by (rule be_value_bytes) (use i in simp_all)
  moreover have "be_value (be_bytes 8 j) = j" by (rule be_value_bytes) (use j in simp_all)
  ultimately show "m = n" by (simp only: i(1) j(1))
qed

lemma ascii_byte_inj: "map ascii_byte s = map ascii_byte t \<Longrightarrow> s = t"
proof -
  assume "map ascii_byte s = map ascii_byte t"
  then have "map (unat \<circ> ascii_byte) s = map (unat \<circ> ascii_byte) t" by (metis list.map_comp)
  then have "map (of_char :: char \<Rightarrow> nat) s = map of_char t" by (simp add: comp_def)
  then show "s = t" by (metis inj_map_eq_map inj_of_char)
qed

section \<open>Hash identifiers, buckets and conditions\<close>

definition arraysEqual :: "byte list \<Rightarrow> byte list \<Rightarrow> bool" where
  "arraysEqual a b \<longleftrightarrow> length a = length b \<and> every_equal a b"

definition hashIdentifierPrefix :: "byte list result" where
  "hashIdentifierPrefix = toAscii ''hash/sha256/''"

definition hashIdentifier :: "byte list \<Rightarrow> byte list result" where
  "hashIdentifier hash = andThen hashIdentifierPrefix (\<lambda>p. ok (p @ hash))"

definition isHashIdentifier :: "byte list \<Rightarrow> bool result" where
  "isHashIdentifier ident = andThen hashIdentifierPrefix (\<lambda>p. ok (arraysEqual p (slice 0 (length p) ident)))"

definition hashFromIdentifier :: "byte list \<Rightarrow> byte list result" where
  "hashFromIdentifier ident = andThen hashIdentifierPrefix (\<lambda>p. ok (drop (length p) ident))"

definition bucketKey :: "string \<Rightarrow> byte list result" where
  "bucketKey bucket = toAscii (bucket @ '':'')"

definition indexKey :: "string \<Rightarrow> string \<Rightarrow> byte list result" where
  "indexKey bucket index = toAscii (''_i.'' @ bucket @ ''_'' @ index @ '':'')"

definition buildCondition :: "string \<Rightarrow> string \<Rightarrow> byte list \<Rightarrow> byte list result" where
  "buildCondition extension type data =
     andThen (toAscii (extension @ ''/'' @ type @ ''/'')) (\<lambda>p. ok (p @ data))"

definition buildSwapCondition :: "SwapId \<Rightarrow> byte list \<Rightarrow> byte list result" where
  "buildSwapCondition swap_id hash =
     (let weaveSwapId = swap_data swap_id @ [ascii_byte CHR ''|''] @ hash
      in buildCondition ''aswap'' ''pre_hash'' weaveSwapId)"

definition idBytes :: "bns_libs \<Rightarrow> number \<Rightarrow> byte list result" where
  "idBytes L i = andThen (Uint64_fromNumber L i) (Uint64_toBytesBigEndian L)"

definition buildMultisignatureCondition :: "bns_libs \<Rightarrow> number \<Rightarrow> byte list result" where
  "buildMultisignatureCondition L i = andThen (idBytes L i) (buildCondition ''multisig'' ''usage'')"

definition buildEscrowCondition :: "bns_libs \<Rightarrow> number \<Rightarrow> byte list result" where
  "buildEscrowCondition L i = andThen (idBytes L i) (buildCondition ''escrow'' ''seq'')"

definition buildElectionRuleCondition :: "bns_libs \<Rightarrow> number \<Rightarrow> byte list result" where
  "buildElectionRuleCondition L i = andThen (idBytes L i) (buildCondition ''gov'' ''rule'')"

definition conditionToWeaveAddress :: "bns_libs \<Rightarrow> byte list \<Rightarrow> byte list" where
  "conditionToWeaveAddress L cond = slice 0 20 (sha256 L cond)"

definition conditionToAddress :: "bns_libs \<Rightarrow> ChainId \<Rightarrow> byte list \<Rightarrow> Address result" where
  "conditionToAddress L chainId cond =
     encodeBnsAddress L (addressPrefix chainId) (conditionToWeaveAddress L cond)"

definition swapToAddress :: "bns_libs \<Rightarrow> ChainId \<Rightarrow> SwapId \<Rightarrow> byte list \<Rightarrow> Address result" where
  "swapToAddress L chainId swap_id hash =
     andThen (buildSwapCondition swap_id hash) (conditionToAddress L chainId)"

definition multisignatureIdToAddress :: "bns_libs \<Rightarrow> ChainId \<Rightarrow> number \<Rightarrow> Address result" where
  "multisignatureIdToAddress L chainId i =
     andThen (buildMultisignatureCondition L i) (conditionToAddress L chainId)"

definition escrowIdToAddress :: "bns_libs \<Rightarrow> ChainId \<Rightarrow> number \<Rightarrow> Address result" where
  "escrowIdToAddress L chainId i = andThen (buildEscrowCondition L i) (conditionToAddress L chainId)"

definition electionRuleIdToAddress :: "bns_libs \<Rightarrow> ChainId \<Rightarrow> number \<Rightarrow> Address result" where
  "electionRuleIdToAddress L chainId i =
     andThen (buildElectionRuleCondition L i) (conditionToAddress L chainId)"

section \<open>Encoding and decoding of scalars\<close>

definition encodeInt :: "number \<Rightarrow> number option result" where
  "encodeInt intNumber =
     (if \<not> isInteger intNumber
      then throw ''Received some kind of number that can't be encoded.''
      else ok (if truthy_num intNumber then Some intNumber else None))"

definition encodeString :: "string option \<Rightarrow> string option" where
  "encodeString data = (case data of None \<Rightarrow> None | Some s \<Rightarrow> if s = [] then None else Some s)"

definition encodeAmount :: "Amount \<Rightarrow> coin_ICoin result" where
  "encodeAmount amount =
     (if am_fractionalDigits amount \<noteq> int_num (int weaveFractionalDigits)
      then throw ''Fractional digits must be 9''
      else
        let w = slice_butlast weaveFractionalDigits (am_quantity amount);
            f = slice_last weaveFractionalDigits (am_quantity amount)
        in andThen (Int53_fromString (if w = [] then ''0'' else w)) (\<lambda>whole.
           andThen (Int53_fromString (if f = [] then ''0'' else f)) (\<lambda>fractional.
           andThen (encodeInt (Int53_toNumber whole)) (\<lambda>encodedWhole.
           andThen (encodeInt (Int53_toNumber fractional)) (\<lambda>encodedFractional.
             ok \<lparr>coin_whole = map_option JsNumber encodedWhole,
                  coin_fractional = map_option JsNumber encodedFractional,
                  coin_ticker = encodeString (Some (am_tokenTicker amount))\<rparr>)))))"

definition encodeNumericId :: "bns_libs \<Rightarrow> number \<Rightarrow> byte list result" where
  "encodeNumericId L i = andThen (Uint64_fromNumber L i) (Uint64_toBytesBigEndian L)"

definition decodeString :: "string option \<Rightarrow> string" where
  "decodeString input = (case input of None \<Rightarrow> [] | Some s \<Rightarrow> s)"

definition ensure :: "'a option \<Rightarrow> string \<Rightarrow> 'a result" where
  "ensure maybe msg = (case maybe of None \<Rightarrow> throw (''missing '' @ (if msg = [] then ''field'' else msg))
     | Some x \<Rightarrow> ok x)"

definition asIntegerNumber :: "bns_libs \<Rightarrow> wire_int option \<Rightarrow> number result" where
  "asIntegerNumber L maybeLong = (case maybeLong of
     None \<Rightarrow> ok (int_num 0)
   | Some (JsNumber n) \<Rightarrow>
       if \<not> truthy_num n then ok (int_num 0)
       else if \<not> isInteger n then throw ''Number is not an integer.''
       else ok n
   | Some (Long l) \<Rightarrow> ok (int_num (long_toInt L l)))"

definition decodeNumericId :: "bns_libs \<Rightarrow> byte list \<Rightarrow> number result" where
  "decodeNumericId L i =
     andThen (Uint64_fromBytesBigEndian L (byte_numbers i)) (Uint64_toNumber L)"

definition decodeAmount :: "bns_libs \<Rightarrow> coin_ICoin \<Rightarrow> Amount result" where
  "decodeAmount L coin =
     andThen (asIntegerNumber L (coin_whole coin)) (\<lambda>wholeNumber.
     if num_less wholeNumber (int_num 0) then throw ''Component `whole` must not be negative''
     else andThen (asIntegerNumber L (coin_fractional coin)) (\<lambda>fractionalNumber.
     if num_less fractionalNumber (int_num 0)
     then throw ''Component `fractional` must not be negative''
     else
       andThen (bn_assert (bn_fromNumber L wholeNumber)) (\<lambda>w.
       andThen (bn_assert (bn_fromNumber L (int_num (10 ^ weaveFractionalDigits)))) (\<lambda>factor.
       andThen (bn_assert (bn_fromNumber L fractionalNumber)) (\<lambda>f.
         ok \<lparr>am_quantity = bn_toString L (bn_add L (bn_mul L w factor) f),
              am_fractionalDigits = int_num (int weaveFractionalDigits),
              am_tokenTicker = decodeString (coin_ticker coin)\<rparr>)))))"

definition isZeroCoin :: "bns_libs \<Rightarrow> coin_ICoin \<Rightarrow> bool result" where
  "isZeroCoin L coin =
     andThen (asIntegerNumber L (coin_whole coin)) (\<lambda>w.
     if w \<noteq> int_num 0 then ok False
     else andThen (asIntegerNumber L (coin_fractional coin)) (\<lambda>f. ok (f = int_num 0)))"

text \<open>\<open>10 ** weaveFractionalDigits\<close> is exact; \<open>ticker || ""\<close> is \<open>decodeString\<close>.\<close>

lemma ensure_Some [simp]: "ensure (Some x) msg = ok x"
  by (simp add: ensure_def)

lemma encodeInt_int [simp]:
  "encodeInt (int_num i) = ok (if i = 0 then None else Some (int_num i))"
  by (simp add: encodeInt_def)

definition int32_num :: "number \<Rightarrow> bool" where
  "int32_num n \<longleftrightarrow> (\<exists>i. n = int_num i \<and> int32 i)"

lemma asIntegerNumber_Long:
  "bns_laws L \<Longrightarrow> int32 i \<Longrightarrow> asIntegerNumber L (Some (Long i)) = ok (int_num i)"
  using bns_long [of L] by (simp add: asIntegerNumber_def long_laws_def)

lemma asIntegerNumber_wire:
  assumes "bns_laws L" "int32_num n"
  shows "asIntegerNumber L (norm_int64 (Some (JsNumber n))) = ok n"
  using assms by (auto simp: int32_num_def asIntegerNumber_Long)

text \<open>A number that went through \<open>encodeInt\<close>, the wire and \<open>asIntegerNumber\<close>.\<close>

lemma encodeInt_wire:
  assumes "bns_laws L" "int32_num n"
  shows "\<exists>w. encodeInt n = ok w \<and> asIntegerNumber L (norm_int64 (map_option JsNumber w)) = ok n"
proof -
  obtain i where "n = int_num i" "int32 i" using assms(2) by (auto simp: int32_num_def)
  moreover have "int32 0" by (simp add: int32_def)
  ultimately show ?thesis using assms(1) by (auto simp: asIntegerNumber_Long)
qed

section \<open>Numeric ids\<close>

definition numeric_id :: "number \<Rightarrow> bool" where
  "numeric_id n \<longleftrightarrow> safe_nonce n"

lemma encodeNumericId_ok:
  assumes "bns_laws L" "numeric_id n"
  shows "encodeNumericId L n = ok (be_bytes 8 (floor_num n))"
proof -
  note B = bns_bn [OF assms(1)]
  obtain i where i: "n = int_num i" "0 \<le> i" "i \<le> 9007199254740991"
    using assms(2) by (auto simp: numeric_id_def safe_nonce_def)
  then have v: "valid_Uint64 (Uint64 i)" and s: "safe_int i"
    by (simp_all add: valid_Uint64_def safe_int_def)
  then have "Uint64_fromNumber L n = ok (Uint64 i)"
    using i by (simp add: Uint64_fromNumber_def isNaN_def bn_fromNumber [OF B] new_Uint64_iff [OF B])
  then show ?thesis using Uint64_toBytes_ok(1) [OF B v] i by (simp add: encodeNumericId_def)
qed

lemma numeric_id_codec:
  assumes L: "bns_laws L"
  shows "codec (encodeNumericId L) (decodeNumericId L) numeric_id"
proof
  fix n assume n: "numeric_id n"
  note B = bns_bn [OF L]
  obtain i where i: "n = int_num i" "0 \<le> i" "i \<le> 9007199254740991"
    using n by (auto simp: numeric_id_def safe_nonce_def)
  have "be_value (be_bytes 8 i) = i" by (rule be_value_bytes) (use i in simp_all)
  then have "Uint64_fromBytesBigEndian L (byte_numbers (be_bytes 8 i)) = ok (Uint64 i)"
    by (auto simp: Uint64_fromBytesBigEndian_iff [OF B])
  moreover have "Uint64_toNumber L (Uint64 i) = ok n"
    using i by (simp add: Uint64_toNumber_def bn_assert_def bn_toNumber [OF B] safe_int_def)
  ultimately show "\<exists>w. encodeNumericId L n = ok w \<and> decodeNumericId L w = ok n"
    using encodeNumericId_ok [OF L n] i by (simp add: decodeNumericId_def)
qed

lemma encodeNumericId_length: "bns_laws L \<Longrightarrow> numeric_id n \<Longrightarrow> encodeNumericId L n = ok b \<Longrightarrow> length b = 8"
  by (auto simp: encodeNumericId_ok)

section \<open>Amounts\<close>

text \<open>
  The amounts that survive the wire: a non-negative canonical quantity whose
  whole part fits into 31 bits, with the precision of weave.
\<close>

definition wire_amount :: "Amount \<Rightarrow> bool" where
  "wire_amount a \<longleftrightarrow> canonical_decimal (am_quantity a) \<and>
     parse_base 10 (am_quantity a) < 2 ^ 31 * 10 ^ 9 \<and> am_fractionalDigits a = int_num 9"

lemma parse_base_bound: "list_all is_digit s \<Longrightarrow> parse_base 10 s < 10 ^ length s"
proof (induction s rule: rev_induct)
  case Nil
  then show ?case by simp
next
  case (snoc c s)
  then obtain d where "d < 10" "digit_val c = Some d" using is_digit_val [of c] by auto
  with snoc show ?case by simp
qed

lemma integer_value_digits:
  assumes "matches_digits s"
  shows "matches_integer s" "integer_value s = int (parse_base 10 s)"
  using digits_no_minus [OF assms] assms
  by (auto simp: matches_integer_def integer_value_def)

lemma Int53_fromString_digits:
  assumes "matches_digits s" "parse_base 10 s \<le> 9007199254740991"
  shows "Int53_fromString s = ok (Int53 (int (parse_base 10 s)))"
  using integer_value_digits [OF assms(1)] assms(2) by (simp add: Int53_fromString_iff safe_int_def)

text \<open>The two parts of a quantity.\<close>

lemma split_quantity:
  assumes "list_all is_digit q"
  defines "w \<equiv> slice_butlast 9 q" and "f \<equiv> slice_last 9 q"
  shows "list_all is_digit w" "list_all is_digit f" "parse_base 10 f < 10 ^ 9"
    "parse_base 10 q = parse_base 10 w * 10 ^ 9 + parse_base 10 f"
proof -
  have q: "q = w @ f" by (simp add: w_def f_def)
  show "list_all is_digit w" and f: "list_all is_digit f" using assms(1) by (subst (asm) q, simp)+
  have "length f \<le> 9" by (simp add: f_def slice_last_def)
  then show "parse_base 10 f < 10 ^ 9"
    using parse_base_bound [OF f] power_increasing [of "length f" 9 "10 :: nat"] by linarith
  show "parse_base 10 q = parse_base 10 w * 10 ^ 9 + parse_base 10 f"
  proof (cases "w = []")
    case True
    then show ?thesis using q by simp
  next
    case False
    then have "length f = 9" by (auto simp: w_def f_def slice_last_def slice_butlast_def)
    then show ?thesis by (subst q) (simp add: parse_base_append)
  qed
qed

lemma Int53_fromString_part:
  assumes "list_all is_digit s" "parse_base 10 s \<le> 9007199254740991"
  shows "Int53_fromString (if s = [] then ''0'' else s) = ok (Int53 (int (parse_base 10 s)))"
proof (cases "s = []")
  case True
  have "matches_digits ''0''" "parse_base 10 ''0'' = 0"
    by (simp_all add: matches_digits_def is_digit_def parse_base_def digit_val_def)
  then show ?thesis using Int53_fromString_digits [of "''0''"] True by simp
next
  case False
  then show ?thesis using assms Int53_fromString_digits [of s] by (simp add: matches_digits_def)
qed

lemma wire_int_coin:
  "bns_laws L \<Longrightarrow> n < 2 ^ 31 \<Longrightarrow>
   asIntegerNumber L (norm_int64 (map_option JsNumber (if n = 0 then None else Some (int_num (int n)))))
     = ok (int_num (int n))"
  using asIntegerNumber_Long [of L "int n"] asIntegerNumber_Long [of L 0] by (auto simp: int32_def)

text \<open>What is sent for a quantity whose whole part is a safe integer.\<close>

lemma encodeAmount_parts:
  assumes "list_all is_digit (am_quantity a)" "am_fractionalDigits a = int_num 9"
    and "parse_base 10 (am_quantity a) < 2 ^ 53 * 10 ^ 9"
  defines "w \<equiv> parse_base 10 (slice_butlast 9 (am_quantity a))" and "f \<equiv> parse_base 10 (slice_last 9 (am_quantity a))"
  shows "encodeAmount a = ok \<lparr>
    coin_whole = map_option JsNumber (if w = 0 then None else Some (int_num (int w))),
    coin_fractional = map_option JsNumber (if f = 0 then None else Some (int_num (int f))),
    coin_ticker = encodeString (Some (am_tokenTicker a))\<rparr>"
proof -
  define q u v where "q = am_quantity a" and "u = slice_butlast 9 q" and "v = slice_last 9 q"
  note parts = split_quantity [OF assms(1), folded q_def, folded u_def v_def]
  have "w < 2 ^ 53" "f < 2 ^ 53"
    using assms(3) parts(3) parts(4) by (simp_all add: w_def f_def q_def u_def v_def)
  then have "Int53_fromString (if u = [] then ''0'' else u) = ok (Int53 (int w))"
    "Int53_fromString (if v = [] then ''0'' else v) = ok (Int53 (int f))"
    using Int53_fromString_part [OF parts(1)] Int53_fromString_part [OF parts(2)]
    by (simp_all add: w_def f_def u_def v_def q_def)
  then show ?thesis
    using assms(2) by (simp add: encodeAmount_def weaveFractionalDigits_def
        q_def [symmetric] u_def [symmetric] v_def [symmetric] Int53_toNumber_def)
qed

lemma amount_codec:
  assumes L: "bns_laws L"
  shows "codec encodeAmount (\<lambda>c. decodeAmount L (norm_coin_ICoin c)) wire_amount"
proof
  fix a assume a: "wire_amount a"
  note B = bns_bn [OF L]
  define q w f where "q = am_quantity a" and "w = parse_base 10 (slice_butlast 9 q)"
    and "f = parse_base 10 (slice_last 9 q)"
  have q: "list_all is_digit q" "canonical_decimal q" and lim: "parse_base 10 q < 2 ^ 31 * 10 ^ 9"
    using a by (auto simp: wire_amount_def canonical_decimal_def q_def)
  note parts = split_quantity [OF q(1), folded w_def f_def]
  have fw: "w < 2 ^ 31" using lim unfolding parts(4) by simp
  have ff: "f < 2 ^ 31" using parts(3) by simp
  let ?c = "\<lparr>coin_whole = map_option JsNumber (if w = 0 then None else Some (int_num (int w))),
      coin_fractional = map_option JsNumber (if f = 0 then None else Some (int_num (int f))),
      coin_ticker = encodeString (Some (am_tokenTicker a))\<rparr>"
  have enc: "encodeAmount a = ok ?c"
    using a q lim encodeAmount_parts [of a] by (simp add: wire_amount_def w_def f_def q_def)
  have bnq: "bn_toString L (bn_add L (bn_mul L (int w) 1000000000) (int f)) = q"
  proof -
    have "int w * 1000000000 + int f = int (parse_base 10 q)" using parts(4) by simp
    then show ?thesis using to_base_parse [OF q(2)]
      by (simp add: bn_toString [OF B] bn_add [OF B] bn_mul [OF B] int_to_string_def)
  qed
  have safe: "safe_int (int w)" "safe_int (int f)" "safe_int 1000000000"
    using fw ff by (simp_all add: safe_int_def)
  have tick: "decodeString (norm_string (encodeString (Some (am_tokenTicker a)))) = am_tokenTicker a"
    by (simp add: decodeString_def encodeString_def)
  have "decodeAmount L (norm_coin_ICoin ?c)
      = ok \<lparr>am_quantity = q, am_fractionalDigits = int_num 9, am_tokenTicker = am_tokenTicker a\<rparr>"
    using safe by (simp add: decodeAmount_def norm_coin_ICoin_def wire_int_coin [OF L fw]
        wire_int_coin [OF L ff] bn_assert_def bn_fromNumber [OF B] weaveFractionalDigits_def bnq tick)
  then show "\<exists>c. encodeAmount a = ok c \<and> decodeAmount L (norm_coin_ICoin c) = ok a"
    using enc a by (cases a) (auto simp: wire_amount_def q_def)
qed

section \<open>Sums and maxima of amounts, dummy values\<close>

definition maxAmount :: "bns_libs \<Rightarrow> Amount \<Rightarrow> Amount list \<Rightarrow> Amount" where
  "maxAmount L first rest =
     foldl (\<lambda>max next. if bn_gte L (bn_fromString L (am_quantity max)) (bn_fromString L (am_quantity next))
       then max else next) first rest"

definition addAmounts :: "bns_libs \<Rightarrow> Amount \<Rightarrow> Amount list \<Rightarrow> Amount result" where
  "addAmounts L first rest =
     (if list_ex (\<lambda>a. am_tokenTicker a \<noteq> am_tokenTicker first) rest
      then throw ''Cannot add amounts with different token tickers''
      else ok (foldl (\<lambda>sum next. sum\<lparr>am_quantity :=
             bn_toString L (bn_add L (bn_fromString L (am_quantity sum)) (bn_fromString L (am_quantity next)))\<rparr>)
           first rest))"

definition createDummySignature :: "Nonce \<Rightarrow> FullSignature" where
  "createDummySignature nonce =
     \<lparr>sig_nonce = nonce, sig_pubkey = \<lparr>pk_algo = Ed25519, pk_data = replicate 32 0\<rparr>,
      sig_signature = replicate 64 0\<rparr>"

definition createDummyFee :: "bns_libs \<Rightarrow> Fee result" where
  "createDummyFee L =
     (let maxWhole = 10 ^ 15 - 1; maxFractional = 10 ^ 9 - 1; maxTokenTickerLength = 4; addressLength = 20
      in andThen (encodeBnsAddress L ''tiov'' (replicate addressLength 0)) (\<lambda>payer.
        ok \<lparr>fee_tokens = Some \<lparr>am_quantity = int_to_string maxWhole @ int_to_string maxFractional,
               am_fractionalDigits = int_num (int weaveFractionalDigits),
               am_tokenTicker = replicate maxTokenTickerLength CHR ''X''\<rparr>,
             fee_gasPrice = None, fee_gasLimit = None, fee_payer = Some payer\<rparr>))"

definition quantity_value :: "Amount \<Rightarrow> nat" where
  "quantity_value a = parse_base 10 (am_quantity a)"

definition has_quantity :: "Amount \<Rightarrow> bool" where
  "has_quantity a = matches_digits (am_quantity a)"

lemma bn_fromString_quantity:
  "bn_laws L \<Longrightarrow> has_quantity a \<Longrightarrow> bn_fromString L (am_quantity a) = int (quantity_value a)"
  by (simp add: has_quantity_def quantity_value_def bn_fromString matches_digits_def)

lemma addAmounts_fold:
  assumes L: "bn_laws L"
  shows "has_quantity a \<Longrightarrow> list_all has_quantity rest \<Longrightarrow> rest \<noteq> [] \<Longrightarrow>
    foldl (\<lambda>sum next. sum\<lparr>am_quantity :=
        bn_toString L (bn_add L (bn_fromString L (am_quantity sum)) (bn_fromString L (am_quantity next)))\<rparr>) a rest
      = a\<lparr>am_quantity := to_base 10 (quantity_value a + sum_list (map quantity_value rest))\<rparr>"
proof (induction rest arbitrary: a)
  case (Cons b rest)
  have s: "int_to_string (int m + int n) = to_base 10 (m + n)" for m n
    using nat_int_add [of m n] by (simp add: int_to_string_def)
  have "has_quantity b" using Cons.prems by simp
  then have step: "bn_toString L (bn_add L (bn_fromString L (am_quantity a)) (bn_fromString L (am_quantity b)))
      = to_base 10 (quantity_value a + quantity_value b)"
    using Cons.prems by (simp add: bn_fromString_quantity [OF L] bn_add [OF L] bn_toString [OF L] s)
  let ?a = "a\<lparr>am_quantity := to_base 10 (quantity_value a + quantity_value b)\<rparr>"
  have "has_quantity ?a" "quantity_value ?a = quantity_value a + quantity_value b"
    by (simp_all add: has_quantity_def quantity_value_def)
  then show ?case using Cons.prems Cons.IH [of ?a] step by (cases "rest = []") (simp_all add: add.assoc)
qed simp

lemma maxAmount_fold:
  assumes L: "bn_laws L" and "has_quantity a" "list_all has_quantity rest"
  shows "maxAmount L a rest \<in> set (a # rest) \<and>
    (\<forall>b \<in> set (a # rest). quantity_value b \<le> quantity_value (maxAmount L a rest))"
  using assms(2,3)
proof (induction rest arbitrary: a)
  case Nil
  then show ?case by (simp add: maxAmount_def)
next
  case (Cons b rest)
  let ?m = "if bn_gte L (bn_fromString L (am_quantity a)) (bn_fromString L (am_quantity b)) then a else b"
  have m: "?m = (if quantity_value b \<le> quantity_value a then a else b)"
    using Cons.prems by (simp add: bn_gte [OF L] bn_fromString_quantity [OF L])
  have step: "maxAmount L a (b # rest) = maxAmount L ?m rest" by (simp add: maxAmount_def)
  have "has_quantity ?m" using Cons.prems by simp
  with Cons have IH: "maxAmount L ?m rest \<in> set (?m # rest) \<and>
      (\<forall>c \<in> set (?m # rest). quantity_value c \<le> quantity_value (maxAmount L ?m rest))" by simp
  show ?case unfolding step using IH m by (auto split: if_splits)
qed

section \<open>An instance of the libraries\<close>

text \<open>
  A simple implementation of the library interface: addresses are printed in
  hexadecimal, the remaining components are given by the caller. The laws can
  hold, and witnesses evaluate over it.
\<close>

definition hex_bech32_decode :: "string \<Rightarrow> (string \<times> byte list) option" where
  "hex_bech32_decode s =
     (if startsWith s ''iov1'' then (case fromHex (drop 4 s) of Inl _ \<Rightarrow> None | Inr d \<Rightarrow> Some (''iov'', d))
      else if startsWith s ''tiov1'' then (case fromHex (drop 5 s) of Inl _ \<Rightarrow> None | Inr d \<Rightarrow> Some (''tiov'', d))
      else None)"

definition demo_libs :: "(bnsd_IProposalOptions \<Rightarrow> byte list) \<Rightarrow> (byte list \<Rightarrow> bnsd_IProposalOptions option)
    \<Rightarrow> (bnsd_ITx \<Rightarrow> byte list) \<Rightarrow> (byte list \<Rightarrow> bnsd_ITx option) \<Rightarrow> bns_libs" where
  "demo_libs oe od te td = bn_lib.extend bn_int \<lparr>
     bech32_encode = (\<lambda>p d. Some (p @ ''1'' @ toHex d)),
     bech32_decode = hex_bech32_decode,
     sha256 = (\<lambda>b. replicate 32 0),
     long_toInt = (\<lambda>i. sint (word_of_int i :: 32 word)),
     long_bytesBE = (\<lambda>n. be_bytes 8 (floor_num n)),
     options_encode = oe, options_decode = od, tx_encode = te, tx_decode = td\<rparr>"

lemma demo_libs_simps [simp]:
  "bech32_encode (demo_libs oe od te td) p d = Some (p @ ''1'' @ toHex d)"
  "bech32_decode (demo_libs oe od te td) = hex_bech32_decode"
  "sha256 (demo_libs oe od te td) b = replicate 32 0"
  "long_toInt (demo_libs oe od te td) i = sint (word_of_int i :: 32 word)"
  "long_bytesBE (demo_libs oe od te td) n = be_bytes 8 (floor_num n)"
  "options_encode (demo_libs oe od te td) = oe" "options_decode (demo_libs oe od te td) = od"
  "tx_encode (demo_libs oe od te td) = te" "tx_decode (demo_libs oe od te td) = td"
  by (simp_all add: demo_libs_def bn_lib.defs bn_int_def)

lemma sint_word32: "int32 i \<Longrightarrow> sint (word_of_int i :: 32 word) = i"
  unfolding int32_def sint_sbintrunc' by (intro signed_take_bit_int_eq_self) simp_all

lemma int32_sint: "int32 (sint (w :: 32 word))"
  using sint_ge [of w] sint_less [of w] by (simp add: int32_def)

lemma demo_laws: "bns_laws (demo_libs oe od te td)"
proof -
  have "hex_bech32_decode (''iov1'' @ toHex d) = Some (''iov'', d)" for d
    using hex.dec_enc [of d] startsWith_append [of "''iov1''" "toHex d"] by (simp add: hex_bech32_decode_def)
  moreover have "hex_bech32_decode (''tiov1'' @ toHex d) = Some (''tiov'', d)" for d
    using hex.dec_enc [of d] by (simp add: hex_bech32_decode_def startsWith_def)
  ultimately have "bech32_laws (demo_libs oe od te td)" by (auto simp: bech32_laws_def)
  moreover have "long_laws (demo_libs oe od te td)"
    by (simp add: long_laws_def sint_word32 int32_sint)
  moreover have "bn_laws (demo_libs oe od te td)"
    unfolding demo_libs_def by (rule bn_laws_extend)
  ultimately show ?thesis by (simp add: bns_laws_def)
qed

abbreviation plain_libs :: bns_libs where
  "plain_libs \<equiv> demo_libs (\<lambda>_. []) (\<lambda>_. None) (\<lambda>_. []) (\<lambda>_. None)"

lemma demo_address:
  "length d = 20 \<Longrightarrow> address_of (demo_libs oe od te td) p (p @ ''1'' @ toHex d)"
  by (auto simp: address_of_def)

section \<open>Properties\<close>

lemma appendSignBytes_inj:
  assumes "bns_laws L" "safe_nonce n1" "safe_nonce n2"
    and "appendSignBytes L bz1 chain1 n1 = ok b" "appendSignBytes L bz2 chain2 n2 = ok b"
  shows "bz1 = bz2 \<and> chain1 = chain2 \<and> n1 = n2"
proof -
  have parts: "length chain \<le> 255 \<and> b = signCodev1 @ toUint8 (int (length chain)) #
      map ascii_byte chain @ be_bytes 8 (floor_num n) @ bz"
    if "appendSignBytes L bz chain n = ok b" "safe_nonce n" for bz chain n
    using that long_bytesBE_safe [OF assms(1) that(2)]
    by (auto simp: appendSignBytes_def andThen_eq_Inr toAscii_iff split: if_splits)
  note p1 = parts [OF assms(4) assms(2)] and p2 = parts [OF assms(5) assms(3)]
  have len: "unat (toUint8 (int (length c))) = length c" if "length c \<le> 255" for c :: string
    using that by (intro unat_toUint8) simp
  have "toUint8 (int (length chain1)) = toUint8 (int (length chain2))" using p1 p2 by simp
  then have l: "length chain1 = length chain2" using p1 p2 len by metis
  with p1 p2 have e: "map ascii_byte chain1 = map ascii_byte chain2"
    "be_bytes 8 (floor_num n1) = be_bytes 8 (floor_num n2)" "bz1 = bz2" by simp_all
  then show ?thesis using ascii_byte_inj be_bytes_8_inj [OF assms(2,3)] by blast
qed

text \<open>
  The bytes to sign determine what is signed: two transactions, chain ids
  and nonces with the same sign bytes are equal. A signature can therefore not
  be replayed on another chain or with another nonce.
\<close>

lemma appendSignBytes_injective:
  assumes "bns_laws L" "safe_nonce n1" "safe_nonce n2"
    and "appendSignBytes L bz1 chain1 n1 = ok b" "appendSignBytes L bz2 chain2 n2 = ok b"
  shows "bz1 = bz2 \<and> chain1 = chain2 \<and> n1 = n2"
  using appendSignBytes_inj [OF assms] .

text \<open>
  \<open>addAmounts\<close> is exact: for amounts of one token it returns the first amount
  with the sum of all quantities, in canonical decimal form; for different
  tokens it throws.
\<close>

lemma addAmounts_exact:
  assumes "bns_laws L" "has_quantity first" "list_all has_quantity rest"
  shows "addAmounts L first rest =
    (if list_all (\<lambda>a. am_tokenTicker a = am_tokenTicker first) rest
     then ok (if rest = [] then first
              else first\<lparr>am_quantity := to_base 10 (sum_list (map quantity_value (first # rest)))\<rparr>)
     else throw ''Cannot add amounts with different token tickers'')"
  using addAmounts_fold [OF bns_bn [OF assms(1)] assms(2,3)]
  by (auto simp: addAmounts_def list_ex_iff list_all_iff)

text \<open>
  \<open>maxAmount\<close> returns one of its arguments, and no argument has a larger
  quantity.
\<close>

lemma maxAmount_is_maximum:
  assumes "bns_laws L" "has_quantity first" "list_all has_quantity rest"
  shows "maxAmount L first rest \<in> set (first # rest) \<and>
    Max (quantity_value ` set (first # rest)) = quantity_value (maxAmount L first rest)"
  using maxAmount_fold [OF bns_bn [OF assms(1)] assms(2,3)]
  by (auto intro!: Max_eqI)

text \<open>
  An Ed25519 identity has an address, which is a valid address of the
  identity's chain with the first 20 bytes of the hash as data; any other
  algorithm is rejected.
\<close>

lemma identityToAddress_valid:
  assumes "bns_laws L"
  shows "if pk_algo (id_pubkey i) = Ed25519
    then \<exists>a. identityToAddress L i = ok a \<and> isValidAddress L a \<and>
      decodeBnsAddress L a = ok (addressPrefix (id_chainId i),
        take 20 (sha256 L (map ascii_byte ''sigs/ed25519/'' @ pk_data (id_pubkey i))))
    else identityToAddress L i = throw ''Public key must be Ed25519''"
proof (cases "pk_algo (id_pubkey i) = Ed25519")
  case True
  let ?h = "sha256 L (map ascii_byte ''sigs/ed25519/'' @ pk_data (id_pubkey i))"
  let ?p = "addressPrefix (id_chainId i)"
  have "list_all printable ''sigs/ed25519/''" by (simp add: printable_def)
  then have k: "keyToIdentifier (id_pubkey i) = ok (map ascii_byte ''sigs/ed25519/'' @ pk_data (id_pubkey i))"
    using True by (simp add: keyToIdentifier_def toAscii_ok)
  have len: "length (take 20 ?h) = 20" using length_sha256 [OF assms] by simp
  obtain a where a: "bech32_encode L ?p (take 20 ?h) = Some a" "bech32_decode L a = Some (?p, take 20 ?h)"
    using bns_bech32 [OF assms] len addressPrefix_cases [of "id_chainId i"] unfolding bech32_laws_def
    by (metis order_refl)
  then have "decodeBnsAddress L a = ok (?p, take 20 ?h)"
    using len addressPrefix_cases [of "id_chainId i"] by (auto simp: decodeBnsAddress_def)
  then show ?thesis using True k a
    by (simp add: identityToAddress_def pubkeyToAddress_def encodeBnsAddress_def slice_def isValidAddress_def)
next
  case False
  then show ?thesis by (simp add: identityToAddress_def pubkeyToAddress_def)
qed

lemma idBytes_numeric: "idBytes L n = encodeNumericId L n"
  by (simp add: idBytes_def encodeNumericId_def)

lemma buildCondition_ok:
  "list_all printable (e @ ''/'' @ t @ ''/'') \<Longrightarrow>
   buildCondition e t d = ok (map ascii_byte (e @ ''/'' @ t @ ''/'') @ d)"
  by (simp only: buildCondition_def toAscii_ok andThen_simps)

lemma id_conditions:
  assumes "bns_laws L" "numeric_id n"
  shows "buildMultisignatureCondition L n = ok (map ascii_byte ''multisig/usage/'' @ be_bytes 8 (floor_num n))"
    and "buildEscrowCondition L n = ok (map ascii_byte ''escrow/seq/'' @ be_bytes 8 (floor_num n))"
    and "buildElectionRuleCondition L n = ok (map ascii_byte ''gov/rule/'' @ be_bytes 8 (floor_num n))"
  using encodeNumericId_ok [OF assms] buildCondition_ok [of "''multisig''" "''usage''"]
    buildCondition_ok [of "''escrow''" "''seq''"] buildCondition_ok [of "''gov''" "''rule''"]
  by (simp_all add: buildMultisignatureCondition_def buildEscrowCondition_def
      buildElectionRuleCondition_def idBytes_numeric printable_def)

lemma ascii_byte_eq_iff [simp]: "ascii_byte c = ascii_byte d \<longleftrightarrow> c = d"
  using ascii_byte_inj [of "[c]" "[d]"] by auto

text \<open>
  The conditions that own funds are told apart: multisignature, escrow and
  election rule conditions are built for every id, different ids of one type
  have different conditions, and conditions of different types, the swap
  conditions included, are never equal.
\<close>

lemma conditions_separate:
  assumes "bns_laws L" "numeric_id i" "numeric_id j"
  shows "\<exists>m e g s. buildMultisignatureCondition L i = ok m \<and> buildEscrowCondition L i = ok e \<and>
      buildElectionRuleCondition L i = ok g \<and> buildSwapCondition swap hash = ok s \<and>
      (buildMultisignatureCondition L j = ok m \<longleftrightarrow> i = j) \<and>
      (buildEscrowCondition L j = ok e \<longleftrightarrow> i = j) \<and>
      (buildElectionRuleCondition L j = ok g \<longleftrightarrow> i = j) \<and>
      distinct [m, e, g, s]"
proof -
  have "be_bytes 8 (floor_num j) = be_bytes 8 (floor_num i) \<longleftrightarrow> i = j"
    using be_bytes_8_inj [of j i] assms by (auto simp: numeric_id_def)
  moreover obtain s where "buildSwapCondition swap hash = ok (map ascii_byte ''aswap/'' @ s)"
    using buildCondition_ok [of "''aswap''" "''pre_hash''"]
    by (simp add: buildSwapCondition_def printable_def)
  ultimately show ?thesis using id_conditions [OF assms(1,2)] id_conditions [OF assms(1,3)]
    by (simp del: be_bytes.simps)
qed

end
