(* ===== verification/Bns_Encode.thy ===== *)
theory Bns_Encode
  imports Bns_Util
begin

text \<open>
  \<open>packages/iov-bns/src/encodemsg.ts\<close> and \<open>encode.ts\<close>: from transactions to the
  objects of the protobuf layer. One definition per function of the source; the
  properties of an object literal are evaluated in the order of the source, so
  that the first error is the one the source throws. A property set to null or
  not set is None.
\<close>

section \<open>Helpers\<close>

abbreviation metadata1 :: "weave_IMetadata option" where
  "metadata1 \<equiv> Some \<lparr>md_schema = Some (int_num 1)\<rparr>"

definition maxMemoLength :: nat where
  "maxMemoLength = 128"

definition encodeMemo :: "string option \<Rightarrow> string option result" where
  "encodeMemo data =
     (if (case data of None \<Rightarrow> False | Some s \<Rightarrow> s \<noteq> [] \<and> length (toUtf8 s) > maxMemoLength)
      then throw ''Invalid memo length: maximum 128 bytes''
      else ok (encodeString data))"

text \<open>\<open>address ? decodeBnsAddress(address).data : null\<close>.\<close>

definition optionalAddressData :: "bns_libs \<Rightarrow> Address option \<Rightarrow> byte list option result" where
  "optionalAddressData L address = (case address of
     None \<Rightarrow> ok None
   | Some a \<Rightarrow> if a = [] then ok None else andThen (addressData L a) (\<lambda>d. ok (Some d)))"

definition encodeParticipants :: "bns_libs \<Rightarrow> Participant list \<Rightarrow> multisig_IParticipant list result" where
  "encodeParticipants L participants = mapM (\<lambda>participant.
     andThen (addressData L (part_address participant)) (\<lambda>signature.
     ok \<lparr>mp_signature = Some signature, mp_weight = Some (part_weight participant)\<rparr>)) participants"

section \<open>Token sends and swaps\<close>

definition encodeSendTransaction :: "bns_libs \<Rightarrow> SendTransaction \<Rightarrow> BnsdTxMsg result" where
  "encodeSendTransaction L tx =
     andThen (addressData L (send_sender tx)) (\<lambda>source.
     andThen (addressData L (send_recipient tx)) (\<lambda>destination.
     andThen (encodeAmount (send_amount tx)) (\<lambda>amount.
     andThen (encodeMemo (send_memo tx)) (\<lambda>memo.
     ok (no_msg\<lparr>cashSendMsg := Some \<lparr>sm_metadata = metadata1, sm_source = Some source,
       sm_destination = Some destination, sm_amount = Some amount, sm_memo = memo, sm_ref = None\<rparr>\<rparr>)))))"

definition encodeSwapOfferTx :: "bns_libs \<Rightarrow> SwapOfferTransaction \<Rightarrow> BnsdTxMsg result" where
  "encodeSwapOfferTx L tx = (case offer_timeout tx of
     BlockHeightTimeout _ \<Rightarrow> throw ''Got unsupported timeout type''
   | TimestampTimeout timestamp \<Rightarrow>
     andThen (addressData L (offer_sender tx)) (\<lambda>source.
     andThen (addressData L (offer_recipient tx)) (\<lambda>destination.
     andThen (mapM encodeAmount (offer_amounts tx)) (\<lambda>amount.
     andThen (encodeInt timestamp) (\<lambda>timeout.
     andThen (encodeMemo (offer_memo tx)) (\<lambda>memo.
     ok (no_msg\<lparr>aswapCreateMsg := Some \<lparr>ac_metadata = metadata1, ac_source = Some source,
       ac_preimageHash = Some (offer_hash tx), ac_destination = Some destination,
       ac_amount = Some amount, ac_timeout = map_option JsNumber timeout, ac_memo = memo\<rparr>\<rparr>)))))))"

definition encodeSwapClaimTx :: "SwapClaimTransaction \<Rightarrow> BnsdTxMsg result" where
  "encodeSwapClaimTx tx = ok (no_msg\<lparr>aswapReleaseMsg := Some \<lparr>ar_metadata = metadata1,
     ar_swapId = Some (swap_data (claim_swapId tx)), ar_preimage = Some (claim_preimage tx)\<rparr>\<rparr>)"

definition encodeSwapAbortTransaction :: "SwapAbortTransaction \<Rightarrow> BnsdTxMsg result" where
  "encodeSwapAbortTransaction tx = ok (no_msg\<lparr>aswapReturnMsg := Some \<lparr>at_metadata = metadata1,
     at_swapId = Some (swap_data (abort_swapId tx))\<rparr>\<rparr>)"

section \<open>Usernames\<close>

definition encodeChainAddressPair :: "ChainAddressPair \<Rightarrow> username_IBlockchainAddress" where
  "encodeChainAddressPair pair =
     \<lparr>ub_blockchainId = Some (cap_chainId pair), ub_address = Some (cap_address pair)\<rparr>"

definition encodeRegisterUsernameTx :: "RegisterUsernameTx \<Rightarrow> BnsdTxMsg result" where
  "encodeRegisterUsernameTx tx =
     (if \<not> endsWith (run_username tx) ''*iov''
      then throw ''Starting with IOV-Core 0.16, the username property needs to be a full human readable address, including the namespace suffix (e.g. '*iov').''
      else ok (no_msg\<lparr>usernameRegisterTokenMsg := Some \<lparr>ur_metadata = metadata1,
        ur_username = Some (run_username tx),
        ur_targets = Some (map encodeChainAddressPair (run_targets tx))\<rparr>\<rparr>))"

definition encodeUpdateTargetsOfUsernameTx :: "UpdateTargetsOfUsernameTx \<Rightarrow> BnsdTxMsg result" where
  "encodeUpdateTargetsOfUsernameTx tx =
     ok (no_msg\<lparr>usernameChangeTokenTargetsMsg := Some \<lparr>uc_metadata = metadata1,
       uc_username = Some (utu_username tx),
       uc_newTargets = Some (map encodeChainAddressPair (utu_targets tx))\<rparr>\<rparr>)"

definition encodeTransferUsernameTx :: "bns_libs \<Rightarrow> TransferUsernameTx \<Rightarrow> BnsdTxMsg result" where
  "encodeTransferUsernameTx L tx =
     andThen (addressData L (tu_newOwner tx)) (\<lambda>newOwner.
     ok (no_msg\<lparr>usernameTransferTokenMsg := Some \<lparr>ut_metadata = metadata1,
       ut_username = Some (tu_username tx), ut_newOwner = Some newOwner\<rparr>\<rparr>))"

section \<open>Accounts\<close>

definition encodeAccountConfiguration ::
  "bns_libs \<Rightarrow> AccountConfiguration \<Rightarrow> account_IConfiguration result" where
  "encodeAccountConfiguration L configuration =
     andThen (addressData L (acc_owner configuration)) (\<lambda>owner.
     ok \<lparr>acf_metadata = metadata1, acf_owner = Some owner,
       acf_validDomain = Some (acc_validDomain configuration),
       acf_validName = Some (acc_validName configuration),
       acf_validBlockchainId = Some (acc_validBlockchainId configuration),
       acf_validBlockchainAddress = Some (acc_validBlockchainAddress configuration),
       acf_domainRenew = Some (JsNumber (acc_domainRenew configuration)),
       acf_domainGracePeriod = Some (JsNumber (acc_domainGracePeriod configuration))\<rparr>)"

definition encodeUpdateAccountConfigurationTx ::
  "bns_libs \<Rightarrow> UpdateAccountConfigurationTx \<Rightarrow> BnsdTxMsg result" where
  "encodeUpdateAccountConfigurationTx L tx =
     andThen (encodeAccountConfiguration L (uac_configuration tx)) (\<lambda>patch.
     ok (no_msg\<lparr>accountUpdateConfigurationMsg := Some \<lparr>auc_metadata = metadata1, auc_patch = Some patch\<rparr>\<rparr>))"

definition encodeAccountMsgFee :: "AccountMsgFee \<Rightarrow> account_IAccountMsgFee result" where
  "encodeAccountMsgFee msgFee =
     andThen (encodeAmount (acm_fee msgFee)) (\<lambda>fee.
     ok \<lparr>amf_msgPath = Some (acm_msgPath msgFee), amf_fee = Some fee\<rparr>)"

definition encodeRegisterDomainTx :: "bns_libs \<Rightarrow> RegisterDomainTx \<Rightarrow> BnsdTxMsg result" where
  "encodeRegisterDomainTx L tx =
     andThen (addressData L (rd_admin tx)) (\<lambda>admin.
     andThen (optionalAddressData L (rd_broker tx)) (\<lambda>broker.
     andThen (mapM encodeAccountMsgFee (rd_msgFees tx)) (\<lambda>msgFees.
     ok (no_msg\<lparr>accountRegisterDomainMsg := Some \<lparr>ard_metadata = metadata1,
       ard_domain = Some (rd_domain tx), ard_admin = Some admin,
       ard_hasSuperuser = Some (rd_hasSuperuser tx), ard_broker = broker,
       ard_msgFees = Some msgFees, ard_accountRenew = Some (JsNumber (rd_accountRenew tx))\<rparr>\<rparr>))))"

definition encodeTransferDomainTx :: "bns_libs \<Rightarrow> TransferDomainTx \<Rightarrow> BnsdTxMsg result" where
  "encodeTransferDomainTx L tx =
     andThen (addressData L (trd_newAdmin tx)) (\<lambda>newAdmin.
     ok (no_msg\<lparr>accountTransferDomainMsg := Some \<lparr>atd_metadata = metadata1,
       atd_domain = Some (trd_domain tx), atd_newAdmin = Some newAdmin\<rparr>\<rparr>))"

definition encodeRenewDomainTx :: "RenewDomainTx \<Rightarrow> BnsdTxMsg result" where
  "encodeRenewDomainTx tx = ok (no_msg\<lparr>accountRenewDomainMsg := Some \<lparr>arn_metadata = metadata1,
     arn_domain = Some (rnd_domain tx)\<rparr>\<rparr>)"

definition encodeDeleteDomainTx :: "DeleteDomainTx \<Rightarrow> BnsdTxMsg result" where
  "encodeDeleteDomainTx tx = ok (no_msg\<lparr>accountDeleteDomainMsg := Some \<lparr>add_metadata = metadata1,
     add_domain = Some (dd_domain tx)\<rparr>\<rparr>)"

definition encodeAccountChainAddress :: "ChainAddressPair \<Rightarrow> account_IBlockchainAddress" where
  "encodeAccountChainAddress blockchainAddress =
     \<lparr>aba_blockchainId = Some (cap_chainId blockchainAddress),
      aba_address = Some (cap_address blockchainAddress)\<rparr>"

definition encodeRegisterAccountTx :: "bns_libs \<Rightarrow> RegisterAccountTx \<Rightarrow> BnsdTxMsg result" where
  "encodeRegisterAccountTx L tx =
     andThen (addressData L (ra_owner tx)) (\<lambda>owner.
     andThen (optionalAddressData L (ra_broker tx)) (\<lambda>broker.
     ok (no_msg\<lparr>accountRegisterAccountMsg := Some \<lparr>ara_metadata = metadata1,
       ara_domain = Some (ra_domain tx), ara_name = Some (ra_name tx), ara_owner = Some owner,
       ara_targets = Some (map encodeAccountChainAddress (ra_targets tx)), ara_broker = broker\<rparr>\<rparr>)))"

definition encodeTransferAccountTx :: "bns_libs \<Rightarrow> TransferAccountTx \<Rightarrow> BnsdTxMsg result" where
  "encodeTransferAccountTx L tx =
     andThen (addressData L (ta_newOwner tx)) (\<lambda>newOwner.
     ok (no_msg\<lparr>accountTransferAccountMsg := Some \<lparr>ata_metadata = metadata1,
       ata_domain = Some (ta_domain tx), ata_name = Some (ta_name tx), ata_newOwner = Some newOwner\<rparr>\<rparr>))"

definition encodeReplaceAccountTargetsTx :: "ReplaceAccountTargetsTx \<Rightarrow> BnsdTxMsg result" where
  "encodeReplaceAccountTargetsTx tx =
     ok (no_msg\<lparr>accountReplaceAccountTargetsMsg := Some \<lparr>art_metadata = metadata1,
       art_domain = Some (rat_domain tx), art_name = rat_name tx,
       art_newTargets = Some (map encodeAccountChainAddress (rat_newTargets tx))\<rparr>\<rparr>)"

definition encodeDeleteAccountTx :: "DeleteAccountTx \<Rightarrow> BnsdTxMsg result" where
  "encodeDeleteAccountTx tx = ok (no_msg\<lparr>accountDeleteAccountMsg := Some \<lparr>ada_metadata = metadata1,
     ada_domain = Some (da_domain tx), ada_name = Some (da_name tx)\<rparr>\<rparr>)"

definition encodeDeleteAllAccountsTx :: "DeleteAllAccountsTx \<Rightarrow> BnsdTxMsg result" where
  "encodeDeleteAllAccountsTx tx = ok (no_msg\<lparr>accountFlushDomainMsg := Some \<lparr>afd_metadata = metadata1,
     afd_domain = Some (daa_domain tx)\<rparr>\<rparr>)"

definition encodeRenewAccountTx :: "RenewAccountTx \<Rightarrow> BnsdTxMsg result" where
  "encodeRenewAccountTx tx = ok (no_msg\<lparr>accountRenewAccountMsg := Some \<lparr>arw_metadata = metadata1,
     arw_domain = Some (rna_domain tx), arw_name = Some (rna_name tx)\<rparr>\<rparr>)"

definition encodeAddAccountCertificateTx :: "AddAccountCertificateTx \<Rightarrow> BnsdTxMsg result" where
  "encodeAddAccountCertificateTx tx =
     ok (no_msg\<lparr>accountAddAccountCertificateMsg := Some \<lparr>aac_metadata = metadata1,
       aac_domain = Some (adac_domain tx), aac_name = Some (adac_name tx),
       aac_certificate = Some (adac_certificate tx)\<rparr>\<rparr>)"

definition encodeReplaceAccountMsgFeesTx :: "ReplaceAccountMsgFeesTx \<Rightarrow> BnsdTxMsg result" where
  "encodeReplaceAccountMsgFeesTx tx =
     andThen (mapM encodeAccountMsgFee (ramf_newMsgFees tx)) (\<lambda>newMsgFees.
     ok (no_msg\<lparr>accountReplaceAccountMsgFeesMsg := Some \<lparr>arm_metadata = metadata1,
       arm_domain = Some (ramf_domain tx), arm_newMsgFees = Some newMsgFees\<rparr>\<rparr>))"

definition encodeDeleteAccountCertificateTx :: "DeleteAccountCertificateTx \<Rightarrow> BnsdTxMsg result" where
  "encodeDeleteAccountCertificateTx tx =
     ok (no_msg\<lparr>accountDeleteAccountCertificateMsg := Some \<lparr>adc_metadata = metadata1,
       adc_domain = Some (dac_domain tx), adc_name = Some (dac_name tx),
       adc_certificateHash = Some (dac_certificateHash tx)\<rparr>\<rparr>)"

section \<open>Multisignature contracts and escrows\<close>

definition encodeCreateMultisignatureTx :: "bns_libs \<Rightarrow> CreateMultisignatureTx \<Rightarrow> BnsdTxMsg result" where
  "encodeCreateMultisignatureTx L tx =
     andThen (encodeParticipants L (cm_participants tx)) (\<lambda>participants.
     ok (no_msg\<lparr>multisigCreateMsg := Some \<lparr>mc_metadata = metadata1, mc_participants = Some participants,
       mc_activationThreshold = Some (cm_activationThreshold tx),
       mc_adminThreshold = Some (cm_adminThreshold tx)\<rparr>\<rparr>))"

definition encodeUpdateMultisignatureTx :: "bns_libs \<Rightarrow> UpdateMultisignatureTx \<Rightarrow> BnsdTxMsg result" where
  "encodeUpdateMultisignatureTx L tx =
     andThen (encodeNumericId L (um_contractId tx)) (\<lambda>contractId.
     andThen (encodeParticipants L (um_participants tx)) (\<lambda>participants.
     ok (no_msg\<lparr>multisigUpdateMsg := Some \<lparr>mu_metadata = metadata1, mu_contractId = Some contractId,
       mu_participants = Some participants, mu_activationThreshold = Some (um_activationThreshold tx),
       mu_adminThreshold = Some (um_adminThreshold tx)\<rparr>\<rparr>)))"

definition encodeCreateEscrowTx :: "bns_libs \<Rightarrow> CreateEscrowTx \<Rightarrow> BnsdTxMsg result" where
  "encodeCreateEscrowTx L tx =
     andThen (addressData L (ce_sender tx)) (\<lambda>source.
     andThen (addressData L (ce_arbiter tx)) (\<lambda>arbiter.
     andThen (addressData L (ce_recipient tx)) (\<lambda>destination.
     andThen (mapM encodeAmount (ce_amounts tx)) (\<lambda>amount.
     andThen (encodeInt (ce_timeout tx)) (\<lambda>timeout.
     andThen (encodeMemo (ce_memo tx)) (\<lambda>memo.
     ok (no_msg\<lparr>escrowCreateMsg := Some \<lparr>ec_metadata = metadata1, ec_source = Some source,
       ec_arbiter = Some arbiter, ec_destination = Some destination, ec_amount = Some amount,
       ec_timeout = map_option JsNumber timeout, ec_memo = memo\<rparr>\<rparr>)))))))"

definition encodeReleaseEscrowTx :: "bns_libs \<Rightarrow> ReleaseEscrowTx \<Rightarrow> BnsdTxMsg result" where
  "encodeReleaseEscrowTx L tx =
     andThen (encodeNumericId L (rel_escrowId tx)) (\<lambda>escrowId.
     andThen (mapM encodeAmount (rel_amounts tx)) (\<lambda>amount.
     ok (no_msg\<lparr>escrowReleaseMsg := Some \<lparr>er_metadata = metadata1, er_escrowId = Some escrowId,
       er_amount = Some amount\<rparr>\<rparr>)))"

definition encodeReturnEscrowTx :: "bns_libs \<Rightarrow> ReturnEscrowTx \<Rightarrow> BnsdTxMsg result" where
  "encodeReturnEscrowTx L tx =
     andThen (encodeNumericId L (ret_escrowId tx)) (\<lambda>escrowId.
     ok (no_msg\<lparr>escrowReturnMsg := Some \<lparr>et_metadata = metadata1, et_escrowId = Some escrowId\<rparr>\<rparr>))"

text \<open>\<open>party && decodeBnsAddress(party).data\<close>: an empty string counts as not given.\<close>

definition party_given :: "Address option \<Rightarrow> bool" where
  "party_given party = (case party of None \<Rightarrow> False | Some a \<Rightarrow> a \<noteq> [])"

definition encodeUpdateEscrowPartiesTx :: "bns_libs \<Rightarrow> UpdateEscrowPartiesTx \<Rightarrow> BnsdTxMsg result" where
  "encodeUpdateEscrowPartiesTx L tx =
     (let numPartiesToUpdate = length (filter party_given [uep_sender tx, uep_arbiter tx, uep_recipient tx])
      in if numPartiesToUpdate \<noteq> 1 then throw ''Only one party can be updated at a time''
         else
           andThen (encodeNumericId L (uep_escrowId tx)) (\<lambda>escrowId.
           andThen (optionalAddressData L (uep_sender tx)) (\<lambda>source.
           andThen (optionalAddressData L (uep_arbiter tx)) (\<lambda>arbiter.
           andThen (optionalAddressData L (uep_recipient tx)) (\<lambda>destination.
           ok (no_msg\<lparr>escrowUpdatePartiesMsg := Some \<lparr>eu_metadata = metadata1,
             eu_escrowId = Some escrowId, eu_source = source, eu_arbiter = arbiter,
             eu_destination = destination\<rparr>\<rparr>))))))"

section \<open>Governance\<close>

text \<open>The expression \<open>/^ed25519_([0-9a-fA-F]{64})$/\<close>, with its group.\<close>

definition match_validator_key :: "string \<Rightarrow> string option" where
  "match_validator_key key =
     (let hex = drop 8 key in
      if take 8 key = ''ed25519_'' \<and> length hex = 64 \<and> list_all is_hex_digit hex then Some hex else None)"

definition encodeValidators :: "Validators \<Rightarrow> weave_IValidatorUpdate list result" where
  "encodeValidators validators = mapM (\<lambda>(key, power).
     case match_validator_key key of
       None \<Rightarrow> throw ''Got validators object key of unexpected format.''
     | Some hex \<Rightarrow> andThen (fromHex hex) (\<lambda>data.
         ok \<lparr>vu_pubKey = Some \<lparr>vk_type = Some ''ed25519'', vk_data = Some data\<rparr>,
             vu_power = Some (JsNumber power)\<rparr>)) validators"

definition encodeFraction :: "Fraction \<Rightarrow> IFraction" where
  "encodeFraction f = \<lparr>fr_numerator = Some (frac_numerator f), fr_denominator = Some (frac_denominator f)\<rparr>"

text \<open>The callback for the messages of a proposal batch.\<close>

definition encodeBatchMessage :: "bns_libs \<Rightarrow> ProposalAction \<Rightarrow> ExecuteProposalBatchMsg_IUnion result" where
  "encodeBatchMessage L message = (case message of
     SendAct a \<Rightarrow>
       andThen (addressData L (sa_sender a)) (\<lambda>source.
       andThen (addressData L (sa_recipient a)) (\<lambda>destination.
       andThen (encodeAmount (sa_amount a)) (\<lambda>amount.
       andThen (encodeMemo (sa_memo a)) (\<lambda>memo.
       ok \<lparr>un_sendMsg = Some \<lparr>sm_metadata = metadata1, sm_source = Some source,
         sm_destination = Some destination, sm_amount = Some amount, sm_memo = memo, sm_ref = None\<rparr>\<rparr>))))
   | _ \<Rightarrow> throw ''Only send actions are currently supported in proposal batch'')"

definition encodeElectors :: "bns_libs \<Rightarrow> Electors \<Rightarrow> gov_IElector list result" where
  "encodeElectors L electors = mapM (\<lambda>(address, weight).
     andThen (addressData L address) (\<lambda>d.
     ok \<lparr>ge_address = Some d, ge_weight = Some weight\<rparr>)) electors"

text \<open>The branches of \<open>encodeCreateProposalTx\<close> that compute \<open>option\<close>.\<close>

fun encodeProposalOption :: "bns_libs \<Rightarrow> ProposalAction \<Rightarrow> bnsd_IProposalOptions result" where
  "encodeProposalOption L (CreateTextResolution resolution) =
     ok (no_option\<lparr>po_govCreateTextResolutionMsg := Some \<lparr>gt_metadata = metadata1,
       gt_resolution = Some resolution\<rparr>\<rparr>)"
| "encodeProposalOption L (ExecuteProposalBatch messages) =
     andThen (mapM (encodeBatchMessage L) messages) (\<lambda>ms.
     ok (no_option\<lparr>po_executeProposalBatchMsg := Some \<lparr>eb_messages = Some ms\<rparr>\<rparr>))"
| "encodeProposalOption L (ReleaseEscrow escrowId amount) =
     andThen (encodeNumericId L escrowId) (\<lambda>i.
     andThen (encodeAmount amount) (\<lambda>a.
     ok (no_option\<lparr>po_escrowReleaseMsg := Some \<lparr>er_metadata = metadata1, er_escrowId = Some i,
       er_amount = Some [a]\<rparr>\<rparr>)))"
| "encodeProposalOption L (SetValidators validatorUpdates) =
     andThen (encodeValidators validatorUpdates) (\<lambda>vs.
     ok (no_option\<lparr>po_validatorsApplyDiffMsg := Some \<lparr>va_metadata = metadata1,
       va_validatorUpdates = Some vs\<rparr>\<rparr>))"
| "encodeProposalOption L (UpdateElectorate electorateId diffElectors) =
     andThen (encodeNumericId L electorateId) (\<lambda>i.
     andThen (encodeElectors L diffElectors) (\<lambda>es.
     ok (no_option\<lparr>po_govUpdateElectorateMsg := Some \<lparr>gue_metadata = metadata1,
       gue_electorateId = Some i, gue_diffElectors = Some es\<rparr>\<rparr>)))"
| "encodeProposalOption L (UpdateElectionRule a) =
     andThen (encodeNumericId L (uer_electionRuleId a)) (\<lambda>i.
     ok (no_option\<lparr>po_govUpdateElectionRuleMsg := Some \<lparr>gur_metadata = metadata1,
       gur_electionRuleId = Some i, gur_votingPeriod = Some (uer_votingPeriod a),
       gur_threshold = map_option encodeFraction (uer_threshold a),
       gur_quorum = map_option encodeFraction (uer_quorum a)\<rparr>\<rparr>))"
| "encodeProposalOption L (SetMsgFee msgPath fee) =
     andThen (encodeAmount fee) (\<lambda>f.
     ok (no_option\<lparr>po_msgfeeSetMsgFeeMsg := Some \<lparr>mf_metadata = metadata1,
       mf_msgPath = Some msgPath, mf_fee = Some f\<rparr>\<rparr>))"
| "encodeProposalOption L (ExecuteMigration i) =
     (if i = [] then throw ''Migration ID must not be empty''
      else ok (no_option\<lparr>po_datamigrationExecuteMigrationMsg := Some \<lparr>dm_metadata = metadata1,
        dm_migrationId = Some i\<rparr>\<rparr>))"
| "encodeProposalOption L _ = throw ''Got unsupported type of ProposalOption''"

definition encodeCreateProposalTx :: "bns_libs \<Rightarrow> CreateProposalTx \<Rightarrow> BnsdTxMsg result" where
  "encodeCreateProposalTx L tx =
     andThen (encodeProposalOption L (cp_action tx)) (\<lambda>option.
     andThen (encodeNumericId L (cp_electionRuleId tx)) (\<lambda>electionRuleId.
     andThen (addressData L (cp_author tx)) (\<lambda>author.
     ok (no_msg\<lparr>govCreateProposalMsg := Some \<lparr>gp_metadata = metadata1, gp_title = Some (cp_title tx),
       gp_rawOption = Some (options_encode L option), gp_description = Some (cp_description tx),
       gp_electionRuleId = Some electionRuleId, gp_startTime = Some (JsNumber (cp_startTime tx)),
       gp_author = Some author\<rparr>\<rparr>))))"

text \<open>The protobuf enum \<open>gov.VoteOption\<close> is its number.\<close>

fun encodeVoteOption :: "VoteOption \<Rightarrow> number" where
  "encodeVoteOption Yes = int_num 1"
| "encodeVoteOption No = int_num 2"
| "encodeVoteOption Abstain = int_num 3"

definition encodeVoteTx :: "bns_libs \<Rightarrow> bool \<Rightarrow> VoteTx \<Rightarrow> BnsdTxMsg result" where
  "encodeVoteTx L strictMode tx =
     (if strictMode \<and> \<not> party_given (vote_voter tx) then throw ''In strict mode VoteTx.voter must be set''
      else
        andThen (encodeNumericId L (vote_proposalId tx)) (\<lambda>proposalId.
        andThen (optionalAddressData L (vote_voter tx)) (\<lambda>voter.
        ok (no_msg\<lparr>govVoteMsg := Some \<lparr>gv_metadata = metadata1, gv_proposalId = Some proposalId,
          gv_voter = voter, gv_selected = Some (encodeVoteOption (vote_selection tx))\<rparr>\<rparr>))))"

section \<open>encodeMsg\<close>

definition encodeMsg :: "bns_libs \<Rightarrow> bool \<Rightarrow> UnsignedTransaction \<Rightarrow> BnsdTxMsg result" where
  "encodeMsg L strictMode tx =
     (if \<not> isBnsTx tx then throw ''Transaction is not a BNS transaction''
      else case tx_content tx of
        Send c \<Rightarrow> encodeSendTransaction L c
      | SwapOffer c \<Rightarrow> encodeSwapOfferTx L c
      | SwapClaim c \<Rightarrow> encodeSwapClaimTx c
      | SwapAbort c \<Rightarrow> encodeSwapAbortTransaction c
      | RegisterUsername c \<Rightarrow> encodeRegisterUsernameTx c
      | UpdateTargetsOfUsername c \<Rightarrow> encodeUpdateTargetsOfUsernameTx c
      | TransferUsername c \<Rightarrow> encodeTransferUsernameTx L c
      | UpdateAccountConfiguration c \<Rightarrow> encodeUpdateAccountConfigurationTx L c
      | RegisterDomain c \<Rightarrow> encodeRegisterDomainTx L c
      | TransferDomain c \<Rightarrow> encodeTransferDomainTx L c
      | RenewDomain c \<Rightarrow> encodeRenewDomainTx c
      | DeleteDomain c \<Rightarrow> encodeDeleteDomainTx c
      | RegisterAccount c \<Rightarrow> encodeRegisterAccountTx L c
      | TransferAccount c \<Rightarrow> encodeTransferAccountTx L c
      | ReplaceAccountTargets c \<Rightarrow> encodeReplaceAccountTargetsTx c
      | DeleteAccount c \<Rightarrow> encodeDeleteAccountTx c
      | DeleteAllAccounts c \<Rightarrow> encodeDeleteAllAccountsTx c
      | RenewAccount c \<Rightarrow> encodeRenewAccountTx c
      | AddAccountCertificate c \<Rightarrow> encodeAddAccountCertificateTx c
      | ReplaceAccountMsgFees c \<Rightarrow> encodeReplaceAccountMsgFeesTx c
      | DeleteAccountCertificate c \<Rightarrow> encodeDeleteAccountCertificateTx c
      | CreateMultisignature c \<Rightarrow> encodeCreateMultisignatureTx L c
      | UpdateMultisignature c \<Rightarrow> encodeUpdateMultisignatureTx L c
      | CreateEscrow c \<Rightarrow> encodeCreateEscrowTx L c
      | ReleaseEscrowT c \<Rightarrow> encodeReleaseEscrowTx L c
      | ReturnEscrow c \<Rightarrow> encodeReturnEscrowTx L c
      | UpdateEscrowParties c \<Rightarrow> encodeUpdateEscrowPartiesTx L c
      | CreateProposal c \<Rightarrow> encodeCreateProposalTx L c
      | VoteT c \<Rightarrow> encodeVoteTx L strictMode c
      | OtherKind _ \<Rightarrow> throw ''Received transaction of unsupported kind.'')"

section \<open>Signatures, fees and transactions\<close>

record PrivkeyBundle =
  prk_algo :: Algorithm
  prk_data :: "byte list"

definition encodePubkey :: "PubkeyBundle \<Rightarrow> crypto_IPublicKey result" where
  "encodePubkey pubkey = (case pk_algo pubkey of
     Ed25519 \<Rightarrow> if length (pk_data pubkey) \<noteq> 32 then throw ''Invalid pubkey size: must be 32 bytes''
       else ok \<lparr>pub_ed25519 = Some (pk_data pubkey)\<rparr>
   | Secp256k1 \<Rightarrow> throw ''unsupported algorithm: '')"

definition encodePrivkey :: "PrivkeyBundle \<Rightarrow> crypto_IPrivateKey result" where
  "encodePrivkey privkey = (case prk_algo privkey of
     Ed25519 \<Rightarrow> ok \<lparr>priv_ed25519 = Some (prk_data privkey)\<rparr>
   | Secp256k1 \<Rightarrow> throw ''unsupported algorithm: '')"

definition encodeSignature :: "Algorithm \<Rightarrow> byte list \<Rightarrow> crypto_ISignature result" where
  "encodeSignature algo bytes = (case algo of
     Ed25519 \<Rightarrow> ok \<lparr>sg_ed25519 = Some bytes\<rparr>
   | Secp256k1 \<Rightarrow> throw ''unsupported algorithm: '')"

definition encodeFullSignature :: "FullSignature \<Rightarrow> sigs_IStdSignature result" where
  "encodeFullSignature fullSignature =
     andThen (encodePubkey (sig_pubkey fullSignature)) (\<lambda>pubkey.
     andThen (encodeSignature (pk_algo (sig_pubkey fullSignature)) (sig_signature fullSignature)) (\<lambda>signature.
     ok \<lparr>ss_sequence = Some (JsNumber (sig_nonce fullSignature)), ss_pubkey = Some pubkey,
       ss_signature = Some signature\<rparr>))"

text \<open>The fee payer if the fee names none: the first multisignature contract.\<close>

definition multisigPayer :: "bns_libs \<Rightarrow> UnsignedTransaction \<Rightarrow> byte list result" where
  "multisigPayer L txWithFee = (case tx_multisig txWithFee of
     Some [] \<Rightarrow> throw ''Empty multisig arrays are currently unsupported''
   | Some (firstContract # _) \<Rightarrow>
       andThen (buildMultisignatureCondition L firstContract) (\<lambda>c. ok (conditionToWeaveAddress L c))
   | None \<Rightarrow> throw ''Cannot build fee for transaction with unknown fee payer'')"

definition encodeFeeForTx :: "bns_libs \<Rightarrow> UnsignedTransaction \<Rightarrow> cash_IFeeInfo result" where
  "encodeFeeForTx L txWithFee =
     (case Option.bind (tx_fee txWithFee) fee_tokens of
        None \<Rightarrow> throw ''Cannot build fee for transaction without fee tokens''
      | Some tokens \<Rightarrow>
          andThen
            (case Option.bind (tx_fee txWithFee) fee_payer of
               None \<Rightarrow> multisigPayer L txWithFee
             | Some payer \<Rightarrow> if payer = [] then multisigPayer L txWithFee else addressData L payer)
            (\<lambda>feePayerAddressBytes.
          andThen (encodeAmount tokens) (\<lambda>fees.
          ok \<lparr>fi_payer = Some feePayerAddressBytes, fi_fees = Some fees\<rparr>)))"

definition encodeUnsignedTx :: "bns_libs \<Rightarrow> UnsignedTransaction \<Rightarrow> bnsd_ITx result" where
  "encodeUnsignedTx L tx =
     andThen (encodeMsg L True tx) (\<lambda>msg.
     andThen (if tx_fee tx \<noteq> None then andThen (encodeFeeForTx L tx) (\<lambda>f. ok (Some f)) else ok None) (\<lambda>fees.
     andThen (case tx_multisig tx of
         Some ids \<Rightarrow> andThen (mapM (encodeNumericId L) ids) (\<lambda>ms. ok (Some ms))
       | None \<Rightarrow> ok None) (\<lambda>multisig.
     ok \<lparr>itx_msg = msg, itx_fees = fees, itx_signatures = None, itx_multisig = multisig\<rparr>)))"

definition encodeSignedTx :: "bns_libs \<Rightarrow> SignedTransaction \<Rightarrow> bnsd_ITx result" where
  "encodeSignedTx L tx =
     andThen (encodeUnsignedTx L (stx_transaction tx)) (\<lambda>built.
     andThen (mapM encodeFullSignature (stx_signatures tx)) (\<lambda>signatures.
     ok (built\<lparr>itx_signatures := Some signatures\<rparr>)))"

end
