(* ===== verification/Bns_Decode.thy ===== *)
theory Bns_Decode
  imports Bns_Util
begin

text \<open>
  \<open>packages/iov-bns/src/decodeobjects.ts\<close> (the parts that occur in transactions),
  \<open>decodemsg.ts\<close> and \<open>decode.ts\<close>: from the objects of the protobuf layer to
  transactions. The argument \<open>base\<close> carries the chain id, the fee and the
  multisig ids; a decoder puts the content into it.
\<close>

section \<open>Helpers\<close>

text \<open>\<open>encodeBnsAddress(prefix, ensure(field, name))\<close>.\<close>

definition ensureAddress :: "bns_libs \<Rightarrow> string \<Rightarrow> byte list option \<Rightarrow> string \<Rightarrow> Address result" where
  "ensureAddress L prefix field name = andThen (ensure field name) (encodeBnsAddress L prefix)"

text \<open>\<open>field ? encodeBnsAddress(prefix, field) : undefined\<close>; byte arrays are truthy.\<close>

definition optionalAddress :: "bns_libs \<Rightarrow> string \<Rightarrow> byte list option \<Rightarrow> Address option result" where
  "optionalAddress L prefix field = (case field of
     None \<Rightarrow> ok None
   | Some bytes \<Rightarrow> andThen (encodeBnsAddress L prefix bytes) (\<lambda>a. ok (Some a)))"

text \<open>\<open>s || undefined\<close>.\<close>

definition nonEmpty :: "string option \<Rightarrow> string option" where
  "nonEmpty s = (case s of None \<Rightarrow> None | Some t \<Rightarrow> if t = [] then None else Some t)"

text \<open>\<open>asIntegerNumber(ensure(field, name))\<close>.\<close>

definition ensureInteger :: "bns_libs \<Rightarrow> wire_int option \<Rightarrow> string \<Rightarrow> number result" where
  "ensureInteger L field name = andThen (ensure field name) (\<lambda>x. asIntegerNumber L (Some x))"

definition ensureNumericId :: "bns_libs \<Rightarrow> byte list option \<Rightarrow> string \<Rightarrow> number result" where
  "ensureNumericId L field name = andThen (ensure field name) (decodeNumericId L)"

definition ensureAmount :: "bns_libs \<Rightarrow> coin_ICoin option \<Rightarrow> string \<Rightarrow> Amount result" where
  "ensureAmount L field name = andThen (ensure field name) (decodeAmount L)"

section \<open>Objects\<close>

definition decodeCashConfiguration ::
  "bns_libs \<Rightarrow> string \<Rightarrow> cash_IConfiguration \<Rightarrow> CashConfiguration result" where
  "decodeCashConfiguration L prefix config =
     andThen (ensure (csc_minimalFee config) ''minimalFee'') (\<lambda>minimalFee.
     andThen (ensureAddress L prefix (csc_owner config) ''owner'') (\<lambda>owner.
     andThen (ensureAddress L prefix (csc_collectorAddress config) ''collectorAddress'') (\<lambda>collectorAddress.
     andThen (isZeroCoin L minimalFee) (\<lambda>zero.
     andThen (if zero then ok None else andThen (decodeAmount L minimalFee) (\<lambda>a. ok (Some a))) (\<lambda>fee.
     ok \<lparr>cash_owner = owner, cash_collectorAddress = collectorAddress, cash_minimalFee = fee\<rparr>)))))"

definition decodeTxFeeConfiguration ::
  "bns_libs \<Rightarrow> string \<Rightarrow> txfee_IConfiguration \<Rightarrow> TxFeeConfiguration result" where
  "decodeTxFeeConfiguration L prefix config =
     andThen (ensureAddress L prefix (tfc_owner config) ''owner'') (\<lambda>owner.
     andThen (ensureAmount L (tfc_baseFee config) ''baseFee'') (\<lambda>baseFee.
     andThen (ensure (tfc_freeBytes config) ''freeBytes'') (\<lambda>freeBytes.
     ok \<lparr>txf_owner = owner, txf_freeBytes = Some freeBytes, txf_baseFee = Some baseFee\<rparr>)))"

definition decodeChainAddressPair :: "username_IBlockchainAddress \<Rightarrow> ChainAddressPair result" where
  "decodeChainAddressPair pair =
     andThen (ensure (ub_blockchainId pair) ''blockchainId'') (\<lambda>chainId.
     andThen (ensure (ub_address pair) ''address'') (\<lambda>address.
     ok \<lparr>cap_chainId = chainId, cap_address = address\<rparr>))"

definition decodeAccountConfiguration ::
  "bns_libs \<Rightarrow> string \<Rightarrow> account_IConfiguration \<Rightarrow> AccountConfiguration result" where
  "decodeAccountConfiguration L prefix patch =
     andThen (ensureAddress L prefix (acf_owner patch) ''owner'') (\<lambda>owner.
     andThen (ensure (acf_validDomain patch) ''validDomain'') (\<lambda>validDomain.
     andThen (ensure (acf_validName patch) ''validName'') (\<lambda>validName.
     andThen (ensure (acf_validBlockchainId patch) ''validBlockchainId'') (\<lambda>validBlockchainId.
     andThen (ensure (acf_validBlockchainAddress patch) ''validBlockchainAddress'') (\<lambda>validBlockchainAddress.
     andThen (ensureInteger L (acf_domainRenew patch) ''domainRenew'') (\<lambda>domainRenew.
     andThen (ensureInteger L (acf_domainGracePeriod patch) ''domainGracePeriod'') (\<lambda>domainGracePeriod.
     ok \<lparr>acc_owner = owner, acc_validDomain = validDomain, acc_validName = validName,
       acc_validBlockchainId = validBlockchainId, acc_validBlockchainAddress = validBlockchainAddress,
       acc_domainRenew = domainRenew, acc_domainGracePeriod = domainGracePeriod\<rparr>)))))))"

definition decodeAccountMsgFee :: "bns_libs \<Rightarrow> account_IAccountMsgFee \<Rightarrow> AccountMsgFee result" where
  "decodeAccountMsgFee L msgFee =
     andThen (ensure (amf_msgPath msgFee) ''msgPath'') (\<lambda>msgPath.
     andThen (ensureAmount L (amf_fee msgFee) ''fee'') (\<lambda>fee.
     ok \<lparr>acm_msgPath = msgPath, acm_fee = fee\<rparr>))"

definition decodeBlockchainAddress :: "account_IBlockchainAddress \<Rightarrow> ChainAddressPair result" where
  "decodeBlockchainAddress pair =
     andThen (ensure (aba_blockchainId pair) ''blockchainId'') (\<lambda>chainId.
     andThen (ensure (aba_address pair) ''address'') (\<lambda>address.
     ok \<lparr>cap_chainId = chainId, cap_address = address\<rparr>))"

definition decodeFraction :: "bns_libs \<Rightarrow> IFraction \<Rightarrow> Fraction result" where
  "decodeFraction L fraction =
     andThen (asIntegerNumber L (map_option JsNumber (fr_numerator fraction))) (\<lambda>numerator.
     andThen (asIntegerNumber L (map_option JsNumber (fr_denominator fraction))) (\<lambda>denominator.
     if denominator = int_num 0 then throw ''Denominator must not be 0''
     else ok \<lparr>frac_numerator = numerator, frac_denominator = denominator\<rparr>))"

definition ensureFraction :: "bns_libs \<Rightarrow> IFraction option \<Rightarrow> string \<Rightarrow> Fraction result" where
  "ensureFraction L field name = andThen (ensure field name) (decodeFraction L)"

definition decodeParticipants ::
  "bns_libs \<Rightarrow> string \<Rightarrow> multisig_IParticipant list option \<Rightarrow> Participant list result" where
  "decodeParticipants L prefix maybeParticipants =
     andThen (ensure maybeParticipants ''participants'') (\<lambda>participants.
     mapM (\<lambda>participant.
       andThen (ensure (mp_weight participant) ''participants.weight'') (\<lambda>weight.
       andThen (ensureAddress L prefix (mp_signature participant) ''participants.signature'') (\<lambda>address.
       ok \<lparr>part_address = address, part_weight = weight\<rparr>))) participants)"

fun decodeElectorsLoop :: "bns_libs \<Rightarrow> string \<Rightarrow> gov_IElector list \<Rightarrow> Electors \<Rightarrow> Electors result" where
  "decodeElectorsLoop L prefix [] accumulator = ok accumulator"
| "decodeElectorsLoop L prefix (elector # rest) accumulator =
     andThen (ensureAddress L prefix (ge_address elector) ''address'') (\<lambda>address.
     andThen (ensure (ge_weight elector) ''weight'') (\<lambda>weight.
     decodeElectorsLoop L prefix rest (objUpdate accumulator address weight)))"

definition decodeElectors :: "bns_libs \<Rightarrow> string \<Rightarrow> gov_IElector list \<Rightarrow> Electors result" where
  "decodeElectors L prefix electors = decodeElectorsLoop L prefix electors []"

fun decodeValidatorsLoop :: "bns_libs \<Rightarrow> weave_IValidatorUpdate list \<Rightarrow> Validators \<Rightarrow> Validators result" where
  "decodeValidatorsLoop L [] acc = ok acc"
| "decodeValidatorsLoop L (validator # rest) acc =
     (case Option.bind (vu_pubKey validator) vk_data of
        None \<Rightarrow> throw ''Validator is missing pubKey data''
      | Some data \<Rightarrow>
          let index = ''ed25519_'' @ toHex data in
          andThen (asIntegerNumber L (vu_power validator)) (\<lambda>power.
          decodeValidatorsLoop L rest (objUpdate acc index power)))"

definition decodeValidators :: "bns_libs \<Rightarrow> weave_IValidatorUpdate list \<Rightarrow> Validators result" where
  "decodeValidators L validators = decodeValidatorsLoop L validators []"

definition decodeMsgFeeConfiguration ::
  "bns_libs \<Rightarrow> string \<Rightarrow> msgfee_IConfiguration \<Rightarrow> MsgFeeConfiguration result" where
  "decodeMsgFeeConfiguration L prefix config =
     andThen (ensureAddress L prefix (mfc_owner config) ''owner'') (\<lambda>owner.
     andThen (ensureAddress L prefix (mfc_feeAdmin config) ''feeAdmin'') (\<lambda>feeAdmin.
     ok \<lparr>mfg_owner = owner, mfg_feeAdmin = Some feeAdmin\<rparr>))"

definition decodePreRegistrationConfiguration ::
  "bns_libs \<Rightarrow> string \<Rightarrow> preregistration_IConfiguration \<Rightarrow> PreRegistrationConfiguration result" where
  "decodePreRegistrationConfiguration L prefix config =
     andThen (ensureAddress L prefix (prc_owner config) ''owner'') (\<lambda>owner. ok \<lparr>pre_owner = owner\<rparr>)"

definition decodeQualityScoreConfiguration ::
  "bns_libs \<Rightarrow> string \<Rightarrow> qualityscore_IConfiguration \<Rightarrow> QualityScoreConfiguration result" where
  "decodeQualityScoreConfiguration L prefix config =
     andThen (ensureAddress L prefix (qsc_owner config) ''owner'') (\<lambda>owner.
     andThen (ensureFraction L (qsc_c config) ''c'') (\<lambda>c.
     andThen (ensureFraction L (qsc_k config) ''k'') (\<lambda>k.
     andThen (ensureFraction L (qsc_kp config) ''kp'') (\<lambda>kp.
     andThen (ensureFraction L (qsc_q0 config) ''q0'') (\<lambda>q0.
     andThen (ensureFraction L (qsc_x config) ''x'') (\<lambda>x.
     andThen (ensureFraction L (qsc_xInf config) ''xInf'') (\<lambda>xInf.
     andThen (ensureFraction L (qsc_xSup config) ''xSup'') (\<lambda>xSup.
     andThen (ensureFraction L (qsc_delta config) ''delta'') (\<lambda>delta.
     ok \<lparr>qs_owner = owner, qs_c = c, qs_k = k, qs_kp = kp, qs_q0 = q0, qs_x = x, qs_xInf = xInf,
       qs_xSup = xSup, qs_delta = delta\<rparr>)))))))))"

definition decodeTermDepositStandardRates ::
  "bns_libs \<Rightarrow> termdeposit_IDepositBonus list \<Rightarrow> TermDepositStandardRate list result" where
  "decodeTermDepositStandardRates L rates = mapM (\<lambda>rate.
     andThen (ensure (tdb_lockinPeriod rate) ''lockinPeriod'') (\<lambda>lockinPeriod.
     andThen (ensureFraction L (tdb_bonus rate) ''bonus'') (\<lambda>bonus.
     ok \<lparr>tsr_lockinPeriod = lockinPeriod, tsr_rate = bonus\<rparr>))) rates"

definition decodeTermDepositCustomRates ::
  "bns_libs \<Rightarrow> string \<Rightarrow> termdeposit_ICustomRate list \<Rightarrow> TermDepositCustomRate list result" where
  "decodeTermDepositCustomRates L prefix rates = mapM (\<lambda>rate.
     andThen (ensureAddress L prefix (tdr_address rate) ''address'') (\<lambda>address.
     andThen (ensureFraction L (tdr_rate rate) ''rate'') (\<lambda>r.
     ok \<lparr>tcr_address = address, tcr_rate = r\<rparr>))) rates"

definition decodeTermDepositConfiguration ::
  "bns_libs \<Rightarrow> string \<Rightarrow> termdeposit_IConfiguration \<Rightarrow> TermDepositConfiguration result" where
  "decodeTermDepositConfiguration L prefix config =
     andThen (ensureAddress L prefix (tdc_owner config) ''owner'') (\<lambda>owner.
     andThen (ensureAddress L prefix (tdc_admin config) ''admin'') (\<lambda>admin.
     andThen (andThen (ensure (tdc_bonuses config) ''bonuses'') (decodeTermDepositStandardRates L)) (\<lambda>standardRates.
     andThen (andThen (ensure (tdc_baseRates config) ''baseRates'') (decodeTermDepositCustomRates L prefix)) (\<lambda>customRates.
     ok \<lparr>td_owner = owner, td_admin = Some admin, td_standardRates = standardRates,
       td_customRates = customRates\<rparr>))))"

section \<open>Proposal actions\<close>

definition decodeBatchMessage :: "bns_libs \<Rightarrow> string \<Rightarrow> ExecuteProposalBatchMsg_IUnion \<Rightarrow> ProposalAction result" where
  "decodeBatchMessage L prefix message = (case un_sendMsg message of
     None \<Rightarrow> throw ''Only send actions are currently supported in proposal batch''
   | Some sendMsg \<Rightarrow>
       andThen (ensureAddress L prefix (sm_source sendMsg) ''source'') (\<lambda>sender.
       andThen (ensureAddress L prefix (sm_destination sendMsg) ''destination'') (\<lambda>recipient.
       andThen (ensureAmount L (sm_amount sendMsg) ''amount'') (\<lambda>amount.
       ok (SendAct \<lparr>sa_sender = sender, sa_recipient = recipient, sa_amount = amount,
         sa_memo = nonEmpty (sm_memo sendMsg)\<rparr>)))))"

definition optionalFraction :: "bns_libs \<Rightarrow> IFraction option \<Rightarrow> Fraction option result" where
  "optionalFraction L f = (case f of None \<Rightarrow> ok None
     | Some g \<Rightarrow> andThen (decodeFraction L g) (\<lambda>h. ok (Some h)))"

text \<open>The chain of conditions of \<open>decodeRawProposalOption\<close>, in its order.\<close>

definition decodeProposalOption :: "bns_libs \<Rightarrow> string \<Rightarrow> bnsd_IProposalOptions \<Rightarrow> ProposalAction result" where
  "decodeProposalOption L prefix option =
     if_set (po_govCreateTextResolutionMsg option) (\<lambda>m.
          ok (CreateTextResolution (decodeString (gt_resolution m))))
     (if_set (po_escrowReleaseMsg option) (\<lambda>m.
          andThen (ensureNumericId L (er_escrowId m) ''escrowId'') (\<lambda>escrowId.
          andThen (andThen (ensure (er_amount m) ''amount'') (mapM (decodeAmount L))) (\<lambda>amounts.
          andThen (ensure (case amounts of [] \<Rightarrow> None | a # _ \<Rightarrow> Some a) ''amount.0'') (\<lambda>amount.
          ok (ReleaseEscrow escrowId amount)))))
     (if_set (po_executeProposalBatchMsg option) (\<lambda>m.
          andThen (andThen (ensure (eb_messages m) ''messages'') (mapM (decodeBatchMessage L prefix))) (\<lambda>messages.
          ok (ExecuteProposalBatch messages)))
     (if_set (po_govUpdateElectionRuleMsg option) (\<lambda>m.
          andThen (ensureNumericId L (gur_electionRuleId m) ''electionRuleId'') (\<lambda>electionRuleId.
          andThen (optionalFraction L (gur_threshold m)) (\<lambda>threshold.
          andThen (optionalFraction L (gur_quorum m)) (\<lambda>quorum.
          andThen (ensure (gur_votingPeriod m) ''votingPeriod'') (\<lambda>votingPeriod.
          ok (UpdateElectionRule \<lparr>uer_electionRuleId = electionRuleId, uer_threshold = threshold,
            uer_quorum = quorum, uer_votingPeriod = votingPeriod\<rparr>))))))
     (if_set (po_govUpdateElectorateMsg option) (\<lambda>m.
          andThen (ensureNumericId L (gue_electorateId m) ''electorateId'') (\<lambda>electorateId.
          andThen (andThen (ensure (gue_diffElectors m) ''diffElectors'') (decodeElectors L prefix)) (\<lambda>diffElectors.
          ok (UpdateElectorate electorateId diffElectors))))
     (if_set (po_validatorsApplyDiffMsg option) (\<lambda>m.
          andThen (andThen (ensure (va_validatorUpdates m) ''validatorUpdates'') (decodeValidators L)) (\<lambda>validatorUpdates.
          ok (SetValidators validatorUpdates)))
     (if_set (po_msgfeeSetMsgFeeMsg option) (\<lambda>m.
          andThen (ensure (mf_msgPath m) ''msgPath'') (\<lambda>msgPath.
          andThen (ensureAmount L (mf_fee m) ''fee'') (\<lambda>fee.
          ok (SetMsgFee msgPath fee))))
     (if_set (po_datamigrationExecuteMigrationMsg option) (\<lambda>m.
          andThen (ensure (dm_migrationId m) ''migrationId'') (\<lambda>i. ok (ExecuteMigration i)))
     (if_set (po_migrationUpgradeSchemaMsg option) (\<lambda>m.
          andThen (ensure (us_pkg m) ''pkg'') (\<lambda>pkg.
          andThen (ensure (us_toVersion m) ''toVersion'') (\<lambda>toVersion.
          ok (UpgradeSchema pkg toVersion))))
     (if_set (po_msgfeeUpdateConfigurationMsg option) (\<lambda>m.
          andThen (andThen (ensure (mfu_patch m) ''patch'') (decodeMsgFeeConfiguration L prefix)) (\<lambda>patch.
          ok (SetMsgFeeConfiguration patch)))
     (if_set (po_preregistrationUpdateConfigurationMsg option) (\<lambda>m.
          andThen (andThen (ensure (pru_patch m) ''patch'') (decodePreRegistrationConfiguration L prefix)) (\<lambda>patch.
          ok (SetPreRegistrationConfiguration patch)))
     (if_set (po_qualityscoreUpdateConfigurationMsg option) (\<lambda>m.
          andThen (andThen (ensure (qsu_patch m) ''patch'') (decodeQualityScoreConfiguration L prefix)) (\<lambda>patch.
          ok (SetQualityScoreConfiguration patch)))
     (if_set (po_termdepositUpdateConfigurationMsg option) (\<lambda>m.
          andThen (andThen (ensure (tdu_patch m) ''patch'') (decodeTermDepositConfiguration L prefix)) (\<lambda>patch.
          ok (SetTermDepositConfiguration patch)))
     (if_set (po_txfeeUpdateConfigurationMsg option) (\<lambda>m.
          andThen (andThen (ensure (tfu_patch m) ''patch'') (decodeTxFeeConfiguration L prefix)) (\<lambda>patch.
          ok (SetTxFeeConfiguration patch)))
     (if_set (po_cashUpdateConfigurationMsg option) (\<lambda>m.
          andThen (andThen (ensure (csu_patch m) ''patch'') (decodeCashConfiguration L prefix)) (\<lambda>patch.
          ok (SetCashConfiguration patch)))
     (if_set (po_accountUpdateConfigurationMsg option) (\<lambda>m.
          andThen (andThen (ensure (auc_patch m) ''patch'') (decodeAccountConfiguration L prefix)) (\<lambda>patch.
          ok (SetAccountConfiguration patch)))
     (if_set (po_accountRegisterDomainMsg option) (\<lambda>m.
          andThen (ensureInteger L (ard_accountRenew m) ''accountRenew'') (\<lambda>accountRenew.
          andThen (ensureAddress L prefix (ard_admin m) ''admin'') (\<lambda>admin.
          andThen (case ard_broker m of None \<Rightarrow> ok [] | Some b \<Rightarrow> encodeBnsAddress L prefix b) (\<lambda>broker.
          andThen (ensure (ard_domain m) ''domain'') (\<lambda>domain.
          andThen (andThen (ensure (ard_msgFees m) ''msgFees'') (mapM (decodeAccountMsgFee L))) (\<lambda>msgFees.
          ok (RegisterDomainAct \<lparr>rda_domain = domain, rda_admin = admin, rda_broker = Some broker,
            rda_hasSuperuser = (ard_hasSuperuser m = Some True), rda_msgFees = msgFees,
            rda_accountRenew = accountRenew\<rparr>)))))))
     (if_set (po_accountRenewDomainMsg option) (\<lambda>m.
          andThen (ensure (arn_domain m) ''domain'') (\<lambda>domain. ok (RenewDomainAct domain)))
     (if_set (po_accountReplaceAccountMsgFeesMsg option) (\<lambda>m.
          andThen (ensure (arm_domain m) ''domain'') (\<lambda>domain.
          andThen (andThen (ensure (arm_newMsgFees m) ''newMsgFees'') (mapM (decodeAccountMsgFee L))) (\<lambda>newMsgFees.
          ok (SetAccountMsgFees domain newMsgFees))))
     (if_set (po_accountReplaceAccountTargetsMsg option) (\<lambda>m.
          andThen (ensure (art_domain m) ''domain'') (\<lambda>domain.
          andThen (ensure (art_name m) ''name'') (\<lambda>name.
          andThen (andThen (ensure (art_newTargets m) ''newTargets'') (mapM decodeBlockchainAddress)) (\<lambda>newTargets.
          ok (SetAccountTargets \<lparr>sat_domain = domain, sat_name = name, sat_newTargets = newTargets\<rparr>)))))
     (if_set (po_accountAddAccountCertificateMsg option) (\<lambda>m.
          andThen (ensure (aac_domain m) ''domain'') (\<lambda>domain.
          andThen (ensure (aac_name m) ''name'') (\<lambda>name.
          andThen (ensure (aac_certificate m) ''certificate'') (\<lambda>certificate.
          ok (AddAccountCertificateAct \<lparr>aca_domain = domain, aca_name = name, aca_certificate = certificate\<rparr>)))))
     (if_set (po_accountDeleteAccountCertificateMsg option) (\<lambda>m.
          andThen (ensure (adc_domain m) ''domain'') (\<lambda>domain.
          andThen (ensure (adc_name m) ''name'') (\<lambda>name.
          andThen (ensure (adc_certificateHash m) ''certificateHash'') (\<lambda>certificateHash.
          ok (DeleteAccountCertificateAct \<lparr>dca_domain = domain, dca_name = name,
            dca_certificateHash = certificateHash\<rparr>)))))
     (throw ''Unsupported ProposalOptions''))))))))))))))))))))))"

definition decodeRawProposalOption :: "bns_libs \<Rightarrow> string \<Rightarrow> byte list \<Rightarrow> ProposalAction result" where
  "decodeRawProposalOption L prefix rawOption = (case options_decode L rawOption of
     None \<Rightarrow> throw ''invalid wire format''
   | Some option \<Rightarrow> decodeProposalOption L prefix option)"

definition decodeVoteOption :: "number \<Rightarrow> VoteOption result" where
  "decodeVoteOption option =
     (if option = int_num 0 then throw ''VOTE_OPTION_INVALID is not allowed''
      else if option = int_num 1 then ok Yes
      else if option = int_num 2 then ok No
      else if option = int_num 3 then ok Abstain
      else throw ''Received unknown value for vote option'')"

section \<open>Messages\<close>

abbreviation withContent :: "UnsignedTransaction \<Rightarrow> TxContent \<Rightarrow> UnsignedTransaction result" where
  "withContent base c \<equiv> ok (base\<lparr>tx_content := c\<rparr>)"

definition decodeSendTransaction :: "bns_libs \<Rightarrow> UnsignedTransaction \<Rightarrow> cash_ISendMsg \<Rightarrow> UnsignedTransaction result" where
  "decodeSendTransaction L base msg =
     (let prefix = addressPrefix (tx_chainId base) in
      andThen (ensureAddress L prefix (sm_source msg) ''source'') (\<lambda>sender.
      andThen (ensureAddress L prefix (sm_destination msg) ''destination'') (\<lambda>recipient.
      andThen (ensureAmount L (sm_amount msg) []) (\<lambda>amount.
      withContent base (Send \<lparr>send_amount = amount, send_sender = sender, send_senderPubkey = None,
        send_recipient = recipient, send_memo = nonEmpty (sm_memo msg)\<rparr>)))))"

definition decodeSwapOfferTx :: "bns_libs \<Rightarrow> UnsignedTransaction \<Rightarrow> aswap_ICreateMsg \<Rightarrow> UnsignedTransaction result" where
  "decodeSwapOfferTx L base msg =
     andThen (ensure (ac_preimageHash msg) ''preimageHash'') (\<lambda>hash.
     if length hash \<noteq> 32 then throw ''Hash must be 32 bytes (sha256)''
     else let prefix = addressPrefix (tx_chainId base) in
      andThen (ensureAddress L prefix (ac_source msg) ''source'') (\<lambda>sender.
      andThen (ensureAddress L prefix (ac_destination msg) ''destination'') (\<lambda>recipient.
      andThen (ensureInteger L (ac_timeout msg) ''timeout'') (\<lambda>timestamp.
      andThen (mapM (decodeAmount L) (case ac_amount msg of None \<Rightarrow> [] | Some a \<Rightarrow> a)) (\<lambda>amounts.
      withContent base (SwapOffer \<lparr>offer_swapId = None, offer_amounts = amounts, offer_sender = sender,
        offer_recipient = recipient, offer_timeout = TimestampTimeout timestamp, offer_hash = hash,
        offer_memo = nonEmpty (ac_memo msg)\<rparr>))))))"

definition decodeSwapClaimTx :: "UnsignedTransaction \<Rightarrow> aswap_IReleaseMsg \<Rightarrow> UnsignedTransaction result" where
  "decodeSwapClaimTx base msg =
     andThen (ensure (ar_swapId msg) []) (\<lambda>swapId.
     andThen (ensure (ar_preimage msg) []) (\<lambda>preimage.
     withContent base (SwapClaim \<lparr>claim_preimage = preimage,
       claim_swapId = \<lparr>swap_prefix = None, swap_data = swapId\<rparr>\<rparr>)))"

definition decodeSwapAbortTransaction :: "UnsignedTransaction \<Rightarrow> aswap_IReturnMsg \<Rightarrow> UnsignedTransaction result" where
  "decodeSwapAbortTransaction base msg =
     andThen (ensure (at_swapId msg) []) (\<lambda>swapId.
     withContent base (SwapAbort \<lparr>abort_swapId = \<lparr>swap_prefix = None, swap_data = swapId\<rparr>\<rparr>))"

definition decodeRegisterUsernameTx ::
  "UnsignedTransaction \<Rightarrow> username_IRegisterTokenMsg \<Rightarrow> UnsignedTransaction result" where
  "decodeRegisterUsernameTx base msg =
     andThen (andThen (ensure (ur_targets msg) ''targets'') (mapM decodeChainAddressPair)) (\<lambda>targets.
     andThen (ensure (ur_username msg) ''username'') (\<lambda>username.
     withContent base (RegisterUsername \<lparr>run_username = username, run_targets = targets\<rparr>)))"

definition decodeUpdateTargetsOfUsernameTx ::
  "UnsignedTransaction \<Rightarrow> username_IChangeTokenTargetsMsg \<Rightarrow> UnsignedTransaction result" where
  "decodeUpdateTargetsOfUsernameTx base msg =
     andThen (andThen (ensure (uc_newTargets msg) ''newTargets'') (mapM decodeChainAddressPair)) (\<lambda>targets.
     andThen (ensure (uc_username msg) ''username'') (\<lambda>username.
     withContent base (UpdateTargetsOfUsername \<lparr>utu_username = username, utu_targets = targets\<rparr>)))"

definition decodeTransferUsernameTx ::
  "bns_libs \<Rightarrow> UnsignedTransaction \<Rightarrow> username_ITransferTokenMsg \<Rightarrow> UnsignedTransaction result" where
  "decodeTransferUsernameTx L base msg =
     (let prefix = addressPrefix (tx_chainId base) in
      andThen (ensure (ut_username msg) ''username'') (\<lambda>username.
      andThen (ensureAddress L prefix (ut_newOwner msg) ''newOwner'') (\<lambda>newOwner.
      withContent base (TransferUsername \<lparr>tu_username = username, tu_newOwner = newOwner\<rparr>))))"

definition decodeUpdateAccountConfigurationTx ::
  "bns_libs \<Rightarrow> UnsignedTransaction \<Rightarrow> account_IUpdateConfigurationMsg \<Rightarrow> UnsignedTransaction result" where
  "decodeUpdateAccountConfigurationTx L base msg =
     (let prefix = addressPrefix (tx_chainId base) in
      andThen (andThen (ensure (auc_patch msg) ''patch'') (decodeAccountConfiguration L prefix)) (\<lambda>configuration.
      withContent base (UpdateAccountConfiguration \<lparr>uac_configuration = configuration\<rparr>)))"

text \<open>\<open>encodeBnsAddress(prefix, ensure(msg.broker, "broker")) || undefined\<close>.\<close>

definition decodeBroker :: "bns_libs \<Rightarrow> string \<Rightarrow> byte list option \<Rightarrow> Address option result" where
  "decodeBroker L prefix broker =
     andThen (ensureAddress L prefix broker ''broker'') (\<lambda>a. ok (nonEmpty (Some a)))"

definition decodeRegisterDomainTx ::
  "bns_libs \<Rightarrow> UnsignedTransaction \<Rightarrow> account_IRegisterDomainMsg \<Rightarrow> UnsignedTransaction result" where
  "decodeRegisterDomainTx L base msg =
     (let prefix = addressPrefix (tx_chainId base) in
      andThen (ensure (ard_domain msg) ''domain'') (\<lambda>domain.
      andThen (ensureAddress L prefix (ard_admin msg) ''admin'') (\<lambda>admin.
      andThen (ensure (ard_hasSuperuser msg) ''hasSuperuser'') (\<lambda>hasSuperuser.
      andThen (decodeBroker L prefix (ard_broker msg)) (\<lambda>broker.
      andThen (andThen (ensure (ard_msgFees msg) ''msgFees'') (mapM (decodeAccountMsgFee L))) (\<lambda>msgFees.
      andThen (ensureInteger L (ard_accountRenew msg) ''accountRenew'') (\<lambda>accountRenew.
      withContent base (RegisterDomain \<lparr>rd_domain = domain, rd_admin = admin, rd_hasSuperuser = hasSuperuser,
        rd_broker = broker, rd_msgFees = msgFees, rd_accountRenew = accountRenew\<rparr>))))))))"

definition decodeTransferDomainTx ::
  "bns_libs \<Rightarrow> UnsignedTransaction \<Rightarrow> account_ITransferDomainMsg \<Rightarrow> UnsignedTransaction result" where
  "decodeTransferDomainTx L base msg =
     (let prefix = addressPrefix (tx_chainId base) in
      andThen (ensure (atd_domain msg) ''domain'') (\<lambda>domain.
      andThen (ensureAddress L prefix (atd_newAdmin msg) ''newAdmin'') (\<lambda>newAdmin.
      withContent base (TransferDomain \<lparr>trd_domain = domain, trd_newAdmin = newAdmin\<rparr>))))"

definition decodeRenewDomainTx ::
  "UnsignedTransaction \<Rightarrow> account_IRenewDomainMsg \<Rightarrow> UnsignedTransaction result" where
  "decodeRenewDomainTx base msg =
     andThen (ensure (arn_domain msg) ''domain'') (\<lambda>domain.
     withContent base (RenewDomain \<lparr>rnd_domain = domain\<rparr>))"

definition decodeDeleteDomainTx ::
  "UnsignedTransaction \<Rightarrow> account_IDeleteDomainMsg \<Rightarrow> UnsignedTransaction result" where
  "decodeDeleteDomainTx base msg =
     andThen (ensure (add_domain msg) ''domain'') (\<lambda>domain.
     withContent base (DeleteDomain \<lparr>dd_domain = domain\<rparr>))"

definition decodeRegisterAccountTx ::
  "bns_libs \<Rightarrow> UnsignedTransaction \<Rightarrow> account_IRegisterAccountMsg \<Rightarrow> UnsignedTransaction result" where
  "decodeRegisterAccountTx L base msg =
     (let prefix = addressPrefix (tx_chainId base) in
      andThen (ensure (ara_domain msg) ''domain'') (\<lambda>domain.
      andThen (ensure (ara_name msg) ''name'') (\<lambda>name.
      andThen (ensureAddress L prefix (ara_owner msg) ''owner'') (\<lambda>owner.
      andThen (andThen (ensure (ara_targets msg) ''targets'') (mapM decodeBlockchainAddress)) (\<lambda>targets.
      andThen (decodeBroker L prefix (ara_broker msg)) (\<lambda>broker.
      withContent base (RegisterAccount \<lparr>ra_domain = domain, ra_name = name, ra_owner = owner,
        ra_targets = targets, ra_broker = broker\<rparr>)))))))"

definition decodeTransferAccountTx ::
  "bns_libs \<Rightarrow> UnsignedTransaction \<Rightarrow> account_ITransferAccountMsg \<Rightarrow> UnsignedTransaction result" where
  "decodeTransferAccountTx L base msg =
     (let prefix = addressPrefix (tx_chainId base) in
      andThen (ensure (ata_domain msg) ''domain'') (\<lambda>domain.
      andThen (ensure (ata_name msg) ''name'') (\<lambda>name.
      andThen (ensureAddress L prefix (ata_newOwner msg) ''newOwner'') (\<lambda>newOwner.
      withContent base (TransferAccount \<lparr>ta_domain = domain, ta_name = name, ta_newOwner = newOwner\<rparr>)))))"

definition decodeReplaceAccountTargetsTx ::
  "UnsignedTransaction \<Rightarrow> account_IReplaceAccountTargetsMsg \<Rightarrow> UnsignedTransaction result" where
  "decodeReplaceAccountTargetsTx base msg =
     andThen (ensure (art_domain msg) ''domain'') (\<lambda>domain.
     andThen (ensure (art_name msg) ''name'') (\<lambda>name.
     andThen (andThen (ensure (art_newTargets msg) ''newTargets'') (mapM decodeBlockchainAddress)) (\<lambda>newTargets.
     withContent base (ReplaceAccountTargets \<lparr>rat_domain = domain, rat_name = Some name,
       rat_newTargets = newTargets\<rparr>))))"

definition decodeDeleteAccountTx ::
  "UnsignedTransaction \<Rightarrow> account_IDeleteAccountMsg \<Rightarrow> UnsignedTransaction result" where
  "decodeDeleteAccountTx base msg =
     andThen (ensure (ada_domain msg) ''domain'') (\<lambda>domain.
     andThen (ensure (ada_name msg) ''name'') (\<lambda>name.
     withContent base (DeleteAccount \<lparr>da_domain = domain, da_name = name\<rparr>)))"

definition decodeDeleteAllAccountsTx ::
  "UnsignedTransaction \<Rightarrow> account_IFlushDomainMsg \<Rightarrow> UnsignedTransaction result" where
  "decodeDeleteAllAccountsTx base msg =
     andThen (ensure (afd_domain msg) ''domain'') (\<lambda>domain.
     withContent base (DeleteAllAccounts \<lparr>daa_domain = domain\<rparr>))"

definition decodeRenewAccountTx ::
  "UnsignedTransaction \<Rightarrow> account_IRenewAccountMsg \<Rightarrow> UnsignedTransaction result" where
  "decodeRenewAccountTx base msg =
     andThen (ensure (arw_domain msg) ''domain'') (\<lambda>domain.
     andThen (ensure (arw_name msg) ''name'') (\<lambda>name.
     withContent base (RenewAccount \<lparr>rna_domain = domain, rna_name = name\<rparr>)))"

definition decodeAddAccountCertificateTx ::
  "UnsignedTransaction \<Rightarrow> account_IAddAccountCertificateMsg \<Rightarrow> UnsignedTransaction result" where
  "decodeAddAccountCertificateTx base msg =
     andThen (ensure (aac_domain msg) ''domain'') (\<lambda>domain.
     andThen (ensure (aac_name msg) ''name'') (\<lambda>name.
     andThen (ensure (aac_certificate msg) ''certificate'') (\<lambda>certificate.
     withContent base (AddAccountCertificate \<lparr>adac_domain = domain, adac_name = name,
       adac_certificate = certificate\<rparr>))))"

definition decodeReplaceAccountMsgFeesTx ::
  "bns_libs \<Rightarrow> UnsignedTransaction \<Rightarrow> account_IReplaceAccountMsgFeesMsg \<Rightarrow> UnsignedTransaction result" where
  "decodeReplaceAccountMsgFeesTx L base msg =
     andThen (ensure (arm_domain msg) ''domain'') (\<lambda>domain.
     andThen (andThen (ensure (arm_newMsgFees msg) ''newMsgFees'') (mapM (decodeAccountMsgFee L))) (\<lambda>newMsgFees.
     withContent base (ReplaceAccountMsgFees \<lparr>ramf_domain = domain, ramf_newMsgFees = newMsgFees\<rparr>)))"

definition decodeDeleteAccountCertificateTx ::
  "UnsignedTransaction \<Rightarrow> account_IDeleteAccountCertificateMsg \<Rightarrow> UnsignedTransaction result" where
  "decodeDeleteAccountCertificateTx base msg =
     andThen (ensure (adc_domain msg) ''domain'') (\<lambda>domain.
     andThen (ensure (adc_name msg) ''name'') (\<lambda>name.
     andThen (ensure (adc_certificateHash msg) ''certificateHash'') (\<lambda>certificateHash.
     withContent base (DeleteAccountCertificate \<lparr>dac_domain = domain, dac_name = name,
       dac_certificateHash = certificateHash\<rparr>))))"

definition decodeCreateMultisignatureTx ::
  "bns_libs \<Rightarrow> UnsignedTransaction \<Rightarrow> multisig_ICreateMsg \<Rightarrow> UnsignedTransaction result" where
  "decodeCreateMultisignatureTx L base msg =
     (let prefix = addressPrefix (tx_chainId base) in
      andThen (decodeParticipants L prefix (mc_participants msg)) (\<lambda>participants.
      andThen (ensure (mc_activationThreshold msg) ''activationThreshold'') (\<lambda>activationThreshold.
      andThen (ensure (mc_adminThreshold msg) ''adminThreshold'') (\<lambda>adminThreshold.
      withContent base (CreateMultisignature \<lparr>cm_participants = participants,
        cm_activationThreshold = activationThreshold, cm_adminThreshold = adminThreshold\<rparr>)))))"

definition decodeUpdateMultisignatureTx ::
  "bns_libs \<Rightarrow> UnsignedTransaction \<Rightarrow> multisig_IUpdateMsg \<Rightarrow> UnsignedTransaction result" where
  "decodeUpdateMultisignatureTx L base msg =
     (let prefix = addressPrefix (tx_chainId base) in
      andThen (ensureNumericId L (mu_contractId msg) ''contractId'') (\<lambda>contractId.
      andThen (decodeParticipants L prefix (mu_participants msg)) (\<lambda>participants.
      andThen (ensure (mu_activationThreshold msg) ''activationThreshold'') (\<lambda>activationThreshold.
      andThen (ensure (mu_adminThreshold msg) ''adminThreshold'') (\<lambda>adminThreshold.
      withContent base (UpdateMultisignature \<lparr>um_contractId = contractId, um_participants = participants,
        um_activationThreshold = activationThreshold, um_adminThreshold = adminThreshold\<rparr>))))))"

definition decodeCreateEscrowTx ::
  "bns_libs \<Rightarrow> UnsignedTransaction \<Rightarrow> escrow_ICreateMsg \<Rightarrow> UnsignedTransaction result" where
  "decodeCreateEscrowTx L base msg =
     (let prefix = addressPrefix (tx_chainId base) in
      andThen (ensureAddress L prefix (ec_source msg) ''source'') (\<lambda>sender.
      andThen (ensureAddress L prefix (ec_arbiter msg) ''arbiter'') (\<lambda>arbiter.
      andThen (ensureAddress L prefix (ec_destination msg) ''destination'') (\<lambda>recipient.
      andThen (andThen (ensure (ec_amount msg) ''amount'') (mapM (decodeAmount L))) (\<lambda>amounts.
      andThen (ensureInteger L (ec_timeout msg) ''timeout'') (\<lambda>timestamp.
      withContent base (CreateEscrow \<lparr>ce_sender = sender, ce_arbiter = arbiter, ce_recipient = recipient,
        ce_amounts = amounts, ce_timeout = timestamp, ce_memo = ec_memo msg\<rparr>)))))))"

definition decodeReleaseEscrowTx ::
  "bns_libs \<Rightarrow> UnsignedTransaction \<Rightarrow> escrow_IReleaseMsg \<Rightarrow> UnsignedTransaction result" where
  "decodeReleaseEscrowTx L base msg =
     andThen (ensureNumericId L (er_escrowId msg) ''escrowId'') (\<lambda>escrowId.
     andThen (andThen (ensure (er_amount msg) ''amount'') (mapM (decodeAmount L))) (\<lambda>amounts.
     withContent base (ReleaseEscrowT \<lparr>rel_escrowId = escrowId, rel_amounts = amounts\<rparr>)))"

definition decodeReturnEscrowTx ::
  "bns_libs \<Rightarrow> UnsignedTransaction \<Rightarrow> escrow_IReturnMsg \<Rightarrow> UnsignedTransaction result" where
  "decodeReturnEscrowTx L base msg =
     andThen (ensureNumericId L (et_escrowId msg) ''escrowId'') (\<lambda>escrowId.
     withContent base (ReturnEscrow \<lparr>ret_escrowId = escrowId\<rparr>))"

definition decodeUpdateEscrowPartiesTx ::
  "bns_libs \<Rightarrow> UnsignedTransaction \<Rightarrow> escrow_IUpdatePartiesMsg \<Rightarrow> UnsignedTransaction result" where
  "decodeUpdateEscrowPartiesTx L base msg =
     (let prefix = addressPrefix (tx_chainId base) in
      andThen (ensureNumericId L (eu_escrowId msg) ''escrowId'') (\<lambda>escrowId.
      andThen (optionalAddress L prefix (eu_source msg)) (\<lambda>sender.
      andThen (optionalAddress L prefix (eu_arbiter msg)) (\<lambda>arbiter.
      andThen (optionalAddress L prefix (eu_destination msg)) (\<lambda>recipient.
      withContent base (UpdateEscrowParties \<lparr>uep_escrowId = escrowId, uep_sender = sender,
        uep_arbiter = arbiter, uep_recipient = recipient\<rparr>))))))"

definition decodeCreateProposalTx ::
  "bns_libs \<Rightarrow> UnsignedTransaction \<Rightarrow> gov_ICreateProposalMsg \<Rightarrow> UnsignedTransaction result" where
  "decodeCreateProposalTx L base msg =
     (let prefix = addressPrefix (tx_chainId base) in
      andThen (ensure (gp_title msg) ''title'') (\<lambda>title.
      andThen (andThen (ensure (gp_rawOption msg) ''rawOption'') (decodeRawProposalOption L prefix)) (\<lambda>action.
      andThen (ensure (gp_description msg) ''description'') (\<lambda>description.
      andThen (ensureNumericId L (gp_electionRuleId msg) ''electionRuleId'') (\<lambda>electionRuleId.
      andThen (ensureInteger L (gp_startTime msg) ''startTime'') (\<lambda>startTime.
      andThen (ensureAddress L prefix (gp_author msg) ''author'') (\<lambda>author.
      withContent base (CreateProposal \<lparr>cp_title = title, cp_action = action, cp_description = description,
        cp_electionRuleId = electionRuleId, cp_startTime = startTime, cp_author = author\<rparr>))))))))"

definition decodeVoteTx ::
  "bns_libs \<Rightarrow> UnsignedTransaction \<Rightarrow> gov_IVoteMsg \<Rightarrow> UnsignedTransaction result" where
  "decodeVoteTx L base msg =
     (let prefix = addressPrefix (tx_chainId base) in
      andThen (ensureNumericId L (gv_proposalId msg) ''proposalId'') (\<lambda>proposalId.
      andThen (andThen (ensure (gv_selected msg) ''selected'') decodeVoteOption) (\<lambda>selection.
      andThen (optionalAddress L prefix (gv_voter msg)) (\<lambda>voter.
      withContent base (VoteT \<lparr>vote_proposalId = proposalId, vote_selection = selection,
        vote_voter = voter\<rparr>)))))"

definition decodeMsg :: "bns_libs \<Rightarrow> UnsignedTransaction \<Rightarrow> BnsdTxMsg \<Rightarrow> UnsignedTransaction result" where
  "decodeMsg L base tx =
     if_set (cashSendMsg tx) (decodeSendTransaction L base)
     (if_set (aswapCreateMsg tx) (decodeSwapOfferTx L base)
     (if_set (aswapReleaseMsg tx) (decodeSwapClaimTx base)
     (if_set (aswapReturnMsg tx) (decodeSwapAbortTransaction base)
     (if_set (usernameRegisterTokenMsg tx) (decodeRegisterUsernameTx base)
     (if_set (usernameChangeTokenTargetsMsg tx) (decodeUpdateTargetsOfUsernameTx base)
     (if_set (usernameTransferTokenMsg tx) (decodeTransferUsernameTx L base)
     (if_set (accountUpdateConfigurationMsg tx) (decodeUpdateAccountConfigurationTx L base)
     (if_set (accountRegisterDomainMsg tx) (decodeRegisterDomainTx L base)
     (if_set (accountTransferDomainMsg tx) (decodeTransferDomainTx L base)
     (if_set (accountRenewDomainMsg tx) (decodeRenewDomainTx base)
     (if_set (accountDeleteDomainMsg tx) (decodeDeleteDomainTx base)
     (if_set (accountRegisterAccountMsg tx) (decodeRegisterAccountTx L base)
     (if_set (accountTransferAccountMsg tx) (decodeTransferAccountTx L base)
     (if_set (accountReplaceAccountTargetsMsg tx) (decodeReplaceAccountTargetsTx base)
     (if_set (accountDeleteAccountMsg tx) (decodeDeleteAccountTx base)
     (if_set (accountFlushDomainMsg tx) (decodeDeleteAllAccountsTx base)
     (if_set (accountRenewAccountMsg tx) (decodeRenewAccountTx base)
     (if_set (accountAddAccountCertificateMsg tx) (decodeAddAccountCertificateTx base)
     (if_set (accountReplaceAccountMsgFeesMsg tx) (decodeReplaceAccountMsgFeesTx L base)
     (if_set (accountDeleteAccountCertificateMsg tx) (decodeDeleteAccountCertificateTx base)
     (if_set (multisigCreateMsg tx) (decodeCreateMultisignatureTx L base)
     (if_set (multisigUpdateMsg tx) (decodeUpdateMultisignatureTx L base)
     (if_set (escrowCreateMsg tx) (decodeCreateEscrowTx L base)
     (if_set (escrowReleaseMsg tx) (decodeReleaseEscrowTx L base)
     (if_set (escrowReturnMsg tx) (decodeReturnEscrowTx L base)
     (if_set (escrowUpdatePartiesMsg tx) (decodeUpdateEscrowPartiesTx L base)
     (if_set (govCreateProposalMsg tx) (decodeCreateProposalTx L base)
     (if_set (govVoteMsg tx) (decodeVoteTx L base)
     (throw ''unknown message type in transaction'')))))))))))))))))))))))))))))"

section \<open>Signatures and transactions\<close>

definition decodeNonce :: "bns_libs \<Rightarrow> wire_int option \<Rightarrow> Nonce result" where
  "decodeNonce L sequence = asIntegerNumber L sequence"

definition decodePubkey :: "crypto_IPublicKey \<Rightarrow> PubkeyBundle result" where
  "decodePubkey publicKey = (case pub_ed25519 publicKey of
     Some d \<Rightarrow> ok \<lparr>pk_algo = Ed25519, pk_data = d\<rparr>
   | None \<Rightarrow> throw ''Unknown public key algorithm'')"

definition decodeSignature :: "crypto_ISignature \<Rightarrow> byte list result" where
  "decodeSignature signature = (case sg_ed25519 signature of
     Some d \<Rightarrow> ok d | None \<Rightarrow> throw ''Unknown private key algorithm'')"

definition decodeFullSig :: "bns_libs \<Rightarrow> sigs_IStdSignature \<Rightarrow> FullSignature result" where
  "decodeFullSig L sig =
     andThen (decodeNonce L (ss_sequence sig)) (\<lambda>nonce.
     andThen (andThen (ensure (ss_pubkey sig) []) decodePubkey) (\<lambda>pubkey.
     andThen (andThen (ensure (ss_signature sig) []) decodeSignature) (\<lambda>signature.
     ok \<lparr>sig_nonce = nonce, sig_pubkey = pubkey, sig_signature = signature\<rparr>)))"

definition decodeBaseTx :: "bns_libs \<Rightarrow> bnsd_ITx \<Rightarrow> ChainId \<Rightarrow> UnsignedTransaction result" where
  "decodeBaseTx L tx chainId =
     (let base = \<lparr>tx_chainId = chainId, tx_fee = None, tx_multisig = None, tx_content = OtherKind []\<rparr> in
      andThen (case itx_fees tx of
          None \<Rightarrow> ok base
        | Some f \<Rightarrow> (case fi_fees f of
            None \<Rightarrow> ok base
          | Some coin \<Rightarrow>
              andThen (optionalAddress L (addressPrefix (tx_chainId base)) (fi_payer f)) (\<lambda>payer.
              andThen (decodeAmount L coin) (\<lambda>tokens.
              ok (base\<lparr>tx_fee := Some \<lparr>fee_tokens = Some tokens, fee_gasPrice = None,
                fee_gasLimit = None, fee_payer = payer\<rparr>\<rparr>))))) (\<lambda>base1.
      case itx_multisig tx of
        None \<Rightarrow> ok base1
      | Some ids \<Rightarrow>
          if ids = [] then ok base1
          else andThen (mapM (decodeNumericId L) ids) (\<lambda>ms. ok (base1\<lparr>tx_multisig := Some ms\<rparr>))))"

definition decodeSignedTx :: "bns_libs \<Rightarrow> bnsd_ITx \<Rightarrow> ChainId \<Rightarrow> SignedTransaction result" where
  "decodeSignedTx L tx chainId =
     andThen (andThen (ensure (itx_signatures tx) ''signatures'') (mapM (decodeFullSig L))) (\<lambda>signatures.
     andThen (case newNonEmptyArray signatures of
         Inl _ \<Rightarrow> throw ''Transaction has no signatures'' | Inr s \<Rightarrow> ok s) (\<lambda>signaturesNonEmpty.
     andThen (decodeBaseTx L tx chainId) (\<lambda>base.
     andThen (decodeMsg L base (itx_msg tx)) (\<lambda>transaction.
     ok \<lparr>stx_transaction = transaction, stx_signatures = signaturesNonEmpty\<rparr>))))"

end
