(* ===== verification/Bns_Codec.thy ===== *)
theory Bns_Codec
  imports Bns_Encode Bns_Decode
begin

text \<open>
  \<open>packages/iov-bns/src/bnscodec.ts\<close> and the correctness of the BNS codec: a
  transaction that is encoded, sent over the wire (the functions \<open>norm_...\<close>) and
  decoded again is the transaction that was sent, for every kind of transaction
  and the contents \<open>wire_content\<close> describes. What falls outside is stated too.
\<close>

section \<open>The building blocks over the wire\<close>

definition raw_address :: "bns_libs \<Rightarrow> Address \<Rightarrow> byte list" where
  "raw_address L a = projr (addressData L a)"

definition raw_id :: "bns_libs \<Rightarrow> number \<Rightarrow> byte list" where
  "raw_id L n = projr (encodeNumericId L n)"

definition raw_amount :: "Amount \<Rightarrow> coin_ICoin" where
  "raw_amount a = projr (encodeAmount a)"

text \<open>Rewrite rules for the wire form of valid addresses, ids, amounts and integers.\<close>

named_theorems wire

lemma address_wire [wire]:
  assumes "bns_laws L" "address_of L (addressPrefix c) a"
  shows "addressData L a = ok (raw_address L a)"
    and "encodeBnsAddress L (addressPrefix c) (raw_address L a) = ok a"
  using codec.image [OF address_codec [OF assms(1)] assms(2)] by (auto simp: raw_address_def)

lemma id_wire [wire]:
  assumes "bns_laws L" "numeric_id n"
  shows "encodeNumericId L n = ok (raw_id L n)" and "decodeNumericId L (raw_id L n) = ok n"
  using codec.image [OF numeric_id_codec [OF assms(1)] assms(2)] by (auto simp: raw_id_def)

lemma id_list_wire [wire]:
  assumes "bns_laws L" "list_all numeric_id ns"
  shows "mapM (encodeNumericId L) ns = ok (map (raw_id L) ns)"
    and "mapM (decodeNumericId L) (map (raw_id L) ns) = ok ns"
  using codec.list_image [OF numeric_id_codec [OF assms(1)] assms(2)]
  by (auto simp: raw_id_def [abs_def])

lemma amount_encode [wire]: "wire_amount a \<Longrightarrow> encodeAmount a = ok (raw_amount a)"
  using codec.image [OF amount_codec [OF demo_laws], of a] by (auto simp: raw_amount_def)

lemma amount_decode [wire]:
  "bns_laws L \<Longrightarrow> wire_amount a \<Longrightarrow> decodeAmount L (norm_coin_ICoin (raw_amount a)) = ok a"
  using codec.image [OF amount_codec [of L], of a] by (auto simp: raw_amount_def)

lemma amount_list_encode [wire]:
  "list_all wire_amount as \<Longrightarrow> mapM encodeAmount as = ok (map raw_amount as)"
  using codec.list_image [OF amount_codec [OF demo_laws], of as] by (auto simp: raw_amount_def [abs_def])

lemma amount_list_decode [wire]:
  "bns_laws L \<Longrightarrow> list_all wire_amount as \<Longrightarrow>
   mapM (decodeAmount L) (map (norm_coin_ICoin \<circ> raw_amount) as) = ok as"
  using codec.list_image [OF amount_codec [of L], of as]
  by (auto simp: raw_amount_def [abs_def] mapM_map comp_def)

lemma int_wire [wire]:
  "bns_laws L \<Longrightarrow> int32_num n \<Longrightarrow> asIntegerNumber L (norm_int64 (Some (JsNumber n))) = ok n"
  by (rule asIntegerNumber_wire)

definition raw_int :: "number \<Rightarrow> number option" where
  "raw_int n = projr (encodeInt n)"

lemma encoded_int_wire [wire]:
  assumes "bns_laws L" "int32_num n"
  shows "encodeInt n = ok (raw_int n)"
    and "ensureInteger L (norm_int64 (map_option JsNumber (raw_int n))) name = ok n"
proof -
  obtain w where w: "encodeInt n = ok w" "asIntegerNumber L (norm_int64 (map_option JsNumber w)) = ok n"
    using encodeInt_wire [OF assms] by blast
  then show "encodeInt n = ok (raw_int n)" by (simp add: raw_int_def)
  obtain x where "norm_int64 (map_option JsNumber w) = Some x" by (simp add: norm_int64_def)
  with w show "ensureInteger L (norm_int64 (map_option JsNumber (raw_int n))) name = ok n"
    by (simp add: raw_int_def ensureInteger_def)
qed

lemma plain_int_wire [wire]:
  assumes "bns_laws L" "int32_num n"
  shows "ensureInteger L (norm_int64 (Some (JsNumber n))) name = ok n"
  using asIntegerNumber_wire [OF assms] by (simp add: ensureInteger_def norm_int64_def)

definition memo_fits :: "string \<Rightarrow> bool" where
  "memo_fits s \<longleftrightarrow> length (toUtf8 s) \<le> maxMemoLength"

definition wire_memo :: "string option \<Rightarrow> bool" where
  "wire_memo m = (case m of None \<Rightarrow> True | Some s \<Rightarrow> s \<noteq> [] \<and> memo_fits s)"

lemma memo_wire [wire]:
  assumes "wire_memo m"
  shows "encodeMemo m = ok m" and "nonEmpty (norm_string m) = m"
  using assms by (auto simp: wire_memo_def memo_fits_def encodeMemo_def encodeString_def nonEmpty_def
      split: option.splits)

lemma set_memo_wire [wire]:
  "memo_fits s \<Longrightarrow> encodeMemo (Some s) = ok (encodeString (Some s))"
  "norm_string (encodeString (Some s)) = Some s"
  by (auto simp: memo_fits_def encodeMemo_def encodeString_def)

lemma broker_wire [wire]:
  assumes "bns_laws L" "address_of L (addressPrefix c) a"
  shows "optionalAddressData L (Some a) = ok (Some (raw_address L a))"
    and "decodeBroker L (addressPrefix c) (Some (raw_address L a)) = ok (Some a)"
    and "optionalAddress L (addressPrefix c) (Some (raw_address L a)) = ok (Some a)"
  using address_wire [OF assms] address_not_empty [OF assms]
  by (simp_all add: optionalAddressData_def decodeBroker_def ensureAddress_def nonEmpty_def optionalAddress_def)

lemma ensure_wire [wire]:
  assumes "bns_laws L"
  shows "address_of L (addressPrefix c) a \<Longrightarrow> ensureAddress L (addressPrefix c) (Some (raw_address L a)) name = ok a"
    and "numeric_id n \<Longrightarrow> ensureNumericId L (Some (raw_id L n)) name = ok n"
    and "wire_amount x \<Longrightarrow> ensureAmount L (Some (norm_coin_ICoin (raw_amount x))) name = ok x"
  using assms by (simp_all add: ensureAddress_def ensureNumericId_def ensureAmount_def
      address_wire(2) id_wire(2) amount_decode)

text \<open>Lists of targets, fees and participants.\<close>

lemma targets_wire [wire]:
  "mapM decodeChainAddressPair (map (norm_username_IBlockchainAddress \<circ> encodeChainAddressPair) ts) = ok ts"
  "mapM decodeBlockchainAddress (map (norm_account_IBlockchainAddress \<circ> encodeAccountChainAddress) ts) = ok ts"
  by (induction ts) (simp_all add: decodeChainAddressPair_def decodeBlockchainAddress_def
      norm_username_IBlockchainAddress_def norm_account_IBlockchainAddress_def
      encodeChainAddressPair_def encodeAccountChainAddress_def)

definition raw_fee :: "AccountMsgFee \<Rightarrow> account_IAccountMsgFee" where
  "raw_fee f = \<lparr>amf_msgPath = Some (acm_msgPath f), amf_fee = Some (raw_amount (acm_fee f))\<rparr>"

lemma fees_encode [wire]:
  "list_all (\<lambda>f. wire_amount (acm_fee f)) fs \<Longrightarrow> mapM encodeAccountMsgFee fs = ok (map raw_fee fs)"
  by (induction fs) (simp_all add: encodeAccountMsgFee_def raw_fee_def amount_encode)

lemma fees_decode [wire]:
  "bns_laws L \<Longrightarrow> list_all (\<lambda>f. wire_amount (acm_fee f)) fs \<Longrightarrow>
   mapM (decodeAccountMsgFee L) (map (norm_account_IAccountMsgFee \<circ> raw_fee) fs) = ok fs"
  by (induction fs) (simp_all add: decodeAccountMsgFee_def norm_account_IAccountMsgFee_def raw_fee_def
      ensure_wire)

definition wire_participant :: "bns_libs \<Rightarrow> string \<Rightarrow> Participant \<Rightarrow> bool" where
  "wire_participant L prefix p \<longleftrightarrow> address_of L prefix (part_address p) \<and> int32_num (part_weight p)"

definition raw_participant :: "bns_libs \<Rightarrow> Participant \<Rightarrow> multisig_IParticipant" where
  "raw_participant L p = \<lparr>mp_signature = Some (raw_address L (part_address p)), mp_weight = Some (part_weight p)\<rparr>"

lemma participants_encode [wire]:
  "bns_laws L \<Longrightarrow> list_all (wire_participant L (addressPrefix c)) ps \<Longrightarrow>
   encodeParticipants L ps = ok (map (raw_participant L) ps)"
  unfolding encodeParticipants_def
  by (induction ps) (auto simp: wire_participant_def raw_participant_def address_wire(1))

lemma participants_decode [wire]:
  assumes "bns_laws L" "list_all (wire_participant L (addressPrefix c)) ps"
  shows "decodeParticipants L (addressPrefix c)
    (Some (map (norm_multisig_IParticipant \<circ> raw_participant L) ps)) = ok ps"
  using assms(2)
  by (induction ps) (simp_all add: decodeParticipants_def wire_participant_def raw_participant_def
      norm_multisig_IParticipant_def ensure_wire(1) [OF assms(1)])

section \<open>Dispatch\<close>

lemma decodeMsg_dispatch:
  "decodeMsg L base (norm_BnsdTxMsg (no_msg\<lparr>cashSendMsg := Some m0\<rparr>)) = decodeSendTransaction L base (norm_cash_ISendMsg m0)"
  "decodeMsg L base (norm_BnsdTxMsg (no_msg\<lparr>aswapCreateMsg := Some m1\<rparr>)) = decodeSwapOfferTx L base (norm_aswap_ICreateMsg m1)"
  "decodeMsg L base (norm_BnsdTxMsg (no_msg\<lparr>aswapReleaseMsg := Some m2\<rparr>)) = decodeSwapClaimTx base (norm_aswap_IReleaseMsg m2)"
  "decodeMsg L base (norm_BnsdTxMsg (no_msg\<lparr>aswapReturnMsg := Some m3\<rparr>)) = decodeSwapAbortTransaction base (norm_aswap_IReturnMsg m3)"
  "decodeMsg L base (norm_BnsdTxMsg (no_msg\<lparr>usernameRegisterTokenMsg := Some m4\<rparr>)) = decodeRegisterUsernameTx base (norm_username_IRegisterTokenMsg m4)"
  "decodeMsg L base (norm_BnsdTxMsg (no_msg\<lparr>usernameChangeTokenTargetsMsg := Some m5\<rparr>)) = decodeUpdateTargetsOfUsernameTx base (norm_username_IChangeTokenTargetsMsg m5)"
  "decodeMsg L base (norm_BnsdTxMsg (no_msg\<lparr>usernameTransferTokenMsg := Some m6\<rparr>)) = decodeTransferUsernameTx L base (norm_username_ITransferTokenMsg m6)"
  "decodeMsg L base (norm_BnsdTxMsg (no_msg\<lparr>accountUpdateConfigurationMsg := Some m7\<rparr>)) = decodeUpdateAccountConfigurationTx L base (norm_account_IUpdateConfigurationMsg m7)"
  "decodeMsg L base (norm_BnsdTxMsg (no_msg\<lparr>accountRegisterDomainMsg := Some m8\<rparr>)) = decodeRegisterDomainTx L base (norm_account_IRegisterDomainMsg m8)"
  "decodeMsg L base (norm_BnsdTxMsg (no_msg\<lparr>accountTransferDomainMsg := Some m9\<rparr>)) = decodeTransferDomainTx L base (norm_account_ITransferDomainMsg m9)"
  "decodeMsg L base (norm_BnsdTxMsg (no_msg\<lparr>accountRenewDomainMsg := Some m10\<rparr>)) = decodeRenewDomainTx base (norm_account_IRenewDomainMsg m10)"
  "decodeMsg L base (norm_BnsdTxMsg (no_msg\<lparr>accountDeleteDomainMsg := Some m11\<rparr>)) = decodeDeleteDomainTx base (norm_account_IDeleteDomainMsg m11)"
  "decodeMsg L base (norm_BnsdTxMsg (no_msg\<lparr>accountRegisterAccountMsg := Some m12\<rparr>)) = decodeRegisterAccountTx L base (norm_account_IRegisterAccountMsg m12)"
  "decodeMsg L base (norm_BnsdTxMsg (no_msg\<lparr>accountTransferAccountMsg := Some m13\<rparr>)) = decodeTransferAccountTx L base (norm_account_ITransferAccountMsg m13)"
  "decodeMsg L base (norm_BnsdTxMsg (no_msg\<lparr>accountReplaceAccountTargetsMsg := Some m14\<rparr>)) = decodeReplaceAccountTargetsTx base (norm_account_IReplaceAccountTargetsMsg m14)"
  "decodeMsg L base (norm_BnsdTxMsg (no_msg\<lparr>accountDeleteAccountMsg := Some m15\<rparr>)) = decodeDeleteAccountTx base (norm_account_IDeleteAccountMsg m15)"
  "decodeMsg L base (norm_BnsdTxMsg (no_msg\<lparr>accountFlushDomainMsg := Some m16\<rparr>)) = decodeDeleteAllAccountsTx base (norm_account_IFlushDomainMsg m16)"
  "decodeMsg L base (norm_BnsdTxMsg (no_msg\<lparr>accountRenewAccountMsg := Some m17\<rparr>)) = decodeRenewAccountTx base (norm_account_IRenewAccountMsg m17)"
  "decodeMsg L base (norm_BnsdTxMsg (no_msg\<lparr>accountAddAccountCertificateMsg := Some m18\<rparr>)) = decodeAddAccountCertificateTx base (norm_account_IAddAccountCertificateMsg m18)"
  "decodeMsg L base (norm_BnsdTxMsg (no_msg\<lparr>accountReplaceAccountMsgFeesMsg := Some m19\<rparr>)) = decodeReplaceAccountMsgFeesTx L base (norm_account_IReplaceAccountMsgFeesMsg m19)"
  "decodeMsg L base (norm_BnsdTxMsg (no_msg\<lparr>accountDeleteAccountCertificateMsg := Some m20\<rparr>)) = decodeDeleteAccountCertificateTx base (norm_account_IDeleteAccountCertificateMsg m20)"
  "decodeMsg L base (norm_BnsdTxMsg (no_msg\<lparr>multisigCreateMsg := Some m21\<rparr>)) = decodeCreateMultisignatureTx L base (norm_multisig_ICreateMsg m21)"
  "decodeMsg L base (norm_BnsdTxMsg (no_msg\<lparr>multisigUpdateMsg := Some m22\<rparr>)) = decodeUpdateMultisignatureTx L base (norm_multisig_IUpdateMsg m22)"
  "decodeMsg L base (norm_BnsdTxMsg (no_msg\<lparr>escrowCreateMsg := Some m23\<rparr>)) = decodeCreateEscrowTx L base (norm_escrow_ICreateMsg m23)"
  "decodeMsg L base (norm_BnsdTxMsg (no_msg\<lparr>escrowReleaseMsg := Some m24\<rparr>)) = decodeReleaseEscrowTx L base (norm_escrow_IReleaseMsg m24)"
  "decodeMsg L base (norm_BnsdTxMsg (no_msg\<lparr>escrowReturnMsg := Some m25\<rparr>)) = decodeReturnEscrowTx L base (norm_escrow_IReturnMsg m25)"
  "decodeMsg L base (norm_BnsdTxMsg (no_msg\<lparr>escrowUpdatePartiesMsg := Some m26\<rparr>)) = decodeUpdateEscrowPartiesTx L base (norm_escrow_IUpdatePartiesMsg m26)"
  "decodeMsg L base (norm_BnsdTxMsg (no_msg\<lparr>govCreateProposalMsg := Some m27\<rparr>)) = decodeCreateProposalTx L base (norm_gov_ICreateProposalMsg m27)"
  "decodeMsg L base (norm_BnsdTxMsg (no_msg\<lparr>govVoteMsg := Some m28\<rparr>)) = decodeVoteTx L base (norm_gov_IVoteMsg m28)"
  by (simp_all add: decodeMsg_def norm_BnsdTxMsg_def no_msg_def)

section \<open>Proposal actions\<close>

definition wire_validator :: "string \<times> number \<Rightarrow> bool" where
  "wire_validator v \<longleftrightarrow> (\<exists>d. length d = 32 \<and> fst v = ''ed25519_'' @ toHex d) \<and> int32_num (snd v)"

definition raw_validator :: "string \<times> number \<Rightarrow> weave_IValidatorUpdate" where
  "raw_validator v = \<lparr>vu_pubKey = Some \<lparr>vk_type = Some ''ed25519'', vk_data = Some (projr (fromHex (drop 8 (fst v))))\<rparr>,
     vu_power = Some (JsNumber (snd v))\<rparr>"

lemma validator_key:
  assumes "wire_validator v"
  obtains d where "match_validator_key (fst v) = Some (toHex d)" "fromHex (toHex d) = ok d"
    "drop 8 (fst v) = toHex d" "fst v = ''ed25519_'' @ toHex d"
proof -
  obtain d where d: "length d = 32" "fst v = ''ed25519_'' @ toHex d"
    using assms by (auto simp: wire_validator_def)
  then have "match_validator_key (fst v) = Some (toHex d)"
    using toHex_hex_digits [of d] by (simp add: match_validator_key_def Let_def)
  then show thesis using d hex.dec_enc [of d] by (intro that) simp_all
qed

lemma validators_encode [wire]:
  "list_all wire_validator vs \<Longrightarrow> encodeValidators vs = ok (map raw_validator vs)"
  unfolding encodeValidators_def
proof (rule mapM_ok, clarify)
  fix k p assume "list_all wire_validator vs" "(k, p) \<in> set vs"
  then have "wire_validator (k, p)" by (auto simp: list_all_iff)
  then show "(case match_validator_key k of None \<Rightarrow> throw ''Got validators object key of unexpected format.''
     | Some hex \<Rightarrow> andThen (fromHex hex) (\<lambda>data.
         ok \<lparr>vu_pubKey = Some \<lparr>vk_type = Some ''ed25519'', vk_data = Some data\<rparr>,
             vu_power = Some (JsNumber p)\<rparr>)) = ok (raw_validator (k, p))"
    by (rule validator_key) (simp add: raw_validator_def)
qed

lemma decodeValidatorsLoop_ok:
  assumes L: "bns_laws L"
  shows "list_all wire_validator vs \<Longrightarrow> distinct (map fst (acc @ vs)) \<Longrightarrow>
    decodeValidatorsLoop L (map (norm_weave_IValidatorUpdate \<circ> raw_validator) vs) acc = ok (acc @ vs)"
proof (induction vs arbitrary: acc)
  case (Cons v vs)
  then obtain d where d: "fromHex (toHex d) = ok d" "drop 8 (fst v) = toHex d" "fst v = ''ed25519_'' @ toHex d"
    by (auto elim: validator_key)
  have p: "asIntegerNumber L (norm_int64 (Some (JsNumber (snd v)))) = ok (snd v)"
    using Cons.prems by (simp add: wire_validator_def int_wire [OF L])
  have u: "objUpdate acc (fst v) (snd v) = acc @ [v]"
    using Cons.prems(2) by (simp add: objUpdate_new)
  show ?case using Cons.IH [of "acc @ [v]"] Cons.prems d(1,2) p u d(3) [symmetric]
    by (simp add: raw_validator_def norm_weave_IValidatorUpdate_def norm_weave_IPubKey_def)
qed simp

lemma validators_decode [wire]:
  "bns_laws L \<Longrightarrow> list_all wire_validator vs \<Longrightarrow> distinct (map fst vs) \<Longrightarrow>
   decodeValidators L (map (norm_weave_IValidatorUpdate \<circ> raw_validator) vs) = ok vs"
  using decodeValidatorsLoop_ok [of L vs "[]"] by (simp add: decodeValidators_def)

definition raw_elector :: "bns_libs \<Rightarrow> string \<times> number \<Rightarrow> gov_IElector" where
  "raw_elector L e = \<lparr>ge_address = Some (raw_address L (fst e)), ge_weight = Some (snd e)\<rparr>"

lemma electors_encode [wire]:
  "bns_laws L \<Longrightarrow> list_all (\<lambda>e. address_of L (addressPrefix c) (fst e)) es \<Longrightarrow>
   encodeElectors L es = ok (map (raw_elector L) es)"
  unfolding encodeElectors_def
  by (rule mapM_ok) (auto simp: list_all_iff raw_elector_def address_wire(1))

lemma decodeElectorsLoop_ok:
  assumes L: "bns_laws L"
  shows "list_all (\<lambda>e. address_of L (addressPrefix c) (fst e)) es \<Longrightarrow> distinct (map fst (acc @ es)) \<Longrightarrow>
    decodeElectorsLoop L (addressPrefix c) (map (norm_gov_IElector \<circ> raw_elector L) es) acc = ok (acc @ es)"
proof (induction es arbitrary: acc)
  case (Cons e es)
  then have "objUpdate acc (fst e) (snd e) = acc @ [e]" by (simp add: objUpdate_new)
  then show ?case using Cons.IH [of "acc @ [e]"] Cons.prems
    by (simp add: raw_elector_def norm_gov_IElector_def ensure_wire(1) [OF L])
qed simp

lemma electors_decode [wire]:
  "bns_laws L \<Longrightarrow> list_all (\<lambda>e. address_of L (addressPrefix c) (fst e)) es \<Longrightarrow> distinct (map fst es) \<Longrightarrow>
   decodeElectors L (addressPrefix c) (map (norm_gov_IElector \<circ> raw_elector L) es) = ok es"
  using decodeElectorsLoop_ok [of L c es "[]"] by (simp add: decodeElectors_def)

definition wire_fraction :: "Fraction \<Rightarrow> bool" where
  "wire_fraction f \<longleftrightarrow> int32_num (frac_numerator f) \<and> int32_num (frac_denominator f)
     \<and> frac_denominator f \<noteq> int_num 0"

lemma fraction_wire [wire]:
  "wire_fraction f \<Longrightarrow> decodeFraction L (norm_IFraction (encodeFraction f)) = ok f"
  by (cases f)
     (auto simp: wire_fraction_def int32_num_def decodeFraction_def norm_IFraction_def encodeFraction_def
       asIntegerNumber_def)

lemma optional_fraction_wire [wire]:
  "pred_option wire_fraction f \<Longrightarrow>
   optionalFraction L (map_option (norm_IFraction \<circ> encodeFraction) f) = ok f"
  by (cases f) (simp_all add: optionalFraction_def fraction_wire)

definition wire_send_action :: "bns_libs \<Rightarrow> string \<Rightarrow> SendAction \<Rightarrow> bool" where
  "wire_send_action L prefix a \<longleftrightarrow> address_of L prefix (sa_sender a) \<and> address_of L prefix (sa_recipient a)
     \<and> wire_amount (sa_amount a) \<and> wire_memo (sa_memo a)"

lemma batch_message_wire:
  assumes "bns_laws L" "wire_send_action L (addressPrefix c) a"
  shows "\<exists>m. encodeBatchMessage L (SendAct a) = ok m \<and>
    decodeBatchMessage L (addressPrefix c) (norm_IUnion m) = ok (SendAct a)"
  using assms
  by (cases a) (clarsimp simp: wire_send_action_def encodeBatchMessage_def decodeBatchMessage_def norm_IUnion_def
      norm_cash_ISendMsg_def wire)

lemma batch_codec:
  assumes "bns_laws L"
  shows "codec (encodeBatchMessage L) (\<lambda>m. decodeBatchMessage L (addressPrefix c) (norm_IUnion m))
    (\<lambda>a. case a of SendAct s \<Rightarrow> wire_send_action L (addressPrefix c) s | _ \<Rightarrow> False)"
  by unfold_locales (auto simp: batch_message_wire [OF assms] split: ProposalAction.splits)

text \<open>The actions that can be proposed and read back.\<close>

fun wire_action :: "bns_libs \<Rightarrow> string \<Rightarrow> ProposalAction \<Rightarrow> bool" where
  "wire_action L prefix (CreateTextResolution _) = True"
| "wire_action L prefix (ExecuteProposalBatch ms) =
     list_all (\<lambda>a. case a of SendAct s \<Rightarrow> wire_send_action L prefix s | _ \<Rightarrow> False) ms"
| "wire_action L prefix (ReleaseEscrow i a) \<longleftrightarrow> numeric_id i \<and> wire_amount a"
| "wire_action L prefix (SetValidators vs) \<longleftrightarrow> list_all wire_validator vs \<and> distinct (map fst vs)"
| "wire_action L prefix (UpdateElectorate i es) \<longleftrightarrow> numeric_id i \<and>
     list_all (\<lambda>e. address_of L prefix (fst e)) es \<and> list_all (\<lambda>e. int32_num (snd e)) es \<and>
     distinct (map fst es)"
| "wire_action L prefix (UpdateElectionRule a) \<longleftrightarrow> numeric_id (uer_electionRuleId a) \<and>
     pred_option wire_fraction (uer_threshold a) \<and> pred_option wire_fraction (uer_quorum a) \<and>
     int32_num (uer_votingPeriod a)"
| "wire_action L prefix (SetMsgFee _ a) = wire_amount a"
| "wire_action L prefix (ExecuteMigration i) \<longleftrightarrow> i \<noteq> []"
| "wire_action L prefix _ = False"

lemma action_wire:
  assumes L: "bns_laws L" and a: "wire_action L (addressPrefix c) a"
  shows "\<exists>opt. encodeProposalOption L a = ok opt \<and>
    decodeProposalOption L (addressPrefix c) (norm_bnsd_IProposalOptions opt) = ok a"
proof -
  note defs = decodeProposalOption_def norm_bnsd_IProposalOptions_def no_option_def
  show ?thesis
  proof (cases a)
    case (CreateTextResolution r)
    then show ?thesis
      by (simp add: defs norm_gov_ICreateTextResolutionMsg_def decodeString_def)
  next
    case (ExecuteProposalBatch ms)
    then obtain ws where ws: "mapM (encodeBatchMessage L) ms = ok ws"
      "mapM (\<lambda>m. decodeBatchMessage L (addressPrefix c) (norm_IUnion m)) ws = ok ms"
      using codec.list_round_trip [OF batch_codec [OF L], of c ms] a by auto
    then show ?thesis using ExecuteProposalBatch
      by (simp add: defs norm_bnsd_IExecuteProposalBatchMsg_def mapM_map comp_def)
  next
    case (ReleaseEscrow i m)
    then show ?thesis using a L by (simp add: defs norm_escrow_IReleaseMsg_def wire)
  next
    case (SetValidators vs)
    then show ?thesis using a L by (simp add: defs norm_validators_IApplyDiffMsg_def wire)
  next
    case (UpdateElectorate i es)
    then show ?thesis using a L by (clarsimp simp: defs norm_gov_IUpdateElectorateMsg_def wire)
  next
    case (UpdateElectionRule r)
    then show ?thesis using a L
      by (cases r) (simp add: defs norm_gov_IUpdateElectionRuleMsg_def wire option.map_comp)
  next
    case (SetMsgFee p f)
    then show ?thesis using a L by (simp add: defs norm_msgfee_ISetMsgFeeMsg_def wire)
  next
    case (ExecuteMigration i)
    then show ?thesis using a by (simp add: defs norm_datamigration_IExecuteMigrationMsg_def)
  qed (use a in simp_all)
qed

section \<open>Contents that survive the wire\<close>

text \<open>
  The condition on the content of a transaction of a chain. It excludes what the
  wire format has no place for (the public key of a sender, the id of a new
  swap), values the codec truncates (integers over 32 bits, see \<open>Long.toInt\<close>),
  and what is read back differently: an optional field that is not set comes
  back as a default. The message for updated escrow parties always has two
  fields that are not set.
\<close>

definition int32_nums :: "number list \<Rightarrow> bool" where
  "int32_nums ns = list_all int32_num ns"

fun wire_content :: "bns_libs \<Rightarrow> string \<Rightarrow> TxContent \<Rightarrow> bool" where
  "wire_content L p (Send c) \<longleftrightarrow> address_of L p (send_sender c) \<and> address_of L p (send_recipient c) \<and>
     wire_amount (send_amount c) \<and> wire_memo (send_memo c) \<and> send_senderPubkey c = None"
| "wire_content L p (SwapOffer c) \<longleftrightarrow> address_of L p (offer_sender c) \<and> address_of L p (offer_recipient c) \<and>
     list_all wire_amount (offer_amounts c) \<and> wire_memo (offer_memo c) \<and> length (offer_hash c) = 32 \<and>
     offer_swapId c = None \<and> (\<exists>t. offer_timeout c = TimestampTimeout t \<and> int32_num t)"
| "wire_content L p (SwapClaim c) \<longleftrightarrow> swap_prefix (claim_swapId c) = None"
| "wire_content L p (SwapAbort c) \<longleftrightarrow> swap_prefix (abort_swapId c) = None"
| "wire_content L p (RegisterUsername c) = endsWith (run_username c) ''*iov''"
| "wire_content L p (UpdateTargetsOfUsername c) = True"
| "wire_content L p (TransferUsername c) = address_of L p (tu_newOwner c)"
| "wire_content L p (UpdateAccountConfiguration c) \<longleftrightarrow> address_of L p (acc_owner (uac_configuration c)) \<and>
     int32_num (acc_domainRenew (uac_configuration c)) \<and> int32_num (acc_domainGracePeriod (uac_configuration c))"
| "wire_content L p (RegisterDomain c) \<longleftrightarrow> address_of L p (rd_admin c) \<and>
     (\<exists>b. rd_broker c = Some b \<and> address_of L p b) \<and>
     list_all (\<lambda>f. wire_amount (acm_fee f)) (rd_msgFees c) \<and> int32_num (rd_accountRenew c)"
| "wire_content L p (TransferDomain c) = address_of L p (trd_newAdmin c)"
| "wire_content L p (RenewDomain c) = True"
| "wire_content L p (DeleteDomain c) = True"
| "wire_content L p (RegisterAccount c) \<longleftrightarrow> address_of L p (ra_owner c) \<and>
     (\<exists>b. ra_broker c = Some b \<and> address_of L p b)"
| "wire_content L p (TransferAccount c) = address_of L p (ta_newOwner c)"
| "wire_content L p (ReplaceAccountTargets c) = (rat_name c \<noteq> None)"
| "wire_content L p (DeleteAccount c) = True"
| "wire_content L p (DeleteAllAccounts c) = True"
| "wire_content L p (RenewAccount c) = True"
| "wire_content L p (AddAccountCertificate c) = True"
| "wire_content L p (ReplaceAccountMsgFees c) = list_all (\<lambda>f. wire_amount (acm_fee f)) (ramf_newMsgFees c)"
| "wire_content L p (DeleteAccountCertificate c) = True"
| "wire_content L p (CreateMultisignature c) \<longleftrightarrow> list_all (wire_participant L p) (cm_participants c) \<and>
     int32_nums [cm_activationThreshold c, cm_adminThreshold c]"
| "wire_content L p (UpdateMultisignature c) \<longleftrightarrow> numeric_id (um_contractId c) \<and>
     list_all (wire_participant L p) (um_participants c) \<and>
     int32_nums [um_activationThreshold c, um_adminThreshold c]"
| "wire_content L p (CreateEscrow c) \<longleftrightarrow> address_of L p (ce_sender c) \<and> address_of L p (ce_arbiter c) \<and>
     address_of L p (ce_recipient c) \<and> list_all wire_amount (ce_amounts c) \<and> int32_num (ce_timeout c) \<and>
     (\<exists>m. ce_memo c = Some m \<and> memo_fits m)"
| "wire_content L p (ReleaseEscrowT c) \<longleftrightarrow> numeric_id (rel_escrowId c) \<and> list_all wire_amount (rel_amounts c)"
| "wire_content L p (ReturnEscrow c) = numeric_id (ret_escrowId c)"
| "wire_content L p (UpdateEscrowParties c) = False"
| "wire_content L p (CreateProposal c) \<longleftrightarrow> wire_action L p (cp_action c) \<and> numeric_id (cp_electionRuleId c) \<and>
     int32_num (cp_startTime c) \<and> address_of L p (cp_author c)"
| "wire_content L p (VoteT c) \<longleftrightarrow> numeric_id (vote_proposalId c) \<and>
     (\<exists>v. vote_voter c = Some v \<and> address_of L p v)"
| "wire_content L p (OtherKind _) = False"

text \<open>What the protobuf code does with the proposal option that occurs in a transaction.\<close>

definition options_law :: "bns_libs \<Rightarrow> TxContent \<Rightarrow> bool" where
  "options_law L c = (case c of
     CreateProposal p \<Rightarrow> (case encodeProposalOption L (cp_action p) of
         Inl _ \<Rightarrow> True
       | Inr opt \<Rightarrow> options_decode L (options_encode L opt) = Some (norm_bnsd_IProposalOptions opt))
   | _ \<Rightarrow> True)"

definition msg_survives :: "bns_libs \<Rightarrow> UnsignedTransaction \<Rightarrow> TxContent \<Rightarrow> bool" where
  "msg_survives L base c \<longleftrightarrow> (\<exists>m. encodeMsg L True (base\<lparr>tx_content := c\<rparr>) = ok m \<and>
     decodeMsg L base (norm_BnsdTxMsg m) = ok (base\<lparr>tx_content := c\<rparr>))"

lemma encodeMsg_known:
  "\<not> is_other c \<Longrightarrow> isBnsTx (base\<lparr>tx_content := c\<rparr>)"
  by (rule isBnsTx_known) simp

lemmas survives_defs = msg_survives_def encodeMsg_def encodeMsg_known decodeMsg_dispatch Let_def

lemmas bcp_defs =
  encodeSendTransaction_def decodeSendTransaction_def norm_cash_ISendMsg_def
  encodeSwapOfferTx_def decodeSwapOfferTx_def norm_aswap_ICreateMsg_def
  encodeSwapClaimTx_def decodeSwapClaimTx_def norm_aswap_IReleaseMsg_def
  encodeSwapAbortTransaction_def decodeSwapAbortTransaction_def norm_aswap_IReturnMsg_def

text \<open>Token sends and atomic swaps.\<close>

lemma survives_bcp:
  assumes L: "bns_laws L" and p: "p = addressPrefix (tx_chainId base)"
  shows "wire_content L p (Send c1) \<Longrightarrow> msg_survives L base (Send c1)"
    and "wire_content L p (SwapOffer c2) \<Longrightarrow> msg_survives L base (SwapOffer c2)"
    and "wire_content L p (SwapClaim c3) \<Longrightarrow> msg_survives L base (SwapClaim c3)"
    and "wire_content L p (SwapAbort c4) \<Longrightarrow> msg_survives L base (SwapAbort c4)"
  subgoal using L p by (cases c1) (clarsimp simp: survives_defs bcp_defs wire)
  subgoal using L p by (cases c2) (clarsimp simp: survives_defs bcp_defs wire)
  subgoal using L p by (cases c3; cases "claim_swapId c3") (clarsimp simp: survives_defs bcp_defs wire)
  subgoal using L p by (cases c4; cases "abort_swapId c4") (clarsimp simp: survives_defs bcp_defs wire)
  done

lemmas username_defs =
  encodeRegisterUsernameTx_def decodeRegisterUsernameTx_def norm_username_IRegisterTokenMsg_def
  encodeUpdateTargetsOfUsernameTx_def decodeUpdateTargetsOfUsernameTx_def norm_username_IChangeTokenTargetsMsg_def
  encodeTransferUsernameTx_def decodeTransferUsernameTx_def norm_username_ITransferTokenMsg_def

text \<open>Usernames.\<close>

lemma survives_username:
  assumes L: "bns_laws L" and p: "p = addressPrefix (tx_chainId base)"
  shows "wire_content L p (RegisterUsername c1) \<Longrightarrow> msg_survives L base (RegisterUsername c1)"
    and "wire_content L p (UpdateTargetsOfUsername c2) \<Longrightarrow> msg_survives L base (UpdateTargetsOfUsername c2)"
    and "wire_content L p (TransferUsername c3) \<Longrightarrow> msg_survives L base (TransferUsername c3)"
  subgoal using L p by (cases c1) (clarsimp simp: survives_defs username_defs wire)
  subgoal using L p by (cases c2) (clarsimp simp: survives_defs username_defs wire)
  subgoal using L p by (cases c3) (clarsimp simp: survives_defs username_defs wire)
  done

lemmas domain_defs =
  encodeRegisterDomainTx_def decodeRegisterDomainTx_def norm_account_IRegisterDomainMsg_def
  encodeTransferDomainTx_def decodeTransferDomainTx_def norm_account_ITransferDomainMsg_def
  encodeRenewDomainTx_def decodeRenewDomainTx_def norm_account_IRenewDomainMsg_def
  encodeDeleteDomainTx_def decodeDeleteDomainTx_def norm_account_IDeleteDomainMsg_def
  encodeUpdateAccountConfigurationTx_def decodeUpdateAccountConfigurationTx_def norm_account_IUpdateConfigurationMsg_def
  encodeAccountConfiguration_def decodeAccountConfiguration_def norm_account_IConfiguration_def

text \<open>Domains.\<close>

lemma survives_domain:
  assumes L: "bns_laws L" and p: "p = addressPrefix (tx_chainId base)"
  shows "wire_content L p (RegisterDomain c1) \<Longrightarrow> msg_survives L base (RegisterDomain c1)"
    and "wire_content L p (TransferDomain c2) \<Longrightarrow> msg_survives L base (TransferDomain c2)"
    and "wire_content L p (RenewDomain c3) \<Longrightarrow> msg_survives L base (RenewDomain c3)"
    and "wire_content L p (DeleteDomain c4) \<Longrightarrow> msg_survives L base (DeleteDomain c4)"
    and "wire_content L p (UpdateAccountConfiguration c5) \<Longrightarrow> msg_survives L base (UpdateAccountConfiguration c5)"
  subgoal using L p by (cases c1) (clarsimp simp: survives_defs domain_defs wire)
  subgoal using L p by (cases c2) (clarsimp simp: survives_defs domain_defs wire)
  subgoal using L p by (cases c3) (clarsimp simp: survives_defs domain_defs wire)
  subgoal using L p by (cases c4) (clarsimp simp: survives_defs domain_defs wire)
  subgoal using L p by (cases c5; cases "uac_configuration c5") (clarsimp simp: survives_defs domain_defs wire)
  done

lemmas account_defs =
  encodeRegisterAccountTx_def decodeRegisterAccountTx_def norm_account_IRegisterAccountMsg_def
  encodeTransferAccountTx_def decodeTransferAccountTx_def norm_account_ITransferAccountMsg_def
  encodeReplaceAccountTargetsTx_def decodeReplaceAccountTargetsTx_def norm_account_IReplaceAccountTargetsMsg_def
  encodeDeleteAccountTx_def decodeDeleteAccountTx_def norm_account_IDeleteAccountMsg_def
  encodeDeleteAllAccountsTx_def decodeDeleteAllAccountsTx_def norm_account_IFlushDomainMsg_def
  encodeRenewAccountTx_def decodeRenewAccountTx_def norm_account_IRenewAccountMsg_def

text \<open>Accounts.\<close>

lemma survives_account:
  assumes L: "bns_laws L" and p: "p = addressPrefix (tx_chainId base)"
  shows "wire_content L p (RegisterAccount c1) \<Longrightarrow> msg_survives L base (RegisterAccount c1)"
    and "wire_content L p (TransferAccount c2) \<Longrightarrow> msg_survives L base (TransferAccount c2)"
    and "wire_content L p (ReplaceAccountTargets c3) \<Longrightarrow> msg_survives L base (ReplaceAccountTargets c3)"
    and "wire_content L p (DeleteAccount c4) \<Longrightarrow> msg_survives L base (DeleteAccount c4)"
    and "wire_content L p (DeleteAllAccounts c5) \<Longrightarrow> msg_survives L base (DeleteAllAccounts c5)"
    and "wire_content L p (RenewAccount c6) \<Longrightarrow> msg_survives L base (RenewAccount c6)"
  subgoal using L p by (cases c1) (clarsimp simp: survives_defs account_defs wire)
  subgoal using L p by (cases c2) (clarsimp simp: survives_defs account_defs wire)
  subgoal using L p by (cases c3) (clarsimp simp: survives_defs account_defs wire)
  subgoal using L p by (cases c4) (clarsimp simp: survives_defs account_defs wire)
  subgoal using L p by (cases c5) (clarsimp simp: survives_defs account_defs wire)
  subgoal using L p by (cases c6) (clarsimp simp: survives_defs account_defs wire)
  done

lemmas certificate_defs =
  encodeAddAccountCertificateTx_def decodeAddAccountCertificateTx_def norm_account_IAddAccountCertificateMsg_def
  encodeReplaceAccountMsgFeesTx_def decodeReplaceAccountMsgFeesTx_def norm_account_IReplaceAccountMsgFeesMsg_def
  encodeDeleteAccountCertificateTx_def decodeDeleteAccountCertificateTx_def norm_account_IDeleteAccountCertificateMsg_def

text \<open>Certificates and message fees.\<close>

lemma survives_certificate:
  assumes L: "bns_laws L" and p: "p = addressPrefix (tx_chainId base)"
  shows "wire_content L p (AddAccountCertificate c1) \<Longrightarrow> msg_survives L base (AddAccountCertificate c1)"
    and "wire_content L p (ReplaceAccountMsgFees c2) \<Longrightarrow> msg_survives L base (ReplaceAccountMsgFees c2)"
    and "wire_content L p (DeleteAccountCertificate c3) \<Longrightarrow> msg_survives L base (DeleteAccountCertificate c3)"
  subgoal using L p by (cases c1) (clarsimp simp: survives_defs certificate_defs wire)
  subgoal using L p by (cases c2) (clarsimp simp: survives_defs certificate_defs wire)
  subgoal using L p by (cases c3) (clarsimp simp: survives_defs certificate_defs wire)
  done

lemmas contract_defs =
  encodeCreateMultisignatureTx_def decodeCreateMultisignatureTx_def norm_multisig_ICreateMsg_def
  encodeUpdateMultisignatureTx_def decodeUpdateMultisignatureTx_def norm_multisig_IUpdateMsg_def
  encodeCreateEscrowTx_def decodeCreateEscrowTx_def norm_escrow_ICreateMsg_def
  encodeReleaseEscrowTx_def decodeReleaseEscrowTx_def norm_escrow_IReleaseMsg_def
  encodeReturnEscrowTx_def decodeReturnEscrowTx_def norm_escrow_IReturnMsg_def

text \<open>Multisignature contracts and escrows.\<close>

lemma survives_contract:
  assumes L: "bns_laws L" and p: "p = addressPrefix (tx_chainId base)"
  shows "wire_content L p (CreateMultisignature c1) \<Longrightarrow> msg_survives L base (CreateMultisignature c1)"
    and "wire_content L p (UpdateMultisignature c2) \<Longrightarrow> msg_survives L base (UpdateMultisignature c2)"
    and "wire_content L p (CreateEscrow c3) \<Longrightarrow> msg_survives L base (CreateEscrow c3)"
    and "wire_content L p (ReleaseEscrowT c4) \<Longrightarrow> msg_survives L base (ReleaseEscrowT c4)"
    and "wire_content L p (ReturnEscrow c5) \<Longrightarrow> msg_survives L base (ReturnEscrow c5)"
  subgoal using L p by (cases c1) (clarsimp simp: survives_defs contract_defs wire)
  subgoal using L p by (cases c2) (clarsimp simp: survives_defs contract_defs wire)
  subgoal using L p by (cases c3) (clarsimp simp: survives_defs contract_defs wire)
  subgoal using L p by (cases c4) (clarsimp simp: survives_defs contract_defs wire)
  subgoal using L p by (cases c5) (clarsimp simp: survives_defs contract_defs wire)
  done

lemmas vote_defs =
  encodeVoteTx_def decodeVoteTx_def norm_gov_IVoteMsg_def

text \<open>Governance.\<close>

lemma vote_option_wire [wire]: "decodeVoteOption (encodeVoteOption v) = ok v"
  by (cases v) (simp_all add: decodeVoteOption_def)

lemma survives_vote:
  assumes "bns_laws L" "wire_content L (addressPrefix (tx_chainId base)) (VoteT c)"
  shows "msg_survives L base (VoteT c)"
  using assms address_not_empty [OF assms(1)]
  by (cases c) (clarsimp simp: survives_defs vote_defs wire party_given_def)

lemma survives_proposal:
  assumes L: "bns_laws L" and c: "wire_content L (addressPrefix (tx_chainId base)) (CreateProposal c)"
    and o: "options_law L (CreateProposal c)"
  shows "msg_survives L base (CreateProposal c)"
proof -
  obtain opt where opt: "encodeProposalOption L (cp_action c) = ok opt"
    "decodeProposalOption L (addressPrefix (tx_chainId base)) (norm_bnsd_IProposalOptions opt) = ok (cp_action c)"
    using action_wire [OF L, of "tx_chainId base" "cp_action c"] c by auto
  then have "options_decode L (options_encode L opt) = Some (norm_bnsd_IProposalOptions opt)"
    using o by (simp add: options_law_def)
  then have "decodeRawProposalOption L (addressPrefix (tx_chainId base)) (options_encode L opt) = ok (cp_action c)"
    using opt by (simp add: decodeRawProposalOption_def)
  with opt(1) L c show ?thesis
    by (cases c) (clarsimp simp: survives_defs encodeCreateProposalTx_def decodeCreateProposalTx_def
        norm_gov_ICreateProposalMsg_def wire)
qed

lemma content_survives:
  assumes "bns_laws L" "wire_content L (addressPrefix (tx_chainId base)) c" "options_law L c"
  shows "msg_survives L base c"
  using assms(2,3)
  by (cases c)
     (simp_all add: survives_bcp [OF assms(1) refl] survives_username [OF assms(1) refl]
       survives_domain [OF assms(1) refl] survives_account [OF assms(1) refl]
       survives_certificate [OF assms(1) refl] survives_contract [OF assms(1) refl]
       survives_vote [OF assms(1)] survives_proposal [OF assms(1)] del: wire_content.simps,
      simp_all)

section \<open>Signatures and fees\<close>

definition wire_signature :: "FullSignature \<Rightarrow> bool" where
  "wire_signature s \<longleftrightarrow> int32_num (sig_nonce s) \<and> pk_algo (sig_pubkey s) = Ed25519
     \<and> length (pk_data (sig_pubkey s)) = 32"

lemma signature_codec:
  assumes "bns_laws L"
  shows "codec encodeFullSignature (\<lambda>s. decodeFullSig L (norm_sigs_IStdSignature s)) wire_signature"
proof
  fix s assume s: "wire_signature s"
  then show "\<exists>w. encodeFullSignature s = ok w \<and> decodeFullSig L (norm_sigs_IStdSignature w) = ok s"
    using assms
    by (cases s; cases "sig_pubkey s")
       (clarsimp simp: wire_signature_def encodeFullSignature_def encodePubkey_def encodeSignature_def
         decodeFullSig_def decodeNonce_def decodePubkey_def decodeSignature_def norm_sigs_IStdSignature_def
         norm_crypto_IPublicKey_def norm_crypto_ISignature_def wire)
qed

text \<open>A fee that survives: tokens and a payer of the chain, nothing else.\<close>

definition wire_fee :: "bns_libs \<Rightarrow> string \<Rightarrow> Fee \<Rightarrow> bool" where
  "wire_fee L p f \<longleftrightarrow> (\<exists>t a. fee_tokens f = Some t \<and> wire_amount t \<and> fee_payer f = Some a \<and> address_of L p a)
     \<and> fee_gasPrice f = None \<and> fee_gasLimit f = None"

definition wire_tx :: "bns_libs \<Rightarrow> UnsignedTransaction \<Rightarrow> bool" where
  "wire_tx L tx \<longleftrightarrow>
     (let p = addressPrefix (tx_chainId tx) in
      wire_content L p (tx_content tx) \<and> options_law L (tx_content tx) \<and>
      pred_option (wire_fee L p) (tx_fee tx) \<and>
      pred_option (\<lambda>ids. ids \<noteq> [] \<and> list_all numeric_id ids) (tx_multisig tx))"

definition raw_feeinfo :: "bns_libs \<Rightarrow> Fee \<Rightarrow> cash_IFeeInfo" where
  "raw_feeinfo L f = \<lparr>fi_payer = Some (raw_address L (the (fee_payer f))),
     fi_fees = Some (raw_amount (the (fee_tokens f)))\<rparr>"

lemma fee_encode:
  assumes "bns_laws L" "tx_fee tx = Some f" "wire_fee L (addressPrefix c) f"
  shows "encodeFeeForTx L tx = ok (raw_feeinfo L f)"
  using assms address_not_empty [OF assms(1)]
  by (cases f) (clarsimp simp: wire_fee_def encodeFeeForTx_def raw_feeinfo_def wire)

text \<open>The transaction without the message part.\<close>

definition raw_tx :: "bns_libs \<Rightarrow> UnsignedTransaction \<Rightarrow> BnsdTxMsg \<Rightarrow> bnsd_ITx" where
  "raw_tx L tx m = \<lparr>itx_msg = m, itx_fees = map_option (raw_feeinfo L) (tx_fee tx), itx_signatures = None,
     itx_multisig = map_option (map (raw_id L)) (tx_multisig tx)\<rparr>"

lemma unsigned_encode:
  assumes "bns_laws L" "wire_tx L tx" "encodeMsg L True tx = ok m"
  shows "encodeUnsignedTx L tx = ok (raw_tx L tx m)"
proof -
  have f: "(if tx_fee tx \<noteq> None then andThen (encodeFeeForTx L tx) (\<lambda>f. ok (Some f)) else ok None)
      = ok (map_option (raw_feeinfo L) (tx_fee tx))"
    using assms(2) fee_encode [OF assms(1)] by (cases "tx_fee tx") (auto simp: wire_tx_def Let_def)
  have i: "(case tx_multisig tx of Some ids \<Rightarrow> andThen (mapM (encodeNumericId L) ids) (\<lambda>ms. ok (Some ms))
      | None \<Rightarrow> ok None) = ok (map_option (map (raw_id L)) (tx_multisig tx))"
    using assms(2) by (cases "tx_multisig tx") (auto simp: wire_tx_def Let_def id_list_wire [OF assms(1)])
  show ?thesis unfolding encodeUnsignedTx_def assms(3) f i by (simp add: raw_tx_def)
qed

lemma base_decode:
  assumes "bns_laws L" "wire_tx L tx"
  shows "decodeBaseTx L (norm_bnsd_ITx ((raw_tx L tx m)\<lparr>itx_signatures := s\<rparr>)) (tx_chainId tx)
    = ok (tx\<lparr>tx_content := OtherKind []\<rparr>)"
proof -
  have fee: "\<exists>t a. f = \<lparr>fee_tokens = Some t, fee_gasPrice = None, fee_gasLimit = None, fee_payer = Some a\<rparr>
      \<and> wire_amount t \<and> address_of L (addressPrefix (tx_chainId tx)) a" if "tx_fee tx = Some f" for f
    using assms(2) that by (cases f) (auto simp: wire_tx_def wire_fee_def Let_def)
  have ids: "ns \<noteq> [] \<and> list_all numeric_id ns" if "tx_multisig tx = Some ns" for ns
    using assms(2) that by (auto simp: wire_tx_def Let_def)
  show ?thesis
    using assms(1) fee ids
    by (cases tx; cases "tx_fee tx"; cases "tx_multisig tx")
       (auto simp: decodeBaseTx_def norm_bnsd_ITx_def raw_tx_def raw_feeinfo_def norm_cash_IFeeInfo_def
         Let_def wire)
qed

end
