(* ===== verification/Bns_TxCodec.thy ===== *)
theory Bns_TxCodec
  imports Bns_Codec
begin

text \<open>
  \<open>packages/iov-bns/src/bnscodec.ts\<close>: the object \<open>bnsCodec\<close> that the rest of
  the program uses, over the encoder of \<open>Bns_Encode\<close> and the decoder of
  \<open>Bns_Decode\<close>, and its correctness: what is posted can be parsed again and is
  the transaction that was signed. The theory also states where this fails:
  optional fields that are not set and amounts over 32 bits.
\<close>

section \<open>The codec object\<close>

definition bytesToSign :: "bns_libs \<Rightarrow> UnsignedTransaction \<Rightarrow> Nonce \<Rightarrow> SigningJob result" where
  "bytesToSign L tx nonce =
     andThen (encodeUnsignedTx L tx) (\<lambda>built.
     andThen (appendSignBytes L (tx_encode L built) (tx_chainId tx) nonce) (\<lambda>bytes.
     ok \<lparr>job_bytes = bytes, job_prehashType = PrehashSha512\<rparr>))"

definition bytesToPost :: "bns_libs \<Rightarrow> SignedTransaction \<Rightarrow> byte list result" where
  "bytesToPost L tx = andThen (encodeSignedTx L tx) (\<lambda>built. ok (tx_encode L built))"

definition hashTx :: "bns_libs \<Rightarrow> byte list \<Rightarrow> byte list" where
  "hashTx L tx = sha256 L tx"

definition tx_identifier :: "bns_libs \<Rightarrow> SignedTransaction \<Rightarrow> string result" where
  "tx_identifier L tx =
     andThen (bytesToPost L tx) (\<lambda>transactionBytes.
     ok (map upper_char (toHex (hashTx L transactionBytes))))"

definition parseBytes :: "bns_libs \<Rightarrow> byte list \<Rightarrow> ChainId \<Rightarrow> SignedTransaction result" where
  "parseBytes L bz chainId = (case tx_decode L bz of
     None \<Rightarrow> throw ''invalid wire type''
   | Some parsed \<Rightarrow> decodeSignedTx L parsed chainId)"

text \<open>The object with these functions that connections and the multi chain signer get.\<close>

definition bnsCodec :: "bns_libs \<Rightarrow> UnsignedTransaction TxCodec" where
  "bnsCodec L = \<lparr>codec_parseBytes = parseBytes L, codec_identityToAddress = identityToAddress L,
     codec_isValidAddress = isValidAddress L, codec_bytesToSign = bytesToSign L, codec_bytesToPost = bytesToPost L,
     codec_identifier = tx_identifier L\<rparr>"

section \<open>Signed transactions over the wire\<close>

definition wire_signed :: "bns_libs \<Rightarrow> SignedTransaction \<Rightarrow> bool" where
  "wire_signed L stx \<longleftrightarrow> wire_tx L (stx_transaction stx) \<and> stx_signatures stx \<noteq> []
     \<and> list_all wire_signature (stx_signatures stx)"

lemma decode_raw_tx:
  assumes L: "bns_laws L" and t: "wire_tx L tx"
    and d: "decodeMsg L (tx\<lparr>tx_content := OtherKind []\<rparr>) (norm_BnsdTxMsg m) = ok tx"
    and s: "mapM (\<lambda>s. decodeFullSig L (norm_sigs_IStdSignature s)) ws = ok sigs" "sigs \<noteq> []"
  shows "decodeSignedTx L (norm_bnsd_ITx ((raw_tx L tx m)\<lparr>itx_signatures := Some ws\<rparr>)) (tx_chainId tx)
    = ok \<lparr>stx_transaction = tx, stx_signatures = sigs\<rparr>"
proof -
  let ?w = "norm_bnsd_ITx ((raw_tx L tx m)\<lparr>itx_signatures := Some ws\<rparr>)"
  have "itx_signatures ?w = Some (map norm_sigs_IStdSignature ws)" "itx_msg ?w = norm_BnsdTxMsg m"
    by (simp_all add: norm_bnsd_ITx_def raw_tx_def)
  moreover have "newNonEmptyArray sigs = ok sigs"
    using s(2) by (cases sigs) (simp_all add: newNonEmptyArray_def isNonEmptyArray_def)
  ultimately show ?thesis using base_decode [OF L t, of "Some ws" m] d s(1)
    by (simp add: decodeSignedTx_def mapM_map comp_def)
qed

lemma signed_codec:
  assumes L: "bns_laws L"
  shows "codec (encodeSignedTx L) (\<lambda>w. decodeSignedTx L (norm_bnsd_ITx w) chain)
    (\<lambda>stx. wire_signed L stx \<and> tx_chainId (stx_transaction stx) = chain)"
proof
  fix stx assume v: "wire_signed L stx \<and> tx_chainId (stx_transaction stx) = chain"
  define tx where "tx = stx_transaction stx"
  have t: "wire_tx L tx" "tx_chainId tx = chain" using v by (simp_all add: wire_signed_def tx_def)
  then have "msg_survives L (tx\<lparr>tx_content := OtherKind []\<rparr>) (tx_content tx)"
    by (intro content_survives [OF L]) (simp_all add: wire_tx_def Let_def)
  then obtain m where m: "encodeMsg L True tx = ok m"
    "decodeMsg L (tx\<lparr>tx_content := OtherKind []\<rparr>) (norm_BnsdTxMsg m) = ok tx"
    by (auto simp: msg_survives_def)
  obtain ws where ws: "mapM encodeFullSignature (stx_signatures stx) = ok ws"
    "mapM (\<lambda>s. decodeFullSig L (norm_sigs_IStdSignature s)) ws = ok (stx_signatures stx)"
    using codec.list_round_trip [OF signature_codec [OF L]] v by (auto simp: wire_signed_def)
  have "encodeSignedTx L stx = ok ((raw_tx L tx m)\<lparr>itx_signatures := Some ws\<rparr>)"
    using unsigned_encode [OF L t(1) m(1)] ws(1) by (simp add: encodeSignedTx_def tx_def)
  then show "\<exists>w. encodeSignedTx L stx = ok w \<and> decodeSignedTx L (norm_bnsd_ITx w) chain = ok stx"
    using decode_raw_tx [OF L t(1) m(2) ws(2)] v t(2) by (simp add: wire_signed_def tx_def)
qed

text \<open>The transaction part of a decoded message determines the transaction.\<close>

lemma unsigned_encode_inj:
  assumes L: "bns_laws L" and t: "wire_tx L tx1" "wire_tx L tx2" "tx_chainId tx1 = tx_chainId tx2"
    and e: "encodeUnsignedTx L tx1 = ok w1" "encodeUnsignedTx L tx2 = ok w2"
    and n: "norm_bnsd_ITx w1 = norm_bnsd_ITx w2"
  shows "tx1 = tx2"
proof -
  have decode: "\<exists>m. w = raw_tx L tx m \<and>
      decodeBaseTx L (norm_bnsd_ITx w) (tx_chainId tx) = ok (tx\<lparr>tx_content := OtherKind []\<rparr>) \<and>
      decodeMsg L (tx\<lparr>tx_content := OtherKind []\<rparr>) (itx_msg (norm_bnsd_ITx w)) = ok tx"
    if tw: "wire_tx L tx" and ew: "encodeUnsignedTx L tx = ok w" for tx w
  proof -
    have "msg_survives L (tx\<lparr>tx_content := OtherKind []\<rparr>) (tx_content tx)"
      using tw by (intro content_survives [OF L]) (simp_all add: wire_tx_def Let_def)
    then obtain m where m: "encodeMsg L True tx = ok m"
      "decodeMsg L (tx\<lparr>tx_content := OtherKind []\<rparr>) (norm_BnsdTxMsg m) = ok tx"
      by (auto simp: msg_survives_def)
    then have w: "w = raw_tx L tx m" using unsigned_encode [OF L tw m(1)] ew by simp
    have "(raw_tx L tx m)\<lparr>itx_signatures := None\<rparr> = raw_tx L tx m" by (simp add: raw_tx_def)
    then have "decodeBaseTx L (norm_bnsd_ITx w) (tx_chainId tx) = ok (tx\<lparr>tx_content := OtherKind []\<rparr>)"
      using base_decode [OF L tw, of None m] w by simp
    moreover have "itx_msg (norm_bnsd_ITx w) = norm_BnsdTxMsg m"
      by (simp add: w norm_bnsd_ITx_def raw_tx_def)
    ultimately show ?thesis using w m(2) by auto
  qed
  from decode [OF t(1) e(1)] decode [OF t(2) e(2)] have
    "ok (tx1\<lparr>tx_content := OtherKind []\<rparr>) = ok (tx2\<lparr>tx_content := OtherKind []\<rparr>)"
    using n t(3) by metis
  with decode [OF t(1) e(1)] decode [OF t(2) e(2)] have "ok tx1 = ok tx2"
    using n by (metis Inr_inject)
  then show ?thesis by simp
qed

section \<open>A transaction for the witnesses\<close>

definition demo_party :: "byte \<Rightarrow> Address" where
  "demo_party b = ''tiov1'' @ toHex (replicate 20 b)"

definition demo_amount :: Amount where
  "demo_amount = \<lparr>am_quantity = ''1500000000'', am_fractionalDigits = int_num 9, am_tokenTicker = ''CASH''\<rparr>"

definition demo_tx :: UnsignedTransaction where
  "demo_tx = \<lparr>tx_chainId = ''test'',
     tx_fee = Some \<lparr>fee_tokens = Some demo_amount, fee_gasPrice = None, fee_gasLimit = None,
       fee_payer = Some (demo_party 1)\<rparr>,
     tx_multisig = None,
     tx_content = Send \<lparr>send_amount = demo_amount, send_sender = demo_party 1, send_senderPubkey = None,
       send_recipient = demo_party 2, send_memo = Some ''rent''\<rparr>\<rparr>"

definition demo_signed :: SignedTransaction where
  "demo_signed = \<lparr>stx_transaction = demo_tx, stx_signatures =
     [\<lparr>sig_nonce = int_num 7, sig_pubkey = \<lparr>pk_algo = Ed25519, pk_data = replicate 32 3\<rparr>,
       sig_signature = replicate 64 4\<rparr>]\<rparr>"

definition demo_coin :: coin_ICoin where
  "demo_coin = \<lparr>coin_whole = Some (JsNumber (int_num 1)), coin_fractional = Some (JsNumber (int_num 500000000)),
     coin_ticker = Some ''CASH''\<rparr>"

definition demo_built :: bnsd_ITx where
  "demo_built = \<lparr>
     itx_msg = no_msg\<lparr>cashSendMsg := Some \<lparr>sm_metadata = metadata1,
       sm_source = Some (replicate 20 1), sm_destination = Some (replicate 20 2), sm_amount = Some demo_coin,
       sm_memo = Some ''rent'', sm_ref = None\<rparr>\<rparr>,
     itx_fees = Some \<lparr>fi_payer = Some (replicate 20 1), fi_fees = Some demo_coin\<rparr>,
     itx_signatures = None, itx_multisig = None\<rparr>"

lemma demo_party_data [simp]: "addressData (demo_libs oe od te td) (demo_party b) = ok (replicate 20 b)"
  using hex.dec_enc [of "replicate 20 b"]
  by (simp add: demo_party_def addressData_def decodeBnsAddress_def hex_bech32_decode_def startsWith_def)

lemma demo_party_address: "address_of (demo_libs oe od te td) ''tiov'' (demo_party b)"
  using demo_address [of "replicate 20 b" oe od te td "''tiov''"] by (simp add: demo_party_def)

lemma demo_party_set [simp]: "demo_party b \<noteq> []"
  by (simp add: demo_party_def)

lemma demo_coin_ok [simp]: "encodeAmount demo_amount = ok demo_coin"
proof -
  have "list_all is_digit ''1500000000''" by (simp add: is_digit_def)
  then show ?thesis
    using encodeAmount_parts [of demo_amount]
    by (simp add: demo_amount_def demo_coin_def parse_base_def digit_val_def slice_last_def slice_butlast_def
        encodeString_def)
qed

lemma demo_encode: "encodeUnsignedTx (demo_libs oe od te td) demo_tx = ok demo_built"
proof -
  have "isBnsTx demo_tx" by (rule isBnsTx_known) (simp add: demo_tx_def)
  then have "encodeMsg (demo_libs oe od te td) True demo_tx = ok (itx_msg demo_built)"
    by (simp add: encodeMsg_def demo_tx_def demo_built_def encodeSendTransaction_def encodeMemo_def
        encodeString_def toUtf8_def utf8_char_def maxMemoLength_def)
  then show ?thesis by (simp add: demo_tx_def demo_built_def encodeUnsignedTx_def encodeFeeForTx_def)
qed

lemma demo_wire_tx: "wire_tx (demo_libs oe od te td) demo_tx"
proof -
  have "wire_amount demo_amount"
    by (simp add: wire_amount_def canonical_decimal_def demo_amount_def is_digit_def parse_base_def digit_val_def)
  moreover have "wire_memo (Some ''rent'')"
    by (simp add: wire_memo_def memo_fits_def toUtf8_def utf8_char_def maxMemoLength_def)
  ultimately show ?thesis
    using demo_party_address [of oe od te td]
    by (simp add: wire_tx_def demo_tx_def wire_fee_def options_law_def addressPrefix_def mainnetChainId_def)
qed

text \<open>The law of the protobuf code for one message: decoding what was encoded gives its wire form.\<close>

definition tx_law :: "bns_libs \<Rightarrow> bnsd_ITx \<Rightarrow> bool" where
  "tx_law L w \<longleftrightarrow> tx_decode L (tx_encode L w) = Some (norm_bnsd_ITx w)"

definition demo_signed_built :: bnsd_ITx where
  "demo_signed_built = demo_built\<lparr>itx_signatures := Some [\<lparr>ss_sequence = Some (JsNumber (int_num 7)),
     ss_pubkey = Some \<lparr>pub_ed25519 = Some (replicate 32 3)\<rparr>,
     ss_signature = Some \<lparr>sg_ed25519 = Some (replicate 64 4)\<rparr>\<rparr>]\<rparr>"

lemma demo_signed_encode: "encodeSignedTx (demo_libs oe od te td) demo_signed = ok demo_signed_built"
  by (simp add: encodeSignedTx_def demo_signed_def demo_encode encodeFullSignature_def encodePubkey_def
      encodeSignature_def demo_signed_built_def)

lemma demo_wire_signed: "wire_signed (demo_libs oe od te td) demo_signed"
  using demo_wire_tx [of oe od te td]
  by (auto simp: wire_signed_def demo_signed_def wire_signature_def int32_num_def int32_def)

lemma posted_bytes_parse:
  assumes "bns_laws L" "wire_signed L stx"
    and "\<And>w. encodeSignedTx L stx = ok w \<Longrightarrow> tx_law L w"
  shows "\<exists>b. bytesToPost L stx = ok b \<and> parseBytes L b (tx_chainId (stx_transaction stx)) = ok stx"
proof -
  obtain w where "encodeSignedTx L stx = ok w"
    "decodeSignedTx L (norm_bnsd_ITx w) (tx_chainId (stx_transaction stx)) = ok stx"
    using codec.round_trip [OF signed_codec [OF assms(1)]] assms(2) by blast
  with assms(3) show ?thesis by (auto simp: bytesToPost_def parseBytes_def tx_law_def)
qed

section \<open>Properties\<close>

text \<open>
  A signature binds the whole transaction: if two transactions have the same
  bytes to sign, for nonces that are safe integers, they are the same
  transaction of the same chain with the same nonce.
\<close>

lemma signature_binds_transaction:
  assumes "bns_laws L" "wire_tx L tx1" "wire_tx L tx2" "safe_nonce n1" "safe_nonce n2"
    and "bytesToSign L tx1 n1 = ok job" "bytesToSign L tx2 n2 = ok job"
    and "\<forall>w. encodeUnsignedTx L tx1 = ok w \<or> encodeUnsignedTx L tx2 = ok w \<longrightarrow> tx_law L w"
  shows "tx1 = tx2 \<and> n1 = n2"
proof -
  from assms(6,7) obtain w1 w2 b where
    w: "encodeUnsignedTx L tx1 = ok w1" "encodeUnsignedTx L tx2 = ok w2" and
    b: "appendSignBytes L (tx_encode L w1) (tx_chainId tx1) n1 = ok b"
      "appendSignBytes L (tx_encode L w2) (tx_chainId tx2) n2 = ok b"
    by (auto simp: bytesToSign_def andThen_eq_Inr)
  note same = appendSignBytes_inj [OF assms(1,4,5) b]
  have "tx_law L w1" "tx_law L w2" using assms(8) w by blast+
  then have "norm_bnsd_ITx w1 = norm_bnsd_ITx w2" using same by (simp add: tx_law_def)
  then show ?thesis using unsigned_encode_inj [OF assms(1-3) _ w] same by blast
qed

text \<open>
  The identifier of a transaction is the SHA-256 hash of the posted bytes as
  64 upper case hexadecimal digits, and nothing else is an identifier of it.
\<close>

lemma identifier_is_hash:
  assumes "bns_laws L"
  shows "tx_identifier L stx = ok s \<longleftrightarrow> (\<exists>b. bytesToPost L stx = ok b \<and> length s = 64 \<and>
    list_all no_lower_case s \<and> fromHex s = ok (sha256 L b))"
proof -
  have l: "length (map upper_char (toHex (sha256 L b))) = 64" for b
    using length_sha256 [OF assms, of b] by simp
  have "tx_identifier L stx = ok s \<longleftrightarrow> (\<exists>b. bytesToPost L stx = ok b \<and> s = map upper_char (toHex (sha256 L b)))"
    by (auto simp: tx_identifier_def hashTx_def andThen_eq_Inr)
  also have "\<dots> \<longleftrightarrow> (\<exists>b. bytesToPost L stx = ok b \<and> length s = 64 \<and> s = map upper_char (toHex (sha256 L b)))"
    using l by metis
  finally show ?thesis by (simp only: upper_hex_iff)
qed

text \<open>Which of the fields of the message union are set.\<close>

definition msg_fields :: "BnsdTxMsg \<Rightarrow> bool list" where
  "msg_fields m = [
     cashSendMsg m \<noteq> None, aswapCreateMsg m \<noteq> None, aswapReleaseMsg m \<noteq> None,
     aswapReturnMsg m \<noteq> None, usernameRegisterTokenMsg m \<noteq> None, usernameChangeTokenTargetsMsg m \<noteq> None,
     usernameTransferTokenMsg m \<noteq> None, accountUpdateConfigurationMsg m \<noteq> None, accountRegisterDomainMsg m \<noteq> None,
     accountTransferDomainMsg m \<noteq> None, accountRenewDomainMsg m \<noteq> None, accountDeleteDomainMsg m \<noteq> None,
     accountRegisterAccountMsg m \<noteq> None, accountTransferAccountMsg m \<noteq> None, accountReplaceAccountTargetsMsg m \<noteq> None,
     accountDeleteAccountMsg m \<noteq> None, accountFlushDomainMsg m \<noteq> None, accountRenewAccountMsg m \<noteq> None,
     accountAddAccountCertificateMsg m \<noteq> None, accountReplaceAccountMsgFeesMsg m \<noteq> None, accountDeleteAccountCertificateMsg m \<noteq> None,
     multisigCreateMsg m \<noteq> None, multisigUpdateMsg m \<noteq> None, escrowCreateMsg m \<noteq> None,
     escrowReleaseMsg m \<noteq> None, escrowReturnMsg m \<noteq> None, escrowUpdatePartiesMsg m \<noteq> None,
     govCreateProposalMsg m \<noteq> None, govVoteMsg m \<noteq> None]"

definition one_message :: "BnsdTxMsg \<Rightarrow> bool" where
  "one_message m \<longleftrightarrow> length (filter id (msg_fields m)) = 1"

lemma one_message_set [simp]:
  "one_message (no_msg\<lparr>cashSendMsg := Some x0\<rparr>)"
  "one_message (no_msg\<lparr>aswapCreateMsg := Some x1\<rparr>)"
  "one_message (no_msg\<lparr>aswapReleaseMsg := Some x2\<rparr>)"
  "one_message (no_msg\<lparr>aswapReturnMsg := Some x3\<rparr>)"
  "one_message (no_msg\<lparr>usernameRegisterTokenMsg := Some x4\<rparr>)"
  "one_message (no_msg\<lparr>usernameChangeTokenTargetsMsg := Some x5\<rparr>)"
  "one_message (no_msg\<lparr>usernameTransferTokenMsg := Some x6\<rparr>)"
  "one_message (no_msg\<lparr>accountUpdateConfigurationMsg := Some x7\<rparr>)"
  "one_message (no_msg\<lparr>accountRegisterDomainMsg := Some x8\<rparr>)"
  "one_message (no_msg\<lparr>accountTransferDomainMsg := Some x9\<rparr>)"
  "one_message (no_msg\<lparr>accountRenewDomainMsg := Some x10\<rparr>)"
  "one_message (no_msg\<lparr>accountDeleteDomainMsg := Some x11\<rparr>)"
  "one_message (no_msg\<lparr>accountRegisterAccountMsg := Some x12\<rparr>)"
  "one_message (no_msg\<lparr>accountTransferAccountMsg := Some x13\<rparr>)"
  "one_message (no_msg\<lparr>accountReplaceAccountTargetsMsg := Some x14\<rparr>)"
  "one_message (no_msg\<lparr>accountDeleteAccountMsg := Some x15\<rparr>)"
  "one_message (no_msg\<lparr>accountFlushDomainMsg := Some x16\<rparr>)"
  "one_message (no_msg\<lparr>accountRenewAccountMsg := Some x17\<rparr>)"
  "one_message (no_msg\<lparr>accountAddAccountCertificateMsg := Some x18\<rparr>)"
  "one_message (no_msg\<lparr>accountReplaceAccountMsgFeesMsg := Some x19\<rparr>)"
  "one_message (no_msg\<lparr>accountDeleteAccountCertificateMsg := Some x20\<rparr>)"
  "one_message (no_msg\<lparr>multisigCreateMsg := Some x21\<rparr>)"
  "one_message (no_msg\<lparr>multisigUpdateMsg := Some x22\<rparr>)"
  "one_message (no_msg\<lparr>escrowCreateMsg := Some x23\<rparr>)"
  "one_message (no_msg\<lparr>escrowReleaseMsg := Some x24\<rparr>)"
  "one_message (no_msg\<lparr>escrowReturnMsg := Some x25\<rparr>)"
  "one_message (no_msg\<lparr>escrowUpdatePartiesMsg := Some x26\<rparr>)"
  "one_message (no_msg\<lparr>govCreateProposalMsg := Some x27\<rparr>)"
  "one_message (no_msg\<lparr>govVoteMsg := Some x28\<rparr>)"
  by (simp_all add: one_message_def msg_fields_def no_msg_def)

lemmas message_encoders =
  encodeSendTransaction_def encodeSwapOfferTx_def encodeSwapClaimTx_def encodeSwapAbortTransaction_def
  encodeRegisterUsernameTx_def encodeUpdateTargetsOfUsernameTx_def encodeTransferUsernameTx_def
  encodeUpdateAccountConfigurationTx_def encodeRegisterDomainTx_def encodeTransferDomainTx_def
  encodeRenewDomainTx_def encodeDeleteDomainTx_def encodeRegisterAccountTx_def encodeTransferAccountTx_def
  encodeReplaceAccountTargetsTx_def encodeDeleteAccountTx_def encodeDeleteAllAccountsTx_def
  encodeRenewAccountTx_def encodeAddAccountCertificateTx_def encodeReplaceAccountMsgFeesTx_def
  encodeDeleteAccountCertificateTx_def encodeCreateMultisignatureTx_def encodeUpdateMultisignatureTx_def
  encodeCreateEscrowTx_def encodeReleaseEscrowTx_def encodeReturnEscrowTx_def
  encodeUpdateEscrowPartiesTx_def encodeCreateProposalTx_def encodeVoteTx_def

text \<open>
  \<open>encodeMsg\<close> sets exactly one field of the message union, whatever the
  transaction: the decoder, which looks at the fields one after the other, can
  not take a transaction for one of another kind.
\<close>

lemma encodeMsg_sets_one:
  assumes "encodeMsg L strictMode tx = ok m"
  shows "length (filter id (msg_fields m)) = 1"
proof -
  have "one_message m"
    using assms
    by (cases "tx_content tx")
       (clarsimp simp: encodeMsg_def message_encoders Let_def andThen_eq_Inr
         split: if_splits option.splits SwapTimeout.splits)+
  then show ?thesis by (simp add: one_message_def)
qed

text \<open>
  C14. Amounts of $2^{31}$ whole tokens and more are lost on the way back: they are
  encoded without an error, and no value that decoding the wire form gives is
  the amount that was sent, because \<open>Long.toInt\<close> keeps 32 bits only.
\<close>

theorem large_amount_corrupted:
  assumes "bns_laws L" "canonical_decimal (am_quantity a)" "am_fractionalDigits a = int_num 9"
    and "2 ^ 31 * 10 ^ 9 \<le> parse_base 10 (am_quantity a)" "parse_base 10 (am_quantity a) < 2 ^ 53 * 10 ^ 9"
  shows "\<exists>c. encodeAmount a = ok c \<and> decodeAmount L (norm_coin_ICoin c) \<noteq> ok a"
proof -
  note B = bns_bn [OF assms(1)]
  define w f where "w = parse_base 10 (slice_butlast 9 (am_quantity a))"
    and "f = parse_base 10 (slice_last 9 (am_quantity a))"
  have q: "list_all is_digit (am_quantity a)" using assms(2) by (simp add: canonical_decimal_def)
  note parts = split_quantity [OF q, folded w_def f_def]
  have w: "w \<noteq> 0" using assms(4) parts(3,4) by auto
  let ?c = "\<lparr>coin_whole = Some (JsNumber (int_num (int w))),
      coin_fractional = map_option JsNumber (if f = 0 then None else Some (int_num (int f))),
      coin_ticker = encodeString (Some (am_tokenTicker a))\<rparr>"
  have enc: "encodeAmount a = ok ?c"
    using encodeAmount_parts [OF q assms(3,5)] w by (simp add: w_def f_def)
  define t where "t = long_toInt L (int w)"
  have t: "t < 2 ^ 31" using bns_long [OF assms(1)] by (simp add: long_laws_def int32_def t_def)
  have f: "f < 2 ^ 31" using parts(3) by simp
  have False if d: "decodeAmount L (norm_coin_ICoin ?c) = ok a"
  proof -
    have "am_quantity a = bn_toString L (bn_add L (bn_mul L t (10 ^ 9)) (int f))" "0 \<le> t"
      using d f t wire_int_coin [OF assms(1) f]
      by (auto simp: decodeAmount_def norm_coin_ICoin_def asIntegerNumber_def [of L "Some (Long (int w))"]
          t_def [symmetric] andThen_eq_Inr bn_assert_def bn_fromNumber [OF B] weaveFractionalDigits_def
          safe_int_def split: if_splits dest!: arg_cong [of _ a am_quantity])
    then have "parse_base 10 (am_quantity a) = nat (t * 10 ^ 9 + int f)"
      by (simp add: bn_toString [OF B] bn_add [OF B] bn_mul [OF B] int_to_string_def)
    then show False using assms(4) t parts(3) \<open>0 \<le> t\<close> by auto
  qed
  with enc show ?thesis by blast
qed

lemma large_amount_corrupted_witness:
  "\<exists>c. encodeAmount \<lparr>am_quantity = ''3000000000000000000'', am_fractionalDigits = int_num 9, am_tokenTicker = ''IOV''\<rparr>
      = ok c \<and> decodeAmount plain_libs (norm_coin_ICoin c)
      \<noteq> ok \<lparr>am_quantity = ''3000000000000000000'', am_fractionalDigits = int_num 9, am_tokenTicker = ''IOV''\<rparr>"
proof -
  have "canonical_decimal ''3000000000000000000''" by (simp add: canonical_decimal_def is_digit_def)
  moreover have "parse_base 10 ''3000000000000000000'' = 3000000000000000000"
    by (simp add: parse_base_def digit_val_def)
  ultimately show ?thesis by (intro large_amount_corrupted [OF demo_laws]) simp_all
qed

text \<open>A party after the wire: always set, whether it was set before or not.\<close>

lemma party_after_wire:
  assumes "bns_laws L" "optionalAddressData L p = ok d"
  shows "\<exists>a. optionalAddress L (addressPrefix c) (norm_bytes d) = ok (Some a) \<and> party_given (Some a)"
proof -
  have "length (the (norm_bytes d)) \<le> 20"
    using assms(2) addressData_length
    by (cases p) (auto simp: optionalAddressData_def andThen_eq_Inr split: if_splits)
  then obtain a where "bech32_encode L (addressPrefix c) (the (norm_bytes d)) = Some a" "a \<noteq> []"
    using bns_bech32 [OF assms(1)] addressPrefix_cases [of c] unfolding bech32_laws_def by metis
  then show ?thesis
    by (cases d) (auto simp: optionalAddress_def encodeBnsAddress_def party_given_def)
qed

text \<open>
  C13. A change of escrow parties can not be read back: the encoder accepts it only
  with exactly one of the three parties, and over the wire the fields that are
  not set become empty byte strings, which the decoder turns into addresses. The
  decoded transaction has the same escrow and names all three parties, none with an empty
  address, and the encoder rejects it.
\<close>

theorem escrow_parties_not_recovered:
  assumes "bns_laws L" "numeric_id (uep_escrowId c)"
    and "encodeMsg L True (base\<lparr>tx_content := UpdateEscrowParties c\<rparr>) = ok m"
  shows "\<exists>c'. decodeMsg L base (norm_BnsdTxMsg m) = ok (base\<lparr>tx_content := UpdateEscrowParties c'\<rparr>) \<and> c' \<noteq> c \<and>
    uep_escrowId c' = uep_escrowId c \<and>
    (\<exists>s a r. uep_sender c' = Some s \<and> uep_arbiter c' = Some a \<and> uep_recipient c' = Some r \<and> s \<noteq> [] \<and> a \<noteq> [] \<and> r \<noteq> []) \<and>
    encodeMsg L True (base\<lparr>tx_content := UpdateEscrowParties c'\<rparr>) = throw ''Only one party can be updated at a time''"
proof -
  let ?p = "addressPrefix (tx_chainId base)"
  have enc: "encodeUpdateEscrowPartiesTx L c = ok m"
    using assms(3) by (simp add: encodeMsg_def encodeMsg_known)
  then obtain s a r where
    one: "length (filter party_given [uep_sender c, uep_arbiter c, uep_recipient c]) = 1" and
    d: "optionalAddressData L (uep_sender c) = ok s" "optionalAddressData L (uep_arbiter c) = ok a"
      "optionalAddressData L (uep_recipient c) = ok r" and
    m: "m = no_msg\<lparr>escrowUpdatePartiesMsg := Some \<lparr>eu_metadata = metadata1,
      eu_escrowId = Some (raw_id L (uep_escrowId c)), eu_source = s, eu_arbiter = a, eu_destination = r\<rparr>\<rparr>"
    using id_wire [OF assms(1,2)]
    by (auto simp: encodeUpdateEscrowPartiesTx_def Let_def andThen_eq_Inr split: if_splits)
  obtain s' a' r' where
    s': "optionalAddress L ?p (norm_bytes s) = ok (Some s')" "party_given (Some s')" and
    a': "optionalAddress L ?p (norm_bytes a) = ok (Some a')" "party_given (Some a')" and
    r': "optionalAddress L ?p (norm_bytes r) = ok (Some r')" "party_given (Some r')"
    using d [THEN party_after_wire [OF assms(1)]] by blast
  define c' where "c' = \<lparr>uep_escrowId = uep_escrowId c, uep_sender = Some s', uep_arbiter = Some a',
    uep_recipient = Some r'\<rparr>"
  have "decodeMsg L base (norm_BnsdTxMsg m) = ok (base\<lparr>tx_content := UpdateEscrowParties c'\<rparr>)"
    using s' a' r' ensure_wire(2) [OF assms(1,2)]
    by (simp add: m decodeMsg_dispatch decodeUpdateEscrowPartiesTx_def norm_escrow_IUpdatePartiesMsg_def c'_def)
  moreover have "encodeMsg L True (base\<lparr>tx_content := UpdateEscrowParties c'\<rparr>)
      = throw ''Only one party can be updated at a time''"
    using s' a' r' by (simp add: encodeMsg_def encodeMsg_known encodeUpdateEscrowPartiesTx_def c'_def)
  moreover have "uep_escrowId c' = uep_escrowId c" "uep_sender c' = Some s'" "uep_arbiter c' = Some a'" "uep_recipient c' = Some r'"
    by (simp_all add: c'_def)
  moreover have "s' \<noteq> []" "a' \<noteq> []" "r' \<noteq> []" using s'(2) a'(2) r'(2) by (simp_all add: party_given_def)
  moreover have "c' \<noteq> c" using \<open>encodeMsg L True (base\<lparr>tx_content := UpdateEscrowParties c'\<rparr>) = _\<close> assms(3) by auto
  ultimately show ?thesis by blast
qed

lemma escrow_parties_not_recovered_witness:
  "\<exists>m c'. encodeMsg plain_libs True
      (demo_tx\<lparr>tx_content := UpdateEscrowParties \<lparr>uep_escrowId = int_num 5, uep_sender = None,
         uep_arbiter = Some (demo_party 3), uep_recipient = None\<rparr>\<rparr>) = ok m \<and>
    decodeMsg plain_libs demo_tx (norm_BnsdTxMsg m) = ok (demo_tx\<lparr>tx_content := UpdateEscrowParties c'\<rparr>) \<and>
    (\<exists>s a r. uep_sender c' = Some s \<and> uep_arbiter c' = Some a \<and> uep_recipient c' = Some r \<and> s \<noteq> [] \<and> a \<noteq> [] \<and> r \<noteq> []) \<and>
    encodeMsg plain_libs True (demo_tx\<lparr>tx_content := UpdateEscrowParties c'\<rparr>)
      = throw ''Only one party can be updated at a time''"
proof -
  have i: "numeric_id (int_num 5)" by (auto simp: numeric_id_def safe_nonce_def)
  let ?c = "\<lparr>uep_escrowId = int_num 5, uep_sender = None, uep_arbiter = Some (demo_party 3), uep_recipient = None\<rparr>"
  have "is_ok (encodeMsg plain_libs True (demo_tx\<lparr>tx_content := UpdateEscrowParties ?c\<rparr>))"
    using id_wire(1) [OF demo_laws i]
    by (simp add: encodeMsg_def encodeMsg_known encodeUpdateEscrowPartiesTx_def party_given_def optionalAddressData_def)
  then obtain m where m: "encodeMsg plain_libs True (demo_tx\<lparr>tx_content := UpdateEscrowParties ?c\<rparr>) = ok m"
    by (auto simp: is_ok_iff)
  from escrow_parties_not_recovered [OF demo_laws _ this] i m show ?thesis by (simp del: ex_simps) blast
qed

end
