(* ===== verification/Bcp_Swap_Merger.thy ===== *)
theory Bcp_Swap_Merger
  imports Bcp_Types
begin

text \<open>
  \<open>packages/iov-bcp/src/atomicswapmerger.ts\<close>: the merger takes events about
  atomic swaps in any order (an offer, a claim, an abort) and emits the states
  of the swaps. Its two arrays are the record \<open>merger\<close>. The specification is a
  map from swap ids to what is pending for the id; the lemmas show that the
  arrays implement the map.
\<close>

section \<open>The merger\<close>

datatype settle_event =
    ClaimTx SwapClaimTransaction
  | AbortTx SwapAbortTransaction

fun settle_swapId :: "settle_event \<Rightarrow> SwapId" where
  "settle_swapId (ClaimTx tx) = claim_swapId tx"
| "settle_swapId (AbortTx tx) = abort_swapId tx"

datatype swap_event =
    OpenEvent SwapData
  | SettleEvent settle_event

fun settleAtomicSwap :: "SwapData \<Rightarrow> settle_event \<Rightarrow> AtomicSwap" where
  "settleAtomicSwap swap (ClaimTx tx) = ClaimedSwap swap (claim_preimage tx)"
| "settleAtomicSwap swap (AbortTx tx) = AbortedSwap swap"

record merger =
  m_open :: "SwapData list"
  m_settling :: "settle_event list"

definition new_merger :: merger where
  "new_merger = \<lparr>m_open = [], m_settling = []\<rparr>"

text \<open>\<open>a.splice(a.findIndex(p), 1)\<close>: removes the first element that satisfies \<open>p\<close>.\<close>

definition findIndex :: "('a \<Rightarrow> bool) \<Rightarrow> 'a list \<Rightarrow> nat" where
  "findIndex p a = length (takeWhile (\<lambda>x. \<not> p x) a)"

definition splice1 :: "'a list \<Rightarrow> nat \<Rightarrow> 'a list" where
  "splice1 a i = take i a @ drop (Suc i) a"

fun process :: "merger \<Rightarrow> swap_event \<Rightarrow> (merger \<times> AtomicSwap option) result" where
  "process m (OpenEvent event) =
     (let eventId = sd_id event in
      case find (\<lambda>s. swapIdEquals (settle_swapId s) eventId) (m_settling m) of
        Some matchingSettlingElement \<Rightarrow>
          let settled = settleAtomicSwap event matchingSettlingElement;
              i = findIndex (\<lambda>s. swapIdEquals (settle_swapId s) eventId) (m_settling m)
          in ok (m\<lparr>m_settling := splice1 (m_settling m) i\<rparr>, Some settled)
      | None \<Rightarrow>
          if find (\<lambda>d. swapIdEquals (sd_id d) eventId) (m_open m) \<noteq> None
          then throw ''Swap ID already in open swaps pool''
          else ok (m\<lparr>m_open := m_open m @ [event]\<rparr>, Some (OpenSwap event)))"
| "process m (SettleEvent event) =
     (let eventId = settle_swapId event in
      case find (\<lambda>d. swapIdEquals (sd_id d) eventId) (m_open m) of
        Some matchingOpenElement \<Rightarrow>
          let settled = settleAtomicSwap matchingOpenElement event;
              i = findIndex (\<lambda>d. swapIdEquals (sd_id d) eventId) (m_open m)
          in ok (m\<lparr>m_open := splice1 (m_open m) i\<rparr>, Some settled)
      | None \<Rightarrow>
          if find (\<lambda>s. swapIdEquals (settle_swapId s) eventId) (m_settling m) \<noteq> None
          then throw ''Swap ID already in closing swaps pool''
          else ok (m\<lparr>m_settling := m_settling m @ [event]\<rparr>, None))"

definition openSwaps :: "merger \<Rightarrow> AtomicSwap list" where
  "openSwaps m = map OpenSwap (m_open m)"

section \<open>The specification\<close>

datatype pending = Offered SwapData | Settled settle_event

type_synonym pool = "SwapId \<rightharpoonup> pending"

fun pool_process :: "pool \<Rightarrow> swap_event \<Rightarrow> (pool \<times> AtomicSwap option) result" where
  "pool_process p (OpenEvent d) = (case p (sd_id d) of
     None \<Rightarrow> ok (p(sd_id d \<mapsto> Offered d), Some (OpenSwap d))
   | Some (Settled e) \<Rightarrow> ok (p(sd_id d := None), Some (settleAtomicSwap d e))
   | Some (Offered _) \<Rightarrow> throw ''Swap ID already in open swaps pool'')"
| "pool_process p (SettleEvent e) = (case p (settle_swapId e) of
     None \<Rightarrow> ok (p(settle_swapId e \<mapsto> Settled e), None)
   | Some (Offered d) \<Rightarrow> ok (p(settle_swapId e := None), Some (settleAtomicSwap d e))
   | Some (Settled _) \<Rightarrow> throw ''Swap ID already in closing swaps pool'')"

definition pool_of :: "merger \<Rightarrow> pool" where
  "pool_of m i = (case find (\<lambda>d. sd_id d = i) (m_open m) of
     Some d \<Rightarrow> Some (Offered d)
   | None \<Rightarrow> (case find (\<lambda>s. settle_swapId s = i) (m_settling m) of
       Some e \<Rightarrow> Some (Settled e) | None \<Rightarrow> None))"

definition merger_inv :: "merger \<Rightarrow> bool" where
  "merger_inv m \<longleftrightarrow> distinct (map sd_id (m_open m)) \<and> distinct (map settle_swapId (m_settling m))
     \<and> (\<forall>d \<in> set (m_open m). \<forall>s \<in> set (m_settling m). sd_id d \<noteq> settle_swapId s)"

section \<open>Arrays of elements with distinct keys\<close>

lemma find_key_None: "find (\<lambda>x. f x = i) xs = None \<longleftrightarrow> (\<forall>x \<in> set xs. f x \<noteq> i)"
  by (auto simp: find_None_iff)

lemma find_key_Some:
  "distinct (map f xs) \<Longrightarrow> find (\<lambda>x. f x = i) xs = Some x \<longleftrightarrow> x \<in> set xs \<and> f x = i"
proof (induction xs)
  case (Cons y xs)
  then show ?case by (auto simp: rev_image_eqI)
qed simp

lemma splice_findIndex:
  "distinct (map f xs) \<Longrightarrow>
   splice1 xs (findIndex (\<lambda>x. f x = i) xs) = filter (\<lambda>x. f x \<noteq> i) xs"
proof (induction xs)
  case Nil
  then show ?case by (simp add: splice1_def)
next
  case (Cons y xs)
  show ?case
  proof (cases "f y = i")
    case True
    then have "filter (\<lambda>x. f x \<noteq> i) xs = xs" 
      using Cons.prems by (simp add: filter_id_conv) (metis image_eqI)
    with True show ?thesis by (simp add: splice1_def findIndex_def)
  next
    case False
    with Cons show ?thesis by (simp add: splice1_def findIndex_def)
  qed
qed

lemma find_filter_neq:
  "find (\<lambda>x. f x = j) (filter (\<lambda>x. f x \<noteq> i) xs) = (if j = i then None else find (\<lambda>x. f x = j) xs)"
  by (induction xs) auto

lemma find_snoc: "find P (xs @ [x]) = (case find P xs of Some y \<Rightarrow> Some y | None \<Rightarrow> if P x then Some x else None)"
  by (induction xs) auto

lemma distinct_map_filter_key: "distinct (map f xs) \<Longrightarrow> distinct (map f (filter P xs))"
  by (induction xs) auto

section \<open>Refinement\<close>

lemma pool_of_new: "pool_of new_merger = Map.empty"
  by (auto simp: pool_of_def new_merger_def)

lemma process_inv:
  "merger_inv m \<Longrightarrow> process m e = ok (m', r) \<Longrightarrow> merger_inv m'"
  by (cases e; auto simp: merger_inv_def Let_def find_key_None splice_findIndex
      distinct_map_filter_key image_iff split: option.splits if_splits; blast)

lemma process_refines:
  assumes m: "merger_inv m"
  shows "map_state pool_of (process m e) = pool_process (pool_of m) e"
proof -
  have d: "distinct (map sd_id (m_open m))" "distinct (map settle_swapId (m_settling m))"
    using m by (auto simp: merger_inv_def)
  have disj: "find (\<lambda>d. sd_id d = i) (m_open m) = None \<or> find (\<lambda>s. settle_swapId s = i) (m_settling m) = None"
    for i using m by (auto simp: merger_inv_def find_key_None)
  show ?thesis
  proof (cases e)
    case (OpenEvent x)
    then show ?thesis using disj [of "sd_id x"] d
      by (auto simp: pool_of_def Let_def splice_findIndex find_filter_neq find_snoc fun_eq_iff
          split: option.splits)
  next
    case (SettleEvent x)
    then show ?thesis using disj [of "settle_swapId x"] d
      by (auto simp: pool_of_def Let_def splice_findIndex find_filter_neq find_snoc fun_eq_iff
          split: option.splits)
  qed
qed

interpretation swaps: refined_machine new_merger process merger_inv pool_of pool_process
proof unfold_locales
  show "merger_inv new_merger" by (simp add: merger_inv_def new_merger_def)
qed (auto intro: process_inv process_refines)

section \<open>Properties\<close>

text \<open>
  C4. The merger implements its specification: after any sequence of events the
  two arrays represent the map that the specification reaches on the same
  events, no swap id is in both arrays or twice in one, and the next event gives
  the same emitted swap or the same error as the specification.
\<close>

theorem merger_implements_pool:
  "let m = run_events process new_merger es in
     merger_inv m \<and>
     pool_of m = run_events pool_process Map.empty es \<and>
     map_state pool_of (process m e) = pool_process (run_events pool_process Map.empty es) e"
  using swaps.inv_run [of es] swaps.abs_run [of es] swaps.refines [OF swaps.inv_run, of es e]
  by (simp add: Let_def pool_of_new)

lemma process_order:
  assumes m: "merger_inv m" and i: "sd_id d = settle_swapId s" and fresh: "pool_of m (sd_id d) = None"
  shows "\<exists>m1 m2 n1 n2 out. process m (OpenEvent d) = ok (m1, Some (OpenSwap d)) \<and>
      process m1 (SettleEvent s) = ok (m2, Some out) \<and>
      process m (SettleEvent s) = ok (n1, None) \<and>
      process n1 (OpenEvent d) = ok (n2, Some out) \<and>
      out = settleAtomicSwap d s \<and> m2 = m \<and> n2 = m"
proof -
  have o: "find (\<lambda>x. sd_id x = sd_id d) (m_open m) = None"
    and t: "find (\<lambda>x. settle_swapId x = sd_id d) (m_settling m) = None"
    using fresh by (auto simp: pool_of_def split: option.splits)
  have do: "distinct (map sd_id (m_open m @ [d]))" and dt: "distinct (map settle_swapId (m_settling m @ [s]))"
    using m o t i by (auto simp: merger_inv_def find_key_None image_iff)
  have "filter (\<lambda>x. sd_id x \<noteq> sd_id d) (m_open m @ [d]) = m_open m"
    "filter (\<lambda>x. settle_swapId x \<noteq> sd_id d) (m_settling m @ [s]) = m_settling m"
    using o t i by (simp_all add: find_key_None filter_id_conv)
  then show ?thesis
    using o t i splice_findIndex [OF do, of "sd_id d"] splice_findIndex [OF dt, of "sd_id d"]
    by (simp add: Let_def find_snoc)
qed

text \<open>
  C11. Events may arrive in any order: from a state without the swap's id, an
  offer followed by its claim or abort, and the claim or abort followed by the
  offer, both emit the same settled swap (with the preimage of the claim) and
  both leave the merger as it was before.
\<close>

theorem merger_order_independent:
  assumes "m = run_events process new_merger es"
    and "sd_id d = settle_swapId s" and "pool_of m (sd_id d) = None"
  shows "\<exists>m1 n1. process m (OpenEvent d) = ok (m1, Some (OpenSwap d)) \<and>
      process m1 (SettleEvent s) = ok (m, Some (settleAtomicSwap d s)) \<and>
      process m (SettleEvent s) = ok (n1, None) \<and>
      process n1 (OpenEvent d) = ok (m, Some (settleAtomicSwap d s))"
  using process_order [OF _ assms(2,3)] swaps.inv_run [of es] assms(1) by blast

lemma merger_order_independent_witness:
  "\<exists>m1 n1. let i = \<lparr>swap_prefix = None, swap_data = [1]\<rparr>;
       d = \<lparr>sd_id = i, sd_sender = ''a'', sd_recipient = ''b'', sd_hash = [7], sd_amounts = [],
            sd_timeout = TimestampTimeout (int_num 5), sd_memo = None\<rparr>;
       c = \<lparr>claim_preimage = [9], claim_swapId = i\<rparr>
     in process new_merger (OpenEvent d) = ok (m1, Some (OpenSwap d)) \<and>
        process m1 (SettleEvent (ClaimTx c)) = ok (new_merger, Some (ClaimedSwap d [9])) \<and>
        process new_merger (SettleEvent (ClaimTx c)) = ok (n1, None) \<and>
        process n1 (OpenEvent d) = ok (new_merger, Some (ClaimedSwap d [9]))"
proof -
  let ?i = "\<lparr>swap_prefix = None, swap_data = [1]\<rparr>"
  let ?d = "\<lparr>sd_id = ?i, sd_sender = ''a'', sd_recipient = ''b'', sd_hash = [7], sd_amounts = [],
    sd_timeout = TimestampTimeout (int_num 5), sd_memo = None\<rparr>"
  let ?c = "ClaimTx \<lparr>claim_preimage = [9], claim_swapId = ?i\<rparr>"
  have "new_merger = run_events process new_merger []" "sd_id ?d = settle_swapId ?c"
    "pool_of new_merger (sd_id ?d) = None" by (simp_all add: pool_of_new)
  then have "\<exists>m1 n1. process new_merger (OpenEvent ?d) = ok (m1, Some (OpenSwap ?d)) \<and>
      process m1 (SettleEvent ?c) = ok (new_merger, Some (settleAtomicSwap ?d ?c)) \<and>
      process new_merger (SettleEvent ?c) = ok (n1, None) \<and>
      process n1 (OpenEvent ?d) = ok (new_merger, Some (settleAtomicSwap ?d ?c))"
    by (rule merger_order_independent)
  then show ?thesis by (simp add: Let_def del: process.simps)
qed

end
