(* ===== verification/Iov_Decimal.thy ===== *)
theory Iov_Decimal
  imports Iov_Integers
begin

text \<open>
  \<open>packages/iov-encoding/src/decimal.ts\<close>: non-negative decimals of fixed
  precision, an integer count of atomics and the number of fractional digits.
  The lemmas give the value \<open>fromUserInput\<close> reads, show that printing and
  reading are inverse, and that \<open>plus\<close> is exact.
\<close>

section \<open>Strings\<close>

text \<open>\<open>s.split(".")\<close>, \<open>s.replace(/0+$/, "")\<close>, \<open>s.padEnd(n, "0")\<close> and \<open>s.padStart(n, "0")\<close>.\<close>

fun split_dot :: "string \<Rightarrow> string list" where
  "split_dot [] = [[]]"
| "split_dot (c # s) =
     (if c = CHR ''.'' then [] # split_dot s
      else case split_dot s of [] \<Rightarrow> [[c]] | p # ps \<Rightarrow> (c # p) # ps)"

definition trim_zeros :: "string \<Rightarrow> string" where
  "trim_zeros s = rev (dropWhile (\<lambda>c. c = CHR ''0'') (rev s))"

definition padEnd0 :: "string \<Rightarrow> nat \<Rightarrow> string" where
  "padEnd0 s n = s @ replicate (n - length s) CHR ''0''"

definition padStart0 :: "string \<Rightarrow> nat \<Rightarrow> string" where
  "padStart0 s n = replicate (n - length s) CHR ''0'' @ s"

lemma split_dot_not_Nil [simp]: "split_dot s \<noteq> []"
  by (induction s) (auto split: list.splits)

lemma split_dot_no_dot: "CHR ''.'' \<notin> set s \<Longrightarrow> split_dot s = [s]"
  by (induction s) auto

lemma split_dot_append:
  "CHR ''.'' \<notin> set s \<Longrightarrow> split_dot (s @ CHR ''.'' # t) = s # split_dot t"
  by (induction s) auto

lemma trim_zeros_append: "\<exists>n. s = trim_zeros s @ replicate n CHR ''0''"
proof (induction s rule: rev_induct)
  case Nil
  then show ?case by (simp add: trim_zeros_def)
next
  case (snoc c s)
  then obtain n where n: "s = trim_zeros s @ replicate n CHR ''0''" by blast
  show ?case
  proof (cases "c = CHR ''0''")
    case True
    then have "trim_zeros (s @ [c]) = trim_zeros s" by (simp add: trim_zeros_def)
    with n True have "s @ [c] = trim_zeros (s @ [c]) @ replicate (Suc n) CHR ''0''"
      by (simp add: replicate_append_same [symmetric])
    then show ?thesis ..
  next
    case False
    then have "s @ [c] = trim_zeros (s @ [c]) @ replicate 0 CHR ''0''" by (simp add: trim_zeros_def)
    then show ?thesis ..
  qed
qed

lemma trim_zeros_idem [simp]: "trim_zeros (trim_zeros s) = trim_zeros s"
  by (simp add: trim_zeros_def)

lemma padEnd0_trim_zeros: "length s = n \<Longrightarrow> padEnd0 (trim_zeros s) n = s"
proof -
  assume n: "length s = n"
  obtain k where k: "s = trim_zeros s @ replicate k CHR ''0''" using trim_zeros_append by blast
  then have "n = length (trim_zeros s) + k" using n by (metis length_append length_replicate)
  with k show ?thesis by (simp add: padEnd0_def)
qed

section \<open>The class\<close>

definition maxFractionalDigits :: int where
  "maxFractionalDigits = 100"

record Decimal =
  dec_atomics :: int
  dec_fractionalDigits :: nat

definition verifyFractionalDigits :: "number \<Rightarrow> unit result" where
  "verifyFractionalDigits fractionalDigits =
     (if \<not> isInteger fractionalDigits then throw ''Fractional digits is not an integer''
      else if num_less fractionalDigits (int_num 0)
      then throw ''Fractional digits must not be negative''
      else if num_less (int_num maxFractionalDigits) fractionalDigits
      then throw ''Fractional digits must not exceed''
      else ok ())"

definition new_Decimal :: "'a bn_lib_scheme \<Rightarrow> string \<Rightarrow> nat \<Rightarrow> Decimal" where
  "new_Decimal B atomics fractionalDigits =
     \<lparr>dec_atomics = bn_fromString B atomics, dec_fractionalDigits = fractionalDigits\<rparr>"

definition split_user_input :: "string \<Rightarrow> (string \<times> string) result" where
  "split_user_input input =
     (if \<not> list_ex (\<lambda>c. c = CHR ''.'') input then ok (input, [])
      else let parts = split_dot input in
        if length parts < 2
        then throw ''Fewer than two elements in split result. This must not happen here.''
        else if length parts = 2
        then (if parts ! 1 = [] then throw ''Fractional part missing''
              else ok (parts ! 0, trim_zeros (parts ! 1)))
        else throw ''More than one separator found'')"

definition fromUserInput :: "'a bn_lib_scheme \<Rightarrow> string \<Rightarrow> number \<Rightarrow> Decimal result" where
  "fromUserInput B input fractionalDigits =
     andThen (verifyFractionalDigits fractionalDigits) (\<lambda>_.
     if list_ex (\<lambda>c. \<not> (is_digit c \<or> c = CHR ''.'')) input
     then throw ''Invalid character at position''
     else andThen (split_user_input input) (\<lambda>(whole, fractional).
       if nat (floor_num fractionalDigits) < length fractional
       then throw ''Got more fractional digits than supported''
       else ok (new_Decimal B (whole @ padEnd0 fractional (nat (floor_num fractionalDigits)))
              (nat (floor_num fractionalDigits)))))"

definition fromAtomics :: "'a bn_lib_scheme \<Rightarrow> string \<Rightarrow> number \<Rightarrow> Decimal result" where
  "fromAtomics B atomics fractionalDigits =
     andThen (verifyFractionalDigits fractionalDigits) (\<lambda>_.
       ok (new_Decimal B atomics (nat (floor_num fractionalDigits))))"

definition atomics :: "'a bn_lib_scheme \<Rightarrow> Decimal \<Rightarrow> string" where
  "atomics B d = bn_toString B (dec_atomics d)"

definition Decimal_toString :: "'a bn_lib_scheme \<Rightarrow> Decimal \<Rightarrow> string result" where
  "Decimal_toString B d =
     andThen (bn_assert (bn_fromNumber B (int_num 10))) (\<lambda>ten.
     andThen (bn_assert (bn_fromNumber B (int_num (int (dec_fractionalDigits d))))) (\<lambda>digits.
     let factor = bn_pow B ten digits;
         whole = bn_div B (dec_atomics d) factor;
         fractional = bn_mod B (dec_atomics d) factor
     in if bn_isZero B fractional then ok (bn_toString B whole)
        else let fullFractionalPart = padStart0 (bn_toString B fractional) (dec_fractionalDigits d);
                 trimmedFractionalPart = trim_zeros fullFractionalPart
             in ok (bn_toString B whole @ ''.'' @ trimmedFractionalPart)))"

definition plus :: "'a bn_lib_scheme \<Rightarrow> Decimal \<Rightarrow> Decimal \<Rightarrow> Decimal result" where
  "plus B a b =
     (if dec_fractionalDigits a \<noteq> dec_fractionalDigits b then throw ''Fractional digits do not match''
      else let sum = bn_add B (dec_atomics a) (bn_fromString B (atomics B b))
           in ok (new_Decimal B (bn_toString B sum) (dec_fractionalDigits a)))"

definition valid_Decimal :: "Decimal \<Rightarrow> bool" where
  "valid_Decimal d \<longleftrightarrow> 0 \<le> dec_atomics d \<and> dec_fractionalDigits d \<le> 100"

lemma verifyFractionalDigits_iff:
  "verifyFractionalDigits x = ok () \<longleftrightarrow> (\<exists>n \<le> 100. x = int_num (int n))"
proof (cases "isInteger x")
  case True
  then obtain i where i: "x = int_num i" by (auto simp: isInteger_iff)
  have "(0 \<le> i \<and> i \<le> 100) \<longleftrightarrow> (\<exists>n \<le> 100. i = int n)"
    by (metis nat_le_iff nat_numeral of_nat_0_le_iff of_nat_le_iff of_nat_numeral zero_le_imp_eq_int)
  with i show ?thesis by (auto simp: verifyFractionalDigits_def maxFractionalDigits_def not_less)
next
  case False
  then show ?thesis by (auto simp: verifyFractionalDigits_def isInteger_iff)
qed

lemma verifyFractionalDigits_ok [simp]:
  "n \<le> 100 \<Longrightarrow> verifyFractionalDigits (int_num (int n)) = ok ()"
  by (auto simp: verifyFractionalDigits_iff)

lemma bn_fromString_to_base [simp]: "bn_laws B \<Longrightarrow> bn_fromString B (to_base 10 n) = int n"
  by (simp add: bn_fromString to_base_10_digits)

lemma int_to_string_nat [simp]: "int_to_string (int n) = to_base 10 n"
  by (simp add: int_to_string_def)

text \<open>Printing in exact arithmetic.\<close>

lemma Decimal_toString_eq:
  assumes B: "bn_laws B" and d: "valid_Decimal d"
  defines "f \<equiv> dec_fractionalDigits d" and "n \<equiv> nat (dec_atomics d)"
  shows "Decimal_toString B d = ok (to_base 10 (n div 10 ^ f) @
     (if n mod 10 ^ f = 0 then [] else ''.'' @ trim_zeros (padStart0 (to_base 10 (n mod 10 ^ f)) f)))"
proof -
  have n: "dec_atomics d = int n" using d by (simp add: valid_Decimal_def n_def)
  have s: "safe_int 10" "safe_int (int f)" using d by (auto simp: valid_Decimal_def safe_int_def f_def)
  have p: "(10 :: int) ^ f = int (10 ^ f)" by simp
  show ?thesis
    using s unfolding Decimal_toString_def n f_def [symmetric]
    by (simp add: bn_fromNumber [OF B] bn_pow [OF B] bn_div [OF B] bn_mod [OF B] bn_isZero [OF B]
        bn_toString [OF B] bn_assert_def p zdiv_int [symmetric] zmod_int [symmetric] Let_def
        del: of_nat_power)
qed

lemma parse_base_zeros [simp]: "parse_base 10 (replicate k CHR ''0'') = 0"
proof (induction k)
  case (Suc k)
  have "parse_base 10 (replicate k CHR ''0'' @ [CHR ''0'']) = 0"
    unfolding parse_base_snoc Suc by (simp add: digit_val_def)
  then show ?case by (simp add: replicate_append_same)
qed simp

lemma parse_padStart0 [simp]: "parse_base 10 (padStart0 s n) = parse_base 10 s"
  by (simp add: padStart0_def parse_base_append)

lemma is_digit_zero [simp]: "is_digit CHR ''0''"
  by (simp add: is_digit_def)

lemma is_digit_dot [simp]: "\<not> is_digit CHR ''.''"
  by (simp add: is_digit_def)

lemma digits_no_dot: "list_all is_digit s \<Longrightarrow> CHR ''.'' \<notin> set s"
  by (auto simp: list_all_iff)

lemma padStart0_digits [simp]: "list_all is_digit s \<Longrightarrow> list_all is_digit (padStart0 s n)"
  by (auto simp: padStart0_def list_all_iff)

lemma trim_zeros_set: "set (trim_zeros s) \<subseteq> set s"
  by (auto simp: trim_zeros_def dest: set_dropWhileD)

lemma trim_zeros_digits: "list_all is_digit s \<Longrightarrow> list_all is_digit (trim_zeros s)"
  using trim_zeros_set [of s] by (auto simp: list_all_iff)

lemma trim_zeros_Nil: "trim_zeros s = [] \<Longrightarrow> parse_base 10 s = 0"
  using trim_zeros_append [of s] by auto

lemma length_trim_zeros: "length (trim_zeros s) \<le> length s"
  by (metis length_append le_add1 trim_zeros_append)

lemma length_to_base_10: "n < 10 ^ Suc f \<Longrightarrow> length (to_base 10 n) \<le> Suc f"
proof (induction f arbitrary: n)
  case 0
  then show ?case by (subst to_base.simps) simp
next
  case (Suc f)
  then have "n div 10 < 10 ^ Suc f" by (simp add: div_less_iff_less_mult)
  with Suc.IH [of "n div 10"] show ?case by (subst to_base.simps) simp
qed

lemma length_padStart0: "n < 10 ^ f \<Longrightarrow> n \<noteq> 0 \<Longrightarrow> length (padStart0 (to_base 10 n) f) = f"
  using length_to_base_10 [of n "f - 1"] by (cases f) (auto simp: padStart0_def)

text \<open>Reading a number without and with a separator.\<close>

lemma fromUserInput_whole:
  assumes B: "bn_laws B" and w: "matches_digits w" and f: "f \<le> 100"
  shows "fromUserInput B w (int_num (int f)) =
    ok \<lparr>dec_atomics = int (parse_base 10 w * 10 ^ f), dec_fractionalDigits = f\<rparr>"
proof -
  have "\<not> list_ex (\<lambda>c. \<not> (is_digit c \<or> c = CHR ''.'')) w" "\<not> list_ex (\<lambda>c. c = CHR ''.'') w"
    using w by (auto simp: matches_digits_def list_ex_iff list_all_iff)
  moreover have "bn_fromString B (w @ padEnd0 [] f) = int (parse_base 10 w * 10 ^ f)"
    using w by (subst bn_fromString [OF B])
      (auto simp: matches_digits_def padEnd0_def list_all_iff parse_base_append)
  ultimately show ?thesis using f
    by (simp add: fromUserInput_def split_user_input_def new_Decimal_def)
qed

lemma fromUserInput_fraction:
  assumes B: "bn_laws B" and w: "matches_digits w" and r: "matches_digits r"
    and f: "f \<le> 100" "length (trim_zeros r) \<le> f"
  shows "fromUserInput B (w @ ''.'' @ r) (int_num (int f)) =
    ok \<lparr>dec_atomics = int (parse_base 10 (w @ padEnd0 (trim_zeros r) f)), dec_fractionalDigits = f\<rparr>"
proof -
  have d: "list_all is_digit w" "list_all is_digit r" "w \<noteq> []" "r \<noteq> []"
    using w r by (auto simp: matches_digits_def)
  then have "split_dot (w @ CHR ''.'' # r) = [w, r]"
    by (simp add: split_dot_append split_dot_no_dot digits_no_dot)
  moreover have "\<not> list_ex (\<lambda>c. \<not> (is_digit c \<or> c = CHR ''.'')) (w @ CHR ''.'' # r)"
    using d by (auto simp: list_ex_iff list_all_iff)
  moreover have "list_all is_digit (w @ padEnd0 (trim_zeros r) f)"
    using d trim_zeros_digits [of r] by (auto simp: padEnd0_def list_all_iff)
  ultimately show ?thesis using f d
    by (simp add: fromUserInput_def split_user_input_def new_Decimal_def bn_fromString [OF B] not_less)
qed

lemma decimal_codec:
  assumes B: "bn_laws B"
  shows "codec (\<lambda>d. andThen (Decimal_toString B d) (\<lambda>s. ok (s, int_num (int (dec_fractionalDigits d)))))
    (\<lambda>(s, f). fromUserInput B s f) valid_Decimal"
proof
  fix d assume d: "valid_Decimal d"
  define f n where "f = dec_fractionalDigits d" and "n = nat (dec_atomics d)"
  have D: "d = \<lparr>dec_atomics = int n, dec_fractionalDigits = f\<rparr>" and f: "f \<le> 100"
    using d by (auto simp: f_def n_def valid_Decimal_def)
  define r where "r = padStart0 (to_base 10 (n mod 10 ^ f)) f"
  have s: "Decimal_toString B d = ok (to_base 10 (n div 10 ^ f) @
      (if n mod 10 ^ f = 0 then [] else ''.'' @ trim_zeros r))"
    using Decimal_toString_eq [OF B d] by (simp add: f_def n_def r_def)
  have "\<exists>t. Decimal_toString B d = ok t \<and> fromUserInput B t (int_num (int f)) = ok d"
  proof (cases "n mod 10 ^ f = 0")
    case True
    then have "n div 10 ^ f * 10 ^ f = n" by (metis add.right_neutral div_mult_mod_eq)
    with True s f show ?thesis by (simp add: fromUserInput_whole [OF B] D)
  next
    case False
    have len: "length r = f" unfolding r_def using False by (intro length_padStart0) simp_all
    have "list_all is_digit r" by (simp add: r_def to_base_10_digits)
    moreover have "trim_zeros r \<noteq> []"
    proof
      assume "trim_zeros r = []"
      then have "parse_base 10 r = 0" by (rule trim_zeros_Nil)
      with False show False by (simp add: r_def)
    qed
    ultimately have "matches_digits (trim_zeros r)"
      by (simp add: matches_digits_def trim_zeros_digits)
    moreover have "length (trim_zeros r) \<le> f" using length_trim_zeros [of r] len by simp
    moreover have "parse_base 10 (to_base 10 (n div 10 ^ f) @ padEnd0 (trim_zeros r) f) = n"
      using len padEnd0_trim_zeros [OF len]
      by (simp add: parse_base_append) (simp add: r_def div_mult_mod_eq)
    ultimately show ?thesis using False s f
      by (simp add: fromUserInput_fraction [OF B, simplified] D)
  qed
  then show "\<exists>w. andThen (Decimal_toString B d)
      (\<lambda>s. ok (s, int_num (int (dec_fractionalDigits d)))) = ok w \<and>
      (case w of (s, f) \<Rightarrow> fromUserInput B s f) = ok d"
    by (auto simp: f_def)
qed

lemma plus_iff:
  assumes B: "bn_laws B" and a: "valid_Decimal a" and b: "valid_Decimal b"
  shows "plus B a b = ok c \<longleftrightarrow> dec_fractionalDigits a = dec_fractionalDigits b \<and>
    c = a\<lparr>dec_atomics := dec_atomics a + dec_atomics b\<rparr>"
proof -
  obtain m n where mn: "dec_atomics a = int m" "dec_atomics b = int n"
    using a b by (metis valid_Decimal_def zero_le_imp_eq_int)
  have sum: "int_to_string (int m + int n) = to_base 10 (m + n)"
    using int_to_string_nat [of "m + n"] by simp
  show ?thesis
    by (cases a, cases c) (use mn B in \<open>auto simp: plus_def atomics_def new_Decimal_def bn_toString bn_add sum Let_def\<close>)
qed

section \<open>Properties\<close>

text \<open>
  Printing a decimal and reading the string with the same precision gives
  the decimal back, for every amount and every supported precision.
\<close>

lemma Decimal_print_read:
  assumes "bn_laws B" "valid_Decimal d"
  shows "\<exists>s. Decimal_toString B d = ok s \<and>
    fromUserInput B s (int_num (int (dec_fractionalDigits d))) = ok d"
  using codec.round_trip [OF decimal_codec [OF assms(1)] assms(2)] by (auto simp: andThen_eq_Inr)

text \<open>
  \<open>plus\<close> is exact addition: it returns a value exactly if both operands have
  the same precision, and then the sum of the atomics at that precision, which
  is again a valid decimal.
\<close>

lemma plus_exact:
  assumes "bn_laws B" "valid_Decimal a" "valid_Decimal b"
  shows "plus B a b = (if dec_fractionalDigits a = dec_fractionalDigits b
      then ok (a\<lparr>dec_atomics := dec_atomics a + dec_atomics b\<rparr>)
      else throw ''Fractional digits do not match'')"
proof (cases "dec_fractionalDigits a = dec_fractionalDigits b")
  case True
  then show ?thesis using plus_iff [OF assms] by simp
next
  case False
  then show ?thesis by (simp add: plus_def)
qed

end
