(* ===== verification/Crypto_Signature.thy ===== *)
theory Crypto_Signature
  imports Js_Runtime "HOL-Library.Sublist"
begin

text \<open>
  \<open>packages/iov-crypto/src/secp256k1signature.ts\<close>: the two classes for secp256k1
  signatures, their fixed length and DER encodings. Reading an array out of
  range gives \<open>undefined\<close>, which is \<open>None\<close> here; the DER parser relies on that
  in its comparisons, so every access is kept.
\<close>

section \<open>Signatures\<close>

definition byte_at :: "byte list \<Rightarrow> nat \<Rightarrow> byte option" where
  "byte_at data pos = (if pos < length data then Some (data ! pos) else None)"

definition trimLeadingNullBytes :: "byte list \<Rightarrow> byte list" where
  "trimLeadingNullBytes inData =
     (let numberOfLeadingNullBytes = length (takeWhile (\<lambda>byte. byte = 0) inData)
      in drop numberOfLeadingNullBytes inData)"

definition derTagInteger :: byte where
  "derTagInteger = 2"

record Secp256k1Signature =
  sig_r :: "byte list"
  sig_s :: "byte list"

definition unpadded :: "byte list \<Rightarrow> bool" where
  "unpadded x \<longleftrightarrow> \<not> (length x > 32 \<or> length x = 0 \<or> byte_at x 0 = Some 0)"

definition new_Secp256k1Signature :: "byte list \<Rightarrow> byte list \<Rightarrow> Secp256k1Signature result" where
  "new_Secp256k1Signature r s =
     (if \<not> unpadded r then throw ''Unsigned integer r must be encoded as unpadded big endian.''
      else if \<not> unpadded s then throw ''Unsigned integer s must be encoded as unpadded big endian.''
      else ok \<lparr>sig_r = r, sig_s = s\<rparr>)"

definition Secp256k1Signature_fromFixedLength :: "byte list \<Rightarrow> Secp256k1Signature result" where
  "Secp256k1Signature_fromFixedLength data =
     (if length data \<noteq> 64 then throw ''Got invalid data length. Expected 2x 32 bytes for the pair (r, s)''
      else new_Secp256k1Signature
        (trimLeadingNullBytes (slice 0 32 data)) (trimLeadingNullBytes (slice 32 64 data)))"

text \<open>
  \<open>r(length)\<close> and \<open>s(length)\<close>: padded with zero bytes on the left if a length is given.
\<close>

definition padded :: "string \<Rightarrow> byte list \<Rightarrow> nat option \<Rightarrow> byte list result" where
  "padded error x len = (case len of
     None \<Rightarrow> ok x
   | Some l \<Rightarrow>
       let paddingLength = int l - int (length x) in
       if paddingLength < 0 then throw error
       else ok (replicate (nat paddingLength) 0 @ x))"

definition Secp256k1Signature_r :: "'a Secp256k1Signature_scheme \<Rightarrow> nat option \<Rightarrow> byte list result" where
  "Secp256k1Signature_r sig len = padded ''Length too small to hold parameter r'' (sig_r sig) len"

definition Secp256k1Signature_s :: "'a Secp256k1Signature_scheme \<Rightarrow> nat option \<Rightarrow> byte list result" where
  "Secp256k1Signature_s sig len = padded ''Length too small to hold parameter s'' (sig_s sig) len"

section \<open>DER\<close>

text \<open>
  A tag, a length and the data of an integer at a position. A missing length
  byte is \<open>undefined\<close>: the comparison with 0x80 is false, the slice is empty and
  the position becomes NaN, after which every access is \<open>undefined\<close> (\<open>None\<close>).
\<close>

definition der_integer :: "byte list \<Rightarrow> nat option \<Rightarrow> (byte list \<times> nat option) result" where
  "der_integer data pos = (case pos of
     None \<Rightarrow> throw ''INTEGER tag expected''
   | Some p \<Rightarrow>
       if byte_at data p \<noteq> Some derTagInteger then throw ''INTEGER tag expected''
       else case byte_at data (p + 1) of
         None \<Rightarrow> ok ([], None)
       | Some len \<Rightarrow>
           if len \<ge> 0x80 then throw ''Decoding length values above 127 not supported''
           else ok (slice (p + 2) (p + 2 + unat len) data, Some (p + 2 + unat len)))"

definition fromDer :: "byte list \<Rightarrow> Secp256k1Signature result" where
  "fromDer data =
     (if byte_at data 0 \<noteq> Some 0x30 then throw ''Prefix 0x30 expected''
      else if map_option uint (byte_at data 1) \<noteq> Some (int (length data) - 2)
      then throw ''Data length mismatch detected''
      else
        andThen (der_integer data (Some 2)) (\<lambda>(rData, pos).
        andThen (der_integer data pos) (\<lambda>(sData, pos).
        new_Secp256k1Signature (trimLeadingNullBytes rData) (trimLeadingNullBytes sData))))"

definition der_unsigned :: "byte list \<Rightarrow> byte list" where
  "der_unsigned x = (case byte_at x 0 of
     Some b \<Rightarrow> if b \<ge> 0x80 then 0 # x else x
   | None \<Rightarrow> x)"

definition toDer :: "'a Secp256k1Signature_scheme \<Rightarrow> byte list" where
  "toDer sig =
     (let rEncoded = der_unsigned (sig_r sig);
          sEncoded = der_unsigned (sig_s sig);
          rLength = length rEncoded;
          sLength = length sEncoded;
          data = [derTagInteger, toUint8 (int rLength)] @ rEncoded @
                 [derTagInteger, toUint8 (int sLength)] @ sEncoded
      in [0x30, toUint8 (int (length data))] @ data)"

section \<open>Signatures with recovery parameter\<close>

record ExtendedSecp256k1Signature = Secp256k1Signature +
  recovery :: number

definition new_ExtendedSecp256k1Signature ::
  "byte list \<Rightarrow> byte list \<Rightarrow> number \<Rightarrow> ExtendedSecp256k1Signature result" where
  "new_ExtendedSecp256k1Signature r s rec =
     andThen (new_Secp256k1Signature r s) (\<lambda>sig.
     if \<not> isInteger rec then throw ''The recovery parameter must be an integer.''
     else if num_less rec (int_num 0) \<or> num_less (int_num 4) rec
     then throw ''The recovery parameter must be one of 0, 1, 2, 3.''
     else ok (Secp256k1Signature.extend sig \<lparr>recovery = rec\<rparr>))"

definition Extended_fromFixedLength :: "byte list \<Rightarrow> ExtendedSecp256k1Signature result" where
  "Extended_fromFixedLength data =
     (if length data \<noteq> 65 then throw ''Got invalid data length. Expected 32 + 32 + 1''
      else new_ExtendedSecp256k1Signature
        (trimLeadingNullBytes (slice 0 32 data)) (trimLeadingNullBytes (slice 32 64 data))
        (int_num (uint (data ! 64))))"

definition Extended_toFixedLength :: "ExtendedSecp256k1Signature \<Rightarrow> byte list result" where
  "Extended_toFixedLength sig =
     andThen (Secp256k1Signature_r sig (Some 32)) (\<lambda>r.
     andThen (Secp256k1Signature_s sig (Some 32)) (\<lambda>s.
     ok (r @ s @ [toUint8 (floor_num (recovery sig))])))"

section \<open>Integers in unpadded form\<close>

definition valid_signature :: "'a Secp256k1Signature_scheme \<Rightarrow> bool" where
  "valid_signature sig \<longleftrightarrow> unpadded (sig_r sig) \<and> unpadded (sig_s sig)"

lemma trim_dropWhile: "trimLeadingNullBytes x = dropWhile (\<lambda>b. b = 0) x"
  by (simp add: trimLeadingNullBytes_def dropWhile_eq_drop)

lemma unpadded_iff: "unpadded x \<longleftrightarrow> x \<noteq> [] \<and> hd x \<noteq> 0 \<and> length x \<le> 32"
  by (cases x) (auto simp: unpadded_def byte_at_def)

lemma trim_replicate: "unpadded x \<Longrightarrow> trimLeadingNullBytes (replicate n 0 @ x) = x"
  by (induction n) (cases x; auto simp: trim_dropWhile unpadded_iff)+

lemma trim_unpadded: "unpadded x \<Longrightarrow> trimLeadingNullBytes x = x"
  using trim_replicate [of x 0] by simp

lemma new_signature_iff:
  "new_Secp256k1Signature r s = ok sig \<longleftrightarrow> sig = \<lparr>sig_r = r, sig_s = s\<rparr> \<and> valid_signature sig"
  by (auto simp: new_Secp256k1Signature_def valid_signature_def)

lemma padded_32: "unpadded x \<Longrightarrow> padded e x (Some 32) = ok (replicate (32 - length x) 0 @ x)"
  by (simp add: padded_def unpadded_iff nat_diff_distrib)

text \<open>32 bytes are the padded form of the number without its leading zeros.\<close>

lemma padded_trim:
  assumes "length d = 32"
  shows "replicate (32 - length (trimLeadingNullBytes d)) 0 @ trimLeadingNullBytes d = d"
proof -
  have "takeWhile (\<lambda>b. b = 0) d = replicate (length (takeWhile (\<lambda>b. b = 0) d)) 0"
    by (rule replicate_length_same [symmetric]) (auto dest: set_takeWhileD)
  moreover have "32 - length (trimLeadingNullBytes d) = length (takeWhile (\<lambda>b. b = 0) d)"
    using assms length_takeWhile_le [of "\<lambda>b. b = 0" d]
    by (simp add: trim_dropWhile dropWhile_eq_drop)
  ultimately show ?thesis by (metis trim_dropWhile takeWhile_dropWhile_id)
qed

lemma slice_parts:
  assumes "length a = 32" "length b = 32"
  shows "slice 0 32 (a @ b @ c) = a" "slice 32 64 (a @ b @ c) = b"
  using assms by (simp_all add: slice_def)

lemma der_unsigned_props:
  assumes "unpadded x"
  shows "length (der_unsigned x) \<le> 33" "trimLeadingNullBytes (der_unsigned x) = x"
  using assms trim_replicate [of x 0] trim_replicate [of x 1]
  by (auto simp: der_unsigned_def unpadded_iff split: option.splits)

text \<open>The parser at the position of an encoded integer.\<close>

lemma der_integer_encoded:
  assumes "length x \<le> 33"
  shows "der_integer (pre @ derTagInteger # toUint8 (int (length x)) # x @ post) (Some (length pre))
    = ok (x, Some (length pre + 2 + length x))"
proof -
  have u: "unat (toUint8 (int (length x))) = length x" using assms by (intro unat_toUint8) simp
  then have "\<not> 0x80 \<le> toUint8 (int (length x))"
    using assms by (simp add: word_le_nat_alt)
  with u show ?thesis
    by (simp add: der_integer_def byte_at_def nth_append slice_def)
qed

definition der_with_trailer :: "Secp256k1Signature \<Rightarrow> byte list \<Rightarrow> byte list" where
  "der_with_trailer sig trailer =
     (toDer sig)[1 := toUint8 (int (length (toDer sig) - 2 + length trailer))] @ trailer"

lemma fromDer_trailer:
  assumes v: "valid_signature sig" and t: "length trailer < 186"
  shows "fromDer (der_with_trailer sig trailer) = ok sig"
proof -
  define R S where "R = der_unsigned (sig_r sig)" and "S = der_unsigned (sig_s sig)"
  have R: "length R \<le> 33" "trimLeadingNullBytes R = sig_r sig"
    and S: "length S \<le> 33" "trimLeadingNullBytes S = sig_s sig"
    using v der_unsigned_props by (simp_all add: R_def S_def valid_signature_def)
  define n where "n = 4 + length R + length S + length trailer"
  have u: "uint (toUint8 (int n)) = int n" using R S t by (simp add: n_def)
  define pre where "pre = [0x30, toUint8 (int n), derTagInteger, toUint8 (int (length R))] @ R"
  let ?d = "pre @ derTagInteger # toUint8 (int (length S)) # S @ trailer"
  have d: "der_with_trailer sig trailer = ?d"
    by (simp add: der_with_trailer_def toDer_def Let_def pre_def n_def R_def S_def add.assoc)
  have r: "der_integer ?d (Some 2) = ok (R, Some (length pre))"
    using der_integer_encoded [OF R(1), of "[0x30, toUint8 (int n)]"
        "derTagInteger # toUint8 (int (length S)) # S @ trailer"]
    by (simp add: pre_def numeral_2_eq_2)
  have s: "der_integer ?d (Some (length pre)) = ok (S, Some (length pre + 2 + length S))"
    by (rule der_integer_encoded [OF S(1)])
  have h: "byte_at ?d 0 = Some 0x30" "byte_at ?d 1 = Some (toUint8 (int n))"
    "int (length ?d) - 2 = int n"
    by (simp_all add: byte_at_def pre_def n_def)
  have "new_Secp256k1Signature (sig_r sig) (sig_s sig) = ok sig"
    using v by (cases sig) (simp add: new_signature_iff)
  then show ?thesis
    unfolding d fromDer_def h r using u R S by (simp add: s)
qed

interpretation der: codec "\<lambda>sig. ok (toDer sig)" fromDer "valid_signature :: Secp256k1Signature \<Rightarrow> bool"
proof
  fix sig :: Secp256k1Signature assume v: "valid_signature sig"
  have "length (der_unsigned (sig_r sig)) \<le> 33" "length (der_unsigned (sig_s sig)) \<le> 33"
    using v by (simp_all add: valid_signature_def der_unsigned_props)
  then have "der_with_trailer sig [] = toDer sig"
    by (simp add: der_with_trailer_def toDer_def Let_def)
  then show "\<exists>w. ok (toDer sig) = ok w \<and> fromDer w = ok sig"
    using fromDer_trailer [OF v, of "[]"] by simp
qed

lemma padded_32_iff:
  assumes "unpadded x"
  shows "padded err x (Some 32) = ok d \<longleftrightarrow> length d = 32 \<and> trimLeadingNullBytes d = x"
  using assms padded_trim [of d] trim_replicate [OF assms, of "32 - length x"]
  by (auto simp: padded_32 unpadded_iff)

lemma padded_parts:
  assumes "valid_signature sig"
  shows "Secp256k1Signature_r sig (Some 32) = ok d \<longleftrightarrow> length d = 32 \<and> trimLeadingNullBytes d = sig_r sig"
    and "Secp256k1Signature_s sig (Some 32) = ok e \<longleftrightarrow> length e = 32 \<and> trimLeadingNullBytes e = sig_s sig"
  using assms
  by (simp_all add: Secp256k1Signature_r_def Secp256k1Signature_s_def padded_32_iff valid_signature_def)

section \<open>Properties\<close>

lemma fixed_parts:
  "Secp256k1Signature_fromFixedLength data = ok sig \<longleftrightarrow>
     (\<exists>d e. length d = 32 \<and> length e = 32 \<and> data = d @ e \<and> valid_signature sig \<and>
       trimLeadingNullBytes d = sig_r sig \<and> trimLeadingNullBytes e = sig_s sig)"
  (is "?A \<longleftrightarrow> ?B")
proof
  assume ?A
  then show ?B
    by (intro exI [of _ "take 32 data"] exI [of _ "drop 32 data"])
       (auto simp: Secp256k1Signature_fromFixedLength_def new_signature_iff slice_def split: if_splits)
next
  assume ?B
  then show ?A
    by (cases sig) (auto simp: Secp256k1Signature_fromFixedLength_def new_signature_iff slice_def)
qed

text \<open>
  The fixed length form is exact: the parser returns a signature for a byte
  string if and only if the signature is well-formed (both integers unpadded, not
  zero, at most 32 bytes) and the string is \<open>r(32)\<close> followed by \<open>s(32)\<close>.
\<close>

lemma fixed_length_exact:
  "Secp256k1Signature_fromFixedLength data = ok sig \<longleftrightarrow>
     valid_signature sig \<and> (\<exists>r s. Secp256k1Signature_r sig (Some 32) = ok r \<and>
       Secp256k1Signature_s sig (Some 32) = ok s \<and> data = r @ s)"
  unfolding fixed_parts using padded_parts [of sig] by blast

lemma extended_parts:
  "Extended_fromFixedLength data = ok sig \<longleftrightarrow>
     (\<exists>d e b. length d = 32 \<and> length e = 32 \<and> data = d @ e @ [b] \<and> valid_signature sig \<and>
       trimLeadingNullBytes d = sig_r sig \<and> trimLeadingNullBytes e = sig_s sig \<and>
       recovery sig = int_num (uint b) \<and> uint b \<le> 4)"
  (is "?A \<longleftrightarrow> ?B")
proof
  assume a: ?A
  then have l: "length data = 65" by (auto simp: Extended_fromFixedLength_def split: if_splits)
  have "take 32 data @ slice 32 64 data = take 64 data"
    using append_take_drop_id [of 32 "take 64 data"] by (simp add: slice_def min_def)
  moreover have "take 64 data @ [data ! 64] = data"
    using take_Suc_conv_app_nth [of 64 data] l by simp
  ultimately have d: "data = take 32 data @ slice 32 64 data @ [data ! 64]" by (metis append_assoc)
  show ?B
    by (rule exI [of _ "take 32 data"], rule exI [of _ "slice 32 64 data"], rule exI [of _ "data ! 64"])
       (use a l d in \<open>auto simp: Extended_fromFixedLength_def new_ExtendedSecp256k1Signature_def andThen_eq_Inr
         new_signature_iff valid_signature_def slice_def Secp256k1Signature.defs split: if_splits\<close>)
next
  assume ?B
  then show ?A
    by (cases sig) (auto simp: Extended_fromFixedLength_def new_ExtendedSecp256k1Signature_def slice_def
        new_Secp256k1Signature_def valid_signature_def nth_append Secp256k1Signature.defs)
qed

text \<open>
  The extended fixed length form is exact too: reading returns a signature if
  and only if the signature is well-formed, its recovery parameter is an integer
  from 0 to 4 and writing the signature gives these bytes.
\<close>

lemma extended_fixed_length_exact:
  "Extended_fromFixedLength data = ok sig \<longleftrightarrow>
     valid_signature sig \<and> (\<exists>i. recovery sig = int_num i \<and> 0 \<le> i \<and> i \<le> 4) \<and>
     Extended_toFixedLength sig = ok data"
proof -
  have byte: "(\<exists>b. data = d @ e @ [b] \<and> rec = int_num (uint b) \<and> uint b \<le> 4) \<longleftrightarrow>
      (\<exists>i. rec = int_num i \<and> 0 \<le> i \<and> i \<le> 4) \<and> data = d @ e @ [toUint8 (floor_num rec)]" for d e rec
  proof
    assume "(\<exists>i. rec = int_num i \<and> 0 \<le> i \<and> i \<le> 4) \<and> data = d @ e @ [toUint8 (floor_num rec)]"
    then obtain i where "rec = int_num i" "0 \<le> i" "i \<le> 4" "data = d @ e @ [toUint8 i]" by auto
    then show "\<exists>b. data = d @ e @ [b] \<and> rec = int_num (uint b) \<and> uint b \<le> 4"
      by (intro exI [of _ "toUint8 i"]) simp
  qed (auto simp: uint_nonnegative)
  have "Extended_fromFixedLength data = ok sig \<longleftrightarrow> valid_signature sig \<and>
      (\<exists>d e. length d = 32 \<and> trimLeadingNullBytes d = sig_r sig \<and> length e = 32 \<and>
        trimLeadingNullBytes e = sig_s sig \<and>
        (\<exists>b. data = d @ e @ [b] \<and> recovery sig = int_num (uint b) \<and> uint b \<le> 4))"
    unfolding extended_parts by auto
  also have "\<dots> \<longleftrightarrow> valid_signature sig \<and> (\<exists>i. recovery sig = int_num i \<and> 0 \<le> i \<and> i \<le> 4) \<and>
      Extended_toFixedLength sig = ok data"
    using padded_parts [of sig] unfolding byte by (auto simp: Extended_toFixedLength_def andThen_eq_Inr)
  finally show ?thesis .
qed

lemma der_unsigned_positive:
  assumes "unpadded x"
  shows "der_unsigned x = x \<or> der_unsigned x = 0 # x \<and> hd x \<ge> 0x80" "hd (der_unsigned x) < 0x80"
    "length (der_unsigned x) \<le> 33"
  using assms by (cases x; auto simp: unpadded_iff der_unsigned_def byte_at_def not_le split: if_splits)+

text \<open>
  C16. The DER form of a well-formed signature is a sequence of two integers that
  a DER parser reads as \<open>r\<close> and \<open>s\<close>: both lengths are right, neither integer is
  negative (its first byte is below 0x80) and neither is padded by more than the
  one zero byte this needs. Reading it gives the signature back unchanged.
\<close>

theorem der_reads_back:
  assumes "valid_signature sig"
  shows "\<exists>R S. toDer sig = [0x30, toUint8 (int (length R + length S + 4)), 2, toUint8 (int (length R))] @ R
      @ [2, toUint8 (int (length S))] @ S \<and>
    (R = sig_r sig \<or> R = 0 # sig_r sig \<and> hd (sig_r sig) \<ge> 0x80) \<and> hd R < 0x80 \<and> length R \<le> 33 \<and>
    (S = sig_s sig \<or> S = 0 # sig_s sig \<and> hd (sig_s sig) \<ge> 0x80) \<and> hd S < 0x80 \<and> length S \<le> 33 \<and>
    fromDer (toDer sig) = ok sig"
proof (intro exI conjI)
  show "toDer sig = [0x30, toUint8 (int (length (der_unsigned (sig_r sig)) + length (der_unsigned (sig_s sig)) + 4)), 2,
      toUint8 (int (length (der_unsigned (sig_r sig))))] @ der_unsigned (sig_r sig)
      @ [2, toUint8 (int (length (der_unsigned (sig_s sig))))] @ der_unsigned (sig_s sig)"
    by (simp add: toDer_def Let_def derTagInteger_def algebra_simps)
  show "fromDer (toDer sig) = ok sig" using der.dec_enc [OF assms] by simp
qed (use assms in \<open>auto simp: valid_signature_def der_unsigned_positive\<close>)

lemma der_reads_back_witness:
  "\<exists>R S. toDer \<lparr>sig_r = [0x80, 1], sig_s = [5]\<rparr> = [0x30, toUint8 (int (length R + length S + 4)), 2, toUint8 (int (length R))]
      @ R @ [2, toUint8 (int (length S))] @ S \<and> hd R < 0x80 \<and> hd S < 0x80 \<and>
    fromDer (toDer \<lparr>sig_r = [0x80, 1], sig_s = [5]\<rparr>) = ok \<lparr>sig_r = [0x80, 1], sig_s = [5]\<rparr>"
proof -
  have "valid_signature \<lparr>sig_r = [0x80, 1], sig_s = [5]\<rparr>" by (simp add: valid_signature_def unpadded_iff)
  from der_reads_back [OF this] show ?thesis by blast
qed

text \<open>
  The DER parser does not check where the second integer ends: a signature
  followed by up to 185 arbitrary bytes, with the outer length adapted, is read
  as the same signature. DER encodings are therefore not unique.
\<close>

lemma der_trailing_bytes_accepted:
  assumes "valid_signature sig" "length trailer < 186" "trailer \<noteq> []"
  shows "\<exists>data. data \<noteq> toDer sig \<and> suffix trailer data \<and> fromDer data = ok sig"
proof (intro exI conjI)
  have "length (der_with_trailer sig trailer) = length (toDer sig) + length trailer"
    by (simp add: der_with_trailer_def)
  with assms(3) show "der_with_trailer sig trailer \<noteq> toDer sig" by auto
  show "suffix trailer (der_with_trailer sig trailer)"
    by (simp add: der_with_trailer_def suffix_def)
qed (rule fromDer_trailer [OF assms(1,2)])

end
