(* ===== verification/Iov_Stream.thy ===== *)
theory Iov_Stream
  imports Js_Runtime
begin

text \<open>
  \<open>packages/iov-stream/src\<close>: the stream helpers. Streams and their operators
  \<open>subscribe\<close>, \<open>filter\<close>, \<open>debug\<close> and \<open>take\<close> are those of xstream: a source calls
  \<open>next\<close> any number of times and then at most once \<open>complete\<close> or \<open>error\<close>. A
  component is a function from its state and one such call to the new state and
  the calls it makes on its own listener; a run is the sequence of calls in the
  order in which they happen. JavaScript's \<open>undefined\<close> is \<open>None\<close>.
\<close>

datatype 'a signal = Next 'a | Complete | Failed string

fun is_next :: "'a signal \<Rightarrow> bool" where
  "is_next (Next _) = True"
| "is_next _ = False"

section \<open>concat\<close>

text \<open>
  The variables that the closure of \<open>concat\<close> keeps: whether there are
  subscriptions, one queue per stream, the set of completed streams and the
  index of the active stream; and the calls made on the listener so far.
\<close>

record 'a concat_state =
  subscribed :: bool
  queues :: "'a option list list"
  completedStreams :: "nat list"
  activeStreamIndex :: nat
  emitted :: "'a option signal list"

definition concat_reset :: "'a concat_state \<Rightarrow> 'a concat_state" where
  "concat_reset st = st\<lparr>subscribed := False, queues := [], completedStreams := [], activeStreamIndex := 0\<rparr>"

text \<open>
  \<open>emitAllQueuesEvents\<close>: shifts elements until the queue is empty or an element
  is \<open>undefined\<close> (which has been shifted then).
\<close>

fun emit_queue :: "'a option list \<Rightarrow> 'a option signal list \<Rightarrow> 'a option list \<times> 'a option signal list" where
  "emit_queue [] out = ([], out)"
| "emit_queue (None # q) out = (q, out)"
| "emit_queue (Some x # q) out = emit_queue q (out @ [Next (Some x)])"

definition emitAllQueuesEvents :: "nat \<Rightarrow> 'a concat_state \<Rightarrow> 'a concat_state" where
  "emitAllQueuesEvents i st =
     (let (q, out) = emit_queue (queues st ! i) (emitted st)
      in st\<lparr>queues := (queues st)[i := q], emitted := out\<rparr>)"

definition concat_isDone :: "nat \<Rightarrow> 'a concat_state \<Rightarrow> bool" where
  "concat_isDone n st \<longleftrightarrow> activeStreamIndex st \<ge> n"

text \<open>\<open>start\<close> for \<open>n\<close> streams.\<close>

definition concat_start :: "nat \<Rightarrow> 'a concat_state" where
  "concat_start n =
     (let st = \<lparr>subscribed = False, queues = replicate n [], completedStreams = [], activeStreamIndex = 0,
                emitted = []\<rparr>
      in if concat_isDone n st then st\<lparr>emitted := [Complete]\<rparr> else st\<lparr>subscribed := True\<rparr>)"

text \<open>\<open>while (completedStreams.has(activeStreamIndex))\<close>; only indices below \<open>n\<close> are ever added.\<close>

function advance :: "nat \<Rightarrow> 'a concat_state \<Rightarrow> 'a concat_state" where
  "advance n st =
     (if activeStreamIndex st \<in> set (completedStreams st) \<and> activeStreamIndex st < n
      then let st' = emitAllQueuesEvents (activeStreamIndex st) st
           in advance n (st'\<lparr>activeStreamIndex := activeStreamIndex st' + 1\<rparr>)
      else st)"
  by pat_completeness auto
termination
  by (relation "measure (\<lambda>(n, st). n - activeStreamIndex st)")
     (auto simp: emitAllQueuesEvents_def split: prod.splits)

declare advance.simps [simp del]

text \<open>A call of source \<open>index\<close>; without a subscription it does not arrive.\<close>

fun concat_step :: "nat \<Rightarrow> 'a concat_state \<Rightarrow> nat \<times> 'a option signal \<Rightarrow> 'a concat_state" where
  "concat_step n st (index, Next v) =
     (if \<not> subscribed st then st
      else if index = activeStreamIndex st then st\<lparr>emitted := emitted st @ [Next v]\<rparr>
      else st\<lparr>queues := (queues st)[index := queues st ! index @ [v]]\<rparr>)"
| "concat_step n st (index, Complete) =
     (if \<not> subscribed st then st
      else
        let st1 = advance n (st\<lparr>completedStreams := index # completedStreams st\<rparr>)
        in if concat_isDone n st1 then st1\<lparr>emitted := emitted st1 @ [Complete]\<rparr>
           else emitAllQueuesEvents (activeStreamIndex st1) st1)"
| "concat_step n st (index, Failed e) =
     (if \<not> subscribed st then st
      else concat_reset (st\<lparr>emitted := emitted st @ [Failed e]\<rparr>))"

definition concat_run :: "nat \<Rightarrow> (nat \<times> 'a option signal) list \<Rightarrow> 'a concat_state" where
  "concat_run n tr = foldl (concat_step n) (concat_start n) tr"

section \<open>What concat promises\<close>

text \<open>The values a source has emitted in a trace, and whether it has completed.\<close>

definition values_of :: "nat \<Rightarrow> (nat \<times> 'a option signal) list \<Rightarrow> 'a option list" where
  "values_of i tr = [v. (j, Next v) \<leftarrow> tr, j = i]"

definition completed :: "(nat \<times> 'a option signal) list \<Rightarrow> nat \<Rightarrow> bool" where
  "completed tr i \<longleftrightarrow> (i, Complete) \<in> set tr"

text \<open>
  A trace of \<open>n\<close> sources without errors: indices in range, no call after a
  source has completed, no value \<open>undefined\<close>.
\<close>

fun source_trace :: "nat \<Rightarrow> (nat \<times> 'a option signal) list \<Rightarrow> bool" where
  "source_trace n [] = True"
| "source_trace n ((i, s) # tr) \<longleftrightarrow> i < n \<and> (case s of
       Next v \<Rightarrow> v \<noteq> None
     | Complete \<Rightarrow> list_all (\<lambda>(j, _). j \<noteq> i) tr
     | Failed _ \<Rightarrow> False) \<and> source_trace n tr"

text \<open>The first source that has not completed.\<close>

definition active_source :: "nat \<Rightarrow> (nat \<times> 'a option signal) list \<Rightarrow> nat" where
  "active_source n tr = length (takeWhile (completed tr) [0..<n])"

text \<open>
  The specification: the values of the completed sources in their order, then
  those of the active one, then completion if there is none left.
\<close>

definition concat_spec :: "nat \<Rightarrow> (nat \<times> 'a option signal) list \<Rightarrow> 'a option signal list" where
  "concat_spec n tr =
     (let a = active_source n tr in
      map Next (concat (map (\<lambda>i. values_of i tr) [0..<a])) @
      (if a < n then map Next (values_of a tr) else [Complete]))"

lemma emit_queue_Some: "list_all (\<lambda>v. v \<noteq> None) q \<Longrightarrow> emit_queue q out = ([], out @ map Next q)"
  by (induction q out rule: emit_queue.induct) auto

lemma emitAll_Some:
  "list_all (\<lambda>v. v \<noteq> None) (queues st ! i) \<Longrightarrow>
   emitAllQueuesEvents i st = st\<lparr>queues := (queues st)[i := []], emitted := emitted st @ map Next (queues st ! i)\<rparr>"
  by (simp add: emitAllQueuesEvents_def emit_queue_Some)

text \<open>The loop of \<open>complete\<close> from index \<open>k\<close> to the first index that has not completed.\<close>

definition cleared :: "nat \<Rightarrow> nat \<Rightarrow> 'b list list \<Rightarrow> 'b list list" where
  "cleared k a qs = map (\<lambda>j. if k \<le> j \<and> j < a then [] else qs ! j) [0..<length qs]"

lemma length_cleared [simp]: "length (cleared k a qs) = length qs"
  by (simp add: cleared_def)

lemma nth_cleared [simp]: "j < length qs \<Longrightarrow> cleared k a qs ! j = (if k \<le> j \<and> j < a then [] else qs ! j)"
  by (simp add: cleared_def)

lemma cleared_same: "cleared a a qs = qs"
  by (rule nth_equalityI) auto

lemma cleared_update: "k < a \<Longrightarrow> a \<le> length qs \<Longrightarrow> cleared (Suc k) a (qs[k := []]) = cleared k a qs"
  by (rule nth_equalityI) (auto simp: nth_list_update)

lemma advance_spec:
  assumes "activeStreamIndex st \<le> a" "a \<le> length (queues st)" "n = length (queues st)"
    and "\<And>j. activeStreamIndex st \<le> j \<Longrightarrow> j < a \<Longrightarrow> j \<in> set (completedStreams st)"
    and "a < n \<Longrightarrow> a \<notin> set (completedStreams st)"
    and "\<And>j. j < n \<Longrightarrow> list_all (\<lambda>v. v \<noteq> None) (queues st ! j)"
  shows "advance n st = st\<lparr>activeStreamIndex := a, queues := cleared (activeStreamIndex st) a (queues st),
    emitted := emitted st @ map Next (concat (map ((!) (queues st)) [activeStreamIndex st..<a]))\<rparr>"
  using assms
proof (induction "a - activeStreamIndex st" arbitrary: st)
  case 0
  have a: "a = activeStreamIndex st"
    and ne: "\<not> (activeStreamIndex st \<in> set (completedStreams st) \<and> activeStreamIndex st < n)"
    using 0 by force+
  have "advance n st = st" by (subst advance.simps) (simp only: ne if_False)
  with a show ?case by (simp add: cleared_same)
next
  case (Suc d)
  let ?k = "activeStreamIndex st"
  have k: "?k < a" using Suc.hyps(2) by simp
  define st' where "st' = st\<lparr>queues := (queues st)[?k := []], emitted := emitted st @ map Next (queues st ! ?k),
    activeStreamIndex := Suc ?k\<rparr>"
  have step: "advance n st = advance n st'"
    using k Suc.prems by (subst advance.simps) (simp add: emitAll_Some st'_def)
  have rest: "map ((!) ((queues st)[?k := []])) [Suc ?k..<a] = map ((!) (queues st)) [Suc ?k..<a]"
    by (rule map_cong) auto
  have "advance n st' = st'\<lparr>activeStreamIndex := a, queues := cleared (Suc ?k) a (queues st'),
      emitted := emitted st' @ map Next (concat (map ((!) (queues st')) [Suc ?k..<a]))\<rparr>"
    using Suc.hyps Suc.prems k
    by (subst Suc.hyps(1)) (auto simp: st'_def nth_list_update)
  then show ?case
    using k Suc.prems(2) rest by (simp add: step st'_def cleared_update upt_conv_Cons [OF k])
qed

section \<open>Traces\<close>

lemma values_of_snoc [simp]:
  "values_of i (tr @ [(j, s)]) = values_of i tr @ (case s of Next v \<Rightarrow> if j = i then [v] else [] | _ \<Rightarrow> [])"
  by (simp add: values_of_def split: signal.splits)

lemma completed_snoc [simp]: "completed (tr @ [(j, s)]) i \<longleftrightarrow> completed tr i \<or> (s = Complete \<and> j = i)"
  by (auto simp: completed_def)

lemma source_trace_snoc:
  "source_trace n (tr @ [(i, s)]) \<longleftrightarrow> source_trace n tr \<and> i < n \<and> \<not> completed tr i \<and>
     (case s of Next v \<Rightarrow> v \<noteq> None | Complete \<Rightarrow> True | Failed _ \<Rightarrow> False)"
  by (induction n tr rule: source_trace.induct)
     (auto simp: completed_def split: signal.splits)

lemma source_values: "source_trace n tr \<Longrightarrow> list_all (\<lambda>v. v \<noteq> None) (values_of i tr)"
  by (induction tr rule: rev_induct)
     (auto simp: source_trace_snoc split_paired_all values_of_def [of _ "[]"] split: signal.splits if_splits)

lemma takeWhile_upt_length:
  assumes "a \<le> n" "\<And>j. j < a \<Longrightarrow> P j" "a < n \<Longrightarrow> \<not> P a"
  shows "length (takeWhile P [0..<n]) = a"
proof -
  have "[0..<n] = [0..<a] @ [a..<n]" using assms(1) upt_add_eq_append [of 0 a "n - a"] by simp
  moreover have "takeWhile P ([0..<a] @ [a..<n]) = [0..<a] @ takeWhile P [a..<n]"
    using assms(2) by (intro takeWhile_append2) simp
  moreover have "takeWhile P [a..<n] = []"
    using assms by (cases "a < n") (simp_all add: upt_conv_Cons)
  ultimately show ?thesis by simp
qed

lemma active_source_props:
  shows "active_source n tr \<le> n" and "j < active_source n tr \<Longrightarrow> completed tr j"
    and "active_source n tr < n \<Longrightarrow> \<not> completed tr (active_source n tr)"
proof -
  show "active_source n tr \<le> n"
    unfolding active_source_def using length_takeWhile_le [of "completed tr" "[0..<n]"] by simp
  show "completed tr j" if j: "j < active_source n tr"
  proof -
    have "takeWhile (completed tr) [0..<n] ! j \<in> set (takeWhile (completed tr) [0..<n])"
      using j by (intro nth_mem) (simp add: active_source_def)
    moreover have "takeWhile (completed tr) [0..<n] ! j = j"
      using j length_takeWhile_le [of "completed tr" "[0..<n]"]
      by (simp add: takeWhile_nth active_source_def)
    ultimately show ?thesis by (metis set_takeWhileD)
  qed
  show "\<not> completed tr (active_source n tr)" if "active_source n tr < n"
    using that nth_length_takeWhile [of "completed tr" "[0..<n]"] by (simp add: active_source_def)
qed

section \<open>The invariant of concat\<close>

definition concat_inv :: "nat \<Rightarrow> (nat \<times> 'a option signal) list \<Rightarrow> 'a concat_state \<Rightarrow> bool" where
  "concat_inv n tr st \<longleftrightarrow> subscribed st = (n > 0) \<and> length (queues st) = n \<and>
     set (completedStreams st) = {i. completed tr i} \<and> activeStreamIndex st = active_source n tr \<and>
     (\<forall>i < n. queues st ! i = (if i > active_source n tr then values_of i tr else [])) \<and>
     emitted st = concat_spec n tr"

lemma concat_inv_start: "concat_inv n [] (concat_start n)"
proof -
  have "active_source n ([] :: (nat \<times> 'a option signal) list) = 0"
    unfolding active_source_def by (rule takeWhile_upt_length) (simp_all add: completed_def)
  moreover have "values_of i ([] :: (nat \<times> 'a option signal) list) = []" for i by (simp add: values_of_def)
  ultimately show ?thesis
    by (auto simp: concat_inv_def concat_start_def concat_isDone_def concat_spec_def completed_def Let_def)
qed

lemma active_source_cong: "completed tr = completed tr' \<Longrightarrow> active_source n tr = active_source n tr'"
  by (simp add: active_source_def)

lemma concat_inv_next:
  assumes "concat_inv n tr st" "i < n" "\<not> completed tr i"
  shows "concat_inv n (tr @ [(i, Next v)]) (concat_step n st (i, Next v))"
proof -
  let ?tr = "tr @ [(i, Next v)]"
  let ?a = "active_source n tr"
  have c: "completed ?tr = completed tr" by (rule ext) simp
  then have a: "active_source n ?tr = ?a" by (rule active_source_cong)
  have i: "?a \<le> i" using assms(3) active_source_props(2) by (auto simp: not_less [symmetric])
  then have m: "map (\<lambda>j. values_of j ?tr) [0..<?a] = map (\<lambda>j. values_of j tr) [0..<?a]" by simp
  have spec: "concat_spec n ?tr = concat_spec n tr @ (if i = ?a then [Next v] else [])"
    unfolding concat_spec_def a Let_def m using i assms(2) by auto
  show ?thesis
    using assms i unfolding concat_inv_def a c spec by (auto simp: nth_list_update)
qed

text \<open>What the loop emits when the active source moves from \<open>a\<close> to \<open>b\<close>.\<close>

lemma concat_catch_up:
  assumes "a \<le> b" "q a = []" "\<And>j. a < j \<Longrightarrow> j < b \<Longrightarrow> q j = v j"
  shows "concat (map v [0..<b]) @ (if a < b then [] else v b) = (concat (map v [0..<a]) @ v a) @ concat (map q [a..<b])"
proof (cases "a < b")
  case True
  then have "[0..<b] = [0..<a] @ a # [Suc a..<b]" "[a..<b] = a # [Suc a..<b]"
    using upt_add_eq_append [of 0 a "b - a"] by (simp_all add: upt_conv_Cons)
  moreover have "concat (map q [Suc a..<b]) = concat (map v [Suc a..<b])"
    using assms(3) by (intro arg_cong [of _ _ concat] map_cong) auto
  ultimately show ?thesis using True assms(2) by simp
qed (use assms(1) in simp)

lemma concat_inv_complete:
  assumes inv: "concat_inv n tr st" and i: "i < n" "\<not> completed tr i" and t: "source_trace n tr"
  shows "concat_inv n (tr @ [(i, Complete)]) (concat_step n st (i, Complete))"
proof -
  define tr' where "tr' = tr @ [(i, Complete)]"
  define a b where "a = active_source n tr" and "b = active_source n tr'"
  define v where "v = (\<lambda>j. values_of j tr)"
  have v': "(\<lambda>j. values_of j tr') = v" by (simp add: v_def tr'_def)
  have c': "completed tr' j \<longleftrightarrow> completed tr j \<or> i = j" for j by (simp add: tr'_def)
  note pa = active_source_props [where n = n and tr = tr, folded a_def]
    and pb = active_source_props [where n = n and tr = tr', folded b_def]
  have st: "subscribed st" "length (queues st) = n" "set (completedStreams st) = {i. completed tr i}"
    "activeStreamIndex st = a" "\<And>j. j < n \<Longrightarrow> queues st ! j = (if a < j then v j else [])"
    using inv i(1) by (simp_all add: concat_inv_def a_def v_def)
  have an: "a < n" using i pa(1) pa(2) [of i] by linarith
  have em: "emitted st = map Next (concat (map v [0..<a]) @ v a)"
    using inv an by (simp add: concat_inv_def concat_spec_def a_def v_def Let_def)
  have ab: "a \<le> b"
  proof (rule ccontr)
    assume "\<not> a \<le> b"
    then have "completed tr b" "b < n" using pa(2) [of b] an by simp_all
    with pb(3) c' show False by simp
  qed
  have good: "list_all (\<lambda>x. x \<noteq> None) (queues st ! j)" if "j < n" for j
    using st(5) [OF that] source_values [OF t, of j] by (simp add: v_def)
  define st0 where "st0 = st\<lparr>completedStreams := i # completedStreams st\<rparr>"
  define out where "out = emitted st @ map Next (concat (map ((!) (queues st)) [a..<b]))"
  have adv: "advance n st0 = st0\<lparr>activeStreamIndex := b, queues := cleared a b (queues st), emitted := out\<rparr>"
  proof -
    have s0: "activeStreamIndex st0 = a" "queues st0 = queues st" "emitted st0 = emitted st"
      by (simp_all add: st0_def st(4))
    have "j \<in> set (completedStreams st0)" if "j < b" for j
      using pb(2) [OF that] c' [of j] st(3) by (auto simp: st0_def)
    moreover have "b \<notin> set (completedStreams st0)" if "b < n"
      using pb(3) [OF that] c' [of b] st(3) by (auto simp: st0_def)
    ultimately show ?thesis
      unfolding out_def by (intro advance_spec [of st0 b n, unfolded s0]) (use ab pb(1) st(2) good in simp_all)
  qed
  have out: "out = map Next (concat (map v [0..<b]) @ (if a < b then [] else v b))"
  proof -
    have "concat (map v [0..<b]) @ (if a < b then [] else v b)
        = (concat (map v [0..<a]) @ v a) @ concat (map ((!) (queues st)) [a..<b])"
      by (rule concat_catch_up [OF ab]) (use st(5) an pb(1) in simp_all)
    then show ?thesis by (simp only: out_def em map_append append_assoc)
  qed
  have cs: "set (completedStreams st0) = {i. completed tr' i}" using st(3) c' by (auto simp: st0_def)
  have qs: "(cleared a b (queues st))[b := []] ! j = (if b < j then v j else [])" if "j < n" for j
    using st(2) st(5) [OF that] that ab by (cases "j = b") auto
  have step: "concat_step n st (i, Complete) = (let st1 = advance n st0 in
      if concat_isDone n st1 then st1\<lparr>emitted := emitted st1 @ [Complete]\<rparr>
      else emitAllQueuesEvents (activeStreamIndex st1) st1)"
    using st(1) by (simp add: st0_def)
  show ?thesis
  proof (cases "b < n")
    case True
    have q: "cleared a b (queues st) ! b = (if a < b then v b else [])"
      using st(2) st(5) [OF True] True by simp
    have "list_all (\<lambda>x. x \<noteq> None) (v b)" using source_values [OF t] by (simp add: v_def)
    then have "concat_step n st (i, Complete) = st0\<lparr>activeStreamIndex := b,
        queues := (cleared a b (queues st))[b := []], emitted := out @ map Next (if a < b then v b else [])\<rparr>"
      unfolding step adv Let_def using True q by (simp add: concat_isDone_def emitAll_Some)
    moreover have "out @ map Next (if a < b then v b else []) = concat_spec n tr'"
      unfolding concat_spec_def Let_def v' b_def [symmetric] out using True fun_cong [OF v', of b] by simp
    ultimately show ?thesis
      using st cs qs an fun_cong [OF v'] unfolding concat_inv_def tr'_def [symmetric] b_def [symmetric]
      by (simp add: st0_def)
  next
    case False
    then have bn: "b = n" using pb(1) by simp
    have "concat_step n st (i, Complete) = st0\<lparr>activeStreamIndex := n,
        queues := cleared a n (queues st), emitted := out @ [Complete]\<rparr>"
      unfolding step adv Let_def using bn by (simp add: concat_isDone_def)
    moreover have "out @ [Complete] = concat_spec n tr'"
      unfolding concat_spec_def Let_def v' b_def [symmetric] out bn using an by simp
    moreover have "cleared a n (queues st) ! j = []" if "j < n" for j
      using st(2) st(5) [OF that] that by simp
    ultimately show ?thesis
      using st cs an bn unfolding concat_inv_def tr'_def [symmetric] b_def [symmetric]
      by (simp add: st0_def)
  qed
qed

lemma concat_run_inv: "source_trace n tr \<Longrightarrow> concat_inv n tr (concat_run n tr)"
proof (induction tr rule: rev_induct)
  case Nil
  then show ?case by (simp add: concat_run_def concat_inv_start)
next
  case (snoc c tr)
  obtain i s where c: "c = (i, s)" by force
  then have t: "source_trace n tr" "i < n" "\<not> completed tr i" "\<And>e. s \<noteq> Failed e"
    using snoc.prems by (auto simp: source_trace_snoc split: signal.splits)
  then have "concat_inv n (tr @ [(i, s)]) (concat_step n (concat_run n tr) (i, s))"
    using snoc.IH concat_inv_next concat_inv_complete by (cases s) blast+
  then show ?case by (simp add: concat_run_def c)
qed

section \<open>dropDuplicates\<close>

text \<open>The set \<open>emittedKeys\<close> and the values passed on, for one value of the input stream.\<close>

definition dropDuplicates_next :: "('a \<Rightarrow> string) \<Rightarrow> string list \<times> 'a list \<Rightarrow> 'a \<Rightarrow> string list \<times> 'a list" where
  "dropDuplicates_next valueToKey st value =
     (let (emittedKeys, out) = st in
      if valueToKey value \<notin> set emittedKeys then (valueToKey value # emittedKeys, out @ [value])
      else (emittedKeys, out))"

definition dropDuplicates :: "('a \<Rightarrow> string) \<Rightarrow> 'a list \<Rightarrow> 'a list" where
  "dropDuplicates valueToKey instream = snd (foldl (dropDuplicates_next valueToKey) ([], []) instream)"

lemma dropDuplicates_keys:
  "set (fst (foldl (dropDuplicates_next k) ([], []) vs)) = k ` set vs"
  by (induction vs rule: rev_induct)
     (auto simp: dropDuplicates_next_def Let_def split: prod.splits)

lemma dropDuplicates_snoc:
  "dropDuplicates k (vs @ [v]) = dropDuplicates k vs @ (if k v \<in> k ` set vs then [] else [v])"
  using dropDuplicates_keys [of k vs]
  by (auto simp: dropDuplicates_def dropDuplicates_next_def Let_def split: prod.splits)

lemma dropDuplicates_Nil [simp]: "dropDuplicates k [] = []"
  by (simp add: dropDuplicates_def)

lemma dropDuplicates_key_set: "k ` set (dropDuplicates k vs) = k ` set vs"
  by (induction vs rule: rev_induct) (auto simp: dropDuplicates_snoc)

section \<open>Promises from streams\<close>

datatype 'a promise = Pending | Resolved 'a | Rejected string

text \<open>A promise is settled once; later calls of \<open>resolve\<close> and \<open>reject\<close> do nothing.\<close>

fun settle :: "'a promise \<Rightarrow> 'a promise \<Rightarrow> 'a promise" where
  "settle Pending q = q"
| "settle p _ = p"

record 'a collector =
  col_open :: bool
  col_taken :: nat
  col_events :: "'a list"
  col_promise :: "'a list promise"

definition tooShort :: string where
  "tooShort = ''Stream completed before all events could be collected.''"

definition collector_start :: "nat \<Rightarrow> 'a collector" where
  "collector_start count =
     (if count = 0 then \<lparr>col_open = False, col_taken = 0, col_events = [], col_promise = Resolved []\<rparr>
      else \<lparr>col_open = True, col_taken = 0, col_events = [], col_promise = Pending\<rparr>)"

text \<open>
  \<open>take(count)\<close> passes on the first \<open>count\<close> values and completes with the last
  of them.
\<close>

fun collector_step :: "nat \<Rightarrow> 'a collector \<Rightarrow> 'a signal \<Rightarrow> 'a collector" where
  "collector_step count st (Next event) =
     (if \<not> col_open st then st
      else
        let taken = col_taken st + 1;
            events = col_events st @ [event];
            p1 = (if length events = count then settle (col_promise st) (Resolved events) else col_promise st);
            p2 = (if taken = count then settle p1 (Rejected tooShort) else p1)
        in \<lparr>col_open = (taken \<noteq> count), col_taken = taken, col_events = events, col_promise = p2\<rparr>)"
| "collector_step count st Complete =
     (if \<not> col_open st then st
      else st\<lparr>col_open := False, col_promise := settle (col_promise st) (Rejected tooShort)\<rparr>)"
| "collector_step count st (Failed e) =
     (if \<not> col_open st then st
      else st\<lparr>col_open := False, col_promise := settle (col_promise st) (Rejected e)\<rparr>)"

definition toListPromise :: "'a signal list \<Rightarrow> nat \<Rightarrow> 'a list promise" where
  "toListPromise stream count = col_promise (foldl (collector_step count) (collector_start count) stream)"

definition firstEvent :: "'a signal list \<Rightarrow> 'a promise" where
  "firstEvent stream = (case toListPromise stream 1 of
     Resolved events \<Rightarrow> Resolved (events ! 0) | Rejected e \<Rightarrow> Rejected e | Pending \<Rightarrow> Pending)"

text \<open>The calls a stream makes for a resolved list, a rejected one, or none yet.\<close>

fun fromListPromise :: "'a list promise \<Rightarrow> 'a signal list" where
  "fromListPromise Pending = []"
| "fromListPromise (Resolved iterable) = map Next iterable @ [Complete]"
| "fromListPromise (Rejected e) = [Failed e]"

lemma collector_closed: "\<not> col_open st \<Longrightarrow> foldl (collector_step c) st tr = st"
proof (induction tr arbitrary: st)
  case (Cons s tr)
  then show ?case by (cases s) auto
qed simp

lemma collector_values:
  assumes "length vs < count"
  shows "foldl (collector_step count) (collector_start count) (map Next vs)
    = \<lparr>col_open = True, col_taken = length vs, col_events = vs, col_promise = Pending\<rparr>"
  using assms
  by (induction vs rule: rev_induct) (auto simp: collector_start_def Let_def)

lemma collector_full:
  assumes "count \<le> length vs"
  shows "col_promise (foldl (collector_step count) (collector_start count :: 'a collector) (map Next vs @ rest)) = Resolved (take count vs)"
proof (cases count)
  case 0
  then show ?thesis using collector_closed [of "collector_start 0 :: 'a collector"] by (simp add: collector_start_def)
next
  case (Suc k)
  define st where "st = foldl (collector_step count) (collector_start count) (map Next (take k vs))"
  have "st = \<lparr>col_open = True, col_taken = k, col_events = take k vs, col_promise = Pending\<rparr>"
    using collector_values [of "take k vs" count] assms Suc by (simp add: st_def min_def)
  then have full: "collector_step count st (Next (vs ! k))
      = \<lparr>col_open = False, col_taken = count, col_events = take count vs, col_promise = Resolved (take count vs)\<rparr>"
    using assms Suc by (simp add: Let_def take_Suc_conv_app_nth)
  have "map Next vs @ rest = map Next (take k vs) @ Next (vs ! k) # map Next (drop (Suc k) vs) @ rest"
    using assms Suc id_take_nth_drop [of k vs] by (metis Suc_le_lessD append.assoc append_Cons list.map(2) map_append)
  then show ?thesis by (simp add: st_def [symmetric] full collector_closed del: collector_step.simps)
qed

section \<open>Producers with a current value\<close>

text \<open>
  \<open>DefaultValueProducer\<close>: the current value, whether a stream listens, the calls
  made on that listener and the callbacks made. \<open>ValueAndUpdates\<close> reads the value
  and gives out a stream with memory over the producer.
\<close>

datatype callback = OnStarted | OnStop

record 'a DefaultValueProducer =
  internalValue :: 'a
  listening :: bool
  hasCallbacks :: bool
  calls :: "'a signal list"
  callbacks_made :: "callback list"

definition new_DefaultValueProducer :: "'a \<Rightarrow> bool \<Rightarrow> 'a DefaultValueProducer" where
  "new_DefaultValueProducer value callbacks =
     \<lparr>internalValue = value, listening = False, hasCallbacks = callbacks, calls = [], callbacks_made = []\<rparr>"

definition dvp_update :: "'a \<Rightarrow> 'a DefaultValueProducer \<Rightarrow> 'a DefaultValueProducer" where
  "dvp_update value p =
     (let p1 = p\<lparr>internalValue := value\<rparr>
      in if listening p1 then p1\<lparr>calls := calls p1 @ [Next value]\<rparr> else p1)"

definition dvp_error :: "string \<Rightarrow> 'a DefaultValueProducer \<Rightarrow> 'a DefaultValueProducer" where
  "dvp_error e p = (if listening p then p\<lparr>calls := calls p @ [Failed e]\<rparr> else p)"

definition dvp_start :: "'a DefaultValueProducer \<Rightarrow> 'a DefaultValueProducer" where
  "dvp_start p =
     (let p1 = p\<lparr>listening := True, calls := calls p @ [Next (internalValue p)]\<rparr>
      in if hasCallbacks p1 then p1\<lparr>callbacks_made := callbacks_made p1 @ [OnStarted]\<rparr> else p1)"

definition dvp_stop :: "'a DefaultValueProducer \<Rightarrow> 'a DefaultValueProducer" where
  "dvp_stop p =
     (let p1 = (if hasCallbacks p then p\<lparr>callbacks_made := callbacks_made p @ [OnStop]\<rparr> else p)
      in p1\<lparr>listening := False\<rparr>)"

text \<open>\<open>waitFor(search)\<close> on the calls of the updates stream, the remembered value first.\<close>

fun waitFor_next :: "('a \<Rightarrow> bool) \<Rightarrow> 'a promise \<Rightarrow> 'a signal \<Rightarrow> 'a promise" where
  "waitFor_next search p (Next newValue) = (if search newValue then settle p (Resolved newValue) else p)"
| "waitFor_next search p Complete = settle p (Rejected ''Update stream completed without expected value'')"
| "waitFor_next search p (Failed e) = settle p (Rejected e)"

definition waitFor :: "('a \<Rightarrow> bool) \<Rightarrow> 'a signal list \<Rightarrow> 'a promise" where
  "waitFor search updates = foldl (waitFor_next search) Pending updates"

lemma settle_settled [simp]: "p \<noteq> Pending \<Longrightarrow> settle p q = p"
  by (cases p) auto

lemma waitFor_settled: "p \<noteq> Pending \<Longrightarrow> foldl (waitFor_next search) p updates = p"
proof (induction updates)
  case (Cons s updates)
  then show ?case by (cases s) auto
qed simp

section \<open>Reducer\<close>

text \<open>The state of a \<open>Reducer\<close> and its promise \<open>completed\<close>, after the calls of its stream.\<close>

record ('t, 'u) Reducer =
  red_state :: 'u
  red_completed :: "unit promise"

fun Reducer_step :: "('u \<Rightarrow> 't \<Rightarrow> 'u) \<Rightarrow> ('t, 'u) Reducer \<Rightarrow> 't signal \<Rightarrow> ('t, 'u) Reducer" where
  "Reducer_step reducer r (Next evt) = r\<lparr>red_state := reducer (red_state r) evt\<rparr>"
| "Reducer_step reducer r Complete = r\<lparr>red_completed := settle (red_completed r) (Resolved ())\<rparr>"
| "Reducer_step reducer r (Failed e) = r\<lparr>red_completed := settle (red_completed r) (Rejected e)\<rparr>"

definition new_Reducer :: "'t signal list \<Rightarrow> ('u \<Rightarrow> 't \<Rightarrow> 'u) \<Rightarrow> 'u \<Rightarrow> ('t, 'u) Reducer" where
  "new_Reducer stream reducer initState =
     foldl (Reducer_step reducer) \<lparr>red_state = initState, red_completed = Pending\<rparr> stream"

definition increment :: "nat \<Rightarrow> 't \<Rightarrow> nat" where
  "increment n _ = n + 1"

definition countStream :: "'t signal list \<Rightarrow> ('t, nat) Reducer" where
  "countStream stream = new_Reducer stream increment 0"

definition append_event :: "'t list \<Rightarrow> 't \<Rightarrow> 't list" where
  "append_event list evt = list @ [evt]"

definition asArray :: "'t signal list \<Rightarrow> ('t, 't list) Reducer" where
  "asArray stream = new_Reducer stream append_event []"

definition last_event :: "'t option \<Rightarrow> 't \<Rightarrow> 't option" where
  "last_event _ event = Some event"

definition lastValue :: "'t signal list \<Rightarrow> ('t, 't option) Reducer" where
  "lastValue stream = new_Reducer stream last_event None"

lemma new_Reducer_values:
  "red_state (new_Reducer (map Next vs) f u) = foldl f u vs"
  "red_completed (new_Reducer (map Next vs) f u) = Pending"
proof -
  have "foldl (Reducer_step f) r (map Next vs) = r\<lparr>red_state := foldl f (red_state r) vs\<rparr>" for r
    by (induction vs arbitrary: r) simp_all
  then show "red_state (new_Reducer (map Next vs) f u) = foldl f u vs"
    "red_completed (new_Reducer (map Next vs) f u) = Pending"
    by (simp_all add: new_Reducer_def)
qed

lemma producer_updates:
  "listening p \<Longrightarrow> foldl (\<lambda>p v. dvp_update v p) p vs
     = p\<lparr>internalValue := last (internalValue p # vs), calls := calls p @ map Next vs\<rparr>"
  "\<not> listening p \<Longrightarrow> foldl (\<lambda>p v. dvp_update v p) p vs = p\<lparr>internalValue := last (internalValue p # vs)\<rparr>"
  by (induction vs arbitrary: p) (auto simp: dvp_update_def Let_def)

text \<open>A producer that had the updates \<open>us\<close> before the stream was started and \<open>ws\<close> after.\<close>

definition produced :: "'a \<Rightarrow> 'a list \<Rightarrow> 'a list \<Rightarrow> 'a DefaultValueProducer" where
  "produced v us ws = foldl (\<lambda>p v. dvp_update v p)
     (dvp_start (foldl (\<lambda>p v. dvp_update v p) (new_DefaultValueProducer v False) us)) ws"

lemma produced_calls:
  "calls (produced v us ws) = map Next (last (v # us) # ws)"
  "internalValue (produced v us ws) = last (v # us @ ws)"
  by (auto simp: produced_def new_DefaultValueProducer_def dvp_start_def producer_updates Let_def)

lemma waitFor_values:
  "waitFor search (map Next vs) = (case find search vs of Some v \<Rightarrow> Resolved v | None \<Rightarrow> Pending)"
  unfolding waitFor_def by (induction vs) (simp_all add: waitFor_settled)

section \<open>Properties\<close>

text \<open>
  C17. \<open>concat\<close> keeps the order of the streams whatever the order in which they
  emit: after every sequence of calls of its sources the listener has received
  all values of the completed first streams, then those of the first stream
  that has not completed, and the completion exactly if all have completed.
\<close>

theorem concat_emits_in_order:
  assumes "source_trace n tr"
  shows "emitted (concat_run n tr) = concat_spec n tr"
  using concat_run_inv [OF assms] by (simp add: concat_inv_def)

lemma concat_emits_in_order_witness:
  "emitted (concat_run 2 [(1, Next (Some ''a'')), (0, Next (Some ''1'')), (1, Complete), (0, Next (Some ''2'')),
      (0, Complete)]) = [Next (Some ''1''), Next (Some ''2''), Next (Some ''a''), Complete]"
  by (subst concat_emits_in_order)
     (simp_all add: concat_spec_def active_source_def completed_def values_of_def upt_rec numeral_2_eq_2)

text \<open>
  The hypothesis that no value is \<open>undefined\<close> is needed: a buffered \<open>undefined\<close>
  stops the loop that empties a queue, and values are then emitted in the wrong order.
\<close>

lemma concat_undefined_reorders:
  "emitted (concat_run 2 [(1, Next None), (1, Next (Some ''a'')), (0, Complete), (1, Next (Some ''b'')),
      (1, Complete)]) = [Next (Some ''b''), Next (Some ''a''), Complete]"
  by code_simp

text \<open>
  \<open>dropDuplicates\<close> passes on a value exactly if no earlier value of the
  stream has the same key; every key occurs once in the output.
\<close>

lemma dropDuplicates_first_occurrences:
  "dropDuplicates valueToKey (vs @ [v])
     = dropDuplicates valueToKey vs @ (if valueToKey v \<in> valueToKey ` set vs then [] else [v]) \<and>
   distinct (map valueToKey (dropDuplicates valueToKey vs)) \<and>
   valueToKey ` set (dropDuplicates valueToKey vs) = valueToKey ` set vs"
proof -
  have "distinct (map valueToKey (dropDuplicates valueToKey vs))"
    by (induction vs rule: rev_induct) (simp_all add: dropDuplicates_snoc dropDuplicates_key_set)
  then show ?thesis by (simp add: dropDuplicates_snoc dropDuplicates_key_set)
qed

text \<open>
  \<open>toListPromise\<close> resolves with the first \<open>count\<close> values as soon as the stream
  has emitted them, rejects if the stream completes or fails before, and is
  pending otherwise; collecting the stream of \<open>fromListPromise\<close> gives its list back.
\<close>

lemma toListPromise_spec:
  "toListPromise (map Next vs) count = (if count \<le> length vs then Resolved (take count vs) else Pending) \<and>
   toListPromise (map Next vs @ [Complete]) count
     = (if count \<le> length vs then Resolved (take count vs) else Rejected tooShort) \<and>
   toListPromise (map Next vs @ [Failed e]) count
     = (if count \<le> length vs then Resolved (take count vs) else Rejected e) \<and>
   toListPromise (fromListPromise (Resolved vs)) (length vs) = Resolved vs"
  using collector_full [of count vs "[]"] collector_full [of count vs "[Complete]"]
    collector_full [of count vs "[Failed e]"] collector_full [of "length vs" vs "[Complete]"]
    collector_values [of vs count]
  by (auto simp: toListPromise_def not_le)

text \<open>
  Waiting for a value finds the current one: whatever a producer was updated
  to before anyone listened, \<open>waitFor\<close> resolves with the first match among the
  value at the time of the call and the later updates, and is pending as long
  as there is none. The value of the producer is the last update.
\<close>

lemma waitFor_current_or_later:
  "waitFor search (calls (produced v us ws))
     = (case find search (last (v # us) # ws) of Some x \<Rightarrow> Resolved x | None \<Rightarrow> Pending) \<and>
   internalValue (produced v us ws) = last (v # us @ ws)"
  unfolding produced_calls waitFor_values by simp

end
