(* ===== verification/Iov_Socket.thy ===== *)
theory Iov_Socket
  imports Js_Runtime "HOL-Library.Multiset"
begin

text \<open>
  \<open>packages/iov-socket/src\<close>: the queue of requests over a web socket
  (\<open>QueueingStreamingSocket\<close>) and the reconnecting wrapper (\<open>ReconnectingSocket\<close>)
  as state machines. The web socket below is the environment: it decides when a
  connection is established or lost and when the promise of a \<open>send\<close> settles.
  \<open>processQueue\<close> is an asynchronous function; it runs up to the next \<open>await\<close> in
  one step, and \<open>inflight\<close> holds the request of every call that waits there.
\<close>

section \<open>QueueingStreamingSocket\<close>

datatype ConnectionStatus = Unconnected | Connecting | Connected | Disconnected

record qss =
  queue :: "string list"
  isProcessingQueue :: bool
  status :: ConnectionStatus
  inflight :: "string list"
  sent :: "string list"

definition new_qss :: qss where
  "new_qss = \<lparr>queue = [], isProcessingQueue = False, status = Unconnected, inflight = [], sent = []\<rparr>"

datatype socket_event =
    QueueRequest string
  | Connect
  | ConnectionEstablished
  | ConnectionFailed
  | SocketError
  | Disconnect
  | Reconnect
  | SendResolved nat
  | SendRejected nat

text \<open>
  One evaluation of \<open>while ((request = this.queue.shift()))\<close> and, if the request
  is truthy, the call of \<open>send\<close>. The empty string is falsy and ends the loop.
\<close>

definition shift_and_send :: "qss \<Rightarrow> qss" where
  "shift_and_send s = (case queue s of
     [] \<Rightarrow> s
   | request # rest \<Rightarrow>
       if request = [] then s\<lparr>queue := rest\<rparr>
       else s\<lparr>queue := rest, inflight := inflight s @ [request]\<rparr>)"

definition processQueue :: "qss \<Rightarrow> qss" where
  "processQueue s =
     (if isProcessingQueue s \<or> status s \<noteq> Connected then s
      else shift_and_send (s\<lparr>isProcessingQueue := True\<rparr>))"

definition remove_nth :: "nat \<Rightarrow> 'a list \<Rightarrow> 'a list" where
  "remove_nth i xs = take i xs @ drop (Suc i) xs"

text \<open>
  A step returns the updates of \<open>connectionStatus\<close> that it causes. A promise that
  was not created can not settle; such an event is an error of the environment.
\<close>

fun qss_step :: "qss \<Rightarrow> socket_event \<Rightarrow> (qss \<times> ConnectionStatus list) result" where
  "qss_step s (QueueRequest request) = ok (processQueue (s\<lparr>queue := queue s @ [request]\<rparr>), [])"
| "qss_step s Connect = ok (s\<lparr>status := Connecting\<rparr>, [Connecting])"
| "qss_step s ConnectionEstablished = ok (processQueue (s\<lparr>status := Connected\<rparr>), [Connected])"
| "qss_step s ConnectionFailed = ok (s\<lparr>status := Disconnected\<rparr>, [Disconnected])"
| "qss_step s SocketError = ok (s\<lparr>status := Disconnected\<rparr>, [Disconnected])"
| "qss_step s Disconnect = ok (s\<lparr>status := Disconnected\<rparr>, [Disconnected])"
| "qss_step s Reconnect = ok (s\<lparr>status := Connecting\<rparr>, [Connecting])"
| "qss_step s (SendResolved i) =
     (if i < length (inflight s)
      then ok (shift_and_send (s\<lparr>inflight := remove_nth i (inflight s), sent := sent s @ [inflight s ! i],
             isProcessingQueue := False\<rparr>), [])
      else throw ''no such send'')"
| "qss_step s (SendRejected i) =
     (if i < length (inflight s)
      then ok (s\<lparr>inflight := remove_nth i (inflight s), queue := inflight s ! i # queue s,
             isProcessingQueue := False\<rparr>, [])
      else throw ''no such send'')"

definition getQueueLength :: "qss \<Rightarrow> nat" where
  "getQueueLength s = length (queue s)"

text \<open>The requests of a run.\<close>

definition queued_requests :: "socket_event list \<Rightarrow> string list" where
  "queued_requests es = [r. QueueRequest r \<leftarrow> es]"

section \<open>ReconnectingSocket\<close>

definition calculateTimeout :: "nat \<Rightarrow> nat" where
  "calculateTimeout index = min (2 ^ index * 100) 5000"

record rsocket =
  socket :: qss
  unconnected :: bool
  disconnected :: bool
  timeoutIndex :: nat
  reconnectTimeout :: "nat option"

definition new_rsocket :: rsocket where
  "new_rsocket = \<lparr>socket = new_qss, unconnected = True, disconnected = False, timeoutIndex = 0,
     reconnectTimeout = None\<rparr>"

text \<open>
  The listener of \<open>connectionStatus.updates\<close>. A timer that is set replaces the
  one before; \<open>reconnectTimeout\<close> is the delay of the timer that is running.
\<close>

definition on_status :: "rsocket \<Rightarrow> ConnectionStatus \<Rightarrow> rsocket" where
  "on_status r st =
     (let r1 = (if st = Connected then r\<lparr>timeoutIndex := 0\<rparr> else r)
      in if st = Disconnected
         then r1\<lparr>reconnectTimeout := Some (calculateTimeout (timeoutIndex r1)),
                 timeoutIndex := timeoutIndex r1 + 1\<rparr>
         else r1)"

text \<open>A step of the wrapped socket, with the listener called for each update.\<close>

definition with_socket :: "rsocket \<Rightarrow> socket_event \<Rightarrow> (rsocket \<times> ConnectionStatus list) result" where
  "with_socket r e =
     andThen (qss_step (socket r) e) (\<lambda>(s, updates).
     ok (foldl on_status (r\<lparr>socket := s\<rparr>) updates, updates))"

datatype reconnecting_event = Call socket_event | Environment socket_event | TimerFires

text \<open>
  The methods of the class, the events of the web socket, and the timer. The
  wrapper has the methods \<open>connect\<close>, \<open>disconnect\<close> and \<open>queueRequest\<close> only.
\<close>

fun rsocket_step :: "rsocket \<Rightarrow> reconnecting_event \<Rightarrow> (rsocket \<times> ConnectionStatus list) result" where
  "rsocket_step r (Call Connect) =
     (if \<not> unconnected r then throw ''Cannot connect: socket has already connected''
      else andThen (with_socket r Connect) (\<lambda>(r1, u). ok (r1\<lparr>unconnected := False\<rparr>, u)))"
| "rsocket_step r (Call Disconnect) =
     (if unconnected r then throw ''Cannot disconnect: socket has not yet connected''
      else andThen (with_socket r Disconnect) (\<lambda>(r1, u). ok (r1\<lparr>disconnected := True\<rparr>, u)))"
| "rsocket_step r (Call (QueueRequest request)) =
     (if disconnected r then throw ''Cannot queue request: socket has disconnected''
      else with_socket r (QueueRequest request))"
| "rsocket_step r (Call _) = throw ''not a method''"
| "rsocket_step r (Environment e) =
     (if e \<in> {ConnectionEstablished, ConnectionFailed, SocketError} \<or> (\<exists>i \<in> {0..<length (inflight (socket r))}.
          e = SendResolved i \<or> e = SendRejected i)
      then with_socket r e else throw ''not an event of the web socket'')"
| "rsocket_step r TimerFires = (case reconnectTimeout r of
     None \<Rightarrow> throw ''no timer''
   | Some _ \<Rightarrow> with_socket (r\<lparr>reconnectTimeout := None\<rparr>) Reconnect)"

section \<open>Requests are neither lost nor duplicated\<close>

lemma mset_remove_nth: "i < length xs \<Longrightarrow> mset xs = add_mset (xs ! i) (mset (remove_nth i xs))"
  by (metis remove_nth_def id_take_nth_drop mset.simps(2) mset_append union_mset_add_mset_right)

text \<open>All requests the socket still has, and those it has sent, without empty ones.\<close>

definition requests :: "qss \<Rightarrow> string multiset" where
  "requests s = filter_mset (\<lambda>r. r \<noteq> []) (mset (sent s) + mset (inflight s) + mset (queue s))"

lemma requests_shift [simp]: "requests (shift_and_send s) = requests s"
  by (auto simp: shift_and_send_def requests_def split: list.splits)

lemma requests_process [simp]: "requests (processQueue s) = requests s"
  by (simp add: processQueue_def) (simp add: requests_def)

lemma requests_settled:
  assumes "i < length (inflight s)"
  shows "requests (s\<lparr>inflight := remove_nth i (inflight s), sent := sent s @ [inflight s ! i],
      isProcessingQueue := b\<rparr>) = requests s"
    and "requests (s\<lparr>inflight := remove_nth i (inflight s), queue := inflight s ! i # queue s,
      isProcessingQueue := b\<rparr>) = requests s"
  using mset_remove_nth [OF assms] by (simp_all add: requests_def)

lemma requests_update:
  "requests (s\<lparr>status := c\<rparr>) = requests s"
  "requests (s\<lparr>queue := queue s @ [r]\<rparr>) = requests s + filter_mset (\<lambda>r. r \<noteq> []) {#r#}"
  by (simp_all add: requests_def)

lemma requests_step:
  assumes "qss_step s e = ok (s', u)"
  shows "requests s' = requests s + filter_mset (\<lambda>r. r \<noteq> []) (mset (queued_requests [e]))"
  using assms
  by (cases e) (auto simp: requests_update requests_settled queued_requests_def split: if_splits)

section \<open>A processing flag that is never reset\<close>

text \<open>
  The state after a connection was established while the queue was empty: the
  flag is set and no call of \<open>processQueue\<close> is waiting that could reset it.
\<close>

definition stuck :: "qss \<Rightarrow> bool" where
  "stuck s \<longleftrightarrow> isProcessingQueue s \<and> inflight s = []"

lemma stuck_step:
  assumes "stuck s" "qss_step s e = ok (s', u)"
  shows "stuck s' \<and> sent s' = sent s \<and> queue s' = queue s @ queued_requests [e]"
  using assms by (cases e) (auto simp: stuck_def processQueue_def queued_requests_def)

lemma stuck_run:
  "stuck s \<Longrightarrow> stuck (run_events qss_step s es) \<and> sent (run_events qss_step s es) = sent s \<and>
     queue (run_events qss_step s es) = queue s @ queued_requests es"
proof (induction es arbitrary: s)
  case Nil
  then show ?case by (simp add: queued_requests_def)
next
  case (Cons e es)
  have q: "queued_requests (e # es) = queued_requests [e] @ queued_requests es"
    by (simp add: queued_requests_def)
  show ?case
  proof (cases "qss_step s e")
    case (Inl m)
    then have "queued_requests [e] = []" by (cases e) (auto simp: queued_requests_def)
    with Inl Cons show ?thesis by (simp add: next_state_def q)
  next
    case (Inr su)
    then show ?thesis using stuck_step [OF Cons.prems, of e "fst su" "snd su"] Cons.IH [of "fst su"] q
      by (cases su) (simp add: next_state_def)
  qed
qed

section \<open>Reconnecting\<close>

text \<open>A failed attempt, from a state in which an attempt is being made.\<close>

lemma failed_attempt:
  "rsocket_step r (Environment ConnectionFailed) =
     ok (r\<lparr>socket := (socket r)\<lparr>status := Disconnected\<rparr>,
       reconnectTimeout := Some (calculateTimeout (timeoutIndex r)), timeoutIndex := timeoutIndex r + 1\<rparr>,
       [Disconnected])"
  by (simp add: with_socket_def on_status_def Let_def)

lemma next_attempt:
  "reconnectTimeout r = Some d \<Longrightarrow> rsocket_step r TimerFires =
     ok (r\<lparr>socket := (socket r)\<lparr>status := Connecting\<rparr>, reconnectTimeout := None\<rparr>, [Connecting])"
  by (simp add: with_socket_def on_status_def Let_def)

lemma attempts:
  "timeoutIndex (run_events rsocket_step r (concat (replicate k [Environment ConnectionFailed, TimerFires])))
     = timeoutIndex r + k"
  by (induction k arbitrary: r)
     (simp_all add: next_state_def failed_attempt next_attempt del: rsocket_step.simps)

section \<open>Properties\<close>

text \<open>
  C18. No request is lost and none is sent twice: after every run, the requests
  that were sent, that are being sent and that wait in the queue are together
  exactly the requests that were queued, as often as they were queued. (An empty
  request is not a request.)
\<close>

theorem requests_conserved:
  "requests (run_events qss_step new_qss es) = filter_mset (\<lambda>r. r \<noteq> []) (mset (queued_requests es))"
proof -
  have "requests (run_events qss_step s es) = requests s + filter_mset (\<lambda>r. r \<noteq> []) (mset (queued_requests es))" for s
  proof (induction es arbitrary: s)
    case Nil
    then show ?case by (simp add: queued_requests_def)
  next
    case (Cons e es)
    have q: "queued_requests (e # es) = queued_requests [e] @ queued_requests es"
      by (simp add: queued_requests_def)
    have "requests (next_state qss_step s e) = requests s + filter_mset (\<lambda>r. r \<noteq> []) (mset (queued_requests [e]))"
    proof (cases "qss_step s e")
      case (Inl m)
      then show ?thesis by (cases e) (auto simp: queued_requests_def next_state_def)
    next
      case (Inr su)
      then show ?thesis using requests_step [of s e "fst su" "snd su"] by (cases su) (simp add: next_state_def)
    qed
    then show ?case by (simp add: Cons.IH q)
  qed
  then show ?thesis by (simp add: new_qss_def requests_def)
qed

text \<open>
  C19. A connection that is established while no request is queued blocks the
  queue for ever: whatever happens afterwards, including disconnecting and
  reconnecting, no request is handed to the socket; all of them stay queued.
\<close>

theorem idle_connection_blocks_queue:
  "sent (run_events qss_step new_qss ([Connect, ConnectionEstablished] @ es)) = [] \<and>
   inflight (run_events qss_step new_qss ([Connect, ConnectionEstablished] @ es)) = [] \<and>
   queue (run_events qss_step new_qss ([Connect, ConnectionEstablished] @ es)) = queued_requests es"
proof -
  define s where "s = run_events qss_step new_qss [Connect, ConnectionEstablished]"
  have "s = \<lparr>queue = [], isProcessingQueue = True, status = Connected, inflight = [], sent = []\<rparr>"
    by (simp add: s_def next_state_def new_qss_def processQueue_def shift_and_send_def)
  then have "stuck s" "sent s = []" "queue s = []" by (simp_all add: stuck_def)
  with stuck_run [of s es] show ?thesis
    unfolding run_events_append s_def [symmetric] by (simp add: stuck_def)
qed

text \<open>
  The flag is also reset after the first request of a loop, so that a second
  loop can run beside the first; a request can then overtake an earlier one.
\<close>

lemma request_overtakes:
  "sent (run_events qss_step new_qss [QueueRequest ''a'', QueueRequest ''b'', Connect, ConnectionEstablished,
     SendResolved 0, QueueRequest ''c'', SendRejected 0, SendResolved 0, SendResolved 0]) = [''a'', ''c'', ''b'']"
  by code_simp

text \<open>
  The delay before the next attempt doubles with every failed one: after \<open>k\<close>
  failed attempts to reconnect, the next one is made after \<open>100 * 2\<^sup>k\<close> milliseconds,
  at most 5 seconds.
\<close>

lemma backoff_schedule:
  "reconnectTimeout (run_events rsocket_step new_rsocket
     (Call Connect # concat (replicate k [Environment ConnectionFailed, TimerFires])
       @ [Environment ConnectionFailed])) = Some (min (2 ^ k * 100) 5000)"
proof -
  define r where "r = next_state rsocket_step new_rsocket (Call Connect)"
  have "timeoutIndex r = 0"
    by (simp add: r_def next_state_def new_rsocket_def with_socket_def on_status_def)
  moreover have "reconnectTimeout (next_state rsocket_step x (Environment ConnectionFailed))
      = Some (calculateTimeout (timeoutIndex x))" for x
    by (simp add: next_state_def failed_attempt del: rsocket_step.simps)
  ultimately show ?thesis
    using attempts [of r k] by (simp add: r_def [symmetric] run_events_append calculateTimeout_def)
qed

text \<open>
  Disconnecting does not disconnect for good: \<open>disconnect\<close> on a connected
  socket starts the reconnection timer, and when it fires the socket connects again.
\<close>

lemma disconnect_reconnects:
  assumes "\<not> unconnected r"
  shows "\<exists>r1 r2 d. rsocket_step r (Call Disconnect) = ok (r1, [Disconnected]) \<and> disconnected r1 \<and>
    reconnectTimeout r1 = Some d \<and> rsocket_step r1 TimerFires = ok (r2, [Connecting]) \<and>
    status (socket r2) = Connecting"
  using assms by (simp add: with_socket_def on_status_def Let_def)

end
