(* ===== verification/Tendermint_Hash.thy ===== *)
theory Tendermint_Hash
  imports Iov_Encoding
begin

text \<open>
  \<open>packages/iov-tendermint-rpc/src\<close>: the hash of a block header, that is the
  amino encodings of \<open>encodings.ts\<close> and the Merkle tree of \<open>v0-31/hasher.ts\<close> (the
  file \<open>v0-32/hasher.ts\<close> is the same). SHA-256 is a parameter. Heights, counts and
  times are integers; the bitwise operators convert them to 32 bits, which the
  model writes out.
\<close>

section \<open>Bitwise operators\<close>

definition js_or :: "int \<Rightarrow> int \<Rightarrow> int" where
  "js_or a b = sint ((word_of_int a :: 32 word) OR word_of_int b)"

text \<open>\<open>a >> k\<close>: the arithmetic shift of the 32-bit value.\<close>

definition js_shr :: "int \<Rightarrow> nat \<Rightarrow> int" where
  "js_shr a k = sint (word_of_int a :: 32 word) div 2 ^ k"

lemma sint_word_bounds: "- (2 ^ 31) \<le> sint (w :: 32 word)" "sint (w :: 32 word) < 2 ^ 31"
  using sint_ge [of w] sint_less [of w] by simp_all

lemma sint_word_small: "- (2 ^ 31) \<le> i \<Longrightarrow> i < 2 ^ 31 \<Longrightarrow> sint (word_of_int i :: 32 word) = i"
  unfolding sint_sbintrunc' by (intro signed_take_bit_int_eq_self) simp_all

lemma sint_word_wrap: "2 ^ 31 \<le> i \<Longrightarrow> i < 2 ^ 32 \<Longrightarrow> sint (word_of_int i :: 32 word) = i - 2 ^ 32"
proof -
  assume i: "2 ^ 31 \<le> i" "i < 2 ^ 32"
  have "(word_of_int i :: 32 word) = word_of_int (i - 2 ^ 32)"
    by (simp add: word_of_int_eq_iff take_bit_eq_mod)
  moreover have "sint (word_of_int (i - 2 ^ 32) :: 32 word) = i - 2 ^ 32"
    using i by (intro sint_word_small) simp_all
  ultimately show ?thesis by (simp only:)
qed

section \<open>Amino encodings\<close>

definition tm_encodeString :: "string \<Rightarrow> byte list" where
  "tm_encodeString s = (let utf8 = toUtf8 s in toUint8 (int (length utf8)) # utf8)"

function tm_encodeInt :: "int \<Rightarrow> byte list" where
  "tm_encodeInt n =
     (if n \<ge> 0x80 then toUint8 (js_or (js_and n 0xff) 0x80) # tm_encodeInt (js_shr n 7)
      else [toUint8 (js_and n 0xff)])"
  by pat_completeness auto
termination
proof (relation "measure nat")
  fix n :: int assume n: "0x80 \<le> n"
  have "js_shr n 7 < n"
  proof (cases "n < 2 ^ 31")
    case True
    then show ?thesis using n sint_word_small [of n] by (simp add: js_shr_def)
  next
    case False
    then show ?thesis using sint_word_bounds(2) [of "word_of_int n"] by (simp add: js_shr_def)
  qed
  with n show "(js_shr n 7, n) \<in> measure nat" by simp
qed simp

declare tm_encodeInt.simps [simp del]

text \<open>A time: milliseconds since the epoch and the nanoseconds below them, which may be missing.\<close>

record tm_time =
  time_ms :: int
  time_nanoseconds :: "int option"

text \<open>\<open>a % 1000\<close> has the sign of \<open>a\<close>.\<close>

definition js_rem :: "int \<Rightarrow> int \<Rightarrow> int" where
  "js_rem a b = (if a < 0 then - ((- a) mod b) else a mod b)"

definition encodeTime :: "tm_time \<Rightarrow> byte list" where
  "encodeTime t =
     (let seconds = time_ms t div 1000;
          secondsArray = (if seconds \<noteq> 0 then 0x08 # tm_encodeInt seconds else []);
          nanoseconds = (case time_nanoseconds t of None \<Rightarrow> 0 | Some n \<Rightarrow> n) + js_rem (time_ms t) 1000 * 1000000;
          nanosecondsArray = (if nanoseconds \<noteq> 0 then 0x10 # tm_encodeInt nanoseconds else [])
      in secondsArray @ nanosecondsArray)"

definition encodeBytes :: "byte list \<Rightarrow> byte list result" where
  "encodeBytes bytes =
     (if length bytes \<ge> 0x80 then throw ''Not implemented for byte arrays of length 128 or more''
      else ok (if bytes \<noteq> [] then toUint8 (int (length bytes)) # bytes else []))"

record Version =
  version_block :: int
  version_app :: int

definition encodeVersion :: "Version \<Rightarrow> byte list" where
  "encodeVersion version =
     (let blockArray = (if version_block version \<noteq> 0 then 0x08 # tm_encodeInt (version_block version) else []);
          appArray = (if version_app version \<noteq> 0 then 0x10 # tm_encodeInt (version_app version) else [])
      in blockArray @ appArray)"

record BlockId =
  bid_hash :: "byte list"
  parts_total :: int
  parts_hash :: "byte list"

definition encodeBlockId :: "BlockId \<Rightarrow> byte list" where
  "encodeBlockId blockId =
     [0x0a, toUint8 (int (length (bid_hash blockId)))] @ bid_hash blockId @
     [0x12, toUint8 (int (length (parts_hash blockId)) + 4), 0x08, toUint8 (parts_total blockId),
      0x12, toUint8 (int (length (parts_hash blockId)))] @ parts_hash blockId"

section \<open>The Merkle tree\<close>

text \<open>\<open>Math.floor(Math.log2(n))\<close> of a positive integer.\<close>

fun floor_log2 :: "nat \<Rightarrow> nat" where
  "floor_log2 n = (if n < 2 then 0 else Suc (floor_log2 (n div 2)))"

declare floor_log2.simps [simp del]

definition getSplitPoint :: "nat \<Rightarrow> nat result" where
  "getSplitPoint n =
     (if n < 1 then throw ''Cannot split an empty tree''
      else let largestPowerOf2 = 2 ^ floor_log2 n
           in ok (if largestPowerOf2 < n then largestPowerOf2 else largestPowerOf2 div 2))"

definition hashLeaf :: "(byte list \<Rightarrow> byte list) \<Rightarrow> byte list \<Rightarrow> byte list" where
  "hashLeaf sha leaf = sha ([0] @ leaf)"

definition hashInner :: "(byte list \<Rightarrow> byte list) \<Rightarrow> byte list \<Rightarrow> byte list \<Rightarrow> byte list" where
  "hashInner sha left right = sha ([1] @ left @ right)"

lemma floor_log2_bounds: "1 \<le> n \<Longrightarrow> 2 ^ floor_log2 n \<le> n \<and> n < 2 * 2 ^ floor_log2 n"
proof (induction n rule: floor_log2.induct)
  case (1 n)
  show ?case
  proof (cases "n < 2")
    case True
    then show ?thesis using 1 by (simp add: floor_log2.simps)
  next
    case False
    then have "2 ^ floor_log2 (n div 2) \<le> n div 2 \<and> n div 2 < 2 * 2 ^ floor_log2 (n div 2)" using 1 by simp
    moreover have "2 * (n div 2) \<le> n" "n < 2 * (n div 2) + 2" by linarith+
    ultimately show ?thesis using False by (subst (1 2) floor_log2.simps) auto
  qed
qed

lemma split_point:
  assumes "2 \<le> n"
  shows "\<exists>k. getSplitPoint n = ok k \<and> 0 < k \<and> k < n"
proof -
  have b: "2 ^ floor_log2 n \<le> n" using floor_log2_bounds [of n] assms by simp
  have "2 \<le> (2 :: nat) ^ floor_log2 n" using assms by (subst floor_log2.simps) simp
  with b assms show ?thesis by (auto simp: getSplitPoint_def Let_def)
qed

function hashTree :: "(byte list \<Rightarrow> byte list) \<Rightarrow> byte list list \<Rightarrow> byte list result" where
  "hashTree sha hashes = (case hashes of
     [] \<Rightarrow> throw ''Cannot hash empty tree''
   | [leaf] \<Rightarrow> ok (hashLeaf sha leaf)
   | _ \<Rightarrow> (case getSplitPoint (length hashes) of
       Inl e \<Rightarrow> throw e
     | Inr slicePoint \<Rightarrow>
         andThen (hashTree sha (take slicePoint hashes)) (\<lambda>left.
         andThen (hashTree sha (drop slicePoint hashes)) (\<lambda>right.
         ok (hashInner sha left right)))))"
  by pat_completeness auto
termination
proof (relation "measure (length \<circ> snd)")
  fix sha :: "byte list \<Rightarrow> byte list" and hashes x x21 a b k
  assume *: "hashes = x # x21" "x21 = a # b" "getSplitPoint (length hashes) = Inr k"
  then have "0 < k \<and> k < length hashes" using split_point [of "length hashes"] by auto
  then show "((sha, take k hashes), (sha, hashes)) \<in> measure (length \<circ> snd)" by simp
next
  fix sha :: "byte list \<Rightarrow> byte list" and hashes x x21 a b k and left :: "byte list"
  assume *: "hashes = x # x21" "x21 = a # b" "getSplitPoint (length hashes) = Inr k"
  then have "0 < k \<and> k < length hashes" using split_point [of "length hashes"] by auto
  then show "((sha, drop k hashes), (sha, hashes)) \<in> measure (length \<circ> snd)" by auto
qed simp

declare hashTree.simps [simp del]

section \<open>Variable length integers\<close>

text \<open>The decoder of the encoding the comments refer to: seven bits per byte, lowest first.\<close>

fun decodeVarint :: "byte list \<Rightarrow> (int \<times> byte list) option" where
  "decodeVarint [] = None"
| "decodeVarint (b # bs) =
     (if b < 0x80 then Some (uint b, bs)
      else case decodeVarint bs of
        None \<Rightarrow> None
      | Some (v, rest) \<Rightarrow> Some (uint b - 128 + 128 * v, rest))"

lemma or_0x80: "take_bit 8 n OR 128 = n mod 128 + (128 :: int)"
proof -
  have p: "bit (128 :: int) m \<longleftrightarrow> m = 7" for m
    using bit_exp_iff [where ?'a = int, of 7 m] by auto
  have "take_bit 8 n OR 128 = take_bit 7 n OR (128 :: int)"
    by (rule bit_eqI) (auto simp: bit_or_iff bit_take_bit_iff p less_Suc_eq numeral_eq_Suc)
  also have "\<dots> = take_bit 7 n + 128"
    by (rule disjunctive_add [symmetric]) (auto simp: bit_take_bit_iff p)
  finally show ?thesis by (simp add: take_bit_eq_mod)
qed

lemma toUint8_and: "uint (toUint8 (js_and n 255)) = n mod 256"
  by (simp add: js_and_0xff)

lemma toUint8_or: "uint (toUint8 (js_or (js_and n 255) 128)) = n mod 128 + 128"
proof -
  have "toUint8 (js_or (js_and n 255) 128) = (word_of_int (n mod 256) OR 128 :: byte)"
  proof -
    have "(word_of_int (sint w) :: byte) = ucast (w :: 32 word)" for w
      by (rule bit_word_eqI) (simp add: bit_signed_iff bit_ucast_iff min_def)
    then have "toUint8 (js_or (js_and n 255) 128) = (ucast ((word_of_int (n mod 256) :: 32 word) OR 128) :: byte)"
      by (simp add: toUint8_def js_or_def js_and_0xff)
    also have "\<dots> = word_of_int (n mod 256) OR 128"
      by (rule bit_word_eqI) (simp add: bit_ucast_iff bit_or_iff bit_word_of_int_iff)
    finally show ?thesis .
  qed
  then have "uint (toUint8 (js_or (js_and n 255) 128)) = take_bit 8 n OR 128"
    by (simp add: uint_or uint_word_of_int take_bit_eq_mod)
  then show ?thesis by (simp only: or_0x80)
qed

lemma js_or_mod: "js_or (n mod 256) 128 mod 256 = n mod 128 + 128" "\<not> n mod 128 < (0 :: int)"
  using toUint8_or [of n] by (simp_all add: js_and_0xff not_less)

lemma byte_less_0x80: "b < 0x80 \<longleftrightarrow> uint (b :: byte) < 128"
  by (simp add: word_less_def)

lemma decode_encodeInt:
  assumes "0 \<le> n" "n < 2 ^ 31"
  shows "decodeVarint (tm_encodeInt n @ rest) = Some (n, rest)"
  using assms
proof (induction n rule: tm_encodeInt.induct)
  case (1 n)
  show ?case
  proof (cases "n < 0x80")
    case True
    then show ?thesis using 1
      by (subst tm_encodeInt.simps) (simp add: byte_less_0x80 js_and_0xff)
  next
    case False
    have s: "js_shr n 7 = n div 128" using sint_word_small [of n] 1 by (simp add: js_shr_def)
    have d: "n div 128 < 2 ^ 31" using 1(3) False by linarith
    have "decodeVarint (tm_encodeInt (n div 128) @ rest) = Some (n div 128, rest)"
      using 1 False d unfolding s by simp
    then show ?thesis
      using False by (subst tm_encodeInt.simps) (simp add: byte_less_0x80 js_and_0xff js_or_mod s)
  qed
qed

text \<open>A number that is negative as a 32-bit integer: two bytes, whatever follows.\<close>

lemma encodeInt_wraps:
  assumes "2 ^ 31 \<le> n" "n < 2 ^ 32" "tail = [] \<or> (\<exists>r. tail = 0x10 # r)"
  shows "decodeVarint (tm_encodeInt n @ tail) \<noteq> Some (n, rest)"
proof -
  define m where "m = js_shr n 7"
  have m: "m < 0x80" using sint_word_wrap [OF assms(1,2)] assms(2) by (simp add: m_def js_shr_def)
  have "tm_encodeInt n = [toUint8 (js_or (js_and n 0xff) 0x80), toUint8 (js_and m 0xff)]"
    using assms m tm_encodeInt.simps [of n] tm_encodeInt.simps [of m] by (simp add: m_def)
  then have d: "decodeVarint (tm_encodeInt n @ tail) = (if m mod 256 < 128 then Some (n mod 128 + 128 * (m mod 256), tail)
      else case decodeVarint tail of None \<Rightarrow> None
        | Some (v, r) \<Rightarrow> Some (n mod 128 + 128 * (m mod 256 - 128 + 128 * v), r))"
    by (auto simp: byte_less_0x80 js_or_mod js_and_0xff split: option.splits)
  have "n mod 128 + 128 * (m mod 256) < 2 ^ 31" "n mod 128 + 128 * (m mod 256 - 128 + 128 * 16) < 2 ^ 31"
    using pos_mod_bound [of 128 n] pos_mod_bound [of 256 m] by simp_all
  with d assms show ?thesis by (auto simp: byte_less_0x80)
qed

section \<open>Trees\<close>

text \<open>The tree that \<open>hashTree\<close> computes the root of.\<close>

datatype mtree = Leaf "byte list" | Node mtree mtree

primrec merkle_root :: "(byte list \<Rightarrow> byte list) \<Rightarrow> mtree \<Rightarrow> byte list" where
  "merkle_root sha (Leaf x) = sha (0 # x)"
| "merkle_root sha (Node l r) = sha (1 # merkle_root sha l @ merkle_root sha r)"

primrec leaves :: "mtree \<Rightarrow> byte list list" where
  "leaves (Leaf x) = [x]"
| "leaves (Node l r) = leaves l @ leaves r"

text \<open>Everything that is hashed for the root.\<close>

primrec hashed :: "(byte list \<Rightarrow> byte list) \<Rightarrow> mtree \<Rightarrow> byte list set" where
  "hashed sha (Leaf x) = {0 # x}"
| "hashed sha (Node l r) = insert (1 # merkle_root sha l @ merkle_root sha r) (hashed sha l \<union> hashed sha r)"

primrec top_input :: "(byte list \<Rightarrow> byte list) \<Rightarrow> mtree \<Rightarrow> byte list" where
  "top_input sha (Leaf x) = 0 # x"
| "top_input sha (Node l r) = 1 # merkle_root sha l @ merkle_root sha r"

lemma merkle_root_top: "merkle_root sha t = sha (top_input sha t)" "top_input sha t \<in> hashed sha t"
  by (cases t; simp)+

lemma root_injective:
  assumes len: "\<And>x. length (sha x) = 32"
  shows "inj_on sha (hashed sha t \<union> hashed sha u) \<Longrightarrow> merkle_root sha t = merkle_root sha u \<Longrightarrow> t = u"
proof (induction t arbitrary: u)
  case (Leaf x)
  then have "top_input sha (Leaf x) = top_input sha u"
    using merkle_root_top [of sha] by (metis UnI1 UnI2 inj_onD)
  then show ?case by (cases u) simp_all
next
  case (Node l r)
  then have "top_input sha (Node l r) = top_input sha u"
    using merkle_root_top [of sha] by (metis UnI1 UnI2 inj_onD)
  then obtain l' r' where u: "u = Node l' r'"
    and e: "merkle_root sha l @ merkle_root sha r = merkle_root sha l' @ merkle_root sha r'"
    by (cases u) auto
  have "length (merkle_root sha v) = 32" for v using len by (simp add: merkle_root_top(1))
  with e have "merkle_root sha l = merkle_root sha l'" "merkle_root sha r = merkle_root sha r'" by simp_all
  moreover have "inj_on sha (hashed sha l \<union> hashed sha l')" "inj_on sha (hashed sha r \<union> hashed sha r')"
    by (rule inj_on_subset [OF Node.prems(1)]; auto simp: u)+
  ultimately show ?case using Node.IH u by blast
qed

text \<open>
  The split of the source gives a tree with these leaves, in this order, and
  \<open>hashTree\<close> returns its root.
\<close>

function tree_of :: "byte list list \<Rightarrow> mtree" where
  "tree_of xs =
     (if length xs < 2 then Leaf (concat xs)
      else let k = projr (getSplitPoint (length xs)) in Node (tree_of (take k xs)) (tree_of (drop k xs)))"
  by pat_completeness auto
termination
proof (relation "measure length")
  fix xs :: "byte list list" and k
  assume "\<not> length xs < 2" "k = projr (getSplitPoint (length xs))"
  then have "0 < k \<and> k < length xs" using split_point [of "length xs"] by auto
  then show "(take k xs, xs) \<in> measure length" "(drop k xs, xs) \<in> measure length" by auto
qed simp

declare tree_of.simps [simp del]

lemma hashTree_root:
  "xs \<noteq> [] \<Longrightarrow> leaves (tree_of xs) = xs \<and> hashTree sha xs = ok (merkle_root sha (tree_of xs))"
proof (induction xs rule: tree_of.induct)
  case (1 xs)
  show ?case
  proof (cases "length xs < 2")
    case True
    then obtain x where "xs = [x]" using 1 by (cases xs) auto
    then show ?thesis by (simp add: tree_of.simps hashTree.simps hashLeaf_def)
  next
    case False
    then obtain k where k: "getSplitPoint (length xs) = ok k" "0 < k" "k < length xs"
      using split_point [of "length xs"] by auto
    then have "take k xs \<noteq> []" "drop k xs \<noteq> []" by auto
    then have l: "leaves (tree_of (take k xs)) = take k xs"
      "hashTree sha (take k xs) = ok (merkle_root sha (tree_of (take k xs)))"
      and r: "leaves (tree_of (drop k xs)) = drop k xs"
      "hashTree sha (drop k xs) = ok (merkle_root sha (tree_of (drop k xs)))"
      using 1(1,2) [of k] False k(1) by simp_all
    have t: "tree_of xs = Node (tree_of (take k xs)) (tree_of (drop k xs))"
      using False k(1) by (subst tree_of.simps) simp
    obtain a b cs where xs: "xs = a # b # cs" using False by (cases xs; cases "tl xs") auto
    have "hashTree sha xs = ok (hashInner sha (merkle_root sha (tree_of (take k xs))) (merkle_root sha (tree_of (drop k xs))))"
      using k l(2) r(2) by (subst hashTree.simps) (simp add: xs)
    then show ?thesis using l(1) r(1) by (simp add: t hashInner_def)
  qed
qed

section \<open>Block hashes\<close>

text \<open>The chain id of a header that is hashed is a string; a node may send another value of JSON.\<close>

record 'c Header =
  hdr_version :: Version
  hdr_chainId :: 'c
  hdr_height :: int
  hdr_time :: tm_time
  hdr_numTxs :: int
  hdr_totalTxs :: int
  hdr_lastBlockId :: BlockId
  hdr_lastCommitHash :: "byte list"
  hdr_dataHash :: "byte list"
  hdr_validatorsHash :: "byte list"
  hdr_nextValidatorsHash :: "byte list"
  hdr_consensusHash :: "byte list"
  hdr_appHash :: "byte list"
  hdr_lastResultsHash :: "byte list"
  hdr_evidenceHash :: "byte list"
  hdr_proposerAddress :: "byte list"

definition encodedFields :: "string Header \<Rightarrow> byte list list result" where
  "encodedFields header =
     andThen (mapM encodeBytes [hdr_lastCommitHash header, hdr_dataHash header, hdr_validatorsHash header,
       hdr_nextValidatorsHash header, hdr_consensusHash header, hdr_appHash header, hdr_lastResultsHash header,
       hdr_evidenceHash header, hdr_proposerAddress header]) (\<lambda>hashes.
     ok ([encodeVersion (hdr_version header), tm_encodeString (hdr_chainId header),
       tm_encodeInt (hdr_height header), encodeTime (hdr_time header), tm_encodeInt (hdr_numTxs header),
       tm_encodeInt (hdr_totalTxs header), encodeBlockId (hdr_lastBlockId header)] @ hashes))"

definition hashBlock :: "(byte list \<Rightarrow> byte list) \<Rightarrow> string Header \<Rightarrow> byte list result" where
  "hashBlock sha header = andThen (encodedFields header) (hashTree sha)"

section \<open>Properties\<close>

text \<open>
  C5. The Merkle root binds the list: two lists of byte strings, of any lengths,
  with the same root are equal, unless SHA-256 collides on two of the byte
  strings that are hashed in computing the two roots. The tree has the list as
  its leaves, so leaves and inner nodes can not be confused.
\<close>

theorem merkle_root_binds:
  assumes "\<And>x. length (sha x) = 32"
    and "hashTree sha xs = ok h" "hashTree sha ys = ok h"
    and "inj_on sha (hashed sha (tree_of xs) \<union> hashed sha (tree_of ys))"
  shows "xs = ys"
proof -
  have "xs \<noteq> []" "ys \<noteq> []" using assms(2,3) by (auto simp: hashTree.simps)
  note t = hashTree_root [OF this(1), of sha] and u = hashTree_root [OF this(2), of sha]
  have "tree_of xs = tree_of ys"
    using assms(1,4) by (rule root_injective) (use assms(2,3) t u in simp)
  with t u show ?thesis by metis
qed

lemma merkle_root_binds_witness:
  "hashTree (\<lambda>x. take 32 (x @ replicate 32 0)) [[1], [2]] \<noteq> hashTree (\<lambda>x. take 32 (x @ replicate 32 0)) [[2], [1]]"
proof
  let ?sha = "\<lambda>x. take 32 (x @ replicate 32 0) :: byte list"
  have split: "getSplitPoint 2 = ok 1" by (simp add: getSplitPoint_def floor_log2.simps)
  have tree: "tree_of [[a], [b]] = Node (Leaf [a]) (Leaf [b])" for a b
    using split by (simp add: tree_of.simps [of "[[a], [b]]"] tree_of.simps [of "[[a]]"] tree_of.simps [of "[[b]]"]
        numeral_2_eq_2 Let_def)
  have "inj_on ?sha (hashed ?sha (tree_of [[1], [2]]) \<union> hashed ?sha (tree_of [[2], [1]]))"
    by (auto simp: inj_on_def tree numeral_eq_Suc)
  moreover obtain h where "hashTree ?sha [[1], [2]] = ok h" using hashTree_root [of "[[1], [2]]" ?sha] by simp
  moreover assume "hashTree ?sha [[1], [2]] = hashTree ?sha [[2], [1]]"
  ultimately have "[[1], [2]] = [[2], [1 :: byte]]" by (intro merkle_root_binds [of ?sha _ h]) simp_all
  then show False by simp
qed

text \<open>
  Integers below $2^{31}$ are encoded as variable length integers: a decoder
  that reads seven bits per byte gets the number back and stops at its end.
\<close>

lemma encodeInt_is_varint:
  assumes "0 \<le> n" "n < 2 ^ 31"
  shows "decodeVarint (tm_encodeInt n @ rest) = Some (n, rest)"
  using decode_encodeInt [OF assms] .

text \<open>
  From $2^{31}$ on the shift operator makes the number negative and the
  encoding is wrong. The seconds of a block time reach this value on 19 January
  2038: no time in the 68 years from then on is encoded so that its seconds can
  be read back.
\<close>

lemma time_after_2038_wrong:
  assumes "2 ^ 31 \<le> time_ms t div 1000" "time_ms t div 1000 < 2 ^ 32"
  shows "\<exists>bytes. encodeTime t = 0x08 # bytes \<and> (\<forall>rest. decodeVarint bytes \<noteq> Some (time_ms t div 1000, rest))"
proof -
  define tail where "tail = (let nanoseconds = (case time_nanoseconds t of None \<Rightarrow> 0 | Some n \<Rightarrow> n)
      + js_rem (time_ms t) 1000 * 1000000 in if nanoseconds \<noteq> 0 then 0x10 # tm_encodeInt nanoseconds else [])"
  have "encodeTime t = 0x08 # tm_encodeInt (time_ms t div 1000) @ tail"
    using assms(1) by (simp add: encodeTime_def tail_def Let_def)
  moreover have "tail = [] \<or> (\<exists>r. tail = 0x10 # r)" by (simp add: tail_def Let_def)
  ultimately show ?thesis using encodeInt_wraps [OF assms] by blast
qed

end
