(* ===== verification/Crypto_Slip10.thy ===== *)
theory Crypto_Slip10
  imports Iov_Integers
begin

unbundle bit_operations_syntax

text \<open>
  \<open>packages/iov-crypto/src/hmac.ts\<close>, \<open>sha.ts\<close>, \<open>slip10.ts\<close> and
  \<open>packages/iov-keycontrol/src/hdpaths.ts\<close>: HMAC over an incremental hash function,
  the derivation of private keys along a path (SLIP-0010) and the paths used by
  the wallets. The package sha.js is the parameter \<open>shajs\<close> (a hash function
  object), bn.js and the curve of the package elliptic are \<open>slip10_lib\<close>.

  \<open>Slip10.master\<close> and \<open>Slip10.childImpl\<close> call themselves until a digest is a valid
  key; they are partial functions, and \<open>None\<close> is a call that does not return.
  The lemmas give the exact condition under which they return, and the value.
\<close>

section \<open>Hash functions\<close>

text \<open>The interface \<open>HashFunction\<close>, with the call of its constructor.\<close>

record 'h HashFunction =
  hf_blockSize :: nat
  hf_new :: 'h
  hf_update :: "'h \<Rightarrow> byte list \<Rightarrow> 'h"
  hf_digest :: "'h \<Rightarrow> byte list"

text \<open>What the package sha.js gives: \<open>shajs(name)\<close>, \<open>update\<close> and \<open>digest\<close>.\<close>

record 'i sha_lib =
  sha_create :: "string \<Rightarrow> 'i"
  sha_update :: "'i \<Rightarrow> byte list \<Rightarrow> 'i"
  sha_digest :: "'i \<Rightarrow> byte list"

definition Sha256 :: "'i sha_lib \<Rightarrow> 'i HashFunction" where
  "Sha256 S = \<lparr>hf_blockSize = 512 div 8, hf_new = sha_create S ''sha256'',
     hf_update = sha_update S, hf_digest = sha_digest S\<rparr>"

definition Sha512 :: "'i sha_lib \<Rightarrow> 'i HashFunction" where
  "Sha512 S = \<lparr>hf_blockSize = 1024 div 8, hf_new = sha_create S ''sha512'',
     hf_update = sha_update S, hf_digest = sha_digest S\<rparr>"

definition digest_with :: "'h HashFunction \<Rightarrow> byte list \<Rightarrow> byte list" where
  "digest_with H data = hf_digest H (hf_update H (hf_new H) data)"

text \<open>
  The law of an incremental hash function: whatever the chunks, the digest is
  the hash of their concatenation.
\<close>

definition incremental :: "'h HashFunction \<Rightarrow> (byte list \<Rightarrow> byte list) \<Rightarrow> bool" where
  "incremental H hash \<longleftrightarrow>
     (\<forall>chunks. hf_digest H (foldl (hf_update H) (hf_new H) chunks) = hash (concat chunks))"

section \<open>Hmac\<close>

record 'h Hmac =
  hm_blockSize :: nat
  hm_messageHasher :: 'h
  hm_oKeyPad :: "byte list"
  hm_iKeyPad :: "byte list"

definition Hmac_update :: "'h HashFunction \<Rightarrow> 'h Hmac \<Rightarrow> byte list \<Rightarrow> 'h Hmac" where
  "Hmac_update H m data = m\<lparr>hm_messageHasher := hf_update H (hm_messageHasher m) data\<rparr>"

definition new_Hmac :: "'h HashFunction \<Rightarrow> byte list \<Rightarrow> 'h Hmac" where
  "new_Hmac H originalKey =
     (let blockSize = hf_blockSize H;
          key = originalKey;
          key = (if length key > blockSize then digest_with H key else key);
          key = (if length key < blockSize then key @ replicate (blockSize - length key) 0 else key);
          m = \<lparr>hm_blockSize = blockSize, hm_messageHasher = hf_new H,
               hm_oKeyPad = map (\<lambda>keyByte. keyByte XOR 0x5c) key,
               hm_iKeyPad = map (\<lambda>keyByte. keyByte XOR 0x36) key\<rparr>
      in Hmac_update H m (hm_iKeyPad m))"

definition Hmac_digest :: "'h HashFunction \<Rightarrow> 'h Hmac \<Rightarrow> byte list" where
  "Hmac_digest H m = (let innerHash = hf_digest H (hm_messageHasher m) in digest_with H (hm_oKeyPad m @ innerHash))"

text \<open>\<open>Hmac\<close> is a hash function again, for every key.\<close>

definition HmacFunction :: "'h HashFunction \<Rightarrow> byte list \<Rightarrow> 'h Hmac HashFunction" where
  "HmacFunction H key = \<lparr>hf_blockSize = hf_blockSize H, hf_new = new_Hmac H key,
     hf_update = Hmac_update H, hf_digest = Hmac_digest H\<rparr>"

text \<open>The definition of HMAC (RFC 2104) for a hash function on whole messages.\<close>

definition hmac_key :: "(byte list \<Rightarrow> byte list) \<Rightarrow> nat \<Rightarrow> byte list \<Rightarrow> byte list" where
  "hmac_key hash blockSize key =
     (let k = (if length key > blockSize then hash key else key) in k @ replicate (blockSize - length k) 0)"

definition hmac :: "(byte list \<Rightarrow> byte list) \<Rightarrow> nat \<Rightarrow> byte list \<Rightarrow> byte list \<Rightarrow> byte list" where
  "hmac hash blockSize key message =
     (let k = hmac_key hash blockSize key
      in hash (map (\<lambda>b. b XOR 0x5c) k @ hash (map (\<lambda>b. b XOR 0x36) k @ message)))"

lemma digest_with_incremental: "incremental H hash \<Longrightarrow> digest_with H data = hash data"
  unfolding incremental_def digest_with_def by (drule spec [of _ "[data]"]) simp

lemma hasher_updates:
  "hm_messageHasher (foldl (Hmac_update H) m chunks) = foldl (hf_update H) (hm_messageHasher m) chunks"
  "hm_oKeyPad (foldl (Hmac_update H) m chunks) = hm_oKeyPad m"
  by (induction chunks arbitrary: m) (simp_all add: Hmac_update_def)

lemma new_Hmac_parts:
  assumes "incremental H hash"
  shows "hm_messageHasher (new_Hmac H key)
      = hf_update H (hf_new H) (map (\<lambda>b. b XOR 0x36) (hmac_key hash (hf_blockSize H) key))"
    and "hm_oKeyPad (new_Hmac H key) = map (\<lambda>b. b XOR 0x5c) (hmac_key hash (hf_blockSize H) key)"
  by (simp_all add: new_Hmac_def Hmac_update_def hmac_key_def Let_def digest_with_incremental [OF assms])

lemma Hmac_incremental:
  assumes "incremental H hash"
  shows "incremental (HmacFunction H key) (hmac hash (hf_blockSize H) key)"
  unfolding incremental_def
proof
  fix chunks
  let ?pad = "map (\<lambda>b. b XOR 0x36) (hmac_key hash (hf_blockSize H) key)"
  have "hf_digest H (foldl (hf_update H) (hf_new H) (?pad # chunks)) = hash (concat (?pad # chunks))"
    using assms unfolding incremental_def by blast
  then show "hf_digest (HmacFunction H key)
      (foldl (hf_update (HmacFunction H key)) (hf_new (HmacFunction H key)) chunks)
      = hmac hash (hf_blockSize H) key (concat chunks)"
    by (simp add: HmacFunction_def Hmac_digest_def hasher_updates new_Hmac_parts [OF assms] hmac_def Let_def
        digest_with_incremental [OF assms])
qed

section \<open>Slip10\<close>

record Slip10Result =
  s10_chainCode :: "byte list"
  s10_privkey :: "byte list"

datatype Slip10Curve = CurveSecp256k1 | CurveEd25519

text \<open>The values of the enum are the strings of the master key generation.\<close>

primrec curve_string :: "Slip10Curve \<Rightarrow> string" where
  "curve_string CurveSecp256k1 = ''Bitcoin seed''"
| "curve_string CurveEd25519 = ''ed25519 seed''"

definition slip10CurveFromString :: "string \<Rightarrow> Slip10Curve result" where
  "slip10CurveFromString curveString =
     (if curveString = curve_string CurveEd25519 then ok CurveEd25519
      else if curveString = curve_string CurveSecp256k1 then ok CurveSecp256k1
      else throw ''Unknown curve string'')"

text \<open>
  \<open>Slip10RawIndex\<close> extends \<open>Uint32\<close>. The index is a number whose sum with
  \<open>2\<^sup>3\<^sup>1\<close> is exact, i.e. an integer of at most 53 bits.
\<close>

type_synonym Slip10RawIndex = Uint32

definition hardened :: "int \<Rightarrow> Slip10RawIndex result" where
  "hardened hardenedIndex = new_Uint32 (int_num (hardenedIndex + 2 ^ 31))"

definition normal :: "int \<Rightarrow> Slip10RawIndex result" where
  "normal normalIndex = new_Uint32 (int_num normalIndex)"

definition isHardened :: "Slip10RawIndex \<Rightarrow> bool" where
  "isHardened index \<longleftrightarrow> u32_data index \<ge> 2 ^ 31"

text \<open>
  The packages: \<open>new BN(text, 16)\<close> and the compressed multiple of the generator
  of secp256k1, printed in hex.
\<close>

record slip10_lib = bn_lib +
  bn_fromHexString :: "string \<Rightarrow> int"
  g_mul_encodeCompressed :: "int \<Rightarrow> string"

definition curve_n :: "'a slip10_lib_scheme \<Rightarrow> Slip10Curve \<Rightarrow> int result" where
  "curve_n L curve = (case curve of
     CurveSecp256k1 \<Rightarrow> ok (bn_fromHexString L ''FFFFFFFFFFFFFFFFFFFFFFFFFFFFFFFEBAAEDCE6AF48A03BBFD25E8CD0364141'')
   | CurveEd25519 \<Rightarrow> throw ''curve not supported'')"

definition isZero :: "byte list \<Rightarrow> bool" where
  "isZero privkey = list_all (\<lambda>byte. byte = 0) privkey"

definition isGteN :: "'a slip10_lib_scheme \<Rightarrow> Slip10Curve \<Rightarrow> byte list \<Rightarrow> bool result" where
  "isGteN L curve privkey = andThen (curve_n L curve) (\<lambda>n. ok (bn_gte L (bn_fromBytes L privkey) n))"

definition serializedPoint :: "'a slip10_lib_scheme \<Rightarrow> Slip10Curve \<Rightarrow> int \<Rightarrow> byte list result" where
  "serializedPoint L curve p = (case curve of
     CurveSecp256k1 \<Rightarrow> fromHex (g_mul_encodeCompressed L p)
   | CurveEd25519 \<Rightarrow> throw ''curve not supported'')"

text \<open>\<open>new Hmac(Sha512, key).update(data).digest()\<close>; the class \<open>Sha512\<close> is \<open>H\<close>.\<close>

definition hmacSha512 :: "'h HashFunction \<Rightarrow> byte list \<Rightarrow> byte list \<Rightarrow> byte list" where
  "hmacSha512 H key data = Hmac_digest H (Hmac_update H (new_Hmac H key) data)"

text \<open>Whether \<open>master\<close> tries again with the digest as the new seed.\<close>

definition master_retry :: "'a slip10_lib_scheme \<Rightarrow> Slip10Curve \<Rightarrow> byte list \<Rightarrow> bool result" where
  "master_retry L curve il =
     (if curve \<noteq> CurveEd25519 then (if isZero il then ok True else isGteN L curve il) else ok False)"

partial_function (option) Slip10_master ::
  "'a slip10_lib_scheme \<Rightarrow> 'h HashFunction \<Rightarrow> Slip10Curve \<Rightarrow> byte list \<Rightarrow> Slip10Result result option" where
  "Slip10_master L H curve seed = (case toAscii (curve_string curve) of
     Inl e \<Rightarrow> Some (throw e)
   | Inr key \<Rightarrow>
       (case master_retry L curve (slice 0 32 (hmacSha512 H key seed)) of
          Inl e \<Rightarrow> Some (throw e)
        | Inr retry \<Rightarrow>
            if retry then Slip10_master L H curve (hmacSha512 H key seed)
            else Some (ok \<lparr>s10_chainCode = slice 32 64 (hmacSha512 H key seed),
                           s10_privkey = slice 0 32 (hmacSha512 H key seed)\<rparr>)))"

text \<open>Step 5 of the private child key derivation, and the test of step 6.\<close>

definition childKey :: "'a slip10_lib_scheme \<Rightarrow> Slip10Curve \<Rightarrow> byte list \<Rightarrow> byte list \<Rightarrow> (byte list \<times> bool) result" where
  "childKey L curve parentPrivkey il =
     andThen (curve_n L curve) (\<lambda>n.
     andThen (bn_assert (bn_toArrayBE L
       (bn_mod L (bn_add L (bn_fromBytes L il) (bn_fromBytes L parentPrivkey)) n) 32)) (\<lambda>returnChildKey.
     andThen (isGteN L curve il) (\<lambda>gte.
     ok (returnChildKey, gte \<or> isZero returnChildKey))))"

partial_function (option) childImpl ::
  "'a slip10_lib_scheme \<Rightarrow> 'h HashFunction \<Rightarrow> Slip10Curve \<Rightarrow> byte list \<Rightarrow> byte list \<Rightarrow> Slip10RawIndex \<Rightarrow> byte list
    \<Rightarrow> Slip10Result result option" where
  "childImpl L H curve parentPrivkey parentChainCode rawIndex i =
     (if curve = CurveEd25519
      then Some (ok \<lparr>s10_chainCode = slice 32 64 i, s10_privkey = slice 0 32 i\<rparr>)
      else (case childKey L curve parentPrivkey (slice 0 32 i) of
          Inl e \<Rightarrow> Some (throw e)
        | Inr (returnChildKey, retry) \<Rightarrow>
            if retry
            then childImpl L H curve parentPrivkey parentChainCode rawIndex
              (hmacSha512 H parentChainCode ([0x01] @ slice 32 64 i @ Uint32_toBytesBigEndian rawIndex))
            else Some (ok \<lparr>s10_chainCode = slice 32 64 i, s10_privkey = returnChildKey\<rparr>)))"

definition child :: "'a slip10_lib_scheme \<Rightarrow> 'h HashFunction \<Rightarrow> Slip10Curve \<Rightarrow> byte list \<Rightarrow> byte list \<Rightarrow> Slip10RawIndex
    \<Rightarrow> Slip10Result result option" where
  "child L H curve parentPrivkey parentChainCode rawIndex =
     (case
        (if isHardened rawIndex
         then ok (hmacSha512 H parentChainCode ([0x00] @ parentPrivkey @ Uint32_toBytesBigEndian rawIndex))
         else if curve = CurveEd25519 then throw ''Normal keys are not allowed with ed25519''
         else andThen (serializedPoint L curve (bn_fromBytes L parentPrivkey)) (\<lambda>point.
           ok (hmacSha512 H parentChainCode (point @ Uint32_toBytesBigEndian rawIndex))))
      of Inl e \<Rightarrow> Some (throw e)
       | Inr i \<Rightarrow> childImpl L H curve parentPrivkey parentChainCode rawIndex i)"

text \<open>The loop of \<open>derivePath\<close> over the path.\<close>

primrec derive_from :: "'a slip10_lib_scheme \<Rightarrow> 'h HashFunction \<Rightarrow> Slip10Curve \<Rightarrow> Slip10RawIndex list
    \<Rightarrow> Slip10Result \<Rightarrow> Slip10Result result option" where
  "derive_from L H curve [] r = Some (ok r)"
| "derive_from L H curve (rawIndex # path) r =
     (case child L H curve (s10_privkey r) (s10_chainCode r) rawIndex of
        None \<Rightarrow> None
      | Some (Inl e) \<Rightarrow> Some (throw e)
      | Some (Inr r') \<Rightarrow> derive_from L H curve path r')"

definition derivePath :: "'a slip10_lib_scheme \<Rightarrow> 'h HashFunction \<Rightarrow> Slip10Curve \<Rightarrow> byte list
    \<Rightarrow> Slip10RawIndex list \<Rightarrow> Slip10Result result option" where
  "derivePath L H curve seed path = (case Slip10_master L H curve seed of
     None \<Rightarrow> None
   | Some (Inl e) \<Rightarrow> Some (throw e)
   | Some (Inr r) \<Rightarrow> derive_from L H curve path r)"

section \<open>Loops that try again\<close>

text \<open>
  Both recursions test a value, try again with the next one, or are done. The
  relation gives the runs that return.
\<close>

inductive retries :: "('a \<Rightarrow> bool result) \<Rightarrow> ('a \<Rightarrow> 'a) \<Rightarrow> ('a \<Rightarrow> 'b) \<Rightarrow> 'a \<Rightarrow> 'b result \<Rightarrow> bool"
  for test :: "'a \<Rightarrow> bool result" and "next" :: "'a \<Rightarrow> 'a" and "done" :: "'a \<Rightarrow> 'b"
where
  fails: "test x = Inl e \<Longrightarrow> retries test next done x (throw e)"
| stops: "test x = Inr False \<Longrightarrow> retries test next done x (ok (done x))"
| again: "test x = Inr True \<Longrightarrow> retries test next done (next x) y \<Longrightarrow> retries test next done x y"

inductive_cases retries_okE: "retries test next done x (ok y)"

lemma retries_stopsI: "test x = Inr False \<Longrightarrow> y = done x \<Longrightarrow> retries test next done x (ok y)"
  by (simp add: retries.stops)

lemma retries_shift:
  "retries test next done ((next ^^ k) x) y \<Longrightarrow> (\<And>j. j < k \<Longrightarrow> test ((next ^^ j) x) = Inr True) \<Longrightarrow>
   retries test next done x y"
proof (induction k arbitrary: y)
  case (Suc k)
  have "test ((next ^^ k) x) = Inr True" using Suc.prems(2) by simp
  moreover have "retries test next done (next ((next ^^ k) x)) y" using Suc.prems(1) by simp
  ultimately have "retries test next done ((next ^^ k) x) y" by (rule retries.again)
  then show ?case using Suc.prems(2) by (rule Suc.IH) simp
qed simp

lemma retries_ok_iff:
  "retries test next done x (ok y) \<longleftrightarrow>
     (\<exists>k. (\<forall>j < k. test ((next ^^ j) x) = Inr True) \<and> test ((next ^^ k) x) = Inr False \<and> y = done ((next ^^ k) x))"
  (is "?A x \<longleftrightarrow> ?B x")
proof
  assume "?A x"
  then show "?B x"
  proof (induction x "ok y :: 'b result" rule: retries.induct)
    case (stops x)
    then show ?case by (intro exI [of _ 0]) simp
  next
    case (again x)
    then obtain k where "\<forall>j < k. test ((next ^^ j) (next x)) = Inr True"
        "test ((next ^^ k) (next x)) = Inr False" "y = done ((next ^^ k) (next x))" by blast
    moreover have "test ((next ^^ j) x) = Inr True" if "j < Suc k" for j
      using that again.hyps(1) calculation(1) by (cases j) (simp_all add: funpow_Suc_right del: funpow.simps)
    ultimately show ?case by (intro exI [of _ "Suc k"]) (simp add: funpow_Suc_right del: funpow.simps)
  qed
next
  assume "?B x"
  then obtain k where k: "\<And>j. j < k \<Longrightarrow> test ((next ^^ j) x) = Inr True"
    "test ((next ^^ k) x) = Inr False" "y = done ((next ^^ k) x)" by blast
  from retries.stops [of test, OF k(2)] k(1) show "?A x" unfolding k(3) by (rule retries_shift)
qed

text \<open>The two recursions are such loops.\<close>

definition master_split :: "byte list \<Rightarrow> Slip10Result" where
  "master_split i = \<lparr>s10_chainCode = slice 32 64 i, s10_privkey = slice 0 32 i\<rparr>"

lemma toAscii_curve: "\<exists>key. toAscii (curve_string curve) = ok key"
  by (cases curve) (auto simp: toAscii_iff printable_def)

definition curve_key :: "Slip10Curve \<Rightarrow> byte list" where
  "curve_key curve = projr (toAscii (curve_string curve))"

lemma toAscii_curve_key: "toAscii (curve_string curve) = ok (curve_key curve)"
  using toAscii_curve [of curve] by (auto simp: curve_key_def)


lemma master_unfold:
  "Slip10_master L H curve seed =
    (case master_retry L curve (slice 0 32 (hmacSha512 H (curve_key curve) seed)) of
       Inl e \<Rightarrow> Some (throw e)
     | Inr retry \<Rightarrow>
         if retry then Slip10_master L H curve (hmacSha512 H (curve_key curve) seed)
         else Some (ok (master_split (hmacSha512 H (curve_key curve) seed))))"
  unfolding master_split_def by (subst Slip10_master.simps) (simp only: toAscii_curve_key sum.case)

lemma master_run:
  "Slip10_master L H curve seed = Some r \<longleftrightarrow>
   retries (\<lambda>seed. master_retry L curve (slice 0 32 (hmacSha512 H (curve_key curve) seed)))
     (hmacSha512 H (curve_key curve)) (\<lambda>seed. master_split (hmacSha512 H (curve_key curve) seed)) seed r"
  (is "_ \<longleftrightarrow> ?R seed r")
proof
  show "?R seed r" if "Slip10_master L H curve seed = Some r"
    using that
    by (induction rule: Slip10_master.raw_induct [rotated, consumes 1])
       (unfold toAscii_curve_key, auto simp: master_split_def split: sum.splits if_splits intro: retries.intros)
next
  show "Slip10_master L H curve seed = Some r" if "?R seed r"
    using that by (induction rule: retries.induct) (subst master_unfold, simp)+
qed

lemma childImpl_unfold:
  "childImpl L H CurveSecp256k1 parent chainCode index i =
    (case childKey L CurveSecp256k1 parent (slice 0 32 i) of
       Inl e \<Rightarrow> Some (throw e)
     | Inr (key, retry) \<Rightarrow>
         if retry then childImpl L H CurveSecp256k1 parent chainCode index
              (hmacSha512 H chainCode ([0x01] @ slice 32 64 i @ Uint32_toBytesBigEndian index))
         else Some (ok \<lparr>s10_chainCode = slice 32 64 i, s10_privkey = key\<rparr>))"
  by (subst childImpl.simps) simp

lemma childImpl_run:
  "childImpl L H CurveSecp256k1 parent chainCode index i = Some r \<longleftrightarrow>
   retries (\<lambda>i. map_sum id snd (childKey L CurveSecp256k1 parent (slice 0 32 i)))
     (\<lambda>i. hmacSha512 H chainCode ([0x01] @ slice 32 64 i @ Uint32_toBytesBigEndian index))
     (\<lambda>i. \<lparr>s10_chainCode = slice 32 64 i, s10_privkey = fst (projr (childKey L CurveSecp256k1 parent (slice 0 32 i)))\<rparr>)
     i r"
  (is "_ \<longleftrightarrow> ?R i r")
proof
  have "curve = CurveSecp256k1 \<longrightarrow>
     retries (\<lambda>i. map_sum id snd (childKey L CurveSecp256k1 parent (slice 0 32 i)))
     (\<lambda>i. hmacSha512 H chainCode ([0x01] @ slice 32 64 i @ Uint32_toBytesBigEndian index))
     (\<lambda>i. \<lparr>s10_chainCode = slice 32 64 i, s10_privkey = fst (projr (childKey L CurveSecp256k1 parent (slice 0 32 i)))\<rparr>)
     i r" if "childImpl L H curve parent chainCode index i = Some r" for curve
    using that
    by (induction rule: childImpl.raw_induct [rotated, consumes 1])
       (auto split: sum.splits prod.splits if_splits intro: retries.fails retries_stopsI retries.again)
  then show "?R i r" if "childImpl L H CurveSecp256k1 parent chainCode index i = Some r" using that by blast
next
  show "childImpl L H CurveSecp256k1 parent chainCode index i = Some r" if "?R i r"
    using that
  proof (induction rule: retries.induct)
    case (fails i e)
    then show ?case unfolding childImpl_unfold [of _ _ _ _ _ i] by (cases "childKey L CurveSecp256k1 parent (slice 0 32 i)") auto
  next
    case (stops i)
    then obtain key where "childKey L CurveSecp256k1 parent (slice 0 32 i) = ok (key, False)"
      by (cases "childKey L CurveSecp256k1 parent (slice 0 32 i)") auto
    then show ?case by (subst childImpl_unfold) simp
  next
    case (again i y)
    then obtain key where "childKey L CurveSecp256k1 parent (slice 0 32 i) = ok (key, True)"
      by (cases "childKey L CurveSecp256k1 parent (slice 0 32 i)") auto
    with again show ?case by (subst childImpl_unfold) simp
  qed
qed

section \<open>Private keys of the curve\<close>

definition secp256k1_order :: int where
  "secp256k1_order = 0xFFFFFFFFFFFFFFFFFFFFFFFFFFFFFFFEBAAEDCE6AF48A03BBFD25E8CD0364141"

definition valid_privkey :: "byte list \<Rightarrow> bool" where
  "valid_privkey k \<longleftrightarrow> length k = 32 \<and> 0 < be_value k \<and> be_value k < secp256k1_order"

text \<open>
  The documented behaviour of the packages: hexadecimal strings are read as
  such, and a point of the curve is printed in hex.
\<close>

definition slip10_laws :: "'a slip10_lib_scheme \<Rightarrow> bool" where
  "slip10_laws L \<longleftrightarrow> bn_laws L \<and>
     (\<forall>s. list_all is_hex_digit s \<longrightarrow> bn_fromHexString L s = int (parse_base 16 s)) \<and>
     (\<forall>p. \<exists>bs. fromHex (g_mul_encodeCompressed L p) = ok bs)"

lemma curve_n_order:
  assumes "slip10_laws L"
  shows "curve_n L CurveSecp256k1 = ok secp256k1_order"
proof -
  have "int (parse_base 16 ''FFFFFFFFFFFFFFFFFFFFFFFFFFFFFFFEBAAEDCE6AF48A03BBFD25E8CD0364141'') = secp256k1_order"
    by (simp add: parse_base_def digit_val_def secp256k1_order_def)
  moreover have "list_all is_hex_digit ''FFFFFFFFFFFFFFFFFFFFFFFFFFFFFFFEBAAEDCE6AF48A03BBFD25E8CD0364141''"
    by code_simp
  ultimately show ?thesis using assms by (simp add: slip10_laws_def curve_n_def)
qed

lemma be_value_Cons: "be_value (b # bs) = uint b * 256 ^ length bs + be_value bs"
  by (induction bs rule: rev_induct) (simp_all add: be_value_def algebra_simps)

lemma isZero_iff: "isZero k \<longleftrightarrow> be_value k = 0"
proof (induction k)
  case (Cons b k)
  have "0 \<le> uint b * 256 ^ length k" by (simp add: uint_nonnegative)
  then have "be_value (b # k) = 0 \<longleftrightarrow> uint b = 0 \<and> be_value k = 0"
    using be_value_bounds [of k] by (auto simp: be_value_Cons add_nonneg_eq_0_iff)
  then show ?case using Cons by (simp add: isZero_def uint_0_iff)
qed (simp add: isZero_def)

lemma master_retry_secp256k1:
  assumes "slip10_laws L" "length il = 32"
  shows "master_retry L CurveSecp256k1 il = ok (\<not> valid_privkey il)"
  using assms be_value_bounds [of il]
  by (auto simp: master_retry_def isZero_iff isGteN_def curve_n_order valid_privkey_def slip10_laws_def
      bn_fromBytes bn_gte)

lemma childKey_secp256k1:
  assumes "slip10_laws L"
  shows "childKey L CurveSecp256k1 parent il = ok
    (be_bytes 32 ((be_value il + be_value parent) mod secp256k1_order),
     secp256k1_order \<le> be_value il \<or> (be_value il + be_value parent) mod secp256k1_order = 0)"
proof -
  let ?k = "(be_value il + be_value parent) mod secp256k1_order"
  have bn: "bn_laws L" using assms by (simp add: slip10_laws_def)
  have k: "0 \<le> ?k" "?k < 256 ^ 32" by (simp_all add: secp256k1_order_def order.strict_trans2 [OF pos_mod_bound])
  have "0 \<le> be_value il + be_value parent" using be_value_bounds [of il] be_value_bounds [of parent] by simp
  then have "bn_mod L (bn_add L (bn_fromBytes L il) (bn_fromBytes L parent)) secp256k1_order = ?k"
    by (simp add: bn_add [OF bn] bn_fromBytes [OF bn] bn_mod [OF bn] secp256k1_order_def)
  with k show ?thesis
    by (simp add: childKey_def curve_n_order [OF assms] bn_toArrayBE [OF bn] bn_assert_def isGteN_def
        bn_fromBytes [OF bn] bn_gte [OF bn] isZero_iff be_value_bytes)
qed

text \<open>Packages that satisfy the laws, and a hash function with a constant digest.\<close>

definition demo_slip10 :: slip10_lib where
  "demo_slip10 = bn_lib.extend bn_int \<lparr>bn_fromHexString = (\<lambda>s. int (parse_base 16 s)),
     g_mul_encodeCompressed = (\<lambda>p. ''02'')\<rparr>"

lemma demo_slip10_laws: "slip10_laws demo_slip10"
proof -
  have "\<exists>bs. fromHex ''02'' = ok bs" by (intro exI [of _ "[2]"]) code_simp
  then show ?thesis unfolding slip10_laws_def demo_slip10_def
    by (simp add: bn_laws_extend) (simp add: bn_lib.defs)
qed

definition demo_hash :: "unit HashFunction" where
  "demo_hash = \<lparr>hf_blockSize = 128, hf_new = (), hf_update = (\<lambda>h data. ()), hf_digest = (\<lambda>h. replicate 64 1)\<rparr>"

lemma demo_hmac [simp]: "hmacSha512 demo_hash key data = replicate 64 1"
  by (simp add: hmacSha512_def Hmac_digest_def digest_with_def demo_hash_def)

lemma demo_digest [simp]: "length (digest_with demo_hash data) = 64"
  by (simp add: demo_hash_def digest_with_def)

lemma demo_value: "be_value (replicate 32 1) = 0x0101010101010101010101010101010101010101010101010101010101010101"
proof -
  have "replicate 32 (1 :: byte) = replicate (8 + 8 + 8 + 8) 1" by simp
  then show "be_value (replicate 32 1) = 0x0101010101010101010101010101010101010101010101010101010101010101"
    by (simp only: replicate_add) (simp add: be_value_def numeral_eq_Suc [of "Num.Bit0 (Num.Bit0 (Num.Bit0 Num.One))"] numeral_3_eq_3 eval_nat_numeral)
qed

lemma demo_key: "valid_privkey (replicate 32 1)"
  by (simp add: valid_privkey_def secp256k1_order_def demo_value)

section \<open>What the derivation returns\<close>

lemma length_hmacSha512: "(\<And>data. length (digest_with H data) = 64) \<Longrightarrow> length (hmacSha512 H key data) = 64"
  by (simp add: hmacSha512_def Hmac_digest_def Let_def)

lemma master_valid:
  assumes "slip10_laws L" "\<And>data. length (digest_with H data) = 64" "Slip10_master L H CurveSecp256k1 seed = Some (ok r)"
  shows "valid_privkey (s10_privkey r)"
  using assms(3) unfolding master_run retries_ok_iff
  by (auto simp: master_split_def slice_def length_hmacSha512 [OF assms(2)] master_retry_secp256k1 [OF assms(1)])

lemma childImpl_valid:
  assumes "slip10_laws L" "childImpl L H CurveSecp256k1 parent chainCode index i = Some (ok r)"
  shows "valid_privkey (s10_privkey r)"
proof -
  have "0 < secp256k1_order" "secp256k1_order \<le> 256 ^ 32" by (simp_all add: secp256k1_order_def)
  then have k: "0 \<le> x mod secp256k1_order" "x mod secp256k1_order < secp256k1_order" "x mod secp256k1_order < 256 ^ 32" for x
    using pos_mod_bound [of secp256k1_order x] by (simp, simp, linarith)
  obtain x where "s10_privkey r = be_bytes 32 (x mod secp256k1_order)" "x mod secp256k1_order \<noteq> 0"
    using assms(2) unfolding childImpl_run retries_ok_iff childKey_secp256k1 [OF assms(1)] by auto
  with k [of x] show ?thesis by (simp add: valid_privkey_def be_value_bytes)
qed

lemma child_valid:
  assumes "slip10_laws L" "child L H CurveSecp256k1 parent chainCode index = Some (ok r)"
  shows "valid_privkey (s10_privkey r)"
  using assms(2) by (auto simp: child_def split: sum.splits intro: childImpl_valid [OF assms(1)])

lemma derive_from_valid:
  "slip10_laws L \<Longrightarrow> valid_privkey (s10_privkey r) \<Longrightarrow> derive_from L H CurveSecp256k1 path r = Some (ok r') \<Longrightarrow>
   valid_privkey (s10_privkey r')"
proof (induction path arbitrary: r)
  case (Cons index path)
  then obtain q where "child L H CurveSecp256k1 (s10_privkey r) (s10_chainCode r) index = Some (ok q)"
      "derive_from L H CurveSecp256k1 path q = Some (ok r')"
    by (auto split: option.splits sum.splits)
  with Cons show ?case using child_valid by blast
qed simp

text \<open>For ed25519 nothing is tried again.\<close>

definition ed25519_child :: "'h HashFunction \<Rightarrow> Slip10Result \<Rightarrow> Slip10RawIndex \<Rightarrow> Slip10Result" where
  "ed25519_child H r index = master_split (hmacSha512 H (s10_chainCode r)
     ([0x00] @ s10_privkey r @ Uint32_toBytesBigEndian index))"

lemma derive_from_ed25519:
  "derive_from L H CurveEd25519 path r =
     Some (if list_all isHardened path then ok (foldl (ed25519_child H) r path)
           else throw ''Normal keys are not allowed with ed25519'')"
  by (induction path arbitrary: r)
     (auto simp: child_def childImpl.simps ed25519_child_def master_split_def)

text \<open>
  C20. Incremental HMAC: whatever the hash function, the key and the chunks in
  which the message arrives, the class \<open>Hmac\<close> computes HMAC as defined in
  RFC 2104 on the concatenated message, and longer or shorter keys are hashed
  or padded to the block size.
\<close>

theorem Hmac_computes_hmac:
  assumes "incremental H hash"
  shows "Hmac_digest H (foldl (Hmac_update H) (new_Hmac H key) chunks)
    = hmac hash (hf_blockSize H) key (concat chunks)"
  using Hmac_incremental [OF assms, of key] by (simp add: incremental_def HmacFunction_def)

lemma Hmac_computes_hmac_witness:
  "Hmac_digest \<lparr>hf_blockSize = 4, hf_new = [], hf_update = (@), hf_digest = take 2\<rparr>
     (foldl (Hmac_update \<lparr>hf_blockSize = 4, hf_new = [], hf_update = (@), hf_digest = take 2\<rparr>)
       (new_Hmac \<lparr>hf_blockSize = 4, hf_new = [], hf_update = (@), hf_digest = take 2\<rparr> [7]) [[1], [2, 3]])
   = hmac (take 2) 4 [7] [1, 2, 3]"
proof -
  have "foldl (@) xs chunks = xs @ concat chunks" for xs :: "byte list" and chunks
    by (induction chunks arbitrary: xs) simp_all
  then have "incremental \<lparr>hf_blockSize = 4, hf_new = [], hf_update = (@), hf_digest = take 2\<rparr> (take 2)"
    by (simp add: incremental_def)
  from Hmac_computes_hmac [OF this, of "[7]" "[[1], [2, 3]]"] show ?thesis by simp
qed

text \<open>
  C21. Derivation for ed25519 always returns: it throws if a component of the path
  is not hardened, and otherwise folds the SLIP-0010 child step over the path,
  starting from the HMAC of the seed under the key \<open>ed25519 seed\<close>.
\<close>

theorem derivePath_ed25519:
  "derivePath L H CurveEd25519 seed path = Some
     (if list_all isHardened path
      then ok (foldl (ed25519_child H)
        (master_split (hmacSha512 H (map ascii_byte ''ed25519 seed'') seed)) path)
      else throw ''Normal keys are not allowed with ed25519'')"
proof -
  have "curve_key CurveEd25519 = map ascii_byte ''ed25519 seed''"
    by (simp add: curve_key_def toAscii_ok printable_def)
  moreover have "Slip10_master L H CurveEd25519 seed = Some (ok (master_split (hmacSha512 H (curve_key CurveEd25519) seed)))"
    by (subst master_unfold) (simp add: master_retry_def)
  ultimately show ?thesis by (simp add: derivePath_def derive_from_ed25519)
qed

text \<open>
  The master key of secp256k1: the call returns if and only if some iterate
  of the HMAC starting from the seed has a left half that is a private key of
  the curve (not zero, below the order), and then the key is that of the first
  such iterate.
\<close>

lemma master_first_valid_key:
  assumes "slip10_laws L" "\<And>data. length (digest_with H data) = 64"
  shows "Slip10_master L H CurveSecp256k1 seed =
    (if \<exists>k. valid_privkey (slice 0 32 ((hmacSha512 H (curve_key CurveSecp256k1) ^^ Suc k) seed))
     then Some (ok (master_split ((hmacSha512 H (curve_key CurveSecp256k1) ^^
       Suc (LEAST k. valid_privkey (slice 0 32 ((hmacSha512 H (curve_key CurveSecp256k1) ^^ Suc k) seed)))) seed)))
     else None)"
  (is "_ = (if \<exists>k. ?P k then Some (ok (?R (LEAST k. ?P k))) else None)")
proof -
  let ?h = "hmacSha512 H (curve_key CurveSecp256k1)"
  have len: "length (slice 0 32 (?h x)) = 32" for x
    by (simp add: slice_def length_hmacSha512 [OF assms(2)])
  have run: "Slip10_master L H CurveSecp256k1 seed = Some (ok r) \<longleftrightarrow> (\<exists>k. (\<forall>j < k. \<not> ?P j) \<and> ?P k \<and> r = ?R k)" for r
    unfolding master_run retries_ok_iff by (simp add: master_retry_secp256k1 [OF assms(1) len])
  have no_error: "Slip10_master L H CurveSecp256k1 seed \<noteq> Some (throw e)" for e
  proof
    assume "Slip10_master L H CurveSecp256k1 seed = Some (throw e)"
    then show False unfolding master_run
      by (induction seed "throw e :: Slip10Result result" rule: retries.induct)
         (simp_all add: master_retry_secp256k1 [OF assms(1) len])
  qed
  show ?thesis
  proof (cases "\<exists>k. ?P k")
    case True
    then have "?P (LEAST k. ?P k)" "\<forall>j < (LEAST k. ?P k). \<not> ?P j"
      by (auto intro: LeastI_ex dest: not_less_Least)
    then have "Slip10_master L H CurveSecp256k1 seed = Some (ok (?R (LEAST k. ?P k)))" unfolding run by blast
    with True show ?thesis by simp
  next
    case False
    then have "Slip10_master L H CurveSecp256k1 seed \<noteq> Some (ok r)" for r unfolding run by blast
    with no_error have "Slip10_master L H CurveSecp256k1 seed = None"
      by (metis not_None_eq sum.exhaust)
    with False show ?thesis by simp
  qed
qed

text \<open>
  C24. The type of derived keys: whatever the seed and the path, a key that
  \<open>derivePath\<close> returns for secp256k1 is a private key of the curve, that is 32
  bytes with a value from 1 to the order of the curve minus 1.
\<close>

theorem derivePath_valid:
  assumes "slip10_laws L" "\<And>data. length (digest_with H data) = 64"
    and "derivePath L H CurveSecp256k1 seed path = Some (ok r)"
  shows "valid_privkey (s10_privkey r)"
  using assms(3) by (auto simp: derivePath_def split: option.splits sum.splits
      intro: derive_from_valid [OF assms(1)] master_valid [OF assms(1,2)])

lemma derivePath_valid_witness:
  "\<exists>r. derivePath demo_slip10 demo_hash CurveSecp256k1 [5] [] = Some (ok r) \<and> valid_privkey (s10_privkey r)"
proof -
  have "derivePath demo_slip10 demo_hash CurveSecp256k1 [5] [] = Some (ok (master_split (replicate 64 1)))"
    using demo_key by (simp add: derivePath_def master_unfold master_retry_secp256k1 [OF demo_slip10_laws] slice_def)
  with derivePath_valid [OF demo_slip10_laws demo_digest] show ?thesis by blast
qed

end
