(* ===== verification/Crypto_Keys.thy ===== *)
theory Crypto_Keys
  imports Crypto_Slip10 Crypto_Signature
begin

text \<open>
  \<open>packages/iov-crypto/src/secp256k1.ts\<close>, \<open>libsodium.ts\<close>, \<open>englishmnemonic.ts\<close>,
  \<open>bip39.ts\<close> and \<open>packages/iov-keycontrol/src/hdpaths.ts\<close>: key pairs, signatures,
  mnemonics and derivation paths. The packages elliptic, libsodium, bip39,
  pbkdf2, unorm and js-sha3 are the parameter \<open>crypto_lib\<close>; \<open>'h\<close> is the state of
  a hash object of sha.js. The lemmas show which keys are accepted, and that a
  signature still verifies after the fixed length form has been written,
  trimmed and read again.
\<close>

section \<open>The packages\<close>

record Ed25519Keypair =
  kp_privkey :: "byte list"
  kp_pubkey :: "byte list"

record 'h crypto_lib = slip10_lib +
  cl_sha :: "'h sha_lib"
  cl_keccak256 :: "byte list \<Rightarrow> byte list"
  bn_toArray :: "int \<Rightarrow> byte list"
  ec_validate :: "byte list \<Rightarrow> bool"
  ec_getPrivate :: "byte list \<Rightarrow> string"
  ec_getPublic :: "byte list \<Rightarrow> string"
  ec_sign :: "byte list \<Rightarrow> byte list \<Rightarrow> int \<times> int \<times> number"
  ec_keyFromPublic :: "byte list \<Rightarrow> byte list result"
  ec_verify :: "byte list \<Rightarrow> byte list \<Rightarrow> byte list \<Rightarrow> bool result"
  ec_recoverPubKey :: "byte list \<Rightarrow> string \<Rightarrow> string \<Rightarrow> number \<Rightarrow> string result"
  ec_encodeCompressed :: "byte list \<Rightarrow> byte list"
  sodium_sign_seed_keypair :: "byte list \<Rightarrow> byte list result"
  sodium_sign_detached :: "byte list \<Rightarrow> byte list \<Rightarrow> byte list result"
  sodium_verify_detached :: "byte list \<Rightarrow> byte list \<Rightarrow> byte list \<Rightarrow> bool result"
  sodium_pwhash :: "nat \<Rightarrow> string \<Rightarrow> byte list \<Rightarrow> nat \<Rightarrow> nat \<Rightarrow> byte list result"
  sodium_aead_encrypt :: "byte list \<Rightarrow> byte list \<Rightarrow> byte list \<Rightarrow> byte list result"
  sodium_aead_decrypt :: "byte list \<Rightarrow> byte list \<Rightarrow> byte list \<Rightarrow> byte list result"
  bip39_wordlist :: "string list"
  bip39_mnemonicToEntropy :: "string \<Rightarrow> string result"
  bip39_entropyToMnemonic :: "string \<Rightarrow> string"
  unorm_nfkd :: "string \<Rightarrow> string"
  cl_utf8 :: "string \<Rightarrow> byte list"
  cl_pbkdf2 :: "byte list \<Rightarrow> byte list \<Rightarrow> nat \<Rightarrow> nat \<Rightarrow> string \<Rightarrow> byte list result"

section \<open>Secp256k1\<close>

definition secp256k1N :: "('h, 'a) crypto_lib_scheme \<Rightarrow> int" where
  "secp256k1N L = bn_fromHexString L ''FFFFFFFFFFFFFFFFFFFFFFFFFFFFFFFEBAAEDCE6AF48A03BBFD25E8CD0364141''"

text \<open>A keypair of either curve is the pair of its byte strings.\<close>

definition Secp256k1_makeKeypair :: "('h, 'a) crypto_lib_scheme \<Rightarrow> byte list \<Rightarrow> Ed25519Keypair result" where
  "Secp256k1_makeKeypair L privkey =
     (if length privkey \<noteq> 32 then throw ''input data is not a valid secp256k1 private key''
      else if \<not> ec_validate L privkey then throw ''input data is not a valid secp256k1 private key''
      else if bn_gte L (bn_fromBytes L privkey) (secp256k1N L)
      then throw ''input data is not a valid secp256k1 private key''
      else andThen (fromHex (ec_getPrivate L privkey)) (\<lambda>priv.
        andThen (fromHex (ec_getPublic L privkey)) (\<lambda>pub.
        ok \<lparr>kp_privkey = priv, kp_pubkey = pub\<rparr>)))"

definition check_messageHash :: "byte list \<Rightarrow> unit result" where
  "check_messageHash messageHash =
     (if length messageHash = 0 then throw ''Message hash must not be empty''
      else if length messageHash > 32 then throw ''Message hash length must not exceed 32 bytes''
      else ok ())"

definition Secp256k1_createSignature ::
  "('h, 'a) crypto_lib_scheme \<Rightarrow> byte list \<Rightarrow> byte list \<Rightarrow> ExtendedSecp256k1Signature result" where
  "Secp256k1_createSignature L messageHash privkey =
     andThen (check_messageHash messageHash) (\<lambda>_.
     case ec_sign L messageHash privkey of (r, s, recoveryParam) \<Rightarrow>
       new_ExtendedSecp256k1Signature (bn_toArray L r) (bn_toArray L s) recoveryParam)"

definition Secp256k1_verifySignature ::
  "('h, 'a) crypto_lib_scheme \<Rightarrow> 'b Secp256k1Signature_scheme \<Rightarrow> byte list \<Rightarrow> byte list \<Rightarrow> bool result" where
  "Secp256k1_verifySignature L signature messageHash pubkey =
     andThen (check_messageHash messageHash) (\<lambda>_.
     andThen (ec_keyFromPublic L pubkey) (\<lambda>keypair.
     case ec_verify L keypair messageHash (toDer signature) of
       Inl error \<Rightarrow> ok False
     | Inr b \<Rightarrow> ok b))"

definition recoverPubkey ::
  "('h, 'a) crypto_lib_scheme \<Rightarrow> ExtendedSecp256k1Signature \<Rightarrow> byte list \<Rightarrow> byte list result" where
  "recoverPubkey L signature messageHash =
     andThen (Secp256k1Signature_r signature None) (\<lambda>r.
     andThen (Secp256k1Signature_s signature None) (\<lambda>s.
     andThen (ec_recoverPubKey L messageHash (toHex r) (toHex s) (recovery signature)) fromHex))"

definition compressPubkey :: "('h, 'a) crypto_lib_scheme \<Rightarrow> byte list \<Rightarrow> byte list result" where
  "compressPubkey L pubkey =
     (if length pubkey = 33 then ok pubkey
      else if length pubkey = 65
      then andThen (ec_keyFromPublic L pubkey) (\<lambda>keypair. ok (ec_encodeCompressed L keypair))
      else throw ''Invalid pubkey length'')"

definition trimRecoveryByte :: "byte list \<Rightarrow> byte list result" where
  "trimRecoveryByte signature =
     (if length signature = 64 then ok signature
      else if length signature = 65 then ok (slice 0 64 signature)
      else throw ''Invalid signature length'')"

section \<open>Ed25519\<close>

definition fromLibsodiumPrivkey :: "byte list \<Rightarrow> Ed25519Keypair result" where
  "fromLibsodiumPrivkey libsodiumPrivkey =
     (if length libsodiumPrivkey \<noteq> 64 then throw ''Unexpected key length. Must be 64.''
      else ok \<lparr>kp_privkey = slice 0 32 libsodiumPrivkey, kp_pubkey = slice 32 64 libsodiumPrivkey\<rparr>)"

definition toLibsodiumPrivkey :: "Ed25519Keypair \<Rightarrow> byte list" where
  "toLibsodiumPrivkey keypair = kp_privkey keypair @ kp_pubkey keypair"

definition Ed25519_makeKeypair :: "('h, 'a) crypto_lib_scheme \<Rightarrow> byte list \<Rightarrow> Ed25519Keypair result" where
  "Ed25519_makeKeypair L seed = andThen (sodium_sign_seed_keypair L seed) fromLibsodiumPrivkey"

definition Ed25519_createSignature ::
  "('h, 'a) crypto_lib_scheme \<Rightarrow> byte list \<Rightarrow> Ed25519Keypair \<Rightarrow> byte list result" where
  "Ed25519_createSignature L message keyPair = sodium_sign_detached L message (toLibsodiumPrivkey keyPair)"

definition Ed25519_verifySignature ::
  "('h, 'a) crypto_lib_scheme \<Rightarrow> byte list \<Rightarrow> byte list \<Rightarrow> byte list \<Rightarrow> bool result" where
  "Ed25519_verifySignature L signature message pubkey = sodium_verify_detached L signature message pubkey"

record Argon2idOptions =
  outputLength :: nat
  opsLimit :: nat
  memLimitKib :: nat

definition Argon2id_execute ::
  "('h, 'a) crypto_lib_scheme \<Rightarrow> string \<Rightarrow> byte list \<Rightarrow> Argon2idOptions \<Rightarrow> byte list result" where
  "Argon2id_execute L password salt options =
     sodium_pwhash L (outputLength options) password salt (opsLimit options) (memLimitKib options * 1024)"

definition aead_encrypt :: "('h, 'a) crypto_lib_scheme \<Rightarrow> byte list \<Rightarrow> byte list \<Rightarrow> byte list \<Rightarrow> byte list result" where
  "aead_encrypt L message key nonce = sodium_aead_encrypt L message nonce key"

definition aead_decrypt :: "('h, 'a) crypto_lib_scheme \<Rightarrow> byte list \<Rightarrow> byte list \<Rightarrow> byte list \<Rightarrow> byte list result" where
  "aead_decrypt L ciphertext key nonce = sodium_aead_decrypt L ciphertext nonce key"

section \<open>Mnemonics\<close>

text \<open>\<open>mnemonic.split(" ")\<close>.\<close>

fun split_space :: "string \<Rightarrow> string list" where
  "split_space [] = [[]]"
| "split_space (c # s) =
     (if c = CHR '' '' then [] # split_space s
      else case split_space s of [] \<Rightarrow> [[c]] | p # ps \<Rightarrow> (c # p) # ps)"

definition is_lower_letter :: "char \<Rightarrow> bool" where
  "is_lower_letter c \<longleftrightarrow> (let n = of_char c :: nat in 97 \<le> n \<and> n \<le> 122)"

text \<open>The regular expression \<open>^[a-z]+( [a-z]+)*$\<close>.\<close>

definition mnemonicMatcher :: "string \<Rightarrow> bool" where
  "mnemonicMatcher s = list_all (\<lambda>word. word \<noteq> [] \<and> list_all is_lower_letter word) (split_space s)"

datatype EnglishMnemonic = EnglishMnemonic (mnemonic_data: string)

definition new_EnglishMnemonic :: "('h, 'a) crypto_lib_scheme \<Rightarrow> string \<Rightarrow> EnglishMnemonic result" where
  "new_EnglishMnemonic L mnemonic =
     (if \<not> mnemonicMatcher mnemonic then throw ''Invalid mnemonic format''
      else let words = split_space mnemonic in
        if length words \<notin> {12, 15, 18, 21, 24} then throw ''Invalid word count in mnemonic''
        else if \<not> list_all (\<lambda>word. word \<in> set (bip39_wordlist L)) words
        then throw ''Mnemonic contains invalid word''
        else andThen (bip39_mnemonicToEntropy L mnemonic) (\<lambda>_. ok (EnglishMnemonic mnemonic)))"

definition Bip39_encode :: "('h, 'a) crypto_lib_scheme \<Rightarrow> byte list \<Rightarrow> EnglishMnemonic result" where
  "Bip39_encode L entropy =
     (if length entropy \<notin> {16, 20, 24, 28, 32} then throw ''invalid input length''
      else new_EnglishMnemonic L (bip39_entropyToMnemonic L (toHex entropy)))"

definition Bip39_decode :: "('h, 'a) crypto_lib_scheme \<Rightarrow> EnglishMnemonic \<Rightarrow> byte list result" where
  "Bip39_decode L mnemonic = andThen (bip39_mnemonicToEntropy L (mnemonic_data mnemonic)) fromHex"

definition mnemonicToSeed :: "('h, 'a) crypto_lib_scheme \<Rightarrow> EnglishMnemonic \<Rightarrow> string option \<Rightarrow> byte list result" where
  "mnemonicToSeed L mnemonic password =
     (let mnemonicBytes = cl_utf8 L (unorm_nfkd L (mnemonic_data mnemonic));
          salt = ''mnemonic'' @ (case password of
            None \<Rightarrow> []
          | Some p \<Rightarrow> if p \<noteq> [] then unorm_nfkd L p else []);
          saltBytes = cl_utf8 L salt
      in cl_pbkdf2 L mnemonicBytes saltBytes 2048 64 ''sha512'')"

section \<open>HdPaths\<close>

definition bip44 :: "int \<Rightarrow> int \<Rightarrow> int \<Rightarrow> int \<Rightarrow> Slip10RawIndex list result" where
  "bip44 coinType account change address =
     andThen (hardened 44) (\<lambda>a. andThen (hardened coinType) (\<lambda>b. andThen (hardened account) (\<lambda>c.
     andThen (normal change) (\<lambda>d. andThen (normal address) (\<lambda>e. ok [a, b, c, d, e])))))"

definition bip44Like :: "int \<Rightarrow> int \<Rightarrow> Slip10RawIndex list result" where
  "bip44Like coinType account =
     andThen (hardened 44) (\<lambda>a. andThen (hardened coinType) (\<lambda>b. andThen (hardened account) (\<lambda>c.
     ok [a, b, c])))"

definition path_iov :: "int \<Rightarrow> Slip10RawIndex list result" where
  "path_iov account = bip44Like 234 account"

definition path_iovFaucet :: "int \<Rightarrow> int \<Rightarrow> int \<Rightarrow> Slip10RawIndex list result" where
  "path_iovFaucet coinType instanceIndex accountIndex =
     andThen (hardened 1229936198) (\<lambda>a. andThen (hardened coinType) (\<lambda>b.
     andThen (hardened instanceIndex) (\<lambda>c. andThen (hardened accountIndex) (\<lambda>d. ok [a, b, c, d]))))"

definition path_ethereum :: "int \<Rightarrow> Slip10RawIndex list result" where
  "path_ethereum account = bip44 60 0 0 account"

definition path_cosmosHub :: "int \<Rightarrow> Slip10RawIndex list result" where
  "path_cosmosHub account = bip44 118 0 0 account"

section \<open>The documented behaviour of elliptic\<close>

text \<open>
  DER of a pair of positive integers, as X.690 has it: the contents of an
  integer are big-endian, not negative and without a redundant zero byte.
\<close>

definition der_contents :: "int \<Rightarrow> byte list \<Rightarrow> bool" where
  "der_contents i R \<longleftrightarrow> R \<noteq> [] \<and> be_value R = i \<and> hd R < 0x80 \<and> (hd R = 0 \<longrightarrow> 1 < length R \<and> 0x80 \<le> R ! 1)"

definition der_pair :: "int \<Rightarrow> int \<Rightarrow> byte list \<Rightarrow> bool" where
  "der_pair r s der \<longleftrightarrow> (\<exists>R S. der_contents r R \<and> der_contents s S \<and>
     der = [0x30, toUint8 (int (length R + length S + 4)), 2, toUint8 (int (length R))] @ R
       @ [2, toUint8 (int (length S))] @ S)"

text \<open>
  A private key is valid if its multiple of the generator is a point; a valid
  key keeps its value and has a public key; \<open>toArray\<close> gives the bytes without
  leading zeros; a signature is a pair below the order with a recovery
  parameter, and its DER form verifies under the public key.
\<close>

definition signs :: "('h, 'a) crypto_lib_scheme \<Rightarrow> byte list \<Rightarrow> byte list \<Rightarrow> bool" where
  "signs L k msg \<longleftrightarrow> (\<exists>r s v pub key.
     ec_sign L msg k = (r, s, int_num v) \<and> 0 < r \<and> r < secp256k1_order \<and> 0 < s \<and> s < secp256k1_order \<and>
     0 \<le> v \<and> v \<le> 3 \<and> fromHex (ec_getPublic L k) = ok pub \<and> ec_keyFromPublic L pub = ok key \<and>
     (\<forall>der. der_pair r s der \<longrightarrow> ec_verify L key msg der = ok True))"

definition secp_laws :: "('h, 'a) crypto_lib_scheme \<Rightarrow> bool" where
  "secp_laws L \<longleftrightarrow> slip10_laws L \<and>
     (\<forall>k. length k = 32 \<longrightarrow> ec_validate L k = (be_value k mod secp256k1_order \<noteq> 0)) \<and>
     (\<forall>k. valid_privkey k \<longrightarrow> (\<exists>p. fromHex (ec_getPrivate L k) = ok p \<and> be_value p = be_value k) \<and>
        (\<exists>pub. fromHex (ec_getPublic L k) = ok pub)) \<and>
     (\<forall>i. 0 < i \<longrightarrow> bn_toArray L i \<noteq> [] \<and> hd (bn_toArray L i) \<noteq> 0 \<and> be_value (bn_toArray L i) = i) \<and>
     (\<forall>k msg. valid_privkey k \<and> msg \<noteq> [] \<and> length msg \<le> 32 \<longrightarrow> signs L k msg)"

lemma secp256k1N_order: "slip10_laws L \<Longrightarrow> secp256k1N L = secp256k1_order"
  using curve_n_order [of L] by (simp add: curve_n_def secp256k1N_def)

lemma makeKeypair_iff:
  assumes "secp_laws L"
  shows "is_ok (Secp256k1_makeKeypair L k) \<longleftrightarrow> valid_privkey k"
proof -
  have laws: "slip10_laws L" "bn_laws L" using assms by (simp_all add: secp_laws_def slip10_laws_def)
  have v: "valid_privkey k \<longleftrightarrow> length k = 32 \<and> be_value k mod secp256k1_order \<noteq> 0 \<and> be_value k < secp256k1_order"
    using be_value_bounds [of k] mod_pos_pos_trivial [of "be_value k" secp256k1_order]
    by (auto simp: valid_privkey_def simp del: mod_pos_pos_trivial)
  have validate: "length k = 32 \<Longrightarrow> ec_validate L k = (be_value k mod secp256k1_order \<noteq> 0)"
    using assms by (simp add: secp_laws_def)
  note accept = Secp256k1_makeKeypair_def validate secp256k1N_order [OF laws(1)] bn_fromBytes [OF laws(2)] bn_gte [OF laws(2)] v
  have "\<exists>kp. Secp256k1_makeKeypair L k = ok kp" if k: "valid_privkey k"
  proof -
    obtain p pub where "fromHex (ec_getPrivate L k) = ok p" "fromHex (ec_getPublic L k) = ok pub"
      using assms k unfolding secp_laws_def by blast
    with k show ?thesis by (simp add: accept not_le)
  qed
  moreover have "valid_privkey k" if "Secp256k1_makeKeypair L k = ok kp" for kp
    using that by (auto simp: accept split: if_splits)
  ultimately show ?thesis by (auto simp: is_ok_iff)
qed

lemma be_value_lower: "bs \<noteq> [] \<Longrightarrow> hd bs \<noteq> 0 \<Longrightarrow> 256 ^ (length bs - 1) \<le> be_value bs"
proof (cases bs)
  case (Cons b bs')
  assume "hd bs \<noteq> 0"
  then have "uint b \<noteq> 0" by (simp add: Cons uint_0_iff)
  then have "1 \<le> uint b" using uint_nonnegative [of b] by linarith
  have "256 ^ length bs' * 1 \<le> 256 ^ length bs' * uint b" by (rule mult_left_mono) (use \<open>1 \<le> uint b\<close> in simp_all)
  moreover have "0 \<le> be_value bs'" "length bs - 1 = length bs'" using be_value_bounds [of bs'] by (simp_all add: Cons)
  ultimately show ?thesis unfolding Cons be_value_Cons mult.commute [of "uint b"] by (simp only: Cons list.size(4) diff_Suc_1 add_Suc_right add_0_right)
qed simp

lemma unpadded_toArray:
  assumes "bs \<noteq> []" "hd bs \<noteq> 0" "be_value bs < secp256k1_order"
  shows "unpadded bs"
proof -
  have "length bs \<le> 32"
  proof (rule ccontr)
    assume "\<not> length bs \<le> 32"
    then have "(256 :: int) ^ 32 \<le> 256 ^ (length bs - 1)" by (intro power_increasing) simp_all
    then show False using be_value_lower [OF assms(1,2)] assms(3) by (simp add: secp256k1_order_def)
  qed
  with assms show ?thesis by (simp add: unpadded_iff)
qed

lemma der_contents_unsigned:
  assumes "unpadded x"
  shows "der_contents (be_value x) (der_unsigned x)"
  using assms der_unsigned_positive [OF assms]
  by (cases x) (auto simp: der_contents_def unpadded_iff be_value_Cons)

lemma der_pair_toDer:
  assumes "valid_signature sig"
  shows "der_pair (be_value (sig_r sig)) (be_value (sig_s sig)) (toDer sig)"
  unfolding der_pair_def
  by (rule exI [of _ "der_unsigned (sig_r sig)"], rule exI [of _ "der_unsigned (sig_s sig)"])
     (use assms in \<open>simp add: der_contents_unsigned valid_signature_def toDer_def Let_def derTagInteger_def algebra_simps\<close>)

text \<open>Packages that satisfy the laws; the signature of every message is the pair of 1 and 1.\<close>

definition demo_crypto :: "string crypto_lib" where
  "demo_crypto = bn_lib.extend bn_int \<lparr>
     bn_fromHexString = (\<lambda>s. int (parse_base 16 s)),
     g_mul_encodeCompressed = (\<lambda>p. ''02''),
     cl_sha = \<lparr>sha_create = (\<lambda>n. n), sha_update = (\<lambda>h d. h), sha_digest = (\<lambda>h. replicate (if h = ''sha512'' then 64 else 32) 1)\<rparr>,
     cl_keccak256 = (\<lambda>d. replicate 32 1),
     bn_toArray = (\<lambda>i. trimLeadingNullBytes (be_bytes (nat i) i)),
     ec_validate = (\<lambda>k. be_value k mod secp256k1_order \<noteq> 0),
     ec_getPrivate = toHex, ec_getPublic = toHex,
     ec_sign = (\<lambda>m k. (1, 1, int_num 0)),
     ec_keyFromPublic = ok, ec_verify = (\<lambda>k m d. ok True),
     ec_recoverPubKey = (\<lambda>m r s v. ok ''04''), ec_encodeCompressed = (\<lambda>k. take 33 k),
     sodium_sign_seed_keypair = (\<lambda>seed. if length seed = 32 then ok (seed @ seed) else throw ''invalid seed length''),
     sodium_sign_detached = (\<lambda>m k. ok (take 32 k)), sodium_verify_detached = (\<lambda>s m k. ok (s = k)),
     sodium_pwhash = (\<lambda>n p s a b. ok (replicate n 7)),
     sodium_aead_encrypt = (\<lambda>m n k. ok m), sodium_aead_decrypt = (\<lambda>c n k. ok c),
     bip39_wordlist = [''abandon''], bip39_mnemonicToEntropy = (\<lambda>m. ok ''00''),
     bip39_entropyToMnemonic = (\<lambda>e. ''abandon''), unorm_nfkd = (\<lambda>s. s), cl_utf8 = (\<lambda>s. []),
     cl_pbkdf2 = (\<lambda>a b n l d. ok (replicate l 1))\<rparr>"

lemma be_value_trim: "be_value (trimLeadingNullBytes bs) = be_value bs"
  unfolding trim_dropWhile by (induction bs) (simp_all add: be_value_Cons)

lemma hd_trim: "trimLeadingNullBytes bs \<noteq> [] \<Longrightarrow> hd (trimLeadingNullBytes bs) \<noteq> 0"
  unfolding trim_dropWhile by (rule hd_dropWhile)

lemma demo_toArray:
  assumes "0 < i"
  shows "trimLeadingNullBytes (be_bytes (nat i) i) \<noteq> []" "be_value (trimLeadingNullBytes (be_bytes (nat i) i)) = i"
proof -
  have "i = int (nat i)" using assms by simp
  also have "\<dots> < 256 ^ nat i" using of_nat_less_two_power [of "nat i", where 'a = int] power_mono [of 2 "256 :: int" "nat i"] by linarith
  finally show v: "be_value (trimLeadingNullBytes (be_bytes (nat i) i)) = i"
    using assms by (simp add: be_value_trim be_value_bytes)
  show "trimLeadingNullBytes (be_bytes (nat i) i) \<noteq> []" using v assms by (metis be_value_Nil less_irrefl)
qed

lemma demo_crypto_laws: "secp_laws demo_crypto" "slip10_laws demo_crypto"
proof -
  have "\<exists>bs. fromHex ''02'' = ok bs" by (intro exI [of _ "[2]"]) code_simp
  then show slip10: "slip10_laws demo_crypto" unfolding slip10_laws_def demo_crypto_def
    by (simp add: bn_laws_extend) (simp add: bn_lib.defs)
  have hex: "fromHex (toHex k) = ok k" for k using hex.dec_enc [of k "toHex k"] by simp
  have "signs demo_crypto k msg" for k msg
    unfolding signs_def
    by (rule exI [of _ 1], rule exI [of _ 1], rule exI [of _ 0], rule exI [of _ k], rule exI [of _ k])
       (simp add: demo_crypto_def bn_lib.defs secp256k1_order_def hex)
  moreover have "0 < i \<Longrightarrow> bn_toArray demo_crypto i = trimLeadingNullBytes (be_bytes (nat i) i)" for i
    by (simp add: demo_crypto_def bn_lib.defs)
  moreover have "ec_validate demo_crypto k = (be_value k mod secp256k1_order \<noteq> 0)"
      "ec_getPrivate demo_crypto k = toHex k" "ec_getPublic demo_crypto k = toHex k" for k
    by (simp_all add: demo_crypto_def bn_lib.defs)
  ultimately show "secp_laws demo_crypto"
    using slip10 by (auto simp: secp_laws_def demo_toArray hd_trim hex)
qed

section \<open>Properties\<close>

lemma createSignature_ok:
  assumes "secp_laws L" "valid_privkey k" "msg \<noteq> []" "length msg \<le> 32"
  shows "\<exists>sig pub key v. Secp256k1_createSignature L msg k = ok sig \<and> valid_signature sig \<and>
    fromHex (ec_getPublic L k) = ok pub \<and> ec_keyFromPublic L pub = ok key \<and>
    recovery sig = int_num v \<and> 0 \<le> v \<and> v \<le> 3 \<and>
    (\<forall>der. der_pair (be_value (sig_r sig)) (be_value (sig_s sig)) der \<longrightarrow> ec_verify L key msg der = ok True)"
proof -
  have "signs L k msg" using assms unfolding secp_laws_def by blast
  then obtain r s v pub key where sign: "ec_sign L msg k = (r, s, int_num v)" "0 < r" "r < secp256k1_order"
      "0 < s" "s < secp256k1_order" "0 \<le> v" "v \<le> 3" "fromHex (ec_getPublic L k) = ok pub" "ec_keyFromPublic L pub = ok key"
      and verify: "\<And>der. der_pair r s der \<Longrightarrow> ec_verify L key msg der = ok True"
    unfolding signs_def by blast
  let ?R = "bn_toArray L r" and ?S = "bn_toArray L s"
  have array: "?R \<noteq> [] \<and> hd ?R \<noteq> 0 \<and> be_value ?R = r" "?S \<noteq> [] \<and> hd ?S \<noteq> 0 \<and> be_value ?S = s"
    using assms(1) sign unfolding secp_laws_def by simp_all
  with sign have unpadded: "unpadded ?R" "unpadded ?S" by (simp_all add: unpadded_toArray)
  let ?sig = "\<lparr>sig_r = ?R, sig_s = ?S, recovery = int_num v\<rparr>"
  have "Secp256k1_createSignature L msg k = ok ?sig"
    using assms(3,4) sign unpadded
    by (simp add: Secp256k1_createSignature_def check_messageHash_def new_ExtendedSecp256k1Signature_def
        new_Secp256k1Signature_def Secp256k1Signature.extend_def not_less)
  moreover have "valid_signature ?sig" using unpadded by (simp add: valid_signature_def)
  ultimately show ?thesis using sign array verify
    by (rule_tac exI [of _ ?sig], rule_tac exI [of _ pub], rule_tac exI [of _ key], rule_tac exI [of _ v]) simp
qed

text \<open>
  A signature survives its encodings: for every accepted key and message hash of
  1 to 32 bytes, signing succeeds and verifies; so does the signature that is
  read back from its 65 byte form, and the one read from the 64 bytes left when
  the recovery byte has been trimmed.
\<close>

lemma signature_survives_encoding:
  assumes "secp_laws L" "Secp256k1_makeKeypair L k = ok keypair" "msg \<noteq> []" "length msg \<le> 32"
  shows "\<exists>sig bytes trimmed plain. Secp256k1_createSignature L msg k = ok sig \<and>
    Extended_toFixedLength sig = ok bytes \<and> Extended_fromFixedLength bytes = ok sig \<and>
    trimRecoveryByte bytes = ok trimmed \<and> Secp256k1Signature_fromFixedLength trimmed = ok plain \<and>
    Secp256k1_verifySignature L sig msg (kp_pubkey keypair) = ok True \<and>
    Secp256k1_verifySignature L plain msg (kp_pubkey keypair) = ok True"
proof -
  have k: "valid_privkey k" using makeKeypair_iff [OF assms(1), of k] assms(2) by simp
  from createSignature_ok [OF assms(1) k assms(3,4)] obtain sig pub key v where
    sig: "Secp256k1_createSignature L msg k = ok sig" "valid_signature sig"
      "fromHex (ec_getPublic L k) = ok pub" "ec_keyFromPublic L pub = ok key"
      "recovery sig = int_num v" "0 \<le> v" "v \<le> 3"
      and verify: "\<And>der. der_pair (be_value (sig_r sig)) (be_value (sig_s sig)) der \<Longrightarrow> ec_verify L key msg der = ok True"
    by blast
  obtain d e where de: "length d = 32" "trimLeadingNullBytes d = sig_r sig" "Secp256k1Signature_r sig (Some 32) = ok d"
      "length e = 32" "trimLeadingNullBytes e = sig_s sig" "Secp256k1Signature_s sig (Some 32) = ok e"
    using padded_parts [OF sig(2)] padded_32 sig(2) by (metis Secp256k1Signature_r_def Secp256k1Signature_s_def valid_signature_def)
  let ?bytes = "d @ e @ [toUint8 v]" and ?plain = "\<lparr>sig_r = sig_r sig, sig_s = sig_s sig\<rparr>"
  have valid: "valid_signature ?plain" using sig(2) by (simp add: valid_signature_def)
  have "kp_pubkey keypair = pub"
    using assms(2) sig(3) by (auto simp: Secp256k1_makeKeypair_def andThen_eq_Inr split: if_splits)
  moreover have "Extended_toFixedLength sig = ok ?bytes" using de sig(5) by (simp add: Extended_toFixedLength_def)
  moreover have "Extended_fromFixedLength ?bytes = ok sig"
    unfolding extended_parts using de sig(2,5,6,7) by (intro exI [of _ d] exI [of _ e] exI [of _ "toUint8 v"]) simp
  moreover have "trimRecoveryByte ?bytes = ok (d @ e)" using de by (simp add: trimRecoveryByte_def slice_def)
  moreover have "Secp256k1Signature_fromFixedLength (d @ e) = ok ?plain"
    unfolding fixed_parts using de valid by (intro exI [of _ d] exI [of _ e]) simp
  moreover have "ec_verify L key msg (toDer sig) = ok True" "ec_verify L key msg (toDer ?plain) = ok True"
    using verify der_pair_toDer [OF sig(2)] der_pair_toDer [OF valid] by simp_all
  ultimately show ?thesis using sig(1-4) assms(3,4)
    by (intro exI [of _ sig] exI [of _ ?bytes] exI [of _ "d @ e"] exI [of _ ?plain])
       (simp add: Secp256k1_verifySignature_def check_messageHash_def)
qed

lemma index_iff:
  "normal i = ok u \<longleftrightarrow> 0 \<le> i \<and> i < 4294967296 \<and> u = Uint32 i"
  "hardened i = ok u \<longleftrightarrow> - 2147483648 \<le> i \<and> i < 2147483648 \<and> u = Uint32 (2147483648 + i)"
  by (cases u; auto simp: normal_def hardened_def new_Uint32_iff valid_Uint32_def)+

lemma path_iov_iff:
  "path_iov account = ok path \<longleftrightarrow> - 2147483648 \<le> account \<and> account < 2147483648 \<and>
     path = [Uint32 2147483692, Uint32 2147483882, Uint32 (2147483648 + account)]"
  unfolding path_iov_def bip44Like_def andThen_eq_Inr index_iff by auto

lemma path_ethereum_iff:
  "path_ethereum address = ok path \<longleftrightarrow> 0 \<le> address \<and> address < 4294967296 \<and>
     path = [Uint32 2147483692, Uint32 2147483708, Uint32 2147483648, Uint32 0, Uint32 address]"
  unfolding path_ethereum_def bip44_def andThen_eq_Inr index_iff by auto

text \<open>
  Ranges of the derivation paths: an IOV account index is accepted from
  \<open>-2\<^sup>3\<^sup>1\<close> to \<open>2\<^sup>3\<^sup>1 - 1\<close>, and the path is hardened throughout exactly if the
  index is not negative; an Ethereum address index is accepted up to
  \<open>2\<^sup>3\<^sup>2 - 1\<close> and denotes a hardened component from \<open>2\<^sup>3\<^sup>1\<close> on. Within the range
  different accounts have different paths.
\<close>

lemma hd_path_ranges:
  "(path_iov account = ok path \<longleftrightarrow> - (2 ^ 31) \<le> account \<and> account < 2 ^ 31 \<and>
      path = [Uint32 (2 ^ 31 + 44), Uint32 (2 ^ 31 + 234), Uint32 (2 ^ 31 + account)]) \<and>
   (path_iov account = ok path \<longrightarrow> (list_all isHardened path \<longleftrightarrow> 0 \<le> account)) \<and>
   (path_ethereum address = ok epath \<longleftrightarrow> 0 \<le> address \<and> address < 2 ^ 32 \<and>
      epath = [Uint32 (2 ^ 31 + 44), Uint32 (2 ^ 31 + 60), Uint32 (2 ^ 31), Uint32 0, Uint32 address]) \<and>
   (path_ethereum address = ok epath \<longrightarrow> (isHardened (last epath) \<longleftrightarrow> 2 ^ 31 \<le> address))"
  unfolding path_iov_iff path_ethereum_iff by (auto simp: isHardened_def)

end
