(* ===== verification/Key_Wallet.thy ===== *)
theory Key_Wallet
  imports Crypto_Keys Bcp_Types Iov_Stream
begin

text \<open>
  \<open>packages/iov-keycontrol/src/wallets/ed25519wallet.ts\<close>, \<open>slip10wallet.ts\<close> and its two
  subclasses, and \<open>prehashing.ts\<close>: wallets hold identities with their private keys
  (or the paths to derive them) and labels, all in maps from identity ids.

  \<^item> A wallet serialization is a JSON text. The model has the document the text
    denotes, \<open>None\<close> is a text that is not JSON; \<open>JSON.stringify\<close> leaves out the
    properties that are \<open>undefined\<close> (\<open>None\<close>). The properties the sources check at
    run time are arbitrary values, the others have their declared types.
  \<^item> The generator of random wallet ids is a parameter: its result is an argument.
  \<^item> An asynchronous method that throws is a rejected promise; derivation may not
    return, so the methods that derive keys are of type \<open>run\<close>.
\<close>

section \<open>Prehashing\<close>

definition prehash :: "('h, 'a) crypto_lib_scheme \<Rightarrow> byte list \<Rightarrow> PrehashType \<Rightarrow> byte list" where
  "prehash L bytes type = (case type of
     PrehashNone \<Rightarrow> bytes
   | PrehashSha256 \<Rightarrow> digest_with (Sha256 (cl_sha L)) bytes
   | PrehashSha512 \<Rightarrow> digest_with (Sha512 (cl_sha L)) bytes
   | PrehashKeccak256 \<Rightarrow> cl_keccak256 L bytes)"

section \<open>Serialized wallets\<close>

record IdentitySerialization =
  is_chainId :: string
  is_algo :: string
  is_data :: string
  is_label :: "string option"
  is_privkeyPath :: "number list option"
  is_privkey :: "string option"

record WalletSerialization =
  ws_formatVersion :: js_value
  ws_id :: js_value
  ws_secret :: "string option"
  ws_curve :: "string option"
  ws_label :: "string option"
  ws_identities :: "IdentitySerialization list"

type_synonym WalletSerializationString = "WalletSerialization option"

text \<open>The regular expression \<open>^[a-zA-Z0-9]+$\<close>.\<close>

definition is_id_char :: "char \<Rightarrow> bool" where
  "is_id_char c \<longleftrightarrow> (let n = of_char c :: nat in
     97 \<le> n \<and> n \<le> 122 \<or> 65 \<le> n \<and> n \<le> 90 \<or> 48 \<le> n \<and> n \<le> 57)"

definition matches_id :: "string \<Rightarrow> bool" where
  "matches_id s \<longleftrightarrow> s \<noteq> [] \<and> list_all is_id_char s"

text \<open>\<open>deserialize\<close>, the same function in both files; it also gives the id it has checked.\<close>

definition wallet_deserialize :: "WalletSerializationString \<Rightarrow> (string \<times> WalletSerialization) result" where
  "wallet_deserialize data = (case data of
     None \<Rightarrow> throw ''SyntaxError''
   | Some doc \<Rightarrow>
       (case ws_formatVersion doc of
          Number formatVersion \<Rightarrow>
            if formatVersion = int_num 1 then throw ''Wallet format version 1 detected.''
            else if formatVersion = int_num 2 then
              (case ws_id doc of
                 Str walletId \<Rightarrow>
                   if \<not> matches_id walletId then throw ''Property id does not match expected format''
                   else ok (walletId, doc)
               | _ \<Rightarrow> throw ''Expected property id of type string'')
            else throw ''Got unsupported format version''
        | _ \<Rightarrow> throw ''Expected property formatVersion of type number''))"

section \<open>What the wallets share\<close>

record wallet_base =
  w_id :: string
  w_labelProducer :: "string option DefaultValueProducer"
  w_identities :: "Identity list"
  w_labels :: "string \<Rightarrow> string option option"

primrec algorithm_string :: "Algorithm \<Rightarrow> string" where
  "algorithm_string Ed25519 = ''ed25519''"
| "algorithm_string Secp256k1 = ''secp256k1''"

definition algorithmFromString :: "string \<Rightarrow> Algorithm result" where
  "algorithmFromString input =
     (if input = ''ed25519'' then ok Ed25519
      else if input = ''secp256k1'' then ok Secp256k1
      else throw ''Unknown algorithm string found'')"

definition identityId :: "Identity \<Rightarrow> string" where
  "identityId identity = id_chainId identity @ ''|'' @ algorithm_string (pk_algo (id_pubkey identity))
     @ ''|'' @ toHex (pk_data (id_pubkey identity))"

definition w_label :: "'a wallet_base_scheme \<Rightarrow> string option" where
  "w_label w = internalValue (w_labelProducer w)"

definition w_setLabel :: "string option \<Rightarrow> 'a wallet_base_scheme \<Rightarrow> 'a wallet_base_scheme" where
  "w_setLabel label w = w\<lparr>w_labelProducer := dvp_update label (w_labelProducer w)\<rparr>"

definition w_setIdentityLabel ::
  "Identity \<Rightarrow> string option \<Rightarrow> 'a wallet_base_scheme \<Rightarrow> 'a wallet_base_scheme result" where
  "w_setIdentityLabel identity label w =
     (if \<not> list_ex (\<lambda>i. identityId i = identityId identity) (w_identities w)
      then throw ''identity not found''
      else ok (w\<lparr>w_labels := (w_labels w)(identityId identity \<mapsto> label)\<rparr>))"

text \<open>\<open>Map.get\<close> gives \<open>undefined\<close> for an id that is not in the map.\<close>

definition w_getIdentityLabel :: "'a wallet_base_scheme \<Rightarrow> Identity \<Rightarrow> string option result" where
  "w_getIdentityLabel w identity =
     (if \<not> list_ex (\<lambda>i. identityId i = identityId identity) (w_identities w)
      then throw ''identity not found''
      else ok (case w_labels w (identityId identity) of None \<Rightarrow> None | Some label \<Rightarrow> label))"

text \<open>The collision test of \<open>createIdentity\<close>.\<close>

definition has_identity :: "'a wallet_base_scheme \<Rightarrow> Identity \<Rightarrow> bool" where
  "has_identity w identity = list_ex (\<lambda>i. identityId i = identityId identity) (w_identities w)"

section \<open>Ed25519Wallet\<close>

record Ed25519Wallet = wallet_base +
  w_privkeys :: "string \<Rightarrow> Ed25519Keypair option"

datatype createOptions =
    KeypairOption Ed25519Keypair
  | PathOption "Slip10RawIndex list"
  | NumberOption number

definition Ed25519_buildIdentity :: "ChainId \<Rightarrow> byte list \<Rightarrow> Identity result" where
  "Ed25519_buildIdentity chainId bytes =
     (if chainId = [] then throw ''Got empty chain ID when tying to build a local identity.''
      else ok \<lparr>id_chainId = chainId, id_pubkey = \<lparr>pk_algo = Ed25519, pk_data = bytes\<rparr>\<rparr>)"

text \<open>\<open>fromHex\<close> of a property that is not there throws a TypeError.\<close>

definition hex_property :: "string option \<Rightarrow> byte list result" where
  "hex_property p = (case p of None \<Rightarrow> throw ''TypeError'' | Some s \<Rightarrow> fromHex s)"

text \<open>One round of the loop of the constructor.\<close>

definition Ed25519_addRecord ::
  "Ed25519Wallet \<Rightarrow> IdentitySerialization \<Rightarrow> Ed25519Wallet result" where
  "Ed25519_addRecord w rec =
     andThen (hex_property (is_privkey rec)) (\<lambda>privkey.
     andThen (fromHex (is_data rec)) (\<lambda>pubkey.
     let keypair = \<lparr>kp_privkey = privkey, kp_pubkey = pubkey\<rparr> in
     andThen (algorithmFromString (is_algo rec)) (\<lambda>algorithm.
     if algorithm \<noteq> Ed25519 then throw ''This keyring only supports ed25519 private keys''
     else
       andThen (Ed25519_buildIdentity (is_chainId rec) (kp_pubkey keypair)) (\<lambda>identity.
       ok (w\<lparr>w_identities := w_identities w @ [identity],
             w_privkeys := (w_privkeys w)(identityId identity \<mapsto> keypair),
             w_labels := (w_labels w)(identityId identity \<mapsto> is_label rec)\<rparr>)))))"

text \<open>A loop whose body may throw.\<close>

fun foldM :: "('s \<Rightarrow> 'a \<Rightarrow> 's result) \<Rightarrow> 's \<Rightarrow> 'a list \<Rightarrow> 's result" where
  "foldM f s [] = ok s"
| "foldM f s (x # xs) = andThen (f s x) (\<lambda>s'. foldM f s' xs)"

definition empty_Ed25519Wallet :: "string \<Rightarrow> string option \<Rightarrow> Ed25519Wallet" where
  "empty_Ed25519Wallet walletId label = \<lparr>w_id = walletId, w_labelProducer = new_DefaultValueProducer label False,
     w_identities = [], w_labels = (\<lambda>_. None), w_privkeys = (\<lambda>_. None)\<rparr>"

text \<open>The constructor; \<open>generated\<close> is the result of \<open>generateId\<close>.\<close>

definition new_Ed25519Wallet :: "string \<Rightarrow> WalletSerializationString option \<Rightarrow> Ed25519Wallet result" where
  "new_Ed25519Wallet generated data = (case data of
     None \<Rightarrow> ok (empty_Ed25519Wallet generated None)
   | Some text \<Rightarrow>
       andThen (wallet_deserialize text) (\<lambda>(walletId, decodedData).
       foldM Ed25519_addRecord (empty_Ed25519Wallet walletId (ws_label decodedData)) (ws_identities decodedData)))"

definition Ed25519_previewIdentity :: "ChainId \<Rightarrow> createOptions \<Rightarrow> Identity result" where
  "Ed25519_previewIdentity chainId options = (case options of
     KeypairOption keypair \<Rightarrow> Ed25519_buildIdentity chainId (kp_pubkey keypair)
   | _ \<Rightarrow> throw ''Ed25519.createIdentity requires a keypair argument'')"

definition Ed25519_createIdentity ::
  "ChainId \<Rightarrow> createOptions \<Rightarrow> Ed25519Wallet \<Rightarrow> (Ed25519Wallet \<times> Identity) result" where
  "Ed25519_createIdentity chainId options w = (case options of
     KeypairOption keypair \<Rightarrow>
       andThen (Ed25519_buildIdentity chainId (kp_pubkey keypair)) (\<lambda>newIdentity.
       if has_identity w newIdentity then throw ''Identity ID collision''
       else ok (w\<lparr>w_privkeys := (w_privkeys w)(identityId newIdentity \<mapsto> keypair),
                  w_labels := (w_labels w)(identityId newIdentity \<mapsto> None),
                  w_identities := w_identities w @ [newIdentity]\<rparr>, newIdentity))
   | _ \<Rightarrow> throw ''Ed25519.createIdentity requires a keypair argument'')"

definition privateKeyForIdentity :: "Ed25519Wallet \<Rightarrow> Identity \<Rightarrow> Ed25519Keypair result" where
  "privateKeyForIdentity w identity = (case w_privkeys w (identityId identity) of
     None \<Rightarrow> throw ''No private key found for identity''
   | Some keypair \<Rightarrow> ok keypair)"

definition Ed25519_createTransactionSignature ::
  "('h, 'a) crypto_lib_scheme \<Rightarrow> Ed25519Wallet \<Rightarrow> Identity \<Rightarrow> byte list \<Rightarrow> PrehashType \<Rightarrow> byte list result" where
  "Ed25519_createTransactionSignature L w identity transactionBytes prehashType =
     andThen (privateKeyForIdentity w identity) (\<lambda>privkey.
     Ed25519_createSignature L (prehash L transactionBytes prehashType) privkey)"

definition Ed25519_serialize :: "Ed25519Wallet \<Rightarrow> WalletSerializationString result" where
  "Ed25519_serialize w =
     andThen (mapM (\<lambda>identity.
       andThen (privateKeyForIdentity w identity) (\<lambda>keypair.
       andThen (w_getIdentityLabel w identity) (\<lambda>label.
       ok \<lparr>is_chainId = id_chainId identity, is_algo = algorithm_string (pk_algo (id_pubkey identity)),
           is_data = toHex (pk_data (id_pubkey identity)), is_label = label, is_privkeyPath = None,
           is_privkey = Some (toHex (kp_privkey keypair))\<rparr>))) (w_identities w)) (\<lambda>identities.
     ok (Some \<lparr>ws_formatVersion = Number (int_num 2), ws_id = Str (w_id w), ws_secret = None, ws_curve = None,
               ws_label = w_label w, ws_identities = identities\<rparr>))"

definition Ed25519_clone :: "Ed25519Wallet \<Rightarrow> Ed25519Wallet result" where
  "Ed25519_clone w = andThen (Ed25519_serialize w) (\<lambda>data. new_Ed25519Wallet [] (Some data))"

section \<open>Slip10Wallet\<close>

text \<open>\<open>w_implementationId\<close> is the constant of the class of the object.\<close>

record Slip10Wallet = wallet_base +
  w_implementationId :: string
  w_secret :: EnglishMnemonic
  w_curve :: Slip10Curve
  w_privkeyPaths :: "string \<Rightarrow> Slip10RawIndex list option"

primrec algorithmFromCurve :: "Slip10Curve \<Rightarrow> Algorithm" where
  "algorithmFromCurve CurveEd25519 = Ed25519"
| "algorithmFromCurve CurveSecp256k1 = Secp256k1"

definition buildIdentity :: "Slip10Curve \<Rightarrow> ChainId \<Rightarrow> byte list \<Rightarrow> Identity result" where
  "buildIdentity curve chainId bytes =
     (if chainId = [] then throw ''Got empty chain ID when tying to build a local identity.''
      else ok \<lparr>id_chainId = chainId, id_pubkey = \<lparr>pk_algo = algorithmFromCurve curve, pk_data = bytes\<rparr>\<rparr>)"

definition path_property :: "number list option \<Rightarrow> Slip10RawIndex list result" where
  "path_property p = (case p of None \<Rightarrow> throw ''TypeError'' | Some ns \<Rightarrow> mapM new_Uint32 ns)"

definition Slip10_addRecord :: "Slip10Wallet \<Rightarrow> IdentitySerialization \<Rightarrow> Slip10Wallet result" where
  "Slip10_addRecord w rec =
     andThen (algorithmFromString (is_algo rec)) (\<lambda>algorithm.
     if algorithm \<noteq> algorithmFromCurve (w_curve w) then throw ''Identity algorithm does not match curve.''
     else
       andThen (fromHex (is_data rec)) (\<lambda>pubkey.
       andThen (buildIdentity (w_curve w) (is_chainId rec) pubkey) (\<lambda>identity.
       andThen (path_property (is_privkeyPath rec)) (\<lambda>privkeyPath.
       ok (w\<lparr>w_privkeyPaths := (w_privkeyPaths w)(identityId identity \<mapsto> privkeyPath),
             w_labels := (w_labels w)(identityId identity \<mapsto> is_label rec),
             w_identities := w_identities w @ [identity]\<rparr>)))))"

text \<open>The constructor of the class with implementation id \<open>impl\<close>.\<close>

definition new_Slip10Wallet ::
  "('h, 'a) crypto_lib_scheme \<Rightarrow> string \<Rightarrow> WalletSerializationString \<Rightarrow> Slip10Wallet result" where
  "new_Slip10Wallet L impl data =
     andThen (wallet_deserialize data) (\<lambda>(walletId, decodedData).
     andThen (case ws_secret decodedData of None \<Rightarrow> throw ''TypeError'' | Some s \<Rightarrow> new_EnglishMnemonic L s) (\<lambda>secret.
     andThen (case ws_curve decodedData of None \<Rightarrow> throw ''Unknown curve string'' | Some c \<Rightarrow> slip10CurveFromString c) (\<lambda>curve.
     foldM Slip10_addRecord
       \<lparr>w_id = walletId, w_labelProducer = new_DefaultValueProducer (ws_label decodedData) False, w_identities = [],
        w_labels = (\<lambda>_. None), w_implementationId = impl, w_secret = secret, w_curve = curve,
        w_privkeyPaths = (\<lambda>_. None)\<rparr>
       (ws_identities decodedData))))"

definition fromMnemonicWithCurve ::
  "('h, 'a) crypto_lib_scheme \<Rightarrow> string \<Rightarrow> Slip10Curve \<Rightarrow> string \<Rightarrow> string \<Rightarrow> Slip10Wallet result" where
  "fromMnemonicWithCurve L generated curve mnemonicString impl =
     new_Slip10Wallet L impl (Some \<lparr>ws_formatVersion = Number (int_num 2), ws_id = Str generated,
       ws_secret = Some mnemonicString, ws_curve = Some (curve_string curve), ws_label = None, ws_identities = []\<rparr>)"

definition fromEntropyWithCurve ::
  "('h, 'a) crypto_lib_scheme \<Rightarrow> string \<Rightarrow> Slip10Curve \<Rightarrow> byte list \<Rightarrow> string \<Rightarrow> Slip10Wallet result" where
  "fromEntropyWithCurve L generated curve bip39Entropy impl =
     andThen (Bip39_encode L bip39Entropy) (\<lambda>mnemonic.
     fromMnemonicWithCurve L generated curve (mnemonic_data mnemonic) impl)"

text \<open>The two subclasses.\<close>

definition Ed25519HdWallet_fromMnemonic :: "('h, 'a) crypto_lib_scheme \<Rightarrow> string \<Rightarrow> string \<Rightarrow> Slip10Wallet result" where
  "Ed25519HdWallet_fromMnemonic L generated mnemonicString =
     fromMnemonicWithCurve L generated CurveEd25519 mnemonicString ''ed25519-hd''"

definition Secp256k1HdWallet_fromMnemonic :: "('h, 'a) crypto_lib_scheme \<Rightarrow> string \<Rightarrow> string \<Rightarrow> Slip10Wallet result" where
  "Secp256k1HdWallet_fromMnemonic L generated mnemonicString =
     fromMnemonicWithCurve L generated CurveSecp256k1 mnemonicString ''secp256k1-hd''"

text \<open>
  \<open>previewIdentity\<close> derives the key at a path; a keypair of either curve has the
  public key of the identity.
\<close>

definition curve_makeKeypair :: "('h, 'a) crypto_lib_scheme \<Rightarrow> Slip10Curve \<Rightarrow> byte list \<Rightarrow> Ed25519Keypair result" where
  "curve_makeKeypair L curve privkey = (case curve of
     CurveEd25519 \<Rightarrow> Ed25519_makeKeypair L privkey
   | CurveSecp256k1 \<Rightarrow> Secp256k1_makeKeypair L privkey)"

definition Slip10_previewIdentity ::
  "('h, 'a) crypto_lib_scheme \<Rightarrow> Slip10Wallet \<Rightarrow> ChainId \<Rightarrow> createOptions \<Rightarrow> Identity run" where
  "Slip10_previewIdentity L w chainId options = (case options of
     PathOption path \<Rightarrow>
       thenRun (Some (mnemonicToSeed L (w_secret w) None)) (\<lambda>seed.
       thenRun (derivePath L (Sha512 (cl_sha L)) (w_curve w) seed path) (\<lambda>derivationResult.
       thenRun (Some (curve_makeKeypair L (w_curve w) (s10_privkey derivationResult))) (\<lambda>keypair.
       Some (buildIdentity (w_curve w) chainId (kp_pubkey keypair)))))
   | _ \<Rightarrow> Some (throw ''Did not get the correct argument type. Expected array of Slip10RawIndex''))"

text \<open>The part of \<open>createIdentity\<close> after the key has been derived.\<close>

definition Slip10_addIdentity ::
  "Slip10RawIndex list \<Rightarrow> Identity \<Rightarrow> Slip10Wallet \<Rightarrow> (Slip10Wallet \<times> Identity) result" where
  "Slip10_addIdentity path newIdentity w =
     (if has_identity w newIdentity then throw ''Identity ID collision''
      else ok (w\<lparr>w_privkeyPaths := (w_privkeyPaths w)(identityId newIdentity \<mapsto> path),
                 w_labels := (w_labels w)(identityId newIdentity \<mapsto> None),
                 w_identities := w_identities w @ [newIdentity]\<rparr>, newIdentity))"

definition Slip10_createIdentity ::
  "('h, 'a) crypto_lib_scheme \<Rightarrow> ChainId \<Rightarrow> createOptions \<Rightarrow> Slip10Wallet \<Rightarrow> (Slip10Wallet \<times> Identity) run" where
  "Slip10_createIdentity L chainId options w = (case options of
     PathOption path \<Rightarrow>
       thenRun (Slip10_previewIdentity L w chainId options) (\<lambda>newIdentity.
       Some (Slip10_addIdentity path newIdentity w))
   | _ \<Rightarrow> Some (throw ''Did not get the correct argument type. Expected array of Slip10RawIndex''))"

definition privkeyPathForIdentity :: "Slip10Wallet \<Rightarrow> Identity \<Rightarrow> Slip10RawIndex list result" where
  "privkeyPathForIdentity w identity = (case w_privkeyPaths w (identityId identity) of
     None \<Rightarrow> throw ''No private key path found for identity''
   | Some privkeyPath \<Rightarrow> ok privkeyPath)"

definition privkeyForIdentity :: "('h, 'a) crypto_lib_scheme \<Rightarrow> Slip10Wallet \<Rightarrow> Identity \<Rightarrow> byte list run" where
  "privkeyForIdentity L w identity =
     thenRun (Some (privkeyPathForIdentity w identity)) (\<lambda>privkeyPath.
     thenRun (Some (mnemonicToSeed L (w_secret w) None)) (\<lambda>seed.
     thenRun (derivePath L (Sha512 (cl_sha L)) (w_curve w) seed privkeyPath) (\<lambda>derivationResult.
     Some (ok (s10_privkey derivationResult)))))"

definition Slip10_createTransactionSignature ::
  "('h, 'a) crypto_lib_scheme \<Rightarrow> Slip10Wallet \<Rightarrow> Identity \<Rightarrow> byte list \<Rightarrow> PrehashType \<Rightarrow> byte list run" where
  "Slip10_createTransactionSignature L w identity transactionBytes prehashType =
     (if w_curve w = CurveSecp256k1 \<and> prehashType = PrehashNone
      then Some (throw ''Prehashing required for Secp256k1'')
      else
        thenRun (privkeyForIdentity L w identity) (\<lambda>privkey.
        let message = prehash L transactionBytes prehashType in
        case w_curve w of
          CurveEd25519 \<Rightarrow> Some (andThen (Ed25519_makeKeypair L privkey) (Ed25519_createSignature L message))
        | CurveSecp256k1 \<Rightarrow> Some (andThen (Secp256k1_createSignature L message privkey) Extended_toFixedLength)))"

definition Slip10_printableSecret :: "Slip10Wallet \<Rightarrow> string" where
  "Slip10_printableSecret w = mnemonic_data (w_secret w)"

definition Slip10_serialize :: "Slip10Wallet \<Rightarrow> WalletSerializationString result" where
  "Slip10_serialize w =
     andThen (mapM (\<lambda>identity.
       andThen (w_getIdentityLabel w identity) (\<lambda>label.
       andThen (privkeyPathForIdentity w identity) (\<lambda>privkeyPath.
       ok \<lparr>is_chainId = id_chainId identity, is_algo = algorithm_string (pk_algo (id_pubkey identity)),
           is_data = toHex (pk_data (id_pubkey identity)), is_label = label,
           is_privkeyPath = Some (map Uint32_toNumber privkeyPath), is_privkey = None\<rparr>))) (w_identities w)) (\<lambda>identities.
     ok (Some \<lparr>ws_formatVersion = Number (int_num 2), ws_id = Str (w_id w),
               ws_secret = Some (mnemonic_data (w_secret w)), ws_curve = Some (curve_string (w_curve w)),
               ws_label = w_label w, ws_identities = identities\<rparr>))"

definition Slip10_clone :: "('h, 'a) crypto_lib_scheme \<Rightarrow> Slip10Wallet \<Rightarrow> Slip10Wallet result" where
  "Slip10_clone L w = andThen (Slip10_serialize w) (new_Slip10Wallet L (w_implementationId w))"

section \<open>The interface Wallet\<close>

datatype Wallet = Ed25519W Ed25519Wallet | Slip10W Slip10Wallet

primrec getIdentities :: "Wallet \<Rightarrow> Identity list" where
  "getIdentities (Ed25519W w) = w_identities w"
| "getIdentities (Slip10W w) = w_identities w"

primrec wallet_id :: "Wallet \<Rightarrow> string" where
  "wallet_id (Ed25519W w) = w_id w"
| "wallet_id (Slip10W w) = w_id w"

primrec wallet_label :: "Wallet \<Rightarrow> string option" where
  "wallet_label (Ed25519W w) = w_label w"
| "wallet_label (Slip10W w) = w_label w"

primrec implementationId :: "Wallet \<Rightarrow> string" where
  "implementationId (Ed25519W w) = ''ed25519''"
| "implementationId (Slip10W w) = w_implementationId w"

primrec setLabel :: "string option \<Rightarrow> Wallet \<Rightarrow> Wallet" where
  "setLabel label (Ed25519W w) = Ed25519W (w_setLabel label w)"
| "setLabel label (Slip10W w) = Slip10W (w_setLabel label w)"

primrec setIdentityLabel :: "Identity \<Rightarrow> string option \<Rightarrow> Wallet \<Rightarrow> Wallet result" where
  "setIdentityLabel identity label (Ed25519W w) = map_sum id Ed25519W (w_setIdentityLabel identity label w)"
| "setIdentityLabel identity label (Slip10W w) = map_sum id Slip10W (w_setIdentityLabel identity label w)"

primrec getIdentityLabel :: "Wallet \<Rightarrow> Identity \<Rightarrow> string option result" where
  "getIdentityLabel (Ed25519W w) identity = w_getIdentityLabel w identity"
| "getIdentityLabel (Slip10W w) identity = w_getIdentityLabel w identity"

primrec previewIdentity :: "('h, 'a) crypto_lib_scheme \<Rightarrow> Wallet \<Rightarrow> ChainId \<Rightarrow> createOptions \<Rightarrow> Identity run" where
  "previewIdentity L (Ed25519W w) chainId options = Some (Ed25519_previewIdentity chainId options)"
| "previewIdentity L (Slip10W w) chainId options = Slip10_previewIdentity L w chainId options"

primrec createIdentity ::
  "('h, 'a) crypto_lib_scheme \<Rightarrow> ChainId \<Rightarrow> createOptions \<Rightarrow> Wallet \<Rightarrow> (Wallet \<times> Identity) run" where
  "createIdentity L chainId options (Ed25519W w) =
     Some (map_sum id (map_prod Ed25519W id) (Ed25519_createIdentity chainId options w))"
| "createIdentity L chainId options (Slip10W w) =
     map_option (map_sum id (map_prod Slip10W id)) (Slip10_createIdentity L chainId options w)"

primrec createTransactionSignature ::
  "('h, 'a) crypto_lib_scheme \<Rightarrow> Wallet \<Rightarrow> Identity \<Rightarrow> byte list \<Rightarrow> PrehashType \<Rightarrow> byte list run" where
  "createTransactionSignature L (Ed25519W w) identity bytes type =
     Some (Ed25519_createTransactionSignature L w identity bytes type)"
| "createTransactionSignature L (Slip10W w) identity bytes type =
     Slip10_createTransactionSignature L w identity bytes type"

primrec serialize :: "Wallet \<Rightarrow> WalletSerializationString result" where
  "serialize (Ed25519W w) = Ed25519_serialize w"
| "serialize (Slip10W w) = Slip10_serialize w"

primrec clone :: "('h, 'a) crypto_lib_scheme \<Rightarrow> Wallet \<Rightarrow> Wallet result" where
  "clone L (Ed25519W w) = map_sum id Ed25519W (Ed25519_clone w)"
| "clone L (Slip10W w) = map_sum id Slip10W (Slip10_clone L w)"

section \<open>Identity ids\<close>

lemma last_separator:
  assumes "c \<notin> set ys" "c \<notin> set ys'"
  shows "xs @ c # ys = xs' @ c # ys' \<longleftrightarrow> xs = xs' \<and> ys = ys'"
proof
  assume eq: "xs @ c # ys = xs' @ c # ys'"
  have tail: "takeWhile (\<lambda>x. x \<noteq> c) (rev (zs @ c # ws)) = rev ws" if "c \<notin> set ws" for zs ws
    using that by (simp add: takeWhile_append2 [of "rev ws"] del: takeWhile_append2) (subst takeWhile_append2; auto)
  have "rev ys = rev ys'" using tail [OF assms(1), of xs] tail [OF assms(2), of xs'] eq by metis
  then show "xs = xs' \<and> ys = ys'" using eq by simp
qed simp

lemma algorithm_string_inj: "algorithm_string a = algorithm_string b \<longleftrightarrow> a = b"
  by (cases a; cases b) auto

lemma no_separator: "CHR ''|'' \<notin> set (toHex data)" "CHR ''|'' \<notin> set (algorithm_string a)"
proof -
  have "\<not> is_hex_digit CHR ''|''" by code_simp
  then show "CHR ''|'' \<notin> set (toHex data)" using toHex_hex_digits [of data] by (auto simp: list_all_iff)
  show "CHR ''|'' \<notin> set (algorithm_string a)" by (cases a) simp_all
qed

lemma identityId_inj [simp]: "identityId i = identityId j \<longleftrightarrow> i = j"
proof
  assume "identityId i = identityId j"
  then have "(id_chainId i @ CHR ''|'' # algorithm_string (pk_algo (id_pubkey i))) @ CHR ''|'' # toHex (pk_data (id_pubkey i))
      = (id_chainId j @ CHR ''|'' # algorithm_string (pk_algo (id_pubkey j))) @ CHR ''|'' # toHex (pk_data (id_pubkey j))"
    by (simp add: identityId_def)
  then show "i = j"
    unfolding last_separator [OF no_separator(1) no_separator(1)] last_separator [OF no_separator(2) no_separator(2)]
    by (cases i; cases j) (auto simp: algorithm_string_inj dest: toHex_inj intro: PubkeyBundle.equality)
qed simp

lemma has_identity_iff [simp]: "has_identity w i \<longleftrightarrow> i \<in> set (w_identities w)"
  by (auto simp: has_identity_def list_ex_iff)

section \<open>Invariants of the wallets\<close>

definition maps_identities :: "Identity list \<Rightarrow> (string \<Rightarrow> 'a option) \<Rightarrow> bool" where
  "maps_identities ids m \<longleftrightarrow> dom m = identityId ` set ids"

lemma maps_identities_add:
  "maps_identities ids m \<Longrightarrow> maps_identities (ids @ [i]) (m(identityId i \<mapsto> v))"
  by (auto simp: maps_identities_def)

lemma maps_identities_update:
  "maps_identities ids m \<Longrightarrow> i \<in> set ids \<Longrightarrow> maps_identities ids (m(identityId i \<mapsto> v))"
  by (auto simp: maps_identities_def)

lemma maps_identities_lookup:
  "maps_identities ids m \<Longrightarrow> i \<in> set ids \<Longrightarrow> \<exists>v. m (identityId i) = Some v"
  by (auto simp: maps_identities_def)

lemma maps_identities_empty: "maps_identities [] (\<lambda>_. None)"
  by (simp add: maps_identities_def)

text \<open>The maps of a wallet that holds only some of the identities.\<close>

definition restricted :: "(string \<Rightarrow> 'a option) \<Rightarrow> Identity list \<Rightarrow> (string \<Rightarrow> 'a option)" where
  "restricted m ids = m |` (identityId ` set ids)"

lemma restricted_Nil [simp]: "restricted m [] = (\<lambda>_. None)"
  by (simp add: restricted_def)

lemma restricted_snoc: "m (identityId i) = Some v \<Longrightarrow> (restricted m ids)(identityId i \<mapsto> v) = restricted m (ids @ [i])"
  by (auto simp: restricted_def restrict_map_def fun_eq_iff)

lemma restricted_all: "maps_identities ids m \<Longrightarrow> restricted m ids = m"
proof (rule ext)
  fix x assume "maps_identities ids m"
  then show "restricted m ids x = m x"
    by (cases "m x") (auto simp: restricted_def maps_identities_def restrict_map_def)
qed

text \<open>What a wallet is after it has been saved and loaded: nobody listens to its label.\<close>

definition reloaded :: "'a wallet_base_scheme \<Rightarrow> 'a wallet_base_scheme" where
  "reloaded w = w\<lparr>w_labelProducer := new_DefaultValueProducer (w_label w) False\<rparr>"

definition Ed25519_inv :: "Ed25519Wallet \<Rightarrow> bool" where
  "Ed25519_inv w \<longleftrightarrow> matches_id (w_id w) \<and> distinct (w_identities w) \<and>
     maps_identities (w_identities w) (w_labels w) \<and> maps_identities (w_identities w) (w_privkeys w) \<and>
     (\<forall>i \<in> set (w_identities w). id_chainId i \<noteq> [] \<and> pk_algo (id_pubkey i) = Ed25519 \<and>
        map_option kp_pubkey (w_privkeys w (identityId i)) = Some (pk_data (id_pubkey i)))"

definition Slip10_inv :: "('h, 'a) crypto_lib_scheme \<Rightarrow> Slip10Wallet \<Rightarrow> bool" where
  "Slip10_inv L w \<longleftrightarrow> matches_id (w_id w) \<and> w_implementationId w \<in> {''ed25519-hd'', ''secp256k1-hd''} \<and>
     new_EnglishMnemonic L (mnemonic_data (w_secret w)) = ok (w_secret w) \<and> distinct (w_identities w) \<and>
     maps_identities (w_identities w) (w_labels w) \<and> maps_identities (w_identities w) (w_privkeyPaths w) \<and>
     (\<forall>i \<in> set (w_identities w). id_chainId i \<noteq> [] \<and> pk_algo (id_pubkey i) = algorithmFromCurve (w_curve w) \<and>
        (\<forall>path. w_privkeyPaths w (identityId i) = Some path \<longrightarrow> list_all valid_Uint32 path))"

primrec wallet_inv :: "('h, 'a) crypto_lib_scheme \<Rightarrow> Wallet \<Rightarrow> bool" where
  "wallet_inv L (Ed25519W w) = Ed25519_inv w"
| "wallet_inv L (Slip10W w) = Slip10_inv L w"

lemma algorithmFromString_string [simp]: "algorithmFromString (algorithm_string a) = ok a"
  by (cases a) (simp_all add: algorithmFromString_def)

lemma slip10CurveFromString_string [simp]: "slip10CurveFromString (curve_string c) = ok c"
  by (cases c) (simp_all add: slip10CurveFromString_def)

lemma fromHex_toHex [simp]: "fromHex (toHex data) = ok data"
  using hex.dec_enc [of data "toHex data"] by simp

lemma path_round_trip: "list_all valid_Uint32 path \<Longrightarrow> mapM new_Uint32 (map Uint32_toNumber path) = ok path"
proof -
  assume "list_all valid_Uint32 path"
  then have "mapM (new_Uint32 \<circ> Uint32_toNumber) path = ok (map id path)"
    by (intro mapM_ok) (auto simp: list_all_iff new_Uint32_iff Uint32_toNumber_def)
  then show ?thesis by (simp add: mapM_map)
qed

lemma w_getIdentityLabel_ok:
  assumes "maps_identities (w_identities w) (w_labels w)" "i \<in> set (w_identities w)"
  shows "\<exists>label. w_labels w (identityId i) = Some label \<and> w_getIdentityLabel w i = ok label"
  using maps_identities_lookup [OF assms] assms(2) by (auto simp: w_getIdentityLabel_def list_ex_iff)

section \<open>Saving and loading\<close>

lemma foldM_append: "foldM f s (xs @ ys) = andThen (foldM f s xs) (\<lambda>s'. foldM f s' ys)"
  by (induction xs arbitrary: s) (simp_all add: andThen_assoc)

text \<open>
  Loading the records of the identities one by one, given the records and that
  one round of the loop adds an identity.
\<close>

lemma foldM_records:
  assumes "\<And>ids i. i \<in> set all \<Longrightarrow> set ids \<subseteq> set all \<Longrightarrow> f (state ids) (rec i) = ok (state (ids @ [i]))"
  shows "set ids \<subseteq> set all \<Longrightarrow> foldM f (state []) (map rec ids) = ok (state ids)"
  by (induction ids rule: rev_induct) (simp_all add: foldM_append assms)

lemma matches_deserialize:
  "matches_id walletId \<Longrightarrow> ws_formatVersion doc = Number (int_num 2) \<Longrightarrow> ws_id doc = Str walletId \<Longrightarrow>
   wallet_deserialize (Some doc) = ok (walletId, doc)"
  by (simp add: wallet_deserialize_def)

lemma Ed25519_save_load:
  assumes "Ed25519_inv w"
  shows "\<exists>data. Ed25519_serialize w = ok data \<and> (\<forall>g. new_Ed25519Wallet g (Some data) = ok (reloaded w))"
proof -
  define rec where "rec i = \<lparr>is_chainId = id_chainId i, is_algo = algorithm_string (pk_algo (id_pubkey i)),
    is_data = toHex (pk_data (id_pubkey i)), is_label = the (w_labels w (identityId i)), is_privkeyPath = None,
    is_privkey = Some (toHex (kp_privkey (the (w_privkeys w (identityId i)))))\<rparr>" for i
  define state where "state ids = (reloaded w)\<lparr>w_identities := ids, w_labels := restricted (w_labels w) ids,
    w_privkeys := restricted (w_privkeys w) ids\<rparr>" for ids
  have inv: "matches_id (w_id w)" "maps_identities (w_identities w) (w_labels w)"
      "maps_identities (w_identities w) (w_privkeys w)"
    using assms by (simp_all add: Ed25519_inv_def)
  have records: "mapM (\<lambda>i. andThen (privateKeyForIdentity w i) (\<lambda>keypair. andThen (w_getIdentityLabel w i) (\<lambda>label.
      ok \<lparr>is_chainId = id_chainId i, is_algo = algorithm_string (pk_algo (id_pubkey i)),
        is_data = toHex (pk_data (id_pubkey i)), is_label = label, is_privkeyPath = None,
        is_privkey = Some (toHex (kp_privkey keypair))\<rparr>))) (w_identities w) = ok (map rec (w_identities w))"
  proof (rule mapM_ok)
    fix i assume i: "i \<in> set (w_identities w)"
    with w_getIdentityLabel_ok [OF inv(2) i] maps_identities_lookup [OF inv(3) i]
    show "andThen (privateKeyForIdentity w i) (\<lambda>keypair. andThen (w_getIdentityLabel w i) (\<lambda>label.
      ok \<lparr>is_chainId = id_chainId i, is_algo = algorithm_string (pk_algo (id_pubkey i)),
        is_data = toHex (pk_data (id_pubkey i)), is_label = label, is_privkeyPath = None,
        is_privkey = Some (toHex (kp_privkey keypair))\<rparr>)) = ok (rec i)"
      by (auto simp: privateKeyForIdentity_def rec_def)
  qed
  have load: "Ed25519_addRecord (state ids) (rec i) = ok (state (ids @ [i]))" if i: "i \<in> set (w_identities w)" for ids i
  proof -
    obtain keypair where "w_privkeys w (identityId i) = Some keypair" using maps_identities_lookup [OF inv(3) i] by blast
    moreover obtain k d where "keypair = \<lparr>kp_privkey = k, kp_pubkey = d\<rparr>" by (cases keypair)
    moreover have "id_chainId i \<noteq> []" "pk_algo (id_pubkey i) = Ed25519"
        "map_option kp_pubkey (w_privkeys w (identityId i)) = Some (pk_data (id_pubkey i))"
      using assms i unfolding Ed25519_inv_def by blast+
    ultimately have key: "w_privkeys w (identityId i) = Some \<lparr>kp_privkey = k, kp_pubkey = d\<rparr>"
        "pk_data (id_pubkey i) = d" "id_chainId i \<noteq> []" "pk_algo (id_pubkey i) = Ed25519"
      by simp_all
    obtain label where label: "w_labels w (identityId i) = Some label" using maps_identities_lookup [OF inv(2) i] by blast
    have "Ed25519_buildIdentity (id_chainId i) d = ok i"
      using key by (cases i) (auto simp: Ed25519_buildIdentity_def intro: PubkeyBundle.equality)
    then show ?thesis
      by (simp add: Ed25519_addRecord_def hex_property_def rec_def key state_def algorithmFromString_def
          restricted_snoc [of "w_labels w", OF label, symmetric] restricted_snoc [of "w_privkeys w", OF key(1), symmetric]
          label reloaded_def)
  qed
  have "foldM Ed25519_addRecord (state []) (map rec (w_identities w)) = ok (state (w_identities w))"
    by (rule foldM_records [where all = "w_identities w"]) (auto intro: load)
  moreover have "state (w_identities w) = reloaded w"
    by (simp add: state_def restricted_all inv reloaded_def)
  moreover have "state [] = empty_Ed25519Wallet (w_id w) (w_label w)"
    by (simp add: state_def reloaded_def empty_Ed25519Wallet_def)
  ultimately show ?thesis
    by (simp add: Ed25519_serialize_def records new_Ed25519Wallet_def matches_deserialize [OF inv(1)])
qed

lemma Slip10_save_load:
  assumes "Slip10_inv L w"
  shows "\<exists>data. Slip10_serialize w = ok data \<and> new_Slip10Wallet L (w_implementationId w) data = ok (reloaded w)"
proof -
  define rec where "rec i = \<lparr>is_chainId = id_chainId i, is_algo = algorithm_string (pk_algo (id_pubkey i)),
    is_data = toHex (pk_data (id_pubkey i)), is_label = the (w_labels w (identityId i)),
    is_privkeyPath = Some (map Uint32_toNumber (the (w_privkeyPaths w (identityId i)))), is_privkey = None\<rparr>" for i
  define state where "state ids = (reloaded w)\<lparr>w_identities := ids, w_labels := restricted (w_labels w) ids,
    w_privkeyPaths := restricted (w_privkeyPaths w) ids\<rparr>" for ids
  have inv: "matches_id (w_id w)" "maps_identities (w_identities w) (w_labels w)"
      "maps_identities (w_identities w) (w_privkeyPaths w)" "new_EnglishMnemonic L (mnemonic_data (w_secret w)) = ok (w_secret w)"
    using assms by (simp_all add: Slip10_inv_def)
  have records: "mapM (\<lambda>i. andThen (w_getIdentityLabel w i) (\<lambda>label. andThen (privkeyPathForIdentity w i) (\<lambda>path.
      ok \<lparr>is_chainId = id_chainId i, is_algo = algorithm_string (pk_algo (id_pubkey i)),
        is_data = toHex (pk_data (id_pubkey i)), is_label = label,
        is_privkeyPath = Some (map Uint32_toNumber path), is_privkey = None\<rparr>))) (w_identities w) = ok (map rec (w_identities w))"
  proof (rule mapM_ok)
    fix i assume i: "i \<in> set (w_identities w)"
    with w_getIdentityLabel_ok [OF inv(2) i] maps_identities_lookup [OF inv(3) i]
    show "andThen (w_getIdentityLabel w i) (\<lambda>label. andThen (privkeyPathForIdentity w i) (\<lambda>path.
      ok \<lparr>is_chainId = id_chainId i, is_algo = algorithm_string (pk_algo (id_pubkey i)),
        is_data = toHex (pk_data (id_pubkey i)), is_label = label,
        is_privkeyPath = Some (map Uint32_toNumber path), is_privkey = None\<rparr>)) = ok (rec i)"
      by (auto simp: privkeyPathForIdentity_def rec_def)
  qed
  have load: "Slip10_addRecord (state ids) (rec i) = ok (state (ids @ [i]))" if i: "i \<in> set (w_identities w)" for ids i
  proof -
    obtain path where path: "w_privkeyPaths w (identityId i) = Some path" using maps_identities_lookup [OF inv(3) i] by blast
    obtain label where label: "w_labels w (identityId i) = Some label" using maps_identities_lookup [OF inv(2) i] by blast
    have i: "id_chainId i \<noteq> []" "pk_algo (id_pubkey i) = algorithmFromCurve (w_curve w)" "list_all valid_Uint32 path"
      using assms i path unfolding Slip10_inv_def by blast+
    have "buildIdentity (w_curve w) (id_chainId i) (pk_data (id_pubkey i)) = ok i"
      using i by (cases i) (auto simp: buildIdentity_def intro: PubkeyBundle.equality)
    then show ?thesis using i(2) path_round_trip [OF i(3)]
      by (simp add: Slip10_addRecord_def path_property_def rec_def path state_def reloaded_def
          restricted_snoc [of "w_labels w", OF label, symmetric] restricted_snoc [of "w_privkeyPaths w", OF path, symmetric] label)
  qed
  have "foldM Slip10_addRecord (state []) (map rec (w_identities w)) = ok (state (w_identities w))"
    by (rule foldM_records [where all = "w_identities w"]) (auto intro: load)
  moreover have "state (w_identities w) = reloaded w"
    by (simp add: state_def restricted_all inv reloaded_def)
  moreover have "state [] = \<lparr>w_id = w_id w, w_labelProducer = new_DefaultValueProducer (w_label w) False, w_identities = [],
        w_labels = (\<lambda>_. None), w_implementationId = w_implementationId w, w_secret = w_secret w, w_curve = w_curve w,
        w_privkeyPaths = (\<lambda>_. None)\<rparr>"
    by (simp add: state_def reloaded_def)
  ultimately show ?thesis
    by (simp add: Slip10_serialize_def records new_Slip10Wallet_def matches_deserialize [OF inv(1)] inv(4))
qed

section \<open>The contract of a wallet\<close>

text \<open>
  The methods of the interface \<open>Wallet\<close>, and the deserializer that is registered
  for an implementation id. The keyring and the user profile see wallets only
  through these methods.
\<close>

record 'w WalletOps =
  op_id :: "'w \<Rightarrow> string"
  op_label :: "'w \<Rightarrow> string option"
  op_implementationId :: "'w \<Rightarrow> string"
  op_getIdentities :: "'w \<Rightarrow> Identity list"
  op_getIdentityLabel :: "'w \<Rightarrow> Identity \<Rightarrow> string option result"
  op_previewIdentity :: "'w \<Rightarrow> ChainId \<Rightarrow> createOptions \<Rightarrow> Identity run"
  op_createTransactionSignature :: "'w \<Rightarrow> Identity \<Rightarrow> byte list \<Rightarrow> PrehashType \<Rightarrow> byte list run"
  op_serialize :: "'w \<Rightarrow> WalletSerializationString result"
  op_clone :: "'w \<Rightarrow> 'w result"
  op_setLabel :: "string option \<Rightarrow> 'w \<Rightarrow> 'w"
  op_createIdentity :: "ChainId \<Rightarrow> createOptions \<Rightarrow> 'w \<Rightarrow> ('w \<times> Identity) run"
  op_setIdentityLabel :: "Identity \<Rightarrow> string option \<Rightarrow> 'w \<Rightarrow> 'w result"
  op_deserialize :: "string \<Rightarrow> (WalletSerializationString \<Rightarrow> 'w result) option"

text \<open>The deserialization registry of the keyring, for the three wallet types.\<close>

definition registry :: "('h, 'a) crypto_lib_scheme \<Rightarrow> string \<Rightarrow> (WalletSerializationString \<Rightarrow> Wallet result) option" where
  "registry L implId =
     (if implId = ''ed25519'' then Some (\<lambda>data. map_sum id Ed25519W (new_Ed25519Wallet [] (Some data)))
      else if implId = ''ed25519-hd'' then Some (\<lambda>data. map_sum id Slip10W (new_Slip10Wallet L ''ed25519-hd'' data))
      else if implId = ''secp256k1-hd'' then Some (\<lambda>data. map_sum id Slip10W (new_Slip10Wallet L ''secp256k1-hd'' data))
      else None)"

definition iov_wallets :: "('h, 'a) crypto_lib_scheme \<Rightarrow> Wallet WalletOps" where
  "iov_wallets L = \<lparr>op_id = wallet_id, op_label = wallet_label, op_implementationId = implementationId,
     op_getIdentities = getIdentities, op_getIdentityLabel = getIdentityLabel, op_previewIdentity = previewIdentity L,
     op_createTransactionSignature = createTransactionSignature L, op_serialize = serialize, op_clone = clone L,
     op_setLabel = setLabel, op_createIdentity = createIdentity L, op_setIdentityLabel = setIdentityLabel,
     op_deserialize = registry L\<rparr>"

text \<open>What a caller sees of a wallet beside its labels of identities and its keys.\<close>

definition looks_same :: "'w WalletOps \<Rightarrow> 'w \<Rightarrow> 'w \<Rightarrow> bool" where
  "looks_same W w w' \<longleftrightarrow> op_id W w' = op_id W w \<and> op_implementationId W w' = op_implementationId W w \<and>
     op_getIdentities W w' = op_getIdentities W w"

text \<open>An object of the class \<open>Slip10RawIndex\<close> has passed the test of its constructor.\<close>

primrec valid_options :: "createOptions \<Rightarrow> bool" where
  "valid_options (KeypairOption keypair) = True"
| "valid_options (PathOption path) = list_all valid_Uint32 path"
| "valid_options (NumberOption n) = True"

locale wallet_contract =
  fixes W :: "'w WalletOps" and inv :: "'w \<Rightarrow> bool"
  assumes identities_distinct: "inv w \<Longrightarrow> distinct (op_getIdentities W w)"
    and create_adds: "inv w \<Longrightarrow> valid_options options \<Longrightarrow> op_createIdentity W chainId options w = Some (ok (w', i)) \<Longrightarrow>
      inv w' \<and> op_id W w' = op_id W w \<and> op_label W w' = op_label W w \<and> op_implementationId W w' = op_implementationId W w \<and>
      op_getIdentities W w' = op_getIdentities W w @ [i] \<and> i \<notin> set (op_getIdentities W w) \<and>
      op_previewIdentity W w chainId options = Some (ok i)"
    and label_keeps: "inv w \<Longrightarrow> inv (op_setLabel W l w) \<and> looks_same W w (op_setLabel W l w) \<and> op_label W (op_setLabel W l w) = l"
    and identity_label_keeps: "inv w \<Longrightarrow> op_setIdentityLabel W i l w = ok w' \<Longrightarrow>
      inv w' \<and> looks_same W w w' \<and> op_label W w' = op_label W w \<and> op_getIdentityLabel W w' i = ok l"
    and save_load: "inv w \<Longrightarrow> \<exists>data w' load. op_serialize W w = ok data \<and> op_clone W w = ok w' \<and>
      op_deserialize W (op_implementationId W w) = Some load \<and> load data = ok w' \<and> inv w' \<and> looks_same W w w' \<and>
      op_label W w' = op_label W w \<and> op_serialize W w' = ok data \<and>
      op_getIdentityLabel W w' = op_getIdentityLabel W w \<and>
      op_createTransactionSignature W w' = op_createTransactionSignature W w"

lemma Ed25519_create_adds:
  assumes "Ed25519_inv w" "Ed25519_createIdentity chainId options w = ok (w', i)"
  shows "Ed25519_inv w' \<and> w_id w' = w_id w \<and> w_label w' = w_label w \<and> w_identities w' = w_identities w @ [i] \<and> i \<notin> set (w_identities w) \<and>
    Ed25519_previewIdentity chainId options = ok i"
proof -
  obtain keypair where opt: "options = KeypairOption keypair"
    using assms(2) by (cases options) (auto simp: Ed25519_createIdentity_def)
  from assms(2) have "Ed25519_buildIdentity chainId (kp_pubkey keypair) = ok i" and new: "i \<notin> set (w_identities w)"
      and w': "w' = w\<lparr>w_privkeys := (w_privkeys w)(identityId i \<mapsto> keypair),
        w_labels := (w_labels w)(identityId i \<mapsto> None), w_identities := w_identities w @ [i]\<rparr>"
    by (auto simp: opt Ed25519_createIdentity_def andThen_eq_Inr split: if_splits)
  then have "id_chainId i \<noteq> [] \<and> pk_algo (id_pubkey i) = Ed25519 \<and> pk_data (id_pubkey i) = kp_pubkey keypair"
      "Ed25519_previewIdentity chainId options = ok i"
    by (auto simp: Ed25519_buildIdentity_def opt Ed25519_previewIdentity_def split: if_splits)
  with assms(1) new show ?thesis unfolding w' Ed25519_inv_def
    by (auto simp: maps_identities_add w_label_def)
qed

lemma Slip10_create_adds:
  assumes "Slip10_inv L w" "Slip10_createIdentity L chainId options w = Some (ok (w', i))"
    and "valid_options options"
  shows "Slip10_inv L w' \<and> w_id w' = w_id w \<and> w_label w' = w_label w \<and> w_implementationId w' = w_implementationId w \<and>
    w_identities w' = w_identities w @ [i] \<and> i \<notin> set (w_identities w) \<and>
    Slip10_previewIdentity L w chainId options = Some (ok i)"
proof -
  obtain path where opt: "options = PathOption path"
    using assms(2) by (cases options) (auto simp: Slip10_createIdentity_def)
  from assms(2) have preview: "Slip10_previewIdentity L w chainId options = Some (ok i)" and new: "i \<notin> set (w_identities w)"
      and w': "w' = w\<lparr>w_privkeyPaths := (w_privkeyPaths w)(identityId i \<mapsto> path),
        w_labels := (w_labels w)(identityId i \<mapsto> None), w_identities := w_identities w @ [i]\<rparr>"
    by (auto simp: opt Slip10_createIdentity_def Slip10_addIdentity_def thenRun_eq_ok split: if_splits)
  from preview have "id_chainId i \<noteq> [] \<and> pk_algo (id_pubkey i) = algorithmFromCurve (w_curve w)"
    by (auto simp: opt Slip10_previewIdentity_def thenRun_eq_ok buildIdentity_def split: if_splits)
  with assms(1) new preview assms(3) show ?thesis unfolding w' Slip10_inv_def
    by (auto simp: maps_identities_add opt w_label_def)
qed

lemma Ed25519_inv_labels:
  assumes "Ed25519_inv w"
  shows "Ed25519_inv (w_setLabel l w)" "Ed25519_inv (reloaded w)"
    and "w_setIdentityLabel i l w = ok w' \<Longrightarrow> Ed25519_inv w'"
  using assms by (auto simp: Ed25519_inv_def w_setLabel_def reloaded_def w_setIdentityLabel_def list_ex_iff
      maps_identities_update split: if_splits)

lemma Slip10_inv_labels:
  assumes "Slip10_inv L w"
  shows "Slip10_inv L (w_setLabel l w)" "Slip10_inv L (reloaded w)"
    and "w_setIdentityLabel i l w = ok w' \<Longrightarrow> Slip10_inv L w'"
  using assms by (auto simp: Slip10_inv_def w_setLabel_def reloaded_def w_setIdentityLabel_def list_ex_iff
      maps_identities_update split: if_splits)

lemma label_facts:
  "w_label (w_setLabel l w) = l" "w_label (reloaded w) = w_label w" "w_id (w_setLabel l w) = w_id w"
  "w_identities (w_setLabel l w) = w_identities w" "w_id (reloaded w) = w_id w" "w_identities (reloaded w) = w_identities w"
  "w_implementationId (w_setLabel l (v :: Slip10Wallet)) = w_implementationId v"
  "w_implementationId (reloaded (v :: Slip10Wallet)) = w_implementationId v"
  "w_getIdentityLabel (reloaded w) = w_getIdentityLabel w"
  by (auto simp: w_label_def w_setLabel_def reloaded_def dvp_update_def Let_def new_DefaultValueProducer_def
      w_getIdentityLabel_def)

lemma identity_label_facts:
  assumes "w_setIdentityLabel i l w = ok w'"
  shows "w_id w' = w_id w" "w_identities w' = w_identities w" "w_label w' = w_label w" "w_getIdentityLabel w' i = ok l"
  using assms by (auto simp: w_setIdentityLabel_def w_label_def w_getIdentityLabel_def split: if_splits)

lemma identity_label_class:
  "w_setIdentityLabel i l (w :: Slip10Wallet) = ok w' \<Longrightarrow> w_implementationId w' = w_implementationId w"
  by (auto simp: w_setIdentityLabel_def split: if_splits)

lemma reloaded_behaves:
  "Ed25519_serialize (reloaded w) = Ed25519_serialize w"
  "Slip10_serialize (reloaded v) = Slip10_serialize v"
  "Ed25519_createTransactionSignature L (reloaded w) = Ed25519_createTransactionSignature L w"
  "Slip10_createTransactionSignature L (reloaded v) = Slip10_createTransactionSignature L v"
proof -
  have "privateKeyForIdentity (reloaded w) = privateKeyForIdentity w" "privkeyPathForIdentity (reloaded v) = privkeyPathForIdentity v"
    by (auto simp: privateKeyForIdentity_def privkeyPathForIdentity_def reloaded_def)
  moreover have "w_secret (reloaded v) = w_secret v" "w_curve (reloaded v) = w_curve v" by (simp_all add: reloaded_def)
  moreover from calculation have "privkeyForIdentity L (reloaded v) = privkeyForIdentity L v"
    by (auto simp: privkeyForIdentity_def)
  ultimately show
    "Ed25519_serialize (reloaded w) = Ed25519_serialize w"
    "Slip10_serialize (reloaded v) = Slip10_serialize v"
    "Ed25519_createTransactionSignature L (reloaded w) = Ed25519_createTransactionSignature L w"
    "Slip10_createTransactionSignature L (reloaded v) = Slip10_createTransactionSignature L v"
    by (auto simp: Ed25519_serialize_def Slip10_serialize_def label_facts fun_eq_iff
        Ed25519_createTransactionSignature_def Slip10_createTransactionSignature_def)
qed

lemma map_sum_ok: "map_sum id f r = ok y \<longleftrightarrow> (\<exists>x. r = ok x \<and> y = f x)"
  by (cases r) auto

lemma wallet_results:
  "createIdentity L chainId options (Ed25519W w) = Some (ok (w', i)) \<longleftrightarrow>
     (\<exists>v. w' = Ed25519W v \<and> Ed25519_createIdentity chainId options w = ok (v, i))"
  "createIdentity L chainId options (Slip10W s) = Some (ok (w', i)) \<longleftrightarrow>
     (\<exists>v. w' = Slip10W v \<and> Slip10_createIdentity L chainId options s = Some (ok (v, i)))"
  "setIdentityLabel j l (Ed25519W w) = ok w' \<longleftrightarrow> (\<exists>v. w' = Ed25519W v \<and> w_setIdentityLabel j l w = ok v)"
  "setIdentityLabel j l (Slip10W s) = ok w' \<longleftrightarrow> (\<exists>v. w' = Slip10W v \<and> w_setIdentityLabel j l s = ok v)"
  by (auto simp: map_sum_ok)

interpretation wallets: wallet_contract "iov_wallets L" "wallet_inv L" for L
proof
  fix w :: Wallet and chainId options w' i l
  assume inv: "wallet_inv L w"
  show "distinct (op_getIdentities (iov_wallets L) w)"
    using inv by (cases w) (auto simp: iov_wallets_def Ed25519_inv_def Slip10_inv_def)
  show "wallet_inv L w' \<and> op_id (iov_wallets L) w' = op_id (iov_wallets L) w \<and>
      op_label (iov_wallets L) w' = op_label (iov_wallets L) w \<and> op_implementationId (iov_wallets L) w' = op_implementationId (iov_wallets L) w \<and>
      op_getIdentities (iov_wallets L) w' = op_getIdentities (iov_wallets L) w @ [i] \<and>
      i \<notin> set (op_getIdentities (iov_wallets L) w) \<and>
      op_previewIdentity (iov_wallets L) w chainId options = Some (ok i)"
    if "valid_options options" "op_createIdentity (iov_wallets L) chainId options w = Some (ok (w', i))"
  proof (cases w)
    case (Ed25519W v)
    with that obtain v' where "w' = Ed25519W v'" "Ed25519_createIdentity chainId options v = ok (v', i)"
      by (auto simp: iov_wallets_def wallet_results simp del: createIdentity.simps)
    with Ed25519_create_adds [OF _ this(2)] inv Ed25519W show ?thesis by (simp add: iov_wallets_def)
  next
    case (Slip10W v)
    with that obtain v' where "w' = Slip10W v'" "Slip10_createIdentity L chainId options v = Some (ok (v', i))"
      by (auto simp: iov_wallets_def wallet_results simp del: createIdentity.simps)
    with Slip10_create_adds [OF _ this(2) that(1)] inv Slip10W show ?thesis by (simp add: iov_wallets_def)
  qed
  show "wallet_inv L (op_setLabel (iov_wallets L) l w) \<and> looks_same (iov_wallets L) w (op_setLabel (iov_wallets L) l w) \<and>
      op_label (iov_wallets L) (op_setLabel (iov_wallets L) l w) = l"
    using inv by (cases w) (auto simp: iov_wallets_def looks_same_def Ed25519_inv_labels Slip10_inv_labels label_facts)
  show "wallet_inv L w' \<and> looks_same (iov_wallets L) w w' \<and> op_label (iov_wallets L) w' = op_label (iov_wallets L) w \<and>
      op_getIdentityLabel (iov_wallets L) w' i = ok l"
    if "op_setIdentityLabel (iov_wallets L) i l w = ok w'"
    using inv that
    by (cases w)
       (auto simp: iov_wallets_def looks_same_def wallet_results Ed25519_inv_labels Slip10_inv_labels
         identity_label_facts identity_label_class simp del: setIdentityLabel.simps)
  show "\<exists>data w' load. op_serialize (iov_wallets L) w = ok data \<and> op_clone (iov_wallets L) w = ok w' \<and>
      op_deserialize (iov_wallets L) (op_implementationId (iov_wallets L) w) = Some load \<and> load data = ok w' \<and> wallet_inv L w' \<and>
      looks_same (iov_wallets L) w w' \<and> op_label (iov_wallets L) w' = op_label (iov_wallets L) w \<and>
      op_serialize (iov_wallets L) w' = ok data \<and>
      op_getIdentityLabel (iov_wallets L) w' = op_getIdentityLabel (iov_wallets L) w \<and>
      op_createTransactionSignature (iov_wallets L) w' = op_createTransactionSignature (iov_wallets L) w"
  proof (cases w)
    case (Ed25519W v)
    with inv obtain data where "Ed25519_serialize v = ok data" "\<forall>g. new_Ed25519Wallet g (Some data) = ok (reloaded v)"
      using Ed25519_save_load by auto
    with Ed25519W inv show ?thesis
      by (intro exI [of _ data] exI [of _ "Ed25519W (reloaded v)"] exI [of _ "the (registry L (implementationId w))"])
         (auto simp: iov_wallets_def looks_same_def registry_def Ed25519_clone_def Ed25519_inv_labels label_facts
           reloaded_behaves fun_eq_iff)
  next
    case (Slip10W v)
    with inv obtain data where "Slip10_serialize v = ok data" "new_Slip10Wallet L (w_implementationId v) data = ok (reloaded v)"
      using Slip10_save_load by fastforce
    moreover have "w_implementationId v \<in> {''ed25519-hd'', ''secp256k1-hd''}" using inv Slip10W by (simp add: Slip10_inv_def)
    ultimately show ?thesis using Slip10W inv
      by (intro exI [of _ data] exI [of _ "Slip10W (reloaded v)"] exI [of _ "the (registry L (implementationId w))"])
         (auto simp: iov_wallets_def looks_same_def registry_def Slip10_clone_def Slip10_inv_labels label_facts
           reloaded_behaves fun_eq_iff)
  qed
qed

section \<open>Wallets sign for their identities\<close>

text \<open>
  The documented behaviour of libsodium (a key pair is the seed followed by the
  public key; what it signs verifies) and the lengths of the digests.
\<close>

definition sodium_laws :: "('h, 'a) crypto_lib_scheme \<Rightarrow> bool" where
  "sodium_laws L \<longleftrightarrow> (\<forall>seed key. sodium_sign_seed_keypair L seed = ok key \<longrightarrow>
     (\<exists>pub. length seed = 32 \<and> length pub = 32 \<and> key = seed @ pub \<and>
       (\<forall>msg. \<exists>sig. sodium_sign_detached L msg (seed @ pub) = ok sig \<and> sodium_verify_detached L sig msg pub = ok True)))"

definition digest_laws :: "('h, 'a) crypto_lib_scheme \<Rightarrow> bool" where
  "digest_laws L \<longleftrightarrow> (\<forall>data. length (digest_with (Sha512 (cl_sha L)) data) = 64 \<and>
     length (digest_with (Sha256 (cl_sha L)) data) = 32 \<and> length (cl_keccak256 L data) = 32)"

text \<open>Verification of a transaction signature under a public key.\<close>

definition verifies :: "('h, 'a) crypto_lib_scheme \<Rightarrow> PubkeyBundle \<Rightarrow> byte list \<Rightarrow> byte list \<Rightarrow> bool" where
  "verifies L pubkey message signature = (case pk_algo pubkey of
     Ed25519 \<Rightarrow> Ed25519_verifySignature L signature message (pk_data pubkey) = ok True
   | Secp256k1 \<Rightarrow> andThen (trimRecoveryByte signature) (\<lambda>trimmed.
       andThen (Secp256k1Signature_fromFixedLength trimmed) (\<lambda>plain.
       Secp256k1_verifySignature L plain message (pk_data pubkey))) = ok True)"

text \<open>The histories of a wallet: it is created from a mnemonic and then used.\<close>

inductive slip10_history :: "('h, 'a) crypto_lib_scheme \<Rightarrow> Slip10Wallet \<Rightarrow> bool" for L where
  created: "fromMnemonicWithCurve L generated curve mnemonic impl = ok w \<Longrightarrow>
    impl \<in> {''ed25519-hd'', ''secp256k1-hd''} \<Longrightarrow> slip10_history L w"
| identity: "slip10_history L w \<Longrightarrow> valid_options options \<Longrightarrow>
    Slip10_createIdentity L chainId options w = Some (ok (w', i)) \<Longrightarrow> slip10_history L w'"
| label: "slip10_history L w \<Longrightarrow> slip10_history L (w_setLabel l w)"
| identity_label: "slip10_history L w \<Longrightarrow> w_setIdentityLabel i l w = ok w' \<Longrightarrow> slip10_history L w'"
| cloned: "slip10_history L w \<Longrightarrow> Slip10_clone L w = ok w' \<Longrightarrow> slip10_history L w'"

definition keys_match :: "('h, 'a) crypto_lib_scheme \<Rightarrow> Slip10Wallet \<Rightarrow> bool" where
  "keys_match L w \<longleftrightarrow> (\<forall>i \<in> set (w_identities w). \<exists>path. w_privkeyPaths w (identityId i) = Some path \<and>
     Slip10_previewIdentity L w (id_chainId i) (PathOption path) = Some (ok i))"

lemma preview_cong:
  "w_secret w' = w_secret w \<Longrightarrow> w_curve w' = w_curve w \<Longrightarrow> Slip10_previewIdentity L w' = Slip10_previewIdentity L w"
  by (auto simp: Slip10_previewIdentity_def fun_eq_iff split: createOptions.splits)

lemma keys_match_cong:
  "w_secret w' = w_secret w \<Longrightarrow> w_curve w' = w_curve w \<Longrightarrow> w_identities w' = w_identities w \<Longrightarrow>
   w_privkeyPaths w' = w_privkeyPaths w \<Longrightarrow> keys_match L w' \<longleftrightarrow> keys_match L w"
  using preview_cong [of w' w L] by (simp add: keys_match_def)

lemma if_throw_ok: "(if b then throw e else r) = ok y \<Longrightarrow> r = ok y"
  by (cases b) simp_all

lemma mnemonic_kept:
  assumes "new_EnglishMnemonic L mnemonic = ok secret"
  shows "mnemonic_data secret = mnemonic"
proof -
  have "andThen (bip39_mnemonicToEntropy L mnemonic) (\<lambda>_. ok (EnglishMnemonic mnemonic)) = ok secret"
    using assms unfolding new_EnglishMnemonic_def Let_def by (rule if_throw_ok [THEN if_throw_ok, THEN if_throw_ok])
  then show ?thesis by (auto simp: andThen_eq_Inr)
qed

lemma created_wallet:
  assumes "fromMnemonicWithCurve L generated curve mnemonic impl = ok w"
  shows "\<exists>secret. matches_id generated \<and> new_EnglishMnemonic L mnemonic = ok secret \<and>
    w = \<lparr>w_id = generated, w_labelProducer = new_DefaultValueProducer None False, w_identities = [], w_labels = (\<lambda>_. None),
      w_implementationId = impl, w_secret = secret, w_curve = curve, w_privkeyPaths = (\<lambda>_. None)\<rparr>"
  using assms
  by (cases "matches_id generated")
     (auto simp add: fromMnemonicWithCurve_def new_Slip10Wallet_def wallet_deserialize_def andThen_eq_Inr)

lemma created_inv:
  assumes "fromMnemonicWithCurve L generated curve mnemonic impl = ok w" "impl \<in> {''ed25519-hd'', ''secp256k1-hd''}"
  shows "Slip10_inv L w \<and> keys_match L w"
proof -
  from created_wallet [OF assms(1)] obtain secret where "matches_id generated" "new_EnglishMnemonic L mnemonic = ok secret"
    "w = \<lparr>w_id = generated, w_labelProducer = new_DefaultValueProducer None False, w_identities = [], w_labels = (\<lambda>_. None),
      w_implementationId = impl, w_secret = secret, w_curve = curve, w_privkeyPaths = (\<lambda>_. None)\<rparr>" by blast
  with mnemonic_kept [of L mnemonic secret] assms(2) show ?thesis
    by (simp add: Slip10_inv_def keys_match_def maps_identities_empty)
qed

lemma create_keys_match:
  assumes "Slip10_createIdentity L chainId options w = Some (ok (w', i))" "keys_match L w"
  shows "keys_match L w'"
proof -
  obtain path where opt: "options = PathOption path"
    using assms(1) by (cases options) (auto simp: Slip10_createIdentity_def)
  from assms(1) have preview: "Slip10_previewIdentity L w chainId (PathOption path) = Some (ok i)" and new: "i \<notin> set (w_identities w)"
      and w': "w' = w\<lparr>w_privkeyPaths := (w_privkeyPaths w)(identityId i \<mapsto> path),
        w_labels := (w_labels w)(identityId i \<mapsto> None), w_identities := w_identities w @ [i]\<rparr>"
    by (auto simp: opt Slip10_createIdentity_def Slip10_addIdentity_def thenRun_eq_ok split: if_splits)
  have "id_chainId i = chainId"
    using preview by (auto simp: Slip10_previewIdentity_def thenRun_eq_ok buildIdentity_def split: if_splits)
  moreover have "Slip10_previewIdentity L w' = Slip10_previewIdentity L w" by (rule preview_cong) (simp_all add: w')
  ultimately show ?thesis using assms(2) preview new by (auto simp: keys_match_def w')
qed

lemma keys_match_labels:
  assumes "keys_match L w"
  shows "keys_match L (w_setLabel l w)" "keys_match L (reloaded w)"
    and "w_setIdentityLabel i l w = ok w' \<Longrightarrow> keys_match L w'"
proof -
  show "keys_match L (w_setLabel l w)" using assms keys_match_cong [of "w_setLabel l w" w L] by (simp add: w_setLabel_def)
  show "keys_match L (reloaded w)" using assms keys_match_cong [of "reloaded w" w L] by (simp add: reloaded_def)
  show "keys_match L w'" if "w_setIdentityLabel i l w = ok w'"
    using assms that keys_match_cong [of w' w L] by (auto simp: w_setIdentityLabel_def split: if_splits)
qed

lemma history_inv: "slip10_history L w \<Longrightarrow> Slip10_inv L w \<and> keys_match L w"
proof (induction rule: slip10_history.induct)
  case (created generated curve mnemonic impl w)
  then show ?case by (rule created_inv)
next
  case (identity w options chainId w' i)
  then show ?case using Slip10_create_adds create_keys_match by blast
next
  case (label w l)
  then show ?case using Slip10_inv_labels(1) keys_match_labels(1) by blast
next
  case (identity_label w i l w')
  then show ?case using Slip10_inv_labels keys_match_labels by blast
next
  case (cloned w w')
  then have "w' = reloaded w" using Slip10_save_load [of L w] by (auto simp: Slip10_clone_def)
  then show ?case using cloned Slip10_inv_labels(2) keys_match_labels(2) by blast
qed

text \<open>
  The contract with a stronger invariant: the HD wallets can sign for their
  identities. It is what a keyring of such wallets keeps.
\<close>

definition signing_wallet :: "('h, 'a) crypto_lib_scheme \<Rightarrow> Wallet \<Rightarrow> bool" where
  "signing_wallet L w \<longleftrightarrow> wallet_inv L w \<and> (case w of Slip10W v \<Rightarrow> keys_match L v | Ed25519W v \<Rightarrow> True)"

interpretation signers: wallet_contract "iov_wallets L" "signing_wallet L" for L
proof
  fix w :: Wallet and chainId options w' i l
  assume "signing_wallet L w"
  then have w: "wallet_inv L w" and keys: "\<And>v. w = Slip10W v \<Longrightarrow> keys_match L v" by (simp_all add: signing_wallet_def)
  note wallets.label_keeps [OF w] wallets.identity_label_keeps [OF w] wallets.create_adds [OF w]
  show "distinct (op_getIdentities (iov_wallets L) w)" using wallets.identities_distinct [OF w] .
  show "signing_wallet L w' \<and> op_id (iov_wallets L) w' = op_id (iov_wallets L) w \<and>
      op_label (iov_wallets L) w' = op_label (iov_wallets L) w \<and> op_implementationId (iov_wallets L) w' = op_implementationId (iov_wallets L) w \<and>
      op_getIdentities (iov_wallets L) w' = op_getIdentities (iov_wallets L) w @ [i] \<and>
      i \<notin> set (op_getIdentities (iov_wallets L) w) \<and>
      op_previewIdentity (iov_wallets L) w chainId options = Some (ok i)"
    if "valid_options options" and c: "op_createIdentity (iov_wallets L) chainId options w = Some (ok (w', i))"
  proof -
    have "keys_match L v'" if "w' = Slip10W v'" for v'
      using c that keys create_keys_match [of L chainId options _ v' i]
      by (cases w) (auto simp: iov_wallets_def wallet_results simp del: createIdentity.simps)
    then show ?thesis using wallets.create_adds [OF w that] by (auto simp: signing_wallet_def split: Wallet.splits)
  qed
  show "signing_wallet L (op_setLabel (iov_wallets L) l w) \<and> looks_same (iov_wallets L) w (op_setLabel (iov_wallets L) l w) \<and>
      op_label (iov_wallets L) (op_setLabel (iov_wallets L) l w) = l"
    using wallets.label_keeps [OF w, of l] keys
    by (cases w) (auto simp: signing_wallet_def iov_wallets_def keys_match_labels)
  show "signing_wallet L w' \<and> looks_same (iov_wallets L) w w' \<and> op_label (iov_wallets L) w' = op_label (iov_wallets L) w \<and>
      op_getIdentityLabel (iov_wallets L) w' i = ok l"
    if s: "op_setIdentityLabel (iov_wallets L) i l w = ok w'"
  proof -
    have "keys_match L v'" if "w' = Slip10W v'" for v'
      using s that keys
      by (cases w) (auto simp: iov_wallets_def wallet_results keys_match_labels simp del: setIdentityLabel.simps)
    then show ?thesis using wallets.identity_label_keeps [OF w s] by (auto simp: signing_wallet_def split: Wallet.splits)
  qed
  obtain data w' load where loaded: "op_serialize (iov_wallets L) w = ok data" "op_clone (iov_wallets L) w = ok w'"
      "op_deserialize (iov_wallets L) (op_implementationId (iov_wallets L) w) = Some load" "load data = ok w'" "wallet_inv L w'"
      "looks_same (iov_wallets L) w w'" "op_label (iov_wallets L) w' = op_label (iov_wallets L) w"
      "op_serialize (iov_wallets L) w' = ok data" "op_getIdentityLabel (iov_wallets L) w' = op_getIdentityLabel (iov_wallets L) w"
      "op_createTransactionSignature (iov_wallets L) w' = op_createTransactionSignature (iov_wallets L) w"
    using wallets.save_load [OF w] by blast
  have "keys_match L v'" if "w' = Slip10W v'" for v'
  proof (cases w)
    case (Slip10W v)
    then have "v' = reloaded v" using Slip10_save_load [of L v] loaded(2) that w
      by (auto simp: iov_wallets_def Slip10_clone_def map_sum_ok)
    then show ?thesis using keys [OF Slip10W] by (simp add: keys_match_labels)
  next
    case (Ed25519W v)
    then show ?thesis using loaded(2) that by (auto simp: iov_wallets_def map_sum_ok)
  qed
  then have "signing_wallet L w'" using loaded(5) by (auto simp: signing_wallet_def split: Wallet.splits)
  with loaded show "\<exists>data w' load. op_serialize (iov_wallets L) w = ok data \<and> op_clone (iov_wallets L) w = ok w' \<and>
      op_deserialize (iov_wallets L) (op_implementationId (iov_wallets L) w) = Some load \<and> load data = ok w' \<and>
      signing_wallet L w' \<and> looks_same (iov_wallets L) w w' \<and>
      op_label (iov_wallets L) w' = op_label (iov_wallets L) w \<and> op_serialize (iov_wallets L) w' = ok data \<and>
      op_getIdentityLabel (iov_wallets L) w' = op_getIdentityLabel (iov_wallets L) w \<and>
      op_createTransactionSignature (iov_wallets L) w' = op_createTransactionSignature (iov_wallets L) w" by blast
qed

lemma keypair_signs:
  assumes "secp_laws L" "sodium_laws L" "curve_makeKeypair L curve privkey = ok keypair"
    and "curve = CurveSecp256k1 \<Longrightarrow> length message = 32"
  shows "\<exists>sig. (case curve of
        CurveEd25519 \<Rightarrow> andThen (Ed25519_makeKeypair L privkey) (Ed25519_createSignature L message)
      | CurveSecp256k1 \<Rightarrow> andThen (Secp256k1_createSignature L message privkey) Extended_toFixedLength) = ok sig \<and>
    verifies L \<lparr>pk_algo = algorithmFromCurve curve, pk_data = kp_pubkey keypair\<rparr> message sig"
proof (cases curve)
  case CurveEd25519
  then obtain key where key: "sodium_sign_seed_keypair L privkey = ok key" "fromLibsodiumPrivkey key = ok keypair"
    using assms(3) by (auto simp: curve_makeKeypair_def Ed25519_makeKeypair_def andThen_eq_Inr)
  with assms(2) obtain pub sig where "length privkey = 32" "length pub = 32" "key = privkey @ pub"
      "sodium_sign_detached L message (privkey @ pub) = ok sig" "sodium_verify_detached L sig message pub = ok True"
    unfolding sodium_laws_def by blast
  with key show ?thesis
    by (auto simp: CurveEd25519 Ed25519_makeKeypair_def Ed25519_createSignature_def fromLibsodiumPrivkey_def
        toLibsodiumPrivkey_def slice_def verifies_def Ed25519_verifySignature_def)
next
  case CurveSecp256k1
  then have "Secp256k1_makeKeypair L privkey = ok keypair" using assms(3) by (simp add: curve_makeKeypair_def)
  moreover have "message \<noteq> []" "length message \<le> 32" using assms(4) [OF CurveSecp256k1] by auto
  ultimately show ?thesis using signature_survives_encoding [OF assms(1)]
    by (fastforce simp: CurveSecp256k1 verifies_def)
qed

lemma matching_keys_sign:
  assumes "keys_match L w" "identity \<in> set (getIdentities (Slip10W w))"
    and "w_curve w = CurveSecp256k1 \<Longrightarrow> prehashType \<in> {PrehashSha256, PrehashKeccak256}"
    and "secp_laws L" "sodium_laws L" "digest_laws L"
  shows "\<exists>sig. createTransactionSignature L (Slip10W w) identity bytes prehashType = Some (ok sig) \<and>
    verifies L (id_pubkey identity) (prehash L bytes prehashType) sig"
proof -
  from assms(1,2) obtain path where path: "w_privkeyPaths w (identityId identity) = Some path"
      and "Slip10_previewIdentity L w (id_chainId identity) (PathOption path) = Some (ok identity)"
    by (auto simp: keys_match_def)
  then obtain seed r keypair where derived: "mnemonicToSeed L (w_secret w) None = ok seed"
      "derivePath L (Sha512 (cl_sha L)) (w_curve w) seed path = Some (ok r)"
      "curve_makeKeypair L (w_curve w) (s10_privkey r) = ok keypair"
      "buildIdentity (w_curve w) (id_chainId identity) (kp_pubkey keypair) = ok identity"
    by (auto simp: Slip10_previewIdentity_def thenRun_eq_ok)
  from derived(4) have pubkey: "id_pubkey identity = \<lparr>pk_algo = algorithmFromCurve (w_curve w), pk_data = kp_pubkey keypair\<rparr>"
    by (auto simp: buildIdentity_def split: if_splits dest: arg_cong [where f = id_pubkey])
  have "w_curve w = CurveSecp256k1 \<Longrightarrow> length (prehash L bytes prehashType) = 32"
    using assms(3,6) by (auto simp: prehash_def digest_laws_def)
  from keypair_signs [OF assms(4,5) derived(3) this] obtain sig where
    "(case w_curve w of
        CurveEd25519 \<Rightarrow> andThen (Ed25519_makeKeypair L (s10_privkey r)) (Ed25519_createSignature L (prehash L bytes prehashType))
      | CurveSecp256k1 \<Rightarrow> andThen (Secp256k1_createSignature L (prehash L bytes prehashType) (s10_privkey r)) Extended_toFixedLength)
      = ok sig" and v: "verifies L (id_pubkey identity) (prehash L bytes prehashType) sig"
    unfolding pubkey by blast
  moreover have "privkeyForIdentity L w identity = Some (ok (s10_privkey r))"
    by (simp add: privkeyForIdentity_def privkeyPathForIdentity_def path derived)
  moreover have "\<not> (w_curve w = CurveSecp256k1 \<and> prehashType = PrehashNone)" using assms(3) by auto
  ultimately have "Slip10_createTransactionSignature L w identity bytes prehashType = Some (ok sig)"
    unfolding Slip10_createTransactionSignature_def by (cases "w_curve w") simp_all
  with v show ?thesis by simp
qed

text \<open>The public key of an identity belongs to the curve of its wallet.\<close>

lemma matching_pubkey:
  assumes "keys_match L w" "identity \<in> set (getIdentities (Slip10W w))" "sodium_laws L"
  shows "pk_algo (id_pubkey identity) = algorithmFromCurve (w_curve w) \<and>
    (w_curve w = CurveEd25519 \<longrightarrow> length (pk_data (id_pubkey identity)) = 32)"
proof -
  from assms(1,2) obtain privkey keypair where derived: "curve_makeKeypair L (w_curve w) privkey = ok keypair"
      "buildIdentity (w_curve w) (id_chainId identity) (kp_pubkey keypair) = ok identity"
    by (fastforce simp: keys_match_def Slip10_previewIdentity_def thenRun_eq_ok)
  from derived(2) have pubkey: "id_pubkey identity = \<lparr>pk_algo = algorithmFromCurve (w_curve w), pk_data = kp_pubkey keypair\<rparr>"
    by (auto simp: buildIdentity_def split: if_splits dest: arg_cong [where f = id_pubkey])
  have "length (kp_pubkey keypair) = 32" if "w_curve w = CurveEd25519"
  proof -
    from that derived(1) obtain key where key: "sodium_sign_seed_keypair L privkey = ok key" "fromLibsodiumPrivkey key = ok keypair"
      by (auto simp: curve_makeKeypair_def Ed25519_makeKeypair_def andThen_eq_Inr)
    then show ?thesis using assms(3)
      by (fastforce simp: sodium_laws_def fromLibsodiumPrivkey_def slice_def split: if_splits)
  qed
  with pubkey show ?thesis by simp
qed

text \<open>
  C12. A wallet signs for its identities: in every HD wallet with a history of
  operations (created from a mnemonic, identities created, labels set, cloned),
  each identity it lists gets a signature, and the signature verifies under the
  public key of the identity. For secp256k1 the transaction bytes must be hashed
  with a 32 byte hash, and the signature verifies in its 64 byte form.
\<close>

theorem wallet_signs_for_its_identities:
  assumes "slip10_history L w" "identity \<in> set (getIdentities (Slip10W w))"
    and "w_curve w = CurveSecp256k1 \<Longrightarrow> prehashType \<in> {PrehashSha256, PrehashKeccak256}"
    and "secp_laws L" "sodium_laws L" "digest_laws L"
  shows "\<exists>sig. createTransactionSignature L (Slip10W w) identity bytes prehashType = Some (ok sig) \<and>
    verifies L (id_pubkey identity) (prehash L bytes prehashType) sig"
  by (rule matching_keys_sign [OF _ assms(2-)]) (simp_all add: history_inv [OF assms(1)])

text \<open>A wallet with one identity, over the packages of the demonstration.\<close>

definition demo_wallet :: Slip10Wallet where
  "demo_wallet = \<lparr>w_id = ''abc1'', w_labelProducer = new_DefaultValueProducer None False, w_identities = [],
     w_labels = (\<lambda>_. None), w_implementationId = ''secp256k1-hd'',
     w_secret = EnglishMnemonic ''abandon abandon abandon abandon abandon abandon abandon abandon abandon abandon abandon abandon'',
     w_curve = CurveSecp256k1, w_privkeyPaths = (\<lambda>_. None)\<rparr>"

definition demo_identity :: Identity where
  "demo_identity = \<lparr>id_chainId = ''chain'', id_pubkey = \<lparr>pk_algo = Secp256k1, pk_data = replicate 32 1\<rparr>\<rparr>"

lemma demo_created:
  "Secp256k1HdWallet_fromMnemonic demo_crypto ''abc1''
     ''abandon abandon abandon abandon abandon abandon abandon abandon abandon abandon abandon abandon'' = ok demo_wallet"
proof -
  have "bip39_wordlist demo_crypto = [''abandon'']" "bip39_mnemonicToEntropy demo_crypto m = ok ''00''" for m
    by (simp_all add: demo_crypto_def bn_lib.defs)
  then have "new_EnglishMnemonic demo_crypto
     ''abandon abandon abandon abandon abandon abandon abandon abandon abandon abandon abandon abandon''
     = ok (EnglishMnemonic ''abandon abandon abandon abandon abandon abandon abandon abandon abandon abandon abandon abandon'')"
    by (simp add: new_EnglishMnemonic_def mnemonicMatcher_def is_lower_letter_def)
  then show ?thesis
    by (simp add: Secp256k1HdWallet_fromMnemonic_def fromMnemonicWithCurve_def new_Slip10Wallet_def demo_wallet_def
        wallet_deserialize_def matches_id_def is_id_char_def slip10CurveFromString_def)
qed

lemma demo_wallet_laws: "digest_laws demo_crypto" "sodium_laws demo_crypto"
  by (auto simp: digest_laws_def sodium_laws_def demo_crypto_def bn_lib.defs digest_with_def Sha512_def Sha256_def)

lemma demo_preview: "Slip10_previewIdentity demo_crypto demo_wallet ''chain'' (PathOption []) = Some (ok demo_identity)"
proof -
  have hmac: "hmacSha512 (Sha512 (cl_sha demo_crypto)) key data = replicate 64 1" for key data
    by (simp add: hmacSha512_def Hmac_digest_def digest_with_def Sha512_def demo_crypto_def bn_lib.defs Hmac_update_def
        new_Hmac_def Let_def)
  have "master_retry demo_crypto CurveSecp256k1 (slice 0 32 (replicate 64 1)) = ok False"
    using demo_key by (simp add: slice_def master_retry_secp256k1 [OF demo_crypto_laws(2)])
  then have derive: "derivePath demo_crypto (Sha512 (cl_sha demo_crypto)) CurveSecp256k1 seed [] = Some (ok (master_split (replicate 64 1)))" for seed
    by (simp add: derivePath_def master_unfold hmac)
  have "is_ok (Secp256k1_makeKeypair demo_crypto (replicate 32 1))"
    using makeKeypair_iff [OF demo_crypto_laws(1)] demo_key by simp
  moreover have "ec_getPublic demo_crypto k = toHex k" for k by (simp add: demo_crypto_def bn_lib.defs)
  ultimately have "\<exists>kp. Secp256k1_makeKeypair demo_crypto (replicate 32 1) = ok kp \<and> kp_pubkey kp = replicate 32 1"
    by (auto simp: is_ok_iff Secp256k1_makeKeypair_def andThen_eq_Inr split: if_splits)
  moreover have "mnemonicToSeed demo_crypto m None = ok (replicate 64 1)" for m
    by (simp add: mnemonicToSeed_def demo_crypto_def bn_lib.defs)
  ultimately show ?thesis
    by (auto simp: Slip10_previewIdentity_def demo_wallet_def derive curve_makeKeypair_def master_split_def slice_def
        buildIdentity_def demo_identity_def)
qed

lemma wallet_signs_for_its_identities_witness:
  "\<exists>w sig. Slip10_createIdentity demo_crypto ''chain'' (PathOption []) demo_wallet = Some (ok (w, demo_identity)) \<and>
    createTransactionSignature demo_crypto (Slip10W w) demo_identity [1, 2, 3] PrehashSha256 = Some (ok sig) \<and>
    verifies demo_crypto (id_pubkey demo_identity) (prehash demo_crypto [1, 2, 3] PrehashSha256) sig"
proof -
  have "slip10_history demo_crypto demo_wallet"
    using slip10_history.created demo_created unfolding Secp256k1HdWallet_fromMnemonic_def by blast
  moreover obtain w where w: "Slip10_createIdentity demo_crypto ''chain'' (PathOption []) demo_wallet = Some (ok (w, demo_identity))"
      and "w_identities w = [demo_identity]" "w_curve w = CurveSecp256k1"
    by (auto simp: Slip10_createIdentity_def demo_preview Slip10_addIdentity_def) (simp add: demo_wallet_def)
  ultimately have "slip10_history demo_crypto w" "demo_identity \<in> set (getIdentities (Slip10W w))"
    using slip10_history.identity [of demo_crypto demo_wallet "PathOption []"] by auto
  from wallet_signs_for_its_identities [OF this _ demo_crypto_laws(1) demo_wallet_laws(2,1), of PrehashSha256 "[1, 2, 3]"] w
  show ?thesis by auto
qed

text \<open>
  Saving and loading: a wallet that satisfies its invariant can be serialized,
  the deserializer registered for its implementation id accepts the text, and the
  result, which is also what \<open>clone\<close> gives, has the same id, label, identities
  and identity labels, signs the same and is serialized to the same text again.
\<close>

lemma wallet_survives_serialization:
  assumes "wallet_inv L w"
  shows "\<exists>data w' load. serialize w = ok data \<and> registry L (implementationId w) = Some load \<and> load data = ok w' \<and> clone L w = ok w' \<and>
    wallet_inv L w' \<and> wallet_id w' = wallet_id w \<and> wallet_label w' = wallet_label w \<and>
    getIdentities w' = getIdentities w \<and> getIdentityLabel w' = getIdentityLabel w \<and>
    createTransactionSignature L w' = createTransactionSignature L w \<and> serialize w' = ok data"
  using wallets.save_load [OF assms] by (auto simp: iov_wallets_def looks_same_def)

end
