(* ===== verification/Key_Keyring.thy ===== *)
theory Key_Keyring
  imports Key_Wallet
begin

text \<open>
  \<open>packages/iov-keycontrol/src/keyring.ts\<close>: a list of wallets that must not share an
  identity. The class knows wallets by the interface \<open>Wallet\<close> only, so its
  operations take the record of methods \<open>W\<close>; what they promise is proved in the
  locale \<open>wallet_contract\<close> and holds for the wallets of the package by its
  interpretation. \<open>createIdentity\<close> awaits two calls of the wallet; the last
  section has the steps between them and shows what concurrent calls can do.
\<close>

section \<open>Operations\<close>

record WalletInfo =
  wi_id :: string
  wi_label :: "string option"

type_synonym 'w Keyring = "'w list"

definition keyring_getAllIdentities :: "'w WalletOps \<Rightarrow> 'w Keyring \<Rightarrow> Identity list" where
  "keyring_getAllIdentities W wallets = concat (map (op_getIdentities W) wallets)"

definition ensureNoIdentityCollision :: "'w WalletOps \<Rightarrow> 'w Keyring \<Rightarrow> Identity list \<Rightarrow> unit result" where
  "ensureNoIdentityCollision W wallets newIdentities =
     (let existingIdentities = keyring_getAllIdentities W wallets in
      if list_ex (\<lambda>newIdentity. list_ex (identityEquals newIdentity) existingIdentities) newIdentities
      then throw ''Identity collision: already exists in this Keyring'' else ok ())"

definition keyring_add :: "'w WalletOps \<Rightarrow> 'w \<Rightarrow> 'w Keyring \<Rightarrow> ('w Keyring \<times> WalletInfo) result" where
  "keyring_add W wallet wallets =
     andThen (ensureNoIdentityCollision W wallets (op_getIdentities W wallet)) (\<lambda>_.
     andThen (op_clone W wallet) (\<lambda>copy.
     ok (wallets @ [copy], \<lparr>wi_id = op_id W wallet, wi_label = op_label W wallet\<rparr>)))"

definition getWallet :: "'w WalletOps \<Rightarrow> 'w Keyring \<Rightarrow> string \<Rightarrow> 'w option" where
  "getWallet W wallets walletId = find (\<lambda>wallet. op_id W wallet = walletId) wallets"

definition getWalletByIdentity :: "'w WalletOps \<Rightarrow> 'w Keyring \<Rightarrow> Identity \<Rightarrow> 'w option" where
  "getWalletByIdentity W wallets identity =
     find (\<lambda>wallet. list_ex (identityEquals identity) (op_getIdentities W wallet)) wallets"

text \<open>
  A mutable reference to the first wallet with a property: its position. A
  method that mutates it replaces it there.
\<close>

definition find_index :: "('w \<Rightarrow> bool) \<Rightarrow> 'w list \<Rightarrow> nat option" where
  "find_index P xs = (let n = length (takeWhile (\<lambda>x. \<not> P x) xs) in if n < length xs then Some n else None)"

definition getMutableWallet :: "'w WalletOps \<Rightarrow> 'w Keyring \<Rightarrow> string \<Rightarrow> nat option" where
  "getMutableWallet W wallets walletId = find_index (\<lambda>wallet. op_id W wallet = walletId) wallets"

definition getMutableWalletByIdentity :: "'w WalletOps \<Rightarrow> 'w Keyring \<Rightarrow> Identity \<Rightarrow> nat option" where
  "getMutableWalletByIdentity W wallets identity =
     find_index (\<lambda>wallet. list_ex (identityEquals identity) (op_getIdentities W wallet)) wallets"

definition keyring_setWalletLabel :: "'w WalletOps \<Rightarrow> string \<Rightarrow> string option \<Rightarrow> 'w Keyring \<Rightarrow> 'w Keyring result" where
  "keyring_setWalletLabel W walletId label wallets = (case getMutableWallet W wallets walletId of
     None \<Rightarrow> throw ''Wallet does not exist in keyring''
   | Some n \<Rightarrow> ok (wallets[n := op_setLabel W label (wallets ! n)]))"

text \<open>One call of \<open>createIdentity\<close> that is not interleaved with others.\<close>

definition keyring_createIdentity ::
  "'w WalletOps \<Rightarrow> string \<Rightarrow> ChainId \<Rightarrow> createOptions \<Rightarrow> 'w Keyring \<Rightarrow> ('w Keyring \<times> Identity) run" where
  "keyring_createIdentity W walletId chainId options wallets = (case getMutableWallet W wallets walletId of
     None \<Rightarrow> Some (throw ''Wallet does not exist in keyring'')
   | Some n \<Rightarrow>
       thenRun (op_previewIdentity W (wallets ! n) chainId options) (\<lambda>preview.
       thenRun (Some (ensureNoIdentityCollision W wallets [preview])) (\<lambda>_.
       thenRun (op_createIdentity W chainId options (wallets ! n)) (\<lambda>(wallet, identity).
       Some (ok (wallets[n := wallet], identity))))))"

definition keyring_setIdentityLabel ::
  "'w WalletOps \<Rightarrow> Identity \<Rightarrow> string option \<Rightarrow> 'w Keyring \<Rightarrow> 'w Keyring result" where
  "keyring_setIdentityLabel W identity label wallets = (case getMutableWalletByIdentity W wallets identity of
     None \<Rightarrow> throw ''No wallet for identity found in keyring''
   | Some n \<Rightarrow> andThen (op_setIdentityLabel W identity label (wallets ! n)) (\<lambda>wallet. ok (wallets[n := wallet])))"

text \<open>The document of a serialized keyring; \<open>None\<close> is a text that is not JSON.\<close>

record KeyringSerialization =
  ks_formatVersion :: js_value
  ks_wallets :: "(string \<times> WalletSerializationString) list"

type_synonym KeyringSerializationString = "KeyringSerialization option"

definition keyring_deserialize :: "KeyringSerializationString \<Rightarrow> KeyringSerialization result" where
  "keyring_deserialize data = (case data of
     None \<Rightarrow> throw ''SyntaxError''
   | Some doc \<Rightarrow>
       (case ks_formatVersion doc of
          Number formatVersion \<Rightarrow>
            if formatVersion = int_num 1 then ok doc else throw ''Got unsupported format version''
        | _ \<Rightarrow> throw ''Expected property formatVersion of type number''))"

definition deserializeWallet :: "'w WalletOps \<Rightarrow> string \<times> WalletSerializationString \<Rightarrow> 'w result" where
  "deserializeWallet W serializedWallet = (case op_deserialize W (fst serializedWallet) of
     None \<Rightarrow> throw ''No deserializer registered for wallet''
   | Some deserializer \<Rightarrow>
       (case deserializer (snd serializedWallet) of
          Inl e \<Rightarrow> throw (''Error creating wallet: '' @ e)
        | Inr wallet \<Rightarrow> ok wallet))"

definition new_Keyring :: "'w WalletOps \<Rightarrow> KeyringSerializationString option \<Rightarrow> 'w Keyring result" where
  "new_Keyring W data = (case data of
     None \<Rightarrow> ok []
   | Some text \<Rightarrow>
       andThen (keyring_deserialize text) (\<lambda>parsedData.
       andThen (mapM (deserializeWallet W) (ks_wallets parsedData)) (\<lambda>wallets.
       foldM (\<lambda>k wallet. andThen (keyring_add W wallet k) (\<lambda>(k', info). ok k')) [] wallets)))"

definition keyring_serialize :: "'w WalletOps \<Rightarrow> 'w Keyring \<Rightarrow> KeyringSerializationString result" where
  "keyring_serialize W wallets =
     andThen (mapM (\<lambda>wallet. andThen (op_serialize W wallet) (\<lambda>data. ok (op_implementationId W wallet, data))) wallets)
       (\<lambda>out. ok (Some \<lparr>ks_formatVersion = Number (int_num 1), ks_wallets = out\<rparr>))"

definition keyring_clone :: "'w WalletOps \<Rightarrow> 'w Keyring \<Rightarrow> 'w Keyring result" where
  "keyring_clone W wallets = andThen (keyring_serialize W wallets) (\<lambda>data. new_Keyring W (Some data))"

section \<open>Histories of a keyring\<close>

inductive keyring_history :: "'w WalletOps \<Rightarrow> ('w \<Rightarrow> bool) \<Rightarrow> 'w Keyring \<Rightarrow> bool" for W ok_wallet where
  empty: "keyring_history W ok_wallet []"
| add: "keyring_history W ok_wallet k \<Longrightarrow> ok_wallet wallet \<Longrightarrow> keyring_add W wallet k = ok (k', info) \<Longrightarrow> keyring_history W ok_wallet k'"
| wallet_label: "keyring_history W ok_wallet k \<Longrightarrow> keyring_setWalletLabel W walletId l k = ok k' \<Longrightarrow> keyring_history W ok_wallet k'"
| identity: "keyring_history W ok_wallet k \<Longrightarrow> valid_options options \<Longrightarrow>
    keyring_createIdentity W walletId chainId options k = Some (ok (k', i)) \<Longrightarrow> keyring_history W ok_wallet k'"
| identity_label: "keyring_history W ok_wallet k \<Longrightarrow> keyring_setIdentityLabel W i l k = ok k' \<Longrightarrow> keyring_history W ok_wallet k'"
| cloned: "keyring_history W ok_wallet k \<Longrightarrow> keyring_clone W k = ok k' \<Longrightarrow> keyring_history W ok_wallet k'"

lemma find_index_Some: "find_index P xs = Some n \<longleftrightarrow> n < length xs \<and> P (xs ! n) \<and> (\<forall>m < n. \<not> P (xs ! m))"
proof (induction xs arbitrary: n)
  case Nil
  then show ?case by (simp add: find_index_def)
next
  case (Cons x xs)
  have "find_index P (x # xs) = (if P x then Some 0 else map_option Suc (find_index P xs))"
    by (simp add: find_index_def Let_def)
  then show ?case by (cases n) (auto simp: Cons.IH nth_Cons split: nat.splits)
qed

lemma ensure_ok:
  "ensureNoIdentityCollision W k new = ok () \<longleftrightarrow> set new \<inter> set (keyring_getAllIdentities W k) = {}"
  by (auto simp: ensureNoIdentityCollision_def Let_def list_ex_iff)

lemma ensure_cases:
  "ensureNoIdentityCollision W k new =
     (if set new \<inter> set (keyring_getAllIdentities W k) = {} then ok ()
      else throw ''Identity collision: already exists in this Keyring'')"
  using ensure_ok [of W k new] by (auto simp: ensureNoIdentityCollision_def Let_def)

lemma all_identities_simps [simp]:
  "keyring_getAllIdentities W [] = []"
  "keyring_getAllIdentities W (w # k) = op_getIdentities W w @ keyring_getAllIdentities W k"
  "keyring_getAllIdentities W (k @ k') = keyring_getAllIdentities W k @ keyring_getAllIdentities W k'"
  by (simp_all add: keyring_getAllIdentities_def)

definition keyring_inv :: "'w WalletOps \<Rightarrow> ('w \<Rightarrow> bool) \<Rightarrow> 'w Keyring \<Rightarrow> bool" where
  "keyring_inv W ok_wallet k \<longleftrightarrow> list_all ok_wallet k \<and> distinct (keyring_getAllIdentities W k)"

text \<open>Replacing one wallet of a keyring.\<close>

lemma list_all_update: "list_all P xs \<Longrightarrow> P x \<Longrightarrow> list_all P (xs[n := x])"
  using set_update_subset_insert [of xs n x] by (auto simp: list_all_iff)

lemma identities_update_same:
  "n < length k \<Longrightarrow> op_getIdentities W w = op_getIdentities W (k ! n) \<Longrightarrow>
   keyring_getAllIdentities W (k[n := w]) = keyring_getAllIdentities W k"
  by (induction k arbitrary: n) (auto split: nat.splits)

lemma keyring_inv_update_same:
  "keyring_inv W ok_wallet k \<Longrightarrow> n < length k \<Longrightarrow> ok_wallet w \<Longrightarrow> op_getIdentities W w = op_getIdentities W (k ! n) \<Longrightarrow>
   keyring_inv W ok_wallet (k[n := w])"
  by (simp add: keyring_inv_def identities_update_same list_all_update)

lemma mset_identities_update:
  "n < length k \<Longrightarrow> op_getIdentities W w = op_getIdentities W (k ! n) @ [i] \<Longrightarrow>
   set (keyring_getAllIdentities W (k[n := w])) = insert i (set (keyring_getAllIdentities W k)) \<and>
   (distinct (keyring_getAllIdentities W (k[n := w])) \<longleftrightarrow>
      distinct (keyring_getAllIdentities W k) \<and> i \<notin> set (keyring_getAllIdentities W k))"
proof (induction k arbitrary: n)
  case (Cons v k)
  show ?case
  proof (cases n)
    case 0
    with Cons.prems show ?thesis by auto
  next
    case (Suc m)
    with Cons.prems Cons.IH [of m] show ?thesis by auto
  qed
qed simp

text \<open>Two keyrings whose wallets differ in nothing their callers can see.\<close>

definition same_wallets :: "'w WalletOps \<Rightarrow> 'w Keyring \<Rightarrow> 'w Keyring \<Rightarrow> bool" where
  "same_wallets W k k' \<longleftrightarrow> list_all2 (\<lambda>w w'. looks_same W w w' \<and> op_label W w' = op_label W w \<and>
     op_serialize W w' = op_serialize W w \<and> op_getIdentityLabel W w' = op_getIdentityLabel W w \<and>
     op_createTransactionSignature W w' = op_createTransactionSignature W w) k k'"

section \<open>What the contract of the wallets gives the keyring\<close>

context wallet_contract
begin

lemma add_inv:
  assumes "keyring_inv W inv k" "inv wallet" "keyring_add W wallet k = ok (k', info)"
  shows "keyring_inv W inv k'"
proof -
  from assms(3) obtain copy where copy: "op_clone W wallet = ok copy" "k' = k @ [copy]"
      and new: "set (op_getIdentities W wallet) \<inter> set (keyring_getAllIdentities W k) = {}"
    by (auto simp: keyring_add_def andThen_eq_Inr ensure_ok)
  moreover have "inv copy" "op_getIdentities W copy = op_getIdentities W wallet"
    using save_load [OF assms(2)] copy(1) by (auto simp: looks_same_def)
  ultimately show ?thesis using assms(1) identities_distinct [OF assms(2)]
    by (auto simp: keyring_inv_def)
qed

lemma createIdentity_inv:
  assumes "keyring_inv W inv k" "valid_options options"
    and "keyring_createIdentity W walletId chainId options k = Some (ok (k', i))"
  shows "keyring_inv W inv k'" "i \<notin> set (keyring_getAllIdentities W k)"
    "set (keyring_getAllIdentities W k') = insert i (set (keyring_getAllIdentities W k))"
proof -
  from assms(3) obtain n w' preview where n: "getMutableWallet W k walletId = Some n"
      and preview: "op_previewIdentity W (k ! n) chainId options = Some (ok preview)"
        "set [preview] \<inter> set (keyring_getAllIdentities W k) = {}"
      and create: "op_createIdentity W chainId options (k ! n) = Some (ok (w', i))" "k' = k[n := w']"
    by (auto simp: keyring_createIdentity_def thenRun_eq_ok ensure_ok split: option.splits)
  have len: "n < length k" using n by (simp add: getMutableWallet_def find_index_Some)
  with assms(1) have "inv (k ! n)" by (simp add: keyring_inv_def list_all_length)
  from create_adds [OF this assms(2) create(1)] preview
  have w': "inv w'" "op_getIdentities W w' = op_getIdentities W (k ! n) @ [i]" "i \<notin> set (keyring_getAllIdentities W k)"
    by auto
  with mset_identities_update [OF len w'(2)] assms(1)
  show "keyring_inv W inv k'" "i \<notin> set (keyring_getAllIdentities W k)"
    "set (keyring_getAllIdentities W k') = insert i (set (keyring_getAllIdentities W k))"
    by (simp_all add: keyring_inv_def create(2) list_all_update)
qed

lemma setWalletLabel_inv:
  assumes "keyring_inv W inv k" "keyring_setWalletLabel W walletId l k = ok k'"
  shows "keyring_inv W inv k'" "keyring_getAllIdentities W k' = keyring_getAllIdentities W k"
proof -
  from assms(2) obtain n where n: "n < length k" "k' = k[n := op_setLabel W l (k ! n)]"
    by (auto simp: keyring_setWalletLabel_def getMutableWallet_def find_index_Some split: option.splits)
  moreover from this assms(1) have "inv (k ! n)" by (simp add: keyring_inv_def list_all_length)
  moreover note label_keeps [OF this, of l]
  ultimately show "keyring_inv W inv k'" "keyring_getAllIdentities W k' = keyring_getAllIdentities W k"
    using assms(1) by (simp_all add: keyring_inv_update_same identities_update_same looks_same_def)
qed

lemma setIdentityLabel_inv:
  assumes "keyring_inv W inv k" "keyring_setIdentityLabel W i l k = ok k'"
  shows "keyring_inv W inv k'" "keyring_getAllIdentities W k' = keyring_getAllIdentities W k"
proof -
  from assms(2) obtain n w where n: "n < length k" "op_setIdentityLabel W i l (k ! n) = ok w" "k' = k[n := w]"
    by (auto simp: keyring_setIdentityLabel_def getMutableWalletByIdentity_def find_index_Some andThen_eq_Inr
        split: option.splits)
  moreover from this assms(1) have "inv (k ! n)" by (simp add: keyring_inv_def list_all_length)
  moreover note identity_label_keeps [OF this n(2)]
  ultimately show "keyring_inv W inv k'" "keyring_getAllIdentities W k' = keyring_getAllIdentities W k"
    using assms(1) by (simp_all add: keyring_inv_update_same identities_update_same looks_same_def)
qed

text \<open>Loading the wallets of a serialized keyring one after the other.\<close>

lemma same_identities: "same_wallets W k k' \<Longrightarrow> keyring_getAllIdentities W k' = keyring_getAllIdentities W k"
  unfolding same_wallets_def by (induction rule: list_all2_induct) (simp_all add: looks_same_def)

lemma add_all:
  "list_all inv ws \<Longrightarrow> distinct (keyring_getAllIdentities W ws) \<Longrightarrow>
   set (keyring_getAllIdentities W ws) \<inter> set (keyring_getAllIdentities W k) = {} \<Longrightarrow>
   \<exists>ws'. foldM (\<lambda>k wallet. andThen (keyring_add W wallet k) (\<lambda>(k', info). ok k')) k ws = ok (k @ ws') \<and>
     same_wallets W ws ws' \<and> list_all inv ws'"
proof (induction ws arbitrary: k)
  case Nil
  then show ?case by (simp add: same_wallets_def)
next
  case (Cons w ws)
  from save_load [of w] Cons.prems(1) obtain w' data where w': "op_clone W w = ok w'" "inv w'" "looks_same W w w'"
      "op_label W w' = op_label W w" "op_serialize W w = ok data" "op_serialize W w' = ok data"
      "op_getIdentityLabel W w' = op_getIdentityLabel W w"
      "op_createTransactionSignature W w' = op_createTransactionSignature W w" by auto
  have "set (op_getIdentities W w) \<inter> set (keyring_getAllIdentities W k) = {}" using Cons.prems(3) by auto
  then have add: "keyring_add W w k = ok (k @ [w'], \<lparr>wi_id = op_id W w, wi_label = op_label W w\<rparr>)"
    using w'(1) by (simp add: keyring_add_def ensure_cases)
  have "set (keyring_getAllIdentities W ws) \<inter> set (keyring_getAllIdentities W (k @ [w'])) = {}"
    using Cons.prems(2,3) w'(3) by (auto simp: looks_same_def)
  from Cons.IH [OF _ _ this] Cons.prems(1,2) obtain ws' where ws':
    "foldM (\<lambda>k wallet. andThen (keyring_add W wallet k) (\<lambda>(k', info). ok k')) (k @ [w']) ws = ok ((k @ [w']) @ ws')"
    "same_wallets W ws ws'" "list_all inv ws'" by auto
  have "same_wallets W (w # ws) (w' # ws')" using w' ws'(2) by (simp add: same_wallets_def)
  then show ?case using w'(2) ws' by (intro exI [of _ "w' # ws'"]) (simp add: add)
qed

lemma serialize_load:
  assumes "list_all inv k"
  shows "\<exists>out ws. keyring_serialize W k = ok (Some \<lparr>ks_formatVersion = Number (int_num 1), ks_wallets = out\<rparr>) \<and>
    mapM (deserializeWallet W) out = ok ws \<and> same_wallets W k ws \<and> list_all inv ws"
proof -
  have "\<exists>out ws. mapM (\<lambda>wallet. andThen (op_serialize W wallet) (\<lambda>data. ok (op_implementationId W wallet, data))) k = ok out \<and>
    mapM (deserializeWallet W) out = ok ws \<and> same_wallets W k ws \<and> list_all inv ws"
    using assms
  proof (induction k)
    case Nil
    then show ?case by (simp add: same_wallets_def)
  next
    case (Cons w k)
    then obtain out ws where "mapM (\<lambda>wallet. andThen (op_serialize W wallet) (\<lambda>data. ok (op_implementationId W wallet, data))) k = ok out"
      "mapM (deserializeWallet W) out = ok ws" "same_wallets W k ws" "list_all inv ws" by auto
    moreover obtain data w' load where "op_serialize W w = ok data" "op_deserialize W (op_implementationId W w) = Some load"
        "load data = ok w'" "inv w'" "looks_same W w w'" "op_label W w' = op_label W w" "op_serialize W w' = ok data"
        "op_getIdentityLabel W w' = op_getIdentityLabel W w"
        "op_createTransactionSignature W w' = op_createTransactionSignature W w"
      using save_load [of w] Cons.prems by auto
    moreover from this have "deserializeWallet W (op_implementationId W w, data) = ok w'" by (simp add: deserializeWallet_def)
    ultimately show ?case
      by (intro exI [of _ "(op_implementationId W w, data) # out"] exI [of _ "w' # ws"]) (simp add: same_wallets_def)
  qed
  then show ?thesis by (auto simp: keyring_serialize_def)
qed

lemma same_wallets_trans:
  assumes "same_wallets W k k'" "same_wallets W k' k''"
  shows "same_wallets W k k''"
  using assms unfolding same_wallets_def by (rule list_all2_trans [rotated]) (auto simp: looks_same_def)

lemma same_serialized: "same_wallets W k k' \<Longrightarrow> keyring_serialize W k' = keyring_serialize W k"
proof -
  assume "same_wallets W k k'"
  then have "mapM (\<lambda>wallet. andThen (op_serialize W wallet) (\<lambda>data. ok (op_implementationId W wallet, data))) k'
    = mapM (\<lambda>wallet. andThen (op_serialize W wallet) (\<lambda>data. ok (op_implementationId W wallet, data))) k"
    unfolding same_wallets_def by (induction rule: list_all2_induct) (simp_all add: looks_same_def)
  then show ?thesis by (simp add: keyring_serialize_def)
qed

lemma reload:
  assumes "keyring_inv W inv k"
  shows "\<exists>data k'. keyring_serialize W k = ok data \<and> new_Keyring W (Some data) = ok k' \<and> keyring_clone W k = ok k' \<and>
    same_wallets W k k' \<and> keyring_inv W inv k' \<and> keyring_serialize W k' = ok data"
proof -
  from serialize_load [of k] assms obtain out ws where
    out: "keyring_serialize W k = ok (Some \<lparr>ks_formatVersion = Number (int_num 1), ks_wallets = out\<rparr>)"
      "mapM (deserializeWallet W) out = ok ws" "same_wallets W k ws" "list_all inv ws"
    by (auto simp: keyring_inv_def)
  have "distinct (keyring_getAllIdentities W ws)" using assms same_identities [OF out(3)] by (simp add: keyring_inv_def)
  from add_all [OF out(4) this, of "[]"] obtain k' where
    k': "foldM (\<lambda>k wallet. andThen (keyring_add W wallet k) (\<lambda>(k', info). ok k')) [] ws = ok k'"
      "same_wallets W ws k'" "list_all inv k'" by auto
  from same_wallets_trans [OF out(3) k'(2)] have same: "same_wallets W k k'" .
  then have "keyring_inv W inv k'" using assms k'(3) same_identities by (simp add: keyring_inv_def)
  moreover have "new_Keyring W (Some (Some \<lparr>ks_formatVersion = Number (int_num 1), ks_wallets = out\<rparr>)) = ok k'"
    using out(2) k'(1) by (simp add: new_Keyring_def keyring_deserialize_def)
  ultimately show ?thesis using out(1) same same_serialized [OF same] by (auto simp: keyring_clone_def)
qed

lemma history_keyring_inv: "keyring_history W inv k \<Longrightarrow> keyring_inv W inv k"
proof (induction rule: keyring_history.induct)
  case empty
  then show ?case by (simp add: keyring_inv_def)
next
  case (cloned k k')
  then show ?case using reload [of k] by auto
qed (auto intro: add_inv setWalletLabel_inv createIdentity_inv setIdentityLabel_inv)

end


text \<open>An identity of a keyring belongs to one wallet, the one that \<open>getWalletByIdentity\<close> returns.\<close>

lemma identity_owner:
  "distinct (keyring_getAllIdentities W k) \<Longrightarrow> n < length k \<Longrightarrow> i \<in> set (op_getIdentities W (k ! n)) \<Longrightarrow>
   getWalletByIdentity W k i = Some (k ! n)"
proof (induction k arbitrary: n)
  case (Cons w k)
  show ?case
  proof (cases n)
    case 0
    with Cons.prems show ?thesis by (simp add: getWalletByIdentity_def list_ex_iff)
  next
    case (Suc m)
    with Cons.prems have "i \<in> set (keyring_getAllIdentities W k)" by (auto simp: keyring_getAllIdentities_def)
    then have "i \<notin> set (op_getIdentities W w)" using Cons.prems(1) by auto
    then have "getWalletByIdentity W (w # k) i = getWalletByIdentity W k i"
      by (simp add: getWalletByIdentity_def list_ex_iff)
    with Suc Cons show ?thesis by simp
  qed
qed simp

text \<open>
  C8. Identities are unique: in every keyring that a sequence of its operations
  can produce (each awaited before the next starts), no identity occurs twice,
  neither in one wallet nor in two, and the lookup by an identity returns the
  wallet that holds it.
\<close>

theorem keyring_identities_unique:
  assumes "keyring_history (iov_wallets L) (wallet_inv L) k"
  shows "distinct (concat (map getIdentities k)) \<and>
    (\<forall>n i. n < length k \<and> i \<in> set (getIdentities (k ! n)) \<longrightarrow> getWalletByIdentity (iov_wallets L) k i = Some (k ! n))"
proof -
  from wallets.history_keyring_inv [OF assms] have d: "distinct (keyring_getAllIdentities (iov_wallets L) k)"
    by (simp add: keyring_inv_def)
  then show ?thesis using identity_owner [OF d] by (simp add: keyring_getAllIdentities_def iov_wallets_def)
qed

lemma keyring_history_mono:
  "keyring_history W P k \<Longrightarrow> (\<And>w. P w \<Longrightarrow> Q w) \<Longrightarrow> keyring_history W Q k"
  by (induction rule: keyring_history.induct) (blast intro: keyring_history.intros)+

lemma signing_keyring:
  assumes "slip10_history L w" "w_identities w = [identity]"
  shows "\<exists>v. keyring_history (iov_wallets L) (signing_wallet L) [Slip10W v] \<and> w_identities v = [identity]"
proof -
  have w_inv: "signing_wallet L (Slip10W w)" using history_inv [OF assms(1)] by (simp add: signing_wallet_def)
  from signers.save_load [OF this] obtain w' where clone: "op_clone (iov_wallets L) (Slip10W w) = ok w'"
      and same: "looks_same (iov_wallets L) (Slip10W w) w'" by blast
  from clone obtain v where v: "w' = Slip10W v" by (auto simp: iov_wallets_def map_sum_ok)
  from clone have "keyring_add (iov_wallets L) (Slip10W w) [] =
      ok ([Slip10W v], \<lparr>wi_id = op_id (iov_wallets L) (Slip10W w), wi_label = op_label (iov_wallets L) (Slip10W w)\<rparr>)"
    by (simp add: keyring_add_def ensure_cases v)
  moreover have "w_identities v = [identity]" using same by (simp add: looks_same_def iov_wallets_def assms(2) v)
  ultimately show ?thesis
    using keyring_history.add [OF keyring_history.empty, of "signing_wallet L" "Slip10W w"] w_inv by blast
qed

lemma demo_signing_keyring:
  "\<exists>w. keyring_history (iov_wallets demo_crypto) (signing_wallet demo_crypto) [Slip10W w] \<and> w_identities w = [demo_identity]"
proof -
  have "slip10_history demo_crypto demo_wallet"
    using slip10_history.created demo_created unfolding Secp256k1HdWallet_fromMnemonic_def by blast
  moreover obtain w where w: "Slip10_createIdentity demo_crypto ''chain'' (PathOption []) demo_wallet = Some (ok (w, demo_identity))"
      and ids: "w_identities w = [demo_identity]"
    by (auto simp: Slip10_createIdentity_def demo_preview Slip10_addIdentity_def) (simp add: demo_wallet_def)
  ultimately have "slip10_history demo_crypto w"
    using slip10_history.identity [of demo_crypto demo_wallet "PathOption []"] by auto
  from signing_keyring [OF this ids] show ?thesis .
qed

lemma demo_keyring:
  "\<exists>w. keyring_history (iov_wallets demo_crypto) (wallet_inv demo_crypto) [w] \<and> getIdentities w = [demo_identity]"
proof -
  from demo_signing_keyring obtain w where w: "w_identities w = [demo_identity]"
      "keyring_history (iov_wallets demo_crypto) (signing_wallet demo_crypto) [Slip10W w]" by blast
  from keyring_history_mono [OF this(2)] have "keyring_history (iov_wallets demo_crypto) (wallet_inv demo_crypto) [Slip10W w]"
    by (simp add: signing_wallet_def)
  with w(1) show ?thesis by (intro exI [of _ "Slip10W w"]) simp
qed

lemma keyring_identities_unique_witness:
  "\<exists>k. distinct (concat (map getIdentities k)) \<and> getIdentities (k ! 0) = [demo_identity] \<and>
    getWalletByIdentity (iov_wallets demo_crypto) k demo_identity = Some (k ! 0)"
proof -
  from demo_keyring obtain w where "keyring_history (iov_wallets demo_crypto) (wallet_inv demo_crypto) [w]"
      "getIdentities w = [demo_identity]" by blast
  with keyring_identities_unique [OF this(1)] show ?thesis by (intro exI [of _ "[w]"]) simp
qed

text \<open>
  Saving and loading a keyring: what \<open>serialize\<close> writes is accepted by the
  constructor, the new keyring has the same wallets in the same order (ids,
  labels, identities, identity labels, signatures), is what \<open>clone\<close> returns,
  and is serialized to the same text.
\<close>

lemma keyring_survives_serialization:
  assumes "keyring_history (iov_wallets L) (wallet_inv L) k"
  shows "\<exists>data k'. keyring_serialize (iov_wallets L) k = ok data \<and> new_Keyring (iov_wallets L) (Some data) = ok k' \<and>
    keyring_clone (iov_wallets L) k = ok k' \<and> same_wallets (iov_wallets L) k k' \<and>
    keyring_serialize (iov_wallets L) k' = ok data"
  using wallets.reload [OF wallets.history_keyring_inv [OF assms]] by blast

section \<open>Concurrent calls of createIdentity\<close>

text \<open>
  A call of \<open>createIdentity\<close> that is not awaited before the next one starts is
  suspended twice: while the wallet computes the preview, and, in an HD wallet,
  while \<open>createIdentity\<close> of the wallet derives the same identity again. The
  computations read nothing that changes, so a suspended call is its position
  in the code and the identity it waits for. The ed25519 wallet computes nothing
  asynchronously: its \<open>createIdentity\<close> runs in the step of the check.
\<close>

datatype pending =
    AwaitPreview nat ChainId createOptions Identity
  | AwaitCreate nat "Slip10RawIndex list" Identity

inductive keyring_step ::
  "('h, 'a) crypto_lib_scheme \<Rightarrow> Wallet Keyring \<times> pending list \<Rightarrow> Wallet Keyring \<times> pending list \<Rightarrow> bool" for L where
  call: "getMutableWallet (iov_wallets L) k walletId = Some n \<Longrightarrow>
    previewIdentity L (k ! n) chainId options = Some (ok i) \<Longrightarrow>
    keyring_step L (k, ps) (k, ps @ [AwaitPreview n chainId options i])"
| collision: "ensureNoIdentityCollision (iov_wallets L) k [i] = throw e \<Longrightarrow>
    keyring_step L (k, ps @ AwaitPreview n chainId options i # qs) (k, ps @ qs)"
| create_ed25519: "ensureNoIdentityCollision (iov_wallets L) k [i] = ok () \<Longrightarrow> k ! n = Ed25519W w \<Longrightarrow>
    Ed25519_createIdentity chainId options w = ok (w', i') \<Longrightarrow>
    keyring_step L (k, ps @ AwaitPreview n chainId options i # qs) (k[n := Ed25519W w'], ps @ qs)"
| derive: "ensureNoIdentityCollision (iov_wallets L) k [i] = ok () \<Longrightarrow> k ! n = Slip10W w \<Longrightarrow>
    Slip10_previewIdentity L w chainId (PathOption path) = Some (ok i') \<Longrightarrow>
    keyring_step L (k, ps @ AwaitPreview n chainId (PathOption path) i # qs) (k, ps @ AwaitCreate n path i' # qs)"
| create_slip10: "k ! n = Slip10W w \<Longrightarrow> Slip10_addIdentity path i w = ok (w', i') \<Longrightarrow>
    keyring_step L (k, ps @ AwaitCreate n path i # qs) (k[n := Slip10W w'], ps @ qs)"
| fails: "k ! n = Slip10W w \<Longrightarrow> Slip10_addIdentity path i w = throw e \<Longrightarrow>
    keyring_step L (k, ps @ AwaitCreate n path i # qs) (k, ps @ qs)"

text \<open>
  A keyring with two HD wallets of the same secret (say, one recovery phrase
  imported twice), and no identity yet in either.
\<close>

definition twin_wallets :: "('h, 'a) crypto_lib_scheme \<Rightarrow> Slip10Wallet \<Rightarrow> Slip10Wallet \<Rightarrow> bool" where
  "twin_wallets L a b \<longleftrightarrow> Slip10_inv L a \<and> Slip10_inv L b \<and> w_id a \<noteq> w_id b \<and> w_secret a = w_secret b \<and> w_curve a = w_curve b \<and>
     w_identities a = [] \<and> w_identities b = []"

lemma twin_calls:
  assumes "twin_wallets L a b" "Slip10_previewIdentity L a chainId (PathOption path) = Some (ok i)"
  shows "\<exists>a' b'. Slip10_createIdentity L chainId (PathOption path) a = Some (ok (a', i)) \<and>
    Slip10_createIdentity L chainId (PathOption path) b = Some (ok (b', i)) \<and>
    rtranclp (keyring_step L) ([Slip10W a, Slip10W b], []) ([Slip10W a', Slip10W b'], [])"
proof -
  have ab: "w_id a \<noteq> w_id b" "w_identities a = []" "w_identities b = []" using assms(1) by (simp_all add: twin_wallets_def)
  have b: "Slip10_previewIdentity L b chainId (PathOption path) = Some (ok i)"
    using assms preview_cong [of b a L] by (simp add: twin_wallets_def)
  obtain a' where a': "Slip10_addIdentity path i a = ok (a', i)" by (simp add: Slip10_addIdentity_def has_identity_def ab)
  obtain b' where b': "Slip10_addIdentity path i b = ok (b', i)" by (simp add: Slip10_addIdentity_def has_identity_def ab)
  let ?k = "[Slip10W a, Slip10W b]"
  let ?p = "AwaitPreview 0 chainId (PathOption path) i" and ?q = "AwaitPreview 1 chainId (PathOption path) i"
  have free: "ensureNoIdentityCollision (iov_wallets L) ?k [i] = ok ()"
    by (simp add: ensure_cases iov_wallets_def ab)
  have "keyring_step L (?k, []) (?k, [?p])"
    using keyring_step.call [of L ?k "w_id a" 0 chainId "PathOption path" i "[]"] assms(2)
    by (simp add: getMutableWallet_def find_index_Some iov_wallets_def)
  moreover have "keyring_step L (?k, [?p]) (?k, [?p, ?q])"
    using keyring_step.call [of L ?k "w_id b" 1 chainId "PathOption path" i "[?p]"] b ab(1)
    by (simp add: getMutableWallet_def find_index_Some iov_wallets_def)
  moreover have "keyring_step L (?k, [?p, ?q]) (?k, [AwaitCreate 0 path i, ?q])"
    using keyring_step.derive [OF free, of 0 a chainId path i "[]" "[?q]"] assms(2) by simp
  moreover have "keyring_step L (?k, [AwaitCreate 0 path i, ?q]) (?k, [AwaitCreate 0 path i, AwaitCreate 1 path i])"
    using keyring_step.derive [OF free, of 1 b chainId path i "[AwaitCreate 0 path i]" "[]"] b by simp
  moreover have "keyring_step L (?k, [AwaitCreate 0 path i, AwaitCreate 1 path i]) ([Slip10W a', Slip10W b], [AwaitCreate 1 path i])"
    using keyring_step.create_slip10 [of ?k 0 a path i a' i L "[]" "[AwaitCreate 1 path i]"] a' by simp
  moreover have "keyring_step L ([Slip10W a', Slip10W b], [AwaitCreate 1 path i]) ([Slip10W a', Slip10W b'], [])"
    using keyring_step.create_slip10 [of "[Slip10W a', Slip10W b]" 1 b path i b' i L "[]" "[]"] b' by simp
  ultimately have "rtranclp (keyring_step L) (?k, []) ([Slip10W a', Slip10W b'], [])"
    by (meson converse_rtranclp_into_rtranclp rtranclp.rtrancl_refl)
  then show ?thesis using a' b' assms(2) b by (auto simp: Slip10_createIdentity_def)
qed

text \<open>A keyring in which two wallets share an identity cannot be saved and loaded.\<close>

lemma shared_identity_not_loaded:
  assumes "wallet_inv L v" "wallet_inv L w" "i \<in> set (getIdentities v)" "i \<in> set (getIdentities w)"
  shows "keyring_clone (iov_wallets L) [v, w] = throw ''Identity collision: already exists in this Keyring''"
proof -
  from wallets.serialize_load [of L "[v, w]"] assms(1,2) obtain out ws where
    out: "keyring_serialize (iov_wallets L) [v, w] = ok (Some \<lparr>ks_formatVersion = Number (int_num 1), ks_wallets = out\<rparr>)"
      "mapM (deserializeWallet (iov_wallets L)) out = ok ws" "same_wallets (iov_wallets L) [v, w] ws" "list_all (wallet_inv L) ws"
    by auto
  then obtain v' w' where ws: "ws = [v', w']" "getIdentities v' = getIdentities v" "getIdentities w' = getIdentities w"
      "wallet_inv L v'"
    by (auto simp: same_wallets_def list_all2_Cons1 looks_same_def iov_wallets_def)
  from wallets.save_load [OF ws(4)] obtain v'' where "op_clone (iov_wallets L) v' = ok v''" "getIdentities v'' = getIdentities v"
    using ws(2) by (auto simp: looks_same_def iov_wallets_def)
  then have "keyring_add (iov_wallets L) v' [] =
        ok ([v''], \<lparr>wi_id = op_id (iov_wallets L) v', wi_label = op_label (iov_wallets L) v'\<rparr>)"
      "keyring_add (iov_wallets L) w' [v''] = throw ''Identity collision: already exists in this Keyring''"
    using assms(3,4) ws by (auto simp: keyring_add_def ensure_cases iov_wallets_def)
  with out(1,2) ws(1) show ?thesis by (simp add: keyring_clone_def new_Keyring_def keyring_deserialize_def)
qed

text \<open>
  The uniqueness of identities does not survive concurrent calls: when the
  keyring has two HD wallets of one secret, two calls of \<open>createIdentity\<close> for
  the same path that are started before either is done both succeed. The check
  comes before the last await, so both find no collision. The keyring then holds
  the identity twice, and a copy of it, or the constructor on its serialization,
  throws.
\<close>

lemma concurrent_calls_break_uniqueness:
  assumes "twin_wallets L a b" "Slip10_previewIdentity L a chainId (PathOption path) = Some (ok i)"
    and "list_all valid_Uint32 path"
  shows "\<exists>k. rtranclp (keyring_step L) ([Slip10W a, Slip10W b], []) (k, []) \<and>
    concat (map getIdentities k) = [i, i] \<and>
    keyring_clone (iov_wallets L) k = throw ''Identity collision: already exists in this Keyring''"
proof -
  from twin_calls [OF assms(1,2)] obtain a' b' where
    created: "Slip10_createIdentity L chainId (PathOption path) a = Some (ok (a', i))"
      "Slip10_createIdentity L chainId (PathOption path) b = Some (ok (b', i))"
    and steps: "rtranclp (keyring_step L) ([Slip10W a, Slip10W b], []) ([Slip10W a', Slip10W b'], [])" by blast
  have "Slip10_inv L a" "Slip10_inv L b" "w_identities a = []" "w_identities b = []"
    using assms(1) by (simp_all add: twin_wallets_def)
  then have ids: "Slip10_inv L a'" "Slip10_inv L b'" "w_identities a' = [i]" "w_identities b' = [i]"
    using Slip10_create_adds [OF _ created(1)] Slip10_create_adds [OF _ created(2)] assms(3) by simp_all
  then have "keyring_clone (iov_wallets L) [Slip10W a', Slip10W b'] = throw ''Identity collision: already exists in this Keyring''"
    by (intro shared_identity_not_loaded [of L _ _ i]) simp_all
  with steps ids show ?thesis by (intro exI [of _ "[Slip10W a', Slip10W b']"]) simp
qed

end
