(* ===== verification/Iov_Rfc3339.thy ===== *)
theory Iov_Rfc3339
  imports Js_Runtime
begin

text \<open>
  The functions \<open>fromRfc3339\<close> and \<open>toRfc3339\<close> of
  \<open>packages/iov-encoding/src/encoding.ts\<close>, over the dates of JavaScript: a valid
  date is a number of milliseconds since 1970, its UTC parts and \<open>Date.UTC\<close> are
  the day and year arithmetic of the language. The main results: which dates
  survive printing and reading, and what \<open>fromRfc3339\<close> accepts.
\<close>

section \<open>Dates\<close>

type_synonym date = int

definition dayFromYear :: "int \<Rightarrow> int" where
  "dayFromYear y = 365 * (y - 1970) + (y - 1969) div 4 - (y - 1901) div 100 + (y - 1601) div 400"

definition inLeapYear :: "int \<Rightarrow> bool" where
  "inLeapYear y \<longleftrightarrow> y mod 4 = 0 \<and> (y mod 100 \<noteq> 0 \<or> y mod 400 = 0)"

text \<open>The year of a day: an estimate from the mean length of a year, off by one at most.\<close>

definition yearFromDay :: "int \<Rightarrow> int" where
  "yearFromDay d = (let y = 1970 + (400 * d) div 146097 in
     if dayFromYear (y + 1) \<le> d then y + 1 else if dayFromYear y \<le> d then y else y - 1)"

definition dayFromMonth :: "bool \<Rightarrow> int \<Rightarrow> int" where
  "dayFromMonth leap m = [0, 31, 59, 90, 120, 151, 181, 212, 243, 273, 304, 334] ! nat m + (if leap \<and> 2 \<le> m then 1 else 0)"

definition monthFromDay :: "bool \<Rightarrow> int \<Rightarrow> int" where
  "monthFromDay leap k = (let l = (if leap then 1 else 0) in
     if k < 31 then 0 else if k < 59 + l then 1 else if k < 90 + l then 2 else if k < 120 + l then 3
     else if k < 151 + l then 4 else if k < 181 + l then 5 else if k < 212 + l then 6 else if k < 243 + l then 7
     else if k < 273 + l then 8 else if k < 304 + l then 9 else if k < 334 + l then 10 else 11)"

definition msPerDay :: int where
  "msPerDay = 86400000"

definition getUTCFullYear :: "date \<Rightarrow> int" where
  "getUTCFullYear t = yearFromDay (t div msPerDay)"

definition dayInYear :: "date \<Rightarrow> int" where
  "dayInYear t = t div msPerDay - dayFromYear (getUTCFullYear t)"

definition getUTCMonth :: "date \<Rightarrow> int" where
  "getUTCMonth t = monthFromDay (inLeapYear (getUTCFullYear t)) (dayInYear t)"

definition getUTCDate :: "date \<Rightarrow> int" where
  "getUTCDate t = dayInYear t - dayFromMonth (inLeapYear (getUTCFullYear t)) (getUTCMonth t) + 1"

definition getUTCHours :: "date \<Rightarrow> int" where
  "getUTCHours t = t div 3600000 mod 24"

definition getUTCMinutes :: "date \<Rightarrow> int" where
  "getUTCMinutes t = t div 60000 mod 60"

definition getUTCSeconds :: "date \<Rightarrow> int" where
  "getUTCSeconds t = t div 1000 mod 60"

definition getUTCMilliseconds :: "date \<Rightarrow> int" where
  "getUTCMilliseconds t = t mod 1000"

text \<open>\<open>Date.UTC\<close> of integers, which need not be in their ranges; two digit years are of the 20th century.\<close>

definition date_UTC :: "int \<Rightarrow> int \<Rightarrow> int \<Rightarrow> int \<Rightarrow> int \<Rightarrow> int \<Rightarrow> int \<Rightarrow> date" where
  "date_UTC year month day hour minute second ms =
     (let yr = if 0 \<le> year \<and> year \<le> 99 then 1900 + year else year;
          y = yr + month div 12; m = month mod 12
      in (dayFromYear y + dayFromMonth (inLeapYear y) m + day - 1) * msPerDay
         + hour * 3600000 + minute * 60000 + second * 1000 + ms)"

lemma int_div_Suc:
  fixes z n :: int
  assumes "0 < n"
  shows "(z + 1) div n = z div n + (if (z + 1) mod n = 0 then 1 else 0)"
proof -
  define q r where "q = (z + 1) div n" and "r = (z + 1) mod n"
  have z: "z + 1 = n * q + r" "0 \<le> r" "r < n" using assms by (simp_all add: q_def r_def)
  show ?thesis
  proof (cases "r = 0")
    case True
    then have "z = n * (q - 1) + (n - 1)" using z by (simp add: algebra_simps)
    then have "z div n = q - 1" using assms by (intro int_div_pos_eq [of z n "q - 1" "n - 1"]) simp_all
    with True show ?thesis by (simp add: q_def r_def)
  next
    case False
    then have "z = n * q + (r - 1)" "0 \<le> r - 1" "r - 1 < n" using z by simp_all
    then have "z div n = q" by (rule int_div_pos_eq)
    with False show ?thesis by (simp add: q_def r_def)
  qed
qed

lemma leap_sum:
  fixes a b c x :: int
  assumes "a' = a + (if p then 1 else 0)" "b' = b + (if q then 1 else 0)" "c' = c + (if r then 1 else 0)" "r \<longrightarrow> q" "q \<longrightarrow> p"
  shows "365 * (x + 1) + a' - b' + c' = 365 * x + a - b + c + (if p \<and> (\<not> q \<or> r) then 366 else 365)"
  using assms by (cases p; cases q; cases r) simp_all

lemma leap_step:
  fixes y :: int
  assumes "0 < n" "(l - 1) mod n = 0"
  shows "(y + 1 - l) div n = (y - l) div n + (if y mod n = 0 then 1 else 0)"
proof -
  have "n dvd l - 1" using assms(2) by (simp add: mod_eq_0_iff_dvd)
  then obtain k where "l - 1 = n * k" by (rule dvdE)
  then have k: "l = n * k + 1" by simp
  have "(y - l + 1) mod n = y mod n" using mod_mult_self1 [of y "- k" n] by (simp add: k mult.commute)
  then show ?thesis using int_div_Suc [OF assms(1), of "y - l"] by (simp add: algebra_simps)
qed

lemma year_divides:
  fixes y :: int
  shows "y mod 400 = 0 \<longrightarrow> y mod 100 = 0" "y mod 100 = 0 \<longrightarrow> y mod 4 = 0"
  by (auto simp: mod_eq_0_iff_dvd intro: dvd_trans [rotated])

lemma dayFromYear_Suc: "dayFromYear (y + 1) = dayFromYear y + (if inLeapYear y then 366 else 365)"
proof -
  have "y + 1 - 1970 = (y - 1970) + 1" by simp
  moreover have "(y + 1 - 1969) div 4 = (y - 1969) div 4 + (if y mod 4 = 0 then 1 else 0)" by (rule leap_step; code_simp)
  moreover have "(y + 1 - 1901) div 100 = (y - 1901) div 100 + (if y mod 100 = 0 then 1 else 0)" by (rule leap_step; code_simp)
  moreover have "(y + 1 - 1601) div 400 = (y - 1601) div 400 + (if y mod 400 = 0 then 1 else 0)" by (rule leap_step; code_simp)
  ultimately show ?thesis unfolding dayFromYear_def inLeapYear_def
    using leap_sum [OF _ _ _ year_divides, of _ _ y] by metis
qed

lemma dayFromYear_bounds: "146097 * (y - 1970) - 506 \<le> 400 * dayFromYear y" "400 * dayFromYear y \<le> 146097 * (y - 1970) + 589"
proof -
  define a b c where "a = (y - 1969) div 4" and "b = (y - 1901) div 100" and "c = (y - 1601) div 400"
  have div: "n * (z div n) \<le> z" "z < n * (z div n) + n" if "0 < n" for z n :: int
    using that pos_mod_bound [of n z] pos_mod_sign [of n z] mult_div_mod_eq [of n z] by linarith+
  have "4 * a \<le> y - 1969" "y - 1969 < 4 * a + 4" "100 * b \<le> y - 1901" "y - 1901 < 100 * b + 100"
      "400 * c \<le> y - 1601" "y - 1601 < 400 * c + 400"
    unfolding a_def b_def c_def by (rule div; simp)+
  then have "400 * a \<le> 100 * (y - 1970) + 100" "100 * (y - 1970) - 200 \<le> 400 * a"
      "400 * b \<le> 4 * (y - 1970) + 276" "4 * (y - 1970) - 120 \<le> 400 * b"
      "400 * c \<le> (y - 1970) + 369" "(y - 1970) - 30 \<le> 400 * c" by simp_all
  moreover have "400 * dayFromYear y = 146000 * (y - 1970) + 400 * a - 400 * b + 400 * c"
    by (simp add: dayFromYear_def a_def b_def c_def)
  ultimately show "146097 * (y - 1970) - 506 \<le> 400 * dayFromYear y"
    and "400 * dayFromYear y \<le> 146097 * (y - 1970) + 589" by simp_all
qed

lemma year_days: "dayFromYear (yearFromDay d) \<le> d" "d < dayFromYear (yearFromDay d + 1)"
proof -
  define x where "x = (400 * d) div 146097"
  define y where "y = 1970 + x"
  have q: "146097 * x \<le> 400 * d" "400 * d < 146097 * x + 146097"
    using pos_mod_bound [of 146097 "400 * d"] pos_mod_sign [of 146097 "400 * d"] mult_div_mod_eq [of 146097 "400 * d"]
    unfolding x_def by linarith+
  have "146097 * (y - 1 - 1970) = 146097 * x - 146097" "146097 * (y + 2 - 1970) = 146097 * x + 292194" by (simp_all add: y_def)
  then have "dayFromYear (y - 1) \<le> d" "d < dayFromYear (y + 2)"
    using q dayFromYear_bounds(2) [of "y - 1"] dayFromYear_bounds(1) [of "y + 2"] by simp_all
  moreover have "yearFromDay d = (if dayFromYear (y + 1) \<le> d then y + 1 else if dayFromYear y \<le> d then y else y - 1)"
    by (simp add: yearFromDay_def Let_def y_def x_def)
  moreover have "y + 1 + 1 = y + 2" by simp
  ultimately show "dayFromYear (yearFromDay d) \<le> d" "d < dayFromYear (yearFromDay d + 1)" by (simp_all only: split: if_splits) auto
qed

lemma dayInYear_range: "0 \<le> dayInYear t" "dayInYear t < (if inLeapYear (getUTCFullYear t) then 366 else 365)"
  using year_days [of "t div msPerDay"] by (auto simp: dayInYear_def getUTCFullYear_def dayFromYear_Suc split: if_splits)

lemma month_days:
  "dayFromMonth l 0 = 0" "dayFromMonth l 1 = 31" "dayFromMonth l 2 = 59 + (if l then 1 else 0)" "dayFromMonth l 3 = 90 + (if l then 1 else 0)"
  "dayFromMonth l 4 = 120 + (if l then 1 else 0)" "dayFromMonth l 5 = 151 + (if l then 1 else 0)" "dayFromMonth l 6 = 181 + (if l then 1 else 0)"
  "dayFromMonth l 7 = 212 + (if l then 1 else 0)" "dayFromMonth l 8 = 243 + (if l then 1 else 0)" "dayFromMonth l 9 = 273 + (if l then 1 else 0)"
  "dayFromMonth l 10 = 304 + (if l then 1 else 0)" "dayFromMonth l 11 = 334 + (if l then 1 else 0)"
  by (simp_all add: dayFromMonth_def)

lemma month_range:
  assumes "0 \<le> k" "k < (if leap then 366 else 365)"
  shows "0 \<le> monthFromDay leap k \<and> monthFromDay leap k \<le> 11 \<and>
   dayFromMonth leap (monthFromDay leap k) \<le> k \<and> k < dayFromMonth leap (monthFromDay leap k) + 31"
proof -
  define l :: int where "l = (if leap then 1 else 0)"
  have l: "0 \<le> l" "l \<le> 1" "k < 365 + l" using assms(2) by (simp_all add: l_def split: if_splits)
  consider "k < 31" | "31 \<le> k" "k < 59 + l" | "59 + l \<le> k" "k < 90 + l" | "90 + l \<le> k" "k < 120 + l" | "120 + l \<le> k" "k < 151 + l"
    | "151 + l \<le> k" "k < 181 + l" | "181 + l \<le> k" "k < 212 + l" | "212 + l \<le> k" "k < 243 + l" | "243 + l \<le> k" "k < 273 + l"
    | "273 + l \<le> k" "k < 304 + l" | "304 + l \<le> k" "k < 334 + l" | "334 + l \<le> k" by linarith
  then show ?thesis using assms(1) l
    by cases (simp_all add: monthFromDay_def Let_def l_def [symmetric] month_days)
qed

lemma parts_range:
  "0 \<le> getUTCMonth t" "getUTCMonth t \<le> 11" "1 \<le> getUTCDate t" "getUTCDate t \<le> 31"
  "0 \<le> getUTCHours t" "getUTCHours t < 24" "0 \<le> getUTCMinutes t" "getUTCMinutes t < 60"
  "0 \<le> getUTCSeconds t" "getUTCSeconds t < 60" "0 \<le> getUTCMilliseconds t" "getUTCMilliseconds t < 1000"
proof -
  note r = month_range [OF dayInYear_range [of t]]
  show "0 \<le> getUTCMonth t" "getUTCMonth t \<le> 11" using r unfolding getUTCMonth_def by blast+
  show "1 \<le> getUTCDate t" "getUTCDate t \<le> 31" using r unfolding getUTCDate_def getUTCMonth_def by linarith+
qed (simp_all add: getUTCHours_def getUTCMinutes_def getUTCSeconds_def getUTCMilliseconds_def)

text \<open>\<open>Date.UTC\<close> of the UTC parts of a date is the date, but for two digit years.\<close>

lemma UTC_of_parts:
  assumes "\<not> (0 \<le> getUTCFullYear t \<and> getUTCFullYear t \<le> 99)"
  shows "date_UTC (getUTCFullYear t) (getUTCMonth t) (getUTCDate t) (getUTCHours t) (getUTCMinutes t)
    (getUTCSeconds t) (getUTCMilliseconds t) = t"
proof -
  have month: "getUTCMonth t div 12 = 0" "getUTCMonth t mod 12 = getUTCMonth t" using parts_range [of t] by simp_all
  define s m h d where "s = t div 1000" and "m = t div 60000" and "h = t div 3600000" and "d = t div 86400000"
  have "m = s div 60" "h = m div 60" "d = h div 24"
    by (simp_all add: s_def m_def h_def d_def zdiv_zmult2_eq [symmetric])
  then have "s = 60 * m + s mod 60" "m = 60 * h + m mod 60" "h = 24 * d + h mod 24" "t = 1000 * s + t mod 1000"
    by (simp_all add: s_def)
  then have "t = d * 86400000 + (h mod 24) * 3600000 + (m mod 60) * 60000 + (s mod 60) * 1000 + t mod 1000"
    by linarith
  then have "t = d * 86400000 + getUTCHours t * 3600000 + getUTCMinutes t * 60000 + getUTCSeconds t * 1000 + getUTCMilliseconds t"
    by (simp only: getUTCHours_def getUTCMinutes_def getUTCSeconds_def getUTCMilliseconds_def s_def m_def h_def)
  moreover have "dayFromYear (getUTCFullYear t) + dayFromMonth (inLeapYear (getUTCFullYear t)) (getUTCMonth t) + getUTCDate t - 1 = d"
    by (simp add: getUTCDate_def dayInYear_def msPerDay_def d_def)
  moreover have "date_UTC (getUTCFullYear t) (getUTCMonth t) (getUTCDate t) (getUTCHours t) (getUTCMinutes t)
      (getUTCSeconds t) (getUTCMilliseconds t) =
    (dayFromYear (getUTCFullYear t) + dayFromMonth (inLeapYear (getUTCFullYear t)) (getUTCMonth t) + getUTCDate t - 1) * 86400000
      + getUTCHours t * 3600000 + getUTCMinutes t * 60000 + getUTCSeconds t * 1000 + getUTCMilliseconds t"
    unfolding date_UTC_def Let_def month msPerDay_def using assms by (simp only: if_False add_0_right)
  ultimately show ?thesis by (simp only:)
qed


section \<open>Printing\<close>

definition padded :: "int \<Rightarrow> nat \<Rightarrow> string" where
  "padded integer len = slice_last len (''00000'' @ int_to_string integer)"

definition toRfc3339 :: "date \<Rightarrow> string" where
  "toRfc3339 date =
     int_to_string (getUTCFullYear date) @ ''-'' @ padded (getUTCMonth date + 1) 2 @ ''-'' @ padded (getUTCDate date) 2
     @ ''T'' @ padded (getUTCHours date) 2 @ '':'' @ padded (getUTCMinutes date) 2 @ '':'' @ padded (getUTCSeconds date) 2
     @ ''.'' @ padded (getUTCMilliseconds date) 3 @ ''Z''"

section \<open>Reading\<close>

text \<open>
  The regular expression of \<open>fromRfc3339\<close>, group by group: \<open>digits n\<close> is the
  group \<open>\d{n}\<close>, \<open>one_of\<close> a character class. Each returns what it matched and
  the rest of the string; no group can match in two ways, so there is nothing to
  backtrack to.
\<close>

definition digits :: "nat \<Rightarrow> string \<Rightarrow> (int \<times> string) option" where
  "digits n s = (let d = take n s in
     if length d = n \<and> list_all is_digit d then Some (int (parse_base 10 d), drop n s) else None)"

fun one_of :: "string \<Rightarrow> string \<Rightarrow> (char \<times> string) option" where
  "one_of cs [] = None"
| "one_of cs (c # s) = (if c \<in> set cs then Some (c, s) else None)"

definition then_match :: "('a \<times> string) option \<Rightarrow> ('a \<Rightarrow> string \<Rightarrow> 'b option) \<Rightarrow> 'b option" where
  "then_match r f = (case r of None \<Rightarrow> None | Some (x, s) \<Rightarrow> f x s)"

text \<open>\<open>(\.\d{1,9})?\<close>, read as milliseconds: the first three digits of the fraction.\<close>

definition fraction :: "string \<Rightarrow> (int \<times> string) option" where
  "fraction s = (case s of
     c # rest \<Rightarrow> if c = CHR ''.''
       then (let d = takeWhile is_digit rest in
             if 1 \<le> length d \<and> length d \<le> 9
             then Some (\<lfloor>(of_nat (parse_base 10 d) / 10 ^ length d :: rat) * 1000\<rfloor>, drop (length d) rest) else None)
       else Some (0, s)
   | [] \<Rightarrow> Some (0, s))"

text \<open>\<open>((?:[+-]\d{2}:\d{2})|Z)$\<close>, read as the offset in seconds.\<close>

definition timezone :: "string \<Rightarrow> int option" where
  "timezone s = (if s = ''Z'' then Some 0 else
     then_match (one_of ''+-'' s) (\<lambda>sign s.
     then_match (digits 2 s) (\<lambda>hours s.
     then_match (one_of '':'' s) (\<lambda>_ s.
     then_match (digits 2 s) (\<lambda>minutes s.
     if s = [] then Some ((if sign = CHR ''-'' then - 1 else 1) * (hours * 60 + minutes) * 60) else None)))))"

definition fromRfc3339 :: "string \<Rightarrow> date result" where
  "fromRfc3339 str = (case
     then_match (digits 4 str) (\<lambda>year s. then_match (one_of ''-'' s) (\<lambda>_ s.
     then_match (digits 2 s) (\<lambda>month s. then_match (one_of ''-'' s) (\<lambda>_ s.
     then_match (digits 2 s) (\<lambda>day s. then_match (one_of ''T '' s) (\<lambda>_ s.
     then_match (digits 2 s) (\<lambda>hour s. then_match (one_of '':'' s) (\<lambda>_ s.
     then_match (digits 2 s) (\<lambda>minute s. then_match (one_of '':'' s) (\<lambda>_ s.
     then_match (digits 2 s) (\<lambda>second s.
     then_match (fraction s) (\<lambda>milliSeconds s.
     map_option (\<lambda>tzOffset. date_UTC year (month - 1) day hour minute second milliSeconds - tzOffset * 1000)
       (timezone s))))))))))))) of
     None \<Rightarrow> throw ''Date string is not in RFC3339 format''
   | Some date \<Rightarrow> ok date)"

lemma then_match_simps [simp]: "then_match None f = None" "then_match (Some (x, s)) f = f x s"
  by (simp_all add: then_match_def)

text \<open>Decimal digits of bounded numbers.\<close>

lemma to_base_small: "n < 10 \<Longrightarrow> to_base 10 n = [digit_char n]"
  by (subst to_base.simps) simp

lemma to_base_step: "10 \<le> n \<Longrightarrow> to_base 10 n = to_base 10 (n div 10) @ [digit_char (n mod 10)]"
  by (subst to_base.simps) simp

lemma padded_2: "0 \<le> i \<Longrightarrow> i < 100 \<Longrightarrow> padded i 2 = [digit_char (nat i div 10), digit_char (nat i mod 10)]"
  by (cases "nat i < 10") (auto simp: padded_def int_to_string_def slice_last_def to_base_small to_base_step digit_char_zero)

lemma nat_digits:
  fixes n :: nat
  shows "n = 10 * (n div 10) + n mod 10" "n div 10 = 10 * (n div 100) + n div 10 mod 10" "n div 100 = 10 * (n div 1000) + n div 100 mod 10"
  using mult_div_mod_eq [of 10 n] mult_div_mod_eq [of 10 "n div 10"] mult_div_mod_eq [of 10 "n div 100"]
  by (simp_all add: div_mult2_eq [symmetric])

lemma to_base_snoc: "0 < a \<Longrightarrow> b < 10 \<Longrightarrow> to_base 10 (10 * a + b) = to_base 10 a @ [digit_char b]"
  by (simp add: to_base_step)

lemma padded_3:
  assumes "0 \<le> i" "i < 1000"
  obtains a b c where "a < 10" "b < 10" "c < 10" "i = int (100 * a + 10 * b + c)" "padded i 3 = [digit_char a, digit_char b, digit_char c]"
proof -
  define n where "n = nat i"
  have n: "n < 1000" "i = int n" using assms by (simp_all add: n_def)
  define a b c where "a = n div 100" and "b = n div 10 mod 10" and "c = n mod 10"
  have "n div 10 = 10 * a + b" "n = 10 * (n div 10) + c" unfolding a_def b_def c_def by (rule nat_digits)+
  then have m: "n = 10 * (10 * a + b) + c" by (simp only:)
  have less: "a < 10" "b < 10" "c < 10" using n(1) by (simp_all add: a_def b_def c_def less_mult_imp_div_less)
  consider "a = 0" "b = 0" | "a = 0" "0 < b" | "0 < a" by linarith
  then have "padded (int (10 * (10 * a + b) + c)) 3 = [digit_char a, digit_char b, digit_char c]"
  proof cases
    case 1
    then show ?thesis using less by (simp add: padded_def int_to_string_def slice_last_def to_base_small digit_char_zero)
  next
    case 2
    then have "to_base 10 (10 * b + c) = [digit_char b, digit_char c]" using less by (simp only: to_base_snoc to_base_small append.simps)
    with 2 show ?thesis by (simp add: padded_def int_to_string_def slice_last_def digit_char_zero nat_add_distrib nat_mult_distrib)
  next
    case 3
    then have "to_base 10 (10 * (10 * a + b) + c) = [digit_char a, digit_char b, digit_char c]"
      using less by (subst to_base_snoc, simp, simp, subst to_base_snoc) (simp_all add: to_base_small)
    moreover have "int_to_string (int k) = to_base 10 k" for k by (simp add: int_to_string_def)
    ultimately show ?thesis by (simp only: padded_def slice_last_def) simp
  qed
  moreover have "10 * (10 * a + b) + c = 100 * a + 10 * b + c" by simp
  ultimately show ?thesis using less m n(2) by (intro that [of a b c]) (simp_all only:)
qed

lemma print_year:
  assumes "1000 \<le> y" "y < 10000"
  obtains a b c d where "a < 10" "b < 10" "c < 10" "d < 10" "y = int (1000 * a + 100 * b + 10 * c + d)"
    "int_to_string y = [digit_char a, digit_char b, digit_char c, digit_char d]"
proof -
  define n where "n = nat y"
  have n: "1000 \<le> n" "n < 10000" "y = int n" using assms by (simp_all add: n_def)
  define a b c d where "a = n div 1000" and "b = n div 100 mod 10" and "c = n div 10 mod 10" and "d = n mod 10"
  have "n div 100 = 10 * a + b" "n div 10 = 10 * (n div 100) + c" "n = 10 * (n div 10) + d"
    unfolding a_def b_def c_def d_def by (rule nat_digits)+
  then have m: "n = 10 * (10 * (10 * a + b) + c) + d" by (simp only:)
  have less: "a < 10" "b < 10" "c < 10" "d < 10" using n(2) by (simp_all add: a_def b_def c_def d_def less_mult_imp_div_less)
  have "0 < a" using n(1) m less by (cases "a = 0") simp_all
  then have "to_base 10 (10 * (10 * (10 * a + b) + c) + d) = [digit_char a, digit_char b, digit_char c, digit_char d]"
    using less by (subst to_base_snoc, simp, simp, subst to_base_snoc, simp, simp, subst to_base_snoc) (simp_all add: to_base_small)
  moreover have "int_to_string (int k) = to_base 10 k" for k by (simp add: int_to_string_def)
  moreover have "10 * (10 * (10 * a + b) + c) + d = 1000 * a + 100 * b + 10 * c + d" by simp
  ultimately show ?thesis using less m n(3) by (intro that [of a b c d]) (simp_all only:)
qed

lemma digits_chars:
  "a < 10 \<Longrightarrow> b < 10 \<Longrightarrow> digits 2 (digit_char a # digit_char b # s) = Some (int (10 * a + b), s)"
  "a < 10 \<Longrightarrow> b < 10 \<Longrightarrow> c < 10 \<Longrightarrow> d < 10 \<Longrightarrow>
   digits 4 (digit_char a # digit_char b # digit_char c # digit_char d # s) = Some (int (1000 * a + 100 * b + 10 * c + d), s)"
  by (simp_all add: digits_def parse_base_def eval_nat_numeral)

lemma digits_padded:
  assumes "0 \<le> i" "i < 100"
  shows "digits 2 (padded i 2 @ s) = Some (i, s)"
proof -
  define a b where "a = nat i div 10" and "b = nat i mod 10"
  have "a < 10" "b < 10" using assms by (simp_all add: a_def b_def less_mult_imp_div_less)
  moreover have "10 * a + b = nat i" by (simp add: a_def b_def)
  then have "int (10 * a + b) = i" using assms by (simp only: int_nat_eq) simp
  moreover have "padded i 2 = [digit_char a, digit_char b]" using assms by (simp add: padded_2 a_def b_def)
  ultimately show ?thesis by (simp only: append.simps digits_chars(1))
qed

lemma fraction_padded:
  assumes "0 \<le> i" "i < 1000"
  shows "fraction (CHR ''.'' # padded i 3 @ ''Z'') = Some (i, ''Z'')"
proof -
  obtain a b c where d: "a < 10" "b < 10" "c < 10" "i = int (100 * a + 10 * b + c)" "padded i 3 = [digit_char a, digit_char b, digit_char c]"
    using padded_3 [OF assms] .
  define n where "n = 100 * a + 10 * b + c"
  have z: "\<not> is_digit (CHR ''Z'')" by code_simp
  have "parse_base 10 [digit_char a, digit_char b, digit_char c] = n"
    using d(1-3) by (simp add: parse_base_def n_def)
  moreover have "i = int n" by (simp only: n_def d(4))
  moreover have "\<lfloor>(of_nat n / 1000 :: rat) * 1000\<rfloor> = int n" by simp
  ultimately show ?thesis using d(1-3) z unfolding d(5) by (simp add: fraction_def)
qed

lemma digits_year:
  assumes "1000 \<le> y" "y < 10000"
  shows "digits 4 (int_to_string y @ s) = Some (y, s)"
proof -
  obtain a b c d where y: "a < 10" "b < 10" "c < 10" "d < 10" "y = int (1000 * a + 100 * b + 10 * c + d)"
    "int_to_string y = [digit_char a, digit_char b, digit_char c, digit_char d]" using print_year [OF assms] .
  then show ?thesis by (simp only: append.simps digits_chars(2))
qed

section \<open>What is read back\<close>

lemma one_of_head: "c \<in> set cs \<Longrightarrow> one_of cs (c # s) = Some (c, s)"
  by simp

lemma reads_back:
  assumes "1000 \<le> getUTCFullYear t" "getUTCFullYear t < 10000"
  shows "fromRfc3339 (toRfc3339 t) = ok t"
proof -
  have month: "0 \<le> getUTCMonth t + 1" "getUTCMonth t + 1 < 100" and date: "0 \<le> getUTCDate t" "getUTCDate t < 100"
    and time: "getUTCHours t < 100" "getUTCMinutes t < 100" "getUTCSeconds t < 100" using parts_range [of t] by linarith+
  note parts = digits_year [OF assms] digits_padded [OF month] digits_padded [OF date]
    digits_padded [OF parts_range(5) time(1)] digits_padded [OF parts_range(7) time(2)] digits_padded [OF parts_range(9) time(3)]
    fraction_padded [OF parts_range(11,12)]
  have "timezone ''Z'' = Some 0" by (simp add: timezone_def)
  moreover have "date_UTC (getUTCFullYear t) (getUTCMonth t) (getUTCDate t) (getUTCHours t) (getUTCMinutes t)
      (getUTCSeconds t) (getUTCMilliseconds t) = t" using assms by (intro UTC_of_parts) simp
  ultimately show ?thesis by (simp add: fromRfc3339_def toRfc3339_def parts)
qed

text \<open>A year that is not of four digits is printed in a form that is not read.\<close>

lemma digits_length: "digits n s = Some (x, r) \<Longrightarrow> length s = n + length r \<and> r = drop n s \<and> list_all is_digit (take n s)"
  by (auto simp: digits_def Let_def split: if_splits)

lemma rejects_other_years:
  assumes "\<not> (1000 \<le> getUTCFullYear t \<and> getUTCFullYear t < 10000)"
  shows "fromRfc3339 (toRfc3339 t) = throw ''Date string is not in RFC3339 format''"
proof -
  obtain rest where rest: "toRfc3339 t = int_to_string (getUTCFullYear t) @ CHR ''-'' # rest" by (simp add: toRfc3339_def)
  have minus: "\<not> is_digit CHR ''-''" by code_simp
  have "then_match (digits 4 (toRfc3339 t)) (\<lambda>year s. then_match (one_of ''-'' s) (f year)) = None"
    for f :: "int \<Rightarrow> char \<Rightarrow> string \<Rightarrow> date option"
  proof (cases "getUTCFullYear t < 0")
    case True
    then show ?thesis using minus by (simp add: rest int_to_string_def digits_def)
  next
    case False
    define d where "d = to_base 10 (nat (getUTCFullYear t))"
    have d: "toRfc3339 t = d @ CHR ''-'' # rest" "list_all is_digit d" "canonical_decimal d"
      using False to_base_digits [of 10] canonical_to_base by (simp_all add: rest int_to_string_def d_def)
    have "length d \<noteq> 4"
    proof
      assume "length d = 4"
      then obtain a b c e where "d = [a, b, c, e]" by (auto simp: eval_nat_numeral length_Suc_conv)
      moreover from this d(2) obtain i j k l where "i < 10" "j < 10" "k < 10" "l < 10"
          "a = digit_char i" "b = digit_char j" "c = digit_char k" "e = digit_char l"
        using is_digit_val [of a] is_digit_val [of b] is_digit_val [of c] is_digit_val [of e] by auto
      moreover from this d(3) \<open>d = [a, b, c, e]\<close> have "i \<noteq> 0" by (intro notI) (simp add: canonical_decimal_def digit_char_zero)
      moreover have "parse_base 10 d = nat (getUTCFullYear t)" by (simp add: d_def parse_to_base)
      ultimately have "nat (getUTCFullYear t) = 1000 * i + 100 * j + 10 * k + l" by (simp add: parse_base_def)
      then show False using assms False \<open>i \<noteq> 0\<close> \<open>i < 10\<close> \<open>j < 10\<close> \<open>k < 10\<close> \<open>l < 10\<close> by linarith
    qed
    then consider "length d < 4" | "4 < length d" by linarith
    then show ?thesis
    proof cases
      case 1
      then have "CHR ''-'' \<in> set (take 4 (toRfc3339 t))" by (simp add: d(1) take_Cons')
      then have "\<not> list_all is_digit (take 4 (toRfc3339 t))" using minus by (auto simp: list_all_iff)
      then show ?thesis by (simp add: digits_def Let_def)
    next
      case 2
      then have "drop 4 (toRfc3339 t) = d ! 4 # drop 5 d @ CHR ''-'' # rest" using Cons_nth_drop_Suc [of 4 d] by (simp add: d(1))
      moreover have "d ! 4 \<noteq> CHR ''-''" using 2 d(2) minus by (metis list_all_length)
      ultimately show ?thesis by (simp add: digits_def Let_def)
    qed
  qed
  then show ?thesis by (simp add: fromRfc3339_def)
qed

text \<open>
  Dates that survive printing and reading: reading a printed date gives the
  date back, to the millisecond, exactly when its year has four digits; in every
  other year, of less digits (the year is not padded), of more or negative, the
  printed string is rejected.
\<close>

lemma rfc3339_round_trip:
  "fromRfc3339 (toRfc3339 t) =
     (if 1000 \<le> getUTCFullYear t \<and> getUTCFullYear t < 10000 then ok t
      else throw ''Date string is not in RFC3339 format'')"
  using reads_back [of t] rejects_other_years [of t] by auto

lemma example_print: "toRfc3339 1546300800123 = ''2019-01-01T00:00:00.123Z''"
  by code_simp

end
