(* ===== verification/Iov_Base64.thy ===== *)
theory Iov_Base64
  imports Iov_Encoding
begin

text \<open>
  The base64 functions of \<open>packages/iov-encoding/src/encoding.ts\<close>. The package
  \<open>base64-js\<close> below them is a parameter; its law is that the text of bytes is base64
  and gives the bytes back.
\<close>

record base64_lib =
  base64_fromByteArray :: "byte list \<Rightarrow> string"
  base64_toByteArray :: "string \<Rightarrow> byte list result"

definition toBase64 :: "('e) base64_lib_scheme \<Rightarrow> byte list \<Rightarrow> string" where
  "toBase64 S data = base64_fromByteArray S data"

text \<open>\<open>/^[a-zA-Z0-9+/]*={0,2}$/\<close>\<close>

definition is_base64_char :: "char \<Rightarrow> bool" where
  "is_base64_char c \<longleftrightarrow> (let n = of_char c :: nat in
     97 \<le> n \<and> n \<le> 122 \<or> 65 \<le> n \<and> n \<le> 90 \<or> 48 \<le> n \<and> n \<le> 57) \<or> c = CHR ''+'' \<or> c = CHR ''/''"

definition is_base64 :: "string \<Rightarrow> bool" where
  "is_base64 s = (let pad = takeWhile (\<lambda>c. c = CHR ''='') (rev s) in
     length pad \<le> 2 \<and> list_all is_base64_char (drop (length pad) (rev s)))"

definition fromBase64 :: "('e) base64_lib_scheme \<Rightarrow> string \<Rightarrow> byte list result" where
  "fromBase64 S base64String =
     (if \<not> is_base64 base64String then throw ''Invalid base64 string format''
      else base64_toByteArray S base64String)"

definition base64_laws :: "('e) base64_lib_scheme \<Rightarrow> bool" where
  "base64_laws S \<longleftrightarrow>
     (\<forall>data. is_base64 (base64_fromByteArray S data) \<and> base64_toByteArray S (base64_fromByteArray S data) = ok data)"

lemma fromBase64_toBase64: "base64_laws S \<Longrightarrow> fromBase64 S (toBase64 S data) = ok data"
  by (simp add: base64_laws_def fromBase64_def toBase64_def)

text \<open>Hexadecimal digits are base64 characters, which is enough for the witnesses.\<close>

lemma digit_char_base64:
  assumes "n < 16"
  shows "is_base64_char (digit_char n)" "CHR ''='' \<noteq> digit_char n"
proof -
  have "digit_val CHR ''='' = None" by code_simp
  then show "CHR ''='' \<noteq> digit_char n" using digit_val_digit_char [OF assms] by (metis option.distinct(1))
  show "is_base64_char (digit_char n)" using assms
    by (auto simp: is_base64_char_def digit_char_def)
qed

lemma toHex_base64: "list_all is_base64_char (toHex data)" "CHR ''='' \<notin> set (toHex data)"
proof -
  have byte: "list_all is_base64_char (toHexByte b)" "CHR ''='' \<notin> set (toHexByte b)" for b
    unfolding toHexByte_digits
    by (simp_all add: digit_char_base64 [OF byte_nibbles(1) [of b]] digit_char_base64 [OF byte_nibbles(2) [of b]])
  show "list_all is_base64_char (toHex data)" by (induction data) (simp_all add: byte)
  show "CHR ''='' \<notin> set (toHex data)" by (induction data) (simp_all add: byte)
qed

lemma is_base64_toHex: "is_base64 (toHex data)"
proof -
  have "takeWhile (\<lambda>c. c = CHR ''='') s = []" if "CHR ''='' \<notin> set s" for s
    using that by (cases s) auto
  from this [of "rev (toHex data)"] show ?thesis using toHex_base64 [of data]
    by (simp add: is_base64_def)
qed

definition demo_base64 :: base64_lib where
  "demo_base64 = \<lparr>base64_fromByteArray = toHex, base64_toByteArray = fromHex\<rparr>"

lemma demo_base64_laws: "base64_laws demo_base64"
  by (simp add: base64_laws_def demo_base64_def is_base64_toHex fromHex_of_toHex)

end
