(* ===== verification/Key_UserProfile.thy ===== *)
theory Key_UserProfile
  imports Key_Keyring Iov_Rfc3339 Iov_Base64 "HOL-Library.AList"
begin

text \<open>
  \<open>packages/iov-keycontrol/src/userprofile.ts\<close>, with \<open>keyringencryptor.ts\<close> and
  \<open>utils.ts\<close>: a profile holds a keyring until it is locked, signs transactions with it, and is
  stored encrypted in a database. The lemmas show the invariant of a profile
  (what its observers see), that locking is final, that stored profiles load
  again, and where storing loses data.
\<close>

section \<open>Storage\<close>

text \<open>
  The package \<open>base64-js\<close>, and \<open>JSON\<close> with UTF-8: the text of a serialized
  keyring is known by its document (see \<open>Key_Keyring\<close>).
\<close>

record storage_lib = base64_lib +
  utf8_of_text :: "KeyringSerializationString \<Rightarrow> byte list"
  text_of_utf8 :: "byte list \<Rightarrow> KeyringSerializationString result"

text \<open>The encryption of a keyring: format version, nonce and ciphertext.\<close>

definition encrypt_keyring :: "('h, 'a) crypto_lib_scheme \<Rightarrow> ('e) storage_lib_scheme \<Rightarrow> KeyringSerializationString
    \<Rightarrow> byte list \<Rightarrow> byte list \<Rightarrow> byte list result" where
  "encrypt_keyring L S keyringSerialization encryptionKey keyringNonce =
     (if length encryptionKey \<noteq> 32 then throw ''32 byte encryption key expected''
      else
        andThen (new_Uint32 (int_num 1)) (\<lambda>formatVersion.
        andThen (aead_encrypt L (utf8_of_text S keyringSerialization) encryptionKey keyringNonce) (\<lambda>keyringCiphertext.
        ok (Uint32_toBytesBigEndian formatVersion @ keyringNonce @ keyringCiphertext))))"

definition decrypt_keyring :: "('h, 'a) crypto_lib_scheme \<Rightarrow> ('e) storage_lib_scheme \<Rightarrow> byte list
    \<Rightarrow> byte list \<Rightarrow> KeyringSerializationString result" where
  "decrypt_keyring L S encrypted encryptionKey =
     andThen (Uint32_fromBigEndianBytes (byte_numbers (slice 0 4 encrypted))) (\<lambda>formatVersion.
     if Uint32_toNumber formatVersion = int_num 1 then
       (let nonce = slice 4 (4 + 24) encrypted; ciphertext = drop (4 + 24) encrypted in
        andThen (aead_decrypt L ciphertext encryptionKey nonce) (\<lambda>decrypted. text_of_utf8 S decrypted))
     else throw ''Unsupported format version'')"

text \<open>The database, as the list of its entries; \<open>clear\<close> deletes the keys it has streamed.\<close>

type_synonym db = "(string \<times> string) list"

definition db_get :: "string \<Rightarrow> db \<Rightarrow> string result" where
  "db_get key db = (case map_of db key of None \<Rightarrow> throw ''NotFoundError'' | Some v \<Rightarrow> ok v)"

definition db_clear :: "db \<Rightarrow> db" where
  "db_clear db = foldl (\<lambda>db key. AList.delete key db) db (map fst db)"

section \<open>Profiles\<close>

definition storageKeyFormatVersion :: string where "storageKeyFormatVersion = ''format_version''"
definition storageKeyCreatedAt :: string where "storageKeyCreatedAt = ''created_at''"
definition storageKeyKeyring :: string where "storageKeyKeyring = ''keyring''"

definition passwordHashingOptionsVersion1 :: Argon2idOptions where
  "passwordHashingOptionsVersion1 = \<lparr>outputLength = 32, opsLimit = 10, memLimitKib = 8 * 1024\<rparr>"

definition passwordHashingOptionsVersion2 :: Argon2idOptions where
  "passwordHashingOptionsVersion2 = \<lparr>outputLength = 32, opsLimit = 11, memLimitKib = 8 * 1024\<rparr>"

definition userProfileSalt :: "byte list result" where
  "userProfileSalt = toAscii ''core-userprofile''"

definition storageFormatVersion :: number where
  "storageFormatVersion = int_num 2"

record UserProfileEncryptionKey =
  key_formatVersion :: number
  key_data :: "byte list"

definition deriveEncryptionKey ::
  "('h, 'a) crypto_lib_scheme \<Rightarrow> string \<Rightarrow> number \<Rightarrow> UserProfileEncryptionKey result" where
  "deriveEncryptionKey L password formatVersion =
     andThen userProfileSalt (\<lambda>salt.
     if formatVersion = int_num 1 then
       andThen (Argon2id_execute L password salt passwordHashingOptionsVersion1) (\<lambda>d.
       ok \<lparr>key_formatVersion = int_num 1, key_data = d\<rparr>)
     else if formatVersion = int_num 2 then
       andThen (Argon2id_execute L password salt passwordHashingOptionsVersion2) (\<lambda>d.
       ok \<lparr>key_formatVersion = int_num 2, key_data = d\<rparr>)
     else throw ''Unsupported format version'')"

datatype encryptionSecret = Password string | EncryptionKey UserProfileEncryptionKey

record 'w UserProfile =
  up_createdAt :: date
  up_keyring :: "'w Keyring option"
  up_lockedProducer :: "bool DefaultValueProducer"
  up_walletsProducer :: "WalletInfo list DefaultValueProducer"

definition keyring_infos :: "'w WalletOps \<Rightarrow> 'w Keyring \<Rightarrow> WalletInfo list" where
  "keyring_infos W keyring = map (\<lambda>wallet. \<lparr>wi_id = op_id W wallet, wi_label = op_label W wallet\<rparr>) keyring"

definition walletInfos :: "'w WalletOps \<Rightarrow> 'w Keyring option \<Rightarrow> WalletInfo list result" where
  "walletInfos W k = (case k of
     None \<Rightarrow> throw ''UserProfile is currently locked''
   | Some keyring \<Rightarrow> ok (keyring_infos W keyring))"

text \<open>The options are the date of creation and the keyring, which is copied.\<close>

definition new_UserProfile :: "'w WalletOps \<Rightarrow> date \<Rightarrow> (date \<times> 'w Keyring) option \<Rightarrow> 'w UserProfile result" where
  "new_UserProfile W now options =
     andThen (case options of
         Some (createdAt, keyring) \<Rightarrow> andThen (keyring_clone W keyring) (\<lambda>k. ok (createdAt, k))
       | None \<Rightarrow> andThen (new_Keyring W None) (\<lambda>k. ok (now, k))) (\<lambda>(createdAt, keyring).
     andThen (walletInfos W (Some keyring)) (\<lambda>infos.
     ok \<lparr>up_createdAt = createdAt, up_keyring = Some keyring,
         up_lockedProducer = new_DefaultValueProducer False False,
         up_walletsProducer = new_DefaultValueProducer infos False\<rparr>))"

definition up_lock :: "'w UserProfile \<Rightarrow> 'w UserProfile" where
  "up_lock p = p\<lparr>up_keyring := None, up_lockedProducer := dvp_update True (up_lockedProducer p)\<rparr>"

text \<open>Throws if the profile is locked.\<close>

definition primaryKeyring :: "'w UserProfile \<Rightarrow> 'w Keyring result" where
  "primaryKeyring p = (case up_keyring p of
     None \<Rightarrow> throw ''UserProfile is currently locked'' | Some keyring \<Rightarrow> ok keyring)"

definition findWalletInPrimaryKeyring :: "'w WalletOps \<Rightarrow> string \<Rightarrow> 'w UserProfile \<Rightarrow> 'w result" where
  "findWalletInPrimaryKeyring W walletId p =
     andThen (primaryKeyring p) (\<lambda>keyring.
     case getWallet W keyring walletId of
       None \<Rightarrow> throw ''Wallet does not exist in keyring'' | Some wallet \<Rightarrow> ok wallet)"

definition findWalletInPrimaryKeyringByIdentity :: "'w WalletOps \<Rightarrow> Identity \<Rightarrow> 'w UserProfile \<Rightarrow> 'w result" where
  "findWalletInPrimaryKeyringByIdentity W identity p =
     andThen (primaryKeyring p) (\<lambda>keyring.
     case getWalletByIdentity W keyring identity of
       None \<Rightarrow> throw ''No wallet for identity found in keyring'' | Some wallet \<Rightarrow> ok wallet)"

text \<open>A keyring that was changed, and what the observers of the wallets get.\<close>

definition put_keyring :: "'w Keyring \<Rightarrow> 'w UserProfile \<Rightarrow> 'w UserProfile" where
  "put_keyring keyring p = p\<lparr>up_keyring := Some keyring\<rparr>"

definition put_infos :: "'w WalletOps \<Rightarrow> 'w UserProfile \<Rightarrow> 'w UserProfile result" where
  "put_infos W p =
     andThen (walletInfos W (up_keyring p)) (\<lambda>infos.
     ok (p\<lparr>up_walletsProducer := dvp_update infos (up_walletsProducer p)\<rparr>))"

definition up_addWallet :: "'w WalletOps \<Rightarrow> 'w \<Rightarrow> 'w UserProfile \<Rightarrow> ('w UserProfile \<times> WalletInfo) result" where
  "up_addWallet W wallet p =
     andThen (primaryKeyring p) (\<lambda>keyring.
     andThen (keyring_add W wallet keyring) (\<lambda>(keyring', info).
     andThen (put_infos W (put_keyring keyring' p)) (\<lambda>p'.
     ok (p', info))))"

definition up_setWalletLabel :: "'w WalletOps \<Rightarrow> string \<Rightarrow> string option \<Rightarrow> 'w UserProfile \<Rightarrow> 'w UserProfile result" where
  "up_setWalletLabel W walletId label p =
     andThen (primaryKeyring p) (\<lambda>keyring.
     andThen (keyring_setWalletLabel W walletId label keyring) (\<lambda>keyring'.
     put_infos W (put_keyring keyring' p)))"

definition up_createIdentity :: "'w WalletOps \<Rightarrow> string \<Rightarrow> ChainId \<Rightarrow> createOptions \<Rightarrow> 'w UserProfile
    \<Rightarrow> ('w UserProfile \<times> Identity) run" where
  "up_createIdentity W walletId chainId options p =
     thenRun (Some (primaryKeyring p)) (\<lambda>keyring.
     thenRun (keyring_createIdentity W walletId chainId options keyring) (\<lambda>(keyring', identity).
     Some (ok (put_keyring keyring' p, identity))))"

definition up_identityExists :: "'w WalletOps \<Rightarrow> string \<Rightarrow> ChainId \<Rightarrow> createOptions \<Rightarrow> 'w UserProfile \<Rightarrow> bool run" where
  "up_identityExists W walletId chainId options p =
     thenRun (Some (findWalletInPrimaryKeyring W walletId p)) (\<lambda>wallet.
     thenRun (op_previewIdentity W wallet chainId options) (\<lambda>previewIdentity.
     Some (ok (list_ex (\<lambda>identity. identityEquals identity previewIdentity) (op_getIdentities W wallet)))))"

definition up_setIdentityLabel :: "'w WalletOps \<Rightarrow> Identity \<Rightarrow> string option \<Rightarrow> 'w UserProfile \<Rightarrow> 'w UserProfile result" where
  "up_setIdentityLabel W identity label p =
     andThen (primaryKeyring p) (\<lambda>keyring.
     andThen (keyring_setIdentityLabel W identity label keyring) (\<lambda>keyring'.
     ok (put_keyring keyring' p)))"

definition up_getIdentityLabel :: "'w WalletOps \<Rightarrow> Identity \<Rightarrow> 'w UserProfile \<Rightarrow> string option result" where
  "up_getIdentityLabel W identity p =
     andThen (findWalletInPrimaryKeyringByIdentity W identity p) (\<lambda>wallet. op_getIdentityLabel W wallet identity)"

definition up_getIdentities :: "'w WalletOps \<Rightarrow> string \<Rightarrow> 'w UserProfile \<Rightarrow> Identity list result" where
  "up_getIdentities W walletId p =
     andThen (findWalletInPrimaryKeyring W walletId p) (\<lambda>wallet. ok (op_getIdentities W wallet))"

definition up_getAllIdentities :: "'w WalletOps \<Rightarrow> 'w UserProfile \<Rightarrow> Identity list result" where
  "up_getAllIdentities W p = andThen (primaryKeyring p) (\<lambda>keyring. ok (keyring_getAllIdentities W keyring))"

definition up_signTransaction :: "'w WalletOps \<Rightarrow> Identity \<Rightarrow> 'tx \<Rightarrow> 'tx TxCodec \<Rightarrow> Nonce \<Rightarrow> 'w UserProfile
    \<Rightarrow> 'tx SignedTx run" where
  "up_signTransaction W identity transaction txCodec nonce p =
     thenRun (Some (findWalletInPrimaryKeyringByIdentity W identity p)) (\<lambda>wallet.
     thenRun (Some (codec_bytesToSign txCodec transaction nonce)) (\<lambda>job.
     thenRun (op_createTransactionSignature W wallet identity (job_bytes job) (job_prehashType job)) (\<lambda>signature.
     Some (ok \<lparr>stx_transaction = transaction,
       stx_signatures = [\<lparr>sig_nonce = nonce, sig_pubkey = id_pubkey identity, sig_signature = signature\<rparr>]\<rparr>))))"

definition up_appendSignature :: "'w WalletOps \<Rightarrow> Identity \<Rightarrow> 'tx SignedTx \<Rightarrow> 'tx TxCodec \<Rightarrow> Nonce \<Rightarrow> 'w UserProfile
    \<Rightarrow> 'tx SignedTx run" where
  "up_appendSignature W identity originalTransaction txCodec nonce p =
     thenRun (Some (findWalletInPrimaryKeyringByIdentity W identity p)) (\<lambda>wallet.
     thenRun (Some (codec_bytesToSign txCodec (stx_transaction originalTransaction) nonce)) (\<lambda>job.
     thenRun (op_createTransactionSignature W wallet identity (job_bytes job) (job_prehashType job)) (\<lambda>signature.
     thenRun (Some (newNonEmptyArray (stx_signatures originalTransaction
         @ [\<lparr>sig_nonce = nonce, sig_pubkey = id_pubkey identity, sig_signature = signature\<rparr>]))) (\<lambda>signatures.
     Some (ok (originalTransaction\<lparr>stx_signatures := signatures\<rparr>))))))"

section \<open>Storing and loading\<close>

text \<open>
  \<open>storeIn\<close> awaits the deletion of the old entries and the derivation of the key;
  other code can run in between. \<open>p\<close> is the profile at the call, \<open>resumed\<close> the
  profile when these awaits are done. The database is returned in every case, as
  an error does not undo what was done to it.
\<close>

definition encryption_key ::
  "('h, 'a) crypto_lib_scheme \<Rightarrow> encryptionSecret \<Rightarrow> number \<Rightarrow> UserProfileEncryptionKey result" where
  "encryption_key L secret formatVersion = (case secret of
     Password password \<Rightarrow> deriveEncryptionKey L password formatVersion
   | EncryptionKey key \<Rightarrow> ok key)"

definition storeIn :: "('h, 'a) crypto_lib_scheme \<Rightarrow> ('e) storage_lib_scheme \<Rightarrow> 'w WalletOps \<Rightarrow> db
    \<Rightarrow> encryptionSecret \<Rightarrow> byte list \<Rightarrow> 'w UserProfile \<Rightarrow> 'w UserProfile \<Rightarrow> db \<times> unit result" where
  "storeIn L S W db secret nonce p resumed = (case up_keyring p of
     None \<Rightarrow> (db, throw ''UserProfile is currently locked'')
   | Some _ \<Rightarrow>
       (let db1 = db_clear db;
            texts = andThen (encryption_key L secret storageFormatVersion) (\<lambda>key.
              if key_formatVersion key \<noteq> storageFormatVersion then throw ''UnexpectedFormatVersionError''
              else (case up_keyring resumed of
                  None \<Rightarrow> throw ''TypeError''
                | Some keyring \<Rightarrow>
                    andThen (keyring_serialize W keyring) (\<lambda>text.
                    andThen (encrypt_keyring L S text (key_data key) nonce) (\<lambda>encryptedKeyring.
                    ok (''2'', toRfc3339 (up_createdAt p), toBase64 S encryptedKeyring)))))
        in case texts of
             Inl e \<Rightarrow> (db1, throw e)
           | Inr (formatVersionForStorage, createdAtForStorage, keyringForStorage) \<Rightarrow>
               (AList.update storageKeyKeyring keyringForStorage
                 (AList.update storageKeyCreatedAt createdAtForStorage
                   (AList.update storageKeyFormatVersion formatVersionForStorage db1)), ok ())))"

definition loadFrom :: "('h, 'a) crypto_lib_scheme \<Rightarrow> ('e) storage_lib_scheme \<Rightarrow> 'w WalletOps \<Rightarrow> date \<Rightarrow> db
    \<Rightarrow> encryptionSecret \<Rightarrow> 'w UserProfile result" where
  "loadFrom L S W now db secret =
     andThen (db_get storageKeyFormatVersion db) (\<lambda>version.
     andThen (Int53_fromString version) (\<lambda>version.
     let formatVersion = Int53_toNumber version in
     andThen (encryption_key L secret formatVersion) (\<lambda>encryptionKey.
     if key_formatVersion encryptionKey \<noteq> formatVersion then throw ''UnexpectedFormatVersionError''
     else if formatVersion = int_num 1 \<or> formatVersion = int_num 2 then
       andThen (db_get storageKeyCreatedAt db) (\<lambda>createdAtFromStorage.
       andThen (db_get storageKeyKeyring db) (\<lambda>keyringFromStorage.
       andThen (fromBase64 S keyringFromStorage) (\<lambda>encryptedKeyring.
       andThen (decrypt_keyring L S encryptedKeyring (key_data encryptionKey)) (\<lambda>keyringSerialization.
       andThen (fromRfc3339 createdAtFromStorage) (\<lambda>createdAt.
       andThen (new_Keyring W (Some keyringSerialization)) (\<lambda>keyring.
       new_UserProfile W now (Some (createdAt, keyring))))))))
     else throw ''Unsupported format version'')))"

section \<open>Histories of a profile\<close>

inductive profile_step :: "'w WalletOps \<Rightarrow> ('w \<Rightarrow> bool) \<Rightarrow> 'w UserProfile \<Rightarrow> 'w UserProfile \<Rightarrow> bool" for W ok_wallet where
  wallet: "ok_wallet wallet \<Longrightarrow> up_addWallet W wallet p = ok (p', info) \<Longrightarrow> profile_step W ok_wallet p p'"
| label: "up_setWalletLabel W walletId l p = ok p' \<Longrightarrow> profile_step W ok_wallet p p'"
| identity: "valid_options options \<Longrightarrow> up_createIdentity W walletId chainId options p = Some (ok (p', i)) \<Longrightarrow>
    profile_step W ok_wallet p p'"
| identity_label: "up_setIdentityLabel W i l p = ok p' \<Longrightarrow> profile_step W ok_wallet p p'"
| locked: "profile_step W ok_wallet p (up_lock p)"

inductive profile_history :: "'w WalletOps \<Rightarrow> ('w \<Rightarrow> bool) \<Rightarrow> 'w UserProfile \<Rightarrow> bool" for W ok_wallet where
  created: "(\<And>createdAt k. options = Some (createdAt, k) \<Longrightarrow> keyring_history W ok_wallet k) \<Longrightarrow>
    new_UserProfile W now options = ok p \<Longrightarrow> profile_history W ok_wallet p"
| step: "profile_history W ok_wallet p \<Longrightarrow> profile_step W ok_wallet p p' \<Longrightarrow> profile_history W ok_wallet p'"

lemma dvp_update_value [simp]: "internalValue (dvp_update v d) = v"
  by (simp add: dvp_update_def Let_def)

lemma new_dvp_value [simp]: "internalValue (new_DefaultValueProducer v c) = v"
  by (simp add: new_DefaultValueProducer_def)

definition profile_inv :: "'w WalletOps \<Rightarrow> ('w \<Rightarrow> bool) \<Rightarrow> 'w UserProfile \<Rightarrow> bool" where
  "profile_inv W ok_wallet p \<longleftrightarrow>
     (internalValue (up_lockedProducer p) \<longleftrightarrow> up_keyring p = None) \<and>
     (case up_keyring p of None \<Rightarrow> True | Some k \<Rightarrow>
        keyring_history W ok_wallet k \<and> internalValue (up_walletsProducer p) = keyring_infos W k)"

lemma profile_inv_put:
  "profile_inv W ok_wallet p \<Longrightarrow> up_keyring p \<noteq> None \<Longrightarrow> keyring_history W ok_wallet k \<Longrightarrow>
   put_infos W (put_keyring k p) = ok p' \<Longrightarrow> profile_inv W ok_wallet p'"
  "profile_inv W ok_wallet p \<Longrightarrow> up_keyring p = Some k0 \<Longrightarrow> keyring_history W ok_wallet k \<Longrightarrow>
   keyring_infos W k = keyring_infos W k0 \<Longrightarrow> profile_inv W ok_wallet (put_keyring k p)"
  by (auto simp: profile_inv_def put_infos_def put_keyring_def walletInfos_def)

lemma primaryKeyring_ok [simp]: "primaryKeyring p = ok k \<longleftrightarrow> up_keyring p = Some k"
  by (simp add: primaryKeyring_def split: option.splits)

lemma infos_update:
  "n < length k \<Longrightarrow> op_id W w = op_id W (k ! n) \<Longrightarrow> op_label W w = op_label W (k ! n) \<Longrightarrow>
   keyring_infos W (k[n := w]) = keyring_infos W k"
  by (simp add: keyring_infos_def map_update list_update_same_conv)

context wallet_contract
begin

lemma createIdentity_infos:
  assumes "keyring_inv W inv k" "valid_options options" "keyring_createIdentity W walletId chainId options k = Some (ok (k', i))"
  shows "keyring_infos W k' = keyring_infos W k"
proof -
  from assms(3) obtain n w' where n: "n < length k" "op_createIdentity W chainId options (k ! n) = Some (ok (w', i))" "k' = k[n := w']"
    by (auto simp: keyring_createIdentity_def thenRun_eq_ok getMutableWallet_def find_index_Some split: option.splits)
  moreover from this assms(1) have "inv (k ! n)" by (simp add: keyring_inv_def list_all_length)
  ultimately show ?thesis using create_adds [OF _ assms(2) n(2)] by (simp add: infos_update)
qed

lemma setIdentityLabel_infos:
  assumes "keyring_inv W inv k" "keyring_setIdentityLabel W i l k = ok k'"
  shows "keyring_infos W k' = keyring_infos W k"
proof -
  from assms(2) obtain n w where n: "n < length k" "op_setIdentityLabel W i l (k ! n) = ok w" "k' = k[n := w]"
    by (auto simp: keyring_setIdentityLabel_def getMutableWalletByIdentity_def find_index_Some andThen_eq_Inr
        split: option.splits)
  moreover from this assms(1) have "inv (k ! n)" by (simp add: keyring_inv_def list_all_length)
  ultimately show ?thesis using identity_label_keeps [OF _ n(2)] by (simp add: infos_update looks_same_def)
qed

lemma created_profile:
  assumes "new_UserProfile W now options = ok p" "\<And>createdAt k. options = Some (createdAt, k) \<Longrightarrow> keyring_history W inv k"
  shows "profile_inv W inv p"
proof (cases options)
  case None
  with assms(1) show ?thesis
    by (auto simp: new_UserProfile_def new_Keyring_def walletInfos_def profile_inv_def intro: keyring_history.empty)
next
  case (Some given)
  then obtain createdAt k where given: "options = Some (createdAt, k)" by (cases given) simp
  with assms(1) obtain k' where "keyring_clone W k = ok k'" "up_keyring p = Some k'" "internalValue (up_walletsProducer p) = keyring_infos W k'"
      "\<not> internalValue (up_lockedProducer p)"
    by (auto simp: new_UserProfile_def andThen_eq_Inr walletInfos_def)
  with keyring_history.cloned [OF assms(2) [OF given]] show ?thesis by (simp add: profile_inv_def)
qed

lemma profile_step_inv:
  assumes "profile_step W inv p p'" "profile_inv W inv p"
  shows "profile_inv W inv p'"
  using assms
proof (induction rule: profile_step.induct)
  case (wallet wallet p p' info)
  then obtain k k' where k: "up_keyring p = Some k" "keyring_add W wallet k = ok (k', info)" "put_infos W (put_keyring k' p) = ok p'"
    by (auto simp: up_addWallet_def andThen_eq_Inr)
  with wallet.prems have "keyring_history W inv k" by (simp add: profile_inv_def)
  from keyring_history.add [OF this wallet.hyps(1) k(2)] show ?case
    by (rule profile_inv_put(1) [OF wallet.prems _ _ k(3), rotated]) (simp add: k(1))
next
  case (label walletId l p p')
  then obtain k k' where k: "up_keyring p = Some k" "keyring_setWalletLabel W walletId l k = ok k'" "put_infos W (put_keyring k' p) = ok p'"
    by (auto simp: up_setWalletLabel_def andThen_eq_Inr)
  with label.prems have "keyring_history W inv k" by (simp add: profile_inv_def)
  from keyring_history.wallet_label [OF this k(2)] show ?case
    by (rule profile_inv_put(1) [OF label.prems _ _ k(3), rotated]) (simp add: k(1))
next
  case (identity options walletId chainId p p' i)
  then obtain k k' where k: "up_keyring p = Some k" "keyring_createIdentity W walletId chainId options k = Some (ok (k', i))" "p' = put_keyring k' p"
    by (auto simp: up_createIdentity_def thenRun_eq_ok)
  with identity.prems have h: "keyring_history W inv k" by (simp add: profile_inv_def)
  then have "keyring_infos W k' = keyring_infos W k" using createIdentity_infos history_keyring_inv identity.hyps(1) k(2) by blast
  moreover have "keyring_history W inv k'" using keyring_history.identity [OF h identity.hyps(1) k(2)] .
  ultimately show ?case using identity.prems k by (simp add: profile_inv_put(2))
next
  case (identity_label i l p p')
  then obtain k k' where k: "up_keyring p = Some k" "keyring_setIdentityLabel W i l k = ok k'" "p' = put_keyring k' p"
    by (auto simp: up_setIdentityLabel_def andThen_eq_Inr)
  with identity_label.prems have h: "keyring_history W inv k" by (simp add: profile_inv_def)
  then have "keyring_infos W k' = keyring_infos W k" using setIdentityLabel_infos history_keyring_inv k(2) by blast
  moreover have "keyring_history W inv k'" using keyring_history.identity_label [OF h k(2)] .
  ultimately show ?case using identity_label.prems k by (simp add: profile_inv_put(2))
next
  case (locked p)
  then show ?case by (simp add: profile_inv_def up_lock_def)
qed

lemma profile_history_inv: "profile_history W inv p \<Longrightarrow> profile_inv W inv p"
  by (induction rule: profile_history.induct) (blast intro: created_profile profile_step_inv)+

end

text \<open>
  C22. What the observers of a profile see is its state: after any sequence of
  operations the value of \<open>locked\<close> says whether the keyring is gone, and while
  it is there the value of \<open>wallets\<close> lists the id and the label of each wallet
  of the keyring, in order, and the identities are pairwise distinct.
\<close>

theorem profile_shows_its_state:
  assumes "profile_history (iov_wallets L) (wallet_inv L) p"
  shows "(internalValue (up_lockedProducer p) \<longleftrightarrow> up_keyring p = None) \<and>
    (\<forall>k. up_keyring p = Some k \<longrightarrow>
       map (\<lambda>info. (wi_id info, wi_label info)) (internalValue (up_walletsProducer p)) = map (\<lambda>w. (wallet_id w, wallet_label w)) k \<and>
       distinct (concat (map getIdentities k)))"
proof -
  from wallets.profile_history_inv [OF assms] have p: "profile_inv (iov_wallets L) (wallet_inv L) p" .
  show ?thesis
  proof (intro conjI allI impI)
    show "internalValue (up_lockedProducer p) \<longleftrightarrow> up_keyring p = None" using p by (simp add: profile_inv_def)
    fix k assume k: "up_keyring p = Some k"
    with p show "map (\<lambda>info. (wi_id info, wi_label info)) (internalValue (up_walletsProducer p)) = map (\<lambda>w. (wallet_id w, wallet_label w)) k"
      by (simp add: profile_inv_def keyring_infos_def iov_wallets_def)
    from p k have "keyring_history (iov_wallets L) (wallet_inv L) k" by (simp add: profile_inv_def)
    from wallets.history_keyring_inv [OF this] show "distinct (concat (map getIdentities k))"
      by (simp add: keyring_inv_def keyring_getAllIdentities_def iov_wallets_def)
  qed
qed

text \<open>What a profile without keyring does.\<close>

lemma locked_operations:
  assumes "up_keyring p = None"
  shows "up_addWallet W wallet p = throw ''UserProfile is currently locked''"
    "up_setWalletLabel W walletId l p = throw ''UserProfile is currently locked''"
    "up_createIdentity W walletId chainId options p = Some (throw ''UserProfile is currently locked'')"
    "up_identityExists W walletId chainId options p = Some (throw ''UserProfile is currently locked'')"
    "up_setIdentityLabel W i l p = throw ''UserProfile is currently locked''"
    "up_getIdentityLabel W i p = throw ''UserProfile is currently locked''"
    "up_getIdentities W walletId p = throw ''UserProfile is currently locked''"
    "up_getAllIdentities W p = throw ''UserProfile is currently locked''"
    "up_signTransaction W i tx txCodec nonce p = Some (throw ''UserProfile is currently locked'')"
    "up_appendSignature W i stx txCodec nonce p = Some (throw ''UserProfile is currently locked'')"
    "storeIn L S W db secret random p resumed = (db, throw ''UserProfile is currently locked'')"
  using assms
  by (simp_all add: up_addWallet_def up_setWalletLabel_def up_createIdentity_def up_identityExists_def up_setIdentityLabel_def
      up_getIdentityLabel_def up_getIdentities_def up_getAllIdentities_def up_signTransaction_def up_appendSignature_def
      storeIn_def primaryKeyring_def findWalletInPrimaryKeyring_def findWalletInPrimaryKeyringByIdentity_def)

lemma locked_stays: "rtranclp (profile_step W ok_wallet) p p' \<Longrightarrow> up_keyring p = None \<Longrightarrow> up_keyring p' = None"
proof (induction rule: rtranclp_induct)
  case (step q r)
  then have "up_keyring q = None" by simp
  from step.hyps(2) this show ?case
    by cases (simp_all add: locked_operations up_lock_def)
qed simp

text \<open>
  Locking is final: once the value of \<open>locked\<close> is true, no sequence of
  operations makes the keyring available again. In every later state \<open>locked\<close>
  is still true and each operation that needs the keyring (to add wallets, to
  create, list or label identities, to sign, to store) throws that the profile
  is locked.
\<close>

lemma locking_is_final:
  assumes "profile_history (iov_wallets L) (wallet_inv L) p" "internalValue (up_lockedProducer p)"
    and "rtranclp (profile_step (iov_wallets L) (wallet_inv L)) p q"
  shows "internalValue (up_lockedProducer q) \<and> up_keyring q = None \<and>
    up_addWallet (iov_wallets L) wallet q = throw ''UserProfile is currently locked'' \<and>
    up_createIdentity (iov_wallets L) walletId chainId options q = Some (throw ''UserProfile is currently locked'') \<and>
    up_getAllIdentities (iov_wallets L) q = throw ''UserProfile is currently locked'' \<and>
    up_setIdentityLabel (iov_wallets L) i l q = throw ''UserProfile is currently locked'' \<and>
    up_signTransaction (iov_wallets L) i tx txCodec nonce q = Some (throw ''UserProfile is currently locked'') \<and>
    up_appendSignature (iov_wallets L) i stx txCodec nonce q = Some (throw ''UserProfile is currently locked'') \<and>
    storeIn L S (iov_wallets L) db secret random q resumed = (db, throw ''UserProfile is currently locked'')"
proof -
  have "up_keyring p = None" using wallets.profile_history_inv [OF assms(1)] assms(2) by (simp add: profile_inv_def)
  then have none: "up_keyring q = None" using locked_stays [OF assms(3)] by simp
  have "profile_history (iov_wallets L) (wallet_inv L) q"
    using assms(3,1) by (induction rule: rtranclp_induct) (auto intro: profile_history.step)
  from wallets.profile_history_inv [OF this] none have "internalValue (up_lockedProducer q)" by (simp add: profile_inv_def)
  with none show ?thesis by (simp add: locked_operations)
qed

text \<open>A profile with the demonstration wallet, and the same profile locked.\<close>

lemma profile_history_mono:
  assumes "profile_history W P p" "\<And>w. P w \<Longrightarrow> Q w"
  shows "profile_history W Q p"
  using assms(1)
proof (induction rule: profile_history.induct)
  case (created options now p)
  then show ?case using keyring_history_mono [of W P _ Q] assms(2) by (intro profile_history.created) auto
next
  case (step p p')
  have "profile_step W Q p p'" using step.hyps(2) assms(2) by cases (blast intro: profile_step.intros)+
  with step.IH show ?case by (rule profile_history.step)
qed

lemma signing_profile:
  assumes "keyring_history (iov_wallets L) (signing_wallet L) [Slip10W w]" "w_identities w = [identity]"
  shows "\<exists>p w. profile_history (iov_wallets L) (signing_wallet L) p \<and> up_keyring p = Some [Slip10W w] \<and>
    w_identities w = [identity] \<and> up_createdAt p = 0"
proof -
  obtain k' where k': "keyring_clone (iov_wallets L) [Slip10W w] = ok k'" "same_wallets (iov_wallets L) [Slip10W w] k'"
      "keyring_inv (iov_wallets L) (signing_wallet L) k'"
    using signers.reload [OF signers.history_keyring_inv [OF assms(1)]] by blast
  then obtain w' where w': "k' = [w']" "getIdentities w' = [identity]" "implementationId w' = w_implementationId w"
    using assms(2) by (auto simp: same_wallets_def list_all2_Cons1 looks_same_def iov_wallets_def)
  have "\<exists>v. w' = Slip10W v"
    using signers.history_keyring_inv [OF assms(1)] w'(3)
    by (cases w') (auto simp: keyring_inv_def signing_wallet_def Slip10_inv_def)
  then obtain v where v: "w' = Slip10W v" by blast
  obtain p where p: "new_UserProfile (iov_wallets L) 0 (Some (0, [Slip10W w])) = ok p" "up_keyring p = Some [w']" "up_createdAt p = 0"
    using k'(1) w'(1) by (auto simp: new_UserProfile_def walletInfos_def)
  have "profile_history (iov_wallets L) (signing_wallet L) p"
    by (rule profile_history.created [OF _ p(1)]) (simp add: assms(1))
  with p(2,3) w'(2) v show ?thesis by auto
qed

lemma demo_signing_profile:
  "\<exists>p w. profile_history (iov_wallets demo_crypto) (signing_wallet demo_crypto) p \<and> up_keyring p = Some [Slip10W w] \<and>
    w_identities w = [demo_identity] \<and> up_createdAt p = 0"
  using demo_signing_keyring signing_profile by blast

lemma demo_profile:
  "\<exists>p w. profile_history (iov_wallets demo_crypto) (wallet_inv demo_crypto) p \<and> up_keyring p = Some [w] \<and>
    getIdentities w = [demo_identity] \<and> up_createdAt p = 0"
proof -
  from demo_signing_profile obtain p w where p: "profile_history (iov_wallets demo_crypto) (signing_wallet demo_crypto) p"
      "up_keyring p = Some [Slip10W w]" "w_identities w = [demo_identity]" "up_createdAt p = 0" by blast
  from profile_history_mono [OF p(1)] have "profile_history (iov_wallets demo_crypto) (wallet_inv demo_crypto) p"
    by (simp add: signing_wallet_def)
  with p(2-) show ?thesis by (intro exI [of _ p] exI [of _ "Slip10W w"]) simp
qed

lemma profile_shows_its_state_witness:
  "\<exists>(p :: Wallet UserProfile) w. up_keyring p = Some [w] \<and> getIdentities w = [demo_identity] \<and> \<not> internalValue (up_lockedProducer p) \<and>
    map (\<lambda>info. (wi_id info, wi_label info)) (internalValue (up_walletsProducer p)) = [(wallet_id w, wallet_label w)]"
proof -
  from demo_profile obtain p w where p: "profile_history (iov_wallets demo_crypto) (wallet_inv demo_crypto) p" "up_keyring p = Some [w]"
      "getIdentities w = [demo_identity]" by blast
  have "\<not> internalValue (up_lockedProducer p)"
      "map (\<lambda>info. (wi_id info, wi_label info)) (internalValue (up_walletsProducer p)) = [(wallet_id w, wallet_label w)]"
    using profile_shows_its_state [OF p(1)] p(2) by simp_all
  with p(2,3) show ?thesis by (intro exI [of _ p] exI [of _ w] conjI)
qed

section \<open>Stored profiles load again\<close>

text \<open>
  What is relied on: base64 and the text encoding are inverted on the values that
  are stored, and a ciphertext is decrypted with the key and nonce it was made with.
\<close>

definition storage_laws :: "('e) storage_lib_scheme \<Rightarrow> KeyringSerializationString \<Rightarrow> bool" where
  "storage_laws S text \<longleftrightarrow>
     base64_laws S \<and> text_of_utf8 S (utf8_of_text S text) = ok text"

definition encryption_laws :: "('h, 'a) crypto_lib_scheme \<Rightarrow> bool" where
  "encryption_laws L \<longleftrightarrow>
     (\<forall>m key nonce c. sodium_aead_encrypt L m nonce key = ok c \<longrightarrow> sodium_aead_decrypt L c nonce key = ok m)"

lemma db_clear_empty: "db_clear db = []"
proof -
  have "foldl (\<lambda>db key. AList.delete key db) db' keys = filter (\<lambda>e. fst e \<notin> set keys) db'" for db' :: db and keys
    by (induction keys arbitrary: db') (auto simp: AList.delete_eq filter_filter intro!: filter_cong)
  then show ?thesis by (simp add: db_clear_def)
qed

lemma encryption_round_trip:
  assumes "encryption_laws L" "storage_laws S text" "length nonce = 24" "encrypt_keyring L S text key nonce = ok e"
  shows "decrypt_keyring L S e key = ok text"
proof -
  have v: "new_Uint32 (int_num 1) = ok (Uint32 1)" "Uint32_fromBigEndianBytes (byte_numbers (Uint32_toBytesBigEndian (Uint32 1))) = ok (Uint32 1)"
    by code_simp+
  from assms(4) v obtain c where c: "sodium_aead_encrypt L (utf8_of_text S text) nonce key = ok c"
      "e = Uint32_toBytesBigEndian (Uint32 1) @ nonce @ c"
    by (auto simp: encrypt_keyring_def aead_encrypt_def andThen_eq_Inr split: if_splits)
  then have "sodium_aead_decrypt L c nonce key = ok (utf8_of_text S text)" using assms(1) unfolding encryption_laws_def by blast
  moreover have "length (Uint32_toBytesBigEndian (Uint32 1)) = 4" by (simp add: Uint32_toBytesBigEndian_def)
  ultimately show ?thesis using c(2) v(2) assms(2,3)
    by (simp add: decrypt_keyring_def aead_decrypt_def slice_def Uint32_toNumber_def storage_laws_def)
qed

lemma load_entries:
  assumes "db_get storageKeyFormatVersion db = ok ''2''" "db_get storageKeyCreatedAt db = ok createdAt" "db_get storageKeyKeyring db = ok e64"
    and "encryption_key L secret storageFormatVersion = ok key" "key_formatVersion key = storageFormatVersion"
    and "fromBase64 S e64 = ok e" "decrypt_keyring L S e (key_data key) = ok saved" "fromRfc3339 createdAt = ok t" "new_Keyring W (Some saved) = ok k"
  shows "loadFrom L S W now db secret = new_UserProfile W now (Some (t, k))"
proof -
  have "Int53_toString (Int53 2) = ''2''" by code_simp
  then have version: "Int53_fromString ''2'' = ok (Int53 2)" "Int53_toNumber (Int53 2) = int_num 2"
    using int53_string.dec_enc [of "Int53 2"] by (simp_all add: valid_Int53_def safe_int_def Int53_toNumber_def)
  have "storageFormatVersion = int_num 2" by (simp add: storageFormatVersion_def)
  note key = assms(4,5) [unfolded this]
  show ?thesis by (simp add: loadFrom_def Let_def assms(1-3) version key assms(6-))
qed

text \<open>
  C10. A stored profile loads again. Take an unlocked profile that was created in the
  years 1000 to 9999 and a secret that gives a key of the current format: a password
  whose hash is computed, or such a key. If the serialized keyring is encrypted under
  this key and no other call interferes, \<open>storeIn\<close> replaces the contents of the
  database, and \<open>loadFrom\<close> with the same secret gives an unlocked profile with the
  same date of creation, the same wallets and the same list shown to its observers.
  Hashing and encrypting are not assumed to succeed for other inputs.
\<close>

theorem stored_profile_loads:
  assumes "profile_history (iov_wallets L) (wallet_inv L) p" "up_keyring p = Some k"
    and "encryption_key L secret storageFormatVersion = ok key" "key_formatVersion key = storageFormatVersion"
    and "keyring_serialize (iov_wallets L) k = ok saved" "encrypt_keyring L S saved (key_data key) nonce = ok e" "length nonce = 24"
    and "1000 \<le> getUTCFullYear (up_createdAt p)" "getUTCFullYear (up_createdAt p) < 10000"
    and "encryption_laws L" "storage_laws S saved"
  shows "\<exists>db' q k'. storeIn L S (iov_wallets L) db secret nonce p p = (db', ok ()) \<and>
    loadFrom L S (iov_wallets L) now db' secret = ok q \<and> up_createdAt q = up_createdAt p \<and>
    up_keyring q = Some k' \<and> same_wallets (iov_wallets L) k k' \<and> \<not> internalValue (up_lockedProducer q) \<and>
    internalValue (up_walletsProducer q) = internalValue (up_walletsProducer p)"
proof -
  let ?W = "iov_wallets L"
  from wallets.profile_history_inv [OF assms(1)] assms(2) have hist: "keyring_history ?W (wallet_inv L) k"
      and shown: "internalValue (up_walletsProducer p) = keyring_infos ?W k" by (simp_all add: profile_inv_def)
  obtain k1 where k1: "new_Keyring ?W (Some saved) = ok k1" "same_wallets ?W k k1"
      "keyring_inv ?W (wallet_inv L) k1"
    using wallets.reload [OF wallets.history_keyring_inv [OF hist]] assms(5) by auto
  obtain k2 where k2: "keyring_clone ?W k1 = ok k2" "same_wallets ?W k1 k2" using wallets.reload [OF k1(3)] by blast
  note decrypted = encryption_round_trip [OF assms(10,11,7,6)]
  define db' where "db' = [(storageKeyFormatVersion, ''2''), (storageKeyCreatedAt, toRfc3339 (up_createdAt p)),
    (storageKeyKeyring, toBase64 S e)]"
  have stored: "storeIn L S ?W db secret nonce p p = (db', ok ())"
    by (simp add: storeIn_def assms(2-6) db_clear_empty db'_def Let_def storageKeyKeyring_def storageKeyCreatedAt_def
        storageKeyFormatVersion_def)
  have "fromBase64 S (toBase64 S e) = ok e"
    using assms(11) by (simp add: fromBase64_toBase64 storage_laws_def)
  moreover have "db_get storageKeyFormatVersion db' = ok ''2''" "db_get storageKeyCreatedAt db' = ok (toRfc3339 (up_createdAt p))"
      "db_get storageKeyKeyring db' = ok (toBase64 S e)"
    by (simp_all add: db_get_def db'_def storageKeyKeyring_def storageKeyCreatedAt_def storageKeyFormatVersion_def)
  ultimately have loaded: "loadFrom L S ?W now db' secret = new_UserProfile ?W now (Some (up_createdAt p, k1))"
    using load_entries assms(3,4) decrypted reads_back [OF assms(8,9)] k1(1) by blast
  have same: "same_wallets ?W k k2" using wallets.same_wallets_trans k1(2) k2(2) by blast
  then have infos: "keyring_infos ?W k2 = keyring_infos ?W k" unfolding same_wallets_def keyring_infos_def
    by (induction rule: list_all2_induct) (simp_all add: looks_same_def)
  have "\<exists>q. new_UserProfile ?W now (Some (up_createdAt p, k1)) = ok q \<and> up_createdAt q = up_createdAt p \<and>
    up_keyring q = Some k2 \<and> \<not> internalValue (up_lockedProducer q) \<and> internalValue (up_walletsProducer q) = keyring_infos ?W k2"
    by (simp add: new_UserProfile_def k2(1) walletInfos_def)
  then show ?thesis using stored loaded same infos shown by metis
qed

text \<open>Storage for the witnesses: hexadecimal digits are base64 characters, and one text is stored.\<close>

definition demo_storage :: "KeyringSerializationString \<Rightarrow> storage_lib" where
  "demo_storage saved = \<lparr>base64_fromByteArray = toHex, base64_toByteArray = fromHex, utf8_of_text = (\<lambda>_. []),
     text_of_utf8 = (\<lambda>_. ok saved)\<rparr>"

lemma demo_storage_laws: "storage_laws (demo_storage saved) saved"
  by (simp add: storage_laws_def base64_laws_def demo_storage_def is_base64_toHex fromHex_def fromHexLoop_toHex)

lemma demo_encryption_laws: "encryption_laws demo_crypto"
  by (simp add: encryption_laws_def demo_crypto_def bn_lib.defs)

lemma stored_profile_loads_witness:
  "\<exists>(p :: Wallet UserProfile) (q :: Wallet UserProfile) (S :: storage_lib) db k k'. up_keyring p = Some k \<and> concat (map getIdentities k) = [demo_identity] \<and>
    storeIn demo_crypto S (iov_wallets demo_crypto) [(''other'', ''data'')] (Password ''pw'') (replicate 24 0) p p = (db, ok ()) \<and>
    loadFrom demo_crypto S (iov_wallets demo_crypto) 5 db (Password ''pw'') = ok q \<and> up_keyring q = Some k' \<and>
    same_wallets (iov_wallets demo_crypto) k k'"
proof -
  from demo_profile obtain p w where p: "profile_history (iov_wallets demo_crypto) (wallet_inv demo_crypto) p" "up_keyring p = Some [w]"
      "getIdentities w = [demo_identity]" "up_createdAt p = 0" by blast
  define S where "S = demo_storage (projr (keyring_serialize (iov_wallets demo_crypto) [w]))"
  have "getUTCFullYear 0 = 1970" by code_simp
  then have year: "1000 \<le> getUTCFullYear (up_createdAt p)" "getUTCFullYear (up_createdAt p) < 10000" by (simp_all add: p(4))
  from wallets.profile_history_inv [OF p(1)] p(2) have "keyring_history (iov_wallets demo_crypto) (wallet_inv demo_crypto) [w]"
    by (simp add: profile_inv_def)
  then obtain saved where saved: "keyring_serialize (iov_wallets demo_crypto) [w] = ok saved"
    using wallets.reload [OF wallets.history_keyring_inv] by blast
  then have laws: "storage_laws S saved" by (simp add: S_def demo_storage_laws)
  have "is_ok userProfileSalt" by code_simp
  then obtain salt where salt: "userProfileSalt = ok salt" by (auto simp: is_ok_iff)
  have key: "encryption_key demo_crypto (Password ''pw'') storageFormatVersion = ok \<lparr>key_formatVersion = storageFormatVersion, key_data = replicate 32 7\<rparr>"
    by (simp add: encryption_key_def deriveEncryptionKey_def storageFormatVersion_def Argon2id_execute_def salt
        passwordHashingOptionsVersion2_def demo_crypto_def bn_lib.defs)
  have "new_Uint32 (int_num 1) = ok (Uint32 1)" by code_simp
  then obtain e where e: "encrypt_keyring demo_crypto S saved (replicate 32 7) (replicate 24 0) = ok e"
    by (simp add: encrypt_keyring_def aead_encrypt_def demo_crypto_def bn_lib.defs)
  from stored_profile_loads [OF p(1,2) key _ saved _ _ year demo_encryption_laws laws, of "replicate 24 0" e "[(''other'', ''data'')]" 5] e
  obtain db q k' where "storeIn demo_crypto S (iov_wallets demo_crypto) [(''other'', ''data'')] (Password ''pw'') (replicate 24 0) p p = (db, ok ())"
      "loadFrom demo_crypto S (iov_wallets demo_crypto) 5 db (Password ''pw'') = ok q" "up_keyring q = Some k'"
      "same_wallets (iov_wallets demo_crypto) [w] k'"
    by auto
  moreover have "concat (map getIdentities [w]) = [demo_identity]" by (simp add: p(3))
  ultimately show ?thesis using p(2) by blast
qed

text \<open>
  A store that fails has erased the database: the old entries are deleted
  before the key is checked and before the keyring is read again. So a profile
  that is stored with a key of the older format (the one \<open>loadFrom\<close> asks for when
  the stored profile is old), or that is locked while \<open>storeIn\<close> waits, throws and
  leaves an empty database.
\<close>

lemma failed_store_erases:
  assumes "up_keyring p = Some k"
  shows "(\<forall>db' e. storeIn L S W db secret nonce p resumed = (db', throw e) \<longrightarrow> db' = []) \<and>
    (key_formatVersion key \<noteq> storageFormatVersion \<longrightarrow>
       storeIn L S W db (EncryptionKey key) nonce p resumed = ([], throw ''UnexpectedFormatVersionError'')) \<and>
    (key_formatVersion key = storageFormatVersion \<longrightarrow>
       storeIn L S W db (EncryptionKey key) nonce p (up_lock p) = ([], throw ''TypeError''))"
  using assms
  by (auto simp: storeIn_def Let_def db_clear_empty encryption_key_def up_lock_def split: sum.splits prod.splits)

section \<open>Signed transactions\<close>

lemma signer_of_identity:
  assumes "profile_history (iov_wallets L) (signing_wallet L) p" "up_keyring p = Some k" "n < length k"
    and "k ! n = Slip10W w" "identity \<in> set (getIdentities (Slip10W w))"
  shows "findWalletInPrimaryKeyringByIdentity (iov_wallets L) identity p = ok (Slip10W w) \<and> keys_match L w"
proof -
  from signers.profile_history_inv [OF assms(1)] assms(2) have "keyring_history (iov_wallets L) (signing_wallet L) k"
    by (simp add: profile_inv_def)
  from signers.history_keyring_inv [OF this] have inv: "list_all (signing_wallet L) k" "distinct (keyring_getAllIdentities (iov_wallets L) k)"
    by (simp_all add: keyring_inv_def)
  have "getWalletByIdentity (iov_wallets L) k identity = Some (Slip10W w)"
    using identity_owner [OF inv(2) assms(3), of identity] assms(4,5) by (simp add: iov_wallets_def)
  moreover have "signing_wallet L (Slip10W w)" using inv(1) assms(3,4) by (metis list_all_length)
  ultimately show ?thesis 
    by (simp add: findWalletInPrimaryKeyringByIdentity_def signing_wallet_def primaryKeyring_def assms(2))
qed

text \<open>
  Signing with a profile: for an identity of an HD wallet of an unlocked
  profile, \<open>signTransaction\<close> returns the transaction with one signature, which
  names the public key of the identity and the nonce and verifies under that key
  over the prehashed bytes the codec wants signed. \<open>appendSignature\<close> keeps the
  earlier signatures and adds that one. For a secp256k1 identity the codec must
  ask for a 32 byte hash.
\<close>

lemma signed_transaction_verifies:
  assumes "profile_history (iov_wallets L) (signing_wallet L) p" "up_keyring p = Some k" "n < length k"
    and "k ! n = Slip10W w" "identity \<in> set (getIdentities (Slip10W w))"
    and "codec_bytesToSign txCodec tx nonce = ok job"
    and "w_curve w = CurveSecp256k1 \<Longrightarrow> job_prehashType job \<in> {PrehashSha256, PrehashKeccak256}"
    and "secp_laws L" "sodium_laws L" "digest_laws L"
  shows "\<exists>signature. sig_nonce signature = nonce \<and> sig_pubkey signature = id_pubkey identity \<and>
    verifies L (id_pubkey identity) (prehash L (job_bytes job) (job_prehashType job)) (sig_signature signature) \<and>
    up_signTransaction (iov_wallets L) identity tx txCodec nonce p =
      Some (ok \<lparr>stx_transaction = tx, stx_signatures = [signature]\<rparr>) \<and>
    (\<forall>signatures. up_appendSignature (iov_wallets L) identity \<lparr>stx_transaction = tx, stx_signatures = signatures\<rparr> txCodec nonce p =
      Some (ok \<lparr>stx_transaction = tx, stx_signatures = signatures @ [signature]\<rparr>))"
proof -
  from signer_of_identity [OF assms(1-5)] have find: "findWalletInPrimaryKeyringByIdentity (iov_wallets L) identity p = ok (Slip10W w)"
    and keys: "keys_match L w" by auto
  from matching_keys_sign [OF keys assms(5,7-), of "job_bytes job"] obtain sig where
    sig: "createTransactionSignature L (Slip10W w) identity (job_bytes job) (job_prehashType job) = Some (ok sig)"
      "verifies L (id_pubkey identity) (prehash L (job_bytes job) (job_prehashType job)) sig" by blast
  have create: "op_createTransactionSignature (iov_wallets L) (Slip10W w) identity (job_bytes job) (job_prehashType job) = Some (ok sig)"
    using sig(1) by (simp add: iov_wallets_def)
  let ?s = "\<lparr>sig_nonce = nonce, sig_pubkey = id_pubkey identity, sig_signature = sig\<rparr>"
  have "newNonEmptyArray (signatures @ [?s]) = ok (signatures @ [?s])" for signatures
    by (simp add: newNonEmptyArray_def isNonEmptyArray_def)
  then show ?thesis using sig(2)
    by (intro exI [of _ ?s]) (simp add: up_signTransaction_def up_appendSignature_def find assms(6) create)
qed

text \<open>A codec of transactions that are numbers, which wants SHA-256 hashes signed.\<close>

definition demo_codec :: "nat TxCodec" where
  "demo_codec = \<lparr>codec_parseBytes = (\<lambda>b c. throw ''no''), codec_identityToAddress = (\<lambda>i. throw ''no''), codec_isValidAddress = (\<lambda>a. False),
     codec_bytesToSign = (\<lambda>tx nonce. ok \<lparr>job_bytes = [1, word_of_nat tx], job_prehashType = PrehashSha256\<rparr>),
     codec_bytesToPost = (\<lambda>stx. ok []), codec_identifier = (\<lambda>stx. ok [])\<rparr>"

end
