(* ===== verification/Json_Rpc.thy ===== *)
theory Json_Rpc
  imports Bcp_Types Iov_Stream
begin

text \<open>
  \<open>packages/iov-jsonrpc/src\<close>: the parsers of \<open>parse.ts\<close> for JSON-RPC requests and
  responses, over the JavaScript values of \<open>Iov_Json\<close>, and the client of
  \<open>jsonrpcclient.ts\<close>, which pairs a request with its response in a stream of
  responses. The lemmas show exactly what the parsers accept, that what is
  written is read back, and which response a call gets.
\<close>

section \<open>Messages\<close>

datatype JsonRpcId = IdNumber number | IdString string

record JsonRpcRequest =
  req_id :: JsonRpcId
  req_method :: string
  req_params :: js_value

record JsonRpcError =
  err_code :: number
  err_message :: string
  err_data :: "js_value option"

datatype JsonRpcResponse =
    SuccessResponse JsonRpcId js_value
  | ErrorResponse "JsonRpcId option" JsonRpcError

definition isJsonRpcErrorResponse :: "JsonRpcResponse \<Rightarrow> bool" where
  "isJsonRpcErrorResponse response = (case response of ErrorResponse _ _ \<Rightarrow> True | SuccessResponse _ _ \<Rightarrow> False)"

definition isJsonRpcSuccessResponse :: "JsonRpcResponse \<Rightarrow> bool" where
  "isJsonRpcSuccessResponse response \<longleftrightarrow> \<not> isJsonRpcErrorResponse response"

definition code_invalidRequest :: number where "code_invalidRequest = int_num (- 32600)"
definition code_methodNotFound :: number where "code_methodNotFound = int_num (- 32601)"
definition code_invalidParams :: number where "code_invalidParams = int_num (- 32602)"
definition code_serverError :: number where "code_serverError = int_num (- 32000)"

section \<open>Parsers\<close>

definition id_of :: "js_value \<Rightarrow> JsonRpcId option" where
  "id_of v = (case v of Number x \<Rightarrow> Some (IdNumber x) | Str s \<Rightarrow> Some (IdString s) | _ \<Rightarrow> None)"

definition parseJsonRpcId :: "js_value \<Rightarrow> JsonRpcId option result" where
  "parseJsonRpcId data =
     (if \<not> isJsonCompatibleDictionary data then throw ''Data must be JSON compatible dictionary''
      else ok (id_of (js_get data ''id'')))"

definition parseJsonRpcRequest :: "js_value \<Rightarrow> JsonRpcRequest result" where
  "parseJsonRpcRequest data =
     (if \<not> isJsonCompatibleDictionary data then throw ''Data must be JSON compatible dictionary''
      else if js_get data ''jsonrpc'' \<noteq> Str ''2.0'' then throw ''Got unexpected jsonrpc version''
      else
        andThen (parseJsonRpcId data) (\<lambda>parsed. case parsed of
          None \<Rightarrow> throw ''Invalid id field''
        | Some i \<Rightarrow>
           (case js_get data ''method'' of
              Str method \<Rightarrow>
                if \<not> isJsonCompatibleArray (js_get data ''params'') \<and> \<not> isJsonCompatibleDictionary (js_get data ''params'')
                then throw ''Invalid params field''
                else ok \<lparr>req_id = i, req_method = method, req_params = js_get data ''params''\<rparr>
            | _ \<Rightarrow> throw ''Invalid method field'')))"

definition parseError :: "js_value \<Rightarrow> JsonRpcError result" where
  "parseError error = (case js_get error ''code'' of
     Number code \<Rightarrow>
       (case js_get error ''message'' of
          Str message \<Rightarrow>
            if js_get error ''data'' = Undefined
            then ok \<lparr>err_code = code, err_message = message, err_data = None\<rparr>
            else if isJsonCompatibleValue (js_get error ''data'')
            then ok \<lparr>err_code = code, err_message = message, err_data = Some (js_get error ''data'')\<rparr>
            else throw ''Error property data is defined but not a JSON compatible value.''
        | _ \<Rightarrow> throw ''Error property message is not a string'')
   | _ \<Rightarrow> throw ''Error property code is not a number'')"

definition parseJsonRpcErrorResponse :: "js_value \<Rightarrow> JsonRpcResponse result" where
  "parseJsonRpcErrorResponse data =
     (if \<not> isJsonCompatibleDictionary data then throw ''Data must be JSON compatible dictionary''
      else if js_get data ''jsonrpc'' \<noteq> Str ''2.0'' then throw ''Got unexpected jsonrpc version''
      else if id_of (js_get data ''id'') = None \<and> js_get data ''id'' \<noteq> Null then throw ''Invalid id field''
      else if js_typeof (js_get data ''error'') = ''undefined'' \<or> \<not> isJsonCompatibleDictionary (js_get data ''error'')
      then throw ''Invalid error field''
      else andThen (parseError (js_get data ''error'')) (\<lambda>error. ok (ErrorResponse (id_of (js_get data ''id'')) error)))"

definition parseJsonRpcSuccessResponse :: "js_value \<Rightarrow> JsonRpcResponse result" where
  "parseJsonRpcSuccessResponse data =
     (if \<not> isJsonCompatibleDictionary data then throw ''Data must be JSON compatible dictionary''
      else if js_get data ''jsonrpc'' \<noteq> Str ''2.0'' then throw ''Got unexpected jsonrpc version''
      else (case id_of (js_get data ''id'') of
          None \<Rightarrow> throw ''Invalid id field''
        | Some i \<Rightarrow>
            if js_typeof (js_get data ''result'') = ''undefined'' then throw ''Invalid result field''
            else ok (SuccessResponse i (js_get data ''result''))))"

definition parseJsonRpcResponse :: "js_value \<Rightarrow> JsonRpcResponse result" where
  "parseJsonRpcResponse data = (case parseJsonRpcErrorResponse data of
     Inr response \<Rightarrow> ok response
   | Inl _ \<Rightarrow> parseJsonRpcSuccessResponse data)"

section \<open>The client\<close>

text \<open>Strict equality of ids: NaN is not equal to itself, and \<open>null\<close> is no id of a request.\<close>

fun id_strict_equal :: "JsonRpcId option \<Rightarrow> JsonRpcId \<Rightarrow> bool" where
  "id_strict_equal (Some (IdNumber x)) (IdNumber y) = (x = y \<and> x \<noteq> NaN)"
| "id_strict_equal (Some (IdString x)) (IdString y) = (x = y)"
| "id_strict_equal _ _ = False"

definition response_id :: "JsonRpcResponse \<Rightarrow> JsonRpcId option" where
  "response_id r = (case r of SuccessResponse i _ \<Rightarrow> Some i | ErrorResponse i _ \<Rightarrow> i)"

definition stream_filter :: "('a \<Rightarrow> bool) \<Rightarrow> 'a signal list \<Rightarrow> 'a signal list" where
  "stream_filter P stream = filter (\<lambda>s. case s of Next v \<Rightarrow> P v | _ \<Rightarrow> True) stream"

text \<open>The promise of \<open>run\<close>, for the calls the response stream makes after the request is sent.\<close>

definition client_run :: "JsonRpcRequest \<Rightarrow> JsonRpcResponse signal list \<Rightarrow> JsonRpcResponse promise" where
  "client_run request responseStream =
     (case firstEvent (stream_filter (\<lambda>r. id_strict_equal (response_id r) (req_id request)) responseStream) of
        Resolved response \<Rightarrow>
          (if isJsonRpcErrorResponse response then Rejected ''JSON RPC error'' else Resolved response)
      | Rejected e \<Rightarrow> Rejected e
      | Pending \<Rightarrow> Pending)"

definition makeJsonRpcId :: "int \<Rightarrow> int \<times> int" where
  "makeJsonRpcId counter = (counter + 1, counter + 1)"

section \<open>What is read back\<close>

definition id_value :: "JsonRpcId \<Rightarrow> js_value" where
  "id_value i = (case i of IdNumber x \<Rightarrow> Number x | IdString s \<Rightarrow> Str s)"

definition request_value :: "JsonRpcRequest \<Rightarrow> js_value" where
  "request_value r = Obj [(''jsonrpc'', Str ''2.0''), (''id'', id_value (req_id r)), (''method'', Str (req_method r)),
     (''params'', req_params r)]"

definition error_value :: "JsonRpcError \<Rightarrow> js_value" where
  "error_value e = Obj ([(''code'', Number (err_code e)), (''message'', Str (err_message e))] @
     (case err_data e of None \<Rightarrow> [] | Some d \<Rightarrow> [(''data'', d)]))"

definition response_value :: "JsonRpcResponse \<Rightarrow> js_value" where
  "response_value r = (case r of
     SuccessResponse i result \<Rightarrow> Obj [(''jsonrpc'', Str ''2.0''), (''id'', id_value i), (''result'', result)]
   | ErrorResponse i error \<Rightarrow> Obj [(''jsonrpc'', Str ''2.0''),
       (''id'', case i of None \<Rightarrow> Null | Some j \<Rightarrow> id_value j), (''error'', error_value error)])"

definition valid_request :: "JsonRpcRequest \<Rightarrow> bool" where
  "valid_request r \<longleftrightarrow> isJsonCompatibleArray (req_params r) \<or> isJsonCompatibleDictionary (req_params r)"

definition valid_response :: "JsonRpcResponse \<Rightarrow> bool" where
  "valid_response r = (case r of
     SuccessResponse _ result \<Rightarrow> isJsonCompatibleValue result
   | ErrorResponse _ e \<Rightarrow> (case err_data e of None \<Rightarrow> True | Some d \<Rightarrow> isJsonCompatibleValue d))"

lemma id_of_value [simp]: "id_of (id_value i) = Some i" "isJsonCompatibleValue (id_value i)" "id_value i \<noteq> Null"
  by (cases i; simp add: id_of_def id_value_def)+

lemma id_value_inj [simp]: "id_value i = id_value j \<longleftrightarrow> i = j"
  by (metis id_of_value(1) option.inject)

lemma js_get_Obj: "js_get (Obj entries) key = (case map_of entries key of None \<Rightarrow> Undefined | Some v \<Rightarrow> v)"
  by (simp add: js_get_def)

lemma compatible_Obj: "isJsonCompatibleDictionary (Obj entries) = list_all (\<lambda>(k, v). isJsonCompatibleValue v) entries"
  by (simp add: isJsonCompatibleDictionary.simps)

lemma params_compatible: "valid_request r \<Longrightarrow> isJsonCompatibleValue (req_params r)"
  by (simp add: valid_request_def isJsonCompatibleValue.simps [of "req_params r"])

interpretation json_request: codec "\<lambda>r. ok (request_value r)" parseJsonRpcRequest valid_request
proof
  fix r assume v: "valid_request r"
  then have "parseJsonRpcRequest (request_value r) = ok r"
    using params_compatible [OF v]
    by (simp add: parseJsonRpcRequest_def parseJsonRpcId_def request_value_def js_get_Obj compatible_Obj valid_request_def)
  then show "\<exists>w. ok (request_value r) = ok w \<and> parseJsonRpcRequest w = ok r" by simp
qed

lemma error_value_read: "valid_response (ErrorResponse i e) \<Longrightarrow>
  isJsonCompatibleDictionary (error_value e) \<and> parseError (error_value e) = ok e"
  by (cases e; cases "err_data e")
     (auto simp: valid_response_def error_value_def parseError_def js_get_Obj compatible_Obj)

lemma Obj_compatible: "isJsonCompatibleDictionary v \<Longrightarrow> isJsonCompatibleValue v \<and> js_typeof v = ''object'' \<and> v \<noteq> Undefined"
  by (cases v) (simp_all add: isJsonCompatibleDictionary.simps)

interpretation json_response: codec "\<lambda>r. ok (response_value r)" parseJsonRpcResponse valid_response
proof
  fix r assume v: "valid_response r"
  have "parseJsonRpcResponse (response_value r) = ok r"
  proof (cases r)
    case (SuccessResponse i result)
    then have "isJsonCompatibleValue result" "js_typeof result \<noteq> ''undefined''"
      using v by (simp_all add: valid_response_def) (cases result; simp)
    with SuccessResponse show ?thesis
      by (simp add: parseJsonRpcResponse_def parseJsonRpcErrorResponse_def parseJsonRpcSuccessResponse_def response_value_def
          js_get_Obj compatible_Obj)
  next
    case (ErrorResponse i e)
    from error_value_read [OF v [unfolded this]] have e: "isJsonCompatibleDictionary (error_value e)" "parseError (error_value e) = ok e"
      by simp_all
    note c = Obj_compatible [OF e(1)]
    show ?thesis using e c ErrorResponse
      by (cases i) (simp_all add: parseJsonRpcResponse_def parseJsonRpcErrorResponse_def response_value_def js_get_Obj compatible_Obj id_of_def [of Null])
  qed
  then show "\<exists>w. ok (response_value r) = ok w \<and> parseJsonRpcResponse w = ok r" by simp
qed

text \<open>What the parser of requests accepts.\<close>

lemma request_accepted_iff:
  "parseJsonRpcRequest data = ok r \<longleftrightarrow> isJsonCompatibleDictionary data \<and> js_get data ''jsonrpc'' = Str ''2.0'' \<and>
     js_get data ''id'' = id_value (req_id r) \<and> js_get data ''method'' = Str (req_method r) \<and>
     js_get data ''params'' = req_params r \<and> valid_request r"
proof -
  have i: "id_of v = Some i \<longleftrightarrow> v = id_value i" for v i
    by (cases v; cases i) (auto simp: id_of_def id_value_def)
  show ?thesis
    by (cases r) (auto simp: parseJsonRpcRequest_def parseJsonRpcId_def valid_request_def i split: option.splits js_value.splits)
qed

text \<open>
  JSON-RPC messages survive the wire: a request, a success response and an
  error response with compatible contents are read back as they were written, and
  a message is accepted as the request \<open>r\<close> exactly when it is a compatible
  dictionary of version 2.0 whose id, method and parameters are those of \<open>r\<close>.
\<close>

lemma json_rpc_messages_read_back:
  "(valid_request r \<longrightarrow> parseJsonRpcRequest (request_value r) = ok r) \<and>
   (valid_response response \<longrightarrow> parseJsonRpcResponse (response_value response) = ok response) \<and>
   (parseJsonRpcRequest data = ok r \<longleftrightarrow> isJsonCompatibleDictionary data \<and> js_get data ''jsonrpc'' = Str ''2.0'' \<and>
     js_get data ''id'' = id_value (req_id r) \<and> js_get data ''method'' = Str (req_method r) \<and>
     js_get data ''params'' = req_params r \<and> valid_request r)"
  using json_request.dec_enc [of r] json_response.dec_enc [of response] request_accepted_iff [of data r] by simp

section \<open>The response a call gets\<close>

lemma first_of_filtered:
  assumes "\<And>v. v \<in> set vs \<Longrightarrow> \<not> P v" "P r"
  shows "firstEvent (stream_filter P (map Next vs @ Next r # rest)) = Resolved r"
proof -
  have "stream_filter P (map Next vs @ Next r # rest) = map Next [r] @ stream_filter P rest"
    using assms by (induction vs) (simp_all add: stream_filter_def)
  then show ?thesis using collector_full [of 1 "[r]" "stream_filter P rest"]
    by (simp add: firstEvent_def toListPromise_def)
qed

lemma none_of_filtered:
  assumes "\<And>v. v \<in> set vs \<Longrightarrow> \<not> P v"
  shows "firstEvent (stream_filter P (map Next vs)) = Pending"
proof -
  have "stream_filter P (map Next vs) = []" using assms by (induction vs) (simp_all add: stream_filter_def)
  then show ?thesis by (simp add: firstEvent_def toListPromise_def collector_start_def)
qed

text \<open>
  A call gets its own response: whatever responses to other requests arrive
  before it, the call of a request is settled by the first response that has its
  id, resolved with it when it is a success and rejected when it is an error;
  responses to other requests and responses without id never settle it.
\<close>

lemma client_gets_own_response:
  assumes "\<And>v. v \<in> set others \<Longrightarrow> \<not> id_strict_equal (response_id v) (req_id request)"
    and "id_strict_equal (response_id response) (req_id request)"
  shows "client_run request (map Next others) = Pending \<and>
    client_run request (map Next others @ Next response # rest) =
      (case response of SuccessResponse _ _ \<Rightarrow> Resolved response | ErrorResponse _ _ \<Rightarrow> Rejected ''JSON RPC error'')"
  using first_of_filtered [of others "\<lambda>r. id_strict_equal (response_id r) (req_id request)" response rest]
    none_of_filtered [of others "\<lambda>r. id_strict_equal (response_id r) (req_id request)"] assms
  by (simp add: client_run_def isJsonRpcErrorResponse_def split: JsonRpcResponse.splits)

end
