(* ===== verification/Multichain_Signer.thy ===== *)
theory Multichain_Signer
  imports Key_UserProfile Json_Rpc
begin

text \<open>
  \<open>packages/iov-multichain/src\<close>: \<open>MultiChainSigner\<close> knows a connection and a codec
  per chain, signs with a profile and posts; \<open>SigningServerCore\<close> asks the user
  before it does so (\<open>signAndPost\<close> of the core is in the theory \<open>Signing_Server\<close>);
  \<open>JsonRpcSigningServer\<close> serves this to untrusted callers. A
  connection is known by what the signer uses of it. The lemmas show that posts
  go to the chain of the signing identity and which answer every request gets.
\<close>

section \<open>MultiChainSigner\<close>

text \<open>The methods of a connection, and of a connector that establishes it.\<close>

record ('c, 'r) ConnectionOps =
  conn_chainId :: "'c \<Rightarrow> ChainId"
  conn_getNonce :: "'c \<Rightarrow> PubkeyBundle \<Rightarrow> Nonce result"
  conn_postTx :: "'c \<Rightarrow> byte list \<Rightarrow> 'r result"

record ('c, 'tx) ChainConnector =
  establishConnection :: "'c result"
  connector_codec :: "'tx TxCodec"
  expectedChainId :: "ChainId option"

record ('c, 'tx) Chain =
  chain_connection :: 'c
  chain_codec :: "'tx TxCodec"

record 'tx Profile =
  pr_signTransaction :: "Identity \<Rightarrow> 'tx \<Rightarrow> 'tx TxCodec \<Rightarrow> Nonce \<Rightarrow> 'tx SignedTx run"
  pr_appendSignature :: "Identity \<Rightarrow> 'tx SignedTx \<Rightarrow> 'tx TxCodec \<Rightarrow> Nonce \<Rightarrow> 'tx SignedTx run"

text \<open>A user profile as the signer sees it.\<close>

definition profile_of :: "'w WalletOps \<Rightarrow> 'w UserProfile \<Rightarrow> 'tx Profile" where
  "profile_of W p = \<lparr>pr_signTransaction = (\<lambda>i tx c n. up_signTransaction W i tx c n p),
     pr_appendSignature = (\<lambda>i tx c n. up_appendSignature W i tx c n p)\<rparr>"

text \<open>The known chains, in the order of insertion as a JavaScript map has them.\<close>

type_synonym ('c, 'tx) MultiChainSigner = "(ChainId \<times> ('c, 'tx) Chain) list"

definition chainIds :: "('c, 'tx) MultiChainSigner \<Rightarrow> ChainId list" where
  "chainIds knownChains = map fst knownChains"

definition getChain :: "('c, 'tx) MultiChainSigner \<Rightarrow> ChainId \<Rightarrow> ('c, 'tx) Chain result" where
  "getChain knownChains chainId = (case map_of knownChains chainId of
     None \<Rightarrow> throw ''No such chain'' | Some chain \<Rightarrow> ok chain)"

definition mcs_connection :: "('c, 'tx) MultiChainSigner \<Rightarrow> ChainId \<Rightarrow> 'c result" where
  "mcs_connection knownChains chainId = andThen (getChain knownChains chainId) (\<lambda>chain. ok (chain_connection chain))"

definition connectChain :: "('c, 'tx) ChainConnector \<Rightarrow> ('c, 'tx) Chain result" where
  "connectChain x = andThen (establishConnection x) (\<lambda>connection.
     ok \<lparr>chain_connection = connection, chain_codec = connector_codec x\<rparr>)"

definition addChain :: "('c, 'r) ConnectionOps \<Rightarrow> ('c, 'tx) ChainConnector \<Rightarrow> ('c, 'tx) MultiChainSigner
    \<Rightarrow> (('c, 'tx) MultiChainSigner \<times> 'c) result" where
  "addChain C connector knownChains =
     andThen (connectChain connector) (\<lambda>chain.
     let chainId = conn_chainId C (chain_connection chain) in
     if (case expectedChainId connector of None \<Rightarrow> False | Some expected \<Rightarrow> expected \<noteq> [] \<and> expected \<noteq> chainId)
     then throw ''Connected chain ID does not match''
     else if map_of knownChains chainId \<noteq> None then throw ''Chain is already registered''
     else ok (knownChains @ [(chainId, chain)], chain_connection chain))"

definition mcs_identityToAddress :: "('c, 'tx) MultiChainSigner \<Rightarrow> Identity \<Rightarrow> string result" where
  "mcs_identityToAddress knownChains identity =
     andThen (getChain knownChains (id_chainId identity)) (\<lambda>chain. codec_identityToAddress (chain_codec chain) identity)"

definition mcs_isValidAddress :: "('c, 'tx) MultiChainSigner \<Rightarrow> ChainId \<Rightarrow> string \<Rightarrow> bool result" where
  "mcs_isValidAddress knownChains chainId address =
     andThen (getChain knownChains chainId) (\<lambda>chain. ok (codec_isValidAddress (chain_codec chain) address))"

text \<open>\<open>signAndPost\<close>, up to the call of \<open>postTx\<close>: the connection and the bytes for it.\<close>

definition prepare_post :: "('c, 'r) ConnectionOps \<Rightarrow> 'tx Profile \<Rightarrow> ('c, 'tx) MultiChainSigner \<Rightarrow> Identity \<Rightarrow> 'tx
    \<Rightarrow> ('c \<times> byte list) run" where
  "prepare_post C profile knownChains identity transaction =
     thenRun (Some (getChain knownChains (id_chainId identity))) (\<lambda>chain.
     thenRun (Some (conn_getNonce C (chain_connection chain) (id_pubkey identity))) (\<lambda>nonce.
     thenRun (pr_signTransaction profile identity transaction (chain_codec chain) nonce) (\<lambda>signed.
     thenRun (Some (codec_bytesToPost (chain_codec chain) signed)) (\<lambda>txBytes.
     Some (ok (chain_connection chain, txBytes))))))"

definition signAndPost :: "('c, 'r) ConnectionOps \<Rightarrow> 'tx Profile \<Rightarrow> ('c, 'tx) MultiChainSigner \<Rightarrow> Identity \<Rightarrow> 'tx
    \<Rightarrow> 'r run" where
  "signAndPost C profile knownChains identity transaction =
     thenRun (prepare_post C profile knownChains identity transaction) (\<lambda>(connection, txBytes).
     Some (conn_postTx C connection txBytes))"

text \<open>The connections that \<open>shutdown\<close> disconnects.\<close>

definition mcs_shutdown :: "('c, 'tx) MultiChainSigner \<Rightarrow> 'c list result" where
  "mcs_shutdown knownChains = mapM (mcs_connection knownChains) (chainIds knownChains)"

inductive signer_history :: "('c, 'r) ConnectionOps \<Rightarrow> ('c, 'tx) MultiChainSigner \<Rightarrow> bool" for C where
  "new": "signer_history C []"
| add: "signer_history C s \<Longrightarrow> addChain C connector s = ok (s', connection) \<Longrightarrow> signer_history C s'"

lemma signer_history_inv:
  "signer_history C s \<Longrightarrow> distinct (map fst s) \<and> (\<forall>(chainId, chain) \<in> set s. conn_chainId C (chain_connection chain) = chainId)"
proof (induction rule: signer_history.induct)
  case (add s connector s' connection)
  from add.hyps(2) obtain chain where "map_of s (conn_chainId C (chain_connection chain)) = None"
      "s' = s @ [(conn_chainId C (chain_connection chain), chain)]"
    by (auto simp: addChain_def andThen_eq_Inr Let_def split: if_splits)
  with add.IH show ?case by (auto simp: map_of_eq_None_iff)
qed simp

lemma getChain_ok:
  assumes "signer_history C s"
  shows "getChain s chainId = ok chain \<longleftrightarrow> (chainId, chain) \<in> set s"
    and "getChain s chainId = ok chain \<Longrightarrow> conn_chainId C (chain_connection chain) = chainId"
proof -
  have inv: "distinct (map fst s)" "\<forall>(chainId, chain) \<in> set s. conn_chainId C (chain_connection chain) = chainId"
    using signer_history_inv [OF assms] by simp_all
  show lookup: "getChain s chainId = ok chain \<longleftrightarrow> (chainId, chain) \<in> set s" for chain
    using map_of_eq_Some_iff [OF inv(1), of chainId chain] by (cases "map_of s chainId") (simp_all add: getChain_def)
  show "conn_chainId C (chain_connection chain) = chainId" if "getChain s chainId = ok chain"
    using that inv(2) lookup by auto
qed

lemma shutdown_all:
  assumes "signer_history C s"
  shows "mcs_shutdown s = ok (map (chain_connection \<circ> snd) s)"
proof -
  have "mapM (mcs_connection s) (map fst s) = ok (map (\<lambda>i. chain_connection (the (map_of s i))) (map fst s))"
    
    by (rule mapM_ok) (auto simp: mcs_connection_def getChain_def map_of_eq_None_iff image_iff split: option.splits dest: weak_map_of_SomeI)
  moreover have "map (\<lambda>i. chain_connection (the (map_of s i))) (map fst s) = map (chain_connection \<circ> snd) s"
    using signer_history_inv [OF assms] by auto
  ultimately show ?thesis by (simp add: mcs_shutdown_def chainIds_def)
qed

text \<open>
  C23. Transactions go to the chain of the identity: in a signer built by
  \<open>addChain\<close>, the connection that \<open>signAndPost\<close> posts to is the one whose chain id
  is that of the signing identity, the nonce is the one this connection gave for
  the key of the identity, and the bytes are made by the codec of that chain from
  what the profile signed with that codec. Shutting down disconnects every
  connection once.
\<close>

theorem posts_to_own_chain:
  assumes "signer_history C s" "prepare_post C profile s identity transaction = Some (ok (connection, txBytes))"
  shows "conn_chainId C connection = id_chainId identity \<and>
    (\<exists>txCodec nonce signed. (id_chainId identity, \<lparr>chain_connection = connection, chain_codec = txCodec\<rparr>) \<in> set s \<and>
      conn_getNonce C connection (id_pubkey identity) = ok nonce \<and>
      pr_signTransaction profile identity transaction txCodec nonce = Some (ok signed) \<and>
      codec_bytesToPost txCodec signed = ok txBytes) \<and>
    signAndPost C profile s identity transaction = Some (conn_postTx C connection txBytes) \<and>
    mcs_shutdown s = ok (map (chain_connection \<circ> snd) s)"
proof -
  from assms(2) obtain chain nonce signed where c: "getChain s (id_chainId identity) = ok chain" "chain_connection chain = connection"
      "conn_getNonce C connection (id_pubkey identity) = ok nonce"
      "pr_signTransaction profile identity transaction (chain_codec chain) nonce = Some (ok signed)"
      "codec_bytesToPost (chain_codec chain) signed = ok txBytes"
    by (auto simp: prepare_post_def thenRun_eq_ok)
  moreover have "chain = \<lparr>chain_connection = connection, chain_codec = chain_codec chain\<rparr>"
    using c(2) by (cases chain) simp
  ultimately have "(id_chainId identity, \<lparr>chain_connection = connection, chain_codec = chain_codec chain\<rparr>) \<in> set s"
    using getChain_ok(1) [OF assms(1)] by metis
  with c getChain_ok(2) [OF assms(1) c(1)] show ?thesis
    by (auto simp: signAndPost_def assms(2) shutdown_all [OF assms(1)])
qed

text \<open>A signer with one chain, whose transactions are numbers.\<close>

definition demo_connections :: "(string, string) ConnectionOps" where
  "demo_connections = \<lparr>conn_chainId = (\<lambda>c. c), conn_getNonce = (\<lambda>c k. ok (int_num 3)), conn_postTx = (\<lambda>c b. ok ''tx'')\<rparr>"

lemma posts_to_own_chain_witness:
  "\<exists>s. signer_history demo_connections s \<and> chainIds s = [''chain''] \<and>
    signAndPost demo_connections \<lparr>pr_signTransaction = (\<lambda>i tx c n. Some (ok \<lparr>stx_transaction = tx, stx_signatures = []\<rparr>)),
        pr_appendSignature = (\<lambda>i tx c n. Some (ok tx))\<rparr> s demo_identity (5 :: nat)
      = Some (conn_postTx demo_connections ''chain'' [])"
proof -
  let ?p = "\<lparr>pr_signTransaction = (\<lambda>i tx c n. Some (ok \<lparr>stx_transaction = tx, stx_signatures = []\<rparr>)),
    pr_appendSignature = (\<lambda>i tx c n. Some (ok tx))\<rparr> :: nat Profile"
  let ?c = "\<lparr>establishConnection = ok ''chain'', connector_codec = demo_codec, expectedChainId = None\<rparr>"
  let ?s = "[(''chain'', \<lparr>chain_connection = ''chain'', chain_codec = demo_codec\<rparr>)]"
  have "addChain demo_connections ?c [] = ok (?s, ''chain'')"
    by (simp add: addChain_def connectChain_def demo_connections_def)
  then have h: "signer_history demo_connections ?s" by (rule signer_history.add [OF signer_history.new])
  moreover have "prepare_post demo_connections ?p ?s demo_identity 5 = Some (ok (''chain'', []))"
    by (simp add: prepare_post_def getChain_def demo_identity_def demo_connections_def demo_codec_def)
  from posts_to_own_chain [OF h this] have "signAndPost demo_connections ?p ?s demo_identity 5 = Some (conn_postTx demo_connections ''chain'' [])"
    by (elim conjE)
  ultimately show ?thesis by (intro exI [of _ ?s]) (simp add: chainIds_def)
qed

section \<open>SigningServerCore\<close>

text \<open>The callbacks that ask the user; an error in them is reported without details.\<close>

record Authorization =
  authorizeGetIdentities :: "string \<Rightarrow> Identity list \<Rightarrow> Identity list result"

type_synonym ('tx, 'r) SigningServerCore = "('tx \<times> 'r) list DefaultValueProducer"

definition new_SigningServerCore :: "('tx, 'r) SigningServerCore" where
  "new_SigningServerCore = new_DefaultValueProducer [] False"

definition core_getIdentities :: "'w WalletOps \<Rightarrow> 'w UserProfile \<Rightarrow> Authorization \<Rightarrow> string \<Rightarrow> ChainId list
    \<Rightarrow> Identity list result" where
  "core_getIdentities W profile A reason wanted =
     andThen (up_getAllIdentities W profile) (\<lambda>identities.
     let matchingIdentities = filter (\<lambda>identity. list_ex (\<lambda>chainId. id_chainId identity = chainId) wanted) identities in
     (case authorizeGetIdentities A reason matchingIdentities of
        Inl _ \<Rightarrow> throw ''Internal server error''
      | Inr authorizedIdentities \<Rightarrow> ok authorizedIdentities))"

section \<open>JsonRpcSigningServer\<close>

text \<open>The errors of the server, by class; transactions are JavaScript values here.\<close>

datatype RpcError = ParamsError string | MethodNotFoundError string | OtherError string

datatype RpcCall =
    RpcCallGetIdentities string "ChainId list"
  | RpcCallSignAndPost string Identity js_value

definition isArrayOfStrings :: "js_value list \<Rightarrow> bool" where
  "isArrayOfStrings array \<longleftrightarrow> list_all (\<lambda>element. js_typeof element = ''string'') array"

fun string_of :: "js_value \<Rightarrow> string" where
  "string_of (Str s) = s"
| "string_of _ = []"

fun bytes_of :: "js_value \<Rightarrow> byte list" where
  "bytes_of (Uint8Arr bs) = bs"
| "bytes_of _ = []"

text \<open>A value that passed the guard \<open>isIdentity\<close>, and an identity as a value.\<close>

definition identity_of :: "js_value \<Rightarrow> Identity" where
  "identity_of data = \<lparr>id_chainId = string_of (js_get data ''chainId''),
     id_pubkey = \<lparr>pk_algo = (if js_get (js_get data ''pubkey'') ''algo'' = Str ''ed25519'' then Ed25519 else Secp256k1),
       pk_data = bytes_of (js_get (js_get data ''pubkey'') ''data'')\<rparr>\<rparr>"

definition identity_value :: "Identity \<Rightarrow> js_value" where
  "identity_value i = Obj [(''chainId'', Str (id_chainId i)), (''pubkey'', Obj
     [(''algo'', Str (algorithm_string (pk_algo (id_pubkey i)))), (''data'', Uint8Arr (pk_data (id_pubkey i)))])]"

definition parseRpcCall :: "JsonRpcRequest \<Rightarrow> RpcError + RpcCall" where
  "parseRpcCall data =
     (if \<not> isJsonCompatibleDictionary (req_params data) then Inl (OtherError ''Request params are only supported as dictionary'')
      else if req_method data = ''getIdentities'' then
        (case fromJson (req_params data) of
           Inl e \<Rightarrow> Inl (OtherError e)
         | Inr params \<Rightarrow>
             (case js_get params ''reason'' of
                Str reason \<Rightarrow>
                  (case js_get params ''chainIds'' of
                     Arr items \<Rightarrow> if isArrayOfStrings items then Inr (RpcCallGetIdentities reason (map string_of items))
                       else Inl (ParamsError ''Parameter chainIds must be an array of strings'')
                   | _ \<Rightarrow> Inl (ParamsError ''Parameter chainIds must be an array of strings''))
              | _ \<Rightarrow> Inl (ParamsError ''Parameter reason must be a string'')))
      else if req_method data = ''signAndPost'' then
        (case fromJson (req_params data) of
           Inl e \<Rightarrow> Inl (OtherError e)
         | Inr params \<Rightarrow>
             if \<not> isIdentity (js_get params ''signer'')
             then Inl (ParamsError ''Parameter signer does not look like an identity'')
             else (case js_get params ''reason'' of
                Str reason \<Rightarrow>
                  if \<not> isUnsignedTransaction (js_get params ''transaction'')
                  then Inl (ParamsError ''Parameter transaction does not look like an unsigned transaction'')
                  else Inr (RpcCallSignAndPost reason (identity_of (js_get params ''signer'')) (js_get params ''transaction''))
              | _ \<Rightarrow> Inl (ParamsError ''Parameter reason must be a string'')))
      else Inl (MethodNotFoundError ''Unknown method name''))"

definition rpc_error_response :: "JsonRpcId \<Rightarrow> RpcError \<Rightarrow> JsonRpcResponse" where
  "rpc_error_response i error = (case error of
     MethodNotFoundError m \<Rightarrow> ErrorResponse (Some i) \<lparr>err_code = code_methodNotFound, err_message = ''Error: '' @ m, err_data = None\<rparr>
   | ParamsError m \<Rightarrow> ErrorResponse (Some i) \<lparr>err_code = code_invalidParams, err_message = ''Error: '' @ m, err_data = None\<rparr>
   | OtherError m \<Rightarrow> ErrorResponse (Some i) \<lparr>err_code = code_serverError, err_message = ''Error: '' @ m, err_data = None\<rparr>)"

text \<open>
  A request handled over the operations of the core: \<open>core_ids\<close> for
  \<open>getIdentities\<close>, \<open>core_sign\<close> for \<open>signAndPost\<close>.
\<close>

definition handleChecked :: "(string \<Rightarrow> ChainId list \<Rightarrow> Identity list result)
    \<Rightarrow> (Identity \<Rightarrow> string \<Rightarrow> js_value \<Rightarrow> 's \<Rightarrow> ('s \<times> string option) run) \<Rightarrow> JsonRpcRequest \<Rightarrow> 's \<Rightarrow> ('s \<times> JsonRpcResponse) run" where
  "handleChecked core_ids core_sign request core = (case parseRpcCall request of
     Inl error \<Rightarrow> Some (ok (core, rpc_error_response (req_id request) error))
   | Inr (RpcCallGetIdentities reason wanted) \<Rightarrow>
       (case andThen (core_ids reason wanted) (\<lambda>result. toJson (Arr (map identity_value result))) of
          Inl e \<Rightarrow> Some (ok (core, rpc_error_response (req_id request) (OtherError e)))
        | Inr result \<Rightarrow> Some (ok (core, SuccessResponse (req_id request) result)))
   | Inr (RpcCallSignAndPost reason signer transaction) \<Rightarrow>
       (case core_sign signer reason transaction core of
          None \<Rightarrow> None
        | Some (Inl e) \<Rightarrow> Some (ok (core, rpc_error_response (req_id request) (OtherError e)))
        | Some (Inr (core', result)) \<Rightarrow>
            (case toJson (case result of None \<Rightarrow> Null | Some transactionId \<Rightarrow> Str transactionId) of
               Inl e \<Rightarrow> Some (ok (core', rpc_error_response (req_id request) (OtherError e)))
             | Inr json \<Rightarrow> Some (ok (core', SuccessResponse (req_id request) json)))))"

definition handleUnchecked :: "(string \<Rightarrow> ChainId list \<Rightarrow> Identity list result)
    \<Rightarrow> (Identity \<Rightarrow> string \<Rightarrow> js_value \<Rightarrow> 's \<Rightarrow> ('s \<times> string option) run) \<Rightarrow> js_value \<Rightarrow> 's \<Rightarrow> ('s \<times> JsonRpcResponse) run" where
  "handleUnchecked core_ids core_sign request core = (case parseJsonRpcRequest request of
     Inl error \<Rightarrow>
       Some (andThen (parseJsonRpcId request) (\<lambda>requestId.
         ok (core, ErrorResponse requestId \<lparr>err_code = code_invalidRequest, err_message = ''Error: '' @ error, err_data = None\<rparr>)))
   | Inr checkedRequest \<Rightarrow> handleChecked core_ids core_sign checkedRequest core)"

lemma rpc_error_id [simp]: "response_id (rpc_error_response i e) = Some i"
  by (cases e) (simp_all add: rpc_error_response_def response_id_def)

lemma identity_of_value: "identity_of (identity_value i) = i" "isIdentity (identity_value i)"
  by (cases i; cases "id_pubkey i"; cases "pk_algo (id_pubkey i)";
      simp add: identity_of_def identity_value_def js_get_Obj algorithm_string_def isIdentity_def isPubkeyBundle_def
        isNonNullObject_def isUint8Array_def)+

lemma checked_answer:
  assumes "\<And>i m t c. core_sign i m t c \<noteq> None"
  shows "\<exists>core' response. handleChecked core_ids core_sign r core = Some (ok (core', response)) \<and> response_id response = Some (req_id r)"
proof (cases "parseRpcCall r")
  case (Inr call)
  show ?thesis
  proof (cases call)
    case (RpcCallSignAndPost reason signer transaction)
    obtain y where "core_sign signer reason transaction core = Some y" using assms by blast
    with Inr RpcCallSignAndPost show ?thesis
      by (auto simp: handleChecked_def response_id_def [of "SuccessResponse _ _"] split: sum.splits option.splits)
  qed (auto simp: Inr handleChecked_def response_id_def [of "SuccessResponse _ _"] split: sum.splits)
qed (simp add: handleChecked_def)

lemma request_id:
  "parseJsonRpcRequest data = ok r \<Longrightarrow> id_of (js_get data ''id'') = Some (req_id r)"
  by (simp add: request_accepted_iff)

text \<open>
  Every request object is answered: for every compatible dictionary the server
  gives a response that carries the id of the request (or none, when the request
  has no valid id), whatever the callbacks and the signer throw, if they return at
  all. A request that is not a dictionary (\<open>null\<close>, an array, a string) is not
  answered: the error path parses the id of it and throws again, so the call of
  \<open>handleUnchecked\<close> fails instead of returning an error response.
\<close>

lemma server_answers_dictionaries_only:
  assumes "\<And>i m t c. core_sign i m t c \<noteq> None"
  shows "if isJsonCompatibleDictionary request
    then \<exists>core' response. handleUnchecked core_ids core_sign request core = Some (ok (core', response)) \<and>
      response_id response = id_of (js_get request ''id'')
    else handleUnchecked core_ids core_sign request core = Some (throw ''Data must be JSON compatible dictionary'')"
proof (cases "parseJsonRpcRequest request")
  case (Inl e)
  then show ?thesis
    by (cases "isJsonCompatibleDictionary request") (auto simp: handleUnchecked_def parseJsonRpcId_def response_id_def)
next
  case (Inr r)
  then have "isJsonCompatibleDictionary request" by (simp add: request_accepted_iff)
  moreover from checked_answer [OF assms, where r = r] have
    "\<exists>core' response. handleUnchecked core_ids core_sign request core = Some (ok (core', response)) \<and> response_id response = Some (req_id r)"
    by (simp add: handleUnchecked_def Inr)
  ultimately show ?thesis using request_id [OF Inr] by simp
qed

end
