(* ===== verification/Signing_Server.thy ===== *)
theory Signing_Server
  imports Multichain_Signer
begin

text \<open>
  \<open>packages/iov-multichain/src/signingservercore.ts\<close>, the handling of requests to sign
  and post, with the calls that it makes in their order. \<open>signAndPost\<close> of the core and
  of the signer are asynchronous functions: between two of their \<open>await\<close>s the model has
  one function, which gives the calls of the code up to the next \<open>await\<close> and the point at
  which the request waits. Any number of requests is under way, the answers that they
  wait for arrive in any order and are arbitrary, and chains are added meanwhile. The
  lemmas show what happened in a request before it signs and before it posts.
\<close>

section \<open>Calls, answers and the state of a request\<close>

record 'tx sign_request =
  sr_identity :: Identity
  sr_reason :: string
  sr_transaction :: 'tx

datatype ('c, 'tx) server_call =
    AskUser string Identity 'tx
  | LogError string
  | GetNonce 'c PubkeyBundle
  | SignTransaction Identity 'tx "'tx TxCodec" Nonce
  | PostTx 'c "byte list"

text \<open>How an awaited promise is settled: the callback, the nonce, the profile, the post.\<close>

datatype ('tx, 'r) outcome =
    UserAnswered "bool result"
  | NonceGot "Nonce result"
  | TransactionSigned "'tx SignedTx result"
  | Posted "'r result"

text \<open>The \<open>await\<close> at which a request waits, or the value of its promise.\<close>

datatype ('c, 'tx) progress =
    Authorizing
  | GettingNonce "('c, 'tx) Chain"
  | SigningTx "('c, 'tx) Chain"
  | Posting
  | Answered "string option result"

section \<open>The handler\<close>

definition core_signAndPost :: "'tx sign_request \<Rightarrow> ('c, 'tx) server_call list \<times> ('c, 'tx) progress" where
  "core_signAndPost rq = ([AskUser (sr_reason rq) (sr_identity rq) (sr_transaction rq)], Authorizing)"

definition mcs_signAndPost :: "('c, 'tx) MultiChainSigner \<Rightarrow> 'tx sign_request \<Rightarrow> ('c, 'tx) server_call list \<times> ('c, 'tx) progress" where
  "mcs_signAndPost knownChains rq = (case getChain knownChains (id_chainId (sr_identity rq)) of
     Inl e \<Rightarrow> ([], Answered (throw e))
   | Inr chain \<Rightarrow> ([GetNonce (chain_connection chain) (id_pubkey (sr_identity rq))], GettingNonce chain))"

definition core_authorized :: "('c, 'tx) MultiChainSigner \<Rightarrow> 'tx sign_request \<Rightarrow> bool result
    \<Rightarrow> ('c, 'tx) server_call list \<times> ('c, 'tx) progress" where
  "core_authorized knownChains rq authorized = (case authorized of
     Inl error \<Rightarrow> ([LogError error], Answered (throw ''Internal server error''))
   | Inr allowed \<Rightarrow> if allowed then mcs_signAndPost knownChains rq else ([], Answered (ok None)))"

definition mcs_nonce :: "'tx sign_request \<Rightarrow> ('c, 'tx) Chain \<Rightarrow> Nonce result \<Rightarrow> ('c, 'tx) server_call list \<times> ('c, 'tx) progress" where
  "mcs_nonce rq chain got = (case got of
     Inl e \<Rightarrow> ([], Answered (throw e))
   | Inr nonce \<Rightarrow> ([SignTransaction (sr_identity rq) (sr_transaction rq) (chain_codec chain) nonce], SigningTx chain))"

definition mcs_signed :: "('c, 'tx) Chain \<Rightarrow> 'tx SignedTx result \<Rightarrow> ('c, 'tx) server_call list \<times> ('c, 'tx) progress" where
  "mcs_signed chain got = (case andThen got (codec_bytesToPost (chain_codec chain)) of
     Inl e \<Rightarrow> ([], Answered (throw e))
   | Inr txBytes \<Rightarrow> ([PostTx (chain_connection chain) txBytes], Posting))"

definition core_posted :: "('r \<Rightarrow> string) \<Rightarrow> 'tx sign_request \<Rightarrow> 'r result \<Rightarrow> ('tx, 'r) SigningServerCore
    \<Rightarrow> ('c, 'tx) progress \<times> ('tx, 'r) SigningServerCore" where
  "core_posted transactionId rq got core = (case got of
     Inl e \<Rightarrow> (Answered (throw e), core)
   | Inr response \<Rightarrow> (Answered (ok (Some (transactionId response))),
       dvp_update (internalValue core @ [(sr_transaction rq, response)]) core))"

text \<open>A request goes on when the promise it waits for is settled.\<close>

fun resume :: "('c, 'tx) MultiChainSigner \<Rightarrow> ('r \<Rightarrow> string) \<Rightarrow> 'tx sign_request \<Rightarrow> ('c, 'tx) progress \<Rightarrow> ('tx, 'r) outcome
    \<Rightarrow> ('tx, 'r) SigningServerCore \<Rightarrow> (('c, 'tx) server_call list \<times> ('c, 'tx) progress \<times> ('tx, 'r) SigningServerCore) option" where
  "resume knownChains transactionId rq Authorizing (UserAnswered r) core =
     (case core_authorized knownChains rq r of (made, p) \<Rightarrow> Some (made, p, core))"
| "resume knownChains transactionId rq (GettingNonce chain) (NonceGot r) core =
     (case mcs_nonce rq chain r of (made, p) \<Rightarrow> Some (made, p, core))"
| "resume knownChains transactionId rq (SigningTx chain) (TransactionSigned r) core =
     (case mcs_signed chain r of (made, p) \<Rightarrow> Some (made, p, core))"
| "resume knownChains transactionId rq Posting (Posted r) core = Some ([], core_posted transactionId rq r core)"
| "resume knownChains transactionId rq p r core = None"

text \<open>
  Where the awaited calls have the values of the connection and the profile, the handler
  makes the calls of \<open>prepare_post\<close>.
\<close>

lemma handler_follows_prepare_post:
  assumes "prepare_post C profile knownChains (sr_identity rq) (sr_transaction rq) = Some (ok (connection, txBytes))"
  shows "\<exists>chain nonce stx. core_authorized knownChains rq (ok True)
        = ([GetNonce connection (id_pubkey (sr_identity rq))], GettingNonce chain) \<and>
    conn_getNonce C connection (id_pubkey (sr_identity rq)) = ok nonce \<and>
    mcs_nonce rq chain (ok nonce) = ([SignTransaction (sr_identity rq) (sr_transaction rq) (chain_codec chain) nonce], SigningTx chain) \<and>
    pr_signTransaction profile (sr_identity rq) (sr_transaction rq) (chain_codec chain) nonce = Some (ok stx) \<and>
    mcs_signed chain (ok stx) = ([PostTx connection txBytes], Posting)"
proof -
  from assms obtain chain nonce stx where "getChain knownChains (id_chainId (sr_identity rq)) = ok chain"
      "chain_connection chain = connection" "conn_getNonce C connection (id_pubkey (sr_identity rq)) = ok nonce"
      "pr_signTransaction profile (sr_identity rq) (sr_transaction rq) (chain_codec chain) nonce = Some (ok stx)"
      "codec_bytesToPost (chain_codec chain) stx = ok txBytes"
    by (auto simp: prepare_post_def thenRun_eq_ok)
  then show ?thesis
    by (intro exI [of _ chain] exI [of _ nonce] exI [of _ stx])
      (simp add: core_authorized_def mcs_signAndPost_def mcs_nonce_def mcs_signed_def)
qed

section \<open>The server\<close>

text \<open>An event of the server: a call of a request, or the settling of what it waits for.\<close>

datatype ('c, 'tx, 'r) server_event = Calls nat "('c, 'tx) server_call" | Returns nat "('tx, 'r) outcome"

record ('c, 'tx, 'r) signing_server =
  sv_chains :: "('c, 'tx) MultiChainSigner"
  sv_core :: "('tx, 'r) SigningServerCore"
  sv_requests :: "('tx sign_request \<times> ('c, 'tx) progress) list"
  sv_trace :: "('c, 'tx, 'r) server_event list"

definition new_server :: "('c, 'tx, 'r) signing_server" where
  "new_server = \<lparr>sv_chains = [], sv_core = new_SigningServerCore, sv_requests = [], sv_trace = []\<rparr>"

definition receive :: "'tx sign_request \<Rightarrow> ('c, 'tx, 'r) signing_server \<Rightarrow> ('c, 'tx, 'r) signing_server" where
  "receive rq s = (case core_signAndPost rq of (made, p) \<Rightarrow>
     s\<lparr>sv_requests := sv_requests s @ [(rq, p)], sv_trace := sv_trace s @ map (Calls (length (sv_requests s))) made\<rparr>)"

definition deliver :: "('r \<Rightarrow> string) \<Rightarrow> nat \<Rightarrow> ('tx, 'r) outcome \<Rightarrow> ('c, 'tx, 'r) signing_server
    \<Rightarrow> ('c, 'tx, 'r) signing_server option" where
  "deliver transactionId i r s =
     (if i < length (sv_requests s) then
        case sv_requests s ! i of (rq, p) \<Rightarrow>
          map_option (\<lambda>(made, p', core). s\<lparr>sv_core := core, sv_requests := (sv_requests s)[i := (rq, p')],
              sv_trace := sv_trace s @ Returns i r # map (Calls i) made\<rparr>)
            (resume (sv_chains s) transactionId rq p r (sv_core s))
      else None)"

definition register_chain :: "('c, 'r) ConnectionOps \<Rightarrow> ('c, 'tx) ChainConnector \<Rightarrow> ('c, 'tx, 'r) signing_server
    \<Rightarrow> ('c, 'tx, 'r) signing_server" where
  "register_chain C connector s = (case addChain C connector (sv_chains s) of
     Inl _ \<Rightarrow> s | Inr (knownChains, _) \<Rightarrow> s\<lparr>sv_chains := knownChains\<rparr>)"

inductive server_run :: "('c, 'r) ConnectionOps \<Rightarrow> ('r \<Rightarrow> string) \<Rightarrow> ('c, 'tx, 'r) signing_server \<Rightarrow> bool" for C transactionId where
  started: "server_run C transactionId new_server"
| chain: "server_run C transactionId s \<Longrightarrow> server_run C transactionId (register_chain C connector s)"
| request: "server_run C transactionId s \<Longrightarrow> server_run C transactionId (receive rq s)"
| settled: "server_run C transactionId s \<Longrightarrow> deliver transactionId i r s = Some s' \<Longrightarrow> server_run C transactionId s'"

section \<open>What one request says and hears\<close>

fun event_of :: "nat \<Rightarrow> ('c, 'tx, 'r) server_event \<Rightarrow> (('c, 'tx) server_call + ('tx, 'r) outcome) list" where
  "event_of i (Calls j c) = (if i = j then [Inl c] else [])"
| "event_of i (Returns j r) = (if i = j then [Inr r] else [])"

definition events_of :: "nat \<Rightarrow> ('c, 'tx, 'r) server_event list \<Rightarrow> (('c, 'tx) server_call + ('tx, 'r) outcome) list" where
  "events_of i trace = concat (map (event_of i) trace)"

lemma events_of_simps [simp]:
  "events_of i [] = []"
  "events_of i (e # trace) = event_of i e @ events_of i trace"
  "events_of i (trace @ trace') = events_of i trace @ events_of i trace'"
  by (simp_all add: events_of_def)

lemma events_of_calls [simp]: "events_of i (map (Calls j) made) = (if i = j then map Inl made else [])"
  by (induction made) auto

text \<open>The events of a request whose transaction is posted, up to the post.\<close>

definition dialogue :: "'tx sign_request \<Rightarrow> ('c, 'tx) Chain \<Rightarrow> Nonce \<Rightarrow> 'tx SignedTx \<Rightarrow> byte list
    \<Rightarrow> (('c, 'tx) server_call + ('tx, 'r) outcome) list" where
  "dialogue rq chain nonce stx txBytes =
     [Inl (AskUser (sr_reason rq) (sr_identity rq) (sr_transaction rq)), Inr (UserAnswered (ok True)),
      Inl (GetNonce (chain_connection chain) (id_pubkey (sr_identity rq))), Inr (NonceGot (ok nonce)),
      Inl (SignTransaction (sr_identity rq) (sr_transaction rq) (chain_codec chain) nonce), Inr (TransactionSigned (ok stx)),
      Inl (PostTx (chain_connection chain) txBytes)]"

definition quiet :: "(('c, 'tx) server_call + ('tx, 'r) outcome) list \<Rightarrow> bool" where
  "quiet es \<longleftrightarrow> list_all (\<lambda>e. case e of Inl (LogError _) \<Rightarrow> True | Inl _ \<Rightarrow> False | Inr _ \<Rightarrow> True) es"

text \<open>What the answer of a request says about its events after the first \<open>k\<close>.\<close>

definition answer_matches :: "('r \<Rightarrow> string) \<Rightarrow> string option result \<Rightarrow> nat \<Rightarrow> (('c, 'tx) server_call + ('tx, 'r) outcome) list \<Rightarrow> bool" where
  "answer_matches transactionId answer k tail = (case answer of
     Inl _ \<Rightarrow> True
   | Inr None \<Rightarrow> k = 1 \<and> tail = [Inr (UserAnswered (ok False))]
   | Inr (Some t) \<Rightarrow> k = 7 \<and> (\<exists>response. tail = [Inr (Posted (ok response))] \<and> t = transactionId response))"

definition conversation :: "('c, 'tx) MultiChainSigner \<Rightarrow> ('r \<Rightarrow> string) \<Rightarrow> 'tx sign_request \<Rightarrow> ('c, 'tx) progress
    \<Rightarrow> (('c, 'tx) server_call + ('tx, 'r) outcome) list \<Rightarrow> bool" where
  "conversation knownChains transactionId rq p es \<longleftrightarrow> (\<exists>chain nonce stx txBytes k tail.
     es = take k (dialogue rq chain nonce stx txBytes) @ tail \<and> k \<in> {1, 2, 3, 5, 7} \<and> quiet tail \<and>
     (3 \<le> k \<longrightarrow> map_of knownChains (id_chainId (sr_identity rq)) = Some chain) \<and>
     (k = 7 \<longrightarrow> codec_bytesToPost (chain_codec chain) stx = ok txBytes) \<and>
     (case p of Authorizing \<Rightarrow> k = 1 \<and> tail = [] | GettingNonce c \<Rightarrow> k = 3 \<and> tail = [] \<and> c = chain
      | SigningTx c \<Rightarrow> k = 5 \<and> tail = [] \<and> c = chain | Posting \<Rightarrow> k = 7 \<and> tail = []
      | Answered answer \<Rightarrow> answer_matches transactionId answer k tail))"

lemmas dialogue_defs = dialogue_def quiet_def answer_matches_def

lemma conversationI:
  assumes "es = take k (dialogue rq chain nonce stx txBytes) @ tail" "k \<in> {1, 2, 3, 5, 7}" "quiet tail"
    and "3 \<le> k \<Longrightarrow> map_of knownChains (id_chainId (sr_identity rq)) = Some chain"
    and "k = 7 \<Longrightarrow> codec_bytesToPost (chain_codec chain) stx = ok txBytes"
    and "case p of Authorizing \<Rightarrow> k = 1 \<and> tail = [] | GettingNonce c \<Rightarrow> k = 3 \<and> tail = [] \<and> c = chain
      | SigningTx c \<Rightarrow> k = 5 \<and> tail = [] \<and> c = chain | Posting \<Rightarrow> k = 7 \<and> tail = []
      | Answered answer \<Rightarrow> answer_matches transactionId answer k tail"
  shows "conversation knownChains transactionId rq p es"
  using assms unfolding conversation_def by blast

lemma conversation_starts: "core_signAndPost rq = (made, p) \<Longrightarrow> conversation knownChains transactionId rq p (map Inl made)"
  by (rule conversationI [where k = 1]) (auto simp: core_signAndPost_def dialogue_defs)

lemma conversation_chain:
  assumes "conversation knownChains transactionId rq p es"
    and "\<And>i chain. map_of knownChains i = Some chain \<Longrightarrow> map_of knownChains' i = Some chain"
  shows "conversation knownChains' transactionId rq p es"
  using assms unfolding conversation_def by blast

text \<open>Every step of a request continues its conversation.\<close>

lemma conversation_user:
  assumes "conversation knownChains transactionId rq Authorizing es" "core_authorized knownChains rq r = (made, p)"
  shows "conversation knownChains transactionId rq p (es @ Inr (UserAnswered r) # map Inl made)"
proof -
  have es: "es = [Inl (AskUser (sr_reason rq) (sr_identity rq) (sr_transaction rq))]"
    using assms(1) by (auto simp: conversation_def dialogue_def)
  consider e where "r = Inl e" | "r = Inr False" | e where "r = Inr True" "getChain knownChains (id_chainId (sr_identity rq)) = Inl e"
    | chain where "r = Inr True" "getChain knownChains (id_chainId (sr_identity rq)) = Inr chain"
    by (cases r; cases "getChain knownChains (id_chainId (sr_identity rq))"; cases "projr r") auto
  then show ?thesis
  proof cases
    case 1
    with assms(2) es show ?thesis by (intro conversationI [where k = 1]) (auto simp: core_authorized_def dialogue_defs)
  next
    case 2
    with assms(2) es show ?thesis by (intro conversationI [where k = 1]) (auto simp: core_authorized_def dialogue_defs)
  next
    case 3
    with assms(2) es show ?thesis
      by (intro conversationI [where k = 2]) (auto simp: core_authorized_def mcs_signAndPost_def dialogue_defs)
  next
    case 4
    then have "map_of knownChains (id_chainId (sr_identity rq)) = Some chain" by (simp add: getChain_def split: option.splits)
    with 4 assms(2) es show ?thesis
      by (intro conversationI [where k = 3 and chain = chain]) (auto simp: core_authorized_def mcs_signAndPost_def dialogue_defs)
  qed
qed

lemma conversation_nonce:
  assumes "conversation knownChains transactionId rq (GettingNonce chain) es" "mcs_nonce rq chain r = (made, p)"
  shows "conversation knownChains transactionId rq p (es @ Inr (NonceGot r) # map Inl made)"
proof -
  have known: "map_of knownChains (id_chainId (sr_identity rq)) = Some chain"
    and es: "es = take 3 (dialogue rq chain undefined undefined undefined)"
    using assms(1) by (auto simp: conversation_def dialogue_def)
  show ?thesis
  proof (cases r)
    case (Inl e)
    with assms(2) known show ?thesis
      by (intro conversationI [where k = 3 and chain = chain and tail = "[Inr (NonceGot r)]"]) (auto simp: es mcs_nonce_def dialogue_defs)
  next
    case (Inr nonce)
    with assms(2) known show ?thesis
      by (intro conversationI [where k = 5 and chain = chain and nonce = nonce and tail = "[]"]) (auto simp: es mcs_nonce_def dialogue_defs)
  qed
qed

lemma conversation_signed:
  assumes "conversation knownChains transactionId rq (SigningTx chain) es" "mcs_signed chain r = (made, p)"
  shows "conversation knownChains transactionId rq p (es @ Inr (TransactionSigned r) # map Inl made)"
proof -
  from assms(1) obtain nonce where known: "map_of knownChains (id_chainId (sr_identity rq)) = Some chain"
    and es: "es = take 5 (dialogue rq chain nonce undefined undefined)"
    by (auto simp: conversation_def dialogue_def)
  show ?thesis
  proof (cases "andThen r (codec_bytesToPost (chain_codec chain))")
    case (Inl e)
    with assms(2) known show ?thesis
      by (intro conversationI [where k = 5 and chain = chain and nonce = nonce and tail = "[Inr (TransactionSigned r)]"]) (auto simp: es mcs_signed_def dialogue_defs)
  next
    case (Inr txBytes)
    then obtain stx where "r = ok stx" "codec_bytesToPost (chain_codec chain) stx = ok txBytes" by (auto simp: andThen_eq_Inr)
    with assms(2) known show ?thesis
      by (intro conversationI [where k = 7 and chain = chain and nonce = nonce and stx = stx and txBytes = txBytes])
        (auto simp: es mcs_signed_def dialogue_defs)
  qed
qed

lemma conversation_posted:
  assumes "conversation knownChains transactionId rq Posting es" "core_posted transactionId rq r core = (p, core')"
  shows "conversation knownChains transactionId rq p (es @ [Inr (Posted r)])"
proof -
  from assms(1) obtain chain nonce stx txBytes where "map_of knownChains (id_chainId (sr_identity rq)) = Some chain"
      "codec_bytesToPost (chain_codec chain) stx = ok txBytes" "es = take 7 (dialogue rq chain nonce stx txBytes)"
    by (auto simp: conversation_def)
  with assms(2) show ?thesis
    by (intro conversationI [where k = 7 and chain = chain and nonce = nonce and stx = stx and txBytes = txBytes])
      (auto simp: core_posted_def dialogue_defs split: sum.splits)
qed

lemma conversation_resumes:
  assumes "conversation knownChains transactionId rq p es" "resume knownChains transactionId rq p r core = Some (made, p', core')"
  shows "conversation knownChains transactionId rq p' (es @ Inr r # map Inl made)"
  using assms conversation_user conversation_nonce conversation_signed conversation_posted
  by (cases "(knownChains, transactionId, rq, p, r, core)" rule: resume.cases)
    (fastforce split: prod.splits)+

section \<open>The invariant of the server\<close>

fun event_request :: "('c, 'tx, 'r) server_event \<Rightarrow> nat" where
  "event_request (Calls i c) = i"
| "event_request (Returns i r) = i"

text \<open>The posts that succeeded, in the order of their responses, with their transactions.\<close>

fun response_of :: "('tx sign_request \<times> ('c, 'tx) progress) list \<Rightarrow> ('c, 'tx, 'r) server_event \<Rightarrow> ('tx \<times> 'r) list" where
  "response_of requests (Returns i (Posted (Inr response))) = [(sr_transaction (fst (requests ! i)), response)]"
| "response_of requests _ = []"

definition server_inv :: "('c, 'r) ConnectionOps \<Rightarrow> ('r \<Rightarrow> string) \<Rightarrow> ('c, 'tx, 'r) signing_server \<Rightarrow> bool" where
  "server_inv C transactionId s \<longleftrightarrow> signer_history C (sv_chains s) \<and>
     (\<forall>e \<in> set (sv_trace s). event_request e < length (sv_requests s)) \<and>
     (\<forall>i < length (sv_requests s). conversation (sv_chains s) transactionId (fst (sv_requests s ! i)) (snd (sv_requests s ! i))
       (events_of i (sv_trace s))) \<and>
     internalValue (sv_core s) = concat (map (response_of (sv_requests s)) (sv_trace s))"

lemma events_of_other: "\<forall>e \<in> set trace. event_request e < n \<Longrightarrow> events_of n trace = []"
proof (induction trace)
  case (Cons e trace)
  then show ?case by (cases e) auto
qed simp

lemma response_of_cong:
  assumes "\<And>i. i < length requests \<Longrightarrow> fst (requests' ! i) = fst (requests ! i)" "\<forall>e \<in> set trace. event_request e < length requests"
  shows "concat (map (response_of requests') trace) = concat (map (response_of requests) trace)"
  using assms(2)
proof (induction trace)
  case (Cons e trace)
  then show ?case using assms(1) by (cases "(requests, e)" rule: response_of.cases) auto
qed simp

lemma response_of_calls [simp]: "concat (map (response_of requests) (map (Calls i) made)) = []"
  by (induction made) auto

lemma internalValue_update [simp]: "internalValue (dvp_update v core) = v"
  by (simp add: dvp_update_def Let_def)

lemma resume_core:
  "resume knownChains transactionId rq p r core = Some (made, p', core') \<Longrightarrow>
   internalValue core' = internalValue core @ (case r of Posted (Inr response) \<Rightarrow> [(sr_transaction rq, response)] | _ \<Rightarrow> [])"
  by (cases "(knownChains, transactionId, rq, p, r, core)" rule: resume.cases) (auto simp: core_posted_def split: prod.splits sum.splits)

lemma addChain_keeps:
  "addChain C connector knownChains = ok (knownChains', c) \<Longrightarrow> map_of knownChains i = Some chain \<Longrightarrow> map_of knownChains' i = Some chain"
  by (auto simp: addChain_def andThen_eq_Inr Let_def map_add_def split: if_splits option.splits)

lemma server_inv_chain:
  assumes "server_inv C transactionId s"
  shows "server_inv C transactionId (register_chain C connector s)"
proof (cases "addChain C connector (sv_chains s)")
  case (Inr x)
  then obtain knownChains' c where x: "addChain C connector (sv_chains s) = ok (knownChains', c)" by (cases x) auto
  have "signer_history C knownChains'" using assms signer_history.add x by (auto simp: server_inv_def)
  moreover have "conversation knownChains' transactionId rq p es" if "conversation (sv_chains s) transactionId rq p es" for rq p es
    using conversation_chain [OF that addChain_keeps [OF x]] .
  ultimately show ?thesis using assms x by (auto simp: register_chain_def server_inv_def)
qed (use assms in \<open>simp add: register_chain_def\<close>)

lemma server_inv_request:
  fixes s :: "('c, 'tx, 'r) signing_server"
  assumes "server_inv C transactionId s"
  shows "server_inv C transactionId (receive rq s)"
proof -
  obtain made and p :: "('c, 'tx) progress" where start: "core_signAndPost rq = (made, p)" by force
  let ?n = "length (sv_requests s)"
  have fresh: "events_of ?n (sv_trace s) = []" using assms by (intro events_of_other) (simp add: server_inv_def)
  have "conversation (sv_chains s) transactionId (fst (sv_requests (receive rq s) ! i)) (snd (sv_requests (receive rq s) ! i))
      (events_of i (sv_trace (receive rq s)))" if "i \<le> ?n" for i
    using that assms conversation_starts [OF start] fresh
    by (cases "i = ?n") (simp_all add: receive_def start server_inv_def nth_append)
  moreover have "concat (map (response_of (sv_requests (receive rq s))) (sv_trace s)) = concat (map (response_of (sv_requests s)) (sv_trace s))"
    using assms by (intro response_of_cong) (simp_all add: receive_def start nth_append server_inv_def)
  ultimately show ?thesis using assms by (auto simp: server_inv_def receive_def start)
qed

lemma server_inv_settled:
  assumes "server_inv C transactionId s" "deliver transactionId i r s = Some s'"
  shows "server_inv C transactionId s'"
proof -
  let ?n = "length (sv_requests s)"
  obtain rq p where rq: "sv_requests s ! i = (rq, p)" by force
  with assms(2) obtain made p' core where i: "i < ?n" and step: "resume (sv_chains s) transactionId rq p r (sv_core s) = Some (made, p', core)"
    and s': "s' = s\<lparr>sv_core := core, sv_requests := (sv_requests s)[i := (rq, p')], sv_trace := sv_trace s @ Returns i r # map (Calls i) made\<rparr>"
    by (auto simp: deliver_def split: if_splits)
  have talk: "conversation (sv_chains s) transactionId (fst (sv_requests s ! j)) (snd (sv_requests s ! j)) (events_of j (sv_trace s))"
    if "j < ?n" for j using assms(1) that by (simp add: server_inv_def)
  have "conversation (sv_chains s) transactionId (fst (sv_requests s' ! j)) (snd (sv_requests s' ! j)) (events_of j (sv_trace s'))"
    if "j < ?n" for j
    using talk [OF that] talk [OF i] conversation_resumes [OF _ step] by (cases "j = i") (auto simp: s' rq i)
  moreover have "concat (map (response_of (sv_requests s')) (sv_trace s)) = concat (map (response_of (sv_requests s)) (sv_trace s))"
    using assms(1) rq by (intro response_of_cong) (auto simp: s' i nth_list_update server_inv_def)
  moreover have "response_of (sv_requests s') (Returns i r) = (case r of Posted (Inr response) \<Rightarrow> [(sr_transaction rq, response)] | _ \<Rightarrow> [])"
    using i by (auto simp: s' split: outcome.splits sum.splits)
  ultimately show ?thesis using assms(1) resume_core [OF step] i by (auto simp: server_inv_def s')
qed

lemma server_run_inv: "server_run C transactionId s \<Longrightarrow> server_inv C transactionId s"
proof (induction rule: server_run.induct)
  case started
  show ?case
    by (simp add: server_inv_def new_server_def new_SigningServerCore_def new_DefaultValueProducer_def signer_history.new)
qed (simp_all add: server_inv_chain server_inv_request server_inv_settled)

text \<open>A post is the last of the calls of a request that \<open>dialogue\<close> lists.\<close>

lemma around_unique:
  assumes "before @ x # after = xs @ y # ys" "P x" "P y" "\<forall>z \<in> set xs. \<not> P z" "\<forall>z \<in> set ys. \<not> P z"
  shows "before = xs \<and> x = y \<and> after = ys"
  using assms
proof (induction xs arbitrary: before)
  case Nil
  then show ?case by (cases before) auto
next
  case (Cons z xs)
  then show ?case by (cases before) auto
qed

fun is_post :: "('c, 'tx) server_call + ('tx, 'r) outcome \<Rightarrow> bool" where
  "is_post (Inl (PostTx c b)) = True"
| "is_post _ = False"

fun is_sign :: "('c, 'tx) server_call + ('tx, 'r) outcome \<Rightarrow> bool" where
  "is_sign (Inl (SignTransaction i t c n)) = True"
| "is_sign _ = False"

lemma quiet_calls: "quiet es \<Longrightarrow> e \<in> set es \<Longrightarrow> \<not> is_post e \<and> \<not> is_sign e"
  by (induction es) (auto simp: quiet_def split: sum.splits server_call.splits)

lemma conversation_post:
  assumes "conversation knownChains transactionId rq p es" "es = before @ Inl (PostTx connection txBytes) # after"
  shows "\<exists>chain nonce stx. before = take 6 (dialogue rq chain nonce stx txBytes) \<and> chain_connection chain = connection \<and>
    map_of knownChains (id_chainId (sr_identity rq)) = Some chain \<and> codec_bytesToPost (chain_codec chain) stx = ok txBytes \<and>
    (\<forall>e \<in> set after. \<not> is_post e)"
proof -
  from assms(1) obtain chain nonce stx b k tail where es: "es = take k (dialogue rq chain nonce stx b) @ tail" and k: "k \<in> {1, 2, 3, 5, 7}"
    and tail: "quiet tail" and known: "3 \<le> k \<longrightarrow> map_of knownChains (id_chainId (sr_identity rq)) = Some chain"
    and bytes: "k = 7 \<longrightarrow> codec_bytesToPost (chain_codec chain) stx = ok b"
    unfolding conversation_def by blast
  note silent = quiet_calls [OF tail]
  have "Inl (PostTx connection txBytes) \<in> set (take k (dialogue rq chain nonce stx b) @ tail)" using assms(2) es by simp
  with silent [of "Inl (PostTx connection txBytes)"] k have "k = 7" by (auto simp: dialogue_def)
  with es have "before @ Inl (PostTx connection txBytes) # after = take 6 (dialogue rq chain nonce stx b) @ Inl (PostTx (chain_connection chain) b) # tail"
    unfolding assms(2) by (simp add: dialogue_def)
  from around_unique [OF this, where P = is_post] silent
  have "before = take 6 (dialogue rq chain nonce stx b)" "connection = chain_connection chain" "txBytes = b" "after = tail"
    by (auto simp: dialogue_def)
  with \<open>k = 7\<close> known bytes silent show ?thesis by auto
qed

lemma conversation_sign:
  assumes "conversation knownChains transactionId rq p es" "es = before @ Inl (SignTransaction identity tx txCodec nonce) # after"
  shows "\<exists>chain stx b. before = take 4 (dialogue rq chain nonce stx b) \<and> identity = sr_identity rq \<and> tx = sr_transaction rq \<and>
    txCodec = chain_codec chain \<and> map_of knownChains (id_chainId (sr_identity rq)) = Some chain \<and> (\<forall>e \<in> set after. \<not> is_sign e)"
proof -
  from assms(1) obtain chain n stx b k tail where es: "es = take k (dialogue rq chain n stx b) @ tail" and k: "k \<in> {1, 2, 3, 5, 7}"
    and tail: "quiet tail" and known: "3 \<le> k \<longrightarrow> map_of knownChains (id_chainId (sr_identity rq)) = Some chain"
    unfolding conversation_def by blast
  note silent = quiet_calls [OF tail]
  have "Inl (SignTransaction identity tx txCodec nonce) \<in> set (take k (dialogue rq chain n stx b) @ tail)" using assms(2) es by simp
  with silent [of "Inl (SignTransaction identity tx txCodec nonce)"] k have k: "k \<in> {5, 7}" by (auto simp: dialogue_def)
  with es have "before @ Inl (SignTransaction identity tx txCodec nonce) # after = take 4 (dialogue rq chain n stx b) @
      Inl (SignTransaction (sr_identity rq) (sr_transaction rq) (chain_codec chain) n) # drop 5 (take k (dialogue rq chain n stx b)) @ tail"
    unfolding assms(2) by (auto simp: dialogue_def)
  from around_unique [OF this, where P = is_sign] silent k
  have "before = take 4 (dialogue rq chain n stx b)" "nonce = n" "identity = sr_identity rq" "tx = sr_transaction rq"
      "txCodec = chain_codec chain" "after = drop 5 (take k (dialogue rq chain n stx b)) @ tail"
    by (auto simp: dialogue_def)
  with k known silent show ?thesis by (auto simp: dialogue_def intro!: exI [of _ chain])
qed

lemma conversation_answered:
  assumes "conversation knownChains transactionId rq (Answered (ok answer)) es"
  shows "case answer of
      None \<Rightarrow> es = [Inl (AskUser (sr_reason rq) (sr_identity rq) (sr_transaction rq)), Inr (UserAnswered (ok False))]
    | Some t \<Rightarrow> \<exists>chain nonce stx txBytes response. es = dialogue rq chain nonce stx txBytes @ [Inr (Posted (ok response))] \<and> t = transactionId response"
  using assms by (cases answer) (auto simp: conversation_def answer_matches_def dialogue_def)

section \<open>Properties\<close>

text \<open>
  C9. The signing server signs and posts only with consent, whatever requests are under
  way at the same time and in whatever order the promises are settled, and also when they fail. In
  every state that the server reaches:
  before the profile is called to sign for a request, this request has asked the user,
  with its reason, identity and transaction, the user has said yes, and the nonce was
  asked from the connection of the chain of the identity, all in this order and
  nothing else; the profile is called once, with the identity and the transaction that the user saw. Before a
  post, exactly this has happened, the profile has signed, and what is posted, once, to the
  connection of that chain are the bytes that its codec makes of what was signed. The published list has the successful
  posts in the order of their responses. A request that is answered with null was
  refused and did nothing else.
\<close>

theorem signs_only_with_consent:
  assumes "server_run C transactionId s" "i < length (sv_requests s)" and rq: "rq = fst (sv_requests s ! i)"
  shows "(\<forall>before identity tx txCodec nonce after.
      sv_trace s = before @ Calls i (SignTransaction identity tx txCodec nonce) # after \<longrightarrow>
      identity = sr_identity rq \<and> tx = sr_transaction rq \<and>
      (\<exists>connection. events_of i before = [Inl (AskUser (sr_reason rq) identity tx), Inr (UserAnswered (ok True)),
         Inl (GetNonce connection (id_pubkey identity)), Inr (NonceGot (ok nonce))] \<and> conn_chainId C connection = id_chainId identity) \<and>
      (\<forall>e \<in> set (events_of i after). \<not> is_sign e)) \<and>
    (\<forall>before connection txBytes after. sv_trace s = before @ Calls i (PostTx connection txBytes) # after \<longrightarrow>
      (\<exists>txCodec nonce stx. events_of i before =
         [Inl (AskUser (sr_reason rq) (sr_identity rq) (sr_transaction rq)), Inr (UserAnswered (ok True)),
          Inl (GetNonce connection (id_pubkey (sr_identity rq))), Inr (NonceGot (ok nonce)),
          Inl (SignTransaction (sr_identity rq) (sr_transaction rq) txCodec nonce), Inr (TransactionSigned (ok stx))] \<and>
        (id_chainId (sr_identity rq), \<lparr>chain_connection = connection, chain_codec = txCodec\<rparr>) \<in> set (sv_chains s) \<and>
        conn_chainId C connection = id_chainId (sr_identity rq) \<and> codec_bytesToPost txCodec stx = ok txBytes) \<and>
      (\<forall>e \<in> set (events_of i after). \<not> is_post e)) \<and>
    internalValue (sv_core s) = concat (map (response_of (sv_requests s)) (sv_trace s)) \<and>
    (snd (sv_requests s ! i) = Answered (ok None) \<longrightarrow> events_of i (sv_trace s) =
       [Inl (AskUser (sr_reason rq) (sr_identity rq) (sr_transaction rq)), Inr (UserAnswered (ok False))])"
proof -
  from server_run_inv [OF assms(1)] assms(2) have history: "signer_history C (sv_chains s)"
    and talk: "conversation (sv_chains s) transactionId rq (snd (sv_requests s ! i)) (events_of i (sv_trace s))"
    and shown: "internalValue (sv_core s) = concat (map (response_of (sv_requests s)) (sv_trace s))"
    by (simp_all add: server_inv_def rq)
  have own: "conn_chainId C (chain_connection chain) = chainId \<and> (chainId, chain) \<in> set (sv_chains s)"
    if "map_of (sv_chains s) chainId = Some chain" for chainId chain
    using getChain_ok [OF history, of chainId chain] that by (simp add: getChain_def)
  show ?thesis
  proof (intro conjI allI impI)
    fix before identity tx txCodec nonce after
    assume "sv_trace s = before @ Calls i (SignTransaction identity tx txCodec nonce) # after"
    then have "events_of i (sv_trace s) = events_of i before @ Inl (SignTransaction identity tx txCodec nonce) # events_of i after" by simp
    from conversation_sign [OF talk this]
    show "identity = sr_identity rq" "tx = sr_transaction rq"
      "\<exists>connection. events_of i before = [Inl (AskUser (sr_reason rq) identity tx), Inr (UserAnswered (ok True)),
         Inl (GetNonce connection (id_pubkey identity)), Inr (NonceGot (ok nonce))] \<and> conn_chainId C connection = id_chainId identity"
      "\<forall>e \<in> set (events_of i after). \<not> is_sign e"
      using own by (auto simp: dialogue_def)
  next
    fix before connection txBytes after
    assume "sv_trace s = before @ Calls i (PostTx connection txBytes) # after"
    then have "events_of i (sv_trace s) = events_of i before @ Inl (PostTx connection txBytes) # events_of i after" by simp
    from conversation_post [OF talk this] obtain chain nonce stx where c: "events_of i before = take 6 (dialogue rq chain nonce stx txBytes)"
        "chain_connection chain = connection" "map_of (sv_chains s) (id_chainId (sr_identity rq)) = Some chain"
        "codec_bytesToPost (chain_codec chain) stx = ok txBytes" and last: "\<forall>e \<in> set (events_of i after). \<not> is_post e" by blast
    show "\<forall>e \<in> set (events_of i after). \<not> is_post e" by (rule last)
    have "chain = \<lparr>chain_connection = connection, chain_codec = chain_codec chain\<rparr>" using c(2) by (cases chain) simp
    with own [OF c(3)] have "(id_chainId (sr_identity rq), \<lparr>chain_connection = connection, chain_codec = chain_codec chain\<rparr>) \<in> set (sv_chains s)"
      by metis
    with own [OF c(3)] c show "\<exists>txCodec nonce stx. events_of i before =
         [Inl (AskUser (sr_reason rq) (sr_identity rq) (sr_transaction rq)), Inr (UserAnswered (ok True)),
          Inl (GetNonce connection (id_pubkey (sr_identity rq))), Inr (NonceGot (ok nonce)),
          Inl (SignTransaction (sr_identity rq) (sr_transaction rq) txCodec nonce), Inr (TransactionSigned (ok stx))] \<and>
        (id_chainId (sr_identity rq), \<lparr>chain_connection = connection, chain_codec = txCodec\<rparr>) \<in> set (sv_chains s) \<and>
        conn_chainId C connection = id_chainId (sr_identity rq) \<and> codec_bytesToPost txCodec stx = ok txBytes"
      by (intro exI [of _ "chain_codec chain"] exI [of _ nonce] exI [of _ stx]) (simp add: dialogue_def)
  next
    show "internalValue (sv_core s) = concat (map (response_of (sv_requests s)) (sv_trace s))" by (rule shown)
  next
    assume "snd (sv_requests s ! i) = Answered (ok None)"
    with talk conversation_answered [of "sv_chains s" transactionId rq None]
    show "events_of i (sv_trace s) =
       [Inl (AskUser (sr_reason rq) (sr_identity rq) (sr_transaction rq)), Inr (UserAnswered (ok False))]" by simp
  qed
qed

text \<open>Two requests under way: the second one is refused while the first one is handled.\<close>

definition demo_request :: "nat \<Rightarrow> nat sign_request" where
  "demo_request tx = \<lparr>sr_identity = demo_identity, sr_reason = ''pay'', sr_transaction = tx\<rparr>"

definition demo_outcomes :: "(nat \<times> (nat, string) outcome) list" where
  "demo_outcomes = [(0, UserAnswered (ok True)), (1, UserAnswered (ok False)), (0, NonceGot (ok (int_num 3))),
     (0, TransactionSigned (ok \<lparr>stx_transaction = 5, stx_signatures = []\<rparr>)), (0, Posted (ok ''tx''))]"

definition demo_server :: "(string, nat, string) signing_server" where
  "demo_server = receive (demo_request 6) (receive (demo_request 5) (register_chain demo_connections
     \<lparr>establishConnection = ok ''chain'', connector_codec = demo_codec, expectedChainId = None\<rparr> new_server))"

fun deliver_all :: "(nat \<times> (nat, string) outcome) list \<Rightarrow> (string, nat, string) signing_server \<Rightarrow> (string, nat, string) signing_server option" where
  "deliver_all [] s = Some s"
| "deliver_all ((i, r) # rest) s = Option.bind (deliver id i r s) (deliver_all rest)"

lemma deliver_all_run: "server_run C id s \<Longrightarrow> deliver_all rest s = Some s' \<Longrightarrow> server_run C id s'"
proof (induction rest s rule: deliver_all.induct)
  case (2 i r rest s)
  from 2(3) obtain s1 where "deliver id i r s = Some s1" "deliver_all rest s1 = Some s'" by (cases "deliver id i r s") simp_all
  with 2(1) [OF this(1) server_run.settled [OF 2(2) this(1)]] show ?case by blast
qed simp

lemma signs_only_with_consent_witness:
  "\<exists>s. server_run demo_connections id s \<and> deliver_all demo_outcomes demo_server = Some s \<and>
    internalValue (sv_core s) = [(5, ''tx'')] \<and>
    events_of 1 (sv_trace s) = [Inl (AskUser ''pay'' demo_identity 6), Inr (UserAnswered (ok False))]"
proof -
  note defs = receive_def core_signAndPost_def register_chain_def new_server_def addChain_def connectChain_def demo_connections_def
    demo_request_def demo_identity_def demo_codec_def deliver_def core_authorized_def mcs_signAndPost_def getChain_def mcs_nonce_def
    mcs_signed_def core_posted_def new_SigningServerCore_def
  have "server_run demo_connections id demo_server"
    unfolding demo_server_def by (intro server_run.request server_run.chain server_run.started)
  moreover have "\<exists>s. deliver_all demo_outcomes demo_server = Some s \<and> length (sv_requests s) = 2 \<and>
      fst (sv_requests s ! 1) = demo_request 6 \<and> fst (sv_requests s ! 0) = demo_request 5 \<and>
      snd (sv_requests s ! 1) = Answered (ok None) \<and>
      concat (map (response_of (sv_requests s)) (sv_trace s)) = [(5, ''tx'')]"
    by (simp add: demo_server_def demo_outcomes_def defs)
  ultimately obtain s where s: "server_run demo_connections id s" "deliver_all demo_outcomes demo_server = Some s" "1 < length (sv_requests s)"
      "fst (sv_requests s ! 1) = demo_request 6" "snd (sv_requests s ! 1) = Answered (ok None)"
      "concat (map (response_of (sv_requests s)) (sv_trace s)) = [(5, ''tx'')]"
    using deliver_all_run by force
  from signs_only_with_consent [OF s(1,3) refl] s(2,4-6) show ?thesis
    using s(1) by (auto simp: demo_request_def)
qed

end
