(* ===== verification/Eth_Basics.thy ===== *)
theory Eth_Basics
  imports Crypto_Keys Bcp_Types
begin

text \<open>
  The basics of \<open>packages/iov-ethereum/src\<close>: \<open>encoding.ts\<close> (RLP and the recovery
  parameter of EIP-155), \<open>utils.ts\<close> (hexadecimal quantities and chain ids),
  \<open>address.ts\<close> (addresses with the checksum of EIP-55), \<open>abi.ts\<close> (arguments of
  contract calls) and \<open>parse.ts\<close>. The package rlp and the functions of bn.js that
  the other packages do not use are the parameter \<open>eth_lib\<close>.
\<close>

section \<open>The libraries\<close>

text \<open>
  \<open>rlp_encode\<close> is \<open>rlp.encode\<close> of a list of byte strings, \<open>bn_toHexString\<close> is
  \<open>toString(16)\<close>, \<open>utf8_decode\<close> is the fatal \<open>TextDecoder\<close> behind \<open>Encoding.fromUtf8\<close>.
\<close>

record 'h eth_lib = "'h crypto_lib" +
  rlp_encode :: "byte list list \<Rightarrow> byte list"
  bn_toHexString :: "int \<Rightarrow> string"
  utf8_decode :: "byte list \<Rightarrow> string result"

section \<open>Numbers\<close>

text \<open>
  Integers that are rounded to a double: up to 53 bits nothing changes, above that
  to the nearest multiple of a power of two, ties to the even multiple.
\<close>

definition round_to :: "nat \<Rightarrow> nat \<Rightarrow> nat" where
  "round_to m n = (let q = n div m; r = n mod m in
     if 2 * r < m \<or> 2 * r = m \<and> even q then q * m else (q + 1) * m)"

fun unit_of :: "nat \<Rightarrow> nat" where
  "unit_of n = (if n < 2 ^ 53 then 1 else 2 * unit_of (n div 2))"

declare unit_of.simps [simp del]

definition double_of_nat :: "nat \<Rightarrow> nat" where
  "double_of_nat n = round_to (unit_of n) n"

definition double_of_int :: "int \<Rightarrow> int" where
  "double_of_int i = (if i < 0 then - int (double_of_nat (nat (- i))) else int (double_of_nat (nat i)))"

lemma double_of_int_safe [simp]:
  assumes "- (2 ^ 53) < i" "i < 2 ^ 53"
  shows "double_of_int i = i"
proof -
  have "double_of_nat n = n" if "n < 2 ^ 53" for n
    using that by (simp add: double_of_nat_def unit_of.simps round_to_def)
  moreover have "nat i < 2 ^ 53" "nat (- i) < 2 ^ 53" using assms by (simp_all add: nat_less_iff)
  ultimately show ?thesis by (simp add: double_of_int_def)
qed

text \<open>\<open>parseInt(s, 16)\<close> of a string of hexadecimal digits.\<close>

definition parseInt16 :: "string \<Rightarrow> number" where
  "parseInt16 s = (let n = parse_base 16 s in
     if 2 ^ 1024 - 2 ^ 970 \<le> n then PosInfinity else int_num (double_of_int (int n)))"

text \<open>\<open>x - i\<close> for an integer \<open>i\<close> of at most 54 bits.\<close>

definition minus_num :: "number \<Rightarrow> int \<Rightarrow> number" where
  "minus_num x i = (case x of Num q \<Rightarrow> int_num (double_of_int (\<lfloor>q\<rfloor> - i)) | _ \<Rightarrow> x)"

lemma minus_num_safe [simp]:
  "- (2 ^ 53) < j - i \<Longrightarrow> j - i < 2 ^ 53 \<Longrightarrow> minus_num (int_num j) i = int_num (j - i)"
  by (simp add: minus_num_def int_num_def)

lemma parseInt16_safe: "parse_base 16 s \<le> 9007199254740991 \<Longrightarrow> parseInt16 s = int_num (int (parse_base 16 s))"
  by (simp add: parseInt16_def Let_def)

section \<open>Recursive length prefix and EIP-155\<close>

definition toRlp :: "('h, 'a) eth_lib_scheme \<Rightarrow> byte list list \<Rightarrow> byte list" where
  "toRlp L data = rlp_encode L data"

text \<open>
  The chain ids are safe integers and the recovery parameters small ones. The sum in
  \<open>eip155V\<close> may leave the range in which doubles are exact; its only use is then
  rejected by \<open>encodeQuantity\<close>, as the exact sum is.
\<close>

datatype Eip155ChainId = BeforeFork | Forked int

definition eip155V :: "Eip155ChainId \<Rightarrow> int \<Rightarrow> int result" where
  "eip155V chain recoveryParam = (case chain of
     Forked chainId \<Rightarrow>
       if chainId = 0 then throw ''Chain ID must be > 0 after eip155 implementation''
       else ok (chainId * 2 + recoveryParam + 35)
   | BeforeFork \<Rightarrow> ok (recoveryParam + 27))"

definition getRecoveryParam :: "Eip155ChainId \<Rightarrow> number \<Rightarrow> number result" where
  "getRecoveryParam chain v =
     (if v = int_num 27 \<or> v = int_num 28 then ok (minus_num v 27)
      else case chain of
        Forked chainId \<Rightarrow>
          if chainId > 0 then
            andThen (new_Int53 (minus_num (minus_num v (chainId * 2)) 35)) (\<lambda>recoveryParam.
            if num_less (Int53_toNumber recoveryParam) (int_num 0) \<or> num_less (int_num 3) (Int53_toNumber recoveryParam)
            then throw ''Calculated recovery parameter must be one of 0, 1, 2, 3''
            else ok (Int53_toNumber recoveryParam))
          else throw ''transaction not supported before eip155 implementation''
      | BeforeFork \<Rightarrow> throw ''transaction not supported before eip155 implementation'')"

section \<open>Hexadecimal quantities\<close>

text \<open>The expression \<open>/^0x[a-f0-9]+$/\<close>.\<close>

definition is_lower_hex :: "char \<Rightarrow> bool" where
  "is_lower_hex c = (let n = of_char c :: nat in (97 \<le> n \<and> n \<le> 102) \<or> (48 \<le> n \<and> n \<le> 57))"

definition matches_quantity :: "string \<Rightarrow> bool" where
  "matches_quantity s \<longleftrightarrow> startsWith s ''0x'' \<and> drop 2 s \<noteq> [] \<and> list_all is_lower_hex (drop 2 s)"

definition decodeHexQuantity :: "string \<Rightarrow> number result" where
  "decodeHexQuantity hexString =
     (if matches_quantity hexString then ok (parseInt16 (drop 2 hexString))
      else throw ''invalid hex quantity input'')"

definition decodeHexQuantityString :: "('h, 'a) eth_lib_scheme \<Rightarrow> string \<Rightarrow> string result" where
  "decodeHexQuantityString L hexString =
     (if matches_quantity hexString then ok (bn_toString L (bn_fromHexString L (drop 2 hexString)))
      else throw ''invalid hex quantity input'')"

definition decodeHexQuantityNonce :: "string \<Rightarrow> Nonce result" where
  "decodeHexQuantityNonce hexString =
     andThen (decodeHexQuantity hexString) (\<lambda>quantity.
     andThen (new_Uint53 quantity) (\<lambda>value. ok (Uint53_toNumber value)))"

text \<open>The expression \<open>/^(?:0x)?(.*)$/\<close>, in which a dot is no line terminator.\<close>

definition toEthereumHex :: "string \<Rightarrow> string result" where
  "toEthereumHex str =
     (let rest = (if startsWith str ''0x'' then drop 2 str else str) in
      if list_ex (\<lambda>c. of_char c \<in> {10, 13 :: nat}) rest then throw ''Could not convert to Ethereum hex: invalid input''
      else ok (''0x'' @ rest))"

definition toEthereumHex_bytes :: "byte list \<Rightarrow> string result" where
  "toEthereumHex_bytes input = toEthereumHex (toHex input)"

definition encodeQuantity :: "('h, 'a) eth_lib_scheme \<Rightarrow> number \<Rightarrow> string result" where
  "encodeQuantity L value =
     (case andThen (new_Uint53 value) (\<lambda>checkedValue.
        andThen (bn_assert (bn_fromNumber L (Uint53_toNumber checkedValue))) (\<lambda>bn. toEthereumHex (bn_toHexString L bn))) of
        Inl e \<Rightarrow> throw ''Input is not a unsigned safe integer''
      | Inr hex \<Rightarrow> ok hex)"

definition encodeQuantityString :: "('h, 'a) eth_lib_scheme \<Rightarrow> string \<Rightarrow> string result" where
  "encodeQuantityString L value =
     (if \<not> matches_digits value then throw ''Input is not a valid string number''
      else toEthereumHex (bn_toHexString L (bn_fromString L value)))"

text \<open>\<open>input.replace("0x", "")\<close>, which takes out the first occurrence.\<close>

fun replace_0x :: "string \<Rightarrow> string" where
  "replace_0x [] = []"
| "replace_0x (c # s) = (if startsWith (c # s) ''0x'' then drop 1 s else c # replace_0x s)"

declare replace_0x.simps(2) [simp del]

definition normalizeHex :: "string \<Rightarrow> string" where
  "normalizeHex input =
     (let unprefixedLower = map lower_char (replace_0x input) in
      if odd (length unprefixedLower) then ''0'' @ unprefixedLower else unprefixedLower)"

section \<open>Chain ids\<close>

definition bcpChainIdPrefix :: string where
  "bcpChainIdPrefix = ''ethereum-eip155-''"

definition toBcpChainId :: "number \<Rightarrow> ChainId result" where
  "toBcpChainId numericChainId =
     andThen (new_Uint53 numericChainId) (\<lambda>parsed. ok (bcpChainIdPrefix @ Uint53_toString parsed))"

definition fromBcpChainId :: "ChainId \<Rightarrow> number result" where
  "fromBcpChainId chainId =
     (if \<not> startsWith chainId bcpChainIdPrefix then throw ''Expected chain ID to start with ethereum-eip155-''
      else
        let rest = drop (length bcpChainIdPrefix) chainId in
        if rest \<noteq> ''0'' \<and> \<not> (matches_digits rest \<and> hd rest \<noteq> CHR ''0'') then throw ''Invalid format of EIP155 chain ID''
        else andThen (Uint53_fromString rest) (\<lambda>u. ok (Uint53_toNumber u)))"

section \<open>Constants and parsing\<close>

definition primaryTokenTicker :: string where "primaryTokenTicker = ''ETH''"
definition primaryTokenFractionalDigits :: number where "primaryTokenFractionalDigits = int_num 18"

definition ethereumAmount :: "string \<Rightarrow> Amount result" where
  "ethereumAmount quantity0 =
     (if \<not> matches_digits quantity0 then throw ''Invalid string format''
      else let quantity = dropWhile (\<lambda>c. c = CHR ''0'') quantity0 in
        ok \<lparr>am_quantity = (if quantity = [] then ''0'' else quantity),
          am_fractionalDigits = primaryTokenFractionalDigits, am_tokenTicker = primaryTokenTicker\<rparr>)"

definition parse_transactionId :: "string \<Rightarrow> string result" where
  "parse_transactionId hash =
     (if \<not> (startsWith hash ''0x'' \<and> length hash = 66 \<and> list_all is_lower_hex (drop 2 hash))
      then throw ''Invalid transaction ID format'' else ok hash)"

section \<open>Addresses\<close>

text \<open>The digest of the lower case digits, in hexadecimal digits.\<close>

definition address_hash :: "('h, 'a) eth_lib_scheme \<Rightarrow> string \<Rightarrow> string result" where
  "address_hash L addressLower = andThen (toAscii addressLower) (\<lambda>bytes. ok (toHex (cl_keccak256 L bytes)))"

text \<open>\<open>parseInt(addressHash[i], 16) > 7\<close>, and the character of the checksummed address there.\<close>

definition big_digit :: "char \<Rightarrow> bool" where
  "big_digit c = (case digit_val c of None \<Rightarrow> False | Some d \<Rightarrow> d > 7)"

definition checksum_char :: "char \<Rightarrow> char \<Rightarrow> char" where
  "checksum_char h c = (if big_digit h then upper_char c else c)"

definition matches_address :: "(char \<Rightarrow> bool) \<Rightarrow> string \<Rightarrow> bool" where
  "matches_address digit address \<longleftrightarrow> startsWith address ''0x'' \<and> length address = 42 \<and> list_all digit (drop 2 address)"

definition eth_isValidAddress :: "('h, 'a) eth_lib_scheme \<Rightarrow> string \<Rightarrow> bool result" where
  "eth_isValidAddress L address =
     (if \<not> matches_address is_hex_digit address then ok False
      else if \<not> matches_address is_lower_hex address then
        let addressLower = replace_0x (map lower_char address) in
        andThen (address_hash L addressLower) (\<lambda>addressHash.
        ok (list_all (\<lambda>i. address ! (i + 2) = checksum_char (addressHash ! i) (addressLower ! i)) [0..<40]))
      else ok True)"

definition checksummed :: "('h, 'a) eth_lib_scheme \<Rightarrow> string \<Rightarrow> Address result" where
  "checksummed L addressLower =
     andThen (address_hash L addressLower) (\<lambda>addressHash.
     ok (''0x'' @ map (\<lambda>i. checksum_char (addressHash ! i) (addressLower ! i)) [0..<40]))"

text \<open>\<open>toChecksummedAddress\<close> of a string and of bytes.\<close>

definition toChecksummedAddress :: "('h, 'a) eth_lib_scheme \<Rightarrow> string \<Rightarrow> Address result" where
  "toChecksummedAddress L address =
     andThen (eth_isValidAddress L address) (\<lambda>valid.
     if \<not> valid then throw ''Input is not a valid Ethereum address''
     else checksummed L (replace_0x (map lower_char address)))"

definition toChecksummedAddress_bytes :: "('h, 'a) eth_lib_scheme \<Rightarrow> byte list \<Rightarrow> Address result" where
  "toChecksummedAddress_bytes L address =
     (if length address \<noteq> 20 then throw ''Invalid Ethereum address length. Must be 20 bytes.''
      else checksummed L (toHex address))"

definition eth_pubkeyToAddress :: "('h, 'a) eth_lib_scheme \<Rightarrow> PubkeyBundle \<Rightarrow> Address result" where
  "eth_pubkeyToAddress L pubkey =
     (if pk_algo pubkey \<noteq> Secp256k1 \<or> length (pk_data pubkey) \<noteq> 65 \<or> pk_data pubkey ! 0 \<noteq> 4
      then throw ''Invalid pubkey data input''
      else toChecksummedAddress_bytes L (slice_last 20 (cl_keccak256 L (drop 1 (pk_data pubkey)))))"

section \<open>Arguments of contract calls\<close>

definition calculateMethodHash :: "('h, 'a) eth_lib_scheme \<Rightarrow> string \<Rightarrow> byte list result" where
  "calculateMethodHash L signature = andThen (toAscii signature) (\<lambda>bytes. ok (cl_keccak256 L bytes))"

definition calculateMethodId :: "('h, 'a) eth_lib_scheme \<Rightarrow> string \<Rightarrow> byte list result" where
  "calculateMethodId L signature = andThen (calculateMethodHash L signature) (\<lambda>hash. ok (slice 0 4 hash))"

definition padTo32 :: "byte list \<Rightarrow> byte list result" where
  "padTo32 data = (if length data > 32 then throw ''Input data greater than 32 not supported''
     else ok (replicate (32 - length data) 0 @ data))"

definition encodeAddress :: "('h, 'a) eth_lib_scheme \<Rightarrow> Address \<Rightarrow> byte list result" where
  "encodeAddress L address =
     andThen (eth_isValidAddress L address) (\<lambda>valid.
     if \<not> valid then throw ''Invalid address format''
     else andThen (fromHex (drop 2 address)) padTo32)"

definition encodeUint256 :: "('h, 'a) eth_lib_scheme \<Rightarrow> string \<Rightarrow> byte list result" where
  "encodeUint256 L value =
     (if \<not> matches_digits value then throw ''Invalid string format''
      else bn_assert (bn_toArrayBE L (bn_fromString L value) 32))"

definition decodeAddress :: "('h, 'a) eth_lib_scheme \<Rightarrow> byte list \<Rightarrow> Address result" where
  "decodeAddress L binary =
     (if length binary \<noteq> 32 then throw ''Input data not 256 bit long''
      else if list_ex (\<lambda>byte. byte \<noteq> 0) (slice 0 12 binary) then throw ''Input data is not zero-padded''
      else toChecksummedAddress_bytes L (slice_last 20 binary))"

definition decodeUint256 :: "('h, 'a) eth_lib_scheme \<Rightarrow> byte list \<Rightarrow> string result" where
  "decodeUint256 L binary =
     (if length binary \<noteq> 32 then throw ''Input data not 256 bit long''
      else ok (bn_toString L (bn_fromBytes L binary)))"

record HeadTail =
  ht_head :: "nat list"
  ht_tail :: "byte list list"

text \<open>\<open>new BN(data.slice(pos, pos + 32)).toNumber()\<close>, a natural number.\<close>

definition position_at :: "('h, 'a) eth_lib_scheme \<Rightarrow> byte list \<Rightarrow> nat \<Rightarrow> nat result" where
  "position_at L data pos =
     andThen (bn_assert (bn_toNumber L (bn_fromBytes L (slice pos (pos + 32) data)))) (\<lambda>n. ok (nat (floor_num n)))"

definition decodeHeadTail :: "('h, 'a) eth_lib_scheme \<Rightarrow> byte list \<Rightarrow> HeadTail result" where
  "decodeHeadTail L data =
     (if length data mod 32 \<noteq> 0 then throw ''Input data length not divisible by 32''
      else if length data = 0 then throw ''Input data empty''
      else andThen (position_at L data 0) (\<lambda>firstTailPosition.
        if firstTailPosition = 0 \<or> firstTailPosition mod 32 \<noteq> 0 \<or> firstTailPosition \<ge> length data
        then throw ''Invalid head length''
        else andThen (mapM (\<lambda>i. andThen (position_at L data (32 * i)) (\<lambda>startPosition.
            if startPosition < firstTailPosition then throw ''Found start position inside the header''
            else ok startPosition)) [0..<firstTailPosition div 32]) (\<lambda>startPositions.
          ok \<lparr>ht_head = startPositions,
            ht_tail = map (\<lambda>i. slice (startPositions ! i)
              (if i + 1 < length startPositions then startPositions ! (i + 1) else length data) data)
              [0..<length startPositions]\<rparr>)))"

definition decodeVariableLength :: "('h, 'a) eth_lib_scheme \<Rightarrow> byte list \<Rightarrow> byte list result" where
  "decodeVariableLength L data =
     (if length data mod 32 \<noteq> 0 then throw ''Input data length not divisible by 32''
      else if length data = 0 then throw ''Input data empty''
      else andThen (position_at L data 0) (\<lambda>len. ok (slice 32 (32 + len) data)))"

section \<open>The documented behaviour of the packages\<close>

text \<open>
  bn.js as in \<open>bn_laws\<close>, and it reads and prints hexadecimal digits and rejects a
  number that needs more bytes than \<open>toArray\<close> is asked for; Keccak-256 gives 32
  bytes; the RLP form of a list of byte strings determines the list; \<open>TextDecoder\<close>
  reads what \<open>TextEncoder\<close> wrote.
\<close>

definition eth_laws :: "('h, 'a) eth_lib_scheme \<Rightarrow> bool" where
  "eth_laws L \<longleftrightarrow> bn_laws L \<and>
     (\<forall>i. 0 < i \<longrightarrow> bn_toArray L i \<noteq> [] \<and> hd (bn_toArray L i) \<noteq> 0 \<and> be_value (bn_toArray L i) = i) \<and>
     (\<forall>i n. 256 ^ n \<le> i \<longrightarrow> bn_toArrayBE L i n = None) \<and>
     (\<forall>s. s \<noteq> [] \<and> list_all is_lower_hex s \<longrightarrow> bn_fromHexString L s = int (parse_base 16 s)) \<and>
     (\<forall>i. 0 \<le> i \<longrightarrow> bn_toHexString L i = to_base 16 (nat i)) \<and>
     (\<forall>b. length (cl_keccak256 L b) = 32) \<and>
     (\<forall>xs ys. rlp_encode L xs = rlp_encode L ys \<longrightarrow> xs = ys) \<and>
     (\<forall>s. utf8_decode L (toUtf8 s) = ok s)"

lemma eth_lawsD:
  assumes "eth_laws L"
  shows eth_bn: "bn_laws L"
    and eth_toArray: "0 < i \<Longrightarrow> bn_toArray L i \<noteq> [] \<and> hd (bn_toArray L i) \<noteq> 0 \<and> be_value (bn_toArray L i) = i"
    and eth_toArrayBE: "256 ^ n \<le> i \<Longrightarrow> bn_toArrayBE L i n = None"
    and eth_fromHex: "s \<noteq> [] \<Longrightarrow> list_all is_lower_hex s \<Longrightarrow> bn_fromHexString L s = int (parse_base 16 s)"
    and eth_toHexString: "0 \<le> j \<Longrightarrow> bn_toHexString L j = to_base 16 (nat j)"
    and eth_keccak: "length (cl_keccak256 L b) = 32"
    and eth_rlp: "rlp_encode L xs = rlp_encode L ys \<Longrightarrow> xs = ys"
    and eth_utf8: "utf8_decode L (toUtf8 t) = ok t"
  using assms unfolding eth_laws_def by blast+

section \<open>Addresses and their bytes\<close>

lemma lower_hex_digit: "is_lower_hex c \<longleftrightarrow> is_hex_digit c \<and> lower_char c = c"
proof -
  define n where "n = (of_char c :: nat)"
  have "c = char_of n" "n < 256" by (simp_all add: n_def)
  then show ?thesis
    by (auto simp: is_lower_hex_def is_hex_digit_def digit_val_def lower_char_def Let_def)
qed

lemma toHex_lower_hex: "list_all is_lower_hex (toHex bs)"
  using toHex_hex_digits [of bs] toHex_lower [of bs] map_eq_conv [of lower_char "toHex bs" "\<lambda>c. c"]
  by (simp add: list_all_iff lower_hex_digit)

lemma lower_hex_printable: "is_lower_hex c \<Longrightarrow> printable c"
  by (auto simp: is_lower_hex_def printable_def Let_def)

lemma checksum_char_lower: "is_lower_hex c \<Longrightarrow> is_hex_digit (checksum_char h c) \<and> lower_char (checksum_char h c) = c"
proof -
  assume "is_lower_hex c"
  then have c: "is_hex_digit c" "lower_char c = c" by (simp_all add: lower_hex_digit)
  then have "lower_char (checksum_char h c) = c" by (simp add: checksum_char_def lower_upper(1))
  with c(1) is_hex_digit_lower [of "checksum_char h c"] show ?thesis by simp
qed

lemma toHex_eq_iff [simp]: "toHex bs = toHex cs \<longleftrightarrow> bs = cs"
  using toHex_inj by metis

text \<open>The checksummed digits of 20 bytes.\<close>

definition checksum_digits :: "('h, 'a) eth_lib_scheme \<Rightarrow> byte list \<Rightarrow> string" where
  "checksum_digits L bs = map (\<lambda>i. checksum_char (toHex (cl_keccak256 L (map ascii_byte (toHex bs))) ! i) (toHex bs ! i)) [0..<40]"

lemma address_hash_toHex: "address_hash L (toHex bs) = ok (toHex (cl_keccak256 L (map ascii_byte (toHex bs))))"
proof -
  have "list_all printable (toHex bs)"
    using toHex_lower_hex [of bs] by (auto simp: list_all_iff intro: lower_hex_printable)
  then show ?thesis by (simp add: address_hash_def toAscii_ok)
qed

lemma checksummed_bytes:
  "length bs = 20 \<Longrightarrow> toChecksummedAddress_bytes L bs = ok (''0x'' @ checksum_digits L bs)"
  by (simp add: toChecksummedAddress_bytes_def checksummed_def address_hash_toHex checksum_digits_def)

lemma checksum_digits_lower:
  assumes "length bs = 20"
  shows "map lower_char (checksum_digits L bs) = toHex bs" "list_all is_hex_digit (checksum_digits L bs)"
    "length (checksum_digits L bs) = 40"
proof -
  have "is_lower_hex (toHex bs ! i)" if "i < 40" for i
    using toHex_lower_hex [of bs] that assms by (simp add: list_all_length)
  note digit = checksum_char_lower [OF this]
  show "map lower_char (checksum_digits L bs) = toHex bs"
    using digit assms by (intro nth_equalityI) (simp_all add: checksum_digits_def)
  show "list_all is_hex_digit (checksum_digits L bs)"
    using digit by (simp add: checksum_digits_def list_all_length)
qed (simp add: checksum_digits_def)

lemma hex_bytes:
  assumes "list_all is_hex_digit d" "length d = 2 * n"
  shows "\<exists>bs. length bs = n \<and> map lower_char d = toHex bs \<and> fromHex d = ok bs"
proof -
  from fromHexLoop_accepts [of d] assms obtain bs where "fromHexLoop d = ok bs" by (auto simp: is_ok_iff)
  then have d: "fromHex d = ok bs" using assms(2) by (simp add: fromHex_def)
  moreover from this have l: "map lower_char d = toHex bs" using fromHex_iff_toHex by blast
  moreover from l have "length d = 2 * length bs" by (metis length_map length_toHex)
  ultimately show ?thesis using assms(2) by auto
qed

lemma replace_0x_prefix [simp]: "replace_0x (''0x'' @ d) = d" "replace_0x (CHR ''0'' # CHR ''x'' # d) = d"
  by (simp_all add: startsWith_def replace_0x.simps)

lemma lower_0x [simp]: "lower_char (CHR ''0'') = CHR ''0''" "lower_char (CHR ''x'') = CHR ''x''"
  by (simp_all add: lower_char_def)

lemma isValidAddress_digits:
  assumes "length d = 40"
  shows "eth_isValidAddress L (''0x'' @ d) =
    ok (list_all is_hex_digit d \<and> (list_all is_lower_hex d \<or>
      (\<exists>bs. map lower_char d = toHex bs \<and> d = checksum_digits L bs)))"
proof (cases "list_all is_hex_digit d")
  case True
  then obtain bs where bs: "length bs = 20" "map lower_char d = toHex bs" using hex_bytes [of d 20] assms by auto
  have "list_all (\<lambda>i. (''0x'' @ d) ! (i + 2) = f i) [0..<40] \<longleftrightarrow> d = map f [0..<40]" for f
    using assms by (auto simp: list_all_iff list_eq_iff_nth_eq)
  then show ?thesis
    unfolding eth_isValidAddress_def bs(2)
    by (simp add: matches_address_def startsWith_def assms True Let_def bs(2) address_hash_toHex checksum_digits_def)
qed (simp add: eth_isValidAddress_def matches_address_def assms)

lemma isValidAddress_iff:
  assumes "eth_isValidAddress L address = ok True"
  obtains bs where "length bs = 20" "address = ''0x'' @ toHex bs \<or> address = ''0x'' @ checksum_digits L bs"
proof -
  have m: "matches_address is_hex_digit address" using assms by (auto simp: eth_isValidAddress_def split: if_splits)
  then have a: "address = ''0x'' @ drop 2 address" "length (drop 2 address) = 40"
    unfolding matches_address_def startsWith_def by (metis append_take_drop_id list.size(3,4) One_nat_def numeral_2_eq_2 add.right_neutral add_Suc_right, simp)
  define d where "d = drop 2 address"
  have valid: "list_all is_hex_digit d" "list_all is_lower_hex d \<or> (\<exists>bs. map lower_char d = toHex bs \<and> d = checksum_digits L bs)"
    using isValidAddress_digits [OF a(2), of L] a(1) assms by (simp_all add: d_def)
  obtain bs where bs: "length bs = 20" "map lower_char d = toHex bs"
    using hex_bytes [OF valid(1), of 20] a(2) by (auto simp: d_def)
  from valid(2) have "d = toHex bs \<or> d = checksum_digits L bs"
  proof
    assume "list_all is_lower_hex d"
    then have "map lower_char d = d" by (simp add: list_all_iff lower_hex_digit map_idI)
    with bs(2) show ?thesis by simp
  next
    assume "\<exists>cs. map lower_char d = toHex cs \<and> d = checksum_digits L cs"
    then show ?thesis using bs(2) toHex_inj by metis
  qed
  with bs(1) a(1) show ?thesis using that unfolding d_def by metis
qed

lemma address_forms:
  assumes "length bs = 20" "address = ''0x'' @ toHex bs \<or> address = ''0x'' @ checksum_digits L bs"
  shows "eth_isValidAddress L address = ok True" "map lower_char address = ''0x'' @ toHex bs"
    "normalizeHex address = toHex bs" "toChecksummedAddress L address = ok (''0x'' @ checksum_digits L bs)"
    "encodeAddress L address = ok (replicate 12 0 @ bs)" "length address = 42"
proof -
  note digits = checksum_digits_lower [OF assms(1), of L]
  obtain d where a: "address = ''0x'' @ d" and d: "length d = 40" "map lower_char d = toHex bs" "list_all is_hex_digit d"
      "list_all is_lower_hex d \<or> d = checksum_digits L bs"
    using assms digits toHex_lower [of bs] toHex_hex_digits [of bs] toHex_lower_hex [of bs] by auto
  show valid: "eth_isValidAddress L address = ok True"
    unfolding a isValidAddress_digits [OF d(1)] using d(2-4) by auto
  show "map lower_char address = ''0x'' @ toHex bs" by (simp add: a d(2))
  show "normalizeHex address = toHex bs" by (simp add: normalizeHex_def a d(1,2) Let_def)
  show "toChecksummedAddress L address = ok (''0x'' @ checksum_digits L bs)"
    using checksummed_bytes [OF assms(1), of L]
    by (simp add: toChecksummedAddress_def valid, simp add: a d(2) toChecksummedAddress_bytes_def assms(1))
  have "fromHex d = ok bs" using fromHex_iff_toHex d(2) by blast
  then show "encodeAddress L address = ok (replicate 12 0 @ bs)"
    by (simp add: encodeAddress_def valid) (simp add: a padTo32_def assms(1))
  show "length address = 42" by (simp add: a d(1))
qed

lemma decodeAddress_padded:
  "length bs = 20 \<Longrightarrow> decodeAddress L (replicate 12 0 @ bs) = ok (''0x'' @ checksum_digits L bs)"
  by (simp add: decodeAddress_def slice_def slice_last_def checksummed_bytes list_ex_iff)

section \<open>Quantities\<close>

lemma to_base_16_lower_hex: "list_all is_lower_hex (to_base 16 n)"
proof -
  have "is_lower_hex (digit_char d)" if "d < 16" for d
    using that by (auto simp: is_lower_hex_def digit_char_def)
  then show ?thesis
    by (induction "16 :: nat" n rule: to_base.induct) (subst to_base.simps, simp add: list_all_iff)
qed

lemma toEthereumHex_hex: "list_all is_lower_hex s \<Longrightarrow> toEthereumHex s = ok (''0x'' @ s)"
proof -
  assume s: "list_all is_lower_hex s"
  then have "\<not> list_ex (\<lambda>c. of_char c \<in> {10, 13 :: nat}) s" by (auto simp: list_all_iff list_ex_iff is_lower_hex_def)
  moreover have "\<not> startsWith s ''0x''"
  proof
    assume "startsWith s ''0x''"
    then have "CHR ''x'' \<in> set s" unfolding startsWith_def by (metis in_set_takeD list.set_intros)
    with s show False by (auto simp: list_all_iff is_lower_hex_def)
  qed
  ultimately show ?thesis by (simp add: toEthereumHex_def)
qed

text \<open>A quantity as Ethereum nodes print it.\<close>

definition quantity :: "nat \<Rightarrow> string" where
  "quantity n = ''0x'' @ to_base 16 n"

lemma encodeQuantity_safe:
  assumes "eth_laws L" "0 \<le> i" "i \<le> 9007199254740991"
  shows "encodeQuantity L (int_num i) = ok (quantity (nat i))"
  using assms(2,3) bn_fromNumber [OF eth_bn [OF assms(1)], of i] eth_toHexString [OF assms(1,2)]
  by (simp add: encodeQuantity_def new_Uint53_int Uint53_toNumber_def Int53_toNumber_def safe_int_def bn_assert_def
      toEthereumHex_hex to_base_16_lower_hex quantity_def)

lemma encodeQuantity_iff:
  assumes "eth_laws L"
  shows "encodeQuantity L x = ok hex \<longleftrightarrow> (\<exists>i. x = int_num i \<and> 0 \<le> i \<and> i \<le> 9007199254740991 \<and> hex = quantity (nat i))"
proof
  assume a: "encodeQuantity L x = ok hex"
  then have "is_ok (new_Uint53 x)" by (cases "new_Uint53 x") (simp_all add: encodeQuantity_def)
  then obtain i where "x = int_num i" "0 \<le> i" "i \<le> 9007199254740991" 
    by (auto simp: is_ok_iff new_Uint53_iff Uint53_toNumber_def Int53_toNumber_def valid_Uint53_def valid_Int53_def safe_int_def)
  with a encodeQuantity_safe [OF assms, of i] show "\<exists>i. x = int_num i \<and> 0 \<le> i \<and> i \<le> 9007199254740991 \<and> hex = quantity (nat i)"
    by auto
qed (auto simp: encodeQuantity_safe [OF assms])

lemma encodeQuantityString_digits:
  assumes "eth_laws L"
  shows "encodeQuantityString L s = ok hex \<longleftrightarrow> matches_digits s \<and> hex = quantity (parse_base 10 s)"
  using bn_fromString [OF eth_bn [OF assms], of s] eth_toHexString [OF assms, of "int (parse_base 10 s)"]
  by (auto simp: encodeQuantityString_def matches_digits_def toEthereumHex_hex to_base_16_lower_hex quantity_def)

lemma matches_quantity [simp]: "matches_quantity (quantity n)"
  using to_base_16_lower_hex [of n] to_base_not_Nil [of 16 n]
  by (simp add: matches_quantity_def quantity_def startsWith_def)

lemma parse_quantity [simp]: "parse_base 16 (drop 2 (quantity n)) = n"
  using parse_to_base [of 16 n] by (simp add: quantity_def)

lemma decodeHexQuantity_quantity: "n \<le> 9007199254740991 \<Longrightarrow> decodeHexQuantity (quantity n) = ok (int_num (int n))"
  by (simp add: decodeHexQuantity_def parseInt16_safe)

lemma decodeHexQuantityString_quantity:
  assumes "eth_laws L"
  shows "decodeHexQuantityString L (quantity n) = ok (to_base 10 n)"
  using eth_fromHex [OF assms, of "drop 2 (quantity n)"] matches_quantity [of n] bn_toString [OF eth_bn [OF assms]]
  by (simp add: decodeHexQuantityString_def int_to_string_def matches_quantity_def)

lemma decodeHexQuantityNonce_quantity:
  "n \<le> 9007199254740991 \<Longrightarrow> decodeHexQuantityNonce (quantity n) = ok (int_num (int n))"
  by (simp add: decodeHexQuantityNonce_def decodeHexQuantity_quantity new_Uint53_int Uint53_toNumber_def Int53_toNumber_def)

lemma encodeUint256_digits:
  assumes "eth_laws L" "matches_digits s"
  shows "encodeUint256 L s = (if parse_base 10 s < 2 ^ 256 then ok (be_bytes 32 (int (parse_base 10 s))) else throw ''Assertion failed'')"
proof -
  let ?v = "int (parse_base 10 s)"
  have v: "bn_fromString L s = ?v"
    using assms(2) bn_fromString [OF eth_bn [OF assms(1)]] by (simp add: matches_digits_def)
  have p: "(256 :: int) ^ 32 = 2 ^ 256" by simp
  show ?thesis
  proof (cases "parse_base 10 s < 2 ^ 256")
    case True
    then have "?v < 256 ^ 32" unfolding p by (metis of_nat_less_iff of_nat_numeral of_nat_power)
    with v True show ?thesis using bn_toArrayBE [OF eth_bn [OF assms(1)], of ?v 32] assms(2)
      by (simp add: encodeUint256_def bn_assert_def)
  next
    case False
    then have "256 ^ 32 \<le> ?v" unfolding p by (metis not_less of_nat_le_iff of_nat_numeral of_nat_power)
    with v False show ?thesis using eth_toArrayBE [OF assms(1), of 32 ?v] assms(2)
      by (simp add: encodeUint256_def bn_assert_def)
  qed
qed

lemma decodeUint256_bytes:
  assumes "eth_laws L" "n < 2 ^ 256"
  shows "decodeUint256 L (be_bytes 32 (int n)) = ok (to_base 10 n)"
proof -
  have "(256 :: int) ^ 32 = 2 ^ 256" by simp
  then have "int n < 256 ^ 32" using assms(2) by (metis of_nat_less_iff of_nat_numeral of_nat_power)
  then show ?thesis
    using be_value_bytes [of "int n" 32] bn_fromBytes [OF eth_bn [OF assms(1)]] bn_toString [OF eth_bn [OF assms(1)]]
    by (simp add: decodeUint256_def int_to_string_def)
qed

section \<open>Quantities as bytes\<close>

lemma toHex_append [simp]: "toHex (bs @ cs) = toHex bs @ toHex cs"
  by (induction bs) simp_all

lemma parse_toHex: "int (parse_base 16 (toHex bs)) = be_value bs"
proof (induction bs rule: rev_induct)
  case (snoc b bs)
  have "parse_base 16 (toHexByte b) = unat b"
    using byte_nibbles [of b] by (simp add: toHexByte_digits parse_base_pair)
  then have "int (parse_base 16 (toHex (bs @ [b]))) = int (parse_base 16 (toHex bs)) * 256 + uint b"
    by (simp add: toHex_append parse_base_append toHexByte_digits)
  with snoc show ?case by simp
qed simp

lemma parse_base_16_zero: "parse_base 16 (CHR ''0'' # s) = parse_base 16 s"
  using parse_base_append [of 16 "''0''" s] by (simp add: parse_base_def digit_val_def)

text \<open>The bytes that the code makes of a printed quantity.\<close>

lemma quantity_bytes:
  "\<exists>bs. fromHex (normalizeHex (quantity n)) = ok bs \<and> be_value bs = int n \<and> (0 < n \<longrightarrow> bs \<noteq> [] \<and> hd bs \<noteq> 0)"
proof -
  let ?s = "to_base 16 n"
  have lower: "map lower_char ?s = ?s"
    using to_base_16_lower_hex [of n] by (simp add: list_all_iff lower_hex_digit map_idI)
  define t where "t = (if odd (length ?s) then ''0'' @ ?s else ?s)"
  have "normalizeHex (quantity n) = t" by (simp add: normalizeHex_def quantity_def lower t_def)
  moreover have "list_all is_hex_digit t" "even (length t)"
    using to_base_16_lower_hex [of n] by (auto simp: t_def list_all_iff lower_hex_digit is_hex_digit_def digit_val_def)
  then obtain bs where bs: "fromHex t = ok bs" "map lower_char t = toHex bs"
    using hex_bytes [of t "length t div 2"] by auto
  moreover have "map lower_char t = t" using lower by (simp add: t_def)
  then have hex: "toHex bs = t" using bs(2) by simp
  have "parse_base 16 t = n" using parse_to_base [of 16 n] by (simp add: t_def parse_base_16_zero)
  then have "be_value bs = int n" using parse_toHex [of bs] hex by simp
  moreover have "bs \<noteq> [] \<and> hd bs \<noteq> 0" if "0 < n"
  proof -
    have head: "hd ?s \<noteq> CHR ''0''" using hd_to_base [of 16 n] that by simp
    have "bs \<noteq> []" using \<open>be_value bs = int n\<close> that by auto
    moreover have False if "hd bs = 0"
    proof -
      from \<open>bs \<noteq> []\<close> that obtain cs where "bs = 0 # cs" by (cases bs) auto
      then have "t = ''00'' @ toHex cs" using hex by (simp add: toHexByte_digits digit_char_zero)
      then show False using head to_base_not_Nil [of 16 n] by (cases ?s) (auto simp: t_def split: if_splits)
    qed
    ultimately show ?thesis by blast
  qed
  ultimately show ?thesis by auto
qed

lemma be_value_unique:
  assumes "bs \<noteq> []" "hd bs \<noteq> 0" "cs \<noteq> []" "hd cs \<noteq> 0" "be_value bs = be_value cs"
  shows "bs = cs"
proof -
  have large: "256 ^ (length xs - 1) \<le> be_value xs" if "xs \<noteq> []" "hd xs \<noteq> 0" for xs
  proof -
    from that(1) obtain b ys where xs: "xs = b # ys" by (cases xs) auto
    have "uint b \<noteq> 0" using that(2) by (simp add: xs uint_0_iff)
    then have "1 \<le> uint b" using uint_nonnegative [of b] by linarith
    then have "1 * 256 ^ length ys \<le> uint b * 256 ^ length ys" by (intro mult_right_mono) simp_all
    moreover have "be_value xs = uint b * 256 ^ length ys + be_value ys" by (simp add: xs be_value_Cons)
    moreover have "0 \<le> be_value ys" using be_value_bounds [of ys] by simp
    ultimately have "256 ^ length ys \<le> be_value xs" by linarith
    then show ?thesis by (simp add: xs)
  qed
  have less: "length xs \<le> length ys"
    if "xs \<noteq> []" "hd xs \<noteq> 0" "be_value xs = be_value ys" for xs ys :: "byte list"
  proof (rule ccontr)
    assume "\<not> length xs \<le> length ys"
    then have "(256 :: int) ^ length ys \<le> 256 ^ (length xs - 1)" by (intro power_increasing) auto
    also have "\<dots> \<le> be_value xs" by (rule large [OF that(1,2)])
    also have "\<dots> < 256 ^ length ys" unfolding that(3) by (rule conjunct2 [OF be_value_bounds])
    finally show False by simp
  qed
  have "length bs = length cs" using less [OF assms(1,2,5)] less [OF assms(3,4) assms(5) [symmetric]] by (rule order.antisym)
  then show ?thesis by (metis be_bytes_value assms(5))
qed

section \<open>Chain ids and recovery parameters\<close>

lemma fromBcpChainId_iff:
  "fromBcpChainId chainId = ok x \<longleftrightarrow> (\<exists>n. n \<le> 9007199254740991 \<and> chainId = bcpChainIdPrefix @ to_base 10 n \<and> x = int_num (int n))"
proof -
  have canonical: "rest = ''0'' \<or> matches_digits rest \<and> hd rest \<noteq> CHR ''0'' \<longleftrightarrow> canonical_decimal rest" for rest
    by (auto simp: canonical_decimal_def matches_digits_def is_digit_def)
  have split: "startsWith chainId bcpChainIdPrefix \<longleftrightarrow> (\<exists>rest. chainId = bcpChainIdPrefix @ rest)"
    unfolding startsWith_def by (metis append_take_drop_id append_eq_conv_conj)
  have digits: "matches_integer rest \<and> integer_value rest = int (parse_base 10 rest)" if "canonical_decimal rest" for rest
    using that digits_no_minus [of rest]
    by (auto simp: canonical_decimal_def matches_digits_def matches_integer_def integer_value_def)
  have parsed: "(\<exists>u. canonical_decimal rest \<and> Uint53_fromString rest = ok u \<and> x = Uint53_toNumber u) \<longleftrightarrow>
      (\<exists>n. n \<le> 9007199254740991 \<and> rest = to_base 10 n \<and> x = int_num (int n))" for rest
  proof
    assume "\<exists>u. canonical_decimal rest \<and> Uint53_fromString rest = ok u \<and> x = Uint53_toNumber u"
    then show "\<exists>n. n \<le> 9007199254740991 \<and> rest = to_base 10 n \<and> x = int_num (int n)"
      using digits by (intro exI [of _ "parse_base 10 rest"])
        (auto simp: Uint53_fromString_iff to_base_parse Uint53_toNumber_def Int53_toNumber_def)
  next
    assume "\<exists>n. n \<le> 9007199254740991 \<and> rest = to_base 10 n \<and> x = int_num (int n)"
    then obtain n where n: "n \<le> 9007199254740991" "rest = to_base 10 n" "x = int_num (int n)" by blast
    have "canonical_decimal rest" using canonical_to_base n(2) by simp
    moreover from digits [OF this] have "Uint53_fromString rest = ok (Uint53 (Int53 (int n)))"
      using n parse_to_base_10 [of n] by (simp add: Uint53_fromString_iff)
    ultimately show "\<exists>u. canonical_decimal rest \<and> Uint53_fromString rest = ok u \<and> x = Uint53_toNumber u"
      by (auto simp: n(3) Uint53_toNumber_def Int53_toNumber_def)
  qed
  have "fromBcpChainId (bcpChainIdPrefix @ rest) =
      (if canonical_decimal rest then andThen (Uint53_fromString rest) (\<lambda>u. ok (Uint53_toNumber u))
       else throw ''Invalid format of EIP155 chain ID'')" for rest
    using canonical [of rest] by (auto simp: fromBcpChainId_def)
  then have "fromBcpChainId (bcpChainIdPrefix @ rest) = ok x \<longleftrightarrow> (\<exists>n. n \<le> 9007199254740991 \<and> rest = to_base 10 n \<and> x = int_num (int n))" for rest
    unfolding parsed [symmetric] by (auto simp: andThen_eq_Inr)
  moreover have "is_ok (fromBcpChainId chainId) \<Longrightarrow> \<exists>rest. chainId = bcpChainIdPrefix @ rest"
    using split by (auto simp: fromBcpChainId_def split: if_splits)
  ultimately show ?thesis by (metis is_ok_simps(2) same_append_eq)
qed

lemma recovery_param:
  assumes "0 \<le> r" "r \<le> 3" "0 < chainId" "chainId * 2 + r + 35 \<le> 9007199254740991"
  shows "getRecoveryParam (Forked chainId) (int_num (chainId * 2 + r + 35)) = ok (int_num r)"
proof -
  have "minus_num (minus_num (int_num (chainId * 2 + r + 35)) (chainId * 2)) 35 = int_num r"
    using assms by simp
  moreover have "new_Int53 (int_num r) = ok (Int53 r)" using assms(1,2) by (simp add: new_Int53_int safe_int_def)
  ultimately show ?thesis using assms by (simp add: getRecoveryParam_def Int53_toNumber_def)
qed

section \<open>A library that keeps the laws\<close>

text \<open>
  The functions of the demonstration library of the key management, a prefix free
  code of lists of byte strings, and a hash that depends on the length of the data
  only. Every message is signed by the same key.
\<close>

definition demo_rlp :: "byte list list \<Rightarrow> byte list" where
  "demo_rlp items = concat (map (\<lambda>bs. concat (map (\<lambda>b. [1, b]) bs) @ [0]) items)"

definition demo_pubkey :: "byte list" where
  "demo_pubkey = 4 # replicate 64 1"

definition demo_eth :: "string eth_lib" where
  "demo_eth = crypto_lib.extend (demo_crypto
       \<lparr>ec_recoverPubKey := (\<lambda>m r s v. ok (toHex demo_pubkey)),
        cl_keccak256 := (\<lambda>d. toUint8 (int (length d)) # replicate 31 1)\<rparr>)
     \<lparr>rlp_encode = demo_rlp, bn_toHexString = (\<lambda>i. to_base 16 (nat i)), utf8_decode = demo_utf8_decode\<rparr>"

lemma demo_rlp_inj: "demo_rlp xs = demo_rlp ys \<Longrightarrow> xs = ys"
proof -
  have item: "concat (map (\<lambda>b. [1, b]) bs) @ 0 # us = concat (map (\<lambda>b. [1, b]) cs) @ 0 # vs \<Longrightarrow> bs = cs \<and> us = vs"
    for bs cs us vs :: "byte list"
  proof (induction bs arbitrary: cs)
    case Nil
    then show ?case by (cases cs) auto
  next
    case (Cons b bs)
    then show ?case by (cases cs) auto
  qed
  show "demo_rlp xs = demo_rlp ys \<Longrightarrow> xs = ys"
  proof (induction xs arbitrary: ys)
    case Nil
    then show ?case by (cases ys) (simp_all add: demo_rlp_def)
  next
    case (Cons x xs)
    then obtain y ys' where ys: "ys = y # ys'" by (cases ys) (simp_all add: demo_rlp_def)
    with Cons.prems item [of x "demo_rlp xs" y "demo_rlp ys'"] have "x = y" "demo_rlp xs = demo_rlp ys'"
      by (simp_all add: demo_rlp_def)
    with Cons.IH show ?case by (simp add: ys)
  qed
qed

lemma demo_eth_fields [simp]:
  "bn_lib.truncate demo_eth = bn_int" "bn_toArray demo_eth i = trimLeadingNullBytes (be_bytes (nat i) i)"
  "bn_fromHexString demo_eth s = int (parse_base 16 s)" "bn_toHexString demo_eth i = to_base 16 (nat i)"
  "bn_toArrayBE demo_eth = bn_toArrayBE bn_int"
  "cl_keccak256 demo_eth d = toUint8 (int (length d)) # replicate 31 1" "rlp_encode demo_eth = demo_rlp"
  "utf8_decode demo_eth = demo_utf8_decode" "ec_recoverPubKey demo_eth m r u v = ok (toHex demo_pubkey)"
  by (simp_all add: demo_eth_def crypto_lib.defs demo_crypto_def bn_lib.defs)

lemma demo_eth_laws: "eth_laws demo_eth"
proof -
  have "bn_laws demo_eth"
    unfolding bn_laws_def by (simp add: demo_eth_def crypto_lib.defs demo_crypto_def bn_lib.defs bn_int_def)
  then show ?thesis
    unfolding eth_laws_def using demo_rlp_inj by (auto simp: demo_toArray hd_trim demo_utf8 bn_int_def)
qed

section \<open>Properties\<close>

text \<open>
  The addresses of EIP-55: a string is a valid address exactly if it is the
  lower case form or the checksummed form of 20 bytes. Encoding it as an argument
  of a contract call pads those bytes with zeros, and decoding this gives the
  checksummed form, which is also what \<open>toChecksummedAddress\<close> gives.
\<close>

lemma ethereum_address_forms:
  "eth_isValidAddress L address = ok True \<longleftrightarrow>
    (\<exists>bs. length bs = 20 \<and> (address = ''0x'' @ toHex bs \<or> toChecksummedAddress_bytes L bs = ok address) \<and>
      encodeAddress L address = ok (replicate 12 0 @ bs) \<and>
      decodeAddress L (replicate 12 0 @ bs) = toChecksummedAddress_bytes L bs \<and>
      toChecksummedAddress L address = toChecksummedAddress_bytes L bs)"
proof
  assume "eth_isValidAddress L address = ok True"
  then obtain bs where bs: "length bs = 20" "address = ''0x'' @ toHex bs \<or> address = ''0x'' @ checksum_digits L bs"
    by (rule isValidAddress_iff)
  with address_forms [OF this] show "\<exists>bs. length bs = 20 \<and> (address = ''0x'' @ toHex bs \<or> toChecksummedAddress_bytes L bs = ok address) \<and>
      encodeAddress L address = ok (replicate 12 0 @ bs) \<and>
      decodeAddress L (replicate 12 0 @ bs) = toChecksummedAddress_bytes L bs \<and>
      toChecksummedAddress L address = toChecksummedAddress_bytes L bs"
    by (intro exI [of _ bs]) (auto simp: decodeAddress_padded checksummed_bytes)
next
  assume "\<exists>bs. length bs = 20 \<and> (address = ''0x'' @ toHex bs \<or> toChecksummedAddress_bytes L bs = ok address) \<and>
      encodeAddress L address = ok (replicate 12 0 @ bs) \<and>
      decodeAddress L (replicate 12 0 @ bs) = toChecksummedAddress_bytes L bs \<and>
      toChecksummedAddress L address = toChecksummedAddress_bytes L bs"
  then obtain bs where bs: "length bs = 20" "address = ''0x'' @ toHex bs \<or> toChecksummedAddress_bytes L bs = ok address" by blast
  with address_forms(1) [OF bs(1), of address L] show "eth_isValidAddress L address = ok True"
    by (auto simp: checksummed_bytes)
qed

end
