(* ===== verification/Eth_Contracts.thy ===== *)
theory Eth_Contracts
  imports Eth_Basics Json_Rpc
begin

text \<open>
  The transactions of \<open>packages/iov-ethereum/src\<close> and its smart contracts:
  \<open>erc20.ts\<close>, \<open>serializationcommon.ts\<close>, \<open>smartcontracts/definitions.ts\<close>,
  \<open>smartcontracts/escrowcontract.ts\<close>, \<open>smartcontracts/atomicswapcontract.ts\<close>,
  \<open>smartcontracts/transactionbuilder.ts\<close>, \<open>atomicswapcontracttransactionbuilder.ts\<close>
  and \<open>erc20tokentransactionbuilder.ts\<close>: how a contract call is written as bytes,
  and how the transaction is recovered from them.
\<close>

section \<open>Transactions\<close>

record Erc20ApproveTransaction =
  ap_spender :: Address
  ap_amount :: Amount

text \<open>
  The transactions of the escrow contract. The builder puts an amount into claims and
  aborts too, which the interfaces do not have and no code reads.
\<close>

record EscrowBaseTransaction =
  esc_sender :: Address
  esc_swapId :: SwapId
  esc_amount :: "Amount option"

record EscrowOpenTransaction = EscrowBaseTransaction +
  eo_arbiter :: Address
  eo_hash :: "byte list"
  eo_timeout :: SwapTimeout

record EscrowClaimTransaction = EscrowBaseTransaction +
  ec_recipient :: Address

datatype EthContent =
    EthSend SendTransaction
  | EthSwapOffer SwapOfferTransaction
  | EthSwapClaim SwapClaimTransaction
  | EthSwapAbort SwapAbortTransaction
  | Erc20Approve Erc20ApproveTransaction
  | EscrowOpen EscrowOpenTransaction
  | EscrowClaim EscrowClaimTransaction
  | EscrowAbort EscrowBaseTransaction
  | OtherEthKind string

record EthTransaction =
  eth_chainId :: ChainId
  eth_fee :: "Fee option"
  eth_content :: EthContent

fun eth_kind :: "EthContent \<Rightarrow> string" where
  "eth_kind (EthSend _) = ''bcp/send''"
| "eth_kind (EthSwapOffer _) = ''bcp/swap_offer''"
| "eth_kind (EthSwapClaim _) = ''bcp/swap_claim''"
| "eth_kind (EthSwapAbort _) = ''bcp/swap_abort''"
| "eth_kind (Erc20Approve _) = ''erc20/approve''"
| "eth_kind (EscrowOpen _) = ''smartcontract/escrow_open''"
| "eth_kind (EscrowClaim _) = ''smartcontract/escrow_claim''"
| "eth_kind (EscrowAbort _) = ''smartcontract/escrow_abort''"
| "eth_kind (OtherEthKind k) = k"

definition isErc20ApproveTransaction :: "EthContent \<Rightarrow> bool" where
  "isErc20ApproveTransaction transaction \<longleftrightarrow> eth_kind transaction = ''erc20/approve''"

definition isEscrowOpenTransaction :: "EthContent \<Rightarrow> bool" where
  "isEscrowOpenTransaction transaction \<longleftrightarrow> eth_kind transaction = ''smartcontract/escrow_open''"

definition isEscrowClaimTransaction :: "EthContent \<Rightarrow> bool" where
  "isEscrowClaimTransaction transaction \<longleftrightarrow> eth_kind transaction = ''smartcontract/escrow_claim''"

definition isEscrowAbortTransaction :: "EthContent \<Rightarrow> bool" where
  "isEscrowAbortTransaction transaction \<longleftrightarrow> eth_kind transaction = ''smartcontract/escrow_abort''"

definition isEscrowTransaction :: "EthContent \<Rightarrow> bool" where
  "isEscrowTransaction transaction \<longleftrightarrow> startsWith (eth_kind transaction) ''smartcontract/escrow_''"

section \<open>Tokens and serialization options\<close>

record Erc20Options =
  erc_contractAddress :: Address
  erc_symbol :: string
  erc_decimals :: number
  erc_name :: "string option"

text \<open>A map of tokens: its entries in the order of insertion.\<close>

type_synonym Erc20TokensMap = "(string \<times> Erc20Options) list"

definition ZERO_ETH_QUANTITY :: string where "ZERO_ETH_QUANTITY = ''0''"

definition SwapIdPrefix_Ether :: string where "SwapIdPrefix_Ether = ''ether''"
definition SwapIdPrefix_Erc20 :: string where "SwapIdPrefix_Erc20 = ''erc20''"

record UnsignedSerializationOptions =
  uo_chainIdHex :: string
  uo_gasPriceHex :: string
  uo_gasLimitHex :: string
  uo_nonce :: Nonce
  uo_erc20Tokens :: Erc20TokensMap
  uo_atomicSwapContractAddress :: "Address option"
  uo_customSmartContractAddress :: "Address option"

record SignedSerializationOptions =
  so_v :: string
  so_r :: "byte list"
  so_s :: "byte list"
  so_gasPriceHex :: string
  so_gasLimitHex :: string
  so_nonce :: Nonce
  so_erc20Tokens :: Erc20TokensMap
  so_atomicSwapContractAddress :: "Address option"
  so_customSmartContractAddress :: "Address option"

record GenericTransactionSerializerParameters =
  gp_nonce :: Nonce
  gp_gasPriceHex :: string
  gp_gasLimitHex :: string
  gp_recipient :: Address
  gp_value :: string
  gp_data :: "byte list"
  gp_v :: string
  gp_r :: "byte list option"
  gp_s :: "byte list option"

definition checkEtherAmount :: "Amount list \<Rightarrow> unit result" where
  "checkEtherAmount amounts = (case amounts of
     [amount] \<Rightarrow> if am_tokenTicker amount \<noteq> primaryTokenTicker
       then throw ''Invalid amount: Ether atomic swap must specify amount in ETH'' else ok ()
   | _ \<Rightarrow> throw ''Cannot serialize a swap offer with more than one amount'')"

definition checkErc20Amount :: "Amount list \<Rightarrow> Erc20TokensMap \<Rightarrow> unit result" where
  "checkErc20Amount amounts erc20Tokens = (case amounts of
     [amount] \<Rightarrow> if map_of erc20Tokens (am_tokenTicker amount) = None
       then throw ''Invalid amount: unknown ERC20 token'' else ok ()
   | _ \<Rightarrow> throw ''Cannot serialize a swap offer with more than one amount'')"

text \<open>
  \<open>Abi.encodeUint256(timeout.height.toString())\<close>: an integer below \<open>10\<^sup>2\<^sup>1\<close> is printed
  in digits, with a sign if it is negative; every other number is printed with
  other characters, which \<open>encodeUint256\<close> does not accept.
\<close>

definition encodeHeight :: "('h, 'a) eth_lib_scheme \<Rightarrow> SwapTimeout \<Rightarrow> byte list result" where
  "encodeHeight L timeout = (case timeout of
     BlockHeightTimeout height \<Rightarrow>
       if isInteger height \<and> abs (floor_num height) < 10 ^ 21 then encodeUint256 L (int_to_string (floor_num height))
       else throw ''Invalid string format''
   | TimestampTimeout timestamp \<Rightarrow> throw ''TypeError'')"

section \<open>The escrow contract\<close>

datatype SmartContractTokenType = TokenErc20 | TokenEther
datatype SmartContractType = EscrowSmartContract

fun tokenType_string :: "SmartContractTokenType \<Rightarrow> string" where
  "tokenType_string TokenErc20 = ''erc20''"
| "tokenType_string TokenEther = ''ether''"

record SmartContractConfig =
  cfg_address :: Address
  cfg_type :: SmartContractType
  cfg_fractionalDigits :: number
  cfg_tokenTicker :: string
  cfg_tokenType :: SmartContractTokenType

record Escrow =
  escrow_sender :: Address
  escrow_recipient :: Address
  escrow_arbiter :: Address
  escrow_hash :: "byte list"
  escrow_timeout :: SwapTimeout
  escrow_amount :: Amount
  escrow_state :: number

datatype EscrowContractMethod = EscrowMethodOpen | EscrowMethodClaim | EscrowMethodAbort

text \<open>The keys of the table of methods, which are made from the whole hash of a signature.\<close>

definition escrow_METHODS :: "('h, 'a) eth_lib_scheme \<Rightarrow> (string \<times> EscrowContractMethod) list result" where
  "escrow_METHODS L =
     andThen (calculateMethodHash L ''open(bytes32,address,bytes32,uint256)'') (\<lambda>openHash.
     andThen (calculateMethodHash L ''claim(bytes32,address)'') (\<lambda>claimHash.
     andThen (calculateMethodHash L ''abort(bytes32)'') (\<lambda>abortHash.
     ok [(toHex openHash, EscrowMethodOpen), (toHex claimHash, EscrowMethodClaim), (toHex abortHash, EscrowMethodAbort)])))"

definition getMethodTypeFromInput :: "('h, 'a) eth_lib_scheme \<Rightarrow> byte list \<Rightarrow> EscrowContractMethod result" where
  "getMethodTypeFromInput L data =
     andThen (escrow_METHODS L) (\<lambda>methods.
     case map_of (rev methods) (toHex data) of
       None \<Rightarrow> throw ''Unknown method for escrow contract''
     | Some method \<Rightarrow> ok method)"

text \<open>The fields of a transaction as a node reports it that the code reads.\<close>

record EthereumRpcTransactionResult =
  rpc_gas :: string
  rpc_gasPrice :: string
  rpc_input :: string
  rpc_nonce :: string
  rpc_r :: string
  rpc_s :: string
  rpc_to :: string
  rpc_v :: string
  rpc_value :: string

text \<open>\<open>new BN(bytes).toNumber()\<close>.\<close>

definition bn_number :: "('h, 'a) eth_lib_scheme \<Rightarrow> byte list \<Rightarrow> number result" where
  "bn_number L bytes = bn_assert (bn_toNumber L (bn_fromBytes L bytes))"

definition escrow_buildTransaction :: "('h, 'a) eth_lib_scheme \<Rightarrow> byte list \<Rightarrow> EthereumRpcTransactionResult
    \<Rightarrow> ChainId \<Rightarrow> Fee \<Rightarrow> PubkeyBundle \<Rightarrow> SmartContractConfig \<Rightarrow> EthTransaction result" where
  "escrow_buildTransaction L input json chainId fee signerPubkey config =
     andThen (getMethodTypeFromInput L (slice 0 4 input)) (\<lambda>method.
     let swapId = \<lparr>swap_prefix = Some (tokenType_string (cfg_tokenType config)), swap_data = slice 4 36 input\<rparr> in
     andThen (eth_pubkeyToAddress L signerPubkey) (\<lambda>sender.
     andThen (decodeHexQuantityString L (rpc_value json)) (\<lambda>quantity.
     let amount = \<lparr>am_quantity = quantity, am_fractionalDigits = cfg_fractionalDigits config,
           am_tokenTicker = cfg_tokenTicker config\<rparr>;
         transaction = (\<lambda>content. \<lparr>eth_chainId = chainId, eth_fee = Some fee, eth_content = content\<rparr>) in
     case method of
       EscrowMethodOpen \<Rightarrow>
         andThen (decodeAddress L (slice 36 68 input)) (\<lambda>arbiter.
         andThen (bn_number L (slice 100 132 input)) (\<lambda>height.
         ok (transaction (EscrowOpen \<lparr>esc_sender = sender, esc_swapId = swapId, esc_amount = Some amount,
           eo_arbiter = arbiter, eo_hash = slice 68 100 input, eo_timeout = BlockHeightTimeout height\<rparr>))))
     | EscrowMethodClaim \<Rightarrow>
         andThen (decodeAddress L (slice 36 68 input)) (\<lambda>recipient.
         ok (transaction (EscrowClaim \<lparr>esc_sender = sender, esc_swapId = swapId, esc_amount = Some amount,
           ec_recipient = recipient\<rparr>)))
     | EscrowMethodAbort \<Rightarrow>
         ok (transaction (EscrowAbort \<lparr>esc_sender = sender, esc_swapId = swapId, esc_amount = Some amount\<rparr>)))))"

definition escrow_checkTransaction :: "'a EscrowBaseTransaction_scheme \<Rightarrow> unit result" where
  "escrow_checkTransaction tx = (if length (swap_data (esc_swapId tx)) \<noteq> 32 then throw ''Swap ID must be 32 bytes'' else ok ())"

definition escrow_abort :: "('h, 'a) eth_lib_scheme \<Rightarrow> SwapId \<Rightarrow> byte list result" where
  "escrow_abort L swapId =
     andThen (calculateMethodId L ''abort(bytes32)'') (\<lambda>methodId. ok (methodId @ swap_data swapId))"

definition escrow_claim :: "('h, 'a) eth_lib_scheme \<Rightarrow> SwapId \<Rightarrow> Address \<Rightarrow> byte list result" where
  "escrow_claim L swapId recipient =
     andThen (calculateMethodId L ''claim(bytes32,address)'') (\<lambda>methodId.
     andThen (encodeAddress L recipient) (\<lambda>recipientBytes.
     ok (methodId @ swap_data swapId @ recipientBytes)))"

definition escrow_open :: "('h, 'a) eth_lib_scheme \<Rightarrow> SwapId \<Rightarrow> Address \<Rightarrow> byte list \<Rightarrow> SwapTimeout \<Rightarrow> byte list result" where
  "escrow_open L swapId arbiter hash timeout =
     andThen (calculateMethodId L ''open(bytes32,address,bytes32,uint256)'') (\<lambda>methodId.
     andThen (encodeAddress L arbiter) (\<lambda>arbiterBytes.
     andThen (encodeHeight L timeout) (\<lambda>height.
     ok (methodId @ swap_data swapId @ arbiterBytes @ hash @ height))))"

definition unsigned_parameters :: "UnsignedSerializationOptions \<Rightarrow> Address \<Rightarrow> string \<Rightarrow> byte list
    \<Rightarrow> GenericTransactionSerializerParameters" where
  "unsigned_parameters options recipient amount data =
     \<lparr>gp_nonce = uo_nonce options, gp_gasPriceHex = uo_gasPriceHex options, gp_gasLimitHex = uo_gasLimitHex options,
      gp_recipient = recipient, gp_value = amount, gp_data = data, gp_v = uo_chainIdHex options, gp_r = None, gp_s = None\<rparr>"

definition signed_parameters :: "SignedSerializationOptions \<Rightarrow> Address \<Rightarrow> string \<Rightarrow> byte list
    \<Rightarrow> GenericTransactionSerializerParameters" where
  "signed_parameters options recipient amount data =
     \<lparr>gp_nonce = so_nonce options, gp_gasPriceHex = so_gasPriceHex options, gp_gasLimitHex = so_gasLimitHex options,
      gp_recipient = recipient, gp_value = amount, gp_data = data, gp_v = so_v options,
      gp_r = Some (so_r options), gp_s = Some (so_s options)\<rparr>"

definition need_contract :: "Address option \<Rightarrow> Address result" where
  "need_contract customSmartContractAddress = (case customSmartContractAddress of
     None \<Rightarrow> throw ''Escrow smart contract address not set'' | Some address \<Rightarrow> ok address)"

definition open_quantity :: "EscrowOpenTransaction \<Rightarrow> Amount result" where
  "open_quantity tx = (case esc_amount tx of None \<Rightarrow> throw ''TypeError'' | Some amount \<Rightarrow> ok amount)"

definition serializeUnsignedOpenTransaction :: "('h, 'a) eth_lib_scheme \<Rightarrow> EscrowOpenTransaction
    \<Rightarrow> UnsignedSerializationOptions \<Rightarrow> GenericTransactionSerializerParameters result" where
  "serializeUnsignedOpenTransaction L tx options =
     andThen (need_contract (uo_customSmartContractAddress options)) (\<lambda>contract.
     andThen (escrow_checkTransaction tx) (\<lambda>_.
     if \<not> isBlockHeightTimeout (eo_timeout tx) then throw ''Timeout must be specified as a block height''
     else andThen (open_quantity tx) (\<lambda>amount.
       if swap_prefix (esc_swapId tx) = Some SwapIdPrefix_Ether then
         andThen (checkEtherAmount [amount]) (\<lambda>_.
         andThen (escrow_open L (esc_swapId tx) (eo_arbiter tx) (eo_hash tx) (eo_timeout tx)) (\<lambda>escrowOpenCall.
         ok (unsigned_parameters options contract (am_quantity amount) escrowOpenCall)))
       else
         andThen (checkErc20Amount [amount] (uo_erc20Tokens options)) (\<lambda>_.
         andThen (escrow_open L (esc_swapId tx) (eo_arbiter tx) (eo_hash tx) (eo_timeout tx)) (\<lambda>escrowOpenCall.
         ok (unsigned_parameters options contract ZERO_ETH_QUANTITY escrowOpenCall))))))"

text \<open>Both branches on the prefix of the swap id are the same in the next two functions.\<close>

definition serializeUnsignedClaimTransaction :: "('h, 'a) eth_lib_scheme \<Rightarrow> EscrowClaimTransaction
    \<Rightarrow> UnsignedSerializationOptions \<Rightarrow> GenericTransactionSerializerParameters result" where
  "serializeUnsignedClaimTransaction L tx options =
     andThen (need_contract (uo_customSmartContractAddress options)) (\<lambda>contract.
     andThen (escrow_checkTransaction tx) (\<lambda>_.
     andThen (escrow_claim L (esc_swapId tx) (ec_recipient tx)) (\<lambda>escrowClaimCall.
     ok (unsigned_parameters options contract ZERO_ETH_QUANTITY escrowClaimCall))))"

definition serializeUnsignedAbortTransaction :: "('h, 'a) eth_lib_scheme \<Rightarrow> EscrowBaseTransaction
    \<Rightarrow> UnsignedSerializationOptions \<Rightarrow> GenericTransactionSerializerParameters result" where
  "serializeUnsignedAbortTransaction L tx options =
     andThen (need_contract (uo_customSmartContractAddress options)) (\<lambda>contract.
     andThen (escrow_checkTransaction tx) (\<lambda>_.
     andThen (escrow_abort L (esc_swapId tx)) (\<lambda>escrowAbortCall.
     ok (unsigned_parameters options contract ZERO_ETH_QUANTITY escrowAbortCall))))"

definition serializeSignedOpenTransaction :: "('h, 'a) eth_lib_scheme \<Rightarrow> EscrowOpenTransaction
    \<Rightarrow> SignedSerializationOptions \<Rightarrow> GenericTransactionSerializerParameters result" where
  "serializeSignedOpenTransaction L tx options =
     andThen (need_contract (so_customSmartContractAddress options)) (\<lambda>contract.
     andThen (open_quantity tx) (\<lambda>amount.
     andThen (escrow_open L (esc_swapId tx) (eo_arbiter tx) (eo_hash tx) (eo_timeout tx)) (\<lambda>data.
     ok (signed_parameters options contract (am_quantity amount) data))))"

definition serializeSignedClaimTransaction :: "('h, 'a) eth_lib_scheme \<Rightarrow> EscrowClaimTransaction
    \<Rightarrow> SignedSerializationOptions \<Rightarrow> GenericTransactionSerializerParameters result" where
  "serializeSignedClaimTransaction L tx options =
     andThen (need_contract (so_customSmartContractAddress options)) (\<lambda>contract.
     andThen (escrow_claim L (esc_swapId tx) (ec_recipient tx)) (\<lambda>data.
     ok (signed_parameters options contract ZERO_ETH_QUANTITY data)))"

definition serializeSignedAbortTransaction :: "('h, 'a) eth_lib_scheme \<Rightarrow> EscrowBaseTransaction
    \<Rightarrow> SignedSerializationOptions \<Rightarrow> GenericTransactionSerializerParameters result" where
  "serializeSignedAbortTransaction L tx options =
     andThen (need_contract (so_customSmartContractAddress options)) (\<lambda>contract.
     andThen (escrow_abort L (esc_swapId tx)) (\<lambda>data.
     ok (signed_parameters options contract ZERO_ETH_QUANTITY data)))"

definition escrow_serializeUnsigned :: "('h, 'a) eth_lib_scheme \<Rightarrow> EthContent
    \<Rightarrow> UnsignedSerializationOptions \<Rightarrow> GenericTransactionSerializerParameters result" where
  "escrow_serializeUnsigned L content options = (case content of
     EscrowOpen tx \<Rightarrow> serializeUnsignedOpenTransaction L tx options
   | EscrowAbort tx \<Rightarrow> serializeUnsignedAbortTransaction L tx options
   | EscrowClaim tx \<Rightarrow> serializeUnsignedClaimTransaction L tx options
   | _ \<Rightarrow> throw ''unsupported escrow transaction kind'')"

definition escrow_serializeSigned :: "('h, 'a) eth_lib_scheme \<Rightarrow> EthContent
    \<Rightarrow> SignedSerializationOptions \<Rightarrow> GenericTransactionSerializerParameters result" where
  "escrow_serializeSigned L content options = (case content of
     EscrowOpen tx \<Rightarrow> serializeSignedOpenTransaction L tx options
   | EscrowAbort tx \<Rightarrow> serializeSignedAbortTransaction L tx options
   | EscrowClaim tx \<Rightarrow> serializeSignedClaimTransaction L tx options
   | _ \<Rightarrow> throw ''unsupported escrow transaction kind'')"

text \<open>\<open>getEscrowById\<close>, where \<open>client\<close> answers requests and \<open>id\<close> is the id of the request.\<close>

definition getEscrowById :: "('h, 'a) eth_lib_scheme \<Rightarrow> (JsonRpcRequest \<Rightarrow> JsonRpcResponse result) \<Rightarrow> JsonRpcId
    \<Rightarrow> byte list \<Rightarrow> SmartContractConfig \<Rightarrow> Escrow option result" where
  "getEscrowById L client requestId swapId config =
     (if length swapId \<noteq> 32 then throw ''Swap id must be 32 bytes''
      else andThen (calculateMethodId L ''get(bytes32)'') (\<lambda>methodId.
       andThen (toEthereumHex_bytes (methodId @ swapId)) (\<lambda>data.
       andThen (client \<lparr>req_id = requestId, req_method = ''eth_call'',
           req_params = Arr [Obj [(''to'', Str (cfg_address config)), (''data'', Str data)]]\<rparr>) (\<lambda>swapsResponse.
       case swapsResponse of
         ErrorResponse _ error \<Rightarrow> throw ''error of the node''
       | SuccessResponse _ response \<Rightarrow> (case response of
           Null \<Rightarrow> ok None
         | Str resultText \<Rightarrow>
             andThen (fromHex (normalizeHex resultText)) (\<lambda>resultArray.
             andThen (decodeAddress L (slice 0 32 resultArray)) (\<lambda>sender.
             andThen (decodeAddress L (slice 32 64 resultArray)) (\<lambda>recipient.
             andThen (decodeAddress L (slice 64 96 resultArray)) (\<lambda>arbiter.
             andThen (bn_number L (slice 128 160 resultArray)) (\<lambda>height.
             andThen (bn_number L (slice 192 224 resultArray)) (\<lambda>state.
             ok (Some \<lparr>escrow_sender = sender, escrow_recipient = recipient, escrow_arbiter = arbiter,
               escrow_hash = slice 96 128 resultArray, escrow_timeout = BlockHeightTimeout height,
               escrow_amount = \<lparr>am_quantity = bn_toString L (bn_fromBytes L (slice 160 192 resultArray)),
                 am_fractionalDigits = cfg_fractionalDigits config, am_tokenTicker = cfg_tokenTicker config\<rparr>,
               escrow_state = state\<rparr>)))))))
         | _ \<Rightarrow> throw ''TypeError'')))))"

section \<open>The atomic swap contract\<close>

datatype SwapProcessState = SwapStateOpen | SwapStateClaimed | SwapStateAborted
datatype SwapContractEvent = EventOpened | EventClaimed | EventAborted
datatype SwapContractMethod = MethodOpen | MethodClaim | MethodAbort

definition abiDecodeSwapProcessState :: "('h, 'a) eth_lib_scheme \<Rightarrow> byte list \<Rightarrow> SwapProcessState result" where
  "abiDecodeSwapProcessState L data =
     (if length data \<noteq> 32 then throw ''Input data not 256 bit long''
      else andThen (decodeUint256 L data) (\<lambda>key.
        case map_of [(''1'', SwapStateOpen), (''2'', SwapStateClaimed), (''3'', SwapStateAborted)] key of
          None \<Rightarrow> throw ''Invalid swap process state''
        | Some state \<Rightarrow> ok state))"

text \<open>A table whose keys are made from signatures; of equal keys the last one counts.\<close>

definition signature_table :: "(string \<Rightarrow> byte list result) \<Rightarrow> (string \<times> 'm) list \<Rightarrow> (string \<times> 'm) list result" where
  "signature_table key entries =
     andThen (mapM (\<lambda>(signature, m). andThen (key signature) (\<lambda>h. ok (toHex h, m))) entries) (\<lambda>table. ok (rev table))"

definition abiMethodIds :: "(string \<times> SwapContractMethod) list" where
  "abiMethodIds = [(''open(bytes32,address,bytes32,uint256)'', MethodOpen),
     (''open(bytes32,address,bytes32,uint256,address,uint256)'', MethodOpen),
     (''claim(bytes32,bytes32)'', MethodClaim), (''abort(bytes32)'', MethodAbort)]"

definition abiDecodeMethodId :: "('h, 'a) eth_lib_scheme \<Rightarrow> byte list \<Rightarrow> SwapContractMethod result" where
  "abiDecodeMethodId L data =
     (if length data \<noteq> 4 then throw ''Input data not 32 bit long''
      else andThen (signature_table (calculateMethodId L) abiMethodIds) (\<lambda>table.
        case map_of table (toHex data) of
          None \<Rightarrow> throw ''Invalid method ID'' | Some method \<Rightarrow> ok method))"

definition abiEventSignatures :: "(string \<times> SwapContractEvent) list" where
  "abiEventSignatures = [(''Opened(bytes32,address,address,bytes32,uint256,uint256)'', EventOpened),
     (''Opened(bytes32,address,address,bytes32,uint256,uint256,address)'', EventOpened),
     (''Claimed(bytes32,bytes32)'', EventClaimed), (''Aborted(bytes32)'', EventAborted)]"

definition abiDecodeEventSignature :: "('h, 'a) eth_lib_scheme \<Rightarrow> byte list \<Rightarrow> SwapContractEvent result" where
  "abiDecodeEventSignature L data =
     (if length data \<noteq> 32 then throw ''Input data not 256 bit long''
      else andThen (signature_table (calculateMethodHash L) abiEventSignatures) (\<lambda>table.
        case map_of table (toHex data) of
          None \<Rightarrow> throw ''Invalid event signature'' | Some event \<Rightarrow> ok event))"

section \<open>Building transactions from calls\<close>

text \<open>\<open>[...erc20Tokens.values()].find(...)\<close> with a callback that may throw.\<close>

fun find_token :: "(Erc20Options \<Rightarrow> bool result) \<Rightarrow> Erc20Options list \<Rightarrow> Erc20Options option result" where
  "find_token f [] = ok None"
| "find_token f (t # ts) = andThen (f t) (\<lambda>b. if b then ok (Some t) else find_token f ts)"

definition swap_buildTransaction :: "('h, 'a) eth_lib_scheme \<Rightarrow> byte list \<Rightarrow> Erc20TokensMap \<Rightarrow> ChainId \<Rightarrow> string
    \<Rightarrow> Fee \<Rightarrow> PubkeyBundle \<Rightarrow> string \<Rightarrow> EthTransaction result" where
  "swap_buildTransaction L input erc20Tokens chainId quantity0 fee signerPubkey swapPrefix =
     andThen (abiDecodeMethodId L (slice 0 4 input)) (\<lambda>method.
     let swapIdData = slice 4 36 input;
         transaction = (\<lambda>content. \<lparr>eth_chainId = chainId, eth_fee = Some fee, eth_content = content\<rparr>) in
     case method of
       MethodOpen \<Rightarrow>
         andThen (decodeAddress L (slice 36 68 input)) (\<lambda>recipientAddress.
         andThen (bn_number L (slice 100 132 input)) (\<lambda>timeoutHeight.
         let erc20ContractAddressBytes = slice 132 164 input in
         andThen (if erc20ContractAddressBytes \<noteq> []
             then find_token (\<lambda>t. andThen (decodeAddress L erc20ContractAddressBytes) (\<lambda>a.
                 ok (map lower_char (erc_contractAddress t) = map lower_char a))) (map snd erc20Tokens)
             else ok None) (\<lambda>token.
         andThen (case token of None \<Rightarrow> ok quantity0 | Some _ \<Rightarrow> decodeUint256 L (slice 164 196 input)) (\<lambda>quantity.
         andThen (eth_pubkeyToAddress L signerPubkey) (\<lambda>sender.
         ok (transaction (EthSwapOffer \<lparr>
           offer_swapId = Some \<lparr>swap_prefix = Some (case token of None \<Rightarrow> SwapIdPrefix_Ether | Some _ \<Rightarrow> SwapIdPrefix_Erc20),
             swap_data = swapIdData\<rparr>,
           offer_amounts = [\<lparr>am_quantity = quantity,
             am_fractionalDigits = (case token of None \<Rightarrow> primaryTokenFractionalDigits | Some t \<Rightarrow> erc_decimals t),
             am_tokenTicker = (case token of None \<Rightarrow> primaryTokenTicker | Some t \<Rightarrow> erc_symbol t)\<rparr>],
           offer_sender = sender, offer_recipient = recipientAddress, offer_timeout = BlockHeightTimeout timeoutHeight,
           offer_hash = slice 68 100 input, offer_memo = None\<rparr>)))))))
     | MethodClaim \<Rightarrow>
         ok (transaction (EthSwapClaim \<lparr>claim_preimage = slice 36 68 input,
           claim_swapId = \<lparr>swap_prefix = Some swapPrefix, swap_data = swapIdData\<rparr>\<rparr>))
     | MethodAbort \<Rightarrow>
         ok (transaction (EthSwapAbort \<lparr>abort_swapId = \<lparr>swap_prefix = Some swapPrefix, swap_data = swapIdData\<rparr>\<rparr>)))"

definition methodCallPrefix_transfer :: "('h, 'a) eth_lib_scheme \<Rightarrow> string result" where
  "methodCallPrefix_transfer L = andThen (calculateMethodId L ''transfer(address,uint256)'') toEthereumHex_bytes"

definition methodCallPrefix_approve :: "('h, 'a) eth_lib_scheme \<Rightarrow> string result" where
  "methodCallPrefix_approve L = andThen (calculateMethodId L ''approve(address,uint256)'') toEthereumHex_bytes"

definition erc20_buildTransaction :: "('h, 'a) eth_lib_scheme \<Rightarrow> byte list \<Rightarrow> EthereumRpcTransactionResult \<Rightarrow> Erc20Options
    \<Rightarrow> ChainId \<Rightarrow> Fee \<Rightarrow> PubkeyBundle \<Rightarrow> EthTransaction result" where
  "erc20_buildTransaction L input json erc20Token chainId fee signerPubkey =
     andThen (methodCallPrefix_transfer L) (\<lambda>transfer.
     andThen (methodCallPrefix_approve L) (\<lambda>approve.
     let amount = (\<lambda>quantity. \<lparr>am_quantity = quantity, am_fractionalDigits = erc_decimals erc20Token,
           am_tokenTicker = erc_symbol erc20Token\<rparr>) in
     if startsWith (rpc_input json) transfer then
       andThen (decodeUint256 L (slice 36 68 input)) (\<lambda>quantity.
       andThen (eth_pubkeyToAddress L signerPubkey) (\<lambda>sender.
       andThen (decodeAddress L (slice 4 36 input)) (\<lambda>recipient.
       ok \<lparr>eth_chainId = chainId, eth_fee = Some fee, eth_content = EthSend
         \<lparr>send_amount = amount quantity, send_sender = sender, send_senderPubkey = None,
          send_recipient = recipient, send_memo = None\<rparr>\<rparr>)))
     else if startsWith (rpc_input json) approve then
       andThen (decodeAddress L (slice 4 36 input)) (\<lambda>spender.
       andThen (decodeUint256 L (slice 36 68 input)) (\<lambda>quantity.
       ok \<lparr>eth_chainId = chainId, eth_fee = Some fee, eth_content = Erc20Approve
         \<lparr>ap_spender = spender, ap_amount = amount quantity\<rparr>\<rparr>))
     else throw ''unknown erc23 method''))"

definition custom_buildTransaction :: "('h, 'a) eth_lib_scheme \<Rightarrow> byte list \<Rightarrow> EthereumRpcTransactionResult
    \<Rightarrow> ChainId \<Rightarrow> Fee \<Rightarrow> PubkeyBundle \<Rightarrow> SmartContractConfig \<Rightarrow> EthTransaction result" where
  "custom_buildTransaction L input json chainId fee signerPubkey config = (case cfg_type config of
     EscrowSmartContract \<Rightarrow> escrow_buildTransaction L input json chainId fee signerPubkey config)"

section \<open>Properties\<close>

text \<open>
  Escrow transactions cannot be read: the table of the methods of the escrow
  contract has the whole 32 byte hashes of the signatures as keys, but only the
  first four bytes of a call are looked up in it. So building a transaction
  throws for every input, also for the calls that \<open>open\<close>, \<open>claim\<close> and \<open>abort\<close> of
  the same class make.
\<close>

lemma escrow_calls_never_recognised:
  assumes "eth_laws L"
  shows "escrow_buildTransaction L input json chainId fee signerPubkey config = throw ''Unknown method for escrow contract''"
proof -
  have hash: "\<exists>h. calculateMethodHash L s = ok h \<and> length h = 32" if "list_all printable s" for s
    using that eth_keccak [OF assms] by (simp add: calculateMethodHash_def toAscii_ok)
  have sigs: "list_all printable ''open(bytes32,address,bytes32,uint256)''" "list_all printable ''claim(bytes32,address)''"
      "list_all printable ''abort(bytes32)''"
    by (simp_all add: printable_def)
  obtain a b c where h: "calculateMethodHash L ''open(bytes32,address,bytes32,uint256)'' = ok a" "length a = 32"
      "calculateMethodHash L ''claim(bytes32,address)'' = ok b" "length b = 32"
      "calculateMethodHash L ''abort(bytes32)'' = ok c" "length c = 32"
    using sigs [THEN hash] by blast
  have "length (slice 0 4 input) \<le> 4" by (simp add: slice_def)
  then have "slice 0 4 input \<noteq> a" "slice 0 4 input \<noteq> b" "slice 0 4 input \<noteq> c" using h by auto
  then show ?thesis
    by (simp add: escrow_buildTransaction_def getMethodTypeFromInput_def escrow_METHODS_def h)
qed

end
