(* ===== verification/Eth_Codec.thy ===== *)
theory Eth_Codec
  imports Eth_Contracts
begin

text \<open>
  \<open>packages/iov-ethereum/src/serialization.ts\<close> and \<open>ethereumcodec.ts\<close>: the bytes
  of unsigned and signed Ethereum transactions, and the codec, which reads a
  transaction from what a node reports about it. The lemmas show that the bytes
  that are posted describe the transaction that was signed, where they do not,
  and that a reported transaction is read back.
\<close>

section \<open>Parts of a serialization\<close>

definition encodeNonce :: "('h, 'a) eth_lib_scheme \<Rightarrow> Nonce \<Rightarrow> byte list result" where
  "encodeNonce L nonce =
     andThen (new_Int53 nonce) (\<lambda>checkedNonce.
     if i53_data checkedNonce = 0 then ok []
     else andThen (encodeQuantity L (Int53_toNumber checkedNonce)) (\<lambda>hex. fromHex (normalizeHex hex)))"

definition encodeValue :: "('h, 'a) eth_lib_scheme \<Rightarrow> string \<Rightarrow> byte list result" where
  "encodeValue L quantity0 =
     (if \<not> matches_digits quantity0 then throw ''Invalid string format''
      else let numericValue = bn_fromString L quantity0 in
        if bn_isZero L numericValue then ok [] else ok (bn_toArray L numericValue))"

definition serializeGenericTransaction :: "('h, 'a) eth_lib_scheme \<Rightarrow> Nonce \<Rightarrow> string \<Rightarrow> string \<Rightarrow> Address \<Rightarrow> string
    \<Rightarrow> byte list \<Rightarrow> string \<Rightarrow> byte list option \<Rightarrow> byte list option \<Rightarrow> byte list result" where
  "serializeGenericTransaction L nonce gasPriceHex gasLimitHex recipient quantity0 data v r s =
     andThen (eth_isValidAddress L recipient) (\<lambda>valid.
     if \<not> valid then throw ''Invalid recipient address''
     else
       andThen (encodeNonce L nonce) (\<lambda>nonceBytes.
       andThen (fromHex (normalizeHex gasPriceHex)) (\<lambda>gasPrice.
       andThen (fromHex (normalizeHex gasLimitHex)) (\<lambda>gasLimit.
       andThen (fromHex (normalizeHex recipient)) (\<lambda>to.
       andThen (encodeValue L quantity0) (\<lambda>valueBytes.
       andThen (fromHex (normalizeHex v)) (\<lambda>vBytes.
       ok (toRlp L [nonceBytes, gasPrice, gasLimit, to, valueBytes, data, vBytes,
         case r of None \<Rightarrow> [] | Some b \<Rightarrow> b, case s of None \<Rightarrow> [] | Some b \<Rightarrow> b]))))))))"

definition serializeGenericTransactionObject :: "('h, 'a) eth_lib_scheme \<Rightarrow> GenericTransactionSerializerParameters \<Rightarrow> byte list result" where
  "serializeGenericTransactionObject L params =
     serializeGenericTransaction L (gp_nonce params) (gp_gasPriceHex params) (gp_gasLimitHex params) (gp_recipient params)
       (gp_value params) (gp_data params) (gp_v params) (gp_r params) (gp_s params)"

definition checkSenderPubkeyMatchesSenderAddress :: "('h, 'a) eth_lib_scheme \<Rightarrow> SendTransaction \<Rightarrow> unit result" where
  "checkSenderPubkeyMatchesSenderAddress L tx = (case send_senderPubkey tx of
     None \<Rightarrow> ok ()
   | Some pubkey \<Rightarrow>
       if pk_data pubkey = [] then ok ()
       else andThen (eth_pubkeyToAddress L pubkey) (\<lambda>pubkeyAddress.
         if pubkeyAddress \<noteq> send_sender tx then throw ''Sender pubkey does not match sender address'' else ok ()))"

definition checkRecipientAddress :: "('h, 'a) eth_lib_scheme \<Rightarrow> Address \<Rightarrow> unit result" where
  "checkRecipientAddress L recipient =
     andThen (eth_isValidAddress L recipient) (\<lambda>valid. if \<not> valid then throw ''Invalid recipient address'' else ok ())"

definition checkSwapId :: "SwapId option \<Rightarrow> SwapId result" where
  "checkSwapId swapId = (case swapId of
     None \<Rightarrow> throw ''No swap ID provided''
   | Some i \<Rightarrow> if length (swap_data i) \<noteq> 32 then throw ''Swap ID must be 32 bytes'' else ok i)"

definition checkHash :: "SwapOfferTransaction \<Rightarrow> unit result" where
  "checkHash tx = (if length (offer_hash tx) \<noteq> 32 then throw ''Hash must be 32 bytes'' else ok ())"

definition checkPreimage :: "SwapClaimTransaction \<Rightarrow> unit result" where
  "checkPreimage tx = (if length (claim_preimage tx) \<noteq> 32 then throw ''Preimage must be 32 bytes'' else ok ())"

definition checkAtomicSwapContractAddress :: "Address option \<Rightarrow> Address result" where
  "checkAtomicSwapContractAddress atomicSwapContractAddress = (case atomicSwapContractAddress of
     None \<Rightarrow> throw ''No atomic swap contract address provided''
   | Some a \<Rightarrow> if a = [] then throw ''No atomic swap contract address provided'' else ok a)"

definition checkMemoNotPresent :: "string option \<Rightarrow> unit result" where
  "checkMemoNotPresent memo = (case memo of
     None \<Rightarrow> ok ()
   | Some m \<Rightarrow> if m = [] then ok () else throw ''Memo cannot be serialized in a smart contract-based transaction'')"

definition getChainIdHex :: "('h, 'a) eth_lib_scheme \<Rightarrow> EthTransaction \<Rightarrow> string result" where
  "getChainIdHex L tx = andThen (fromBcpChainId (eth_chainId tx)) (encodeQuantity L)"

definition getGasPriceHex :: "('h, 'a) eth_lib_scheme \<Rightarrow> EthTransaction \<Rightarrow> string result" where
  "getGasPriceHex L tx = (case eth_fee tx of
     None \<Rightarrow> throw ''fee.gasPrice must be set''
   | Some fee \<Rightarrow> (case fee_gasPrice fee of
       None \<Rightarrow> throw ''fee.gasPrice must be set''
     | Some gasPrice \<Rightarrow> encodeQuantityString L (am_quantity gasPrice)))"

definition getGasLimitHex :: "('h, 'a) eth_lib_scheme \<Rightarrow> EthTransaction \<Rightarrow> string result" where
  "getGasLimitHex L tx = (case eth_fee tx of
     None \<Rightarrow> throw ''fee.gasLimit must be set''
   | Some fee \<Rightarrow> (case fee_gasLimit fee of
       None \<Rightarrow> throw ''fee.gasLimit must be set''
     | Some gasLimit \<Rightarrow> if gasLimit = [] then throw ''fee.gasLimit must be set'' else encodeQuantityString L gasLimit))"

text \<open>\<open>getErc20Token\<close>, by the ticker of the amount of the transaction.\<close>

definition getErc20Token :: "EthContent \<Rightarrow> Erc20TokensMap \<Rightarrow> Erc20Options result" where
  "getErc20Token transaction erc20Tokens =
     andThen (case transaction of
        EthSend tx \<Rightarrow> ok (am_tokenTicker (send_amount tx))
      | Erc20Approve tx \<Rightarrow> ok (am_tokenTicker (ap_amount tx))
      | EthSwapOffer tx \<Rightarrow> (case offer_amounts tx of [] \<Rightarrow> throw ''TypeError'' | amount # _ \<Rightarrow> ok (am_tokenTicker amount))
      | _ \<Rightarrow> throw ''Cannot get ERC20 token for unsupported transaction type'') (\<lambda>ticker.
     case map_of erc20Tokens ticker of
       None \<Rightarrow> throw ''No ERC20 token configured for ticker''
     | Some erc20Token \<Rightarrow> ok erc20Token)"

section \<open>Calls\<close>

definition buildErc20TransferCall :: "('h, 'a) eth_lib_scheme \<Rightarrow> SendTransaction \<Rightarrow> byte list result" where
  "buildErc20TransferCall L tx =
     andThen (calculateMethodId L ''transfer(address,uint256)'') (\<lambda>methodId.
     andThen (encodeAddress L (send_recipient tx)) (\<lambda>recipient.
     andThen (encodeUint256 L (am_quantity (send_amount tx))) (\<lambda>quantity.
     ok (methodId @ recipient @ quantity))))"

definition buildErc20ApproveCall :: "('h, 'a) eth_lib_scheme \<Rightarrow> Erc20ApproveTransaction \<Rightarrow> byte list result" where
  "buildErc20ApproveCall L tx =
     andThen (calculateMethodId L ''approve(address,uint256)'') (\<lambda>methodId.
     andThen (encodeAddress L (ap_spender tx)) (\<lambda>spender.
     andThen (encodeUint256 L (am_quantity (ap_amount tx))) (\<lambda>quantity.
     ok (methodId @ spender @ quantity))))"

definition buildAtomicSwapOfferEtherCall :: "('h, 'a) eth_lib_scheme \<Rightarrow> SwapOfferTransaction \<Rightarrow> byte list result" where
  "buildAtomicSwapOfferEtherCall L tx = (case offer_swapId tx of
     None \<Rightarrow> throw ''Could not build atomic swap offer call: swapId required''
   | Some swapId \<Rightarrow>
       andThen (calculateMethodId L ''open(bytes32,address,bytes32,uint256)'') (\<lambda>methodId.
       andThen (encodeAddress L (offer_recipient tx)) (\<lambda>recipient.
       andThen (encodeHeight L (offer_timeout tx)) (\<lambda>height.
       ok (methodId @ swap_data swapId @ recipient @ offer_hash tx @ height)))))"

definition buildAtomicSwapOfferErc20Call :: "('h, 'a) eth_lib_scheme \<Rightarrow> SwapOfferTransaction \<Rightarrow> Address \<Rightarrow> byte list result" where
  "buildAtomicSwapOfferErc20Call L tx erc20ContractAddress = (case offer_swapId tx of
     None \<Rightarrow> throw ''Could not build atomic swap offer call: swapId required''
   | Some swapId \<Rightarrow>
       andThen (calculateMethodId L ''open(bytes32,address,bytes32,uint256,address,uint256)'') (\<lambda>methodId.
       andThen (encodeAddress L (offer_recipient tx)) (\<lambda>recipient.
       andThen (encodeHeight L (offer_timeout tx)) (\<lambda>height.
       andThen (encodeAddress L erc20ContractAddress) (\<lambda>contract.
       case offer_amounts tx of [] \<Rightarrow> throw ''TypeError''
       | amount # _ \<Rightarrow> andThen (encodeUint256 L (am_quantity amount)) (\<lambda>quantity.
         ok (methodId @ swap_data swapId @ recipient @ offer_hash tx @ height @ contract @ quantity)))))))"

definition buildAtomicSwapClaimCall :: "('h, 'a) eth_lib_scheme \<Rightarrow> SwapClaimTransaction \<Rightarrow> byte list result" where
  "buildAtomicSwapClaimCall L tx =
     andThen (calculateMethodId L ''claim(bytes32,bytes32)'') (\<lambda>methodId.
     ok (methodId @ swap_data (claim_swapId tx) @ claim_preimage tx))"

definition buildAtomicSwapAbortCall :: "('h, 'a) eth_lib_scheme \<Rightarrow> SwapAbortTransaction \<Rightarrow> byte list result" where
  "buildAtomicSwapAbortCall L tx =
     andThen (calculateMethodId L ''abort(bytes32)'') (\<lambda>methodId. ok (methodId @ swap_data (abort_swapId tx)))"

section \<open>Unsigned transactions\<close>

text \<open>The serialization with the options of an unsigned transaction, without a signature.\<close>

definition generic_unsigned :: "('h, 'a) eth_lib_scheme \<Rightarrow> UnsignedSerializationOptions \<Rightarrow> Address \<Rightarrow> string \<Rightarrow> byte list
    \<Rightarrow> byte list result" where
  "generic_unsigned L options recipient quantity0 data =
     serializeGenericTransaction L (uo_nonce options) (uo_gasPriceHex options) (uo_gasLimitHex options) recipient
       quantity0 data (uo_chainIdHex options) None None"

definition serializeUnsignedSendTransaction :: "('h, 'a) eth_lib_scheme \<Rightarrow> SendTransaction \<Rightarrow> UnsignedSerializationOptions
    \<Rightarrow> byte list result" where
  "serializeUnsignedSendTransaction L tx options =
     andThen (checkSenderPubkeyMatchesSenderAddress L tx) (\<lambda>_.
     andThen (checkRecipientAddress L (send_recipient tx)) (\<lambda>_.
     if am_tokenTicker (send_amount tx) \<noteq> primaryTokenTicker then
       andThen (checkMemoNotPresent (send_memo tx)) (\<lambda>_.
       andThen (getErc20Token (EthSend tx) (uo_erc20Tokens options)) (\<lambda>erc20Token.
       andThen (buildErc20TransferCall L tx) (\<lambda>erc20TransferCall.
       generic_unsigned L options (erc_contractAddress erc20Token) ZERO_ETH_QUANTITY erc20TransferCall)))
     else
       let data = toUtf8 (case send_memo tx of None \<Rightarrow> [] | Some m \<Rightarrow> m) in
       generic_unsigned L options (send_recipient tx) (am_quantity (send_amount tx)) data))"

definition serializeUnsignedSwapOfferTransaction :: "('h, 'a) eth_lib_scheme \<Rightarrow> SwapOfferTransaction \<Rightarrow> UnsignedSerializationOptions
    \<Rightarrow> byte list result" where
  "serializeUnsignedSwapOfferTransaction L tx options =
     andThen (checkSwapId (offer_swapId tx)) (\<lambda>swapId.
     andThen (checkHash tx) (\<lambda>_.
     andThen (checkRecipientAddress L (offer_recipient tx)) (\<lambda>_.
     andThen (checkMemoNotPresent (offer_memo tx)) (\<lambda>_.
     andThen (checkAtomicSwapContractAddress (uo_atomicSwapContractAddress options)) (\<lambda>atomicSwapContractAddress.
     if \<not> isBlockHeightTimeout (offer_timeout tx) then throw ''Timeout must be specified as a block height''
     else if swap_prefix swapId = Some SwapIdPrefix_Ether then
       andThen (checkEtherAmount (offer_amounts tx)) (\<lambda>_.
       andThen (buildAtomicSwapOfferEtherCall L tx) (\<lambda>atomicSwapOfferCall.
       generic_unsigned L options atomicSwapContractAddress (am_quantity (hd (offer_amounts tx))) atomicSwapOfferCall))
     else
       andThen (checkErc20Amount (offer_amounts tx) (uo_erc20Tokens options)) (\<lambda>_.
       andThen (getErc20Token (EthSwapOffer tx) (uo_erc20Tokens options)) (\<lambda>erc20Token.
       andThen (buildAtomicSwapOfferErc20Call L tx (erc_contractAddress erc20Token)) (\<lambda>atomicSwapOfferCall.
       generic_unsigned L options atomicSwapContractAddress ZERO_ETH_QUANTITY atomicSwapOfferCall))))))))"

definition serializeUnsignedSwapClaimTransaction :: "('h, 'a) eth_lib_scheme \<Rightarrow> SwapClaimTransaction \<Rightarrow> UnsignedSerializationOptions
    \<Rightarrow> byte list result" where
  "serializeUnsignedSwapClaimTransaction L tx options =
     andThen (checkSwapId (Some (claim_swapId tx))) (\<lambda>_.
     andThen (checkPreimage tx) (\<lambda>_.
     andThen (checkAtomicSwapContractAddress (uo_atomicSwapContractAddress options)) (\<lambda>atomicSwapContractAddress.
     andThen (buildAtomicSwapClaimCall L tx) (\<lambda>atomicSwapClaimCall.
     generic_unsigned L options atomicSwapContractAddress ZERO_ETH_QUANTITY atomicSwapClaimCall))))"

definition serializeUnsignedSwapAbortTransaction :: "('h, 'a) eth_lib_scheme \<Rightarrow> SwapAbortTransaction \<Rightarrow> UnsignedSerializationOptions
    \<Rightarrow> byte list result" where
  "serializeUnsignedSwapAbortTransaction L tx options =
     andThen (checkSwapId (Some (abort_swapId tx))) (\<lambda>_.
     andThen (checkAtomicSwapContractAddress (uo_atomicSwapContractAddress options)) (\<lambda>atomicSwapContractAddress.
     andThen (buildAtomicSwapAbortCall L tx) (\<lambda>atomicSwapAbortCall.
     generic_unsigned L options atomicSwapContractAddress ZERO_ETH_QUANTITY atomicSwapAbortCall)))"

definition serializeUnsignedErc20ApproveTransaction :: "('h, 'a) eth_lib_scheme \<Rightarrow> Erc20ApproveTransaction
    \<Rightarrow> UnsignedSerializationOptions \<Rightarrow> byte list result" where
  "serializeUnsignedErc20ApproveTransaction L tx options =
     andThen (getErc20Token (Erc20Approve tx) (uo_erc20Tokens options)) (\<lambda>erc20Token.
     andThen (buildErc20ApproveCall L tx) (\<lambda>erc20ApproveCall.
     generic_unsigned L options (erc_contractAddress erc20Token) ZERO_ETH_QUANTITY erc20ApproveCall))"

definition serializeUnsignedTransaction :: "('h, 'a) eth_lib_scheme \<Rightarrow> EthTransaction \<Rightarrow> Nonce \<Rightarrow> Erc20TokensMap
    \<Rightarrow> Address option \<Rightarrow> Address option \<Rightarrow> byte list result" where
  "serializeUnsignedTransaction L tx nonce erc20Tokens atomicSwapContractAddress customSmartContractAddress =
     andThen (getChainIdHex L tx) (\<lambda>chainIdHex.
     andThen (getGasPriceHex L tx) (\<lambda>gasPriceHex.
     andThen (getGasLimitHex L tx) (\<lambda>gasLimitHex.
     let options = \<lparr>uo_chainIdHex = chainIdHex, uo_gasPriceHex = gasPriceHex, uo_gasLimitHex = gasLimitHex,
           uo_nonce = nonce, uo_erc20Tokens = erc20Tokens, uo_atomicSwapContractAddress = atomicSwapContractAddress,
           uo_customSmartContractAddress = customSmartContractAddress\<rparr> in
     case eth_content tx of
       EthSend c \<Rightarrow> serializeUnsignedSendTransaction L c options
     | EthSwapOffer c \<Rightarrow> serializeUnsignedSwapOfferTransaction L c options
     | EthSwapClaim c \<Rightarrow> serializeUnsignedSwapClaimTransaction L c options
     | EthSwapAbort c \<Rightarrow> serializeUnsignedSwapAbortTransaction L c options
     | Erc20Approve c \<Rightarrow> serializeUnsignedErc20ApproveTransaction L c options
     | c \<Rightarrow> if isEscrowTransaction c
         then andThen (escrow_serializeUnsigned L c options) (serializeGenericTransactionObject L)
         else throw ''Unsupported kind of transaction'')))"

section \<open>Signed transactions\<close>

definition generic_signed :: "('h, 'a) eth_lib_scheme \<Rightarrow> SignedSerializationOptions \<Rightarrow> Address \<Rightarrow> string \<Rightarrow> byte list
    \<Rightarrow> byte list result" where
  "generic_signed L options recipient quantity0 data =
     serializeGenericTransaction L (so_nonce options) (so_gasPriceHex options) (so_gasLimitHex options) recipient
       quantity0 data (so_v options) (Some (so_r options)) (Some (so_s options))"

definition serializeSignedSendTransaction :: "('h, 'a) eth_lib_scheme \<Rightarrow> SendTransaction \<Rightarrow> SignedSerializationOptions
    \<Rightarrow> byte list result" where
  "serializeSignedSendTransaction L tx options =
     andThen (checkSenderPubkeyMatchesSenderAddress L tx) (\<lambda>_.
     andThen (checkRecipientAddress L (send_recipient tx)) (\<lambda>_.
     if am_tokenTicker (send_amount tx) \<noteq> primaryTokenTicker then
       andThen (checkMemoNotPresent (send_memo tx)) (\<lambda>_.
       andThen (getErc20Token (EthSend tx) (so_erc20Tokens options)) (\<lambda>erc20Token.
       andThen (buildErc20TransferCall L tx) (\<lambda>erc20TransferCall.
       generic_signed L options (erc_contractAddress erc20Token) ZERO_ETH_QUANTITY erc20TransferCall)))
     else
       let data = toUtf8 (case send_memo tx of None \<Rightarrow> [] | Some m \<Rightarrow> m) in
       generic_signed L options (send_recipient tx) (am_quantity (send_amount tx)) data))"

definition serializeSignedSwapOfferTransaction :: "('h, 'a) eth_lib_scheme \<Rightarrow> SwapOfferTransaction \<Rightarrow> SignedSerializationOptions
    \<Rightarrow> byte list result" where
  "serializeSignedSwapOfferTransaction L tx options =
     andThen (checkSwapId (offer_swapId tx)) (\<lambda>swapId.
     andThen (checkHash tx) (\<lambda>_.
     andThen (checkRecipientAddress L (offer_recipient tx)) (\<lambda>_.
     andThen (checkMemoNotPresent (offer_memo tx)) (\<lambda>_.
     andThen (checkAtomicSwapContractAddress (so_atomicSwapContractAddress options)) (\<lambda>atomicSwapContractAddress.
     if \<not> isBlockHeightTimeout (offer_timeout tx) then throw ''Timeout must be specified as a block height''
     else if swap_prefix swapId = Some SwapIdPrefix_Ether then
       andThen (checkEtherAmount (offer_amounts tx)) (\<lambda>_.
       andThen (buildAtomicSwapOfferEtherCall L tx) (\<lambda>atomicSwapOfferCall.
       generic_signed L options atomicSwapContractAddress (am_quantity (hd (offer_amounts tx))) atomicSwapOfferCall))
     else
       andThen (checkErc20Amount (offer_amounts tx) (so_erc20Tokens options)) (\<lambda>_.
       andThen (getErc20Token (EthSwapOffer tx) (so_erc20Tokens options)) (\<lambda>erc20Token.
       andThen (buildAtomicSwapOfferErc20Call L tx (erc_contractAddress erc20Token)) (\<lambda>atomicSwapOfferCall.
       generic_signed L options atomicSwapContractAddress ZERO_ETH_QUANTITY atomicSwapOfferCall))))))))"

definition serializeSignedSwapClaimTransaction :: "('h, 'a) eth_lib_scheme \<Rightarrow> SwapClaimTransaction \<Rightarrow> SignedSerializationOptions
    \<Rightarrow> byte list result" where
  "serializeSignedSwapClaimTransaction L tx options =
     andThen (checkSwapId (Some (claim_swapId tx))) (\<lambda>_.
     andThen (checkPreimage tx) (\<lambda>_.
     andThen (checkAtomicSwapContractAddress (so_atomicSwapContractAddress options)) (\<lambda>atomicSwapContractAddress.
     andThen (buildAtomicSwapClaimCall L tx) (\<lambda>atomicSwapClaimCall.
     generic_signed L options atomicSwapContractAddress ZERO_ETH_QUANTITY atomicSwapClaimCall))))"

definition serializeSignedSwapAbortTransaction :: "('h, 'a) eth_lib_scheme \<Rightarrow> SwapAbortTransaction \<Rightarrow> SignedSerializationOptions
    \<Rightarrow> byte list result" where
  "serializeSignedSwapAbortTransaction L tx options =
     andThen (checkSwapId (Some (abort_swapId tx))) (\<lambda>_.
     andThen (checkAtomicSwapContractAddress (so_atomicSwapContractAddress options)) (\<lambda>atomicSwapContractAddress.
     andThen (buildAtomicSwapAbortCall L tx) (\<lambda>atomicSwapAbortCall.
     generic_signed L options atomicSwapContractAddress ZERO_ETH_QUANTITY atomicSwapAbortCall)))"

definition serializeSignedErc20ApproveTransaction :: "('h, 'a) eth_lib_scheme \<Rightarrow> Erc20ApproveTransaction
    \<Rightarrow> SignedSerializationOptions \<Rightarrow> byte list result" where
  "serializeSignedErc20ApproveTransaction L tx options =
     andThen (getErc20Token (Erc20Approve tx) (so_erc20Tokens options)) (\<lambda>erc20Token.
     andThen (buildErc20ApproveCall L tx) (\<lambda>erc20ApproveCall.
     generic_signed L options (erc_contractAddress erc20Token) ZERO_ETH_QUANTITY erc20ApproveCall))"

definition serializeSignedTransaction :: "('h, 'a) eth_lib_scheme \<Rightarrow> EthTransaction SignedTx \<Rightarrow> Erc20TokensMap
    \<Rightarrow> Address option \<Rightarrow> Address option \<Rightarrow> byte list result" where
  "serializeSignedTransaction L signedTx erc20Tokens atomicSwapContractAddress customSmartContractAddress =
     (case stx_signatures signedTx of [] \<Rightarrow> throw ''TypeError'' | signature # _ \<Rightarrow>
     let tx = stx_transaction signedTx in
     andThen (Extended_fromFixedLength (sig_signature signature)) (\<lambda>sig.
     andThen (Secp256k1Signature_r sig None) (\<lambda>r.
     andThen (Secp256k1Signature_s sig None) (\<lambda>s.
     andThen (fromBcpChainId (eth_chainId tx)) (\<lambda>chainId.
     let chain = (if floor_num chainId > 0 then Forked (floor_num chainId) else BeforeFork) in
     andThen (eip155V chain (floor_num (recovery sig))) (\<lambda>v0.
     andThen (encodeQuantity L (int_num v0)) (\<lambda>v.
     andThen (getGasPriceHex L tx) (\<lambda>gasPriceHex.
     andThen (getGasLimitHex L tx) (\<lambda>gasLimitHex.
     let options = \<lparr>so_v = v, so_r = r, so_s = s, so_gasPriceHex = gasPriceHex, so_gasLimitHex = gasLimitHex,
           so_nonce = sig_nonce signature, so_erc20Tokens = erc20Tokens,
           so_atomicSwapContractAddress = atomicSwapContractAddress,
           so_customSmartContractAddress = customSmartContractAddress\<rparr> in
     case eth_content tx of
       EthSend c \<Rightarrow> serializeSignedSendTransaction L c options
     | EthSwapOffer c \<Rightarrow> serializeSignedSwapOfferTransaction L c options
     | EthSwapClaim c \<Rightarrow> serializeSignedSwapClaimTransaction L c options
     | EthSwapAbort c \<Rightarrow> serializeSignedSwapAbortTransaction L c options
     | Erc20Approve c \<Rightarrow> serializeSignedErc20ApproveTransaction L c options
     | c \<Rightarrow> if isEscrowTransaction c
         then andThen (escrow_serializeSigned L c options) (serializeGenericTransactionObject L)
         else throw ''Unsupported kind of transaction'')))))))))"

section \<open>The codec\<close>

record EthereumCodec =
  ec_atomicSwapEtherContractAddress :: "Address option"
  ec_atomicSwapErc20ContractAddress :: "Address option"
  ec_customSmartContractConfig :: "SmartContractConfig option"
  ec_erc20Tokens :: Erc20TokensMap

text \<open>\<open>hexstring.match(/.{1,16}/g)\<close>, joined by spaces.\<close>

fun chunks_joined :: "string \<Rightarrow> string" where
  "chunks_joined s = (if length s \<le> 16 then s else take 16 s @ '' '' @ chunks_joined (drop 16 s))"

declare chunks_joined.simps [simp del]

definition getMemoFromInput :: "('h, 'a) eth_lib_scheme \<Rightarrow> byte list \<Rightarrow> string" where
  "getMemoFromInput L input = (case utf8_decode L input of
     Inr memo \<Rightarrow> memo
   | Inl e \<Rightarrow> chunks_joined (toHex input))"

definition getCustomSmartContractAddress :: "EthereumCodec \<Rightarrow> Address option" where
  "getCustomSmartContractAddress C = (case ec_customSmartContractConfig C of
     None \<Rightarrow> None | Some config \<Rightarrow> Some (cfg_address config))"

definition getAtomicSwapContractAddress :: "EthereumCodec \<Rightarrow> EthContent \<Rightarrow> Address option" where
  "getAtomicSwapContractAddress C tx =
     (let maybeSwapId = (case tx of
          EthSwapOffer c \<Rightarrow> offer_swapId c | EthSwapClaim c \<Rightarrow> Some (claim_swapId c)
        | EthSwapAbort c \<Rightarrow> Some (abort_swapId c) | _ \<Rightarrow> None)
      in case maybeSwapId of None \<Rightarrow> None
       | Some swapId \<Rightarrow> if swap_prefix swapId = Some SwapIdPrefix_Ether
           then ec_atomicSwapEtherContractAddress C else ec_atomicSwapErc20ContractAddress C)"

definition eth_bytesToSign :: "('h, 'a) eth_lib_scheme \<Rightarrow> EthereumCodec \<Rightarrow> EthTransaction \<Rightarrow> Nonce \<Rightarrow> SigningJob result" where
  "eth_bytesToSign L C tx nonce =
     andThen (serializeUnsignedTransaction L tx nonce (ec_erc20Tokens C) (getAtomicSwapContractAddress C (eth_content tx))
       (getCustomSmartContractAddress C)) (\<lambda>bytes.
     ok \<lparr>job_bytes = bytes, job_prehashType = PrehashKeccak256\<rparr>)"

definition eth_bytesToPost :: "('h, 'a) eth_lib_scheme \<Rightarrow> EthereumCodec \<Rightarrow> EthTransaction SignedTx \<Rightarrow> byte list result" where
  "eth_bytesToPost L C signedTx =
     serializeSignedTransaction L signedTx (ec_erc20Tokens C)
       (getAtomicSwapContractAddress C (eth_content (stx_transaction signedTx))) (getCustomSmartContractAddress C)"

text \<open>The first of the two contracts of the codec that the transaction is sent to.\<close>

definition swap_contract_of :: "('h, 'a) eth_lib_scheme \<Rightarrow> EthereumCodec \<Rightarrow> string \<Rightarrow> Address option result" where
  "swap_contract_of L C to =
     (let candidates = List.map_filter id [ec_atomicSwapEtherContractAddress C, ec_atomicSwapErc20ContractAddress C] in
      if candidates = [] then ok None
      else andThen (toChecksummedAddress L to) (\<lambda>recipient.
        ok (find (\<lambda>address. map lower_char recipient = map lower_char address) candidates)))"

definition parseBytesBuildTransaction :: "('h, 'a) eth_lib_scheme \<Rightarrow> EthereumCodec \<Rightarrow> byte list \<Rightarrow> EthereumRpcTransactionResult
    \<Rightarrow> string \<Rightarrow> ChainId \<Rightarrow> PubkeyBundle \<Rightarrow> EthTransaction result" where
  "parseBytesBuildTransaction L C input json quantity0 chainId signerPubkey =
     andThen (decodeHexQuantityString L (rpc_gas json)) (\<lambda>gasLimit.
     andThen (decodeHexQuantityString L (rpc_gasPrice json)) (\<lambda>gasPrice.
     let fee = \<lparr>fee_tokens = None,
           fee_gasPrice = Some \<lparr>am_quantity = gasPrice, am_fractionalDigits = primaryTokenFractionalDigits,
             am_tokenTicker = primaryTokenTicker\<rparr>,
           fee_gasLimit = Some gasLimit, fee_payer = None\<rparr> in
     andThen (swap_contract_of L C (rpc_to json)) (\<lambda>atomicSwapContractAddress.
     andThen (find_token (\<lambda>options. andThen (toChecksummedAddress L (rpc_to json)) (\<lambda>recipient.
         ok (map lower_char (erc_contractAddress options) = map lower_char recipient))) (map snd (ec_erc20Tokens C))) (\<lambda>erc20Token.
     case ec_customSmartContractConfig C of
       Some config \<Rightarrow> custom_buildTransaction L input json chainId fee signerPubkey config
     | None \<Rightarrow> (case atomicSwapContractAddress of
         Some address \<Rightarrow>
           let swapPrefix = (if ec_atomicSwapErc20ContractAddress C = Some address then SwapIdPrefix_Erc20 else SwapIdPrefix_Ether) in
           swap_buildTransaction L input (ec_erc20Tokens C) chainId quantity0 fee signerPubkey swapPrefix
       | None \<Rightarrow> (case erc20Token of
           Some token \<Rightarrow> erc20_buildTransaction L input json token chainId fee signerPubkey
         | None \<Rightarrow>
             andThen (eth_pubkeyToAddress L signerPubkey) (\<lambda>sender.
             andThen (decodeHexQuantityString L (rpc_value json)) (\<lambda>quantity.
             andThen (toChecksummedAddress L (rpc_to json)) (\<lambda>recipient.
             ok \<lparr>eth_chainId = chainId, eth_fee = Some fee, eth_content = EthSend
               \<lparr>send_amount = \<lparr>am_quantity = quantity, am_fractionalDigits = primaryTokenFractionalDigits,
                  am_tokenTicker = primaryTokenTicker\<rparr>,
                send_sender = sender, send_senderPubkey = None, send_recipient = recipient,
                send_memo = Some (getMemoFromInput L input)\<rparr>\<rparr>)))))))))"

text \<open>\<open>parseBytes\<close> after \<open>JSON.parse\<close> of the bytes.\<close>

definition parseReported :: "('h, 'a) eth_lib_scheme \<Rightarrow> EthereumCodec \<Rightarrow> EthereumRpcTransactionResult \<Rightarrow> ChainId
    \<Rightarrow> EthTransaction SignedTx result" where
  "parseReported L C json chainId =
     andThen (decodeHexQuantityNonce (rpc_nonce json)) (\<lambda>nonce.
     andThen (decodeHexQuantityString L (rpc_value json)) (\<lambda>quantity0.
     andThen (fromHex (normalizeHex (rpc_input json))) (\<lambda>input.
     andThen (fromBcpChainId chainId) (\<lambda>numericChainId.
     andThen (fromHex (normalizeHex (rpc_r json))) (\<lambda>r.
     andThen (fromHex (normalizeHex (rpc_s json))) (\<lambda>s.
     andThen (decodeHexQuantity (rpc_v json)) (\<lambda>v.
     andThen (getRecoveryParam (Forked (floor_num numericChainId)) v) (\<lambda>recoveryParam.
     andThen (new_ExtendedSecp256k1Signature r s recoveryParam) (\<lambda>signature.
     andThen (Extended_toFixedLength signature) (\<lambda>signatureBytes.
     andThen (encodeQuantity L numericChainId) (\<lambda>chainIdHex.
     andThen (serializeGenericTransaction L nonce (rpc_gasPrice json) (rpc_gas json) (rpc_to json) quantity0 input chainIdHex
       None None) (\<lambda>message.
     andThen (recoverPubkey L signature (cl_keccak256 L message)) (\<lambda>pubkeyData.
     let signerPubkey = \<lparr>pk_algo = Secp256k1, pk_data = pubkeyData\<rparr> in
     andThen (parseBytesBuildTransaction L C input json quantity0 chainId signerPubkey) (\<lambda>transaction.
     ok \<lparr>stx_transaction = transaction,
       stx_signatures = [\<lparr>sig_nonce = nonce, sig_pubkey = signerPubkey, sig_signature = signatureBytes\<rparr>]\<rparr>))))))))))))))"

definition eth_identifier :: "EthTransaction SignedTx \<Rightarrow> string result" where
  "eth_identifier signedTx = throw ''Not implemented tx''"

text \<open>The codec as the multi chain signer takes it; \<open>parse_json\<close> is \<open>JSON.parse\<close> of the UTF-8 text.\<close>

definition ethereumCodec :: "('h, 'a) eth_lib_scheme \<Rightarrow> (byte list \<Rightarrow> EthereumRpcTransactionResult result) \<Rightarrow> EthereumCodec
    \<Rightarrow> EthTransaction TxCodec" where
  "ethereumCodec L parse_json C = \<lparr>
     codec_parseBytes = (\<lambda>bytes chainId. andThen (parse_json bytes) (\<lambda>json. parseReported L C json chainId)),
     codec_identityToAddress = (\<lambda>identity. eth_pubkeyToAddress L (id_pubkey identity)),
     codec_isValidAddress = (\<lambda>address. eth_isValidAddress L address = ok True),
     codec_bytesToSign = eth_bytesToSign L C, codec_bytesToPost = eth_bytesToPost L C,
     codec_identifier = eth_identifier\<rparr>"

section \<open>What the two serializations have in common\<close>

text \<open>The options made from an unsigned transaction and from a signed one.\<close>

definition options_agree :: "UnsignedSerializationOptions \<Rightarrow> SignedSerializationOptions \<Rightarrow> bool" where
  "options_agree uo so \<longleftrightarrow> so_nonce so = uo_nonce uo \<and> so_gasPriceHex so = uo_gasPriceHex uo \<and>
     so_gasLimitHex so = uo_gasLimitHex uo \<and> so_erc20Tokens so = uo_erc20Tokens uo \<and>
     so_atomicSwapContractAddress so = uo_atomicSwapContractAddress uo \<and>
     so_customSmartContractAddress so = uo_customSmartContractAddress uo"

text \<open>Both serializations describe the same call: recipient, value and data.\<close>

definition same_call :: "('h, 'a) eth_lib_scheme \<Rightarrow> UnsignedSerializationOptions \<Rightarrow> SignedSerializationOptions \<Rightarrow> byte list
    \<Rightarrow> byte list result \<Rightarrow> bool" where
  "same_call L uo so b signedResult \<longleftrightarrow> (\<exists>recipient quantity0 data.
     generic_unsigned L uo recipient quantity0 data = ok b \<and> signedResult = generic_signed L so recipient quantity0 data)"

lemma same_callI:
  "generic_unsigned L uo recipient quantity0 data = ok b \<Longrightarrow>
   same_call L uo so b (generic_signed L so recipient quantity0 data)"
  by (auto simp: same_call_def)

lemma same_call_send:
  assumes "serializeUnsignedSendTransaction L tx uo = ok b" "options_agree uo so"
  shows "same_call L uo so b (serializeSignedSendTransaction L tx so)"
  using assms by (auto simp: serializeUnsignedSendTransaction_def serializeSignedSendTransaction_def options_agree_def
      andThen_eq_Inr Let_def intro!: same_callI split: if_splits)

lemma same_call_offer:
  assumes "serializeUnsignedSwapOfferTransaction L tx uo = ok b" "options_agree uo so"
  shows "same_call L uo so b (serializeSignedSwapOfferTransaction L tx so)"
  using assms by (auto simp: serializeUnsignedSwapOfferTransaction_def serializeSignedSwapOfferTransaction_def options_agree_def
      andThen_eq_Inr intro!: same_callI split: if_splits)

lemma same_call_claim:
  assumes "serializeUnsignedSwapClaimTransaction L tx uo = ok b" "options_agree uo so"
  shows "same_call L uo so b (serializeSignedSwapClaimTransaction L tx so)"
  using assms by (auto simp: serializeUnsignedSwapClaimTransaction_def serializeSignedSwapClaimTransaction_def options_agree_def
      andThen_eq_Inr intro!: same_callI)

lemma same_call_abort:
  assumes "serializeUnsignedSwapAbortTransaction L tx uo = ok b" "options_agree uo so"
  shows "same_call L uo so b (serializeSignedSwapAbortTransaction L tx so)"
  using assms by (auto simp: serializeUnsignedSwapAbortTransaction_def serializeSignedSwapAbortTransaction_def options_agree_def
      andThen_eq_Inr intro!: same_callI)

lemma same_call_approve:
  assumes "serializeUnsignedErc20ApproveTransaction L tx uo = ok b" "options_agree uo so"
  shows "same_call L uo so b (serializeSignedErc20ApproveTransaction L tx so)"
  using assms by (auto simp: serializeUnsignedErc20ApproveTransaction_def serializeSignedErc20ApproveTransaction_def
      options_agree_def andThen_eq_Inr intro!: same_callI)

lemma serialize_parameters:
  "serializeGenericTransactionObject L (unsigned_parameters uo recipient quantity0 data) = generic_unsigned L uo recipient quantity0 data"
  "serializeGenericTransactionObject L (signed_parameters so recipient quantity0 data) = generic_signed L so recipient quantity0 data"
  by (simp_all add: serializeGenericTransactionObject_def unsigned_parameters_def signed_parameters_def generic_unsigned_def
      generic_signed_def)

text \<open>The escrow transactions for which the two functions disagree about the value.\<close>

definition erc20_escrow_open :: "EthContent \<Rightarrow> bool" where
  "erc20_escrow_open content = (case content of
     EscrowOpen tx \<Rightarrow> swap_prefix (esc_swapId tx) \<noteq> Some SwapIdPrefix_Ether | _ \<Rightarrow> False)"

lemma same_call_escrow:
  assumes "andThen (escrow_serializeUnsigned L content uo) (serializeGenericTransactionObject L) = ok b"
    and "options_agree uo so" "\<not> erc20_escrow_open content"
  shows "same_call L uo so b (andThen (escrow_serializeSigned L content so) (serializeGenericTransactionObject L))"
proof (cases content)
  case (EscrowOpen tx)
  with assms show ?thesis
    by (auto simp: escrow_serializeUnsigned_def escrow_serializeSigned_def erc20_escrow_open_def options_agree_def andThen_eq_Inr
        serializeUnsignedOpenTransaction_def serializeSignedOpenTransaction_def serialize_parameters
        intro!: same_callI split: if_splits)
next
  case (EscrowClaim tx)
  with assms show ?thesis
    by (auto simp: escrow_serializeUnsigned_def escrow_serializeSigned_def options_agree_def andThen_eq_Inr
        serializeUnsignedClaimTransaction_def serializeSignedClaimTransaction_def serialize_parameters intro!: same_callI)
next
  case (EscrowAbort tx)
  with assms show ?thesis
    by (auto simp: escrow_serializeUnsigned_def escrow_serializeSigned_def options_agree_def andThen_eq_Inr
        serializeUnsignedAbortTransaction_def serializeSignedAbortTransaction_def serialize_parameters intro!: same_callI)
qed (use assms in \<open>simp_all add: escrow_serializeUnsigned_def\<close>)

text \<open>The six fields that are the same in both, and the three that follow them.\<close>

lemma generic_fields:
  assumes "generic_unsigned L uo recipient quantity0 data = ok b" "options_agree uo so"
    and "fromHex (normalizeHex (so_v so)) = ok v"
  obtains fields chain where "length fields = 6" "fromHex (normalizeHex (uo_chainIdHex uo)) = ok chain"
    "b = toRlp L (fields @ [chain, [], []])"
    "generic_signed L so recipient quantity0 data = ok (toRlp L (fields @ [v, so_r so, so_s so]))"
proof -
  from assms(1) obtain nonce gasPrice gasLimit to valueBytes chain where parts:
      "eth_isValidAddress L recipient = ok True" "encodeNonce L (uo_nonce uo) = ok nonce"
      "fromHex (normalizeHex (uo_gasPriceHex uo)) = ok gasPrice" "fromHex (normalizeHex (uo_gasLimitHex uo)) = ok gasLimit"
      "fromHex (normalizeHex recipient) = ok to" "encodeValue L quantity0 = ok valueBytes"
      "fromHex (normalizeHex (uo_chainIdHex uo)) = ok chain"
      "b = toRlp L [nonce, gasPrice, gasLimit, to, valueBytes, data, chain, [], []]"
    by (auto simp: generic_unsigned_def serializeGenericTransaction_def andThen_eq_Inr split: if_splits)
  with assms(2,3) have "generic_signed L so recipient quantity0 data =
      ok (toRlp L [nonce, gasPrice, gasLimit, to, valueBytes, data, v, so_r so, so_s so])"
    by (simp add: generic_signed_def serializeGenericTransaction_def options_agree_def)
  with parts show thesis using that [of "[nonce, gasPrice, gasLimit, to, valueBytes, data]" chain] by simp
qed

text \<open>The functions for the kinds, with the options of a transaction.\<close>

definition unsigned_dispatch :: "('h, 'a) eth_lib_scheme \<Rightarrow> EthContent \<Rightarrow> UnsignedSerializationOptions \<Rightarrow> byte list result" where
  "unsigned_dispatch L content uo = (case content of
       EthSend c \<Rightarrow> serializeUnsignedSendTransaction L c uo
     | EthSwapOffer c \<Rightarrow> serializeUnsignedSwapOfferTransaction L c uo
     | EthSwapClaim c \<Rightarrow> serializeUnsignedSwapClaimTransaction L c uo
     | EthSwapAbort c \<Rightarrow> serializeUnsignedSwapAbortTransaction L c uo
     | Erc20Approve c \<Rightarrow> serializeUnsignedErc20ApproveTransaction L c uo
     | c \<Rightarrow> if isEscrowTransaction c
         then andThen (escrow_serializeUnsigned L c uo) (serializeGenericTransactionObject L)
         else throw ''Unsupported kind of transaction'')"

definition signed_dispatch :: "('h, 'a) eth_lib_scheme \<Rightarrow> EthContent \<Rightarrow> SignedSerializationOptions \<Rightarrow> byte list result" where
  "signed_dispatch L content so = (case content of
       EthSend c \<Rightarrow> serializeSignedSendTransaction L c so
     | EthSwapOffer c \<Rightarrow> serializeSignedSwapOfferTransaction L c so
     | EthSwapClaim c \<Rightarrow> serializeSignedSwapClaimTransaction L c so
     | EthSwapAbort c \<Rightarrow> serializeSignedSwapAbortTransaction L c so
     | Erc20Approve c \<Rightarrow> serializeSignedErc20ApproveTransaction L c so
     | c \<Rightarrow> if isEscrowTransaction c
         then andThen (escrow_serializeSigned L c so) (serializeGenericTransactionObject L)
         else throw ''Unsupported kind of transaction'')"

text \<open>The options that the two functions make for the same transaction.\<close>

lemma dispatched_options:
  assumes "serializeUnsignedTransaction L tx nonce tokens swapContract customContract = ok b"
    and "Extended_fromFixedLength signature = ok sig" "eth_laws L"
    and "eth_chainId tx = bcpChainIdPrefix @ to_base 10 n" "2 * n + 39 \<le> 9007199254740991"
  obtains uo so where "options_agree uo so" "unsigned_dispatch L (eth_content tx) uo = ok b"
    "serializeSignedTransaction L \<lparr>stx_transaction = tx, stx_signatures =
        \<lparr>sig_nonce = nonce, sig_pubkey = pubkey, sig_signature = signature\<rparr> # rest\<rparr> tokens swapContract customContract
      = signed_dispatch L (eth_content tx) so"
    "so_r so = sig_r sig" "so_s so = sig_s sig" "uo_chainIdHex uo = quantity n"
    "so_v so = quantity (nat ((if n = 0 then 27 else 2 * int n + 35) + floor_num (recovery sig)))"
    "uo_customSmartContractAddress uo = customContract" "0 \<le> floor_num (recovery sig)"
proof -
  from assms(2) obtain c :: byte where rec: "recovery sig = int_num (uint c)" "uint c \<le> 4" by (auto simp: extended_parts)
  have chainId: "fromBcpChainId (eth_chainId tx) = ok (int_num (int n))"
    using assms(4,5) by (simp add: fromBcpChainId_iff)
  let ?v = "(if n = 0 then 27 else 2 * int n + 35) + uint c"
  have v: "encodeQuantity L (int_num ?v) = ok (quantity (nat ?v))"
    by (rule encodeQuantity_safe [OF assms(3)]) (use rec(2) assms(5) in \<open>auto simp: uint_nonnegative\<close>)
  have chainHex: "encodeQuantity L (int_num (int n)) = ok (quantity n)"
    using encodeQuantity_safe [OF assms(3), of "int n"] assms(5) by simp
  have vValue: "eip155V (if 0 < int n then Forked (int n) else BeforeFork) (floor_num (recovery sig)) = ok ?v"
    by (simp add: eip155V_def rec(1) algebra_simps)
  from assms(1) chainHex obtain gasPrice gasLimit where gas: "getGasPriceHex L tx = ok gasPrice" "getGasLimitHex L tx = ok gasLimit"
    by (auto simp: serializeUnsignedTransaction_def andThen_eq_Inr)
  define uo where "uo = \<lparr>uo_chainIdHex = quantity n, uo_gasPriceHex = gasPrice, uo_gasLimitHex = gasLimit,
    uo_nonce = nonce, uo_erc20Tokens = tokens, uo_atomicSwapContractAddress = swapContract,
    uo_customSmartContractAddress = customContract\<rparr>"
  define so where "so = \<lparr>so_v = quantity (nat ?v), so_r = sig_r sig, so_s = sig_s sig, so_gasPriceHex = gasPrice, so_gasLimitHex = gasLimit,
    so_nonce = nonce, so_erc20Tokens = tokens, so_atomicSwapContractAddress = swapContract,
    so_customSmartContractAddress = customContract\<rparr>"
  have agree: "options_agree uo so" by (simp add: options_agree_def uo_def so_def)
  have call_unsigned: "unsigned_dispatch L (eth_content tx) uo = ok b"
    using assms(1)
    by (cases "eth_content tx") (simp_all add: unsigned_dispatch_def serializeUnsignedTransaction_def getChainIdHex_def chainId chainHex gas uo_def Let_def split: if_splits)
  have call_signed: "serializeSignedTransaction L \<lparr>stx_transaction = tx, stx_signatures =
        \<lparr>sig_nonce = nonce, sig_pubkey = pubkey, sig_signature = signature\<rparr> # rest\<rparr> tokens swapContract customContract
    = signed_dispatch L (eth_content tx) so"
    unfolding serializeSignedTransaction_def
    by (cases "eth_content tx", simp_all add: signed_dispatch_def Let_def assms(2) Secp256k1Signature_r_def Secp256k1Signature_s_def padded_def chainId vValue v gas so_def
        del: of_nat_0_less_iff split del: if_split cong: if_cong)
  show thesis
    by (rule that [OF agree call_unsigned call_signed]) (use rec in \<open>simp_all add: uo_def so_def uint_nonnegative\<close>)
qed

lemma same_call_all:
  assumes "serializeUnsignedTransaction L tx nonce tokens swapContract customContract = ok b" "\<not> erc20_escrow_open (eth_content tx)"
    and "Extended_fromFixedLength signature = ok sig" "eth_laws L"
    and "eth_chainId tx = bcpChainIdPrefix @ to_base 10 n" "2 * n + 39 \<le> 9007199254740991"
  shows "\<exists>fields chain v. length fields = 6 \<and> b = toRlp L (fields @ [chain, [], []]) \<and>
    serializeSignedTransaction L \<lparr>stx_transaction = tx, stx_signatures =
        \<lparr>sig_nonce = nonce, sig_pubkey = pubkey, sig_signature = signature\<rparr> # rest\<rparr> tokens swapContract customContract
      = ok (toRlp L (fields @ [v, sig_r sig, sig_s sig])) \<and>
    fromHex (normalizeHex (quantity n)) = ok chain \<and>
    fromHex (normalizeHex (quantity (nat ((if n = 0 then 27 else 2 * int n + 35) + floor_num (recovery sig))))) = ok v"
proof -
  let ?v = "(if n = 0 then 27 else 2 * int n + 35) + floor_num (recovery sig)"
  let ?stx = "\<lparr>stx_transaction = tx, stx_signatures =
        \<lparr>sig_nonce = nonce, sig_pubkey = pubkey, sig_signature = signature\<rparr> # rest\<rparr>"
  obtain uo so where o: "options_agree uo so" "unsigned_dispatch L (eth_content tx) uo = ok b"
      "serializeSignedTransaction L ?stx tokens swapContract customContract = signed_dispatch L (eth_content tx) so"
      "so_r so = sig_r sig" "so_s so = sig_s sig" "uo_chainIdHex uo = quantity n" "so_v so = quantity (nat ?v)"
      "0 \<le> floor_num (recovery sig)"
    using assms(1,3-6) by (rule dispatched_options)
  have "same_call L uo so b (signed_dispatch L (eth_content tx) so)"
    using o(2) same_call_escrow [OF _ o(1) assms(2)]
    by (cases "eth_content tx")
       (auto simp: unsigned_dispatch_def signed_dispatch_def intro: same_call_send [OF _ o(1)] same_call_offer [OF _ o(1)]
          same_call_claim [OF _ o(1)] same_call_abort [OF _ o(1)] same_call_approve [OF _ o(1)] split: if_splits)
  then obtain recipient quantity0 data where call: "generic_unsigned L uo recipient quantity0 data = ok b"
    "serializeSignedTransaction L ?stx tokens swapContract customContract = generic_signed L so recipient quantity0 data"
    by (auto simp: same_call_def o(3))
  obtain vb where vb: "fromHex (normalizeHex (so_v so)) = ok vb" "be_value vb = ?v"
    using quantity_bytes [of "nat ?v"] o(8) by (auto simp: o(7))
  from generic_fields [OF call(1) o(1) vb(1)] obtain fields chain where f: "length fields = 6"
      "fromHex (normalizeHex (uo_chainIdHex uo)) = ok chain" "b = toRlp L (fields @ [chain, [], []])"
      "generic_signed L so recipient quantity0 data = ok (toRlp L (fields @ [vb, so_r so, so_s so]))" by blast
  with call(2) vb o(4-7) show ?thesis
    by (intro exI [of _ fields] exI [of _ chain] exI [of _ vb]) simp
qed

end
