(* ===== verification/Eth_Reports.thy ===== *)
theory Eth_Reports
  imports Eth_Codec
begin

text \<open>
  What a node reports about a posted transaction, and what
  \<open>packages/iov-ethereum/src/ethereumcodec.ts\<close> reads from the report. A node takes
  the nine byte strings of a posted transaction apart and reports the numbers as
  quantities, the address and the input as hexadecimal digits. The relation
  \<open>calls\<close> lists the transactions of the data model that keep all their parts on
  this way, with the call each one makes.
\<close>

section \<open>Numbers as bytes\<close>

text \<open>Without leading zeros; zero is no byte in \<open>integer_data\<close> and one in \<open>quantity_data\<close>.\<close>

definition integer_data :: "nat \<Rightarrow> byte list" where
  "integer_data n = trimLeadingNullBytes (be_bytes n (int n))"

definition quantity_data :: "nat \<Rightarrow> byte list" where
  "quantity_data n = (if n = 0 then [0] else integer_data n)"

lemma integer_data_zero [simp]: "integer_data 0 = []"
  by (simp add: integer_data_def trim_dropWhile)

lemma integer_data_pos:
  assumes "0 < n"
  shows "integer_data n \<noteq> []" "hd (integer_data n) \<noteq> 0" "be_value (integer_data n) = int n"
  using demo_toArray [of "int n"] assms hd_trim by (simp_all add: integer_data_def)

lemma integer_data_value [simp]: "be_value (integer_data n) = int n" "be_value (quantity_data n) = int n"
  by (cases "n = 0"; simp add: integer_data_pos quantity_data_def be_value_Cons)+

lemma integer_data_unique:
  assumes "0 < n" "bs \<noteq> []" "hd bs \<noteq> 0" "be_value bs = int n"
  shows "bs = integer_data n"
  using be_value_unique [OF assms(2,3) integer_data_pos(1,2)] assms by simp

lemma quantity_data_hex [simp]: "fromHex (normalizeHex (quantity n)) = ok (quantity_data n)"
proof (cases "n = 0")
  case True
  have "fromHex (normalizeHex (quantity 0)) = ok [0]" by code_simp
  with True show ?thesis by (simp add: quantity_data_def)
next
  case False
  with quantity_bytes [of n] show ?thesis by (auto simp: quantity_data_def intro!: integer_data_unique)
qed

lemma encodeNonce_integer:
  assumes "eth_laws L" "k \<le> 9007199254740991"
  shows "encodeNonce L (int_num (int k)) = ok (integer_data k)"
  using assms encodeQuantity_safe [OF assms(1), of "int k"]
  by (cases "k = 0") (simp_all add: encodeNonce_def new_Int53_int safe_int_def Int53_toNumber_def quantity_data_def)

lemma encodeValue_integer:
  assumes "eth_laws L"
  shows "encodeValue L (to_base 10 q) = ok (integer_data q)"
proof -
  have "bn_toArray L (int q) = integer_data q" if "0 < q"
    using eth_toArray [OF assms, of "int q"] that by (auto intro!: integer_data_unique)
  moreover have "bn_fromString L (to_base 10 q) = int q"
    using bn_fromString [OF eth_bn [OF assms], of "to_base 10 q"] by (simp add: to_base_10_digits)
  ultimately show ?thesis
    using bn_isZero [OF eth_bn [OF assms]] by (simp add: encodeValue_def Let_def)
qed

section \<open>Reports\<close>

definition node_report :: "byte list list \<Rightarrow> EthereumRpcTransactionResult" where
  "node_report items = (let number = (\<lambda>i. quantity (nat (be_value (items ! i)))); digits = (\<lambda>i. ''0x'' @ toHex (items ! i)) in
     \<lparr>rpc_gas = number 2, rpc_gasPrice = number 1, rpc_input = digits 5, rpc_nonce = number 0, rpc_r = number 7, rpc_s = number 8,
      rpc_to = digits 3, rpc_v = number 6, rpc_value = number 4\<rparr>)"

text \<open>The bytes of a call of the address of \<open>to\<close> from its numbers and the last three strings.\<close>

definition call_items :: "nat \<Rightarrow> nat \<Rightarrow> nat \<Rightarrow> byte list \<Rightarrow> nat \<Rightarrow> byte list \<Rightarrow> byte list list" where
  "call_items k gp gl to q data = [integer_data k, quantity_data gp, quantity_data gl, to, integer_data q, data]"

definition report_of :: "nat \<Rightarrow> nat \<Rightarrow> nat \<Rightarrow> byte list \<Rightarrow> nat \<Rightarrow> byte list \<Rightarrow> nat \<Rightarrow> byte list \<Rightarrow> byte list
    \<Rightarrow> EthereumRpcTransactionResult" where
  "report_of k gp gl to q data v r s =
     \<lparr>rpc_gas = quantity gl, rpc_gasPrice = quantity gp, rpc_input = ''0x'' @ toHex data, rpc_nonce = quantity k,
      rpc_r = quantity (nat (be_value r)), rpc_s = quantity (nat (be_value s)), rpc_to = ''0x'' @ toHex to,
      rpc_v = quantity v, rpc_value = quantity q\<rparr>"

lemma node_report_call:
  "node_report (call_items k gp gl to q data @ [quantity_data v, r, s]) = report_of k gp gl to q data v r s"
  by (simp add: node_report_def report_of_def call_items_def Let_def)

lemma unpadded_data:
  assumes "unpadded x"
  shows "quantity_data (nat (be_value x)) = x"
proof -
  have x: "x \<noteq> []" "hd x \<noteq> 0" using assms by (simp_all add: unpadded_iff)
  have "be_value x \<ge> 1" using be_value_lower [OF x] one_le_power [of "256 :: int" "length x - 1"] by linarith
  then have v: "0 < nat (be_value x)" "be_value x = int (nat (be_value x))" by simp_all
  from integer_data_unique [OF v(1) x v(2)] v(1) show ?thesis by (simp add: quantity_data_def)
qed

text \<open>The bytes that are signed or posted for a call of a valid address.\<close>

lemma serializeGeneric_call:
  assumes "eth_laws L" "k \<le> 9007199254740991" "length to = 20"
    and "recipient = ''0x'' @ toHex to \<or> recipient = ''0x'' @ checksum_digits L to"
  shows "serializeGenericTransaction L (int_num (int k)) (quantity gp) (quantity gl) recipient (to_base 10 q) data (quantity v) r s
    = ok (toRlp L (call_items k gp gl to q data @ [quantity_data v, case r of None \<Rightarrow> [] | Some b \<Rightarrow> b, case s of None \<Rightarrow> [] | Some b \<Rightarrow> b]))"
proof -
  note address = address_forms [OF assms(3,4)]
  have "fromHex (normalizeHex recipient) = ok to"
    using hex.dec_enc [of to "toHex to"] by (simp add: address(3))
  then show ?thesis
    by (simp add: serializeGenericTransaction_def address(1) encodeNonce_integer [OF assms(1,2)] encodeValue_integer [OF assms(1)] call_items_def)
qed

text \<open>
  Everything \<open>parseBytes\<close> does before it looks at the kind of the call: the same
  nonce and the same signature come back, and the public key is recovered from
  the hash of the bytes that were signed.
\<close>

lemma parseReported_call:
  assumes "eth_laws L" "k \<le> 9007199254740991" "length to = 20" "0 < n" "2 * n + 39 \<le> 9007199254740991"
    and "Extended_fromFixedLength signature = ok sig" "recovery sig = int_num c" "c \<le> 3"
    and "recoverPubkey L sig (cl_keccak256 L (toRlp L (call_items k gp gl to q data @ [quantity_data n, [], []]))) = ok pub"
    and "json = report_of k gp gl to q data (nat (2 * int n + 35 + c)) (sig_r sig) (sig_s sig)"
  shows "parseReported L C json (bcpChainIdPrefix @ to_base 10 n) =
    andThen (parseBytesBuildTransaction L C data json (to_base 10 q) (bcpChainIdPrefix @ to_base 10 n)
        \<lparr>pk_algo = Secp256k1, pk_data = pub\<rparr>) (\<lambda>transaction.
      ok \<lparr>stx_transaction = transaction, stx_signatures =
        [\<lparr>sig_nonce = int_num (int k), sig_pubkey = \<lparr>pk_algo = Secp256k1, pk_data = pub\<rparr>, sig_signature = signature\<rparr>]\<rparr>)"
proof -
  from assms(6) have sig: "valid_signature sig" "Extended_toFixedLength sig = ok signature"
    by (simp_all add: extended_fixed_length_exact)
  have c: "0 \<le> c" using assms(6,7) by (auto simp: extended_parts)
  have r: "fromHex (normalizeHex (rpc_r json)) = ok (sig_r sig)" "fromHex (normalizeHex (rpc_s json)) = ok (sig_s sig)"
    using sig(1) by (simp_all add: assms(10) report_of_def valid_signature_def unpadded_data)
  have input: "fromHex (normalizeHex (rpc_input json)) = ok data"
    using hex.dec_enc [of data "toHex data"] toHex_lower [of data]
    by (simp add: assms(10) report_of_def normalizeHex_def Let_def)
  have chain: "fromBcpChainId (bcpChainIdPrefix @ to_base 10 n) = ok (int_num (int n))"
    using assms(5) by (simp add: fromBcpChainId_iff)
  have chainHex: "encodeQuantity L (int_num (int n)) = ok (quantity n)"
    using encodeQuantity_safe [OF assms(1), of "int n"] assms(5) by simp
  have v: "decodeHexQuantity (rpc_v json) = ok (int_num (int n * 2 + c + 35))"
    using decodeHexQuantity_quantity [of "nat (2 * int n + 35 + c)"] assms(5,8) c
    by (simp add: assms(10) report_of_def algebra_simps)
  have param: "getRecoveryParam (Forked (int n)) (int_num (int n * 2 + c + 35)) = ok (int_num c)"
    using recovery_param [of c "int n"] c assms(4,5,8) by simp
  have signature: "new_ExtendedSecp256k1Signature (sig_r sig) (sig_s sig) (int_num c) = ok sig"
    using sig(1) assms(7,8) c by (cases sig) (simp add: new_ExtendedSecp256k1Signature_def new_Secp256k1Signature_def
      valid_signature_def Secp256k1Signature.defs)
  have numbers: "decodeHexQuantityNonce (rpc_nonce json) = ok (int_num (int k))"
      "decodeHexQuantityString L (rpc_value json) = ok (to_base 10 q)"
    using decodeHexQuantityNonce_quantity [OF assms(2)] decodeHexQuantityString_quantity [OF assms(1)]
    by (simp_all add: assms(10) report_of_def)
  have message: "serializeGenericTransaction L (int_num (int k)) (rpc_gasPrice json) (rpc_gas json) (rpc_to json)
      (to_base 10 q) data (quantity n) None None = ok (toRlp L (call_items k gp gl to q data @ [quantity_data n, [], []]))"
    using serializeGeneric_call [OF assms(1,2,3), of "''0x'' @ toHex to"] by (simp add: assms(10) report_of_def)
  show ?thesis
    unfolding parseReported_def
    by (simp add: numbers message assms(9) r input chain chainHex v param signature sig(2) Let_def)
qed

section \<open>Calls\<close>

text \<open>The first contract of the codec and the first token at the address of 20 bytes.\<close>

definition contract_at :: "EthereumCodec \<Rightarrow> byte list \<Rightarrow> Address option" where
  "contract_at C to = find (\<lambda>address. ''0x'' @ toHex to = map lower_char address)
     (List.map_filter id [ec_atomicSwapEtherContractAddress C, ec_atomicSwapErc20ContractAddress C])"

definition token_at :: "EthereumCodec \<Rightarrow> byte list \<Rightarrow> Erc20Options option" where
  "token_at C to = find (\<lambda>token. map lower_char (erc_contractAddress token) = ''0x'' @ toHex to) (map snd (ec_erc20Tokens C))"

definition ether :: "nat \<Rightarrow> Amount" where
  "ether q = \<lparr>am_quantity = to_base 10 q, am_fractionalDigits = primaryTokenFractionalDigits, am_tokenTicker = primaryTokenTicker\<rparr>"

definition token_amount :: "Erc20Options \<Rightarrow> nat \<Rightarrow> Amount" where
  "token_amount token q = \<lparr>am_quantity = to_base 10 q, am_fractionalDigits = erc_decimals token, am_tokenTicker = erc_symbol token\<rparr>"

text \<open>The address in its checksummed form, which the codec uses for the addresses it reads.\<close>

definition address_of :: "('h, 'a) eth_lib_scheme \<Rightarrow> byte list \<Rightarrow> Address" where
  "address_of L to = ''0x'' @ checksum_digits L to"

definition swap_contract :: "EthereumCodec \<Rightarrow> string \<Rightarrow> Address option" where
  "swap_contract C p = (if p = SwapIdPrefix_Ether then ec_atomicSwapEtherContractAddress C else ec_atomicSwapErc20ContractAddress C)"

text \<open>The contract at an address, found under its prefix, and the method of the call.\<close>

definition at_swap_contract :: "('h, 'a) eth_lib_scheme \<Rightarrow> EthereumCodec \<Rightarrow> string \<Rightarrow> Address \<Rightarrow> byte list \<Rightarrow> bool" where
  "at_swap_contract L C p contract to \<longleftrightarrow> length to = 20 \<and> (contract = ''0x'' @ toHex to \<or> contract = address_of L to) \<and>
     swap_contract C p = Some contract \<and> contract_at C to = Some contract \<and>
     (p = SwapIdPrefix_Erc20 \<or> p = SwapIdPrefix_Ether \<and> ec_atomicSwapErc20ContractAddress C \<noteq> Some contract)"

definition swap_method :: "('h, 'a) eth_lib_scheme \<Rightarrow> string \<Rightarrow> SwapContractMethod \<Rightarrow> byte list \<Rightarrow> bool" where
  "swap_method L name method m \<longleftrightarrow> length m = 4 \<and> calculateMethodId L name = ok m \<and> abiDecodeMethodId L m = ok method"

text \<open>A token with the entry of its symbol, at the address \<open>to\<close>.\<close>

definition token_entry :: "('h, 'a) eth_lib_scheme \<Rightarrow> EthereumCodec \<Rightarrow> Erc20Options \<Rightarrow> byte list \<Rightarrow> bool" where
  "token_entry L C token to \<longleftrightarrow> length to = 20 \<and>
     (erc_contractAddress token = ''0x'' @ toHex to \<or> erc_contractAddress token = address_of L to) \<and>
     map_of (ec_erc20Tokens C) (erc_symbol token) = Some token \<and> erc_symbol token \<noteq> primaryTokenTicker \<and>
     token_at C to = Some token"

text \<open>
  The transactions of \<open>sender\<close> that are read back, with the recipient, its bytes, the
  amount of wei and the data of the call each one makes.
\<close>

inductive calls :: "('h, 'a) eth_lib_scheme \<Rightarrow> EthereumCodec \<Rightarrow> Address \<Rightarrow> EthContent \<Rightarrow> Address \<Rightarrow> byte list \<Rightarrow> nat \<Rightarrow> byte list \<Rightarrow> bool"
  for L C sender where
  transfer_ether: "\<lbrakk>length to = 20; contract_at C to = None; token_at C to = None\<rbrakk> \<Longrightarrow>
    calls L C sender (EthSend \<lparr>send_amount = ether q, send_sender = sender, send_senderPubkey = None,
      send_recipient = address_of L to, send_memo = Some memo\<rparr>) (address_of L to) to q (toUtf8 memo)"
| transfer_token: "\<lbrakk>token_entry L C token to; contract_at C to = None; length target = 20; q < 2 ^ 256;
    calculateMethodId L ''transfer(address,uint256)'' = ok m; length m = 4; is_ok (calculateMethodId L ''approve(address,uint256)'')\<rbrakk> \<Longrightarrow>
    calls L C sender (EthSend \<lparr>send_amount = token_amount token q, send_sender = sender, send_senderPubkey = None,
      send_recipient = address_of L target, send_memo = None\<rparr>)
      (erc_contractAddress token) to 0 (m @ replicate 12 0 @ target @ be_bytes 32 (int q))"
| approve: "\<lbrakk>token_entry L C token to; contract_at C to = None; length target = 20; q < 2 ^ 256;
    calculateMethodId L ''transfer(address,uint256)'' = ok t; length t = 4;
    calculateMethodId L ''approve(address,uint256)'' = ok m; length m = 4; m \<noteq> t\<rbrakk> \<Longrightarrow>
    calls L C sender (Erc20Approve \<lparr>ap_spender = address_of L target, ap_amount = token_amount token q\<rparr>)
      (erc_contractAddress token) to 0 (m @ replicate 12 0 @ target @ be_bytes 32 (int q))"
| offer_ether: "\<lbrakk>at_swap_contract L C SwapIdPrefix_Ether contract to; swap_method L ''open(bytes32,address,bytes32,uint256)'' MethodOpen m;
    length d = 32; length target = 20; length hash = 32; h \<le> 9007199254740991\<rbrakk> \<Longrightarrow>
    calls L C sender (EthSwapOffer \<lparr>offer_swapId = Some \<lparr>swap_prefix = Some SwapIdPrefix_Ether, swap_data = d\<rparr>,
      offer_amounts = [ether q], offer_sender = sender, offer_recipient = address_of L target,
      offer_timeout = BlockHeightTimeout (int_num (int h)), offer_hash = hash, offer_memo = None\<rparr>)
      contract to q (m @ d @ (replicate 12 0 @ target) @ hash @ be_bytes 32 (int h))"
| offer_token: "\<lbrakk>at_swap_contract L C SwapIdPrefix_Erc20 contract to;
    swap_method L ''open(bytes32,address,bytes32,uint256,address,uint256)'' MethodOpen m;
    length d = 32; length target = 20; length hash = 32; h \<le> 9007199254740991; token_entry L C token tokenTo; q < 2 ^ 256\<rbrakk> \<Longrightarrow>
    calls L C sender (EthSwapOffer \<lparr>offer_swapId = Some \<lparr>swap_prefix = Some SwapIdPrefix_Erc20, swap_data = d\<rparr>,
      offer_amounts = [token_amount token q], offer_sender = sender, offer_recipient = address_of L target,
      offer_timeout = BlockHeightTimeout (int_num (int h)), offer_hash = hash, offer_memo = None\<rparr>)
      contract to 0 (m @ d @ (replicate 12 0 @ target) @ hash @ be_bytes 32 (int h) @ (replicate 12 0 @ tokenTo) @ be_bytes 32 (int q))"
| claim: "\<lbrakk>at_swap_contract L C p contract to; swap_method L ''claim(bytes32,bytes32)'' MethodClaim m; length d = 32; length preimage = 32\<rbrakk> \<Longrightarrow>
    calls L C sender (EthSwapClaim \<lparr>claim_preimage = preimage, claim_swapId = \<lparr>swap_prefix = Some p, swap_data = d\<rparr>\<rparr>)
      contract to 0 (m @ d @ preimage)"
| abort: "\<lbrakk>at_swap_contract L C p contract to; swap_method L ''abort(bytes32)'' MethodAbort m; length d = 32\<rbrakk> \<Longrightarrow>
    calls L C sender (EthSwapAbort \<lparr>abort_swapId = \<lparr>swap_prefix = Some p, swap_data = d\<rparr>\<rparr>) contract to 0 (m @ d)"

lemma calls_recipient:
  "calls L C sender content recipient to q data \<Longrightarrow> length to = 20 \<and> (recipient = ''0x'' @ toHex to \<or> recipient = address_of L to)"
  by (induction rule: calls.induct) (auto simp: token_entry_def at_swap_contract_def)

lemma calls_not_escrow: "calls L C sender content recipient to q data \<Longrightarrow> \<not> erc20_escrow_open content"
  by (induction rule: calls.induct) (simp_all add: erc20_escrow_open_def)

lemma address_of_forms [simp]:
  assumes "length to = 20"
  shows "eth_isValidAddress L (address_of L to) = ok True" "encodeAddress L (address_of L to) = ok (replicate 12 0 @ to)"
    "toChecksummedAddress L (address_of L to) = ok (address_of L to)" "map lower_char (address_of L to) = ''0x'' @ toHex to"
    "decodeAddress L (replicate 12 0 @ to) = ok (address_of L to)"
  using address_forms [OF assms, of "address_of L to" L] decodeAddress_padded [OF assms, of L] by (simp_all add: address_of_def)

lemma encodeUint256_natural:
  "eth_laws L \<Longrightarrow> q < 2 ^ 256 \<Longrightarrow> encodeUint256 L (to_base 10 q) = ok (be_bytes 32 (int q))"
  by (simp add: encodeUint256_digits parse_to_base_10)

lemma encodeHeight_natural:
  assumes "eth_laws L" "h \<le> 9007199254740991"
  shows "encodeHeight L (BlockHeightTimeout (int_num (int h))) = ok (be_bytes 32 (int h))"
proof -
  have "h < 2 ^ 256" using assms(2) by (rule le_less_trans) simp
  then show ?thesis
    using assms(2) encodeUint256_natural [OF assms(1)] by (simp add: encodeHeight_def int_to_string_def)
qed

text \<open>The options of an unsigned transaction that the codec makes for a content.\<close>

definition codec_options :: "EthereumCodec \<Rightarrow> EthContent \<Rightarrow> UnsignedSerializationOptions \<Rightarrow> bool" where
  "codec_options C content uo \<longleftrightarrow> uo_erc20Tokens uo = ec_erc20Tokens C \<and>
     uo_atomicSwapContractAddress uo = getAtomicSwapContractAddress C content"

lemma at_swap_contract_uses:
  assumes "at_swap_contract L C p contract to"
  shows "swap_contract C p = Some contract" "checkAtomicSwapContractAddress (Some contract) = ok contract" "length to = 20"
  using assms by (auto simp: at_swap_contract_def checkAtomicSwapContractAddress_def address_of_def)

lemma swap_contract_uses [simp]:
  "getAtomicSwapContractAddress C (EthSwapClaim \<lparr>claim_preimage = preimage, claim_swapId = \<lparr>swap_prefix = Some p, swap_data = d\<rparr>\<rparr>)
    = swap_contract C p"
  "getAtomicSwapContractAddress C (EthSwapAbort \<lparr>abort_swapId = \<lparr>swap_prefix = Some p, swap_data = d\<rparr>\<rparr>) = swap_contract C p"
  "offer_swapId c = Some \<lparr>swap_prefix = Some p, swap_data = d\<rparr> \<Longrightarrow> getAtomicSwapContractAddress C (EthSwapOffer c) = swap_contract C p"
  by (simp_all add: getAtomicSwapContractAddress_def swap_contract_def)

lemma swap_method_id: "swap_method L name method m \<Longrightarrow> calculateMethodId L name = ok m"
  by (simp add: swap_method_def)

lemma token_entry_uses:
  assumes "token_entry L C token to"
  shows "map_of (ec_erc20Tokens C) (erc_symbol token) = Some token" "erc_symbol token \<noteq> primaryTokenTicker" "token_at C to = Some token"
    "encodeAddress L (erc_contractAddress token) = ok (replicate 12 0 @ to)" "length to = 20"
  using assms address_forms(5) [of to "erc_contractAddress token" L] by (auto simp: token_entry_def address_of_def)

lemma zero_quantity: "ZERO_ETH_QUANTITY = to_base 10 0"
  by code_simp

lemma swap_prefixes [simp]: "SwapIdPrefix_Erc20 \<noteq> SwapIdPrefix_Ether"
  by (simp add: SwapIdPrefix_Ether_def SwapIdPrefix_Erc20_def)

lemmas serialize_unsigned =
  serializeUnsignedSendTransaction_def serializeUnsignedSwapOfferTransaction_def serializeUnsignedSwapClaimTransaction_def
  serializeUnsignedSwapAbortTransaction_def serializeUnsignedErc20ApproveTransaction_def codec_options_def zero_quantity
  checkSenderPubkeyMatchesSenderAddress_def checkRecipientAddress_def checkMemoNotPresent_def checkSwapId_def checkHash_def
  checkPreimage_def checkEtherAmount_def checkErc20Amount_def getErc20Token_def ether_def token_amount_def
  buildErc20TransferCall_def buildErc20ApproveCall_def buildAtomicSwapOfferEtherCall_def buildAtomicSwapOfferErc20Call_def
  buildAtomicSwapClaimCall_def buildAtomicSwapAbortCall_def

lemma calls_unsigned:
  assumes "calls L C sender content recipient to q data" "eth_laws L" "codec_options C content uo"
  shows "(case content of
       EthSend c \<Rightarrow> serializeUnsignedSendTransaction L c uo
     | EthSwapOffer c \<Rightarrow> serializeUnsignedSwapOfferTransaction L c uo
     | EthSwapClaim c \<Rightarrow> serializeUnsignedSwapClaimTransaction L c uo
     | EthSwapAbort c \<Rightarrow> serializeUnsignedSwapAbortTransaction L c uo
     | Erc20Approve c \<Rightarrow> serializeUnsignedErc20ApproveTransaction L c uo
     | c \<Rightarrow> throw e) = generic_unsigned L uo recipient (to_base 10 q) data"
  using assms(1,3)
  by (induction rule: calls.induct)
     (simp_all add: serialize_unsigned encodeUint256_natural [OF assms(2)] encodeHeight_natural [OF assms(2)] Let_def
       at_swap_contract_uses swap_method_id token_entry_uses)

section \<open>What is signed and posted\<close>

definition ether_fee :: "nat \<Rightarrow> nat \<Rightarrow> Fee" where
  "ether_fee gp gl = \<lparr>fee_tokens = None, fee_gasPrice = Some (ether gp), fee_gasLimit = Some (to_base 10 gl), fee_payer = None\<rparr>"

definition call_tx :: "nat \<Rightarrow> nat \<Rightarrow> nat \<Rightarrow> EthContent \<Rightarrow> EthTransaction" where
  "call_tx n gp gl content = \<lparr>eth_chainId = bcpChainIdPrefix @ to_base 10 n, eth_fee = Some (ether_fee gp gl), eth_content = content\<rparr>"

lemma call_tx_parts [simp]:
  "eth_content (call_tx n gp gl content) = content" "eth_chainId (call_tx n gp gl content) = bcpChainIdPrefix @ to_base 10 n"
  by (simp_all add: call_tx_def)

lemma call_tx_hex:
  assumes "eth_laws L" "n \<le> 9007199254740991"
  shows "getChainIdHex L (call_tx n gp gl content) = ok (quantity n)" "getGasPriceHex L (call_tx n gp gl content) = ok (quantity gp)"
    "getGasLimitHex L (call_tx n gp gl content) = ok (quantity gl)"
proof -
  have "encodeQuantity L (int_num (int n)) = ok (quantity n)"
    using encodeQuantity_safe [OF assms(1), of "int n"] assms(2) by simp
  moreover have "fromBcpChainId (bcpChainIdPrefix @ to_base 10 n) = ok (int_num (int n))"
    using assms(2) by (simp add: fromBcpChainId_iff)
  ultimately show "getChainIdHex L (call_tx n gp gl content) = ok (quantity n)" "getGasPriceHex L (call_tx n gp gl content) = ok (quantity gp)"
    "getGasLimitHex L (call_tx n gp gl content) = ok (quantity gl)"
    using encodeQuantityString_digits [OF assms(1)]
    by (simp_all add: getChainIdHex_def call_tx_def getGasPriceHex_def getGasLimitHex_def ether_fee_def ether_def parse_to_base_10)
qed

lemma calls_signed_bytes:
  assumes "eth_laws L" "calls L C sender content recipient to q data" "k \<le> 9007199254740991" "n \<le> 9007199254740991"
  shows "eth_bytesToSign L C (call_tx n gp gl content) (int_num (int k))
    = ok \<lparr>job_bytes = toRlp L (call_items k gp gl to q data @ [quantity_data n, [], []]), job_prehashType = PrehashKeccak256\<rparr>"
proof -
  note hex = call_tx_hex [OF assms(1,4)]
  define uo where "uo = \<lparr>uo_chainIdHex = quantity n, uo_gasPriceHex = quantity gp, uo_gasLimitHex = quantity gl,
    uo_nonce = int_num (int k), uo_erc20Tokens = ec_erc20Tokens C, uo_atomicSwapContractAddress = getAtomicSwapContractAddress C content,
    uo_customSmartContractAddress = getCustomSmartContractAddress C\<rparr>"
  have "codec_options C content uo" by (simp add: codec_options_def uo_def)
  note unsigned = calls_unsigned [OF assms(2,1) this, of "[]"]
  have bytes: "generic_unsigned L uo recipient (to_base 10 q) data = ok (toRlp L (call_items k gp gl to q data @ [quantity_data n, [], []]))"
    using serializeGeneric_call [OF assms(1,3), of to recipient gp gl q data n None None] calls_recipient [OF assms(2)]
    by (simp add: generic_unsigned_def uo_def address_of_def)
  from assms(2) trans [OF unsigned bytes] show ?thesis
    by cases (simp_all add: eth_bytesToSign_def serializeUnsignedTransaction_def hex Let_def uo_def)
qed

lemma calls_posted_bytes:
  assumes "eth_laws L" "calls L C sender content recipient to q data" "k \<le> 9007199254740991" "0 < n" "2 * n + 39 \<le> 9007199254740991"
    and "Extended_fromFixedLength signature = ok sig" "recovery sig = int_num c"
  shows "eth_bytesToPost L C \<lparr>stx_transaction = call_tx n gp gl content, stx_signatures =
      [\<lparr>sig_nonce = int_num (int k), sig_pubkey = pubkey, sig_signature = signature\<rparr>]\<rparr>
    = ok (toRlp L (call_items k gp gl to q data @ [quantity_data (nat (2 * int n + 35 + c)), sig_r sig, sig_s sig]))"
proof -
  let ?tx = "call_tx n gp gl content"
  have "n \<le> 9007199254740991" using assms(5) by simp
  from calls_signed_bytes [OF assms(1-3) this] have "serializeUnsignedTransaction L ?tx (int_num (int k)) (ec_erc20Tokens C)
      (getAtomicSwapContractAddress C (eth_content ?tx)) (getCustomSmartContractAddress C)
      = ok (toRlp L (call_items k gp gl to q data @ [quantity_data n, [], []]))"
    by (auto simp: eth_bytesToSign_def andThen_eq_Inr)
  from same_call_all [OF this _ assms(6,1) _ assms(5), of pubkey "[]"] calls_not_escrow [OF assms(2)]
  obtain fields chain v where f: "length fields = 6"
      "toRlp L (call_items k gp gl to q data @ [quantity_data n, [], []]) = toRlp L (fields @ [chain, [], []])"
      "eth_bytesToPost L C \<lparr>stx_transaction = ?tx, stx_signatures =
        [\<lparr>sig_nonce = int_num (int k), sig_pubkey = pubkey, sig_signature = signature\<rparr>]\<rparr>
      = ok (toRlp L (fields @ [v, sig_r sig, sig_s sig]))" "fromHex (normalizeHex (quantity (nat (2 * int n + 35 + c)))) = ok v"
    using assms(4,7) by (auto simp: call_tx_def eth_bytesToPost_def)
  from f(2) have "call_items k gp gl to q data @ [quantity_data n, [], []] = fields @ [chain, [], []]"
    unfolding toRlp_def by (rule eth_rlp [OF assms(1)])
  then have "fields = call_items k gp gl to q data" by simp
  with f(3,4) show ?thesis by simp
qed

section \<open>What is read\<close>

lemma checksummed_report [simp]:
  "length to = 20 \<Longrightarrow> toChecksummedAddress L (''0x'' @ toHex to) = ok (address_of L to)"
  using address_forms(4) [of to "''0x'' @ toHex to" L] by (simp add: address_of_def)

lemma swap_contract_of_report:
  assumes "length to = 20"
  shows "swap_contract_of L C (''0x'' @ toHex to) = ok (contract_at C to)"
  using checksummed_report [OF assms, of L] address_of_forms(4) [OF assms, of L]
  by (auto simp: swap_contract_of_def contract_at_def Let_def)

lemma find_token_ok:
  "(\<And>t. t \<in> set ts \<Longrightarrow> f t = ok (P t)) \<Longrightarrow> find_token f ts = ok (find P ts)"
  by (induction ts) simp_all

lemma token_of_report:
  assumes "length to = 20"
  shows "find_token (\<lambda>options. andThen (toChecksummedAddress L (''0x'' @ toHex to)) (\<lambda>recipient.
      ok (map lower_char (erc_contractAddress options) = map lower_char recipient))) (map snd (ec_erc20Tokens C)) = ok (token_at C to)"
  unfolding token_at_def using checksummed_report [OF assms, of L] address_of_forms(4) [OF assms, of L]
  by (intro find_token_ok) simp

lemma slice_append: "a = length xs \<Longrightarrow> b = a + length ys \<Longrightarrow> slice a b (xs @ ys @ zs) = ys"
  by (simp add: slice_def)

lemma slice_first: "b = length xs \<Longrightarrow> slice 0 b (xs @ ys) = xs"
  by (simp add: slice_def)

lemma slice_first_all: "length xs = b \<Longrightarrow> slice 0 b xs = xs"
  by (simp add: slice_def)

lemma slice_append_end: "a = length xs \<Longrightarrow> b = a + length ys \<Longrightarrow> slice a b (xs @ ys) = ys"
  by (simp add: slice_def)

lemma slice_beyond: "length xs \<le> a \<Longrightarrow> slice a b xs = []"
  by (simp add: slice_def)

lemma slice_first_two: "length xs + length ys = b \<Longrightarrow> slice 0 b (xs @ ys @ zs) = xs @ ys"
  by (auto simp: slice_def)

lemma slice_skip: "length xs \<le> a \<Longrightarrow> a \<le> b \<Longrightarrow> slice a b (xs @ ys) = slice (a - length xs) (b - length xs) ys"
  by (simp add: slice_def)

lemma methodCallPrefix:
  "calculateMethodId L ''transfer(address,uint256)'' = ok t \<Longrightarrow> methodCallPrefix_transfer L = ok (''0x'' @ toHex t)"
  "calculateMethodId L ''approve(address,uint256)'' = ok t \<Longrightarrow> methodCallPrefix_approve L = ok (''0x'' @ toHex t)"
  by (simp_all add: methodCallPrefix_transfer_def methodCallPrefix_approve_def toEthereumHex_bytes_def toEthereumHex_hex toHex_lower_hex)

lemma startsWith_hex:
  assumes "length m = length t"
  shows "startsWith (''0x'' @ toHex (m @ rest)) (''0x'' @ toHex t) \<longleftrightarrow> m = t"
proof -
  have "length (toHex t) = length (toHex m)" using assms by simp
  then show ?thesis by (auto simp: startsWith_def)
qed

lemma bn_number_natural:
  assumes "eth_laws L" "h \<le> 9007199254740991"
  shows "bn_number L (be_bytes 32 (int h)) = ok (int_num (int h))"
proof -
  have "int h < 256 ^ 32" using assms(2) by simp
  then have "be_value (be_bytes 32 (int h)) = int h" by (simp add: be_value_bytes)
  then show ?thesis
    using assms(2) bn_toNumber [OF eth_bn [OF assms(1)], of "int h"] bn_fromBytes [OF eth_bn [OF assms(1)]]
    by (simp add: bn_number_def bn_assert_def safe_int_def)
qed

text \<open>The parts of the data of a call.\<close>

lemmas slices = slice_beyond slice_first slice_first_two slice_first_all slice_append slice_append_end slice_skip

lemma read_method:
  assumes "swap_method L name method m"
  shows "abiDecodeMethodId L m = ok method" "length m = 4"
  using assms by (simp_all add: swap_method_def)

lemma read_contract:
  assumes "at_swap_contract L C p contract to"
  shows "contract_at C to = Some contract"
    "(if ec_atomicSwapErc20ContractAddress C = Some contract then SwapIdPrefix_Erc20 else SwapIdPrefix_Ether) = p"
  using assms by (auto simp: at_swap_contract_def swap_contract_def)

lemma calls_read:
  assumes "eth_laws L" "calls L C sender content recipient to q data"
    and "eth_pubkeyToAddress L pubkey = ok sender" "ec_customSmartContractConfig C = None"
    and "json = report_of k gp gl to q data v r s"
  shows "parseBytesBuildTransaction L C data json (to_base 10 q) (bcpChainIdPrefix @ to_base 10 n) pubkey = ok (call_tx n gp gl content)"
proof -
  have to: "length to = 20" using calls_recipient [OF assms(2)] by simp
  have json: "rpc_to json = ''0x'' @ toHex to" "rpc_input json = ''0x'' @ toHex data"
      "decodeHexQuantityString L (rpc_gas json) = ok (to_base 10 gl)" "decodeHexQuantityString L (rpc_gasPrice json) = ok (to_base 10 gp)"
      "decodeHexQuantityString L (rpc_value json) = ok (to_base 10 q)"
    using decodeHexQuantityString_quantity [OF assms(1)] by (simp_all add: assms(5) report_of_def)
  define fee where "fee = ether_fee gp gl"
  have start: "parseBytesBuildTransaction L C data json (to_base 10 q) (bcpChainIdPrefix @ to_base 10 n) pubkey =
     (case contract_at C to of
         Some address \<Rightarrow> swap_buildTransaction L data (ec_erc20Tokens C) (bcpChainIdPrefix @ to_base 10 n) (to_base 10 q) fee pubkey
           (if ec_atomicSwapErc20ContractAddress C = Some address then SwapIdPrefix_Erc20 else SwapIdPrefix_Ether)
       | None \<Rightarrow> (case token_at C to of
           Some token \<Rightarrow> erc20_buildTransaction L data json token (bcpChainIdPrefix @ to_base 10 n) fee pubkey
         | None \<Rightarrow> ok \<lparr>eth_chainId = bcpChainIdPrefix @ to_base 10 n, eth_fee = Some fee, eth_content = EthSend
               \<lparr>send_amount = ether q, send_sender = sender, send_senderPubkey = None, send_recipient = address_of L to,
                send_memo = Some (getMemoFromInput L data)\<rparr>\<rparr>))"
    unfolding parseBytesBuildTransaction_def json assms(3,4) swap_contract_of_report [OF to] token_of_report [OF to]
    by (simp add: checksummed_report [OF to, simplified] fee_def ether_fee_def ether_def split: option.split)
  show ?thesis
    using assms(2)
  proof cases
    case (transfer_ether memo)
    then show ?thesis unfolding start by (simp add: getMemoFromInput_def eth_utf8 [OF assms(1)] call_tx_def fee_def)
  next
    case (transfer_token token target q' m)
    then show ?thesis unfolding start
      using startsWith_hex [of m m] token_entry_uses [OF transfer_token(5)]
      by (auto simp: erc20_buildTransaction_def methodCallPrefix is_ok_iff json slices decodeUint256_bytes [OF assms(1)] assms(3)
          call_tx_def fee_def token_amount_def Let_def simp del: toHex_append)
  next
    case (approve token target q' t m)
    then show ?thesis unfolding start
      using startsWith_hex [of m m] startsWith_hex [of m t] token_entry_uses [OF approve(5)]
      by (auto simp: erc20_buildTransaction_def methodCallPrefix json slices decodeUint256_bytes [OF assms(1)] assms(3)
          call_tx_def fee_def token_amount_def Let_def simp del: toHex_append)
  next
    case (offer_ether m d target hash h)
    then show ?thesis
      unfolding start
      by (simp add: read_contract [OF offer_ether(3)] read_method [OF offer_ether(4)] swap_buildTransaction_def slices assms(3)
          bn_number_natural [OF assms(1)] call_tx_def fee_def ether_def Let_def)
  next
    case (offer_token m d target hash h token tokenTo q')
    note entry = token_entry_uses [OF offer_token(10)]
    have "find_token (\<lambda>t. andThen (decodeAddress L (replicate 12 0 @ tokenTo)) (\<lambda>a.
        ok (map lower_char (erc_contractAddress t) = map lower_char a))) (map snd (ec_erc20Tokens C)) = ok (token_at C tokenTo)"
      unfolding token_at_def using entry by (intro find_token_ok) simp
    with offer_token show ?thesis
      unfolding start
      by (simp add: read_contract [OF offer_token(4)] read_method [OF offer_token(5)] swap_buildTransaction_def slices assms(3)
          bn_number_natural [OF assms(1)] decodeUint256_bytes [OF assms(1)] entry call_tx_def fee_def token_amount_def Let_def)
  next
    case (claim p m d preimage)
    then show ?thesis
      unfolding start
      by (simp add: read_contract [OF claim(4)] read_method [OF claim(5)] swap_buildTransaction_def slices call_tx_def fee_def Let_def)
  next
    case (abort p m d)
    then show ?thesis
      unfolding start
      by (simp add: read_contract [OF abort(4)] read_method [OF abort(5)] swap_buildTransaction_def slices call_tx_def fee_def Let_def)
  qed
qed

section \<open>Demonstration\<close>

text \<open>A codec without contracts, and a transfer of \<open>q\<close> wei to the zero address by the demonstration key.\<close>

definition demo_ethereum :: EthereumCodec where
  "demo_ethereum = \<lparr>ec_atomicSwapEtherContractAddress = None, ec_atomicSwapErc20ContractAddress = None,
     ec_customSmartContractConfig = None, ec_erc20Tokens = []\<rparr>"

definition demo_sender :: Address where
  "demo_sender = address_of demo_eth (slice_last 20 (cl_keccak256 demo_eth (drop 1 demo_pubkey)))"

definition demo_transfer :: "nat \<Rightarrow> EthContent" where
  "demo_transfer q = EthSend \<lparr>send_amount = ether q, send_sender = demo_sender, send_senderPubkey = None,
     send_recipient = address_of demo_eth (replicate 20 0), send_memo = Some ''hi''\<rparr>"

lemma demo_sender: "eth_pubkeyToAddress demo_eth \<lparr>pk_algo = Secp256k1, pk_data = demo_pubkey\<rparr> = ok demo_sender"
  by (simp add: eth_pubkeyToAddress_def demo_pubkey_def demo_sender_def address_of_def checksummed_bytes slice_last_def)

lemma demo_calls:
  "calls demo_eth demo_ethereum demo_sender (demo_transfer q) (address_of demo_eth (replicate 20 0)) (replicate 20 0) q (toUtf8 ''hi'')"
  unfolding demo_transfer_def by (rule transfer_ether) (simp_all add: contract_at_def token_at_def demo_ethereum_def map_filter_simps)

lemma demo_signature:
  "Extended_fromFixedLength (replicate 64 1 @ [0]) = ok \<lparr>sig_r = replicate 32 1, sig_s = replicate 32 1, recovery = int_num 0\<rparr>"
  by code_simp

section \<open>Properties\<close>

text \<open>
  C6. What is posted is what was signed: whenever \<open>bytesToSign\<close> of a transaction
  that is not the opening of an escrow of ERC20 tokens succeeds, on a chain whose \<open>v\<close> is a
  safe integer, \<open>bytesToPost\<close>
  of the signed transaction succeeds as well for every extended signature. Both
  are lists of nine byte strings with the same first six (nonce, gas price, gas
  limit, recipient, value and data); the last three are the bytes of the chain id and
  two empty strings, or the bytes of \<open>v\<close> as in EIP-155 and the two numbers of the
  signature.
\<close>

theorem ethereum_posts_what_was_signed:
  assumes "eth_laws L" "eth_chainId tx = bcpChainIdPrefix @ to_base 10 n" "2 * n + 39 \<le> 9007199254740991"
    and "\<not> erc20_escrow_open (eth_content tx)" "eth_bytesToSign L C tx nonce = ok job"
    and "Extended_fromFixedLength signature = ok sig" "v = (if n = 0 then 27 else 2 * int n + 35) + floor_num (recovery sig)"
  shows "\<exists>fields. length fields = 6 \<and>
    job = \<lparr>job_bytes = toRlp L (fields @ [quantity_data n, [], []]), job_prehashType = PrehashKeccak256\<rparr> \<and>
    eth_bytesToPost L C \<lparr>stx_transaction = tx, stx_signatures =
        \<lparr>sig_nonce = nonce, sig_pubkey = pubkey, sig_signature = signature\<rparr> # rest\<rparr>
      = ok (toRlp L (fields @ [quantity_data (nat v), sig_r sig, sig_s sig]))"
proof -
  from assms(5) obtain b where b: "serializeUnsignedTransaction L tx nonce (ec_erc20Tokens C)
      (getAtomicSwapContractAddress C (eth_content tx)) (getCustomSmartContractAddress C) = ok b"
    and job: "job = \<lparr>job_bytes = b, job_prehashType = PrehashKeccak256\<rparr>" by (auto simp: eth_bytesToSign_def andThen_eq_Inr)
  from same_call_all [OF b assms(4,6,1,2,3), of pubkey rest] show ?thesis
    by (simp add: eth_bytesToPost_def job assms(7))
qed

lemma ethereum_posts_what_was_signed_witness:
  "\<exists>(job :: SigningJob) fields. eth_bytesToSign demo_eth demo_ethereum (call_tx 1 7 21000 (demo_transfer 5)) (int_num 3) = ok job \<and>
    job_bytes job = toRlp demo_eth (fields @ [quantity_data 1, [], []]) \<and>
    eth_bytesToPost demo_eth demo_ethereum \<lparr>stx_transaction = call_tx 1 7 21000 (demo_transfer 5), stx_signatures =
        [\<lparr>sig_nonce = int_num 3, sig_pubkey = \<lparr>pk_algo = Secp256k1, pk_data = demo_pubkey\<rparr>, sig_signature = replicate 64 1 @ [0]\<rparr>]\<rparr>
      = ok (toRlp demo_eth (fields @ [quantity_data 37, replicate 32 1, replicate 32 1]))"
proof -
  obtain job where job: "eth_bytesToSign demo_eth demo_ethereum (call_tx 1 7 21000 (demo_transfer 5)) (int_num 3) = ok job"
    using calls_signed_bytes [OF demo_eth_laws demo_calls, of 3 1] by auto
  have "\<not> erc20_escrow_open (eth_content (call_tx 1 7 21000 (demo_transfer 5)))" using calls_not_escrow [OF demo_calls] by simp
  from ethereum_posts_what_was_signed [OF demo_eth_laws call_tx_parts(2) _ this job demo_signature refl,
      of "\<lparr>pk_algo = Secp256k1, pk_data = demo_pubkey\<rparr>" "[]"]
  obtain fields where f: "job = \<lparr>job_bytes = toRlp demo_eth (fields @ [quantity_data 1, [], []]), job_prehashType = PrehashKeccak256\<rparr>"
      "eth_bytesToPost demo_eth demo_ethereum \<lparr>stx_transaction = call_tx 1 7 21000 (demo_transfer 5), stx_signatures =
        [\<lparr>sig_nonce = int_num 3, sig_pubkey = \<lparr>pk_algo = Secp256k1, pk_data = demo_pubkey\<rparr>, sig_signature = replicate 64 1 @ [0]\<rparr>]\<rparr>
      = ok (toRlp demo_eth (fields @ [quantity_data 37, replicate 32 1, replicate 32 1]))" by auto
  with job show ?thesis by (intro exI [of _ job] exI [of _ fields]) simp
qed

text \<open>
  C7. A posted transaction is read back: for every call of the relation \<open>calls\<close>
  (transfers of ether and of a token of the codec, approvals, and offers, claims and
  aborts of swaps) the posted bytes are a list of nine byte strings, and
  \<open>parseBytes\<close> of what a node reports about them gives the transaction, the nonce and
  the signature that were posted, provided that the public key recovered from the
  signature and the hash of the signed bytes has the address of the sender.
\<close>

theorem reported_transaction_parses:
  assumes "eth_laws L" "calls L C sender content recipient to q data" "ec_customSmartContractConfig C = None"
    and "k \<le> 9007199254740991" "0 < n" "2 * n + 39 \<le> 9007199254740991"
    and "Extended_fromFixedLength signature = ok sig" "recovery sig = int_num c" "c \<le> 3"
    and "eth_bytesToSign L C (call_tx n gp gl content) (int_num (int k)) = ok job"
    and "recoverPubkey L sig (cl_keccak256 L (job_bytes job)) = ok pub"
    and "eth_pubkeyToAddress L \<lparr>pk_algo = Secp256k1, pk_data = pub\<rparr> = ok sender"
    and "stx = \<lparr>stx_transaction = call_tx n gp gl content, stx_signatures =
        [\<lparr>sig_nonce = int_num (int k), sig_pubkey = \<lparr>pk_algo = Secp256k1, pk_data = pub\<rparr>, sig_signature = signature\<rparr>]\<rparr>"
  shows "\<exists>items. length items = 9 \<and> eth_bytesToPost L C stx = ok (toRlp L items) \<and>
    parseReported L C (node_report items) (bcpChainIdPrefix @ to_base 10 n) = ok stx"
proof (intro exI conjI)
  let ?v = "nat (2 * int n + 35 + c)"
  let ?items = "call_items k gp gl to q data @ [quantity_data ?v, sig_r sig, sig_s sig]"
  have to: "length to = 20" using calls_recipient [OF assms(2)] by simp
  have n: "n \<le> 9007199254740991" using assms(6) by simp
  show "length ?items = 9" by (simp add: call_items_def)
  show "eth_bytesToPost L C stx = ok (toRlp L ?items)"
    unfolding assms(13) by (rule calls_posted_bytes [OF assms(1,2,4,5,6,7,8)])
  have "recoverPubkey L sig (cl_keccak256 L (toRlp L (call_items k gp gl to q data @ [quantity_data n, [], []]))) = ok pub"
    using assms(10,11) calls_signed_bytes [OF assms(1,2,4) n] by auto
  from parseReported_call [OF assms(1,4) to assms(5-9) this node_report_call, of C]
    calls_read [OF assms(1,2,12,3) node_report_call]
  show "parseReported L C (node_report ?items) (bcpChainIdPrefix @ to_base 10 n) = ok stx" by (simp add: assms(13))
qed

lemma reported_transaction_parses_witness:
  "\<exists>items. length items = 9 \<and> parseReported demo_eth demo_ethereum (node_report items) (bcpChainIdPrefix @ to_base 10 1)
    = ok \<lparr>stx_transaction = call_tx 1 7 21000 (demo_transfer 5), stx_signatures =
        [\<lparr>sig_nonce = int_num (int 3), sig_pubkey = \<lparr>pk_algo = Secp256k1, pk_data = demo_pubkey\<rparr>,
          sig_signature = replicate 64 1 @ [0]\<rparr>]\<rparr>"
proof -
  let ?sig = "\<lparr>sig_r = replicate 32 1, sig_s = replicate 32 1, recovery = int_num 0\<rparr> :: ExtendedSecp256k1Signature"
  have recover: "recoverPubkey demo_eth ?sig h = ok demo_pubkey" for h
    using hex.dec_enc [of demo_pubkey "toHex demo_pubkey"]
    by (simp add: recoverPubkey_def Secp256k1Signature_r_def Secp256k1Signature_s_def padded_def)
  have "ec_customSmartContractConfig demo_ethereum = None" by (simp add: demo_ethereum_def)
  from reported_transaction_parses [OF demo_eth_laws demo_calls this _ _ _ demo_signature _ _ calls_signed_bytes [OF demo_eth_laws demo_calls]
      recover demo_sender refl, of 3 1 0 7 21000 5]
  show ?thesis by auto
qed

text \<open>
  C25. For the opening of an escrow of tokens the two differ: the transaction that
  is signed sends no ether, the one that is posted sends the quantity of tokens as
  an amount of wei. The signature does not belong to the posted transaction.
\<close>

theorem token_escrow_posts_other_value:
  assumes "eth_laws L" "eth_chainId tx = bcpChainIdPrefix @ to_base 10 n" "2 * n + 39 \<le> 9007199254740991"
    and "eth_content tx = EscrowOpen e" "swap_prefix (esc_swapId e) \<noteq> Some SwapIdPrefix_Ether"
    and "esc_amount e = Some amount" "am_quantity amount = to_base 10 q"
    and "eth_bytesToSign L C tx nonce = ok job" "Extended_fromFixedLength signature = ok sig"
    and "v = (if n = 0 then 27 else 2 * int n + 35) + floor_num (recovery sig)"
  shows "\<exists>before data. length before = 4 \<and>
    job_bytes job = toRlp L (before @ [[], data, quantity_data n, [], []]) \<and>
    eth_bytesToPost L C \<lparr>stx_transaction = tx, stx_signatures =
        \<lparr>sig_nonce = nonce, sig_pubkey = pubkey, sig_signature = signature\<rparr> # rest\<rparr>
      = ok (toRlp L (before @ [integer_data q, data, quantity_data (nat v), sig_r sig, sig_s sig]))"
proof -
  let ?stx = "\<lparr>stx_transaction = tx, stx_signatures =
        \<lparr>sig_nonce = nonce, sig_pubkey = pubkey, sig_signature = signature\<rparr> # rest\<rparr>"
  from assms(8) have b: "serializeUnsignedTransaction L tx nonce (ec_erc20Tokens C)
      (getAtomicSwapContractAddress C (eth_content tx)) (getCustomSmartContractAddress C) = ok (job_bytes job)"
    by (auto simp: eth_bytesToSign_def andThen_eq_Inr)
  obtain uo so where o: "options_agree uo so" "unsigned_dispatch L (EscrowOpen e) uo = ok (job_bytes job)"
      "eth_bytesToPost L C ?stx = signed_dispatch L (EscrowOpen e) so" "so_r so = sig_r sig" "so_s so = sig_s sig"
      "uo_chainIdHex uo = quantity n" "so_v so = quantity (nat v)"
    using b assms(9,1-3) unfolding assms(4,10) by (rule dispatched_options) (simp add: eth_bytesToPost_def assms(4))
  from o(2) assms(5,6) obtain contract data where call: "generic_unsigned L uo contract ZERO_ETH_QUANTITY data = ok (job_bytes job)"
      "need_contract (uo_customSmartContractAddress uo) = ok contract"
      "escrow_open L (esc_swapId e) (eo_arbiter e) (eo_hash e) (eo_timeout e) = ok data"
    by (auto simp: unsigned_dispatch_def escrow_serializeUnsigned_def serializeUnsignedOpenTransaction_def andThen_eq_Inr
        open_quantity_def serialize_parameters isEscrowTransaction_def split: if_splits)
  have "eth_bytesToPost L C ?stx = generic_signed L so contract (to_base 10 q) data"
    using call(2,3) o(1) by (simp add: o(3) signed_dispatch_def escrow_serializeSigned_def serializeSignedOpenTransaction_def
        open_quantity_def assms(6,7) serialize_parameters isEscrowTransaction_def options_agree_def startsWith_def)
  moreover from call(1) obtain nonceBytes gasPrice gasLimit to where
      "eth_isValidAddress L contract = ok True" "encodeNonce L (uo_nonce uo) = ok nonceBytes"
      "fromHex (normalizeHex (uo_gasPriceHex uo)) = ok gasPrice" "fromHex (normalizeHex (uo_gasLimitHex uo)) = ok gasLimit"
      "fromHex (normalizeHex contract) = ok to" "job_bytes job = toRlp L [nonceBytes, gasPrice, gasLimit, to, [], data, quantity_data n, [], []]"
    by (auto simp: generic_unsigned_def serializeGenericTransaction_def andThen_eq_Inr o(6) zero_quantity
        encodeValue_integer [OF assms(1)] split: if_splits)
  ultimately show ?thesis
    using o(1) by (intro exI [of _ "[nonceBytes, gasPrice, gasLimit, to]"] exI [of _ data])
      (simp add: generic_signed_def serializeGenericTransaction_def options_agree_def o(4,5,7) encodeValue_integer [OF assms(1)])
qed

lemma token_escrow_posts_other_value_witness:
  "\<exists>C tx (job :: SigningJob) signature before data.
    job_bytes job = toRlp demo_eth (before @ [[], data, quantity_data 1, [], []]) \<and> length before = 4 \<and>
    eth_bytesToPost demo_eth C \<lparr>stx_transaction = tx, stx_signatures = [signature]\<rparr>
      = ok (toRlp demo_eth (before @ [integer_data 9, data, quantity_data 37, replicate 32 1, replicate 32 1]))"
proof -
  let ?zero = "address_of demo_eth (replicate 20 0)"
  let ?amount = "\<lparr>am_quantity = to_base 10 9, am_fractionalDigits = int_num 2, am_tokenTicker = ''ASH''\<rparr>"
  let ?e = "\<lparr>esc_sender = demo_sender, esc_swapId = \<lparr>swap_prefix = Some SwapIdPrefix_Erc20, swap_data = replicate 32 1\<rparr>,
    esc_amount = Some ?amount, eo_arbiter = ?zero, eo_hash = replicate 32 2,
    eo_timeout = BlockHeightTimeout (int_num (int 100))\<rparr>"
  let ?C = "\<lparr>ec_atomicSwapEtherContractAddress = None, ec_atomicSwapErc20ContractAddress = None,
    ec_customSmartContractConfig = Some \<lparr>cfg_address = ?zero, cfg_type = EscrowSmartContract, cfg_fractionalDigits = int_num 2,
      cfg_tokenTicker = ''ASH'', cfg_tokenType = TokenErc20\<rparr>,
    ec_erc20Tokens = [(''ASH'', \<lparr>erc_contractAddress = ?zero, erc_symbol = ''ASH'', erc_decimals = int_num 2, erc_name = None\<rparr>)]\<rparr>"
  let ?tx = "call_tx 1 7 21000 (EscrowOpen ?e)"
  have opened: "is_ok (calculateMethodId demo_eth ''open(bytes32,address,bytes32,uint256)'')"
    by (simp add: calculateMethodId_def calculateMethodHash_def toAscii_ok printable_def)
  have address: "fromHex (normalizeHex ?zero) = ok (replicate 20 0)"
    using address_forms(3) [of "replicate 20 0" ?zero demo_eth] hex.dec_enc [of "replicate 20 0" "toHex (replicate 20 0)"]
    by (simp add: address_of_def)
  have "is_ok (eth_bytesToSign demo_eth ?C ?tx (int_num (int 3)))"
    using call_tx_hex [OF demo_eth_laws, of 1] opened encodeHeight_natural [OF demo_eth_laws, of 100] address
      encodeNonce_integer [OF demo_eth_laws, of 3] encodeValue_integer [OF demo_eth_laws, of 0]
    by (auto simp: eth_bytesToSign_def serializeUnsignedTransaction_def isEscrowTransaction_def startsWith_def
        escrow_serializeUnsigned_def serializeUnsignedOpenTransaction_def need_contract_def getCustomSmartContractAddress_def
        escrow_checkTransaction_def open_quantity_def checkErc20Amount_def escrow_open_def serialize_parameters
        generic_unsigned_def serializeGenericTransaction_def zero_quantity is_ok_iff Let_def)
  then obtain job where job: "eth_bytesToSign demo_eth ?C ?tx (int_num (int 3)) = ok job" by (auto simp: is_ok_iff)
  obtain before data where f: "length before = 4" "job_bytes job = toRlp demo_eth (before @ [[], data, quantity_data 1, [], []])"
      "eth_bytesToPost demo_eth ?C \<lparr>stx_transaction = ?tx, stx_signatures = [\<lparr>sig_nonce = int_num (int 3),
          sig_pubkey = \<lparr>pk_algo = Secp256k1, pk_data = demo_pubkey\<rparr>, sig_signature = replicate 64 1 @ [0]\<rparr>]\<rparr>
        = ok (toRlp demo_eth (before @ [integer_data 9, data, quantity_data 37, replicate 32 1, replicate 32 1]))"
    using token_escrow_posts_other_value [OF demo_eth_laws call_tx_parts(2) _ call_tx_parts(1) _ _ _ job demo_signature refl, of ?amount 9
      "\<lparr>pk_algo = Secp256k1, pk_data = demo_pubkey\<rparr>" "[]"] by auto
  then show ?thesis by blast
qed

end
