(* ===== verification/Js_Json.thy ===== *)
theory Js_Json
  imports Iov_Json
begin

text \<open>
  \<open>JSON.stringify\<close> and \<open>JSON.parse\<close> of the language, on the values of
  \<open>Iov_Json\<close>: decimal texts and double precision numbers, strings with escapes,
  a lexer and a parser that keeps the open arrays and objects on a stack. A value
  made of null, booleans, safe integers, strings, arrays and objects is read back
  from its text.
\<close>

section \<open>Numbers of double precision\<close>

text \<open>The exponent of the largest power of two that is not above a positive number.\<close>

function binexp :: "rat \<Rightarrow> int" where
  "binexp a = (if a \<le> 0 then 0 else if a < 1 then binexp (2 * a) - 1 else if a < 2 then 0 else binexp (a / 2) + 1)"
  by auto

termination
proof (relation "measure (\<lambda>a :: rat. if a < 1 then nat \<lceil>1 / a\<rceil> + 2 else nat \<lfloor>a\<rfloor>)", goal_cases)
  case (2 a)
  have "\<lceil>1 / (2 * a)\<rceil> < \<lceil>1 / a\<rceil>" if "2 * a < 1"
  proof -
    have "1 / (2 * a) \<le> 1 / a - 1" using 2 that by (simp add: field_simps)
    then have "\<lceil>1 / (2 * a)\<rceil> \<le> \<lceil>1 / a - 1\<rceil>" by (rule ceiling_mono)
    then show ?thesis by simp
  qed
  moreover have "0 < \<lceil>1 / a\<rceil>" using 2 by simp
  moreover have "nat \<lfloor>2 * a\<rfloor> \<le> 1" using 2 by (simp add: nat_le_iff floor_le_iff)
  ultimately show ?case using 2 by auto
next
  case (3 a)
  then have "\<lfloor>a / 2\<rfloor> < \<lfloor>a\<rfloor>" by (simp add: floor_less_iff) linarith
  with 3 show ?case by (auto simp: nat_less_iff)
qed simp

declare binexp.simps [simp del]

definition round_even :: "rat \<Rightarrow> int" where
  "round_even x = (let f = \<lfloor>x\<rfloor>; r = x - of_int f in
     if r < 1 / 2 \<or> r = 1 / 2 \<and> even f then f else f + 1)"

text \<open>The nearest number of double precision.\<close>

definition double_of_rat :: "rat \<Rightarrow> number" where
  "double_of_rat q = (let a = \<bar>q\<bar> in
     if a = 0 then Num 0
     else let u = 2 powi (max (binexp a - 52) (-1074)); v = of_int (round_even (a / u)) * u in
       if v \<ge> 2 ^ 1024 then (if q < 0 then NegInfinity else PosInfinity)
       else Num (if q < 0 then - v else v))"

lemma binexp_small: "0 < a \<Longrightarrow> a < 2 ^ k \<Longrightarrow> binexp a < int k"
proof (induction a arbitrary: k rule: binexp.induct)
  case (1 a)
  show ?case
  proof (cases "a < 1")
    case True
    with 1(1) [of 1] 1(3) have "binexp (2 * a) < int 1" by auto
    with True 1(3) show ?thesis by (subst binexp.simps) simp
  next
    case False
    show ?thesis
    proof (cases "a < 2")
      case True
      with False 1(4) have "0 < k" by (cases k) auto
      with True False show ?thesis by (subst binexp.simps) simp
    next
      case ge: False
      then obtain j where j: "k = Suc j" using False 1(4) by (cases k) auto
      have "binexp (a / 2) < int j" by (rule 1(2)) (use False ge 1(3,4) j in auto)
      with False ge 1(3) j show ?thesis by (subst binexp.simps) simp
    qed
  qed
qed

lemma double_of_int_exact:
  assumes "\<bar>i\<bar> < 2 ^ 53"
  shows "double_of_rat (of_int i) = int_num i"
proof (cases "i = 0")
  case False
  define a where "a = (of_int \<bar>i\<bar> :: rat)"
  define e where "e = max (binexp a - 52) (- 1074)"
  have a: "0 < a" "a < 2 ^ 53" using False assms by (simp_all add: a_def)
  have "e \<le> 0" using binexp_small [OF a] by (simp add: e_def)
  then obtain m where m: "e = - int m" by (rule nonpos_int_cases)
  have u: "(2 :: rat) powi e = inverse (2 ^ m)" by (simp add: m power_int_minus)
  have "a / (2 powi e) = of_int (\<bar>i\<bar> * 2 ^ m)" by (simp add: u a_def divide_inverse)
  then have r: "round_even (a / (2 powi e)) = \<bar>i\<bar> * 2 ^ m" by (simp only: round_even_def Let_def floor_of_int) simp
  have "of_int (round_even (a / (2 powi e))) * (2 powi e) = a" unfolding r by (simp add: u a_def)
  moreover have "\<not> 2 ^ 1024 \<le> a"
    unfolding not_le by (rule less_le_trans [OF a(2)]) (rule power_increasing; simp)
  moreover have "\<bar>of_int i :: rat\<bar> = a" by (simp add: a_def)
  ultimately have "double_of_rat (of_int i) = Num (if (of_int i :: rat) < 0 then - a else a)"
    unfolding double_of_rat_def Let_def e_def [symmetric] using a(1) by (simp only: e_def [symmetric] if_False less_imp_neq [symmetric])
  then show ?thesis by (simp add: a_def int_num_def)
qed (simp add: double_of_rat_def int_num_def)

lemma binexp_large: "2 ^ k \<le> a \<Longrightarrow> int k \<le> binexp a"
proof (induction k arbitrary: a)
  case 0
  then show ?case
  proof (induction a rule: binexp.induct)
    case (1 a)
    then show ?case by (subst binexp.simps) auto
  qed
next
  case (Suc k)
  then have "2 ^ k \<le> a / 2" by simp
  with Suc.IH have "int k \<le> binexp (a / 2)" by blast
  moreover have "(1 :: rat) \<le> 2 ^ k" by (rule one_le_power) simp
  then have "2 \<le> a" using Suc.prems unfolding power_Suc by linarith
  ultimately show ?case by (subst binexp.simps) simp
qed

lemma binexp_lower: "0 < a \<Longrightarrow> 2 powi binexp a \<le> a"
proof (induction a rule: binexp.induct)
  case (1 a)
  show ?case
  proof (cases "a < 1")
    case True
    with 1 have "2 powi binexp (2 * a) \<le> 2 * a" by simp
    with True 1(3) show ?thesis by (subst binexp.simps) (simp add: power_int_diff)
  next
    case False
    then show ?thesis using 1 by (subst binexp.simps) (auto simp: power_int_add)
  qed
qed

text \<open>A large number stays large when it is rounded.\<close>

lemma double_of_rat_large:
  assumes "2 ^ 53 \<le> \<bar>q\<bar>"
  shows "double_of_rat q = PosInfinity \<or> double_of_rat q = NegInfinity \<or> (\<exists>v. double_of_rat q = Num v \<and> 2 ^ 53 \<le> \<bar>v\<bar>)"
proof -
  define a where "a = \<bar>q\<bar>"
  define e where "e = binexp a"
  define u where "u = (2 :: rat) powi (e - 52)"
  define v where "v = of_int (round_even (a / u)) * u"
  have e: "53 \<le> e" using binexp_large [of 53 a] assms by (simp add: e_def a_def)
  have a: "0 < a" using assms by (simp add: a_def)
  have u: "0 < u" "2 ^ 52 * u = 2 powi e" by (simp_all add: u_def power_int_diff)
  have "2 ^ 52 \<le> a / u" using binexp_lower [OF a] u by (simp add: e_def [symmetric] pos_le_divide_eq)
  then have "2 ^ 52 \<le> \<lfloor>a / u\<rfloor>" by (simp add: le_floor_iff)
  moreover have "\<lfloor>a / u\<rfloor> \<le> round_even (a / u)" by (simp add: round_even_def Let_def)
  ultimately have "2 ^ 52 \<le> round_even (a / u)" by linarith
  then have "(of_int (2 ^ 52) :: rat) \<le> of_int (round_even (a / u))" by (simp only: of_int_le_iff)
  then have "2 ^ 52 * u \<le> v" using u(1) unfolding v_def by (intro mult_right_mono) simp_all
  moreover have "(2 :: rat) powi int 53 \<le> 2 powi e" by (rule power_int_increasing) (use e in auto)
  ultimately have "2 ^ 53 \<le> v" using u(2) by (simp add: power_int_of_nat)
  moreover have "double_of_rat q = (if v \<ge> 2 ^ 1024 then (if q < 0 then NegInfinity else PosInfinity) else Num (if q < 0 then - v else v))"
    using a e by (simp only: double_of_rat_def Let_def a_def [symmetric] e_def [symmetric] v_def u_def) (simp add: max_def)
  ultimately show ?thesis by (auto split: if_splits)
qed

text \<open>The operators on numbers, each rounded once.\<close>

definition js_add :: "number \<Rightarrow> number \<Rightarrow> number" where
  "js_add x y = (case (x, y) of
     (Num a, Num b) \<Rightarrow> double_of_rat (a + b)
   | (NaN, _) \<Rightarrow> NaN | (_, NaN) \<Rightarrow> NaN
   | (PosInfinity, NegInfinity) \<Rightarrow> NaN | (NegInfinity, PosInfinity) \<Rightarrow> NaN
   | (Num _, z) \<Rightarrow> z | (z, _) \<Rightarrow> z)"

definition js_neg :: "number \<Rightarrow> number" where
  "js_neg x = (case x of Num a \<Rightarrow> Num (- a) | PosInfinity \<Rightarrow> NegInfinity | NegInfinity \<Rightarrow> PosInfinity | NaN \<Rightarrow> NaN)"

definition js_sub :: "number \<Rightarrow> number \<Rightarrow> number" where
  "js_sub x y = js_add x (js_neg y)"

text \<open>Multiplication and division by a positive constant.\<close>

definition js_times :: "number \<Rightarrow> rat \<Rightarrow> number" where
  "js_times x c = (case x of Num a \<Rightarrow> double_of_rat (a * c) | _ \<Rightarrow> x)"

definition js_over :: "number \<Rightarrow> rat \<Rightarrow> number" where
  "js_over x c = (case x of Num a \<Rightarrow> double_of_rat (a / c) | _ \<Rightarrow> x)"

definition Math_floor :: "number \<Rightarrow> number" where
  "Math_floor x = (case x of Num a \<Rightarrow> int_num \<lfloor>a\<rfloor> | _ \<Rightarrow> x)"

text \<open>
  \<open>new Date(t).getTime()\<close>: a time value is an integer number of milliseconds of at
  most \<open>8.64 * 10\<^sup>1\<^sup>5\<close> in absolute value; any other date is invalid, its time is NaN.
\<close>

definition date_time :: "number \<Rightarrow> number" where
  "date_time t = (case t of
     Num a \<Rightarrow> if \<bar>a\<bar> \<le> 8640000000000000 then int_num (if a < 0 then \<lceil>a\<rceil> else \<lfloor>a\<rfloor>) else NaN
   | _ \<Rightarrow> NaN)"

lemma js_add_int: "\<bar>i + j\<bar> < 2 ^ 53 \<Longrightarrow> js_add (int_num i) (int_num j) = int_num (i + j)"
  using double_of_int_exact [of "i + j"] by (simp add: js_add_def int_num_def)

lemma js_sub_int: "\<bar>i - j\<bar> < 2 ^ 53 \<Longrightarrow> js_sub (int_num i) (int_num j) = int_num (i - j)"
  using js_add_int [of i "- j"] by (simp add: js_sub_def js_neg_def int_num_def)

lemma js_times_int: "\<bar>i * j\<bar> < 2 ^ 53 \<Longrightarrow> js_times (int_num i) (of_int j) = int_num (i * j)"
  using double_of_int_exact [of "i * j"] by (simp add: js_times_def int_num_def)

lemma js_over_multiple: "j \<noteq> 0 \<Longrightarrow> \<bar>i\<bar> < 2 ^ 53 \<Longrightarrow> js_over (int_num (i * j)) (of_int j) = int_num i"
  using double_of_int_exact [of i] by (simp add: js_over_def int_num_def)

lemma Math_floor_int [simp]: "Math_floor (int_num i) = int_num i"
  by (simp add: Math_floor_def int_num_def)

lemma date_time_int: "\<bar>i\<bar> \<le> 8640000000000000 \<Longrightarrow> date_time (int_num i) = int_num i"
proof -
  assume "\<bar>i\<bar> \<le> 8640000000000000"
  then have "(of_int \<bar>i\<bar> :: rat) \<le> of_int 8640000000000000" by (simp only: of_int_le_iff)
  then show ?thesis by (simp add: date_time_def int_num_def)
qed

lemma not_a_number [simp]:
  "js_add NaN x = NaN" "js_sub NaN x = NaN" "js_times NaN c = NaN" "js_over NaN c = NaN" "Math_floor NaN = NaN"
  "date_time NaN = NaN"
  by (simp_all add: js_add_def js_sub_def js_times_def js_over_def Math_floor_def date_time_def)

section \<open>The decimal text of a number\<close>

text \<open>The least \<open>n\<close> with \<open>a < 10\<^sup>n\<close>, for a positive number.\<close>

function decexp :: "rat \<Rightarrow> int" where
  "decexp a = (if a \<le> 0 then 0 else if 10 * a < 1 then decexp (10 * a) - 1 else if a < 1 then 0 else decexp (a / 10) + 1)"
  by auto

termination
proof (relation "measure (\<lambda>a :: rat. if a < 1 then nat \<lceil>1 / a\<rceil> else nat \<lfloor>a\<rfloor> + 11)", goal_cases)
  case (2 a)
  have "1 / (10 * a) \<le> 1 / a - 1" using 2 by (simp add: field_simps)
  then have "\<lceil>1 / (10 * a)\<rceil> \<le> \<lceil>1 / a - 1\<rceil>" by (rule ceiling_mono)
  moreover have "0 < \<lceil>1 / a\<rceil>" using 2 by simp
  ultimately show ?case using 2 by auto
next
  case (3 a)
  then have "nat \<lceil>10 / a\<rceil> \<le> 10" by (simp add: nat_le_iff ceiling_le_iff field_simps)
  moreover have "1 \<le> \<lfloor>a\<rfloor>" using 3 by simp
  then have "(1 :: rat) \<le> of_int \<lfloor>a\<rfloor>" by simp
  then have "\<lfloor>a / 10\<rfloor> < \<lfloor>a\<rfloor>" using floor_correct [of a] by (simp only: floor_less_iff) linarith
  ultimately show ?case using 3 by (auto simp: nat_less_iff)
qed simp

text \<open>The fewest digits that denote the number, and the exponent of the last one.\<close>

definition shortest_digits :: "rat \<Rightarrow> string \<times> int" where
  "shortest_digits a = (let n = decexp a;
       digits = (\<lambda>k. round_even (a / 10 powi (n - int k)));
       found = find (\<lambda>k. double_of_rat (of_int (digits k) * 10 powi (n - int k)) = Num a) [1..<18]
     in case found of None \<Rightarrow> ([], n) | Some k \<Rightarrow> (to_base 10 (nat (digits k)), n))"

text \<open>\<open>Number.prototype.toString\<close>.\<close>

definition positive_text :: "rat \<Rightarrow> string" where
  "positive_text a = (let (ds, n) = shortest_digits a; k = int (length ds) in
     if k \<le> n \<and> n \<le> 21 then ds @ replicate (nat (n - k)) (CHR ''0'')
     else if 0 < n \<and> n \<le> 21 then take (nat n) ds @ ''.'' @ drop (nat n) ds
     else if - 6 < n \<and> n \<le> 0 then ''0.'' @ replicate (nat (- n)) (CHR ''0'') @ ds
     else take 1 ds @ (if k = 1 then [] else ''.'' @ drop 1 ds) @ ''e'' @ (if 0 < n then ''+'' else []) @ int_to_string (n - 1))"

definition number_text :: "number \<Rightarrow> string" where
  "number_text x = (case x of
     NaN \<Rightarrow> ''NaN'' | PosInfinity \<Rightarrow> ''Infinity'' | NegInfinity \<Rightarrow> ''-Infinity''
   | Num q \<Rightarrow> if of_int \<lfloor>q\<rfloor> = q \<and> \<bar>q\<bar> < 10 ^ 15 then int_to_string \<lfloor>q\<rfloor>
       else if q < 0 then ''-'' @ positive_text (- q) else positive_text q)"

text \<open>The numbers of JSON, from the characters that can occur in one.\<close>

definition is_number_char :: "char \<Rightarrow> bool" where
  "is_number_char c \<longleftrightarrow> is_digit c \<or> c \<in> {CHR ''+'', CHR ''-'', CHR ''.'', CHR ''e'', CHR ''E''}"

definition read_exponent :: "string \<Rightarrow> int option" where
  "read_exponent s = (case s of
     [] \<Rightarrow> Some 0
   | c # rest \<Rightarrow>
       if c \<noteq> CHR ''e'' \<and> c \<noteq> CHR ''E'' then None
       else let (sign, ds) = (case rest of
              d # ds \<Rightarrow> if d = CHR ''+'' then (1, ds) else if d = CHR ''-'' then (- 1, ds) else (1, rest)
            | [] \<Rightarrow> (1, []))
         in if ds \<noteq> [] \<and> list_all is_digit ds then Some (sign * int (parse_base 10 ds)) else None)"

definition read_unsigned :: "string \<Rightarrow> rat option" where
  "read_unsigned s = (let ip = takeWhile is_digit s; r = dropWhile is_digit s;
       (fp, e, good) = (if startsWith r ''.'' then (takeWhile is_digit (tl r), dropWhile is_digit (tl r), takeWhile is_digit (tl r) \<noteq> [])
         else ([], r, True))
     in if good \<and> canonical_decimal ip
       then map_option (\<lambda>x. of_nat (parse_base 10 (ip @ fp)) * 10 powi (x - int (length fp))) (read_exponent e)
       else None)"

definition read_number :: "string \<Rightarrow> number option" where
  "read_number s = (if startsWith s ''-'' then map_option (\<lambda>q. double_of_rat (- q)) (read_unsigned (tl s))
     else map_option double_of_rat (read_unsigned s))"

section \<open>Strings\<close>

definition escape_of :: "char \<Rightarrow> char option" where
  "escape_of c = map_of [(CHR 0x22, CHR 0x22), (CHR 0x5C, CHR 0x5C), (CHR 0x08, CHR ''b''), (CHR 0x0C, CHR ''f''),
     (CHR 0x0A, CHR ''n''), (CHR 0x0D, CHR ''r''), (CHR 0x09, CHR ''t'')] c"

definition escaped :: "char \<Rightarrow> string" where
  "escaped c = (case escape_of c of
     Some e \<Rightarrow> [CHR 0x5C, e]
   | None \<Rightarrow> if (of_char c :: nat) < 32 then [CHR 0x5C, CHR ''u'', CHR ''0'', CHR ''0''] @ toHexByte (toUint8 (int (of_char c))) else [c])"

definition quote :: "string \<Rightarrow> string" where
  "quote s = [CHR 0x22] @ concat (map escaped s) @ [CHR 0x22]"

text \<open>The character of an escape other than \<open>\u\<close>.\<close>

definition unescape :: "char \<Rightarrow> char option" where
  "unescape e = map_of [(CHR 0x22, CHR 0x22), (CHR 0x5C, CHR 0x5C), (CHR 0x2F, CHR 0x2F), (CHR ''b'', CHR 0x08), (CHR ''f'', CHR 0x0C),
     (CHR ''n'', CHR 0x0A), (CHR ''r'', CHR 0x0D), (CHR ''t'', CHR 0x09)] e"

text \<open>A string up to its closing quote; code units above 255 are outside the model.\<close>

fun lex_string :: "string \<Rightarrow> (string \<times> string) option" where
  "lex_string [] = None"
| "lex_string (c # s) =
     (if c = CHR 0x22 then Some ([], s)
      else if c = CHR 0x5C then (case s of
          [] \<Rightarrow> None
        | e # s' \<Rightarrow>
            if e = CHR ''u'' then
              (if length (take 4 s') = 4 \<and> list_all is_hex_digit (take 4 s') \<and> parse_base 16 (take 4 s') < 256
               then map_option (\<lambda>(t, rest). (char_of (parse_base 16 (take 4 s')) # t, rest)) (lex_string (drop 4 s'))
               else None)
            else (case unescape e of
                None \<Rightarrow> None
              | Some x \<Rightarrow> map_option (\<lambda>(t, rest). (x # t, rest)) (lex_string s')))
      else if (of_char c :: nat) < 32 then None
      else map_option (\<lambda>(t, rest). (c # t, rest)) (lex_string s))"

lemma lex_string_shorter: "lex_string s = Some (t, rest) \<Longrightarrow> length rest < length s"
proof (induction s arbitrary: t rest rule: lex_string.induct)
  case (2 c s)
  then show ?case
    by (fastforce split: if_splits list.splits option.splits simp: less_Suc_eq)
qed simp

section \<open>Tokens\<close>

datatype token = Punctuation char | Literal js_value

definition is_space :: "char \<Rightarrow> bool" where
  "is_space c \<longleftrightarrow> c \<in> {CHR 0x20, CHR 0x09, CHR 0x0A, CHR 0x0D}"

definition is_letter :: "char \<Rightarrow> bool" where
  "is_letter c \<longleftrightarrow> (let n = of_char c :: nat in 97 \<le> n \<and> n \<le> 122)"

definition keyword :: "string \<Rightarrow> js_value option" where
  "keyword w = map_of [(''null'', Null), (''true'', Boolean True), (''false'', Boolean False)] w"

function lex :: "string \<Rightarrow> token list result" where
  "lex [] = ok []"
| "lex (c # s) =
     (if is_space c then lex s
      else if c \<in> set ''{}[],:'' then andThen (lex s) (\<lambda>ts. ok (Punctuation c # ts))
      else if c = CHR 0x22 then (case lex_string s of
          None \<Rightarrow> throw ''SyntaxError''
        | Some (t, rest) \<Rightarrow> andThen (lex rest) (\<lambda>ts. ok (Literal (Str t) # ts)))
      else if is_digit c \<or> c = CHR ''-'' then (case read_number (takeWhile is_number_char (c # s)) of
          None \<Rightarrow> throw ''SyntaxError''
        | Some x \<Rightarrow> andThen (lex (dropWhile is_number_char s)) (\<lambda>ts. ok (Literal (Number x) # ts)))
      else (case keyword (takeWhile is_letter (c # s)) of
          None \<Rightarrow> throw ''SyntaxError''
        | Some v \<Rightarrow> andThen (lex (dropWhile is_letter s)) (\<lambda>ts. ok (Literal v # ts))))"
  by pat_completeness auto

termination
  by (relation "measure length") (auto simp: length_dropWhile_le le_imp_less_Suc dest: lex_string_shorter)

section \<open>Parsing\<close>

text \<open>An open array with its elements, an open object with its members and the key of the next one.\<close>

datatype frame = InArray "js_value list" | InObject "(string \<times> js_value) list" string

datatype parser =
    WantValue "frame list"
  | WantElementOrEnd "frame list"
  | WantKeyOrEnd "frame list"
  | WantKey "(string \<times> js_value) list" "frame list"
  | WantColon "(string \<times> js_value) list" string "frame list"
  | AfterElement "js_value list" "frame list"
  | AfterMember "(string \<times> js_value) list" "frame list"
  | Finished js_value

fun complete :: "js_value \<Rightarrow> frame list \<Rightarrow> parser" where
  "complete v [] = Finished v"
| "complete v (InArray vs # st) = AfterElement (vs @ [v]) st"
| "complete v (InObject kvs k # st) = AfterMember (objUpdate kvs k v) st"

definition start_value :: "frame list \<Rightarrow> token \<Rightarrow> parser option" where
  "start_value st t = (case t of
     Literal v \<Rightarrow> Some (complete v st)
   | Punctuation c \<Rightarrow>
       if c = CHR ''['' then Some (WantElementOrEnd st) else if c = CHR ''{'' then Some (WantKeyOrEnd st) else None)"

definition take_key :: "(string \<times> js_value) list \<Rightarrow> frame list \<Rightarrow> token \<Rightarrow> parser option" where
  "take_key kvs st t = (case t of Literal (Str k) \<Rightarrow> Some (WantColon kvs k st) | _ \<Rightarrow> None)"

fun parser_step :: "parser \<Rightarrow> token \<Rightarrow> parser option" where
  "parser_step (WantValue st) t = start_value st t"
| "parser_step (WantElementOrEnd st) t =
     (if t = Punctuation (CHR '']'') then Some (complete (Arr []) st) else start_value (InArray [] # st) t)"
| "parser_step (WantKeyOrEnd st) t =
     (if t = Punctuation (CHR ''}'') then Some (complete (Obj []) st) else take_key [] st t)"
| "parser_step (WantKey kvs st) t = take_key kvs st t"
| "parser_step (WantColon kvs k st) t =
     (if t = Punctuation (CHR '':'') then Some (WantValue (InObject kvs k # st)) else None)"
| "parser_step (AfterElement vs st) t =
     (if t = Punctuation (CHR '','') then Some (WantValue (InArray vs # st))
      else if t = Punctuation (CHR '']'') then Some (complete (Arr vs) st) else None)"
| "parser_step (AfterMember kvs st) t =
     (if t = Punctuation (CHR '','') then Some (WantKey kvs st)
      else if t = Punctuation (CHR ''}'') then Some (complete (Obj kvs) st) else None)"
| "parser_step (Finished v) t = None"

fun parse_tokens :: "parser \<Rightarrow> token list \<Rightarrow> parser option" where
  "parse_tokens p [] = Some p"
| "parse_tokens p (t # ts) = (case parser_step p t of None \<Rightarrow> None | Some q \<Rightarrow> parse_tokens q ts)"

definition JSON_parse :: "string \<Rightarrow> js_value result" where
  "JSON_parse s = andThen (lex s) (\<lambda>ts. case parse_tokens (WantValue []) ts of
     Some (Finished v) \<Rightarrow> ok v | _ \<Rightarrow> throw ''SyntaxError'')"

section \<open>Printing\<close>

fun joined :: "string list \<Rightarrow> string" where
  "joined [] = []"
| "joined [s] = s"
| "joined (s # t # ts) = s @ '','' @ joined (t # ts)"

definition array_text :: "string list \<Rightarrow> string" where
  "array_text ts = ''['' @ joined ts @ '']''"

definition object_text :: "(string \<times> string) list \<Rightarrow> string" where
  "object_text kts = ''{'' @ joined (map (\<lambda>(k, t). quote k @ '':'' @ t) kts) @ ''}''"

definition byte_text :: "byte \<Rightarrow> string" where
  "byte_text b = to_base 10 (unat b)"

text \<open>
  \<open>JSON.stringify\<close>: \<open>None\<close> is \<open>undefined\<close>, which an object leaves out and an array
  prints as null. The properties of a \<open>Special\<close> object are not in the model.
\<close>

fun JSON_stringify :: "js_value \<Rightarrow> string option" where
  "JSON_stringify Null = Some ''null''"
| "JSON_stringify (Boolean b) = Some (if b then ''true'' else ''false'')"
| "JSON_stringify (Number x) = Some (case x of Num q \<Rightarrow> number_text x | _ \<Rightarrow> ''null'')"
| "JSON_stringify (Str s) = Some (quote s)"
| "JSON_stringify (Uint8Arr bs) = Some (object_text (map (\<lambda>(i, b). (to_base 10 i, byte_text b)) (enumerate 0 bs)))"
| "JSON_stringify (BufferObj bs) = Some (object_text [(''type'', quote ''Buffer''), (''data'', array_text (map byte_text bs))])"
| "JSON_stringify (Arr vs) = Some (array_text (map (\<lambda>v. case JSON_stringify v of None \<Rightarrow> ''null'' | Some t \<Rightarrow> t) vs))"
| "JSON_stringify (Obj kvs) = Some (object_text (concat (map (\<lambda>(k, v).
     case JSON_stringify v of None \<Rightarrow> [] | Some t \<Rightarrow> [(k, t)]) kvs)))"
| "JSON_stringify _ = None"

text \<open>The values that are read back.\<close>

fun json_data :: "js_value \<Rightarrow> bool" where
  "json_data Null = True"
| "json_data (Boolean b) = True"
| "json_data (Number x) \<longleftrightarrow> (\<exists>i. x = int_num i \<and> \<bar>i\<bar> < 10 ^ 15)"
| "json_data (Str s) = True"
| "json_data (Arr vs) = list_all json_data vs"
| "json_data (Obj kvs) \<longleftrightarrow> distinct (map fst kvs) \<and> list_all (\<lambda>(k, v). json_data v) kvs"
| "json_data _ = False"

section \<open>What is printed is read back\<close>

text \<open>The end of a text, or a character that ends a number or a keyword.\<close>

definition delimited :: "string \<Rightarrow> bool" where
  "delimited s \<longleftrightarrow> (case s of [] \<Rightarrow> True | c # _ \<Rightarrow> c \<in> set '',:]}'')"

lemma delimited_simps [simp]:
  "delimited []" "delimited (CHR '','' # s)" "delimited (CHR '':'' # s)" "delimited (CHR '']'' # s)" "delimited (CHR ''}'' # s)"
  by (simp_all add: delimited_def)

lemma delimiter_class: "c \<in> set '',:]}'' \<Longrightarrow> \<not> is_number_char c \<and> \<not> is_letter c"
  by (auto simp: is_number_char_def is_digit_def is_letter_def)

lemma number_word:
  assumes "list_all is_number_char w" "delimited rest"
  shows "takeWhile is_number_char (w @ rest) = w" "dropWhile is_number_char (w @ rest) = rest"
proof -
  have "takeWhile is_number_char rest = [] \<and> dropWhile is_number_char rest = rest"
    using assms(2) delimiter_class by (cases rest) (auto simp: delimited_def)
  with assms(1) show "takeWhile is_number_char (w @ rest) = w" "dropWhile is_number_char (w @ rest) = rest"
    by (simp_all add: takeWhile_append2 dropWhile_append2 list_all_iff)
qed

lemma letter_word:
  assumes "list_all is_letter w" "delimited rest"
  shows "takeWhile is_letter (w @ rest) = w" "dropWhile is_letter (w @ rest) = rest"
proof -
  have "takeWhile is_letter rest = [] \<and> dropWhile is_letter rest = rest"
    using assms(2) delimiter_class by (cases rest) (auto simp: delimited_def)
  with assms(1) show "takeWhile is_letter (w @ rest) = w" "dropWhile is_letter (w @ rest) = rest"
    by (simp_all add: takeWhile_append2 dropWhile_append2 list_all_iff)
qed

lemma read_unsigned_integer: "canonical_decimal s \<Longrightarrow> read_unsigned s = Some (of_nat (parse_base 10 s))"
proof -
  assume c: "canonical_decimal s"
  then have t: "takeWhile is_digit s = s" "dropWhile is_digit s = []"
    by (simp_all add: canonical_decimal_def takeWhile_eq_all_conv dropWhile_eq_Nil_conv list_all_iff)
  show ?thesis unfolding read_unsigned_def t using c by (simp add: Let_def startsWith_def read_exponent_def)
qed

lemma read_number_integer:
  assumes "\<bar>i\<bar> < 10 ^ 15"
  shows "read_number (int_to_string i) = Some (int_num i)"
proof -
  have d: "\<bar>i\<bar> < 2 ^ 53" using assms by (rule less_trans) simp
  show ?thesis
  proof (cases "i < 0")
    case True
    have "read_unsigned (to_base 10 (nat (- i))) = Some (of_nat (nat (- i)))"
      by (simp add: read_unsigned_integer canonical_to_base parse_to_base)
    then show ?thesis using True double_of_int_exact [OF d] by (simp add: read_number_def int_to_string_def startsWith_def)
  next
    case False
    have "read_unsigned (to_base 10 (nat i)) = Some (of_nat (nat i))"
      by (simp add: read_unsigned_integer canonical_to_base parse_to_base)
    moreover have "hd (to_base 10 (nat i)) \<noteq> CHR ''-''"
      using to_base_digits [of 10 "nat i"] to_base_not_Nil [of 10 "nat i"] by (cases "to_base 10 (nat i)") (auto simp: is_digit_def)
    then have "\<not> startsWith (to_base 10 (nat i)) ''-''" by (cases "to_base 10 (nat i)") (auto simp: startsWith_def)
    ultimately show ?thesis using False double_of_int_exact [OF d] by (simp add: read_number_def int_to_string_def)
  qed
qed

lemma number_text_integer: "\<bar>i\<bar> < 10 ^ 15 \<Longrightarrow> number_text (int_num i) = int_to_string i"
proof -
  assume "\<bar>i\<bar> < 10 ^ 15"
  then have "(of_int \<bar>i\<bar> :: rat) < of_int (10 ^ 15)" by (simp only: of_int_less_iff)
  then have "\<bar>of_int i :: rat\<bar> < 10 ^ 15" by simp
  then show ?thesis by (simp add: number_text_def int_num_def)
qed

lemma int_to_string_shape:
  obtains c s where "int_to_string i = c # s" "is_digit c \<or> c = CHR ''-''" "list_all is_number_char (c # s)"
proof -
  have "list_all is_number_char (int_to_string i)" for i
    using to_base_digits [of 10 "nat (- i)"] to_base_digits [of 10 "nat i"]
    by (auto simp: int_to_string_def is_number_char_def list_all_iff)
  moreover obtain c s where cs: "int_to_string i = c # s"
    by (cases "int_to_string i") (auto simp: int_to_string_def split: if_splits)
  moreover have "is_digit c \<or> c = CHR ''-''"
    using cs to_base_digits [of 10 "nat i"] by (cases "to_base 10 (nat i)") (auto simp: int_to_string_def split: if_splits)
  ultimately show ?thesis using that by metis
qed

lemma escaped_read: "lex_string (escaped c @ s) = map_option (\<lambda>(t, rest). (c # t, rest)) (lex_string s)"
proof (cases "escape_of c")
  case None
  show ?thesis
  proof (cases "(of_char c :: nat) < 32")
    case True
    define b where "b = toUint8 (int (of_char c))"
    have u: "unat b = of_char c" by (simp add: b_def unat_toUint8)
    have p: "parse_base 16 (CHR ''0'' # CHR ''0'' # toHexByte b) = unat b"
      using byte_nibbles [of b] by (simp add: toHexByte_digits parse_base_def digit_val_def [of "CHR ''0''"])
    have h: "list_all is_hex_digit (CHR ''0'' # CHR ''0'' # toHexByte b)"
      using byte_nibbles [of b] by (simp add: toHexByte_digits) (simp add: is_hex_digit_def digit_val_def)
    have t: "take 4 (CHR ''0'' # CHR ''0'' # toHexByte b @ s) = CHR ''0'' # CHR ''0'' # toHexByte b"
      "drop 4 (CHR ''0'' # CHR ''0'' # toHexByte b @ s) = s"
      by (simp_all add: toHexByte_digits)
    from True None show ?thesis
      using p h t u by (simp add: escaped_def b_def [symmetric])
  next
    case False
    moreover from None have "c \<noteq> CHR 0x22" "c \<noteq> CHR 0x5C" by (auto simp: escape_of_def)
    ultimately show ?thesis using None by (simp add: escaped_def)
  qed
next
  case (Some e)
  then have "e \<noteq> CHR ''u''" "unescape e = Some c" by (auto simp: escape_of_def unescape_def split: if_splits)
  with Some show ?thesis by (simp add: escaped_def)
qed

lemma lex_string_quoted: "lex_string (concat (map escaped s) @ CHR 0x22 # rest) = Some (s, rest)"
  by (induction s) (simp_all add: escaped_read)

lemma lex_quote: "lex (quote s @ rest) = andThen (lex rest) (\<lambda>ts. ok (Literal (Str s) # ts))"
  by (simp add: quote_def lex_string_quoted is_space_def)

text \<open>The tokens of a value, and of the parts of an array or an object.\<close>

fun separated :: "token list list \<Rightarrow> token list" where
  "separated [] = []"
| "separated [ts] = ts"
| "separated (ts # us # uss) = ts @ Punctuation (CHR '','') # separated (us # uss)"

fun value_tokens :: "js_value \<Rightarrow> token list" where
  "value_tokens (Arr vs) = Punctuation (CHR ''['') # separated (map value_tokens vs) @ [Punctuation (CHR '']'')]"
| "value_tokens (Obj kvs) = Punctuation (CHR ''{'')
     # separated (map (\<lambda>(k, v). Literal (Str k) # Punctuation (CHR '':'') # value_tokens v) kvs) @ [Punctuation (CHR ''}'')]"
| "value_tokens v = [Literal v]"

definition lexes_as :: "string \<Rightarrow> token list \<Rightarrow> bool" where
  "lexes_as t us \<longleftrightarrow> (\<forall>rest. delimited rest \<longrightarrow> lex (t @ rest) = andThen (lex rest) (\<lambda>ts. ok (us @ ts)))"

lemma lexes_asD: "lexes_as t us \<Longrightarrow> delimited rest \<Longrightarrow> lex (t @ rest) = andThen (lex rest) (\<lambda>ts. ok (us @ ts))"
  by (simp add: lexes_as_def)

lemma andThen_ok_ok: "andThen (andThen r (\<lambda>x. ok (f x))) (\<lambda>y. ok (g y)) = andThen r (\<lambda>x. ok (g (f x)))"
  by (simp add: andThen_assoc)

lemma lexes_joined:
  "list_all2 lexes_as ts uss \<Longrightarrow> lexes_as (joined ts) (separated uss)"
proof (induction ts uss rule: list_all2_induct)
  case (Cons t ts us uss)
  show ?case
  proof (cases ts)
    case Nil
    with Cons show ?thesis by simp
  next
    case (Cons t' ts')
    moreover from this \<open>list_all2 lexes_as ts uss\<close> obtain us' uss' where "uss = us' # uss'" by (auto simp: list_all2_Cons1)
    ultimately show ?thesis using Cons.IH Cons.hyps
      by (simp add: lexes_as_def andThen_assoc is_space_def)
  qed
qed (auto simp: lexes_as_def andThen_def split: sum.split)

lemma lexes_member: "lexes_as t us \<Longrightarrow> lexes_as (quote k @ '':'' @ t) (Literal (Str k) # Punctuation (CHR '':'') # us)"
  by (simp add: lexes_as_def lex_quote andThen_assoc is_space_def)

lemma lexes_brackets:
  assumes "lexes_as t us"
  shows "lexes_as (''['' @ t @ '']'') (Punctuation (CHR ''['') # us @ [Punctuation (CHR '']'')])"
    "lexes_as (''{'' @ t @ ''}'') (Punctuation (CHR ''{'') # us @ [Punctuation (CHR ''}'')])"
  using assms by (simp_all add: lexes_as_def andThen_assoc is_space_def)

lemma lexes_keyword:
  assumes "keyword w = Some v" "w \<in> {''null'', ''true'', ''false''}"
  shows "lexes_as w [Literal v]"
proof -
  have l: "list_all is_letter w" using assms(2) by (auto simp: is_letter_def)
  obtain c w' where w: "w = c # w'" and c: "is_letter c" using l assms(2) by (cases w) auto
  then have n: "\<not> is_space c" "c \<notin> set ''{}[],:''" "c \<noteq> CHR 0x22" "\<not> is_digit c" "c \<noteq> CHR ''-''"
    by (auto simp: is_letter_def is_space_def is_digit_def Let_def)
  show ?thesis unfolding lexes_as_def
  proof (intro allI impI)
    fix rest assume d: "delimited rest"
    have "list_all is_letter w'" using l w by simp
    with letter_word [OF l d] letter_word(2) [OF _ d, of w']
    have "takeWhile is_letter (c # w' @ rest) = w" "dropWhile is_letter (w' @ rest) = rest" by (simp_all add: w)
    with n assms(1) show "lex (w @ rest) = andThen (lex rest) (\<lambda>ts. ok ([Literal v] @ ts))"
      by (simp only: w append_Cons lex.simps if_False simp_thms option.case) simp
  qed
qed

lemma lexes_integer:
  assumes "\<bar>i\<bar> < 10 ^ 15"
  shows "lexes_as (int_to_string i) [Literal (Number (int_num i))]"
proof -
  obtain c s where cs: "int_to_string i = c # s" "is_digit c \<or> c = CHR ''-''" "list_all is_number_char (c # s)"
    by (rule int_to_string_shape)
  then have n: "\<not> is_space c" "c \<notin> set ''{}[],:''" "c \<noteq> CHR 0x22"
    by (auto simp: is_space_def is_digit_def)
  show ?thesis unfolding lexes_as_def
  proof (intro allI impI)
    fix rest assume d: "delimited rest"
    have "takeWhile is_number_char (c # s @ rest) = int_to_string i" "dropWhile is_number_char (s @ rest) = rest"
      using number_word(1) [OF cs(3) d] number_word(2) [of s rest] cs d by simp_all
    with n cs(2) read_number_integer [OF assms]
    show "lex (int_to_string i @ rest) = andThen (lex rest) (\<lambda>ts. ok ([Literal (Number (int_num i))] @ ts))"
      by (simp only: cs(1) append_Cons lex.simps if_False if_True simp_thms option.case) simp
  qed
qed

lemma stringify_data: "json_data v \<Longrightarrow> \<exists>t. JSON_stringify v = Some t"
  by (cases v) auto

lemma lexes_value:
  "json_data v \<Longrightarrow> JSON_stringify v = Some t \<Longrightarrow> lexes_as t (value_tokens v)"
proof (induction v arbitrary: t)
  case (Number x)
  then obtain i where "x = int_num i" "\<bar>i\<bar> < 10 ^ 15" by auto
  with Number lexes_integer [of i] number_text_integer [of i] show ?case by (simp add: int_num_def)
next
  case (Str s)
  then show ?case by (auto simp: lexes_as_def lex_quote)
next
  case (Arr vs)
  define texts where "texts = map (\<lambda>v. case JSON_stringify v of None \<Rightarrow> ''null'' | Some t \<Rightarrow> t) vs"
  have "lexes_as (case JSON_stringify v of None \<Rightarrow> ''null'' | Some t \<Rightarrow> t) (value_tokens v)" if "v \<in> set vs" for v
  proof -
    have "json_data v" using Arr.prems(1) that by (simp add: list_all_iff)
    with stringify_data [OF this] Arr.IH [OF that] show ?thesis by auto
  qed
  then have "list_all2 lexes_as texts (map value_tokens vs)"
    by (simp add: texts_def list.rel_map list.rel_refl_strong)
  moreover have "t = ''['' @ joined texts @ '']''" using Arr.prems(2) by (simp add: array_text_def texts_def)
  ultimately show ?case using lexes_brackets(1) [OF lexes_joined] by simp
next
  case (Obj kvs)
  have mem: "json_data v \<and> (\<forall>t. JSON_stringify v = Some t \<longrightarrow> lexes_as t (value_tokens v))" if "(k, v) \<in> set kvs" for k v
    using Obj.prems(1) Obj.IH [OF that, of v] that by (auto simp: list_all_iff)
  define texts where "texts = map (\<lambda>(k, v). (k, the (JSON_stringify v))) kvs"
  have "concat (map (\<lambda>(k, v). case JSON_stringify v of None \<Rightarrow> [] | Some t \<Rightarrow> [(k, t)]) kvs) = texts"
    unfolding texts_def using mem
  proof (induction kvs)
    case (Cons kv kvs)
    obtain k v where kv: "kv = (k, v)" by (cases kv)
    with Cons.prems [of k v] stringify_data [of v] obtain u where "JSON_stringify v = Some u" by auto
    with Cons kv show ?case by auto
  qed simp
  with Obj.prems(2) have t: "t = ''{'' @ joined (map (\<lambda>(k, t). quote k @ '':'' @ t) texts) @ ''}''"
    by (simp add: object_text_def)
  have "list_all2 lexes_as (map (\<lambda>(k, t). quote k @ '':'' @ t) texts)
    (map (\<lambda>(k, v). Literal (Str k) # Punctuation (CHR '':'') # value_tokens v) kvs)"
    unfolding texts_def list.rel_map
  proof (rule list.rel_refl_strong)
    fix kv assume "kv \<in> set kvs"
    moreover obtain k v where "kv = (k, v)" by (cases kv)
    ultimately show "lexes_as (case case kv of (k, v) \<Rightarrow> (k, the (JSON_stringify v)) of (k, t) \<Rightarrow> quote k @ '':'' @ t)
        (case kv of (k, v) \<Rightarrow> Literal (Str k) # Punctuation (CHR '':'') # value_tokens v)"
      using mem [of k v] stringify_data [of v] by (auto intro: lexes_member [simplified])
  qed
  then show ?case using lexes_brackets(2) [OF lexes_joined] t by simp
qed (auto intro!: lexes_keyword simp: keyword_def)

subsection \<open>The parser on the tokens of a value\<close>

lemma value_tokens_start: "\<exists>u us. value_tokens v = u # us \<and> u \<noteq> Punctuation (CHR '']'')"
  by (cases v) auto

lemma objUpdate_fresh: "k \<notin> fst ` set kvs \<Longrightarrow> objUpdate kvs k v = kvs @ [(k, v)]"
  by (induction kvs k v rule: objUpdate.induct) auto

lemma parse_first_element:
  "parse_tokens (WantElementOrEnd st) (value_tokens v @ ts) = parse_tokens (WantValue (InArray [] # st)) (value_tokens v @ ts)"
  using value_tokens_start [of v] by auto

lemma parse_elements:
  assumes "\<And>v st ts. v \<in> set vs \<Longrightarrow> parse_tokens (WantValue st) (value_tokens v @ ts) = parse_tokens (complete v st) ts" "vs \<noteq> []"
  shows "parse_tokens (WantValue (InArray ws # st)) (separated (map value_tokens vs) @ ts) = parse_tokens (AfterElement (ws @ vs) st) ts"
  using assms
proof (induction vs arbitrary: ws)
  case (Cons v vs)
  show ?case
  proof (cases vs)
    case Nil
    with Cons.prems(1) [of v] show ?thesis by simp
  next
    case (Cons v' vs')
    with Cons.prems(1) [of v] Cons.IH [of "ws @ [v]"] Cons.prems(1) show ?thesis by auto
  qed
qed simp

definition member_tokens :: "string \<times> js_value \<Rightarrow> token list" where
  "member_tokens kv = Literal (Str (fst kv)) # Punctuation (CHR '':'') # value_tokens (snd kv)"

lemma parse_members:
  assumes "\<And>k v st ts. (k, v) \<in> set kvs \<Longrightarrow> parse_tokens (WantValue st) (value_tokens v @ ts) = parse_tokens (complete v st) ts"
    "kvs \<noteq> []" "distinct (map fst (lvs @ kvs))"
  shows "parse_tokens (WantKey lvs st) (separated (map member_tokens kvs) @ ts) = parse_tokens (AfterMember (lvs @ kvs) st) ts"
  using assms
proof (induction kvs arbitrary: lvs)
  case (Cons kv kvs)
  obtain k v where kv: "kv = (k, v)" by (cases kv)
  have u: "objUpdate lvs k v = lvs @ [(k, v)]" using Cons.prems(3) kv by (intro objUpdate_fresh) auto
  have first: "parse_tokens (WantKey lvs st) (member_tokens kv @ us) = parse_tokens (AfterMember (lvs @ [kv]) st) us" for us
    using Cons.prems(1) [of k v] u by (simp add: kv member_tokens_def take_key_def)
  show ?case
  proof (cases kvs)
    case Nil
    with first show ?thesis by simp
  next
    case more: (Cons kv' kvs')
    have "parse_tokens (WantKey (lvs @ [kv]) st) (separated (map member_tokens kvs) @ ts) = parse_tokens (AfterMember ((lvs @ [kv]) @ kvs) st) ts"
    proof (rule Cons.IH)
      show "parse_tokens (WantValue st) (value_tokens v @ ts) = parse_tokens (complete v st) ts" if "(k, v) \<in> set kvs" for k v st ts
        using Cons.prems(1) [of k v] that by simp
    qed (use more Cons.prems(3) in auto)
    with more first show ?thesis by simp
  qed
qed simp

lemma parse_first_member:
  "kvs \<noteq> [] \<Longrightarrow> parse_tokens (WantKeyOrEnd st) (separated (map member_tokens kvs) @ ts) = parse_tokens (WantKey [] st) (separated (map member_tokens kvs) @ ts)"
proof (cases kvs)
  case (Cons kv kvs')
  then show ?thesis by (cases kvs') (simp_all add: member_tokens_def)
qed simp

lemma parse_value:
  "json_data v \<Longrightarrow> parse_tokens (WantValue st) (value_tokens v @ ts) = parse_tokens (complete v st) ts"
proof (induction v arbitrary: st ts)
  case (Arr vs)
  show ?case
  proof (cases "vs = []")
    case False
    then obtain v vs' where vs: "vs = v # vs'" by (cases vs) auto
    obtain us where sep: "separated (map value_tokens vs) = value_tokens v @ us"
      unfolding vs by (cases vs') auto
    have "parse_tokens (WantValue (InArray [] # st)) (separated (map value_tokens vs) @ Punctuation (CHR '']'') # ts)
      = parse_tokens (AfterElement vs st) (Punctuation (CHR '']'') # ts)"
      using parse_elements [of vs "[]" st] Arr False by (simp add: list_all_iff)
    then show ?thesis using parse_first_element [of st v "us @ Punctuation (CHR '']'') # ts"]
      by (simp add: start_value_def sep)
  qed (simp add: start_value_def)
next
  case (Obj kvs)
  have m: "(\<lambda>(k, v). Literal (Str k) # Punctuation (CHR '':'') # value_tokens v) = member_tokens"
    by (auto simp: member_tokens_def)
  have each: "parse_tokens (WantValue st) (value_tokens v @ ts) = parse_tokens (complete v st) ts"
    if "(k, v) \<in> set kvs" for k v st ts
    using Obj.IH [OF that, of v] Obj.prems that by (auto simp: list_all_iff)
  show ?case
  proof (cases "kvs = []")
    case False
    with parse_members [of kvs "[]" st, OF each] parse_first_member Obj.prems m show ?thesis
      by (simp add: start_value_def)
  qed (simp add: start_value_def)
qed (simp_all add: start_value_def)

lemma JSON_parse_stringify:
  assumes "json_data v" "JSON_stringify v = Some t"
  shows "JSON_parse t = ok v"
proof -
  have "lex (t @ []) = ok (value_tokens v @ [])"
    using lexes_asD [OF lexes_value [OF assms], of "[]"] by simp
  then show ?thesis using parse_value [OF assms(1), of "[]" "[]"] by (simp add: JSON_parse_def)
qed

text \<open>A member that is undefined leaves no trace.\<close>

lemma stringify_undefined_member:
  "JSON_stringify (Obj (kvs @ (k, Undefined) # lvs)) = JSON_stringify (Obj (kvs @ lvs))"
  by simp

section \<open>Sorting\<close>

text \<open>\<open>Array.prototype.sort\<close> with a comparator is a stable sort.\<close>

fun insert_sorted :: "('a \<Rightarrow> 'a \<Rightarrow> bool) \<Rightarrow> 'a \<Rightarrow> 'a list \<Rightarrow> 'a list" where
  "insert_sorted le x [] = [x]"
| "insert_sorted le x (y # ys) = (if le x y then x # y # ys else y # insert_sorted le x ys)"

definition stable_sort :: "('a \<Rightarrow> 'a \<Rightarrow> bool) \<Rightarrow> 'a list \<Rightarrow> 'a list" where
  "stable_sort le xs = foldr (insert_sorted le) xs []"

lemma set_insert_sorted: "set (insert_sorted le x xs) = insert x (set xs)" "length (insert_sorted le x xs) = Suc (length xs)"
  by (induction xs) auto

lemma stable_sort_set [simp]: "set (stable_sort le xs) = set xs" "length (stable_sort le xs) = length xs"
  by (induction xs) (simp_all add: stable_sort_def set_insert_sorted)

lemma stable_sort_map: "map f (stable_sort (\<lambda>a b. le (f a) (f b)) xs) = stable_sort le (map f xs)"
proof -
  have "map f (insert_sorted (\<lambda>a b. le (f a) (f b)) x xs) = insert_sorted le (f x) (map f xs)" for x xs
    by (induction xs) simp_all
  then show ?thesis by (induction xs) (simp_all add: stable_sort_def)
qed

lemma stable_sort_distinct: "distinct xs \<Longrightarrow> distinct (stable_sort le xs)"
  by (simp add: distinct_card card_distinct)

end
