(* ===== verification/Lisk_Codec.thy ===== *)
theory Lisk_Codec
  imports Crypto_Keys Bcp_Types Js_Json
begin

text \<open>
  \<open>packages/iov-lisk/src\<close>: \<open>constants.ts\<close>, \<open>derivation.ts\<close>, \<open>parse.ts\<close>,
  \<open>serialization.ts\<close> and \<open>liskcodec.ts\<close>: addresses, timestamps, the bytes that are
  signed, the JSON text that is posted and the transaction that is read from it.
  The package long and the text decoder are parameters. The lemmas show which
  addresses are valid, what the signed bytes determine and that what is posted
  is read back.
\<close>

section \<open>The libraries and the constants\<close>

text \<open>Unsigned values of the package long, and the fatal \<open>TextDecoder\<close>.\<close>

record 'h lisk_lib = "'h crypto_lib" +
  long_fromString :: "string \<Rightarrow> 64 word result"
  long_toString :: "64 word \<Rightarrow> string"
  long_fromBytesLE :: "byte list \<Rightarrow> 64 word"
  long_toBytesBE :: "64 word \<Rightarrow> byte list"
  lisk_utf8_decode :: "byte list \<Rightarrow> string result"

definition lisk_addressSuffix :: string where
  "lisk_addressSuffix = ''L''"

definition lisk_primaryTokenTicker :: string where
  "lisk_primaryTokenTicker = ''LSK''"

definition lisk_primaryTokenName :: string where
  "lisk_primaryTokenName = ''Lisk''"

definition lisk_primaryTokenFractionalDigits :: number where
  "lisk_primaryTokenFractionalDigits = int_num 8"

definition lisk_maxMemoLength :: nat where
  "lisk_maxMemoLength = 64"

section \<open>Addresses\<close>

definition lisk_isValidAddress :: "('h, 'a) lisk_lib_scheme \<Rightarrow> string \<Rightarrow> bool result" where
  "lisk_isValidAddress L address =
     (let ending = lisk_addressSuffix; tail = slice_last (length ending) address in
      if tail \<noteq> ending then ok False
      else let addressString = slice_butlast (length ending) address in
        andThen (long_fromString L addressString) (\<lambda>addressNumber. ok (long_toString L addressNumber = addressString)))"

definition lisk_pubkeyToAddress :: "('h, 'a) lisk_lib_scheme \<Rightarrow> PubkeyBundle \<Rightarrow> Address result" where
  "lisk_pubkeyToAddress L pubkey =
     (if pk_algo pubkey \<noteq> Ed25519 \<or> length (pk_data pubkey) \<noteq> 32 then throw ''Not a valid ed25519 public key''
      else let hash = digest_with (Sha256 (cl_sha L)) (pk_data pubkey); firstEightBytes = slice 0 8 hash
        in ok (long_toString L (long_fromBytesLE L firstEightBytes) @ lisk_addressSuffix))"

definition lisk_passphraseToKeypair :: "('h, 'a) lisk_lib_scheme \<Rightarrow> string \<Rightarrow> Ed25519Keypair result" where
  "lisk_passphraseToKeypair L passphrase =
     (let encodedPassphrase = toUtf8 passphrase; hash = digest_with (Sha256 (cl_sha L)) encodedPassphrase
      in Ed25519_makeKeypair L hash)"

section \<open>Timestamps\<close>

text \<open>\<open>Date.UTC(2016, 4, 24, 17, 0, 0, 0) / 1000\<close>.\<close>

definition liskEpoch :: number where
  "liskEpoch = int_num 1464109200"

definition outside_int32 :: "number \<Rightarrow> bool" where
  "outside_int32 timestamp \<longleftrightarrow> num_less timestamp (int_num (- 2147483648)) \<or> num_less (int_num 2147483647) timestamp"

text \<open>A date is given by its time: NaN for an invalid one.\<close>

definition lisk_fromTimestamp :: "number \<Rightarrow> number result" where
  "lisk_fromTimestamp timestamp =
     (if outside_int32 timestamp then throw ''Timestamp not in int32 range''
      else let unixTimestamp = js_add liskEpoch timestamp in ok (date_time (js_times unixTimestamp 1000)))"

definition lisk_timeToNonce :: "number \<Rightarrow> Nonce" where
  "lisk_timeToNonce date = Math_floor (js_over date 1000)"

definition lisk_parseQuantity :: "('h, 'a) lisk_lib_scheme \<Rightarrow> string \<Rightarrow> string result" where
  "lisk_parseQuantity L quantity = andThen (Uint64_fromString L quantity) (\<lambda>u. ok (Uint64_toString L u))"

definition lisk_toTimestamp :: "number \<Rightarrow> number result" where
  "lisk_toTimestamp date =
     (let unixTimestamp = Math_floor (js_over date 1000); timestamp = js_sub unixTimestamp liskEpoch in
      if outside_int32 timestamp then throw ''Timestamp not in int32 range'' else ok timestamp)"

section \<open>Serialization\<close>

record LiskTransaction =
  lk_chainId :: ChainId
  lk_fee :: "Fee option"
  lk_content :: "SendTransaction + string"

text \<open>The content is a send transaction or another kind, by its name.\<close>

definition lisk_checkFee :: "Fee option \<Rightarrow> unit result" where
  "lisk_checkFee fee = (case fee of
     None \<Rightarrow> ok ()
   | Some f \<Rightarrow>
       if fee_gasPrice f \<noteq> None then throw ''Found unexpected gasPrice in transaction fee''
       else if fee_gasLimit f \<noteq> None \<and> fee_gasLimit f \<noteq> Some [] then throw ''Found unexpected gasLimit in transaction fee''
       else if fee_tokens f = None then throw ''Missing tokens in transaction fee''
       else ok ())"

text \<open>The operators \<open>>>\<close> and \<open>&\<close> convert to 32-bit integers, NaN to zero.\<close>

definition toInt32 :: "number \<Rightarrow> int" where
  "toInt32 x = (case x of
     Num q \<Rightarrow> sint (word_of_int (if q < 0 then \<lceil>q\<rceil> else \<lfloor>q\<rfloor>) :: 32 word)
   | _ \<Rightarrow> 0)"

definition timestampBytes :: "number \<Rightarrow> byte list" where
  "timestampBytes timestamp = map (\<lambda>k. toUint8 (js_and (drop_bit k (toInt32 timestamp)) 0xff)) [0, 8, 16, 24]"

text \<open>The expression \<open>/^[0-9]{1,20}[A-Z]{1}$/\<close>.\<close>

definition is_upper_letter :: "char \<Rightarrow> bool" where
  "is_upper_letter c \<longleftrightarrow> (let n = of_char c :: nat in 65 \<le> n \<and> n \<le> 90)"

definition matches_recipient :: "string \<Rightarrow> bool" where
  "matches_recipient s \<longleftrightarrow> s \<noteq> [] \<and> is_upper_letter (last s) \<and>
     1 \<le> length (butlast s) \<and> length (butlast s) \<le> 20 \<and> list_all is_digit (butlast s)"

definition lisk_serializeTransaction :: "('h, 'a) lisk_lib_scheme \<Rightarrow> LiskTransaction \<Rightarrow> number \<Rightarrow> nat \<Rightarrow> byte list result" where
  "lisk_serializeTransaction L transaction creationTime maxMemoLength =
     andThen (lisk_checkFee (lk_fee transaction)) (\<lambda>_.
     case lk_content transaction of
       Inr kind \<Rightarrow> throw ''Unsupported kind of transaction''
     | Inl tx \<Rightarrow> (case send_senderPubkey tx of
         None \<Rightarrow> throw ''Sender pubkey is required''
       | Some senderPubkey \<Rightarrow>
           andThen (lisk_pubkeyToAddress L senderPubkey) (\<lambda>address.
           if address \<noteq> send_sender tx then throw ''Sender pubkey does not match sender address''
           else andThen (lisk_toTimestamp creationTime) (\<lambda>timestamp.
           if am_fractionalDigits (send_amount tx) \<noteq> int_num 8 then throw ''Requires 8 fractional digits on Amount''
           else andThen (Uint64_fromString L (am_quantity (send_amount tx))) (\<lambda>amount.
           if \<not> matches_recipient (send_recipient tx) then throw ''Recipient does not match expected format''
           else let recipientNumberString = slice_butlast 1 (send_recipient tx) in
           if recipientNumberString \<noteq> ''0'' \<and> take 1 recipientNumberString = ''0''
           then throw ''Recipient must not contain leading zeros''
           else andThen (long_fromString L recipientNumberString) (\<lambda>recipient.
           let memoBytes = (case send_memo tx of None \<Rightarrow> [] | Some memo \<Rightarrow> toUtf8 memo) in
           if length memoBytes > maxMemoLength then throw ''Memo length exceeds limit.''
           else andThen (Uint64_toBytesLittleEndian L amount) (\<lambda>amountBytes.
           ok (0 # timestampBytes timestamp @ pk_data senderPubkey @ long_toBytesBE L recipient @ amountBytes @ memoBytes))))))))"

definition lisk_transactionId :: "('h, 'a) lisk_lib_scheme \<Rightarrow> LiskTransaction \<Rightarrow> number \<Rightarrow> FullSignature \<Rightarrow> nat \<Rightarrow> string result" where
  "lisk_transactionId L transaction creationTime primarySignature maxMemoLength =
     andThen (lisk_serializeTransaction L transaction creationTime maxMemoLength) (\<lambda>serialized.
     let H = Sha256 (cl_sha L);
         hash = hf_digest H (hf_update H (hf_update H (hf_new H) serialized) (sig_signature primarySignature))
     in ok (long_toString L (long_fromBytesLE L (slice 0 8 hash))))"

section \<open>The codec\<close>

definition lisk_creationDate :: "Nonce \<Rightarrow> number result" where
  "lisk_creationDate nonce =
     andThen (new_Int53 nonce) (\<lambda>creationTimestamp. ok (date_time (js_times (Int53_toNumber creationTimestamp) 1000)))"

definition lisk_bytesToSign :: "('h, 'a) lisk_lib_scheme \<Rightarrow> LiskTransaction \<Rightarrow> Nonce \<Rightarrow> SigningJob result" where
  "lisk_bytesToSign L transaction nonce =
     andThen (lisk_creationDate nonce) (\<lambda>creationDate.
     andThen (lisk_serializeTransaction L transaction creationDate lisk_maxMemoLength) (\<lambda>bytes.
     ok \<lparr>job_bytes = bytes, job_prehashType = PrehashSha256\<rparr>))"

text \<open>The object that is posted, and its text.\<close>

definition lisk_postableObject :: "SendTransaction \<Rightarrow> FullSignature \<Rightarrow> number \<Rightarrow> string \<Rightarrow> js_value" where
  "lisk_postableObject tx primarySignature liskTimestamp ident =
     Obj [(''type'', Number (int_num 0)),
       (''amount'', Str (am_quantity (send_amount tx))),
       (''recipientId'', Str (send_recipient tx)),
       (''senderPublicKey'', Str (toHex (pk_data (sig_pubkey primarySignature)))),
       (''timestamp'', Number liskTimestamp),
       (''fee'', Str ''10000000''),
       (''asset'', Obj [(''data'', case send_memo tx of None \<Rightarrow> Undefined | Some memo \<Rightarrow> Str memo)]),
       (''signature'', Str (toHex (sig_signature primarySignature))),
       (''id'', Str ident)]"

definition lisk_bytesToPost :: "('h, 'a) lisk_lib_scheme \<Rightarrow> LiskTransaction SignedTx \<Rightarrow> byte list result" where
  "lisk_bytesToPost L stx =
     (case lk_content (stx_transaction stx) of
       Inr kind \<Rightarrow> throw ''Unsupported kind of transaction''
     | Inl tx \<Rightarrow> (case stx_signatures stx of
         [] \<Rightarrow> throw ''TypeError''
       | primarySignature # _ \<Rightarrow>
           andThen (new_Int53 (sig_nonce primarySignature)) (\<lambda>timestamp.
           let liskTimestamp = js_sub (Int53_toNumber timestamp) (int_num 1464109200) in
           andThen (lisk_transactionId L (stx_transaction stx) (date_time (js_times (Int53_toNumber timestamp) 1000))
               primarySignature lisk_maxMemoLength) (\<lambda>ident.
           case JSON_stringify (lisk_postableObject tx primarySignature liskTimestamp ident) of
             None \<Rightarrow> throw ''TypeError''
           | Some body \<Rightarrow> ok (toUtf8 body)))))"

definition lisk_identifier :: "('h, 'a) lisk_lib_scheme \<Rightarrow> LiskTransaction SignedTx \<Rightarrow> string result" where
  "lisk_identifier L stx = (case stx_signatures stx of
     [] \<Rightarrow> throw ''TypeError''
   | primarySignature # _ \<Rightarrow>
       andThen (lisk_creationDate (sig_nonce primarySignature)) (\<lambda>creationDate.
       lisk_transactionId L (stx_transaction stx) creationDate primarySignature lisk_maxMemoLength))"

text \<open>
  Members of a value of type any: a member of null or undefined is a TypeError. The
  transaction that is read has texts and numbers where its type says so; where the
  JSON has anything else the model stops with a TypeError.
\<close>

definition member_of :: "js_value \<Rightarrow> string \<Rightarrow> js_value result" where
  "member_of v key = (if v = Undefined \<or> v = Null then throw ''TypeError'' else ok (js_get v key))"

definition as_text :: "js_value \<Rightarrow> string result" where
  "as_text v = (case v of Str s \<Rightarrow> ok s | _ \<Rightarrow> throw ''TypeError'')"

definition as_number :: "js_value \<Rightarrow> number result" where
  "as_number v = (case v of Number x \<Rightarrow> ok x | _ \<Rightarrow> throw ''TypeError'')"

definition as_optional_text :: "js_value \<Rightarrow> string option result" where
  "as_optional_text v = (case v of Undefined \<Rightarrow> ok None | Str s \<Rightarrow> ok (Some s) | _ \<Rightarrow> throw ''TypeError'')"

definition text_member :: "js_value \<Rightarrow> string \<Rightarrow> string result" where
  "text_member v key = andThen (member_of v key) as_text"

definition lisk_amount :: "string \<Rightarrow> Amount" where
  "lisk_amount quantity = \<lparr>am_quantity = quantity, am_fractionalDigits = lisk_primaryTokenFractionalDigits,
     am_tokenTicker = lisk_primaryTokenTicker\<rparr>"

definition lisk_fee :: "Amount \<Rightarrow> Fee" where
  "lisk_fee tokens = \<lparr>fee_tokens = Some tokens, fee_gasPrice = None, fee_gasLimit = None, fee_payer = None\<rparr>"

definition lisk_parseJson :: "('h, 'a) lisk_lib_scheme \<Rightarrow> js_value \<Rightarrow> ChainId \<Rightarrow> LiskTransaction SignedTx result" where
  "lisk_parseJson L json chainId =
     andThen (text_member json ''senderPublicKey'') (\<lambda>senderHex.
     andThen (fromHex senderHex) (\<lambda>senderData.
     let senderPublicKey = \<lparr>pk_algo = Ed25519, pk_data = senderData\<rparr> in
     andThen (member_of json ''type'') (\<lambda>kind.
     if kind \<noteq> Number (int_num 0) then throw ''Transaction parsing failed. Unsupported transaction type''
     else
       andThen (text_member json ''fee'') (\<lambda>fee0.
       andThen (lisk_parseQuantity L fee0) (\<lambda>feeQuantity.
       andThen (text_member json ''amount'') (\<lambda>amount0.
       andThen (lisk_parseQuantity L amount0) (\<lambda>amountQuantity.
       andThen (lisk_pubkeyToAddress L senderPublicKey) (\<lambda>sender.
       andThen (text_member json ''recipientId'') (\<lambda>recipient.
       andThen (member_of json ''asset'') (\<lambda>asset.
       andThen (member_of asset ''data'') (\<lambda>data.
       andThen (as_optional_text data) (\<lambda>memo.
       andThen (member_of json ''timestamp'') (\<lambda>timestamp0.
       andThen (as_number timestamp0) (\<lambda>timestamp.
       andThen (lisk_fromTimestamp timestamp) (\<lambda>time.
       andThen (text_member json ''signature'') (\<lambda>signatureHex.
       andThen (fromHex signatureHex) (\<lambda>signature.
       ok \<lparr>stx_transaction = \<lparr>lk_chainId = chainId, lk_fee = Some (lisk_fee (lisk_amount feeQuantity)),
             lk_content = Inl \<lparr>send_amount = lisk_amount amountQuantity, send_sender = sender,
               send_senderPubkey = Some senderPublicKey, send_recipient = recipient, send_memo = memo\<rparr>\<rparr>,
           stx_signatures = [\<lparr>sig_nonce = lisk_timeToNonce time, sig_pubkey = senderPublicKey,
             sig_signature = signature\<rparr>]\<rparr>)))))))))))))))))"

definition lisk_parseBytes :: "('h, 'a) lisk_lib_scheme \<Rightarrow> byte list \<Rightarrow> ChainId \<Rightarrow> LiskTransaction SignedTx result" where
  "lisk_parseBytes L bytes chainId =
     andThen (lisk_utf8_decode L bytes) (\<lambda>body. andThen (JSON_parse body) (\<lambda>json. lisk_parseJson L json chainId))"

definition lisk_identityToAddress :: "('h, 'a) lisk_lib_scheme \<Rightarrow> Identity \<Rightarrow> Address result" where
  "lisk_identityToAddress L identity = lisk_pubkeyToAddress L (id_pubkey identity)"

definition liskCodec :: "('h, 'a) lisk_lib_scheme \<Rightarrow> LiskTransaction TxCodec" where
  "liskCodec L = \<lparr>codec_parseBytes = lisk_parseBytes L, codec_identityToAddress = lisk_identityToAddress L,
     codec_isValidAddress = (\<lambda>a. lisk_isValidAddress L a = ok True), codec_bytesToSign = lisk_bytesToSign L,
     codec_bytesToPost = lisk_bytesToPost L, codec_identifier = lisk_identifier L\<rparr>"

section \<open>The laws of the libraries\<close>

definition lisk_laws :: "('h, 'a) lisk_lib_scheme \<Rightarrow> bool" where
  "lisk_laws L \<longleftrightarrow> bn_laws L \<and>
     (\<forall>s. s \<noteq> [] \<and> list_all is_digit s \<longrightarrow> long_fromString L s = ok (of_nat (parse_base 10 s))) \<and>
     (\<forall>w. long_toString L w = to_base 10 (unat w)) \<and>
     (\<forall>w. long_toBytesBE L w = be_bytes 8 (uint w)) \<and>
     (\<forall>s. lisk_utf8_decode L (toUtf8 s) = ok s)"

lemma lisk_lawsD:
  assumes "lisk_laws L"
  shows lisk_bn: "bn_laws L"
    and lisk_long_fromString: "s \<noteq> [] \<Longrightarrow> list_all is_digit s \<Longrightarrow> long_fromString L s = ok (of_nat (parse_base 10 s))"
    and lisk_long_toString: "long_toString L w = to_base 10 (unat w)"
    and lisk_long_toBytesBE: "long_toBytesBE L w = be_bytes 8 (uint w)"
    and lisk_utf8: "lisk_utf8_decode L (toUtf8 t) = ok t"
  using assms unfolding lisk_laws_def by blast+

section \<open>Addresses are numbers below \<open>2\<^sup>6\<^sup>4\<close>\<close>

lemma lisk_pubkeyToAddress_ok:
  "lisk_pubkeyToAddress L pubkey = ok a \<longleftrightarrow> pk_algo pubkey = Ed25519 \<and> length (pk_data pubkey) = 32 \<and>
     a = long_toString L (long_fromBytesLE L (slice 0 8 (digest_with (Sha256 (cl_sha L)) (pk_data pubkey)))) @ ''L''"
  by (auto simp: lisk_pubkeyToAddress_def Let_def lisk_addressSuffix_def)

lemma lisk_isValidAddress_iff:
  assumes "lisk_laws L"
  shows "lisk_isValidAddress L a = ok True \<longleftrightarrow> (\<exists>n < 2 ^ 64. a = to_base 10 n @ ''L'')"
proof
  assume "lisk_isValidAddress L a = ok True"
  then have "slice_last 1 a = ''L''" and "\<exists>w. long_toString L w = slice_butlast 1 a"
    by (auto simp: lisk_isValidAddress_def lisk_addressSuffix_def Let_def andThen_eq_Inr split: if_splits)
  then obtain w where "long_toString L w = slice_butlast 1 a" and l: "slice_last 1 a = ''L''" by blast
  then have w: "to_base 10 (unat w) = slice_butlast 1 a" by (simp only: lisk_long_toString [OF assms])
  have "slice_butlast 1 a @ slice_last 1 a = a" by (rule slice_append_last)
  with w l have "a = to_base 10 (unat w) @ ''L''" by simp
  moreover have "unat w < 2 ^ 64" using unsigned_less [of w, where ?'a = nat] by simp
  ultimately show "\<exists>n < 2 ^ 64. a = to_base 10 n @ ''L''" by blast
next
  assume "\<exists>n < 2 ^ 64. a = to_base 10 n @ ''L''"
  then obtain n where n: "n < 2 ^ 64" "a = to_base 10 n @ ''L''" by blast
  have "unat (of_nat n :: 64 word) = n" using n(1) by (simp add: unat_of_nat)
  with n(2) show "lisk_isValidAddress L a = ok True"
    by (simp add: lisk_isValidAddress_def lisk_addressSuffix_def slice_last_def slice_butlast_def
        lisk_long_fromString [OF assms] lisk_long_toString [OF assms] to_base_10_digits)
qed

section \<open>Times\<close>

lemma lisk_creationDate_int:
  assumes "\<bar>n\<bar> \<le> 8640000000000"
  shows "lisk_creationDate (int_num n) = ok (int_num (n * 1000))"
proof -
  have "js_times (int_num n) (of_int 1000) = int_num (n * 1000)" using assms by (intro js_times_int) auto
  moreover have "new_Int53 (int_num n) = ok (Int53 n)" using assms by (intro new_Int53_int) (simp add: safe_int_def abs_le_iff)
  ultimately show ?thesis using assms
    by (simp add: lisk_creationDate_def Int53_toNumber_def date_time_int abs_mult)
qed

lemma seconds_of_date:
  assumes "\<bar>n\<bar> \<le> 8640000000000"
  shows "Math_floor (js_over (int_num (n * 1000)) 1000) = int_num n"
  using js_over_multiple [of 1000 n] assms by simp

lemma lisk_toTimestamp_int:
  assumes "\<bar>n\<bar> \<le> 8640000000000"
  shows "lisk_toTimestamp (int_num (n * 1000)) =
    (if - 2147483648 \<le> n - 1464109200 \<and> n - 1464109200 \<le> 2147483647 then ok (int_num (n - 1464109200))
     else throw ''Timestamp not in int32 range'')"
proof -
  have "js_sub (int_num n) liskEpoch = int_num (n - 1464109200)"
    unfolding liskEpoch_def using assms by (intro js_sub_int) auto
  then show ?thesis by (auto simp: lisk_toTimestamp_def seconds_of_date [OF assms] outside_int32_def Let_def)
qed

lemma lisk_toTimestamp_cases:
  "lisk_toTimestamp date = ok ts \<Longrightarrow> ts = js_sub (Math_floor (js_over date 1000)) liskEpoch \<and> \<not> outside_int32 ts"
  by (auto simp: lisk_toTimestamp_def Let_def split: if_splits)

lemma lisk_fromTimestamp_int:
  assumes "- 2147483648 \<le> t" "t \<le> 2147483647"
  shows "lisk_fromTimestamp (int_num t) = ok (int_num ((1464109200 + t) * 1000))"
proof -
  have "js_add liskEpoch (int_num t) = int_num (1464109200 + t)"
    unfolding liskEpoch_def using assms by (intro js_add_int) auto
  moreover have "js_times (int_num (1464109200 + t)) (of_int 1000) = int_num ((1464109200 + t) * 1000)"
    using assms by (intro js_times_int) auto
  ultimately show ?thesis using assms
    by (simp add: lisk_fromTimestamp_def outside_int32_def abs_le_iff date_time_int)
qed

lemma toInt32_int: "- 2147483648 \<le> t \<Longrightarrow> t \<le> 2147483647 \<Longrightarrow> toInt32 (int_num t) = t"
  unfolding toInt32_def int_num_def sint_sbintrunc' by (simp add: signed_take_bit_int_eq_self)

lemma timestampBytes_value:
  assumes "- 2147483648 \<le> t" "t \<le> 2147483647"
  shows "be_value (rev (timestampBytes (int_num t))) = t mod 4294967296"
proof -
  have m: "t mod (a * 256) = t div a mod 256 * a + t mod a" for a :: int
    using zmod_zmult2_eq [of 256 t a] by (simp add: mult.commute)
  have "t mod 4294967296 = t div 16777216 mod 256 * 16777216 + t mod 16777216" by (subst m [symmetric]) simp
  moreover have "t mod 16777216 = t div 65536 mod 256 * 65536 + t mod 65536" by (subst m [symmetric]) simp
  moreover have "t mod 65536 = t div 256 mod 256 * 256 + t mod 256" by (subst m [symmetric]) simp
  ultimately have "t mod 4294967296 =
      ((t div 16777216 mod 256 * 256 + t div 65536 mod 256) * 256 + t div 256 mod 256) * 256 + t mod 256"
    by (simp only: distrib_right mult.assoc add.assoc)
  moreover have "be_value (rev (timestampBytes (int_num t))) =
      ((t div 16777216 mod 256 * 256 + t div 65536 mod 256) * 256 + t div 256 mod 256) * 256 + t mod 256"
    by (simp add: timestampBytes_def toInt32_int [OF assms] js_and_0xff drop_bit_eq_div be_value_def)
  ultimately show ?thesis by (simp only:)
qed

lemma length_timestampBytes [simp]: "length (timestampBytes ts) = 4"
  by (simp add: timestampBytes_def)

section \<open>What the signed bytes say\<close>

definition memo_text :: "SendTransaction \<Rightarrow> string" where
  "memo_text tx = (case send_memo tx of None \<Rightarrow> [] | Some memo \<Rightarrow> memo)"

definition recipient_number :: "SendTransaction \<Rightarrow> nat" where
  "recipient_number tx = parse_base 10 (butlast (send_recipient tx))"

definition lisk_send_bytes :: "SendTransaction \<Rightarrow> PubkeyBundle \<Rightarrow> number \<Rightarrow> byte list" where
  "lisk_send_bytes tx pubkey timestamp =
     0 # timestampBytes timestamp @ pk_data pubkey @ be_bytes 8 (int (recipient_number tx mod 2 ^ 64)) @
     rev (be_bytes 8 (int (parse_base 10 (am_quantity (send_amount tx))))) @ toUtf8 (memo_text tx)"

lemma lisk_serialize_ok:
  assumes "lisk_laws L" "lisk_serializeTransaction L t date m = ok b"
  obtains tx pubkey ts where "lk_content t = Inl tx" "send_senderPubkey tx = Some pubkey" "pk_algo pubkey = Ed25519"
    "length (pk_data pubkey) = 32" "lisk_pubkeyToAddress L pubkey = ok (send_sender tx)"
    "lisk_toTimestamp date = ok ts" "am_fractionalDigits (send_amount tx) = int_num 8"
    "matches_digits (am_quantity (send_amount tx))" "parse_base 10 (am_quantity (send_amount tx)) < 2 ^ 64"
    "canonical_decimal (butlast (send_recipient tx))" "is_upper_letter (last (send_recipient tx))"
    "length (toUtf8 (memo_text tx)) \<le> m" "b = lisk_send_bytes tx pubkey ts"
proof -
  from assms(2) obtain tx pubkey ts amount recipient where s: "lk_content t = Inl tx" "send_senderPubkey tx = Some pubkey"
      "lisk_pubkeyToAddress L pubkey = ok (send_sender tx)" "lisk_toTimestamp date = ok ts"
      "am_fractionalDigits (send_amount tx) = int_num 8" "Uint64_fromString L (am_quantity (send_amount tx)) = ok amount"
      "matches_recipient (send_recipient tx)"
      "butlast (send_recipient tx) \<noteq> ''0'' \<longrightarrow> take 1 (butlast (send_recipient tx)) \<noteq> ''0''"
      "long_fromString L (butlast (send_recipient tx)) = ok recipient" "length (toUtf8 (memo_text tx)) \<le> m"
      "b = 0 # timestampBytes ts @ pk_data pubkey @ long_toBytesBE L recipient @ rev (be_bytes 8 (u64_data amount)) @ toUtf8 (memo_text tx)"
    by (fastforce simp: lisk_serializeTransaction_def andThen_eq_Inr Let_def slice_butlast_def butlast_conv_take memo_text_def
        Uint64_toBytes_ok [OF lisk_bn [OF assms(1)]] Uint64_fromString_iff [OF lisk_bn [OF assms(1)]] valid_Uint64_def
        toUtf8_def split: sum.splits option.splits if_splits)
  have digits: "butlast (send_recipient tx) \<noteq> []" "list_all is_digit (butlast (send_recipient tx))"
    using s(7) by (auto simp: matches_recipient_def simp del: length_butlast)
  with s(8) have "canonical_decimal (butlast (send_recipient tx))"
    by (cases "butlast (send_recipient tx)") (auto simp: canonical_decimal_def)
  moreover have "long_toBytesBE L recipient = be_bytes 8 (int (recipient_number tx mod 2 ^ 64))"
    using s(9) by (simp add: lisk_long_fromString [OF assms(1) digits] lisk_long_toBytesBE [OF assms(1)] recipient_number_def
        uint_word_of_int [where ?'a = 64, simplified, symmetric] zmod_int flip: of_nat_mod)
  moreover have "u64_data amount = int (parse_base 10 (am_quantity (send_amount tx)))"
      "matches_digits (am_quantity (send_amount tx))" "parse_base 10 (am_quantity (send_amount tx)) < 2 ^ 64"
    using s(6) by (simp_all add: Uint64_fromString_iff [OF lisk_bn [OF assms(1)]])
  ultimately show thesis
    using that [of tx pubkey ts] s by (simp add: lisk_pubkeyToAddress_ok lisk_send_bytes_def matches_recipient_def)
qed

lemma be_bytes_inj: "0 \<le> v \<Longrightarrow> v < 256 ^ n \<Longrightarrow> 0 \<le> w \<Longrightarrow> w < 256 ^ n \<Longrightarrow> be_bytes n v = be_bytes n w \<Longrightarrow> v = w"
  by (metis be_value_bytes)

lemma lisk_send_bytes_inj:
  assumes "lisk_send_bytes tx pk ts = lisk_send_bytes tx' pk' ts'"
    and "length (pk_data pk) = 32" "length (pk_data pk') = 32"
    and "parse_base 10 (am_quantity (send_amount tx)) < 2 ^ 64" "parse_base 10 (am_quantity (send_amount tx')) < 2 ^ 64"
  shows "timestampBytes ts = timestampBytes ts'" "pk_data pk = pk_data pk'"
    "recipient_number tx mod 2 ^ 64 = recipient_number tx' mod 2 ^ 64"
    "parse_base 10 (am_quantity (send_amount tx)) = parse_base 10 (am_quantity (send_amount tx'))"
    "memo_text tx = memo_text tx'"
proof -
  from assms(1-3) have eq: "timestampBytes ts = timestampBytes ts'" "pk_data pk = pk_data pk'"
      "be_bytes 8 (int (recipient_number tx mod 2 ^ 64)) = be_bytes 8 (int (recipient_number tx' mod 2 ^ 64))"
      "be_bytes 8 (int (parse_base 10 (am_quantity (send_amount tx)))) = be_bytes 8 (int (parse_base 10 (am_quantity (send_amount tx'))))"
      "toUtf8 (memo_text tx) = toUtf8 (memo_text tx')"
    by (simp_all add: lisk_send_bytes_def append_eq_append_conv)
  then show "timestampBytes ts = timestampBytes ts'" "pk_data pk = pk_data pk'" "memo_text tx = memo_text tx'"
    using toUtf8_inj by blast+
  have "int (recipient_number tx mod 2 ^ 64) = int (recipient_number tx' mod 2 ^ 64)"
    by (rule be_bytes_inj [OF _ _ _ _ eq(3)]) (simp_all add: zmod_int)
  then show "recipient_number tx mod 2 ^ 64 = recipient_number tx' mod 2 ^ 64" by (simp only: of_nat_eq_iff)
  have "int (parse_base 10 (am_quantity (send_amount tx))) = int (parse_base 10 (am_quantity (send_amount tx')))"
    by (rule be_bytes_inj [OF _ _ _ _ eq(4)]) (use assms(4,5) in simp_all)
  then show "parse_base 10 (am_quantity (send_amount tx)) = parse_base 10 (am_quantity (send_amount tx'))" by (simp only: of_nat_eq_iff)
qed

lemma lisk_bytesToSign_ok:
  assumes "\<bar>k\<bar> \<le> 8640000000000"
  shows "lisk_bytesToSign L t (int_num k) = ok job \<longleftrightarrow>
    lisk_serializeTransaction L t (int_num (k * 1000)) 64 = ok (job_bytes job) \<and> job_prehashType job = PrehashSha256"
  by (cases job) (auto simp: lisk_bytesToSign_def lisk_creationDate_int [OF assms] lisk_maxMemoLength_def andThen_eq_Inr)

lemma timestampBytes_inj:
  assumes "- 2147483648 \<le> t" "t \<le> 2147483647" "- 2147483648 \<le> t'" "t' \<le> 2147483647"
    and "timestampBytes (int_num t) = timestampBytes (int_num t')"
  shows "t = t'"
proof -
  have "t mod 4294967296 = t' mod 4294967296"
    using timestampBytes_value [OF assms(1,2)] timestampBytes_value [OF assms(3,4)] assms(5) by simp
  then have "4294967296 dvd t - t'" by (simp only: mod_eq_dvd_iff)
  then obtain k where "t - t' = 4294967296 * k" by (rule dvdE)
  moreover from this have "k = 0" using assms(1-4) by linarith
  ultimately show ?thesis by simp
qed

section \<open>What is posted is read back\<close>

definition lisk_posted :: "SendTransaction \<Rightarrow> FullSignature \<Rightarrow> int \<Rightarrow> string \<Rightarrow> js_value" where
  "lisk_posted tx primarySignature timestamp ident =
     Obj [(''type'', Number (int_num 0)),
       (''amount'', Str (am_quantity (send_amount tx))),
       (''recipientId'', Str (send_recipient tx)),
       (''senderPublicKey'', Str (toHex (pk_data (sig_pubkey primarySignature)))),
       (''timestamp'', Number (int_num timestamp)),
       (''fee'', Str ''10000000''),
       (''asset'', Obj (case send_memo tx of None \<Rightarrow> [] | Some memo \<Rightarrow> [(''data'', Str memo)])),
       (''signature'', Str (toHex (sig_signature primarySignature))),
       (''id'', Str ident)]"

lemma lisk_posted_text:
  "JSON_stringify (lisk_postableObject tx primarySignature (int_num t) ident) = JSON_stringify (lisk_posted tx primarySignature t ident)"
  by (cases "send_memo tx") (simp_all add: lisk_postableObject_def lisk_posted_def)

lemma lisk_posted_data: "\<bar>t\<bar> < 10 ^ 15 \<Longrightarrow> json_data (lisk_posted tx primarySignature t ident)"
  by (auto simp: lisk_posted_def intro: exI [of _ "0 :: int"] split: option.split)

lemma lisk_posted_members:
  "text_member (lisk_posted tx s t ident) ''senderPublicKey'' = ok (toHex (pk_data (sig_pubkey s)))"
  "text_member (lisk_posted tx s t ident) ''fee'' = ok ''10000000''"
  "text_member (lisk_posted tx s t ident) ''amount'' = ok (am_quantity (send_amount tx))"
  "text_member (lisk_posted tx s t ident) ''recipientId'' = ok (send_recipient tx)"
  "text_member (lisk_posted tx s t ident) ''signature'' = ok (toHex (sig_signature s))"
  "member_of (lisk_posted tx s t ident) ''type'' = ok (Number (int_num 0))"
  "member_of (lisk_posted tx s t ident) ''timestamp'' = ok (Number (int_num t))"
  "andThen (andThen (member_of (lisk_posted tx s t ident) ''asset'') (\<lambda>asset. member_of asset ''data'')) as_optional_text
     = ok (send_memo tx)"
  by (auto simp: text_member_def member_of_def js_get_def as_text_def as_optional_text_def lisk_posted_def split: option.split)

lemma lisk_parseQuantity_canonical:
  assumes "lisk_laws L" "canonical_decimal q" "parse_base 10 q < 2 ^ 64"
  shows "lisk_parseQuantity L q = ok q"
proof -
  have m: "matches_digits q" using assms(2) by (simp add: canonical_decimal_def matches_digits_def)
  then obtain u where u: "Uint64_fromString L q = ok u" using Uint64_fromString_iff [OF lisk_bn [OF assms(1)], of q]
    assms(3) by (metis Uint64.sel)
  then have "u64_data u = int (parse_base 10 q)" by (simp add: Uint64_fromString_iff [OF lisk_bn [OF assms(1)]])
  with u show ?thesis
    by (simp add: lisk_parseQuantity_def Uint64_toString_def bn_toString [OF lisk_bn [OF assms(1)]] int_to_string_def
        to_base_parse [OF assms(2)])
qed

lemma lisk_fee_quantity: "lisk_laws L \<Longrightarrow> lisk_parseQuantity L ''10000000'' = ok ''10000000''"
  by (rule lisk_parseQuantity_canonical) (simp_all add: canonical_decimal_def is_digit_def parse_base_def digit_val_def)

lemma lisk_parse_posted:
  assumes "lisk_laws L" "canonical_decimal (am_quantity (send_amount tx))" "parse_base 10 (am_quantity (send_amount tx)) < 2 ^ 64"
    and "am_fractionalDigits (send_amount tx) = int_num 8" "am_tokenTicker (send_amount tx) = ''LSK''"
    and "pk_algo (sig_pubkey s) = Ed25519" "lisk_pubkeyToAddress L (sig_pubkey s) = ok (send_sender tx)"
    and "send_senderPubkey tx = Some (sig_pubkey s)" "sig_nonce s = int_num (1464109200 + t)"
    and "- 2147483648 \<le> t" "t \<le> 2147483647"
  shows "lisk_parseJson L (lisk_posted tx s t ident) chainId =
    ok \<lparr>stx_transaction = \<lparr>lk_chainId = chainId, lk_fee = Some (lisk_fee (lisk_amount ''10000000'')), lk_content = Inl tx\<rparr>,
        stx_signatures = [s]\<rparr>"
proof -
  have pk: "\<lparr>pk_algo = Ed25519, pk_data = pk_data (sig_pubkey s)\<rparr> = sig_pubkey s" using assms(6) by (cases "sig_pubkey s") simp
  have am: "lisk_amount (am_quantity (send_amount tx)) = send_amount tx" using assms(4,5)
    by (cases "send_amount tx") (simp add: lisk_amount_def lisk_primaryTokenFractionalDigits_def lisk_primaryTokenTicker_def)
  have nonce: "lisk_timeToNonce (int_num ((1464109200 + t) * 1000)) = int_num (1464109200 + t)"
    unfolding lisk_timeToNonce_def by (rule seconds_of_date) (use assms(10,11) in arith)
  obtain asset where asset: "member_of (lisk_posted tx s t ident) ''asset'' = ok asset"
      "andThen (member_of asset ''data'') as_optional_text = ok (send_memo tx)"
    using lisk_posted_members(8) [of tx s t ident] by (auto simp: andThen_eq_Inr)
  have memo: "andThen (member_of asset ''data'') (\<lambda>data. andThen (as_optional_text data) f) = f (send_memo tx)" for f :: "string option \<Rightarrow> 'z result"
    using asset(2) by (simp flip: andThen_assoc)
  show ?thesis
    by (simp add: lisk_parseJson_def lisk_posted_members(1-7) fromHex_of_toHex lisk_fee_quantity [OF assms(1)]
        lisk_parseQuantity_canonical [OF assms(1,2,3)] pk am asset(1) memo assms(7) as_number_def
        lisk_fromTimestamp_int [OF assms(10,11)] nonce [simplified])
      (use assms(8,9) in \<open>cases tx; cases s; simp\<close>)
qed

section \<open>Nonces that are no time\<close>

lemma lisk_far_creationDate:
  assumes "safe_int k" "8640000000000 < \<bar>k\<bar>"
  shows "lisk_creationDate (int_num k) = ok NaN"
proof -
  have "\<exists>x. js_times (int_num k) 1000 = x \<and> date_time x = NaN"
  proof (cases "\<bar>k\<bar> < 9007199254741")
    case True
    then have "js_times (int_num k) (of_int 1000) = int_num (k * 1000)" by (intro js_times_int) (simp add: abs_mult)
    moreover have "(8640000000000000 :: rat) < of_int \<bar>k * 1000\<bar>"
      using assms(2) by (simp add: abs_mult flip: of_int_abs)
    ultimately show ?thesis by (simp add: date_time_def int_num_def)
  next
    case False
    then have "(of_int 9007199254741 :: rat) \<le> of_int \<bar>k\<bar>" by (simp only: of_int_le_iff not_less)
    then have far: "2 ^ 53 \<le> \<bar>of_int k * 1000 :: rat\<bar>" by (simp add: abs_mult)
    have "js_times (int_num k) 1000 = double_of_rat (of_int k * 1000)" by (simp add: js_times_def int_num_def)
    with double_of_rat_large [OF far] show ?thesis by (auto simp: date_time_def)
  qed
  then show ?thesis using assms(1) by (simp add: lisk_creationDate_def Int53_toNumber_def)
qed

lemma lisk_toTimestamp_NaN: "lisk_toTimestamp NaN = ok NaN"
  by (simp add: lisk_toTimestamp_def outside_int32_def int_num_def)

lemma timestampBytes_epoch: "timestampBytes NaN = timestampBytes (int_num 0)"
  by (simp add: timestampBytes_def toInt32_def int_num_def)

lemma lisk_serialize_date:
  "lisk_toTimestamp date = ok ts \<Longrightarrow> lisk_toTimestamp date' = ok ts' \<Longrightarrow> timestampBytes ts = timestampBytes ts' \<Longrightarrow>
   lisk_serializeTransaction L t date m = lisk_serializeTransaction L t date' m"
  by (cases "lk_content t"; cases "send_senderPubkey (projl (lk_content t))") (simp_all add: lisk_serializeTransaction_def cong: if_cong)

section \<open>A library that keeps the laws\<close>

definition demo_lisk :: "string lisk_lib" where
  "demo_lisk = crypto_lib.extend demo_crypto
     \<lparr>long_fromString = (\<lambda>s. ok (of_nat (parse_base 10 s))), long_toString = (\<lambda>w. to_base 10 (unat w)),
      long_fromBytesLE = (\<lambda>bs. of_int (be_value (rev bs))), long_toBytesBE = (\<lambda>w. be_bytes 8 (uint w)),
      lisk_utf8_decode = demo_utf8_decode\<rparr>"

lemma demo_lisk_laws: "lisk_laws demo_lisk"
proof -
  have "bn_laws demo_lisk"
    unfolding bn_laws_def by (simp add: demo_lisk_def crypto_lib.defs demo_crypto_def bn_lib.defs bn_int_def)
  then show ?thesis
    unfolding lisk_laws_def by (simp add: demo_lisk_def crypto_lib.defs demo_utf8)
qed

text \<open>A transaction with any recipient, and its signature.\<close>

definition demo_lisk_pubkey :: PubkeyBundle where
  "demo_lisk_pubkey = \<lparr>pk_algo = Ed25519, pk_data = replicate 32 1\<rparr>"

definition demo_lisk_send :: "string \<Rightarrow> SendTransaction" where
  "demo_lisk_send recipient = \<lparr>send_amount = lisk_amount ''5'', send_sender = projr (lisk_pubkeyToAddress demo_lisk demo_lisk_pubkey),
     send_senderPubkey = Some demo_lisk_pubkey, send_recipient = recipient, send_memo = Some ''hi''\<rparr>"

definition demo_lisk_tx :: "string \<Rightarrow> LiskTransaction" where
  "demo_lisk_tx recipient = \<lparr>lk_chainId = ''lisk-1'', lk_fee = None, lk_content = Inl (demo_lisk_send recipient)\<rparr>"

lemma demo_lisk_address: "lisk_pubkeyToAddress demo_lisk demo_lisk_pubkey = ok (send_sender (demo_lisk_send r))"
  by (simp add: lisk_pubkeyToAddress_def demo_lisk_pubkey_def demo_lisk_send_def Let_def)

lemma demo_lisk_serialized:
  assumes "\<bar>k\<bar> \<le> 8640000000000" "- 2147483648 \<le> k - 1464109200" "k - 1464109200 \<le> 2147483647" "r \<in> {''1L'', ''1Z''}"
  shows "lisk_serializeTransaction demo_lisk (demo_lisk_tx r) (int_num (k * 1000)) 64 =
    ok (lisk_send_bytes (demo_lisk_send ''1L'') demo_lisk_pubkey (int_num (k - 1464109200)))"
proof -
  note laws = demo_lisk_laws
  have amount: "Uint64_fromString demo_lisk ''5'' = ok (Uint64 5)"
    by (simp add: Uint64_fromString_iff [OF lisk_bn [OF laws]] matches_digits_def is_digit_def parse_base_def digit_val_def)
  have bytes: "Uint64_toBytesLittleEndian demo_lisk (Uint64 5) = ok (rev (be_bytes 8 5))"
    by (simp add: Uint64_toBytes_ok [OF lisk_bn [OF laws]] valid_Uint64_def)
  have one: "long_fromString demo_lisk ''1'' = ok 1"
    using lisk_long_fromString [OF laws, of "''1''"] by (simp add: is_digit_def parse_base_def digit_val_def)
  have fields: "send_senderPubkey (demo_lisk_send r) = Some demo_lisk_pubkey" "send_amount (demo_lisk_send r) = lisk_amount ''5''"
      "send_recipient (demo_lisk_send r) = r" "memo_text (demo_lisk_send r) = ''hi''" "send_memo (demo_lisk_send r) = Some ''hi''" for r
    by (simp_all add: demo_lisk_send_def memo_text_def)
  have r: "matches_recipient r" "slice_butlast 1 r = ''1''"
    using assms(4) by (auto simp: matches_recipient_def is_upper_letter_def is_digit_def slice_butlast_def)
  have numbers: "recipient_number (demo_lisk_send ''1L'') = 1" "parse_base 10 ''5'' = 5"
    by (simp_all add: recipient_number_def fields parse_base_def digit_val_def)
  have hi: "length (toUtf8 ''hi'') \<le> 64" by (simp add: toUtf8_def utf8_char_def)
  show ?thesis
    unfolding lisk_serializeTransaction_def lisk_send_bytes_def
    using assms(2,3) r hi
    by (simp add: demo_lisk_tx_def lisk_checkFee_def fields demo_lisk_address [of r] lisk_toTimestamp_int [OF assms(1)] lisk_amount_def
        lisk_primaryTokenFractionalDigits_def amount one bytes numbers lisk_long_toBytesBE [OF laws] cong: if_cong)
qed

definition demo_lisk_signature :: FullSignature where
  "demo_lisk_signature = \<lparr>sig_nonce = int_num 1500000000, sig_pubkey = demo_lisk_pubkey, sig_signature = [1]\<rparr>"

section \<open>Properties\<close>

text \<open>
  C26. What is posted for a signed Lisk transaction is read back from the JSON text as
  the same transaction, with the fixed fee of 0.1 LSK, and with its primary signature
  and nonce.
\<close>

theorem lisk_posted_transaction_read:
  assumes "lisk_laws L" "lisk_bytesToPost L stx = ok b"
    and "lk_content (stx_transaction stx) = Inl tx" "stx_signatures stx = s # rest"
    and "send_senderPubkey tx = Some (sig_pubkey s)" "sig_nonce s = int_num k" "\<bar>k\<bar> \<le> 8640000000000"
    and "canonical_decimal (am_quantity (send_amount tx))" "am_tokenTicker (send_amount tx) = ''LSK''"
  shows "lisk_parseBytes L b chainId = ok \<lparr>stx_transaction =
        \<lparr>lk_chainId = chainId, lk_fee = Some (lisk_fee (lisk_amount ''10000000'')), lk_content = Inl tx\<rparr>,
      stx_signatures = [s]\<rparr>"
proof -
  have int53: "new_Int53 (int_num k) = ok (Int53 k)" using assms(7) by (intro new_Int53_int) (simp add: safe_int_def abs_le_iff)
  have date: "date_time (js_times (int_num k) 1000) = int_num (k * 1000)"
    using lisk_creationDate_int [OF assms(7)] by (simp add: lisk_creationDate_def int53 Int53_toNumber_def)
  have sub: "js_sub (int_num k) (int_num 1464109200) = int_num (k - 1464109200)"
    using assms(7) by (intro js_sub_int) auto
  from assms(2) obtain ident body where i: "lisk_transactionId L (stx_transaction stx) (int_num (k * 1000)) s 64 = ok ident"
      "JSON_stringify (lisk_posted tx s (k - 1464109200) ident) = Some body" "b = toUtf8 body"
    by (auto simp: lisk_bytesToPost_def assms(3,4,6) int53 date sub Int53_toNumber_def lisk_maxMemoLength_def lisk_posted_text
        Let_def andThen_eq_Inr split: option.splits)
  then obtain w where "lisk_serializeTransaction L (stx_transaction stx) (int_num (k * 1000)) 64 = ok w"
    by (auto simp: lisk_transactionId_def andThen_eq_Inr)
  from lisk_serialize_ok [OF assms(1) this] obtain ts where f: "pk_algo (sig_pubkey s) = Ed25519"
      "lisk_pubkeyToAddress L (sig_pubkey s) = ok (send_sender tx)" "lisk_toTimestamp (int_num (k * 1000)) = ok ts"
      "am_fractionalDigits (send_amount tx) = int_num 8" "parse_base 10 (am_quantity (send_amount tx)) < 2 ^ 64"
    by (metis assms(3,5) option.inject sum.inject(1))
  from f(3) have t: "- 2147483648 \<le> k - 1464109200" "k - 1464109200 \<le> 2147483647"
    by (simp_all add: lisk_toTimestamp_int [OF assms(7)] split: if_splits)
  have "JSON_parse body = ok (lisk_posted tx s (k - 1464109200) ident)"
    by (rule JSON_parse_stringify [OF lisk_posted_data i(2)]) (use t in simp)
  then show ?thesis
    using lisk_parse_posted [OF assms(1,8) f(5,4) assms(9) f(1,2) assms(5) _ t] assms(6)
    by (simp add: lisk_parseBytes_def i(3) lisk_utf8 [OF assms(1)])
qed

lemma lisk_posted_transaction_read_witness:
  "\<exists>b. lisk_bytesToPost demo_lisk \<lparr>stx_transaction = demo_lisk_tx ''1L'', stx_signatures = [demo_lisk_signature]\<rparr> = ok b \<and>
    lisk_parseBytes demo_lisk b ''lisk-1'' = ok \<lparr>stx_transaction =
        \<lparr>lk_chainId = ''lisk-1'', lk_fee = Some (lisk_fee (lisk_amount ''10000000'')), lk_content = Inl (demo_lisk_send ''1L'')\<rparr>,
      stx_signatures = [demo_lisk_signature]\<rparr>"
proof -
  let ?stx = "\<lparr>stx_transaction = demo_lisk_tx ''1L'', stx_signatures = [demo_lisk_signature]\<rparr>"
  have int53: "new_Int53 (int_num 1500000000) = ok (Int53 1500000000)" by (rule new_Int53_int) (simp add: safe_int_def)
  have sub: "js_sub (int_num 1500000000) (int_num 1464109200) = int_num 35890800"
    by (subst js_sub_int) simp_all
  have "lisk_creationDate (int_num 1500000000) = ok (int_num (1500000000 * 1000))" by (rule lisk_creationDate_int) simp
  then have date: "date_time (js_times (int_num 1500000000) 1000) = int_num (1500000000 * 1000)"
    by (simp add: lisk_creationDate_def int53 Int53_toNumber_def)
  have ser: "\<exists>w. lisk_serializeTransaction demo_lisk (demo_lisk_tx ''1L'') (int_num (1500000000 * 1000)) 64 = ok w"
    by (rule exI, rule demo_lisk_serialized) simp_all
  have fields: "lk_content (demo_lisk_tx ''1L'') = Inl (demo_lisk_send ''1L'')" "sig_nonce demo_lisk_signature = int_num 1500000000"
      "send_senderPubkey (demo_lisk_send ''1L'') = Some (sig_pubkey demo_lisk_signature)"
      "canonical_decimal (am_quantity (send_amount (demo_lisk_send ''1L'')))" "am_tokenTicker (send_amount (demo_lisk_send ''1L'')) = ''LSK''"
    by (simp_all add: demo_lisk_tx_def demo_lisk_signature_def demo_lisk_send_def lisk_amount_def lisk_primaryTokenTicker_def
        canonical_decimal_def is_digit_def)
  obtain ident where ident: "lisk_transactionId demo_lisk (demo_lisk_tx ''1L'') (int_num (1500000000 * 1000)) demo_lisk_signature 64 = ok ident"
    using ser by (auto simp: lisk_transactionId_def Let_def)
  obtain body where "JSON_stringify (lisk_posted (demo_lisk_send ''1L'') demo_lisk_signature 35890800 ident) = Some body"
    using stringify_data [OF lisk_posted_data] by force
  then have "lisk_bytesToPost demo_lisk ?stx = ok (toUtf8 body)"
    using date ident by (simp add: lisk_bytesToPost_def fields int53 Int53_toNumber_def sub lisk_maxMemoLength_def lisk_posted_text)
  moreover from lisk_posted_transaction_read [OF demo_lisk_laws this, of "demo_lisk_send ''1L''" demo_lisk_signature "[]" 1500000000 "''lisk-1''"]
  have "lisk_parseBytes demo_lisk (toUtf8 body) ''lisk-1'' = ok \<lparr>stx_transaction =
        \<lparr>lk_chainId = ''lisk-1'', lk_fee = Some (lisk_fee (lisk_amount ''10000000'')), lk_content = Inl (demo_lisk_send ''1L'')\<rparr>,
      stx_signatures = [demo_lisk_signature]\<rparr>" by (simp add: fields)
  ultimately show ?thesis by blast
qed

text \<open>
  C27. The bytes that are signed for a Lisk transaction fix its nonce, sender, amount,
  memo and the number of its recipient modulo \<open>2\<^sup>6\<^sup>4\<close>, for nonces that are times of a Date (at most
  8640000000000 seconds from 1970); they carry neither the letter at
  the end of the recipient nor the fee, and nonces out of this range are all signed alike.
\<close>

theorem lisk_signed_bytes_determine:
  assumes "lisk_laws L" "lisk_bytesToSign L t (int_num k) = ok job" "lisk_bytesToSign L t' (int_num k') = ok job"
    and "\<bar>k\<bar> \<le> 8640000000000" "\<bar>k'\<bar> \<le> 8640000000000"
  shows "k = k' \<and> (\<exists>tx tx'. lk_content t = Inl tx \<and> lk_content t' = Inl tx' \<and>
    send_senderPubkey tx = send_senderPubkey tx' \<and> send_sender tx = send_sender tx' \<and>
    parse_base 10 (am_quantity (send_amount tx)) = parse_base 10 (am_quantity (send_amount tx')) \<and>
    recipient_number tx mod 2 ^ 64 = recipient_number tx' mod 2 ^ 64 \<and> memo_text tx = memo_text tx')"
proof -
  note bytes = assms(2) [unfolded lisk_bytesToSign_ok [OF assms(4)]] assms(3) [unfolded lisk_bytesToSign_ok [OF assms(5)]]
  from lisk_serialize_ok [OF assms(1) bytes(1) [THEN conjunct1]] obtain tx pk ts where a: "lk_content t = Inl tx"
      "send_senderPubkey tx = Some pk" "pk_algo pk = Ed25519" "length (pk_data pk) = 32"
      "lisk_pubkeyToAddress L pk = ok (send_sender tx)" "lisk_toTimestamp (int_num (k * 1000)) = ok ts"
      "parse_base 10 (am_quantity (send_amount tx)) < 2 ^ 64" "job_bytes job = lisk_send_bytes tx pk ts" by blast
  from lisk_serialize_ok [OF assms(1) bytes(2) [THEN conjunct1]] obtain tx' pk' ts' where b: "lk_content t' = Inl tx'"
      "send_senderPubkey tx' = Some pk'" "pk_algo pk' = Ed25519" "length (pk_data pk') = 32"
      "lisk_pubkeyToAddress L pk' = ok (send_sender tx')" "lisk_toTimestamp (int_num (k' * 1000)) = ok ts'"
      "parse_base 10 (am_quantity (send_amount tx')) < 2 ^ 64" "job_bytes job = lisk_send_bytes tx' pk' ts'" by blast
  note same = lisk_send_bytes_inj [OF trans [OF a(8) [symmetric] b(8)] a(4) b(4) a(7) b(7)]
  have pk: "pk = pk'" using a(3) b(3) same(2) by (cases pk; cases pk') simp
  from a(6) b(6) have "- 2147483648 \<le> k - 1464109200" "k - 1464109200 \<le> 2147483647" "ts = int_num (k - 1464109200)"
      "- 2147483648 \<le> k' - 1464109200" "k' - 1464109200 \<le> 2147483647" "ts' = int_num (k' - 1464109200)"
    by (simp_all add: lisk_toTimestamp_int assms(4,5) split: if_splits)
  with same(1) have "k - 1464109200 = k' - 1464109200" using timestampBytes_inj by blast
  with a b same(3-5) pk show ?thesis by simp
qed

lemma lisk_signed_bytes_determine_witness:
  "\<exists>job. lisk_bytesToSign demo_lisk (demo_lisk_tx ''1L'') (int_num 1500000000) = ok job \<and>
     lisk_bytesToSign demo_lisk (demo_lisk_tx ''1Z'') (int_num 1500000000) = ok job \<and>
     recipient_number (demo_lisk_send ''1L'') mod 2 ^ 64 = recipient_number (demo_lisk_send ''1Z'') mod 2 ^ 64"
proof -
  let ?job = "\<lparr>job_bytes = lisk_send_bytes (demo_lisk_send ''1L'') demo_lisk_pubkey (int_num (1500000000 - 1464109200)),
    job_prehashType = PrehashSha256\<rparr>"
  have signed: "lisk_bytesToSign demo_lisk (demo_lisk_tx r) (int_num 1500000000) = ok ?job" if "r \<in> {''1L'', ''1Z''}" for r
    by (subst lisk_bytesToSign_ok, simp) (use demo_lisk_serialized [of 1500000000 r] that in simp)
  from lisk_signed_bytes_determine [OF demo_lisk_laws signed signed, of "''1L''" "''1Z''"]
  have "recipient_number (demo_lisk_send ''1L'') mod 2 ^ 64 = recipient_number (demo_lisk_send ''1Z'') mod 2 ^ 64"
    by (simp add: demo_lisk_tx_def)
  with signed [of "''1L''"] signed [of "''1Z''"] show ?thesis by blast
qed

text \<open>
  A nonce that is a safe integer but no time a Date can hold passes the check of
  the timestamp, and is signed as if it were the Lisk epoch.
\<close>

lemma lisk_far_nonce_signs_epoch:
  "safe_int k \<Longrightarrow> 8640000000000 < \<bar>k\<bar> \<Longrightarrow> lisk_bytesToSign L t (int_num k) = lisk_bytesToSign L t (int_num 1464109200)"
proof -
  assume k: "safe_int k" "8640000000000 < \<bar>k\<bar>"
  have "lisk_creationDate (int_num 1464109200) = ok (int_num (1464109200 * 1000))" by (rule lisk_creationDate_int) simp
  moreover have "lisk_toTimestamp (int_num (1464109200 * 1000)) = ok (int_num 0)" by (subst lisk_toTimestamp_int) simp_all
  ultimately show ?thesis
    using lisk_serialize_date [OF lisk_toTimestamp_NaN _ timestampBytes_epoch, of "int_num (1464109200 * 1000)" L t lisk_maxMemoLength]
    by (simp add: lisk_bytesToSign_def lisk_far_creationDate [OF k])
qed

text \<open>
  A Lisk address is valid exactly if it is the decimal form of a number below
  \<open>2\<^sup>6\<^sup>4\<close> followed by L; the address of every Ed25519 key is valid.
\<close>

lemma lisk_valid_addresses:
  "lisk_laws L \<Longrightarrow>
    (lisk_isValidAddress L a = ok True \<longleftrightarrow> (\<exists>n < 2 ^ 64. a = to_base 10 n @ ''L'')) \<and>
    (lisk_pubkeyToAddress L pubkey = ok a \<longrightarrow> lisk_isValidAddress L a = ok True)"
  using unsigned_less [where ?'a = nat and ?'b = 64]
  by (auto simp: lisk_isValidAddress_iff lisk_pubkeyToAddress_ok lisk_long_toString)

end
