(* ===== verification/Pb_Core.thy ===== *)
theory Pb_Core
  imports Bns_Wire
begin

text \<open>
  What the message classes of \<open>packages/iov-bns/src/generated/codecimpl.js\<close> share:
  the writer and the reader of protobufjs as a parameter, the fields of a message on
  the wire, and the loop that reads the fields of a message. The lemmas show that
  fields that were written one after the other are read into the message in turn.
\<close>

section \<open>Writer and reader of protobufjs\<close>

text \<open>
  A writer is what it has written. A reader is the bytes that it has not read; each
  of its methods gives the value and the bytes that are left, or throws.
\<close>

record proto_lib =
  pw_uint32 :: "number \<Rightarrow> byte list"
  pw_int32 :: "number \<Rightarrow> byte list"
  pw_int64 :: "wire_int \<Rightarrow> byte list"
  pw_uint64 :: "wire_int \<Rightarrow> byte list"
  pw_bool :: "bool \<Rightarrow> byte list"
  pw_string :: "string \<Rightarrow> byte list"
  pw_bytes :: "byte list \<Rightarrow> byte list"
  pr_uint32 :: "byte list \<Rightarrow> (int \<times> byte list) result"
  pr_int32 :: "byte list \<Rightarrow> (int \<times> byte list) result"
  pr_int64 :: "byte list \<Rightarrow> (int \<times> byte list) result"
  pr_uint64 :: "byte list \<Rightarrow> (int \<times> byte list) result"
  pr_bool :: "byte list \<Rightarrow> (bool \<times> byte list) result"
  pr_string :: "byte list \<Rightarrow> (string \<times> byte list) result"
  pr_bytes :: "byte list \<Rightarrow> (byte list \<times> byte list) result"
  pr_skipType :: "int \<Rightarrow> byte list \<Rightarrow> byte list result"

definition is_uint32 :: "number \<Rightarrow> bool" where
  "is_uint32 n \<longleftrightarrow> isInteger n \<and> 0 \<le> floor_num n \<and> floor_num n < 2 ^ 32"

definition is_int32 :: "number \<Rightarrow> bool" where
  "is_int32 n \<longleftrightarrow> isInteger n \<and> - (2 ^ 31) \<le> floor_num n \<and> floor_num n < 2 ^ 31"

text \<open>The integer of a value for a 64-bit field: a number must be safe.\<close>

definition wire_value :: "wire_int \<Rightarrow> int" where
  "wire_value w = (case w of JsNumber n \<Rightarrow> floor_num n | Long i \<Rightarrow> i)"

definition is_int64 :: "wire_int \<Rightarrow> bool" where
  "is_int64 w \<longleftrightarrow> (case w of JsNumber n \<Rightarrow> isInteger n \<and> safe_int (floor_num n) | Long i \<Rightarrow> - (2 ^ 63) \<le> i \<and> i < 2 ^ 63)"

definition is_uint64 :: "wire_int \<Rightarrow> bool" where
  "is_uint64 w \<longleftrightarrow> 0 \<le> wire_value w \<and>
     (case w of JsNumber n \<Rightarrow> isInteger n \<and> safe_int (floor_num n) | Long i \<Rightarrow> i < 2 ^ 64)"

text \<open>What the reader promises about what the writer wrote.\<close>

definition proto_laws :: "proto_lib \<Rightarrow> bool" where
  "proto_laws P \<longleftrightarrow>
     (\<forall>n r. is_uint32 n \<longrightarrow> pr_uint32 P (pw_uint32 P n @ r) = ok (floor_num n, r)) \<and>
     (\<forall>n. pw_uint32 P n \<noteq> []) \<and>
     (\<forall>n r. is_int32 n \<longrightarrow> pr_int32 P (pw_int32 P n @ r) = ok (floor_num n, r)) \<and>
     (\<forall>w r. is_int64 w \<longrightarrow> pr_int64 P (pw_int64 P w @ r) = ok (wire_value w, r)) \<and>
     (\<forall>w r. is_uint64 w \<longrightarrow> pr_uint64 P (pw_uint64 P w @ r) = ok (wire_value w, r)) \<and>
     (\<forall>b r. pr_bool P (pw_bool P b @ r) = ok (b, r)) \<and>
     (\<forall>s r. pr_string P (pw_string P s @ r) = ok (s, r)) \<and>
     (\<forall>b r. pr_bytes P (pw_bytes P b @ r) = ok (b, r))"

lemma proto_lawsD:
  assumes "proto_laws P"
  shows proto_uint32: "is_uint32 n \<Longrightarrow> pr_uint32 P (pw_uint32 P n @ r) = ok (floor_num n, r)"
    and proto_tag: "pw_uint32 P n \<noteq> []"
    and proto_int32: "is_int32 n \<Longrightarrow> pr_int32 P (pw_int32 P n @ r) = ok (floor_num n, r)"
    and proto_int64: "is_int64 w \<Longrightarrow> pr_int64 P (pw_int64 P w @ r) = ok (wire_value w, r)"
    and proto_uint64: "is_uint64 w \<Longrightarrow> pr_uint64 P (pw_uint64 P w @ r) = ok (wire_value w, r)"
    and proto_bool: "pr_bool P (pw_bool P b @ r) = ok (b, r)"
    and proto_string: "pr_string P (pw_string P s @ r) = ok (s, r)"
    and proto_bytes: "pr_bytes P (pw_bytes P d @ r) = ok (d, r)"
  using assms unfolding proto_laws_def by blast+

section \<open>Fields that are written\<close>

text \<open>
  A property that is set is its tag and its value, a message in a property is its
  length and its bytes (\<open>fork\<close> and \<open>ldelim\<close>), an array is one field for each element.
\<close>

definition ldelim :: "proto_lib \<Rightarrow> byte list \<Rightarrow> byte list" where
  "ldelim P w = pw_uint32 P (int_num (int (length w))) @ w"

definition put :: "proto_lib \<Rightarrow> int \<Rightarrow> ('v \<Rightarrow> byte list) \<Rightarrow> 'v option \<Rightarrow> byte list" where
  "put P tag writer property = (case property of None \<Rightarrow> [] | Some v \<Rightarrow> pw_uint32 P (int_num tag) @ writer v)"

definition put_each :: "proto_lib \<Rightarrow> int \<Rightarrow> ('v \<Rightarrow> byte list) \<Rightarrow> 'v list option \<Rightarrow> byte list" where
  "put_each P tag writer property = (case property of
     None \<Rightarrow> [] | Some vs \<Rightarrow> concat (map (\<lambda>v. pw_uint32 P (int_num tag) @ writer v) vs))"

section \<open>The loop over the fields\<close>

text \<open>
  \<open>while (reader.pos < end)\<close>: read a tag, let the switch of the class read the field.
  \<open>stop\<close> is the number of bytes that lie behind the end of the message; it is
  negative when the length exceeds what is left. Every round reads a tag, so as many
  rounds as there are bytes are enough.
\<close>

fun read_fields :: "proto_lib \<Rightarrow> nat \<Rightarrow> ('m \<Rightarrow> int \<Rightarrow> byte list \<Rightarrow> ('m \<times> byte list) result) \<Rightarrow> int \<Rightarrow> 'm \<Rightarrow> byte list
    \<Rightarrow> ('m \<times> byte list) result" where
  "read_fields P fuel field stop m bs =
     (if int (length bs) \<le> stop then ok (m, bs)
      else case fuel of
        0 \<Rightarrow> throw ''out of rounds''
      | Suc fuel' \<Rightarrow>
          andThen (pr_uint32 P bs) (\<lambda>(tag, rest).
          andThen (field m tag rest) (\<lambda>(m', rest'). read_fields P fuel' field stop m' rest')))"

declare read_fields.simps [simp del]

definition read_message :: "proto_lib \<Rightarrow> ('m \<Rightarrow> int \<Rightarrow> byte list \<Rightarrow> ('m \<times> byte list) result) \<Rightarrow> 'm \<Rightarrow> byte list \<Rightarrow> int
    \<Rightarrow> ('m \<times> byte list) result" where
  "read_message P field fresh bs len = read_fields P (length bs) field (int (length bs) - len) fresh bs"

text \<open>A value that is read and stored; a message is read with the length before it.\<close>

definition get :: "('v \<Rightarrow> 'm) \<Rightarrow> ('v \<times> byte list) result \<Rightarrow> ('m \<times> byte list) result" where
  "get store r = andThen r (\<lambda>(v, rest). ok (store v, rest))"

definition get_message :: "proto_lib \<Rightarrow> (byte list \<Rightarrow> int \<Rightarrow> ('v \<times> byte list) result) \<Rightarrow> byte list \<Rightarrow> ('v \<times> byte list) result" where
  "get_message P decode bs = andThen (pr_uint32 P bs) (\<lambda>(len, rest). decode rest len)"

definition skip :: "proto_lib \<Rightarrow> int \<Rightarrow> 'm \<Rightarrow> byte list \<Rightarrow> ('m \<times> byte list) result" where
  "skip P tag m bs = andThen (pr_skipType P (tag mod 8) bs) (\<lambda>rest. ok (m, rest))"

text \<open>The array of a repeated property to which elements are added.\<close>

definition elements :: "'v list option \<Rightarrow> 'v list" where
  "elements property = (case property of None \<Rightarrow> [] | Some vs \<Rightarrow> vs)"

lemma get_ok [simp]: "get store (Inr (v, rest)) = ok (store v, rest)"
  by (simp add: get_def)

section \<open>Reading what was written\<close>

text \<open>
  The fields \<open>w\<close> take the loop from the message \<open>m\<close> to \<open>m'\<close>; a message of less than
  4 GiB \<open>w\<close> is read as \<open>m\<close>.
\<close>

definition writes :: "proto_lib \<Rightarrow> ('m \<Rightarrow> int \<Rightarrow> byte list \<Rightarrow> ('m \<times> byte list) result) \<Rightarrow> byte list \<Rightarrow> 'm \<Rightarrow> 'm \<Rightarrow> bool" where
  "writes P field w m m' \<longleftrightarrow> (length w < 2 ^ 32 \<longrightarrow>
     (\<exists>n \<le> length w. \<forall>k stop r. stop \<le> int (length r) \<longrightarrow>
        read_fields P (n + k) field stop m (w @ r) = read_fields P k field stop m' r))"

definition decodes :: "(byte list \<Rightarrow> int \<Rightarrow> ('m \<times> byte list) result) \<Rightarrow> byte list \<Rightarrow> 'm \<Rightarrow> bool" where
  "decodes decode w m \<longleftrightarrow> (length w < 2 ^ 32 \<longrightarrow> (\<forall>r. decode (w @ r) (int (length w)) = ok (m, r)))"

definition set_field :: "(('v \<Rightarrow> 'v) \<Rightarrow> 'm \<Rightarrow> 'm) \<Rightarrow> 'v \<Rightarrow> 'm \<Rightarrow> 'm" where
  "set_field upd v m = upd (\<lambda>_. v) m"

lemma writes_Nil: "writes P field [] m m"
  unfolding writes_def by (intro impI exI [of _ 0]) simp

lemma writes_append:
  assumes "writes P field w m m'" "writes P field v m' m''"
  shows "writes P field (w @ v) m m''"
  unfolding writes_def
proof (intro impI)
  assume len: "length (w @ v) < 2 ^ 32"
  then obtain n where n: "n \<le> length w" "\<And>k stop r. stop \<le> int (length r) \<Longrightarrow>
      read_fields P (n + k) field stop m (w @ r) = read_fields P k field stop m' r"
    using assms(1) unfolding writes_def by auto
  from len obtain n' where n': "n' \<le> length v" "\<And>k stop r. stop \<le> int (length r) \<Longrightarrow>
      read_fields P (n' + k) field stop m' (v @ r) = read_fields P k field stop m'' r"
    using assms(2) unfolding writes_def by auto
  show "\<exists>n \<le> length (w @ v). \<forall>k stop r. stop \<le> int (length r) \<longrightarrow>
      read_fields P (n + k) field stop m ((w @ v) @ r) = read_fields P k field stop m'' r"
  proof (intro exI [of _ "n + n'"] conjI allI impI)
    fix k stop and r :: "byte list"
    assume "stop \<le> int (length r)"
    then show "read_fields P (n + n' + k) field stop m ((w @ v) @ r) = read_fields P k field stop m'' r"
      using n(2) [of stop "v @ r" "n' + k"] n'(2) [of stop r k] by (simp add: add.assoc)
  qed (use n(1) n'(1) in simp)
qed

lemma writes_field:
  assumes "proto_laws P" "is_uint32 (int_num tag)" "length (pw_uint32 P (int_num tag) @ v) < 2 ^ 32 \<Longrightarrow> (\<And>r. field m tag (v @ r) = ok (m', r))"
  shows "writes P field (pw_uint32 P (int_num tag) @ v) m m'"
  unfolding writes_def
proof (intro impI exI [of _ 1] conjI allI)
  assume len: "length (pw_uint32 P (int_num tag) @ v) < 2 ^ 32"
  have tag: "0 < length (pw_uint32 P (int_num tag))" using proto_tag [OF assms(1)] by simp
  then show "1 \<le> length (pw_uint32 P (int_num tag) @ v)" unfolding length_append by linarith
  fix k stop and r :: "byte list"
  assume "stop \<le> int (length r)"
  with tag have "\<not> int (length ((pw_uint32 P (int_num tag) @ v) @ r)) \<le> stop" unfolding length_append by linarith
  then show "read_fields P (1 + k) field stop m ((pw_uint32 P (int_num tag) @ v) @ r) = read_fields P k field stop m' r"
    using proto_uint32 [OF assms(1,2), of "v @ r"] assms(3) [OF len, of r]
    by (subst read_fields.simps) (simp del: length_append)
qed

lemma decodes_message:
  assumes "writes P field w fresh m"
  shows "decodes (read_message P field fresh) w m"
  unfolding decodes_def read_message_def
proof (intro impI allI)
  fix r :: "byte list"
  assume "length w < 2 ^ 32"
  with assms obtain n where n: "n \<le> length w" "\<And>k stop r. stop \<le> int (length r) \<Longrightarrow>
      read_fields P (n + k) field stop fresh (w @ r) = read_fields P k field stop m r"
    unfolding writes_def by auto
  have "read_fields P (length (w @ r)) field (int (length r)) fresh (w @ r)
      = read_fields P (length (w @ r) - n) field (int (length r)) m r"
    using n(2) [of "int (length r)" r "length (w @ r) - n"] n(1) by simp
  then show "read_fields P (length (w @ r)) field (int (length (w @ r)) - int (length w)) fresh (w @ r) = ok (m, r)"
    by (simp add: read_fields.simps [of P _ field "int (length r)" m r])
qed

lemma writes_put:
  assumes "proto_laws P" "is_uint32 (int_num tag)"
    and "\<And>v r. x = Some v \<Longrightarrow> length (writer v) < 2 ^ 32 \<Longrightarrow> field m tag (writer v @ r) = ok (m', r)" "x = None \<Longrightarrow> m' = m"
  shows "writes P field (put P tag writer x) m m'"
proof (cases x)
  case None
  with assms(4) show ?thesis by (simp add: put_def writes_Nil)
next
  case (Some v)
  then show ?thesis using writes_field [OF assms(1,2), of "writer v" field m m'] assms(3) by (simp add: put_def)
qed

text \<open>One rule for every type of a property; the class stores what the reader gives.\<close>

lemma writes_uint32:
  assumes "proto_laws P" "is_uint32 (int_num tag)" "pred_option is_uint32 x"
    and "\<And>bs. field m tag bs = get (\<lambda>v. set_field upd (Some (int_num v)) m) (pr_uint32 P bs)"
    and "set_field upd (Some (int_num 0)) m = m"
  shows "writes P field (put P tag (pw_uint32 P) x) m (set_field upd (norm_number x) m)"
  using assms(3-) proto_uint32 [OF assms(1)]
  by (intro writes_put [OF assms(1,2)]) (auto simp: is_uint32_def isInteger_iff norm_number_def)

lemma writes_int32:
  assumes "proto_laws P" "is_uint32 (int_num tag)" "pred_option is_int32 x"
    and "\<And>bs. field m tag bs = get (\<lambda>v. set_field upd (Some (int_num v)) m) (pr_int32 P bs)"
    and "set_field upd (Some (int_num 0)) m = m"
  shows "writes P field (put P tag (pw_int32 P) x) m (set_field upd (norm_number x) m)"
  using assms(3-) proto_int32 [OF assms(1)]
  by (intro writes_put [OF assms(1,2)]) (auto simp: is_int32_def isInteger_iff norm_number_def)

lemma norm_int64_value: "norm_int64 x = Some (Long (case x of None \<Rightarrow> 0 | Some w \<Rightarrow> wire_value w))"
  by (auto simp: norm_int64_def wire_value_def split: option.split wire_int.split)

lemma writes_int64:
  assumes "proto_laws P" "is_uint32 (int_num tag)" "pred_option is_int64 x"
    and "\<And>bs. field m tag bs = get (\<lambda>v. set_field upd (Some (Long v)) m) (pr_int64 P bs)"
    and "set_field upd (Some (Long 0)) m = m"
  shows "writes P field (put P tag (pw_int64 P) x) m (set_field upd (norm_int64 x) m)"
  using assms(3-) proto_int64 [OF assms(1)]
  by (intro writes_put [OF assms(1,2)]) (auto simp: norm_int64_value)

lemma writes_uint64:
  assumes "proto_laws P" "is_uint32 (int_num tag)" "pred_option is_uint64 x"
    and "\<And>bs. field m tag bs = get (\<lambda>v. set_field upd (Some (Long v)) m) (pr_uint64 P bs)"
    and "set_field upd (Some (Long 0)) m = m"
  shows "writes P field (put P tag (pw_uint64 P) x) m (set_field upd (norm_int64 x) m)"
  using assms(3-) proto_uint64 [OF assms(1)]
  by (intro writes_put [OF assms(1,2)]) (auto simp: norm_int64_value)

lemma writes_bool:
  assumes "proto_laws P" "is_uint32 (int_num tag)"
    and "\<And>bs. field m tag bs = get (\<lambda>v. set_field upd (Some v) m) (pr_bool P bs)"
    and "set_field upd (Some False) m = m"
  shows "writes P field (put P tag (pw_bool P) x) m (set_field upd (norm_bool x) m)"
  using assms(3-) by (intro writes_put [OF assms(1,2)]) (auto simp: norm_bool_def proto_bool [OF assms(1)])

lemma writes_string:
  assumes "proto_laws P" "is_uint32 (int_num tag)"
    and "\<And>bs. field m tag bs = get (\<lambda>v. set_field upd (Some v) m) (pr_string P bs)"
    and "set_field upd (Some []) m = m"
  shows "writes P field (put P tag (pw_string P) x) m (set_field upd (norm_string x) m)"
  using assms(3-) by (intro writes_put [OF assms(1,2)]) (auto simp: norm_string_def proto_string [OF assms(1)])

lemma writes_bytes:
  assumes "proto_laws P" "is_uint32 (int_num tag)"
    and "\<And>bs. field m tag bs = get (\<lambda>v. set_field upd (Some v) m) (pr_bytes P bs)"
    and "set_field upd (Some []) m = m"
  shows "writes P field (put P tag (pw_bytes P) x) m (set_field upd (norm_bytes x) m)"
  using assms(3-) by (intro writes_put [OF assms(1,2)]) (auto simp: norm_bytes_def proto_bytes [OF assms(1)])

lemma get_message_ldelim:
  assumes "proto_laws P" "decodes decode w v" "length (ldelim P w) < 2 ^ 32"
  shows "get_message P decode (ldelim P w @ r) = ok (v, r)"
proof -
  have "length w < 2 ^ 32" using assms(3) by (simp add: ldelim_def)
  moreover from this have "is_uint32 (int_num (int (length w)))"
    by (simp add: is_uint32_def)
  ultimately show ?thesis using assms(2) proto_uint32 [OF assms(1)]
    by (simp add: get_message_def ldelim_def decodes_def)
qed

lemma writes_message:
  assumes "proto_laws P" "is_uint32 (int_num tag)" "pred_option valid x"
    and "\<And>v. valid v \<Longrightarrow> decodes decode (encode v) (nf v)"
    and "\<And>bs. field m tag bs = get (\<lambda>v. set_field upd (Some v) m) (get_message P decode bs)"
    and "set_field upd None m = m"
  shows "writes P field (put P tag (\<lambda>v. ldelim P (encode v)) x) m (set_field upd (map_option nf x) m)"
proof (rule writes_put [OF assms(1,2)])
  fix v and r :: "byte list"
  assume "x = Some v" "length (ldelim P (encode v)) < 2 ^ 32"
  with assms(3-5) show "field m tag (ldelim P (encode v) @ r) = ok (set_field upd (map_option nf x) m, r)"
    by (simp add: get_message_ldelim [OF assms(1) assms(4)])
qed (use assms(6) in simp)

text \<open>The elements of an array are added one by one to those that are there.\<close>

lemma writes_each:
  assumes "proto_laws P" "is_uint32 (int_num tag)"
    and "\<And>v r us. x = Some xs \<Longrightarrow> v \<in> set xs \<Longrightarrow> length (writer v) < 2 ^ 32 \<Longrightarrow>
      field (set_field upd (Some us) m) tag (writer v @ r) = ok (set_field upd (Some (us @ [nf v])) m, r)"
  shows "x = Some xs \<Longrightarrow> writes P field (put_each P tag writer x) (set_field upd (Some us) m) (set_field upd (Some (us @ map nf xs)) m)"
  using assms(3)
proof (induction xs arbitrary: x us)
  case Nil
  then show ?case by (simp add: put_each_def writes_Nil)
next
  case (Cons y ys)
  have "writes P field (pw_uint32 P (int_num tag) @ writer y) (set_field upd (Some us) m) (set_field upd (Some (us @ [nf y])) m)"
    by (rule writes_field [OF assms(1,2)]) (use Cons.prems in auto)
  moreover have "writes P field (put_each P tag writer (Some ys)) (set_field upd (Some (us @ [nf y])) m)
      (set_field upd (Some ((us @ [nf y]) @ map nf ys)) m)"
    by (rule Cons.IH [OF refl]) (use Cons.prems in auto)
  ultimately show ?case using Cons.prems(1) writes_append by (fastforce simp: put_each_def)
qed

lemma writes_repeated:
  assumes "proto_laws P" "is_uint32 (int_num tag)" "set_field upd (Some []) m = m"
    and "\<And>v r us. v \<in> set (elements x) \<Longrightarrow> length (writer v) < 2 ^ 32 \<Longrightarrow>
      field (set_field upd (Some us) m) tag (writer v @ r) = ok (set_field upd (Some (us @ [nf v])) m, r)"
  shows "writes P field (put_each P tag writer x) m (set_field upd (norm_repeated nf x) m)"
proof (cases x)
  case None
  then show ?thesis using assms(3) by (simp add: put_each_def writes_Nil)
next
  case (Some xs)
  then show ?thesis
    using writes_each [OF assms(1,2), of x xs writer field upd m nf "[]"] assms(3,4) by (simp add: elements_def)
qed

lemma writes_messages:
  assumes "proto_laws P" "is_uint32 (int_num tag)" "pred_option (list_all valid) x"
    and "\<And>v. valid v \<Longrightarrow> decodes decode (encode v) (nf v)"
    and "\<And>us bs. field (set_field upd (Some us) m) tag bs =
      get (\<lambda>v. set_field upd (Some (us @ [v])) m) (get_message P decode bs)"
    and "set_field upd (Some []) m = m"
  shows "writes P field (put_each P tag (\<lambda>v. ldelim P (encode v)) x) m (set_field upd (norm_repeated nf x) m)"
proof (rule writes_repeated [OF assms(1,2,6)])
  fix v us and r :: "byte list"
  assume "v \<in> set (elements x)" "length (ldelim P (encode v)) < 2 ^ 32"
  moreover from this(1) assms(3) have "valid v" by (auto simp: elements_def list_all_iff split: option.splits)
  ultimately show "field (set_field upd (Some us) m) tag (ldelim P (encode v) @ r) = ok (set_field upd (Some (us @ [nf v])) m, r)"
    by (simp add: assms(5) get_message_ldelim [OF assms(1) assms(4)])
qed

lemma writes_repeated_bytes:
  assumes "proto_laws P" "is_uint32 (int_num tag)"
    and "\<And>us bs. field (set_field upd (Some us) m) tag bs =
      get (\<lambda>v. set_field upd (Some (us @ [v])) m) (pr_bytes P bs)"
    and "set_field upd (Some []) m = m"
  shows "writes P field (put_each P tag (pw_bytes P) x) m (set_field upd (norm_repeated (\<lambda>b. b) x) m)"
  by (rule writes_repeated [OF assms(1,2,4)]) (simp add: assms(3) proto_bytes [OF assms(1)])

text \<open>The rules for the lemmas of the classes, which go through the fields from the last to the first.\<close>

lemma writes_chain: "writes P field v m' m'' \<Longrightarrow> writes P field w m m' \<Longrightarrow> writes P field (w @ v) m m''"
  by (rule writes_append)

lemma true_opt: "pred_option (\<lambda>_. True) x"
  by (cases x) simp_all

lemma true_each: "pred_option (list_all (\<lambda>_. True)) x"
  by (cases x) (simp_all add: list_all_iff)

end
