(* ===== verification/Pb_Basic.thy ===== *)
theory Pb_Basic
  imports Pb_Core
begin

text \<open>
  The classes of the namespaces weave, coin, crypto, sigs, cash, aswap, escrow, multisig
  and username, of \<open>packages/iov-bns/src/generated/codecimpl.js\<close>: for each
  the object that \<open>new\<close> makes, \<open>encode\<close>, the switch of
  \<open>decode\<close> and \<open>decode\<close>. The lemma of a class shows that a
  message with integers in range is read back from what was written.
\<close>

section \<open>coin.Coin\<close>

definition new_coin_Coin :: coin_ICoin where
  "new_coin_Coin = \<lparr>coin_whole = Some (Long 0), coin_fractional = Some (Long 0), coin_ticker = Some []\<rparr>"

definition encode_coin_Coin :: "proto_lib \<Rightarrow> coin_ICoin \<Rightarrow> byte list" where
  "encode_coin_Coin P message =
     put P 8 (pw_int64 P) (coin_whole message) @
     put P 16 (pw_int64 P) (coin_fractional message) @
     put P 26 (pw_string P) (coin_ticker message)"

definition field_coin_Coin :: "proto_lib \<Rightarrow> coin_ICoin \<Rightarrow> int \<Rightarrow> byte list \<Rightarrow> (coin_ICoin \<times> byte list) result" where
  "field_coin_Coin P message tag bs =
     (if tag div 8 = 1 then get (\<lambda>v. message\<lparr>coin_whole := Some (Long v)\<rparr>) (pr_int64 P bs)
      else if tag div 8 = 2 then get (\<lambda>v. message\<lparr>coin_fractional := Some (Long v)\<rparr>) (pr_int64 P bs)
      else if tag div 8 = 3 then get (\<lambda>v. message\<lparr>coin_ticker := Some v\<rparr>) (pr_string P bs)
      else skip P tag message bs)"

definition decode_coin_Coin :: "proto_lib \<Rightarrow> byte list \<Rightarrow> int \<Rightarrow> (coin_ICoin \<times> byte list) result" where
  "decode_coin_Coin P = read_message P (field_coin_Coin P) new_coin_Coin"

definition valid_coin_Coin :: "coin_ICoin \<Rightarrow> bool" where
  "valid_coin_Coin message \<longleftrightarrow> pred_option is_int64 (coin_whole message) \<and>
     pred_option is_int64 (coin_fractional message)"

lemma decodes_coin_Coin:
  assumes P: "proto_laws P" and "valid_coin_Coin m"
  shows "decodes (decode_coin_Coin P) (encode_coin_Coin P m) (norm_coin_ICoin m)"
proof -
  have "writes P (field_coin_Coin P) (encode_coin_Coin P m) new_coin_Coin
      (set_field coin_ticker_update (norm_string (coin_ticker m)) (set_field coin_fractional_update (norm_int64 (coin_fractional m)) (set_field coin_whole_update (norm_int64 (coin_whole m)) new_coin_Coin)))"
    unfolding encode_coin_Coin_def
    by (rule writes_chain
        | rule writes_int64 [OF P]
        | rule writes_string [OF P]
        | (simp add: field_coin_Coin_def new_coin_Coin_def set_field_def elements_def is_uint32_def assms(2) [unfolded valid_coin_Coin_def]; fail))+
  then show ?thesis
    unfolding decode_coin_Coin_def by (intro decodes_message) (simp add: set_field_def new_coin_Coin_def norm_coin_ICoin_def)
qed

section \<open>cash.FeeInfo\<close>

definition new_cash_FeeInfo :: cash_IFeeInfo where
  "new_cash_FeeInfo = \<lparr>fi_payer = Some [], fi_fees = None\<rparr>"

definition encode_cash_FeeInfo :: "proto_lib \<Rightarrow> cash_IFeeInfo \<Rightarrow> byte list" where
  "encode_cash_FeeInfo P message =
     put P 18 (pw_bytes P) (fi_payer message) @
     put P 26 (\<lambda>v. ldelim P (encode_coin_Coin P v)) (fi_fees message)"

definition field_cash_FeeInfo :: "proto_lib \<Rightarrow> cash_IFeeInfo \<Rightarrow> int \<Rightarrow> byte list \<Rightarrow> (cash_IFeeInfo \<times> byte list) result" where
  "field_cash_FeeInfo P message tag bs =
     (if tag div 8 = 2 then get (\<lambda>v. message\<lparr>fi_payer := Some v\<rparr>) (pr_bytes P bs)
      else if tag div 8 = 3 then get (\<lambda>v. message\<lparr>fi_fees := Some v\<rparr>) (get_message P (decode_coin_Coin P) bs)
      else skip P tag message bs)"

definition decode_cash_FeeInfo :: "proto_lib \<Rightarrow> byte list \<Rightarrow> int \<Rightarrow> (cash_IFeeInfo \<times> byte list) result" where
  "decode_cash_FeeInfo P = read_message P (field_cash_FeeInfo P) new_cash_FeeInfo"

definition valid_cash_FeeInfo :: "cash_IFeeInfo \<Rightarrow> bool" where
  "valid_cash_FeeInfo message \<longleftrightarrow> pred_option valid_coin_Coin (fi_fees message)"

lemma decodes_cash_FeeInfo:
  assumes P: "proto_laws P" and "valid_cash_FeeInfo m"
  shows "decodes (decode_cash_FeeInfo P) (encode_cash_FeeInfo P m) (norm_cash_IFeeInfo m)"
proof -
  have "writes P (field_cash_FeeInfo P) (encode_cash_FeeInfo P m) new_cash_FeeInfo
      (set_field fi_fees_update (map_option norm_coin_ICoin (fi_fees m)) (set_field fi_payer_update (norm_bytes (fi_payer m)) new_cash_FeeInfo))"
    unfolding encode_cash_FeeInfo_def
    by (rule writes_chain
        | rule writes_bytes [OF P]
        | rule writes_message [where valid = valid_coin_Coin, OF P _ _ decodes_coin_Coin [OF P]]
        | (simp add: field_cash_FeeInfo_def new_cash_FeeInfo_def set_field_def elements_def is_uint32_def assms(2) [unfolded valid_cash_FeeInfo_def]; fail))+
  then show ?thesis
    unfolding decode_cash_FeeInfo_def by (intro decodes_message) (simp add: set_field_def new_cash_FeeInfo_def norm_cash_IFeeInfo_def)
qed

section \<open>crypto.PublicKey\<close>

definition new_crypto_PublicKey :: crypto_IPublicKey where
  "new_crypto_PublicKey = \<lparr>pub_ed25519 = Some []\<rparr>"

definition encode_crypto_PublicKey :: "proto_lib \<Rightarrow> crypto_IPublicKey \<Rightarrow> byte list" where
  "encode_crypto_PublicKey P message =
     put P 10 (pw_bytes P) (pub_ed25519 message)"

definition field_crypto_PublicKey :: "proto_lib \<Rightarrow> crypto_IPublicKey \<Rightarrow> int \<Rightarrow> byte list \<Rightarrow> (crypto_IPublicKey \<times> byte list) result" where
  "field_crypto_PublicKey P message tag bs =
     (if tag div 8 = 1 then get (\<lambda>v. message\<lparr>pub_ed25519 := Some v\<rparr>) (pr_bytes P bs)
      else skip P tag message bs)"

definition decode_crypto_PublicKey :: "proto_lib \<Rightarrow> byte list \<Rightarrow> int \<Rightarrow> (crypto_IPublicKey \<times> byte list) result" where
  "decode_crypto_PublicKey P = read_message P (field_crypto_PublicKey P) new_crypto_PublicKey"

lemma decodes_crypto_PublicKey:
  assumes P: "proto_laws P"
  shows "decodes (decode_crypto_PublicKey P) (encode_crypto_PublicKey P m) (norm_crypto_IPublicKey m)"
proof -
  have "writes P (field_crypto_PublicKey P) (encode_crypto_PublicKey P m) new_crypto_PublicKey
      (set_field pub_ed25519_update (norm_bytes (pub_ed25519 m)) new_crypto_PublicKey)"
    unfolding encode_crypto_PublicKey_def
    by (rule writes_chain
        | rule writes_bytes [OF P]
        | (simp add: field_crypto_PublicKey_def new_crypto_PublicKey_def set_field_def elements_def is_uint32_def; fail))+
  then show ?thesis
    unfolding decode_crypto_PublicKey_def by (intro decodes_message) (simp add: set_field_def new_crypto_PublicKey_def norm_crypto_IPublicKey_def)
qed

section \<open>crypto.Signature\<close>

definition new_crypto_Signature :: crypto_ISignature where
  "new_crypto_Signature = \<lparr>sg_ed25519 = Some []\<rparr>"

definition encode_crypto_Signature :: "proto_lib \<Rightarrow> crypto_ISignature \<Rightarrow> byte list" where
  "encode_crypto_Signature P message =
     put P 10 (pw_bytes P) (sg_ed25519 message)"

definition field_crypto_Signature :: "proto_lib \<Rightarrow> crypto_ISignature \<Rightarrow> int \<Rightarrow> byte list \<Rightarrow> (crypto_ISignature \<times> byte list) result" where
  "field_crypto_Signature P message tag bs =
     (if tag div 8 = 1 then get (\<lambda>v. message\<lparr>sg_ed25519 := Some v\<rparr>) (pr_bytes P bs)
      else skip P tag message bs)"

definition decode_crypto_Signature :: "proto_lib \<Rightarrow> byte list \<Rightarrow> int \<Rightarrow> (crypto_ISignature \<times> byte list) result" where
  "decode_crypto_Signature P = read_message P (field_crypto_Signature P) new_crypto_Signature"

lemma decodes_crypto_Signature:
  assumes P: "proto_laws P"
  shows "decodes (decode_crypto_Signature P) (encode_crypto_Signature P m) (norm_crypto_ISignature m)"
proof -
  have "writes P (field_crypto_Signature P) (encode_crypto_Signature P m) new_crypto_Signature
      (set_field sg_ed25519_update (norm_bytes (sg_ed25519 m)) new_crypto_Signature)"
    unfolding encode_crypto_Signature_def
    by (rule writes_chain
        | rule writes_bytes [OF P]
        | (simp add: field_crypto_Signature_def new_crypto_Signature_def set_field_def elements_def is_uint32_def; fail))+
  then show ?thesis
    unfolding decode_crypto_Signature_def by (intro decodes_message) (simp add: set_field_def new_crypto_Signature_def norm_crypto_ISignature_def)
qed

section \<open>sigs.StdSignature\<close>

definition new_sigs_StdSignature :: sigs_IStdSignature where
  "new_sigs_StdSignature = \<lparr>ss_sequence = Some (Long 0), ss_pubkey = None, ss_signature = None\<rparr>"

definition encode_sigs_StdSignature :: "proto_lib \<Rightarrow> sigs_IStdSignature \<Rightarrow> byte list" where
  "encode_sigs_StdSignature P message =
     put P 16 (pw_int64 P) (ss_sequence message) @
     put P 26 (\<lambda>v. ldelim P (encode_crypto_PublicKey P v)) (ss_pubkey message) @
     put P 34 (\<lambda>v. ldelim P (encode_crypto_Signature P v)) (ss_signature message)"

definition field_sigs_StdSignature :: "proto_lib \<Rightarrow> sigs_IStdSignature \<Rightarrow> int \<Rightarrow> byte list \<Rightarrow> (sigs_IStdSignature \<times> byte list) result" where
  "field_sigs_StdSignature P message tag bs =
     (if tag div 8 = 2 then get (\<lambda>v. message\<lparr>ss_sequence := Some (Long v)\<rparr>) (pr_int64 P bs)
      else if tag div 8 = 3 then get (\<lambda>v. message\<lparr>ss_pubkey := Some v\<rparr>) (get_message P (decode_crypto_PublicKey P) bs)
      else if tag div 8 = 4 then get (\<lambda>v. message\<lparr>ss_signature := Some v\<rparr>) (get_message P (decode_crypto_Signature P) bs)
      else skip P tag message bs)"

definition decode_sigs_StdSignature :: "proto_lib \<Rightarrow> byte list \<Rightarrow> int \<Rightarrow> (sigs_IStdSignature \<times> byte list) result" where
  "decode_sigs_StdSignature P = read_message P (field_sigs_StdSignature P) new_sigs_StdSignature"

definition valid_sigs_StdSignature :: "sigs_IStdSignature \<Rightarrow> bool" where
  "valid_sigs_StdSignature message \<longleftrightarrow> pred_option is_int64 (ss_sequence message)"

lemma decodes_sigs_StdSignature:
  assumes P: "proto_laws P" and "valid_sigs_StdSignature m"
  shows "decodes (decode_sigs_StdSignature P) (encode_sigs_StdSignature P m) (norm_sigs_IStdSignature m)"
proof -
  have "writes P (field_sigs_StdSignature P) (encode_sigs_StdSignature P m) new_sigs_StdSignature
      (set_field ss_signature_update (map_option norm_crypto_ISignature (ss_signature m)) (set_field ss_pubkey_update (map_option norm_crypto_IPublicKey (ss_pubkey m)) (set_field ss_sequence_update (norm_int64 (ss_sequence m)) new_sigs_StdSignature)))"
    unfolding encode_sigs_StdSignature_def
    by (rule writes_chain
        | rule writes_int64 [OF P]
        | rule writes_message [OF P _ true_opt decodes_crypto_PublicKey [OF P]]
        | rule writes_message [OF P _ true_opt decodes_crypto_Signature [OF P]]
        | (simp add: field_sigs_StdSignature_def new_sigs_StdSignature_def set_field_def elements_def is_uint32_def assms(2) [unfolded valid_sigs_StdSignature_def]; fail))+
  then show ?thesis
    unfolding decode_sigs_StdSignature_def by (intro decodes_message) (simp add: set_field_def new_sigs_StdSignature_def norm_sigs_IStdSignature_def)
qed

section \<open>weave.Metadata\<close>

definition new_weave_Metadata :: weave_IMetadata where
  "new_weave_Metadata = \<lparr>md_schema = Some (int_num 0)\<rparr>"

definition encode_weave_Metadata :: "proto_lib \<Rightarrow> weave_IMetadata \<Rightarrow> byte list" where
  "encode_weave_Metadata P message =
     put P 8 (pw_uint32 P) (md_schema message)"

definition field_weave_Metadata :: "proto_lib \<Rightarrow> weave_IMetadata \<Rightarrow> int \<Rightarrow> byte list \<Rightarrow> (weave_IMetadata \<times> byte list) result" where
  "field_weave_Metadata P message tag bs =
     (if tag div 8 = 1 then get (\<lambda>v. message\<lparr>md_schema := Some (int_num v)\<rparr>) (pr_uint32 P bs)
      else skip P tag message bs)"

definition decode_weave_Metadata :: "proto_lib \<Rightarrow> byte list \<Rightarrow> int \<Rightarrow> (weave_IMetadata \<times> byte list) result" where
  "decode_weave_Metadata P = read_message P (field_weave_Metadata P) new_weave_Metadata"

definition valid_weave_Metadata :: "weave_IMetadata \<Rightarrow> bool" where
  "valid_weave_Metadata message \<longleftrightarrow> pred_option is_uint32 (md_schema message)"

lemma decodes_weave_Metadata:
  assumes P: "proto_laws P" and "valid_weave_Metadata m"
  shows "decodes (decode_weave_Metadata P) (encode_weave_Metadata P m) (norm_weave_IMetadata m)"
proof -
  have "writes P (field_weave_Metadata P) (encode_weave_Metadata P m) new_weave_Metadata
      (set_field md_schema_update (norm_number (md_schema m)) new_weave_Metadata)"
    unfolding encode_weave_Metadata_def
    by (rule writes_chain
        | rule writes_uint32 [OF P]
        | (simp add: field_weave_Metadata_def new_weave_Metadata_def set_field_def elements_def is_uint32_def assms(2) [unfolded valid_weave_Metadata_def]; fail))+
  then show ?thesis
    unfolding decode_weave_Metadata_def by (intro decodes_message) (simp add: set_field_def new_weave_Metadata_def norm_weave_IMetadata_def)
qed

section \<open>cash.SendMsg\<close>

definition new_cash_SendMsg :: cash_ISendMsg where
  "new_cash_SendMsg = \<lparr>sm_metadata = None, sm_source = Some [], sm_destination = Some [], sm_amount = None, sm_memo = Some [], sm_ref = Some []\<rparr>"

definition encode_cash_SendMsg :: "proto_lib \<Rightarrow> cash_ISendMsg \<Rightarrow> byte list" where
  "encode_cash_SendMsg P message =
     put P 10 (\<lambda>v. ldelim P (encode_weave_Metadata P v)) (sm_metadata message) @
     put P 18 (pw_bytes P) (sm_source message) @
     put P 26 (pw_bytes P) (sm_destination message) @
     put P 34 (\<lambda>v. ldelim P (encode_coin_Coin P v)) (sm_amount message) @
     put P 42 (pw_string P) (sm_memo message) @
     put P 50 (pw_bytes P) (sm_ref message)"

definition field_cash_SendMsg :: "proto_lib \<Rightarrow> cash_ISendMsg \<Rightarrow> int \<Rightarrow> byte list \<Rightarrow> (cash_ISendMsg \<times> byte list) result" where
  "field_cash_SendMsg P message tag bs =
     (if tag div 8 = 1 then get (\<lambda>v. message\<lparr>sm_metadata := Some v\<rparr>) (get_message P (decode_weave_Metadata P) bs)
      else if tag div 8 = 2 then get (\<lambda>v. message\<lparr>sm_source := Some v\<rparr>) (pr_bytes P bs)
      else if tag div 8 = 3 then get (\<lambda>v. message\<lparr>sm_destination := Some v\<rparr>) (pr_bytes P bs)
      else if tag div 8 = 4 then get (\<lambda>v. message\<lparr>sm_amount := Some v\<rparr>) (get_message P (decode_coin_Coin P) bs)
      else if tag div 8 = 5 then get (\<lambda>v. message\<lparr>sm_memo := Some v\<rparr>) (pr_string P bs)
      else if tag div 8 = 6 then get (\<lambda>v. message\<lparr>sm_ref := Some v\<rparr>) (pr_bytes P bs)
      else skip P tag message bs)"

definition decode_cash_SendMsg :: "proto_lib \<Rightarrow> byte list \<Rightarrow> int \<Rightarrow> (cash_ISendMsg \<times> byte list) result" where
  "decode_cash_SendMsg P = read_message P (field_cash_SendMsg P) new_cash_SendMsg"

definition valid_cash_SendMsg :: "cash_ISendMsg \<Rightarrow> bool" where
  "valid_cash_SendMsg message \<longleftrightarrow> pred_option valid_weave_Metadata (sm_metadata message) \<and>
     pred_option valid_coin_Coin (sm_amount message)"

lemma decodes_cash_SendMsg:
  assumes P: "proto_laws P" and "valid_cash_SendMsg m"
  shows "decodes (decode_cash_SendMsg P) (encode_cash_SendMsg P m) (norm_cash_ISendMsg m)"
proof -
  have "writes P (field_cash_SendMsg P) (encode_cash_SendMsg P m) new_cash_SendMsg
      (set_field sm_ref_update (norm_bytes (sm_ref m)) (set_field sm_memo_update (norm_string (sm_memo m)) (set_field sm_amount_update (map_option norm_coin_ICoin (sm_amount m)) (set_field sm_destination_update (norm_bytes (sm_destination m)) (set_field sm_source_update (norm_bytes (sm_source m)) (set_field sm_metadata_update (map_option norm_weave_IMetadata (sm_metadata m)) new_cash_SendMsg))))))"
    unfolding encode_cash_SendMsg_def
    by (rule writes_chain
        | rule writes_message [where valid = valid_weave_Metadata, OF P _ _ decodes_weave_Metadata [OF P]]
        | rule writes_bytes [OF P]
        | rule writes_message [where valid = valid_coin_Coin, OF P _ _ decodes_coin_Coin [OF P]]
        | rule writes_string [OF P]
        | (simp add: field_cash_SendMsg_def new_cash_SendMsg_def set_field_def elements_def is_uint32_def assms(2) [unfolded valid_cash_SendMsg_def]; fail))+
  then show ?thesis
    unfolding decode_cash_SendMsg_def by (intro decodes_message) (simp add: set_field_def new_cash_SendMsg_def norm_cash_ISendMsg_def)
qed

section \<open>escrow.CreateMsg\<close>

definition new_escrow_CreateMsg :: escrow_ICreateMsg where
  "new_escrow_CreateMsg = \<lparr>ec_metadata = None, ec_source = Some [], ec_arbiter = Some [], ec_destination = Some [], ec_amount = Some [], ec_timeout = Some (Long 0), ec_memo = Some []\<rparr>"

definition encode_escrow_CreateMsg :: "proto_lib \<Rightarrow> escrow_ICreateMsg \<Rightarrow> byte list" where
  "encode_escrow_CreateMsg P message =
     put P 10 (\<lambda>v. ldelim P (encode_weave_Metadata P v)) (ec_metadata message) @
     put P 18 (pw_bytes P) (ec_source message) @
     put P 26 (pw_bytes P) (ec_arbiter message) @
     put P 34 (pw_bytes P) (ec_destination message) @
     put_each P 42 (\<lambda>v. ldelim P (encode_coin_Coin P v)) (ec_amount message) @
     put P 48 (pw_int64 P) (ec_timeout message) @
     put P 58 (pw_string P) (ec_memo message)"

definition field_escrow_CreateMsg :: "proto_lib \<Rightarrow> escrow_ICreateMsg \<Rightarrow> int \<Rightarrow> byte list \<Rightarrow> (escrow_ICreateMsg \<times> byte list) result" where
  "field_escrow_CreateMsg P message tag bs =
     (if tag div 8 = 1 then get (\<lambda>v. message\<lparr>ec_metadata := Some v\<rparr>) (get_message P (decode_weave_Metadata P) bs)
      else if tag div 8 = 2 then get (\<lambda>v. message\<lparr>ec_source := Some v\<rparr>) (pr_bytes P bs)
      else if tag div 8 = 3 then get (\<lambda>v. message\<lparr>ec_arbiter := Some v\<rparr>) (pr_bytes P bs)
      else if tag div 8 = 4 then get (\<lambda>v. message\<lparr>ec_destination := Some v\<rparr>) (pr_bytes P bs)
      else if tag div 8 = 5 then get (\<lambda>v. message\<lparr>ec_amount := Some (elements (ec_amount message) @ [v])\<rparr>) (get_message P (decode_coin_Coin P) bs)
      else if tag div 8 = 6 then get (\<lambda>v. message\<lparr>ec_timeout := Some (Long v)\<rparr>) (pr_int64 P bs)
      else if tag div 8 = 7 then get (\<lambda>v. message\<lparr>ec_memo := Some v\<rparr>) (pr_string P bs)
      else skip P tag message bs)"

definition decode_escrow_CreateMsg :: "proto_lib \<Rightarrow> byte list \<Rightarrow> int \<Rightarrow> (escrow_ICreateMsg \<times> byte list) result" where
  "decode_escrow_CreateMsg P = read_message P (field_escrow_CreateMsg P) new_escrow_CreateMsg"

definition valid_escrow_CreateMsg :: "escrow_ICreateMsg \<Rightarrow> bool" where
  "valid_escrow_CreateMsg message \<longleftrightarrow> pred_option valid_weave_Metadata (ec_metadata message) \<and>
     pred_option (list_all valid_coin_Coin) (ec_amount message) \<and>
     pred_option is_int64 (ec_timeout message)"

lemma decodes_escrow_CreateMsg:
  assumes P: "proto_laws P" and "valid_escrow_CreateMsg m"
  shows "decodes (decode_escrow_CreateMsg P) (encode_escrow_CreateMsg P m) (norm_escrow_ICreateMsg m)"
proof -
  have "writes P (field_escrow_CreateMsg P) (encode_escrow_CreateMsg P m) new_escrow_CreateMsg
      (set_field ec_memo_update (norm_string (ec_memo m)) (set_field ec_timeout_update (norm_int64 (ec_timeout m)) (set_field ec_amount_update (norm_repeated norm_coin_ICoin (ec_amount m)) (set_field ec_destination_update (norm_bytes (ec_destination m)) (set_field ec_arbiter_update (norm_bytes (ec_arbiter m)) (set_field ec_source_update (norm_bytes (ec_source m)) (set_field ec_metadata_update (map_option norm_weave_IMetadata (ec_metadata m)) new_escrow_CreateMsg)))))))"
    unfolding encode_escrow_CreateMsg_def
    by (rule writes_chain
        | rule writes_message [where valid = valid_weave_Metadata, OF P _ _ decodes_weave_Metadata [OF P]]
        | rule writes_bytes [OF P]
        | rule writes_messages [where valid = valid_coin_Coin, OF P _ _ decodes_coin_Coin [OF P]]
        | rule writes_int64 [OF P]
        | rule writes_string [OF P]
        | (simp add: field_escrow_CreateMsg_def new_escrow_CreateMsg_def set_field_def elements_def is_uint32_def assms(2) [unfolded valid_escrow_CreateMsg_def]; fail))+
  then show ?thesis
    unfolding decode_escrow_CreateMsg_def by (intro decodes_message) (simp add: set_field_def new_escrow_CreateMsg_def norm_escrow_ICreateMsg_def)
qed

section \<open>escrow.ReleaseMsg\<close>

definition new_escrow_ReleaseMsg :: escrow_IReleaseMsg where
  "new_escrow_ReleaseMsg = \<lparr>er_metadata = None, er_escrowId = Some [], er_amount = Some []\<rparr>"

definition encode_escrow_ReleaseMsg :: "proto_lib \<Rightarrow> escrow_IReleaseMsg \<Rightarrow> byte list" where
  "encode_escrow_ReleaseMsg P message =
     put P 10 (\<lambda>v. ldelim P (encode_weave_Metadata P v)) (er_metadata message) @
     put P 18 (pw_bytes P) (er_escrowId message) @
     put_each P 26 (\<lambda>v. ldelim P (encode_coin_Coin P v)) (er_amount message)"

definition field_escrow_ReleaseMsg :: "proto_lib \<Rightarrow> escrow_IReleaseMsg \<Rightarrow> int \<Rightarrow> byte list \<Rightarrow> (escrow_IReleaseMsg \<times> byte list) result" where
  "field_escrow_ReleaseMsg P message tag bs =
     (if tag div 8 = 1 then get (\<lambda>v. message\<lparr>er_metadata := Some v\<rparr>) (get_message P (decode_weave_Metadata P) bs)
      else if tag div 8 = 2 then get (\<lambda>v. message\<lparr>er_escrowId := Some v\<rparr>) (pr_bytes P bs)
      else if tag div 8 = 3 then get (\<lambda>v. message\<lparr>er_amount := Some (elements (er_amount message) @ [v])\<rparr>) (get_message P (decode_coin_Coin P) bs)
      else skip P tag message bs)"

definition decode_escrow_ReleaseMsg :: "proto_lib \<Rightarrow> byte list \<Rightarrow> int \<Rightarrow> (escrow_IReleaseMsg \<times> byte list) result" where
  "decode_escrow_ReleaseMsg P = read_message P (field_escrow_ReleaseMsg P) new_escrow_ReleaseMsg"

definition valid_escrow_ReleaseMsg :: "escrow_IReleaseMsg \<Rightarrow> bool" where
  "valid_escrow_ReleaseMsg message \<longleftrightarrow> pred_option valid_weave_Metadata (er_metadata message) \<and>
     pred_option (list_all valid_coin_Coin) (er_amount message)"

lemma decodes_escrow_ReleaseMsg:
  assumes P: "proto_laws P" and "valid_escrow_ReleaseMsg m"
  shows "decodes (decode_escrow_ReleaseMsg P) (encode_escrow_ReleaseMsg P m) (norm_escrow_IReleaseMsg m)"
proof -
  have "writes P (field_escrow_ReleaseMsg P) (encode_escrow_ReleaseMsg P m) new_escrow_ReleaseMsg
      (set_field er_amount_update (norm_repeated norm_coin_ICoin (er_amount m)) (set_field er_escrowId_update (norm_bytes (er_escrowId m)) (set_field er_metadata_update (map_option norm_weave_IMetadata (er_metadata m)) new_escrow_ReleaseMsg)))"
    unfolding encode_escrow_ReleaseMsg_def
    by (rule writes_chain
        | rule writes_message [where valid = valid_weave_Metadata, OF P _ _ decodes_weave_Metadata [OF P]]
        | rule writes_bytes [OF P]
        | rule writes_messages [where valid = valid_coin_Coin, OF P _ _ decodes_coin_Coin [OF P]]
        | (simp add: field_escrow_ReleaseMsg_def new_escrow_ReleaseMsg_def set_field_def elements_def is_uint32_def assms(2) [unfolded valid_escrow_ReleaseMsg_def]; fail))+
  then show ?thesis
    unfolding decode_escrow_ReleaseMsg_def by (intro decodes_message) (simp add: set_field_def new_escrow_ReleaseMsg_def norm_escrow_IReleaseMsg_def)
qed

section \<open>escrow.ReturnMsg\<close>

definition new_escrow_ReturnMsg :: escrow_IReturnMsg where
  "new_escrow_ReturnMsg = \<lparr>et_metadata = None, et_escrowId = Some []\<rparr>"

definition encode_escrow_ReturnMsg :: "proto_lib \<Rightarrow> escrow_IReturnMsg \<Rightarrow> byte list" where
  "encode_escrow_ReturnMsg P message =
     put P 10 (\<lambda>v. ldelim P (encode_weave_Metadata P v)) (et_metadata message) @
     put P 18 (pw_bytes P) (et_escrowId message)"

definition field_escrow_ReturnMsg :: "proto_lib \<Rightarrow> escrow_IReturnMsg \<Rightarrow> int \<Rightarrow> byte list \<Rightarrow> (escrow_IReturnMsg \<times> byte list) result" where
  "field_escrow_ReturnMsg P message tag bs =
     (if tag div 8 = 1 then get (\<lambda>v. message\<lparr>et_metadata := Some v\<rparr>) (get_message P (decode_weave_Metadata P) bs)
      else if tag div 8 = 2 then get (\<lambda>v. message\<lparr>et_escrowId := Some v\<rparr>) (pr_bytes P bs)
      else skip P tag message bs)"

definition decode_escrow_ReturnMsg :: "proto_lib \<Rightarrow> byte list \<Rightarrow> int \<Rightarrow> (escrow_IReturnMsg \<times> byte list) result" where
  "decode_escrow_ReturnMsg P = read_message P (field_escrow_ReturnMsg P) new_escrow_ReturnMsg"

definition valid_escrow_ReturnMsg :: "escrow_IReturnMsg \<Rightarrow> bool" where
  "valid_escrow_ReturnMsg message \<longleftrightarrow> pred_option valid_weave_Metadata (et_metadata message)"

lemma decodes_escrow_ReturnMsg:
  assumes P: "proto_laws P" and "valid_escrow_ReturnMsg m"
  shows "decodes (decode_escrow_ReturnMsg P) (encode_escrow_ReturnMsg P m) (norm_escrow_IReturnMsg m)"
proof -
  have "writes P (field_escrow_ReturnMsg P) (encode_escrow_ReturnMsg P m) new_escrow_ReturnMsg
      (set_field et_escrowId_update (norm_bytes (et_escrowId m)) (set_field et_metadata_update (map_option norm_weave_IMetadata (et_metadata m)) new_escrow_ReturnMsg))"
    unfolding encode_escrow_ReturnMsg_def
    by (rule writes_chain
        | rule writes_message [where valid = valid_weave_Metadata, OF P _ _ decodes_weave_Metadata [OF P]]
        | rule writes_bytes [OF P]
        | (simp add: field_escrow_ReturnMsg_def new_escrow_ReturnMsg_def set_field_def elements_def is_uint32_def assms(2) [unfolded valid_escrow_ReturnMsg_def]; fail))+
  then show ?thesis
    unfolding decode_escrow_ReturnMsg_def by (intro decodes_message) (simp add: set_field_def new_escrow_ReturnMsg_def norm_escrow_IReturnMsg_def)
qed

section \<open>escrow.UpdatePartiesMsg\<close>

definition new_escrow_UpdatePartiesMsg :: escrow_IUpdatePartiesMsg where
  "new_escrow_UpdatePartiesMsg = \<lparr>eu_metadata = None, eu_escrowId = Some [], eu_source = Some [], eu_arbiter = Some [], eu_destination = Some []\<rparr>"

definition encode_escrow_UpdatePartiesMsg :: "proto_lib \<Rightarrow> escrow_IUpdatePartiesMsg \<Rightarrow> byte list" where
  "encode_escrow_UpdatePartiesMsg P message =
     put P 10 (\<lambda>v. ldelim P (encode_weave_Metadata P v)) (eu_metadata message) @
     put P 18 (pw_bytes P) (eu_escrowId message) @
     put P 26 (pw_bytes P) (eu_source message) @
     put P 34 (pw_bytes P) (eu_arbiter message) @
     put P 42 (pw_bytes P) (eu_destination message)"

definition field_escrow_UpdatePartiesMsg :: "proto_lib \<Rightarrow> escrow_IUpdatePartiesMsg \<Rightarrow> int \<Rightarrow> byte list \<Rightarrow> (escrow_IUpdatePartiesMsg \<times> byte list) result" where
  "field_escrow_UpdatePartiesMsg P message tag bs =
     (if tag div 8 = 1 then get (\<lambda>v. message\<lparr>eu_metadata := Some v\<rparr>) (get_message P (decode_weave_Metadata P) bs)
      else if tag div 8 = 2 then get (\<lambda>v. message\<lparr>eu_escrowId := Some v\<rparr>) (pr_bytes P bs)
      else if tag div 8 = 3 then get (\<lambda>v. message\<lparr>eu_source := Some v\<rparr>) (pr_bytes P bs)
      else if tag div 8 = 4 then get (\<lambda>v. message\<lparr>eu_arbiter := Some v\<rparr>) (pr_bytes P bs)
      else if tag div 8 = 5 then get (\<lambda>v. message\<lparr>eu_destination := Some v\<rparr>) (pr_bytes P bs)
      else skip P tag message bs)"

definition decode_escrow_UpdatePartiesMsg :: "proto_lib \<Rightarrow> byte list \<Rightarrow> int \<Rightarrow> (escrow_IUpdatePartiesMsg \<times> byte list) result" where
  "decode_escrow_UpdatePartiesMsg P = read_message P (field_escrow_UpdatePartiesMsg P) new_escrow_UpdatePartiesMsg"

definition valid_escrow_UpdatePartiesMsg :: "escrow_IUpdatePartiesMsg \<Rightarrow> bool" where
  "valid_escrow_UpdatePartiesMsg message \<longleftrightarrow> pred_option valid_weave_Metadata (eu_metadata message)"

lemma decodes_escrow_UpdatePartiesMsg:
  assumes P: "proto_laws P" and "valid_escrow_UpdatePartiesMsg m"
  shows "decodes (decode_escrow_UpdatePartiesMsg P) (encode_escrow_UpdatePartiesMsg P m) (norm_escrow_IUpdatePartiesMsg m)"
proof -
  have "writes P (field_escrow_UpdatePartiesMsg P) (encode_escrow_UpdatePartiesMsg P m) new_escrow_UpdatePartiesMsg
      (set_field eu_destination_update (norm_bytes (eu_destination m)) (set_field eu_arbiter_update (norm_bytes (eu_arbiter m)) (set_field eu_source_update (norm_bytes (eu_source m)) (set_field eu_escrowId_update (norm_bytes (eu_escrowId m)) (set_field eu_metadata_update (map_option norm_weave_IMetadata (eu_metadata m)) new_escrow_UpdatePartiesMsg)))))"
    unfolding encode_escrow_UpdatePartiesMsg_def
    by (rule writes_chain
        | rule writes_message [where valid = valid_weave_Metadata, OF P _ _ decodes_weave_Metadata [OF P]]
        | rule writes_bytes [OF P]
        | (simp add: field_escrow_UpdatePartiesMsg_def new_escrow_UpdatePartiesMsg_def set_field_def elements_def is_uint32_def assms(2) [unfolded valid_escrow_UpdatePartiesMsg_def]; fail))+
  then show ?thesis
    unfolding decode_escrow_UpdatePartiesMsg_def by (intro decodes_message) (simp add: set_field_def new_escrow_UpdatePartiesMsg_def norm_escrow_IUpdatePartiesMsg_def)
qed

section \<open>multisig.Participant\<close>

definition new_multisig_Participant :: multisig_IParticipant where
  "new_multisig_Participant = \<lparr>mp_signature = Some [], mp_weight = Some (int_num 0)\<rparr>"

definition encode_multisig_Participant :: "proto_lib \<Rightarrow> multisig_IParticipant \<Rightarrow> byte list" where
  "encode_multisig_Participant P message =
     put P 10 (pw_bytes P) (mp_signature message) @
     put P 16 (pw_uint32 P) (mp_weight message)"

definition field_multisig_Participant :: "proto_lib \<Rightarrow> multisig_IParticipant \<Rightarrow> int \<Rightarrow> byte list \<Rightarrow> (multisig_IParticipant \<times> byte list) result" where
  "field_multisig_Participant P message tag bs =
     (if tag div 8 = 1 then get (\<lambda>v. message\<lparr>mp_signature := Some v\<rparr>) (pr_bytes P bs)
      else if tag div 8 = 2 then get (\<lambda>v. message\<lparr>mp_weight := Some (int_num v)\<rparr>) (pr_uint32 P bs)
      else skip P tag message bs)"

definition decode_multisig_Participant :: "proto_lib \<Rightarrow> byte list \<Rightarrow> int \<Rightarrow> (multisig_IParticipant \<times> byte list) result" where
  "decode_multisig_Participant P = read_message P (field_multisig_Participant P) new_multisig_Participant"

definition valid_multisig_Participant :: "multisig_IParticipant \<Rightarrow> bool" where
  "valid_multisig_Participant message \<longleftrightarrow> pred_option is_uint32 (mp_weight message)"

lemma decodes_multisig_Participant:
  assumes P: "proto_laws P" and "valid_multisig_Participant m"
  shows "decodes (decode_multisig_Participant P) (encode_multisig_Participant P m) (norm_multisig_IParticipant m)"
proof -
  have "writes P (field_multisig_Participant P) (encode_multisig_Participant P m) new_multisig_Participant
      (set_field mp_weight_update (norm_number (mp_weight m)) (set_field mp_signature_update (norm_bytes (mp_signature m)) new_multisig_Participant))"
    unfolding encode_multisig_Participant_def
    by (rule writes_chain
        | rule writes_bytes [OF P]
        | rule writes_uint32 [OF P]
        | (simp add: field_multisig_Participant_def new_multisig_Participant_def set_field_def elements_def is_uint32_def assms(2) [unfolded valid_multisig_Participant_def]; fail))+
  then show ?thesis
    unfolding decode_multisig_Participant_def by (intro decodes_message) (simp add: set_field_def new_multisig_Participant_def norm_multisig_IParticipant_def)
qed

section \<open>multisig.CreateMsg\<close>

definition new_multisig_CreateMsg :: multisig_ICreateMsg where
  "new_multisig_CreateMsg = \<lparr>mc_metadata = None, mc_participants = Some [], mc_activationThreshold = Some (int_num 0), mc_adminThreshold = Some (int_num 0)\<rparr>"

definition encode_multisig_CreateMsg :: "proto_lib \<Rightarrow> multisig_ICreateMsg \<Rightarrow> byte list" where
  "encode_multisig_CreateMsg P message =
     put P 10 (\<lambda>v. ldelim P (encode_weave_Metadata P v)) (mc_metadata message) @
     put_each P 18 (\<lambda>v. ldelim P (encode_multisig_Participant P v)) (mc_participants message) @
     put P 24 (pw_uint32 P) (mc_activationThreshold message) @
     put P 32 (pw_uint32 P) (mc_adminThreshold message)"

definition field_multisig_CreateMsg :: "proto_lib \<Rightarrow> multisig_ICreateMsg \<Rightarrow> int \<Rightarrow> byte list \<Rightarrow> (multisig_ICreateMsg \<times> byte list) result" where
  "field_multisig_CreateMsg P message tag bs =
     (if tag div 8 = 1 then get (\<lambda>v. message\<lparr>mc_metadata := Some v\<rparr>) (get_message P (decode_weave_Metadata P) bs)
      else if tag div 8 = 2 then get (\<lambda>v. message\<lparr>mc_participants := Some (elements (mc_participants message) @ [v])\<rparr>) (get_message P (decode_multisig_Participant P) bs)
      else if tag div 8 = 3 then get (\<lambda>v. message\<lparr>mc_activationThreshold := Some (int_num v)\<rparr>) (pr_uint32 P bs)
      else if tag div 8 = 4 then get (\<lambda>v. message\<lparr>mc_adminThreshold := Some (int_num v)\<rparr>) (pr_uint32 P bs)
      else skip P tag message bs)"

definition decode_multisig_CreateMsg :: "proto_lib \<Rightarrow> byte list \<Rightarrow> int \<Rightarrow> (multisig_ICreateMsg \<times> byte list) result" where
  "decode_multisig_CreateMsg P = read_message P (field_multisig_CreateMsg P) new_multisig_CreateMsg"

definition valid_multisig_CreateMsg :: "multisig_ICreateMsg \<Rightarrow> bool" where
  "valid_multisig_CreateMsg message \<longleftrightarrow> pred_option valid_weave_Metadata (mc_metadata message) \<and>
     pred_option (list_all valid_multisig_Participant) (mc_participants message) \<and>
     pred_option is_uint32 (mc_activationThreshold message) \<and>
     pred_option is_uint32 (mc_adminThreshold message)"

lemma decodes_multisig_CreateMsg:
  assumes P: "proto_laws P" and "valid_multisig_CreateMsg m"
  shows "decodes (decode_multisig_CreateMsg P) (encode_multisig_CreateMsg P m) (norm_multisig_ICreateMsg m)"
proof -
  have "writes P (field_multisig_CreateMsg P) (encode_multisig_CreateMsg P m) new_multisig_CreateMsg
      (set_field mc_adminThreshold_update (norm_number (mc_adminThreshold m)) (set_field mc_activationThreshold_update (norm_number (mc_activationThreshold m)) (set_field mc_participants_update (norm_repeated norm_multisig_IParticipant (mc_participants m)) (set_field mc_metadata_update (map_option norm_weave_IMetadata (mc_metadata m)) new_multisig_CreateMsg))))"
    unfolding encode_multisig_CreateMsg_def
    by (rule writes_chain
        | rule writes_message [where valid = valid_weave_Metadata, OF P _ _ decodes_weave_Metadata [OF P]]
        | rule writes_messages [where valid = valid_multisig_Participant, OF P _ _ decodes_multisig_Participant [OF P]]
        | rule writes_uint32 [OF P]
        | (simp add: field_multisig_CreateMsg_def new_multisig_CreateMsg_def set_field_def elements_def is_uint32_def assms(2) [unfolded valid_multisig_CreateMsg_def]; fail))+
  then show ?thesis
    unfolding decode_multisig_CreateMsg_def by (intro decodes_message) (simp add: set_field_def new_multisig_CreateMsg_def norm_multisig_ICreateMsg_def)
qed

section \<open>multisig.UpdateMsg\<close>

definition new_multisig_UpdateMsg :: multisig_IUpdateMsg where
  "new_multisig_UpdateMsg = \<lparr>mu_metadata = None, mu_contractId = Some [], mu_participants = Some [], mu_activationThreshold = Some (int_num 0), mu_adminThreshold = Some (int_num 0)\<rparr>"

definition encode_multisig_UpdateMsg :: "proto_lib \<Rightarrow> multisig_IUpdateMsg \<Rightarrow> byte list" where
  "encode_multisig_UpdateMsg P message =
     put P 10 (\<lambda>v. ldelim P (encode_weave_Metadata P v)) (mu_metadata message) @
     put P 18 (pw_bytes P) (mu_contractId message) @
     put_each P 26 (\<lambda>v. ldelim P (encode_multisig_Participant P v)) (mu_participants message) @
     put P 32 (pw_uint32 P) (mu_activationThreshold message) @
     put P 40 (pw_uint32 P) (mu_adminThreshold message)"

definition field_multisig_UpdateMsg :: "proto_lib \<Rightarrow> multisig_IUpdateMsg \<Rightarrow> int \<Rightarrow> byte list \<Rightarrow> (multisig_IUpdateMsg \<times> byte list) result" where
  "field_multisig_UpdateMsg P message tag bs =
     (if tag div 8 = 1 then get (\<lambda>v. message\<lparr>mu_metadata := Some v\<rparr>) (get_message P (decode_weave_Metadata P) bs)
      else if tag div 8 = 2 then get (\<lambda>v. message\<lparr>mu_contractId := Some v\<rparr>) (pr_bytes P bs)
      else if tag div 8 = 3 then get (\<lambda>v. message\<lparr>mu_participants := Some (elements (mu_participants message) @ [v])\<rparr>) (get_message P (decode_multisig_Participant P) bs)
      else if tag div 8 = 4 then get (\<lambda>v. message\<lparr>mu_activationThreshold := Some (int_num v)\<rparr>) (pr_uint32 P bs)
      else if tag div 8 = 5 then get (\<lambda>v. message\<lparr>mu_adminThreshold := Some (int_num v)\<rparr>) (pr_uint32 P bs)
      else skip P tag message bs)"

definition decode_multisig_UpdateMsg :: "proto_lib \<Rightarrow> byte list \<Rightarrow> int \<Rightarrow> (multisig_IUpdateMsg \<times> byte list) result" where
  "decode_multisig_UpdateMsg P = read_message P (field_multisig_UpdateMsg P) new_multisig_UpdateMsg"

definition valid_multisig_UpdateMsg :: "multisig_IUpdateMsg \<Rightarrow> bool" where
  "valid_multisig_UpdateMsg message \<longleftrightarrow> pred_option valid_weave_Metadata (mu_metadata message) \<and>
     pred_option (list_all valid_multisig_Participant) (mu_participants message) \<and>
     pred_option is_uint32 (mu_activationThreshold message) \<and>
     pred_option is_uint32 (mu_adminThreshold message)"

lemma decodes_multisig_UpdateMsg:
  assumes P: "proto_laws P" and "valid_multisig_UpdateMsg m"
  shows "decodes (decode_multisig_UpdateMsg P) (encode_multisig_UpdateMsg P m) (norm_multisig_IUpdateMsg m)"
proof -
  have "writes P (field_multisig_UpdateMsg P) (encode_multisig_UpdateMsg P m) new_multisig_UpdateMsg
      (set_field mu_adminThreshold_update (norm_number (mu_adminThreshold m)) (set_field mu_activationThreshold_update (norm_number (mu_activationThreshold m)) (set_field mu_participants_update (norm_repeated norm_multisig_IParticipant (mu_participants m)) (set_field mu_contractId_update (norm_bytes (mu_contractId m)) (set_field mu_metadata_update (map_option norm_weave_IMetadata (mu_metadata m)) new_multisig_UpdateMsg)))))"
    unfolding encode_multisig_UpdateMsg_def
    by (rule writes_chain
        | rule writes_message [where valid = valid_weave_Metadata, OF P _ _ decodes_weave_Metadata [OF P]]
        | rule writes_bytes [OF P]
        | rule writes_messages [where valid = valid_multisig_Participant, OF P _ _ decodes_multisig_Participant [OF P]]
        | rule writes_uint32 [OF P]
        | (simp add: field_multisig_UpdateMsg_def new_multisig_UpdateMsg_def set_field_def elements_def is_uint32_def assms(2) [unfolded valid_multisig_UpdateMsg_def]; fail))+
  then show ?thesis
    unfolding decode_multisig_UpdateMsg_def by (intro decodes_message) (simp add: set_field_def new_multisig_UpdateMsg_def norm_multisig_IUpdateMsg_def)
qed

section \<open>weave.PubKey\<close>

definition new_weave_PubKey :: weave_IPubKey where
  "new_weave_PubKey = \<lparr>vk_type = Some [], vk_data = Some []\<rparr>"

definition encode_weave_PubKey :: "proto_lib \<Rightarrow> weave_IPubKey \<Rightarrow> byte list" where
  "encode_weave_PubKey P message =
     put P 10 (pw_string P) (vk_type message) @
     put P 18 (pw_bytes P) (vk_data message)"

definition field_weave_PubKey :: "proto_lib \<Rightarrow> weave_IPubKey \<Rightarrow> int \<Rightarrow> byte list \<Rightarrow> (weave_IPubKey \<times> byte list) result" where
  "field_weave_PubKey P message tag bs =
     (if tag div 8 = 1 then get (\<lambda>v. message\<lparr>vk_type := Some v\<rparr>) (pr_string P bs)
      else if tag div 8 = 2 then get (\<lambda>v. message\<lparr>vk_data := Some v\<rparr>) (pr_bytes P bs)
      else skip P tag message bs)"

definition decode_weave_PubKey :: "proto_lib \<Rightarrow> byte list \<Rightarrow> int \<Rightarrow> (weave_IPubKey \<times> byte list) result" where
  "decode_weave_PubKey P = read_message P (field_weave_PubKey P) new_weave_PubKey"

lemma decodes_weave_PubKey:
  assumes P: "proto_laws P"
  shows "decodes (decode_weave_PubKey P) (encode_weave_PubKey P m) (norm_weave_IPubKey m)"
proof -
  have "writes P (field_weave_PubKey P) (encode_weave_PubKey P m) new_weave_PubKey
      (set_field vk_data_update (norm_bytes (vk_data m)) (set_field vk_type_update (norm_string (vk_type m)) new_weave_PubKey))"
    unfolding encode_weave_PubKey_def
    by (rule writes_chain
        | rule writes_string [OF P]
        | rule writes_bytes [OF P]
        | (simp add: field_weave_PubKey_def new_weave_PubKey_def set_field_def elements_def is_uint32_def; fail))+
  then show ?thesis
    unfolding decode_weave_PubKey_def by (intro decodes_message) (simp add: set_field_def new_weave_PubKey_def norm_weave_IPubKey_def)
qed

section \<open>weave.ValidatorUpdate\<close>

definition new_weave_ValidatorUpdate :: weave_IValidatorUpdate where
  "new_weave_ValidatorUpdate = \<lparr>vu_pubKey = None, vu_power = Some (Long 0)\<rparr>"

definition encode_weave_ValidatorUpdate :: "proto_lib \<Rightarrow> weave_IValidatorUpdate \<Rightarrow> byte list" where
  "encode_weave_ValidatorUpdate P message =
     put P 10 (\<lambda>v. ldelim P (encode_weave_PubKey P v)) (vu_pubKey message) @
     put P 16 (pw_int64 P) (vu_power message)"

definition field_weave_ValidatorUpdate :: "proto_lib \<Rightarrow> weave_IValidatorUpdate \<Rightarrow> int \<Rightarrow> byte list \<Rightarrow> (weave_IValidatorUpdate \<times> byte list) result" where
  "field_weave_ValidatorUpdate P message tag bs =
     (if tag div 8 = 1 then get (\<lambda>v. message\<lparr>vu_pubKey := Some v\<rparr>) (get_message P (decode_weave_PubKey P) bs)
      else if tag div 8 = 2 then get (\<lambda>v. message\<lparr>vu_power := Some (Long v)\<rparr>) (pr_int64 P bs)
      else skip P tag message bs)"

definition decode_weave_ValidatorUpdate :: "proto_lib \<Rightarrow> byte list \<Rightarrow> int \<Rightarrow> (weave_IValidatorUpdate \<times> byte list) result" where
  "decode_weave_ValidatorUpdate P = read_message P (field_weave_ValidatorUpdate P) new_weave_ValidatorUpdate"

definition valid_weave_ValidatorUpdate :: "weave_IValidatorUpdate \<Rightarrow> bool" where
  "valid_weave_ValidatorUpdate message \<longleftrightarrow> pred_option is_int64 (vu_power message)"

lemma decodes_weave_ValidatorUpdate:
  assumes P: "proto_laws P" and "valid_weave_ValidatorUpdate m"
  shows "decodes (decode_weave_ValidatorUpdate P) (encode_weave_ValidatorUpdate P m) (norm_weave_IValidatorUpdate m)"
proof -
  have "writes P (field_weave_ValidatorUpdate P) (encode_weave_ValidatorUpdate P m) new_weave_ValidatorUpdate
      (set_field vu_power_update (norm_int64 (vu_power m)) (set_field vu_pubKey_update (map_option norm_weave_IPubKey (vu_pubKey m)) new_weave_ValidatorUpdate))"
    unfolding encode_weave_ValidatorUpdate_def
    by (rule writes_chain
        | rule writes_message [OF P _ true_opt decodes_weave_PubKey [OF P]]
        | rule writes_int64 [OF P]
        | (simp add: field_weave_ValidatorUpdate_def new_weave_ValidatorUpdate_def set_field_def elements_def is_uint32_def assms(2) [unfolded valid_weave_ValidatorUpdate_def]; fail))+
  then show ?thesis
    unfolding decode_weave_ValidatorUpdate_def by (intro decodes_message) (simp add: set_field_def new_weave_ValidatorUpdate_def norm_weave_IValidatorUpdate_def)
qed

section \<open>username.BlockchainAddress\<close>

definition new_username_BlockchainAddress :: username_IBlockchainAddress where
  "new_username_BlockchainAddress = \<lparr>ub_blockchainId = Some [], ub_address = Some []\<rparr>"

definition encode_username_BlockchainAddress :: "proto_lib \<Rightarrow> username_IBlockchainAddress \<Rightarrow> byte list" where
  "encode_username_BlockchainAddress P message =
     put P 10 (pw_string P) (ub_blockchainId message) @
     put P 18 (pw_string P) (ub_address message)"

definition field_username_BlockchainAddress :: "proto_lib \<Rightarrow> username_IBlockchainAddress \<Rightarrow> int \<Rightarrow> byte list \<Rightarrow> (username_IBlockchainAddress \<times> byte list) result" where
  "field_username_BlockchainAddress P message tag bs =
     (if tag div 8 = 1 then get (\<lambda>v. message\<lparr>ub_blockchainId := Some v\<rparr>) (pr_string P bs)
      else if tag div 8 = 2 then get (\<lambda>v. message\<lparr>ub_address := Some v\<rparr>) (pr_string P bs)
      else skip P tag message bs)"

definition decode_username_BlockchainAddress :: "proto_lib \<Rightarrow> byte list \<Rightarrow> int \<Rightarrow> (username_IBlockchainAddress \<times> byte list) result" where
  "decode_username_BlockchainAddress P = read_message P (field_username_BlockchainAddress P) new_username_BlockchainAddress"

lemma decodes_username_BlockchainAddress:
  assumes P: "proto_laws P"
  shows "decodes (decode_username_BlockchainAddress P) (encode_username_BlockchainAddress P m) (norm_username_IBlockchainAddress m)"
proof -
  have "writes P (field_username_BlockchainAddress P) (encode_username_BlockchainAddress P m) new_username_BlockchainAddress
      (set_field ub_address_update (norm_string (ub_address m)) (set_field ub_blockchainId_update (norm_string (ub_blockchainId m)) new_username_BlockchainAddress))"
    unfolding encode_username_BlockchainAddress_def
    by (rule writes_chain
        | rule writes_string [OF P]
        | (simp add: field_username_BlockchainAddress_def new_username_BlockchainAddress_def set_field_def elements_def is_uint32_def; fail))+
  then show ?thesis
    unfolding decode_username_BlockchainAddress_def by (intro decodes_message) (simp add: set_field_def new_username_BlockchainAddress_def norm_username_IBlockchainAddress_def)
qed

section \<open>username.RegisterTokenMsg\<close>

definition new_username_RegisterTokenMsg :: username_IRegisterTokenMsg where
  "new_username_RegisterTokenMsg = \<lparr>ur_metadata = None, ur_username = Some [], ur_targets = Some []\<rparr>"

definition encode_username_RegisterTokenMsg :: "proto_lib \<Rightarrow> username_IRegisterTokenMsg \<Rightarrow> byte list" where
  "encode_username_RegisterTokenMsg P message =
     put P 10 (\<lambda>v. ldelim P (encode_weave_Metadata P v)) (ur_metadata message) @
     put P 18 (pw_string P) (ur_username message) @
     put_each P 26 (\<lambda>v. ldelim P (encode_username_BlockchainAddress P v)) (ur_targets message)"

definition field_username_RegisterTokenMsg :: "proto_lib \<Rightarrow> username_IRegisterTokenMsg \<Rightarrow> int \<Rightarrow> byte list \<Rightarrow> (username_IRegisterTokenMsg \<times> byte list) result" where
  "field_username_RegisterTokenMsg P message tag bs =
     (if tag div 8 = 1 then get (\<lambda>v. message\<lparr>ur_metadata := Some v\<rparr>) (get_message P (decode_weave_Metadata P) bs)
      else if tag div 8 = 2 then get (\<lambda>v. message\<lparr>ur_username := Some v\<rparr>) (pr_string P bs)
      else if tag div 8 = 3 then get (\<lambda>v. message\<lparr>ur_targets := Some (elements (ur_targets message) @ [v])\<rparr>) (get_message P (decode_username_BlockchainAddress P) bs)
      else skip P tag message bs)"

definition decode_username_RegisterTokenMsg :: "proto_lib \<Rightarrow> byte list \<Rightarrow> int \<Rightarrow> (username_IRegisterTokenMsg \<times> byte list) result" where
  "decode_username_RegisterTokenMsg P = read_message P (field_username_RegisterTokenMsg P) new_username_RegisterTokenMsg"

definition valid_username_RegisterTokenMsg :: "username_IRegisterTokenMsg \<Rightarrow> bool" where
  "valid_username_RegisterTokenMsg message \<longleftrightarrow> pred_option valid_weave_Metadata (ur_metadata message)"

lemma decodes_username_RegisterTokenMsg:
  assumes P: "proto_laws P" and "valid_username_RegisterTokenMsg m"
  shows "decodes (decode_username_RegisterTokenMsg P) (encode_username_RegisterTokenMsg P m) (norm_username_IRegisterTokenMsg m)"
proof -
  have "writes P (field_username_RegisterTokenMsg P) (encode_username_RegisterTokenMsg P m) new_username_RegisterTokenMsg
      (set_field ur_targets_update (norm_repeated norm_username_IBlockchainAddress (ur_targets m)) (set_field ur_username_update (norm_string (ur_username m)) (set_field ur_metadata_update (map_option norm_weave_IMetadata (ur_metadata m)) new_username_RegisterTokenMsg)))"
    unfolding encode_username_RegisterTokenMsg_def
    by (rule writes_chain
        | rule writes_message [where valid = valid_weave_Metadata, OF P _ _ decodes_weave_Metadata [OF P]]
        | rule writes_string [OF P]
        | rule writes_messages [OF P _ true_each decodes_username_BlockchainAddress [OF P]]
        | (simp add: field_username_RegisterTokenMsg_def new_username_RegisterTokenMsg_def set_field_def elements_def is_uint32_def assms(2) [unfolded valid_username_RegisterTokenMsg_def]; fail))+
  then show ?thesis
    unfolding decode_username_RegisterTokenMsg_def by (intro decodes_message) (simp add: set_field_def new_username_RegisterTokenMsg_def norm_username_IRegisterTokenMsg_def)
qed

section \<open>username.TransferTokenMsg\<close>

definition new_username_TransferTokenMsg :: username_ITransferTokenMsg where
  "new_username_TransferTokenMsg = \<lparr>ut_metadata = None, ut_username = Some [], ut_newOwner = Some []\<rparr>"

definition encode_username_TransferTokenMsg :: "proto_lib \<Rightarrow> username_ITransferTokenMsg \<Rightarrow> byte list" where
  "encode_username_TransferTokenMsg P message =
     put P 10 (\<lambda>v. ldelim P (encode_weave_Metadata P v)) (ut_metadata message) @
     put P 18 (pw_string P) (ut_username message) @
     put P 26 (pw_bytes P) (ut_newOwner message)"

definition field_username_TransferTokenMsg :: "proto_lib \<Rightarrow> username_ITransferTokenMsg \<Rightarrow> int \<Rightarrow> byte list \<Rightarrow> (username_ITransferTokenMsg \<times> byte list) result" where
  "field_username_TransferTokenMsg P message tag bs =
     (if tag div 8 = 1 then get (\<lambda>v. message\<lparr>ut_metadata := Some v\<rparr>) (get_message P (decode_weave_Metadata P) bs)
      else if tag div 8 = 2 then get (\<lambda>v. message\<lparr>ut_username := Some v\<rparr>) (pr_string P bs)
      else if tag div 8 = 3 then get (\<lambda>v. message\<lparr>ut_newOwner := Some v\<rparr>) (pr_bytes P bs)
      else skip P tag message bs)"

definition decode_username_TransferTokenMsg :: "proto_lib \<Rightarrow> byte list \<Rightarrow> int \<Rightarrow> (username_ITransferTokenMsg \<times> byte list) result" where
  "decode_username_TransferTokenMsg P = read_message P (field_username_TransferTokenMsg P) new_username_TransferTokenMsg"

definition valid_username_TransferTokenMsg :: "username_ITransferTokenMsg \<Rightarrow> bool" where
  "valid_username_TransferTokenMsg message \<longleftrightarrow> pred_option valid_weave_Metadata (ut_metadata message)"

lemma decodes_username_TransferTokenMsg:
  assumes P: "proto_laws P" and "valid_username_TransferTokenMsg m"
  shows "decodes (decode_username_TransferTokenMsg P) (encode_username_TransferTokenMsg P m) (norm_username_ITransferTokenMsg m)"
proof -
  have "writes P (field_username_TransferTokenMsg P) (encode_username_TransferTokenMsg P m) new_username_TransferTokenMsg
      (set_field ut_newOwner_update (norm_bytes (ut_newOwner m)) (set_field ut_username_update (norm_string (ut_username m)) (set_field ut_metadata_update (map_option norm_weave_IMetadata (ut_metadata m)) new_username_TransferTokenMsg)))"
    unfolding encode_username_TransferTokenMsg_def
    by (rule writes_chain
        | rule writes_message [where valid = valid_weave_Metadata, OF P _ _ decodes_weave_Metadata [OF P]]
        | rule writes_string [OF P]
        | rule writes_bytes [OF P]
        | (simp add: field_username_TransferTokenMsg_def new_username_TransferTokenMsg_def set_field_def elements_def is_uint32_def assms(2) [unfolded valid_username_TransferTokenMsg_def]; fail))+
  then show ?thesis
    unfolding decode_username_TransferTokenMsg_def by (intro decodes_message) (simp add: set_field_def new_username_TransferTokenMsg_def norm_username_ITransferTokenMsg_def)
qed

section \<open>username.ChangeTokenTargetsMsg\<close>

definition new_username_ChangeTokenTargetsMsg :: username_IChangeTokenTargetsMsg where
  "new_username_ChangeTokenTargetsMsg = \<lparr>uc_metadata = None, uc_username = Some [], uc_newTargets = Some []\<rparr>"

definition encode_username_ChangeTokenTargetsMsg :: "proto_lib \<Rightarrow> username_IChangeTokenTargetsMsg \<Rightarrow> byte list" where
  "encode_username_ChangeTokenTargetsMsg P message =
     put P 10 (\<lambda>v. ldelim P (encode_weave_Metadata P v)) (uc_metadata message) @
     put P 18 (pw_string P) (uc_username message) @
     put_each P 26 (\<lambda>v. ldelim P (encode_username_BlockchainAddress P v)) (uc_newTargets message)"

definition field_username_ChangeTokenTargetsMsg :: "proto_lib \<Rightarrow> username_IChangeTokenTargetsMsg \<Rightarrow> int \<Rightarrow> byte list \<Rightarrow> (username_IChangeTokenTargetsMsg \<times> byte list) result" where
  "field_username_ChangeTokenTargetsMsg P message tag bs =
     (if tag div 8 = 1 then get (\<lambda>v. message\<lparr>uc_metadata := Some v\<rparr>) (get_message P (decode_weave_Metadata P) bs)
      else if tag div 8 = 2 then get (\<lambda>v. message\<lparr>uc_username := Some v\<rparr>) (pr_string P bs)
      else if tag div 8 = 3 then get (\<lambda>v. message\<lparr>uc_newTargets := Some (elements (uc_newTargets message) @ [v])\<rparr>) (get_message P (decode_username_BlockchainAddress P) bs)
      else skip P tag message bs)"

definition decode_username_ChangeTokenTargetsMsg :: "proto_lib \<Rightarrow> byte list \<Rightarrow> int \<Rightarrow> (username_IChangeTokenTargetsMsg \<times> byte list) result" where
  "decode_username_ChangeTokenTargetsMsg P = read_message P (field_username_ChangeTokenTargetsMsg P) new_username_ChangeTokenTargetsMsg"

definition valid_username_ChangeTokenTargetsMsg :: "username_IChangeTokenTargetsMsg \<Rightarrow> bool" where
  "valid_username_ChangeTokenTargetsMsg message \<longleftrightarrow> pred_option valid_weave_Metadata (uc_metadata message)"

lemma decodes_username_ChangeTokenTargetsMsg:
  assumes P: "proto_laws P" and "valid_username_ChangeTokenTargetsMsg m"
  shows "decodes (decode_username_ChangeTokenTargetsMsg P) (encode_username_ChangeTokenTargetsMsg P m) (norm_username_IChangeTokenTargetsMsg m)"
proof -
  have "writes P (field_username_ChangeTokenTargetsMsg P) (encode_username_ChangeTokenTargetsMsg P m) new_username_ChangeTokenTargetsMsg
      (set_field uc_newTargets_update (norm_repeated norm_username_IBlockchainAddress (uc_newTargets m)) (set_field uc_username_update (norm_string (uc_username m)) (set_field uc_metadata_update (map_option norm_weave_IMetadata (uc_metadata m)) new_username_ChangeTokenTargetsMsg)))"
    unfolding encode_username_ChangeTokenTargetsMsg_def
    by (rule writes_chain
        | rule writes_message [where valid = valid_weave_Metadata, OF P _ _ decodes_weave_Metadata [OF P]]
        | rule writes_string [OF P]
        | rule writes_messages [OF P _ true_each decodes_username_BlockchainAddress [OF P]]
        | (simp add: field_username_ChangeTokenTargetsMsg_def new_username_ChangeTokenTargetsMsg_def set_field_def elements_def is_uint32_def assms(2) [unfolded valid_username_ChangeTokenTargetsMsg_def]; fail))+
  then show ?thesis
    unfolding decode_username_ChangeTokenTargetsMsg_def by (intro decodes_message) (simp add: set_field_def new_username_ChangeTokenTargetsMsg_def norm_username_IChangeTokenTargetsMsg_def)
qed

section \<open>cash.Configuration\<close>

definition new_cash_Configuration :: cash_IConfiguration where
  "new_cash_Configuration = \<lparr>csc_metadata = None, csc_owner = Some [], csc_collectorAddress = Some [], csc_minimalFee = None\<rparr>"

definition encode_cash_Configuration :: "proto_lib \<Rightarrow> cash_IConfiguration \<Rightarrow> byte list" where
  "encode_cash_Configuration P message =
     put P 10 (\<lambda>v. ldelim P (encode_weave_Metadata P v)) (csc_metadata message) @
     put P 18 (pw_bytes P) (csc_owner message) @
     put P 26 (pw_bytes P) (csc_collectorAddress message) @
     put P 34 (\<lambda>v. ldelim P (encode_coin_Coin P v)) (csc_minimalFee message)"

definition field_cash_Configuration :: "proto_lib \<Rightarrow> cash_IConfiguration \<Rightarrow> int \<Rightarrow> byte list \<Rightarrow> (cash_IConfiguration \<times> byte list) result" where
  "field_cash_Configuration P message tag bs =
     (if tag div 8 = 1 then get (\<lambda>v. message\<lparr>csc_metadata := Some v\<rparr>) (get_message P (decode_weave_Metadata P) bs)
      else if tag div 8 = 2 then get (\<lambda>v. message\<lparr>csc_owner := Some v\<rparr>) (pr_bytes P bs)
      else if tag div 8 = 3 then get (\<lambda>v. message\<lparr>csc_collectorAddress := Some v\<rparr>) (pr_bytes P bs)
      else if tag div 8 = 4 then get (\<lambda>v. message\<lparr>csc_minimalFee := Some v\<rparr>) (get_message P (decode_coin_Coin P) bs)
      else skip P tag message bs)"

definition decode_cash_Configuration :: "proto_lib \<Rightarrow> byte list \<Rightarrow> int \<Rightarrow> (cash_IConfiguration \<times> byte list) result" where
  "decode_cash_Configuration P = read_message P (field_cash_Configuration P) new_cash_Configuration"

definition valid_cash_Configuration :: "cash_IConfiguration \<Rightarrow> bool" where
  "valid_cash_Configuration message \<longleftrightarrow> pred_option valid_weave_Metadata (csc_metadata message) \<and>
     pred_option valid_coin_Coin (csc_minimalFee message)"

lemma decodes_cash_Configuration:
  assumes P: "proto_laws P" and "valid_cash_Configuration m"
  shows "decodes (decode_cash_Configuration P) (encode_cash_Configuration P m) (norm_cash_IConfiguration m)"
proof -
  have "writes P (field_cash_Configuration P) (encode_cash_Configuration P m) new_cash_Configuration
      (set_field csc_minimalFee_update (map_option norm_coin_ICoin (csc_minimalFee m)) (set_field csc_collectorAddress_update (norm_bytes (csc_collectorAddress m)) (set_field csc_owner_update (norm_bytes (csc_owner m)) (set_field csc_metadata_update (map_option norm_weave_IMetadata (csc_metadata m)) new_cash_Configuration))))"
    unfolding encode_cash_Configuration_def
    by (rule writes_chain
        | rule writes_message [where valid = valid_weave_Metadata, OF P _ _ decodes_weave_Metadata [OF P]]
        | rule writes_bytes [OF P]
        | rule writes_message [where valid = valid_coin_Coin, OF P _ _ decodes_coin_Coin [OF P]]
        | (simp add: field_cash_Configuration_def new_cash_Configuration_def set_field_def elements_def is_uint32_def assms(2) [unfolded valid_cash_Configuration_def]; fail))+
  then show ?thesis
    unfolding decode_cash_Configuration_def by (intro decodes_message) (simp add: set_field_def new_cash_Configuration_def norm_cash_IConfiguration_def)
qed

section \<open>cash.UpdateConfigurationMsg\<close>

definition new_cash_UpdateConfigurationMsg :: cash_IUpdateConfigurationMsg where
  "new_cash_UpdateConfigurationMsg = \<lparr>csu_metadata = None, csu_patch = None\<rparr>"

definition encode_cash_UpdateConfigurationMsg :: "proto_lib \<Rightarrow> cash_IUpdateConfigurationMsg \<Rightarrow> byte list" where
  "encode_cash_UpdateConfigurationMsg P message =
     put P 10 (\<lambda>v. ldelim P (encode_weave_Metadata P v)) (csu_metadata message) @
     put P 18 (\<lambda>v. ldelim P (encode_cash_Configuration P v)) (csu_patch message)"

definition field_cash_UpdateConfigurationMsg :: "proto_lib \<Rightarrow> cash_IUpdateConfigurationMsg \<Rightarrow> int \<Rightarrow> byte list \<Rightarrow> (cash_IUpdateConfigurationMsg \<times> byte list) result" where
  "field_cash_UpdateConfigurationMsg P message tag bs =
     (if tag div 8 = 1 then get (\<lambda>v. message\<lparr>csu_metadata := Some v\<rparr>) (get_message P (decode_weave_Metadata P) bs)
      else if tag div 8 = 2 then get (\<lambda>v. message\<lparr>csu_patch := Some v\<rparr>) (get_message P (decode_cash_Configuration P) bs)
      else skip P tag message bs)"

definition decode_cash_UpdateConfigurationMsg :: "proto_lib \<Rightarrow> byte list \<Rightarrow> int \<Rightarrow> (cash_IUpdateConfigurationMsg \<times> byte list) result" where
  "decode_cash_UpdateConfigurationMsg P = read_message P (field_cash_UpdateConfigurationMsg P) new_cash_UpdateConfigurationMsg"

definition valid_cash_UpdateConfigurationMsg :: "cash_IUpdateConfigurationMsg \<Rightarrow> bool" where
  "valid_cash_UpdateConfigurationMsg message \<longleftrightarrow> pred_option valid_weave_Metadata (csu_metadata message) \<and>
     pred_option valid_cash_Configuration (csu_patch message)"

lemma decodes_cash_UpdateConfigurationMsg:
  assumes P: "proto_laws P" and "valid_cash_UpdateConfigurationMsg m"
  shows "decodes (decode_cash_UpdateConfigurationMsg P) (encode_cash_UpdateConfigurationMsg P m) (norm_cash_IUpdateConfigurationMsg m)"
proof -
  have "writes P (field_cash_UpdateConfigurationMsg P) (encode_cash_UpdateConfigurationMsg P m) new_cash_UpdateConfigurationMsg
      (set_field csu_patch_update (map_option norm_cash_IConfiguration (csu_patch m)) (set_field csu_metadata_update (map_option norm_weave_IMetadata (csu_metadata m)) new_cash_UpdateConfigurationMsg))"
    unfolding encode_cash_UpdateConfigurationMsg_def
    by (rule writes_chain
        | rule writes_message [where valid = valid_weave_Metadata, OF P _ _ decodes_weave_Metadata [OF P]]
        | rule writes_message [where valid = valid_cash_Configuration, OF P _ _ decodes_cash_Configuration [OF P]]
        | (simp add: field_cash_UpdateConfigurationMsg_def new_cash_UpdateConfigurationMsg_def set_field_def elements_def is_uint32_def assms(2) [unfolded valid_cash_UpdateConfigurationMsg_def]; fail))+
  then show ?thesis
    unfolding decode_cash_UpdateConfigurationMsg_def by (intro decodes_message) (simp add: set_field_def new_cash_UpdateConfigurationMsg_def norm_cash_IUpdateConfigurationMsg_def)
qed

section \<open>weave.Fraction\<close>

definition new_weave_Fraction :: IFraction where
  "new_weave_Fraction = \<lparr>fr_numerator = Some (int_num 0), fr_denominator = Some (int_num 0)\<rparr>"

definition encode_weave_Fraction :: "proto_lib \<Rightarrow> IFraction \<Rightarrow> byte list" where
  "encode_weave_Fraction P message =
     put P 8 (pw_uint32 P) (fr_numerator message) @
     put P 16 (pw_uint32 P) (fr_denominator message)"

definition field_weave_Fraction :: "proto_lib \<Rightarrow> IFraction \<Rightarrow> int \<Rightarrow> byte list \<Rightarrow> (IFraction \<times> byte list) result" where
  "field_weave_Fraction P message tag bs =
     (if tag div 8 = 1 then get (\<lambda>v. message\<lparr>fr_numerator := Some (int_num v)\<rparr>) (pr_uint32 P bs)
      else if tag div 8 = 2 then get (\<lambda>v. message\<lparr>fr_denominator := Some (int_num v)\<rparr>) (pr_uint32 P bs)
      else skip P tag message bs)"

definition decode_weave_Fraction :: "proto_lib \<Rightarrow> byte list \<Rightarrow> int \<Rightarrow> (IFraction \<times> byte list) result" where
  "decode_weave_Fraction P = read_message P (field_weave_Fraction P) new_weave_Fraction"

definition valid_weave_Fraction :: "IFraction \<Rightarrow> bool" where
  "valid_weave_Fraction message \<longleftrightarrow> pred_option is_uint32 (fr_numerator message) \<and>
     pred_option is_uint32 (fr_denominator message)"

lemma decodes_weave_Fraction:
  assumes P: "proto_laws P" and "valid_weave_Fraction m"
  shows "decodes (decode_weave_Fraction P) (encode_weave_Fraction P m) (norm_IFraction m)"
proof -
  have "writes P (field_weave_Fraction P) (encode_weave_Fraction P m) new_weave_Fraction
      (set_field fr_denominator_update (norm_number (fr_denominator m)) (set_field fr_numerator_update (norm_number (fr_numerator m)) new_weave_Fraction))"
    unfolding encode_weave_Fraction_def
    by (rule writes_chain
        | rule writes_uint32 [OF P]
        | (simp add: field_weave_Fraction_def new_weave_Fraction_def set_field_def elements_def is_uint32_def assms(2) [unfolded valid_weave_Fraction_def]; fail))+
  then show ?thesis
    unfolding decode_weave_Fraction_def by (intro decodes_message) (simp add: set_field_def new_weave_Fraction_def norm_IFraction_def)
qed

section \<open>aswap.CreateMsg\<close>

definition new_aswap_CreateMsg :: aswap_ICreateMsg where
  "new_aswap_CreateMsg = \<lparr>ac_metadata = None, ac_source = Some [], ac_preimageHash = Some [], ac_destination = Some [], ac_amount = Some [], ac_timeout = Some (Long 0), ac_memo = Some []\<rparr>"

definition encode_aswap_CreateMsg :: "proto_lib \<Rightarrow> aswap_ICreateMsg \<Rightarrow> byte list" where
  "encode_aswap_CreateMsg P message =
     put P 10 (\<lambda>v. ldelim P (encode_weave_Metadata P v)) (ac_metadata message) @
     put P 18 (pw_bytes P) (ac_source message) @
     put P 26 (pw_bytes P) (ac_preimageHash message) @
     put P 34 (pw_bytes P) (ac_destination message) @
     put_each P 42 (\<lambda>v. ldelim P (encode_coin_Coin P v)) (ac_amount message) @
     put P 48 (pw_int64 P) (ac_timeout message) @
     put P 58 (pw_string P) (ac_memo message)"

definition field_aswap_CreateMsg :: "proto_lib \<Rightarrow> aswap_ICreateMsg \<Rightarrow> int \<Rightarrow> byte list \<Rightarrow> (aswap_ICreateMsg \<times> byte list) result" where
  "field_aswap_CreateMsg P message tag bs =
     (if tag div 8 = 1 then get (\<lambda>v. message\<lparr>ac_metadata := Some v\<rparr>) (get_message P (decode_weave_Metadata P) bs)
      else if tag div 8 = 2 then get (\<lambda>v. message\<lparr>ac_source := Some v\<rparr>) (pr_bytes P bs)
      else if tag div 8 = 3 then get (\<lambda>v. message\<lparr>ac_preimageHash := Some v\<rparr>) (pr_bytes P bs)
      else if tag div 8 = 4 then get (\<lambda>v. message\<lparr>ac_destination := Some v\<rparr>) (pr_bytes P bs)
      else if tag div 8 = 5 then get (\<lambda>v. message\<lparr>ac_amount := Some (elements (ac_amount message) @ [v])\<rparr>) (get_message P (decode_coin_Coin P) bs)
      else if tag div 8 = 6 then get (\<lambda>v. message\<lparr>ac_timeout := Some (Long v)\<rparr>) (pr_int64 P bs)
      else if tag div 8 = 7 then get (\<lambda>v. message\<lparr>ac_memo := Some v\<rparr>) (pr_string P bs)
      else skip P tag message bs)"

definition decode_aswap_CreateMsg :: "proto_lib \<Rightarrow> byte list \<Rightarrow> int \<Rightarrow> (aswap_ICreateMsg \<times> byte list) result" where
  "decode_aswap_CreateMsg P = read_message P (field_aswap_CreateMsg P) new_aswap_CreateMsg"

definition valid_aswap_CreateMsg :: "aswap_ICreateMsg \<Rightarrow> bool" where
  "valid_aswap_CreateMsg message \<longleftrightarrow> pred_option valid_weave_Metadata (ac_metadata message) \<and>
     pred_option (list_all valid_coin_Coin) (ac_amount message) \<and>
     pred_option is_int64 (ac_timeout message)"

lemma decodes_aswap_CreateMsg:
  assumes P: "proto_laws P" and "valid_aswap_CreateMsg m"
  shows "decodes (decode_aswap_CreateMsg P) (encode_aswap_CreateMsg P m) (norm_aswap_ICreateMsg m)"
proof -
  have "writes P (field_aswap_CreateMsg P) (encode_aswap_CreateMsg P m) new_aswap_CreateMsg
      (set_field ac_memo_update (norm_string (ac_memo m)) (set_field ac_timeout_update (norm_int64 (ac_timeout m)) (set_field ac_amount_update (norm_repeated norm_coin_ICoin (ac_amount m)) (set_field ac_destination_update (norm_bytes (ac_destination m)) (set_field ac_preimageHash_update (norm_bytes (ac_preimageHash m)) (set_field ac_source_update (norm_bytes (ac_source m)) (set_field ac_metadata_update (map_option norm_weave_IMetadata (ac_metadata m)) new_aswap_CreateMsg)))))))"
    unfolding encode_aswap_CreateMsg_def
    by (rule writes_chain
        | rule writes_message [where valid = valid_weave_Metadata, OF P _ _ decodes_weave_Metadata [OF P]]
        | rule writes_bytes [OF P]
        | rule writes_messages [where valid = valid_coin_Coin, OF P _ _ decodes_coin_Coin [OF P]]
        | rule writes_int64 [OF P]
        | rule writes_string [OF P]
        | (simp add: field_aswap_CreateMsg_def new_aswap_CreateMsg_def set_field_def elements_def is_uint32_def assms(2) [unfolded valid_aswap_CreateMsg_def]; fail))+
  then show ?thesis
    unfolding decode_aswap_CreateMsg_def by (intro decodes_message) (simp add: set_field_def new_aswap_CreateMsg_def norm_aswap_ICreateMsg_def)
qed

section \<open>aswap.ReleaseMsg\<close>

definition new_aswap_ReleaseMsg :: aswap_IReleaseMsg where
  "new_aswap_ReleaseMsg = \<lparr>ar_metadata = None, ar_swapId = Some [], ar_preimage = Some []\<rparr>"

definition encode_aswap_ReleaseMsg :: "proto_lib \<Rightarrow> aswap_IReleaseMsg \<Rightarrow> byte list" where
  "encode_aswap_ReleaseMsg P message =
     put P 10 (\<lambda>v. ldelim P (encode_weave_Metadata P v)) (ar_metadata message) @
     put P 18 (pw_bytes P) (ar_swapId message) @
     put P 26 (pw_bytes P) (ar_preimage message)"

definition field_aswap_ReleaseMsg :: "proto_lib \<Rightarrow> aswap_IReleaseMsg \<Rightarrow> int \<Rightarrow> byte list \<Rightarrow> (aswap_IReleaseMsg \<times> byte list) result" where
  "field_aswap_ReleaseMsg P message tag bs =
     (if tag div 8 = 1 then get (\<lambda>v. message\<lparr>ar_metadata := Some v\<rparr>) (get_message P (decode_weave_Metadata P) bs)
      else if tag div 8 = 2 then get (\<lambda>v. message\<lparr>ar_swapId := Some v\<rparr>) (pr_bytes P bs)
      else if tag div 8 = 3 then get (\<lambda>v. message\<lparr>ar_preimage := Some v\<rparr>) (pr_bytes P bs)
      else skip P tag message bs)"

definition decode_aswap_ReleaseMsg :: "proto_lib \<Rightarrow> byte list \<Rightarrow> int \<Rightarrow> (aswap_IReleaseMsg \<times> byte list) result" where
  "decode_aswap_ReleaseMsg P = read_message P (field_aswap_ReleaseMsg P) new_aswap_ReleaseMsg"

definition valid_aswap_ReleaseMsg :: "aswap_IReleaseMsg \<Rightarrow> bool" where
  "valid_aswap_ReleaseMsg message \<longleftrightarrow> pred_option valid_weave_Metadata (ar_metadata message)"

lemma decodes_aswap_ReleaseMsg:
  assumes P: "proto_laws P" and "valid_aswap_ReleaseMsg m"
  shows "decodes (decode_aswap_ReleaseMsg P) (encode_aswap_ReleaseMsg P m) (norm_aswap_IReleaseMsg m)"
proof -
  have "writes P (field_aswap_ReleaseMsg P) (encode_aswap_ReleaseMsg P m) new_aswap_ReleaseMsg
      (set_field ar_preimage_update (norm_bytes (ar_preimage m)) (set_field ar_swapId_update (norm_bytes (ar_swapId m)) (set_field ar_metadata_update (map_option norm_weave_IMetadata (ar_metadata m)) new_aswap_ReleaseMsg)))"
    unfolding encode_aswap_ReleaseMsg_def
    by (rule writes_chain
        | rule writes_message [where valid = valid_weave_Metadata, OF P _ _ decodes_weave_Metadata [OF P]]
        | rule writes_bytes [OF P]
        | (simp add: field_aswap_ReleaseMsg_def new_aswap_ReleaseMsg_def set_field_def elements_def is_uint32_def assms(2) [unfolded valid_aswap_ReleaseMsg_def]; fail))+
  then show ?thesis
    unfolding decode_aswap_ReleaseMsg_def by (intro decodes_message) (simp add: set_field_def new_aswap_ReleaseMsg_def norm_aswap_IReleaseMsg_def)
qed

section \<open>aswap.ReturnMsg\<close>

definition new_aswap_ReturnMsg :: aswap_IReturnMsg where
  "new_aswap_ReturnMsg = \<lparr>at_metadata = None, at_swapId = Some []\<rparr>"

definition encode_aswap_ReturnMsg :: "proto_lib \<Rightarrow> aswap_IReturnMsg \<Rightarrow> byte list" where
  "encode_aswap_ReturnMsg P message =
     put P 10 (\<lambda>v. ldelim P (encode_weave_Metadata P v)) (at_metadata message) @
     put P 18 (pw_bytes P) (at_swapId message)"

definition field_aswap_ReturnMsg :: "proto_lib \<Rightarrow> aswap_IReturnMsg \<Rightarrow> int \<Rightarrow> byte list \<Rightarrow> (aswap_IReturnMsg \<times> byte list) result" where
  "field_aswap_ReturnMsg P message tag bs =
     (if tag div 8 = 1 then get (\<lambda>v. message\<lparr>at_metadata := Some v\<rparr>) (get_message P (decode_weave_Metadata P) bs)
      else if tag div 8 = 2 then get (\<lambda>v. message\<lparr>at_swapId := Some v\<rparr>) (pr_bytes P bs)
      else skip P tag message bs)"

definition decode_aswap_ReturnMsg :: "proto_lib \<Rightarrow> byte list \<Rightarrow> int \<Rightarrow> (aswap_IReturnMsg \<times> byte list) result" where
  "decode_aswap_ReturnMsg P = read_message P (field_aswap_ReturnMsg P) new_aswap_ReturnMsg"

definition valid_aswap_ReturnMsg :: "aswap_IReturnMsg \<Rightarrow> bool" where
  "valid_aswap_ReturnMsg message \<longleftrightarrow> pred_option valid_weave_Metadata (at_metadata message)"

lemma decodes_aswap_ReturnMsg:
  assumes P: "proto_laws P" and "valid_aswap_ReturnMsg m"
  shows "decodes (decode_aswap_ReturnMsg P) (encode_aswap_ReturnMsg P m) (norm_aswap_IReturnMsg m)"
proof -
  have "writes P (field_aswap_ReturnMsg P) (encode_aswap_ReturnMsg P m) new_aswap_ReturnMsg
      (set_field at_swapId_update (norm_bytes (at_swapId m)) (set_field at_metadata_update (map_option norm_weave_IMetadata (at_metadata m)) new_aswap_ReturnMsg))"
    unfolding encode_aswap_ReturnMsg_def
    by (rule writes_chain
        | rule writes_message [where valid = valid_weave_Metadata, OF P _ _ decodes_weave_Metadata [OF P]]
        | rule writes_bytes [OF P]
        | (simp add: field_aswap_ReturnMsg_def new_aswap_ReturnMsg_def set_field_def elements_def is_uint32_def assms(2) [unfolded valid_aswap_ReturnMsg_def]; fail))+
  then show ?thesis
    unfolding decode_aswap_ReturnMsg_def by (intro decodes_message) (simp add: set_field_def new_aswap_ReturnMsg_def norm_aswap_IReturnMsg_def)
qed

section \<open>gov.Fraction\<close>

definition new_gov_Fraction :: IFraction where
  "new_gov_Fraction = \<lparr>fr_numerator = Some (int_num 0), fr_denominator = Some (int_num 0)\<rparr>"

definition encode_gov_Fraction :: "proto_lib \<Rightarrow> IFraction \<Rightarrow> byte list" where
  "encode_gov_Fraction P message =
     put P 8 (pw_uint32 P) (fr_numerator message) @
     put P 16 (pw_uint32 P) (fr_denominator message)"

definition field_gov_Fraction :: "proto_lib \<Rightarrow> IFraction \<Rightarrow> int \<Rightarrow> byte list \<Rightarrow> (IFraction \<times> byte list) result" where
  "field_gov_Fraction P message tag bs =
     (if tag div 8 = 1 then get (\<lambda>v. message\<lparr>fr_numerator := Some (int_num v)\<rparr>) (pr_uint32 P bs)
      else if tag div 8 = 2 then get (\<lambda>v. message\<lparr>fr_denominator := Some (int_num v)\<rparr>) (pr_uint32 P bs)
      else skip P tag message bs)"

definition decode_gov_Fraction :: "proto_lib \<Rightarrow> byte list \<Rightarrow> int \<Rightarrow> (IFraction \<times> byte list) result" where
  "decode_gov_Fraction P = read_message P (field_gov_Fraction P) new_gov_Fraction"

definition valid_gov_Fraction :: "IFraction \<Rightarrow> bool" where
  "valid_gov_Fraction message \<longleftrightarrow> pred_option is_uint32 (fr_numerator message) \<and>
     pred_option is_uint32 (fr_denominator message)"

lemma decodes_gov_Fraction:
  assumes P: "proto_laws P" and "valid_gov_Fraction m"
  shows "decodes (decode_gov_Fraction P) (encode_gov_Fraction P m) (norm_IFraction m)"
proof -
  have "writes P (field_gov_Fraction P) (encode_gov_Fraction P m) new_gov_Fraction
      (set_field fr_denominator_update (norm_number (fr_denominator m)) (set_field fr_numerator_update (norm_number (fr_numerator m)) new_gov_Fraction))"
    unfolding encode_gov_Fraction_def
    by (rule writes_chain
        | rule writes_uint32 [OF P]
        | (simp add: field_gov_Fraction_def new_gov_Fraction_def set_field_def elements_def is_uint32_def assms(2) [unfolded valid_gov_Fraction_def]; fail))+
  then show ?thesis
    unfolding decode_gov_Fraction_def by (intro decodes_message) (simp add: set_field_def new_gov_Fraction_def norm_IFraction_def)
qed

section \<open>crypto.PrivateKey\<close>

definition new_crypto_PrivateKey :: crypto_IPrivateKey where
  "new_crypto_PrivateKey = \<lparr>priv_ed25519 = Some []\<rparr>"

definition encode_crypto_PrivateKey :: "proto_lib \<Rightarrow> crypto_IPrivateKey \<Rightarrow> byte list" where
  "encode_crypto_PrivateKey P message =
     put P 10 (pw_bytes P) (priv_ed25519 message)"

definition field_crypto_PrivateKey :: "proto_lib \<Rightarrow> crypto_IPrivateKey \<Rightarrow> int \<Rightarrow> byte list \<Rightarrow> (crypto_IPrivateKey \<times> byte list) result" where
  "field_crypto_PrivateKey P message tag bs =
     (if tag div 8 = 1 then get (\<lambda>v. message\<lparr>priv_ed25519 := Some v\<rparr>) (pr_bytes P bs)
      else skip P tag message bs)"

definition decode_crypto_PrivateKey :: "proto_lib \<Rightarrow> byte list \<Rightarrow> int \<Rightarrow> (crypto_IPrivateKey \<times> byte list) result" where
  "decode_crypto_PrivateKey P = read_message P (field_crypto_PrivateKey P) new_crypto_PrivateKey"

lemma decodes_crypto_PrivateKey:
  assumes P: "proto_laws P"
  shows "decodes (decode_crypto_PrivateKey P) (encode_crypto_PrivateKey P m) (norm_crypto_IPrivateKey m)"
proof -
  have "writes P (field_crypto_PrivateKey P) (encode_crypto_PrivateKey P m) new_crypto_PrivateKey
      (set_field priv_ed25519_update (norm_bytes (priv_ed25519 m)) new_crypto_PrivateKey)"
    unfolding encode_crypto_PrivateKey_def
    by (rule writes_chain
        | rule writes_bytes [OF P]
        | (simp add: field_crypto_PrivateKey_def new_crypto_PrivateKey_def set_field_def elements_def is_uint32_def; fail))+
  then show ?thesis
    unfolding decode_crypto_PrivateKey_def by (intro decodes_message) (simp add: set_field_def new_crypto_PrivateKey_def norm_crypto_IPrivateKey_def)
qed

end
