(* ===== verification/Pb_Account.thy ===== *)
theory Pb_Account
  imports Pb_Basic
begin

text \<open>
  The classes of the namespace account, of
  \<open>packages/iov-bns/src/generated/codecimpl.js\<close>: for each the object that
  \<open>new\<close> makes, \<open>encode\<close>, the switch of \<open>decode\<close> and
  \<open>decode\<close>. The lemma of a class shows that a message with integers in range
  is read back from what was written.
\<close>

section \<open>account.Configuration\<close>

definition new_account_Configuration :: account_IConfiguration where
  "new_account_Configuration = \<lparr>acf_metadata = None, acf_owner = Some [], acf_validDomain = Some [], acf_validName = Some [], acf_validBlockchainId = Some [], acf_validBlockchainAddress = Some [], acf_domainRenew = Some (Long 0), acf_domainGracePeriod = Some (Long 0)\<rparr>"

definition encode_account_Configuration :: "proto_lib \<Rightarrow> account_IConfiguration \<Rightarrow> byte list" where
  "encode_account_Configuration P message =
     put P 10 (\<lambda>v. ldelim P (encode_weave_Metadata P v)) (acf_metadata message) @
     put P 18 (pw_bytes P) (acf_owner message) @
     put P 26 (pw_string P) (acf_validDomain message) @
     put P 34 (pw_string P) (acf_validName message) @
     put P 42 (pw_string P) (acf_validBlockchainId message) @
     put P 50 (pw_string P) (acf_validBlockchainAddress message) @
     put P 56 (pw_int64 P) (acf_domainRenew message) @
     put P 64 (pw_int64 P) (acf_domainGracePeriod message)"

definition field_account_Configuration :: "proto_lib \<Rightarrow> account_IConfiguration \<Rightarrow> int \<Rightarrow> byte list \<Rightarrow> (account_IConfiguration \<times> byte list) result" where
  "field_account_Configuration P message tag bs =
     (if tag div 8 = 1 then get (\<lambda>v. message\<lparr>acf_metadata := Some v\<rparr>) (get_message P (decode_weave_Metadata P) bs)
      else if tag div 8 = 2 then get (\<lambda>v. message\<lparr>acf_owner := Some v\<rparr>) (pr_bytes P bs)
      else if tag div 8 = 3 then get (\<lambda>v. message\<lparr>acf_validDomain := Some v\<rparr>) (pr_string P bs)
      else if tag div 8 = 4 then get (\<lambda>v. message\<lparr>acf_validName := Some v\<rparr>) (pr_string P bs)
      else if tag div 8 = 5 then get (\<lambda>v. message\<lparr>acf_validBlockchainId := Some v\<rparr>) (pr_string P bs)
      else if tag div 8 = 6 then get (\<lambda>v. message\<lparr>acf_validBlockchainAddress := Some v\<rparr>) (pr_string P bs)
      else if tag div 8 = 7 then get (\<lambda>v. message\<lparr>acf_domainRenew := Some (Long v)\<rparr>) (pr_int64 P bs)
      else if tag div 8 = 8 then get (\<lambda>v. message\<lparr>acf_domainGracePeriod := Some (Long v)\<rparr>) (pr_int64 P bs)
      else skip P tag message bs)"

definition decode_account_Configuration :: "proto_lib \<Rightarrow> byte list \<Rightarrow> int \<Rightarrow> (account_IConfiguration \<times> byte list) result" where
  "decode_account_Configuration P = read_message P (field_account_Configuration P) new_account_Configuration"

definition valid_account_Configuration :: "account_IConfiguration \<Rightarrow> bool" where
  "valid_account_Configuration message \<longleftrightarrow> pred_option valid_weave_Metadata (acf_metadata message) \<and>
     pred_option is_int64 (acf_domainRenew message) \<and>
     pred_option is_int64 (acf_domainGracePeriod message)"

lemma decodes_account_Configuration:
  assumes P: "proto_laws P" and "valid_account_Configuration m"
  shows "decodes (decode_account_Configuration P) (encode_account_Configuration P m) (norm_account_IConfiguration m)"
proof -
  have "writes P (field_account_Configuration P) (encode_account_Configuration P m) new_account_Configuration
      (set_field acf_domainGracePeriod_update (norm_int64 (acf_domainGracePeriod m)) (set_field acf_domainRenew_update (norm_int64 (acf_domainRenew m)) (set_field acf_validBlockchainAddress_update (norm_string (acf_validBlockchainAddress m)) (set_field acf_validBlockchainId_update (norm_string (acf_validBlockchainId m)) (set_field acf_validName_update (norm_string (acf_validName m)) (set_field acf_validDomain_update (norm_string (acf_validDomain m)) (set_field acf_owner_update (norm_bytes (acf_owner m)) (set_field acf_metadata_update (map_option norm_weave_IMetadata (acf_metadata m)) new_account_Configuration))))))))"
    unfolding encode_account_Configuration_def
    by (rule writes_chain
        | rule writes_message [where valid = valid_weave_Metadata, OF P _ _ decodes_weave_Metadata [OF P]]
        | rule writes_bytes [OF P]
        | rule writes_string [OF P]
        | rule writes_int64 [OF P]
        | (simp add: field_account_Configuration_def new_account_Configuration_def set_field_def elements_def is_uint32_def assms(2) [unfolded valid_account_Configuration_def]; fail))+
  then show ?thesis
    unfolding decode_account_Configuration_def by (intro decodes_message) (simp add: set_field_def new_account_Configuration_def norm_account_IConfiguration_def)
qed

section \<open>account.UpdateConfigurationMsg\<close>

definition new_account_UpdateConfigurationMsg :: account_IUpdateConfigurationMsg where
  "new_account_UpdateConfigurationMsg = \<lparr>auc_metadata = None, auc_patch = None\<rparr>"

definition encode_account_UpdateConfigurationMsg :: "proto_lib \<Rightarrow> account_IUpdateConfigurationMsg \<Rightarrow> byte list" where
  "encode_account_UpdateConfigurationMsg P message =
     put P 10 (\<lambda>v. ldelim P (encode_weave_Metadata P v)) (auc_metadata message) @
     put P 18 (\<lambda>v. ldelim P (encode_account_Configuration P v)) (auc_patch message)"

definition field_account_UpdateConfigurationMsg :: "proto_lib \<Rightarrow> account_IUpdateConfigurationMsg \<Rightarrow> int \<Rightarrow> byte list \<Rightarrow> (account_IUpdateConfigurationMsg \<times> byte list) result" where
  "field_account_UpdateConfigurationMsg P message tag bs =
     (if tag div 8 = 1 then get (\<lambda>v. message\<lparr>auc_metadata := Some v\<rparr>) (get_message P (decode_weave_Metadata P) bs)
      else if tag div 8 = 2 then get (\<lambda>v. message\<lparr>auc_patch := Some v\<rparr>) (get_message P (decode_account_Configuration P) bs)
      else skip P tag message bs)"

definition decode_account_UpdateConfigurationMsg :: "proto_lib \<Rightarrow> byte list \<Rightarrow> int \<Rightarrow> (account_IUpdateConfigurationMsg \<times> byte list) result" where
  "decode_account_UpdateConfigurationMsg P = read_message P (field_account_UpdateConfigurationMsg P) new_account_UpdateConfigurationMsg"

definition valid_account_UpdateConfigurationMsg :: "account_IUpdateConfigurationMsg \<Rightarrow> bool" where
  "valid_account_UpdateConfigurationMsg message \<longleftrightarrow> pred_option valid_weave_Metadata (auc_metadata message) \<and>
     pred_option valid_account_Configuration (auc_patch message)"

lemma decodes_account_UpdateConfigurationMsg:
  assumes P: "proto_laws P" and "valid_account_UpdateConfigurationMsg m"
  shows "decodes (decode_account_UpdateConfigurationMsg P) (encode_account_UpdateConfigurationMsg P m) (norm_account_IUpdateConfigurationMsg m)"
proof -
  have "writes P (field_account_UpdateConfigurationMsg P) (encode_account_UpdateConfigurationMsg P m) new_account_UpdateConfigurationMsg
      (set_field auc_patch_update (map_option norm_account_IConfiguration (auc_patch m)) (set_field auc_metadata_update (map_option norm_weave_IMetadata (auc_metadata m)) new_account_UpdateConfigurationMsg))"
    unfolding encode_account_UpdateConfigurationMsg_def
    by (rule writes_chain
        | rule writes_message [where valid = valid_weave_Metadata, OF P _ _ decodes_weave_Metadata [OF P]]
        | rule writes_message [where valid = valid_account_Configuration, OF P _ _ decodes_account_Configuration [OF P]]
        | (simp add: field_account_UpdateConfigurationMsg_def new_account_UpdateConfigurationMsg_def set_field_def elements_def is_uint32_def assms(2) [unfolded valid_account_UpdateConfigurationMsg_def]; fail))+
  then show ?thesis
    unfolding decode_account_UpdateConfigurationMsg_def by (intro decodes_message) (simp add: set_field_def new_account_UpdateConfigurationMsg_def norm_account_IUpdateConfigurationMsg_def)
qed

section \<open>account.AccountMsgFee\<close>

definition new_account_AccountMsgFee :: account_IAccountMsgFee where
  "new_account_AccountMsgFee = \<lparr>amf_msgPath = Some [], amf_fee = None\<rparr>"

definition encode_account_AccountMsgFee :: "proto_lib \<Rightarrow> account_IAccountMsgFee \<Rightarrow> byte list" where
  "encode_account_AccountMsgFee P message =
     put P 10 (pw_string P) (amf_msgPath message) @
     put P 18 (\<lambda>v. ldelim P (encode_coin_Coin P v)) (amf_fee message)"

definition field_account_AccountMsgFee :: "proto_lib \<Rightarrow> account_IAccountMsgFee \<Rightarrow> int \<Rightarrow> byte list \<Rightarrow> (account_IAccountMsgFee \<times> byte list) result" where
  "field_account_AccountMsgFee P message tag bs =
     (if tag div 8 = 1 then get (\<lambda>v. message\<lparr>amf_msgPath := Some v\<rparr>) (pr_string P bs)
      else if tag div 8 = 2 then get (\<lambda>v. message\<lparr>amf_fee := Some v\<rparr>) (get_message P (decode_coin_Coin P) bs)
      else skip P tag message bs)"

definition decode_account_AccountMsgFee :: "proto_lib \<Rightarrow> byte list \<Rightarrow> int \<Rightarrow> (account_IAccountMsgFee \<times> byte list) result" where
  "decode_account_AccountMsgFee P = read_message P (field_account_AccountMsgFee P) new_account_AccountMsgFee"

definition valid_account_AccountMsgFee :: "account_IAccountMsgFee \<Rightarrow> bool" where
  "valid_account_AccountMsgFee message \<longleftrightarrow> pred_option valid_coin_Coin (amf_fee message)"

lemma decodes_account_AccountMsgFee:
  assumes P: "proto_laws P" and "valid_account_AccountMsgFee m"
  shows "decodes (decode_account_AccountMsgFee P) (encode_account_AccountMsgFee P m) (norm_account_IAccountMsgFee m)"
proof -
  have "writes P (field_account_AccountMsgFee P) (encode_account_AccountMsgFee P m) new_account_AccountMsgFee
      (set_field amf_fee_update (map_option norm_coin_ICoin (amf_fee m)) (set_field amf_msgPath_update (norm_string (amf_msgPath m)) new_account_AccountMsgFee))"
    unfolding encode_account_AccountMsgFee_def
    by (rule writes_chain
        | rule writes_string [OF P]
        | rule writes_message [where valid = valid_coin_Coin, OF P _ _ decodes_coin_Coin [OF P]]
        | (simp add: field_account_AccountMsgFee_def new_account_AccountMsgFee_def set_field_def elements_def is_uint32_def assms(2) [unfolded valid_account_AccountMsgFee_def]; fail))+
  then show ?thesis
    unfolding decode_account_AccountMsgFee_def by (intro decodes_message) (simp add: set_field_def new_account_AccountMsgFee_def norm_account_IAccountMsgFee_def)
qed

section \<open>account.RegisterDomainMsg\<close>

definition new_account_RegisterDomainMsg :: account_IRegisterDomainMsg where
  "new_account_RegisterDomainMsg = \<lparr>ard_metadata = None, ard_domain = Some [], ard_admin = Some [], ard_hasSuperuser = Some False, ard_broker = Some [], ard_msgFees = Some [], ard_accountRenew = Some (Long 0)\<rparr>"

definition encode_account_RegisterDomainMsg :: "proto_lib \<Rightarrow> account_IRegisterDomainMsg \<Rightarrow> byte list" where
  "encode_account_RegisterDomainMsg P message =
     put P 10 (\<lambda>v. ldelim P (encode_weave_Metadata P v)) (ard_metadata message) @
     put P 18 (pw_string P) (ard_domain message) @
     put P 26 (pw_bytes P) (ard_admin message) @
     put P 32 (pw_bool P) (ard_hasSuperuser message) @
     put P 42 (pw_bytes P) (ard_broker message) @
     put_each P 50 (\<lambda>v. ldelim P (encode_account_AccountMsgFee P v)) (ard_msgFees message) @
     put P 56 (pw_int64 P) (ard_accountRenew message)"

definition field_account_RegisterDomainMsg :: "proto_lib \<Rightarrow> account_IRegisterDomainMsg \<Rightarrow> int \<Rightarrow> byte list \<Rightarrow> (account_IRegisterDomainMsg \<times> byte list) result" where
  "field_account_RegisterDomainMsg P message tag bs =
     (if tag div 8 = 1 then get (\<lambda>v. message\<lparr>ard_metadata := Some v\<rparr>) (get_message P (decode_weave_Metadata P) bs)
      else if tag div 8 = 2 then get (\<lambda>v. message\<lparr>ard_domain := Some v\<rparr>) (pr_string P bs)
      else if tag div 8 = 3 then get (\<lambda>v. message\<lparr>ard_admin := Some v\<rparr>) (pr_bytes P bs)
      else if tag div 8 = 4 then get (\<lambda>v. message\<lparr>ard_hasSuperuser := Some v\<rparr>) (pr_bool P bs)
      else if tag div 8 = 5 then get (\<lambda>v. message\<lparr>ard_broker := Some v\<rparr>) (pr_bytes P bs)
      else if tag div 8 = 6 then get (\<lambda>v. message\<lparr>ard_msgFees := Some (elements (ard_msgFees message) @ [v])\<rparr>) (get_message P (decode_account_AccountMsgFee P) bs)
      else if tag div 8 = 7 then get (\<lambda>v. message\<lparr>ard_accountRenew := Some (Long v)\<rparr>) (pr_int64 P bs)
      else skip P tag message bs)"

definition decode_account_RegisterDomainMsg :: "proto_lib \<Rightarrow> byte list \<Rightarrow> int \<Rightarrow> (account_IRegisterDomainMsg \<times> byte list) result" where
  "decode_account_RegisterDomainMsg P = read_message P (field_account_RegisterDomainMsg P) new_account_RegisterDomainMsg"

definition valid_account_RegisterDomainMsg :: "account_IRegisterDomainMsg \<Rightarrow> bool" where
  "valid_account_RegisterDomainMsg message \<longleftrightarrow> pred_option valid_weave_Metadata (ard_metadata message) \<and>
     pred_option (list_all valid_account_AccountMsgFee) (ard_msgFees message) \<and>
     pred_option is_int64 (ard_accountRenew message)"

lemma decodes_account_RegisterDomainMsg:
  assumes P: "proto_laws P" and "valid_account_RegisterDomainMsg m"
  shows "decodes (decode_account_RegisterDomainMsg P) (encode_account_RegisterDomainMsg P m) (norm_account_IRegisterDomainMsg m)"
proof -
  have "writes P (field_account_RegisterDomainMsg P) (encode_account_RegisterDomainMsg P m) new_account_RegisterDomainMsg
      (set_field ard_accountRenew_update (norm_int64 (ard_accountRenew m)) (set_field ard_msgFees_update (norm_repeated norm_account_IAccountMsgFee (ard_msgFees m)) (set_field ard_broker_update (norm_bytes (ard_broker m)) (set_field ard_hasSuperuser_update (norm_bool (ard_hasSuperuser m)) (set_field ard_admin_update (norm_bytes (ard_admin m)) (set_field ard_domain_update (norm_string (ard_domain m)) (set_field ard_metadata_update (map_option norm_weave_IMetadata (ard_metadata m)) new_account_RegisterDomainMsg)))))))"
    unfolding encode_account_RegisterDomainMsg_def
    by (rule writes_chain
        | rule writes_message [where valid = valid_weave_Metadata, OF P _ _ decodes_weave_Metadata [OF P]]
        | rule writes_string [OF P]
        | rule writes_bytes [OF P]
        | rule writes_bool [OF P]
        | rule writes_messages [where valid = valid_account_AccountMsgFee, OF P _ _ decodes_account_AccountMsgFee [OF P]]
        | rule writes_int64 [OF P]
        | (simp add: field_account_RegisterDomainMsg_def new_account_RegisterDomainMsg_def set_field_def elements_def is_uint32_def assms(2) [unfolded valid_account_RegisterDomainMsg_def]; fail))+
  then show ?thesis
    unfolding decode_account_RegisterDomainMsg_def by (intro decodes_message) (simp add: set_field_def new_account_RegisterDomainMsg_def norm_account_IRegisterDomainMsg_def)
qed

section \<open>account.ReplaceAccountMsgFeesMsg\<close>

definition new_account_ReplaceAccountMsgFeesMsg :: account_IReplaceAccountMsgFeesMsg where
  "new_account_ReplaceAccountMsgFeesMsg = \<lparr>arm_metadata = None, arm_domain = Some [], arm_newMsgFees = Some []\<rparr>"

definition encode_account_ReplaceAccountMsgFeesMsg :: "proto_lib \<Rightarrow> account_IReplaceAccountMsgFeesMsg \<Rightarrow> byte list" where
  "encode_account_ReplaceAccountMsgFeesMsg P message =
     put P 10 (\<lambda>v. ldelim P (encode_weave_Metadata P v)) (arm_metadata message) @
     put P 18 (pw_string P) (arm_domain message) @
     put_each P 50 (\<lambda>v. ldelim P (encode_account_AccountMsgFee P v)) (arm_newMsgFees message)"

definition field_account_ReplaceAccountMsgFeesMsg :: "proto_lib \<Rightarrow> account_IReplaceAccountMsgFeesMsg \<Rightarrow> int \<Rightarrow> byte list \<Rightarrow> (account_IReplaceAccountMsgFeesMsg \<times> byte list) result" where
  "field_account_ReplaceAccountMsgFeesMsg P message tag bs =
     (if tag div 8 = 1 then get (\<lambda>v. message\<lparr>arm_metadata := Some v\<rparr>) (get_message P (decode_weave_Metadata P) bs)
      else if tag div 8 = 2 then get (\<lambda>v. message\<lparr>arm_domain := Some v\<rparr>) (pr_string P bs)
      else if tag div 8 = 6 then get (\<lambda>v. message\<lparr>arm_newMsgFees := Some (elements (arm_newMsgFees message) @ [v])\<rparr>) (get_message P (decode_account_AccountMsgFee P) bs)
      else skip P tag message bs)"

definition decode_account_ReplaceAccountMsgFeesMsg :: "proto_lib \<Rightarrow> byte list \<Rightarrow> int \<Rightarrow> (account_IReplaceAccountMsgFeesMsg \<times> byte list) result" where
  "decode_account_ReplaceAccountMsgFeesMsg P = read_message P (field_account_ReplaceAccountMsgFeesMsg P) new_account_ReplaceAccountMsgFeesMsg"

definition valid_account_ReplaceAccountMsgFeesMsg :: "account_IReplaceAccountMsgFeesMsg \<Rightarrow> bool" where
  "valid_account_ReplaceAccountMsgFeesMsg message \<longleftrightarrow> pred_option valid_weave_Metadata (arm_metadata message) \<and>
     pred_option (list_all valid_account_AccountMsgFee) (arm_newMsgFees message)"

lemma decodes_account_ReplaceAccountMsgFeesMsg:
  assumes P: "proto_laws P" and "valid_account_ReplaceAccountMsgFeesMsg m"
  shows "decodes (decode_account_ReplaceAccountMsgFeesMsg P) (encode_account_ReplaceAccountMsgFeesMsg P m) (norm_account_IReplaceAccountMsgFeesMsg m)"
proof -
  have "writes P (field_account_ReplaceAccountMsgFeesMsg P) (encode_account_ReplaceAccountMsgFeesMsg P m) new_account_ReplaceAccountMsgFeesMsg
      (set_field arm_newMsgFees_update (norm_repeated norm_account_IAccountMsgFee (arm_newMsgFees m)) (set_field arm_domain_update (norm_string (arm_domain m)) (set_field arm_metadata_update (map_option norm_weave_IMetadata (arm_metadata m)) new_account_ReplaceAccountMsgFeesMsg)))"
    unfolding encode_account_ReplaceAccountMsgFeesMsg_def
    by (rule writes_chain
        | rule writes_message [where valid = valid_weave_Metadata, OF P _ _ decodes_weave_Metadata [OF P]]
        | rule writes_string [OF P]
        | rule writes_messages [where valid = valid_account_AccountMsgFee, OF P _ _ decodes_account_AccountMsgFee [OF P]]
        | (simp add: field_account_ReplaceAccountMsgFeesMsg_def new_account_ReplaceAccountMsgFeesMsg_def set_field_def elements_def is_uint32_def assms(2) [unfolded valid_account_ReplaceAccountMsgFeesMsg_def]; fail))+
  then show ?thesis
    unfolding decode_account_ReplaceAccountMsgFeesMsg_def by (intro decodes_message) (simp add: set_field_def new_account_ReplaceAccountMsgFeesMsg_def norm_account_IReplaceAccountMsgFeesMsg_def)
qed

section \<open>account.TransferDomainMsg\<close>

definition new_account_TransferDomainMsg :: account_ITransferDomainMsg where
  "new_account_TransferDomainMsg = \<lparr>atd_metadata = None, atd_domain = Some [], atd_newAdmin = Some []\<rparr>"

definition encode_account_TransferDomainMsg :: "proto_lib \<Rightarrow> account_ITransferDomainMsg \<Rightarrow> byte list" where
  "encode_account_TransferDomainMsg P message =
     put P 10 (\<lambda>v. ldelim P (encode_weave_Metadata P v)) (atd_metadata message) @
     put P 18 (pw_string P) (atd_domain message) @
     put P 26 (pw_bytes P) (atd_newAdmin message)"

definition field_account_TransferDomainMsg :: "proto_lib \<Rightarrow> account_ITransferDomainMsg \<Rightarrow> int \<Rightarrow> byte list \<Rightarrow> (account_ITransferDomainMsg \<times> byte list) result" where
  "field_account_TransferDomainMsg P message tag bs =
     (if tag div 8 = 1 then get (\<lambda>v. message\<lparr>atd_metadata := Some v\<rparr>) (get_message P (decode_weave_Metadata P) bs)
      else if tag div 8 = 2 then get (\<lambda>v. message\<lparr>atd_domain := Some v\<rparr>) (pr_string P bs)
      else if tag div 8 = 3 then get (\<lambda>v. message\<lparr>atd_newAdmin := Some v\<rparr>) (pr_bytes P bs)
      else skip P tag message bs)"

definition decode_account_TransferDomainMsg :: "proto_lib \<Rightarrow> byte list \<Rightarrow> int \<Rightarrow> (account_ITransferDomainMsg \<times> byte list) result" where
  "decode_account_TransferDomainMsg P = read_message P (field_account_TransferDomainMsg P) new_account_TransferDomainMsg"

definition valid_account_TransferDomainMsg :: "account_ITransferDomainMsg \<Rightarrow> bool" where
  "valid_account_TransferDomainMsg message \<longleftrightarrow> pred_option valid_weave_Metadata (atd_metadata message)"

lemma decodes_account_TransferDomainMsg:
  assumes P: "proto_laws P" and "valid_account_TransferDomainMsg m"
  shows "decodes (decode_account_TransferDomainMsg P) (encode_account_TransferDomainMsg P m) (norm_account_ITransferDomainMsg m)"
proof -
  have "writes P (field_account_TransferDomainMsg P) (encode_account_TransferDomainMsg P m) new_account_TransferDomainMsg
      (set_field atd_newAdmin_update (norm_bytes (atd_newAdmin m)) (set_field atd_domain_update (norm_string (atd_domain m)) (set_field atd_metadata_update (map_option norm_weave_IMetadata (atd_metadata m)) new_account_TransferDomainMsg)))"
    unfolding encode_account_TransferDomainMsg_def
    by (rule writes_chain
        | rule writes_message [where valid = valid_weave_Metadata, OF P _ _ decodes_weave_Metadata [OF P]]
        | rule writes_string [OF P]
        | rule writes_bytes [OF P]
        | (simp add: field_account_TransferDomainMsg_def new_account_TransferDomainMsg_def set_field_def elements_def is_uint32_def assms(2) [unfolded valid_account_TransferDomainMsg_def]; fail))+
  then show ?thesis
    unfolding decode_account_TransferDomainMsg_def by (intro decodes_message) (simp add: set_field_def new_account_TransferDomainMsg_def norm_account_ITransferDomainMsg_def)
qed

section \<open>account.RenewDomainMsg\<close>

definition new_account_RenewDomainMsg :: account_IRenewDomainMsg where
  "new_account_RenewDomainMsg = \<lparr>arn_metadata = None, arn_domain = Some []\<rparr>"

definition encode_account_RenewDomainMsg :: "proto_lib \<Rightarrow> account_IRenewDomainMsg \<Rightarrow> byte list" where
  "encode_account_RenewDomainMsg P message =
     put P 10 (\<lambda>v. ldelim P (encode_weave_Metadata P v)) (arn_metadata message) @
     put P 18 (pw_string P) (arn_domain message)"

definition field_account_RenewDomainMsg :: "proto_lib \<Rightarrow> account_IRenewDomainMsg \<Rightarrow> int \<Rightarrow> byte list \<Rightarrow> (account_IRenewDomainMsg \<times> byte list) result" where
  "field_account_RenewDomainMsg P message tag bs =
     (if tag div 8 = 1 then get (\<lambda>v. message\<lparr>arn_metadata := Some v\<rparr>) (get_message P (decode_weave_Metadata P) bs)
      else if tag div 8 = 2 then get (\<lambda>v. message\<lparr>arn_domain := Some v\<rparr>) (pr_string P bs)
      else skip P tag message bs)"

definition decode_account_RenewDomainMsg :: "proto_lib \<Rightarrow> byte list \<Rightarrow> int \<Rightarrow> (account_IRenewDomainMsg \<times> byte list) result" where
  "decode_account_RenewDomainMsg P = read_message P (field_account_RenewDomainMsg P) new_account_RenewDomainMsg"

definition valid_account_RenewDomainMsg :: "account_IRenewDomainMsg \<Rightarrow> bool" where
  "valid_account_RenewDomainMsg message \<longleftrightarrow> pred_option valid_weave_Metadata (arn_metadata message)"

lemma decodes_account_RenewDomainMsg:
  assumes P: "proto_laws P" and "valid_account_RenewDomainMsg m"
  shows "decodes (decode_account_RenewDomainMsg P) (encode_account_RenewDomainMsg P m) (norm_account_IRenewDomainMsg m)"
proof -
  have "writes P (field_account_RenewDomainMsg P) (encode_account_RenewDomainMsg P m) new_account_RenewDomainMsg
      (set_field arn_domain_update (norm_string (arn_domain m)) (set_field arn_metadata_update (map_option norm_weave_IMetadata (arn_metadata m)) new_account_RenewDomainMsg))"
    unfolding encode_account_RenewDomainMsg_def
    by (rule writes_chain
        | rule writes_message [where valid = valid_weave_Metadata, OF P _ _ decodes_weave_Metadata [OF P]]
        | rule writes_string [OF P]
        | (simp add: field_account_RenewDomainMsg_def new_account_RenewDomainMsg_def set_field_def elements_def is_uint32_def assms(2) [unfolded valid_account_RenewDomainMsg_def]; fail))+
  then show ?thesis
    unfolding decode_account_RenewDomainMsg_def by (intro decodes_message) (simp add: set_field_def new_account_RenewDomainMsg_def norm_account_IRenewDomainMsg_def)
qed

section \<open>account.DeleteDomainMsg\<close>

definition new_account_DeleteDomainMsg :: account_IDeleteDomainMsg where
  "new_account_DeleteDomainMsg = \<lparr>add_metadata = None, add_domain = Some []\<rparr>"

definition encode_account_DeleteDomainMsg :: "proto_lib \<Rightarrow> account_IDeleteDomainMsg \<Rightarrow> byte list" where
  "encode_account_DeleteDomainMsg P message =
     put P 10 (\<lambda>v. ldelim P (encode_weave_Metadata P v)) (add_metadata message) @
     put P 18 (pw_string P) (add_domain message)"

definition field_account_DeleteDomainMsg :: "proto_lib \<Rightarrow> account_IDeleteDomainMsg \<Rightarrow> int \<Rightarrow> byte list \<Rightarrow> (account_IDeleteDomainMsg \<times> byte list) result" where
  "field_account_DeleteDomainMsg P message tag bs =
     (if tag div 8 = 1 then get (\<lambda>v. message\<lparr>add_metadata := Some v\<rparr>) (get_message P (decode_weave_Metadata P) bs)
      else if tag div 8 = 2 then get (\<lambda>v. message\<lparr>add_domain := Some v\<rparr>) (pr_string P bs)
      else skip P tag message bs)"

definition decode_account_DeleteDomainMsg :: "proto_lib \<Rightarrow> byte list \<Rightarrow> int \<Rightarrow> (account_IDeleteDomainMsg \<times> byte list) result" where
  "decode_account_DeleteDomainMsg P = read_message P (field_account_DeleteDomainMsg P) new_account_DeleteDomainMsg"

definition valid_account_DeleteDomainMsg :: "account_IDeleteDomainMsg \<Rightarrow> bool" where
  "valid_account_DeleteDomainMsg message \<longleftrightarrow> pred_option valid_weave_Metadata (add_metadata message)"

lemma decodes_account_DeleteDomainMsg:
  assumes P: "proto_laws P" and "valid_account_DeleteDomainMsg m"
  shows "decodes (decode_account_DeleteDomainMsg P) (encode_account_DeleteDomainMsg P m) (norm_account_IDeleteDomainMsg m)"
proof -
  have "writes P (field_account_DeleteDomainMsg P) (encode_account_DeleteDomainMsg P m) new_account_DeleteDomainMsg
      (set_field add_domain_update (norm_string (add_domain m)) (set_field add_metadata_update (map_option norm_weave_IMetadata (add_metadata m)) new_account_DeleteDomainMsg))"
    unfolding encode_account_DeleteDomainMsg_def
    by (rule writes_chain
        | rule writes_message [where valid = valid_weave_Metadata, OF P _ _ decodes_weave_Metadata [OF P]]
        | rule writes_string [OF P]
        | (simp add: field_account_DeleteDomainMsg_def new_account_DeleteDomainMsg_def set_field_def elements_def is_uint32_def assms(2) [unfolded valid_account_DeleteDomainMsg_def]; fail))+
  then show ?thesis
    unfolding decode_account_DeleteDomainMsg_def by (intro decodes_message) (simp add: set_field_def new_account_DeleteDomainMsg_def norm_account_IDeleteDomainMsg_def)
qed

section \<open>account.BlockchainAddress\<close>

definition new_account_BlockchainAddress :: account_IBlockchainAddress where
  "new_account_BlockchainAddress = \<lparr>aba_blockchainId = Some [], aba_address = Some []\<rparr>"

definition encode_account_BlockchainAddress :: "proto_lib \<Rightarrow> account_IBlockchainAddress \<Rightarrow> byte list" where
  "encode_account_BlockchainAddress P message =
     put P 10 (pw_string P) (aba_blockchainId message) @
     put P 18 (pw_string P) (aba_address message)"

definition field_account_BlockchainAddress :: "proto_lib \<Rightarrow> account_IBlockchainAddress \<Rightarrow> int \<Rightarrow> byte list \<Rightarrow> (account_IBlockchainAddress \<times> byte list) result" where
  "field_account_BlockchainAddress P message tag bs =
     (if tag div 8 = 1 then get (\<lambda>v. message\<lparr>aba_blockchainId := Some v\<rparr>) (pr_string P bs)
      else if tag div 8 = 2 then get (\<lambda>v. message\<lparr>aba_address := Some v\<rparr>) (pr_string P bs)
      else skip P tag message bs)"

definition decode_account_BlockchainAddress :: "proto_lib \<Rightarrow> byte list \<Rightarrow> int \<Rightarrow> (account_IBlockchainAddress \<times> byte list) result" where
  "decode_account_BlockchainAddress P = read_message P (field_account_BlockchainAddress P) new_account_BlockchainAddress"

lemma decodes_account_BlockchainAddress:
  assumes P: "proto_laws P"
  shows "decodes (decode_account_BlockchainAddress P) (encode_account_BlockchainAddress P m) (norm_account_IBlockchainAddress m)"
proof -
  have "writes P (field_account_BlockchainAddress P) (encode_account_BlockchainAddress P m) new_account_BlockchainAddress
      (set_field aba_address_update (norm_string (aba_address m)) (set_field aba_blockchainId_update (norm_string (aba_blockchainId m)) new_account_BlockchainAddress))"
    unfolding encode_account_BlockchainAddress_def
    by (rule writes_chain
        | rule writes_string [OF P]
        | (simp add: field_account_BlockchainAddress_def new_account_BlockchainAddress_def set_field_def elements_def is_uint32_def; fail))+
  then show ?thesis
    unfolding decode_account_BlockchainAddress_def by (intro decodes_message) (simp add: set_field_def new_account_BlockchainAddress_def norm_account_IBlockchainAddress_def)
qed

section \<open>account.RegisterAccountMsg\<close>

definition new_account_RegisterAccountMsg :: account_IRegisterAccountMsg where
  "new_account_RegisterAccountMsg = \<lparr>ara_metadata = None, ara_domain = Some [], ara_name = Some [], ara_owner = Some [], ara_targets = Some [], ara_broker = Some []\<rparr>"

definition encode_account_RegisterAccountMsg :: "proto_lib \<Rightarrow> account_IRegisterAccountMsg \<Rightarrow> byte list" where
  "encode_account_RegisterAccountMsg P message =
     put P 10 (\<lambda>v. ldelim P (encode_weave_Metadata P v)) (ara_metadata message) @
     put P 18 (pw_string P) (ara_domain message) @
     put P 26 (pw_string P) (ara_name message) @
     put P 34 (pw_bytes P) (ara_owner message) @
     put_each P 42 (\<lambda>v. ldelim P (encode_account_BlockchainAddress P v)) (ara_targets message) @
     put P 50 (pw_bytes P) (ara_broker message)"

definition field_account_RegisterAccountMsg :: "proto_lib \<Rightarrow> account_IRegisterAccountMsg \<Rightarrow> int \<Rightarrow> byte list \<Rightarrow> (account_IRegisterAccountMsg \<times> byte list) result" where
  "field_account_RegisterAccountMsg P message tag bs =
     (if tag div 8 = 1 then get (\<lambda>v. message\<lparr>ara_metadata := Some v\<rparr>) (get_message P (decode_weave_Metadata P) bs)
      else if tag div 8 = 2 then get (\<lambda>v. message\<lparr>ara_domain := Some v\<rparr>) (pr_string P bs)
      else if tag div 8 = 3 then get (\<lambda>v. message\<lparr>ara_name := Some v\<rparr>) (pr_string P bs)
      else if tag div 8 = 4 then get (\<lambda>v. message\<lparr>ara_owner := Some v\<rparr>) (pr_bytes P bs)
      else if tag div 8 = 5 then get (\<lambda>v. message\<lparr>ara_targets := Some (elements (ara_targets message) @ [v])\<rparr>) (get_message P (decode_account_BlockchainAddress P) bs)
      else if tag div 8 = 6 then get (\<lambda>v. message\<lparr>ara_broker := Some v\<rparr>) (pr_bytes P bs)
      else skip P tag message bs)"

definition decode_account_RegisterAccountMsg :: "proto_lib \<Rightarrow> byte list \<Rightarrow> int \<Rightarrow> (account_IRegisterAccountMsg \<times> byte list) result" where
  "decode_account_RegisterAccountMsg P = read_message P (field_account_RegisterAccountMsg P) new_account_RegisterAccountMsg"

definition valid_account_RegisterAccountMsg :: "account_IRegisterAccountMsg \<Rightarrow> bool" where
  "valid_account_RegisterAccountMsg message \<longleftrightarrow> pred_option valid_weave_Metadata (ara_metadata message)"

lemma decodes_account_RegisterAccountMsg:
  assumes P: "proto_laws P" and "valid_account_RegisterAccountMsg m"
  shows "decodes (decode_account_RegisterAccountMsg P) (encode_account_RegisterAccountMsg P m) (norm_account_IRegisterAccountMsg m)"
proof -
  have "writes P (field_account_RegisterAccountMsg P) (encode_account_RegisterAccountMsg P m) new_account_RegisterAccountMsg
      (set_field ara_broker_update (norm_bytes (ara_broker m)) (set_field ara_targets_update (norm_repeated norm_account_IBlockchainAddress (ara_targets m)) (set_field ara_owner_update (norm_bytes (ara_owner m)) (set_field ara_name_update (norm_string (ara_name m)) (set_field ara_domain_update (norm_string (ara_domain m)) (set_field ara_metadata_update (map_option norm_weave_IMetadata (ara_metadata m)) new_account_RegisterAccountMsg))))))"
    unfolding encode_account_RegisterAccountMsg_def
    by (rule writes_chain
        | rule writes_message [where valid = valid_weave_Metadata, OF P _ _ decodes_weave_Metadata [OF P]]
        | rule writes_string [OF P]
        | rule writes_bytes [OF P]
        | rule writes_messages [OF P _ true_each decodes_account_BlockchainAddress [OF P]]
        | (simp add: field_account_RegisterAccountMsg_def new_account_RegisterAccountMsg_def set_field_def elements_def is_uint32_def assms(2) [unfolded valid_account_RegisterAccountMsg_def]; fail))+
  then show ?thesis
    unfolding decode_account_RegisterAccountMsg_def by (intro decodes_message) (simp add: set_field_def new_account_RegisterAccountMsg_def norm_account_IRegisterAccountMsg_def)
qed

section \<open>account.TransferAccountMsg\<close>

definition new_account_TransferAccountMsg :: account_ITransferAccountMsg where
  "new_account_TransferAccountMsg = \<lparr>ata_metadata = None, ata_domain = Some [], ata_name = Some [], ata_newOwner = Some []\<rparr>"

definition encode_account_TransferAccountMsg :: "proto_lib \<Rightarrow> account_ITransferAccountMsg \<Rightarrow> byte list" where
  "encode_account_TransferAccountMsg P message =
     put P 10 (\<lambda>v. ldelim P (encode_weave_Metadata P v)) (ata_metadata message) @
     put P 18 (pw_string P) (ata_domain message) @
     put P 26 (pw_string P) (ata_name message) @
     put P 34 (pw_bytes P) (ata_newOwner message)"

definition field_account_TransferAccountMsg :: "proto_lib \<Rightarrow> account_ITransferAccountMsg \<Rightarrow> int \<Rightarrow> byte list \<Rightarrow> (account_ITransferAccountMsg \<times> byte list) result" where
  "field_account_TransferAccountMsg P message tag bs =
     (if tag div 8 = 1 then get (\<lambda>v. message\<lparr>ata_metadata := Some v\<rparr>) (get_message P (decode_weave_Metadata P) bs)
      else if tag div 8 = 2 then get (\<lambda>v. message\<lparr>ata_domain := Some v\<rparr>) (pr_string P bs)
      else if tag div 8 = 3 then get (\<lambda>v. message\<lparr>ata_name := Some v\<rparr>) (pr_string P bs)
      else if tag div 8 = 4 then get (\<lambda>v. message\<lparr>ata_newOwner := Some v\<rparr>) (pr_bytes P bs)
      else skip P tag message bs)"

definition decode_account_TransferAccountMsg :: "proto_lib \<Rightarrow> byte list \<Rightarrow> int \<Rightarrow> (account_ITransferAccountMsg \<times> byte list) result" where
  "decode_account_TransferAccountMsg P = read_message P (field_account_TransferAccountMsg P) new_account_TransferAccountMsg"

definition valid_account_TransferAccountMsg :: "account_ITransferAccountMsg \<Rightarrow> bool" where
  "valid_account_TransferAccountMsg message \<longleftrightarrow> pred_option valid_weave_Metadata (ata_metadata message)"

lemma decodes_account_TransferAccountMsg:
  assumes P: "proto_laws P" and "valid_account_TransferAccountMsg m"
  shows "decodes (decode_account_TransferAccountMsg P) (encode_account_TransferAccountMsg P m) (norm_account_ITransferAccountMsg m)"
proof -
  have "writes P (field_account_TransferAccountMsg P) (encode_account_TransferAccountMsg P m) new_account_TransferAccountMsg
      (set_field ata_newOwner_update (norm_bytes (ata_newOwner m)) (set_field ata_name_update (norm_string (ata_name m)) (set_field ata_domain_update (norm_string (ata_domain m)) (set_field ata_metadata_update (map_option norm_weave_IMetadata (ata_metadata m)) new_account_TransferAccountMsg))))"
    unfolding encode_account_TransferAccountMsg_def
    by (rule writes_chain
        | rule writes_message [where valid = valid_weave_Metadata, OF P _ _ decodes_weave_Metadata [OF P]]
        | rule writes_string [OF P]
        | rule writes_bytes [OF P]
        | (simp add: field_account_TransferAccountMsg_def new_account_TransferAccountMsg_def set_field_def elements_def is_uint32_def assms(2) [unfolded valid_account_TransferAccountMsg_def]; fail))+
  then show ?thesis
    unfolding decode_account_TransferAccountMsg_def by (intro decodes_message) (simp add: set_field_def new_account_TransferAccountMsg_def norm_account_ITransferAccountMsg_def)
qed

section \<open>account.ReplaceAccountTargetsMsg\<close>

definition new_account_ReplaceAccountTargetsMsg :: account_IReplaceAccountTargetsMsg where
  "new_account_ReplaceAccountTargetsMsg = \<lparr>art_metadata = None, art_domain = Some [], art_name = Some [], art_newTargets = Some []\<rparr>"

definition encode_account_ReplaceAccountTargetsMsg :: "proto_lib \<Rightarrow> account_IReplaceAccountTargetsMsg \<Rightarrow> byte list" where
  "encode_account_ReplaceAccountTargetsMsg P message =
     put P 10 (\<lambda>v. ldelim P (encode_weave_Metadata P v)) (art_metadata message) @
     put P 18 (pw_string P) (art_domain message) @
     put P 34 (pw_string P) (art_name message) @
     put_each P 42 (\<lambda>v. ldelim P (encode_account_BlockchainAddress P v)) (art_newTargets message)"

definition field_account_ReplaceAccountTargetsMsg :: "proto_lib \<Rightarrow> account_IReplaceAccountTargetsMsg \<Rightarrow> int \<Rightarrow> byte list \<Rightarrow> (account_IReplaceAccountTargetsMsg \<times> byte list) result" where
  "field_account_ReplaceAccountTargetsMsg P message tag bs =
     (if tag div 8 = 1 then get (\<lambda>v. message\<lparr>art_metadata := Some v\<rparr>) (get_message P (decode_weave_Metadata P) bs)
      else if tag div 8 = 2 then get (\<lambda>v. message\<lparr>art_domain := Some v\<rparr>) (pr_string P bs)
      else if tag div 8 = 4 then get (\<lambda>v. message\<lparr>art_name := Some v\<rparr>) (pr_string P bs)
      else if tag div 8 = 5 then get (\<lambda>v. message\<lparr>art_newTargets := Some (elements (art_newTargets message) @ [v])\<rparr>) (get_message P (decode_account_BlockchainAddress P) bs)
      else skip P tag message bs)"

definition decode_account_ReplaceAccountTargetsMsg :: "proto_lib \<Rightarrow> byte list \<Rightarrow> int \<Rightarrow> (account_IReplaceAccountTargetsMsg \<times> byte list) result" where
  "decode_account_ReplaceAccountTargetsMsg P = read_message P (field_account_ReplaceAccountTargetsMsg P) new_account_ReplaceAccountTargetsMsg"

definition valid_account_ReplaceAccountTargetsMsg :: "account_IReplaceAccountTargetsMsg \<Rightarrow> bool" where
  "valid_account_ReplaceAccountTargetsMsg message \<longleftrightarrow> pred_option valid_weave_Metadata (art_metadata message)"

lemma decodes_account_ReplaceAccountTargetsMsg:
  assumes P: "proto_laws P" and "valid_account_ReplaceAccountTargetsMsg m"
  shows "decodes (decode_account_ReplaceAccountTargetsMsg P) (encode_account_ReplaceAccountTargetsMsg P m) (norm_account_IReplaceAccountTargetsMsg m)"
proof -
  have "writes P (field_account_ReplaceAccountTargetsMsg P) (encode_account_ReplaceAccountTargetsMsg P m) new_account_ReplaceAccountTargetsMsg
      (set_field art_newTargets_update (norm_repeated norm_account_IBlockchainAddress (art_newTargets m)) (set_field art_name_update (norm_string (art_name m)) (set_field art_domain_update (norm_string (art_domain m)) (set_field art_metadata_update (map_option norm_weave_IMetadata (art_metadata m)) new_account_ReplaceAccountTargetsMsg))))"
    unfolding encode_account_ReplaceAccountTargetsMsg_def
    by (rule writes_chain
        | rule writes_message [where valid = valid_weave_Metadata, OF P _ _ decodes_weave_Metadata [OF P]]
        | rule writes_string [OF P]
        | rule writes_messages [OF P _ true_each decodes_account_BlockchainAddress [OF P]]
        | (simp add: field_account_ReplaceAccountTargetsMsg_def new_account_ReplaceAccountTargetsMsg_def set_field_def elements_def is_uint32_def assms(2) [unfolded valid_account_ReplaceAccountTargetsMsg_def]; fail))+
  then show ?thesis
    unfolding decode_account_ReplaceAccountTargetsMsg_def by (intro decodes_message) (simp add: set_field_def new_account_ReplaceAccountTargetsMsg_def norm_account_IReplaceAccountTargetsMsg_def)
qed

section \<open>account.DeleteAccountMsg\<close>

definition new_account_DeleteAccountMsg :: account_IDeleteAccountMsg where
  "new_account_DeleteAccountMsg = \<lparr>ada_metadata = None, ada_domain = Some [], ada_name = Some []\<rparr>"

definition encode_account_DeleteAccountMsg :: "proto_lib \<Rightarrow> account_IDeleteAccountMsg \<Rightarrow> byte list" where
  "encode_account_DeleteAccountMsg P message =
     put P 10 (\<lambda>v. ldelim P (encode_weave_Metadata P v)) (ada_metadata message) @
     put P 18 (pw_string P) (ada_domain message) @
     put P 26 (pw_string P) (ada_name message)"

definition field_account_DeleteAccountMsg :: "proto_lib \<Rightarrow> account_IDeleteAccountMsg \<Rightarrow> int \<Rightarrow> byte list \<Rightarrow> (account_IDeleteAccountMsg \<times> byte list) result" where
  "field_account_DeleteAccountMsg P message tag bs =
     (if tag div 8 = 1 then get (\<lambda>v. message\<lparr>ada_metadata := Some v\<rparr>) (get_message P (decode_weave_Metadata P) bs)
      else if tag div 8 = 2 then get (\<lambda>v. message\<lparr>ada_domain := Some v\<rparr>) (pr_string P bs)
      else if tag div 8 = 3 then get (\<lambda>v. message\<lparr>ada_name := Some v\<rparr>) (pr_string P bs)
      else skip P tag message bs)"

definition decode_account_DeleteAccountMsg :: "proto_lib \<Rightarrow> byte list \<Rightarrow> int \<Rightarrow> (account_IDeleteAccountMsg \<times> byte list) result" where
  "decode_account_DeleteAccountMsg P = read_message P (field_account_DeleteAccountMsg P) new_account_DeleteAccountMsg"

definition valid_account_DeleteAccountMsg :: "account_IDeleteAccountMsg \<Rightarrow> bool" where
  "valid_account_DeleteAccountMsg message \<longleftrightarrow> pred_option valid_weave_Metadata (ada_metadata message)"

lemma decodes_account_DeleteAccountMsg:
  assumes P: "proto_laws P" and "valid_account_DeleteAccountMsg m"
  shows "decodes (decode_account_DeleteAccountMsg P) (encode_account_DeleteAccountMsg P m) (norm_account_IDeleteAccountMsg m)"
proof -
  have "writes P (field_account_DeleteAccountMsg P) (encode_account_DeleteAccountMsg P m) new_account_DeleteAccountMsg
      (set_field ada_name_update (norm_string (ada_name m)) (set_field ada_domain_update (norm_string (ada_domain m)) (set_field ada_metadata_update (map_option norm_weave_IMetadata (ada_metadata m)) new_account_DeleteAccountMsg)))"
    unfolding encode_account_DeleteAccountMsg_def
    by (rule writes_chain
        | rule writes_message [where valid = valid_weave_Metadata, OF P _ _ decodes_weave_Metadata [OF P]]
        | rule writes_string [OF P]
        | (simp add: field_account_DeleteAccountMsg_def new_account_DeleteAccountMsg_def set_field_def elements_def is_uint32_def assms(2) [unfolded valid_account_DeleteAccountMsg_def]; fail))+
  then show ?thesis
    unfolding decode_account_DeleteAccountMsg_def by (intro decodes_message) (simp add: set_field_def new_account_DeleteAccountMsg_def norm_account_IDeleteAccountMsg_def)
qed

section \<open>account.FlushDomainMsg\<close>

definition new_account_FlushDomainMsg :: account_IFlushDomainMsg where
  "new_account_FlushDomainMsg = \<lparr>afd_metadata = None, afd_domain = Some []\<rparr>"

definition encode_account_FlushDomainMsg :: "proto_lib \<Rightarrow> account_IFlushDomainMsg \<Rightarrow> byte list" where
  "encode_account_FlushDomainMsg P message =
     put P 10 (\<lambda>v. ldelim P (encode_weave_Metadata P v)) (afd_metadata message) @
     put P 18 (pw_string P) (afd_domain message)"

definition field_account_FlushDomainMsg :: "proto_lib \<Rightarrow> account_IFlushDomainMsg \<Rightarrow> int \<Rightarrow> byte list \<Rightarrow> (account_IFlushDomainMsg \<times> byte list) result" where
  "field_account_FlushDomainMsg P message tag bs =
     (if tag div 8 = 1 then get (\<lambda>v. message\<lparr>afd_metadata := Some v\<rparr>) (get_message P (decode_weave_Metadata P) bs)
      else if tag div 8 = 2 then get (\<lambda>v. message\<lparr>afd_domain := Some v\<rparr>) (pr_string P bs)
      else skip P tag message bs)"

definition decode_account_FlushDomainMsg :: "proto_lib \<Rightarrow> byte list \<Rightarrow> int \<Rightarrow> (account_IFlushDomainMsg \<times> byte list) result" where
  "decode_account_FlushDomainMsg P = read_message P (field_account_FlushDomainMsg P) new_account_FlushDomainMsg"

definition valid_account_FlushDomainMsg :: "account_IFlushDomainMsg \<Rightarrow> bool" where
  "valid_account_FlushDomainMsg message \<longleftrightarrow> pred_option valid_weave_Metadata (afd_metadata message)"

lemma decodes_account_FlushDomainMsg:
  assumes P: "proto_laws P" and "valid_account_FlushDomainMsg m"
  shows "decodes (decode_account_FlushDomainMsg P) (encode_account_FlushDomainMsg P m) (norm_account_IFlushDomainMsg m)"
proof -
  have "writes P (field_account_FlushDomainMsg P) (encode_account_FlushDomainMsg P m) new_account_FlushDomainMsg
      (set_field afd_domain_update (norm_string (afd_domain m)) (set_field afd_metadata_update (map_option norm_weave_IMetadata (afd_metadata m)) new_account_FlushDomainMsg))"
    unfolding encode_account_FlushDomainMsg_def
    by (rule writes_chain
        | rule writes_message [where valid = valid_weave_Metadata, OF P _ _ decodes_weave_Metadata [OF P]]
        | rule writes_string [OF P]
        | (simp add: field_account_FlushDomainMsg_def new_account_FlushDomainMsg_def set_field_def elements_def is_uint32_def assms(2) [unfolded valid_account_FlushDomainMsg_def]; fail))+
  then show ?thesis
    unfolding decode_account_FlushDomainMsg_def by (intro decodes_message) (simp add: set_field_def new_account_FlushDomainMsg_def norm_account_IFlushDomainMsg_def)
qed

section \<open>account.RenewAccountMsg\<close>

definition new_account_RenewAccountMsg :: account_IRenewAccountMsg where
  "new_account_RenewAccountMsg = \<lparr>arw_metadata = None, arw_domain = Some [], arw_name = Some []\<rparr>"

definition encode_account_RenewAccountMsg :: "proto_lib \<Rightarrow> account_IRenewAccountMsg \<Rightarrow> byte list" where
  "encode_account_RenewAccountMsg P message =
     put P 10 (\<lambda>v. ldelim P (encode_weave_Metadata P v)) (arw_metadata message) @
     put P 18 (pw_string P) (arw_domain message) @
     put P 26 (pw_string P) (arw_name message)"

definition field_account_RenewAccountMsg :: "proto_lib \<Rightarrow> account_IRenewAccountMsg \<Rightarrow> int \<Rightarrow> byte list \<Rightarrow> (account_IRenewAccountMsg \<times> byte list) result" where
  "field_account_RenewAccountMsg P message tag bs =
     (if tag div 8 = 1 then get (\<lambda>v. message\<lparr>arw_metadata := Some v\<rparr>) (get_message P (decode_weave_Metadata P) bs)
      else if tag div 8 = 2 then get (\<lambda>v. message\<lparr>arw_domain := Some v\<rparr>) (pr_string P bs)
      else if tag div 8 = 3 then get (\<lambda>v. message\<lparr>arw_name := Some v\<rparr>) (pr_string P bs)
      else skip P tag message bs)"

definition decode_account_RenewAccountMsg :: "proto_lib \<Rightarrow> byte list \<Rightarrow> int \<Rightarrow> (account_IRenewAccountMsg \<times> byte list) result" where
  "decode_account_RenewAccountMsg P = read_message P (field_account_RenewAccountMsg P) new_account_RenewAccountMsg"

definition valid_account_RenewAccountMsg :: "account_IRenewAccountMsg \<Rightarrow> bool" where
  "valid_account_RenewAccountMsg message \<longleftrightarrow> pred_option valid_weave_Metadata (arw_metadata message)"

lemma decodes_account_RenewAccountMsg:
  assumes P: "proto_laws P" and "valid_account_RenewAccountMsg m"
  shows "decodes (decode_account_RenewAccountMsg P) (encode_account_RenewAccountMsg P m) (norm_account_IRenewAccountMsg m)"
proof -
  have "writes P (field_account_RenewAccountMsg P) (encode_account_RenewAccountMsg P m) new_account_RenewAccountMsg
      (set_field arw_name_update (norm_string (arw_name m)) (set_field arw_domain_update (norm_string (arw_domain m)) (set_field arw_metadata_update (map_option norm_weave_IMetadata (arw_metadata m)) new_account_RenewAccountMsg)))"
    unfolding encode_account_RenewAccountMsg_def
    by (rule writes_chain
        | rule writes_message [where valid = valid_weave_Metadata, OF P _ _ decodes_weave_Metadata [OF P]]
        | rule writes_string [OF P]
        | (simp add: field_account_RenewAccountMsg_def new_account_RenewAccountMsg_def set_field_def elements_def is_uint32_def assms(2) [unfolded valid_account_RenewAccountMsg_def]; fail))+
  then show ?thesis
    unfolding decode_account_RenewAccountMsg_def by (intro decodes_message) (simp add: set_field_def new_account_RenewAccountMsg_def norm_account_IRenewAccountMsg_def)
qed

section \<open>account.AddAccountCertificateMsg\<close>

definition new_account_AddAccountCertificateMsg :: account_IAddAccountCertificateMsg where
  "new_account_AddAccountCertificateMsg = \<lparr>aac_metadata = None, aac_domain = Some [], aac_name = Some [], aac_certificate = Some []\<rparr>"

definition encode_account_AddAccountCertificateMsg :: "proto_lib \<Rightarrow> account_IAddAccountCertificateMsg \<Rightarrow> byte list" where
  "encode_account_AddAccountCertificateMsg P message =
     put P 10 (\<lambda>v. ldelim P (encode_weave_Metadata P v)) (aac_metadata message) @
     put P 18 (pw_string P) (aac_domain message) @
     put P 26 (pw_string P) (aac_name message) @
     put P 34 (pw_bytes P) (aac_certificate message)"

definition field_account_AddAccountCertificateMsg :: "proto_lib \<Rightarrow> account_IAddAccountCertificateMsg \<Rightarrow> int \<Rightarrow> byte list \<Rightarrow> (account_IAddAccountCertificateMsg \<times> byte list) result" where
  "field_account_AddAccountCertificateMsg P message tag bs =
     (if tag div 8 = 1 then get (\<lambda>v. message\<lparr>aac_metadata := Some v\<rparr>) (get_message P (decode_weave_Metadata P) bs)
      else if tag div 8 = 2 then get (\<lambda>v. message\<lparr>aac_domain := Some v\<rparr>) (pr_string P bs)
      else if tag div 8 = 3 then get (\<lambda>v. message\<lparr>aac_name := Some v\<rparr>) (pr_string P bs)
      else if tag div 8 = 4 then get (\<lambda>v. message\<lparr>aac_certificate := Some v\<rparr>) (pr_bytes P bs)
      else skip P tag message bs)"

definition decode_account_AddAccountCertificateMsg :: "proto_lib \<Rightarrow> byte list \<Rightarrow> int \<Rightarrow> (account_IAddAccountCertificateMsg \<times> byte list) result" where
  "decode_account_AddAccountCertificateMsg P = read_message P (field_account_AddAccountCertificateMsg P) new_account_AddAccountCertificateMsg"

definition valid_account_AddAccountCertificateMsg :: "account_IAddAccountCertificateMsg \<Rightarrow> bool" where
  "valid_account_AddAccountCertificateMsg message \<longleftrightarrow> pred_option valid_weave_Metadata (aac_metadata message)"

lemma decodes_account_AddAccountCertificateMsg:
  assumes P: "proto_laws P" and "valid_account_AddAccountCertificateMsg m"
  shows "decodes (decode_account_AddAccountCertificateMsg P) (encode_account_AddAccountCertificateMsg P m) (norm_account_IAddAccountCertificateMsg m)"
proof -
  have "writes P (field_account_AddAccountCertificateMsg P) (encode_account_AddAccountCertificateMsg P m) new_account_AddAccountCertificateMsg
      (set_field aac_certificate_update (norm_bytes (aac_certificate m)) (set_field aac_name_update (norm_string (aac_name m)) (set_field aac_domain_update (norm_string (aac_domain m)) (set_field aac_metadata_update (map_option norm_weave_IMetadata (aac_metadata m)) new_account_AddAccountCertificateMsg))))"
    unfolding encode_account_AddAccountCertificateMsg_def
    by (rule writes_chain
        | rule writes_message [where valid = valid_weave_Metadata, OF P _ _ decodes_weave_Metadata [OF P]]
        | rule writes_string [OF P]
        | rule writes_bytes [OF P]
        | (simp add: field_account_AddAccountCertificateMsg_def new_account_AddAccountCertificateMsg_def set_field_def elements_def is_uint32_def assms(2) [unfolded valid_account_AddAccountCertificateMsg_def]; fail))+
  then show ?thesis
    unfolding decode_account_AddAccountCertificateMsg_def by (intro decodes_message) (simp add: set_field_def new_account_AddAccountCertificateMsg_def norm_account_IAddAccountCertificateMsg_def)
qed

section \<open>account.DeleteAccountCertificateMsg\<close>

definition new_account_DeleteAccountCertificateMsg :: account_IDeleteAccountCertificateMsg where
  "new_account_DeleteAccountCertificateMsg = \<lparr>adc_metadata = None, adc_domain = Some [], adc_name = Some [], adc_certificateHash = Some []\<rparr>"

definition encode_account_DeleteAccountCertificateMsg :: "proto_lib \<Rightarrow> account_IDeleteAccountCertificateMsg \<Rightarrow> byte list" where
  "encode_account_DeleteAccountCertificateMsg P message =
     put P 10 (\<lambda>v. ldelim P (encode_weave_Metadata P v)) (adc_metadata message) @
     put P 18 (pw_string P) (adc_domain message) @
     put P 26 (pw_string P) (adc_name message) @
     put P 34 (pw_bytes P) (adc_certificateHash message)"

definition field_account_DeleteAccountCertificateMsg :: "proto_lib \<Rightarrow> account_IDeleteAccountCertificateMsg \<Rightarrow> int \<Rightarrow> byte list \<Rightarrow> (account_IDeleteAccountCertificateMsg \<times> byte list) result" where
  "field_account_DeleteAccountCertificateMsg P message tag bs =
     (if tag div 8 = 1 then get (\<lambda>v. message\<lparr>adc_metadata := Some v\<rparr>) (get_message P (decode_weave_Metadata P) bs)
      else if tag div 8 = 2 then get (\<lambda>v. message\<lparr>adc_domain := Some v\<rparr>) (pr_string P bs)
      else if tag div 8 = 3 then get (\<lambda>v. message\<lparr>adc_name := Some v\<rparr>) (pr_string P bs)
      else if tag div 8 = 4 then get (\<lambda>v. message\<lparr>adc_certificateHash := Some v\<rparr>) (pr_bytes P bs)
      else skip P tag message bs)"

definition decode_account_DeleteAccountCertificateMsg :: "proto_lib \<Rightarrow> byte list \<Rightarrow> int \<Rightarrow> (account_IDeleteAccountCertificateMsg \<times> byte list) result" where
  "decode_account_DeleteAccountCertificateMsg P = read_message P (field_account_DeleteAccountCertificateMsg P) new_account_DeleteAccountCertificateMsg"

definition valid_account_DeleteAccountCertificateMsg :: "account_IDeleteAccountCertificateMsg \<Rightarrow> bool" where
  "valid_account_DeleteAccountCertificateMsg message \<longleftrightarrow> pred_option valid_weave_Metadata (adc_metadata message)"

lemma decodes_account_DeleteAccountCertificateMsg:
  assumes P: "proto_laws P" and "valid_account_DeleteAccountCertificateMsg m"
  shows "decodes (decode_account_DeleteAccountCertificateMsg P) (encode_account_DeleteAccountCertificateMsg P m) (norm_account_IDeleteAccountCertificateMsg m)"
proof -
  have "writes P (field_account_DeleteAccountCertificateMsg P) (encode_account_DeleteAccountCertificateMsg P m) new_account_DeleteAccountCertificateMsg
      (set_field adc_certificateHash_update (norm_bytes (adc_certificateHash m)) (set_field adc_name_update (norm_string (adc_name m)) (set_field adc_domain_update (norm_string (adc_domain m)) (set_field adc_metadata_update (map_option norm_weave_IMetadata (adc_metadata m)) new_account_DeleteAccountCertificateMsg))))"
    unfolding encode_account_DeleteAccountCertificateMsg_def
    by (rule writes_chain
        | rule writes_message [where valid = valid_weave_Metadata, OF P _ _ decodes_weave_Metadata [OF P]]
        | rule writes_string [OF P]
        | rule writes_bytes [OF P]
        | (simp add: field_account_DeleteAccountCertificateMsg_def new_account_DeleteAccountCertificateMsg_def set_field_def elements_def is_uint32_def assms(2) [unfolded valid_account_DeleteAccountCertificateMsg_def]; fail))+
  then show ?thesis
    unfolding decode_account_DeleteAccountCertificateMsg_def by (intro decodes_message) (simp add: set_field_def new_account_DeleteAccountCertificateMsg_def norm_account_IDeleteAccountCertificateMsg_def)
qed

end
