(* ===== verification/Pb_Gov.thy ===== *)
theory Pb_Gov
  imports Pb_Basic
begin

text \<open>
  The classes of the messages of governance: gov, termdeposit, qualityscore,
  preregistration, validators, txfee, msgfee, migration and datamigration, of
  \<open>packages/iov-bns/src/generated/codecimpl.js\<close>: for each the object that
  \<open>new\<close> makes, \<open>encode\<close>, the switch of \<open>decode\<close> and
  \<open>decode\<close>. The lemma of a class shows that a message with integers in range
  is read back from what was written.
\<close>

section \<open>validators.ApplyDiffMsg\<close>

definition new_validators_ApplyDiffMsg :: validators_IApplyDiffMsg where
  "new_validators_ApplyDiffMsg = \<lparr>va_metadata = None, va_validatorUpdates = Some []\<rparr>"

definition encode_validators_ApplyDiffMsg :: "proto_lib \<Rightarrow> validators_IApplyDiffMsg \<Rightarrow> byte list" where
  "encode_validators_ApplyDiffMsg P message =
     put P 10 (\<lambda>v. ldelim P (encode_weave_Metadata P v)) (va_metadata message) @
     put_each P 18 (\<lambda>v. ldelim P (encode_weave_ValidatorUpdate P v)) (va_validatorUpdates message)"

definition field_validators_ApplyDiffMsg :: "proto_lib \<Rightarrow> validators_IApplyDiffMsg \<Rightarrow> int \<Rightarrow> byte list \<Rightarrow> (validators_IApplyDiffMsg \<times> byte list) result" where
  "field_validators_ApplyDiffMsg P message tag bs =
     (if tag div 8 = 1 then get (\<lambda>v. message\<lparr>va_metadata := Some v\<rparr>) (get_message P (decode_weave_Metadata P) bs)
      else if tag div 8 = 2 then get (\<lambda>v. message\<lparr>va_validatorUpdates := Some (elements (va_validatorUpdates message) @ [v])\<rparr>) (get_message P (decode_weave_ValidatorUpdate P) bs)
      else skip P tag message bs)"

definition decode_validators_ApplyDiffMsg :: "proto_lib \<Rightarrow> byte list \<Rightarrow> int \<Rightarrow> (validators_IApplyDiffMsg \<times> byte list) result" where
  "decode_validators_ApplyDiffMsg P = read_message P (field_validators_ApplyDiffMsg P) new_validators_ApplyDiffMsg"

definition valid_validators_ApplyDiffMsg :: "validators_IApplyDiffMsg \<Rightarrow> bool" where
  "valid_validators_ApplyDiffMsg message \<longleftrightarrow> pred_option valid_weave_Metadata (va_metadata message) \<and>
     pred_option (list_all valid_weave_ValidatorUpdate) (va_validatorUpdates message)"

lemma decodes_validators_ApplyDiffMsg:
  assumes P: "proto_laws P" and "valid_validators_ApplyDiffMsg m"
  shows "decodes (decode_validators_ApplyDiffMsg P) (encode_validators_ApplyDiffMsg P m) (norm_validators_IApplyDiffMsg m)"
proof -
  have "writes P (field_validators_ApplyDiffMsg P) (encode_validators_ApplyDiffMsg P m) new_validators_ApplyDiffMsg
      (set_field va_validatorUpdates_update (norm_repeated norm_weave_IValidatorUpdate (va_validatorUpdates m)) (set_field va_metadata_update (map_option norm_weave_IMetadata (va_metadata m)) new_validators_ApplyDiffMsg))"
    unfolding encode_validators_ApplyDiffMsg_def
    by (rule writes_chain
        | rule writes_message [where valid = valid_weave_Metadata, OF P _ _ decodes_weave_Metadata [OF P]]
        | rule writes_messages [where valid = valid_weave_ValidatorUpdate, OF P _ _ decodes_weave_ValidatorUpdate [OF P]]
        | (simp add: field_validators_ApplyDiffMsg_def new_validators_ApplyDiffMsg_def set_field_def elements_def is_uint32_def assms(2) [unfolded valid_validators_ApplyDiffMsg_def]; fail))+
  then show ?thesis
    unfolding decode_validators_ApplyDiffMsg_def by (intro decodes_message) (simp add: set_field_def new_validators_ApplyDiffMsg_def norm_validators_IApplyDiffMsg_def)
qed

section \<open>msgfee.SetMsgFeeMsg\<close>

definition new_msgfee_SetMsgFeeMsg :: msgfee_ISetMsgFeeMsg where
  "new_msgfee_SetMsgFeeMsg = \<lparr>mf_metadata = None, mf_msgPath = Some [], mf_fee = None\<rparr>"

definition encode_msgfee_SetMsgFeeMsg :: "proto_lib \<Rightarrow> msgfee_ISetMsgFeeMsg \<Rightarrow> byte list" where
  "encode_msgfee_SetMsgFeeMsg P message =
     put P 10 (\<lambda>v. ldelim P (encode_weave_Metadata P v)) (mf_metadata message) @
     put P 18 (pw_string P) (mf_msgPath message) @
     put P 26 (\<lambda>v. ldelim P (encode_coin_Coin P v)) (mf_fee message)"

definition field_msgfee_SetMsgFeeMsg :: "proto_lib \<Rightarrow> msgfee_ISetMsgFeeMsg \<Rightarrow> int \<Rightarrow> byte list \<Rightarrow> (msgfee_ISetMsgFeeMsg \<times> byte list) result" where
  "field_msgfee_SetMsgFeeMsg P message tag bs =
     (if tag div 8 = 1 then get (\<lambda>v. message\<lparr>mf_metadata := Some v\<rparr>) (get_message P (decode_weave_Metadata P) bs)
      else if tag div 8 = 2 then get (\<lambda>v. message\<lparr>mf_msgPath := Some v\<rparr>) (pr_string P bs)
      else if tag div 8 = 3 then get (\<lambda>v. message\<lparr>mf_fee := Some v\<rparr>) (get_message P (decode_coin_Coin P) bs)
      else skip P tag message bs)"

definition decode_msgfee_SetMsgFeeMsg :: "proto_lib \<Rightarrow> byte list \<Rightarrow> int \<Rightarrow> (msgfee_ISetMsgFeeMsg \<times> byte list) result" where
  "decode_msgfee_SetMsgFeeMsg P = read_message P (field_msgfee_SetMsgFeeMsg P) new_msgfee_SetMsgFeeMsg"

definition valid_msgfee_SetMsgFeeMsg :: "msgfee_ISetMsgFeeMsg \<Rightarrow> bool" where
  "valid_msgfee_SetMsgFeeMsg message \<longleftrightarrow> pred_option valid_weave_Metadata (mf_metadata message) \<and>
     pred_option valid_coin_Coin (mf_fee message)"

lemma decodes_msgfee_SetMsgFeeMsg:
  assumes P: "proto_laws P" and "valid_msgfee_SetMsgFeeMsg m"
  shows "decodes (decode_msgfee_SetMsgFeeMsg P) (encode_msgfee_SetMsgFeeMsg P m) (norm_msgfee_ISetMsgFeeMsg m)"
proof -
  have "writes P (field_msgfee_SetMsgFeeMsg P) (encode_msgfee_SetMsgFeeMsg P m) new_msgfee_SetMsgFeeMsg
      (set_field mf_fee_update (map_option norm_coin_ICoin (mf_fee m)) (set_field mf_msgPath_update (norm_string (mf_msgPath m)) (set_field mf_metadata_update (map_option norm_weave_IMetadata (mf_metadata m)) new_msgfee_SetMsgFeeMsg)))"
    unfolding encode_msgfee_SetMsgFeeMsg_def
    by (rule writes_chain
        | rule writes_message [where valid = valid_weave_Metadata, OF P _ _ decodes_weave_Metadata [OF P]]
        | rule writes_string [OF P]
        | rule writes_message [where valid = valid_coin_Coin, OF P _ _ decodes_coin_Coin [OF P]]
        | (simp add: field_msgfee_SetMsgFeeMsg_def new_msgfee_SetMsgFeeMsg_def set_field_def elements_def is_uint32_def assms(2) [unfolded valid_msgfee_SetMsgFeeMsg_def]; fail))+
  then show ?thesis
    unfolding decode_msgfee_SetMsgFeeMsg_def by (intro decodes_message) (simp add: set_field_def new_msgfee_SetMsgFeeMsg_def norm_msgfee_ISetMsgFeeMsg_def)
qed

section \<open>datamigration.ExecuteMigrationMsg\<close>

definition new_datamigration_ExecuteMigrationMsg :: datamigration_IExecuteMigrationMsg where
  "new_datamigration_ExecuteMigrationMsg = \<lparr>dm_metadata = None, dm_migrationId = Some []\<rparr>"

definition encode_datamigration_ExecuteMigrationMsg :: "proto_lib \<Rightarrow> datamigration_IExecuteMigrationMsg \<Rightarrow> byte list" where
  "encode_datamigration_ExecuteMigrationMsg P message =
     put P 10 (\<lambda>v. ldelim P (encode_weave_Metadata P v)) (dm_metadata message) @
     put P 18 (pw_string P) (dm_migrationId message)"

definition field_datamigration_ExecuteMigrationMsg :: "proto_lib \<Rightarrow> datamigration_IExecuteMigrationMsg \<Rightarrow> int \<Rightarrow> byte list \<Rightarrow> (datamigration_IExecuteMigrationMsg \<times> byte list) result" where
  "field_datamigration_ExecuteMigrationMsg P message tag bs =
     (if tag div 8 = 1 then get (\<lambda>v. message\<lparr>dm_metadata := Some v\<rparr>) (get_message P (decode_weave_Metadata P) bs)
      else if tag div 8 = 2 then get (\<lambda>v. message\<lparr>dm_migrationId := Some v\<rparr>) (pr_string P bs)
      else skip P tag message bs)"

definition decode_datamigration_ExecuteMigrationMsg :: "proto_lib \<Rightarrow> byte list \<Rightarrow> int \<Rightarrow> (datamigration_IExecuteMigrationMsg \<times> byte list) result" where
  "decode_datamigration_ExecuteMigrationMsg P = read_message P (field_datamigration_ExecuteMigrationMsg P) new_datamigration_ExecuteMigrationMsg"

definition valid_datamigration_ExecuteMigrationMsg :: "datamigration_IExecuteMigrationMsg \<Rightarrow> bool" where
  "valid_datamigration_ExecuteMigrationMsg message \<longleftrightarrow> pred_option valid_weave_Metadata (dm_metadata message)"

lemma decodes_datamigration_ExecuteMigrationMsg:
  assumes P: "proto_laws P" and "valid_datamigration_ExecuteMigrationMsg m"
  shows "decodes (decode_datamigration_ExecuteMigrationMsg P) (encode_datamigration_ExecuteMigrationMsg P m) (norm_datamigration_IExecuteMigrationMsg m)"
proof -
  have "writes P (field_datamigration_ExecuteMigrationMsg P) (encode_datamigration_ExecuteMigrationMsg P m) new_datamigration_ExecuteMigrationMsg
      (set_field dm_migrationId_update (norm_string (dm_migrationId m)) (set_field dm_metadata_update (map_option norm_weave_IMetadata (dm_metadata m)) new_datamigration_ExecuteMigrationMsg))"
    unfolding encode_datamigration_ExecuteMigrationMsg_def
    by (rule writes_chain
        | rule writes_message [where valid = valid_weave_Metadata, OF P _ _ decodes_weave_Metadata [OF P]]
        | rule writes_string [OF P]
        | (simp add: field_datamigration_ExecuteMigrationMsg_def new_datamigration_ExecuteMigrationMsg_def set_field_def elements_def is_uint32_def assms(2) [unfolded valid_datamigration_ExecuteMigrationMsg_def]; fail))+
  then show ?thesis
    unfolding decode_datamigration_ExecuteMigrationMsg_def by (intro decodes_message) (simp add: set_field_def new_datamigration_ExecuteMigrationMsg_def norm_datamigration_IExecuteMigrationMsg_def)
qed

section \<open>txfee.Configuration\<close>

definition new_txfee_Configuration :: txfee_IConfiguration where
  "new_txfee_Configuration = \<lparr>tfc_metadata = None, tfc_owner = Some [], tfc_freeBytes = Some (int_num 0), tfc_baseFee = None\<rparr>"

definition encode_txfee_Configuration :: "proto_lib \<Rightarrow> txfee_IConfiguration \<Rightarrow> byte list" where
  "encode_txfee_Configuration P message =
     put P 10 (\<lambda>v. ldelim P (encode_weave_Metadata P v)) (tfc_metadata message) @
     put P 18 (pw_bytes P) (tfc_owner message) @
     put P 24 (pw_int32 P) (tfc_freeBytes message) @
     put P 34 (\<lambda>v. ldelim P (encode_coin_Coin P v)) (tfc_baseFee message)"

definition field_txfee_Configuration :: "proto_lib \<Rightarrow> txfee_IConfiguration \<Rightarrow> int \<Rightarrow> byte list \<Rightarrow> (txfee_IConfiguration \<times> byte list) result" where
  "field_txfee_Configuration P message tag bs =
     (if tag div 8 = 1 then get (\<lambda>v. message\<lparr>tfc_metadata := Some v\<rparr>) (get_message P (decode_weave_Metadata P) bs)
      else if tag div 8 = 2 then get (\<lambda>v. message\<lparr>tfc_owner := Some v\<rparr>) (pr_bytes P bs)
      else if tag div 8 = 3 then get (\<lambda>v. message\<lparr>tfc_freeBytes := Some (int_num v)\<rparr>) (pr_int32 P bs)
      else if tag div 8 = 4 then get (\<lambda>v. message\<lparr>tfc_baseFee := Some v\<rparr>) (get_message P (decode_coin_Coin P) bs)
      else skip P tag message bs)"

definition decode_txfee_Configuration :: "proto_lib \<Rightarrow> byte list \<Rightarrow> int \<Rightarrow> (txfee_IConfiguration \<times> byte list) result" where
  "decode_txfee_Configuration P = read_message P (field_txfee_Configuration P) new_txfee_Configuration"

definition valid_txfee_Configuration :: "txfee_IConfiguration \<Rightarrow> bool" where
  "valid_txfee_Configuration message \<longleftrightarrow> pred_option valid_weave_Metadata (tfc_metadata message) \<and>
     pred_option is_int32 (tfc_freeBytes message) \<and>
     pred_option valid_coin_Coin (tfc_baseFee message)"

lemma decodes_txfee_Configuration:
  assumes P: "proto_laws P" and "valid_txfee_Configuration m"
  shows "decodes (decode_txfee_Configuration P) (encode_txfee_Configuration P m) (norm_txfee_IConfiguration m)"
proof -
  have "writes P (field_txfee_Configuration P) (encode_txfee_Configuration P m) new_txfee_Configuration
      (set_field tfc_baseFee_update (map_option norm_coin_ICoin (tfc_baseFee m)) (set_field tfc_freeBytes_update (norm_number (tfc_freeBytes m)) (set_field tfc_owner_update (norm_bytes (tfc_owner m)) (set_field tfc_metadata_update (map_option norm_weave_IMetadata (tfc_metadata m)) new_txfee_Configuration))))"
    unfolding encode_txfee_Configuration_def
    by (rule writes_chain
        | rule writes_message [where valid = valid_weave_Metadata, OF P _ _ decodes_weave_Metadata [OF P]]
        | rule writes_bytes [OF P]
        | rule writes_int32 [OF P]
        | rule writes_message [where valid = valid_coin_Coin, OF P _ _ decodes_coin_Coin [OF P]]
        | (simp add: field_txfee_Configuration_def new_txfee_Configuration_def set_field_def elements_def is_uint32_def assms(2) [unfolded valid_txfee_Configuration_def]; fail))+
  then show ?thesis
    unfolding decode_txfee_Configuration_def by (intro decodes_message) (simp add: set_field_def new_txfee_Configuration_def norm_txfee_IConfiguration_def)
qed

section \<open>txfee.UpdateConfigurationMsg\<close>

definition new_txfee_UpdateConfigurationMsg :: txfee_IUpdateConfigurationMsg where
  "new_txfee_UpdateConfigurationMsg = \<lparr>tfu_metadata = None, tfu_patch = None\<rparr>"

definition encode_txfee_UpdateConfigurationMsg :: "proto_lib \<Rightarrow> txfee_IUpdateConfigurationMsg \<Rightarrow> byte list" where
  "encode_txfee_UpdateConfigurationMsg P message =
     put P 10 (\<lambda>v. ldelim P (encode_weave_Metadata P v)) (tfu_metadata message) @
     put P 18 (\<lambda>v. ldelim P (encode_txfee_Configuration P v)) (tfu_patch message)"

definition field_txfee_UpdateConfigurationMsg :: "proto_lib \<Rightarrow> txfee_IUpdateConfigurationMsg \<Rightarrow> int \<Rightarrow> byte list \<Rightarrow> (txfee_IUpdateConfigurationMsg \<times> byte list) result" where
  "field_txfee_UpdateConfigurationMsg P message tag bs =
     (if tag div 8 = 1 then get (\<lambda>v. message\<lparr>tfu_metadata := Some v\<rparr>) (get_message P (decode_weave_Metadata P) bs)
      else if tag div 8 = 2 then get (\<lambda>v. message\<lparr>tfu_patch := Some v\<rparr>) (get_message P (decode_txfee_Configuration P) bs)
      else skip P tag message bs)"

definition decode_txfee_UpdateConfigurationMsg :: "proto_lib \<Rightarrow> byte list \<Rightarrow> int \<Rightarrow> (txfee_IUpdateConfigurationMsg \<times> byte list) result" where
  "decode_txfee_UpdateConfigurationMsg P = read_message P (field_txfee_UpdateConfigurationMsg P) new_txfee_UpdateConfigurationMsg"

definition valid_txfee_UpdateConfigurationMsg :: "txfee_IUpdateConfigurationMsg \<Rightarrow> bool" where
  "valid_txfee_UpdateConfigurationMsg message \<longleftrightarrow> pred_option valid_weave_Metadata (tfu_metadata message) \<and>
     pred_option valid_txfee_Configuration (tfu_patch message)"

lemma decodes_txfee_UpdateConfigurationMsg:
  assumes P: "proto_laws P" and "valid_txfee_UpdateConfigurationMsg m"
  shows "decodes (decode_txfee_UpdateConfigurationMsg P) (encode_txfee_UpdateConfigurationMsg P m) (norm_txfee_IUpdateConfigurationMsg m)"
proof -
  have "writes P (field_txfee_UpdateConfigurationMsg P) (encode_txfee_UpdateConfigurationMsg P m) new_txfee_UpdateConfigurationMsg
      (set_field tfu_patch_update (map_option norm_txfee_IConfiguration (tfu_patch m)) (set_field tfu_metadata_update (map_option norm_weave_IMetadata (tfu_metadata m)) new_txfee_UpdateConfigurationMsg))"
    unfolding encode_txfee_UpdateConfigurationMsg_def
    by (rule writes_chain
        | rule writes_message [where valid = valid_weave_Metadata, OF P _ _ decodes_weave_Metadata [OF P]]
        | rule writes_message [where valid = valid_txfee_Configuration, OF P _ _ decodes_txfee_Configuration [OF P]]
        | (simp add: field_txfee_UpdateConfigurationMsg_def new_txfee_UpdateConfigurationMsg_def set_field_def elements_def is_uint32_def assms(2) [unfolded valid_txfee_UpdateConfigurationMsg_def]; fail))+
  then show ?thesis
    unfolding decode_txfee_UpdateConfigurationMsg_def by (intro decodes_message) (simp add: set_field_def new_txfee_UpdateConfigurationMsg_def norm_txfee_IUpdateConfigurationMsg_def)
qed

section \<open>termdeposit.DepositBonus\<close>

definition new_termdeposit_DepositBonus :: termdeposit_IDepositBonus where
  "new_termdeposit_DepositBonus = \<lparr>tdb_lockinPeriod = Some (int_num 0), tdb_bonus = None\<rparr>"

definition encode_termdeposit_DepositBonus :: "proto_lib \<Rightarrow> termdeposit_IDepositBonus \<Rightarrow> byte list" where
  "encode_termdeposit_DepositBonus P message =
     put P 8 (pw_int32 P) (tdb_lockinPeriod message) @
     put P 18 (\<lambda>v. ldelim P (encode_weave_Fraction P v)) (tdb_bonus message)"

definition field_termdeposit_DepositBonus :: "proto_lib \<Rightarrow> termdeposit_IDepositBonus \<Rightarrow> int \<Rightarrow> byte list \<Rightarrow> (termdeposit_IDepositBonus \<times> byte list) result" where
  "field_termdeposit_DepositBonus P message tag bs =
     (if tag div 8 = 1 then get (\<lambda>v. message\<lparr>tdb_lockinPeriod := Some (int_num v)\<rparr>) (pr_int32 P bs)
      else if tag div 8 = 2 then get (\<lambda>v. message\<lparr>tdb_bonus := Some v\<rparr>) (get_message P (decode_weave_Fraction P) bs)
      else skip P tag message bs)"

definition decode_termdeposit_DepositBonus :: "proto_lib \<Rightarrow> byte list \<Rightarrow> int \<Rightarrow> (termdeposit_IDepositBonus \<times> byte list) result" where
  "decode_termdeposit_DepositBonus P = read_message P (field_termdeposit_DepositBonus P) new_termdeposit_DepositBonus"

definition valid_termdeposit_DepositBonus :: "termdeposit_IDepositBonus \<Rightarrow> bool" where
  "valid_termdeposit_DepositBonus message \<longleftrightarrow> pred_option is_int32 (tdb_lockinPeriod message) \<and>
     pred_option valid_weave_Fraction (tdb_bonus message)"

lemma decodes_termdeposit_DepositBonus:
  assumes P: "proto_laws P" and "valid_termdeposit_DepositBonus m"
  shows "decodes (decode_termdeposit_DepositBonus P) (encode_termdeposit_DepositBonus P m) (norm_termdeposit_IDepositBonus m)"
proof -
  have "writes P (field_termdeposit_DepositBonus P) (encode_termdeposit_DepositBonus P m) new_termdeposit_DepositBonus
      (set_field tdb_bonus_update (map_option norm_IFraction (tdb_bonus m)) (set_field tdb_lockinPeriod_update (norm_number (tdb_lockinPeriod m)) new_termdeposit_DepositBonus))"
    unfolding encode_termdeposit_DepositBonus_def
    by (rule writes_chain
        | rule writes_int32 [OF P]
        | rule writes_message [where valid = valid_weave_Fraction, OF P _ _ decodes_weave_Fraction [OF P]]
        | (simp add: field_termdeposit_DepositBonus_def new_termdeposit_DepositBonus_def set_field_def elements_def is_uint32_def assms(2) [unfolded valid_termdeposit_DepositBonus_def]; fail))+
  then show ?thesis
    unfolding decode_termdeposit_DepositBonus_def by (intro decodes_message) (simp add: set_field_def new_termdeposit_DepositBonus_def norm_termdeposit_IDepositBonus_def)
qed

section \<open>termdeposit.CustomRate\<close>

definition new_termdeposit_CustomRate :: termdeposit_ICustomRate where
  "new_termdeposit_CustomRate = \<lparr>tdr_address = Some [], tdr_rate = None\<rparr>"

definition encode_termdeposit_CustomRate :: "proto_lib \<Rightarrow> termdeposit_ICustomRate \<Rightarrow> byte list" where
  "encode_termdeposit_CustomRate P message =
     put P 10 (pw_bytes P) (tdr_address message) @
     put P 18 (\<lambda>v. ldelim P (encode_weave_Fraction P v)) (tdr_rate message)"

definition field_termdeposit_CustomRate :: "proto_lib \<Rightarrow> termdeposit_ICustomRate \<Rightarrow> int \<Rightarrow> byte list \<Rightarrow> (termdeposit_ICustomRate \<times> byte list) result" where
  "field_termdeposit_CustomRate P message tag bs =
     (if tag div 8 = 1 then get (\<lambda>v. message\<lparr>tdr_address := Some v\<rparr>) (pr_bytes P bs)
      else if tag div 8 = 2 then get (\<lambda>v. message\<lparr>tdr_rate := Some v\<rparr>) (get_message P (decode_weave_Fraction P) bs)
      else skip P tag message bs)"

definition decode_termdeposit_CustomRate :: "proto_lib \<Rightarrow> byte list \<Rightarrow> int \<Rightarrow> (termdeposit_ICustomRate \<times> byte list) result" where
  "decode_termdeposit_CustomRate P = read_message P (field_termdeposit_CustomRate P) new_termdeposit_CustomRate"

definition valid_termdeposit_CustomRate :: "termdeposit_ICustomRate \<Rightarrow> bool" where
  "valid_termdeposit_CustomRate message \<longleftrightarrow> pred_option valid_weave_Fraction (tdr_rate message)"

lemma decodes_termdeposit_CustomRate:
  assumes P: "proto_laws P" and "valid_termdeposit_CustomRate m"
  shows "decodes (decode_termdeposit_CustomRate P) (encode_termdeposit_CustomRate P m) (norm_termdeposit_ICustomRate m)"
proof -
  have "writes P (field_termdeposit_CustomRate P) (encode_termdeposit_CustomRate P m) new_termdeposit_CustomRate
      (set_field tdr_rate_update (map_option norm_IFraction (tdr_rate m)) (set_field tdr_address_update (norm_bytes (tdr_address m)) new_termdeposit_CustomRate))"
    unfolding encode_termdeposit_CustomRate_def
    by (rule writes_chain
        | rule writes_bytes [OF P]
        | rule writes_message [where valid = valid_weave_Fraction, OF P _ _ decodes_weave_Fraction [OF P]]
        | (simp add: field_termdeposit_CustomRate_def new_termdeposit_CustomRate_def set_field_def elements_def is_uint32_def assms(2) [unfolded valid_termdeposit_CustomRate_def]; fail))+
  then show ?thesis
    unfolding decode_termdeposit_CustomRate_def by (intro decodes_message) (simp add: set_field_def new_termdeposit_CustomRate_def norm_termdeposit_ICustomRate_def)
qed

section \<open>termdeposit.Configuration\<close>

definition new_termdeposit_Configuration :: termdeposit_IConfiguration where
  "new_termdeposit_Configuration = \<lparr>tdc_metadata = None, tdc_owner = Some [], tdc_admin = Some [], tdc_bonuses = Some [], tdc_baseRates = Some []\<rparr>"

definition encode_termdeposit_Configuration :: "proto_lib \<Rightarrow> termdeposit_IConfiguration \<Rightarrow> byte list" where
  "encode_termdeposit_Configuration P message =
     put P 10 (\<lambda>v. ldelim P (encode_weave_Metadata P v)) (tdc_metadata message) @
     put P 18 (pw_bytes P) (tdc_owner message) @
     put P 26 (pw_bytes P) (tdc_admin message) @
     put_each P 34 (\<lambda>v. ldelim P (encode_termdeposit_DepositBonus P v)) (tdc_bonuses message) @
     put_each P 42 (\<lambda>v. ldelim P (encode_termdeposit_CustomRate P v)) (tdc_baseRates message)"

definition field_termdeposit_Configuration :: "proto_lib \<Rightarrow> termdeposit_IConfiguration \<Rightarrow> int \<Rightarrow> byte list \<Rightarrow> (termdeposit_IConfiguration \<times> byte list) result" where
  "field_termdeposit_Configuration P message tag bs =
     (if tag div 8 = 1 then get (\<lambda>v. message\<lparr>tdc_metadata := Some v\<rparr>) (get_message P (decode_weave_Metadata P) bs)
      else if tag div 8 = 2 then get (\<lambda>v. message\<lparr>tdc_owner := Some v\<rparr>) (pr_bytes P bs)
      else if tag div 8 = 3 then get (\<lambda>v. message\<lparr>tdc_admin := Some v\<rparr>) (pr_bytes P bs)
      else if tag div 8 = 4 then get (\<lambda>v. message\<lparr>tdc_bonuses := Some (elements (tdc_bonuses message) @ [v])\<rparr>) (get_message P (decode_termdeposit_DepositBonus P) bs)
      else if tag div 8 = 5 then get (\<lambda>v. message\<lparr>tdc_baseRates := Some (elements (tdc_baseRates message) @ [v])\<rparr>) (get_message P (decode_termdeposit_CustomRate P) bs)
      else skip P tag message bs)"

definition decode_termdeposit_Configuration :: "proto_lib \<Rightarrow> byte list \<Rightarrow> int \<Rightarrow> (termdeposit_IConfiguration \<times> byte list) result" where
  "decode_termdeposit_Configuration P = read_message P (field_termdeposit_Configuration P) new_termdeposit_Configuration"

definition valid_termdeposit_Configuration :: "termdeposit_IConfiguration \<Rightarrow> bool" where
  "valid_termdeposit_Configuration message \<longleftrightarrow> pred_option valid_weave_Metadata (tdc_metadata message) \<and>
     pred_option (list_all valid_termdeposit_DepositBonus) (tdc_bonuses message) \<and>
     pred_option (list_all valid_termdeposit_CustomRate) (tdc_baseRates message)"

lemma decodes_termdeposit_Configuration:
  assumes P: "proto_laws P" and "valid_termdeposit_Configuration m"
  shows "decodes (decode_termdeposit_Configuration P) (encode_termdeposit_Configuration P m) (norm_termdeposit_IConfiguration m)"
proof -
  have "writes P (field_termdeposit_Configuration P) (encode_termdeposit_Configuration P m) new_termdeposit_Configuration
      (set_field tdc_baseRates_update (norm_repeated norm_termdeposit_ICustomRate (tdc_baseRates m)) (set_field tdc_bonuses_update (norm_repeated norm_termdeposit_IDepositBonus (tdc_bonuses m)) (set_field tdc_admin_update (norm_bytes (tdc_admin m)) (set_field tdc_owner_update (norm_bytes (tdc_owner m)) (set_field tdc_metadata_update (map_option norm_weave_IMetadata (tdc_metadata m)) new_termdeposit_Configuration)))))"
    unfolding encode_termdeposit_Configuration_def
    by (rule writes_chain
        | rule writes_message [where valid = valid_weave_Metadata, OF P _ _ decodes_weave_Metadata [OF P]]
        | rule writes_bytes [OF P]
        | rule writes_messages [where valid = valid_termdeposit_DepositBonus, OF P _ _ decodes_termdeposit_DepositBonus [OF P]]
        | rule writes_messages [where valid = valid_termdeposit_CustomRate, OF P _ _ decodes_termdeposit_CustomRate [OF P]]
        | (simp add: field_termdeposit_Configuration_def new_termdeposit_Configuration_def set_field_def elements_def is_uint32_def assms(2) [unfolded valid_termdeposit_Configuration_def]; fail))+
  then show ?thesis
    unfolding decode_termdeposit_Configuration_def by (intro decodes_message) (simp add: set_field_def new_termdeposit_Configuration_def norm_termdeposit_IConfiguration_def)
qed

section \<open>termdeposit.UpdateConfigurationMsg\<close>

definition new_termdeposit_UpdateConfigurationMsg :: termdeposit_IUpdateConfigurationMsg where
  "new_termdeposit_UpdateConfigurationMsg = \<lparr>tdu_metadata = None, tdu_patch = None\<rparr>"

definition encode_termdeposit_UpdateConfigurationMsg :: "proto_lib \<Rightarrow> termdeposit_IUpdateConfigurationMsg \<Rightarrow> byte list" where
  "encode_termdeposit_UpdateConfigurationMsg P message =
     put P 10 (\<lambda>v. ldelim P (encode_weave_Metadata P v)) (tdu_metadata message) @
     put P 18 (\<lambda>v. ldelim P (encode_termdeposit_Configuration P v)) (tdu_patch message)"

definition field_termdeposit_UpdateConfigurationMsg :: "proto_lib \<Rightarrow> termdeposit_IUpdateConfigurationMsg \<Rightarrow> int \<Rightarrow> byte list \<Rightarrow> (termdeposit_IUpdateConfigurationMsg \<times> byte list) result" where
  "field_termdeposit_UpdateConfigurationMsg P message tag bs =
     (if tag div 8 = 1 then get (\<lambda>v. message\<lparr>tdu_metadata := Some v\<rparr>) (get_message P (decode_weave_Metadata P) bs)
      else if tag div 8 = 2 then get (\<lambda>v. message\<lparr>tdu_patch := Some v\<rparr>) (get_message P (decode_termdeposit_Configuration P) bs)
      else skip P tag message bs)"

definition decode_termdeposit_UpdateConfigurationMsg :: "proto_lib \<Rightarrow> byte list \<Rightarrow> int \<Rightarrow> (termdeposit_IUpdateConfigurationMsg \<times> byte list) result" where
  "decode_termdeposit_UpdateConfigurationMsg P = read_message P (field_termdeposit_UpdateConfigurationMsg P) new_termdeposit_UpdateConfigurationMsg"

definition valid_termdeposit_UpdateConfigurationMsg :: "termdeposit_IUpdateConfigurationMsg \<Rightarrow> bool" where
  "valid_termdeposit_UpdateConfigurationMsg message \<longleftrightarrow> pred_option valid_weave_Metadata (tdu_metadata message) \<and>
     pred_option valid_termdeposit_Configuration (tdu_patch message)"

lemma decodes_termdeposit_UpdateConfigurationMsg:
  assumes P: "proto_laws P" and "valid_termdeposit_UpdateConfigurationMsg m"
  shows "decodes (decode_termdeposit_UpdateConfigurationMsg P) (encode_termdeposit_UpdateConfigurationMsg P m) (norm_termdeposit_IUpdateConfigurationMsg m)"
proof -
  have "writes P (field_termdeposit_UpdateConfigurationMsg P) (encode_termdeposit_UpdateConfigurationMsg P m) new_termdeposit_UpdateConfigurationMsg
      (set_field tdu_patch_update (map_option norm_termdeposit_IConfiguration (tdu_patch m)) (set_field tdu_metadata_update (map_option norm_weave_IMetadata (tdu_metadata m)) new_termdeposit_UpdateConfigurationMsg))"
    unfolding encode_termdeposit_UpdateConfigurationMsg_def
    by (rule writes_chain
        | rule writes_message [where valid = valid_weave_Metadata, OF P _ _ decodes_weave_Metadata [OF P]]
        | rule writes_message [where valid = valid_termdeposit_Configuration, OF P _ _ decodes_termdeposit_Configuration [OF P]]
        | (simp add: field_termdeposit_UpdateConfigurationMsg_def new_termdeposit_UpdateConfigurationMsg_def set_field_def elements_def is_uint32_def assms(2) [unfolded valid_termdeposit_UpdateConfigurationMsg_def]; fail))+
  then show ?thesis
    unfolding decode_termdeposit_UpdateConfigurationMsg_def by (intro decodes_message) (simp add: set_field_def new_termdeposit_UpdateConfigurationMsg_def norm_termdeposit_IUpdateConfigurationMsg_def)
qed

section \<open>qualityscore.Configuration\<close>

definition new_qualityscore_Configuration :: qualityscore_IConfiguration where
  "new_qualityscore_Configuration = \<lparr>qsc_metadata = None, qsc_owner = Some [], qsc_c = None, qsc_k = None, qsc_kp = None, qsc_q0 = None, qsc_x = None, qsc_xInf = None, qsc_xSup = None, qsc_delta = None\<rparr>"

definition encode_qualityscore_Configuration :: "proto_lib \<Rightarrow> qualityscore_IConfiguration \<Rightarrow> byte list" where
  "encode_qualityscore_Configuration P message =
     put P 10 (\<lambda>v. ldelim P (encode_weave_Metadata P v)) (qsc_metadata message) @
     put P 18 (pw_bytes P) (qsc_owner message) @
     put P 26 (\<lambda>v. ldelim P (encode_weave_Fraction P v)) (qsc_c message) @
     put P 34 (\<lambda>v. ldelim P (encode_weave_Fraction P v)) (qsc_k message) @
     put P 42 (\<lambda>v. ldelim P (encode_weave_Fraction P v)) (qsc_kp message) @
     put P 50 (\<lambda>v. ldelim P (encode_weave_Fraction P v)) (qsc_q0 message) @
     put P 58 (\<lambda>v. ldelim P (encode_weave_Fraction P v)) (qsc_x message) @
     put P 66 (\<lambda>v. ldelim P (encode_weave_Fraction P v)) (qsc_xInf message) @
     put P 74 (\<lambda>v. ldelim P (encode_weave_Fraction P v)) (qsc_xSup message) @
     put P 82 (\<lambda>v. ldelim P (encode_weave_Fraction P v)) (qsc_delta message)"

definition field_qualityscore_Configuration :: "proto_lib \<Rightarrow> qualityscore_IConfiguration \<Rightarrow> int \<Rightarrow> byte list \<Rightarrow> (qualityscore_IConfiguration \<times> byte list) result" where
  "field_qualityscore_Configuration P message tag bs =
     (if tag div 8 = 1 then get (\<lambda>v. message\<lparr>qsc_metadata := Some v\<rparr>) (get_message P (decode_weave_Metadata P) bs)
      else if tag div 8 = 2 then get (\<lambda>v. message\<lparr>qsc_owner := Some v\<rparr>) (pr_bytes P bs)
      else if tag div 8 = 3 then get (\<lambda>v. message\<lparr>qsc_c := Some v\<rparr>) (get_message P (decode_weave_Fraction P) bs)
      else if tag div 8 = 4 then get (\<lambda>v. message\<lparr>qsc_k := Some v\<rparr>) (get_message P (decode_weave_Fraction P) bs)
      else if tag div 8 = 5 then get (\<lambda>v. message\<lparr>qsc_kp := Some v\<rparr>) (get_message P (decode_weave_Fraction P) bs)
      else if tag div 8 = 6 then get (\<lambda>v. message\<lparr>qsc_q0 := Some v\<rparr>) (get_message P (decode_weave_Fraction P) bs)
      else if tag div 8 = 7 then get (\<lambda>v. message\<lparr>qsc_x := Some v\<rparr>) (get_message P (decode_weave_Fraction P) bs)
      else if tag div 8 = 8 then get (\<lambda>v. message\<lparr>qsc_xInf := Some v\<rparr>) (get_message P (decode_weave_Fraction P) bs)
      else if tag div 8 = 9 then get (\<lambda>v. message\<lparr>qsc_xSup := Some v\<rparr>) (get_message P (decode_weave_Fraction P) bs)
      else if tag div 8 = 10 then get (\<lambda>v. message\<lparr>qsc_delta := Some v\<rparr>) (get_message P (decode_weave_Fraction P) bs)
      else skip P tag message bs)"

definition decode_qualityscore_Configuration :: "proto_lib \<Rightarrow> byte list \<Rightarrow> int \<Rightarrow> (qualityscore_IConfiguration \<times> byte list) result" where
  "decode_qualityscore_Configuration P = read_message P (field_qualityscore_Configuration P) new_qualityscore_Configuration"

definition valid_qualityscore_Configuration :: "qualityscore_IConfiguration \<Rightarrow> bool" where
  "valid_qualityscore_Configuration message \<longleftrightarrow> pred_option valid_weave_Metadata (qsc_metadata message) \<and>
     pred_option valid_weave_Fraction (qsc_c message) \<and>
     pred_option valid_weave_Fraction (qsc_k message) \<and>
     pred_option valid_weave_Fraction (qsc_kp message) \<and>
     pred_option valid_weave_Fraction (qsc_q0 message) \<and>
     pred_option valid_weave_Fraction (qsc_x message) \<and>
     pred_option valid_weave_Fraction (qsc_xInf message) \<and>
     pred_option valid_weave_Fraction (qsc_xSup message) \<and>
     pred_option valid_weave_Fraction (qsc_delta message)"

lemma decodes_qualityscore_Configuration:
  assumes P: "proto_laws P" and "valid_qualityscore_Configuration m"
  shows "decodes (decode_qualityscore_Configuration P) (encode_qualityscore_Configuration P m) (norm_qualityscore_IConfiguration m)"
proof -
  have "writes P (field_qualityscore_Configuration P) (encode_qualityscore_Configuration P m) new_qualityscore_Configuration
      (set_field qsc_delta_update (map_option norm_IFraction (qsc_delta m)) (set_field qsc_xSup_update (map_option norm_IFraction (qsc_xSup m)) (set_field qsc_xInf_update (map_option norm_IFraction (qsc_xInf m)) (set_field qsc_x_update (map_option norm_IFraction (qsc_x m)) (set_field qsc_q0_update (map_option norm_IFraction (qsc_q0 m)) (set_field qsc_kp_update (map_option norm_IFraction (qsc_kp m)) (set_field qsc_k_update (map_option norm_IFraction (qsc_k m)) (set_field qsc_c_update (map_option norm_IFraction (qsc_c m)) (set_field qsc_owner_update (norm_bytes (qsc_owner m)) (set_field qsc_metadata_update (map_option norm_weave_IMetadata (qsc_metadata m)) new_qualityscore_Configuration))))))))))"
    unfolding encode_qualityscore_Configuration_def
    by (rule writes_chain
        | rule writes_message [where valid = valid_weave_Metadata, OF P _ _ decodes_weave_Metadata [OF P]]
        | rule writes_bytes [OF P]
        | rule writes_message [where valid = valid_weave_Fraction, OF P _ _ decodes_weave_Fraction [OF P]]
        | (simp add: field_qualityscore_Configuration_def new_qualityscore_Configuration_def set_field_def elements_def is_uint32_def assms(2) [unfolded valid_qualityscore_Configuration_def]; fail))+
  then show ?thesis
    unfolding decode_qualityscore_Configuration_def by (intro decodes_message) (simp add: set_field_def new_qualityscore_Configuration_def norm_qualityscore_IConfiguration_def)
qed

section \<open>qualityscore.UpdateConfigurationMsg\<close>

definition new_qualityscore_UpdateConfigurationMsg :: qualityscore_IUpdateConfigurationMsg where
  "new_qualityscore_UpdateConfigurationMsg = \<lparr>qsu_metadata = None, qsu_patch = None\<rparr>"

definition encode_qualityscore_UpdateConfigurationMsg :: "proto_lib \<Rightarrow> qualityscore_IUpdateConfigurationMsg \<Rightarrow> byte list" where
  "encode_qualityscore_UpdateConfigurationMsg P message =
     put P 10 (\<lambda>v. ldelim P (encode_weave_Metadata P v)) (qsu_metadata message) @
     put P 18 (\<lambda>v. ldelim P (encode_qualityscore_Configuration P v)) (qsu_patch message)"

definition field_qualityscore_UpdateConfigurationMsg :: "proto_lib \<Rightarrow> qualityscore_IUpdateConfigurationMsg \<Rightarrow> int \<Rightarrow> byte list \<Rightarrow> (qualityscore_IUpdateConfigurationMsg \<times> byte list) result" where
  "field_qualityscore_UpdateConfigurationMsg P message tag bs =
     (if tag div 8 = 1 then get (\<lambda>v. message\<lparr>qsu_metadata := Some v\<rparr>) (get_message P (decode_weave_Metadata P) bs)
      else if tag div 8 = 2 then get (\<lambda>v. message\<lparr>qsu_patch := Some v\<rparr>) (get_message P (decode_qualityscore_Configuration P) bs)
      else skip P tag message bs)"

definition decode_qualityscore_UpdateConfigurationMsg :: "proto_lib \<Rightarrow> byte list \<Rightarrow> int \<Rightarrow> (qualityscore_IUpdateConfigurationMsg \<times> byte list) result" where
  "decode_qualityscore_UpdateConfigurationMsg P = read_message P (field_qualityscore_UpdateConfigurationMsg P) new_qualityscore_UpdateConfigurationMsg"

definition valid_qualityscore_UpdateConfigurationMsg :: "qualityscore_IUpdateConfigurationMsg \<Rightarrow> bool" where
  "valid_qualityscore_UpdateConfigurationMsg message \<longleftrightarrow> pred_option valid_weave_Metadata (qsu_metadata message) \<and>
     pred_option valid_qualityscore_Configuration (qsu_patch message)"

lemma decodes_qualityscore_UpdateConfigurationMsg:
  assumes P: "proto_laws P" and "valid_qualityscore_UpdateConfigurationMsg m"
  shows "decodes (decode_qualityscore_UpdateConfigurationMsg P) (encode_qualityscore_UpdateConfigurationMsg P m) (norm_qualityscore_IUpdateConfigurationMsg m)"
proof -
  have "writes P (field_qualityscore_UpdateConfigurationMsg P) (encode_qualityscore_UpdateConfigurationMsg P m) new_qualityscore_UpdateConfigurationMsg
      (set_field qsu_patch_update (map_option norm_qualityscore_IConfiguration (qsu_patch m)) (set_field qsu_metadata_update (map_option norm_weave_IMetadata (qsu_metadata m)) new_qualityscore_UpdateConfigurationMsg))"
    unfolding encode_qualityscore_UpdateConfigurationMsg_def
    by (rule writes_chain
        | rule writes_message [where valid = valid_weave_Metadata, OF P _ _ decodes_weave_Metadata [OF P]]
        | rule writes_message [where valid = valid_qualityscore_Configuration, OF P _ _ decodes_qualityscore_Configuration [OF P]]
        | (simp add: field_qualityscore_UpdateConfigurationMsg_def new_qualityscore_UpdateConfigurationMsg_def set_field_def elements_def is_uint32_def assms(2) [unfolded valid_qualityscore_UpdateConfigurationMsg_def]; fail))+
  then show ?thesis
    unfolding decode_qualityscore_UpdateConfigurationMsg_def by (intro decodes_message) (simp add: set_field_def new_qualityscore_UpdateConfigurationMsg_def norm_qualityscore_IUpdateConfigurationMsg_def)
qed

section \<open>preregistration.Configuration\<close>

definition new_preregistration_Configuration :: preregistration_IConfiguration where
  "new_preregistration_Configuration = \<lparr>prc_metadata = None, prc_owner = Some []\<rparr>"

definition encode_preregistration_Configuration :: "proto_lib \<Rightarrow> preregistration_IConfiguration \<Rightarrow> byte list" where
  "encode_preregistration_Configuration P message =
     put P 10 (\<lambda>v. ldelim P (encode_weave_Metadata P v)) (prc_metadata message) @
     put P 18 (pw_bytes P) (prc_owner message)"

definition field_preregistration_Configuration :: "proto_lib \<Rightarrow> preregistration_IConfiguration \<Rightarrow> int \<Rightarrow> byte list \<Rightarrow> (preregistration_IConfiguration \<times> byte list) result" where
  "field_preregistration_Configuration P message tag bs =
     (if tag div 8 = 1 then get (\<lambda>v. message\<lparr>prc_metadata := Some v\<rparr>) (get_message P (decode_weave_Metadata P) bs)
      else if tag div 8 = 2 then get (\<lambda>v. message\<lparr>prc_owner := Some v\<rparr>) (pr_bytes P bs)
      else skip P tag message bs)"

definition decode_preregistration_Configuration :: "proto_lib \<Rightarrow> byte list \<Rightarrow> int \<Rightarrow> (preregistration_IConfiguration \<times> byte list) result" where
  "decode_preregistration_Configuration P = read_message P (field_preregistration_Configuration P) new_preregistration_Configuration"

definition valid_preregistration_Configuration :: "preregistration_IConfiguration \<Rightarrow> bool" where
  "valid_preregistration_Configuration message \<longleftrightarrow> pred_option valid_weave_Metadata (prc_metadata message)"

lemma decodes_preregistration_Configuration:
  assumes P: "proto_laws P" and "valid_preregistration_Configuration m"
  shows "decodes (decode_preregistration_Configuration P) (encode_preregistration_Configuration P m) (norm_preregistration_IConfiguration m)"
proof -
  have "writes P (field_preregistration_Configuration P) (encode_preregistration_Configuration P m) new_preregistration_Configuration
      (set_field prc_owner_update (norm_bytes (prc_owner m)) (set_field prc_metadata_update (map_option norm_weave_IMetadata (prc_metadata m)) new_preregistration_Configuration))"
    unfolding encode_preregistration_Configuration_def
    by (rule writes_chain
        | rule writes_message [where valid = valid_weave_Metadata, OF P _ _ decodes_weave_Metadata [OF P]]
        | rule writes_bytes [OF P]
        | (simp add: field_preregistration_Configuration_def new_preregistration_Configuration_def set_field_def elements_def is_uint32_def assms(2) [unfolded valid_preregistration_Configuration_def]; fail))+
  then show ?thesis
    unfolding decode_preregistration_Configuration_def by (intro decodes_message) (simp add: set_field_def new_preregistration_Configuration_def norm_preregistration_IConfiguration_def)
qed

section \<open>preregistration.UpdateConfigurationMsg\<close>

definition new_preregistration_UpdateConfigurationMsg :: preregistration_IUpdateConfigurationMsg where
  "new_preregistration_UpdateConfigurationMsg = \<lparr>pru_metadata = None, pru_patch = None\<rparr>"

definition encode_preregistration_UpdateConfigurationMsg :: "proto_lib \<Rightarrow> preregistration_IUpdateConfigurationMsg \<Rightarrow> byte list" where
  "encode_preregistration_UpdateConfigurationMsg P message =
     put P 10 (\<lambda>v. ldelim P (encode_weave_Metadata P v)) (pru_metadata message) @
     put P 18 (\<lambda>v. ldelim P (encode_preregistration_Configuration P v)) (pru_patch message)"

definition field_preregistration_UpdateConfigurationMsg :: "proto_lib \<Rightarrow> preregistration_IUpdateConfigurationMsg \<Rightarrow> int \<Rightarrow> byte list \<Rightarrow> (preregistration_IUpdateConfigurationMsg \<times> byte list) result" where
  "field_preregistration_UpdateConfigurationMsg P message tag bs =
     (if tag div 8 = 1 then get (\<lambda>v. message\<lparr>pru_metadata := Some v\<rparr>) (get_message P (decode_weave_Metadata P) bs)
      else if tag div 8 = 2 then get (\<lambda>v. message\<lparr>pru_patch := Some v\<rparr>) (get_message P (decode_preregistration_Configuration P) bs)
      else skip P tag message bs)"

definition decode_preregistration_UpdateConfigurationMsg :: "proto_lib \<Rightarrow> byte list \<Rightarrow> int \<Rightarrow> (preregistration_IUpdateConfigurationMsg \<times> byte list) result" where
  "decode_preregistration_UpdateConfigurationMsg P = read_message P (field_preregistration_UpdateConfigurationMsg P) new_preregistration_UpdateConfigurationMsg"

definition valid_preregistration_UpdateConfigurationMsg :: "preregistration_IUpdateConfigurationMsg \<Rightarrow> bool" where
  "valid_preregistration_UpdateConfigurationMsg message \<longleftrightarrow> pred_option valid_weave_Metadata (pru_metadata message) \<and>
     pred_option valid_preregistration_Configuration (pru_patch message)"

lemma decodes_preregistration_UpdateConfigurationMsg:
  assumes P: "proto_laws P" and "valid_preregistration_UpdateConfigurationMsg m"
  shows "decodes (decode_preregistration_UpdateConfigurationMsg P) (encode_preregistration_UpdateConfigurationMsg P m) (norm_preregistration_IUpdateConfigurationMsg m)"
proof -
  have "writes P (field_preregistration_UpdateConfigurationMsg P) (encode_preregistration_UpdateConfigurationMsg P m) new_preregistration_UpdateConfigurationMsg
      (set_field pru_patch_update (map_option norm_preregistration_IConfiguration (pru_patch m)) (set_field pru_metadata_update (map_option norm_weave_IMetadata (pru_metadata m)) new_preregistration_UpdateConfigurationMsg))"
    unfolding encode_preregistration_UpdateConfigurationMsg_def
    by (rule writes_chain
        | rule writes_message [where valid = valid_weave_Metadata, OF P _ _ decodes_weave_Metadata [OF P]]
        | rule writes_message [where valid = valid_preregistration_Configuration, OF P _ _ decodes_preregistration_Configuration [OF P]]
        | (simp add: field_preregistration_UpdateConfigurationMsg_def new_preregistration_UpdateConfigurationMsg_def set_field_def elements_def is_uint32_def assms(2) [unfolded valid_preregistration_UpdateConfigurationMsg_def]; fail))+
  then show ?thesis
    unfolding decode_preregistration_UpdateConfigurationMsg_def by (intro decodes_message) (simp add: set_field_def new_preregistration_UpdateConfigurationMsg_def norm_preregistration_IUpdateConfigurationMsg_def)
qed

section \<open>msgfee.Configuration\<close>

definition new_msgfee_Configuration :: msgfee_IConfiguration where
  "new_msgfee_Configuration = \<lparr>mfc_metadata = None, mfc_owner = Some [], mfc_feeAdmin = Some []\<rparr>"

definition encode_msgfee_Configuration :: "proto_lib \<Rightarrow> msgfee_IConfiguration \<Rightarrow> byte list" where
  "encode_msgfee_Configuration P message =
     put P 10 (\<lambda>v. ldelim P (encode_weave_Metadata P v)) (mfc_metadata message) @
     put P 18 (pw_bytes P) (mfc_owner message) @
     put P 26 (pw_bytes P) (mfc_feeAdmin message)"

definition field_msgfee_Configuration :: "proto_lib \<Rightarrow> msgfee_IConfiguration \<Rightarrow> int \<Rightarrow> byte list \<Rightarrow> (msgfee_IConfiguration \<times> byte list) result" where
  "field_msgfee_Configuration P message tag bs =
     (if tag div 8 = 1 then get (\<lambda>v. message\<lparr>mfc_metadata := Some v\<rparr>) (get_message P (decode_weave_Metadata P) bs)
      else if tag div 8 = 2 then get (\<lambda>v. message\<lparr>mfc_owner := Some v\<rparr>) (pr_bytes P bs)
      else if tag div 8 = 3 then get (\<lambda>v. message\<lparr>mfc_feeAdmin := Some v\<rparr>) (pr_bytes P bs)
      else skip P tag message bs)"

definition decode_msgfee_Configuration :: "proto_lib \<Rightarrow> byte list \<Rightarrow> int \<Rightarrow> (msgfee_IConfiguration \<times> byte list) result" where
  "decode_msgfee_Configuration P = read_message P (field_msgfee_Configuration P) new_msgfee_Configuration"

definition valid_msgfee_Configuration :: "msgfee_IConfiguration \<Rightarrow> bool" where
  "valid_msgfee_Configuration message \<longleftrightarrow> pred_option valid_weave_Metadata (mfc_metadata message)"

lemma decodes_msgfee_Configuration:
  assumes P: "proto_laws P" and "valid_msgfee_Configuration m"
  shows "decodes (decode_msgfee_Configuration P) (encode_msgfee_Configuration P m) (norm_msgfee_IConfiguration m)"
proof -
  have "writes P (field_msgfee_Configuration P) (encode_msgfee_Configuration P m) new_msgfee_Configuration
      (set_field mfc_feeAdmin_update (norm_bytes (mfc_feeAdmin m)) (set_field mfc_owner_update (norm_bytes (mfc_owner m)) (set_field mfc_metadata_update (map_option norm_weave_IMetadata (mfc_metadata m)) new_msgfee_Configuration)))"
    unfolding encode_msgfee_Configuration_def
    by (rule writes_chain
        | rule writes_message [where valid = valid_weave_Metadata, OF P _ _ decodes_weave_Metadata [OF P]]
        | rule writes_bytes [OF P]
        | (simp add: field_msgfee_Configuration_def new_msgfee_Configuration_def set_field_def elements_def is_uint32_def assms(2) [unfolded valid_msgfee_Configuration_def]; fail))+
  then show ?thesis
    unfolding decode_msgfee_Configuration_def by (intro decodes_message) (simp add: set_field_def new_msgfee_Configuration_def norm_msgfee_IConfiguration_def)
qed

section \<open>msgfee.UpdateConfigurationMsg\<close>

definition new_msgfee_UpdateConfigurationMsg :: msgfee_IUpdateConfigurationMsg where
  "new_msgfee_UpdateConfigurationMsg = \<lparr>mfu_metadata = None, mfu_patch = None\<rparr>"

definition encode_msgfee_UpdateConfigurationMsg :: "proto_lib \<Rightarrow> msgfee_IUpdateConfigurationMsg \<Rightarrow> byte list" where
  "encode_msgfee_UpdateConfigurationMsg P message =
     put P 10 (\<lambda>v. ldelim P (encode_weave_Metadata P v)) (mfu_metadata message) @
     put P 18 (\<lambda>v. ldelim P (encode_msgfee_Configuration P v)) (mfu_patch message)"

definition field_msgfee_UpdateConfigurationMsg :: "proto_lib \<Rightarrow> msgfee_IUpdateConfigurationMsg \<Rightarrow> int \<Rightarrow> byte list \<Rightarrow> (msgfee_IUpdateConfigurationMsg \<times> byte list) result" where
  "field_msgfee_UpdateConfigurationMsg P message tag bs =
     (if tag div 8 = 1 then get (\<lambda>v. message\<lparr>mfu_metadata := Some v\<rparr>) (get_message P (decode_weave_Metadata P) bs)
      else if tag div 8 = 2 then get (\<lambda>v. message\<lparr>mfu_patch := Some v\<rparr>) (get_message P (decode_msgfee_Configuration P) bs)
      else skip P tag message bs)"

definition decode_msgfee_UpdateConfigurationMsg :: "proto_lib \<Rightarrow> byte list \<Rightarrow> int \<Rightarrow> (msgfee_IUpdateConfigurationMsg \<times> byte list) result" where
  "decode_msgfee_UpdateConfigurationMsg P = read_message P (field_msgfee_UpdateConfigurationMsg P) new_msgfee_UpdateConfigurationMsg"

definition valid_msgfee_UpdateConfigurationMsg :: "msgfee_IUpdateConfigurationMsg \<Rightarrow> bool" where
  "valid_msgfee_UpdateConfigurationMsg message \<longleftrightarrow> pred_option valid_weave_Metadata (mfu_metadata message) \<and>
     pred_option valid_msgfee_Configuration (mfu_patch message)"

lemma decodes_msgfee_UpdateConfigurationMsg:
  assumes P: "proto_laws P" and "valid_msgfee_UpdateConfigurationMsg m"
  shows "decodes (decode_msgfee_UpdateConfigurationMsg P) (encode_msgfee_UpdateConfigurationMsg P m) (norm_msgfee_IUpdateConfigurationMsg m)"
proof -
  have "writes P (field_msgfee_UpdateConfigurationMsg P) (encode_msgfee_UpdateConfigurationMsg P m) new_msgfee_UpdateConfigurationMsg
      (set_field mfu_patch_update (map_option norm_msgfee_IConfiguration (mfu_patch m)) (set_field mfu_metadata_update (map_option norm_weave_IMetadata (mfu_metadata m)) new_msgfee_UpdateConfigurationMsg))"
    unfolding encode_msgfee_UpdateConfigurationMsg_def
    by (rule writes_chain
        | rule writes_message [where valid = valid_weave_Metadata, OF P _ _ decodes_weave_Metadata [OF P]]
        | rule writes_message [where valid = valid_msgfee_Configuration, OF P _ _ decodes_msgfee_Configuration [OF P]]
        | (simp add: field_msgfee_UpdateConfigurationMsg_def new_msgfee_UpdateConfigurationMsg_def set_field_def elements_def is_uint32_def assms(2) [unfolded valid_msgfee_UpdateConfigurationMsg_def]; fail))+
  then show ?thesis
    unfolding decode_msgfee_UpdateConfigurationMsg_def by (intro decodes_message) (simp add: set_field_def new_msgfee_UpdateConfigurationMsg_def norm_msgfee_IUpdateConfigurationMsg_def)
qed

section \<open>migration.UpgradeSchemaMsg\<close>

definition new_migration_UpgradeSchemaMsg :: migration_IUpgradeSchemaMsg where
  "new_migration_UpgradeSchemaMsg = \<lparr>us_metadata = None, us_pkg = Some [], us_toVersion = Some (int_num 0)\<rparr>"

definition encode_migration_UpgradeSchemaMsg :: "proto_lib \<Rightarrow> migration_IUpgradeSchemaMsg \<Rightarrow> byte list" where
  "encode_migration_UpgradeSchemaMsg P message =
     put P 10 (\<lambda>v. ldelim P (encode_weave_Metadata P v)) (us_metadata message) @
     put P 18 (pw_string P) (us_pkg message) @
     put P 24 (pw_uint32 P) (us_toVersion message)"

definition field_migration_UpgradeSchemaMsg :: "proto_lib \<Rightarrow> migration_IUpgradeSchemaMsg \<Rightarrow> int \<Rightarrow> byte list \<Rightarrow> (migration_IUpgradeSchemaMsg \<times> byte list) result" where
  "field_migration_UpgradeSchemaMsg P message tag bs =
     (if tag div 8 = 1 then get (\<lambda>v. message\<lparr>us_metadata := Some v\<rparr>) (get_message P (decode_weave_Metadata P) bs)
      else if tag div 8 = 2 then get (\<lambda>v. message\<lparr>us_pkg := Some v\<rparr>) (pr_string P bs)
      else if tag div 8 = 3 then get (\<lambda>v. message\<lparr>us_toVersion := Some (int_num v)\<rparr>) (pr_uint32 P bs)
      else skip P tag message bs)"

definition decode_migration_UpgradeSchemaMsg :: "proto_lib \<Rightarrow> byte list \<Rightarrow> int \<Rightarrow> (migration_IUpgradeSchemaMsg \<times> byte list) result" where
  "decode_migration_UpgradeSchemaMsg P = read_message P (field_migration_UpgradeSchemaMsg P) new_migration_UpgradeSchemaMsg"

definition valid_migration_UpgradeSchemaMsg :: "migration_IUpgradeSchemaMsg \<Rightarrow> bool" where
  "valid_migration_UpgradeSchemaMsg message \<longleftrightarrow> pred_option valid_weave_Metadata (us_metadata message) \<and>
     pred_option is_uint32 (us_toVersion message)"

lemma decodes_migration_UpgradeSchemaMsg:
  assumes P: "proto_laws P" and "valid_migration_UpgradeSchemaMsg m"
  shows "decodes (decode_migration_UpgradeSchemaMsg P) (encode_migration_UpgradeSchemaMsg P m) (norm_migration_IUpgradeSchemaMsg m)"
proof -
  have "writes P (field_migration_UpgradeSchemaMsg P) (encode_migration_UpgradeSchemaMsg P m) new_migration_UpgradeSchemaMsg
      (set_field us_toVersion_update (norm_number (us_toVersion m)) (set_field us_pkg_update (norm_string (us_pkg m)) (set_field us_metadata_update (map_option norm_weave_IMetadata (us_metadata m)) new_migration_UpgradeSchemaMsg)))"
    unfolding encode_migration_UpgradeSchemaMsg_def
    by (rule writes_chain
        | rule writes_message [where valid = valid_weave_Metadata, OF P _ _ decodes_weave_Metadata [OF P]]
        | rule writes_string [OF P]
        | rule writes_uint32 [OF P]
        | (simp add: field_migration_UpgradeSchemaMsg_def new_migration_UpgradeSchemaMsg_def set_field_def elements_def is_uint32_def assms(2) [unfolded valid_migration_UpgradeSchemaMsg_def]; fail))+
  then show ?thesis
    unfolding decode_migration_UpgradeSchemaMsg_def by (intro decodes_message) (simp add: set_field_def new_migration_UpgradeSchemaMsg_def norm_migration_IUpgradeSchemaMsg_def)
qed

section \<open>gov.CreateProposalMsg\<close>

definition new_gov_CreateProposalMsg :: gov_ICreateProposalMsg where
  "new_gov_CreateProposalMsg = \<lparr>gp_metadata = None, gp_title = Some [], gp_rawOption = Some [], gp_description = Some [], gp_electionRuleId = Some [], gp_startTime = Some (Long 0), gp_author = Some []\<rparr>"

definition encode_gov_CreateProposalMsg :: "proto_lib \<Rightarrow> gov_ICreateProposalMsg \<Rightarrow> byte list" where
  "encode_gov_CreateProposalMsg P message =
     put P 10 (\<lambda>v. ldelim P (encode_weave_Metadata P v)) (gp_metadata message) @
     put P 18 (pw_string P) (gp_title message) @
     put P 26 (pw_bytes P) (gp_rawOption message) @
     put P 34 (pw_string P) (gp_description message) @
     put P 42 (pw_bytes P) (gp_electionRuleId message) @
     put P 48 (pw_int64 P) (gp_startTime message) @
     put P 58 (pw_bytes P) (gp_author message)"

definition field_gov_CreateProposalMsg :: "proto_lib \<Rightarrow> gov_ICreateProposalMsg \<Rightarrow> int \<Rightarrow> byte list \<Rightarrow> (gov_ICreateProposalMsg \<times> byte list) result" where
  "field_gov_CreateProposalMsg P message tag bs =
     (if tag div 8 = 1 then get (\<lambda>v. message\<lparr>gp_metadata := Some v\<rparr>) (get_message P (decode_weave_Metadata P) bs)
      else if tag div 8 = 2 then get (\<lambda>v. message\<lparr>gp_title := Some v\<rparr>) (pr_string P bs)
      else if tag div 8 = 3 then get (\<lambda>v. message\<lparr>gp_rawOption := Some v\<rparr>) (pr_bytes P bs)
      else if tag div 8 = 4 then get (\<lambda>v. message\<lparr>gp_description := Some v\<rparr>) (pr_string P bs)
      else if tag div 8 = 5 then get (\<lambda>v. message\<lparr>gp_electionRuleId := Some v\<rparr>) (pr_bytes P bs)
      else if tag div 8 = 6 then get (\<lambda>v. message\<lparr>gp_startTime := Some (Long v)\<rparr>) (pr_int64 P bs)
      else if tag div 8 = 7 then get (\<lambda>v. message\<lparr>gp_author := Some v\<rparr>) (pr_bytes P bs)
      else skip P tag message bs)"

definition decode_gov_CreateProposalMsg :: "proto_lib \<Rightarrow> byte list \<Rightarrow> int \<Rightarrow> (gov_ICreateProposalMsg \<times> byte list) result" where
  "decode_gov_CreateProposalMsg P = read_message P (field_gov_CreateProposalMsg P) new_gov_CreateProposalMsg"

definition valid_gov_CreateProposalMsg :: "gov_ICreateProposalMsg \<Rightarrow> bool" where
  "valid_gov_CreateProposalMsg message \<longleftrightarrow> pred_option valid_weave_Metadata (gp_metadata message) \<and>
     pred_option is_int64 (gp_startTime message)"

lemma decodes_gov_CreateProposalMsg:
  assumes P: "proto_laws P" and "valid_gov_CreateProposalMsg m"
  shows "decodes (decode_gov_CreateProposalMsg P) (encode_gov_CreateProposalMsg P m) (norm_gov_ICreateProposalMsg m)"
proof -
  have "writes P (field_gov_CreateProposalMsg P) (encode_gov_CreateProposalMsg P m) new_gov_CreateProposalMsg
      (set_field gp_author_update (norm_bytes (gp_author m)) (set_field gp_startTime_update (norm_int64 (gp_startTime m)) (set_field gp_electionRuleId_update (norm_bytes (gp_electionRuleId m)) (set_field gp_description_update (norm_string (gp_description m)) (set_field gp_rawOption_update (norm_bytes (gp_rawOption m)) (set_field gp_title_update (norm_string (gp_title m)) (set_field gp_metadata_update (map_option norm_weave_IMetadata (gp_metadata m)) new_gov_CreateProposalMsg)))))))"
    unfolding encode_gov_CreateProposalMsg_def
    by (rule writes_chain
        | rule writes_message [where valid = valid_weave_Metadata, OF P _ _ decodes_weave_Metadata [OF P]]
        | rule writes_string [OF P]
        | rule writes_bytes [OF P]
        | rule writes_int64 [OF P]
        | (simp add: field_gov_CreateProposalMsg_def new_gov_CreateProposalMsg_def set_field_def elements_def is_uint32_def assms(2) [unfolded valid_gov_CreateProposalMsg_def]; fail))+
  then show ?thesis
    unfolding decode_gov_CreateProposalMsg_def by (intro decodes_message) (simp add: set_field_def new_gov_CreateProposalMsg_def norm_gov_ICreateProposalMsg_def)
qed

section \<open>gov.VoteMsg\<close>

definition new_gov_VoteMsg :: gov_IVoteMsg where
  "new_gov_VoteMsg = \<lparr>gv_metadata = None, gv_proposalId = Some [], gv_voter = Some [], gv_selected = Some (int_num 0)\<rparr>"

definition encode_gov_VoteMsg :: "proto_lib \<Rightarrow> gov_IVoteMsg \<Rightarrow> byte list" where
  "encode_gov_VoteMsg P message =
     put P 10 (\<lambda>v. ldelim P (encode_weave_Metadata P v)) (gv_metadata message) @
     put P 18 (pw_bytes P) (gv_proposalId message) @
     put P 26 (pw_bytes P) (gv_voter message) @
     put P 32 (pw_int32 P) (gv_selected message)"

definition field_gov_VoteMsg :: "proto_lib \<Rightarrow> gov_IVoteMsg \<Rightarrow> int \<Rightarrow> byte list \<Rightarrow> (gov_IVoteMsg \<times> byte list) result" where
  "field_gov_VoteMsg P message tag bs =
     (if tag div 8 = 1 then get (\<lambda>v. message\<lparr>gv_metadata := Some v\<rparr>) (get_message P (decode_weave_Metadata P) bs)
      else if tag div 8 = 2 then get (\<lambda>v. message\<lparr>gv_proposalId := Some v\<rparr>) (pr_bytes P bs)
      else if tag div 8 = 3 then get (\<lambda>v. message\<lparr>gv_voter := Some v\<rparr>) (pr_bytes P bs)
      else if tag div 8 = 4 then get (\<lambda>v. message\<lparr>gv_selected := Some (int_num v)\<rparr>) (pr_int32 P bs)
      else skip P tag message bs)"

definition decode_gov_VoteMsg :: "proto_lib \<Rightarrow> byte list \<Rightarrow> int \<Rightarrow> (gov_IVoteMsg \<times> byte list) result" where
  "decode_gov_VoteMsg P = read_message P (field_gov_VoteMsg P) new_gov_VoteMsg"

definition valid_gov_VoteMsg :: "gov_IVoteMsg \<Rightarrow> bool" where
  "valid_gov_VoteMsg message \<longleftrightarrow> pred_option valid_weave_Metadata (gv_metadata message) \<and>
     pred_option is_int32 (gv_selected message)"

lemma decodes_gov_VoteMsg:
  assumes P: "proto_laws P" and "valid_gov_VoteMsg m"
  shows "decodes (decode_gov_VoteMsg P) (encode_gov_VoteMsg P m) (norm_gov_IVoteMsg m)"
proof -
  have "writes P (field_gov_VoteMsg P) (encode_gov_VoteMsg P m) new_gov_VoteMsg
      (set_field gv_selected_update (norm_number (gv_selected m)) (set_field gv_voter_update (norm_bytes (gv_voter m)) (set_field gv_proposalId_update (norm_bytes (gv_proposalId m)) (set_field gv_metadata_update (map_option norm_weave_IMetadata (gv_metadata m)) new_gov_VoteMsg))))"
    unfolding encode_gov_VoteMsg_def
    by (rule writes_chain
        | rule writes_message [where valid = valid_weave_Metadata, OF P _ _ decodes_weave_Metadata [OF P]]
        | rule writes_bytes [OF P]
        | rule writes_int32 [OF P]
        | (simp add: field_gov_VoteMsg_def new_gov_VoteMsg_def set_field_def elements_def is_uint32_def assms(2) [unfolded valid_gov_VoteMsg_def]; fail))+
  then show ?thesis
    unfolding decode_gov_VoteMsg_def by (intro decodes_message) (simp add: set_field_def new_gov_VoteMsg_def norm_gov_IVoteMsg_def)
qed

section \<open>gov.Elector\<close>

definition new_gov_Elector :: gov_IElector where
  "new_gov_Elector = \<lparr>ge_address = Some [], ge_weight = Some (int_num 0)\<rparr>"

definition encode_gov_Elector :: "proto_lib \<Rightarrow> gov_IElector \<Rightarrow> byte list" where
  "encode_gov_Elector P message =
     put P 10 (pw_bytes P) (ge_address message) @
     put P 16 (pw_uint32 P) (ge_weight message)"

definition field_gov_Elector :: "proto_lib \<Rightarrow> gov_IElector \<Rightarrow> int \<Rightarrow> byte list \<Rightarrow> (gov_IElector \<times> byte list) result" where
  "field_gov_Elector P message tag bs =
     (if tag div 8 = 1 then get (\<lambda>v. message\<lparr>ge_address := Some v\<rparr>) (pr_bytes P bs)
      else if tag div 8 = 2 then get (\<lambda>v. message\<lparr>ge_weight := Some (int_num v)\<rparr>) (pr_uint32 P bs)
      else skip P tag message bs)"

definition decode_gov_Elector :: "proto_lib \<Rightarrow> byte list \<Rightarrow> int \<Rightarrow> (gov_IElector \<times> byte list) result" where
  "decode_gov_Elector P = read_message P (field_gov_Elector P) new_gov_Elector"

definition valid_gov_Elector :: "gov_IElector \<Rightarrow> bool" where
  "valid_gov_Elector message \<longleftrightarrow> pred_option is_uint32 (ge_weight message)"

lemma decodes_gov_Elector:
  assumes P: "proto_laws P" and "valid_gov_Elector m"
  shows "decodes (decode_gov_Elector P) (encode_gov_Elector P m) (norm_gov_IElector m)"
proof -
  have "writes P (field_gov_Elector P) (encode_gov_Elector P m) new_gov_Elector
      (set_field ge_weight_update (norm_number (ge_weight m)) (set_field ge_address_update (norm_bytes (ge_address m)) new_gov_Elector))"
    unfolding encode_gov_Elector_def
    by (rule writes_chain
        | rule writes_bytes [OF P]
        | rule writes_uint32 [OF P]
        | (simp add: field_gov_Elector_def new_gov_Elector_def set_field_def elements_def is_uint32_def assms(2) [unfolded valid_gov_Elector_def]; fail))+
  then show ?thesis
    unfolding decode_gov_Elector_def by (intro decodes_message) (simp add: set_field_def new_gov_Elector_def norm_gov_IElector_def)
qed

section \<open>gov.UpdateElectorateMsg\<close>

definition new_gov_UpdateElectorateMsg :: gov_IUpdateElectorateMsg where
  "new_gov_UpdateElectorateMsg = \<lparr>gue_metadata = None, gue_electorateId = Some [], gue_diffElectors = Some []\<rparr>"

definition encode_gov_UpdateElectorateMsg :: "proto_lib \<Rightarrow> gov_IUpdateElectorateMsg \<Rightarrow> byte list" where
  "encode_gov_UpdateElectorateMsg P message =
     put P 10 (\<lambda>v. ldelim P (encode_weave_Metadata P v)) (gue_metadata message) @
     put P 18 (pw_bytes P) (gue_electorateId message) @
     put_each P 26 (\<lambda>v. ldelim P (encode_gov_Elector P v)) (gue_diffElectors message)"

definition field_gov_UpdateElectorateMsg :: "proto_lib \<Rightarrow> gov_IUpdateElectorateMsg \<Rightarrow> int \<Rightarrow> byte list \<Rightarrow> (gov_IUpdateElectorateMsg \<times> byte list) result" where
  "field_gov_UpdateElectorateMsg P message tag bs =
     (if tag div 8 = 1 then get (\<lambda>v. message\<lparr>gue_metadata := Some v\<rparr>) (get_message P (decode_weave_Metadata P) bs)
      else if tag div 8 = 2 then get (\<lambda>v. message\<lparr>gue_electorateId := Some v\<rparr>) (pr_bytes P bs)
      else if tag div 8 = 3 then get (\<lambda>v. message\<lparr>gue_diffElectors := Some (elements (gue_diffElectors message) @ [v])\<rparr>) (get_message P (decode_gov_Elector P) bs)
      else skip P tag message bs)"

definition decode_gov_UpdateElectorateMsg :: "proto_lib \<Rightarrow> byte list \<Rightarrow> int \<Rightarrow> (gov_IUpdateElectorateMsg \<times> byte list) result" where
  "decode_gov_UpdateElectorateMsg P = read_message P (field_gov_UpdateElectorateMsg P) new_gov_UpdateElectorateMsg"

definition valid_gov_UpdateElectorateMsg :: "gov_IUpdateElectorateMsg \<Rightarrow> bool" where
  "valid_gov_UpdateElectorateMsg message \<longleftrightarrow> pred_option valid_weave_Metadata (gue_metadata message) \<and>
     pred_option (list_all valid_gov_Elector) (gue_diffElectors message)"

lemma decodes_gov_UpdateElectorateMsg:
  assumes P: "proto_laws P" and "valid_gov_UpdateElectorateMsg m"
  shows "decodes (decode_gov_UpdateElectorateMsg P) (encode_gov_UpdateElectorateMsg P m) (norm_gov_IUpdateElectorateMsg m)"
proof -
  have "writes P (field_gov_UpdateElectorateMsg P) (encode_gov_UpdateElectorateMsg P m) new_gov_UpdateElectorateMsg
      (set_field gue_diffElectors_update (norm_repeated norm_gov_IElector (gue_diffElectors m)) (set_field gue_electorateId_update (norm_bytes (gue_electorateId m)) (set_field gue_metadata_update (map_option norm_weave_IMetadata (gue_metadata m)) new_gov_UpdateElectorateMsg)))"
    unfolding encode_gov_UpdateElectorateMsg_def
    by (rule writes_chain
        | rule writes_message [where valid = valid_weave_Metadata, OF P _ _ decodes_weave_Metadata [OF P]]
        | rule writes_bytes [OF P]
        | rule writes_messages [where valid = valid_gov_Elector, OF P _ _ decodes_gov_Elector [OF P]]
        | (simp add: field_gov_UpdateElectorateMsg_def new_gov_UpdateElectorateMsg_def set_field_def elements_def is_uint32_def assms(2) [unfolded valid_gov_UpdateElectorateMsg_def]; fail))+
  then show ?thesis
    unfolding decode_gov_UpdateElectorateMsg_def by (intro decodes_message) (simp add: set_field_def new_gov_UpdateElectorateMsg_def norm_gov_IUpdateElectorateMsg_def)
qed

section \<open>gov.UpdateElectionRuleMsg\<close>

definition new_gov_UpdateElectionRuleMsg :: gov_IUpdateElectionRuleMsg where
  "new_gov_UpdateElectionRuleMsg = \<lparr>gur_metadata = None, gur_electionRuleId = Some [], gur_votingPeriod = Some (int_num 0), gur_threshold = None, gur_quorum = None\<rparr>"

definition encode_gov_UpdateElectionRuleMsg :: "proto_lib \<Rightarrow> gov_IUpdateElectionRuleMsg \<Rightarrow> byte list" where
  "encode_gov_UpdateElectionRuleMsg P message =
     put P 10 (\<lambda>v. ldelim P (encode_weave_Metadata P v)) (gur_metadata message) @
     put P 18 (pw_bytes P) (gur_electionRuleId message) @
     put P 24 (pw_uint32 P) (gur_votingPeriod message) @
     put P 34 (\<lambda>v. ldelim P (encode_gov_Fraction P v)) (gur_threshold message) @
     put P 42 (\<lambda>v. ldelim P (encode_gov_Fraction P v)) (gur_quorum message)"

definition field_gov_UpdateElectionRuleMsg :: "proto_lib \<Rightarrow> gov_IUpdateElectionRuleMsg \<Rightarrow> int \<Rightarrow> byte list \<Rightarrow> (gov_IUpdateElectionRuleMsg \<times> byte list) result" where
  "field_gov_UpdateElectionRuleMsg P message tag bs =
     (if tag div 8 = 1 then get (\<lambda>v. message\<lparr>gur_metadata := Some v\<rparr>) (get_message P (decode_weave_Metadata P) bs)
      else if tag div 8 = 2 then get (\<lambda>v. message\<lparr>gur_electionRuleId := Some v\<rparr>) (pr_bytes P bs)
      else if tag div 8 = 3 then get (\<lambda>v. message\<lparr>gur_votingPeriod := Some (int_num v)\<rparr>) (pr_uint32 P bs)
      else if tag div 8 = 4 then get (\<lambda>v. message\<lparr>gur_threshold := Some v\<rparr>) (get_message P (decode_gov_Fraction P) bs)
      else if tag div 8 = 5 then get (\<lambda>v. message\<lparr>gur_quorum := Some v\<rparr>) (get_message P (decode_gov_Fraction P) bs)
      else skip P tag message bs)"

definition decode_gov_UpdateElectionRuleMsg :: "proto_lib \<Rightarrow> byte list \<Rightarrow> int \<Rightarrow> (gov_IUpdateElectionRuleMsg \<times> byte list) result" where
  "decode_gov_UpdateElectionRuleMsg P = read_message P (field_gov_UpdateElectionRuleMsg P) new_gov_UpdateElectionRuleMsg"

definition valid_gov_UpdateElectionRuleMsg :: "gov_IUpdateElectionRuleMsg \<Rightarrow> bool" where
  "valid_gov_UpdateElectionRuleMsg message \<longleftrightarrow> pred_option valid_weave_Metadata (gur_metadata message) \<and>
     pred_option is_uint32 (gur_votingPeriod message) \<and>
     pred_option valid_gov_Fraction (gur_threshold message) \<and>
     pred_option valid_gov_Fraction (gur_quorum message)"

lemma decodes_gov_UpdateElectionRuleMsg:
  assumes P: "proto_laws P" and "valid_gov_UpdateElectionRuleMsg m"
  shows "decodes (decode_gov_UpdateElectionRuleMsg P) (encode_gov_UpdateElectionRuleMsg P m) (norm_gov_IUpdateElectionRuleMsg m)"
proof -
  have "writes P (field_gov_UpdateElectionRuleMsg P) (encode_gov_UpdateElectionRuleMsg P m) new_gov_UpdateElectionRuleMsg
      (set_field gur_quorum_update (map_option norm_IFraction (gur_quorum m)) (set_field gur_threshold_update (map_option norm_IFraction (gur_threshold m)) (set_field gur_votingPeriod_update (norm_number (gur_votingPeriod m)) (set_field gur_electionRuleId_update (norm_bytes (gur_electionRuleId m)) (set_field gur_metadata_update (map_option norm_weave_IMetadata (gur_metadata m)) new_gov_UpdateElectionRuleMsg)))))"
    unfolding encode_gov_UpdateElectionRuleMsg_def
    by (rule writes_chain
        | rule writes_message [where valid = valid_weave_Metadata, OF P _ _ decodes_weave_Metadata [OF P]]
        | rule writes_bytes [OF P]
        | rule writes_uint32 [OF P]
        | rule writes_message [where valid = valid_gov_Fraction, OF P _ _ decodes_gov_Fraction [OF P]]
        | (simp add: field_gov_UpdateElectionRuleMsg_def new_gov_UpdateElectionRuleMsg_def set_field_def elements_def is_uint32_def assms(2) [unfolded valid_gov_UpdateElectionRuleMsg_def]; fail))+
  then show ?thesis
    unfolding decode_gov_UpdateElectionRuleMsg_def by (intro decodes_message) (simp add: set_field_def new_gov_UpdateElectionRuleMsg_def norm_gov_IUpdateElectionRuleMsg_def)
qed

section \<open>gov.CreateTextResolutionMsg\<close>

definition new_gov_CreateTextResolutionMsg :: gov_ICreateTextResolutionMsg where
  "new_gov_CreateTextResolutionMsg = \<lparr>gt_metadata = None, gt_resolution = Some []\<rparr>"

definition encode_gov_CreateTextResolutionMsg :: "proto_lib \<Rightarrow> gov_ICreateTextResolutionMsg \<Rightarrow> byte list" where
  "encode_gov_CreateTextResolutionMsg P message =
     put P 10 (\<lambda>v. ldelim P (encode_weave_Metadata P v)) (gt_metadata message) @
     put P 18 (pw_string P) (gt_resolution message)"

definition field_gov_CreateTextResolutionMsg :: "proto_lib \<Rightarrow> gov_ICreateTextResolutionMsg \<Rightarrow> int \<Rightarrow> byte list \<Rightarrow> (gov_ICreateTextResolutionMsg \<times> byte list) result" where
  "field_gov_CreateTextResolutionMsg P message tag bs =
     (if tag div 8 = 1 then get (\<lambda>v. message\<lparr>gt_metadata := Some v\<rparr>) (get_message P (decode_weave_Metadata P) bs)
      else if tag div 8 = 2 then get (\<lambda>v. message\<lparr>gt_resolution := Some v\<rparr>) (pr_string P bs)
      else skip P tag message bs)"

definition decode_gov_CreateTextResolutionMsg :: "proto_lib \<Rightarrow> byte list \<Rightarrow> int \<Rightarrow> (gov_ICreateTextResolutionMsg \<times> byte list) result" where
  "decode_gov_CreateTextResolutionMsg P = read_message P (field_gov_CreateTextResolutionMsg P) new_gov_CreateTextResolutionMsg"

definition valid_gov_CreateTextResolutionMsg :: "gov_ICreateTextResolutionMsg \<Rightarrow> bool" where
  "valid_gov_CreateTextResolutionMsg message \<longleftrightarrow> pred_option valid_weave_Metadata (gt_metadata message)"

lemma decodes_gov_CreateTextResolutionMsg:
  assumes P: "proto_laws P" and "valid_gov_CreateTextResolutionMsg m"
  shows "decodes (decode_gov_CreateTextResolutionMsg P) (encode_gov_CreateTextResolutionMsg P m) (norm_gov_ICreateTextResolutionMsg m)"
proof -
  have "writes P (field_gov_CreateTextResolutionMsg P) (encode_gov_CreateTextResolutionMsg P m) new_gov_CreateTextResolutionMsg
      (set_field gt_resolution_update (norm_string (gt_resolution m)) (set_field gt_metadata_update (map_option norm_weave_IMetadata (gt_metadata m)) new_gov_CreateTextResolutionMsg))"
    unfolding encode_gov_CreateTextResolutionMsg_def
    by (rule writes_chain
        | rule writes_message [where valid = valid_weave_Metadata, OF P _ _ decodes_weave_Metadata [OF P]]
        | rule writes_string [OF P]
        | (simp add: field_gov_CreateTextResolutionMsg_def new_gov_CreateTextResolutionMsg_def set_field_def elements_def is_uint32_def assms(2) [unfolded valid_gov_CreateTextResolutionMsg_def]; fail))+
  then show ?thesis
    unfolding decode_gov_CreateTextResolutionMsg_def by (intro decodes_message) (simp add: set_field_def new_gov_CreateTextResolutionMsg_def norm_gov_ICreateTextResolutionMsg_def)
qed

end
