(* ===== verification/Pb_Unread.thy ===== *)
theory Pb_Unread
  imports Pb_Account Pb_Gov
begin

text \<open>
  The classes of messages that a transaction or a proposal can carry and that the codec
  does not read: their fields are decoded with the transaction, of
  \<open>packages/iov-bns/src/generated/codecimpl.js\<close>: for each the object that
  \<open>new\<close> makes, \<open>encode\<close>, the switch of \<open>decode\<close> and
  \<open>decode\<close>. The lemma of a class shows that a message with integers in range
  is read back from what was written.
\<close>

section \<open>currency.CreateMsg\<close>

record currency_ICreateMsg =
  currency_CreateMsg_metadata :: "weave_IMetadata option"
  currency_CreateMsg_ticker :: "string option"
  currency_CreateMsg_name :: "string option"

definition norm_currency_ICreateMsg :: "currency_ICreateMsg \<Rightarrow> currency_ICreateMsg" where
  "norm_currency_ICreateMsg m = \<lparr>
     currency_CreateMsg_metadata = map_option norm_weave_IMetadata (currency_CreateMsg_metadata m),
     currency_CreateMsg_ticker = norm_string (currency_CreateMsg_ticker m),
     currency_CreateMsg_name = norm_string (currency_CreateMsg_name m)\<rparr>"

definition new_currency_CreateMsg :: currency_ICreateMsg where
  "new_currency_CreateMsg = \<lparr>currency_CreateMsg_metadata = None, currency_CreateMsg_ticker = Some [], currency_CreateMsg_name = Some []\<rparr>"

definition encode_currency_CreateMsg :: "proto_lib \<Rightarrow> currency_ICreateMsg \<Rightarrow> byte list" where
  "encode_currency_CreateMsg P message =
     put P 10 (\<lambda>v. ldelim P (encode_weave_Metadata P v)) (currency_CreateMsg_metadata message) @
     put P 18 (pw_string P) (currency_CreateMsg_ticker message) @
     put P 26 (pw_string P) (currency_CreateMsg_name message)"

definition field_currency_CreateMsg :: "proto_lib \<Rightarrow> currency_ICreateMsg \<Rightarrow> int \<Rightarrow> byte list \<Rightarrow> (currency_ICreateMsg \<times> byte list) result" where
  "field_currency_CreateMsg P message tag bs =
     (if tag div 8 = 1 then get (\<lambda>v. message\<lparr>currency_CreateMsg_metadata := Some v\<rparr>) (get_message P (decode_weave_Metadata P) bs)
      else if tag div 8 = 2 then get (\<lambda>v. message\<lparr>currency_CreateMsg_ticker := Some v\<rparr>) (pr_string P bs)
      else if tag div 8 = 3 then get (\<lambda>v. message\<lparr>currency_CreateMsg_name := Some v\<rparr>) (pr_string P bs)
      else skip P tag message bs)"

definition decode_currency_CreateMsg :: "proto_lib \<Rightarrow> byte list \<Rightarrow> int \<Rightarrow> (currency_ICreateMsg \<times> byte list) result" where
  "decode_currency_CreateMsg P = read_message P (field_currency_CreateMsg P) new_currency_CreateMsg"

definition valid_currency_CreateMsg :: "currency_ICreateMsg \<Rightarrow> bool" where
  "valid_currency_CreateMsg message \<longleftrightarrow> pred_option valid_weave_Metadata (currency_CreateMsg_metadata message)"

lemma decodes_currency_CreateMsg:
  assumes P: "proto_laws P" and "valid_currency_CreateMsg m"
  shows "decodes (decode_currency_CreateMsg P) (encode_currency_CreateMsg P m) (norm_currency_ICreateMsg m)"
proof -
  have "writes P (field_currency_CreateMsg P) (encode_currency_CreateMsg P m) new_currency_CreateMsg
      (set_field currency_CreateMsg_name_update (norm_string (currency_CreateMsg_name m)) (set_field currency_CreateMsg_ticker_update (norm_string (currency_CreateMsg_ticker m)) (set_field currency_CreateMsg_metadata_update (map_option norm_weave_IMetadata (currency_CreateMsg_metadata m)) new_currency_CreateMsg)))"
    unfolding encode_currency_CreateMsg_def
    by (rule writes_chain
        | rule writes_message [where valid = valid_weave_Metadata, OF P _ _ decodes_weave_Metadata [OF P]]
        | rule writes_string [OF P]
        | (simp add: field_currency_CreateMsg_def new_currency_CreateMsg_def set_field_def elements_def is_uint32_def assms(2) [unfolded valid_currency_CreateMsg_def]; fail))+
  then show ?thesis
    unfolding decode_currency_CreateMsg_def by (intro decodes_message) (simp add: set_field_def new_currency_CreateMsg_def norm_currency_ICreateMsg_def)
qed

section \<open>username.Configuration\<close>

record username_IConfiguration =
  username_Configuration_metadata :: "weave_IMetadata option"
  username_Configuration_owner :: "byte list option"
  username_Configuration_validUsernameName :: "string option"
  username_Configuration_validUsernameLabel :: "string option"

definition norm_username_IConfiguration :: "username_IConfiguration \<Rightarrow> username_IConfiguration" where
  "norm_username_IConfiguration m = \<lparr>
     username_Configuration_metadata = map_option norm_weave_IMetadata (username_Configuration_metadata m),
     username_Configuration_owner = norm_bytes (username_Configuration_owner m),
     username_Configuration_validUsernameName = norm_string (username_Configuration_validUsernameName m),
     username_Configuration_validUsernameLabel = norm_string (username_Configuration_validUsernameLabel m)\<rparr>"

definition new_username_Configuration :: username_IConfiguration where
  "new_username_Configuration = \<lparr>username_Configuration_metadata = None, username_Configuration_owner = Some [], username_Configuration_validUsernameName = Some [], username_Configuration_validUsernameLabel = Some []\<rparr>"

definition encode_username_Configuration :: "proto_lib \<Rightarrow> username_IConfiguration \<Rightarrow> byte list" where
  "encode_username_Configuration P message =
     put P 10 (\<lambda>v. ldelim P (encode_weave_Metadata P v)) (username_Configuration_metadata message) @
     put P 18 (pw_bytes P) (username_Configuration_owner message) @
     put P 26 (pw_string P) (username_Configuration_validUsernameName message) @
     put P 34 (pw_string P) (username_Configuration_validUsernameLabel message)"

definition field_username_Configuration :: "proto_lib \<Rightarrow> username_IConfiguration \<Rightarrow> int \<Rightarrow> byte list \<Rightarrow> (username_IConfiguration \<times> byte list) result" where
  "field_username_Configuration P message tag bs =
     (if tag div 8 = 1 then get (\<lambda>v. message\<lparr>username_Configuration_metadata := Some v\<rparr>) (get_message P (decode_weave_Metadata P) bs)
      else if tag div 8 = 2 then get (\<lambda>v. message\<lparr>username_Configuration_owner := Some v\<rparr>) (pr_bytes P bs)
      else if tag div 8 = 3 then get (\<lambda>v. message\<lparr>username_Configuration_validUsernameName := Some v\<rparr>) (pr_string P bs)
      else if tag div 8 = 4 then get (\<lambda>v. message\<lparr>username_Configuration_validUsernameLabel := Some v\<rparr>) (pr_string P bs)
      else skip P tag message bs)"

definition decode_username_Configuration :: "proto_lib \<Rightarrow> byte list \<Rightarrow> int \<Rightarrow> (username_IConfiguration \<times> byte list) result" where
  "decode_username_Configuration P = read_message P (field_username_Configuration P) new_username_Configuration"

definition valid_username_Configuration :: "username_IConfiguration \<Rightarrow> bool" where
  "valid_username_Configuration message \<longleftrightarrow> pred_option valid_weave_Metadata (username_Configuration_metadata message)"

lemma decodes_username_Configuration:
  assumes P: "proto_laws P" and "valid_username_Configuration m"
  shows "decodes (decode_username_Configuration P) (encode_username_Configuration P m) (norm_username_IConfiguration m)"
proof -
  have "writes P (field_username_Configuration P) (encode_username_Configuration P m) new_username_Configuration
      (set_field username_Configuration_validUsernameLabel_update (norm_string (username_Configuration_validUsernameLabel m)) (set_field username_Configuration_validUsernameName_update (norm_string (username_Configuration_validUsernameName m)) (set_field username_Configuration_owner_update (norm_bytes (username_Configuration_owner m)) (set_field username_Configuration_metadata_update (map_option norm_weave_IMetadata (username_Configuration_metadata m)) new_username_Configuration))))"
    unfolding encode_username_Configuration_def
    by (rule writes_chain
        | rule writes_message [where valid = valid_weave_Metadata, OF P _ _ decodes_weave_Metadata [OF P]]
        | rule writes_bytes [OF P]
        | rule writes_string [OF P]
        | (simp add: field_username_Configuration_def new_username_Configuration_def set_field_def elements_def is_uint32_def assms(2) [unfolded valid_username_Configuration_def]; fail))+
  then show ?thesis
    unfolding decode_username_Configuration_def by (intro decodes_message) (simp add: set_field_def new_username_Configuration_def norm_username_IConfiguration_def)
qed

section \<open>username.UpdateConfigurationMsg\<close>

record username_IUpdateConfigurationMsg =
  username_UpdateConfigurationMsg_metadata :: "weave_IMetadata option"
  username_UpdateConfigurationMsg_patch :: "username_IConfiguration option"

definition norm_username_IUpdateConfigurationMsg :: "username_IUpdateConfigurationMsg \<Rightarrow> username_IUpdateConfigurationMsg" where
  "norm_username_IUpdateConfigurationMsg m = \<lparr>
     username_UpdateConfigurationMsg_metadata = map_option norm_weave_IMetadata (username_UpdateConfigurationMsg_metadata m),
     username_UpdateConfigurationMsg_patch = map_option norm_username_IConfiguration (username_UpdateConfigurationMsg_patch m)\<rparr>"

definition new_username_UpdateConfigurationMsg :: username_IUpdateConfigurationMsg where
  "new_username_UpdateConfigurationMsg = \<lparr>username_UpdateConfigurationMsg_metadata = None, username_UpdateConfigurationMsg_patch = None\<rparr>"

definition encode_username_UpdateConfigurationMsg :: "proto_lib \<Rightarrow> username_IUpdateConfigurationMsg \<Rightarrow> byte list" where
  "encode_username_UpdateConfigurationMsg P message =
     put P 10 (\<lambda>v. ldelim P (encode_weave_Metadata P v)) (username_UpdateConfigurationMsg_metadata message) @
     put P 18 (\<lambda>v. ldelim P (encode_username_Configuration P v)) (username_UpdateConfigurationMsg_patch message)"

definition field_username_UpdateConfigurationMsg :: "proto_lib \<Rightarrow> username_IUpdateConfigurationMsg \<Rightarrow> int \<Rightarrow> byte list \<Rightarrow> (username_IUpdateConfigurationMsg \<times> byte list) result" where
  "field_username_UpdateConfigurationMsg P message tag bs =
     (if tag div 8 = 1 then get (\<lambda>v. message\<lparr>username_UpdateConfigurationMsg_metadata := Some v\<rparr>) (get_message P (decode_weave_Metadata P) bs)
      else if tag div 8 = 2 then get (\<lambda>v. message\<lparr>username_UpdateConfigurationMsg_patch := Some v\<rparr>) (get_message P (decode_username_Configuration P) bs)
      else skip P tag message bs)"

definition decode_username_UpdateConfigurationMsg :: "proto_lib \<Rightarrow> byte list \<Rightarrow> int \<Rightarrow> (username_IUpdateConfigurationMsg \<times> byte list) result" where
  "decode_username_UpdateConfigurationMsg P = read_message P (field_username_UpdateConfigurationMsg P) new_username_UpdateConfigurationMsg"

definition valid_username_UpdateConfigurationMsg :: "username_IUpdateConfigurationMsg \<Rightarrow> bool" where
  "valid_username_UpdateConfigurationMsg message \<longleftrightarrow> pred_option valid_weave_Metadata (username_UpdateConfigurationMsg_metadata message) \<and>
     pred_option valid_username_Configuration (username_UpdateConfigurationMsg_patch message)"

lemma decodes_username_UpdateConfigurationMsg:
  assumes P: "proto_laws P" and "valid_username_UpdateConfigurationMsg m"
  shows "decodes (decode_username_UpdateConfigurationMsg P) (encode_username_UpdateConfigurationMsg P m) (norm_username_IUpdateConfigurationMsg m)"
proof -
  have "writes P (field_username_UpdateConfigurationMsg P) (encode_username_UpdateConfigurationMsg P m) new_username_UpdateConfigurationMsg
      (set_field username_UpdateConfigurationMsg_patch_update (map_option norm_username_IConfiguration (username_UpdateConfigurationMsg_patch m)) (set_field username_UpdateConfigurationMsg_metadata_update (map_option norm_weave_IMetadata (username_UpdateConfigurationMsg_metadata m)) new_username_UpdateConfigurationMsg))"
    unfolding encode_username_UpdateConfigurationMsg_def
    by (rule writes_chain
        | rule writes_message [where valid = valid_weave_Metadata, OF P _ _ decodes_weave_Metadata [OF P]]
        | rule writes_message [where valid = valid_username_Configuration, OF P _ _ decodes_username_Configuration [OF P]]
        | (simp add: field_username_UpdateConfigurationMsg_def new_username_UpdateConfigurationMsg_def set_field_def elements_def is_uint32_def assms(2) [unfolded valid_username_UpdateConfigurationMsg_def]; fail))+
  then show ?thesis
    unfolding decode_username_UpdateConfigurationMsg_def by (intro decodes_message) (simp add: set_field_def new_username_UpdateConfigurationMsg_def norm_username_IUpdateConfigurationMsg_def)
qed

section \<open>distribution.Destination\<close>

record distribution_IDestination =
  distribution_Destination_address :: "byte list option"
  distribution_Destination_weight :: "number option"

definition norm_distribution_IDestination :: "distribution_IDestination \<Rightarrow> distribution_IDestination" where
  "norm_distribution_IDestination m = \<lparr>
     distribution_Destination_address = norm_bytes (distribution_Destination_address m),
     distribution_Destination_weight = norm_number (distribution_Destination_weight m)\<rparr>"

definition new_distribution_Destination :: distribution_IDestination where
  "new_distribution_Destination = \<lparr>distribution_Destination_address = Some [], distribution_Destination_weight = Some (int_num 0)\<rparr>"

definition encode_distribution_Destination :: "proto_lib \<Rightarrow> distribution_IDestination \<Rightarrow> byte list" where
  "encode_distribution_Destination P message =
     put P 10 (pw_bytes P) (distribution_Destination_address message) @
     put P 16 (pw_int32 P) (distribution_Destination_weight message)"

definition field_distribution_Destination :: "proto_lib \<Rightarrow> distribution_IDestination \<Rightarrow> int \<Rightarrow> byte list \<Rightarrow> (distribution_IDestination \<times> byte list) result" where
  "field_distribution_Destination P message tag bs =
     (if tag div 8 = 1 then get (\<lambda>v. message\<lparr>distribution_Destination_address := Some v\<rparr>) (pr_bytes P bs)
      else if tag div 8 = 2 then get (\<lambda>v. message\<lparr>distribution_Destination_weight := Some (int_num v)\<rparr>) (pr_int32 P bs)
      else skip P tag message bs)"

definition decode_distribution_Destination :: "proto_lib \<Rightarrow> byte list \<Rightarrow> int \<Rightarrow> (distribution_IDestination \<times> byte list) result" where
  "decode_distribution_Destination P = read_message P (field_distribution_Destination P) new_distribution_Destination"

definition valid_distribution_Destination :: "distribution_IDestination \<Rightarrow> bool" where
  "valid_distribution_Destination message \<longleftrightarrow> pred_option is_int32 (distribution_Destination_weight message)"

lemma decodes_distribution_Destination:
  assumes P: "proto_laws P" and "valid_distribution_Destination m"
  shows "decodes (decode_distribution_Destination P) (encode_distribution_Destination P m) (norm_distribution_IDestination m)"
proof -
  have "writes P (field_distribution_Destination P) (encode_distribution_Destination P m) new_distribution_Destination
      (set_field distribution_Destination_weight_update (norm_number (distribution_Destination_weight m)) (set_field distribution_Destination_address_update (norm_bytes (distribution_Destination_address m)) new_distribution_Destination))"
    unfolding encode_distribution_Destination_def
    by (rule writes_chain
        | rule writes_bytes [OF P]
        | rule writes_int32 [OF P]
        | (simp add: field_distribution_Destination_def new_distribution_Destination_def set_field_def elements_def is_uint32_def assms(2) [unfolded valid_distribution_Destination_def]; fail))+
  then show ?thesis
    unfolding decode_distribution_Destination_def by (intro decodes_message) (simp add: set_field_def new_distribution_Destination_def norm_distribution_IDestination_def)
qed

section \<open>distribution.CreateMsg\<close>

record distribution_ICreateMsg =
  distribution_CreateMsg_metadata :: "weave_IMetadata option"
  distribution_CreateMsg_admin :: "byte list option"
  distribution_CreateMsg_destinations :: "distribution_IDestination list option"

definition norm_distribution_ICreateMsg :: "distribution_ICreateMsg \<Rightarrow> distribution_ICreateMsg" where
  "norm_distribution_ICreateMsg m = \<lparr>
     distribution_CreateMsg_metadata = map_option norm_weave_IMetadata (distribution_CreateMsg_metadata m),
     distribution_CreateMsg_admin = norm_bytes (distribution_CreateMsg_admin m),
     distribution_CreateMsg_destinations = norm_repeated norm_distribution_IDestination (distribution_CreateMsg_destinations m)\<rparr>"

definition new_distribution_CreateMsg :: distribution_ICreateMsg where
  "new_distribution_CreateMsg = \<lparr>distribution_CreateMsg_metadata = None, distribution_CreateMsg_admin = Some [], distribution_CreateMsg_destinations = Some []\<rparr>"

definition encode_distribution_CreateMsg :: "proto_lib \<Rightarrow> distribution_ICreateMsg \<Rightarrow> byte list" where
  "encode_distribution_CreateMsg P message =
     put P 10 (\<lambda>v. ldelim P (encode_weave_Metadata P v)) (distribution_CreateMsg_metadata message) @
     put P 18 (pw_bytes P) (distribution_CreateMsg_admin message) @
     put_each P 26 (\<lambda>v. ldelim P (encode_distribution_Destination P v)) (distribution_CreateMsg_destinations message)"

definition field_distribution_CreateMsg :: "proto_lib \<Rightarrow> distribution_ICreateMsg \<Rightarrow> int \<Rightarrow> byte list \<Rightarrow> (distribution_ICreateMsg \<times> byte list) result" where
  "field_distribution_CreateMsg P message tag bs =
     (if tag div 8 = 1 then get (\<lambda>v. message\<lparr>distribution_CreateMsg_metadata := Some v\<rparr>) (get_message P (decode_weave_Metadata P) bs)
      else if tag div 8 = 2 then get (\<lambda>v. message\<lparr>distribution_CreateMsg_admin := Some v\<rparr>) (pr_bytes P bs)
      else if tag div 8 = 3 then get (\<lambda>v. message\<lparr>distribution_CreateMsg_destinations := Some (elements (distribution_CreateMsg_destinations message) @ [v])\<rparr>) (get_message P (decode_distribution_Destination P) bs)
      else skip P tag message bs)"

definition decode_distribution_CreateMsg :: "proto_lib \<Rightarrow> byte list \<Rightarrow> int \<Rightarrow> (distribution_ICreateMsg \<times> byte list) result" where
  "decode_distribution_CreateMsg P = read_message P (field_distribution_CreateMsg P) new_distribution_CreateMsg"

definition valid_distribution_CreateMsg :: "distribution_ICreateMsg \<Rightarrow> bool" where
  "valid_distribution_CreateMsg message \<longleftrightarrow> pred_option valid_weave_Metadata (distribution_CreateMsg_metadata message) \<and>
     pred_option (list_all valid_distribution_Destination) (distribution_CreateMsg_destinations message)"

lemma decodes_distribution_CreateMsg:
  assumes P: "proto_laws P" and "valid_distribution_CreateMsg m"
  shows "decodes (decode_distribution_CreateMsg P) (encode_distribution_CreateMsg P m) (norm_distribution_ICreateMsg m)"
proof -
  have "writes P (field_distribution_CreateMsg P) (encode_distribution_CreateMsg P m) new_distribution_CreateMsg
      (set_field distribution_CreateMsg_destinations_update (norm_repeated norm_distribution_IDestination (distribution_CreateMsg_destinations m)) (set_field distribution_CreateMsg_admin_update (norm_bytes (distribution_CreateMsg_admin m)) (set_field distribution_CreateMsg_metadata_update (map_option norm_weave_IMetadata (distribution_CreateMsg_metadata m)) new_distribution_CreateMsg)))"
    unfolding encode_distribution_CreateMsg_def
    by (rule writes_chain
        | rule writes_message [where valid = valid_weave_Metadata, OF P _ _ decodes_weave_Metadata [OF P]]
        | rule writes_bytes [OF P]
        | rule writes_messages [where valid = valid_distribution_Destination, OF P _ _ decodes_distribution_Destination [OF P]]
        | (simp add: field_distribution_CreateMsg_def new_distribution_CreateMsg_def set_field_def elements_def is_uint32_def assms(2) [unfolded valid_distribution_CreateMsg_def]; fail))+
  then show ?thesis
    unfolding decode_distribution_CreateMsg_def by (intro decodes_message) (simp add: set_field_def new_distribution_CreateMsg_def norm_distribution_ICreateMsg_def)
qed

section \<open>distribution.DistributeMsg\<close>

record distribution_IDistributeMsg =
  distribution_DistributeMsg_metadata :: "weave_IMetadata option"
  distribution_DistributeMsg_revenueId :: "byte list option"

definition norm_distribution_IDistributeMsg :: "distribution_IDistributeMsg \<Rightarrow> distribution_IDistributeMsg" where
  "norm_distribution_IDistributeMsg m = \<lparr>
     distribution_DistributeMsg_metadata = map_option norm_weave_IMetadata (distribution_DistributeMsg_metadata m),
     distribution_DistributeMsg_revenueId = norm_bytes (distribution_DistributeMsg_revenueId m)\<rparr>"

definition new_distribution_DistributeMsg :: distribution_IDistributeMsg where
  "new_distribution_DistributeMsg = \<lparr>distribution_DistributeMsg_metadata = None, distribution_DistributeMsg_revenueId = Some []\<rparr>"

definition encode_distribution_DistributeMsg :: "proto_lib \<Rightarrow> distribution_IDistributeMsg \<Rightarrow> byte list" where
  "encode_distribution_DistributeMsg P message =
     put P 10 (\<lambda>v. ldelim P (encode_weave_Metadata P v)) (distribution_DistributeMsg_metadata message) @
     put P 18 (pw_bytes P) (distribution_DistributeMsg_revenueId message)"

definition field_distribution_DistributeMsg :: "proto_lib \<Rightarrow> distribution_IDistributeMsg \<Rightarrow> int \<Rightarrow> byte list \<Rightarrow> (distribution_IDistributeMsg \<times> byte list) result" where
  "field_distribution_DistributeMsg P message tag bs =
     (if tag div 8 = 1 then get (\<lambda>v. message\<lparr>distribution_DistributeMsg_metadata := Some v\<rparr>) (get_message P (decode_weave_Metadata P) bs)
      else if tag div 8 = 2 then get (\<lambda>v. message\<lparr>distribution_DistributeMsg_revenueId := Some v\<rparr>) (pr_bytes P bs)
      else skip P tag message bs)"

definition decode_distribution_DistributeMsg :: "proto_lib \<Rightarrow> byte list \<Rightarrow> int \<Rightarrow> (distribution_IDistributeMsg \<times> byte list) result" where
  "decode_distribution_DistributeMsg P = read_message P (field_distribution_DistributeMsg P) new_distribution_DistributeMsg"

definition valid_distribution_DistributeMsg :: "distribution_IDistributeMsg \<Rightarrow> bool" where
  "valid_distribution_DistributeMsg message \<longleftrightarrow> pred_option valid_weave_Metadata (distribution_DistributeMsg_metadata message)"

lemma decodes_distribution_DistributeMsg:
  assumes P: "proto_laws P" and "valid_distribution_DistributeMsg m"
  shows "decodes (decode_distribution_DistributeMsg P) (encode_distribution_DistributeMsg P m) (norm_distribution_IDistributeMsg m)"
proof -
  have "writes P (field_distribution_DistributeMsg P) (encode_distribution_DistributeMsg P m) new_distribution_DistributeMsg
      (set_field distribution_DistributeMsg_revenueId_update (norm_bytes (distribution_DistributeMsg_revenueId m)) (set_field distribution_DistributeMsg_metadata_update (map_option norm_weave_IMetadata (distribution_DistributeMsg_metadata m)) new_distribution_DistributeMsg))"
    unfolding encode_distribution_DistributeMsg_def
    by (rule writes_chain
        | rule writes_message [where valid = valid_weave_Metadata, OF P _ _ decodes_weave_Metadata [OF P]]
        | rule writes_bytes [OF P]
        | (simp add: field_distribution_DistributeMsg_def new_distribution_DistributeMsg_def set_field_def elements_def is_uint32_def assms(2) [unfolded valid_distribution_DistributeMsg_def]; fail))+
  then show ?thesis
    unfolding decode_distribution_DistributeMsg_def by (intro decodes_message) (simp add: set_field_def new_distribution_DistributeMsg_def norm_distribution_IDistributeMsg_def)
qed

section \<open>distribution.ResetMsg\<close>

record distribution_IResetMsg =
  distribution_ResetMsg_metadata :: "weave_IMetadata option"
  distribution_ResetMsg_revenueId :: "byte list option"
  distribution_ResetMsg_destinations :: "distribution_IDestination list option"

definition norm_distribution_IResetMsg :: "distribution_IResetMsg \<Rightarrow> distribution_IResetMsg" where
  "norm_distribution_IResetMsg m = \<lparr>
     distribution_ResetMsg_metadata = map_option norm_weave_IMetadata (distribution_ResetMsg_metadata m),
     distribution_ResetMsg_revenueId = norm_bytes (distribution_ResetMsg_revenueId m),
     distribution_ResetMsg_destinations = norm_repeated norm_distribution_IDestination (distribution_ResetMsg_destinations m)\<rparr>"

definition new_distribution_ResetMsg :: distribution_IResetMsg where
  "new_distribution_ResetMsg = \<lparr>distribution_ResetMsg_metadata = None, distribution_ResetMsg_revenueId = Some [], distribution_ResetMsg_destinations = Some []\<rparr>"

definition encode_distribution_ResetMsg :: "proto_lib \<Rightarrow> distribution_IResetMsg \<Rightarrow> byte list" where
  "encode_distribution_ResetMsg P message =
     put P 10 (\<lambda>v. ldelim P (encode_weave_Metadata P v)) (distribution_ResetMsg_metadata message) @
     put P 18 (pw_bytes P) (distribution_ResetMsg_revenueId message) @
     put_each P 26 (\<lambda>v. ldelim P (encode_distribution_Destination P v)) (distribution_ResetMsg_destinations message)"

definition field_distribution_ResetMsg :: "proto_lib \<Rightarrow> distribution_IResetMsg \<Rightarrow> int \<Rightarrow> byte list \<Rightarrow> (distribution_IResetMsg \<times> byte list) result" where
  "field_distribution_ResetMsg P message tag bs =
     (if tag div 8 = 1 then get (\<lambda>v. message\<lparr>distribution_ResetMsg_metadata := Some v\<rparr>) (get_message P (decode_weave_Metadata P) bs)
      else if tag div 8 = 2 then get (\<lambda>v. message\<lparr>distribution_ResetMsg_revenueId := Some v\<rparr>) (pr_bytes P bs)
      else if tag div 8 = 3 then get (\<lambda>v. message\<lparr>distribution_ResetMsg_destinations := Some (elements (distribution_ResetMsg_destinations message) @ [v])\<rparr>) (get_message P (decode_distribution_Destination P) bs)
      else skip P tag message bs)"

definition decode_distribution_ResetMsg :: "proto_lib \<Rightarrow> byte list \<Rightarrow> int \<Rightarrow> (distribution_IResetMsg \<times> byte list) result" where
  "decode_distribution_ResetMsg P = read_message P (field_distribution_ResetMsg P) new_distribution_ResetMsg"

definition valid_distribution_ResetMsg :: "distribution_IResetMsg \<Rightarrow> bool" where
  "valid_distribution_ResetMsg message \<longleftrightarrow> pred_option valid_weave_Metadata (distribution_ResetMsg_metadata message) \<and>
     pred_option (list_all valid_distribution_Destination) (distribution_ResetMsg_destinations message)"

lemma decodes_distribution_ResetMsg:
  assumes P: "proto_laws P" and "valid_distribution_ResetMsg m"
  shows "decodes (decode_distribution_ResetMsg P) (encode_distribution_ResetMsg P m) (norm_distribution_IResetMsg m)"
proof -
  have "writes P (field_distribution_ResetMsg P) (encode_distribution_ResetMsg P m) new_distribution_ResetMsg
      (set_field distribution_ResetMsg_destinations_update (norm_repeated norm_distribution_IDestination (distribution_ResetMsg_destinations m)) (set_field distribution_ResetMsg_revenueId_update (norm_bytes (distribution_ResetMsg_revenueId m)) (set_field distribution_ResetMsg_metadata_update (map_option norm_weave_IMetadata (distribution_ResetMsg_metadata m)) new_distribution_ResetMsg)))"
    unfolding encode_distribution_ResetMsg_def
    by (rule writes_chain
        | rule writes_message [where valid = valid_weave_Metadata, OF P _ _ decodes_weave_Metadata [OF P]]
        | rule writes_bytes [OF P]
        | rule writes_messages [where valid = valid_distribution_Destination, OF P _ _ decodes_distribution_Destination [OF P]]
        | (simp add: field_distribution_ResetMsg_def new_distribution_ResetMsg_def set_field_def elements_def is_uint32_def assms(2) [unfolded valid_distribution_ResetMsg_def]; fail))+
  then show ?thesis
    unfolding decode_distribution_ResetMsg_def by (intro decodes_message) (simp add: set_field_def new_distribution_ResetMsg_def norm_distribution_IResetMsg_def)
qed

section \<open>termdeposit.CreateDepositContractMsg\<close>

record termdeposit_ICreateDepositContractMsg =
  termdeposit_CreateDepositContractMsg_metadata :: "weave_IMetadata option"
  termdeposit_CreateDepositContractMsg_validSince :: "wire_int option"
  termdeposit_CreateDepositContractMsg_validUntil :: "wire_int option"

definition norm_termdeposit_ICreateDepositContractMsg :: "termdeposit_ICreateDepositContractMsg \<Rightarrow> termdeposit_ICreateDepositContractMsg" where
  "norm_termdeposit_ICreateDepositContractMsg m = \<lparr>
     termdeposit_CreateDepositContractMsg_metadata = map_option norm_weave_IMetadata (termdeposit_CreateDepositContractMsg_metadata m),
     termdeposit_CreateDepositContractMsg_validSince = norm_int64 (termdeposit_CreateDepositContractMsg_validSince m),
     termdeposit_CreateDepositContractMsg_validUntil = norm_int64 (termdeposit_CreateDepositContractMsg_validUntil m)\<rparr>"

definition new_termdeposit_CreateDepositContractMsg :: termdeposit_ICreateDepositContractMsg where
  "new_termdeposit_CreateDepositContractMsg = \<lparr>termdeposit_CreateDepositContractMsg_metadata = None, termdeposit_CreateDepositContractMsg_validSince = Some (Long 0), termdeposit_CreateDepositContractMsg_validUntil = Some (Long 0)\<rparr>"

definition encode_termdeposit_CreateDepositContractMsg :: "proto_lib \<Rightarrow> termdeposit_ICreateDepositContractMsg \<Rightarrow> byte list" where
  "encode_termdeposit_CreateDepositContractMsg P message =
     put P 10 (\<lambda>v. ldelim P (encode_weave_Metadata P v)) (termdeposit_CreateDepositContractMsg_metadata message) @
     put P 16 (pw_int64 P) (termdeposit_CreateDepositContractMsg_validSince message) @
     put P 24 (pw_int64 P) (termdeposit_CreateDepositContractMsg_validUntil message)"

definition field_termdeposit_CreateDepositContractMsg :: "proto_lib \<Rightarrow> termdeposit_ICreateDepositContractMsg \<Rightarrow> int \<Rightarrow> byte list \<Rightarrow> (termdeposit_ICreateDepositContractMsg \<times> byte list) result" where
  "field_termdeposit_CreateDepositContractMsg P message tag bs =
     (if tag div 8 = 1 then get (\<lambda>v. message\<lparr>termdeposit_CreateDepositContractMsg_metadata := Some v\<rparr>) (get_message P (decode_weave_Metadata P) bs)
      else if tag div 8 = 2 then get (\<lambda>v. message\<lparr>termdeposit_CreateDepositContractMsg_validSince := Some (Long v)\<rparr>) (pr_int64 P bs)
      else if tag div 8 = 3 then get (\<lambda>v. message\<lparr>termdeposit_CreateDepositContractMsg_validUntil := Some (Long v)\<rparr>) (pr_int64 P bs)
      else skip P tag message bs)"

definition decode_termdeposit_CreateDepositContractMsg :: "proto_lib \<Rightarrow> byte list \<Rightarrow> int \<Rightarrow> (termdeposit_ICreateDepositContractMsg \<times> byte list) result" where
  "decode_termdeposit_CreateDepositContractMsg P = read_message P (field_termdeposit_CreateDepositContractMsg P) new_termdeposit_CreateDepositContractMsg"

definition valid_termdeposit_CreateDepositContractMsg :: "termdeposit_ICreateDepositContractMsg \<Rightarrow> bool" where
  "valid_termdeposit_CreateDepositContractMsg message \<longleftrightarrow> pred_option valid_weave_Metadata (termdeposit_CreateDepositContractMsg_metadata message) \<and>
     pred_option is_int64 (termdeposit_CreateDepositContractMsg_validSince message) \<and>
     pred_option is_int64 (termdeposit_CreateDepositContractMsg_validUntil message)"

lemma decodes_termdeposit_CreateDepositContractMsg:
  assumes P: "proto_laws P" and "valid_termdeposit_CreateDepositContractMsg m"
  shows "decodes (decode_termdeposit_CreateDepositContractMsg P) (encode_termdeposit_CreateDepositContractMsg P m) (norm_termdeposit_ICreateDepositContractMsg m)"
proof -
  have "writes P (field_termdeposit_CreateDepositContractMsg P) (encode_termdeposit_CreateDepositContractMsg P m) new_termdeposit_CreateDepositContractMsg
      (set_field termdeposit_CreateDepositContractMsg_validUntil_update (norm_int64 (termdeposit_CreateDepositContractMsg_validUntil m)) (set_field termdeposit_CreateDepositContractMsg_validSince_update (norm_int64 (termdeposit_CreateDepositContractMsg_validSince m)) (set_field termdeposit_CreateDepositContractMsg_metadata_update (map_option norm_weave_IMetadata (termdeposit_CreateDepositContractMsg_metadata m)) new_termdeposit_CreateDepositContractMsg)))"
    unfolding encode_termdeposit_CreateDepositContractMsg_def
    by (rule writes_chain
        | rule writes_message [where valid = valid_weave_Metadata, OF P _ _ decodes_weave_Metadata [OF P]]
        | rule writes_int64 [OF P]
        | (simp add: field_termdeposit_CreateDepositContractMsg_def new_termdeposit_CreateDepositContractMsg_def set_field_def elements_def is_uint32_def assms(2) [unfolded valid_termdeposit_CreateDepositContractMsg_def]; fail))+
  then show ?thesis
    unfolding decode_termdeposit_CreateDepositContractMsg_def by (intro decodes_message) (simp add: set_field_def new_termdeposit_CreateDepositContractMsg_def norm_termdeposit_ICreateDepositContractMsg_def)
qed

section \<open>termdeposit.DepositMsg\<close>

record termdeposit_IDepositMsg =
  termdeposit_DepositMsg_metadata :: "weave_IMetadata option"
  termdeposit_DepositMsg_depositContractId :: "byte list option"
  termdeposit_DepositMsg_amount :: "coin_ICoin option"
  termdeposit_DepositMsg_depositor :: "byte list option"

definition norm_termdeposit_IDepositMsg :: "termdeposit_IDepositMsg \<Rightarrow> termdeposit_IDepositMsg" where
  "norm_termdeposit_IDepositMsg m = \<lparr>
     termdeposit_DepositMsg_metadata = map_option norm_weave_IMetadata (termdeposit_DepositMsg_metadata m),
     termdeposit_DepositMsg_depositContractId = norm_bytes (termdeposit_DepositMsg_depositContractId m),
     termdeposit_DepositMsg_amount = map_option norm_coin_ICoin (termdeposit_DepositMsg_amount m),
     termdeposit_DepositMsg_depositor = norm_bytes (termdeposit_DepositMsg_depositor m)\<rparr>"

definition new_termdeposit_DepositMsg :: termdeposit_IDepositMsg where
  "new_termdeposit_DepositMsg = \<lparr>termdeposit_DepositMsg_metadata = None, termdeposit_DepositMsg_depositContractId = Some [], termdeposit_DepositMsg_amount = None, termdeposit_DepositMsg_depositor = Some []\<rparr>"

definition encode_termdeposit_DepositMsg :: "proto_lib \<Rightarrow> termdeposit_IDepositMsg \<Rightarrow> byte list" where
  "encode_termdeposit_DepositMsg P message =
     put P 10 (\<lambda>v. ldelim P (encode_weave_Metadata P v)) (termdeposit_DepositMsg_metadata message) @
     put P 18 (pw_bytes P) (termdeposit_DepositMsg_depositContractId message) @
     put P 26 (\<lambda>v. ldelim P (encode_coin_Coin P v)) (termdeposit_DepositMsg_amount message) @
     put P 34 (pw_bytes P) (termdeposit_DepositMsg_depositor message)"

definition field_termdeposit_DepositMsg :: "proto_lib \<Rightarrow> termdeposit_IDepositMsg \<Rightarrow> int \<Rightarrow> byte list \<Rightarrow> (termdeposit_IDepositMsg \<times> byte list) result" where
  "field_termdeposit_DepositMsg P message tag bs =
     (if tag div 8 = 1 then get (\<lambda>v. message\<lparr>termdeposit_DepositMsg_metadata := Some v\<rparr>) (get_message P (decode_weave_Metadata P) bs)
      else if tag div 8 = 2 then get (\<lambda>v. message\<lparr>termdeposit_DepositMsg_depositContractId := Some v\<rparr>) (pr_bytes P bs)
      else if tag div 8 = 3 then get (\<lambda>v. message\<lparr>termdeposit_DepositMsg_amount := Some v\<rparr>) (get_message P (decode_coin_Coin P) bs)
      else if tag div 8 = 4 then get (\<lambda>v. message\<lparr>termdeposit_DepositMsg_depositor := Some v\<rparr>) (pr_bytes P bs)
      else skip P tag message bs)"

definition decode_termdeposit_DepositMsg :: "proto_lib \<Rightarrow> byte list \<Rightarrow> int \<Rightarrow> (termdeposit_IDepositMsg \<times> byte list) result" where
  "decode_termdeposit_DepositMsg P = read_message P (field_termdeposit_DepositMsg P) new_termdeposit_DepositMsg"

definition valid_termdeposit_DepositMsg :: "termdeposit_IDepositMsg \<Rightarrow> bool" where
  "valid_termdeposit_DepositMsg message \<longleftrightarrow> pred_option valid_weave_Metadata (termdeposit_DepositMsg_metadata message) \<and>
     pred_option valid_coin_Coin (termdeposit_DepositMsg_amount message)"

lemma decodes_termdeposit_DepositMsg:
  assumes P: "proto_laws P" and "valid_termdeposit_DepositMsg m"
  shows "decodes (decode_termdeposit_DepositMsg P) (encode_termdeposit_DepositMsg P m) (norm_termdeposit_IDepositMsg m)"
proof -
  have "writes P (field_termdeposit_DepositMsg P) (encode_termdeposit_DepositMsg P m) new_termdeposit_DepositMsg
      (set_field termdeposit_DepositMsg_depositor_update (norm_bytes (termdeposit_DepositMsg_depositor m)) (set_field termdeposit_DepositMsg_amount_update (map_option norm_coin_ICoin (termdeposit_DepositMsg_amount m)) (set_field termdeposit_DepositMsg_depositContractId_update (norm_bytes (termdeposit_DepositMsg_depositContractId m)) (set_field termdeposit_DepositMsg_metadata_update (map_option norm_weave_IMetadata (termdeposit_DepositMsg_metadata m)) new_termdeposit_DepositMsg))))"
    unfolding encode_termdeposit_DepositMsg_def
    by (rule writes_chain
        | rule writes_message [where valid = valid_weave_Metadata, OF P _ _ decodes_weave_Metadata [OF P]]
        | rule writes_bytes [OF P]
        | rule writes_message [where valid = valid_coin_Coin, OF P _ _ decodes_coin_Coin [OF P]]
        | (simp add: field_termdeposit_DepositMsg_def new_termdeposit_DepositMsg_def set_field_def elements_def is_uint32_def assms(2) [unfolded valid_termdeposit_DepositMsg_def]; fail))+
  then show ?thesis
    unfolding decode_termdeposit_DepositMsg_def by (intro decodes_message) (simp add: set_field_def new_termdeposit_DepositMsg_def norm_termdeposit_IDepositMsg_def)
qed

section \<open>termdeposit.ReleaseDepositMsg\<close>

record termdeposit_IReleaseDepositMsg =
  termdeposit_ReleaseDepositMsg_metadata :: "weave_IMetadata option"
  termdeposit_ReleaseDepositMsg_depositId :: "byte list option"

definition norm_termdeposit_IReleaseDepositMsg :: "termdeposit_IReleaseDepositMsg \<Rightarrow> termdeposit_IReleaseDepositMsg" where
  "norm_termdeposit_IReleaseDepositMsg m = \<lparr>
     termdeposit_ReleaseDepositMsg_metadata = map_option norm_weave_IMetadata (termdeposit_ReleaseDepositMsg_metadata m),
     termdeposit_ReleaseDepositMsg_depositId = norm_bytes (termdeposit_ReleaseDepositMsg_depositId m)\<rparr>"

definition new_termdeposit_ReleaseDepositMsg :: termdeposit_IReleaseDepositMsg where
  "new_termdeposit_ReleaseDepositMsg = \<lparr>termdeposit_ReleaseDepositMsg_metadata = None, termdeposit_ReleaseDepositMsg_depositId = Some []\<rparr>"

definition encode_termdeposit_ReleaseDepositMsg :: "proto_lib \<Rightarrow> termdeposit_IReleaseDepositMsg \<Rightarrow> byte list" where
  "encode_termdeposit_ReleaseDepositMsg P message =
     put P 10 (\<lambda>v. ldelim P (encode_weave_Metadata P v)) (termdeposit_ReleaseDepositMsg_metadata message) @
     put P 18 (pw_bytes P) (termdeposit_ReleaseDepositMsg_depositId message)"

definition field_termdeposit_ReleaseDepositMsg :: "proto_lib \<Rightarrow> termdeposit_IReleaseDepositMsg \<Rightarrow> int \<Rightarrow> byte list \<Rightarrow> (termdeposit_IReleaseDepositMsg \<times> byte list) result" where
  "field_termdeposit_ReleaseDepositMsg P message tag bs =
     (if tag div 8 = 1 then get (\<lambda>v. message\<lparr>termdeposit_ReleaseDepositMsg_metadata := Some v\<rparr>) (get_message P (decode_weave_Metadata P) bs)
      else if tag div 8 = 2 then get (\<lambda>v. message\<lparr>termdeposit_ReleaseDepositMsg_depositId := Some v\<rparr>) (pr_bytes P bs)
      else skip P tag message bs)"

definition decode_termdeposit_ReleaseDepositMsg :: "proto_lib \<Rightarrow> byte list \<Rightarrow> int \<Rightarrow> (termdeposit_IReleaseDepositMsg \<times> byte list) result" where
  "decode_termdeposit_ReleaseDepositMsg P = read_message P (field_termdeposit_ReleaseDepositMsg P) new_termdeposit_ReleaseDepositMsg"

definition valid_termdeposit_ReleaseDepositMsg :: "termdeposit_IReleaseDepositMsg \<Rightarrow> bool" where
  "valid_termdeposit_ReleaseDepositMsg message \<longleftrightarrow> pred_option valid_weave_Metadata (termdeposit_ReleaseDepositMsg_metadata message)"

lemma decodes_termdeposit_ReleaseDepositMsg:
  assumes P: "proto_laws P" and "valid_termdeposit_ReleaseDepositMsg m"
  shows "decodes (decode_termdeposit_ReleaseDepositMsg P) (encode_termdeposit_ReleaseDepositMsg P m) (norm_termdeposit_IReleaseDepositMsg m)"
proof -
  have "writes P (field_termdeposit_ReleaseDepositMsg P) (encode_termdeposit_ReleaseDepositMsg P m) new_termdeposit_ReleaseDepositMsg
      (set_field termdeposit_ReleaseDepositMsg_depositId_update (norm_bytes (termdeposit_ReleaseDepositMsg_depositId m)) (set_field termdeposit_ReleaseDepositMsg_metadata_update (map_option norm_weave_IMetadata (termdeposit_ReleaseDepositMsg_metadata m)) new_termdeposit_ReleaseDepositMsg))"
    unfolding encode_termdeposit_ReleaseDepositMsg_def
    by (rule writes_chain
        | rule writes_message [where valid = valid_weave_Metadata, OF P _ _ decodes_weave_Metadata [OF P]]
        | rule writes_bytes [OF P]
        | (simp add: field_termdeposit_ReleaseDepositMsg_def new_termdeposit_ReleaseDepositMsg_def set_field_def elements_def is_uint32_def assms(2) [unfolded valid_termdeposit_ReleaseDepositMsg_def]; fail))+
  then show ?thesis
    unfolding decode_termdeposit_ReleaseDepositMsg_def by (intro decodes_message) (simp add: set_field_def new_termdeposit_ReleaseDepositMsg_def norm_termdeposit_IReleaseDepositMsg_def)
qed

section \<open>bnsd.ExecuteBatchMsg.Union\<close>

record bnsd_ExecuteBatchMsg_IUnion =
  bnsd_ExecuteBatchMsg_Union_cashSendMsg :: "cash_ISendMsg option"
  bnsd_ExecuteBatchMsg_Union_escrowCreateMsg :: "escrow_ICreateMsg option"
  bnsd_ExecuteBatchMsg_Union_escrowReleaseMsg :: "escrow_IReleaseMsg option"
  bnsd_ExecuteBatchMsg_Union_escrowReturnMsg :: "escrow_IReturnMsg option"
  bnsd_ExecuteBatchMsg_Union_escrowUpdatePartiesMsg :: "escrow_IUpdatePartiesMsg option"
  bnsd_ExecuteBatchMsg_Union_multisigCreateMsg :: "multisig_ICreateMsg option"
  bnsd_ExecuteBatchMsg_Union_multisigUpdateMsg :: "multisig_IUpdateMsg option"
  bnsd_ExecuteBatchMsg_Union_validatorsApplyDiffMsg :: "validators_IApplyDiffMsg option"
  bnsd_ExecuteBatchMsg_Union_currencyCreateMsg :: "currency_ICreateMsg option"
  bnsd_ExecuteBatchMsg_Union_usernameRegisterTokenMsg :: "username_IRegisterTokenMsg option"
  bnsd_ExecuteBatchMsg_Union_usernameTransferTokenMsg :: "username_ITransferTokenMsg option"
  bnsd_ExecuteBatchMsg_Union_usernameChangeTokenTargetsMsg :: "username_IChangeTokenTargetsMsg option"
  bnsd_ExecuteBatchMsg_Union_usernameUpdateConfigurationMsg :: "username_IUpdateConfigurationMsg option"
  bnsd_ExecuteBatchMsg_Union_distributionCreateMsg :: "distribution_ICreateMsg option"
  bnsd_ExecuteBatchMsg_Union_distributionMsg :: "distribution_IDistributeMsg option"
  bnsd_ExecuteBatchMsg_Union_distributionResetMsg :: "distribution_IResetMsg option"
  bnsd_ExecuteBatchMsg_Union_msgfeeSetMsgFeeMsg :: "msgfee_ISetMsgFeeMsg option"
  bnsd_ExecuteBatchMsg_Union_datamigrationExecuteMigrationMsg :: "datamigration_IExecuteMigrationMsg option"
  bnsd_ExecuteBatchMsg_Union_accountUpdateConfigurationMsg :: "account_IUpdateConfigurationMsg option"
  bnsd_ExecuteBatchMsg_Union_accountRegisterDomainMsg :: "account_IRegisterDomainMsg option"
  bnsd_ExecuteBatchMsg_Union_accountReplaceAccountMsgFeesMsg :: "account_IReplaceAccountMsgFeesMsg option"
  bnsd_ExecuteBatchMsg_Union_accountTransferDomainMsg :: "account_ITransferDomainMsg option"
  bnsd_ExecuteBatchMsg_Union_accountRenewDomainMsg :: "account_IRenewDomainMsg option"
  bnsd_ExecuteBatchMsg_Union_accountDeleteDomainMsg :: "account_IDeleteDomainMsg option"
  bnsd_ExecuteBatchMsg_Union_accountRegisterAccountMsg :: "account_IRegisterAccountMsg option"
  bnsd_ExecuteBatchMsg_Union_accountTransferAccountMsg :: "account_ITransferAccountMsg option"
  bnsd_ExecuteBatchMsg_Union_accountReplaceAccountTargetsMsg :: "account_IReplaceAccountTargetsMsg option"
  bnsd_ExecuteBatchMsg_Union_accountDeleteAccountMsg :: "account_IDeleteAccountMsg option"
  bnsd_ExecuteBatchMsg_Union_accountFlushDomainMsg :: "account_IFlushDomainMsg option"
  bnsd_ExecuteBatchMsg_Union_accountRenewAccountMsg :: "account_IRenewAccountMsg option"
  bnsd_ExecuteBatchMsg_Union_accountAddAccountCertificateMsg :: "account_IAddAccountCertificateMsg option"
  bnsd_ExecuteBatchMsg_Union_accountDeleteAccountCertificateMsg :: "account_IDeleteAccountCertificateMsg option"
  bnsd_ExecuteBatchMsg_Union_cashUpdateConfigurationMsg :: "cash_IUpdateConfigurationMsg option"
  bnsd_ExecuteBatchMsg_Union_txfeeUpdateConfigurationMsg :: "txfee_IUpdateConfigurationMsg option"
  bnsd_ExecuteBatchMsg_Union_termdepositCreateDepositContractMsg :: "termdeposit_ICreateDepositContractMsg option"
  bnsd_ExecuteBatchMsg_Union_termdepositDepositMsg :: "termdeposit_IDepositMsg option"
  bnsd_ExecuteBatchMsg_Union_termdepositReleaseDepositMsg :: "termdeposit_IReleaseDepositMsg option"
  bnsd_ExecuteBatchMsg_Union_termdepositUpdateConfigurationMsg :: "termdeposit_IUpdateConfigurationMsg option"
  bnsd_ExecuteBatchMsg_Union_qualityscoreUpdateConfigurationMsg :: "qualityscore_IUpdateConfigurationMsg option"
  bnsd_ExecuteBatchMsg_Union_preregistrationUpdateConfigurationMsg :: "preregistration_IUpdateConfigurationMsg option"
  bnsd_ExecuteBatchMsg_Union_msgfeeUpdateConfigurationMsg :: "msgfee_IUpdateConfigurationMsg option"

definition norm_bnsd_ExecuteBatchMsg_IUnion :: "bnsd_ExecuteBatchMsg_IUnion \<Rightarrow> bnsd_ExecuteBatchMsg_IUnion" where
  "norm_bnsd_ExecuteBatchMsg_IUnion m = \<lparr>
     bnsd_ExecuteBatchMsg_Union_cashSendMsg = map_option norm_cash_ISendMsg (bnsd_ExecuteBatchMsg_Union_cashSendMsg m),
     bnsd_ExecuteBatchMsg_Union_escrowCreateMsg = map_option norm_escrow_ICreateMsg (bnsd_ExecuteBatchMsg_Union_escrowCreateMsg m),
     bnsd_ExecuteBatchMsg_Union_escrowReleaseMsg = map_option norm_escrow_IReleaseMsg (bnsd_ExecuteBatchMsg_Union_escrowReleaseMsg m),
     bnsd_ExecuteBatchMsg_Union_escrowReturnMsg = map_option norm_escrow_IReturnMsg (bnsd_ExecuteBatchMsg_Union_escrowReturnMsg m),
     bnsd_ExecuteBatchMsg_Union_escrowUpdatePartiesMsg = map_option norm_escrow_IUpdatePartiesMsg (bnsd_ExecuteBatchMsg_Union_escrowUpdatePartiesMsg m),
     bnsd_ExecuteBatchMsg_Union_multisigCreateMsg = map_option norm_multisig_ICreateMsg (bnsd_ExecuteBatchMsg_Union_multisigCreateMsg m),
     bnsd_ExecuteBatchMsg_Union_multisigUpdateMsg = map_option norm_multisig_IUpdateMsg (bnsd_ExecuteBatchMsg_Union_multisigUpdateMsg m),
     bnsd_ExecuteBatchMsg_Union_validatorsApplyDiffMsg = map_option norm_validators_IApplyDiffMsg (bnsd_ExecuteBatchMsg_Union_validatorsApplyDiffMsg m),
     bnsd_ExecuteBatchMsg_Union_currencyCreateMsg = map_option norm_currency_ICreateMsg (bnsd_ExecuteBatchMsg_Union_currencyCreateMsg m),
     bnsd_ExecuteBatchMsg_Union_usernameRegisterTokenMsg = map_option norm_username_IRegisterTokenMsg (bnsd_ExecuteBatchMsg_Union_usernameRegisterTokenMsg m),
     bnsd_ExecuteBatchMsg_Union_usernameTransferTokenMsg = map_option norm_username_ITransferTokenMsg (bnsd_ExecuteBatchMsg_Union_usernameTransferTokenMsg m),
     bnsd_ExecuteBatchMsg_Union_usernameChangeTokenTargetsMsg = map_option norm_username_IChangeTokenTargetsMsg (bnsd_ExecuteBatchMsg_Union_usernameChangeTokenTargetsMsg m),
     bnsd_ExecuteBatchMsg_Union_usernameUpdateConfigurationMsg = map_option norm_username_IUpdateConfigurationMsg (bnsd_ExecuteBatchMsg_Union_usernameUpdateConfigurationMsg m),
     bnsd_ExecuteBatchMsg_Union_distributionCreateMsg = map_option norm_distribution_ICreateMsg (bnsd_ExecuteBatchMsg_Union_distributionCreateMsg m),
     bnsd_ExecuteBatchMsg_Union_distributionMsg = map_option norm_distribution_IDistributeMsg (bnsd_ExecuteBatchMsg_Union_distributionMsg m),
     bnsd_ExecuteBatchMsg_Union_distributionResetMsg = map_option norm_distribution_IResetMsg (bnsd_ExecuteBatchMsg_Union_distributionResetMsg m),
     bnsd_ExecuteBatchMsg_Union_msgfeeSetMsgFeeMsg = map_option norm_msgfee_ISetMsgFeeMsg (bnsd_ExecuteBatchMsg_Union_msgfeeSetMsgFeeMsg m),
     bnsd_ExecuteBatchMsg_Union_datamigrationExecuteMigrationMsg = map_option norm_datamigration_IExecuteMigrationMsg (bnsd_ExecuteBatchMsg_Union_datamigrationExecuteMigrationMsg m),
     bnsd_ExecuteBatchMsg_Union_accountUpdateConfigurationMsg = map_option norm_account_IUpdateConfigurationMsg (bnsd_ExecuteBatchMsg_Union_accountUpdateConfigurationMsg m),
     bnsd_ExecuteBatchMsg_Union_accountRegisterDomainMsg = map_option norm_account_IRegisterDomainMsg (bnsd_ExecuteBatchMsg_Union_accountRegisterDomainMsg m),
     bnsd_ExecuteBatchMsg_Union_accountReplaceAccountMsgFeesMsg = map_option norm_account_IReplaceAccountMsgFeesMsg (bnsd_ExecuteBatchMsg_Union_accountReplaceAccountMsgFeesMsg m),
     bnsd_ExecuteBatchMsg_Union_accountTransferDomainMsg = map_option norm_account_ITransferDomainMsg (bnsd_ExecuteBatchMsg_Union_accountTransferDomainMsg m),
     bnsd_ExecuteBatchMsg_Union_accountRenewDomainMsg = map_option norm_account_IRenewDomainMsg (bnsd_ExecuteBatchMsg_Union_accountRenewDomainMsg m),
     bnsd_ExecuteBatchMsg_Union_accountDeleteDomainMsg = map_option norm_account_IDeleteDomainMsg (bnsd_ExecuteBatchMsg_Union_accountDeleteDomainMsg m),
     bnsd_ExecuteBatchMsg_Union_accountRegisterAccountMsg = map_option norm_account_IRegisterAccountMsg (bnsd_ExecuteBatchMsg_Union_accountRegisterAccountMsg m),
     bnsd_ExecuteBatchMsg_Union_accountTransferAccountMsg = map_option norm_account_ITransferAccountMsg (bnsd_ExecuteBatchMsg_Union_accountTransferAccountMsg m),
     bnsd_ExecuteBatchMsg_Union_accountReplaceAccountTargetsMsg = map_option norm_account_IReplaceAccountTargetsMsg (bnsd_ExecuteBatchMsg_Union_accountReplaceAccountTargetsMsg m),
     bnsd_ExecuteBatchMsg_Union_accountDeleteAccountMsg = map_option norm_account_IDeleteAccountMsg (bnsd_ExecuteBatchMsg_Union_accountDeleteAccountMsg m),
     bnsd_ExecuteBatchMsg_Union_accountFlushDomainMsg = map_option norm_account_IFlushDomainMsg (bnsd_ExecuteBatchMsg_Union_accountFlushDomainMsg m),
     bnsd_ExecuteBatchMsg_Union_accountRenewAccountMsg = map_option norm_account_IRenewAccountMsg (bnsd_ExecuteBatchMsg_Union_accountRenewAccountMsg m),
     bnsd_ExecuteBatchMsg_Union_accountAddAccountCertificateMsg = map_option norm_account_IAddAccountCertificateMsg (bnsd_ExecuteBatchMsg_Union_accountAddAccountCertificateMsg m),
     bnsd_ExecuteBatchMsg_Union_accountDeleteAccountCertificateMsg = map_option norm_account_IDeleteAccountCertificateMsg (bnsd_ExecuteBatchMsg_Union_accountDeleteAccountCertificateMsg m),
     bnsd_ExecuteBatchMsg_Union_cashUpdateConfigurationMsg = map_option norm_cash_IUpdateConfigurationMsg (bnsd_ExecuteBatchMsg_Union_cashUpdateConfigurationMsg m),
     bnsd_ExecuteBatchMsg_Union_txfeeUpdateConfigurationMsg = map_option norm_txfee_IUpdateConfigurationMsg (bnsd_ExecuteBatchMsg_Union_txfeeUpdateConfigurationMsg m),
     bnsd_ExecuteBatchMsg_Union_termdepositCreateDepositContractMsg = map_option norm_termdeposit_ICreateDepositContractMsg (bnsd_ExecuteBatchMsg_Union_termdepositCreateDepositContractMsg m),
     bnsd_ExecuteBatchMsg_Union_termdepositDepositMsg = map_option norm_termdeposit_IDepositMsg (bnsd_ExecuteBatchMsg_Union_termdepositDepositMsg m),
     bnsd_ExecuteBatchMsg_Union_termdepositReleaseDepositMsg = map_option norm_termdeposit_IReleaseDepositMsg (bnsd_ExecuteBatchMsg_Union_termdepositReleaseDepositMsg m),
     bnsd_ExecuteBatchMsg_Union_termdepositUpdateConfigurationMsg = map_option norm_termdeposit_IUpdateConfigurationMsg (bnsd_ExecuteBatchMsg_Union_termdepositUpdateConfigurationMsg m),
     bnsd_ExecuteBatchMsg_Union_qualityscoreUpdateConfigurationMsg = map_option norm_qualityscore_IUpdateConfigurationMsg (bnsd_ExecuteBatchMsg_Union_qualityscoreUpdateConfigurationMsg m),
     bnsd_ExecuteBatchMsg_Union_preregistrationUpdateConfigurationMsg = map_option norm_preregistration_IUpdateConfigurationMsg (bnsd_ExecuteBatchMsg_Union_preregistrationUpdateConfigurationMsg m),
     bnsd_ExecuteBatchMsg_Union_msgfeeUpdateConfigurationMsg = map_option norm_msgfee_IUpdateConfigurationMsg (bnsd_ExecuteBatchMsg_Union_msgfeeUpdateConfigurationMsg m)\<rparr>"

definition new_bnsd_ExecuteBatchMsg_Union :: bnsd_ExecuteBatchMsg_IUnion where
  "new_bnsd_ExecuteBatchMsg_Union = \<lparr>bnsd_ExecuteBatchMsg_Union_cashSendMsg = None, bnsd_ExecuteBatchMsg_Union_escrowCreateMsg = None, bnsd_ExecuteBatchMsg_Union_escrowReleaseMsg = None, bnsd_ExecuteBatchMsg_Union_escrowReturnMsg = None, bnsd_ExecuteBatchMsg_Union_escrowUpdatePartiesMsg = None, bnsd_ExecuteBatchMsg_Union_multisigCreateMsg = None, bnsd_ExecuteBatchMsg_Union_multisigUpdateMsg = None, bnsd_ExecuteBatchMsg_Union_validatorsApplyDiffMsg = None, bnsd_ExecuteBatchMsg_Union_currencyCreateMsg = None, bnsd_ExecuteBatchMsg_Union_usernameRegisterTokenMsg = None, bnsd_ExecuteBatchMsg_Union_usernameTransferTokenMsg = None, bnsd_ExecuteBatchMsg_Union_usernameChangeTokenTargetsMsg = None, bnsd_ExecuteBatchMsg_Union_usernameUpdateConfigurationMsg = None, bnsd_ExecuteBatchMsg_Union_distributionCreateMsg = None, bnsd_ExecuteBatchMsg_Union_distributionMsg = None, bnsd_ExecuteBatchMsg_Union_distributionResetMsg = None, bnsd_ExecuteBatchMsg_Union_msgfeeSetMsgFeeMsg = None, bnsd_ExecuteBatchMsg_Union_datamigrationExecuteMigrationMsg = None, bnsd_ExecuteBatchMsg_Union_accountUpdateConfigurationMsg = None, bnsd_ExecuteBatchMsg_Union_accountRegisterDomainMsg = None, bnsd_ExecuteBatchMsg_Union_accountReplaceAccountMsgFeesMsg = None, bnsd_ExecuteBatchMsg_Union_accountTransferDomainMsg = None, bnsd_ExecuteBatchMsg_Union_accountRenewDomainMsg = None, bnsd_ExecuteBatchMsg_Union_accountDeleteDomainMsg = None, bnsd_ExecuteBatchMsg_Union_accountRegisterAccountMsg = None, bnsd_ExecuteBatchMsg_Union_accountTransferAccountMsg = None, bnsd_ExecuteBatchMsg_Union_accountReplaceAccountTargetsMsg = None, bnsd_ExecuteBatchMsg_Union_accountDeleteAccountMsg = None, bnsd_ExecuteBatchMsg_Union_accountFlushDomainMsg = None, bnsd_ExecuteBatchMsg_Union_accountRenewAccountMsg = None, bnsd_ExecuteBatchMsg_Union_accountAddAccountCertificateMsg = None, bnsd_ExecuteBatchMsg_Union_accountDeleteAccountCertificateMsg = None, bnsd_ExecuteBatchMsg_Union_cashUpdateConfigurationMsg = None, bnsd_ExecuteBatchMsg_Union_txfeeUpdateConfigurationMsg = None, bnsd_ExecuteBatchMsg_Union_termdepositCreateDepositContractMsg = None, bnsd_ExecuteBatchMsg_Union_termdepositDepositMsg = None, bnsd_ExecuteBatchMsg_Union_termdepositReleaseDepositMsg = None, bnsd_ExecuteBatchMsg_Union_termdepositUpdateConfigurationMsg = None, bnsd_ExecuteBatchMsg_Union_qualityscoreUpdateConfigurationMsg = None, bnsd_ExecuteBatchMsg_Union_preregistrationUpdateConfigurationMsg = None, bnsd_ExecuteBatchMsg_Union_msgfeeUpdateConfigurationMsg = None\<rparr>"

definition encode_bnsd_ExecuteBatchMsg_Union :: "proto_lib \<Rightarrow> bnsd_ExecuteBatchMsg_IUnion \<Rightarrow> byte list" where
  "encode_bnsd_ExecuteBatchMsg_Union P message =
     put P 410 (\<lambda>v. ldelim P (encode_cash_SendMsg P v)) (bnsd_ExecuteBatchMsg_Union_cashSendMsg message) @
     put P 418 (\<lambda>v. ldelim P (encode_escrow_CreateMsg P v)) (bnsd_ExecuteBatchMsg_Union_escrowCreateMsg message) @
     put P 426 (\<lambda>v. ldelim P (encode_escrow_ReleaseMsg P v)) (bnsd_ExecuteBatchMsg_Union_escrowReleaseMsg message) @
     put P 434 (\<lambda>v. ldelim P (encode_escrow_ReturnMsg P v)) (bnsd_ExecuteBatchMsg_Union_escrowReturnMsg message) @
     put P 442 (\<lambda>v. ldelim P (encode_escrow_UpdatePartiesMsg P v)) (bnsd_ExecuteBatchMsg_Union_escrowUpdatePartiesMsg message) @
     put P 450 (\<lambda>v. ldelim P (encode_multisig_CreateMsg P v)) (bnsd_ExecuteBatchMsg_Union_multisigCreateMsg message) @
     put P 458 (\<lambda>v. ldelim P (encode_multisig_UpdateMsg P v)) (bnsd_ExecuteBatchMsg_Union_multisigUpdateMsg message) @
     put P 466 (\<lambda>v. ldelim P (encode_validators_ApplyDiffMsg P v)) (bnsd_ExecuteBatchMsg_Union_validatorsApplyDiffMsg message) @
     put P 474 (\<lambda>v. ldelim P (encode_currency_CreateMsg P v)) (bnsd_ExecuteBatchMsg_Union_currencyCreateMsg message) @
     put P 490 (\<lambda>v. ldelim P (encode_username_RegisterTokenMsg P v)) (bnsd_ExecuteBatchMsg_Union_usernameRegisterTokenMsg message) @
     put P 498 (\<lambda>v. ldelim P (encode_username_TransferTokenMsg P v)) (bnsd_ExecuteBatchMsg_Union_usernameTransferTokenMsg message) @
     put P 506 (\<lambda>v. ldelim P (encode_username_ChangeTokenTargetsMsg P v)) (bnsd_ExecuteBatchMsg_Union_usernameChangeTokenTargetsMsg message) @
     put P 514 (\<lambda>v. ldelim P (encode_username_UpdateConfigurationMsg P v)) (bnsd_ExecuteBatchMsg_Union_usernameUpdateConfigurationMsg message) @
     put P 530 (\<lambda>v. ldelim P (encode_distribution_CreateMsg P v)) (bnsd_ExecuteBatchMsg_Union_distributionCreateMsg message) @
     put P 538 (\<lambda>v. ldelim P (encode_distribution_DistributeMsg P v)) (bnsd_ExecuteBatchMsg_Union_distributionMsg message) @
     put P 546 (\<lambda>v. ldelim P (encode_distribution_ResetMsg P v)) (bnsd_ExecuteBatchMsg_Union_distributionResetMsg message) @
     put P 642 (\<lambda>v. ldelim P (encode_msgfee_SetMsgFeeMsg P v)) (bnsd_ExecuteBatchMsg_Union_msgfeeSetMsgFeeMsg message) @
     put P 650 (\<lambda>v. ldelim P (encode_datamigration_ExecuteMigrationMsg P v)) (bnsd_ExecuteBatchMsg_Union_datamigrationExecuteMigrationMsg message) @
     put P 658 (\<lambda>v. ldelim P (encode_account_UpdateConfigurationMsg P v)) (bnsd_ExecuteBatchMsg_Union_accountUpdateConfigurationMsg message) @
     put P 666 (\<lambda>v. ldelim P (encode_account_RegisterDomainMsg P v)) (bnsd_ExecuteBatchMsg_Union_accountRegisterDomainMsg message) @
     put P 674 (\<lambda>v. ldelim P (encode_account_ReplaceAccountMsgFeesMsg P v)) (bnsd_ExecuteBatchMsg_Union_accountReplaceAccountMsgFeesMsg message) @
     put P 682 (\<lambda>v. ldelim P (encode_account_TransferDomainMsg P v)) (bnsd_ExecuteBatchMsg_Union_accountTransferDomainMsg message) @
     put P 690 (\<lambda>v. ldelim P (encode_account_RenewDomainMsg P v)) (bnsd_ExecuteBatchMsg_Union_accountRenewDomainMsg message) @
     put P 698 (\<lambda>v. ldelim P (encode_account_DeleteDomainMsg P v)) (bnsd_ExecuteBatchMsg_Union_accountDeleteDomainMsg message) @
     put P 706 (\<lambda>v. ldelim P (encode_account_RegisterAccountMsg P v)) (bnsd_ExecuteBatchMsg_Union_accountRegisterAccountMsg message) @
     put P 714 (\<lambda>v. ldelim P (encode_account_TransferAccountMsg P v)) (bnsd_ExecuteBatchMsg_Union_accountTransferAccountMsg message) @
     put P 722 (\<lambda>v. ldelim P (encode_account_ReplaceAccountTargetsMsg P v)) (bnsd_ExecuteBatchMsg_Union_accountReplaceAccountTargetsMsg message) @
     put P 730 (\<lambda>v. ldelim P (encode_account_DeleteAccountMsg P v)) (bnsd_ExecuteBatchMsg_Union_accountDeleteAccountMsg message) @
     put P 738 (\<lambda>v. ldelim P (encode_account_FlushDomainMsg P v)) (bnsd_ExecuteBatchMsg_Union_accountFlushDomainMsg message) @
     put P 746 (\<lambda>v. ldelim P (encode_account_RenewAccountMsg P v)) (bnsd_ExecuteBatchMsg_Union_accountRenewAccountMsg message) @
     put P 754 (\<lambda>v. ldelim P (encode_account_AddAccountCertificateMsg P v)) (bnsd_ExecuteBatchMsg_Union_accountAddAccountCertificateMsg message) @
     put P 762 (\<lambda>v. ldelim P (encode_account_DeleteAccountCertificateMsg P v)) (bnsd_ExecuteBatchMsg_Union_accountDeleteAccountCertificateMsg message) @
     put P 778 (\<lambda>v. ldelim P (encode_cash_UpdateConfigurationMsg P v)) (bnsd_ExecuteBatchMsg_Union_cashUpdateConfigurationMsg message) @
     put P 786 (\<lambda>v. ldelim P (encode_txfee_UpdateConfigurationMsg P v)) (bnsd_ExecuteBatchMsg_Union_txfeeUpdateConfigurationMsg message) @
     put P 794 (\<lambda>v. ldelim P (encode_termdeposit_CreateDepositContractMsg P v)) (bnsd_ExecuteBatchMsg_Union_termdepositCreateDepositContractMsg message) @
     put P 802 (\<lambda>v. ldelim P (encode_termdeposit_DepositMsg P v)) (bnsd_ExecuteBatchMsg_Union_termdepositDepositMsg message) @
     put P 810 (\<lambda>v. ldelim P (encode_termdeposit_ReleaseDepositMsg P v)) (bnsd_ExecuteBatchMsg_Union_termdepositReleaseDepositMsg message) @
     put P 818 (\<lambda>v. ldelim P (encode_termdeposit_UpdateConfigurationMsg P v)) (bnsd_ExecuteBatchMsg_Union_termdepositUpdateConfigurationMsg message) @
     put P 826 (\<lambda>v. ldelim P (encode_qualityscore_UpdateConfigurationMsg P v)) (bnsd_ExecuteBatchMsg_Union_qualityscoreUpdateConfigurationMsg message) @
     put P 834 (\<lambda>v. ldelim P (encode_preregistration_UpdateConfigurationMsg P v)) (bnsd_ExecuteBatchMsg_Union_preregistrationUpdateConfigurationMsg message) @
     put P 842 (\<lambda>v. ldelim P (encode_msgfee_UpdateConfigurationMsg P v)) (bnsd_ExecuteBatchMsg_Union_msgfeeUpdateConfigurationMsg message)"

definition field_bnsd_ExecuteBatchMsg_Union :: "proto_lib \<Rightarrow> bnsd_ExecuteBatchMsg_IUnion \<Rightarrow> int \<Rightarrow> byte list \<Rightarrow> (bnsd_ExecuteBatchMsg_IUnion \<times> byte list) result" where
  "field_bnsd_ExecuteBatchMsg_Union P message tag bs =
     (if tag div 8 = 51 then get (\<lambda>v. message\<lparr>bnsd_ExecuteBatchMsg_Union_cashSendMsg := Some v\<rparr>) (get_message P (decode_cash_SendMsg P) bs)
      else if tag div 8 = 52 then get (\<lambda>v. message\<lparr>bnsd_ExecuteBatchMsg_Union_escrowCreateMsg := Some v\<rparr>) (get_message P (decode_escrow_CreateMsg P) bs)
      else if tag div 8 = 53 then get (\<lambda>v. message\<lparr>bnsd_ExecuteBatchMsg_Union_escrowReleaseMsg := Some v\<rparr>) (get_message P (decode_escrow_ReleaseMsg P) bs)
      else if tag div 8 = 54 then get (\<lambda>v. message\<lparr>bnsd_ExecuteBatchMsg_Union_escrowReturnMsg := Some v\<rparr>) (get_message P (decode_escrow_ReturnMsg P) bs)
      else if tag div 8 = 55 then get (\<lambda>v. message\<lparr>bnsd_ExecuteBatchMsg_Union_escrowUpdatePartiesMsg := Some v\<rparr>) (get_message P (decode_escrow_UpdatePartiesMsg P) bs)
      else if tag div 8 = 56 then get (\<lambda>v. message\<lparr>bnsd_ExecuteBatchMsg_Union_multisigCreateMsg := Some v\<rparr>) (get_message P (decode_multisig_CreateMsg P) bs)
      else if tag div 8 = 57 then get (\<lambda>v. message\<lparr>bnsd_ExecuteBatchMsg_Union_multisigUpdateMsg := Some v\<rparr>) (get_message P (decode_multisig_UpdateMsg P) bs)
      else if tag div 8 = 58 then get (\<lambda>v. message\<lparr>bnsd_ExecuteBatchMsg_Union_validatorsApplyDiffMsg := Some v\<rparr>) (get_message P (decode_validators_ApplyDiffMsg P) bs)
      else if tag div 8 = 59 then get (\<lambda>v. message\<lparr>bnsd_ExecuteBatchMsg_Union_currencyCreateMsg := Some v\<rparr>) (get_message P (decode_currency_CreateMsg P) bs)
      else if tag div 8 = 61 then get (\<lambda>v. message\<lparr>bnsd_ExecuteBatchMsg_Union_usernameRegisterTokenMsg := Some v\<rparr>) (get_message P (decode_username_RegisterTokenMsg P) bs)
      else if tag div 8 = 62 then get (\<lambda>v. message\<lparr>bnsd_ExecuteBatchMsg_Union_usernameTransferTokenMsg := Some v\<rparr>) (get_message P (decode_username_TransferTokenMsg P) bs)
      else if tag div 8 = 63 then get (\<lambda>v. message\<lparr>bnsd_ExecuteBatchMsg_Union_usernameChangeTokenTargetsMsg := Some v\<rparr>) (get_message P (decode_username_ChangeTokenTargetsMsg P) bs)
      else if tag div 8 = 64 then get (\<lambda>v. message\<lparr>bnsd_ExecuteBatchMsg_Union_usernameUpdateConfigurationMsg := Some v\<rparr>) (get_message P (decode_username_UpdateConfigurationMsg P) bs)
      else if tag div 8 = 66 then get (\<lambda>v. message\<lparr>bnsd_ExecuteBatchMsg_Union_distributionCreateMsg := Some v\<rparr>) (get_message P (decode_distribution_CreateMsg P) bs)
      else if tag div 8 = 67 then get (\<lambda>v. message\<lparr>bnsd_ExecuteBatchMsg_Union_distributionMsg := Some v\<rparr>) (get_message P (decode_distribution_DistributeMsg P) bs)
      else if tag div 8 = 68 then get (\<lambda>v. message\<lparr>bnsd_ExecuteBatchMsg_Union_distributionResetMsg := Some v\<rparr>) (get_message P (decode_distribution_ResetMsg P) bs)
      else if tag div 8 = 80 then get (\<lambda>v. message\<lparr>bnsd_ExecuteBatchMsg_Union_msgfeeSetMsgFeeMsg := Some v\<rparr>) (get_message P (decode_msgfee_SetMsgFeeMsg P) bs)
      else if tag div 8 = 81 then get (\<lambda>v. message\<lparr>bnsd_ExecuteBatchMsg_Union_datamigrationExecuteMigrationMsg := Some v\<rparr>) (get_message P (decode_datamigration_ExecuteMigrationMsg P) bs)
      else if tag div 8 = 82 then get (\<lambda>v. message\<lparr>bnsd_ExecuteBatchMsg_Union_accountUpdateConfigurationMsg := Some v\<rparr>) (get_message P (decode_account_UpdateConfigurationMsg P) bs)
      else if tag div 8 = 83 then get (\<lambda>v. message\<lparr>bnsd_ExecuteBatchMsg_Union_accountRegisterDomainMsg := Some v\<rparr>) (get_message P (decode_account_RegisterDomainMsg P) bs)
      else if tag div 8 = 84 then get (\<lambda>v. message\<lparr>bnsd_ExecuteBatchMsg_Union_accountReplaceAccountMsgFeesMsg := Some v\<rparr>) (get_message P (decode_account_ReplaceAccountMsgFeesMsg P) bs)
      else if tag div 8 = 85 then get (\<lambda>v. message\<lparr>bnsd_ExecuteBatchMsg_Union_accountTransferDomainMsg := Some v\<rparr>) (get_message P (decode_account_TransferDomainMsg P) bs)
      else if tag div 8 = 86 then get (\<lambda>v. message\<lparr>bnsd_ExecuteBatchMsg_Union_accountRenewDomainMsg := Some v\<rparr>) (get_message P (decode_account_RenewDomainMsg P) bs)
      else if tag div 8 = 87 then get (\<lambda>v. message\<lparr>bnsd_ExecuteBatchMsg_Union_accountDeleteDomainMsg := Some v\<rparr>) (get_message P (decode_account_DeleteDomainMsg P) bs)
      else if tag div 8 = 88 then get (\<lambda>v. message\<lparr>bnsd_ExecuteBatchMsg_Union_accountRegisterAccountMsg := Some v\<rparr>) (get_message P (decode_account_RegisterAccountMsg P) bs)
      else if tag div 8 = 89 then get (\<lambda>v. message\<lparr>bnsd_ExecuteBatchMsg_Union_accountTransferAccountMsg := Some v\<rparr>) (get_message P (decode_account_TransferAccountMsg P) bs)
      else if tag div 8 = 90 then get (\<lambda>v. message\<lparr>bnsd_ExecuteBatchMsg_Union_accountReplaceAccountTargetsMsg := Some v\<rparr>) (get_message P (decode_account_ReplaceAccountTargetsMsg P) bs)
      else if tag div 8 = 91 then get (\<lambda>v. message\<lparr>bnsd_ExecuteBatchMsg_Union_accountDeleteAccountMsg := Some v\<rparr>) (get_message P (decode_account_DeleteAccountMsg P) bs)
      else if tag div 8 = 92 then get (\<lambda>v. message\<lparr>bnsd_ExecuteBatchMsg_Union_accountFlushDomainMsg := Some v\<rparr>) (get_message P (decode_account_FlushDomainMsg P) bs)
      else if tag div 8 = 93 then get (\<lambda>v. message\<lparr>bnsd_ExecuteBatchMsg_Union_accountRenewAccountMsg := Some v\<rparr>) (get_message P (decode_account_RenewAccountMsg P) bs)
      else if tag div 8 = 94 then get (\<lambda>v. message\<lparr>bnsd_ExecuteBatchMsg_Union_accountAddAccountCertificateMsg := Some v\<rparr>) (get_message P (decode_account_AddAccountCertificateMsg P) bs)
      else if tag div 8 = 95 then get (\<lambda>v. message\<lparr>bnsd_ExecuteBatchMsg_Union_accountDeleteAccountCertificateMsg := Some v\<rparr>) (get_message P (decode_account_DeleteAccountCertificateMsg P) bs)
      else if tag div 8 = 97 then get (\<lambda>v. message\<lparr>bnsd_ExecuteBatchMsg_Union_cashUpdateConfigurationMsg := Some v\<rparr>) (get_message P (decode_cash_UpdateConfigurationMsg P) bs)
      else if tag div 8 = 98 then get (\<lambda>v. message\<lparr>bnsd_ExecuteBatchMsg_Union_txfeeUpdateConfigurationMsg := Some v\<rparr>) (get_message P (decode_txfee_UpdateConfigurationMsg P) bs)
      else if tag div 8 = 99 then get (\<lambda>v. message\<lparr>bnsd_ExecuteBatchMsg_Union_termdepositCreateDepositContractMsg := Some v\<rparr>) (get_message P (decode_termdeposit_CreateDepositContractMsg P) bs)
      else if tag div 8 = 100 then get (\<lambda>v. message\<lparr>bnsd_ExecuteBatchMsg_Union_termdepositDepositMsg := Some v\<rparr>) (get_message P (decode_termdeposit_DepositMsg P) bs)
      else if tag div 8 = 101 then get (\<lambda>v. message\<lparr>bnsd_ExecuteBatchMsg_Union_termdepositReleaseDepositMsg := Some v\<rparr>) (get_message P (decode_termdeposit_ReleaseDepositMsg P) bs)
      else if tag div 8 = 102 then get (\<lambda>v. message\<lparr>bnsd_ExecuteBatchMsg_Union_termdepositUpdateConfigurationMsg := Some v\<rparr>) (get_message P (decode_termdeposit_UpdateConfigurationMsg P) bs)
      else if tag div 8 = 103 then get (\<lambda>v. message\<lparr>bnsd_ExecuteBatchMsg_Union_qualityscoreUpdateConfigurationMsg := Some v\<rparr>) (get_message P (decode_qualityscore_UpdateConfigurationMsg P) bs)
      else if tag div 8 = 104 then get (\<lambda>v. message\<lparr>bnsd_ExecuteBatchMsg_Union_preregistrationUpdateConfigurationMsg := Some v\<rparr>) (get_message P (decode_preregistration_UpdateConfigurationMsg P) bs)
      else if tag div 8 = 105 then get (\<lambda>v. message\<lparr>bnsd_ExecuteBatchMsg_Union_msgfeeUpdateConfigurationMsg := Some v\<rparr>) (get_message P (decode_msgfee_UpdateConfigurationMsg P) bs)
      else skip P tag message bs)"

definition decode_bnsd_ExecuteBatchMsg_Union :: "proto_lib \<Rightarrow> byte list \<Rightarrow> int \<Rightarrow> (bnsd_ExecuteBatchMsg_IUnion \<times> byte list) result" where
  "decode_bnsd_ExecuteBatchMsg_Union P = read_message P (field_bnsd_ExecuteBatchMsg_Union P) new_bnsd_ExecuteBatchMsg_Union"

definition valid_bnsd_ExecuteBatchMsg_Union :: "bnsd_ExecuteBatchMsg_IUnion \<Rightarrow> bool" where
  "valid_bnsd_ExecuteBatchMsg_Union message \<longleftrightarrow> pred_option valid_cash_SendMsg (bnsd_ExecuteBatchMsg_Union_cashSendMsg message) \<and>
     pred_option valid_escrow_CreateMsg (bnsd_ExecuteBatchMsg_Union_escrowCreateMsg message) \<and>
     pred_option valid_escrow_ReleaseMsg (bnsd_ExecuteBatchMsg_Union_escrowReleaseMsg message) \<and>
     pred_option valid_escrow_ReturnMsg (bnsd_ExecuteBatchMsg_Union_escrowReturnMsg message) \<and>
     pred_option valid_escrow_UpdatePartiesMsg (bnsd_ExecuteBatchMsg_Union_escrowUpdatePartiesMsg message) \<and>
     pred_option valid_multisig_CreateMsg (bnsd_ExecuteBatchMsg_Union_multisigCreateMsg message) \<and>
     pred_option valid_multisig_UpdateMsg (bnsd_ExecuteBatchMsg_Union_multisigUpdateMsg message) \<and>
     pred_option valid_validators_ApplyDiffMsg (bnsd_ExecuteBatchMsg_Union_validatorsApplyDiffMsg message) \<and>
     pred_option valid_currency_CreateMsg (bnsd_ExecuteBatchMsg_Union_currencyCreateMsg message) \<and>
     pred_option valid_username_RegisterTokenMsg (bnsd_ExecuteBatchMsg_Union_usernameRegisterTokenMsg message) \<and>
     pred_option valid_username_TransferTokenMsg (bnsd_ExecuteBatchMsg_Union_usernameTransferTokenMsg message) \<and>
     pred_option valid_username_ChangeTokenTargetsMsg (bnsd_ExecuteBatchMsg_Union_usernameChangeTokenTargetsMsg message) \<and>
     pred_option valid_username_UpdateConfigurationMsg (bnsd_ExecuteBatchMsg_Union_usernameUpdateConfigurationMsg message) \<and>
     pred_option valid_distribution_CreateMsg (bnsd_ExecuteBatchMsg_Union_distributionCreateMsg message) \<and>
     pred_option valid_distribution_DistributeMsg (bnsd_ExecuteBatchMsg_Union_distributionMsg message) \<and>
     pred_option valid_distribution_ResetMsg (bnsd_ExecuteBatchMsg_Union_distributionResetMsg message) \<and>
     pred_option valid_msgfee_SetMsgFeeMsg (bnsd_ExecuteBatchMsg_Union_msgfeeSetMsgFeeMsg message) \<and>
     pred_option valid_datamigration_ExecuteMigrationMsg (bnsd_ExecuteBatchMsg_Union_datamigrationExecuteMigrationMsg message) \<and>
     pred_option valid_account_UpdateConfigurationMsg (bnsd_ExecuteBatchMsg_Union_accountUpdateConfigurationMsg message) \<and>
     pred_option valid_account_RegisterDomainMsg (bnsd_ExecuteBatchMsg_Union_accountRegisterDomainMsg message) \<and>
     pred_option valid_account_ReplaceAccountMsgFeesMsg (bnsd_ExecuteBatchMsg_Union_accountReplaceAccountMsgFeesMsg message) \<and>
     pred_option valid_account_TransferDomainMsg (bnsd_ExecuteBatchMsg_Union_accountTransferDomainMsg message) \<and>
     pred_option valid_account_RenewDomainMsg (bnsd_ExecuteBatchMsg_Union_accountRenewDomainMsg message) \<and>
     pred_option valid_account_DeleteDomainMsg (bnsd_ExecuteBatchMsg_Union_accountDeleteDomainMsg message) \<and>
     pred_option valid_account_RegisterAccountMsg (bnsd_ExecuteBatchMsg_Union_accountRegisterAccountMsg message) \<and>
     pred_option valid_account_TransferAccountMsg (bnsd_ExecuteBatchMsg_Union_accountTransferAccountMsg message) \<and>
     pred_option valid_account_ReplaceAccountTargetsMsg (bnsd_ExecuteBatchMsg_Union_accountReplaceAccountTargetsMsg message) \<and>
     pred_option valid_account_DeleteAccountMsg (bnsd_ExecuteBatchMsg_Union_accountDeleteAccountMsg message) \<and>
     pred_option valid_account_FlushDomainMsg (bnsd_ExecuteBatchMsg_Union_accountFlushDomainMsg message) \<and>
     pred_option valid_account_RenewAccountMsg (bnsd_ExecuteBatchMsg_Union_accountRenewAccountMsg message) \<and>
     pred_option valid_account_AddAccountCertificateMsg (bnsd_ExecuteBatchMsg_Union_accountAddAccountCertificateMsg message) \<and>
     pred_option valid_account_DeleteAccountCertificateMsg (bnsd_ExecuteBatchMsg_Union_accountDeleteAccountCertificateMsg message) \<and>
     pred_option valid_cash_UpdateConfigurationMsg (bnsd_ExecuteBatchMsg_Union_cashUpdateConfigurationMsg message) \<and>
     pred_option valid_txfee_UpdateConfigurationMsg (bnsd_ExecuteBatchMsg_Union_txfeeUpdateConfigurationMsg message) \<and>
     pred_option valid_termdeposit_CreateDepositContractMsg (bnsd_ExecuteBatchMsg_Union_termdepositCreateDepositContractMsg message) \<and>
     pred_option valid_termdeposit_DepositMsg (bnsd_ExecuteBatchMsg_Union_termdepositDepositMsg message) \<and>
     pred_option valid_termdeposit_ReleaseDepositMsg (bnsd_ExecuteBatchMsg_Union_termdepositReleaseDepositMsg message) \<and>
     pred_option valid_termdeposit_UpdateConfigurationMsg (bnsd_ExecuteBatchMsg_Union_termdepositUpdateConfigurationMsg message) \<and>
     pred_option valid_qualityscore_UpdateConfigurationMsg (bnsd_ExecuteBatchMsg_Union_qualityscoreUpdateConfigurationMsg message) \<and>
     pred_option valid_preregistration_UpdateConfigurationMsg (bnsd_ExecuteBatchMsg_Union_preregistrationUpdateConfigurationMsg message) \<and>
     pred_option valid_msgfee_UpdateConfigurationMsg (bnsd_ExecuteBatchMsg_Union_msgfeeUpdateConfigurationMsg message)"

lemma decodes_bnsd_ExecuteBatchMsg_Union:
  assumes P: "proto_laws P" and "valid_bnsd_ExecuteBatchMsg_Union m"
  shows "decodes (decode_bnsd_ExecuteBatchMsg_Union P) (encode_bnsd_ExecuteBatchMsg_Union P m) (norm_bnsd_ExecuteBatchMsg_IUnion m)"
proof -
  have "writes P (field_bnsd_ExecuteBatchMsg_Union P) (encode_bnsd_ExecuteBatchMsg_Union P m) new_bnsd_ExecuteBatchMsg_Union
      (set_field bnsd_ExecuteBatchMsg_Union_msgfeeUpdateConfigurationMsg_update (map_option norm_msgfee_IUpdateConfigurationMsg (bnsd_ExecuteBatchMsg_Union_msgfeeUpdateConfigurationMsg m)) (set_field bnsd_ExecuteBatchMsg_Union_preregistrationUpdateConfigurationMsg_update (map_option norm_preregistration_IUpdateConfigurationMsg (bnsd_ExecuteBatchMsg_Union_preregistrationUpdateConfigurationMsg m)) (set_field bnsd_ExecuteBatchMsg_Union_qualityscoreUpdateConfigurationMsg_update (map_option norm_qualityscore_IUpdateConfigurationMsg (bnsd_ExecuteBatchMsg_Union_qualityscoreUpdateConfigurationMsg m)) (set_field bnsd_ExecuteBatchMsg_Union_termdepositUpdateConfigurationMsg_update (map_option norm_termdeposit_IUpdateConfigurationMsg (bnsd_ExecuteBatchMsg_Union_termdepositUpdateConfigurationMsg m)) (set_field bnsd_ExecuteBatchMsg_Union_termdepositReleaseDepositMsg_update (map_option norm_termdeposit_IReleaseDepositMsg (bnsd_ExecuteBatchMsg_Union_termdepositReleaseDepositMsg m)) (set_field bnsd_ExecuteBatchMsg_Union_termdepositDepositMsg_update (map_option norm_termdeposit_IDepositMsg (bnsd_ExecuteBatchMsg_Union_termdepositDepositMsg m)) (set_field bnsd_ExecuteBatchMsg_Union_termdepositCreateDepositContractMsg_update (map_option norm_termdeposit_ICreateDepositContractMsg (bnsd_ExecuteBatchMsg_Union_termdepositCreateDepositContractMsg m)) (set_field bnsd_ExecuteBatchMsg_Union_txfeeUpdateConfigurationMsg_update (map_option norm_txfee_IUpdateConfigurationMsg (bnsd_ExecuteBatchMsg_Union_txfeeUpdateConfigurationMsg m)) (set_field bnsd_ExecuteBatchMsg_Union_cashUpdateConfigurationMsg_update (map_option norm_cash_IUpdateConfigurationMsg (bnsd_ExecuteBatchMsg_Union_cashUpdateConfigurationMsg m)) (set_field bnsd_ExecuteBatchMsg_Union_accountDeleteAccountCertificateMsg_update (map_option norm_account_IDeleteAccountCertificateMsg (bnsd_ExecuteBatchMsg_Union_accountDeleteAccountCertificateMsg m)) (set_field bnsd_ExecuteBatchMsg_Union_accountAddAccountCertificateMsg_update (map_option norm_account_IAddAccountCertificateMsg (bnsd_ExecuteBatchMsg_Union_accountAddAccountCertificateMsg m)) (set_field bnsd_ExecuteBatchMsg_Union_accountRenewAccountMsg_update (map_option norm_account_IRenewAccountMsg (bnsd_ExecuteBatchMsg_Union_accountRenewAccountMsg m)) (set_field bnsd_ExecuteBatchMsg_Union_accountFlushDomainMsg_update (map_option norm_account_IFlushDomainMsg (bnsd_ExecuteBatchMsg_Union_accountFlushDomainMsg m)) (set_field bnsd_ExecuteBatchMsg_Union_accountDeleteAccountMsg_update (map_option norm_account_IDeleteAccountMsg (bnsd_ExecuteBatchMsg_Union_accountDeleteAccountMsg m)) (set_field bnsd_ExecuteBatchMsg_Union_accountReplaceAccountTargetsMsg_update (map_option norm_account_IReplaceAccountTargetsMsg (bnsd_ExecuteBatchMsg_Union_accountReplaceAccountTargetsMsg m)) (set_field bnsd_ExecuteBatchMsg_Union_accountTransferAccountMsg_update (map_option norm_account_ITransferAccountMsg (bnsd_ExecuteBatchMsg_Union_accountTransferAccountMsg m)) (set_field bnsd_ExecuteBatchMsg_Union_accountRegisterAccountMsg_update (map_option norm_account_IRegisterAccountMsg (bnsd_ExecuteBatchMsg_Union_accountRegisterAccountMsg m)) (set_field bnsd_ExecuteBatchMsg_Union_accountDeleteDomainMsg_update (map_option norm_account_IDeleteDomainMsg (bnsd_ExecuteBatchMsg_Union_accountDeleteDomainMsg m)) (set_field bnsd_ExecuteBatchMsg_Union_accountRenewDomainMsg_update (map_option norm_account_IRenewDomainMsg (bnsd_ExecuteBatchMsg_Union_accountRenewDomainMsg m)) (set_field bnsd_ExecuteBatchMsg_Union_accountTransferDomainMsg_update (map_option norm_account_ITransferDomainMsg (bnsd_ExecuteBatchMsg_Union_accountTransferDomainMsg m)) (set_field bnsd_ExecuteBatchMsg_Union_accountReplaceAccountMsgFeesMsg_update (map_option norm_account_IReplaceAccountMsgFeesMsg (bnsd_ExecuteBatchMsg_Union_accountReplaceAccountMsgFeesMsg m)) (set_field bnsd_ExecuteBatchMsg_Union_accountRegisterDomainMsg_update (map_option norm_account_IRegisterDomainMsg (bnsd_ExecuteBatchMsg_Union_accountRegisterDomainMsg m)) (set_field bnsd_ExecuteBatchMsg_Union_accountUpdateConfigurationMsg_update (map_option norm_account_IUpdateConfigurationMsg (bnsd_ExecuteBatchMsg_Union_accountUpdateConfigurationMsg m)) (set_field bnsd_ExecuteBatchMsg_Union_datamigrationExecuteMigrationMsg_update (map_option norm_datamigration_IExecuteMigrationMsg (bnsd_ExecuteBatchMsg_Union_datamigrationExecuteMigrationMsg m)) (set_field bnsd_ExecuteBatchMsg_Union_msgfeeSetMsgFeeMsg_update (map_option norm_msgfee_ISetMsgFeeMsg (bnsd_ExecuteBatchMsg_Union_msgfeeSetMsgFeeMsg m)) (set_field bnsd_ExecuteBatchMsg_Union_distributionResetMsg_update (map_option norm_distribution_IResetMsg (bnsd_ExecuteBatchMsg_Union_distributionResetMsg m)) (set_field bnsd_ExecuteBatchMsg_Union_distributionMsg_update (map_option norm_distribution_IDistributeMsg (bnsd_ExecuteBatchMsg_Union_distributionMsg m)) (set_field bnsd_ExecuteBatchMsg_Union_distributionCreateMsg_update (map_option norm_distribution_ICreateMsg (bnsd_ExecuteBatchMsg_Union_distributionCreateMsg m)) (set_field bnsd_ExecuteBatchMsg_Union_usernameUpdateConfigurationMsg_update (map_option norm_username_IUpdateConfigurationMsg (bnsd_ExecuteBatchMsg_Union_usernameUpdateConfigurationMsg m)) (set_field bnsd_ExecuteBatchMsg_Union_usernameChangeTokenTargetsMsg_update (map_option norm_username_IChangeTokenTargetsMsg (bnsd_ExecuteBatchMsg_Union_usernameChangeTokenTargetsMsg m)) (set_field bnsd_ExecuteBatchMsg_Union_usernameTransferTokenMsg_update (map_option norm_username_ITransferTokenMsg (bnsd_ExecuteBatchMsg_Union_usernameTransferTokenMsg m)) (set_field bnsd_ExecuteBatchMsg_Union_usernameRegisterTokenMsg_update (map_option norm_username_IRegisterTokenMsg (bnsd_ExecuteBatchMsg_Union_usernameRegisterTokenMsg m)) (set_field bnsd_ExecuteBatchMsg_Union_currencyCreateMsg_update (map_option norm_currency_ICreateMsg (bnsd_ExecuteBatchMsg_Union_currencyCreateMsg m)) (set_field bnsd_ExecuteBatchMsg_Union_validatorsApplyDiffMsg_update (map_option norm_validators_IApplyDiffMsg (bnsd_ExecuteBatchMsg_Union_validatorsApplyDiffMsg m)) (set_field bnsd_ExecuteBatchMsg_Union_multisigUpdateMsg_update (map_option norm_multisig_IUpdateMsg (bnsd_ExecuteBatchMsg_Union_multisigUpdateMsg m)) (set_field bnsd_ExecuteBatchMsg_Union_multisigCreateMsg_update (map_option norm_multisig_ICreateMsg (bnsd_ExecuteBatchMsg_Union_multisigCreateMsg m)) (set_field bnsd_ExecuteBatchMsg_Union_escrowUpdatePartiesMsg_update (map_option norm_escrow_IUpdatePartiesMsg (bnsd_ExecuteBatchMsg_Union_escrowUpdatePartiesMsg m)) (set_field bnsd_ExecuteBatchMsg_Union_escrowReturnMsg_update (map_option norm_escrow_IReturnMsg (bnsd_ExecuteBatchMsg_Union_escrowReturnMsg m)) (set_field bnsd_ExecuteBatchMsg_Union_escrowReleaseMsg_update (map_option norm_escrow_IReleaseMsg (bnsd_ExecuteBatchMsg_Union_escrowReleaseMsg m)) (set_field bnsd_ExecuteBatchMsg_Union_escrowCreateMsg_update (map_option norm_escrow_ICreateMsg (bnsd_ExecuteBatchMsg_Union_escrowCreateMsg m)) (set_field bnsd_ExecuteBatchMsg_Union_cashSendMsg_update (map_option norm_cash_ISendMsg (bnsd_ExecuteBatchMsg_Union_cashSendMsg m)) new_bnsd_ExecuteBatchMsg_Union)))))))))))))))))))))))))))))))))))))))))"
    unfolding encode_bnsd_ExecuteBatchMsg_Union_def
    by (rule writes_chain
        | rule writes_message [where valid = valid_cash_SendMsg, OF P _ _ decodes_cash_SendMsg [OF P]]
        | rule writes_message [where valid = valid_escrow_CreateMsg, OF P _ _ decodes_escrow_CreateMsg [OF P]]
        | rule writes_message [where valid = valid_escrow_ReleaseMsg, OF P _ _ decodes_escrow_ReleaseMsg [OF P]]
        | rule writes_message [where valid = valid_escrow_ReturnMsg, OF P _ _ decodes_escrow_ReturnMsg [OF P]]
        | rule writes_message [where valid = valid_escrow_UpdatePartiesMsg, OF P _ _ decodes_escrow_UpdatePartiesMsg [OF P]]
        | rule writes_message [where valid = valid_multisig_CreateMsg, OF P _ _ decodes_multisig_CreateMsg [OF P]]
        | rule writes_message [where valid = valid_multisig_UpdateMsg, OF P _ _ decodes_multisig_UpdateMsg [OF P]]
        | rule writes_message [where valid = valid_validators_ApplyDiffMsg, OF P _ _ decodes_validators_ApplyDiffMsg [OF P]]
        | rule writes_message [where valid = valid_currency_CreateMsg, OF P _ _ decodes_currency_CreateMsg [OF P]]
        | rule writes_message [where valid = valid_username_RegisterTokenMsg, OF P _ _ decodes_username_RegisterTokenMsg [OF P]]
        | rule writes_message [where valid = valid_username_TransferTokenMsg, OF P _ _ decodes_username_TransferTokenMsg [OF P]]
        | rule writes_message [where valid = valid_username_ChangeTokenTargetsMsg, OF P _ _ decodes_username_ChangeTokenTargetsMsg [OF P]]
        | rule writes_message [where valid = valid_username_UpdateConfigurationMsg, OF P _ _ decodes_username_UpdateConfigurationMsg [OF P]]
        | rule writes_message [where valid = valid_distribution_CreateMsg, OF P _ _ decodes_distribution_CreateMsg [OF P]]
        | rule writes_message [where valid = valid_distribution_DistributeMsg, OF P _ _ decodes_distribution_DistributeMsg [OF P]]
        | rule writes_message [where valid = valid_distribution_ResetMsg, OF P _ _ decodes_distribution_ResetMsg [OF P]]
        | rule writes_message [where valid = valid_msgfee_SetMsgFeeMsg, OF P _ _ decodes_msgfee_SetMsgFeeMsg [OF P]]
        | rule writes_message [where valid = valid_datamigration_ExecuteMigrationMsg, OF P _ _ decodes_datamigration_ExecuteMigrationMsg [OF P]]
        | rule writes_message [where valid = valid_account_UpdateConfigurationMsg, OF P _ _ decodes_account_UpdateConfigurationMsg [OF P]]
        | rule writes_message [where valid = valid_account_RegisterDomainMsg, OF P _ _ decodes_account_RegisterDomainMsg [OF P]]
        | rule writes_message [where valid = valid_account_ReplaceAccountMsgFeesMsg, OF P _ _ decodes_account_ReplaceAccountMsgFeesMsg [OF P]]
        | rule writes_message [where valid = valid_account_TransferDomainMsg, OF P _ _ decodes_account_TransferDomainMsg [OF P]]
        | rule writes_message [where valid = valid_account_RenewDomainMsg, OF P _ _ decodes_account_RenewDomainMsg [OF P]]
        | rule writes_message [where valid = valid_account_DeleteDomainMsg, OF P _ _ decodes_account_DeleteDomainMsg [OF P]]
        | rule writes_message [where valid = valid_account_RegisterAccountMsg, OF P _ _ decodes_account_RegisterAccountMsg [OF P]]
        | rule writes_message [where valid = valid_account_TransferAccountMsg, OF P _ _ decodes_account_TransferAccountMsg [OF P]]
        | rule writes_message [where valid = valid_account_ReplaceAccountTargetsMsg, OF P _ _ decodes_account_ReplaceAccountTargetsMsg [OF P]]
        | rule writes_message [where valid = valid_account_DeleteAccountMsg, OF P _ _ decodes_account_DeleteAccountMsg [OF P]]
        | rule writes_message [where valid = valid_account_FlushDomainMsg, OF P _ _ decodes_account_FlushDomainMsg [OF P]]
        | rule writes_message [where valid = valid_account_RenewAccountMsg, OF P _ _ decodes_account_RenewAccountMsg [OF P]]
        | rule writes_message [where valid = valid_account_AddAccountCertificateMsg, OF P _ _ decodes_account_AddAccountCertificateMsg [OF P]]
        | rule writes_message [where valid = valid_account_DeleteAccountCertificateMsg, OF P _ _ decodes_account_DeleteAccountCertificateMsg [OF P]]
        | rule writes_message [where valid = valid_cash_UpdateConfigurationMsg, OF P _ _ decodes_cash_UpdateConfigurationMsg [OF P]]
        | rule writes_message [where valid = valid_txfee_UpdateConfigurationMsg, OF P _ _ decodes_txfee_UpdateConfigurationMsg [OF P]]
        | rule writes_message [where valid = valid_termdeposit_CreateDepositContractMsg, OF P _ _ decodes_termdeposit_CreateDepositContractMsg [OF P]]
        | rule writes_message [where valid = valid_termdeposit_DepositMsg, OF P _ _ decodes_termdeposit_DepositMsg [OF P]]
        | rule writes_message [where valid = valid_termdeposit_ReleaseDepositMsg, OF P _ _ decodes_termdeposit_ReleaseDepositMsg [OF P]]
        | rule writes_message [where valid = valid_termdeposit_UpdateConfigurationMsg, OF P _ _ decodes_termdeposit_UpdateConfigurationMsg [OF P]]
        | rule writes_message [where valid = valid_qualityscore_UpdateConfigurationMsg, OF P _ _ decodes_qualityscore_UpdateConfigurationMsg [OF P]]
        | rule writes_message [where valid = valid_preregistration_UpdateConfigurationMsg, OF P _ _ decodes_preregistration_UpdateConfigurationMsg [OF P]]
        | rule writes_message [where valid = valid_msgfee_UpdateConfigurationMsg, OF P _ _ decodes_msgfee_UpdateConfigurationMsg [OF P]]
        | (simp add: field_bnsd_ExecuteBatchMsg_Union_def new_bnsd_ExecuteBatchMsg_Union_def set_field_def elements_def is_uint32_def assms(2) [unfolded valid_bnsd_ExecuteBatchMsg_Union_def]; fail))+
  then show ?thesis
    unfolding decode_bnsd_ExecuteBatchMsg_Union_def by (intro decodes_message) (simp add: set_field_def new_bnsd_ExecuteBatchMsg_Union_def norm_bnsd_ExecuteBatchMsg_IUnion_def)
qed

section \<open>bnsd.ExecuteBatchMsg\<close>

record bnsd_IExecuteBatchMsg =
  bnsd_ExecuteBatchMsg_messages :: "bnsd_ExecuteBatchMsg_IUnion list option"

definition norm_bnsd_IExecuteBatchMsg :: "bnsd_IExecuteBatchMsg \<Rightarrow> bnsd_IExecuteBatchMsg" where
  "norm_bnsd_IExecuteBatchMsg m = \<lparr>
     bnsd_ExecuteBatchMsg_messages = norm_repeated norm_bnsd_ExecuteBatchMsg_IUnion (bnsd_ExecuteBatchMsg_messages m)\<rparr>"

definition new_bnsd_ExecuteBatchMsg :: bnsd_IExecuteBatchMsg where
  "new_bnsd_ExecuteBatchMsg = \<lparr>bnsd_ExecuteBatchMsg_messages = Some []\<rparr>"

definition encode_bnsd_ExecuteBatchMsg :: "proto_lib \<Rightarrow> bnsd_IExecuteBatchMsg \<Rightarrow> byte list" where
  "encode_bnsd_ExecuteBatchMsg P message =
     put_each P 10 (\<lambda>v. ldelim P (encode_bnsd_ExecuteBatchMsg_Union P v)) (bnsd_ExecuteBatchMsg_messages message)"

definition field_bnsd_ExecuteBatchMsg :: "proto_lib \<Rightarrow> bnsd_IExecuteBatchMsg \<Rightarrow> int \<Rightarrow> byte list \<Rightarrow> (bnsd_IExecuteBatchMsg \<times> byte list) result" where
  "field_bnsd_ExecuteBatchMsg P message tag bs =
     (if tag div 8 = 1 then get (\<lambda>v. message\<lparr>bnsd_ExecuteBatchMsg_messages := Some (elements (bnsd_ExecuteBatchMsg_messages message) @ [v])\<rparr>) (get_message P (decode_bnsd_ExecuteBatchMsg_Union P) bs)
      else skip P tag message bs)"

definition decode_bnsd_ExecuteBatchMsg :: "proto_lib \<Rightarrow> byte list \<Rightarrow> int \<Rightarrow> (bnsd_IExecuteBatchMsg \<times> byte list) result" where
  "decode_bnsd_ExecuteBatchMsg P = read_message P (field_bnsd_ExecuteBatchMsg P) new_bnsd_ExecuteBatchMsg"

definition valid_bnsd_ExecuteBatchMsg :: "bnsd_IExecuteBatchMsg \<Rightarrow> bool" where
  "valid_bnsd_ExecuteBatchMsg message \<longleftrightarrow> pred_option (list_all valid_bnsd_ExecuteBatchMsg_Union) (bnsd_ExecuteBatchMsg_messages message)"

lemma decodes_bnsd_ExecuteBatchMsg:
  assumes P: "proto_laws P" and "valid_bnsd_ExecuteBatchMsg m"
  shows "decodes (decode_bnsd_ExecuteBatchMsg P) (encode_bnsd_ExecuteBatchMsg P m) (norm_bnsd_IExecuteBatchMsg m)"
proof -
  have "writes P (field_bnsd_ExecuteBatchMsg P) (encode_bnsd_ExecuteBatchMsg P m) new_bnsd_ExecuteBatchMsg
      (set_field bnsd_ExecuteBatchMsg_messages_update (norm_repeated norm_bnsd_ExecuteBatchMsg_IUnion (bnsd_ExecuteBatchMsg_messages m)) new_bnsd_ExecuteBatchMsg)"
    unfolding encode_bnsd_ExecuteBatchMsg_def
    by (rule writes_chain
        | rule writes_messages [where valid = valid_bnsd_ExecuteBatchMsg_Union, OF P _ _ decodes_bnsd_ExecuteBatchMsg_Union [OF P]]
        | (simp add: field_bnsd_ExecuteBatchMsg_def new_bnsd_ExecuteBatchMsg_def set_field_def elements_def is_uint32_def assms(2) [unfolded valid_bnsd_ExecuteBatchMsg_def]; fail))+
  then show ?thesis
    unfolding decode_bnsd_ExecuteBatchMsg_def by (intro decodes_message) (simp add: set_field_def new_bnsd_ExecuteBatchMsg_def norm_bnsd_IExecuteBatchMsg_def)
qed

section \<open>gov.DeleteProposalMsg\<close>

record gov_IDeleteProposalMsg =
  gov_DeleteProposalMsg_metadata :: "weave_IMetadata option"
  gov_DeleteProposalMsg_proposalId :: "byte list option"

definition norm_gov_IDeleteProposalMsg :: "gov_IDeleteProposalMsg \<Rightarrow> gov_IDeleteProposalMsg" where
  "norm_gov_IDeleteProposalMsg m = \<lparr>
     gov_DeleteProposalMsg_metadata = map_option norm_weave_IMetadata (gov_DeleteProposalMsg_metadata m),
     gov_DeleteProposalMsg_proposalId = norm_bytes (gov_DeleteProposalMsg_proposalId m)\<rparr>"

definition new_gov_DeleteProposalMsg :: gov_IDeleteProposalMsg where
  "new_gov_DeleteProposalMsg = \<lparr>gov_DeleteProposalMsg_metadata = None, gov_DeleteProposalMsg_proposalId = Some []\<rparr>"

definition encode_gov_DeleteProposalMsg :: "proto_lib \<Rightarrow> gov_IDeleteProposalMsg \<Rightarrow> byte list" where
  "encode_gov_DeleteProposalMsg P message =
     put P 10 (\<lambda>v. ldelim P (encode_weave_Metadata P v)) (gov_DeleteProposalMsg_metadata message) @
     put P 18 (pw_bytes P) (gov_DeleteProposalMsg_proposalId message)"

definition field_gov_DeleteProposalMsg :: "proto_lib \<Rightarrow> gov_IDeleteProposalMsg \<Rightarrow> int \<Rightarrow> byte list \<Rightarrow> (gov_IDeleteProposalMsg \<times> byte list) result" where
  "field_gov_DeleteProposalMsg P message tag bs =
     (if tag div 8 = 1 then get (\<lambda>v. message\<lparr>gov_DeleteProposalMsg_metadata := Some v\<rparr>) (get_message P (decode_weave_Metadata P) bs)
      else if tag div 8 = 2 then get (\<lambda>v. message\<lparr>gov_DeleteProposalMsg_proposalId := Some v\<rparr>) (pr_bytes P bs)
      else skip P tag message bs)"

definition decode_gov_DeleteProposalMsg :: "proto_lib \<Rightarrow> byte list \<Rightarrow> int \<Rightarrow> (gov_IDeleteProposalMsg \<times> byte list) result" where
  "decode_gov_DeleteProposalMsg P = read_message P (field_gov_DeleteProposalMsg P) new_gov_DeleteProposalMsg"

definition valid_gov_DeleteProposalMsg :: "gov_IDeleteProposalMsg \<Rightarrow> bool" where
  "valid_gov_DeleteProposalMsg message \<longleftrightarrow> pred_option valid_weave_Metadata (gov_DeleteProposalMsg_metadata message)"

lemma decodes_gov_DeleteProposalMsg:
  assumes P: "proto_laws P" and "valid_gov_DeleteProposalMsg m"
  shows "decodes (decode_gov_DeleteProposalMsg P) (encode_gov_DeleteProposalMsg P m) (norm_gov_IDeleteProposalMsg m)"
proof -
  have "writes P (field_gov_DeleteProposalMsg P) (encode_gov_DeleteProposalMsg P m) new_gov_DeleteProposalMsg
      (set_field gov_DeleteProposalMsg_proposalId_update (norm_bytes (gov_DeleteProposalMsg_proposalId m)) (set_field gov_DeleteProposalMsg_metadata_update (map_option norm_weave_IMetadata (gov_DeleteProposalMsg_metadata m)) new_gov_DeleteProposalMsg))"
    unfolding encode_gov_DeleteProposalMsg_def
    by (rule writes_chain
        | rule writes_message [where valid = valid_weave_Metadata, OF P _ _ decodes_weave_Metadata [OF P]]
        | rule writes_bytes [OF P]
        | (simp add: field_gov_DeleteProposalMsg_def new_gov_DeleteProposalMsg_def set_field_def elements_def is_uint32_def assms(2) [unfolded valid_gov_DeleteProposalMsg_def]; fail))+
  then show ?thesis
    unfolding decode_gov_DeleteProposalMsg_def by (intro decodes_message) (simp add: set_field_def new_gov_DeleteProposalMsg_def norm_gov_IDeleteProposalMsg_def)
qed

section \<open>preregistration.RegisterMsg\<close>

record preregistration_IRegisterMsg =
  preregistration_RegisterMsg_metadata :: "weave_IMetadata option"
  preregistration_RegisterMsg_domain :: "string option"
  preregistration_RegisterMsg_owner :: "byte list option"

definition norm_preregistration_IRegisterMsg :: "preregistration_IRegisterMsg \<Rightarrow> preregistration_IRegisterMsg" where
  "norm_preregistration_IRegisterMsg m = \<lparr>
     preregistration_RegisterMsg_metadata = map_option norm_weave_IMetadata (preregistration_RegisterMsg_metadata m),
     preregistration_RegisterMsg_domain = norm_string (preregistration_RegisterMsg_domain m),
     preregistration_RegisterMsg_owner = norm_bytes (preregistration_RegisterMsg_owner m)\<rparr>"

definition new_preregistration_RegisterMsg :: preregistration_IRegisterMsg where
  "new_preregistration_RegisterMsg = \<lparr>preregistration_RegisterMsg_metadata = None, preregistration_RegisterMsg_domain = Some [], preregistration_RegisterMsg_owner = Some []\<rparr>"

definition encode_preregistration_RegisterMsg :: "proto_lib \<Rightarrow> preregistration_IRegisterMsg \<Rightarrow> byte list" where
  "encode_preregistration_RegisterMsg P message =
     put P 10 (\<lambda>v. ldelim P (encode_weave_Metadata P v)) (preregistration_RegisterMsg_metadata message) @
     put P 18 (pw_string P) (preregistration_RegisterMsg_domain message) @
     put P 26 (pw_bytes P) (preregistration_RegisterMsg_owner message)"

definition field_preregistration_RegisterMsg :: "proto_lib \<Rightarrow> preregistration_IRegisterMsg \<Rightarrow> int \<Rightarrow> byte list \<Rightarrow> (preregistration_IRegisterMsg \<times> byte list) result" where
  "field_preregistration_RegisterMsg P message tag bs =
     (if tag div 8 = 1 then get (\<lambda>v. message\<lparr>preregistration_RegisterMsg_metadata := Some v\<rparr>) (get_message P (decode_weave_Metadata P) bs)
      else if tag div 8 = 2 then get (\<lambda>v. message\<lparr>preregistration_RegisterMsg_domain := Some v\<rparr>) (pr_string P bs)
      else if tag div 8 = 3 then get (\<lambda>v. message\<lparr>preregistration_RegisterMsg_owner := Some v\<rparr>) (pr_bytes P bs)
      else skip P tag message bs)"

definition decode_preregistration_RegisterMsg :: "proto_lib \<Rightarrow> byte list \<Rightarrow> int \<Rightarrow> (preregistration_IRegisterMsg \<times> byte list) result" where
  "decode_preregistration_RegisterMsg P = read_message P (field_preregistration_RegisterMsg P) new_preregistration_RegisterMsg"

definition valid_preregistration_RegisterMsg :: "preregistration_IRegisterMsg \<Rightarrow> bool" where
  "valid_preregistration_RegisterMsg message \<longleftrightarrow> pred_option valid_weave_Metadata (preregistration_RegisterMsg_metadata message)"

lemma decodes_preregistration_RegisterMsg:
  assumes P: "proto_laws P" and "valid_preregistration_RegisterMsg m"
  shows "decodes (decode_preregistration_RegisterMsg P) (encode_preregistration_RegisterMsg P m) (norm_preregistration_IRegisterMsg m)"
proof -
  have "writes P (field_preregistration_RegisterMsg P) (encode_preregistration_RegisterMsg P m) new_preregistration_RegisterMsg
      (set_field preregistration_RegisterMsg_owner_update (norm_bytes (preregistration_RegisterMsg_owner m)) (set_field preregistration_RegisterMsg_domain_update (norm_string (preregistration_RegisterMsg_domain m)) (set_field preregistration_RegisterMsg_metadata_update (map_option norm_weave_IMetadata (preregistration_RegisterMsg_metadata m)) new_preregistration_RegisterMsg)))"
    unfolding encode_preregistration_RegisterMsg_def
    by (rule writes_chain
        | rule writes_message [where valid = valid_weave_Metadata, OF P _ _ decodes_weave_Metadata [OF P]]
        | rule writes_string [OF P]
        | rule writes_bytes [OF P]
        | (simp add: field_preregistration_RegisterMsg_def new_preregistration_RegisterMsg_def set_field_def elements_def is_uint32_def assms(2) [unfolded valid_preregistration_RegisterMsg_def]; fail))+
  then show ?thesis
    unfolding decode_preregistration_RegisterMsg_def by (intro decodes_message) (simp add: set_field_def new_preregistration_RegisterMsg_def norm_preregistration_IRegisterMsg_def)
qed

end
