(* ===== verification/Pb_Objects.thy ===== *)
theory Pb_Objects
  imports Pb_Unread
begin

text \<open>
  The classes of the objects that the store of a node holds, and the other classes of the
  file, of \<open>packages/iov-bns/src/generated/codecimpl.js\<close>: for each the object
  that \<open>new\<close> makes, \<open>encode\<close>, the switch of
  \<open>decode\<close> and \<open>decode\<close>. The lemma of a class shows that a
  message with integers in range is read back from what was written.
\<close>

section \<open>app.ResultSet\<close>

record app_IResultSet =
  app_ResultSet_results :: "byte list list option"

definition norm_app_IResultSet :: "app_IResultSet \<Rightarrow> app_IResultSet" where
  "norm_app_IResultSet m = \<lparr>
     app_ResultSet_results = norm_repeated (\<lambda>b. b) (app_ResultSet_results m)\<rparr>"

definition new_app_ResultSet :: app_IResultSet where
  "new_app_ResultSet = \<lparr>app_ResultSet_results = Some []\<rparr>"

definition encode_app_ResultSet :: "proto_lib \<Rightarrow> app_IResultSet \<Rightarrow> byte list" where
  "encode_app_ResultSet P message =
     put_each P 10 (pw_bytes P) (app_ResultSet_results message)"

definition field_app_ResultSet :: "proto_lib \<Rightarrow> app_IResultSet \<Rightarrow> int \<Rightarrow> byte list \<Rightarrow> (app_IResultSet \<times> byte list) result" where
  "field_app_ResultSet P message tag bs =
     (if tag div 8 = 1 then get (\<lambda>v. message\<lparr>app_ResultSet_results := Some (elements (app_ResultSet_results message) @ [v])\<rparr>) (pr_bytes P bs)
      else skip P tag message bs)"

definition decode_app_ResultSet :: "proto_lib \<Rightarrow> byte list \<Rightarrow> int \<Rightarrow> (app_IResultSet \<times> byte list) result" where
  "decode_app_ResultSet P = read_message P (field_app_ResultSet P) new_app_ResultSet"

lemma decodes_app_ResultSet:
  assumes P: "proto_laws P"
  shows "decodes (decode_app_ResultSet P) (encode_app_ResultSet P m) (norm_app_IResultSet m)"
proof -
  have "writes P (field_app_ResultSet P) (encode_app_ResultSet P m) new_app_ResultSet
      (set_field app_ResultSet_results_update (norm_repeated (\<lambda>b. b) (app_ResultSet_results m)) new_app_ResultSet)"
    unfolding encode_app_ResultSet_def
    by (rule writes_chain
        | rule writes_repeated_bytes [OF P]
        | (simp add: field_app_ResultSet_def new_app_ResultSet_def set_field_def elements_def is_uint32_def; fail))+
  then show ?thesis
    unfolding decode_app_ResultSet_def by (intro decodes_message) (simp add: set_field_def new_app_ResultSet_def norm_app_IResultSet_def)
qed

section \<open>gov.TallyMsg\<close>

record gov_ITallyMsg =
  gov_TallyMsg_metadata :: "weave_IMetadata option"
  gov_TallyMsg_proposalId :: "byte list option"

definition norm_gov_ITallyMsg :: "gov_ITallyMsg \<Rightarrow> gov_ITallyMsg" where
  "norm_gov_ITallyMsg m = \<lparr>
     gov_TallyMsg_metadata = map_option norm_weave_IMetadata (gov_TallyMsg_metadata m),
     gov_TallyMsg_proposalId = norm_bytes (gov_TallyMsg_proposalId m)\<rparr>"

definition new_gov_TallyMsg :: gov_ITallyMsg where
  "new_gov_TallyMsg = \<lparr>gov_TallyMsg_metadata = None, gov_TallyMsg_proposalId = Some []\<rparr>"

definition encode_gov_TallyMsg :: "proto_lib \<Rightarrow> gov_ITallyMsg \<Rightarrow> byte list" where
  "encode_gov_TallyMsg P message =
     put P 10 (\<lambda>v. ldelim P (encode_weave_Metadata P v)) (gov_TallyMsg_metadata message) @
     put P 18 (pw_bytes P) (gov_TallyMsg_proposalId message)"

definition field_gov_TallyMsg :: "proto_lib \<Rightarrow> gov_ITallyMsg \<Rightarrow> int \<Rightarrow> byte list \<Rightarrow> (gov_ITallyMsg \<times> byte list) result" where
  "field_gov_TallyMsg P message tag bs =
     (if tag div 8 = 1 then get (\<lambda>v. message\<lparr>gov_TallyMsg_metadata := Some v\<rparr>) (get_message P (decode_weave_Metadata P) bs)
      else if tag div 8 = 2 then get (\<lambda>v. message\<lparr>gov_TallyMsg_proposalId := Some v\<rparr>) (pr_bytes P bs)
      else skip P tag message bs)"

definition decode_gov_TallyMsg :: "proto_lib \<Rightarrow> byte list \<Rightarrow> int \<Rightarrow> (gov_ITallyMsg \<times> byte list) result" where
  "decode_gov_TallyMsg P = read_message P (field_gov_TallyMsg P) new_gov_TallyMsg"

definition valid_gov_TallyMsg :: "gov_ITallyMsg \<Rightarrow> bool" where
  "valid_gov_TallyMsg message \<longleftrightarrow> pred_option valid_weave_Metadata (gov_TallyMsg_metadata message)"

lemma decodes_gov_TallyMsg:
  assumes P: "proto_laws P" and "valid_gov_TallyMsg m"
  shows "decodes (decode_gov_TallyMsg P) (encode_gov_TallyMsg P m) (norm_gov_ITallyMsg m)"
proof -
  have "writes P (field_gov_TallyMsg P) (encode_gov_TallyMsg P m) new_gov_TallyMsg
      (set_field gov_TallyMsg_proposalId_update (norm_bytes (gov_TallyMsg_proposalId m)) (set_field gov_TallyMsg_metadata_update (map_option norm_weave_IMetadata (gov_TallyMsg_metadata m)) new_gov_TallyMsg))"
    unfolding encode_gov_TallyMsg_def
    by (rule writes_chain
        | rule writes_message [where valid = valid_weave_Metadata, OF P _ _ decodes_weave_Metadata [OF P]]
        | rule writes_bytes [OF P]
        | (simp add: field_gov_TallyMsg_def new_gov_TallyMsg_def set_field_def elements_def is_uint32_def assms(2) [unfolded valid_gov_TallyMsg_def]; fail))+
  then show ?thesis
    unfolding decode_gov_TallyMsg_def by (intro decodes_message) (simp add: set_field_def new_gov_TallyMsg_def norm_gov_ITallyMsg_def)
qed

section \<open>bnsd.CronTask\<close>

record bnsd_ICronTask =
  bnsd_CronTask_authenticators :: "byte list list option"
  bnsd_CronTask_escrowReleaseMsg :: "escrow_IReleaseMsg option"
  bnsd_CronTask_escrowReturnMsg :: "escrow_IReturnMsg option"
  bnsd_CronTask_distributionDistributeMsg :: "distribution_IDistributeMsg option"
  bnsd_CronTask_aswapReleaseMsg :: "aswap_IReleaseMsg option"
  bnsd_CronTask_govTallyMsg :: "gov_ITallyMsg option"

definition norm_bnsd_ICronTask :: "bnsd_ICronTask \<Rightarrow> bnsd_ICronTask" where
  "norm_bnsd_ICronTask m = \<lparr>
     bnsd_CronTask_authenticators = norm_repeated (\<lambda>b. b) (bnsd_CronTask_authenticators m),
     bnsd_CronTask_escrowReleaseMsg = map_option norm_escrow_IReleaseMsg (bnsd_CronTask_escrowReleaseMsg m),
     bnsd_CronTask_escrowReturnMsg = map_option norm_escrow_IReturnMsg (bnsd_CronTask_escrowReturnMsg m),
     bnsd_CronTask_distributionDistributeMsg = map_option norm_distribution_IDistributeMsg (bnsd_CronTask_distributionDistributeMsg m),
     bnsd_CronTask_aswapReleaseMsg = map_option norm_aswap_IReleaseMsg (bnsd_CronTask_aswapReleaseMsg m),
     bnsd_CronTask_govTallyMsg = map_option norm_gov_ITallyMsg (bnsd_CronTask_govTallyMsg m)\<rparr>"

definition new_bnsd_CronTask :: bnsd_ICronTask where
  "new_bnsd_CronTask = \<lparr>bnsd_CronTask_authenticators = Some [], bnsd_CronTask_escrowReleaseMsg = None, bnsd_CronTask_escrowReturnMsg = None, bnsd_CronTask_distributionDistributeMsg = None, bnsd_CronTask_aswapReleaseMsg = None, bnsd_CronTask_govTallyMsg = None\<rparr>"

definition encode_bnsd_CronTask :: "proto_lib \<Rightarrow> bnsd_ICronTask \<Rightarrow> byte list" where
  "encode_bnsd_CronTask P message =
     put_each P 10 (pw_bytes P) (bnsd_CronTask_authenticators message) @
     put P 426 (\<lambda>v. ldelim P (encode_escrow_ReleaseMsg P v)) (bnsd_CronTask_escrowReleaseMsg message) @
     put P 434 (\<lambda>v. ldelim P (encode_escrow_ReturnMsg P v)) (bnsd_CronTask_escrowReturnMsg message) @
     put P 538 (\<lambda>v. ldelim P (encode_distribution_DistributeMsg P v)) (bnsd_CronTask_distributionDistributeMsg message) @
     put P 570 (\<lambda>v. ldelim P (encode_aswap_ReleaseMsg P v)) (bnsd_CronTask_aswapReleaseMsg message) @
     put P 610 (\<lambda>v. ldelim P (encode_gov_TallyMsg P v)) (bnsd_CronTask_govTallyMsg message)"

definition field_bnsd_CronTask :: "proto_lib \<Rightarrow> bnsd_ICronTask \<Rightarrow> int \<Rightarrow> byte list \<Rightarrow> (bnsd_ICronTask \<times> byte list) result" where
  "field_bnsd_CronTask P message tag bs =
     (if tag div 8 = 1 then get (\<lambda>v. message\<lparr>bnsd_CronTask_authenticators := Some (elements (bnsd_CronTask_authenticators message) @ [v])\<rparr>) (pr_bytes P bs)
      else if tag div 8 = 53 then get (\<lambda>v. message\<lparr>bnsd_CronTask_escrowReleaseMsg := Some v\<rparr>) (get_message P (decode_escrow_ReleaseMsg P) bs)
      else if tag div 8 = 54 then get (\<lambda>v. message\<lparr>bnsd_CronTask_escrowReturnMsg := Some v\<rparr>) (get_message P (decode_escrow_ReturnMsg P) bs)
      else if tag div 8 = 67 then get (\<lambda>v. message\<lparr>bnsd_CronTask_distributionDistributeMsg := Some v\<rparr>) (get_message P (decode_distribution_DistributeMsg P) bs)
      else if tag div 8 = 71 then get (\<lambda>v. message\<lparr>bnsd_CronTask_aswapReleaseMsg := Some v\<rparr>) (get_message P (decode_aswap_ReleaseMsg P) bs)
      else if tag div 8 = 76 then get (\<lambda>v. message\<lparr>bnsd_CronTask_govTallyMsg := Some v\<rparr>) (get_message P (decode_gov_TallyMsg P) bs)
      else skip P tag message bs)"

definition decode_bnsd_CronTask :: "proto_lib \<Rightarrow> byte list \<Rightarrow> int \<Rightarrow> (bnsd_ICronTask \<times> byte list) result" where
  "decode_bnsd_CronTask P = read_message P (field_bnsd_CronTask P) new_bnsd_CronTask"

definition valid_bnsd_CronTask :: "bnsd_ICronTask \<Rightarrow> bool" where
  "valid_bnsd_CronTask message \<longleftrightarrow> pred_option valid_escrow_ReleaseMsg (bnsd_CronTask_escrowReleaseMsg message) \<and>
     pred_option valid_escrow_ReturnMsg (bnsd_CronTask_escrowReturnMsg message) \<and>
     pred_option valid_distribution_DistributeMsg (bnsd_CronTask_distributionDistributeMsg message) \<and>
     pred_option valid_aswap_ReleaseMsg (bnsd_CronTask_aswapReleaseMsg message) \<and>
     pred_option valid_gov_TallyMsg (bnsd_CronTask_govTallyMsg message)"

lemma decodes_bnsd_CronTask:
  assumes P: "proto_laws P" and "valid_bnsd_CronTask m"
  shows "decodes (decode_bnsd_CronTask P) (encode_bnsd_CronTask P m) (norm_bnsd_ICronTask m)"
proof -
  have "writes P (field_bnsd_CronTask P) (encode_bnsd_CronTask P m) new_bnsd_CronTask
      (set_field bnsd_CronTask_govTallyMsg_update (map_option norm_gov_ITallyMsg (bnsd_CronTask_govTallyMsg m)) (set_field bnsd_CronTask_aswapReleaseMsg_update (map_option norm_aswap_IReleaseMsg (bnsd_CronTask_aswapReleaseMsg m)) (set_field bnsd_CronTask_distributionDistributeMsg_update (map_option norm_distribution_IDistributeMsg (bnsd_CronTask_distributionDistributeMsg m)) (set_field bnsd_CronTask_escrowReturnMsg_update (map_option norm_escrow_IReturnMsg (bnsd_CronTask_escrowReturnMsg m)) (set_field bnsd_CronTask_escrowReleaseMsg_update (map_option norm_escrow_IReleaseMsg (bnsd_CronTask_escrowReleaseMsg m)) (set_field bnsd_CronTask_authenticators_update (norm_repeated (\<lambda>b. b) (bnsd_CronTask_authenticators m)) new_bnsd_CronTask))))))"
    unfolding encode_bnsd_CronTask_def
    by (rule writes_chain
        | rule writes_repeated_bytes [OF P]
        | rule writes_message [where valid = valid_escrow_ReleaseMsg, OF P _ _ decodes_escrow_ReleaseMsg [OF P]]
        | rule writes_message [where valid = valid_escrow_ReturnMsg, OF P _ _ decodes_escrow_ReturnMsg [OF P]]
        | rule writes_message [where valid = valid_distribution_DistributeMsg, OF P _ _ decodes_distribution_DistributeMsg [OF P]]
        | rule writes_message [where valid = valid_aswap_ReleaseMsg, OF P _ _ decodes_aswap_ReleaseMsg [OF P]]
        | rule writes_message [where valid = valid_gov_TallyMsg, OF P _ _ decodes_gov_TallyMsg [OF P]]
        | (simp add: field_bnsd_CronTask_def new_bnsd_CronTask_def set_field_def elements_def is_uint32_def assms(2) [unfolded valid_bnsd_CronTask_def]; fail))+
  then show ?thesis
    unfolding decode_bnsd_CronTask_def by (intro decodes_message) (simp add: set_field_def new_bnsd_CronTask_def norm_bnsd_ICronTask_def)
qed

section \<open>account.Domain\<close>

record account_IDomain =
  account_Domain_metadata :: "weave_IMetadata option"
  account_Domain_domain :: "string option"
  account_Domain_admin :: "byte list option"
  account_Domain_validUntil :: "wire_int option"
  account_Domain_hasSuperuser :: "bool option"
  account_Domain_msgFees :: "account_IAccountMsgFee list option"
  account_Domain_accountRenew :: "wire_int option"
  account_Domain_broker :: "byte list option"

definition norm_account_IDomain :: "account_IDomain \<Rightarrow> account_IDomain" where
  "norm_account_IDomain m = \<lparr>
     account_Domain_metadata = map_option norm_weave_IMetadata (account_Domain_metadata m),
     account_Domain_domain = norm_string (account_Domain_domain m),
     account_Domain_admin = norm_bytes (account_Domain_admin m),
     account_Domain_validUntil = norm_int64 (account_Domain_validUntil m),
     account_Domain_hasSuperuser = norm_bool (account_Domain_hasSuperuser m),
     account_Domain_msgFees = norm_repeated norm_account_IAccountMsgFee (account_Domain_msgFees m),
     account_Domain_accountRenew = norm_int64 (account_Domain_accountRenew m),
     account_Domain_broker = norm_bytes (account_Domain_broker m)\<rparr>"

definition new_account_Domain :: account_IDomain where
  "new_account_Domain = \<lparr>account_Domain_metadata = None, account_Domain_domain = Some [], account_Domain_admin = Some [], account_Domain_validUntil = Some (Long 0), account_Domain_hasSuperuser = Some False, account_Domain_msgFees = Some [], account_Domain_accountRenew = Some (Long 0), account_Domain_broker = Some []\<rparr>"

definition encode_account_Domain :: "proto_lib \<Rightarrow> account_IDomain \<Rightarrow> byte list" where
  "encode_account_Domain P message =
     put P 10 (\<lambda>v. ldelim P (encode_weave_Metadata P v)) (account_Domain_metadata message) @
     put P 18 (pw_string P) (account_Domain_domain message) @
     put P 26 (pw_bytes P) (account_Domain_admin message) @
     put P 32 (pw_int64 P) (account_Domain_validUntil message) @
     put P 40 (pw_bool P) (account_Domain_hasSuperuser message) @
     put_each P 50 (\<lambda>v. ldelim P (encode_account_AccountMsgFee P v)) (account_Domain_msgFees message) @
     put P 56 (pw_int64 P) (account_Domain_accountRenew message) @
     put P 66 (pw_bytes P) (account_Domain_broker message)"

definition field_account_Domain :: "proto_lib \<Rightarrow> account_IDomain \<Rightarrow> int \<Rightarrow> byte list \<Rightarrow> (account_IDomain \<times> byte list) result" where
  "field_account_Domain P message tag bs =
     (if tag div 8 = 1 then get (\<lambda>v. message\<lparr>account_Domain_metadata := Some v\<rparr>) (get_message P (decode_weave_Metadata P) bs)
      else if tag div 8 = 2 then get (\<lambda>v. message\<lparr>account_Domain_domain := Some v\<rparr>) (pr_string P bs)
      else if tag div 8 = 3 then get (\<lambda>v. message\<lparr>account_Domain_admin := Some v\<rparr>) (pr_bytes P bs)
      else if tag div 8 = 4 then get (\<lambda>v. message\<lparr>account_Domain_validUntil := Some (Long v)\<rparr>) (pr_int64 P bs)
      else if tag div 8 = 5 then get (\<lambda>v. message\<lparr>account_Domain_hasSuperuser := Some v\<rparr>) (pr_bool P bs)
      else if tag div 8 = 6 then get (\<lambda>v. message\<lparr>account_Domain_msgFees := Some (elements (account_Domain_msgFees message) @ [v])\<rparr>) (get_message P (decode_account_AccountMsgFee P) bs)
      else if tag div 8 = 7 then get (\<lambda>v. message\<lparr>account_Domain_accountRenew := Some (Long v)\<rparr>) (pr_int64 P bs)
      else if tag div 8 = 8 then get (\<lambda>v. message\<lparr>account_Domain_broker := Some v\<rparr>) (pr_bytes P bs)
      else skip P tag message bs)"

definition decode_account_Domain :: "proto_lib \<Rightarrow> byte list \<Rightarrow> int \<Rightarrow> (account_IDomain \<times> byte list) result" where
  "decode_account_Domain P = read_message P (field_account_Domain P) new_account_Domain"

definition valid_account_Domain :: "account_IDomain \<Rightarrow> bool" where
  "valid_account_Domain message \<longleftrightarrow> pred_option valid_weave_Metadata (account_Domain_metadata message) \<and>
     pred_option is_int64 (account_Domain_validUntil message) \<and>
     pred_option (list_all valid_account_AccountMsgFee) (account_Domain_msgFees message) \<and>
     pred_option is_int64 (account_Domain_accountRenew message)"

lemma decodes_account_Domain:
  assumes P: "proto_laws P" and "valid_account_Domain m"
  shows "decodes (decode_account_Domain P) (encode_account_Domain P m) (norm_account_IDomain m)"
proof -
  have "writes P (field_account_Domain P) (encode_account_Domain P m) new_account_Domain
      (set_field account_Domain_broker_update (norm_bytes (account_Domain_broker m)) (set_field account_Domain_accountRenew_update (norm_int64 (account_Domain_accountRenew m)) (set_field account_Domain_msgFees_update (norm_repeated norm_account_IAccountMsgFee (account_Domain_msgFees m)) (set_field account_Domain_hasSuperuser_update (norm_bool (account_Domain_hasSuperuser m)) (set_field account_Domain_validUntil_update (norm_int64 (account_Domain_validUntil m)) (set_field account_Domain_admin_update (norm_bytes (account_Domain_admin m)) (set_field account_Domain_domain_update (norm_string (account_Domain_domain m)) (set_field account_Domain_metadata_update (map_option norm_weave_IMetadata (account_Domain_metadata m)) new_account_Domain))))))))"
    unfolding encode_account_Domain_def
    by (rule writes_chain
        | rule writes_message [where valid = valid_weave_Metadata, OF P _ _ decodes_weave_Metadata [OF P]]
        | rule writes_string [OF P]
        | rule writes_bytes [OF P]
        | rule writes_int64 [OF P]
        | rule writes_bool [OF P]
        | rule writes_messages [where valid = valid_account_AccountMsgFee, OF P _ _ decodes_account_AccountMsgFee [OF P]]
        | (simp add: field_account_Domain_def new_account_Domain_def set_field_def elements_def is_uint32_def assms(2) [unfolded valid_account_Domain_def]; fail))+
  then show ?thesis
    unfolding decode_account_Domain_def by (intro decodes_message) (simp add: set_field_def new_account_Domain_def norm_account_IDomain_def)
qed

section \<open>account.Account\<close>

record account_IAccount =
  account_Account_metadata :: "weave_IMetadata option"
  account_Account_domain :: "string option"
  account_Account_name :: "string option"
  account_Account_owner :: "byte list option"
  account_Account_validUntil :: "wire_int option"
  account_Account_targets :: "account_IBlockchainAddress list option"
  account_Account_certificates :: "byte list list option"
  account_Account_broker :: "byte list option"

definition norm_account_IAccount :: "account_IAccount \<Rightarrow> account_IAccount" where
  "norm_account_IAccount m = \<lparr>
     account_Account_metadata = map_option norm_weave_IMetadata (account_Account_metadata m),
     account_Account_domain = norm_string (account_Account_domain m),
     account_Account_name = norm_string (account_Account_name m),
     account_Account_owner = norm_bytes (account_Account_owner m),
     account_Account_validUntil = norm_int64 (account_Account_validUntil m),
     account_Account_targets = norm_repeated norm_account_IBlockchainAddress (account_Account_targets m),
     account_Account_certificates = norm_repeated (\<lambda>b. b) (account_Account_certificates m),
     account_Account_broker = norm_bytes (account_Account_broker m)\<rparr>"

definition new_account_Account :: account_IAccount where
  "new_account_Account = \<lparr>account_Account_metadata = None, account_Account_domain = Some [], account_Account_name = Some [], account_Account_owner = Some [], account_Account_validUntil = Some (Long 0), account_Account_targets = Some [], account_Account_certificates = Some [], account_Account_broker = Some []\<rparr>"

definition encode_account_Account :: "proto_lib \<Rightarrow> account_IAccount \<Rightarrow> byte list" where
  "encode_account_Account P message =
     put P 10 (\<lambda>v. ldelim P (encode_weave_Metadata P v)) (account_Account_metadata message) @
     put P 18 (pw_string P) (account_Account_domain message) @
     put P 26 (pw_string P) (account_Account_name message) @
     put P 34 (pw_bytes P) (account_Account_owner message) @
     put P 40 (pw_int64 P) (account_Account_validUntil message) @
     put_each P 50 (\<lambda>v. ldelim P (encode_account_BlockchainAddress P v)) (account_Account_targets message) @
     put_each P 58 (pw_bytes P) (account_Account_certificates message) @
     put P 66 (pw_bytes P) (account_Account_broker message)"

definition field_account_Account :: "proto_lib \<Rightarrow> account_IAccount \<Rightarrow> int \<Rightarrow> byte list \<Rightarrow> (account_IAccount \<times> byte list) result" where
  "field_account_Account P message tag bs =
     (if tag div 8 = 1 then get (\<lambda>v. message\<lparr>account_Account_metadata := Some v\<rparr>) (get_message P (decode_weave_Metadata P) bs)
      else if tag div 8 = 2 then get (\<lambda>v. message\<lparr>account_Account_domain := Some v\<rparr>) (pr_string P bs)
      else if tag div 8 = 3 then get (\<lambda>v. message\<lparr>account_Account_name := Some v\<rparr>) (pr_string P bs)
      else if tag div 8 = 4 then get (\<lambda>v. message\<lparr>account_Account_owner := Some v\<rparr>) (pr_bytes P bs)
      else if tag div 8 = 5 then get (\<lambda>v. message\<lparr>account_Account_validUntil := Some (Long v)\<rparr>) (pr_int64 P bs)
      else if tag div 8 = 6 then get (\<lambda>v. message\<lparr>account_Account_targets := Some (elements (account_Account_targets message) @ [v])\<rparr>) (get_message P (decode_account_BlockchainAddress P) bs)
      else if tag div 8 = 7 then get (\<lambda>v. message\<lparr>account_Account_certificates := Some (elements (account_Account_certificates message) @ [v])\<rparr>) (pr_bytes P bs)
      else if tag div 8 = 8 then get (\<lambda>v. message\<lparr>account_Account_broker := Some v\<rparr>) (pr_bytes P bs)
      else skip P tag message bs)"

definition decode_account_Account :: "proto_lib \<Rightarrow> byte list \<Rightarrow> int \<Rightarrow> (account_IAccount \<times> byte list) result" where
  "decode_account_Account P = read_message P (field_account_Account P) new_account_Account"

definition valid_account_Account :: "account_IAccount \<Rightarrow> bool" where
  "valid_account_Account message \<longleftrightarrow> pred_option valid_weave_Metadata (account_Account_metadata message) \<and>
     pred_option is_int64 (account_Account_validUntil message)"

lemma decodes_account_Account:
  assumes P: "proto_laws P" and "valid_account_Account m"
  shows "decodes (decode_account_Account P) (encode_account_Account P m) (norm_account_IAccount m)"
proof -
  have "writes P (field_account_Account P) (encode_account_Account P m) new_account_Account
      (set_field account_Account_broker_update (norm_bytes (account_Account_broker m)) (set_field account_Account_certificates_update (norm_repeated (\<lambda>b. b) (account_Account_certificates m)) (set_field account_Account_targets_update (norm_repeated norm_account_IBlockchainAddress (account_Account_targets m)) (set_field account_Account_validUntil_update (norm_int64 (account_Account_validUntil m)) (set_field account_Account_owner_update (norm_bytes (account_Account_owner m)) (set_field account_Account_name_update (norm_string (account_Account_name m)) (set_field account_Account_domain_update (norm_string (account_Account_domain m)) (set_field account_Account_metadata_update (map_option norm_weave_IMetadata (account_Account_metadata m)) new_account_Account))))))))"
    unfolding encode_account_Account_def
    by (rule writes_chain
        | rule writes_message [where valid = valid_weave_Metadata, OF P _ _ decodes_weave_Metadata [OF P]]
        | rule writes_string [OF P]
        | rule writes_bytes [OF P]
        | rule writes_int64 [OF P]
        | rule writes_messages [OF P _ true_each decodes_account_BlockchainAddress [OF P]]
        | rule writes_repeated_bytes [OF P]
        | (simp add: field_account_Account_def new_account_Account_def set_field_def elements_def is_uint32_def assms(2) [unfolded valid_account_Account_def]; fail))+
  then show ?thesis
    unfolding decode_account_Account_def by (intro decodes_message) (simp add: set_field_def new_account_Account_def norm_account_IAccount_def)
qed

section \<open>preregistration.Record\<close>

record preregistration_IRecord =
  preregistration_Record_metadata :: "weave_IMetadata option"
  preregistration_Record_domain :: "string option"
  preregistration_Record_owner :: "byte list option"

definition norm_preregistration_IRecord :: "preregistration_IRecord \<Rightarrow> preregistration_IRecord" where
  "norm_preregistration_IRecord m = \<lparr>
     preregistration_Record_metadata = map_option norm_weave_IMetadata (preregistration_Record_metadata m),
     preregistration_Record_domain = norm_string (preregistration_Record_domain m),
     preregistration_Record_owner = norm_bytes (preregistration_Record_owner m)\<rparr>"

definition new_preregistration_Record :: preregistration_IRecord where
  "new_preregistration_Record = \<lparr>preregistration_Record_metadata = None, preregistration_Record_domain = Some [], preregistration_Record_owner = Some []\<rparr>"

definition encode_preregistration_Record :: "proto_lib \<Rightarrow> preregistration_IRecord \<Rightarrow> byte list" where
  "encode_preregistration_Record P message =
     put P 10 (\<lambda>v. ldelim P (encode_weave_Metadata P v)) (preregistration_Record_metadata message) @
     put P 18 (pw_string P) (preregistration_Record_domain message) @
     put P 26 (pw_bytes P) (preregistration_Record_owner message)"

definition field_preregistration_Record :: "proto_lib \<Rightarrow> preregistration_IRecord \<Rightarrow> int \<Rightarrow> byte list \<Rightarrow> (preregistration_IRecord \<times> byte list) result" where
  "field_preregistration_Record P message tag bs =
     (if tag div 8 = 1 then get (\<lambda>v. message\<lparr>preregistration_Record_metadata := Some v\<rparr>) (get_message P (decode_weave_Metadata P) bs)
      else if tag div 8 = 2 then get (\<lambda>v. message\<lparr>preregistration_Record_domain := Some v\<rparr>) (pr_string P bs)
      else if tag div 8 = 3 then get (\<lambda>v. message\<lparr>preregistration_Record_owner := Some v\<rparr>) (pr_bytes P bs)
      else skip P tag message bs)"

definition decode_preregistration_Record :: "proto_lib \<Rightarrow> byte list \<Rightarrow> int \<Rightarrow> (preregistration_IRecord \<times> byte list) result" where
  "decode_preregistration_Record P = read_message P (field_preregistration_Record P) new_preregistration_Record"

definition valid_preregistration_Record :: "preregistration_IRecord \<Rightarrow> bool" where
  "valid_preregistration_Record message \<longleftrightarrow> pred_option valid_weave_Metadata (preregistration_Record_metadata message)"

lemma decodes_preregistration_Record:
  assumes P: "proto_laws P" and "valid_preregistration_Record m"
  shows "decodes (decode_preregistration_Record P) (encode_preregistration_Record P m) (norm_preregistration_IRecord m)"
proof -
  have "writes P (field_preregistration_Record P) (encode_preregistration_Record P m) new_preregistration_Record
      (set_field preregistration_Record_owner_update (norm_bytes (preregistration_Record_owner m)) (set_field preregistration_Record_domain_update (norm_string (preregistration_Record_domain m)) (set_field preregistration_Record_metadata_update (map_option norm_weave_IMetadata (preregistration_Record_metadata m)) new_preregistration_Record)))"
    unfolding encode_preregistration_Record_def
    by (rule writes_chain
        | rule writes_message [where valid = valid_weave_Metadata, OF P _ _ decodes_weave_Metadata [OF P]]
        | rule writes_string [OF P]
        | rule writes_bytes [OF P]
        | (simp add: field_preregistration_Record_def new_preregistration_Record_def set_field_def elements_def is_uint32_def assms(2) [unfolded valid_preregistration_Record_def]; fail))+
  then show ?thesis
    unfolding decode_preregistration_Record_def by (intro decodes_message) (simp add: set_field_def new_preregistration_Record_def norm_preregistration_IRecord_def)
qed

section \<open>termdeposit.DepositContract\<close>

record termdeposit_IDepositContract =
  termdeposit_DepositContract_metadata :: "weave_IMetadata option"
  termdeposit_DepositContract_validSince :: "wire_int option"
  termdeposit_DepositContract_validUntil :: "wire_int option"

definition norm_termdeposit_IDepositContract :: "termdeposit_IDepositContract \<Rightarrow> termdeposit_IDepositContract" where
  "norm_termdeposit_IDepositContract m = \<lparr>
     termdeposit_DepositContract_metadata = map_option norm_weave_IMetadata (termdeposit_DepositContract_metadata m),
     termdeposit_DepositContract_validSince = norm_int64 (termdeposit_DepositContract_validSince m),
     termdeposit_DepositContract_validUntil = norm_int64 (termdeposit_DepositContract_validUntil m)\<rparr>"

definition new_termdeposit_DepositContract :: termdeposit_IDepositContract where
  "new_termdeposit_DepositContract = \<lparr>termdeposit_DepositContract_metadata = None, termdeposit_DepositContract_validSince = Some (Long 0), termdeposit_DepositContract_validUntil = Some (Long 0)\<rparr>"

definition encode_termdeposit_DepositContract :: "proto_lib \<Rightarrow> termdeposit_IDepositContract \<Rightarrow> byte list" where
  "encode_termdeposit_DepositContract P message =
     put P 10 (\<lambda>v. ldelim P (encode_weave_Metadata P v)) (termdeposit_DepositContract_metadata message) @
     put P 16 (pw_int64 P) (termdeposit_DepositContract_validSince message) @
     put P 24 (pw_int64 P) (termdeposit_DepositContract_validUntil message)"

definition field_termdeposit_DepositContract :: "proto_lib \<Rightarrow> termdeposit_IDepositContract \<Rightarrow> int \<Rightarrow> byte list \<Rightarrow> (termdeposit_IDepositContract \<times> byte list) result" where
  "field_termdeposit_DepositContract P message tag bs =
     (if tag div 8 = 1 then get (\<lambda>v. message\<lparr>termdeposit_DepositContract_metadata := Some v\<rparr>) (get_message P (decode_weave_Metadata P) bs)
      else if tag div 8 = 2 then get (\<lambda>v. message\<lparr>termdeposit_DepositContract_validSince := Some (Long v)\<rparr>) (pr_int64 P bs)
      else if tag div 8 = 3 then get (\<lambda>v. message\<lparr>termdeposit_DepositContract_validUntil := Some (Long v)\<rparr>) (pr_int64 P bs)
      else skip P tag message bs)"

definition decode_termdeposit_DepositContract :: "proto_lib \<Rightarrow> byte list \<Rightarrow> int \<Rightarrow> (termdeposit_IDepositContract \<times> byte list) result" where
  "decode_termdeposit_DepositContract P = read_message P (field_termdeposit_DepositContract P) new_termdeposit_DepositContract"

definition valid_termdeposit_DepositContract :: "termdeposit_IDepositContract \<Rightarrow> bool" where
  "valid_termdeposit_DepositContract message \<longleftrightarrow> pred_option valid_weave_Metadata (termdeposit_DepositContract_metadata message) \<and>
     pred_option is_int64 (termdeposit_DepositContract_validSince message) \<and>
     pred_option is_int64 (termdeposit_DepositContract_validUntil message)"

lemma decodes_termdeposit_DepositContract:
  assumes P: "proto_laws P" and "valid_termdeposit_DepositContract m"
  shows "decodes (decode_termdeposit_DepositContract P) (encode_termdeposit_DepositContract P m) (norm_termdeposit_IDepositContract m)"
proof -
  have "writes P (field_termdeposit_DepositContract P) (encode_termdeposit_DepositContract P m) new_termdeposit_DepositContract
      (set_field termdeposit_DepositContract_validUntil_update (norm_int64 (termdeposit_DepositContract_validUntil m)) (set_field termdeposit_DepositContract_validSince_update (norm_int64 (termdeposit_DepositContract_validSince m)) (set_field termdeposit_DepositContract_metadata_update (map_option norm_weave_IMetadata (termdeposit_DepositContract_metadata m)) new_termdeposit_DepositContract)))"
    unfolding encode_termdeposit_DepositContract_def
    by (rule writes_chain
        | rule writes_message [where valid = valid_weave_Metadata, OF P _ _ decodes_weave_Metadata [OF P]]
        | rule writes_int64 [OF P]
        | (simp add: field_termdeposit_DepositContract_def new_termdeposit_DepositContract_def set_field_def elements_def is_uint32_def assms(2) [unfolded valid_termdeposit_DepositContract_def]; fail))+
  then show ?thesis
    unfolding decode_termdeposit_DepositContract_def by (intro decodes_message) (simp add: set_field_def new_termdeposit_DepositContract_def norm_termdeposit_IDepositContract_def)
qed

section \<open>termdeposit.Deposit\<close>

record termdeposit_IDeposit =
  termdeposit_Deposit_metadata :: "weave_IMetadata option"
  termdeposit_Deposit_depositContractId :: "byte list option"
  termdeposit_Deposit_amount :: "coin_ICoin option"
  termdeposit_Deposit_rate :: "IFraction option"
  termdeposit_Deposit_depositor :: "byte list option"
  termdeposit_Deposit_released :: "bool option"
  termdeposit_Deposit_createdAt :: "wire_int option"

definition norm_termdeposit_IDeposit :: "termdeposit_IDeposit \<Rightarrow> termdeposit_IDeposit" where
  "norm_termdeposit_IDeposit m = \<lparr>
     termdeposit_Deposit_metadata = map_option norm_weave_IMetadata (termdeposit_Deposit_metadata m),
     termdeposit_Deposit_depositContractId = norm_bytes (termdeposit_Deposit_depositContractId m),
     termdeposit_Deposit_amount = map_option norm_coin_ICoin (termdeposit_Deposit_amount m),
     termdeposit_Deposit_rate = map_option norm_IFraction (termdeposit_Deposit_rate m),
     termdeposit_Deposit_depositor = norm_bytes (termdeposit_Deposit_depositor m),
     termdeposit_Deposit_released = norm_bool (termdeposit_Deposit_released m),
     termdeposit_Deposit_createdAt = norm_int64 (termdeposit_Deposit_createdAt m)\<rparr>"

definition new_termdeposit_Deposit :: termdeposit_IDeposit where
  "new_termdeposit_Deposit = \<lparr>termdeposit_Deposit_metadata = None, termdeposit_Deposit_depositContractId = Some [], termdeposit_Deposit_amount = None, termdeposit_Deposit_rate = None, termdeposit_Deposit_depositor = Some [], termdeposit_Deposit_released = Some False, termdeposit_Deposit_createdAt = Some (Long 0)\<rparr>"

definition encode_termdeposit_Deposit :: "proto_lib \<Rightarrow> termdeposit_IDeposit \<Rightarrow> byte list" where
  "encode_termdeposit_Deposit P message =
     put P 10 (\<lambda>v. ldelim P (encode_weave_Metadata P v)) (termdeposit_Deposit_metadata message) @
     put P 18 (pw_bytes P) (termdeposit_Deposit_depositContractId message) @
     put P 26 (\<lambda>v. ldelim P (encode_coin_Coin P v)) (termdeposit_Deposit_amount message) @
     put P 34 (\<lambda>v. ldelim P (encode_weave_Fraction P v)) (termdeposit_Deposit_rate message) @
     put P 42 (pw_bytes P) (termdeposit_Deposit_depositor message) @
     put P 48 (pw_bool P) (termdeposit_Deposit_released message) @
     put P 56 (pw_int64 P) (termdeposit_Deposit_createdAt message)"

definition field_termdeposit_Deposit :: "proto_lib \<Rightarrow> termdeposit_IDeposit \<Rightarrow> int \<Rightarrow> byte list \<Rightarrow> (termdeposit_IDeposit \<times> byte list) result" where
  "field_termdeposit_Deposit P message tag bs =
     (if tag div 8 = 1 then get (\<lambda>v. message\<lparr>termdeposit_Deposit_metadata := Some v\<rparr>) (get_message P (decode_weave_Metadata P) bs)
      else if tag div 8 = 2 then get (\<lambda>v. message\<lparr>termdeposit_Deposit_depositContractId := Some v\<rparr>) (pr_bytes P bs)
      else if tag div 8 = 3 then get (\<lambda>v. message\<lparr>termdeposit_Deposit_amount := Some v\<rparr>) (get_message P (decode_coin_Coin P) bs)
      else if tag div 8 = 4 then get (\<lambda>v. message\<lparr>termdeposit_Deposit_rate := Some v\<rparr>) (get_message P (decode_weave_Fraction P) bs)
      else if tag div 8 = 5 then get (\<lambda>v. message\<lparr>termdeposit_Deposit_depositor := Some v\<rparr>) (pr_bytes P bs)
      else if tag div 8 = 6 then get (\<lambda>v. message\<lparr>termdeposit_Deposit_released := Some v\<rparr>) (pr_bool P bs)
      else if tag div 8 = 7 then get (\<lambda>v. message\<lparr>termdeposit_Deposit_createdAt := Some (Long v)\<rparr>) (pr_int64 P bs)
      else skip P tag message bs)"

definition decode_termdeposit_Deposit :: "proto_lib \<Rightarrow> byte list \<Rightarrow> int \<Rightarrow> (termdeposit_IDeposit \<times> byte list) result" where
  "decode_termdeposit_Deposit P = read_message P (field_termdeposit_Deposit P) new_termdeposit_Deposit"

definition valid_termdeposit_Deposit :: "termdeposit_IDeposit \<Rightarrow> bool" where
  "valid_termdeposit_Deposit message \<longleftrightarrow> pred_option valid_weave_Metadata (termdeposit_Deposit_metadata message) \<and>
     pred_option valid_coin_Coin (termdeposit_Deposit_amount message) \<and>
     pred_option valid_weave_Fraction (termdeposit_Deposit_rate message) \<and>
     pred_option is_int64 (termdeposit_Deposit_createdAt message)"

lemma decodes_termdeposit_Deposit:
  assumes P: "proto_laws P" and "valid_termdeposit_Deposit m"
  shows "decodes (decode_termdeposit_Deposit P) (encode_termdeposit_Deposit P m) (norm_termdeposit_IDeposit m)"
proof -
  have "writes P (field_termdeposit_Deposit P) (encode_termdeposit_Deposit P m) new_termdeposit_Deposit
      (set_field termdeposit_Deposit_createdAt_update (norm_int64 (termdeposit_Deposit_createdAt m)) (set_field termdeposit_Deposit_released_update (norm_bool (termdeposit_Deposit_released m)) (set_field termdeposit_Deposit_depositor_update (norm_bytes (termdeposit_Deposit_depositor m)) (set_field termdeposit_Deposit_rate_update (map_option norm_IFraction (termdeposit_Deposit_rate m)) (set_field termdeposit_Deposit_amount_update (map_option norm_coin_ICoin (termdeposit_Deposit_amount m)) (set_field termdeposit_Deposit_depositContractId_update (norm_bytes (termdeposit_Deposit_depositContractId m)) (set_field termdeposit_Deposit_metadata_update (map_option norm_weave_IMetadata (termdeposit_Deposit_metadata m)) new_termdeposit_Deposit)))))))"
    unfolding encode_termdeposit_Deposit_def
    by (rule writes_chain
        | rule writes_message [where valid = valid_weave_Metadata, OF P _ _ decodes_weave_Metadata [OF P]]
        | rule writes_bytes [OF P]
        | rule writes_message [where valid = valid_coin_Coin, OF P _ _ decodes_coin_Coin [OF P]]
        | rule writes_message [where valid = valid_weave_Fraction, OF P _ _ decodes_weave_Fraction [OF P]]
        | rule writes_bool [OF P]
        | rule writes_int64 [OF P]
        | (simp add: field_termdeposit_Deposit_def new_termdeposit_Deposit_def set_field_def elements_def is_uint32_def assms(2) [unfolded valid_termdeposit_Deposit_def]; fail))+
  then show ?thesis
    unfolding decode_termdeposit_Deposit_def by (intro decodes_message) (simp add: set_field_def new_termdeposit_Deposit_def norm_termdeposit_IDeposit_def)
qed

section \<open>username.Token\<close>

record username_IToken =
  username_Token_metadata :: "weave_IMetadata option"
  username_Token_targets :: "username_IBlockchainAddress list option"
  username_Token_owner :: "byte list option"

definition norm_username_IToken :: "username_IToken \<Rightarrow> username_IToken" where
  "norm_username_IToken m = \<lparr>
     username_Token_metadata = map_option norm_weave_IMetadata (username_Token_metadata m),
     username_Token_targets = norm_repeated norm_username_IBlockchainAddress (username_Token_targets m),
     username_Token_owner = norm_bytes (username_Token_owner m)\<rparr>"

definition new_username_Token :: username_IToken where
  "new_username_Token = \<lparr>username_Token_metadata = None, username_Token_targets = Some [], username_Token_owner = Some []\<rparr>"

definition encode_username_Token :: "proto_lib \<Rightarrow> username_IToken \<Rightarrow> byte list" where
  "encode_username_Token P message =
     put P 10 (\<lambda>v. ldelim P (encode_weave_Metadata P v)) (username_Token_metadata message) @
     put_each P 18 (\<lambda>v. ldelim P (encode_username_BlockchainAddress P v)) (username_Token_targets message) @
     put P 26 (pw_bytes P) (username_Token_owner message)"

definition field_username_Token :: "proto_lib \<Rightarrow> username_IToken \<Rightarrow> int \<Rightarrow> byte list \<Rightarrow> (username_IToken \<times> byte list) result" where
  "field_username_Token P message tag bs =
     (if tag div 8 = 1 then get (\<lambda>v. message\<lparr>username_Token_metadata := Some v\<rparr>) (get_message P (decode_weave_Metadata P) bs)
      else if tag div 8 = 2 then get (\<lambda>v. message\<lparr>username_Token_targets := Some (elements (username_Token_targets message) @ [v])\<rparr>) (get_message P (decode_username_BlockchainAddress P) bs)
      else if tag div 8 = 3 then get (\<lambda>v. message\<lparr>username_Token_owner := Some v\<rparr>) (pr_bytes P bs)
      else skip P tag message bs)"

definition decode_username_Token :: "proto_lib \<Rightarrow> byte list \<Rightarrow> int \<Rightarrow> (username_IToken \<times> byte list) result" where
  "decode_username_Token P = read_message P (field_username_Token P) new_username_Token"

definition valid_username_Token :: "username_IToken \<Rightarrow> bool" where
  "valid_username_Token message \<longleftrightarrow> pred_option valid_weave_Metadata (username_Token_metadata message)"

lemma decodes_username_Token:
  assumes P: "proto_laws P" and "valid_username_Token m"
  shows "decodes (decode_username_Token P) (encode_username_Token P m) (norm_username_IToken m)"
proof -
  have "writes P (field_username_Token P) (encode_username_Token P m) new_username_Token
      (set_field username_Token_owner_update (norm_bytes (username_Token_owner m)) (set_field username_Token_targets_update (norm_repeated norm_username_IBlockchainAddress (username_Token_targets m)) (set_field username_Token_metadata_update (map_option norm_weave_IMetadata (username_Token_metadata m)) new_username_Token)))"
    unfolding encode_username_Token_def
    by (rule writes_chain
        | rule writes_message [where valid = valid_weave_Metadata, OF P _ _ decodes_weave_Metadata [OF P]]
        | rule writes_messages [OF P _ true_each decodes_username_BlockchainAddress [OF P]]
        | rule writes_bytes [OF P]
        | (simp add: field_username_Token_def new_username_Token_def set_field_def elements_def is_uint32_def assms(2) [unfolded valid_username_Token_def]; fail))+
  then show ?thesis
    unfolding decode_username_Token_def by (intro decodes_message) (simp add: set_field_def new_username_Token_def norm_username_IToken_def)
qed

section \<open>weave.ValidatorUpdates\<close>

record weave_IValidatorUpdates =
  weave_ValidatorUpdates_validatorUpdates :: "weave_IValidatorUpdate list option"

definition norm_weave_IValidatorUpdates :: "weave_IValidatorUpdates \<Rightarrow> weave_IValidatorUpdates" where
  "norm_weave_IValidatorUpdates m = \<lparr>
     weave_ValidatorUpdates_validatorUpdates = norm_repeated norm_weave_IValidatorUpdate (weave_ValidatorUpdates_validatorUpdates m)\<rparr>"

definition new_weave_ValidatorUpdates :: weave_IValidatorUpdates where
  "new_weave_ValidatorUpdates = \<lparr>weave_ValidatorUpdates_validatorUpdates = Some []\<rparr>"

definition encode_weave_ValidatorUpdates :: "proto_lib \<Rightarrow> weave_IValidatorUpdates \<Rightarrow> byte list" where
  "encode_weave_ValidatorUpdates P message =
     put_each P 10 (\<lambda>v. ldelim P (encode_weave_ValidatorUpdate P v)) (weave_ValidatorUpdates_validatorUpdates message)"

definition field_weave_ValidatorUpdates :: "proto_lib \<Rightarrow> weave_IValidatorUpdates \<Rightarrow> int \<Rightarrow> byte list \<Rightarrow> (weave_IValidatorUpdates \<times> byte list) result" where
  "field_weave_ValidatorUpdates P message tag bs =
     (if tag div 8 = 1 then get (\<lambda>v. message\<lparr>weave_ValidatorUpdates_validatorUpdates := Some (elements (weave_ValidatorUpdates_validatorUpdates message) @ [v])\<rparr>) (get_message P (decode_weave_ValidatorUpdate P) bs)
      else skip P tag message bs)"

definition decode_weave_ValidatorUpdates :: "proto_lib \<Rightarrow> byte list \<Rightarrow> int \<Rightarrow> (weave_IValidatorUpdates \<times> byte list) result" where
  "decode_weave_ValidatorUpdates P = read_message P (field_weave_ValidatorUpdates P) new_weave_ValidatorUpdates"

definition valid_weave_ValidatorUpdates :: "weave_IValidatorUpdates \<Rightarrow> bool" where
  "valid_weave_ValidatorUpdates message \<longleftrightarrow> pred_option (list_all valid_weave_ValidatorUpdate) (weave_ValidatorUpdates_validatorUpdates message)"

lemma decodes_weave_ValidatorUpdates:
  assumes P: "proto_laws P" and "valid_weave_ValidatorUpdates m"
  shows "decodes (decode_weave_ValidatorUpdates P) (encode_weave_ValidatorUpdates P m) (norm_weave_IValidatorUpdates m)"
proof -
  have "writes P (field_weave_ValidatorUpdates P) (encode_weave_ValidatorUpdates P m) new_weave_ValidatorUpdates
      (set_field weave_ValidatorUpdates_validatorUpdates_update (norm_repeated norm_weave_IValidatorUpdate (weave_ValidatorUpdates_validatorUpdates m)) new_weave_ValidatorUpdates)"
    unfolding encode_weave_ValidatorUpdates_def
    by (rule writes_chain
        | rule writes_messages [where valid = valid_weave_ValidatorUpdate, OF P _ _ decodes_weave_ValidatorUpdate [OF P]]
        | (simp add: field_weave_ValidatorUpdates_def new_weave_ValidatorUpdates_def set_field_def elements_def is_uint32_def assms(2) [unfolded valid_weave_ValidatorUpdates_def]; fail))+
  then show ?thesis
    unfolding decode_weave_ValidatorUpdates_def by (intro decodes_message) (simp add: set_field_def new_weave_ValidatorUpdates_def norm_weave_IValidatorUpdates_def)
qed

section \<open>datamigration.ExecutedMigration\<close>

record datamigration_IExecutedMigration =
  datamigration_ExecutedMigration_metadata :: "weave_IMetadata option"

definition norm_datamigration_IExecutedMigration :: "datamigration_IExecutedMigration \<Rightarrow> datamigration_IExecutedMigration" where
  "norm_datamigration_IExecutedMigration m = \<lparr>
     datamigration_ExecutedMigration_metadata = map_option norm_weave_IMetadata (datamigration_ExecutedMigration_metadata m)\<rparr>"

definition new_datamigration_ExecutedMigration :: datamigration_IExecutedMigration where
  "new_datamigration_ExecutedMigration = \<lparr>datamigration_ExecutedMigration_metadata = None\<rparr>"

definition encode_datamigration_ExecutedMigration :: "proto_lib \<Rightarrow> datamigration_IExecutedMigration \<Rightarrow> byte list" where
  "encode_datamigration_ExecutedMigration P message =
     put P 10 (\<lambda>v. ldelim P (encode_weave_Metadata P v)) (datamigration_ExecutedMigration_metadata message)"

definition field_datamigration_ExecutedMigration :: "proto_lib \<Rightarrow> datamigration_IExecutedMigration \<Rightarrow> int \<Rightarrow> byte list \<Rightarrow> (datamigration_IExecutedMigration \<times> byte list) result" where
  "field_datamigration_ExecutedMigration P message tag bs =
     (if tag div 8 = 1 then get (\<lambda>v. message\<lparr>datamigration_ExecutedMigration_metadata := Some v\<rparr>) (get_message P (decode_weave_Metadata P) bs)
      else skip P tag message bs)"

definition decode_datamigration_ExecutedMigration :: "proto_lib \<Rightarrow> byte list \<Rightarrow> int \<Rightarrow> (datamigration_IExecutedMigration \<times> byte list) result" where
  "decode_datamigration_ExecutedMigration P = read_message P (field_datamigration_ExecutedMigration P) new_datamigration_ExecutedMigration"

definition valid_datamigration_ExecutedMigration :: "datamigration_IExecutedMigration \<Rightarrow> bool" where
  "valid_datamigration_ExecutedMigration message \<longleftrightarrow> pred_option valid_weave_Metadata (datamigration_ExecutedMigration_metadata message)"

lemma decodes_datamigration_ExecutedMigration:
  assumes P: "proto_laws P" and "valid_datamigration_ExecutedMigration m"
  shows "decodes (decode_datamigration_ExecutedMigration P) (encode_datamigration_ExecutedMigration P m) (norm_datamigration_IExecutedMigration m)"
proof -
  have "writes P (field_datamigration_ExecutedMigration P) (encode_datamigration_ExecutedMigration P m) new_datamigration_ExecutedMigration
      (set_field datamigration_ExecutedMigration_metadata_update (map_option norm_weave_IMetadata (datamigration_ExecutedMigration_metadata m)) new_datamigration_ExecutedMigration)"
    unfolding encode_datamigration_ExecutedMigration_def
    by (rule writes_chain
        | rule writes_message [where valid = valid_weave_Metadata, OF P _ _ decodes_weave_Metadata [OF P]]
        | (simp add: field_datamigration_ExecutedMigration_def new_datamigration_ExecutedMigration_def set_field_def elements_def is_uint32_def assms(2) [unfolded valid_datamigration_ExecutedMigration_def]; fail))+
  then show ?thesis
    unfolding decode_datamigration_ExecutedMigration_def by (intro decodes_message) (simp add: set_field_def new_datamigration_ExecutedMigration_def norm_datamigration_IExecutedMigration_def)
qed

section \<open>migration.Configuration\<close>

record migration_IConfiguration =
  migration_Configuration_admin :: "byte list option"

definition norm_migration_IConfiguration :: "migration_IConfiguration \<Rightarrow> migration_IConfiguration" where
  "norm_migration_IConfiguration m = \<lparr>
     migration_Configuration_admin = norm_bytes (migration_Configuration_admin m)\<rparr>"

definition new_migration_Configuration :: migration_IConfiguration where
  "new_migration_Configuration = \<lparr>migration_Configuration_admin = Some []\<rparr>"

definition encode_migration_Configuration :: "proto_lib \<Rightarrow> migration_IConfiguration \<Rightarrow> byte list" where
  "encode_migration_Configuration P message =
     put P 18 (pw_bytes P) (migration_Configuration_admin message)"

definition field_migration_Configuration :: "proto_lib \<Rightarrow> migration_IConfiguration \<Rightarrow> int \<Rightarrow> byte list \<Rightarrow> (migration_IConfiguration \<times> byte list) result" where
  "field_migration_Configuration P message tag bs =
     (if tag div 8 = 2 then get (\<lambda>v. message\<lparr>migration_Configuration_admin := Some v\<rparr>) (pr_bytes P bs)
      else skip P tag message bs)"

definition decode_migration_Configuration :: "proto_lib \<Rightarrow> byte list \<Rightarrow> int \<Rightarrow> (migration_IConfiguration \<times> byte list) result" where
  "decode_migration_Configuration P = read_message P (field_migration_Configuration P) new_migration_Configuration"

lemma decodes_migration_Configuration:
  assumes P: "proto_laws P"
  shows "decodes (decode_migration_Configuration P) (encode_migration_Configuration P m) (norm_migration_IConfiguration m)"
proof -
  have "writes P (field_migration_Configuration P) (encode_migration_Configuration P m) new_migration_Configuration
      (set_field migration_Configuration_admin_update (norm_bytes (migration_Configuration_admin m)) new_migration_Configuration)"
    unfolding encode_migration_Configuration_def
    by (rule writes_chain
        | rule writes_bytes [OF P]
        | (simp add: field_migration_Configuration_def new_migration_Configuration_def set_field_def elements_def is_uint32_def; fail))+
  then show ?thesis
    unfolding decode_migration_Configuration_def by (intro decodes_message) (simp add: set_field_def new_migration_Configuration_def norm_migration_IConfiguration_def)
qed

section \<open>migration.Schema\<close>

record migration_ISchema =
  migration_Schema_metadata :: "weave_IMetadata option"
  migration_Schema_pkg :: "string option"
  migration_Schema_version :: "number option"

definition norm_migration_ISchema :: "migration_ISchema \<Rightarrow> migration_ISchema" where
  "norm_migration_ISchema m = \<lparr>
     migration_Schema_metadata = map_option norm_weave_IMetadata (migration_Schema_metadata m),
     migration_Schema_pkg = norm_string (migration_Schema_pkg m),
     migration_Schema_version = norm_number (migration_Schema_version m)\<rparr>"

definition new_migration_Schema :: migration_ISchema where
  "new_migration_Schema = \<lparr>migration_Schema_metadata = None, migration_Schema_pkg = Some [], migration_Schema_version = Some (int_num 0)\<rparr>"

definition encode_migration_Schema :: "proto_lib \<Rightarrow> migration_ISchema \<Rightarrow> byte list" where
  "encode_migration_Schema P message =
     put P 10 (\<lambda>v. ldelim P (encode_weave_Metadata P v)) (migration_Schema_metadata message) @
     put P 18 (pw_string P) (migration_Schema_pkg message) @
     put P 24 (pw_uint32 P) (migration_Schema_version message)"

definition field_migration_Schema :: "proto_lib \<Rightarrow> migration_ISchema \<Rightarrow> int \<Rightarrow> byte list \<Rightarrow> (migration_ISchema \<times> byte list) result" where
  "field_migration_Schema P message tag bs =
     (if tag div 8 = 1 then get (\<lambda>v. message\<lparr>migration_Schema_metadata := Some v\<rparr>) (get_message P (decode_weave_Metadata P) bs)
      else if tag div 8 = 2 then get (\<lambda>v. message\<lparr>migration_Schema_pkg := Some v\<rparr>) (pr_string P bs)
      else if tag div 8 = 3 then get (\<lambda>v. message\<lparr>migration_Schema_version := Some (int_num v)\<rparr>) (pr_uint32 P bs)
      else skip P tag message bs)"

definition decode_migration_Schema :: "proto_lib \<Rightarrow> byte list \<Rightarrow> int \<Rightarrow> (migration_ISchema \<times> byte list) result" where
  "decode_migration_Schema P = read_message P (field_migration_Schema P) new_migration_Schema"

definition valid_migration_Schema :: "migration_ISchema \<Rightarrow> bool" where
  "valid_migration_Schema message \<longleftrightarrow> pred_option valid_weave_Metadata (migration_Schema_metadata message) \<and>
     pred_option is_uint32 (migration_Schema_version message)"

lemma decodes_migration_Schema:
  assumes P: "proto_laws P" and "valid_migration_Schema m"
  shows "decodes (decode_migration_Schema P) (encode_migration_Schema P m) (norm_migration_ISchema m)"
proof -
  have "writes P (field_migration_Schema P) (encode_migration_Schema P m) new_migration_Schema
      (set_field migration_Schema_version_update (norm_number (migration_Schema_version m)) (set_field migration_Schema_pkg_update (norm_string (migration_Schema_pkg m)) (set_field migration_Schema_metadata_update (map_option norm_weave_IMetadata (migration_Schema_metadata m)) new_migration_Schema)))"
    unfolding encode_migration_Schema_def
    by (rule writes_chain
        | rule writes_message [where valid = valid_weave_Metadata, OF P _ _ decodes_weave_Metadata [OF P]]
        | rule writes_string [OF P]
        | rule writes_uint32 [OF P]
        | (simp add: field_migration_Schema_def new_migration_Schema_def set_field_def elements_def is_uint32_def assms(2) [unfolded valid_migration_Schema_def]; fail))+
  then show ?thesis
    unfolding decode_migration_Schema_def by (intro decodes_message) (simp add: set_field_def new_migration_Schema_def norm_migration_ISchema_def)
qed

section \<open>orm.MultiRef\<close>

record orm_IMultiRef =
  orm_MultiRef_refs :: "byte list list option"

definition norm_orm_IMultiRef :: "orm_IMultiRef \<Rightarrow> orm_IMultiRef" where
  "norm_orm_IMultiRef m = \<lparr>
     orm_MultiRef_refs = norm_repeated (\<lambda>b. b) (orm_MultiRef_refs m)\<rparr>"

definition new_orm_MultiRef :: orm_IMultiRef where
  "new_orm_MultiRef = \<lparr>orm_MultiRef_refs = Some []\<rparr>"

definition encode_orm_MultiRef :: "proto_lib \<Rightarrow> orm_IMultiRef \<Rightarrow> byte list" where
  "encode_orm_MultiRef P message =
     put_each P 10 (pw_bytes P) (orm_MultiRef_refs message)"

definition field_orm_MultiRef :: "proto_lib \<Rightarrow> orm_IMultiRef \<Rightarrow> int \<Rightarrow> byte list \<Rightarrow> (orm_IMultiRef \<times> byte list) result" where
  "field_orm_MultiRef P message tag bs =
     (if tag div 8 = 1 then get (\<lambda>v. message\<lparr>orm_MultiRef_refs := Some (elements (orm_MultiRef_refs message) @ [v])\<rparr>) (pr_bytes P bs)
      else skip P tag message bs)"

definition decode_orm_MultiRef :: "proto_lib \<Rightarrow> byte list \<Rightarrow> int \<Rightarrow> (orm_IMultiRef \<times> byte list) result" where
  "decode_orm_MultiRef P = read_message P (field_orm_MultiRef P) new_orm_MultiRef"

lemma decodes_orm_MultiRef:
  assumes P: "proto_laws P"
  shows "decodes (decode_orm_MultiRef P) (encode_orm_MultiRef P m) (norm_orm_IMultiRef m)"
proof -
  have "writes P (field_orm_MultiRef P) (encode_orm_MultiRef P m) new_orm_MultiRef
      (set_field orm_MultiRef_refs_update (norm_repeated (\<lambda>b. b) (orm_MultiRef_refs m)) new_orm_MultiRef)"
    unfolding encode_orm_MultiRef_def
    by (rule writes_chain
        | rule writes_repeated_bytes [OF P]
        | (simp add: field_orm_MultiRef_def new_orm_MultiRef_def set_field_def elements_def is_uint32_def; fail))+
  then show ?thesis
    unfolding decode_orm_MultiRef_def by (intro decodes_message) (simp add: set_field_def new_orm_MultiRef_def norm_orm_IMultiRef_def)
qed

section \<open>orm.Counter\<close>

record orm_ICounter =
  orm_Counter_count :: "wire_int option"

definition norm_orm_ICounter :: "orm_ICounter \<Rightarrow> orm_ICounter" where
  "norm_orm_ICounter m = \<lparr>
     orm_Counter_count = norm_int64 (orm_Counter_count m)\<rparr>"

definition new_orm_Counter :: orm_ICounter where
  "new_orm_Counter = \<lparr>orm_Counter_count = Some (Long 0)\<rparr>"

definition encode_orm_Counter :: "proto_lib \<Rightarrow> orm_ICounter \<Rightarrow> byte list" where
  "encode_orm_Counter P message =
     put P 8 (pw_int64 P) (orm_Counter_count message)"

definition field_orm_Counter :: "proto_lib \<Rightarrow> orm_ICounter \<Rightarrow> int \<Rightarrow> byte list \<Rightarrow> (orm_ICounter \<times> byte list) result" where
  "field_orm_Counter P message tag bs =
     (if tag div 8 = 1 then get (\<lambda>v. message\<lparr>orm_Counter_count := Some (Long v)\<rparr>) (pr_int64 P bs)
      else skip P tag message bs)"

definition decode_orm_Counter :: "proto_lib \<Rightarrow> byte list \<Rightarrow> int \<Rightarrow> (orm_ICounter \<times> byte list) result" where
  "decode_orm_Counter P = read_message P (field_orm_Counter P) new_orm_Counter"

definition valid_orm_Counter :: "orm_ICounter \<Rightarrow> bool" where
  "valid_orm_Counter message \<longleftrightarrow> pred_option is_int64 (orm_Counter_count message)"

lemma decodes_orm_Counter:
  assumes P: "proto_laws P" and "valid_orm_Counter m"
  shows "decodes (decode_orm_Counter P) (encode_orm_Counter P m) (norm_orm_ICounter m)"
proof -
  have "writes P (field_orm_Counter P) (encode_orm_Counter P m) new_orm_Counter
      (set_field orm_Counter_count_update (norm_int64 (orm_Counter_count m)) new_orm_Counter)"
    unfolding encode_orm_Counter_def
    by (rule writes_chain
        | rule writes_int64 [OF P]
        | (simp add: field_orm_Counter_def new_orm_Counter_def set_field_def elements_def is_uint32_def assms(2) [unfolded valid_orm_Counter_def]; fail))+
  then show ?thesis
    unfolding decode_orm_Counter_def by (intro decodes_message) (simp add: set_field_def new_orm_Counter_def norm_orm_ICounter_def)
qed

section \<open>orm.VersionedIDRef\<close>

record orm_IVersionedIDRef =
  orm_VersionedIDRef_id :: "byte list option"
  orm_VersionedIDRef_version :: "number option"

definition norm_orm_IVersionedIDRef :: "orm_IVersionedIDRef \<Rightarrow> orm_IVersionedIDRef" where
  "norm_orm_IVersionedIDRef m = \<lparr>
     orm_VersionedIDRef_id = norm_bytes (orm_VersionedIDRef_id m),
     orm_VersionedIDRef_version = norm_number (orm_VersionedIDRef_version m)\<rparr>"

definition new_orm_VersionedIDRef :: orm_IVersionedIDRef where
  "new_orm_VersionedIDRef = \<lparr>orm_VersionedIDRef_id = Some [], orm_VersionedIDRef_version = Some (int_num 0)\<rparr>"

definition encode_orm_VersionedIDRef :: "proto_lib \<Rightarrow> orm_IVersionedIDRef \<Rightarrow> byte list" where
  "encode_orm_VersionedIDRef P message =
     put P 34 (pw_bytes P) (orm_VersionedIDRef_id message) @
     put P 40 (pw_uint32 P) (orm_VersionedIDRef_version message)"

definition field_orm_VersionedIDRef :: "proto_lib \<Rightarrow> orm_IVersionedIDRef \<Rightarrow> int \<Rightarrow> byte list \<Rightarrow> (orm_IVersionedIDRef \<times> byte list) result" where
  "field_orm_VersionedIDRef P message tag bs =
     (if tag div 8 = 4 then get (\<lambda>v. message\<lparr>orm_VersionedIDRef_id := Some v\<rparr>) (pr_bytes P bs)
      else if tag div 8 = 5 then get (\<lambda>v. message\<lparr>orm_VersionedIDRef_version := Some (int_num v)\<rparr>) (pr_uint32 P bs)
      else skip P tag message bs)"

definition decode_orm_VersionedIDRef :: "proto_lib \<Rightarrow> byte list \<Rightarrow> int \<Rightarrow> (orm_IVersionedIDRef \<times> byte list) result" where
  "decode_orm_VersionedIDRef P = read_message P (field_orm_VersionedIDRef P) new_orm_VersionedIDRef"

definition valid_orm_VersionedIDRef :: "orm_IVersionedIDRef \<Rightarrow> bool" where
  "valid_orm_VersionedIDRef message \<longleftrightarrow> pred_option is_uint32 (orm_VersionedIDRef_version message)"

lemma decodes_orm_VersionedIDRef:
  assumes P: "proto_laws P" and "valid_orm_VersionedIDRef m"
  shows "decodes (decode_orm_VersionedIDRef P) (encode_orm_VersionedIDRef P m) (norm_orm_IVersionedIDRef m)"
proof -
  have "writes P (field_orm_VersionedIDRef P) (encode_orm_VersionedIDRef P m) new_orm_VersionedIDRef
      (set_field orm_VersionedIDRef_version_update (norm_number (orm_VersionedIDRef_version m)) (set_field orm_VersionedIDRef_id_update (norm_bytes (orm_VersionedIDRef_id m)) new_orm_VersionedIDRef))"
    unfolding encode_orm_VersionedIDRef_def
    by (rule writes_chain
        | rule writes_bytes [OF P]
        | rule writes_uint32 [OF P]
        | (simp add: field_orm_VersionedIDRef_def new_orm_VersionedIDRef_def set_field_def elements_def is_uint32_def assms(2) [unfolded valid_orm_VersionedIDRef_def]; fail))+
  then show ?thesis
    unfolding decode_orm_VersionedIDRef_def by (intro decodes_message) (simp add: set_field_def new_orm_VersionedIDRef_def norm_orm_IVersionedIDRef_def)
qed

section \<open>orm.CounterWithID\<close>

record orm_ICounterWithID =
  orm_CounterWithID_primaryKey :: "byte list option"
  orm_CounterWithID_count :: "wire_int option"

definition norm_orm_ICounterWithID :: "orm_ICounterWithID \<Rightarrow> orm_ICounterWithID" where
  "norm_orm_ICounterWithID m = \<lparr>
     orm_CounterWithID_primaryKey = norm_bytes (orm_CounterWithID_primaryKey m),
     orm_CounterWithID_count = norm_int64 (orm_CounterWithID_count m)\<rparr>"

definition new_orm_CounterWithID :: orm_ICounterWithID where
  "new_orm_CounterWithID = \<lparr>orm_CounterWithID_primaryKey = Some [], orm_CounterWithID_count = Some (Long 0)\<rparr>"

definition encode_orm_CounterWithID :: "proto_lib \<Rightarrow> orm_ICounterWithID \<Rightarrow> byte list" where
  "encode_orm_CounterWithID P message =
     put P 10 (pw_bytes P) (orm_CounterWithID_primaryKey message) @
     put P 16 (pw_int64 P) (orm_CounterWithID_count message)"

definition field_orm_CounterWithID :: "proto_lib \<Rightarrow> orm_ICounterWithID \<Rightarrow> int \<Rightarrow> byte list \<Rightarrow> (orm_ICounterWithID \<times> byte list) result" where
  "field_orm_CounterWithID P message tag bs =
     (if tag div 8 = 1 then get (\<lambda>v. message\<lparr>orm_CounterWithID_primaryKey := Some v\<rparr>) (pr_bytes P bs)
      else if tag div 8 = 2 then get (\<lambda>v. message\<lparr>orm_CounterWithID_count := Some (Long v)\<rparr>) (pr_int64 P bs)
      else skip P tag message bs)"

definition decode_orm_CounterWithID :: "proto_lib \<Rightarrow> byte list \<Rightarrow> int \<Rightarrow> (orm_ICounterWithID \<times> byte list) result" where
  "decode_orm_CounterWithID P = read_message P (field_orm_CounterWithID P) new_orm_CounterWithID"

definition valid_orm_CounterWithID :: "orm_ICounterWithID \<Rightarrow> bool" where
  "valid_orm_CounterWithID message \<longleftrightarrow> pred_option is_int64 (orm_CounterWithID_count message)"

lemma decodes_orm_CounterWithID:
  assumes P: "proto_laws P" and "valid_orm_CounterWithID m"
  shows "decodes (decode_orm_CounterWithID P) (encode_orm_CounterWithID P m) (norm_orm_ICounterWithID m)"
proof -
  have "writes P (field_orm_CounterWithID P) (encode_orm_CounterWithID P m) new_orm_CounterWithID
      (set_field orm_CounterWithID_count_update (norm_int64 (orm_CounterWithID_count m)) (set_field orm_CounterWithID_primaryKey_update (norm_bytes (orm_CounterWithID_primaryKey m)) new_orm_CounterWithID))"
    unfolding encode_orm_CounterWithID_def
    by (rule writes_chain
        | rule writes_bytes [OF P]
        | rule writes_int64 [OF P]
        | (simp add: field_orm_CounterWithID_def new_orm_CounterWithID_def set_field_def elements_def is_uint32_def assms(2) [unfolded valid_orm_CounterWithID_def]; fail))+
  then show ?thesis
    unfolding decode_orm_CounterWithID_def by (intro decodes_message) (simp add: set_field_def new_orm_CounterWithID_def norm_orm_ICounterWithID_def)
qed

section \<open>aswap.Swap\<close>

record aswap_ISwap =
  aswap_Swap_metadata :: "weave_IMetadata option"
  aswap_Swap_preimageHash :: "byte list option"
  aswap_Swap_source :: "byte list option"
  aswap_Swap_destination :: "byte list option"
  aswap_Swap_timeout :: "wire_int option"
  aswap_Swap_memo :: "string option"
  aswap_Swap_address :: "byte list option"

definition norm_aswap_ISwap :: "aswap_ISwap \<Rightarrow> aswap_ISwap" where
  "norm_aswap_ISwap m = \<lparr>
     aswap_Swap_metadata = map_option norm_weave_IMetadata (aswap_Swap_metadata m),
     aswap_Swap_preimageHash = norm_bytes (aswap_Swap_preimageHash m),
     aswap_Swap_source = norm_bytes (aswap_Swap_source m),
     aswap_Swap_destination = norm_bytes (aswap_Swap_destination m),
     aswap_Swap_timeout = norm_int64 (aswap_Swap_timeout m),
     aswap_Swap_memo = norm_string (aswap_Swap_memo m),
     aswap_Swap_address = norm_bytes (aswap_Swap_address m)\<rparr>"

definition new_aswap_Swap :: aswap_ISwap where
  "new_aswap_Swap = \<lparr>aswap_Swap_metadata = None, aswap_Swap_preimageHash = Some [], aswap_Swap_source = Some [], aswap_Swap_destination = Some [], aswap_Swap_timeout = Some (Long 0), aswap_Swap_memo = Some [], aswap_Swap_address = Some []\<rparr>"

definition encode_aswap_Swap :: "proto_lib \<Rightarrow> aswap_ISwap \<Rightarrow> byte list" where
  "encode_aswap_Swap P message =
     put P 10 (\<lambda>v. ldelim P (encode_weave_Metadata P v)) (aswap_Swap_metadata message) @
     put P 18 (pw_bytes P) (aswap_Swap_preimageHash message) @
     put P 26 (pw_bytes P) (aswap_Swap_source message) @
     put P 42 (pw_bytes P) (aswap_Swap_destination message) @
     put P 48 (pw_int64 P) (aswap_Swap_timeout message) @
     put P 58 (pw_string P) (aswap_Swap_memo message) @
     put P 66 (pw_bytes P) (aswap_Swap_address message)"

definition field_aswap_Swap :: "proto_lib \<Rightarrow> aswap_ISwap \<Rightarrow> int \<Rightarrow> byte list \<Rightarrow> (aswap_ISwap \<times> byte list) result" where
  "field_aswap_Swap P message tag bs =
     (if tag div 8 = 1 then get (\<lambda>v. message\<lparr>aswap_Swap_metadata := Some v\<rparr>) (get_message P (decode_weave_Metadata P) bs)
      else if tag div 8 = 2 then get (\<lambda>v. message\<lparr>aswap_Swap_preimageHash := Some v\<rparr>) (pr_bytes P bs)
      else if tag div 8 = 3 then get (\<lambda>v. message\<lparr>aswap_Swap_source := Some v\<rparr>) (pr_bytes P bs)
      else if tag div 8 = 5 then get (\<lambda>v. message\<lparr>aswap_Swap_destination := Some v\<rparr>) (pr_bytes P bs)
      else if tag div 8 = 6 then get (\<lambda>v. message\<lparr>aswap_Swap_timeout := Some (Long v)\<rparr>) (pr_int64 P bs)
      else if tag div 8 = 7 then get (\<lambda>v. message\<lparr>aswap_Swap_memo := Some v\<rparr>) (pr_string P bs)
      else if tag div 8 = 8 then get (\<lambda>v. message\<lparr>aswap_Swap_address := Some v\<rparr>) (pr_bytes P bs)
      else skip P tag message bs)"

definition decode_aswap_Swap :: "proto_lib \<Rightarrow> byte list \<Rightarrow> int \<Rightarrow> (aswap_ISwap \<times> byte list) result" where
  "decode_aswap_Swap P = read_message P (field_aswap_Swap P) new_aswap_Swap"

definition valid_aswap_Swap :: "aswap_ISwap \<Rightarrow> bool" where
  "valid_aswap_Swap message \<longleftrightarrow> pred_option valid_weave_Metadata (aswap_Swap_metadata message) \<and>
     pred_option is_int64 (aswap_Swap_timeout message)"

lemma decodes_aswap_Swap:
  assumes P: "proto_laws P" and "valid_aswap_Swap m"
  shows "decodes (decode_aswap_Swap P) (encode_aswap_Swap P m) (norm_aswap_ISwap m)"
proof -
  have "writes P (field_aswap_Swap P) (encode_aswap_Swap P m) new_aswap_Swap
      (set_field aswap_Swap_address_update (norm_bytes (aswap_Swap_address m)) (set_field aswap_Swap_memo_update (norm_string (aswap_Swap_memo m)) (set_field aswap_Swap_timeout_update (norm_int64 (aswap_Swap_timeout m)) (set_field aswap_Swap_destination_update (norm_bytes (aswap_Swap_destination m)) (set_field aswap_Swap_source_update (norm_bytes (aswap_Swap_source m)) (set_field aswap_Swap_preimageHash_update (norm_bytes (aswap_Swap_preimageHash m)) (set_field aswap_Swap_metadata_update (map_option norm_weave_IMetadata (aswap_Swap_metadata m)) new_aswap_Swap)))))))"
    unfolding encode_aswap_Swap_def
    by (rule writes_chain
        | rule writes_message [where valid = valid_weave_Metadata, OF P _ _ decodes_weave_Metadata [OF P]]
        | rule writes_bytes [OF P]
        | rule writes_int64 [OF P]
        | rule writes_string [OF P]
        | (simp add: field_aswap_Swap_def new_aswap_Swap_def set_field_def elements_def is_uint32_def assms(2) [unfolded valid_aswap_Swap_def]; fail))+
  then show ?thesis
    unfolding decode_aswap_Swap_def by (intro decodes_message) (simp add: set_field_def new_aswap_Swap_def norm_aswap_ISwap_def)
qed

section \<open>batch.ByteArrayList\<close>

record batch_IByteArrayList =
  batch_ByteArrayList_elements :: "byte list list option"

definition norm_batch_IByteArrayList :: "batch_IByteArrayList \<Rightarrow> batch_IByteArrayList" where
  "norm_batch_IByteArrayList m = \<lparr>
     batch_ByteArrayList_elements = norm_repeated (\<lambda>b. b) (batch_ByteArrayList_elements m)\<rparr>"

definition new_batch_ByteArrayList :: batch_IByteArrayList where
  "new_batch_ByteArrayList = \<lparr>batch_ByteArrayList_elements = Some []\<rparr>"

definition encode_batch_ByteArrayList :: "proto_lib \<Rightarrow> batch_IByteArrayList \<Rightarrow> byte list" where
  "encode_batch_ByteArrayList P message =
     put_each P 10 (pw_bytes P) (batch_ByteArrayList_elements message)"

definition field_batch_ByteArrayList :: "proto_lib \<Rightarrow> batch_IByteArrayList \<Rightarrow> int \<Rightarrow> byte list \<Rightarrow> (batch_IByteArrayList \<times> byte list) result" where
  "field_batch_ByteArrayList P message tag bs =
     (if tag div 8 = 1 then get (\<lambda>v. message\<lparr>batch_ByteArrayList_elements := Some (elements (batch_ByteArrayList_elements message) @ [v])\<rparr>) (pr_bytes P bs)
      else skip P tag message bs)"

definition decode_batch_ByteArrayList :: "proto_lib \<Rightarrow> byte list \<Rightarrow> int \<Rightarrow> (batch_IByteArrayList \<times> byte list) result" where
  "decode_batch_ByteArrayList P = read_message P (field_batch_ByteArrayList P) new_batch_ByteArrayList"

lemma decodes_batch_ByteArrayList:
  assumes P: "proto_laws P"
  shows "decodes (decode_batch_ByteArrayList P) (encode_batch_ByteArrayList P m) (norm_batch_IByteArrayList m)"
proof -
  have "writes P (field_batch_ByteArrayList P) (encode_batch_ByteArrayList P m) new_batch_ByteArrayList
      (set_field batch_ByteArrayList_elements_update (norm_repeated (\<lambda>b. b) (batch_ByteArrayList_elements m)) new_batch_ByteArrayList)"
    unfolding encode_batch_ByteArrayList_def
    by (rule writes_chain
        | rule writes_repeated_bytes [OF P]
        | (simp add: field_batch_ByteArrayList_def new_batch_ByteArrayList_def set_field_def elements_def is_uint32_def; fail))+
  then show ?thesis
    unfolding decode_batch_ByteArrayList_def by (intro decodes_message) (simp add: set_field_def new_batch_ByteArrayList_def norm_batch_IByteArrayList_def)
qed

section \<open>cash.Set\<close>

record cash_ISet =
  cash_Set_metadata :: "weave_IMetadata option"
  cash_Set_coins :: "coin_ICoin list option"

definition norm_cash_ISet :: "cash_ISet \<Rightarrow> cash_ISet" where
  "norm_cash_ISet m = \<lparr>
     cash_Set_metadata = map_option norm_weave_IMetadata (cash_Set_metadata m),
     cash_Set_coins = norm_repeated norm_coin_ICoin (cash_Set_coins m)\<rparr>"

definition new_cash_Set :: cash_ISet where
  "new_cash_Set = \<lparr>cash_Set_metadata = None, cash_Set_coins = Some []\<rparr>"

definition encode_cash_Set :: "proto_lib \<Rightarrow> cash_ISet \<Rightarrow> byte list" where
  "encode_cash_Set P message =
     put P 10 (\<lambda>v. ldelim P (encode_weave_Metadata P v)) (cash_Set_metadata message) @
     put_each P 18 (\<lambda>v. ldelim P (encode_coin_Coin P v)) (cash_Set_coins message)"

definition field_cash_Set :: "proto_lib \<Rightarrow> cash_ISet \<Rightarrow> int \<Rightarrow> byte list \<Rightarrow> (cash_ISet \<times> byte list) result" where
  "field_cash_Set P message tag bs =
     (if tag div 8 = 1 then get (\<lambda>v. message\<lparr>cash_Set_metadata := Some v\<rparr>) (get_message P (decode_weave_Metadata P) bs)
      else if tag div 8 = 2 then get (\<lambda>v. message\<lparr>cash_Set_coins := Some (elements (cash_Set_coins message) @ [v])\<rparr>) (get_message P (decode_coin_Coin P) bs)
      else skip P tag message bs)"

definition decode_cash_Set :: "proto_lib \<Rightarrow> byte list \<Rightarrow> int \<Rightarrow> (cash_ISet \<times> byte list) result" where
  "decode_cash_Set P = read_message P (field_cash_Set P) new_cash_Set"

definition valid_cash_Set :: "cash_ISet \<Rightarrow> bool" where
  "valid_cash_Set message \<longleftrightarrow> pred_option valid_weave_Metadata (cash_Set_metadata message) \<and>
     pred_option (list_all valid_coin_Coin) (cash_Set_coins message)"

lemma decodes_cash_Set:
  assumes P: "proto_laws P" and "valid_cash_Set m"
  shows "decodes (decode_cash_Set P) (encode_cash_Set P m) (norm_cash_ISet m)"
proof -
  have "writes P (field_cash_Set P) (encode_cash_Set P m) new_cash_Set
      (set_field cash_Set_coins_update (norm_repeated norm_coin_ICoin (cash_Set_coins m)) (set_field cash_Set_metadata_update (map_option norm_weave_IMetadata (cash_Set_metadata m)) new_cash_Set))"
    unfolding encode_cash_Set_def
    by (rule writes_chain
        | rule writes_message [where valid = valid_weave_Metadata, OF P _ _ decodes_weave_Metadata [OF P]]
        | rule writes_messages [where valid = valid_coin_Coin, OF P _ _ decodes_coin_Coin [OF P]]
        | (simp add: field_cash_Set_def new_cash_Set_def set_field_def elements_def is_uint32_def assms(2) [unfolded valid_cash_Set_def]; fail))+
  then show ?thesis
    unfolding decode_cash_Set_def by (intro decodes_message) (simp add: set_field_def new_cash_Set_def norm_cash_ISet_def)
qed

section \<open>cron.TaskResult\<close>

record cron_ITaskResult =
  cron_TaskResult_metadata :: "weave_IMetadata option"
  cron_TaskResult_successful :: "bool option"
  cron_TaskResult_info :: "string option"
  cron_TaskResult_execTime :: "wire_int option"
  cron_TaskResult_execHeight :: "wire_int option"

definition norm_cron_ITaskResult :: "cron_ITaskResult \<Rightarrow> cron_ITaskResult" where
  "norm_cron_ITaskResult m = \<lparr>
     cron_TaskResult_metadata = map_option norm_weave_IMetadata (cron_TaskResult_metadata m),
     cron_TaskResult_successful = norm_bool (cron_TaskResult_successful m),
     cron_TaskResult_info = norm_string (cron_TaskResult_info m),
     cron_TaskResult_execTime = norm_int64 (cron_TaskResult_execTime m),
     cron_TaskResult_execHeight = norm_int64 (cron_TaskResult_execHeight m)\<rparr>"

definition new_cron_TaskResult :: cron_ITaskResult where
  "new_cron_TaskResult = \<lparr>cron_TaskResult_metadata = None, cron_TaskResult_successful = Some False, cron_TaskResult_info = Some [], cron_TaskResult_execTime = Some (Long 0), cron_TaskResult_execHeight = Some (Long 0)\<rparr>"

definition encode_cron_TaskResult :: "proto_lib \<Rightarrow> cron_ITaskResult \<Rightarrow> byte list" where
  "encode_cron_TaskResult P message =
     put P 10 (\<lambda>v. ldelim P (encode_weave_Metadata P v)) (cron_TaskResult_metadata message) @
     put P 16 (pw_bool P) (cron_TaskResult_successful message) @
     put P 26 (pw_string P) (cron_TaskResult_info message) @
     put P 32 (pw_int64 P) (cron_TaskResult_execTime message) @
     put P 40 (pw_int64 P) (cron_TaskResult_execHeight message)"

definition field_cron_TaskResult :: "proto_lib \<Rightarrow> cron_ITaskResult \<Rightarrow> int \<Rightarrow> byte list \<Rightarrow> (cron_ITaskResult \<times> byte list) result" where
  "field_cron_TaskResult P message tag bs =
     (if tag div 8 = 1 then get (\<lambda>v. message\<lparr>cron_TaskResult_metadata := Some v\<rparr>) (get_message P (decode_weave_Metadata P) bs)
      else if tag div 8 = 2 then get (\<lambda>v. message\<lparr>cron_TaskResult_successful := Some v\<rparr>) (pr_bool P bs)
      else if tag div 8 = 3 then get (\<lambda>v. message\<lparr>cron_TaskResult_info := Some v\<rparr>) (pr_string P bs)
      else if tag div 8 = 4 then get (\<lambda>v. message\<lparr>cron_TaskResult_execTime := Some (Long v)\<rparr>) (pr_int64 P bs)
      else if tag div 8 = 5 then get (\<lambda>v. message\<lparr>cron_TaskResult_execHeight := Some (Long v)\<rparr>) (pr_int64 P bs)
      else skip P tag message bs)"

definition decode_cron_TaskResult :: "proto_lib \<Rightarrow> byte list \<Rightarrow> int \<Rightarrow> (cron_ITaskResult \<times> byte list) result" where
  "decode_cron_TaskResult P = read_message P (field_cron_TaskResult P) new_cron_TaskResult"

definition valid_cron_TaskResult :: "cron_ITaskResult \<Rightarrow> bool" where
  "valid_cron_TaskResult message \<longleftrightarrow> pred_option valid_weave_Metadata (cron_TaskResult_metadata message) \<and>
     pred_option is_int64 (cron_TaskResult_execTime message) \<and>
     pred_option is_int64 (cron_TaskResult_execHeight message)"

lemma decodes_cron_TaskResult:
  assumes P: "proto_laws P" and "valid_cron_TaskResult m"
  shows "decodes (decode_cron_TaskResult P) (encode_cron_TaskResult P m) (norm_cron_ITaskResult m)"
proof -
  have "writes P (field_cron_TaskResult P) (encode_cron_TaskResult P m) new_cron_TaskResult
      (set_field cron_TaskResult_execHeight_update (norm_int64 (cron_TaskResult_execHeight m)) (set_field cron_TaskResult_execTime_update (norm_int64 (cron_TaskResult_execTime m)) (set_field cron_TaskResult_info_update (norm_string (cron_TaskResult_info m)) (set_field cron_TaskResult_successful_update (norm_bool (cron_TaskResult_successful m)) (set_field cron_TaskResult_metadata_update (map_option norm_weave_IMetadata (cron_TaskResult_metadata m)) new_cron_TaskResult)))))"
    unfolding encode_cron_TaskResult_def
    by (rule writes_chain
        | rule writes_message [where valid = valid_weave_Metadata, OF P _ _ decodes_weave_Metadata [OF P]]
        | rule writes_bool [OF P]
        | rule writes_string [OF P]
        | rule writes_int64 [OF P]
        | (simp add: field_cron_TaskResult_def new_cron_TaskResult_def set_field_def elements_def is_uint32_def assms(2) [unfolded valid_cron_TaskResult_def]; fail))+
  then show ?thesis
    unfolding decode_cron_TaskResult_def by (intro decodes_message) (simp add: set_field_def new_cron_TaskResult_def norm_cron_ITaskResult_def)
qed

section \<open>currency.TokenInfo\<close>

record currency_ITokenInfo =
  currency_TokenInfo_metadata :: "weave_IMetadata option"
  currency_TokenInfo_name :: "string option"

definition norm_currency_ITokenInfo :: "currency_ITokenInfo \<Rightarrow> currency_ITokenInfo" where
  "norm_currency_ITokenInfo m = \<lparr>
     currency_TokenInfo_metadata = map_option norm_weave_IMetadata (currency_TokenInfo_metadata m),
     currency_TokenInfo_name = norm_string (currency_TokenInfo_name m)\<rparr>"

definition new_currency_TokenInfo :: currency_ITokenInfo where
  "new_currency_TokenInfo = \<lparr>currency_TokenInfo_metadata = None, currency_TokenInfo_name = Some []\<rparr>"

definition encode_currency_TokenInfo :: "proto_lib \<Rightarrow> currency_ITokenInfo \<Rightarrow> byte list" where
  "encode_currency_TokenInfo P message =
     put P 10 (\<lambda>v. ldelim P (encode_weave_Metadata P v)) (currency_TokenInfo_metadata message) @
     put P 18 (pw_string P) (currency_TokenInfo_name message)"

definition field_currency_TokenInfo :: "proto_lib \<Rightarrow> currency_ITokenInfo \<Rightarrow> int \<Rightarrow> byte list \<Rightarrow> (currency_ITokenInfo \<times> byte list) result" where
  "field_currency_TokenInfo P message tag bs =
     (if tag div 8 = 1 then get (\<lambda>v. message\<lparr>currency_TokenInfo_metadata := Some v\<rparr>) (get_message P (decode_weave_Metadata P) bs)
      else if tag div 8 = 2 then get (\<lambda>v. message\<lparr>currency_TokenInfo_name := Some v\<rparr>) (pr_string P bs)
      else skip P tag message bs)"

definition decode_currency_TokenInfo :: "proto_lib \<Rightarrow> byte list \<Rightarrow> int \<Rightarrow> (currency_ITokenInfo \<times> byte list) result" where
  "decode_currency_TokenInfo P = read_message P (field_currency_TokenInfo P) new_currency_TokenInfo"

definition valid_currency_TokenInfo :: "currency_ITokenInfo \<Rightarrow> bool" where
  "valid_currency_TokenInfo message \<longleftrightarrow> pred_option valid_weave_Metadata (currency_TokenInfo_metadata message)"

lemma decodes_currency_TokenInfo:
  assumes P: "proto_laws P" and "valid_currency_TokenInfo m"
  shows "decodes (decode_currency_TokenInfo P) (encode_currency_TokenInfo P m) (norm_currency_ITokenInfo m)"
proof -
  have "writes P (field_currency_TokenInfo P) (encode_currency_TokenInfo P m) new_currency_TokenInfo
      (set_field currency_TokenInfo_name_update (norm_string (currency_TokenInfo_name m)) (set_field currency_TokenInfo_metadata_update (map_option norm_weave_IMetadata (currency_TokenInfo_metadata m)) new_currency_TokenInfo))"
    unfolding encode_currency_TokenInfo_def
    by (rule writes_chain
        | rule writes_message [where valid = valid_weave_Metadata, OF P _ _ decodes_weave_Metadata [OF P]]
        | rule writes_string [OF P]
        | (simp add: field_currency_TokenInfo_def new_currency_TokenInfo_def set_field_def elements_def is_uint32_def assms(2) [unfolded valid_currency_TokenInfo_def]; fail))+
  then show ?thesis
    unfolding decode_currency_TokenInfo_def by (intro decodes_message) (simp add: set_field_def new_currency_TokenInfo_def norm_currency_ITokenInfo_def)
qed

section \<open>distribution.Revenue\<close>

record distribution_IRevenue =
  distribution_Revenue_metadata :: "weave_IMetadata option"
  distribution_Revenue_admin :: "byte list option"
  distribution_Revenue_destinations :: "distribution_IDestination list option"
  distribution_Revenue_address :: "byte list option"

definition norm_distribution_IRevenue :: "distribution_IRevenue \<Rightarrow> distribution_IRevenue" where
  "norm_distribution_IRevenue m = \<lparr>
     distribution_Revenue_metadata = map_option norm_weave_IMetadata (distribution_Revenue_metadata m),
     distribution_Revenue_admin = norm_bytes (distribution_Revenue_admin m),
     distribution_Revenue_destinations = norm_repeated norm_distribution_IDestination (distribution_Revenue_destinations m),
     distribution_Revenue_address = norm_bytes (distribution_Revenue_address m)\<rparr>"

definition new_distribution_Revenue :: distribution_IRevenue where
  "new_distribution_Revenue = \<lparr>distribution_Revenue_metadata = None, distribution_Revenue_admin = Some [], distribution_Revenue_destinations = Some [], distribution_Revenue_address = Some []\<rparr>"

definition encode_distribution_Revenue :: "proto_lib \<Rightarrow> distribution_IRevenue \<Rightarrow> byte list" where
  "encode_distribution_Revenue P message =
     put P 10 (\<lambda>v. ldelim P (encode_weave_Metadata P v)) (distribution_Revenue_metadata message) @
     put P 18 (pw_bytes P) (distribution_Revenue_admin message) @
     put_each P 26 (\<lambda>v. ldelim P (encode_distribution_Destination P v)) (distribution_Revenue_destinations message) @
     put P 34 (pw_bytes P) (distribution_Revenue_address message)"

definition field_distribution_Revenue :: "proto_lib \<Rightarrow> distribution_IRevenue \<Rightarrow> int \<Rightarrow> byte list \<Rightarrow> (distribution_IRevenue \<times> byte list) result" where
  "field_distribution_Revenue P message tag bs =
     (if tag div 8 = 1 then get (\<lambda>v. message\<lparr>distribution_Revenue_metadata := Some v\<rparr>) (get_message P (decode_weave_Metadata P) bs)
      else if tag div 8 = 2 then get (\<lambda>v. message\<lparr>distribution_Revenue_admin := Some v\<rparr>) (pr_bytes P bs)
      else if tag div 8 = 3 then get (\<lambda>v. message\<lparr>distribution_Revenue_destinations := Some (elements (distribution_Revenue_destinations message) @ [v])\<rparr>) (get_message P (decode_distribution_Destination P) bs)
      else if tag div 8 = 4 then get (\<lambda>v. message\<lparr>distribution_Revenue_address := Some v\<rparr>) (pr_bytes P bs)
      else skip P tag message bs)"

definition decode_distribution_Revenue :: "proto_lib \<Rightarrow> byte list \<Rightarrow> int \<Rightarrow> (distribution_IRevenue \<times> byte list) result" where
  "decode_distribution_Revenue P = read_message P (field_distribution_Revenue P) new_distribution_Revenue"

definition valid_distribution_Revenue :: "distribution_IRevenue \<Rightarrow> bool" where
  "valid_distribution_Revenue message \<longleftrightarrow> pred_option valid_weave_Metadata (distribution_Revenue_metadata message) \<and>
     pred_option (list_all valid_distribution_Destination) (distribution_Revenue_destinations message)"

lemma decodes_distribution_Revenue:
  assumes P: "proto_laws P" and "valid_distribution_Revenue m"
  shows "decodes (decode_distribution_Revenue P) (encode_distribution_Revenue P m) (norm_distribution_IRevenue m)"
proof -
  have "writes P (field_distribution_Revenue P) (encode_distribution_Revenue P m) new_distribution_Revenue
      (set_field distribution_Revenue_address_update (norm_bytes (distribution_Revenue_address m)) (set_field distribution_Revenue_destinations_update (norm_repeated norm_distribution_IDestination (distribution_Revenue_destinations m)) (set_field distribution_Revenue_admin_update (norm_bytes (distribution_Revenue_admin m)) (set_field distribution_Revenue_metadata_update (map_option norm_weave_IMetadata (distribution_Revenue_metadata m)) new_distribution_Revenue))))"
    unfolding encode_distribution_Revenue_def
    by (rule writes_chain
        | rule writes_message [where valid = valid_weave_Metadata, OF P _ _ decodes_weave_Metadata [OF P]]
        | rule writes_bytes [OF P]
        | rule writes_messages [where valid = valid_distribution_Destination, OF P _ _ decodes_distribution_Destination [OF P]]
        | (simp add: field_distribution_Revenue_def new_distribution_Revenue_def set_field_def elements_def is_uint32_def assms(2) [unfolded valid_distribution_Revenue_def]; fail))+
  then show ?thesis
    unfolding decode_distribution_Revenue_def by (intro decodes_message) (simp add: set_field_def new_distribution_Revenue_def norm_distribution_IRevenue_def)
qed

section \<open>escrow.Escrow\<close>

record escrow_IEscrow =
  escrow_Escrow_metadata :: "weave_IMetadata option"
  escrow_Escrow_source :: "byte list option"
  escrow_Escrow_arbiter :: "byte list option"
  escrow_Escrow_destination :: "byte list option"
  escrow_Escrow_timeout :: "wire_int option"
  escrow_Escrow_memo :: "string option"
  escrow_Escrow_address :: "byte list option"

definition norm_escrow_IEscrow :: "escrow_IEscrow \<Rightarrow> escrow_IEscrow" where
  "norm_escrow_IEscrow m = \<lparr>
     escrow_Escrow_metadata = map_option norm_weave_IMetadata (escrow_Escrow_metadata m),
     escrow_Escrow_source = norm_bytes (escrow_Escrow_source m),
     escrow_Escrow_arbiter = norm_bytes (escrow_Escrow_arbiter m),
     escrow_Escrow_destination = norm_bytes (escrow_Escrow_destination m),
     escrow_Escrow_timeout = norm_int64 (escrow_Escrow_timeout m),
     escrow_Escrow_memo = norm_string (escrow_Escrow_memo m),
     escrow_Escrow_address = norm_bytes (escrow_Escrow_address m)\<rparr>"

definition new_escrow_Escrow :: escrow_IEscrow where
  "new_escrow_Escrow = \<lparr>escrow_Escrow_metadata = None, escrow_Escrow_source = Some [], escrow_Escrow_arbiter = Some [], escrow_Escrow_destination = Some [], escrow_Escrow_timeout = Some (Long 0), escrow_Escrow_memo = Some [], escrow_Escrow_address = Some []\<rparr>"

definition encode_escrow_Escrow :: "proto_lib \<Rightarrow> escrow_IEscrow \<Rightarrow> byte list" where
  "encode_escrow_Escrow P message =
     put P 10 (\<lambda>v. ldelim P (encode_weave_Metadata P v)) (escrow_Escrow_metadata message) @
     put P 18 (pw_bytes P) (escrow_Escrow_source message) @
     put P 26 (pw_bytes P) (escrow_Escrow_arbiter message) @
     put P 34 (pw_bytes P) (escrow_Escrow_destination message) @
     put P 40 (pw_int64 P) (escrow_Escrow_timeout message) @
     put P 50 (pw_string P) (escrow_Escrow_memo message) @
     put P 58 (pw_bytes P) (escrow_Escrow_address message)"

definition field_escrow_Escrow :: "proto_lib \<Rightarrow> escrow_IEscrow \<Rightarrow> int \<Rightarrow> byte list \<Rightarrow> (escrow_IEscrow \<times> byte list) result" where
  "field_escrow_Escrow P message tag bs =
     (if tag div 8 = 1 then get (\<lambda>v. message\<lparr>escrow_Escrow_metadata := Some v\<rparr>) (get_message P (decode_weave_Metadata P) bs)
      else if tag div 8 = 2 then get (\<lambda>v. message\<lparr>escrow_Escrow_source := Some v\<rparr>) (pr_bytes P bs)
      else if tag div 8 = 3 then get (\<lambda>v. message\<lparr>escrow_Escrow_arbiter := Some v\<rparr>) (pr_bytes P bs)
      else if tag div 8 = 4 then get (\<lambda>v. message\<lparr>escrow_Escrow_destination := Some v\<rparr>) (pr_bytes P bs)
      else if tag div 8 = 5 then get (\<lambda>v. message\<lparr>escrow_Escrow_timeout := Some (Long v)\<rparr>) (pr_int64 P bs)
      else if tag div 8 = 6 then get (\<lambda>v. message\<lparr>escrow_Escrow_memo := Some v\<rparr>) (pr_string P bs)
      else if tag div 8 = 7 then get (\<lambda>v. message\<lparr>escrow_Escrow_address := Some v\<rparr>) (pr_bytes P bs)
      else skip P tag message bs)"

definition decode_escrow_Escrow :: "proto_lib \<Rightarrow> byte list \<Rightarrow> int \<Rightarrow> (escrow_IEscrow \<times> byte list) result" where
  "decode_escrow_Escrow P = read_message P (field_escrow_Escrow P) new_escrow_Escrow"

definition valid_escrow_Escrow :: "escrow_IEscrow \<Rightarrow> bool" where
  "valid_escrow_Escrow message \<longleftrightarrow> pred_option valid_weave_Metadata (escrow_Escrow_metadata message) \<and>
     pred_option is_int64 (escrow_Escrow_timeout message)"

lemma decodes_escrow_Escrow:
  assumes P: "proto_laws P" and "valid_escrow_Escrow m"
  shows "decodes (decode_escrow_Escrow P) (encode_escrow_Escrow P m) (norm_escrow_IEscrow m)"
proof -
  have "writes P (field_escrow_Escrow P) (encode_escrow_Escrow P m) new_escrow_Escrow
      (set_field escrow_Escrow_address_update (norm_bytes (escrow_Escrow_address m)) (set_field escrow_Escrow_memo_update (norm_string (escrow_Escrow_memo m)) (set_field escrow_Escrow_timeout_update (norm_int64 (escrow_Escrow_timeout m)) (set_field escrow_Escrow_destination_update (norm_bytes (escrow_Escrow_destination m)) (set_field escrow_Escrow_arbiter_update (norm_bytes (escrow_Escrow_arbiter m)) (set_field escrow_Escrow_source_update (norm_bytes (escrow_Escrow_source m)) (set_field escrow_Escrow_metadata_update (map_option norm_weave_IMetadata (escrow_Escrow_metadata m)) new_escrow_Escrow)))))))"
    unfolding encode_escrow_Escrow_def
    by (rule writes_chain
        | rule writes_message [where valid = valid_weave_Metadata, OF P _ _ decodes_weave_Metadata [OF P]]
        | rule writes_bytes [OF P]
        | rule writes_int64 [OF P]
        | rule writes_string [OF P]
        | (simp add: field_escrow_Escrow_def new_escrow_Escrow_def set_field_def elements_def is_uint32_def assms(2) [unfolded valid_escrow_Escrow_def]; fail))+
  then show ?thesis
    unfolding decode_escrow_Escrow_def by (intro decodes_message) (simp add: set_field_def new_escrow_Escrow_def norm_escrow_IEscrow_def)
qed

section \<open>gov.Electorate\<close>

record gov_IElectorate =
  gov_Electorate_metadata :: "weave_IMetadata option"
  gov_Electorate_version :: "number option"
  gov_Electorate_admin :: "byte list option"
  gov_Electorate_title :: "string option"
  gov_Electorate_electors :: "gov_IElector list option"
  gov_Electorate_totalElectorateWeight :: "wire_int option"

definition norm_gov_IElectorate :: "gov_IElectorate \<Rightarrow> gov_IElectorate" where
  "norm_gov_IElectorate m = \<lparr>
     gov_Electorate_metadata = map_option norm_weave_IMetadata (gov_Electorate_metadata m),
     gov_Electorate_version = norm_number (gov_Electorate_version m),
     gov_Electorate_admin = norm_bytes (gov_Electorate_admin m),
     gov_Electorate_title = norm_string (gov_Electorate_title m),
     gov_Electorate_electors = norm_repeated norm_gov_IElector (gov_Electorate_electors m),
     gov_Electorate_totalElectorateWeight = norm_int64 (gov_Electorate_totalElectorateWeight m)\<rparr>"

definition new_gov_Electorate :: gov_IElectorate where
  "new_gov_Electorate = \<lparr>gov_Electorate_metadata = None, gov_Electorate_version = Some (int_num 0), gov_Electorate_admin = Some [], gov_Electorate_title = Some [], gov_Electorate_electors = Some [], gov_Electorate_totalElectorateWeight = Some (Long 0)\<rparr>"

definition encode_gov_Electorate :: "proto_lib \<Rightarrow> gov_IElectorate \<Rightarrow> byte list" where
  "encode_gov_Electorate P message =
     put P 10 (\<lambda>v. ldelim P (encode_weave_Metadata P v)) (gov_Electorate_metadata message) @
     put P 16 (pw_uint32 P) (gov_Electorate_version message) @
     put P 26 (pw_bytes P) (gov_Electorate_admin message) @
     put P 34 (pw_string P) (gov_Electorate_title message) @
     put_each P 42 (\<lambda>v. ldelim P (encode_gov_Elector P v)) (gov_Electorate_electors message) @
     put P 48 (pw_uint64 P) (gov_Electorate_totalElectorateWeight message)"

definition field_gov_Electorate :: "proto_lib \<Rightarrow> gov_IElectorate \<Rightarrow> int \<Rightarrow> byte list \<Rightarrow> (gov_IElectorate \<times> byte list) result" where
  "field_gov_Electorate P message tag bs =
     (if tag div 8 = 1 then get (\<lambda>v. message\<lparr>gov_Electorate_metadata := Some v\<rparr>) (get_message P (decode_weave_Metadata P) bs)
      else if tag div 8 = 2 then get (\<lambda>v. message\<lparr>gov_Electorate_version := Some (int_num v)\<rparr>) (pr_uint32 P bs)
      else if tag div 8 = 3 then get (\<lambda>v. message\<lparr>gov_Electorate_admin := Some v\<rparr>) (pr_bytes P bs)
      else if tag div 8 = 4 then get (\<lambda>v. message\<lparr>gov_Electorate_title := Some v\<rparr>) (pr_string P bs)
      else if tag div 8 = 5 then get (\<lambda>v. message\<lparr>gov_Electorate_electors := Some (elements (gov_Electorate_electors message) @ [v])\<rparr>) (get_message P (decode_gov_Elector P) bs)
      else if tag div 8 = 6 then get (\<lambda>v. message\<lparr>gov_Electorate_totalElectorateWeight := Some (Long v)\<rparr>) (pr_uint64 P bs)
      else skip P tag message bs)"

definition decode_gov_Electorate :: "proto_lib \<Rightarrow> byte list \<Rightarrow> int \<Rightarrow> (gov_IElectorate \<times> byte list) result" where
  "decode_gov_Electorate P = read_message P (field_gov_Electorate P) new_gov_Electorate"

definition valid_gov_Electorate :: "gov_IElectorate \<Rightarrow> bool" where
  "valid_gov_Electorate message \<longleftrightarrow> pred_option valid_weave_Metadata (gov_Electorate_metadata message) \<and>
     pred_option is_uint32 (gov_Electorate_version message) \<and>
     pred_option (list_all valid_gov_Elector) (gov_Electorate_electors message) \<and>
     pred_option is_uint64 (gov_Electorate_totalElectorateWeight message)"

lemma decodes_gov_Electorate:
  assumes P: "proto_laws P" and "valid_gov_Electorate m"
  shows "decodes (decode_gov_Electorate P) (encode_gov_Electorate P m) (norm_gov_IElectorate m)"
proof -
  have "writes P (field_gov_Electorate P) (encode_gov_Electorate P m) new_gov_Electorate
      (set_field gov_Electorate_totalElectorateWeight_update (norm_int64 (gov_Electorate_totalElectorateWeight m)) (set_field gov_Electorate_electors_update (norm_repeated norm_gov_IElector (gov_Electorate_electors m)) (set_field gov_Electorate_title_update (norm_string (gov_Electorate_title m)) (set_field gov_Electorate_admin_update (norm_bytes (gov_Electorate_admin m)) (set_field gov_Electorate_version_update (norm_number (gov_Electorate_version m)) (set_field gov_Electorate_metadata_update (map_option norm_weave_IMetadata (gov_Electorate_metadata m)) new_gov_Electorate))))))"
    unfolding encode_gov_Electorate_def
    by (rule writes_chain
        | rule writes_message [where valid = valid_weave_Metadata, OF P _ _ decodes_weave_Metadata [OF P]]
        | rule writes_uint32 [OF P]
        | rule writes_bytes [OF P]
        | rule writes_string [OF P]
        | rule writes_messages [where valid = valid_gov_Elector, OF P _ _ decodes_gov_Elector [OF P]]
        | rule writes_uint64 [OF P]
        | (simp add: field_gov_Electorate_def new_gov_Electorate_def set_field_def elements_def is_uint32_def assms(2) [unfolded valid_gov_Electorate_def]; fail))+
  then show ?thesis
    unfolding decode_gov_Electorate_def by (intro decodes_message) (simp add: set_field_def new_gov_Electorate_def norm_gov_IElectorate_def)
qed

section \<open>gov.ElectionRule\<close>

record gov_IElectionRule =
  gov_ElectionRule_metadata :: "weave_IMetadata option"
  gov_ElectionRule_version :: "number option"
  gov_ElectionRule_admin :: "byte list option"
  gov_ElectionRule_electorateId :: "byte list option"
  gov_ElectionRule_title :: "string option"
  gov_ElectionRule_votingPeriod :: "number option"
  gov_ElectionRule_threshold :: "IFraction option"
  gov_ElectionRule_quorum :: "IFraction option"
  gov_ElectionRule_address :: "byte list option"

definition norm_gov_IElectionRule :: "gov_IElectionRule \<Rightarrow> gov_IElectionRule" where
  "norm_gov_IElectionRule m = \<lparr>
     gov_ElectionRule_metadata = map_option norm_weave_IMetadata (gov_ElectionRule_metadata m),
     gov_ElectionRule_version = norm_number (gov_ElectionRule_version m),
     gov_ElectionRule_admin = norm_bytes (gov_ElectionRule_admin m),
     gov_ElectionRule_electorateId = norm_bytes (gov_ElectionRule_electorateId m),
     gov_ElectionRule_title = norm_string (gov_ElectionRule_title m),
     gov_ElectionRule_votingPeriod = norm_number (gov_ElectionRule_votingPeriod m),
     gov_ElectionRule_threshold = map_option norm_IFraction (gov_ElectionRule_threshold m),
     gov_ElectionRule_quorum = map_option norm_IFraction (gov_ElectionRule_quorum m),
     gov_ElectionRule_address = norm_bytes (gov_ElectionRule_address m)\<rparr>"

definition new_gov_ElectionRule :: gov_IElectionRule where
  "new_gov_ElectionRule = \<lparr>gov_ElectionRule_metadata = None, gov_ElectionRule_version = Some (int_num 0), gov_ElectionRule_admin = Some [], gov_ElectionRule_electorateId = Some [], gov_ElectionRule_title = Some [], gov_ElectionRule_votingPeriod = Some (int_num 0), gov_ElectionRule_threshold = None, gov_ElectionRule_quorum = None, gov_ElectionRule_address = Some []\<rparr>"

definition encode_gov_ElectionRule :: "proto_lib \<Rightarrow> gov_IElectionRule \<Rightarrow> byte list" where
  "encode_gov_ElectionRule P message =
     put P 10 (\<lambda>v. ldelim P (encode_weave_Metadata P v)) (gov_ElectionRule_metadata message) @
     put P 16 (pw_uint32 P) (gov_ElectionRule_version message) @
     put P 26 (pw_bytes P) (gov_ElectionRule_admin message) @
     put P 34 (pw_bytes P) (gov_ElectionRule_electorateId message) @
     put P 42 (pw_string P) (gov_ElectionRule_title message) @
     put P 48 (pw_uint32 P) (gov_ElectionRule_votingPeriod message) @
     put P 58 (\<lambda>v. ldelim P (encode_gov_Fraction P v)) (gov_ElectionRule_threshold message) @
     put P 66 (\<lambda>v. ldelim P (encode_gov_Fraction P v)) (gov_ElectionRule_quorum message) @
     put P 74 (pw_bytes P) (gov_ElectionRule_address message)"

definition field_gov_ElectionRule :: "proto_lib \<Rightarrow> gov_IElectionRule \<Rightarrow> int \<Rightarrow> byte list \<Rightarrow> (gov_IElectionRule \<times> byte list) result" where
  "field_gov_ElectionRule P message tag bs =
     (if tag div 8 = 1 then get (\<lambda>v. message\<lparr>gov_ElectionRule_metadata := Some v\<rparr>) (get_message P (decode_weave_Metadata P) bs)
      else if tag div 8 = 2 then get (\<lambda>v. message\<lparr>gov_ElectionRule_version := Some (int_num v)\<rparr>) (pr_uint32 P bs)
      else if tag div 8 = 3 then get (\<lambda>v. message\<lparr>gov_ElectionRule_admin := Some v\<rparr>) (pr_bytes P bs)
      else if tag div 8 = 4 then get (\<lambda>v. message\<lparr>gov_ElectionRule_electorateId := Some v\<rparr>) (pr_bytes P bs)
      else if tag div 8 = 5 then get (\<lambda>v. message\<lparr>gov_ElectionRule_title := Some v\<rparr>) (pr_string P bs)
      else if tag div 8 = 6 then get (\<lambda>v. message\<lparr>gov_ElectionRule_votingPeriod := Some (int_num v)\<rparr>) (pr_uint32 P bs)
      else if tag div 8 = 7 then get (\<lambda>v. message\<lparr>gov_ElectionRule_threshold := Some v\<rparr>) (get_message P (decode_gov_Fraction P) bs)
      else if tag div 8 = 8 then get (\<lambda>v. message\<lparr>gov_ElectionRule_quorum := Some v\<rparr>) (get_message P (decode_gov_Fraction P) bs)
      else if tag div 8 = 9 then get (\<lambda>v. message\<lparr>gov_ElectionRule_address := Some v\<rparr>) (pr_bytes P bs)
      else skip P tag message bs)"

definition decode_gov_ElectionRule :: "proto_lib \<Rightarrow> byte list \<Rightarrow> int \<Rightarrow> (gov_IElectionRule \<times> byte list) result" where
  "decode_gov_ElectionRule P = read_message P (field_gov_ElectionRule P) new_gov_ElectionRule"

definition valid_gov_ElectionRule :: "gov_IElectionRule \<Rightarrow> bool" where
  "valid_gov_ElectionRule message \<longleftrightarrow> pred_option valid_weave_Metadata (gov_ElectionRule_metadata message) \<and>
     pred_option is_uint32 (gov_ElectionRule_version message) \<and>
     pred_option is_uint32 (gov_ElectionRule_votingPeriod message) \<and>
     pred_option valid_gov_Fraction (gov_ElectionRule_threshold message) \<and>
     pred_option valid_gov_Fraction (gov_ElectionRule_quorum message)"

lemma decodes_gov_ElectionRule:
  assumes P: "proto_laws P" and "valid_gov_ElectionRule m"
  shows "decodes (decode_gov_ElectionRule P) (encode_gov_ElectionRule P m) (norm_gov_IElectionRule m)"
proof -
  have "writes P (field_gov_ElectionRule P) (encode_gov_ElectionRule P m) new_gov_ElectionRule
      (set_field gov_ElectionRule_address_update (norm_bytes (gov_ElectionRule_address m)) (set_field gov_ElectionRule_quorum_update (map_option norm_IFraction (gov_ElectionRule_quorum m)) (set_field gov_ElectionRule_threshold_update (map_option norm_IFraction (gov_ElectionRule_threshold m)) (set_field gov_ElectionRule_votingPeriod_update (norm_number (gov_ElectionRule_votingPeriod m)) (set_field gov_ElectionRule_title_update (norm_string (gov_ElectionRule_title m)) (set_field gov_ElectionRule_electorateId_update (norm_bytes (gov_ElectionRule_electorateId m)) (set_field gov_ElectionRule_admin_update (norm_bytes (gov_ElectionRule_admin m)) (set_field gov_ElectionRule_version_update (norm_number (gov_ElectionRule_version m)) (set_field gov_ElectionRule_metadata_update (map_option norm_weave_IMetadata (gov_ElectionRule_metadata m)) new_gov_ElectionRule)))))))))"
    unfolding encode_gov_ElectionRule_def
    by (rule writes_chain
        | rule writes_message [where valid = valid_weave_Metadata, OF P _ _ decodes_weave_Metadata [OF P]]
        | rule writes_uint32 [OF P]
        | rule writes_bytes [OF P]
        | rule writes_string [OF P]
        | rule writes_message [where valid = valid_gov_Fraction, OF P _ _ decodes_gov_Fraction [OF P]]
        | (simp add: field_gov_ElectionRule_def new_gov_ElectionRule_def set_field_def elements_def is_uint32_def assms(2) [unfolded valid_gov_ElectionRule_def]; fail))+
  then show ?thesis
    unfolding decode_gov_ElectionRule_def by (intro decodes_message) (simp add: set_field_def new_gov_ElectionRule_def norm_gov_IElectionRule_def)
qed

section \<open>gov.TallyResult\<close>

record gov_ITallyResult =
  gov_TallyResult_totalYes :: "wire_int option"
  gov_TallyResult_totalNo :: "wire_int option"
  gov_TallyResult_totalAbstain :: "wire_int option"
  gov_TallyResult_totalElectorateWeight :: "wire_int option"
  gov_TallyResult_quorum :: "IFraction option"
  gov_TallyResult_threshold :: "IFraction option"

definition norm_gov_ITallyResult :: "gov_ITallyResult \<Rightarrow> gov_ITallyResult" where
  "norm_gov_ITallyResult m = \<lparr>
     gov_TallyResult_totalYes = norm_int64 (gov_TallyResult_totalYes m),
     gov_TallyResult_totalNo = norm_int64 (gov_TallyResult_totalNo m),
     gov_TallyResult_totalAbstain = norm_int64 (gov_TallyResult_totalAbstain m),
     gov_TallyResult_totalElectorateWeight = norm_int64 (gov_TallyResult_totalElectorateWeight m),
     gov_TallyResult_quorum = map_option norm_IFraction (gov_TallyResult_quorum m),
     gov_TallyResult_threshold = map_option norm_IFraction (gov_TallyResult_threshold m)\<rparr>"

definition new_gov_TallyResult :: gov_ITallyResult where
  "new_gov_TallyResult = \<lparr>gov_TallyResult_totalYes = Some (Long 0), gov_TallyResult_totalNo = Some (Long 0), gov_TallyResult_totalAbstain = Some (Long 0), gov_TallyResult_totalElectorateWeight = Some (Long 0), gov_TallyResult_quorum = None, gov_TallyResult_threshold = None\<rparr>"

definition encode_gov_TallyResult :: "proto_lib \<Rightarrow> gov_ITallyResult \<Rightarrow> byte list" where
  "encode_gov_TallyResult P message =
     put P 8 (pw_uint64 P) (gov_TallyResult_totalYes message) @
     put P 16 (pw_uint64 P) (gov_TallyResult_totalNo message) @
     put P 24 (pw_uint64 P) (gov_TallyResult_totalAbstain message) @
     put P 32 (pw_uint64 P) (gov_TallyResult_totalElectorateWeight message) @
     put P 42 (\<lambda>v. ldelim P (encode_gov_Fraction P v)) (gov_TallyResult_quorum message) @
     put P 50 (\<lambda>v. ldelim P (encode_gov_Fraction P v)) (gov_TallyResult_threshold message)"

definition field_gov_TallyResult :: "proto_lib \<Rightarrow> gov_ITallyResult \<Rightarrow> int \<Rightarrow> byte list \<Rightarrow> (gov_ITallyResult \<times> byte list) result" where
  "field_gov_TallyResult P message tag bs =
     (if tag div 8 = 1 then get (\<lambda>v. message\<lparr>gov_TallyResult_totalYes := Some (Long v)\<rparr>) (pr_uint64 P bs)
      else if tag div 8 = 2 then get (\<lambda>v. message\<lparr>gov_TallyResult_totalNo := Some (Long v)\<rparr>) (pr_uint64 P bs)
      else if tag div 8 = 3 then get (\<lambda>v. message\<lparr>gov_TallyResult_totalAbstain := Some (Long v)\<rparr>) (pr_uint64 P bs)
      else if tag div 8 = 4 then get (\<lambda>v. message\<lparr>gov_TallyResult_totalElectorateWeight := Some (Long v)\<rparr>) (pr_uint64 P bs)
      else if tag div 8 = 5 then get (\<lambda>v. message\<lparr>gov_TallyResult_quorum := Some v\<rparr>) (get_message P (decode_gov_Fraction P) bs)
      else if tag div 8 = 6 then get (\<lambda>v. message\<lparr>gov_TallyResult_threshold := Some v\<rparr>) (get_message P (decode_gov_Fraction P) bs)
      else skip P tag message bs)"

definition decode_gov_TallyResult :: "proto_lib \<Rightarrow> byte list \<Rightarrow> int \<Rightarrow> (gov_ITallyResult \<times> byte list) result" where
  "decode_gov_TallyResult P = read_message P (field_gov_TallyResult P) new_gov_TallyResult"

definition valid_gov_TallyResult :: "gov_ITallyResult \<Rightarrow> bool" where
  "valid_gov_TallyResult message \<longleftrightarrow> pred_option is_uint64 (gov_TallyResult_totalYes message) \<and>
     pred_option is_uint64 (gov_TallyResult_totalNo message) \<and>
     pred_option is_uint64 (gov_TallyResult_totalAbstain message) \<and>
     pred_option is_uint64 (gov_TallyResult_totalElectorateWeight message) \<and>
     pred_option valid_gov_Fraction (gov_TallyResult_quorum message) \<and>
     pred_option valid_gov_Fraction (gov_TallyResult_threshold message)"

lemma decodes_gov_TallyResult:
  assumes P: "proto_laws P" and "valid_gov_TallyResult m"
  shows "decodes (decode_gov_TallyResult P) (encode_gov_TallyResult P m) (norm_gov_ITallyResult m)"
proof -
  have "writes P (field_gov_TallyResult P) (encode_gov_TallyResult P m) new_gov_TallyResult
      (set_field gov_TallyResult_threshold_update (map_option norm_IFraction (gov_TallyResult_threshold m)) (set_field gov_TallyResult_quorum_update (map_option norm_IFraction (gov_TallyResult_quorum m)) (set_field gov_TallyResult_totalElectorateWeight_update (norm_int64 (gov_TallyResult_totalElectorateWeight m)) (set_field gov_TallyResult_totalAbstain_update (norm_int64 (gov_TallyResult_totalAbstain m)) (set_field gov_TallyResult_totalNo_update (norm_int64 (gov_TallyResult_totalNo m)) (set_field gov_TallyResult_totalYes_update (norm_int64 (gov_TallyResult_totalYes m)) new_gov_TallyResult))))))"
    unfolding encode_gov_TallyResult_def
    by (rule writes_chain
        | rule writes_uint64 [OF P]
        | rule writes_message [where valid = valid_gov_Fraction, OF P _ _ decodes_gov_Fraction [OF P]]
        | (simp add: field_gov_TallyResult_def new_gov_TallyResult_def set_field_def elements_def is_uint32_def assms(2) [unfolded valid_gov_TallyResult_def]; fail))+
  then show ?thesis
    unfolding decode_gov_TallyResult_def by (intro decodes_message) (simp add: set_field_def new_gov_TallyResult_def norm_gov_ITallyResult_def)
qed

section \<open>gov.Proposal\<close>

record gov_IProposal =
  gov_Proposal_metadata :: "weave_IMetadata option"
  gov_Proposal_title :: "string option"
  gov_Proposal_rawOption :: "byte list option"
  gov_Proposal_description :: "string option"
  gov_Proposal_electionRuleRef :: "orm_IVersionedIDRef option"
  gov_Proposal_electorateRef :: "orm_IVersionedIDRef option"
  gov_Proposal_votingStartTime :: "wire_int option"
  gov_Proposal_votingEndTime :: "wire_int option"
  gov_Proposal_submissionTime :: "wire_int option"
  gov_Proposal_author :: "byte list option"
  gov_Proposal_voteState :: "gov_ITallyResult option"
  gov_Proposal_status :: "number option"
  gov_Proposal_result :: "number option"
  gov_Proposal_executorResult :: "number option"
  gov_Proposal_tallyTaskId :: "byte list option"

definition norm_gov_IProposal :: "gov_IProposal \<Rightarrow> gov_IProposal" where
  "norm_gov_IProposal m = \<lparr>
     gov_Proposal_metadata = map_option norm_weave_IMetadata (gov_Proposal_metadata m),
     gov_Proposal_title = norm_string (gov_Proposal_title m),
     gov_Proposal_rawOption = norm_bytes (gov_Proposal_rawOption m),
     gov_Proposal_description = norm_string (gov_Proposal_description m),
     gov_Proposal_electionRuleRef = map_option norm_orm_IVersionedIDRef (gov_Proposal_electionRuleRef m),
     gov_Proposal_electorateRef = map_option norm_orm_IVersionedIDRef (gov_Proposal_electorateRef m),
     gov_Proposal_votingStartTime = norm_int64 (gov_Proposal_votingStartTime m),
     gov_Proposal_votingEndTime = norm_int64 (gov_Proposal_votingEndTime m),
     gov_Proposal_submissionTime = norm_int64 (gov_Proposal_submissionTime m),
     gov_Proposal_author = norm_bytes (gov_Proposal_author m),
     gov_Proposal_voteState = map_option norm_gov_ITallyResult (gov_Proposal_voteState m),
     gov_Proposal_status = norm_number (gov_Proposal_status m),
     gov_Proposal_result = norm_number (gov_Proposal_result m),
     gov_Proposal_executorResult = norm_number (gov_Proposal_executorResult m),
     gov_Proposal_tallyTaskId = norm_bytes (gov_Proposal_tallyTaskId m)\<rparr>"

definition new_gov_Proposal :: gov_IProposal where
  "new_gov_Proposal = \<lparr>gov_Proposal_metadata = None, gov_Proposal_title = Some [], gov_Proposal_rawOption = Some [], gov_Proposal_description = Some [], gov_Proposal_electionRuleRef = None, gov_Proposal_electorateRef = None, gov_Proposal_votingStartTime = Some (Long 0), gov_Proposal_votingEndTime = Some (Long 0), gov_Proposal_submissionTime = Some (Long 0), gov_Proposal_author = Some [], gov_Proposal_voteState = None, gov_Proposal_status = Some (int_num 0), gov_Proposal_result = Some (int_num 0), gov_Proposal_executorResult = Some (int_num 0), gov_Proposal_tallyTaskId = Some []\<rparr>"

definition encode_gov_Proposal :: "proto_lib \<Rightarrow> gov_IProposal \<Rightarrow> byte list" where
  "encode_gov_Proposal P message =
     put P 10 (\<lambda>v. ldelim P (encode_weave_Metadata P v)) (gov_Proposal_metadata message) @
     put P 18 (pw_string P) (gov_Proposal_title message) @
     put P 26 (pw_bytes P) (gov_Proposal_rawOption message) @
     put P 34 (pw_string P) (gov_Proposal_description message) @
     put P 42 (\<lambda>v. ldelim P (encode_orm_VersionedIDRef P v)) (gov_Proposal_electionRuleRef message) @
     put P 50 (\<lambda>v. ldelim P (encode_orm_VersionedIDRef P v)) (gov_Proposal_electorateRef message) @
     put P 56 (pw_int64 P) (gov_Proposal_votingStartTime message) @
     put P 64 (pw_int64 P) (gov_Proposal_votingEndTime message) @
     put P 72 (pw_int64 P) (gov_Proposal_submissionTime message) @
     put P 82 (pw_bytes P) (gov_Proposal_author message) @
     put P 90 (\<lambda>v. ldelim P (encode_gov_TallyResult P v)) (gov_Proposal_voteState message) @
     put P 96 (pw_int32 P) (gov_Proposal_status message) @
     put P 104 (pw_int32 P) (gov_Proposal_result message) @
     put P 112 (pw_int32 P) (gov_Proposal_executorResult message) @
     put P 122 (pw_bytes P) (gov_Proposal_tallyTaskId message)"

definition field_gov_Proposal :: "proto_lib \<Rightarrow> gov_IProposal \<Rightarrow> int \<Rightarrow> byte list \<Rightarrow> (gov_IProposal \<times> byte list) result" where
  "field_gov_Proposal P message tag bs =
     (if tag div 8 = 1 then get (\<lambda>v. message\<lparr>gov_Proposal_metadata := Some v\<rparr>) (get_message P (decode_weave_Metadata P) bs)
      else if tag div 8 = 2 then get (\<lambda>v. message\<lparr>gov_Proposal_title := Some v\<rparr>) (pr_string P bs)
      else if tag div 8 = 3 then get (\<lambda>v. message\<lparr>gov_Proposal_rawOption := Some v\<rparr>) (pr_bytes P bs)
      else if tag div 8 = 4 then get (\<lambda>v. message\<lparr>gov_Proposal_description := Some v\<rparr>) (pr_string P bs)
      else if tag div 8 = 5 then get (\<lambda>v. message\<lparr>gov_Proposal_electionRuleRef := Some v\<rparr>) (get_message P (decode_orm_VersionedIDRef P) bs)
      else if tag div 8 = 6 then get (\<lambda>v. message\<lparr>gov_Proposal_electorateRef := Some v\<rparr>) (get_message P (decode_orm_VersionedIDRef P) bs)
      else if tag div 8 = 7 then get (\<lambda>v. message\<lparr>gov_Proposal_votingStartTime := Some (Long v)\<rparr>) (pr_int64 P bs)
      else if tag div 8 = 8 then get (\<lambda>v. message\<lparr>gov_Proposal_votingEndTime := Some (Long v)\<rparr>) (pr_int64 P bs)
      else if tag div 8 = 9 then get (\<lambda>v. message\<lparr>gov_Proposal_submissionTime := Some (Long v)\<rparr>) (pr_int64 P bs)
      else if tag div 8 = 10 then get (\<lambda>v. message\<lparr>gov_Proposal_author := Some v\<rparr>) (pr_bytes P bs)
      else if tag div 8 = 11 then get (\<lambda>v. message\<lparr>gov_Proposal_voteState := Some v\<rparr>) (get_message P (decode_gov_TallyResult P) bs)
      else if tag div 8 = 12 then get (\<lambda>v. message\<lparr>gov_Proposal_status := Some (int_num v)\<rparr>) (pr_int32 P bs)
      else if tag div 8 = 13 then get (\<lambda>v. message\<lparr>gov_Proposal_result := Some (int_num v)\<rparr>) (pr_int32 P bs)
      else if tag div 8 = 14 then get (\<lambda>v. message\<lparr>gov_Proposal_executorResult := Some (int_num v)\<rparr>) (pr_int32 P bs)
      else if tag div 8 = 15 then get (\<lambda>v. message\<lparr>gov_Proposal_tallyTaskId := Some v\<rparr>) (pr_bytes P bs)
      else skip P tag message bs)"

definition decode_gov_Proposal :: "proto_lib \<Rightarrow> byte list \<Rightarrow> int \<Rightarrow> (gov_IProposal \<times> byte list) result" where
  "decode_gov_Proposal P = read_message P (field_gov_Proposal P) new_gov_Proposal"

definition valid_gov_Proposal :: "gov_IProposal \<Rightarrow> bool" where
  "valid_gov_Proposal message \<longleftrightarrow> pred_option valid_weave_Metadata (gov_Proposal_metadata message) \<and>
     pred_option valid_orm_VersionedIDRef (gov_Proposal_electionRuleRef message) \<and>
     pred_option valid_orm_VersionedIDRef (gov_Proposal_electorateRef message) \<and>
     pred_option is_int64 (gov_Proposal_votingStartTime message) \<and>
     pred_option is_int64 (gov_Proposal_votingEndTime message) \<and>
     pred_option is_int64 (gov_Proposal_submissionTime message) \<and>
     pred_option valid_gov_TallyResult (gov_Proposal_voteState message) \<and>
     pred_option is_int32 (gov_Proposal_status message) \<and>
     pred_option is_int32 (gov_Proposal_result message) \<and>
     pred_option is_int32 (gov_Proposal_executorResult message)"

lemma decodes_gov_Proposal:
  assumes P: "proto_laws P" and "valid_gov_Proposal m"
  shows "decodes (decode_gov_Proposal P) (encode_gov_Proposal P m) (norm_gov_IProposal m)"
proof -
  have "writes P (field_gov_Proposal P) (encode_gov_Proposal P m) new_gov_Proposal
      (set_field gov_Proposal_tallyTaskId_update (norm_bytes (gov_Proposal_tallyTaskId m)) (set_field gov_Proposal_executorResult_update (norm_number (gov_Proposal_executorResult m)) (set_field gov_Proposal_result_update (norm_number (gov_Proposal_result m)) (set_field gov_Proposal_status_update (norm_number (gov_Proposal_status m)) (set_field gov_Proposal_voteState_update (map_option norm_gov_ITallyResult (gov_Proposal_voteState m)) (set_field gov_Proposal_author_update (norm_bytes (gov_Proposal_author m)) (set_field gov_Proposal_submissionTime_update (norm_int64 (gov_Proposal_submissionTime m)) (set_field gov_Proposal_votingEndTime_update (norm_int64 (gov_Proposal_votingEndTime m)) (set_field gov_Proposal_votingStartTime_update (norm_int64 (gov_Proposal_votingStartTime m)) (set_field gov_Proposal_electorateRef_update (map_option norm_orm_IVersionedIDRef (gov_Proposal_electorateRef m)) (set_field gov_Proposal_electionRuleRef_update (map_option norm_orm_IVersionedIDRef (gov_Proposal_electionRuleRef m)) (set_field gov_Proposal_description_update (norm_string (gov_Proposal_description m)) (set_field gov_Proposal_rawOption_update (norm_bytes (gov_Proposal_rawOption m)) (set_field gov_Proposal_title_update (norm_string (gov_Proposal_title m)) (set_field gov_Proposal_metadata_update (map_option norm_weave_IMetadata (gov_Proposal_metadata m)) new_gov_Proposal)))))))))))))))"
    unfolding encode_gov_Proposal_def
    by (rule writes_chain
        | rule writes_message [where valid = valid_weave_Metadata, OF P _ _ decodes_weave_Metadata [OF P]]
        | rule writes_string [OF P]
        | rule writes_bytes [OF P]
        | rule writes_message [where valid = valid_orm_VersionedIDRef, OF P _ _ decodes_orm_VersionedIDRef [OF P]]
        | rule writes_int64 [OF P]
        | rule writes_message [where valid = valid_gov_TallyResult, OF P _ _ decodes_gov_TallyResult [OF P]]
        | rule writes_int32 [OF P]
        | (simp add: field_gov_Proposal_def new_gov_Proposal_def set_field_def elements_def is_uint32_def assms(2) [unfolded valid_gov_Proposal_def]; fail))+
  then show ?thesis
    unfolding decode_gov_Proposal_def by (intro decodes_message) (simp add: set_field_def new_gov_Proposal_def norm_gov_IProposal_def)
qed

section \<open>gov.Resolution\<close>

record gov_IResolution =
  gov_Resolution_metadata :: "weave_IMetadata option"
  gov_Resolution_proposalId :: "byte list option"
  gov_Resolution_electorateRef :: "orm_IVersionedIDRef option"
  gov_Resolution_resolution :: "string option"

definition norm_gov_IResolution :: "gov_IResolution \<Rightarrow> gov_IResolution" where
  "norm_gov_IResolution m = \<lparr>
     gov_Resolution_metadata = map_option norm_weave_IMetadata (gov_Resolution_metadata m),
     gov_Resolution_proposalId = norm_bytes (gov_Resolution_proposalId m),
     gov_Resolution_electorateRef = map_option norm_orm_IVersionedIDRef (gov_Resolution_electorateRef m),
     gov_Resolution_resolution = norm_string (gov_Resolution_resolution m)\<rparr>"

definition new_gov_Resolution :: gov_IResolution where
  "new_gov_Resolution = \<lparr>gov_Resolution_metadata = None, gov_Resolution_proposalId = Some [], gov_Resolution_electorateRef = None, gov_Resolution_resolution = Some []\<rparr>"

definition encode_gov_Resolution :: "proto_lib \<Rightarrow> gov_IResolution \<Rightarrow> byte list" where
  "encode_gov_Resolution P message =
     put P 10 (\<lambda>v. ldelim P (encode_weave_Metadata P v)) (gov_Resolution_metadata message) @
     put P 18 (pw_bytes P) (gov_Resolution_proposalId message) @
     put P 26 (\<lambda>v. ldelim P (encode_orm_VersionedIDRef P v)) (gov_Resolution_electorateRef message) @
     put P 34 (pw_string P) (gov_Resolution_resolution message)"

definition field_gov_Resolution :: "proto_lib \<Rightarrow> gov_IResolution \<Rightarrow> int \<Rightarrow> byte list \<Rightarrow> (gov_IResolution \<times> byte list) result" where
  "field_gov_Resolution P message tag bs =
     (if tag div 8 = 1 then get (\<lambda>v. message\<lparr>gov_Resolution_metadata := Some v\<rparr>) (get_message P (decode_weave_Metadata P) bs)
      else if tag div 8 = 2 then get (\<lambda>v. message\<lparr>gov_Resolution_proposalId := Some v\<rparr>) (pr_bytes P bs)
      else if tag div 8 = 3 then get (\<lambda>v. message\<lparr>gov_Resolution_electorateRef := Some v\<rparr>) (get_message P (decode_orm_VersionedIDRef P) bs)
      else if tag div 8 = 4 then get (\<lambda>v. message\<lparr>gov_Resolution_resolution := Some v\<rparr>) (pr_string P bs)
      else skip P tag message bs)"

definition decode_gov_Resolution :: "proto_lib \<Rightarrow> byte list \<Rightarrow> int \<Rightarrow> (gov_IResolution \<times> byte list) result" where
  "decode_gov_Resolution P = read_message P (field_gov_Resolution P) new_gov_Resolution"

definition valid_gov_Resolution :: "gov_IResolution \<Rightarrow> bool" where
  "valid_gov_Resolution message \<longleftrightarrow> pred_option valid_weave_Metadata (gov_Resolution_metadata message) \<and>
     pred_option valid_orm_VersionedIDRef (gov_Resolution_electorateRef message)"

lemma decodes_gov_Resolution:
  assumes P: "proto_laws P" and "valid_gov_Resolution m"
  shows "decodes (decode_gov_Resolution P) (encode_gov_Resolution P m) (norm_gov_IResolution m)"
proof -
  have "writes P (field_gov_Resolution P) (encode_gov_Resolution P m) new_gov_Resolution
      (set_field gov_Resolution_resolution_update (norm_string (gov_Resolution_resolution m)) (set_field gov_Resolution_electorateRef_update (map_option norm_orm_IVersionedIDRef (gov_Resolution_electorateRef m)) (set_field gov_Resolution_proposalId_update (norm_bytes (gov_Resolution_proposalId m)) (set_field gov_Resolution_metadata_update (map_option norm_weave_IMetadata (gov_Resolution_metadata m)) new_gov_Resolution))))"
    unfolding encode_gov_Resolution_def
    by (rule writes_chain
        | rule writes_message [where valid = valid_weave_Metadata, OF P _ _ decodes_weave_Metadata [OF P]]
        | rule writes_bytes [OF P]
        | rule writes_message [where valid = valid_orm_VersionedIDRef, OF P _ _ decodes_orm_VersionedIDRef [OF P]]
        | rule writes_string [OF P]
        | (simp add: field_gov_Resolution_def new_gov_Resolution_def set_field_def elements_def is_uint32_def assms(2) [unfolded valid_gov_Resolution_def]; fail))+
  then show ?thesis
    unfolding decode_gov_Resolution_def by (intro decodes_message) (simp add: set_field_def new_gov_Resolution_def norm_gov_IResolution_def)
qed

section \<open>gov.Vote\<close>

record gov_IVote =
  gov_Vote_metadata :: "weave_IMetadata option"
  gov_Vote_elector :: "gov_IElector option"
  gov_Vote_voted :: "number option"

definition norm_gov_IVote :: "gov_IVote \<Rightarrow> gov_IVote" where
  "norm_gov_IVote m = \<lparr>
     gov_Vote_metadata = map_option norm_weave_IMetadata (gov_Vote_metadata m),
     gov_Vote_elector = map_option norm_gov_IElector (gov_Vote_elector m),
     gov_Vote_voted = norm_number (gov_Vote_voted m)\<rparr>"

definition new_gov_Vote :: gov_IVote where
  "new_gov_Vote = \<lparr>gov_Vote_metadata = None, gov_Vote_elector = None, gov_Vote_voted = Some (int_num 0)\<rparr>"

definition encode_gov_Vote :: "proto_lib \<Rightarrow> gov_IVote \<Rightarrow> byte list" where
  "encode_gov_Vote P message =
     put P 10 (\<lambda>v. ldelim P (encode_weave_Metadata P v)) (gov_Vote_metadata message) @
     put P 18 (\<lambda>v. ldelim P (encode_gov_Elector P v)) (gov_Vote_elector message) @
     put P 24 (pw_int32 P) (gov_Vote_voted message)"

definition field_gov_Vote :: "proto_lib \<Rightarrow> gov_IVote \<Rightarrow> int \<Rightarrow> byte list \<Rightarrow> (gov_IVote \<times> byte list) result" where
  "field_gov_Vote P message tag bs =
     (if tag div 8 = 1 then get (\<lambda>v. message\<lparr>gov_Vote_metadata := Some v\<rparr>) (get_message P (decode_weave_Metadata P) bs)
      else if tag div 8 = 2 then get (\<lambda>v. message\<lparr>gov_Vote_elector := Some v\<rparr>) (get_message P (decode_gov_Elector P) bs)
      else if tag div 8 = 3 then get (\<lambda>v. message\<lparr>gov_Vote_voted := Some (int_num v)\<rparr>) (pr_int32 P bs)
      else skip P tag message bs)"

definition decode_gov_Vote :: "proto_lib \<Rightarrow> byte list \<Rightarrow> int \<Rightarrow> (gov_IVote \<times> byte list) result" where
  "decode_gov_Vote P = read_message P (field_gov_Vote P) new_gov_Vote"

definition valid_gov_Vote :: "gov_IVote \<Rightarrow> bool" where
  "valid_gov_Vote message \<longleftrightarrow> pred_option valid_weave_Metadata (gov_Vote_metadata message) \<and>
     pred_option valid_gov_Elector (gov_Vote_elector message) \<and>
     pred_option is_int32 (gov_Vote_voted message)"

lemma decodes_gov_Vote:
  assumes P: "proto_laws P" and "valid_gov_Vote m"
  shows "decodes (decode_gov_Vote P) (encode_gov_Vote P m) (norm_gov_IVote m)"
proof -
  have "writes P (field_gov_Vote P) (encode_gov_Vote P m) new_gov_Vote
      (set_field gov_Vote_voted_update (norm_number (gov_Vote_voted m)) (set_field gov_Vote_elector_update (map_option norm_gov_IElector (gov_Vote_elector m)) (set_field gov_Vote_metadata_update (map_option norm_weave_IMetadata (gov_Vote_metadata m)) new_gov_Vote)))"
    unfolding encode_gov_Vote_def
    by (rule writes_chain
        | rule writes_message [where valid = valid_weave_Metadata, OF P _ _ decodes_weave_Metadata [OF P]]
        | rule writes_message [where valid = valid_gov_Elector, OF P _ _ decodes_gov_Elector [OF P]]
        | rule writes_int32 [OF P]
        | (simp add: field_gov_Vote_def new_gov_Vote_def set_field_def elements_def is_uint32_def assms(2) [unfolded valid_gov_Vote_def]; fail))+
  then show ?thesis
    unfolding decode_gov_Vote_def by (intro decodes_message) (simp add: set_field_def new_gov_Vote_def norm_gov_IVote_def)
qed

section \<open>gov.ProposalOptions\<close>

record gov_IProposalOptions =
  gov_ProposalOptions_text :: "gov_ICreateTextResolutionMsg option"
  gov_ProposalOptions_electorate :: "gov_IUpdateElectorateMsg option"
  gov_ProposalOptions_rule :: "gov_IUpdateElectionRuleMsg option"

definition norm_gov_IProposalOptions :: "gov_IProposalOptions \<Rightarrow> gov_IProposalOptions" where
  "norm_gov_IProposalOptions m = \<lparr>
     gov_ProposalOptions_text = map_option norm_gov_ICreateTextResolutionMsg (gov_ProposalOptions_text m),
     gov_ProposalOptions_electorate = map_option norm_gov_IUpdateElectorateMsg (gov_ProposalOptions_electorate m),
     gov_ProposalOptions_rule = map_option norm_gov_IUpdateElectionRuleMsg (gov_ProposalOptions_rule m)\<rparr>"

definition new_gov_ProposalOptions :: gov_IProposalOptions where
  "new_gov_ProposalOptions = \<lparr>gov_ProposalOptions_text = None, gov_ProposalOptions_electorate = None, gov_ProposalOptions_rule = None\<rparr>"

definition encode_gov_ProposalOptions :: "proto_lib \<Rightarrow> gov_IProposalOptions \<Rightarrow> byte list" where
  "encode_gov_ProposalOptions P message =
     put P 10 (\<lambda>v. ldelim P (encode_gov_CreateTextResolutionMsg P v)) (gov_ProposalOptions_text message) @
     put P 18 (\<lambda>v. ldelim P (encode_gov_UpdateElectorateMsg P v)) (gov_ProposalOptions_electorate message) @
     put P 26 (\<lambda>v. ldelim P (encode_gov_UpdateElectionRuleMsg P v)) (gov_ProposalOptions_rule message)"

definition field_gov_ProposalOptions :: "proto_lib \<Rightarrow> gov_IProposalOptions \<Rightarrow> int \<Rightarrow> byte list \<Rightarrow> (gov_IProposalOptions \<times> byte list) result" where
  "field_gov_ProposalOptions P message tag bs =
     (if tag div 8 = 1 then get (\<lambda>v. message\<lparr>gov_ProposalOptions_text := Some v\<rparr>) (get_message P (decode_gov_CreateTextResolutionMsg P) bs)
      else if tag div 8 = 2 then get (\<lambda>v. message\<lparr>gov_ProposalOptions_electorate := Some v\<rparr>) (get_message P (decode_gov_UpdateElectorateMsg P) bs)
      else if tag div 8 = 3 then get (\<lambda>v. message\<lparr>gov_ProposalOptions_rule := Some v\<rparr>) (get_message P (decode_gov_UpdateElectionRuleMsg P) bs)
      else skip P tag message bs)"

definition decode_gov_ProposalOptions :: "proto_lib \<Rightarrow> byte list \<Rightarrow> int \<Rightarrow> (gov_IProposalOptions \<times> byte list) result" where
  "decode_gov_ProposalOptions P = read_message P (field_gov_ProposalOptions P) new_gov_ProposalOptions"

definition valid_gov_ProposalOptions :: "gov_IProposalOptions \<Rightarrow> bool" where
  "valid_gov_ProposalOptions message \<longleftrightarrow> pred_option valid_gov_CreateTextResolutionMsg (gov_ProposalOptions_text message) \<and>
     pred_option valid_gov_UpdateElectorateMsg (gov_ProposalOptions_electorate message) \<and>
     pred_option valid_gov_UpdateElectionRuleMsg (gov_ProposalOptions_rule message)"

lemma decodes_gov_ProposalOptions:
  assumes P: "proto_laws P" and "valid_gov_ProposalOptions m"
  shows "decodes (decode_gov_ProposalOptions P) (encode_gov_ProposalOptions P m) (norm_gov_IProposalOptions m)"
proof -
  have "writes P (field_gov_ProposalOptions P) (encode_gov_ProposalOptions P m) new_gov_ProposalOptions
      (set_field gov_ProposalOptions_rule_update (map_option norm_gov_IUpdateElectionRuleMsg (gov_ProposalOptions_rule m)) (set_field gov_ProposalOptions_electorate_update (map_option norm_gov_IUpdateElectorateMsg (gov_ProposalOptions_electorate m)) (set_field gov_ProposalOptions_text_update (map_option norm_gov_ICreateTextResolutionMsg (gov_ProposalOptions_text m)) new_gov_ProposalOptions)))"
    unfolding encode_gov_ProposalOptions_def
    by (rule writes_chain
        | rule writes_message [where valid = valid_gov_CreateTextResolutionMsg, OF P _ _ decodes_gov_CreateTextResolutionMsg [OF P]]
        | rule writes_message [where valid = valid_gov_UpdateElectorateMsg, OF P _ _ decodes_gov_UpdateElectorateMsg [OF P]]
        | rule writes_message [where valid = valid_gov_UpdateElectionRuleMsg, OF P _ _ decodes_gov_UpdateElectionRuleMsg [OF P]]
        | (simp add: field_gov_ProposalOptions_def new_gov_ProposalOptions_def set_field_def elements_def is_uint32_def assms(2) [unfolded valid_gov_ProposalOptions_def]; fail))+
  then show ?thesis
    unfolding decode_gov_ProposalOptions_def by (intro decodes_message) (simp add: set_field_def new_gov_ProposalOptions_def norm_gov_IProposalOptions_def)
qed

section \<open>msgfee.MsgFee\<close>

record msgfee_IMsgFee =
  msgfee_MsgFee_metadata :: "weave_IMetadata option"
  msgfee_MsgFee_msgPath :: "string option"
  msgfee_MsgFee_fee :: "coin_ICoin option"

definition norm_msgfee_IMsgFee :: "msgfee_IMsgFee \<Rightarrow> msgfee_IMsgFee" where
  "norm_msgfee_IMsgFee m = \<lparr>
     msgfee_MsgFee_metadata = map_option norm_weave_IMetadata (msgfee_MsgFee_metadata m),
     msgfee_MsgFee_msgPath = norm_string (msgfee_MsgFee_msgPath m),
     msgfee_MsgFee_fee = map_option norm_coin_ICoin (msgfee_MsgFee_fee m)\<rparr>"

definition new_msgfee_MsgFee :: msgfee_IMsgFee where
  "new_msgfee_MsgFee = \<lparr>msgfee_MsgFee_metadata = None, msgfee_MsgFee_msgPath = Some [], msgfee_MsgFee_fee = None\<rparr>"

definition encode_msgfee_MsgFee :: "proto_lib \<Rightarrow> msgfee_IMsgFee \<Rightarrow> byte list" where
  "encode_msgfee_MsgFee P message =
     put P 10 (\<lambda>v. ldelim P (encode_weave_Metadata P v)) (msgfee_MsgFee_metadata message) @
     put P 18 (pw_string P) (msgfee_MsgFee_msgPath message) @
     put P 26 (\<lambda>v. ldelim P (encode_coin_Coin P v)) (msgfee_MsgFee_fee message)"

definition field_msgfee_MsgFee :: "proto_lib \<Rightarrow> msgfee_IMsgFee \<Rightarrow> int \<Rightarrow> byte list \<Rightarrow> (msgfee_IMsgFee \<times> byte list) result" where
  "field_msgfee_MsgFee P message tag bs =
     (if tag div 8 = 1 then get (\<lambda>v. message\<lparr>msgfee_MsgFee_metadata := Some v\<rparr>) (get_message P (decode_weave_Metadata P) bs)
      else if tag div 8 = 2 then get (\<lambda>v. message\<lparr>msgfee_MsgFee_msgPath := Some v\<rparr>) (pr_string P bs)
      else if tag div 8 = 3 then get (\<lambda>v. message\<lparr>msgfee_MsgFee_fee := Some v\<rparr>) (get_message P (decode_coin_Coin P) bs)
      else skip P tag message bs)"

definition decode_msgfee_MsgFee :: "proto_lib \<Rightarrow> byte list \<Rightarrow> int \<Rightarrow> (msgfee_IMsgFee \<times> byte list) result" where
  "decode_msgfee_MsgFee P = read_message P (field_msgfee_MsgFee P) new_msgfee_MsgFee"

definition valid_msgfee_MsgFee :: "msgfee_IMsgFee \<Rightarrow> bool" where
  "valid_msgfee_MsgFee message \<longleftrightarrow> pred_option valid_weave_Metadata (msgfee_MsgFee_metadata message) \<and>
     pred_option valid_coin_Coin (msgfee_MsgFee_fee message)"

lemma decodes_msgfee_MsgFee:
  assumes P: "proto_laws P" and "valid_msgfee_MsgFee m"
  shows "decodes (decode_msgfee_MsgFee P) (encode_msgfee_MsgFee P m) (norm_msgfee_IMsgFee m)"
proof -
  have "writes P (field_msgfee_MsgFee P) (encode_msgfee_MsgFee P m) new_msgfee_MsgFee
      (set_field msgfee_MsgFee_fee_update (map_option norm_coin_ICoin (msgfee_MsgFee_fee m)) (set_field msgfee_MsgFee_msgPath_update (norm_string (msgfee_MsgFee_msgPath m)) (set_field msgfee_MsgFee_metadata_update (map_option norm_weave_IMetadata (msgfee_MsgFee_metadata m)) new_msgfee_MsgFee)))"
    unfolding encode_msgfee_MsgFee_def
    by (rule writes_chain
        | rule writes_message [where valid = valid_weave_Metadata, OF P _ _ decodes_weave_Metadata [OF P]]
        | rule writes_string [OF P]
        | rule writes_message [where valid = valid_coin_Coin, OF P _ _ decodes_coin_Coin [OF P]]
        | (simp add: field_msgfee_MsgFee_def new_msgfee_MsgFee_def set_field_def elements_def is_uint32_def assms(2) [unfolded valid_msgfee_MsgFee_def]; fail))+
  then show ?thesis
    unfolding decode_msgfee_MsgFee_def by (intro decodes_message) (simp add: set_field_def new_msgfee_MsgFee_def norm_msgfee_IMsgFee_def)
qed

section \<open>multisig.Contract\<close>

record multisig_IContract =
  multisig_Contract_metadata :: "weave_IMetadata option"
  multisig_Contract_participants :: "multisig_IParticipant list option"
  multisig_Contract_activationThreshold :: "number option"
  multisig_Contract_adminThreshold :: "number option"
  multisig_Contract_address :: "byte list option"

definition norm_multisig_IContract :: "multisig_IContract \<Rightarrow> multisig_IContract" where
  "norm_multisig_IContract m = \<lparr>
     multisig_Contract_metadata = map_option norm_weave_IMetadata (multisig_Contract_metadata m),
     multisig_Contract_participants = norm_repeated norm_multisig_IParticipant (multisig_Contract_participants m),
     multisig_Contract_activationThreshold = norm_number (multisig_Contract_activationThreshold m),
     multisig_Contract_adminThreshold = norm_number (multisig_Contract_adminThreshold m),
     multisig_Contract_address = norm_bytes (multisig_Contract_address m)\<rparr>"

definition new_multisig_Contract :: multisig_IContract where
  "new_multisig_Contract = \<lparr>multisig_Contract_metadata = None, multisig_Contract_participants = Some [], multisig_Contract_activationThreshold = Some (int_num 0), multisig_Contract_adminThreshold = Some (int_num 0), multisig_Contract_address = Some []\<rparr>"

definition encode_multisig_Contract :: "proto_lib \<Rightarrow> multisig_IContract \<Rightarrow> byte list" where
  "encode_multisig_Contract P message =
     put P 10 (\<lambda>v. ldelim P (encode_weave_Metadata P v)) (multisig_Contract_metadata message) @
     put_each P 18 (\<lambda>v. ldelim P (encode_multisig_Participant P v)) (multisig_Contract_participants message) @
     put P 24 (pw_uint32 P) (multisig_Contract_activationThreshold message) @
     put P 32 (pw_uint32 P) (multisig_Contract_adminThreshold message) @
     put P 42 (pw_bytes P) (multisig_Contract_address message)"

definition field_multisig_Contract :: "proto_lib \<Rightarrow> multisig_IContract \<Rightarrow> int \<Rightarrow> byte list \<Rightarrow> (multisig_IContract \<times> byte list) result" where
  "field_multisig_Contract P message tag bs =
     (if tag div 8 = 1 then get (\<lambda>v. message\<lparr>multisig_Contract_metadata := Some v\<rparr>) (get_message P (decode_weave_Metadata P) bs)
      else if tag div 8 = 2 then get (\<lambda>v. message\<lparr>multisig_Contract_participants := Some (elements (multisig_Contract_participants message) @ [v])\<rparr>) (get_message P (decode_multisig_Participant P) bs)
      else if tag div 8 = 3 then get (\<lambda>v. message\<lparr>multisig_Contract_activationThreshold := Some (int_num v)\<rparr>) (pr_uint32 P bs)
      else if tag div 8 = 4 then get (\<lambda>v. message\<lparr>multisig_Contract_adminThreshold := Some (int_num v)\<rparr>) (pr_uint32 P bs)
      else if tag div 8 = 5 then get (\<lambda>v. message\<lparr>multisig_Contract_address := Some v\<rparr>) (pr_bytes P bs)
      else skip P tag message bs)"

definition decode_multisig_Contract :: "proto_lib \<Rightarrow> byte list \<Rightarrow> int \<Rightarrow> (multisig_IContract \<times> byte list) result" where
  "decode_multisig_Contract P = read_message P (field_multisig_Contract P) new_multisig_Contract"

definition valid_multisig_Contract :: "multisig_IContract \<Rightarrow> bool" where
  "valid_multisig_Contract message \<longleftrightarrow> pred_option valid_weave_Metadata (multisig_Contract_metadata message) \<and>
     pred_option (list_all valid_multisig_Participant) (multisig_Contract_participants message) \<and>
     pred_option is_uint32 (multisig_Contract_activationThreshold message) \<and>
     pred_option is_uint32 (multisig_Contract_adminThreshold message)"

lemma decodes_multisig_Contract:
  assumes P: "proto_laws P" and "valid_multisig_Contract m"
  shows "decodes (decode_multisig_Contract P) (encode_multisig_Contract P m) (norm_multisig_IContract m)"
proof -
  have "writes P (field_multisig_Contract P) (encode_multisig_Contract P m) new_multisig_Contract
      (set_field multisig_Contract_address_update (norm_bytes (multisig_Contract_address m)) (set_field multisig_Contract_adminThreshold_update (norm_number (multisig_Contract_adminThreshold m)) (set_field multisig_Contract_activationThreshold_update (norm_number (multisig_Contract_activationThreshold m)) (set_field multisig_Contract_participants_update (norm_repeated norm_multisig_IParticipant (multisig_Contract_participants m)) (set_field multisig_Contract_metadata_update (map_option norm_weave_IMetadata (multisig_Contract_metadata m)) new_multisig_Contract)))))"
    unfolding encode_multisig_Contract_def
    by (rule writes_chain
        | rule writes_message [where valid = valid_weave_Metadata, OF P _ _ decodes_weave_Metadata [OF P]]
        | rule writes_messages [where valid = valid_multisig_Participant, OF P _ _ decodes_multisig_Participant [OF P]]
        | rule writes_uint32 [OF P]
        | rule writes_bytes [OF P]
        | (simp add: field_multisig_Contract_def new_multisig_Contract_def set_field_def elements_def is_uint32_def assms(2) [unfolded valid_multisig_Contract_def]; fail))+
  then show ?thesis
    unfolding decode_multisig_Contract_def by (intro decodes_message) (simp add: set_field_def new_multisig_Contract_def norm_multisig_IContract_def)
qed

section \<open>paychan.PaymentChannel\<close>

record paychan_IPaymentChannel =
  paychan_PaymentChannel_metadata :: "weave_IMetadata option"
  paychan_PaymentChannel_source :: "byte list option"
  paychan_PaymentChannel_sourcePubkey :: "crypto_IPublicKey option"
  paychan_PaymentChannel_destination :: "byte list option"
  paychan_PaymentChannel_total :: "coin_ICoin option"
  paychan_PaymentChannel_timeout :: "wire_int option"
  paychan_PaymentChannel_memo :: "string option"
  paychan_PaymentChannel_transferred :: "coin_ICoin option"
  paychan_PaymentChannel_address :: "byte list option"

definition norm_paychan_IPaymentChannel :: "paychan_IPaymentChannel \<Rightarrow> paychan_IPaymentChannel" where
  "norm_paychan_IPaymentChannel m = \<lparr>
     paychan_PaymentChannel_metadata = map_option norm_weave_IMetadata (paychan_PaymentChannel_metadata m),
     paychan_PaymentChannel_source = norm_bytes (paychan_PaymentChannel_source m),
     paychan_PaymentChannel_sourcePubkey = map_option norm_crypto_IPublicKey (paychan_PaymentChannel_sourcePubkey m),
     paychan_PaymentChannel_destination = norm_bytes (paychan_PaymentChannel_destination m),
     paychan_PaymentChannel_total = map_option norm_coin_ICoin (paychan_PaymentChannel_total m),
     paychan_PaymentChannel_timeout = norm_int64 (paychan_PaymentChannel_timeout m),
     paychan_PaymentChannel_memo = norm_string (paychan_PaymentChannel_memo m),
     paychan_PaymentChannel_transferred = map_option norm_coin_ICoin (paychan_PaymentChannel_transferred m),
     paychan_PaymentChannel_address = norm_bytes (paychan_PaymentChannel_address m)\<rparr>"

definition new_paychan_PaymentChannel :: paychan_IPaymentChannel where
  "new_paychan_PaymentChannel = \<lparr>paychan_PaymentChannel_metadata = None, paychan_PaymentChannel_source = Some [], paychan_PaymentChannel_sourcePubkey = None, paychan_PaymentChannel_destination = Some [], paychan_PaymentChannel_total = None, paychan_PaymentChannel_timeout = Some (Long 0), paychan_PaymentChannel_memo = Some [], paychan_PaymentChannel_transferred = None, paychan_PaymentChannel_address = Some []\<rparr>"

definition encode_paychan_PaymentChannel :: "proto_lib \<Rightarrow> paychan_IPaymentChannel \<Rightarrow> byte list" where
  "encode_paychan_PaymentChannel P message =
     put P 10 (\<lambda>v. ldelim P (encode_weave_Metadata P v)) (paychan_PaymentChannel_metadata message) @
     put P 18 (pw_bytes P) (paychan_PaymentChannel_source message) @
     put P 26 (\<lambda>v. ldelim P (encode_crypto_PublicKey P v)) (paychan_PaymentChannel_sourcePubkey message) @
     put P 34 (pw_bytes P) (paychan_PaymentChannel_destination message) @
     put P 42 (\<lambda>v. ldelim P (encode_coin_Coin P v)) (paychan_PaymentChannel_total message) @
     put P 48 (pw_int64 P) (paychan_PaymentChannel_timeout message) @
     put P 58 (pw_string P) (paychan_PaymentChannel_memo message) @
     put P 66 (\<lambda>v. ldelim P (encode_coin_Coin P v)) (paychan_PaymentChannel_transferred message) @
     put P 74 (pw_bytes P) (paychan_PaymentChannel_address message)"

definition field_paychan_PaymentChannel :: "proto_lib \<Rightarrow> paychan_IPaymentChannel \<Rightarrow> int \<Rightarrow> byte list \<Rightarrow> (paychan_IPaymentChannel \<times> byte list) result" where
  "field_paychan_PaymentChannel P message tag bs =
     (if tag div 8 = 1 then get (\<lambda>v. message\<lparr>paychan_PaymentChannel_metadata := Some v\<rparr>) (get_message P (decode_weave_Metadata P) bs)
      else if tag div 8 = 2 then get (\<lambda>v. message\<lparr>paychan_PaymentChannel_source := Some v\<rparr>) (pr_bytes P bs)
      else if tag div 8 = 3 then get (\<lambda>v. message\<lparr>paychan_PaymentChannel_sourcePubkey := Some v\<rparr>) (get_message P (decode_crypto_PublicKey P) bs)
      else if tag div 8 = 4 then get (\<lambda>v. message\<lparr>paychan_PaymentChannel_destination := Some v\<rparr>) (pr_bytes P bs)
      else if tag div 8 = 5 then get (\<lambda>v. message\<lparr>paychan_PaymentChannel_total := Some v\<rparr>) (get_message P (decode_coin_Coin P) bs)
      else if tag div 8 = 6 then get (\<lambda>v. message\<lparr>paychan_PaymentChannel_timeout := Some (Long v)\<rparr>) (pr_int64 P bs)
      else if tag div 8 = 7 then get (\<lambda>v. message\<lparr>paychan_PaymentChannel_memo := Some v\<rparr>) (pr_string P bs)
      else if tag div 8 = 8 then get (\<lambda>v. message\<lparr>paychan_PaymentChannel_transferred := Some v\<rparr>) (get_message P (decode_coin_Coin P) bs)
      else if tag div 8 = 9 then get (\<lambda>v. message\<lparr>paychan_PaymentChannel_address := Some v\<rparr>) (pr_bytes P bs)
      else skip P tag message bs)"

definition decode_paychan_PaymentChannel :: "proto_lib \<Rightarrow> byte list \<Rightarrow> int \<Rightarrow> (paychan_IPaymentChannel \<times> byte list) result" where
  "decode_paychan_PaymentChannel P = read_message P (field_paychan_PaymentChannel P) new_paychan_PaymentChannel"

definition valid_paychan_PaymentChannel :: "paychan_IPaymentChannel \<Rightarrow> bool" where
  "valid_paychan_PaymentChannel message \<longleftrightarrow> pred_option valid_weave_Metadata (paychan_PaymentChannel_metadata message) \<and>
     pred_option valid_coin_Coin (paychan_PaymentChannel_total message) \<and>
     pred_option is_int64 (paychan_PaymentChannel_timeout message) \<and>
     pred_option valid_coin_Coin (paychan_PaymentChannel_transferred message)"

lemma decodes_paychan_PaymentChannel:
  assumes P: "proto_laws P" and "valid_paychan_PaymentChannel m"
  shows "decodes (decode_paychan_PaymentChannel P) (encode_paychan_PaymentChannel P m) (norm_paychan_IPaymentChannel m)"
proof -
  have "writes P (field_paychan_PaymentChannel P) (encode_paychan_PaymentChannel P m) new_paychan_PaymentChannel
      (set_field paychan_PaymentChannel_address_update (norm_bytes (paychan_PaymentChannel_address m)) (set_field paychan_PaymentChannel_transferred_update (map_option norm_coin_ICoin (paychan_PaymentChannel_transferred m)) (set_field paychan_PaymentChannel_memo_update (norm_string (paychan_PaymentChannel_memo m)) (set_field paychan_PaymentChannel_timeout_update (norm_int64 (paychan_PaymentChannel_timeout m)) (set_field paychan_PaymentChannel_total_update (map_option norm_coin_ICoin (paychan_PaymentChannel_total m)) (set_field paychan_PaymentChannel_destination_update (norm_bytes (paychan_PaymentChannel_destination m)) (set_field paychan_PaymentChannel_sourcePubkey_update (map_option norm_crypto_IPublicKey (paychan_PaymentChannel_sourcePubkey m)) (set_field paychan_PaymentChannel_source_update (norm_bytes (paychan_PaymentChannel_source m)) (set_field paychan_PaymentChannel_metadata_update (map_option norm_weave_IMetadata (paychan_PaymentChannel_metadata m)) new_paychan_PaymentChannel)))))))))"
    unfolding encode_paychan_PaymentChannel_def
    by (rule writes_chain
        | rule writes_message [where valid = valid_weave_Metadata, OF P _ _ decodes_weave_Metadata [OF P]]
        | rule writes_bytes [OF P]
        | rule writes_message [OF P _ true_opt decodes_crypto_PublicKey [OF P]]
        | rule writes_message [where valid = valid_coin_Coin, OF P _ _ decodes_coin_Coin [OF P]]
        | rule writes_int64 [OF P]
        | rule writes_string [OF P]
        | (simp add: field_paychan_PaymentChannel_def new_paychan_PaymentChannel_def set_field_def elements_def is_uint32_def assms(2) [unfolded valid_paychan_PaymentChannel_def]; fail))+
  then show ?thesis
    unfolding decode_paychan_PaymentChannel_def by (intro decodes_message) (simp add: set_field_def new_paychan_PaymentChannel_def norm_paychan_IPaymentChannel_def)
qed

section \<open>paychan.CreateMsg\<close>

record paychan_ICreateMsg =
  paychan_CreateMsg_metadata :: "weave_IMetadata option"
  paychan_CreateMsg_source :: "byte list option"
  paychan_CreateMsg_sourcePubkey :: "crypto_IPublicKey option"
  paychan_CreateMsg_destination :: "byte list option"
  paychan_CreateMsg_total :: "coin_ICoin option"
  paychan_CreateMsg_timeout :: "wire_int option"
  paychan_CreateMsg_memo :: "string option"

definition norm_paychan_ICreateMsg :: "paychan_ICreateMsg \<Rightarrow> paychan_ICreateMsg" where
  "norm_paychan_ICreateMsg m = \<lparr>
     paychan_CreateMsg_metadata = map_option norm_weave_IMetadata (paychan_CreateMsg_metadata m),
     paychan_CreateMsg_source = norm_bytes (paychan_CreateMsg_source m),
     paychan_CreateMsg_sourcePubkey = map_option norm_crypto_IPublicKey (paychan_CreateMsg_sourcePubkey m),
     paychan_CreateMsg_destination = norm_bytes (paychan_CreateMsg_destination m),
     paychan_CreateMsg_total = map_option norm_coin_ICoin (paychan_CreateMsg_total m),
     paychan_CreateMsg_timeout = norm_int64 (paychan_CreateMsg_timeout m),
     paychan_CreateMsg_memo = norm_string (paychan_CreateMsg_memo m)\<rparr>"

definition new_paychan_CreateMsg :: paychan_ICreateMsg where
  "new_paychan_CreateMsg = \<lparr>paychan_CreateMsg_metadata = None, paychan_CreateMsg_source = Some [], paychan_CreateMsg_sourcePubkey = None, paychan_CreateMsg_destination = Some [], paychan_CreateMsg_total = None, paychan_CreateMsg_timeout = Some (Long 0), paychan_CreateMsg_memo = Some []\<rparr>"

definition encode_paychan_CreateMsg :: "proto_lib \<Rightarrow> paychan_ICreateMsg \<Rightarrow> byte list" where
  "encode_paychan_CreateMsg P message =
     put P 10 (\<lambda>v. ldelim P (encode_weave_Metadata P v)) (paychan_CreateMsg_metadata message) @
     put P 18 (pw_bytes P) (paychan_CreateMsg_source message) @
     put P 26 (\<lambda>v. ldelim P (encode_crypto_PublicKey P v)) (paychan_CreateMsg_sourcePubkey message) @
     put P 34 (pw_bytes P) (paychan_CreateMsg_destination message) @
     put P 42 (\<lambda>v. ldelim P (encode_coin_Coin P v)) (paychan_CreateMsg_total message) @
     put P 48 (pw_int64 P) (paychan_CreateMsg_timeout message) @
     put P 58 (pw_string P) (paychan_CreateMsg_memo message)"

definition field_paychan_CreateMsg :: "proto_lib \<Rightarrow> paychan_ICreateMsg \<Rightarrow> int \<Rightarrow> byte list \<Rightarrow> (paychan_ICreateMsg \<times> byte list) result" where
  "field_paychan_CreateMsg P message tag bs =
     (if tag div 8 = 1 then get (\<lambda>v. message\<lparr>paychan_CreateMsg_metadata := Some v\<rparr>) (get_message P (decode_weave_Metadata P) bs)
      else if tag div 8 = 2 then get (\<lambda>v. message\<lparr>paychan_CreateMsg_source := Some v\<rparr>) (pr_bytes P bs)
      else if tag div 8 = 3 then get (\<lambda>v. message\<lparr>paychan_CreateMsg_sourcePubkey := Some v\<rparr>) (get_message P (decode_crypto_PublicKey P) bs)
      else if tag div 8 = 4 then get (\<lambda>v. message\<lparr>paychan_CreateMsg_destination := Some v\<rparr>) (pr_bytes P bs)
      else if tag div 8 = 5 then get (\<lambda>v. message\<lparr>paychan_CreateMsg_total := Some v\<rparr>) (get_message P (decode_coin_Coin P) bs)
      else if tag div 8 = 6 then get (\<lambda>v. message\<lparr>paychan_CreateMsg_timeout := Some (Long v)\<rparr>) (pr_int64 P bs)
      else if tag div 8 = 7 then get (\<lambda>v. message\<lparr>paychan_CreateMsg_memo := Some v\<rparr>) (pr_string P bs)
      else skip P tag message bs)"

definition decode_paychan_CreateMsg :: "proto_lib \<Rightarrow> byte list \<Rightarrow> int \<Rightarrow> (paychan_ICreateMsg \<times> byte list) result" where
  "decode_paychan_CreateMsg P = read_message P (field_paychan_CreateMsg P) new_paychan_CreateMsg"

definition valid_paychan_CreateMsg :: "paychan_ICreateMsg \<Rightarrow> bool" where
  "valid_paychan_CreateMsg message \<longleftrightarrow> pred_option valid_weave_Metadata (paychan_CreateMsg_metadata message) \<and>
     pred_option valid_coin_Coin (paychan_CreateMsg_total message) \<and>
     pred_option is_int64 (paychan_CreateMsg_timeout message)"

lemma decodes_paychan_CreateMsg:
  assumes P: "proto_laws P" and "valid_paychan_CreateMsg m"
  shows "decodes (decode_paychan_CreateMsg P) (encode_paychan_CreateMsg P m) (norm_paychan_ICreateMsg m)"
proof -
  have "writes P (field_paychan_CreateMsg P) (encode_paychan_CreateMsg P m) new_paychan_CreateMsg
      (set_field paychan_CreateMsg_memo_update (norm_string (paychan_CreateMsg_memo m)) (set_field paychan_CreateMsg_timeout_update (norm_int64 (paychan_CreateMsg_timeout m)) (set_field paychan_CreateMsg_total_update (map_option norm_coin_ICoin (paychan_CreateMsg_total m)) (set_field paychan_CreateMsg_destination_update (norm_bytes (paychan_CreateMsg_destination m)) (set_field paychan_CreateMsg_sourcePubkey_update (map_option norm_crypto_IPublicKey (paychan_CreateMsg_sourcePubkey m)) (set_field paychan_CreateMsg_source_update (norm_bytes (paychan_CreateMsg_source m)) (set_field paychan_CreateMsg_metadata_update (map_option norm_weave_IMetadata (paychan_CreateMsg_metadata m)) new_paychan_CreateMsg)))))))"
    unfolding encode_paychan_CreateMsg_def
    by (rule writes_chain
        | rule writes_message [where valid = valid_weave_Metadata, OF P _ _ decodes_weave_Metadata [OF P]]
        | rule writes_bytes [OF P]
        | rule writes_message [OF P _ true_opt decodes_crypto_PublicKey [OF P]]
        | rule writes_message [where valid = valid_coin_Coin, OF P _ _ decodes_coin_Coin [OF P]]
        | rule writes_int64 [OF P]
        | rule writes_string [OF P]
        | (simp add: field_paychan_CreateMsg_def new_paychan_CreateMsg_def set_field_def elements_def is_uint32_def assms(2) [unfolded valid_paychan_CreateMsg_def]; fail))+
  then show ?thesis
    unfolding decode_paychan_CreateMsg_def by (intro decodes_message) (simp add: set_field_def new_paychan_CreateMsg_def norm_paychan_ICreateMsg_def)
qed

section \<open>paychan.Payment\<close>

record paychan_IPayment =
  paychan_Payment_chainId :: "string option"
  paychan_Payment_channelId :: "byte list option"
  paychan_Payment_amount :: "coin_ICoin option"
  paychan_Payment_memo :: "string option"

definition norm_paychan_IPayment :: "paychan_IPayment \<Rightarrow> paychan_IPayment" where
  "norm_paychan_IPayment m = \<lparr>
     paychan_Payment_chainId = norm_string (paychan_Payment_chainId m),
     paychan_Payment_channelId = norm_bytes (paychan_Payment_channelId m),
     paychan_Payment_amount = map_option norm_coin_ICoin (paychan_Payment_amount m),
     paychan_Payment_memo = norm_string (paychan_Payment_memo m)\<rparr>"

definition new_paychan_Payment :: paychan_IPayment where
  "new_paychan_Payment = \<lparr>paychan_Payment_chainId = Some [], paychan_Payment_channelId = Some [], paychan_Payment_amount = None, paychan_Payment_memo = Some []\<rparr>"

definition encode_paychan_Payment :: "proto_lib \<Rightarrow> paychan_IPayment \<Rightarrow> byte list" where
  "encode_paychan_Payment P message =
     put P 10 (pw_string P) (paychan_Payment_chainId message) @
     put P 18 (pw_bytes P) (paychan_Payment_channelId message) @
     put P 26 (\<lambda>v. ldelim P (encode_coin_Coin P v)) (paychan_Payment_amount message) @
     put P 34 (pw_string P) (paychan_Payment_memo message)"

definition field_paychan_Payment :: "proto_lib \<Rightarrow> paychan_IPayment \<Rightarrow> int \<Rightarrow> byte list \<Rightarrow> (paychan_IPayment \<times> byte list) result" where
  "field_paychan_Payment P message tag bs =
     (if tag div 8 = 1 then get (\<lambda>v. message\<lparr>paychan_Payment_chainId := Some v\<rparr>) (pr_string P bs)
      else if tag div 8 = 2 then get (\<lambda>v. message\<lparr>paychan_Payment_channelId := Some v\<rparr>) (pr_bytes P bs)
      else if tag div 8 = 3 then get (\<lambda>v. message\<lparr>paychan_Payment_amount := Some v\<rparr>) (get_message P (decode_coin_Coin P) bs)
      else if tag div 8 = 4 then get (\<lambda>v. message\<lparr>paychan_Payment_memo := Some v\<rparr>) (pr_string P bs)
      else skip P tag message bs)"

definition decode_paychan_Payment :: "proto_lib \<Rightarrow> byte list \<Rightarrow> int \<Rightarrow> (paychan_IPayment \<times> byte list) result" where
  "decode_paychan_Payment P = read_message P (field_paychan_Payment P) new_paychan_Payment"

definition valid_paychan_Payment :: "paychan_IPayment \<Rightarrow> bool" where
  "valid_paychan_Payment message \<longleftrightarrow> pred_option valid_coin_Coin (paychan_Payment_amount message)"

lemma decodes_paychan_Payment:
  assumes P: "proto_laws P" and "valid_paychan_Payment m"
  shows "decodes (decode_paychan_Payment P) (encode_paychan_Payment P m) (norm_paychan_IPayment m)"
proof -
  have "writes P (field_paychan_Payment P) (encode_paychan_Payment P m) new_paychan_Payment
      (set_field paychan_Payment_memo_update (norm_string (paychan_Payment_memo m)) (set_field paychan_Payment_amount_update (map_option norm_coin_ICoin (paychan_Payment_amount m)) (set_field paychan_Payment_channelId_update (norm_bytes (paychan_Payment_channelId m)) (set_field paychan_Payment_chainId_update (norm_string (paychan_Payment_chainId m)) new_paychan_Payment))))"
    unfolding encode_paychan_Payment_def
    by (rule writes_chain
        | rule writes_string [OF P]
        | rule writes_bytes [OF P]
        | rule writes_message [where valid = valid_coin_Coin, OF P _ _ decodes_coin_Coin [OF P]]
        | (simp add: field_paychan_Payment_def new_paychan_Payment_def set_field_def elements_def is_uint32_def assms(2) [unfolded valid_paychan_Payment_def]; fail))+
  then show ?thesis
    unfolding decode_paychan_Payment_def by (intro decodes_message) (simp add: set_field_def new_paychan_Payment_def norm_paychan_IPayment_def)
qed

section \<open>paychan.TransferMsg\<close>

record paychan_ITransferMsg =
  paychan_TransferMsg_metadata :: "weave_IMetadata option"
  paychan_TransferMsg_payment :: "paychan_IPayment option"
  paychan_TransferMsg_signature :: "crypto_ISignature option"

definition norm_paychan_ITransferMsg :: "paychan_ITransferMsg \<Rightarrow> paychan_ITransferMsg" where
  "norm_paychan_ITransferMsg m = \<lparr>
     paychan_TransferMsg_metadata = map_option norm_weave_IMetadata (paychan_TransferMsg_metadata m),
     paychan_TransferMsg_payment = map_option norm_paychan_IPayment (paychan_TransferMsg_payment m),
     paychan_TransferMsg_signature = map_option norm_crypto_ISignature (paychan_TransferMsg_signature m)\<rparr>"

definition new_paychan_TransferMsg :: paychan_ITransferMsg where
  "new_paychan_TransferMsg = \<lparr>paychan_TransferMsg_metadata = None, paychan_TransferMsg_payment = None, paychan_TransferMsg_signature = None\<rparr>"

definition encode_paychan_TransferMsg :: "proto_lib \<Rightarrow> paychan_ITransferMsg \<Rightarrow> byte list" where
  "encode_paychan_TransferMsg P message =
     put P 10 (\<lambda>v. ldelim P (encode_weave_Metadata P v)) (paychan_TransferMsg_metadata message) @
     put P 18 (\<lambda>v. ldelim P (encode_paychan_Payment P v)) (paychan_TransferMsg_payment message) @
     put P 26 (\<lambda>v. ldelim P (encode_crypto_Signature P v)) (paychan_TransferMsg_signature message)"

definition field_paychan_TransferMsg :: "proto_lib \<Rightarrow> paychan_ITransferMsg \<Rightarrow> int \<Rightarrow> byte list \<Rightarrow> (paychan_ITransferMsg \<times> byte list) result" where
  "field_paychan_TransferMsg P message tag bs =
     (if tag div 8 = 1 then get (\<lambda>v. message\<lparr>paychan_TransferMsg_metadata := Some v\<rparr>) (get_message P (decode_weave_Metadata P) bs)
      else if tag div 8 = 2 then get (\<lambda>v. message\<lparr>paychan_TransferMsg_payment := Some v\<rparr>) (get_message P (decode_paychan_Payment P) bs)
      else if tag div 8 = 3 then get (\<lambda>v. message\<lparr>paychan_TransferMsg_signature := Some v\<rparr>) (get_message P (decode_crypto_Signature P) bs)
      else skip P tag message bs)"

definition decode_paychan_TransferMsg :: "proto_lib \<Rightarrow> byte list \<Rightarrow> int \<Rightarrow> (paychan_ITransferMsg \<times> byte list) result" where
  "decode_paychan_TransferMsg P = read_message P (field_paychan_TransferMsg P) new_paychan_TransferMsg"

definition valid_paychan_TransferMsg :: "paychan_ITransferMsg \<Rightarrow> bool" where
  "valid_paychan_TransferMsg message \<longleftrightarrow> pred_option valid_weave_Metadata (paychan_TransferMsg_metadata message) \<and>
     pred_option valid_paychan_Payment (paychan_TransferMsg_payment message)"

lemma decodes_paychan_TransferMsg:
  assumes P: "proto_laws P" and "valid_paychan_TransferMsg m"
  shows "decodes (decode_paychan_TransferMsg P) (encode_paychan_TransferMsg P m) (norm_paychan_ITransferMsg m)"
proof -
  have "writes P (field_paychan_TransferMsg P) (encode_paychan_TransferMsg P m) new_paychan_TransferMsg
      (set_field paychan_TransferMsg_signature_update (map_option norm_crypto_ISignature (paychan_TransferMsg_signature m)) (set_field paychan_TransferMsg_payment_update (map_option norm_paychan_IPayment (paychan_TransferMsg_payment m)) (set_field paychan_TransferMsg_metadata_update (map_option norm_weave_IMetadata (paychan_TransferMsg_metadata m)) new_paychan_TransferMsg)))"
    unfolding encode_paychan_TransferMsg_def
    by (rule writes_chain
        | rule writes_message [where valid = valid_weave_Metadata, OF P _ _ decodes_weave_Metadata [OF P]]
        | rule writes_message [where valid = valid_paychan_Payment, OF P _ _ decodes_paychan_Payment [OF P]]
        | rule writes_message [OF P _ true_opt decodes_crypto_Signature [OF P]]
        | (simp add: field_paychan_TransferMsg_def new_paychan_TransferMsg_def set_field_def elements_def is_uint32_def assms(2) [unfolded valid_paychan_TransferMsg_def]; fail))+
  then show ?thesis
    unfolding decode_paychan_TransferMsg_def by (intro decodes_message) (simp add: set_field_def new_paychan_TransferMsg_def norm_paychan_ITransferMsg_def)
qed

section \<open>paychan.CloseMsg\<close>

record paychan_ICloseMsg =
  paychan_CloseMsg_metadata :: "weave_IMetadata option"
  paychan_CloseMsg_channelId :: "byte list option"
  paychan_CloseMsg_memo :: "string option"

definition norm_paychan_ICloseMsg :: "paychan_ICloseMsg \<Rightarrow> paychan_ICloseMsg" where
  "norm_paychan_ICloseMsg m = \<lparr>
     paychan_CloseMsg_metadata = map_option norm_weave_IMetadata (paychan_CloseMsg_metadata m),
     paychan_CloseMsg_channelId = norm_bytes (paychan_CloseMsg_channelId m),
     paychan_CloseMsg_memo = norm_string (paychan_CloseMsg_memo m)\<rparr>"

definition new_paychan_CloseMsg :: paychan_ICloseMsg where
  "new_paychan_CloseMsg = \<lparr>paychan_CloseMsg_metadata = None, paychan_CloseMsg_channelId = Some [], paychan_CloseMsg_memo = Some []\<rparr>"

definition encode_paychan_CloseMsg :: "proto_lib \<Rightarrow> paychan_ICloseMsg \<Rightarrow> byte list" where
  "encode_paychan_CloseMsg P message =
     put P 10 (\<lambda>v. ldelim P (encode_weave_Metadata P v)) (paychan_CloseMsg_metadata message) @
     put P 18 (pw_bytes P) (paychan_CloseMsg_channelId message) @
     put P 26 (pw_string P) (paychan_CloseMsg_memo message)"

definition field_paychan_CloseMsg :: "proto_lib \<Rightarrow> paychan_ICloseMsg \<Rightarrow> int \<Rightarrow> byte list \<Rightarrow> (paychan_ICloseMsg \<times> byte list) result" where
  "field_paychan_CloseMsg P message tag bs =
     (if tag div 8 = 1 then get (\<lambda>v. message\<lparr>paychan_CloseMsg_metadata := Some v\<rparr>) (get_message P (decode_weave_Metadata P) bs)
      else if tag div 8 = 2 then get (\<lambda>v. message\<lparr>paychan_CloseMsg_channelId := Some v\<rparr>) (pr_bytes P bs)
      else if tag div 8 = 3 then get (\<lambda>v. message\<lparr>paychan_CloseMsg_memo := Some v\<rparr>) (pr_string P bs)
      else skip P tag message bs)"

definition decode_paychan_CloseMsg :: "proto_lib \<Rightarrow> byte list \<Rightarrow> int \<Rightarrow> (paychan_ICloseMsg \<times> byte list) result" where
  "decode_paychan_CloseMsg P = read_message P (field_paychan_CloseMsg P) new_paychan_CloseMsg"

definition valid_paychan_CloseMsg :: "paychan_ICloseMsg \<Rightarrow> bool" where
  "valid_paychan_CloseMsg message \<longleftrightarrow> pred_option valid_weave_Metadata (paychan_CloseMsg_metadata message)"

lemma decodes_paychan_CloseMsg:
  assumes P: "proto_laws P" and "valid_paychan_CloseMsg m"
  shows "decodes (decode_paychan_CloseMsg P) (encode_paychan_CloseMsg P m) (norm_paychan_ICloseMsg m)"
proof -
  have "writes P (field_paychan_CloseMsg P) (encode_paychan_CloseMsg P m) new_paychan_CloseMsg
      (set_field paychan_CloseMsg_memo_update (norm_string (paychan_CloseMsg_memo m)) (set_field paychan_CloseMsg_channelId_update (norm_bytes (paychan_CloseMsg_channelId m)) (set_field paychan_CloseMsg_metadata_update (map_option norm_weave_IMetadata (paychan_CloseMsg_metadata m)) new_paychan_CloseMsg)))"
    unfolding encode_paychan_CloseMsg_def
    by (rule writes_chain
        | rule writes_message [where valid = valid_weave_Metadata, OF P _ _ decodes_weave_Metadata [OF P]]
        | rule writes_bytes [OF P]
        | rule writes_string [OF P]
        | (simp add: field_paychan_CloseMsg_def new_paychan_CloseMsg_def set_field_def elements_def is_uint32_def assms(2) [unfolded valid_paychan_CloseMsg_def]; fail))+
  then show ?thesis
    unfolding decode_paychan_CloseMsg_def by (intro decodes_message) (simp add: set_field_def new_paychan_CloseMsg_def norm_paychan_ICloseMsg_def)
qed

section \<open>sigs.UserData\<close>

record sigs_IUserData =
  sigs_UserData_metadata :: "weave_IMetadata option"
  sigs_UserData_pubkey :: "crypto_IPublicKey option"
  sigs_UserData_sequence :: "wire_int option"

definition norm_sigs_IUserData :: "sigs_IUserData \<Rightarrow> sigs_IUserData" where
  "norm_sigs_IUserData m = \<lparr>
     sigs_UserData_metadata = map_option norm_weave_IMetadata (sigs_UserData_metadata m),
     sigs_UserData_pubkey = map_option norm_crypto_IPublicKey (sigs_UserData_pubkey m),
     sigs_UserData_sequence = norm_int64 (sigs_UserData_sequence m)\<rparr>"

definition new_sigs_UserData :: sigs_IUserData where
  "new_sigs_UserData = \<lparr>sigs_UserData_metadata = None, sigs_UserData_pubkey = None, sigs_UserData_sequence = Some (Long 0)\<rparr>"

definition encode_sigs_UserData :: "proto_lib \<Rightarrow> sigs_IUserData \<Rightarrow> byte list" where
  "encode_sigs_UserData P message =
     put P 10 (\<lambda>v. ldelim P (encode_weave_Metadata P v)) (sigs_UserData_metadata message) @
     put P 18 (\<lambda>v. ldelim P (encode_crypto_PublicKey P v)) (sigs_UserData_pubkey message) @
     put P 24 (pw_int64 P) (sigs_UserData_sequence message)"

definition field_sigs_UserData :: "proto_lib \<Rightarrow> sigs_IUserData \<Rightarrow> int \<Rightarrow> byte list \<Rightarrow> (sigs_IUserData \<times> byte list) result" where
  "field_sigs_UserData P message tag bs =
     (if tag div 8 = 1 then get (\<lambda>v. message\<lparr>sigs_UserData_metadata := Some v\<rparr>) (get_message P (decode_weave_Metadata P) bs)
      else if tag div 8 = 2 then get (\<lambda>v. message\<lparr>sigs_UserData_pubkey := Some v\<rparr>) (get_message P (decode_crypto_PublicKey P) bs)
      else if tag div 8 = 3 then get (\<lambda>v. message\<lparr>sigs_UserData_sequence := Some (Long v)\<rparr>) (pr_int64 P bs)
      else skip P tag message bs)"

definition decode_sigs_UserData :: "proto_lib \<Rightarrow> byte list \<Rightarrow> int \<Rightarrow> (sigs_IUserData \<times> byte list) result" where
  "decode_sigs_UserData P = read_message P (field_sigs_UserData P) new_sigs_UserData"

definition valid_sigs_UserData :: "sigs_IUserData \<Rightarrow> bool" where
  "valid_sigs_UserData message \<longleftrightarrow> pred_option valid_weave_Metadata (sigs_UserData_metadata message) \<and>
     pred_option is_int64 (sigs_UserData_sequence message)"

lemma decodes_sigs_UserData:
  assumes P: "proto_laws P" and "valid_sigs_UserData m"
  shows "decodes (decode_sigs_UserData P) (encode_sigs_UserData P m) (norm_sigs_IUserData m)"
proof -
  have "writes P (field_sigs_UserData P) (encode_sigs_UserData P m) new_sigs_UserData
      (set_field sigs_UserData_sequence_update (norm_int64 (sigs_UserData_sequence m)) (set_field sigs_UserData_pubkey_update (map_option norm_crypto_IPublicKey (sigs_UserData_pubkey m)) (set_field sigs_UserData_metadata_update (map_option norm_weave_IMetadata (sigs_UserData_metadata m)) new_sigs_UserData)))"
    unfolding encode_sigs_UserData_def
    by (rule writes_chain
        | rule writes_message [where valid = valid_weave_Metadata, OF P _ _ decodes_weave_Metadata [OF P]]
        | rule writes_message [OF P _ true_opt decodes_crypto_PublicKey [OF P]]
        | rule writes_int64 [OF P]
        | (simp add: field_sigs_UserData_def new_sigs_UserData_def set_field_def elements_def is_uint32_def assms(2) [unfolded valid_sigs_UserData_def]; fail))+
  then show ?thesis
    unfolding decode_sigs_UserData_def by (intro decodes_message) (simp add: set_field_def new_sigs_UserData_def norm_sigs_IUserData_def)
qed

section \<open>sigs.BumpSequenceMsg\<close>

record sigs_IBumpSequenceMsg =
  sigs_BumpSequenceMsg_metadata :: "weave_IMetadata option"
  sigs_BumpSequenceMsg_increment :: "number option"
  sigs_BumpSequenceMsg_user :: "byte list option"

definition norm_sigs_IBumpSequenceMsg :: "sigs_IBumpSequenceMsg \<Rightarrow> sigs_IBumpSequenceMsg" where
  "norm_sigs_IBumpSequenceMsg m = \<lparr>
     sigs_BumpSequenceMsg_metadata = map_option norm_weave_IMetadata (sigs_BumpSequenceMsg_metadata m),
     sigs_BumpSequenceMsg_increment = norm_number (sigs_BumpSequenceMsg_increment m),
     sigs_BumpSequenceMsg_user = norm_bytes (sigs_BumpSequenceMsg_user m)\<rparr>"

definition new_sigs_BumpSequenceMsg :: sigs_IBumpSequenceMsg where
  "new_sigs_BumpSequenceMsg = \<lparr>sigs_BumpSequenceMsg_metadata = None, sigs_BumpSequenceMsg_increment = Some (int_num 0), sigs_BumpSequenceMsg_user = Some []\<rparr>"

definition encode_sigs_BumpSequenceMsg :: "proto_lib \<Rightarrow> sigs_IBumpSequenceMsg \<Rightarrow> byte list" where
  "encode_sigs_BumpSequenceMsg P message =
     put P 10 (\<lambda>v. ldelim P (encode_weave_Metadata P v)) (sigs_BumpSequenceMsg_metadata message) @
     put P 16 (pw_uint32 P) (sigs_BumpSequenceMsg_increment message) @
     put P 26 (pw_bytes P) (sigs_BumpSequenceMsg_user message)"

definition field_sigs_BumpSequenceMsg :: "proto_lib \<Rightarrow> sigs_IBumpSequenceMsg \<Rightarrow> int \<Rightarrow> byte list \<Rightarrow> (sigs_IBumpSequenceMsg \<times> byte list) result" where
  "field_sigs_BumpSequenceMsg P message tag bs =
     (if tag div 8 = 1 then get (\<lambda>v. message\<lparr>sigs_BumpSequenceMsg_metadata := Some v\<rparr>) (get_message P (decode_weave_Metadata P) bs)
      else if tag div 8 = 2 then get (\<lambda>v. message\<lparr>sigs_BumpSequenceMsg_increment := Some (int_num v)\<rparr>) (pr_uint32 P bs)
      else if tag div 8 = 3 then get (\<lambda>v. message\<lparr>sigs_BumpSequenceMsg_user := Some v\<rparr>) (pr_bytes P bs)
      else skip P tag message bs)"

definition decode_sigs_BumpSequenceMsg :: "proto_lib \<Rightarrow> byte list \<Rightarrow> int \<Rightarrow> (sigs_IBumpSequenceMsg \<times> byte list) result" where
  "decode_sigs_BumpSequenceMsg P = read_message P (field_sigs_BumpSequenceMsg P) new_sigs_BumpSequenceMsg"

definition valid_sigs_BumpSequenceMsg :: "sigs_IBumpSequenceMsg \<Rightarrow> bool" where
  "valid_sigs_BumpSequenceMsg message \<longleftrightarrow> pred_option valid_weave_Metadata (sigs_BumpSequenceMsg_metadata message) \<and>
     pred_option is_uint32 (sigs_BumpSequenceMsg_increment message)"

lemma decodes_sigs_BumpSequenceMsg:
  assumes P: "proto_laws P" and "valid_sigs_BumpSequenceMsg m"
  shows "decodes (decode_sigs_BumpSequenceMsg P) (encode_sigs_BumpSequenceMsg P m) (norm_sigs_IBumpSequenceMsg m)"
proof -
  have "writes P (field_sigs_BumpSequenceMsg P) (encode_sigs_BumpSequenceMsg P m) new_sigs_BumpSequenceMsg
      (set_field sigs_BumpSequenceMsg_user_update (norm_bytes (sigs_BumpSequenceMsg_user m)) (set_field sigs_BumpSequenceMsg_increment_update (norm_number (sigs_BumpSequenceMsg_increment m)) (set_field sigs_BumpSequenceMsg_metadata_update (map_option norm_weave_IMetadata (sigs_BumpSequenceMsg_metadata m)) new_sigs_BumpSequenceMsg)))"
    unfolding encode_sigs_BumpSequenceMsg_def
    by (rule writes_chain
        | rule writes_message [where valid = valid_weave_Metadata, OF P _ _ decodes_weave_Metadata [OF P]]
        | rule writes_uint32 [OF P]
        | rule writes_bytes [OF P]
        | (simp add: field_sigs_BumpSequenceMsg_def new_sigs_BumpSequenceMsg_def set_field_def elements_def is_uint32_def assms(2) [unfolded valid_sigs_BumpSequenceMsg_def]; fail))+
  then show ?thesis
    unfolding decode_sigs_BumpSequenceMsg_def by (intro decodes_message) (simp add: set_field_def new_sigs_BumpSequenceMsg_def norm_sigs_IBumpSequenceMsg_def)
qed

section \<open>validators.Accounts\<close>

record validators_IAccounts =
  validators_Accounts_metadata :: "weave_IMetadata option"
  validators_Accounts_addresses :: "byte list list option"

definition norm_validators_IAccounts :: "validators_IAccounts \<Rightarrow> validators_IAccounts" where
  "norm_validators_IAccounts m = \<lparr>
     validators_Accounts_metadata = map_option norm_weave_IMetadata (validators_Accounts_metadata m),
     validators_Accounts_addresses = norm_repeated (\<lambda>b. b) (validators_Accounts_addresses m)\<rparr>"

definition new_validators_Accounts :: validators_IAccounts where
  "new_validators_Accounts = \<lparr>validators_Accounts_metadata = None, validators_Accounts_addresses = Some []\<rparr>"

definition encode_validators_Accounts :: "proto_lib \<Rightarrow> validators_IAccounts \<Rightarrow> byte list" where
  "encode_validators_Accounts P message =
     put P 10 (\<lambda>v. ldelim P (encode_weave_Metadata P v)) (validators_Accounts_metadata message) @
     put_each P 18 (pw_bytes P) (validators_Accounts_addresses message)"

definition field_validators_Accounts :: "proto_lib \<Rightarrow> validators_IAccounts \<Rightarrow> int \<Rightarrow> byte list \<Rightarrow> (validators_IAccounts \<times> byte list) result" where
  "field_validators_Accounts P message tag bs =
     (if tag div 8 = 1 then get (\<lambda>v. message\<lparr>validators_Accounts_metadata := Some v\<rparr>) (get_message P (decode_weave_Metadata P) bs)
      else if tag div 8 = 2 then get (\<lambda>v. message\<lparr>validators_Accounts_addresses := Some (elements (validators_Accounts_addresses message) @ [v])\<rparr>) (pr_bytes P bs)
      else skip P tag message bs)"

definition decode_validators_Accounts :: "proto_lib \<Rightarrow> byte list \<Rightarrow> int \<Rightarrow> (validators_IAccounts \<times> byte list) result" where
  "decode_validators_Accounts P = read_message P (field_validators_Accounts P) new_validators_Accounts"

definition valid_validators_Accounts :: "validators_IAccounts \<Rightarrow> bool" where
  "valid_validators_Accounts message \<longleftrightarrow> pred_option valid_weave_Metadata (validators_Accounts_metadata message)"

lemma decodes_validators_Accounts:
  assumes P: "proto_laws P" and "valid_validators_Accounts m"
  shows "decodes (decode_validators_Accounts P) (encode_validators_Accounts P m) (norm_validators_IAccounts m)"
proof -
  have "writes P (field_validators_Accounts P) (encode_validators_Accounts P m) new_validators_Accounts
      (set_field validators_Accounts_addresses_update (norm_repeated (\<lambda>b. b) (validators_Accounts_addresses m)) (set_field validators_Accounts_metadata_update (map_option norm_weave_IMetadata (validators_Accounts_metadata m)) new_validators_Accounts))"
    unfolding encode_validators_Accounts_def
    by (rule writes_chain
        | rule writes_message [where valid = valid_weave_Metadata, OF P _ _ decodes_weave_Metadata [OF P]]
        | rule writes_repeated_bytes [OF P]
        | (simp add: field_validators_Accounts_def new_validators_Accounts_def set_field_def elements_def is_uint32_def assms(2) [unfolded valid_validators_Accounts_def]; fail))+
  then show ?thesis
    unfolding decode_validators_Accounts_def by (intro decodes_message) (simp add: set_field_def new_validators_Accounts_def norm_validators_IAccounts_def)
qed

end
