(* ===== verification/Pb_Tx.thy ===== *)
theory Pb_Tx
  imports Pb_Unread
begin

text \<open>
  The classes \<open>bnsd.Tx\<close>, \<open>bnsd.ProposalOptions\<close> and
  \<open>bnsd.ExecuteProposalBatchMsg\<close>. The records have the properties that the
  codec reads; a message in another property is decoded and dropped, of
  \<open>packages/iov-bns/src/generated/codecimpl.js\<close>: for each the object that
  \<open>new\<close> makes, \<open>encode\<close>, the switch of \<open>decode\<close> and
  \<open>decode\<close>. The lemma of a class shows that a message with integers in range
  is read back from what was written.
\<close>

section \<open>bnsd.ExecuteProposalBatchMsg.Union\<close>

definition new_bnsd_ExecuteProposalBatchMsg_Union :: ExecuteProposalBatchMsg_IUnion where
  "new_bnsd_ExecuteProposalBatchMsg_Union = \<lparr>un_sendMsg = None\<rparr>"

definition encode_bnsd_ExecuteProposalBatchMsg_Union :: "proto_lib \<Rightarrow> ExecuteProposalBatchMsg_IUnion \<Rightarrow> byte list" where
  "encode_bnsd_ExecuteProposalBatchMsg_Union P message =
     put P 410 (\<lambda>v. ldelim P (encode_cash_SendMsg P v)) (un_sendMsg message)"

definition field_bnsd_ExecuteProposalBatchMsg_Union :: "proto_lib \<Rightarrow> ExecuteProposalBatchMsg_IUnion \<Rightarrow> int \<Rightarrow> byte list \<Rightarrow> (ExecuteProposalBatchMsg_IUnion \<times> byte list) result" where
  "field_bnsd_ExecuteProposalBatchMsg_Union P message tag bs =
     (if tag div 8 = 51 then get (\<lambda>v. message\<lparr>un_sendMsg := Some v\<rparr>) (get_message P (decode_cash_SendMsg P) bs)
      else if tag div 8 = 53 then get (\<lambda>v. message) (get_message P (decode_escrow_ReleaseMsg P) bs)
      else if tag div 8 = 55 then get (\<lambda>v. message) (get_message P (decode_escrow_UpdatePartiesMsg P) bs)
      else if tag div 8 = 57 then get (\<lambda>v. message) (get_message P (decode_multisig_UpdateMsg P) bs)
      else if tag div 8 = 58 then get (\<lambda>v. message) (get_message P (decode_validators_ApplyDiffMsg P) bs)
      else if tag div 8 = 61 then get (\<lambda>v. message) (get_message P (decode_username_RegisterTokenMsg P) bs)
      else if tag div 8 = 62 then get (\<lambda>v. message) (get_message P (decode_username_TransferTokenMsg P) bs)
      else if tag div 8 = 63 then get (\<lambda>v. message) (get_message P (decode_username_ChangeTokenTargetsMsg P) bs)
      else if tag div 8 = 64 then get (\<lambda>v. message) (get_message P (decode_username_UpdateConfigurationMsg P) bs)
      else if tag div 8 = 66 then get (\<lambda>v. message) (get_message P (decode_distribution_CreateMsg P) bs)
      else if tag div 8 = 67 then get (\<lambda>v. message) (get_message P (decode_distribution_DistributeMsg P) bs)
      else if tag div 8 = 68 then get (\<lambda>v. message) (get_message P (decode_distribution_ResetMsg P) bs)
      else if tag div 8 = 77 then get (\<lambda>v. message) (get_message P (decode_gov_UpdateElectorateMsg P) bs)
      else if tag div 8 = 78 then get (\<lambda>v. message) (get_message P (decode_gov_UpdateElectionRuleMsg P) bs)
      else if tag div 8 = 79 then get (\<lambda>v. message) (get_message P (decode_gov_CreateTextResolutionMsg P) bs)
      else if tag div 8 = 80 then get (\<lambda>v. message) (get_message P (decode_msgfee_SetMsgFeeMsg P) bs)
      else if tag div 8 = 81 then get (\<lambda>v. message) (get_message P (decode_datamigration_ExecuteMigrationMsg P) bs)
      else if tag div 8 = 82 then get (\<lambda>v. message) (get_message P (decode_account_UpdateConfigurationMsg P) bs)
      else if tag div 8 = 83 then get (\<lambda>v. message) (get_message P (decode_account_RegisterDomainMsg P) bs)
      else if tag div 8 = 84 then get (\<lambda>v. message) (get_message P (decode_account_ReplaceAccountMsgFeesMsg P) bs)
      else if tag div 8 = 85 then get (\<lambda>v. message) (get_message P (decode_account_TransferDomainMsg P) bs)
      else if tag div 8 = 86 then get (\<lambda>v. message) (get_message P (decode_account_RenewDomainMsg P) bs)
      else if tag div 8 = 87 then get (\<lambda>v. message) (get_message P (decode_account_DeleteDomainMsg P) bs)
      else if tag div 8 = 88 then get (\<lambda>v. message) (get_message P (decode_account_RegisterAccountMsg P) bs)
      else if tag div 8 = 89 then get (\<lambda>v. message) (get_message P (decode_account_TransferAccountMsg P) bs)
      else if tag div 8 = 90 then get (\<lambda>v. message) (get_message P (decode_account_ReplaceAccountTargetsMsg P) bs)
      else if tag div 8 = 91 then get (\<lambda>v. message) (get_message P (decode_account_DeleteAccountMsg P) bs)
      else if tag div 8 = 92 then get (\<lambda>v. message) (get_message P (decode_account_FlushDomainMsg P) bs)
      else if tag div 8 = 93 then get (\<lambda>v. message) (get_message P (decode_account_RenewAccountMsg P) bs)
      else if tag div 8 = 94 then get (\<lambda>v. message) (get_message P (decode_account_AddAccountCertificateMsg P) bs)
      else if tag div 8 = 95 then get (\<lambda>v. message) (get_message P (decode_account_DeleteAccountCertificateMsg P) bs)
      else if tag div 8 = 97 then get (\<lambda>v. message) (get_message P (decode_cash_UpdateConfigurationMsg P) bs)
      else if tag div 8 = 98 then get (\<lambda>v. message) (get_message P (decode_txfee_UpdateConfigurationMsg P) bs)
      else if tag div 8 = 99 then get (\<lambda>v. message) (get_message P (decode_termdeposit_CreateDepositContractMsg P) bs)
      else if tag div 8 = 100 then get (\<lambda>v. message) (get_message P (decode_termdeposit_DepositMsg P) bs)
      else if tag div 8 = 101 then get (\<lambda>v. message) (get_message P (decode_termdeposit_ReleaseDepositMsg P) bs)
      else if tag div 8 = 102 then get (\<lambda>v. message) (get_message P (decode_termdeposit_UpdateConfigurationMsg P) bs)
      else if tag div 8 = 103 then get (\<lambda>v. message) (get_message P (decode_qualityscore_UpdateConfigurationMsg P) bs)
      else if tag div 8 = 104 then get (\<lambda>v. message) (get_message P (decode_preregistration_UpdateConfigurationMsg P) bs)
      else if tag div 8 = 105 then get (\<lambda>v. message) (get_message P (decode_msgfee_UpdateConfigurationMsg P) bs)
      else skip P tag message bs)"

definition decode_bnsd_ExecuteProposalBatchMsg_Union :: "proto_lib \<Rightarrow> byte list \<Rightarrow> int \<Rightarrow> (ExecuteProposalBatchMsg_IUnion \<times> byte list) result" where
  "decode_bnsd_ExecuteProposalBatchMsg_Union P = read_message P (field_bnsd_ExecuteProposalBatchMsg_Union P) new_bnsd_ExecuteProposalBatchMsg_Union"

definition valid_bnsd_ExecuteProposalBatchMsg_Union :: "ExecuteProposalBatchMsg_IUnion \<Rightarrow> bool" where
  "valid_bnsd_ExecuteProposalBatchMsg_Union message \<longleftrightarrow> pred_option valid_cash_SendMsg (un_sendMsg message)"

lemma decodes_bnsd_ExecuteProposalBatchMsg_Union:
  assumes P: "proto_laws P" and "valid_bnsd_ExecuteProposalBatchMsg_Union m"
  shows "decodes (decode_bnsd_ExecuteProposalBatchMsg_Union P) (encode_bnsd_ExecuteProposalBatchMsg_Union P m) (norm_IUnion m)"
proof -
  have "writes P (field_bnsd_ExecuteProposalBatchMsg_Union P) (encode_bnsd_ExecuteProposalBatchMsg_Union P m) new_bnsd_ExecuteProposalBatchMsg_Union
      (set_field un_sendMsg_update (map_option norm_cash_ISendMsg (un_sendMsg m)) new_bnsd_ExecuteProposalBatchMsg_Union)"
    unfolding encode_bnsd_ExecuteProposalBatchMsg_Union_def
    by (rule writes_chain
        | rule writes_message [where valid = valid_cash_SendMsg, OF P _ _ decodes_cash_SendMsg [OF P]]
        | (simp add: field_bnsd_ExecuteProposalBatchMsg_Union_def new_bnsd_ExecuteProposalBatchMsg_Union_def set_field_def elements_def is_uint32_def assms(2) [unfolded valid_bnsd_ExecuteProposalBatchMsg_Union_def]; fail))+
  then show ?thesis
    unfolding decode_bnsd_ExecuteProposalBatchMsg_Union_def by (intro decodes_message) (simp add: set_field_def new_bnsd_ExecuteProposalBatchMsg_Union_def norm_IUnion_def)
qed

section \<open>bnsd.ExecuteProposalBatchMsg\<close>

definition new_bnsd_ExecuteProposalBatchMsg :: bnsd_IExecuteProposalBatchMsg where
  "new_bnsd_ExecuteProposalBatchMsg = \<lparr>eb_messages = Some []\<rparr>"

definition encode_bnsd_ExecuteProposalBatchMsg :: "proto_lib \<Rightarrow> bnsd_IExecuteProposalBatchMsg \<Rightarrow> byte list" where
  "encode_bnsd_ExecuteProposalBatchMsg P message =
     put_each P 10 (\<lambda>v. ldelim P (encode_bnsd_ExecuteProposalBatchMsg_Union P v)) (eb_messages message)"

definition field_bnsd_ExecuteProposalBatchMsg :: "proto_lib \<Rightarrow> bnsd_IExecuteProposalBatchMsg \<Rightarrow> int \<Rightarrow> byte list \<Rightarrow> (bnsd_IExecuteProposalBatchMsg \<times> byte list) result" where
  "field_bnsd_ExecuteProposalBatchMsg P message tag bs =
     (if tag div 8 = 1 then get (\<lambda>v. message\<lparr>eb_messages := Some (elements (eb_messages message) @ [v])\<rparr>) (get_message P (decode_bnsd_ExecuteProposalBatchMsg_Union P) bs)
      else skip P tag message bs)"

definition decode_bnsd_ExecuteProposalBatchMsg :: "proto_lib \<Rightarrow> byte list \<Rightarrow> int \<Rightarrow> (bnsd_IExecuteProposalBatchMsg \<times> byte list) result" where
  "decode_bnsd_ExecuteProposalBatchMsg P = read_message P (field_bnsd_ExecuteProposalBatchMsg P) new_bnsd_ExecuteProposalBatchMsg"

definition valid_bnsd_ExecuteProposalBatchMsg :: "bnsd_IExecuteProposalBatchMsg \<Rightarrow> bool" where
  "valid_bnsd_ExecuteProposalBatchMsg message \<longleftrightarrow> pred_option (list_all valid_bnsd_ExecuteProposalBatchMsg_Union) (eb_messages message)"

lemma decodes_bnsd_ExecuteProposalBatchMsg:
  assumes P: "proto_laws P" and "valid_bnsd_ExecuteProposalBatchMsg m"
  shows "decodes (decode_bnsd_ExecuteProposalBatchMsg P) (encode_bnsd_ExecuteProposalBatchMsg P m) (norm_bnsd_IExecuteProposalBatchMsg m)"
proof -
  have "writes P (field_bnsd_ExecuteProposalBatchMsg P) (encode_bnsd_ExecuteProposalBatchMsg P m) new_bnsd_ExecuteProposalBatchMsg
      (set_field eb_messages_update (norm_repeated norm_IUnion (eb_messages m)) new_bnsd_ExecuteProposalBatchMsg)"
    unfolding encode_bnsd_ExecuteProposalBatchMsg_def
    by (rule writes_chain
        | rule writes_messages [where valid = valid_bnsd_ExecuteProposalBatchMsg_Union, OF P _ _ decodes_bnsd_ExecuteProposalBatchMsg_Union [OF P]]
        | (simp add: field_bnsd_ExecuteProposalBatchMsg_def new_bnsd_ExecuteProposalBatchMsg_def set_field_def elements_def is_uint32_def assms(2) [unfolded valid_bnsd_ExecuteProposalBatchMsg_def]; fail))+
  then show ?thesis
    unfolding decode_bnsd_ExecuteProposalBatchMsg_def by (intro decodes_message) (simp add: set_field_def new_bnsd_ExecuteProposalBatchMsg_def norm_bnsd_IExecuteProposalBatchMsg_def)
qed

section \<open>bnsd.ProposalOptions\<close>

definition new_bnsd_ProposalOptions :: bnsd_IProposalOptions where
  "new_bnsd_ProposalOptions = no_option"

definition encode_bnsd_ProposalOptions :: "proto_lib \<Rightarrow> bnsd_IProposalOptions \<Rightarrow> byte list" where
  "encode_bnsd_ProposalOptions P message =
     put P 426 (\<lambda>v. ldelim P (encode_escrow_ReleaseMsg P v)) (po_escrowReleaseMsg message) @
     put P 466 (\<lambda>v. ldelim P (encode_validators_ApplyDiffMsg P v)) (po_validatorsApplyDiffMsg message) @
     put P 482 (\<lambda>v. ldelim P (encode_bnsd_ExecuteProposalBatchMsg P v)) (po_executeProposalBatchMsg message) @
     put P 554 (\<lambda>v. ldelim P (encode_migration_UpgradeSchemaMsg P v)) (po_migrationUpgradeSchemaMsg message) @
     put P 618 (\<lambda>v. ldelim P (encode_gov_UpdateElectorateMsg P v)) (po_govUpdateElectorateMsg message) @
     put P 626 (\<lambda>v. ldelim P (encode_gov_UpdateElectionRuleMsg P v)) (po_govUpdateElectionRuleMsg message) @
     put P 634 (\<lambda>v. ldelim P (encode_gov_CreateTextResolutionMsg P v)) (po_govCreateTextResolutionMsg message) @
     put P 642 (\<lambda>v. ldelim P (encode_msgfee_SetMsgFeeMsg P v)) (po_msgfeeSetMsgFeeMsg message) @
     put P 650 (\<lambda>v. ldelim P (encode_datamigration_ExecuteMigrationMsg P v)) (po_datamigrationExecuteMigrationMsg message) @
     put P 658 (\<lambda>v. ldelim P (encode_account_UpdateConfigurationMsg P v)) (po_accountUpdateConfigurationMsg message) @
     put P 666 (\<lambda>v. ldelim P (encode_account_RegisterDomainMsg P v)) (po_accountRegisterDomainMsg message) @
     put P 674 (\<lambda>v. ldelim P (encode_account_ReplaceAccountMsgFeesMsg P v)) (po_accountReplaceAccountMsgFeesMsg message) @
     put P 690 (\<lambda>v. ldelim P (encode_account_RenewDomainMsg P v)) (po_accountRenewDomainMsg message) @
     put P 722 (\<lambda>v. ldelim P (encode_account_ReplaceAccountTargetsMsg P v)) (po_accountReplaceAccountTargetsMsg message) @
     put P 754 (\<lambda>v. ldelim P (encode_account_AddAccountCertificateMsg P v)) (po_accountAddAccountCertificateMsg message) @
     put P 762 (\<lambda>v. ldelim P (encode_account_DeleteAccountCertificateMsg P v)) (po_accountDeleteAccountCertificateMsg message) @
     put P 778 (\<lambda>v. ldelim P (encode_cash_UpdateConfigurationMsg P v)) (po_cashUpdateConfigurationMsg message) @
     put P 786 (\<lambda>v. ldelim P (encode_txfee_UpdateConfigurationMsg P v)) (po_txfeeUpdateConfigurationMsg message) @
     put P 818 (\<lambda>v. ldelim P (encode_termdeposit_UpdateConfigurationMsg P v)) (po_termdepositUpdateConfigurationMsg message) @
     put P 826 (\<lambda>v. ldelim P (encode_qualityscore_UpdateConfigurationMsg P v)) (po_qualityscoreUpdateConfigurationMsg message) @
     put P 834 (\<lambda>v. ldelim P (encode_preregistration_UpdateConfigurationMsg P v)) (po_preregistrationUpdateConfigurationMsg message) @
     put P 842 (\<lambda>v. ldelim P (encode_msgfee_UpdateConfigurationMsg P v)) (po_msgfeeUpdateConfigurationMsg message)"

definition field_bnsd_ProposalOptions :: "proto_lib \<Rightarrow> bnsd_IProposalOptions \<Rightarrow> int \<Rightarrow> byte list \<Rightarrow> (bnsd_IProposalOptions \<times> byte list) result" where
  "field_bnsd_ProposalOptions P message tag bs =
     (if tag div 8 = 51 then get (\<lambda>v. message) (get_message P (decode_cash_SendMsg P) bs)
      else if tag div 8 = 53 then get (\<lambda>v. message\<lparr>po_escrowReleaseMsg := Some v\<rparr>) (get_message P (decode_escrow_ReleaseMsg P) bs)
      else if tag div 8 = 55 then get (\<lambda>v. message) (get_message P (decode_escrow_UpdatePartiesMsg P) bs)
      else if tag div 8 = 57 then get (\<lambda>v. message) (get_message P (decode_multisig_UpdateMsg P) bs)
      else if tag div 8 = 58 then get (\<lambda>v. message\<lparr>po_validatorsApplyDiffMsg := Some v\<rparr>) (get_message P (decode_validators_ApplyDiffMsg P) bs)
      else if tag div 8 = 59 then get (\<lambda>v. message) (get_message P (decode_currency_CreateMsg P) bs)
      else if tag div 8 = 60 then get (\<lambda>v. message\<lparr>po_executeProposalBatchMsg := Some v\<rparr>) (get_message P (decode_bnsd_ExecuteProposalBatchMsg P) bs)
      else if tag div 8 = 61 then get (\<lambda>v. message) (get_message P (decode_username_RegisterTokenMsg P) bs)
      else if tag div 8 = 62 then get (\<lambda>v. message) (get_message P (decode_username_TransferTokenMsg P) bs)
      else if tag div 8 = 63 then get (\<lambda>v. message) (get_message P (decode_username_ChangeTokenTargetsMsg P) bs)
      else if tag div 8 = 64 then get (\<lambda>v. message) (get_message P (decode_username_UpdateConfigurationMsg P) bs)
      else if tag div 8 = 66 then get (\<lambda>v. message) (get_message P (decode_distribution_CreateMsg P) bs)
      else if tag div 8 = 67 then get (\<lambda>v. message) (get_message P (decode_distribution_DistributeMsg P) bs)
      else if tag div 8 = 68 then get (\<lambda>v. message) (get_message P (decode_distribution_ResetMsg P) bs)
      else if tag div 8 = 69 then get (\<lambda>v. message\<lparr>po_migrationUpgradeSchemaMsg := Some v\<rparr>) (get_message P (decode_migration_UpgradeSchemaMsg P) bs)
      else if tag div 8 = 77 then get (\<lambda>v. message\<lparr>po_govUpdateElectorateMsg := Some v\<rparr>) (get_message P (decode_gov_UpdateElectorateMsg P) bs)
      else if tag div 8 = 78 then get (\<lambda>v. message\<lparr>po_govUpdateElectionRuleMsg := Some v\<rparr>) (get_message P (decode_gov_UpdateElectionRuleMsg P) bs)
      else if tag div 8 = 79 then get (\<lambda>v. message\<lparr>po_govCreateTextResolutionMsg := Some v\<rparr>) (get_message P (decode_gov_CreateTextResolutionMsg P) bs)
      else if tag div 8 = 80 then get (\<lambda>v. message\<lparr>po_msgfeeSetMsgFeeMsg := Some v\<rparr>) (get_message P (decode_msgfee_SetMsgFeeMsg P) bs)
      else if tag div 8 = 81 then get (\<lambda>v. message\<lparr>po_datamigrationExecuteMigrationMsg := Some v\<rparr>) (get_message P (decode_datamigration_ExecuteMigrationMsg P) bs)
      else if tag div 8 = 82 then get (\<lambda>v. message\<lparr>po_accountUpdateConfigurationMsg := Some v\<rparr>) (get_message P (decode_account_UpdateConfigurationMsg P) bs)
      else if tag div 8 = 83 then get (\<lambda>v. message\<lparr>po_accountRegisterDomainMsg := Some v\<rparr>) (get_message P (decode_account_RegisterDomainMsg P) bs)
      else if tag div 8 = 84 then get (\<lambda>v. message\<lparr>po_accountReplaceAccountMsgFeesMsg := Some v\<rparr>) (get_message P (decode_account_ReplaceAccountMsgFeesMsg P) bs)
      else if tag div 8 = 85 then get (\<lambda>v. message) (get_message P (decode_account_TransferDomainMsg P) bs)
      else if tag div 8 = 86 then get (\<lambda>v. message\<lparr>po_accountRenewDomainMsg := Some v\<rparr>) (get_message P (decode_account_RenewDomainMsg P) bs)
      else if tag div 8 = 87 then get (\<lambda>v. message) (get_message P (decode_account_DeleteDomainMsg P) bs)
      else if tag div 8 = 88 then get (\<lambda>v. message) (get_message P (decode_account_RegisterAccountMsg P) bs)
      else if tag div 8 = 89 then get (\<lambda>v. message) (get_message P (decode_account_TransferAccountMsg P) bs)
      else if tag div 8 = 90 then get (\<lambda>v. message\<lparr>po_accountReplaceAccountTargetsMsg := Some v\<rparr>) (get_message P (decode_account_ReplaceAccountTargetsMsg P) bs)
      else if tag div 8 = 91 then get (\<lambda>v. message) (get_message P (decode_account_DeleteAccountMsg P) bs)
      else if tag div 8 = 92 then get (\<lambda>v. message) (get_message P (decode_account_FlushDomainMsg P) bs)
      else if tag div 8 = 93 then get (\<lambda>v. message) (get_message P (decode_account_RenewAccountMsg P) bs)
      else if tag div 8 = 94 then get (\<lambda>v. message\<lparr>po_accountAddAccountCertificateMsg := Some v\<rparr>) (get_message P (decode_account_AddAccountCertificateMsg P) bs)
      else if tag div 8 = 95 then get (\<lambda>v. message\<lparr>po_accountDeleteAccountCertificateMsg := Some v\<rparr>) (get_message P (decode_account_DeleteAccountCertificateMsg P) bs)
      else if tag div 8 = 97 then get (\<lambda>v. message\<lparr>po_cashUpdateConfigurationMsg := Some v\<rparr>) (get_message P (decode_cash_UpdateConfigurationMsg P) bs)
      else if tag div 8 = 98 then get (\<lambda>v. message\<lparr>po_txfeeUpdateConfigurationMsg := Some v\<rparr>) (get_message P (decode_txfee_UpdateConfigurationMsg P) bs)
      else if tag div 8 = 99 then get (\<lambda>v. message) (get_message P (decode_termdeposit_CreateDepositContractMsg P) bs)
      else if tag div 8 = 100 then get (\<lambda>v. message) (get_message P (decode_termdeposit_DepositMsg P) bs)
      else if tag div 8 = 101 then get (\<lambda>v. message) (get_message P (decode_termdeposit_ReleaseDepositMsg P) bs)
      else if tag div 8 = 102 then get (\<lambda>v. message\<lparr>po_termdepositUpdateConfigurationMsg := Some v\<rparr>) (get_message P (decode_termdeposit_UpdateConfigurationMsg P) bs)
      else if tag div 8 = 103 then get (\<lambda>v. message\<lparr>po_qualityscoreUpdateConfigurationMsg := Some v\<rparr>) (get_message P (decode_qualityscore_UpdateConfigurationMsg P) bs)
      else if tag div 8 = 104 then get (\<lambda>v. message\<lparr>po_preregistrationUpdateConfigurationMsg := Some v\<rparr>) (get_message P (decode_preregistration_UpdateConfigurationMsg P) bs)
      else if tag div 8 = 105 then get (\<lambda>v. message\<lparr>po_msgfeeUpdateConfigurationMsg := Some v\<rparr>) (get_message P (decode_msgfee_UpdateConfigurationMsg P) bs)
      else skip P tag message bs)"

definition decode_bnsd_ProposalOptions :: "proto_lib \<Rightarrow> byte list \<Rightarrow> int \<Rightarrow> (bnsd_IProposalOptions \<times> byte list) result" where
  "decode_bnsd_ProposalOptions P = read_message P (field_bnsd_ProposalOptions P) new_bnsd_ProposalOptions"

definition valid_bnsd_ProposalOptions :: "bnsd_IProposalOptions \<Rightarrow> bool" where
  "valid_bnsd_ProposalOptions message \<longleftrightarrow> pred_option valid_escrow_ReleaseMsg (po_escrowReleaseMsg message) \<and>
     pred_option valid_validators_ApplyDiffMsg (po_validatorsApplyDiffMsg message) \<and>
     pred_option valid_bnsd_ExecuteProposalBatchMsg (po_executeProposalBatchMsg message) \<and>
     pred_option valid_migration_UpgradeSchemaMsg (po_migrationUpgradeSchemaMsg message) \<and>
     pred_option valid_gov_UpdateElectorateMsg (po_govUpdateElectorateMsg message) \<and>
     pred_option valid_gov_UpdateElectionRuleMsg (po_govUpdateElectionRuleMsg message) \<and>
     pred_option valid_gov_CreateTextResolutionMsg (po_govCreateTextResolutionMsg message) \<and>
     pred_option valid_msgfee_SetMsgFeeMsg (po_msgfeeSetMsgFeeMsg message) \<and>
     pred_option valid_datamigration_ExecuteMigrationMsg (po_datamigrationExecuteMigrationMsg message) \<and>
     pred_option valid_account_UpdateConfigurationMsg (po_accountUpdateConfigurationMsg message) \<and>
     pred_option valid_account_RegisterDomainMsg (po_accountRegisterDomainMsg message) \<and>
     pred_option valid_account_ReplaceAccountMsgFeesMsg (po_accountReplaceAccountMsgFeesMsg message) \<and>
     pred_option valid_account_RenewDomainMsg (po_accountRenewDomainMsg message) \<and>
     pred_option valid_account_ReplaceAccountTargetsMsg (po_accountReplaceAccountTargetsMsg message) \<and>
     pred_option valid_account_AddAccountCertificateMsg (po_accountAddAccountCertificateMsg message) \<and>
     pred_option valid_account_DeleteAccountCertificateMsg (po_accountDeleteAccountCertificateMsg message) \<and>
     pred_option valid_cash_UpdateConfigurationMsg (po_cashUpdateConfigurationMsg message) \<and>
     pred_option valid_txfee_UpdateConfigurationMsg (po_txfeeUpdateConfigurationMsg message) \<and>
     pred_option valid_termdeposit_UpdateConfigurationMsg (po_termdepositUpdateConfigurationMsg message) \<and>
     pred_option valid_qualityscore_UpdateConfigurationMsg (po_qualityscoreUpdateConfigurationMsg message) \<and>
     pred_option valid_preregistration_UpdateConfigurationMsg (po_preregistrationUpdateConfigurationMsg message) \<and>
     pred_option valid_msgfee_UpdateConfigurationMsg (po_msgfeeUpdateConfigurationMsg message)"

lemma decodes_bnsd_ProposalOptions:
  assumes P: "proto_laws P" and "valid_bnsd_ProposalOptions m"
  shows "decodes (decode_bnsd_ProposalOptions P) (encode_bnsd_ProposalOptions P m) (norm_bnsd_IProposalOptions m)"
proof -
  have "writes P (field_bnsd_ProposalOptions P) (encode_bnsd_ProposalOptions P m) new_bnsd_ProposalOptions
      (set_field po_msgfeeUpdateConfigurationMsg_update (map_option norm_msgfee_IUpdateConfigurationMsg (po_msgfeeUpdateConfigurationMsg m)) (set_field po_preregistrationUpdateConfigurationMsg_update (map_option norm_preregistration_IUpdateConfigurationMsg (po_preregistrationUpdateConfigurationMsg m)) (set_field po_qualityscoreUpdateConfigurationMsg_update (map_option norm_qualityscore_IUpdateConfigurationMsg (po_qualityscoreUpdateConfigurationMsg m)) (set_field po_termdepositUpdateConfigurationMsg_update (map_option norm_termdeposit_IUpdateConfigurationMsg (po_termdepositUpdateConfigurationMsg m)) (set_field po_txfeeUpdateConfigurationMsg_update (map_option norm_txfee_IUpdateConfigurationMsg (po_txfeeUpdateConfigurationMsg m)) (set_field po_cashUpdateConfigurationMsg_update (map_option norm_cash_IUpdateConfigurationMsg (po_cashUpdateConfigurationMsg m)) (set_field po_accountDeleteAccountCertificateMsg_update (map_option norm_account_IDeleteAccountCertificateMsg (po_accountDeleteAccountCertificateMsg m)) (set_field po_accountAddAccountCertificateMsg_update (map_option norm_account_IAddAccountCertificateMsg (po_accountAddAccountCertificateMsg m)) (set_field po_accountReplaceAccountTargetsMsg_update (map_option norm_account_IReplaceAccountTargetsMsg (po_accountReplaceAccountTargetsMsg m)) (set_field po_accountRenewDomainMsg_update (map_option norm_account_IRenewDomainMsg (po_accountRenewDomainMsg m)) (set_field po_accountReplaceAccountMsgFeesMsg_update (map_option norm_account_IReplaceAccountMsgFeesMsg (po_accountReplaceAccountMsgFeesMsg m)) (set_field po_accountRegisterDomainMsg_update (map_option norm_account_IRegisterDomainMsg (po_accountRegisterDomainMsg m)) (set_field po_accountUpdateConfigurationMsg_update (map_option norm_account_IUpdateConfigurationMsg (po_accountUpdateConfigurationMsg m)) (set_field po_datamigrationExecuteMigrationMsg_update (map_option norm_datamigration_IExecuteMigrationMsg (po_datamigrationExecuteMigrationMsg m)) (set_field po_msgfeeSetMsgFeeMsg_update (map_option norm_msgfee_ISetMsgFeeMsg (po_msgfeeSetMsgFeeMsg m)) (set_field po_govCreateTextResolutionMsg_update (map_option norm_gov_ICreateTextResolutionMsg (po_govCreateTextResolutionMsg m)) (set_field po_govUpdateElectionRuleMsg_update (map_option norm_gov_IUpdateElectionRuleMsg (po_govUpdateElectionRuleMsg m)) (set_field po_govUpdateElectorateMsg_update (map_option norm_gov_IUpdateElectorateMsg (po_govUpdateElectorateMsg m)) (set_field po_migrationUpgradeSchemaMsg_update (map_option norm_migration_IUpgradeSchemaMsg (po_migrationUpgradeSchemaMsg m)) (set_field po_executeProposalBatchMsg_update (map_option norm_bnsd_IExecuteProposalBatchMsg (po_executeProposalBatchMsg m)) (set_field po_validatorsApplyDiffMsg_update (map_option norm_validators_IApplyDiffMsg (po_validatorsApplyDiffMsg m)) (set_field po_escrowReleaseMsg_update (map_option norm_escrow_IReleaseMsg (po_escrowReleaseMsg m)) new_bnsd_ProposalOptions))))))))))))))))))))))"
    unfolding encode_bnsd_ProposalOptions_def
    by (rule writes_chain
        | rule writes_message [where valid = valid_escrow_ReleaseMsg, OF P _ _ decodes_escrow_ReleaseMsg [OF P]]
        | rule writes_message [where valid = valid_validators_ApplyDiffMsg, OF P _ _ decodes_validators_ApplyDiffMsg [OF P]]
        | rule writes_message [where valid = valid_bnsd_ExecuteProposalBatchMsg, OF P _ _ decodes_bnsd_ExecuteProposalBatchMsg [OF P]]
        | rule writes_message [where valid = valid_migration_UpgradeSchemaMsg, OF P _ _ decodes_migration_UpgradeSchemaMsg [OF P]]
        | rule writes_message [where valid = valid_gov_UpdateElectorateMsg, OF P _ _ decodes_gov_UpdateElectorateMsg [OF P]]
        | rule writes_message [where valid = valid_gov_UpdateElectionRuleMsg, OF P _ _ decodes_gov_UpdateElectionRuleMsg [OF P]]
        | rule writes_message [where valid = valid_gov_CreateTextResolutionMsg, OF P _ _ decodes_gov_CreateTextResolutionMsg [OF P]]
        | rule writes_message [where valid = valid_msgfee_SetMsgFeeMsg, OF P _ _ decodes_msgfee_SetMsgFeeMsg [OF P]]
        | rule writes_message [where valid = valid_datamigration_ExecuteMigrationMsg, OF P _ _ decodes_datamigration_ExecuteMigrationMsg [OF P]]
        | rule writes_message [where valid = valid_account_UpdateConfigurationMsg, OF P _ _ decodes_account_UpdateConfigurationMsg [OF P]]
        | rule writes_message [where valid = valid_account_RegisterDomainMsg, OF P _ _ decodes_account_RegisterDomainMsg [OF P]]
        | rule writes_message [where valid = valid_account_ReplaceAccountMsgFeesMsg, OF P _ _ decodes_account_ReplaceAccountMsgFeesMsg [OF P]]
        | rule writes_message [where valid = valid_account_RenewDomainMsg, OF P _ _ decodes_account_RenewDomainMsg [OF P]]
        | rule writes_message [where valid = valid_account_ReplaceAccountTargetsMsg, OF P _ _ decodes_account_ReplaceAccountTargetsMsg [OF P]]
        | rule writes_message [where valid = valid_account_AddAccountCertificateMsg, OF P _ _ decodes_account_AddAccountCertificateMsg [OF P]]
        | rule writes_message [where valid = valid_account_DeleteAccountCertificateMsg, OF P _ _ decodes_account_DeleteAccountCertificateMsg [OF P]]
        | rule writes_message [where valid = valid_cash_UpdateConfigurationMsg, OF P _ _ decodes_cash_UpdateConfigurationMsg [OF P]]
        | rule writes_message [where valid = valid_txfee_UpdateConfigurationMsg, OF P _ _ decodes_txfee_UpdateConfigurationMsg [OF P]]
        | rule writes_message [where valid = valid_termdeposit_UpdateConfigurationMsg, OF P _ _ decodes_termdeposit_UpdateConfigurationMsg [OF P]]
        | rule writes_message [where valid = valid_qualityscore_UpdateConfigurationMsg, OF P _ _ decodes_qualityscore_UpdateConfigurationMsg [OF P]]
        | rule writes_message [where valid = valid_preregistration_UpdateConfigurationMsg, OF P _ _ decodes_preregistration_UpdateConfigurationMsg [OF P]]
        | rule writes_message [where valid = valid_msgfee_UpdateConfigurationMsg, OF P _ _ decodes_msgfee_UpdateConfigurationMsg [OF P]]
        | (simp add: field_bnsd_ProposalOptions_def new_bnsd_ProposalOptions_def set_field_def elements_def is_uint32_def assms(2) [unfolded valid_bnsd_ProposalOptions_def] no_option_def; fail))+
  then show ?thesis
    unfolding decode_bnsd_ProposalOptions_def by (intro decodes_message) (simp add: set_field_def new_bnsd_ProposalOptions_def norm_bnsd_IProposalOptions_def no_option_def)
qed

section \<open>bnsd.Tx\<close>

definition new_bnsd_Tx :: bnsd_ITx where
  "new_bnsd_Tx = \<lparr>itx_msg = no_msg, itx_fees = None, itx_signatures = Some [], itx_multisig = Some []\<rparr>"

definition encode_bnsd_Tx :: "proto_lib \<Rightarrow> bnsd_ITx \<Rightarrow> byte list" where
  "encode_bnsd_Tx P message =
     put P 10 (\<lambda>v. ldelim P (encode_cash_FeeInfo P v)) (itx_fees message) @
     put_each P 18 (\<lambda>v. ldelim P (encode_sigs_StdSignature P v)) (itx_signatures message) @
     put_each P 34 (pw_bytes P) (itx_multisig message) @
     put P 410 (\<lambda>v. ldelim P (encode_cash_SendMsg P v)) (cashSendMsg (itx_msg message)) @
     put P 418 (\<lambda>v. ldelim P (encode_escrow_CreateMsg P v)) (escrowCreateMsg (itx_msg message)) @
     put P 426 (\<lambda>v. ldelim P (encode_escrow_ReleaseMsg P v)) (escrowReleaseMsg (itx_msg message)) @
     put P 434 (\<lambda>v. ldelim P (encode_escrow_ReturnMsg P v)) (escrowReturnMsg (itx_msg message)) @
     put P 442 (\<lambda>v. ldelim P (encode_escrow_UpdatePartiesMsg P v)) (escrowUpdatePartiesMsg (itx_msg message)) @
     put P 450 (\<lambda>v. ldelim P (encode_multisig_CreateMsg P v)) (multisigCreateMsg (itx_msg message)) @
     put P 458 (\<lambda>v. ldelim P (encode_multisig_UpdateMsg P v)) (multisigUpdateMsg (itx_msg message)) @
     put P 490 (\<lambda>v. ldelim P (encode_username_RegisterTokenMsg P v)) (usernameRegisterTokenMsg (itx_msg message)) @
     put P 498 (\<lambda>v. ldelim P (encode_username_TransferTokenMsg P v)) (usernameTransferTokenMsg (itx_msg message)) @
     put P 506 (\<lambda>v. ldelim P (encode_username_ChangeTokenTargetsMsg P v)) (usernameChangeTokenTargetsMsg (itx_msg message)) @
     put P 562 (\<lambda>v. ldelim P (encode_aswap_CreateMsg P v)) (aswapCreateMsg (itx_msg message)) @
     put P 570 (\<lambda>v. ldelim P (encode_aswap_ReleaseMsg P v)) (aswapReleaseMsg (itx_msg message)) @
     put P 578 (\<lambda>v. ldelim P (encode_aswap_ReturnMsg P v)) (aswapReturnMsg (itx_msg message)) @
     put P 586 (\<lambda>v. ldelim P (encode_gov_CreateProposalMsg P v)) (govCreateProposalMsg (itx_msg message)) @
     put P 602 (\<lambda>v. ldelim P (encode_gov_VoteMsg P v)) (govVoteMsg (itx_msg message)) @
     put P 658 (\<lambda>v. ldelim P (encode_account_UpdateConfigurationMsg P v)) (accountUpdateConfigurationMsg (itx_msg message)) @
     put P 666 (\<lambda>v. ldelim P (encode_account_RegisterDomainMsg P v)) (accountRegisterDomainMsg (itx_msg message)) @
     put P 674 (\<lambda>v. ldelim P (encode_account_ReplaceAccountMsgFeesMsg P v)) (accountReplaceAccountMsgFeesMsg (itx_msg message)) @
     put P 682 (\<lambda>v. ldelim P (encode_account_TransferDomainMsg P v)) (accountTransferDomainMsg (itx_msg message)) @
     put P 690 (\<lambda>v. ldelim P (encode_account_RenewDomainMsg P v)) (accountRenewDomainMsg (itx_msg message)) @
     put P 698 (\<lambda>v. ldelim P (encode_account_DeleteDomainMsg P v)) (accountDeleteDomainMsg (itx_msg message)) @
     put P 706 (\<lambda>v. ldelim P (encode_account_RegisterAccountMsg P v)) (accountRegisterAccountMsg (itx_msg message)) @
     put P 714 (\<lambda>v. ldelim P (encode_account_TransferAccountMsg P v)) (accountTransferAccountMsg (itx_msg message)) @
     put P 722 (\<lambda>v. ldelim P (encode_account_ReplaceAccountTargetsMsg P v)) (accountReplaceAccountTargetsMsg (itx_msg message)) @
     put P 730 (\<lambda>v. ldelim P (encode_account_DeleteAccountMsg P v)) (accountDeleteAccountMsg (itx_msg message)) @
     put P 738 (\<lambda>v. ldelim P (encode_account_FlushDomainMsg P v)) (accountFlushDomainMsg (itx_msg message)) @
     put P 746 (\<lambda>v. ldelim P (encode_account_RenewAccountMsg P v)) (accountRenewAccountMsg (itx_msg message)) @
     put P 754 (\<lambda>v. ldelim P (encode_account_AddAccountCertificateMsg P v)) (accountAddAccountCertificateMsg (itx_msg message)) @
     put P 762 (\<lambda>v. ldelim P (encode_account_DeleteAccountCertificateMsg P v)) (accountDeleteAccountCertificateMsg (itx_msg message))"

definition field_bnsd_Tx :: "proto_lib \<Rightarrow> bnsd_ITx \<Rightarrow> int \<Rightarrow> byte list \<Rightarrow> (bnsd_ITx \<times> byte list) result" where
  "field_bnsd_Tx P message tag bs =
     (if tag div 8 = 1 then get (\<lambda>v. message\<lparr>itx_fees := Some v\<rparr>) (get_message P (decode_cash_FeeInfo P) bs)
      else if tag div 8 = 2 then get (\<lambda>v. message\<lparr>itx_signatures := Some (elements (itx_signatures message) @ [v])\<rparr>) (get_message P (decode_sigs_StdSignature P) bs)
      else if tag div 8 = 4 then get (\<lambda>v. message\<lparr>itx_multisig := Some (elements (itx_multisig message) @ [v])\<rparr>) (pr_bytes P bs)
      else if tag div 8 = 51 then get (\<lambda>v. message\<lparr>itx_msg := (itx_msg message)\<lparr>cashSendMsg := Some v\<rparr>\<rparr>) (get_message P (decode_cash_SendMsg P) bs)
      else if tag div 8 = 52 then get (\<lambda>v. message\<lparr>itx_msg := (itx_msg message)\<lparr>escrowCreateMsg := Some v\<rparr>\<rparr>) (get_message P (decode_escrow_CreateMsg P) bs)
      else if tag div 8 = 53 then get (\<lambda>v. message\<lparr>itx_msg := (itx_msg message)\<lparr>escrowReleaseMsg := Some v\<rparr>\<rparr>) (get_message P (decode_escrow_ReleaseMsg P) bs)
      else if tag div 8 = 54 then get (\<lambda>v. message\<lparr>itx_msg := (itx_msg message)\<lparr>escrowReturnMsg := Some v\<rparr>\<rparr>) (get_message P (decode_escrow_ReturnMsg P) bs)
      else if tag div 8 = 55 then get (\<lambda>v. message\<lparr>itx_msg := (itx_msg message)\<lparr>escrowUpdatePartiesMsg := Some v\<rparr>\<rparr>) (get_message P (decode_escrow_UpdatePartiesMsg P) bs)
      else if tag div 8 = 56 then get (\<lambda>v. message\<lparr>itx_msg := (itx_msg message)\<lparr>multisigCreateMsg := Some v\<rparr>\<rparr>) (get_message P (decode_multisig_CreateMsg P) bs)
      else if tag div 8 = 57 then get (\<lambda>v. message\<lparr>itx_msg := (itx_msg message)\<lparr>multisigUpdateMsg := Some v\<rparr>\<rparr>) (get_message P (decode_multisig_UpdateMsg P) bs)
      else if tag div 8 = 58 then get (\<lambda>v. message) (get_message P (decode_validators_ApplyDiffMsg P) bs)
      else if tag div 8 = 59 then get (\<lambda>v. message) (get_message P (decode_currency_CreateMsg P) bs)
      else if tag div 8 = 60 then get (\<lambda>v. message) (get_message P (decode_bnsd_ExecuteBatchMsg P) bs)
      else if tag div 8 = 61 then get (\<lambda>v. message\<lparr>itx_msg := (itx_msg message)\<lparr>usernameRegisterTokenMsg := Some v\<rparr>\<rparr>) (get_message P (decode_username_RegisterTokenMsg P) bs)
      else if tag div 8 = 62 then get (\<lambda>v. message\<lparr>itx_msg := (itx_msg message)\<lparr>usernameTransferTokenMsg := Some v\<rparr>\<rparr>) (get_message P (decode_username_TransferTokenMsg P) bs)
      else if tag div 8 = 63 then get (\<lambda>v. message\<lparr>itx_msg := (itx_msg message)\<lparr>usernameChangeTokenTargetsMsg := Some v\<rparr>\<rparr>) (get_message P (decode_username_ChangeTokenTargetsMsg P) bs)
      else if tag div 8 = 64 then get (\<lambda>v. message) (get_message P (decode_username_UpdateConfigurationMsg P) bs)
      else if tag div 8 = 66 then get (\<lambda>v. message) (get_message P (decode_distribution_CreateMsg P) bs)
      else if tag div 8 = 67 then get (\<lambda>v. message) (get_message P (decode_distribution_DistributeMsg P) bs)
      else if tag div 8 = 68 then get (\<lambda>v. message) (get_message P (decode_distribution_ResetMsg P) bs)
      else if tag div 8 = 69 then get (\<lambda>v. message) (get_message P (decode_migration_UpgradeSchemaMsg P) bs)
      else if tag div 8 = 70 then get (\<lambda>v. message\<lparr>itx_msg := (itx_msg message)\<lparr>aswapCreateMsg := Some v\<rparr>\<rparr>) (get_message P (decode_aswap_CreateMsg P) bs)
      else if tag div 8 = 71 then get (\<lambda>v. message\<lparr>itx_msg := (itx_msg message)\<lparr>aswapReleaseMsg := Some v\<rparr>\<rparr>) (get_message P (decode_aswap_ReleaseMsg P) bs)
      else if tag div 8 = 72 then get (\<lambda>v. message\<lparr>itx_msg := (itx_msg message)\<lparr>aswapReturnMsg := Some v\<rparr>\<rparr>) (get_message P (decode_aswap_ReturnMsg P) bs)
      else if tag div 8 = 73 then get (\<lambda>v. message\<lparr>itx_msg := (itx_msg message)\<lparr>govCreateProposalMsg := Some v\<rparr>\<rparr>) (get_message P (decode_gov_CreateProposalMsg P) bs)
      else if tag div 8 = 74 then get (\<lambda>v. message) (get_message P (decode_gov_DeleteProposalMsg P) bs)
      else if tag div 8 = 75 then get (\<lambda>v. message\<lparr>itx_msg := (itx_msg message)\<lparr>govVoteMsg := Some v\<rparr>\<rparr>) (get_message P (decode_gov_VoteMsg P) bs)
      else if tag div 8 = 77 then get (\<lambda>v. message) (get_message P (decode_gov_UpdateElectorateMsg P) bs)
      else if tag div 8 = 78 then get (\<lambda>v. message) (get_message P (decode_gov_UpdateElectionRuleMsg P) bs)
      else if tag div 8 = 80 then get (\<lambda>v. message) (get_message P (decode_msgfee_SetMsgFeeMsg P) bs)
      else if tag div 8 = 81 then get (\<lambda>v. message) (get_message P (decode_datamigration_ExecuteMigrationMsg P) bs)
      else if tag div 8 = 82 then get (\<lambda>v. message\<lparr>itx_msg := (itx_msg message)\<lparr>accountUpdateConfigurationMsg := Some v\<rparr>\<rparr>) (get_message P (decode_account_UpdateConfigurationMsg P) bs)
      else if tag div 8 = 83 then get (\<lambda>v. message\<lparr>itx_msg := (itx_msg message)\<lparr>accountRegisterDomainMsg := Some v\<rparr>\<rparr>) (get_message P (decode_account_RegisterDomainMsg P) bs)
      else if tag div 8 = 84 then get (\<lambda>v. message\<lparr>itx_msg := (itx_msg message)\<lparr>accountReplaceAccountMsgFeesMsg := Some v\<rparr>\<rparr>) (get_message P (decode_account_ReplaceAccountMsgFeesMsg P) bs)
      else if tag div 8 = 85 then get (\<lambda>v. message\<lparr>itx_msg := (itx_msg message)\<lparr>accountTransferDomainMsg := Some v\<rparr>\<rparr>) (get_message P (decode_account_TransferDomainMsg P) bs)
      else if tag div 8 = 86 then get (\<lambda>v. message\<lparr>itx_msg := (itx_msg message)\<lparr>accountRenewDomainMsg := Some v\<rparr>\<rparr>) (get_message P (decode_account_RenewDomainMsg P) bs)
      else if tag div 8 = 87 then get (\<lambda>v. message\<lparr>itx_msg := (itx_msg message)\<lparr>accountDeleteDomainMsg := Some v\<rparr>\<rparr>) (get_message P (decode_account_DeleteDomainMsg P) bs)
      else if tag div 8 = 88 then get (\<lambda>v. message\<lparr>itx_msg := (itx_msg message)\<lparr>accountRegisterAccountMsg := Some v\<rparr>\<rparr>) (get_message P (decode_account_RegisterAccountMsg P) bs)
      else if tag div 8 = 89 then get (\<lambda>v. message\<lparr>itx_msg := (itx_msg message)\<lparr>accountTransferAccountMsg := Some v\<rparr>\<rparr>) (get_message P (decode_account_TransferAccountMsg P) bs)
      else if tag div 8 = 90 then get (\<lambda>v. message\<lparr>itx_msg := (itx_msg message)\<lparr>accountReplaceAccountTargetsMsg := Some v\<rparr>\<rparr>) (get_message P (decode_account_ReplaceAccountTargetsMsg P) bs)
      else if tag div 8 = 91 then get (\<lambda>v. message\<lparr>itx_msg := (itx_msg message)\<lparr>accountDeleteAccountMsg := Some v\<rparr>\<rparr>) (get_message P (decode_account_DeleteAccountMsg P) bs)
      else if tag div 8 = 92 then get (\<lambda>v. message\<lparr>itx_msg := (itx_msg message)\<lparr>accountFlushDomainMsg := Some v\<rparr>\<rparr>) (get_message P (decode_account_FlushDomainMsg P) bs)
      else if tag div 8 = 93 then get (\<lambda>v. message\<lparr>itx_msg := (itx_msg message)\<lparr>accountRenewAccountMsg := Some v\<rparr>\<rparr>) (get_message P (decode_account_RenewAccountMsg P) bs)
      else if tag div 8 = 94 then get (\<lambda>v. message\<lparr>itx_msg := (itx_msg message)\<lparr>accountAddAccountCertificateMsg := Some v\<rparr>\<rparr>) (get_message P (decode_account_AddAccountCertificateMsg P) bs)
      else if tag div 8 = 95 then get (\<lambda>v. message\<lparr>itx_msg := (itx_msg message)\<lparr>accountDeleteAccountCertificateMsg := Some v\<rparr>\<rparr>) (get_message P (decode_account_DeleteAccountCertificateMsg P) bs)
      else if tag div 8 = 96 then get (\<lambda>v. message) (get_message P (decode_preregistration_RegisterMsg P) bs)
      else if tag div 8 = 97 then get (\<lambda>v. message) (get_message P (decode_cash_UpdateConfigurationMsg P) bs)
      else if tag div 8 = 98 then get (\<lambda>v. message) (get_message P (decode_txfee_UpdateConfigurationMsg P) bs)
      else if tag div 8 = 99 then get (\<lambda>v. message) (get_message P (decode_termdeposit_CreateDepositContractMsg P) bs)
      else if tag div 8 = 100 then get (\<lambda>v. message) (get_message P (decode_termdeposit_DepositMsg P) bs)
      else if tag div 8 = 101 then get (\<lambda>v. message) (get_message P (decode_termdeposit_ReleaseDepositMsg P) bs)
      else if tag div 8 = 102 then get (\<lambda>v. message) (get_message P (decode_termdeposit_UpdateConfigurationMsg P) bs)
      else if tag div 8 = 103 then get (\<lambda>v. message) (get_message P (decode_qualityscore_UpdateConfigurationMsg P) bs)
      else if tag div 8 = 104 then get (\<lambda>v. message) (get_message P (decode_preregistration_UpdateConfigurationMsg P) bs)
      else if tag div 8 = 105 then get (\<lambda>v. message) (get_message P (decode_msgfee_UpdateConfigurationMsg P) bs)
      else skip P tag message bs)"

definition decode_bnsd_Tx :: "proto_lib \<Rightarrow> byte list \<Rightarrow> int \<Rightarrow> (bnsd_ITx \<times> byte list) result" where
  "decode_bnsd_Tx P = read_message P (field_bnsd_Tx P) new_bnsd_Tx"

definition valid_bnsd_Tx :: "bnsd_ITx \<Rightarrow> bool" where
  "valid_bnsd_Tx message \<longleftrightarrow> pred_option valid_cash_FeeInfo (itx_fees message) \<and>
     pred_option (list_all valid_sigs_StdSignature) (itx_signatures message) \<and>
     pred_option valid_cash_SendMsg (cashSendMsg (itx_msg message)) \<and>
     pred_option valid_escrow_CreateMsg (escrowCreateMsg (itx_msg message)) \<and>
     pred_option valid_escrow_ReleaseMsg (escrowReleaseMsg (itx_msg message)) \<and>
     pred_option valid_escrow_ReturnMsg (escrowReturnMsg (itx_msg message)) \<and>
     pred_option valid_escrow_UpdatePartiesMsg (escrowUpdatePartiesMsg (itx_msg message)) \<and>
     pred_option valid_multisig_CreateMsg (multisigCreateMsg (itx_msg message)) \<and>
     pred_option valid_multisig_UpdateMsg (multisigUpdateMsg (itx_msg message)) \<and>
     pred_option valid_username_RegisterTokenMsg (usernameRegisterTokenMsg (itx_msg message)) \<and>
     pred_option valid_username_TransferTokenMsg (usernameTransferTokenMsg (itx_msg message)) \<and>
     pred_option valid_username_ChangeTokenTargetsMsg (usernameChangeTokenTargetsMsg (itx_msg message)) \<and>
     pred_option valid_aswap_CreateMsg (aswapCreateMsg (itx_msg message)) \<and>
     pred_option valid_aswap_ReleaseMsg (aswapReleaseMsg (itx_msg message)) \<and>
     pred_option valid_aswap_ReturnMsg (aswapReturnMsg (itx_msg message)) \<and>
     pred_option valid_gov_CreateProposalMsg (govCreateProposalMsg (itx_msg message)) \<and>
     pred_option valid_gov_VoteMsg (govVoteMsg (itx_msg message)) \<and>
     pred_option valid_account_UpdateConfigurationMsg (accountUpdateConfigurationMsg (itx_msg message)) \<and>
     pred_option valid_account_RegisterDomainMsg (accountRegisterDomainMsg (itx_msg message)) \<and>
     pred_option valid_account_ReplaceAccountMsgFeesMsg (accountReplaceAccountMsgFeesMsg (itx_msg message)) \<and>
     pred_option valid_account_TransferDomainMsg (accountTransferDomainMsg (itx_msg message)) \<and>
     pred_option valid_account_RenewDomainMsg (accountRenewDomainMsg (itx_msg message)) \<and>
     pred_option valid_account_DeleteDomainMsg (accountDeleteDomainMsg (itx_msg message)) \<and>
     pred_option valid_account_RegisterAccountMsg (accountRegisterAccountMsg (itx_msg message)) \<and>
     pred_option valid_account_TransferAccountMsg (accountTransferAccountMsg (itx_msg message)) \<and>
     pred_option valid_account_ReplaceAccountTargetsMsg (accountReplaceAccountTargetsMsg (itx_msg message)) \<and>
     pred_option valid_account_DeleteAccountMsg (accountDeleteAccountMsg (itx_msg message)) \<and>
     pred_option valid_account_FlushDomainMsg (accountFlushDomainMsg (itx_msg message)) \<and>
     pred_option valid_account_RenewAccountMsg (accountRenewAccountMsg (itx_msg message)) \<and>
     pred_option valid_account_AddAccountCertificateMsg (accountAddAccountCertificateMsg (itx_msg message)) \<and>
     pred_option valid_account_DeleteAccountCertificateMsg (accountDeleteAccountCertificateMsg (itx_msg message))"

lemma decodes_bnsd_Tx:
  assumes P: "proto_laws P" and "valid_bnsd_Tx m"
  shows "decodes (decode_bnsd_Tx P) (encode_bnsd_Tx P m) (norm_bnsd_ITx m)"
proof -
  have "writes P (field_bnsd_Tx P) (encode_bnsd_Tx P m) new_bnsd_Tx
      (set_field (\<lambda>g. itx_msg_update (accountDeleteAccountCertificateMsg_update g)) (map_option norm_account_IDeleteAccountCertificateMsg (accountDeleteAccountCertificateMsg (itx_msg m))) (set_field (\<lambda>g. itx_msg_update (accountAddAccountCertificateMsg_update g)) (map_option norm_account_IAddAccountCertificateMsg (accountAddAccountCertificateMsg (itx_msg m))) (set_field (\<lambda>g. itx_msg_update (accountRenewAccountMsg_update g)) (map_option norm_account_IRenewAccountMsg (accountRenewAccountMsg (itx_msg m))) (set_field (\<lambda>g. itx_msg_update (accountFlushDomainMsg_update g)) (map_option norm_account_IFlushDomainMsg (accountFlushDomainMsg (itx_msg m))) (set_field (\<lambda>g. itx_msg_update (accountDeleteAccountMsg_update g)) (map_option norm_account_IDeleteAccountMsg (accountDeleteAccountMsg (itx_msg m))) (set_field (\<lambda>g. itx_msg_update (accountReplaceAccountTargetsMsg_update g)) (map_option norm_account_IReplaceAccountTargetsMsg (accountReplaceAccountTargetsMsg (itx_msg m))) (set_field (\<lambda>g. itx_msg_update (accountTransferAccountMsg_update g)) (map_option norm_account_ITransferAccountMsg (accountTransferAccountMsg (itx_msg m))) (set_field (\<lambda>g. itx_msg_update (accountRegisterAccountMsg_update g)) (map_option norm_account_IRegisterAccountMsg (accountRegisterAccountMsg (itx_msg m))) (set_field (\<lambda>g. itx_msg_update (accountDeleteDomainMsg_update g)) (map_option norm_account_IDeleteDomainMsg (accountDeleteDomainMsg (itx_msg m))) (set_field (\<lambda>g. itx_msg_update (accountRenewDomainMsg_update g)) (map_option norm_account_IRenewDomainMsg (accountRenewDomainMsg (itx_msg m))) (set_field (\<lambda>g. itx_msg_update (accountTransferDomainMsg_update g)) (map_option norm_account_ITransferDomainMsg (accountTransferDomainMsg (itx_msg m))) (set_field (\<lambda>g. itx_msg_update (accountReplaceAccountMsgFeesMsg_update g)) (map_option norm_account_IReplaceAccountMsgFeesMsg (accountReplaceAccountMsgFeesMsg (itx_msg m))) (set_field (\<lambda>g. itx_msg_update (accountRegisterDomainMsg_update g)) (map_option norm_account_IRegisterDomainMsg (accountRegisterDomainMsg (itx_msg m))) (set_field (\<lambda>g. itx_msg_update (accountUpdateConfigurationMsg_update g)) (map_option norm_account_IUpdateConfigurationMsg (accountUpdateConfigurationMsg (itx_msg m))) (set_field (\<lambda>g. itx_msg_update (govVoteMsg_update g)) (map_option norm_gov_IVoteMsg (govVoteMsg (itx_msg m))) (set_field (\<lambda>g. itx_msg_update (govCreateProposalMsg_update g)) (map_option norm_gov_ICreateProposalMsg (govCreateProposalMsg (itx_msg m))) (set_field (\<lambda>g. itx_msg_update (aswapReturnMsg_update g)) (map_option norm_aswap_IReturnMsg (aswapReturnMsg (itx_msg m))) (set_field (\<lambda>g. itx_msg_update (aswapReleaseMsg_update g)) (map_option norm_aswap_IReleaseMsg (aswapReleaseMsg (itx_msg m))) (set_field (\<lambda>g. itx_msg_update (aswapCreateMsg_update g)) (map_option norm_aswap_ICreateMsg (aswapCreateMsg (itx_msg m))) (set_field (\<lambda>g. itx_msg_update (usernameChangeTokenTargetsMsg_update g)) (map_option norm_username_IChangeTokenTargetsMsg (usernameChangeTokenTargetsMsg (itx_msg m))) (set_field (\<lambda>g. itx_msg_update (usernameTransferTokenMsg_update g)) (map_option norm_username_ITransferTokenMsg (usernameTransferTokenMsg (itx_msg m))) (set_field (\<lambda>g. itx_msg_update (usernameRegisterTokenMsg_update g)) (map_option norm_username_IRegisterTokenMsg (usernameRegisterTokenMsg (itx_msg m))) (set_field (\<lambda>g. itx_msg_update (multisigUpdateMsg_update g)) (map_option norm_multisig_IUpdateMsg (multisigUpdateMsg (itx_msg m))) (set_field (\<lambda>g. itx_msg_update (multisigCreateMsg_update g)) (map_option norm_multisig_ICreateMsg (multisigCreateMsg (itx_msg m))) (set_field (\<lambda>g. itx_msg_update (escrowUpdatePartiesMsg_update g)) (map_option norm_escrow_IUpdatePartiesMsg (escrowUpdatePartiesMsg (itx_msg m))) (set_field (\<lambda>g. itx_msg_update (escrowReturnMsg_update g)) (map_option norm_escrow_IReturnMsg (escrowReturnMsg (itx_msg m))) (set_field (\<lambda>g. itx_msg_update (escrowReleaseMsg_update g)) (map_option norm_escrow_IReleaseMsg (escrowReleaseMsg (itx_msg m))) (set_field (\<lambda>g. itx_msg_update (escrowCreateMsg_update g)) (map_option norm_escrow_ICreateMsg (escrowCreateMsg (itx_msg m))) (set_field (\<lambda>g. itx_msg_update (cashSendMsg_update g)) (map_option norm_cash_ISendMsg (cashSendMsg (itx_msg m))) (set_field itx_multisig_update (norm_repeated (\<lambda>b. b) (itx_multisig m)) (set_field itx_signatures_update (norm_repeated norm_sigs_IStdSignature (itx_signatures m)) (set_field itx_fees_update (map_option norm_cash_IFeeInfo (itx_fees m)) new_bnsd_Tx))))))))))))))))))))))))))))))))"
    unfolding encode_bnsd_Tx_def
    by (rule writes_chain
        | rule writes_message [where valid = valid_cash_FeeInfo, OF P _ _ decodes_cash_FeeInfo [OF P]]
        | rule writes_messages [where valid = valid_sigs_StdSignature, OF P _ _ decodes_sigs_StdSignature [OF P]]
        | rule writes_repeated_bytes [OF P]
        | rule writes_message [where valid = valid_cash_SendMsg, OF P _ _ decodes_cash_SendMsg [OF P]]
        | rule writes_message [where valid = valid_escrow_CreateMsg, OF P _ _ decodes_escrow_CreateMsg [OF P]]
        | rule writes_message [where valid = valid_escrow_ReleaseMsg, OF P _ _ decodes_escrow_ReleaseMsg [OF P]]
        | rule writes_message [where valid = valid_escrow_ReturnMsg, OF P _ _ decodes_escrow_ReturnMsg [OF P]]
        | rule writes_message [where valid = valid_escrow_UpdatePartiesMsg, OF P _ _ decodes_escrow_UpdatePartiesMsg [OF P]]
        | rule writes_message [where valid = valid_multisig_CreateMsg, OF P _ _ decodes_multisig_CreateMsg [OF P]]
        | rule writes_message [where valid = valid_multisig_UpdateMsg, OF P _ _ decodes_multisig_UpdateMsg [OF P]]
        | rule writes_message [where valid = valid_username_RegisterTokenMsg, OF P _ _ decodes_username_RegisterTokenMsg [OF P]]
        | rule writes_message [where valid = valid_username_TransferTokenMsg, OF P _ _ decodes_username_TransferTokenMsg [OF P]]
        | rule writes_message [where valid = valid_username_ChangeTokenTargetsMsg, OF P _ _ decodes_username_ChangeTokenTargetsMsg [OF P]]
        | rule writes_message [where valid = valid_aswap_CreateMsg, OF P _ _ decodes_aswap_CreateMsg [OF P]]
        | rule writes_message [where valid = valid_aswap_ReleaseMsg, OF P _ _ decodes_aswap_ReleaseMsg [OF P]]
        | rule writes_message [where valid = valid_aswap_ReturnMsg, OF P _ _ decodes_aswap_ReturnMsg [OF P]]
        | rule writes_message [where valid = valid_gov_CreateProposalMsg, OF P _ _ decodes_gov_CreateProposalMsg [OF P]]
        | rule writes_message [where valid = valid_gov_VoteMsg, OF P _ _ decodes_gov_VoteMsg [OF P]]
        | rule writes_message [where valid = valid_account_UpdateConfigurationMsg, OF P _ _ decodes_account_UpdateConfigurationMsg [OF P]]
        | rule writes_message [where valid = valid_account_RegisterDomainMsg, OF P _ _ decodes_account_RegisterDomainMsg [OF P]]
        | rule writes_message [where valid = valid_account_ReplaceAccountMsgFeesMsg, OF P _ _ decodes_account_ReplaceAccountMsgFeesMsg [OF P]]
        | rule writes_message [where valid = valid_account_TransferDomainMsg, OF P _ _ decodes_account_TransferDomainMsg [OF P]]
        | rule writes_message [where valid = valid_account_RenewDomainMsg, OF P _ _ decodes_account_RenewDomainMsg [OF P]]
        | rule writes_message [where valid = valid_account_DeleteDomainMsg, OF P _ _ decodes_account_DeleteDomainMsg [OF P]]
        | rule writes_message [where valid = valid_account_RegisterAccountMsg, OF P _ _ decodes_account_RegisterAccountMsg [OF P]]
        | rule writes_message [where valid = valid_account_TransferAccountMsg, OF P _ _ decodes_account_TransferAccountMsg [OF P]]
        | rule writes_message [where valid = valid_account_ReplaceAccountTargetsMsg, OF P _ _ decodes_account_ReplaceAccountTargetsMsg [OF P]]
        | rule writes_message [where valid = valid_account_DeleteAccountMsg, OF P _ _ decodes_account_DeleteAccountMsg [OF P]]
        | rule writes_message [where valid = valid_account_FlushDomainMsg, OF P _ _ decodes_account_FlushDomainMsg [OF P]]
        | rule writes_message [where valid = valid_account_RenewAccountMsg, OF P _ _ decodes_account_RenewAccountMsg [OF P]]
        | rule writes_message [where valid = valid_account_AddAccountCertificateMsg, OF P _ _ decodes_account_AddAccountCertificateMsg [OF P]]
        | rule writes_message [where valid = valid_account_DeleteAccountCertificateMsg, OF P _ _ decodes_account_DeleteAccountCertificateMsg [OF P]]
        | (simp add: field_bnsd_Tx_def new_bnsd_Tx_def set_field_def elements_def is_uint32_def assms(2) [unfolded valid_bnsd_Tx_def] no_msg_def; fail))+
  then show ?thesis
    unfolding decode_bnsd_Tx_def by (intro decodes_message) (simp add: set_field_def new_bnsd_Tx_def norm_bnsd_ITx_def no_msg_def norm_BnsdTxMsg_def)
qed

end
