(* ===== verification/Pb_Wire.thy ===== *)
theory Pb_Wire
  imports Pb_Core
begin

text \<open>
  A writer and a reader with the wire format of protocol buffers, as its documentation
  describes it: integers in groups of seven bits, texts and bytes behind their length.
  They keep the laws that the message classes rely on (\<open>demo_proto_laws\<close>), so that a
  property with these laws is one about real messages.
\<close>

section \<open>Variable length integers\<close>

fun varint :: "nat \<Rightarrow> byte list" where
  "varint n = (if n < 128 then [word_of_nat n] else word_of_nat (128 + n mod 128) # varint (n div 128))"

declare varint.simps [simp del]

fun read_varint :: "byte list \<Rightarrow> (nat \<times> byte list) result" where
  "read_varint [] = throw ''index out of range''"
| "read_varint (b # bs) =
     (if unat b < 128 then ok (unat b, bs)
      else andThen (read_varint bs) (\<lambda>(high, rest). ok (unat b - 128 + 128 * high, rest)))"

lemma read_varint: "read_varint (varint n @ r) = ok (n, r)"
proof (induction n rule: varint.induct)
  case (1 n)
  have "128 + n mod 128 < 256" using mod_less_divisor [of 128 n] by linarith
  then have b: "unat (word_of_nat (128 + n mod 128) :: byte) = 128 + n mod 128"
    by (simp only: unat_of_nat) simp
  show ?case
  proof (cases "n < 128")
    case True
    then have "unat (word_of_nat n :: byte) = n" by (simp add: unat_of_nat)
    with True show ?thesis by (subst varint.simps) simp
  next
    case False
    with 1 b show ?thesis by (subst varint.simps) (simp add: mult.commute)
  qed
qed

section \<open>Writer and reader\<close>

definition write_int :: "int \<Rightarrow> byte list" where
  "write_int i = varint (nat (i mod 2 ^ 64))"

definition read_int :: "nat \<Rightarrow> byte list \<Rightarrow> (int \<times> byte list) result" where
  "read_int bits bs = andThen (read_varint bs) (\<lambda>(n, rest).
     let v = int n mod 2 ^ bits in ok (if v < 2 ^ (bits - 1) then v else v - 2 ^ bits, rest))"

definition write_data :: "byte list \<Rightarrow> byte list" where
  "write_data d = varint (length d) @ d"

definition read_data :: "byte list \<Rightarrow> (byte list \<times> byte list) result" where
  "read_data bs = andThen (read_varint bs) (\<lambda>(n, rest).
     if length rest < n then throw ''index out of range'' else ok (take n rest, drop n rest))"

definition read_skip :: "int \<Rightarrow> byte list \<Rightarrow> byte list result" where
  "read_skip wire_type bs =
     (if wire_type = 0 then andThen (read_varint bs) (\<lambda>(_, rest). ok rest)
      else if wire_type = 1 then (if length bs < 8 then throw ''index out of range'' else ok (drop 8 bs))
      else if wire_type = 2 then andThen (read_data bs) (\<lambda>(_, rest). ok rest)
      else if wire_type = 5 then (if length bs < 4 then throw ''index out of range'' else ok (drop 4 bs))
      else throw ''invalid wire type'')"

definition demo_proto :: proto_lib where
  "demo_proto = \<lparr>
     pw_uint32 = (\<lambda>n. varint (nat (floor_num n))), pw_int32 = (\<lambda>n. write_int (floor_num n)),
     pw_int64 = (\<lambda>w. write_int (wire_value w)), pw_uint64 = (\<lambda>w. write_int (wire_value w)),
     pw_bool = (\<lambda>b. [if b then 1 else 0]), pw_string = (\<lambda>s. write_data (toUtf8 s)), pw_bytes = write_data,
     pr_uint32 = (\<lambda>bs. andThen (read_varint bs) (\<lambda>(n, rest). ok (int n mod 2 ^ 32, rest))),
     pr_int32 = read_int 32, pr_int64 = read_int 64,
     pr_uint64 = (\<lambda>bs. andThen (read_varint bs) (\<lambda>(n, rest). ok (int n mod 2 ^ 64, rest))),
     pr_bool = (\<lambda>bs. andThen (read_varint bs) (\<lambda>(n, rest). ok (n \<noteq> 0, rest))),
     pr_string = (\<lambda>bs. andThen (read_data bs) (\<lambda>(d, rest). andThen (demo_utf8_decode d) (\<lambda>s. ok (s, rest)))),
     pr_bytes = read_data, pr_skipType = read_skip\<rparr>"

lemma read_data_write: "read_data (write_data d @ r) = ok (d, r)"
  by (simp add: read_data_def write_data_def read_varint)

text \<open>The low bits of the 64-bit form give a signed integer back.\<close>

lemma read_int_write:
  assumes "- (2 ^ (bits - 1)) \<le> i" "i < 2 ^ (bits - 1)" "0 < bits" "bits \<le> 64"
  shows "read_int bits (write_int i @ r) = ok (i, r)"
proof -
  have "(2::int) ^ bits dvd 2 ^ 64" using assms(4) by (rule le_imp_power_dvd)
  then have "i mod 2 ^ 64 mod 2 ^ bits = i mod 2 ^ bits" by (rule mod_mod_cancel)
  then have m: "int (nat (i mod 2 ^ 64)) mod 2 ^ bits = i mod 2 ^ bits" by simp
  have two: "(2::int) ^ bits = 2 * 2 ^ (bits - 1)" using assms(3) by (cases bits) auto
  have "(if i mod 2 ^ bits < 2 ^ (bits - 1) then i mod 2 ^ bits else i mod 2 ^ bits - 2 ^ bits) = i"
  proof (cases "0 \<le> i")
    case True
    with assms(2) two show ?thesis by (simp add: mod_pos_pos_trivial)
  next
    case False
    then have "(i + 2 ^ bits) mod 2 ^ bits = i + 2 ^ bits" using assms(1) two by (intro mod_pos_pos_trivial) linarith+
    then show ?thesis using assms(1) two by simp
  qed
  then show ?thesis by (simp only: read_int_def write_int_def read_varint andThen_simps prod.case Let_def m)
qed

lemma demo_proto_laws: "proto_laws demo_proto"
proof -
  have u: "int (nat v) mod 2 ^ k = v" if "0 \<le> v" "v < 2 ^ k" for v :: int and k using that by simp
  have w: "- (2 ^ 63) \<le> wire_value v" "wire_value v < 2 ^ 63" if "is_int64 v" for v
    using that by (auto simp: is_int64_def wire_value_def safe_int_def split: wire_int.splits)
  have x: "0 \<le> wire_value v" "wire_value v < 2 ^ 64" if "is_uint64 v" for v
    using that by (auto simp: is_uint64_def wire_value_def safe_int_def split: wire_int.splits)
  have ne: "varint n \<noteq> []" for n by (subst varint.simps) simp
  show ?thesis
    unfolding proto_laws_def
  proof (intro conjI allI impI)
    show "pr_uint32 demo_proto (pw_uint32 demo_proto n @ r) = ok (floor_num n, r)" if "is_uint32 n" for n r
      using that u [of "floor_num n" 32] by (simp add: demo_proto_def read_varint is_uint32_def)
    show "pr_int32 demo_proto (pw_int32 demo_proto n @ r) = ok (floor_num n, r)" if "is_int32 n" for n r
      using that by (simp add: demo_proto_def is_int32_def read_int_write)
    show "pr_int64 demo_proto (pw_int64 demo_proto v @ r) = ok (wire_value v, r)" if "is_int64 v" for v r
      using w [OF that] by (simp add: demo_proto_def read_int_write)
    show "pr_uint64 demo_proto (pw_uint64 demo_proto v @ r) = ok (wire_value v, r)" if "is_uint64 v" for v r
      using x [OF that] by (simp add: demo_proto_def write_int_def read_varint)
  qed (simp_all add: demo_proto_def ne read_data_write demo_utf8)
qed

end
