(* ===== verification/Pb_Codec.thy ===== *)
theory Pb_Codec
  imports Pb_Tx Pb_Wire Bns_TxCodec
begin

text \<open>
  The codec of \<open>packages/iov-bns/src/bnscodec.ts\<close> over the message classes of
  \<open>generated/codecimpl.js\<close>: what was a law about the protobuf code is a fact about
  its classes, for messages whose integers fit their fields. The properties go from
  a transaction to the bytes that are posted or signed and back; only the writer and
  the reader of protobufjs, hashes and bech32 are left as libraries.
\<close>

section \<open>The codec with the message classes\<close>

text \<open>\<open>X.decode(bytes)\<close>; a decoder that throws makes the caller throw.\<close>

definition decode_all :: "(byte list \<Rightarrow> int \<Rightarrow> ('m \<times> byte list) result) \<Rightarrow> byte list \<Rightarrow> 'm option" where
  "decode_all decode bytes = (case decode bytes (int (length bytes)) of Inl _ \<Rightarrow> None | Inr (m, _) \<Rightarrow> Some m)"

definition with_proto :: "proto_lib \<Rightarrow> bns_libs \<Rightarrow> bns_libs" where
  "with_proto P L = L\<lparr>
     options_encode := encode_bnsd_ProposalOptions P, options_decode := decode_all (decode_bnsd_ProposalOptions P),
     tx_encode := encode_bnsd_Tx P, tx_decode := decode_all (decode_bnsd_Tx P)\<rparr>"

lemma decode_all_decodes: "decodes decode w m \<Longrightarrow> length w < 2 ^ 32 \<Longrightarrow> decode_all decode w = Some m"
proof -
  assume "decodes decode w m" "length w < 2 ^ 32"
  then have "decode (w @ []) (int (length w)) = ok (m, [])" unfolding decodes_def by blast
  then show ?thesis by (simp add: decode_all_def)
qed

text \<open>A message that the classes can express: integers in range and less than 4 GiB.\<close>

definition sendable :: "proto_lib \<Rightarrow> bnsd_ITx \<Rightarrow> bool" where
  "sendable P w \<longleftrightarrow> valid_bnsd_Tx w \<and> length (encode_bnsd_Tx P w) < 2 ^ 32"

definition sendable_options :: "proto_lib \<Rightarrow> bnsd_IProposalOptions \<Rightarrow> bool" where
  "sendable_options P opt \<longleftrightarrow> valid_bnsd_ProposalOptions opt \<and> length (encode_bnsd_ProposalOptions P opt) < 2 ^ 32"

lemma with_proto_tx_law: "proto_laws P \<Longrightarrow> sendable P w \<Longrightarrow> tx_law (with_proto P L) w"
  using decode_all_decodes [OF decodes_bnsd_Tx] by (simp add: tx_law_def with_proto_def sendable_def)

lemma with_proto_options_law:
  assumes "proto_laws P"
    and "\<And>p opt. c = CreateProposal p \<Longrightarrow> encodeProposalOption (with_proto P L) (cp_action p) = ok opt \<Longrightarrow> sendable_options P opt"
  shows "options_law (with_proto P L) c"
proof (cases c)
  case (CreateProposal p)
  show ?thesis
  proof (cases "encodeProposalOption (with_proto P L) (cp_action p)")
    case (Inr opt)
    with assms CreateProposal have "sendable_options P opt" by blast
    with decode_all_decodes [OF decodes_bnsd_ProposalOptions [OF assms(1)]]
    have "options_decode (with_proto P L) (options_encode (with_proto P L) opt) = Some (norm_bnsd_IProposalOptions opt)"
      by (simp add: with_proto_def sendable_options_def)
    with Inr CreateProposal show ?thesis by (simp add: options_law_def)
  qed (simp add: options_law_def CreateProposal)
qed (simp_all add: options_law_def)

lemma with_proto_laws: "bns_laws L \<Longrightarrow> bns_laws (with_proto P L)"
  unfolding bns_laws_def bech32_laws_def long_laws_def bn_laws_def with_proto_def by simp

text \<open>
  The transactions that the wire can express, without a word about the protobuf code:
  contents, fee and contracts as in \<open>wire_tx\<close>, and messages that are sendable.
\<close>

definition wire_fields :: "bns_libs \<Rightarrow> UnsignedTransaction \<Rightarrow> bool" where
  "wire_fields L tx \<longleftrightarrow>
     (let p = addressPrefix (tx_chainId tx) in
      wire_content L p (tx_content tx) \<and> pred_option (wire_fee L p) (tx_fee tx) \<and>
      pred_option (\<lambda>ids. ids \<noteq> [] \<and> list_all numeric_id ids) (tx_multisig tx))"

definition sendable_content :: "proto_lib \<Rightarrow> bns_libs \<Rightarrow> TxContent \<Rightarrow> bool" where
  "sendable_content P L c = (case c of
     CreateProposal p \<Rightarrow> (case encodeProposalOption L (cp_action p) of Inl _ \<Rightarrow> True | Inr opt \<Rightarrow> sendable_options P opt)
   | _ \<Rightarrow> True)"

definition signable :: "proto_lib \<Rightarrow> bns_libs \<Rightarrow> UnsignedTransaction \<Rightarrow> bool" where
  "signable P L tx \<longleftrightarrow> wire_fields L tx \<and> sendable_content P L (tx_content tx) \<and>
     (case encodeUnsignedTx L tx of Inl _ \<Rightarrow> True | Inr w \<Rightarrow> sendable P w)"

definition postable :: "proto_lib \<Rightarrow> bns_libs \<Rightarrow> SignedTransaction \<Rightarrow> bool" where
  "postable P L stx \<longleftrightarrow> wire_fields L (stx_transaction stx) \<and> sendable_content P L (tx_content (stx_transaction stx)) \<and>
     stx_signatures stx \<noteq> [] \<and> list_all wire_signature (stx_signatures stx) \<and>
     (case encodeSignedTx L stx of Inl _ \<Rightarrow> True | Inr w \<Rightarrow> sendable P w)"

lemma wire_tx_fields:
  assumes "proto_laws P" "wire_fields (with_proto P L) tx" "sendable_content P (with_proto P L) (tx_content tx)"
  shows "wire_tx (with_proto P L) tx"
proof -
  have "options_law (with_proto P L) (tx_content tx)"
    using assms(3) by (intro with_proto_options_law [OF assms(1)]) (simp add: sendable_content_def)
  with assms(2) show ?thesis by (simp add: wire_tx_def wire_fields_def Let_def)
qed

section \<open>A transaction for the witnesses\<close>

lemma with_proto_demo:
  "with_proto P (demo_libs oe od te td) = demo_libs (encode_bnsd_ProposalOptions P)
     (decode_all (decode_bnsd_ProposalOptions P)) (encode_bnsd_Tx P) (decode_all (decode_bnsd_Tx P))"
  by (simp add: with_proto_def demo_libs_def bn_lib.defs)

abbreviation "demo_chain \<equiv> demo_libs (\<lambda>_. []) (\<lambda>_. None) (\<lambda>_. []) (\<lambda>_. None)"

lemmas demo_messages = no_msg_def demo_coin_def encode_bnsd_Tx_def encode_cash_SendMsg_def
  encode_cash_FeeInfo_def encode_coin_Coin_def encode_weave_Metadata_def encode_sigs_StdSignature_def
  encode_crypto_PublicKey_def encode_crypto_Signature_def

lemma length_varint [simp]:
  "n < 128 \<Longrightarrow> length (varint n) = 1"
  "128 \<le> n \<Longrightarrow> length (varint n) = Suc (length (varint (n div 128)))"
  by (subst varint.simps; simp)+

lemma length_fields [simp]:
  "length (put P tag writer None) = 0"
  "length (put P tag writer (Some v)) = length (pw_uint32 P (int_num tag)) + length (writer v)"
  "length (put_each P tag writer None) = 0"
  "length (put_each P tag writer (Some [])) = 0"
  "length (put_each P tag writer (Some (v # vs))) =
     length (pw_uint32 P (int_num tag)) + length (writer v) + length (put_each P tag writer (Some vs))"
  "length (ldelim P w) = length (pw_uint32 P (int_num (int (length w)))) + length w"
  by (simp_all add: put_def put_each_def ldelim_def)

lemma length_demo [simp]:
  "length (pw_uint32 demo_proto n) = length (varint (nat (floor_num n)))"
  "length (pw_int32 demo_proto n) = length (write_int (floor_num n))"
  "length (pw_int64 demo_proto v) = length (write_int (wire_value v))"
  "length (pw_uint64 demo_proto v) = length (write_int (wire_value v))"
  "length (pw_bool demo_proto b) = 1"
  "length (pw_string demo_proto s) = length (varint (length (toUtf8 s))) + length (toUtf8 s)"
  "length (pw_bytes demo_proto d) = length (varint (length d)) + length d"
  by (simp_all add: demo_proto_def write_data_def)

lemmas demo_sizes = write_int_def wire_value_def toUtf8_def utf8_char_def
  valid_bnsd_Tx_def valid_cash_SendMsg_def valid_coin_Coin_def valid_cash_FeeInfo_def valid_sigs_StdSignature_def
  valid_weave_Metadata_def is_int64_def is_uint32_def safe_int_def

lemma demo_built_sendable: "sendable demo_proto demo_built" "sendable demo_proto demo_signed_built"
  by (simp_all add: sendable_def demo_built_def demo_signed_built_def demo_messages demo_sizes)

lemma demo_signable: "signable demo_proto (with_proto demo_proto demo_chain) demo_tx"
  and demo_postable: "postable demo_proto (with_proto demo_proto demo_chain) demo_signed"
proof -
  have f: "wire_fields (demo_libs oe od te td) demo_tx" for oe od te td
    using demo_wire_tx [of oe od te td] by (simp add: wire_tx_def wire_fields_def Let_def)
  moreover have "sendable_content P L (tx_content demo_tx)" for P L
    by (simp add: sendable_content_def demo_tx_def)
  ultimately show "signable demo_proto (with_proto demo_proto demo_chain) demo_tx"
    by (simp add: signable_def with_proto_demo demo_encode demo_built_sendable)
  have t: "stx_transaction demo_signed = demo_tx" by (simp add: demo_signed_def)
  have "stx_signatures demo_signed \<noteq> []" "list_all wire_signature (stx_signatures demo_signed)"
    using demo_wire_signed unfolding wire_signed_def by blast+
  then show "postable demo_proto (with_proto demo_proto demo_chain) demo_signed"
    using \<open>sendable_content _ _ _\<close> f
    by (simp add: postable_def with_proto_demo demo_signed_encode demo_built_sendable t)
qed

section \<open>Properties\<close>

text \<open>
  C2. What is posted can be parsed: the bytes that the message classes write for a
  signed transaction that is \<open>postable\<close> are decoded to exactly that transaction, with its
  fee, its multisignature contracts and all its signatures. This covers 28 kinds of
  transactions, not the change of escrow parties, which never comes back, with these
  restrictions. Addresses are 20 bytes under the prefix of the chain; amounts have nine
  digits, their shortest form and less than \<open>2\<^sup>31\<close> whole tokens; numbers that
  travel as 64-bit integers fit in 32 bits, ids are safe integers. What is optional is set where the
  decoder gives a default: the broker of a domain or an account, the memo of an escrow, the voter, the
  name in a replacement of targets, and fees have a payer. It is
  not set where the wire has no place: the public key of a sender, the prefix and the new id of
  a swap, gas. A memo of a send or a swap is not empty, and none is longer than 128 bytes. Swaps have timestamps as timeouts and hashes of 32
  bytes, usernames end in \<open>*iov\<close>; proposals have no repeated electors or validators, no
  actions but sends in a batch, fractions without a denominator of zero, and a migration has an id; a list of
  multisignature contracts is not empty; there is a signature, and all have Ed25519 keys of 32 bytes. The integers of the
  message fit its fields and it is shorter than 4 GiB.
\<close>

theorem posted_bytes_read_back:
  assumes "bns_laws L" "proto_laws P" "postable P (with_proto P L) stx"
  shows "\<exists>b. bytesToPost (with_proto P L) stx = ok b \<and>
    parseBytes (with_proto P L) b (tx_chainId (stx_transaction stx)) = ok stx"
proof (rule posted_bytes_parse [OF with_proto_laws [OF assms(1)]])
  show "wire_signed (with_proto P L) stx"
    using assms(3) wire_tx_fields [OF assms(2)] by (simp add: wire_signed_def postable_def)
  show "tx_law (with_proto P L) w" if "encodeSignedTx (with_proto P L) stx = ok w" for w
    using assms(3) that with_proto_tx_law [OF assms(2)] by (simp add: postable_def)
qed

lemma posted_bytes_read_back_witness:
  "\<exists>b. bytesToPost (with_proto demo_proto demo_chain) demo_signed = ok b \<and>
    parseBytes (with_proto demo_proto demo_chain) b (tx_chainId (stx_transaction demo_signed)) = ok demo_signed"
  by (rule posted_bytes_read_back [OF demo_laws demo_proto_laws demo_postable])

text \<open>
  C3. A signature binds the whole transaction: if two transactions that are \<open>signable\<close>
  have the same bytes to sign, for nonces that are safe integers, they are the same
  transaction of the same chain with the same nonce. \<open>signable\<close> restricts contents and
  fee as \<open>postable\<close> does above. Outside it the bytes do not bind: they do not have the public
  key of a sender, the prefix of a swap id or the parts of a number over its field, and an optional field that is
  not set is written like its default. Changes of escrow parties are not covered.
\<close>

theorem signed_bytes_bind:
  assumes "bns_laws L" "proto_laws P" "signable P (with_proto P L) tx1" "signable P (with_proto P L) tx2"
    and "safe_nonce n1" "safe_nonce n2"
    and "bytesToSign (with_proto P L) tx1 n1 = ok job" "bytesToSign (with_proto P L) tx2 n2 = ok job"
  shows "tx1 = tx2 \<and> n1 = n2"
proof (rule signature_binds_transaction [OF with_proto_laws [OF assms(1)] _ _ assms(5-8)])
  show "wire_tx (with_proto P L) tx1" "wire_tx (with_proto P L) tx2"
    using assms(3,4) by (simp_all add: signable_def wire_tx_fields [OF assms(2)])
  show "\<forall>w. encodeUnsignedTx (with_proto P L) tx1 = ok w \<or> encodeUnsignedTx (with_proto P L) tx2 = ok w
      \<longrightarrow> tx_law (with_proto P L) w"
    using assms(3,4) with_proto_tx_law [OF assms(2)] by (auto simp: signable_def)
qed

lemma signed_bytes_bind_witness:
  "\<exists>job. bytesToSign (with_proto demo_proto demo_chain) demo_tx (int_num 7) = ok job \<and>
    {n. safe_nonce n \<and> bytesToSign (with_proto demo_proto demo_chain) demo_tx n = ok job} = {int_num 7}"
proof -
  let ?L = "with_proto demo_proto demo_chain"
  have n: "safe_nonce (int_num 7)" by (auto simp: safe_nonce_def)
  have "tx_chainId demo_tx = ''test''" by (simp add: demo_tx_def)
  then have "is_ok (bytesToSign ?L demo_tx (int_num 7))"
    by (simp add: bytesToSign_def with_proto_demo demo_encode appendSignBytes_def toAscii_ok printable_def)
  then obtain job where job: "bytesToSign ?L demo_tx (int_num 7) = ok job" by (auto simp: is_ok_iff)
  have "m = int_num 7" if "safe_nonce m" "bytesToSign ?L demo_tx m = ok job" for m
    using signed_bytes_bind [OF demo_laws demo_proto_laws demo_signable demo_signable that(1) n that(2) job] by blast
  with n job show ?thesis by blast
qed

text \<open>
  C28. The class \<open>bnsd.Tx\<close>: a transaction message whose integers fit their fields is
  read back from the bytes that \<open>encode\<close> writes, whatever follows them, with the
  defaults of the properties that were not set, and every byte is consumed.
\<close>

theorem transaction_message_read_back:
  assumes "proto_laws P" "valid_bnsd_Tx w" "length (encode_bnsd_Tx P w) < 2 ^ 32"
  shows "decode_bnsd_Tx P (encode_bnsd_Tx P w @ rest) (int (length (encode_bnsd_Tx P w))) = ok (norm_bnsd_ITx w, rest)"
  using decodes_bnsd_Tx [OF assms(1,2)] assms(3) by (simp add: decodes_def)

lemma transaction_message_read_back_witness:
  "decode_bnsd_Tx demo_proto (encode_bnsd_Tx demo_proto demo_signed_built @ [7])
     (int (length (encode_bnsd_Tx demo_proto demo_signed_built))) = ok (norm_bnsd_ITx demo_signed_built, [7])"
  using demo_built_sendable(2) transaction_message_read_back [OF demo_proto_laws, of demo_signed_built "[7]"]
  by (simp add: sendable_def)

end
