(* ===== verification/Pb_Stored.thy ===== *)
theory Pb_Stored
  imports Pb_Objects
begin

text \<open>
  The objects of the store of a node as the parsers of
  \<open>packages/iov-bns/src/bnsconnection.ts\<close> give them to their callers. A parser returns
  \<open>{...decoded, _id: key}\<close>. The spread copies the own properties of the decoded message:
  those that were read, and the arrays. The defaults are on the prototype of the class
  and are lost. The object is what the fields of the message make of the record
  \<open>own_X\<close>, in which only the arrays are set; a property that was not written stays
  undefined. The lemma of a class shows what is kept of a message that was written.
\<close>

section \<open>Scalars\<close>

definition kept_int64 :: "wire_int option \<Rightarrow> wire_int option" where
  "kept_int64 = map_option (\<lambda>w. Long (wire_value w))"

lemma keeps_uint32:
  assumes "proto_laws P" "is_uint32 (int_num tag)" "pred_option is_uint32 x"
    and "\<And>bs. field m tag bs = get (\<lambda>v. set_field upd (Some (int_num v)) m) (pr_uint32 P bs)"
    and "set_field upd None m = m"
  shows "writes P field (put P tag (pw_uint32 P) x) m (set_field upd x m)"
  using assms(3-) proto_uint32 [OF assms(1)]
  by (intro writes_put [OF assms(1,2)]) (auto simp: is_uint32_def isInteger_iff)

lemma keeps_int32:
  assumes "proto_laws P" "is_uint32 (int_num tag)" "pred_option is_int32 x"
    and "\<And>bs. field m tag bs = get (\<lambda>v. set_field upd (Some (int_num v)) m) (pr_int32 P bs)"
    and "set_field upd None m = m"
  shows "writes P field (put P tag (pw_int32 P) x) m (set_field upd x m)"
  using assms(3-) proto_int32 [OF assms(1)]
  by (intro writes_put [OF assms(1,2)]) (auto simp: is_int32_def isInteger_iff)

lemma keeps_int64:
  assumes "proto_laws P" "is_uint32 (int_num tag)" "pred_option is_int64 x"
    and "\<And>bs. field m tag bs = get (\<lambda>v. set_field upd (Some (Long v)) m) (pr_int64 P bs)"
    and "set_field upd None m = m"
  shows "writes P field (put P tag (pw_int64 P) x) m (set_field upd (kept_int64 x) m)"
  using assms(3-) proto_int64 [OF assms(1)]
  by (intro writes_put [OF assms(1,2)]) (auto simp: kept_int64_def)

lemma keeps_uint64:
  assumes "proto_laws P" "is_uint32 (int_num tag)" "pred_option is_uint64 x"
    and "\<And>bs. field m tag bs = get (\<lambda>v. set_field upd (Some (Long v)) m) (pr_uint64 P bs)"
    and "set_field upd None m = m"
  shows "writes P field (put P tag (pw_uint64 P) x) m (set_field upd (kept_int64 x) m)"
  using assms(3-) proto_uint64 [OF assms(1)]
  by (intro writes_put [OF assms(1,2)]) (auto simp: kept_int64_def)

lemma keeps_bool:
  assumes "proto_laws P" "is_uint32 (int_num tag)"
    and "\<And>bs. field m tag bs = get (\<lambda>v. set_field upd (Some v) m) (pr_bool P bs)"
    and "set_field upd None m = m"
  shows "writes P field (put P tag (pw_bool P) x) m (set_field upd x m)"
  using assms(3-) by (intro writes_put [OF assms(1,2)]) (auto simp: proto_bool [OF assms(1)])

lemma keeps_string:
  assumes "proto_laws P" "is_uint32 (int_num tag)"
    and "\<And>bs. field m tag bs = get (\<lambda>v. set_field upd (Some v) m) (pr_string P bs)"
    and "set_field upd None m = m"
  shows "writes P field (put P tag (pw_string P) x) m (set_field upd x m)"
  using assms(3-) by (intro writes_put [OF assms(1,2)]) (auto simp: proto_string [OF assms(1)])

lemma keeps_bytes:
  assumes "proto_laws P" "is_uint32 (int_num tag)"
    and "\<And>bs. field m tag bs = get (\<lambda>v. set_field upd (Some v) m) (pr_bytes P bs)"
    and "set_field upd None m = m"
  shows "writes P field (put P tag (pw_bytes P) x) m (set_field upd x m)"
  using assms(3-) by (intro writes_put [OF assms(1,2)]) (auto simp: proto_bytes [OF assms(1)])

section \<open>currency.TokenInfo\<close>

definition own_currency_TokenInfo :: currency_ITokenInfo where
  "own_currency_TokenInfo = \<lparr>currency_TokenInfo_metadata = None, currency_TokenInfo_name = None\<rparr>"

definition kept_currency_TokenInfo :: "currency_ITokenInfo \<Rightarrow> currency_ITokenInfo" where
  "kept_currency_TokenInfo m = \<lparr>
     currency_TokenInfo_metadata = map_option norm_weave_IMetadata (currency_TokenInfo_metadata m),
     currency_TokenInfo_name = currency_TokenInfo_name m\<rparr>"

lemma keeps_currency_TokenInfo:
  assumes P: "proto_laws P" and "valid_currency_TokenInfo m"
  shows "decodes (read_message P (field_currency_TokenInfo P) own_currency_TokenInfo) (encode_currency_TokenInfo P m) (kept_currency_TokenInfo m)"
proof -
  have "writes P (field_currency_TokenInfo P) (encode_currency_TokenInfo P m) own_currency_TokenInfo
      (set_field currency_TokenInfo_name_update (currency_TokenInfo_name m) (set_field currency_TokenInfo_metadata_update (map_option norm_weave_IMetadata (currency_TokenInfo_metadata m)) own_currency_TokenInfo))"
    unfolding encode_currency_TokenInfo_def
    by (rule writes_chain
        | rule writes_message [where valid = valid_weave_Metadata, OF P _ _ decodes_weave_Metadata [OF P]]
        | rule keeps_string [OF P]
        | (simp add: field_currency_TokenInfo_def own_currency_TokenInfo_def set_field_def elements_def is_uint32_def assms(2) [unfolded valid_currency_TokenInfo_def]; fail))+
  then show ?thesis
    by (intro decodes_message) (simp add: set_field_def own_currency_TokenInfo_def kept_currency_TokenInfo_def)
qed

section \<open>cash.Set\<close>

definition own_cash_Set :: cash_ISet where
  "own_cash_Set = \<lparr>cash_Set_metadata = None, cash_Set_coins = Some []\<rparr>"

definition kept_cash_Set :: "cash_ISet \<Rightarrow> cash_ISet" where
  "kept_cash_Set m = \<lparr>
     cash_Set_metadata = map_option norm_weave_IMetadata (cash_Set_metadata m),
     cash_Set_coins = norm_repeated norm_coin_ICoin (cash_Set_coins m)\<rparr>"

lemma keeps_cash_Set:
  assumes P: "proto_laws P" and "valid_cash_Set m"
  shows "decodes (read_message P (field_cash_Set P) own_cash_Set) (encode_cash_Set P m) (kept_cash_Set m)"
proof -
  have "writes P (field_cash_Set P) (encode_cash_Set P m) own_cash_Set
      (set_field cash_Set_coins_update (norm_repeated norm_coin_ICoin (cash_Set_coins m)) (set_field cash_Set_metadata_update (map_option norm_weave_IMetadata (cash_Set_metadata m)) own_cash_Set))"
    unfolding encode_cash_Set_def
    by (rule writes_chain
        | rule writes_message [where valid = valid_weave_Metadata, OF P _ _ decodes_weave_Metadata [OF P]]
        | rule writes_messages [where valid = valid_coin_Coin, OF P _ _ decodes_coin_Coin [OF P]]
        | (simp add: field_cash_Set_def own_cash_Set_def set_field_def elements_def is_uint32_def assms(2) [unfolded valid_cash_Set_def]; fail))+
  then show ?thesis
    by (intro decodes_message) (simp add: set_field_def own_cash_Set_def kept_cash_Set_def)
qed

section \<open>sigs.UserData\<close>

definition own_sigs_UserData :: sigs_IUserData where
  "own_sigs_UserData = \<lparr>sigs_UserData_metadata = None, sigs_UserData_pubkey = None, sigs_UserData_sequence = None\<rparr>"

definition kept_sigs_UserData :: "sigs_IUserData \<Rightarrow> sigs_IUserData" where
  "kept_sigs_UserData m = \<lparr>
     sigs_UserData_metadata = map_option norm_weave_IMetadata (sigs_UserData_metadata m),
     sigs_UserData_pubkey = map_option norm_crypto_IPublicKey (sigs_UserData_pubkey m),
     sigs_UserData_sequence = kept_int64 (sigs_UserData_sequence m)\<rparr>"

lemma keeps_sigs_UserData:
  assumes P: "proto_laws P" and "valid_sigs_UserData m"
  shows "decodes (read_message P (field_sigs_UserData P) own_sigs_UserData) (encode_sigs_UserData P m) (kept_sigs_UserData m)"
proof -
  have "writes P (field_sigs_UserData P) (encode_sigs_UserData P m) own_sigs_UserData
      (set_field sigs_UserData_sequence_update (kept_int64 (sigs_UserData_sequence m)) (set_field sigs_UserData_pubkey_update (map_option norm_crypto_IPublicKey (sigs_UserData_pubkey m)) (set_field sigs_UserData_metadata_update (map_option norm_weave_IMetadata (sigs_UserData_metadata m)) own_sigs_UserData)))"
    unfolding encode_sigs_UserData_def
    by (rule writes_chain
        | rule writes_message [where valid = valid_weave_Metadata, OF P _ _ decodes_weave_Metadata [OF P]]
        | rule writes_message [OF P _ true_opt decodes_crypto_PublicKey [OF P]]
        | rule keeps_int64 [OF P]
        | (simp add: field_sigs_UserData_def own_sigs_UserData_def set_field_def elements_def is_uint32_def assms(2) [unfolded valid_sigs_UserData_def]; fail))+
  then show ?thesis
    by (intro decodes_message) (simp add: set_field_def own_sigs_UserData_def kept_sigs_UserData_def)
qed

section \<open>aswap.Swap\<close>

definition own_aswap_Swap :: aswap_ISwap where
  "own_aswap_Swap = \<lparr>aswap_Swap_metadata = None, aswap_Swap_preimageHash = None, aswap_Swap_source = None, aswap_Swap_destination = None, aswap_Swap_timeout = None, aswap_Swap_memo = None, aswap_Swap_address = None\<rparr>"

definition kept_aswap_Swap :: "aswap_ISwap \<Rightarrow> aswap_ISwap" where
  "kept_aswap_Swap m = \<lparr>
     aswap_Swap_metadata = map_option norm_weave_IMetadata (aswap_Swap_metadata m),
     aswap_Swap_preimageHash = aswap_Swap_preimageHash m,
     aswap_Swap_source = aswap_Swap_source m,
     aswap_Swap_destination = aswap_Swap_destination m,
     aswap_Swap_timeout = kept_int64 (aswap_Swap_timeout m),
     aswap_Swap_memo = aswap_Swap_memo m,
     aswap_Swap_address = aswap_Swap_address m\<rparr>"

lemma keeps_aswap_Swap:
  assumes P: "proto_laws P" and "valid_aswap_Swap m"
  shows "decodes (read_message P (field_aswap_Swap P) own_aswap_Swap) (encode_aswap_Swap P m) (kept_aswap_Swap m)"
proof -
  have "writes P (field_aswap_Swap P) (encode_aswap_Swap P m) own_aswap_Swap
      (set_field aswap_Swap_address_update (aswap_Swap_address m) (set_field aswap_Swap_memo_update (aswap_Swap_memo m) (set_field aswap_Swap_timeout_update (kept_int64 (aswap_Swap_timeout m)) (set_field aswap_Swap_destination_update (aswap_Swap_destination m) (set_field aswap_Swap_source_update (aswap_Swap_source m) (set_field aswap_Swap_preimageHash_update (aswap_Swap_preimageHash m) (set_field aswap_Swap_metadata_update (map_option norm_weave_IMetadata (aswap_Swap_metadata m)) own_aswap_Swap)))))))"
    unfolding encode_aswap_Swap_def
    by (rule writes_chain
        | rule writes_message [where valid = valid_weave_Metadata, OF P _ _ decodes_weave_Metadata [OF P]]
        | rule keeps_bytes [OF P]
        | rule keeps_int64 [OF P]
        | rule keeps_string [OF P]
        | (simp add: field_aswap_Swap_def own_aswap_Swap_def set_field_def elements_def is_uint32_def assms(2) [unfolded valid_aswap_Swap_def]; fail))+
  then show ?thesis
    by (intro decodes_message) (simp add: set_field_def own_aswap_Swap_def kept_aswap_Swap_def)
qed

section \<open>gov.Electorate\<close>

definition own_gov_Electorate :: gov_IElectorate where
  "own_gov_Electorate = \<lparr>gov_Electorate_metadata = None, gov_Electorate_version = None, gov_Electorate_admin = None, gov_Electorate_title = None, gov_Electorate_electors = Some [], gov_Electorate_totalElectorateWeight = None\<rparr>"

definition kept_gov_Electorate :: "gov_IElectorate \<Rightarrow> gov_IElectorate" where
  "kept_gov_Electorate m = \<lparr>
     gov_Electorate_metadata = map_option norm_weave_IMetadata (gov_Electorate_metadata m),
     gov_Electorate_version = gov_Electorate_version m,
     gov_Electorate_admin = gov_Electorate_admin m,
     gov_Electorate_title = gov_Electorate_title m,
     gov_Electorate_electors = norm_repeated norm_gov_IElector (gov_Electorate_electors m),
     gov_Electorate_totalElectorateWeight = kept_int64 (gov_Electorate_totalElectorateWeight m)\<rparr>"

lemma keeps_gov_Electorate:
  assumes P: "proto_laws P" and "valid_gov_Electorate m"
  shows "decodes (read_message P (field_gov_Electorate P) own_gov_Electorate) (encode_gov_Electorate P m) (kept_gov_Electorate m)"
proof -
  have "writes P (field_gov_Electorate P) (encode_gov_Electorate P m) own_gov_Electorate
      (set_field gov_Electorate_totalElectorateWeight_update (kept_int64 (gov_Electorate_totalElectorateWeight m)) (set_field gov_Electorate_electors_update (norm_repeated norm_gov_IElector (gov_Electorate_electors m)) (set_field gov_Electorate_title_update (gov_Electorate_title m) (set_field gov_Electorate_admin_update (gov_Electorate_admin m) (set_field gov_Electorate_version_update (gov_Electorate_version m) (set_field gov_Electorate_metadata_update (map_option norm_weave_IMetadata (gov_Electorate_metadata m)) own_gov_Electorate))))))"
    unfolding encode_gov_Electorate_def
    by (rule writes_chain
        | rule writes_message [where valid = valid_weave_Metadata, OF P _ _ decodes_weave_Metadata [OF P]]
        | rule keeps_uint32 [OF P]
        | rule keeps_bytes [OF P]
        | rule keeps_string [OF P]
        | rule writes_messages [where valid = valid_gov_Elector, OF P _ _ decodes_gov_Elector [OF P]]
        | rule keeps_uint64 [OF P]
        | (simp add: field_gov_Electorate_def own_gov_Electorate_def set_field_def elements_def is_uint32_def assms(2) [unfolded valid_gov_Electorate_def]; fail))+
  then show ?thesis
    by (intro decodes_message) (simp add: set_field_def own_gov_Electorate_def kept_gov_Electorate_def)
qed

section \<open>gov.ElectionRule\<close>

definition own_gov_ElectionRule :: gov_IElectionRule where
  "own_gov_ElectionRule = \<lparr>gov_ElectionRule_metadata = None, gov_ElectionRule_version = None, gov_ElectionRule_admin = None, gov_ElectionRule_electorateId = None, gov_ElectionRule_title = None, gov_ElectionRule_votingPeriod = None, gov_ElectionRule_threshold = None, gov_ElectionRule_quorum = None, gov_ElectionRule_address = None\<rparr>"

definition kept_gov_ElectionRule :: "gov_IElectionRule \<Rightarrow> gov_IElectionRule" where
  "kept_gov_ElectionRule m = \<lparr>
     gov_ElectionRule_metadata = map_option norm_weave_IMetadata (gov_ElectionRule_metadata m),
     gov_ElectionRule_version = gov_ElectionRule_version m,
     gov_ElectionRule_admin = gov_ElectionRule_admin m,
     gov_ElectionRule_electorateId = gov_ElectionRule_electorateId m,
     gov_ElectionRule_title = gov_ElectionRule_title m,
     gov_ElectionRule_votingPeriod = gov_ElectionRule_votingPeriod m,
     gov_ElectionRule_threshold = map_option norm_IFraction (gov_ElectionRule_threshold m),
     gov_ElectionRule_quorum = map_option norm_IFraction (gov_ElectionRule_quorum m),
     gov_ElectionRule_address = gov_ElectionRule_address m\<rparr>"

lemma keeps_gov_ElectionRule:
  assumes P: "proto_laws P" and "valid_gov_ElectionRule m"
  shows "decodes (read_message P (field_gov_ElectionRule P) own_gov_ElectionRule) (encode_gov_ElectionRule P m) (kept_gov_ElectionRule m)"
proof -
  have "writes P (field_gov_ElectionRule P) (encode_gov_ElectionRule P m) own_gov_ElectionRule
      (set_field gov_ElectionRule_address_update (gov_ElectionRule_address m) (set_field gov_ElectionRule_quorum_update (map_option norm_IFraction (gov_ElectionRule_quorum m)) (set_field gov_ElectionRule_threshold_update (map_option norm_IFraction (gov_ElectionRule_threshold m)) (set_field gov_ElectionRule_votingPeriod_update (gov_ElectionRule_votingPeriod m) (set_field gov_ElectionRule_title_update (gov_ElectionRule_title m) (set_field gov_ElectionRule_electorateId_update (gov_ElectionRule_electorateId m) (set_field gov_ElectionRule_admin_update (gov_ElectionRule_admin m) (set_field gov_ElectionRule_version_update (gov_ElectionRule_version m) (set_field gov_ElectionRule_metadata_update (map_option norm_weave_IMetadata (gov_ElectionRule_metadata m)) own_gov_ElectionRule)))))))))"
    unfolding encode_gov_ElectionRule_def
    by (rule writes_chain
        | rule writes_message [where valid = valid_weave_Metadata, OF P _ _ decodes_weave_Metadata [OF P]]
        | rule keeps_uint32 [OF P]
        | rule keeps_bytes [OF P]
        | rule keeps_string [OF P]
        | rule writes_message [where valid = valid_gov_Fraction, OF P _ _ decodes_gov_Fraction [OF P]]
        | (simp add: field_gov_ElectionRule_def own_gov_ElectionRule_def set_field_def elements_def is_uint32_def assms(2) [unfolded valid_gov_ElectionRule_def]; fail))+
  then show ?thesis
    by (intro decodes_message) (simp add: set_field_def own_gov_ElectionRule_def kept_gov_ElectionRule_def)
qed

section \<open>gov.Proposal\<close>

definition own_gov_Proposal :: gov_IProposal where
  "own_gov_Proposal = \<lparr>gov_Proposal_metadata = None, gov_Proposal_title = None, gov_Proposal_rawOption = None, gov_Proposal_description = None, gov_Proposal_electionRuleRef = None, gov_Proposal_electorateRef = None, gov_Proposal_votingStartTime = None, gov_Proposal_votingEndTime = None, gov_Proposal_submissionTime = None, gov_Proposal_author = None, gov_Proposal_voteState = None, gov_Proposal_status = None, gov_Proposal_result = None, gov_Proposal_executorResult = None, gov_Proposal_tallyTaskId = None\<rparr>"

definition kept_gov_Proposal :: "gov_IProposal \<Rightarrow> gov_IProposal" where
  "kept_gov_Proposal m = \<lparr>
     gov_Proposal_metadata = map_option norm_weave_IMetadata (gov_Proposal_metadata m),
     gov_Proposal_title = gov_Proposal_title m,
     gov_Proposal_rawOption = gov_Proposal_rawOption m,
     gov_Proposal_description = gov_Proposal_description m,
     gov_Proposal_electionRuleRef = map_option norm_orm_IVersionedIDRef (gov_Proposal_electionRuleRef m),
     gov_Proposal_electorateRef = map_option norm_orm_IVersionedIDRef (gov_Proposal_electorateRef m),
     gov_Proposal_votingStartTime = kept_int64 (gov_Proposal_votingStartTime m),
     gov_Proposal_votingEndTime = kept_int64 (gov_Proposal_votingEndTime m),
     gov_Proposal_submissionTime = kept_int64 (gov_Proposal_submissionTime m),
     gov_Proposal_author = gov_Proposal_author m,
     gov_Proposal_voteState = map_option norm_gov_ITallyResult (gov_Proposal_voteState m),
     gov_Proposal_status = gov_Proposal_status m,
     gov_Proposal_result = gov_Proposal_result m,
     gov_Proposal_executorResult = gov_Proposal_executorResult m,
     gov_Proposal_tallyTaskId = gov_Proposal_tallyTaskId m\<rparr>"

lemma keeps_gov_Proposal:
  assumes P: "proto_laws P" and "valid_gov_Proposal m"
  shows "decodes (read_message P (field_gov_Proposal P) own_gov_Proposal) (encode_gov_Proposal P m) (kept_gov_Proposal m)"
proof -
  have "writes P (field_gov_Proposal P) (encode_gov_Proposal P m) own_gov_Proposal
      (set_field gov_Proposal_tallyTaskId_update (gov_Proposal_tallyTaskId m) (set_field gov_Proposal_executorResult_update (gov_Proposal_executorResult m) (set_field gov_Proposal_result_update (gov_Proposal_result m) (set_field gov_Proposal_status_update (gov_Proposal_status m) (set_field gov_Proposal_voteState_update (map_option norm_gov_ITallyResult (gov_Proposal_voteState m)) (set_field gov_Proposal_author_update (gov_Proposal_author m) (set_field gov_Proposal_submissionTime_update (kept_int64 (gov_Proposal_submissionTime m)) (set_field gov_Proposal_votingEndTime_update (kept_int64 (gov_Proposal_votingEndTime m)) (set_field gov_Proposal_votingStartTime_update (kept_int64 (gov_Proposal_votingStartTime m)) (set_field gov_Proposal_electorateRef_update (map_option norm_orm_IVersionedIDRef (gov_Proposal_electorateRef m)) (set_field gov_Proposal_electionRuleRef_update (map_option norm_orm_IVersionedIDRef (gov_Proposal_electionRuleRef m)) (set_field gov_Proposal_description_update (gov_Proposal_description m) (set_field gov_Proposal_rawOption_update (gov_Proposal_rawOption m) (set_field gov_Proposal_title_update (gov_Proposal_title m) (set_field gov_Proposal_metadata_update (map_option norm_weave_IMetadata (gov_Proposal_metadata m)) own_gov_Proposal)))))))))))))))"
    unfolding encode_gov_Proposal_def
    by (rule writes_chain
        | rule writes_message [where valid = valid_weave_Metadata, OF P _ _ decodes_weave_Metadata [OF P]]
        | rule keeps_string [OF P]
        | rule keeps_bytes [OF P]
        | rule writes_message [where valid = valid_orm_VersionedIDRef, OF P _ _ decodes_orm_VersionedIDRef [OF P]]
        | rule keeps_int64 [OF P]
        | rule writes_message [where valid = valid_gov_TallyResult, OF P _ _ decodes_gov_TallyResult [OF P]]
        | rule keeps_int32 [OF P]
        | (simp add: field_gov_Proposal_def own_gov_Proposal_def set_field_def elements_def is_uint32_def assms(2) [unfolded valid_gov_Proposal_def]; fail))+
  then show ?thesis
    by (intro decodes_message) (simp add: set_field_def own_gov_Proposal_def kept_gov_Proposal_def)
qed

section \<open>gov.Vote\<close>

definition own_gov_Vote :: gov_IVote where
  "own_gov_Vote = \<lparr>gov_Vote_metadata = None, gov_Vote_elector = None, gov_Vote_voted = None\<rparr>"

definition kept_gov_Vote :: "gov_IVote \<Rightarrow> gov_IVote" where
  "kept_gov_Vote m = \<lparr>
     gov_Vote_metadata = map_option norm_weave_IMetadata (gov_Vote_metadata m),
     gov_Vote_elector = map_option norm_gov_IElector (gov_Vote_elector m),
     gov_Vote_voted = gov_Vote_voted m\<rparr>"

lemma keeps_gov_Vote:
  assumes P: "proto_laws P" and "valid_gov_Vote m"
  shows "decodes (read_message P (field_gov_Vote P) own_gov_Vote) (encode_gov_Vote P m) (kept_gov_Vote m)"
proof -
  have "writes P (field_gov_Vote P) (encode_gov_Vote P m) own_gov_Vote
      (set_field gov_Vote_voted_update (gov_Vote_voted m) (set_field gov_Vote_elector_update (map_option norm_gov_IElector (gov_Vote_elector m)) (set_field gov_Vote_metadata_update (map_option norm_weave_IMetadata (gov_Vote_metadata m)) own_gov_Vote)))"
    unfolding encode_gov_Vote_def
    by (rule writes_chain
        | rule writes_message [where valid = valid_weave_Metadata, OF P _ _ decodes_weave_Metadata [OF P]]
        | rule writes_message [where valid = valid_gov_Elector, OF P _ _ decodes_gov_Elector [OF P]]
        | rule keeps_int32 [OF P]
        | (simp add: field_gov_Vote_def own_gov_Vote_def set_field_def elements_def is_uint32_def assms(2) [unfolded valid_gov_Vote_def]; fail))+
  then show ?thesis
    by (intro decodes_message) (simp add: set_field_def own_gov_Vote_def kept_gov_Vote_def)
qed

section \<open>username.Token\<close>

definition own_username_Token :: username_IToken where
  "own_username_Token = \<lparr>username_Token_metadata = None, username_Token_targets = Some [], username_Token_owner = None\<rparr>"

definition kept_username_Token :: "username_IToken \<Rightarrow> username_IToken" where
  "kept_username_Token m = \<lparr>
     username_Token_metadata = map_option norm_weave_IMetadata (username_Token_metadata m),
     username_Token_targets = norm_repeated norm_username_IBlockchainAddress (username_Token_targets m),
     username_Token_owner = username_Token_owner m\<rparr>"

lemma keeps_username_Token:
  assumes P: "proto_laws P" and "valid_username_Token m"
  shows "decodes (read_message P (field_username_Token P) own_username_Token) (encode_username_Token P m) (kept_username_Token m)"
proof -
  have "writes P (field_username_Token P) (encode_username_Token P m) own_username_Token
      (set_field username_Token_owner_update (username_Token_owner m) (set_field username_Token_targets_update (norm_repeated norm_username_IBlockchainAddress (username_Token_targets m)) (set_field username_Token_metadata_update (map_option norm_weave_IMetadata (username_Token_metadata m)) own_username_Token)))"
    unfolding encode_username_Token_def
    by (rule writes_chain
        | rule writes_message [where valid = valid_weave_Metadata, OF P _ _ decodes_weave_Metadata [OF P]]
        | rule writes_messages [OF P _ true_each decodes_username_BlockchainAddress [OF P]]
        | rule keeps_bytes [OF P]
        | (simp add: field_username_Token_def own_username_Token_def set_field_def elements_def is_uint32_def assms(2) [unfolded valid_username_Token_def]; fail))+
  then show ?thesis
    by (intro decodes_message) (simp add: set_field_def own_username_Token_def kept_username_Token_def)
qed

section \<open>account.Account\<close>

definition own_account_Account :: account_IAccount where
  "own_account_Account = \<lparr>account_Account_metadata = None, account_Account_domain = None, account_Account_name = None, account_Account_owner = None, account_Account_validUntil = None, account_Account_targets = Some [], account_Account_certificates = Some [], account_Account_broker = None\<rparr>"

definition kept_account_Account :: "account_IAccount \<Rightarrow> account_IAccount" where
  "kept_account_Account m = \<lparr>
     account_Account_metadata = map_option norm_weave_IMetadata (account_Account_metadata m),
     account_Account_domain = account_Account_domain m,
     account_Account_name = account_Account_name m,
     account_Account_owner = account_Account_owner m,
     account_Account_validUntil = kept_int64 (account_Account_validUntil m),
     account_Account_targets = norm_repeated norm_account_IBlockchainAddress (account_Account_targets m),
     account_Account_certificates = norm_repeated (\<lambda>b. b) (account_Account_certificates m),
     account_Account_broker = account_Account_broker m\<rparr>"

lemma keeps_account_Account:
  assumes P: "proto_laws P" and "valid_account_Account m"
  shows "decodes (read_message P (field_account_Account P) own_account_Account) (encode_account_Account P m) (kept_account_Account m)"
proof -
  have "writes P (field_account_Account P) (encode_account_Account P m) own_account_Account
      (set_field account_Account_broker_update (account_Account_broker m) (set_field account_Account_certificates_update (norm_repeated (\<lambda>b. b) (account_Account_certificates m)) (set_field account_Account_targets_update (norm_repeated norm_account_IBlockchainAddress (account_Account_targets m)) (set_field account_Account_validUntil_update (kept_int64 (account_Account_validUntil m)) (set_field account_Account_owner_update (account_Account_owner m) (set_field account_Account_name_update (account_Account_name m) (set_field account_Account_domain_update (account_Account_domain m) (set_field account_Account_metadata_update (map_option norm_weave_IMetadata (account_Account_metadata m)) own_account_Account))))))))"
    unfolding encode_account_Account_def
    by (rule writes_chain
        | rule writes_message [where valid = valid_weave_Metadata, OF P _ _ decodes_weave_Metadata [OF P]]
        | rule keeps_string [OF P]
        | rule keeps_bytes [OF P]
        | rule keeps_int64 [OF P]
        | rule writes_messages [OF P _ true_each decodes_account_BlockchainAddress [OF P]]
        | rule writes_repeated_bytes [OF P]
        | (simp add: field_account_Account_def own_account_Account_def set_field_def elements_def is_uint32_def assms(2) [unfolded valid_account_Account_def]; fail))+
  then show ?thesis
    by (intro decodes_message) (simp add: set_field_def own_account_Account_def kept_account_Account_def)
qed

section \<open>account.Domain\<close>

definition own_account_Domain :: account_IDomain where
  "own_account_Domain = \<lparr>account_Domain_metadata = None, account_Domain_domain = None, account_Domain_admin = None, account_Domain_validUntil = None, account_Domain_hasSuperuser = None, account_Domain_msgFees = Some [], account_Domain_accountRenew = None, account_Domain_broker = None\<rparr>"

definition kept_account_Domain :: "account_IDomain \<Rightarrow> account_IDomain" where
  "kept_account_Domain m = \<lparr>
     account_Domain_metadata = map_option norm_weave_IMetadata (account_Domain_metadata m),
     account_Domain_domain = account_Domain_domain m,
     account_Domain_admin = account_Domain_admin m,
     account_Domain_validUntil = kept_int64 (account_Domain_validUntil m),
     account_Domain_hasSuperuser = account_Domain_hasSuperuser m,
     account_Domain_msgFees = norm_repeated norm_account_IAccountMsgFee (account_Domain_msgFees m),
     account_Domain_accountRenew = kept_int64 (account_Domain_accountRenew m),
     account_Domain_broker = account_Domain_broker m\<rparr>"

lemma keeps_account_Domain:
  assumes P: "proto_laws P" and "valid_account_Domain m"
  shows "decodes (read_message P (field_account_Domain P) own_account_Domain) (encode_account_Domain P m) (kept_account_Domain m)"
proof -
  have "writes P (field_account_Domain P) (encode_account_Domain P m) own_account_Domain
      (set_field account_Domain_broker_update (account_Domain_broker m) (set_field account_Domain_accountRenew_update (kept_int64 (account_Domain_accountRenew m)) (set_field account_Domain_msgFees_update (norm_repeated norm_account_IAccountMsgFee (account_Domain_msgFees m)) (set_field account_Domain_hasSuperuser_update (account_Domain_hasSuperuser m) (set_field account_Domain_validUntil_update (kept_int64 (account_Domain_validUntil m)) (set_field account_Domain_admin_update (account_Domain_admin m) (set_field account_Domain_domain_update (account_Domain_domain m) (set_field account_Domain_metadata_update (map_option norm_weave_IMetadata (account_Domain_metadata m)) own_account_Domain))))))))"
    unfolding encode_account_Domain_def
    by (rule writes_chain
        | rule writes_message [where valid = valid_weave_Metadata, OF P _ _ decodes_weave_Metadata [OF P]]
        | rule keeps_string [OF P]
        | rule keeps_bytes [OF P]
        | rule keeps_int64 [OF P]
        | rule keeps_bool [OF P]
        | rule writes_messages [where valid = valid_account_AccountMsgFee, OF P _ _ decodes_account_AccountMsgFee [OF P]]
        | (simp add: field_account_Domain_def own_account_Domain_def set_field_def elements_def is_uint32_def assms(2) [unfolded valid_account_Domain_def]; fail))+
  then show ?thesis
    by (intro decodes_message) (simp add: set_field_def own_account_Domain_def kept_account_Domain_def)
qed

section \<open>msgfee.MsgFee\<close>

definition own_msgfee_MsgFee :: msgfee_IMsgFee where
  "own_msgfee_MsgFee = \<lparr>msgfee_MsgFee_metadata = None, msgfee_MsgFee_msgPath = None, msgfee_MsgFee_fee = None\<rparr>"

definition kept_msgfee_MsgFee :: "msgfee_IMsgFee \<Rightarrow> msgfee_IMsgFee" where
  "kept_msgfee_MsgFee m = \<lparr>
     msgfee_MsgFee_metadata = map_option norm_weave_IMetadata (msgfee_MsgFee_metadata m),
     msgfee_MsgFee_msgPath = msgfee_MsgFee_msgPath m,
     msgfee_MsgFee_fee = map_option norm_coin_ICoin (msgfee_MsgFee_fee m)\<rparr>"

lemma keeps_msgfee_MsgFee:
  assumes P: "proto_laws P" and "valid_msgfee_MsgFee m"
  shows "decodes (read_message P (field_msgfee_MsgFee P) own_msgfee_MsgFee) (encode_msgfee_MsgFee P m) (kept_msgfee_MsgFee m)"
proof -
  have "writes P (field_msgfee_MsgFee P) (encode_msgfee_MsgFee P m) own_msgfee_MsgFee
      (set_field msgfee_MsgFee_fee_update (map_option norm_coin_ICoin (msgfee_MsgFee_fee m)) (set_field msgfee_MsgFee_msgPath_update (msgfee_MsgFee_msgPath m) (set_field msgfee_MsgFee_metadata_update (map_option norm_weave_IMetadata (msgfee_MsgFee_metadata m)) own_msgfee_MsgFee)))"
    unfolding encode_msgfee_MsgFee_def
    by (rule writes_chain
        | rule writes_message [where valid = valid_weave_Metadata, OF P _ _ decodes_weave_Metadata [OF P]]
        | rule keeps_string [OF P]
        | rule writes_message [where valid = valid_coin_Coin, OF P _ _ decodes_coin_Coin [OF P]]
        | (simp add: field_msgfee_MsgFee_def own_msgfee_MsgFee_def set_field_def elements_def is_uint32_def assms(2) [unfolded valid_msgfee_MsgFee_def]; fail))+
  then show ?thesis
    by (intro decodes_message) (simp add: set_field_def own_msgfee_MsgFee_def kept_msgfee_MsgFee_def)
qed

end
