(* ===== verification/Bns_Objects.thy ===== *)
theory Bns_Objects
  imports Pb_Stored Pb_Codec
begin

text \<open>
  \<open>packages/iov-bns/src/decodeobjects.ts\<close> (the objects that the store of a node
  holds), \<open>context.ts\<close> and \<open>decodeUserData\<close> of \<open>decode.ts\<close>: from the objects of a
  query to the types that the connection gives to its caller.
\<close>

section \<open>Types\<close>

record 'm Keyed =
  keyed_id :: "byte list"
  keyed :: 'm

record Token =
  tok_tokenTicker :: string
  tok_tokenName :: string
  tok_fractionalDigits :: nat

record BnsUsernameNft =
  unft_id :: string
  unft_owner :: Address
  unft_targets :: "ChainAddressPair list"

record AccountNft =
  anft_domain :: string
  anft_name :: "string option"
  anft_owner :: Address
  anft_validUntil :: number
  anft_targets :: "ChainAddressPair list"
  anft_certificates :: "byte list list"

record Domain =
  dom_domain :: string
  dom_admin :: Address
  dom_broker :: Address
  dom_validUntil :: number
  dom_hasSuperuser :: bool
  dom_msgFees :: "AccountMsgFee list"
  dom_accountRenew :: number

record Electorate =
  elt_id :: number
  elt_version :: number
  elt_admin :: Address
  elt_title :: string
  elt_electors :: Electors
  elt_totalWeight :: number

record ElectionRule =
  rule_id :: number
  rule_version :: number
  rule_admin :: Address
  rule_electorateId :: number
  rule_title :: string
  rule_votingPeriod :: number
  rule_threshold :: Fraction
  rule_quorum :: "Fraction option"

record VersionedId =
  vid_id :: number
  vid_version :: number

datatype ProposalExecutorResult = Executor_NotRun | Executor_Succeeded | Executor_Failed

datatype ProposalResult = Result_Undefined | Result_Accepted | Result_Rejected

datatype ProposalStatus = Status_Submitted | Status_Closed | Status_Withdrawn

record TallyResult =
  tally_totalYes :: number
  tally_totalNo :: number
  tally_totalAbstain :: number
  tally_totalElectorateWeight :: number

record Proposal =
  pro_id :: number
  pro_title :: string
  pro_action :: ProposalAction
  pro_description :: string
  pro_electionRule :: VersionedId
  pro_electorate :: VersionedId
  pro_votingStartTime :: number
  pro_votingEndTime :: number
  pro_submissionTime :: number
  pro_author :: Address
  pro_state :: TallyResult
  pro_status :: ProposalStatus
  pro_result :: ProposalResult
  pro_executorResult :: ProposalExecutorResult

record Elector =
  elector_address :: Address
  elector_weight :: number

record Vote =
  vt_proposalId :: number
  vt_elector :: Elector
  vt_selection :: VoteOption

record WalletData =
  wd_address :: Address
  wd_balance :: "Amount list"

section \<open>Tokens, usernames, accounts\<close>

text \<open>\<open>asIntegerNumber\<close> of a property that is a number.\<close>

definition ensureNumber :: "bns_libs \<Rightarrow> number option \<Rightarrow> string \<Rightarrow> number result" where
  "ensureNumber L field name = andThen (ensure field name) (\<lambda>n. asIntegerNumber L (Some (JsNumber n)))"

definition decodeToken :: "currency_ITokenInfo Keyed \<Rightarrow> Token result" where
  "decodeToken data =
     andThen (fromAscii (keyed_id data)) (\<lambda>tokenTicker.
     andThen (ensure (currency_TokenInfo_name (keyed data)) []) (\<lambda>tokenName.
     ok \<lparr>tok_tokenTicker = tokenTicker, tok_tokenName = tokenName, tok_fractionalDigits = weaveFractionalDigits\<rparr>))"

definition decodeUsernameNft :: "bns_libs \<Rightarrow> (byte list \<Rightarrow> string result) \<Rightarrow> username_IToken Keyed \<Rightarrow> ChainId \<Rightarrow> BnsUsernameNft result" where
  "decodeUsernameNft L fromUtf8 nft registryChainId =
     andThen (ensure (username_Token_owner (keyed nft)) ''owner'') (\<lambda>rawOwnerAddress.
     andThen (fromUtf8 (keyed_id nft)) (\<lambda>ident.
     andThen (encodeBnsAddress L (addressPrefix registryChainId) rawOwnerAddress) (\<lambda>owner.
     andThen (ensure (username_Token_targets (keyed nft)) ''targets'') (\<lambda>targets.
     andThen (mapM decodeChainAddressPair targets) (\<lambda>pairs.
     ok \<lparr>unft_id = ident, unft_owner = owner, unft_targets = pairs\<rparr>)))))"

definition decodeAccount :: "bns_libs \<Rightarrow> string \<Rightarrow> account_IAccount \<Rightarrow> AccountNft result" where
  "decodeAccount L prefix account =
     andThen (ensure (account_Account_domain account) ''domain'') (\<lambda>domain.
     andThen (ensureAddress L prefix (account_Account_owner account) ''owner'') (\<lambda>owner.
     andThen (ensureInteger L (account_Account_validUntil account) ''validUntil'') (\<lambda>validUntil.
     andThen (ensure (account_Account_targets account) ''targets'') (\<lambda>targets.
     andThen (mapM decodeBlockchainAddress targets) (\<lambda>pairs.
     andThen (ensure (account_Account_certificates account) ''certificates'') (\<lambda>certificates.
     ok \<lparr>anft_domain = domain, anft_name = nonEmpty (account_Account_name account), anft_owner = owner,
       anft_validUntil = validUntil, anft_targets = pairs, anft_certificates = certificates\<rparr>))))))"

definition decodeDomain :: "bns_libs \<Rightarrow> string \<Rightarrow> account_IDomain \<Rightarrow> Domain result" where
  "decodeDomain L prefix domain =
     andThen (ensure (account_Domain_domain domain) ''domain'') (\<lambda>name.
     andThen (ensureAddress L prefix (account_Domain_admin domain) ''admin'') (\<lambda>admin.
     andThen (ensureInteger L (account_Domain_validUntil domain) ''validUntil'') (\<lambda>validUntil.
     andThen (ensure (account_Domain_msgFees domain) ''msgFees'') (\<lambda>msgFees.
     andThen (mapM (decodeAccountMsgFee L) msgFees) (\<lambda>fees.
     andThen (ensureInteger L (account_Domain_accountRenew domain) ''accountRenew'') (\<lambda>accountRenew.
     andThen (optionalAddress L prefix (account_Domain_broker domain)) (\<lambda>broker.
     ok \<lparr>dom_domain = name, dom_admin = admin, dom_broker = (case broker of None \<Rightarrow> [] | Some a \<Rightarrow> a),
       dom_validUntil = validUntil, dom_hasSuperuser = (account_Domain_hasSuperuser domain = Some True),
       dom_msgFees = fees, dom_accountRenew = accountRenew\<rparr>)))))))"

section \<open>Governance\<close>

definition decodeVersionedIdArray :: "bns_libs \<Rightarrow> byte list \<Rightarrow> VersionedId result" where
  "decodeVersionedIdArray L versionedId =
     (if length versionedId \<noteq> 12 then throw ''Invalid ID length. Expected 12 bytes.''
      else
        andThen (andThen (Uint64_fromBytesBigEndian L (byte_numbers (slice 0 8 versionedId))) (Uint64_toNumber L)) (\<lambda>i.
        andThen (Uint32_fromBigEndianBytes (byte_numbers (slice 8 12 versionedId))) (\<lambda>version.
        ok \<lparr>vid_id = i, vid_version = Uint32_toNumber version\<rparr>)))"

definition decodeElectorate :: "bns_libs \<Rightarrow> string \<Rightarrow> gov_IElectorate Keyed \<Rightarrow> Electorate result" where
  "decodeElectorate L prefix object =
     (let electorate = keyed object in
      andThen (decodeVersionedIdArray L (keyed_id object)) (\<lambda>ident.
      andThen (ensure (gov_Electorate_electors electorate) []) (\<lambda>electors0.
      andThen (decodeElectorsLoop L prefix electors0 []) (\<lambda>electors.
      andThen (ensureNumber L (gov_Electorate_version electorate) ''version'') (\<lambda>version.
      andThen (ensureAddress L prefix (gov_Electorate_admin electorate) ''admin'') (\<lambda>admin.
      andThen (ensure (gov_Electorate_title electorate) ''title'') (\<lambda>title.
      andThen (asIntegerNumber L (gov_Electorate_totalElectorateWeight electorate)) (\<lambda>totalWeight.
      ok \<lparr>elt_id = vid_id ident, elt_version = version, elt_admin = admin, elt_title = title,
        elt_electors = electors, elt_totalWeight = totalWeight\<rparr>))))))))"

definition decodeElectionRule :: "bns_libs \<Rightarrow> string \<Rightarrow> gov_IElectionRule Keyed \<Rightarrow> ElectionRule result" where
  "decodeElectionRule L prefix object =
     (let rule = keyed object in
      andThen (decodeVersionedIdArray L (keyed_id object)) (\<lambda>ident.
      andThen (ensureNumber L (gov_ElectionRule_version rule) ''version'') (\<lambda>version.
      andThen (ensureAddress L prefix (gov_ElectionRule_admin rule) ''admin'') (\<lambda>admin.
      andThen (ensureNumericId L (gov_ElectionRule_electorateId rule) ''electorateId'') (\<lambda>electorateId.
      andThen (ensure (gov_ElectionRule_title rule) ''title'') (\<lambda>title.
      andThen (ensureNumber L (gov_ElectionRule_votingPeriod rule) ''votingPeriod'') (\<lambda>votingPeriod.
      andThen (ensureFraction L (gov_ElectionRule_threshold rule) ''threshold'') (\<lambda>threshold.
      andThen (optionalFraction L (gov_ElectionRule_quorum rule)) (\<lambda>quorum.
      ok \<lparr>rule_id = vid_id ident, rule_version = version, rule_admin = admin, rule_electorateId = electorateId,
        rule_title = title, rule_votingPeriod = votingPeriod, rule_threshold = threshold,
        rule_quorum = quorum\<rparr>)))))))))"

definition decodeVersionedId :: "bns_libs \<Rightarrow> orm_IVersionedIDRef \<Rightarrow> VersionedId result" where
  "decodeVersionedId L versionedId =
     andThen (ensureNumericId L (orm_VersionedIDRef_id versionedId) ''id'') (\<lambda>i.
     andThen (ensure (orm_VersionedIDRef_version versionedId) ''version'') (\<lambda>version.
     ok \<lparr>vid_id = i, vid_version = version\<rparr>))"

text \<open>The numbers of the enumerations are those of \<open>codecimpl.js\<close>.\<close>

definition decodeProposalResult :: "number \<Rightarrow> ProposalResult result" where
  "decodeProposalResult r =
     (if r = int_num 0 then throw ''PROPOSAL_RESULT_INVALID is not allowed''
      else if r = int_num 1 then ok Result_Undefined
      else if r = int_num 2 then ok Result_Accepted
      else if r = int_num 3 then ok Result_Rejected
      else throw ''Received unknown value for proposal result'')"

definition decodeProposalStatus :: "number \<Rightarrow> ProposalStatus result" where
  "decodeProposalStatus status =
     (if status = int_num 0 then throw ''PROPOSAL_STATUS_INVALID is not allowed''
      else if status = int_num 1 then ok Status_Submitted
      else if status = int_num 2 then ok Status_Closed
      else if status = int_num 3 then ok Status_Withdrawn
      else throw ''Received unknown value for proposal status'')"

definition decodeProposalExecutorResult :: "number \<Rightarrow> ProposalExecutorResult result" where
  "decodeProposalExecutorResult r =
     (if r = int_num 0 then throw ''PROPOSAL_EXECUTOR_RESULT_INVALID is not allowed''
      else if r = int_num 1 then ok Executor_NotRun
      else if r = int_num 2 then ok Executor_Succeeded
      else if r = int_num 3 then ok Executor_Failed
      else throw ''Received unknown value for proposal executor result'')"

definition decodeTally :: "bns_libs \<Rightarrow> gov_ITallyResult \<Rightarrow> TallyResult result" where
  "decodeTally L voteState =
     andThen (asIntegerNumber L (gov_TallyResult_totalYes voteState)) (\<lambda>totalYes.
     andThen (asIntegerNumber L (gov_TallyResult_totalNo voteState)) (\<lambda>totalNo.
     andThen (asIntegerNumber L (gov_TallyResult_totalAbstain voteState)) (\<lambda>totalAbstain.
     andThen (asIntegerNumber L (gov_TallyResult_totalElectorateWeight voteState)) (\<lambda>totalElectorateWeight.
     ok \<lparr>tally_totalYes = totalYes, tally_totalNo = totalNo, tally_totalAbstain = totalAbstain,
       tally_totalElectorateWeight = totalElectorateWeight\<rparr>))))"

definition decodeProposal :: "bns_libs \<Rightarrow> string \<Rightarrow> gov_IProposal Keyed \<Rightarrow> Proposal result" where
  "decodeProposal L prefix object =
     (let proposal = keyed object in
      andThen (ensure (gov_Proposal_voteState proposal) ''voteState'') (\<lambda>voteState.
      andThen (decodeNumericId L (keyed_id object)) (\<lambda>i.
      andThen (ensure (gov_Proposal_title proposal) ''title'') (\<lambda>title.
      andThen (ensure (gov_Proposal_rawOption proposal) ''rawOption'') (\<lambda>rawOption.
      andThen (decodeRawProposalOption L prefix rawOption) (\<lambda>action.
      andThen (ensure (gov_Proposal_description proposal) ''description'') (\<lambda>description.
      andThen (ensure (gov_Proposal_electionRuleRef proposal) ''electionRuleRef'') (\<lambda>ruleRef.
      andThen (decodeVersionedId L ruleRef) (\<lambda>electionRule.
      andThen (ensure (gov_Proposal_electorateRef proposal) ''electorateRef'') (\<lambda>electorateRef.
      andThen (decodeVersionedId L electorateRef) (\<lambda>electorate.
      andThen (ensureInteger L (gov_Proposal_votingStartTime proposal) ''votingStartTime'') (\<lambda>votingStartTime.
      andThen (ensureInteger L (gov_Proposal_votingEndTime proposal) ''votingEndTime'') (\<lambda>votingEndTime.
      andThen (ensureInteger L (gov_Proposal_submissionTime proposal) ''submissionTime'') (\<lambda>submissionTime.
      andThen (ensureAddress L prefix (gov_Proposal_author proposal) ''author'') (\<lambda>author.
      andThen (decodeTally L voteState) (\<lambda>state.
      andThen (andThen (ensure (gov_Proposal_status proposal) ''status'') decodeProposalStatus) (\<lambda>status.
      andThen (andThen (ensure (gov_Proposal_result proposal) ''result'') decodeProposalResult) (\<lambda>outcome.
      andThen (andThen (ensure (gov_Proposal_executorResult proposal) ''executorResult'') decodeProposalExecutorResult) (\<lambda>executorResult.
      ok \<lparr>pro_id = i, pro_title = title, pro_action = action, pro_description = description,
        pro_electionRule = electionRule, pro_electorate = electorate, pro_votingStartTime = votingStartTime,
        pro_votingEndTime = votingEndTime, pro_submissionTime = submissionTime, pro_author = author,
        pro_state = state, pro_status = status, pro_result = outcome,
        pro_executorResult = executorResult\<rparr>)))))))))))))))))))"

text \<open>The voter and the proposal of the key of a vote.\<close>

definition decodeVoteId :: "bns_libs \<Rightarrow> string \<Rightarrow> byte list \<Rightarrow> (Address \<times> number) result" where
  "decodeVoteId L prefix ident =
     andThen (encodeBnsAddress L prefix (slice 0 20 ident)) (\<lambda>voterAddress.
     andThen (decodeNumericId L (drop 20 ident)) (\<lambda>proposalId.
     ok (voterAddress, proposalId)))"

definition decodeElector :: "bns_libs \<Rightarrow> string \<Rightarrow> gov_IElector \<Rightarrow> Elector result" where
  "decodeElector L prefix elector =
     andThen (ensureAddress L prefix (ge_address elector) ''address'') (\<lambda>address.
     andThen (ensure (ge_weight elector) ''weight'') (\<lambda>weight.
     ok \<lparr>elector_address = address, elector_weight = weight\<rparr>))"

definition decodeVote :: "bns_libs \<Rightarrow> string \<Rightarrow> gov_IVote Keyed \<Rightarrow> Vote result" where
  "decodeVote L prefix vote =
     andThen (decodeVoteId L prefix (keyed_id vote)) (\<lambda>(voterAddress, proposalId).
     andThen (andThen (ensure (gov_Vote_voted (keyed vote)) ''voted'') decodeVoteOption) (\<lambda>selection.
     andThen (ensure (gov_Vote_elector (keyed vote)) ''elector'') (\<lambda>elector0.
     andThen (decodeElector L prefix elector0) (\<lambda>elector.
     ok \<lparr>vt_proposalId = proposalId, vt_elector = elector, vt_selection = selection\<rparr>))))"

section \<open>Wallets, users, swaps\<close>

definition context_wallet :: "bns_libs \<Rightarrow> ChainId \<Rightarrow> cash_ISet Keyed \<Rightarrow> WalletData result" where
  "context_wallet L chainId acct =
     andThen (encodeBnsAddress L (addressPrefix chainId) (keyed_id acct)) (\<lambda>address.
     andThen (ensure (cash_Set_coins (keyed acct)) []) (\<lambda>coins.
     andThen (mapM (decodeAmount L) coins) (\<lambda>balance.
     ok \<lparr>wd_address = address, wd_balance = balance\<rparr>)))"

definition decodeUserData :: "bns_libs \<Rightarrow> sigs_IUserData \<Rightarrow> Nonce result" where
  "decodeUserData L userData = decodeNonce L (sigs_UserData_sequence userData)"

definition decodeOpenSwap :: "bns_libs \<Rightarrow> ChainId \<Rightarrow> aswap_ISwap Keyed \<Rightarrow> SwapData result" where
  "decodeOpenSwap L chainId object =
     (let swap = keyed object; prefix = addressPrefix chainId in
      case aswap_Swap_preimageHash swap of
        None \<Rightarrow> throw ''TypeError''
      | Some hash \<Rightarrow>
          if length hash \<noteq> 32 then throw ''Hash must be 32 bytes (sha256)''
          else
            andThen (ensureAddress L prefix (aswap_Swap_source swap) ''source'') (\<lambda>sender.
            andThen (ensureAddress L prefix (aswap_Swap_destination swap) ''destination'') (\<lambda>recipient.
            andThen (ensureInteger L (aswap_Swap_timeout swap) []) (\<lambda>timestamp.
            ok \<lparr>sd_id = \<lparr>swap_prefix = None, swap_data = keyed_id object\<rparr>, sd_sender = sender,
              sd_recipient = recipient, sd_hash = hash, sd_amounts = [],
              sd_timeout = TimestampTimeout timestamp, sd_memo = aswap_Swap_memo swap\<rparr>))))"

definition swapOfferFromTx :: "SwapOfferTransaction \<Rightarrow> byte list \<Rightarrow> SwapData" where
  "swapOfferFromTx transaction result =
     \<lparr>sd_id = \<lparr>swap_prefix = None, swap_data = result\<rparr>, sd_sender = offer_sender transaction,
      sd_recipient = offer_recipient transaction, sd_hash = offer_hash transaction,
      sd_amounts = offer_amounts transaction, sd_timeout = offer_timeout transaction,
      sd_memo = offer_memo transaction\<rparr>"

end
