(* ===== verification/Bcp_Connection.thy ===== *)
theory Bcp_Connection
  imports Bcp_Types
begin

text \<open>
  \<open>packages/iov-bcp/src/connection.ts\<close>: the queries that the connections to the
  blockchains take, and the accounts and blocks that they give.
\<close>

section \<open>Queries\<close>

record QueryTag =
  tag_key :: string
  tag_value :: string

record TransactionQuery =
  tq_id :: "string option"
  tq_sentFromOrTo :: "Address option"
  tq_signedBy :: "Address option"
  tq_tags :: "QueryTag list option"
  tq_height :: "number option"
  tq_minHeight :: "number option"
  tq_maxHeight :: "number option"

definition any_transaction :: TransactionQuery where
  "any_transaction = \<lparr>tq_id = None, tq_sentFromOrTo = None, tq_signedBy = None, tq_tags = None,
     tq_height = None, tq_minHeight = None, tq_maxHeight = None\<rparr>"

datatype AtomicSwapQuery =
    SwapByRecipient Address
  | SwapBySender Address
  | SwapById SwapId
  | SwapByHash "byte list"

datatype AccountQuery = ByAddress Address | ByPubkey PubkeyBundle

section \<open>Answers\<close>

record BcpAccount =
  ac_address :: Address
  ac_balance :: "Amount list"
  ac_pubkey :: "PubkeyBundle option"

record BlockHeader =
  bh_id :: string
  bh_height :: number
  bh_transactionCount :: number

text \<open>The header with its time, in milliseconds.\<close>

record TimedBlockHeader = BlockHeader +
  bh_time :: number

end
