(* ===== verification/Bns_Connection.thy ===== *)
theory Bns_Connection
  imports Bns_Objects Bcp_Swap_Merger Bcp_Connection Js_Json
begin

text \<open>
  \<open>packages/iov-bns/src/bnsconnection.ts\<close>, \<open>tags.ts\<close> and the query strings of
  \<open>util.ts\<close>: what a connection to a node of BNS computes from the answers of the node.
  The client for the RPC interface of the node is a parameter: every call that is
  awaited is a function of its arguments, and what a method resolves to is a function
  of these values; an error of the node is \<open>Inl\<close> its message. The streams of blocks and
  transactions are not modelled here.
\<close>

section \<open>The client and the node\<close>

record TxResponse =
  tr_tx :: "byte list"
  tr_hash :: "byte list"
  tr_height :: number
  tr_code :: number
  tr_log :: "string option"
  tr_data :: "byte list option"

record TmHeader =
  th_hash :: "byte list"
  th_height :: number
  th_numTxs :: number

text \<open>
  The libraries (with \<open>String.prototype.localeCompare\<close>: not after), the codec, and the
  client: a query gives the bytes of the keys and of the values.
\<close>

record bns_client =
  bx_libs :: bns_libs
  bx_proto :: proto_lib
  bx_fromUtf8 :: "byte list \<Rightarrow> string result"
  bx_localeCompare :: "string \<Rightarrow> string \<Rightarrow> bool"
  bx_codec :: "UnsignedTransaction TxCodec"
  bx_chainId :: ChainId
  bx_height :: "number result"
  bx_abciQuery :: "string \<Rightarrow> byte list \<Rightarrow> (byte list \<times> byte list) result"
  bx_txSearchAll :: "string \<Rightarrow> TxResponse list result"
  bx_blockchain :: "number \<Rightarrow> number \<Rightarrow> TmHeader list result"
  bx_validators :: "((string \<times> byte list) \<times> number) list result"

definition bx_prefix :: "bns_client \<Rightarrow> string" where
  "bx_prefix C = addressPrefix (bx_chainId C)"

section \<open>Query strings\<close>

definition quote :: string where
  "quote = [CHR 0x27]"

definition upperHex :: "byte list \<Rightarrow> string" where
  "upperHex bytes = map upper_char (toHex bytes)"

definition sentFromOrToTag :: "bns_libs \<Rightarrow> Address \<Rightarrow> string result" where
  "sentFromOrToTag L addr =
     andThen (toAscii ''cash:'') (\<lambda>bucket.
     andThen (addressData L addr) (\<lambda>data.
     ok (upperHex (bucket @ data) @ ''='' @ quote @ ''s'' @ quote)))"

definition signedByTag :: "bns_libs \<Rightarrow> Address \<Rightarrow> string result" where
  "signedByTag L addr =
     andThen (toAscii ''sigs:'') (\<lambda>bucket.
     andThen (addressData L addr) (\<lambda>data.
     ok (upperHex (bucket @ data) @ ''='' @ quote @ ''s'' @ quote)))"

text \<open>The component of a property that may be undefined.\<close>

definition component :: "('v \<Rightarrow> string result) \<Rightarrow> 'v option \<Rightarrow> string list result" where
  "component f property = (case property of None \<Rightarrow> ok [] | Some v \<Rightarrow> andThen (f v) (\<lambda>s. ok [s]))"

fun join_and :: "string list \<Rightarrow> string" where
  "join_and [] = []"
| "join_and [s] = s"
| "join_and (s # t # ss) = s @ '' AND '' @ join_and (t # ss)"

definition buildQueryString :: "bns_libs \<Rightarrow> TransactionQuery \<Rightarrow> string result" where
  "buildQueryString L query =
     andThen (component (sentFromOrToTag L) (tq_sentFromOrTo query)) (\<lambda>sentComponents.
     andThen (component (signedByTag L) (tq_signedBy query)) (\<lambda>signedByComponents.
     let tagComponents = (case tq_tags query of None \<Rightarrow> []
           | Some tags \<Rightarrow> map (\<lambda>tag. tag_key tag @ ''='' @ quote @ tag_value tag @ quote) tags);
         hashComponents = (case tq_id query of None \<Rightarrow> [] | Some i \<Rightarrow> [''tx.hash='' @ quote @ i @ quote]);
         heightComponents = (case tq_height query of None \<Rightarrow> [] | Some h \<Rightarrow> [''tx.height='' @ number_text h]);
         minHeightComponents = (case tq_minHeight query of None \<Rightarrow> [] | Some h \<Rightarrow> [''tx.height>'' @ number_text h]);
         maxHeightComponents = (case tq_maxHeight query of None \<Rightarrow> [] | Some h \<Rightarrow> [''tx.height<'' @ number_text h])
     in ok (join_and (sentComponents @ signedByComponents @ tagComponents @ hashComponents @ heightComponents @
          minHeightComponents @ maxHeightComponents))))"

definition bnsSwapQueryTag :: "bns_libs \<Rightarrow> AtomicSwapQuery \<Rightarrow> bool \<Rightarrow> QueryTag result" where
  "bnsSwapQueryTag L query is_set =
     andThen (case query of
         SwapById i \<Rightarrow> andThen (bucketKey ''swap'') (\<lambda>k. ok (k @ swap_data i))
       | SwapBySender sender \<Rightarrow> andThen (indexKey ''swap'' ''source'') (\<lambda>k. andThen (addressData L sender) (\<lambda>d. ok (k @ d)))
       | SwapByRecipient recipient \<Rightarrow>
           andThen (indexKey ''swap'' ''destination'') (\<lambda>k. andThen (addressData L recipient) (\<lambda>d. ok (k @ d)))
       | SwapByHash hash \<Rightarrow> andThen (indexKey ''swap'' ''preimage_hash'') (\<lambda>k. ok (k @ hash))) (\<lambda>binKey.
     ok \<lparr>tag_key = upperHex binKey, tag_value = (if is_set then ''s'' else ''d'')\<rparr>)"

section \<open>Queries of the store\<close>

definition zip_results :: "byte list list \<Rightarrow> byte list list \<Rightarrow> (byte list \<times> byte list) list result" where
  "zip_results keys values = (if length keys \<noteq> length values then throw ''Got keys but values''
     else ok (zip keys values))"

text \<open>\<open>X.decode(bytes)\<close>, where the defaults are read through the prototype.\<close>

definition decode_message :: "(byte list \<Rightarrow> int \<Rightarrow> ('m \<times> byte list) result) \<Rightarrow> byte list \<Rightarrow> 'm result" where
  "decode_message decode bytes = andThen (decode bytes (int (length bytes))) (\<lambda>(m, _). ok m)"

definition result_set :: "bns_client \<Rightarrow> byte list \<Rightarrow> byte list list result" where
  "result_set C bytes = andThen (decode_message (decode_app_ResultSet (bx_proto C)) bytes) (\<lambda>m.
     case app_ResultSet_results m of None \<Rightarrow> throw ''TypeError'' | Some results \<Rightarrow> ok results)"

definition bns_query :: "bns_client \<Rightarrow> string \<Rightarrow> byte list \<Rightarrow> (byte list \<times> byte list) list result" where
  "bns_query C path data =
     andThen (bx_abciQuery C path data) (\<lambda>(key, val).
     andThen (result_set C key) (\<lambda>keys.
     andThen (result_set C val) (\<lambda>values. zip_results keys values)))"

text \<open>\<open>createParser(X, keyPrefix)\<close>: \<open>field\<close> is the switch of the class, \<open>own\<close> the object without defaults.\<close>

definition createParser :: "proto_lib \<Rightarrow> ('m \<Rightarrow> int \<Rightarrow> byte list \<Rightarrow> ('m \<times> byte list) result) \<Rightarrow> 'm \<Rightarrow> string \<Rightarrow>
    byte list \<times> byte list \<Rightarrow> 'm Keyed result" where
  "createParser P field own keyPrefix kv =
     andThen (toAscii keyPrefix) (\<lambda>keyPrefixAsAscii.
     if take (length keyPrefixAsAscii) (fst kv) \<noteq> keyPrefixAsAscii
     then throw ''Result does not start with expected prefix.''
     else andThen (decode_message (read_message P field own) (snd kv)) (\<lambda>decoded.
       ok \<lparr>keyed_id = drop (length keyPrefix) (fst kv), keyed = decoded\<rparr>))"

text \<open>\<open>(await this.query(path, data)).results.map(parser).map(decode)\<close>.\<close>

definition query_objects :: "bns_client \<Rightarrow> ('m \<Rightarrow> int \<Rightarrow> byte list \<Rightarrow> ('m \<times> byte list) result) \<Rightarrow> 'm \<Rightarrow> string \<Rightarrow>
    string \<Rightarrow> byte list \<Rightarrow> ('m Keyed \<Rightarrow> 'x result) \<Rightarrow> 'x list result" where
  "query_objects C field own keyPrefix path data decode =
     andThen (bns_query C path data) (\<lambda>results.
     andThen (mapM (createParser (bx_proto C) field own keyPrefix) results) (\<lambda>parsed. mapM decode parsed))"

section \<open>Tokens, accounts, nonces\<close>

text \<open>The cache of the tokens is the state; the second component is its new value.\<close>

definition getAllTokens :: "bns_client \<Rightarrow> Token list option \<Rightarrow> (Token list \<times> Token list option) result" where
  "getAllTokens C tokensCache = (case tokensCache of
     Some tokens \<Rightarrow> ok (tokens, tokensCache)
   | None \<Rightarrow>
       andThen (query_objects C (field_currency_TokenInfo (bx_proto C)) own_currency_TokenInfo ''tokeninfo:''
           ''/tokens?prefix'' [] decodeToken) (\<lambda>data.
       let sorted_data = stable_sort (\<lambda>a b. bx_localeCompare C (tok_tokenTicker a) (tok_tokenTicker b)) data
       in ok (sorted_data, Some sorted_data)))"

definition getToken :: "bns_client \<Rightarrow> Token list option \<Rightarrow> string \<Rightarrow> (Token option \<times> Token list option) result" where
  "getToken C tokensCache ticker =
     andThen (getAllTokens C tokensCache) (\<lambda>(tokens, cache). ok (find (\<lambda>t. tok_tokenTicker t = ticker) tokens, cache))"

definition query_address :: "bns_client \<Rightarrow> AccountQuery \<Rightarrow> Address result" where
  "query_address C query = (case query of
     ByPubkey pubkey \<Rightarrow> identityToAddress (bx_libs C) \<lparr>id_chainId = bx_chainId C, id_pubkey = pubkey\<rparr>
   | ByAddress address \<Rightarrow> ok address)"

definition getAccount :: "bns_client \<Rightarrow> AccountQuery \<Rightarrow> BcpAccount option result" where
  "getAccount C query =
     andThen (query_address C query) (\<lambda>address.
     andThen (addressData (bx_libs C) address) (\<lambda>data.
     andThen (query_objects C (field_cash_Set (bx_proto C)) own_cash_Set ''cash:'' ''/wallets'' data
         (context_wallet (bx_libs C) (bx_chainId C))) (\<lambda>walletDatas.
     case walletDatas of
       [] \<Rightarrow> ok None
     | walletData # _ \<Rightarrow>
         andThen (case query of
             ByPubkey pubkey \<Rightarrow> ok (Some pubkey)
           | ByAddress _ \<Rightarrow>
               andThen (addressData (bx_libs C) (wd_address walletData)) (\<lambda>walletBytes.
               andThen (query_objects C (field_sigs_UserData (bx_proto C)) own_sigs_UserData ''sigs:'' ''/auth'' walletBytes
                   (\<lambda>ud. ok (sigs_UserData_pubkey (keyed ud)))) (\<lambda>ipubkeys.
               case ipubkeys of
                 Some ipubkey # _ \<Rightarrow> andThen (decodePubkey ipubkey) (\<lambda>pubkey. ok (Some pubkey))
               | _ \<Rightarrow> ok None))) (\<lambda>pubkey.
         ok (Some \<lparr>ac_address = wd_address walletData, ac_balance = wd_balance walletData, ac_pubkey = pubkey\<rparr>)))))"

definition getNonce :: "bns_client \<Rightarrow> AccountQuery \<Rightarrow> Nonce result" where
  "getNonce C query =
     andThen (query_address C query) (\<lambda>address.
     andThen (addressData (bx_libs C) address) (\<lambda>data.
     andThen (query_objects C (field_sigs_UserData (bx_proto C)) own_sigs_UserData ''sigs:'' ''/auth'' data
         (\<lambda>user. decodeUserData (bx_libs C) (keyed user))) (\<lambda>nonces.
     case nonces of
       [] \<Rightarrow> ok (int_num 0)
     | [nonce] \<Rightarrow> ok nonce
     | _ \<Rightarrow> throw ''Got unexpected number of nonce results'')))"

definition getNonces :: "bns_client \<Rightarrow> AccountQuery \<Rightarrow> number \<Rightarrow> Nonce list result" where
  "getNonces C query count =
     andThen (new_Uint53 count) (\<lambda>u.
     let checkedCount = Uint53_toNumber u in
     if checkedCount = int_num 0 then ok []
     else andThen (getNonce C query) (\<lambda>firstNonce.
       ok (firstNonce # map (\<lambda>index. js_add firstNonce (int_num (int index))) [1 ..< nat (floor_num checkedCount)])))"

section \<open>Governance, usernames, accounts and domains\<close>

definition getElectorates :: "bns_client \<Rightarrow> Electorate list result" where
  "getElectorates C = query_objects C (field_gov_Electorate (bx_proto C)) own_gov_Electorate ''electorate:''
     ''/electorates?prefix'' [] (decodeElectorate (bx_libs C) (bx_prefix C))"

definition getElectionRules :: "bns_client \<Rightarrow> ElectionRule list result" where
  "getElectionRules C = query_objects C (field_gov_ElectionRule (bx_proto C)) own_gov_ElectionRule ''electnrule:''
     ''/electionrules?prefix'' [] (decodeElectionRule (bx_libs C) (bx_prefix C))"

definition getProposals :: "bns_client \<Rightarrow> Proposal list result" where
  "getProposals C = query_objects C (field_gov_Proposal (bx_proto C)) own_gov_Proposal ''proposal:''
     ''/proposals?prefix'' [] (decodeProposal (bx_libs C) (bx_prefix C))"

definition getVotes :: "bns_client \<Rightarrow> Address \<Rightarrow> Vote list result" where
  "getVotes C voter =
     andThen (addressData (bx_libs C) voter) (\<lambda>data.
     query_objects C (field_gov_Vote (bx_proto C)) own_gov_Vote ''vote:'' ''/votes/electors?prefix'' data
       (decodeVote (bx_libs C) (bx_prefix C)))"

datatype BnsUsernamesQuery = UsernamesByUsername string | UsernamesByOwner Address

definition getUsernames :: "bns_client \<Rightarrow> BnsUsernamesQuery \<Rightarrow> BnsUsernameNft list result" where
  "getUsernames C query =
     andThen (case query of
         UsernamesByUsername username \<Rightarrow> ok (''/usernames'', toUtf8 username)
       | UsernamesByOwner owner \<Rightarrow> andThen (addressData (bx_libs C) owner) (\<lambda>d. ok (''/usernames/owner'', d))) (\<lambda>(path, data).
     query_objects C (field_username_Token (bx_proto C)) own_username_Token ''tokens:'' path data
       (\<lambda>nft. decodeUsernameNft (bx_libs C) (bx_fromUtf8 C) nft (bx_chainId C)))"

datatype BnsAccountsQuery = AccountByName string | AccountsByOwner Address | AccountsByDomain string

definition getAccounts :: "bns_client \<Rightarrow> BnsAccountsQuery \<Rightarrow> AccountNft list result" where
  "getAccounts C query =
     andThen (case query of
         AccountByName name \<Rightarrow> ok (''account:'', ''/accounts'', toUtf8 name)
       | AccountsByOwner owner \<Rightarrow> andThen (addressData (bx_libs C) owner) (\<lambda>d. ok ([], ''/accounts/owner'', d))
       | AccountsByDomain domain \<Rightarrow> ok ([], ''/accounts/domain'', toUtf8 domain)) (\<lambda>(keyPrefix, path, data).
     query_objects C (field_account_Account (bx_proto C)) own_account_Account keyPrefix path data
       (\<lambda>nft. decodeAccount (bx_libs C) (bx_prefix C) (keyed nft)))"

datatype BnsDomainsQuery = DomainByName string | DomainsByAdmin Address

definition getDomains :: "bns_client \<Rightarrow> BnsDomainsQuery \<Rightarrow> Domain list result" where
  "getDomains C query =
     andThen (case query of
         DomainByName name \<Rightarrow> ok (''domain:'', ''/domains'', toUtf8 name)
       | DomainsByAdmin admin \<Rightarrow> andThen (addressData (bx_libs C) admin) (\<lambda>d. ok ([], ''/domains/admin'', d))) (\<lambda>(keyPrefix, path, data).
     query_objects C (field_account_Domain (bx_proto C)) own_account_Domain keyPrefix path data
       (\<lambda>nft. decodeDomain (bx_libs C) (bx_prefix C) (keyed nft)))"

text \<open>A validator is its key and its power.\<close>

definition getValidators :: "bns_client \<Rightarrow> (PubkeyBundle \<times> number) list result" where
  "getValidators C =
     andThen (bx_validators C) (\<lambda>results.
     mapM (\<lambda>((algorithm, data), votingPower).
       if algorithm \<noteq> ''ed25519'' then throw ''Got unsupported pubkey''
       else ok (\<lparr>pk_algo = Ed25519, pk_data = data\<rparr>, votingPower)) results)"

section \<open>Blocks and transactions\<close>

definition tendermintInternalError :: number where
  "tendermintInternalError = int_num (-32603)"

text \<open>The parsed error has the members \<open>code\<close>, \<open>message\<close> and \<open>data\<close>; the model keeps code and data.\<close>

definition parseTendermintRpcError :: "string \<Rightarrow> (number \<times> string) result" where
  "parseTendermintRpcError errorString =
     andThen (JSON_parse errorString) (\<lambda>parsed.
     if parsed = Null then throw ''TypeError''
     else case (js_get parsed ''code'', js_get parsed ''message'', js_get parsed ''data'') of
       (Number code, Str message, Str data) \<Rightarrow> ok (code, data)
     | (Number code, Str message, _) \<Rightarrow> throw ''Could not parse `data` property''
     | (Number code, _, _) \<Rightarrow> throw ''Could not parse `message` property''
     | _ \<Rightarrow> throw ''Could not parse `code` property'')"

text \<open>The expression \<open>^min height H can't be greater than max height [0-9]+$\<close>.\<close>

definition matches_min_height :: "number \<Rightarrow> string \<Rightarrow> bool" where
  "matches_min_height height s =
     (let start = ''min height '' @ number_text height @ '' can'' @ quote @ ''t be greater than max height '';
          rest = drop (length start) s
      in take (length start) s = start \<and> rest \<noteq> [] \<and> list_all is_digit rest)"

definition getBlockHeader :: "bns_client \<Rightarrow> number \<Rightarrow> BlockHeader result" where
  "getBlockHeader C height =
     (case new_Uint53 height of
        Inl _ \<Rightarrow> throw ''Height must be a non-negative safe integer''
      | Inr _ \<Rightarrow>
          andThen (case bx_blockchain C height height of
              Inr blockMetas \<Rightarrow> ok blockMetas
            | Inl originalError \<Rightarrow> (case parseTendermintRpcError originalError of
                Inl _ \<Rightarrow> throw originalError
              | Inr (code, data) \<Rightarrow>
                  if code = tendermintInternalError \<and> matches_min_height height data
                  then throw ''Header doesn t exist yet'' else throw originalError)) (\<lambda>blockMetas.
          case blockMetas of
            [] \<Rightarrow> throw ''Received an empty list of block metas''
          | header # _ \<Rightarrow>
              if th_height header \<noteq> height then throw ''Requested header but got another''
              else ok \<lparr>bh_id = upperHex (th_hash header), bh_height = th_height header,
                bh_transactionCount = th_numTxs header\<rparr>))"

record ConfirmedTransaction =
  ctx_height :: number
  ctx_confirmations :: number
  ctx_transactionId :: string
  ctx_log :: "string option"
  ctx_result :: "byte list option"
  ctx_transaction :: UnsignedTransaction
  ctx_signatures :: "FullSignature list"

datatype SearchResult =
    ConfirmedTx ConfirmedTransaction
  | FailedTx number string number "string option"

fun search_id :: "SearchResult \<Rightarrow> string" where
  "search_id (ConfirmedTx tx) = ctx_transactionId tx"
| "search_id (FailedTx height transactionId code message) = transactionId"

text \<open>The result that is made of a transaction of the node, with its number of confirmations.\<close>

definition txResult :: "bns_client \<Rightarrow> number \<Rightarrow> TxResponse \<Rightarrow> SearchResult result" where
  "txResult C confirmations response =
     (let transactionId = upperHex (tr_hash response) in
      if tr_code response = int_num 0
      then andThen (codec_parseBytes (bx_codec C) (tr_tx response) (bx_chainId C)) (\<lambda>stx.
        ok (ConfirmedTx \<lparr>ctx_height = tr_height response, ctx_confirmations = confirmations,
          ctx_transactionId = transactionId, ctx_log = tr_log response, ctx_result = tr_data response,
          ctx_transaction = stx_transaction stx, ctx_signatures = stx_signatures stx\<rparr>))
      else ok (FailedTx (tr_height response) transactionId (tr_code response) (tr_log response)))"

definition searchTx :: "bns_client \<Rightarrow> TransactionQuery \<Rightarrow> SearchResult list result" where
  "searchTx C query =
     andThen (buildQueryString (bx_libs C) query) (\<lambda>q.
     andThen (bx_txSearchAll C q) (\<lambda>txs.
     andThen (bx_height C) (\<lambda>currentHeight.
     mapM (\<lambda>response. txResult C (js_add (js_sub currentHeight (tr_height response)) (int_num 1)) response) txs)))"

text \<open>One transaction of the subscription of \<open>listenTx\<close>.\<close>

definition listenTx_next :: "bns_client \<Rightarrow> TxResponse \<Rightarrow> SearchResult result" where
  "listenTx_next C transaction = txResult C (int_num 1) transaction"

definition getTx :: "bns_client \<Rightarrow> string \<Rightarrow> SearchResult result" where
  "getTx C ident =
     andThen (searchTx C (any_transaction\<lparr>tq_id := Some ident\<rparr>)) (\<lambda>searchResults.
     case searchResults of
       [] \<Rightarrow> throw ''Transaction does not exist''
     | [r] \<Rightarrow> ok r
     | _ \<Rightarrow> throw ''More than one transaction exists with this ID'')"

section \<open>Atomic swaps\<close>

definition updateSwapAmounts :: "bns_client \<Rightarrow> SwapData \<Rightarrow> SwapData result" where
  "updateSwapAmounts C swap =
     andThen (swapToAddress (bx_libs C) (bx_chainId C) (sd_id swap) (sd_hash swap)) (\<lambda>addr.
     andThen (getAccount C (ByAddress addr)) (\<lambda>account.
     let balance = (case account of None \<Rightarrow> [] | Some a \<Rightarrow> ac_balance a) in
     ok (swap\<lparr>sd_amounts := balance\<rparr>)))"

definition getSwapsFromState :: "bns_client \<Rightarrow> AtomicSwapQuery \<Rightarrow> AtomicSwap list result" where
  "getSwapsFromState C query =
     andThen (case query of
         SwapById i \<Rightarrow> ok (''/aswaps'', swap_data i)
       | SwapBySender sender \<Rightarrow> andThen (addressData (bx_libs C) sender) (\<lambda>d. ok (''/aswaps/source'', d))
       | SwapByRecipient recipient \<Rightarrow> andThen (addressData (bx_libs C) recipient) (\<lambda>d. ok (''/aswaps/destination'', d))
       | SwapByHash hash \<Rightarrow> ok (''/aswaps/preimage_hash'', hash)) (\<lambda>(path, data).
     andThen (query_objects C (field_aswap_Swap (bx_proto C)) own_aswap_Swap ''swap:'' path data
         (decodeOpenSwap (bx_libs C) (bx_chainId C))) (\<lambda>swaps.
     andThen (mapM (updateSwapAmounts C) swaps) (\<lambda>withBalance. ok (map OpenSwap withBalance))))"

fun confirmed_txs :: "SearchResult list \<Rightarrow> ConfirmedTransaction list" where
  "confirmed_txs [] = []"
| "confirmed_txs (ConfirmedTx tx # rs) = tx # confirmed_txs rs"
| "confirmed_txs (FailedTx h i c m # rs) = confirmed_txs rs"

text \<open>
  The events of the transactions. The result of an offer is the id of its swap; a node
  gives one for every offer, without it the model stops with a TypeError.
\<close>

definition offer_event :: "ConfirmedTransaction \<Rightarrow> swap_event result option" where
  "offer_event tx = (case tx_content (ctx_transaction tx) of
     SwapOffer c \<Rightarrow> Some (case ctx_result tx of
         None \<Rightarrow> throw ''TypeError''
       | Some result \<Rightarrow> ok (OpenEvent (swapOfferFromTx c result)))
   | _ \<Rightarrow> None)"

definition release_event :: "ConfirmedTransaction \<Rightarrow> swap_event option" where
  "release_event tx = (case tx_content (ctx_transaction tx) of
     SwapClaim c \<Rightarrow> Some (SettleEvent (ClaimTx c))
   | SwapAbort c \<Rightarrow> Some (SettleEvent (AbortTx c))
   | _ \<Rightarrow> None)"

text \<open>The events one after the other, with what each call of \<open>process\<close> gives.\<close>

fun process_all :: "merger \<Rightarrow> swap_event list \<Rightarrow> (merger \<times> AtomicSwap option list) result" where
  "process_all m [] = ok (m, [])"
| "process_all m (e # es) =
     andThen (process m e) (\<lambda>(m', out).
     andThen (process_all m' es) (\<lambda>(m'', outs). ok (m'', out # outs)))"

definition swaps_of_events :: "swap_event list \<Rightarrow> swap_event list \<Rightarrow> AtomicSwap list result" where
  "swaps_of_events offers releases =
     andThen (process_all new_merger offers) (\<lambda>(merger, _).
     andThen (process_all merger releases) (\<lambda>(merger', outs).
     ok (openSwaps merger' @ List.map_filter (\<lambda>s. s) outs)))"

definition getSwaps :: "bns_client \<Rightarrow> AtomicSwapQuery \<Rightarrow> AtomicSwap list result" where
  "getSwaps C query =
     andThen (bnsSwapQueryTag (bx_libs C) query True) (\<lambda>setTag.
     andThen (searchTx C (any_transaction\<lparr>tq_tags := Some [setTag]\<rparr>)) (\<lambda>setResults.
     andThen (bnsSwapQueryTag (bx_libs C) query False) (\<lambda>delTag.
     andThen (searchTx C (any_transaction\<lparr>tq_tags := Some [delTag]\<rparr>)) (\<lambda>delResults.
     let setTxs = confirmed_txs setResults; delTxs = confirmed_txs delResults in
     andThen (mapM (\<lambda>r. r) (List.map_filter offer_event setTxs)) (\<lambda>offers.
     let releases = List.map_filter release_event (setTxs @ delTxs)
     in swaps_of_events offers releases)))))"

section \<open>Fees\<close>

text \<open>The path of the message of a transaction; no path for another kind.\<close>

fun mapKindToBnsPath :: "TxContent \<Rightarrow> string option" where
  "mapKindToBnsPath (Send _) = Some ''cash/send''"
| "mapKindToBnsPath (SwapOffer _) = Some ''aswap/create''"
| "mapKindToBnsPath (SwapClaim _) = Some ''aswap/release''"
| "mapKindToBnsPath (SwapAbort _) = Some ''aswap/return''"
| "mapKindToBnsPath (RegisterUsername _) = Some ''username/register_token''"
| "mapKindToBnsPath (UpdateTargetsOfUsername _) = Some ''username/change_token_targets''"
| "mapKindToBnsPath (TransferUsername _) = Some ''username/transfer_token''"
| "mapKindToBnsPath (UpdateAccountConfiguration _) = Some ''account/update_configuration''"
| "mapKindToBnsPath (RegisterDomain _) = Some ''account/register_domain''"
| "mapKindToBnsPath (TransferDomain _) = Some ''account/transfer_domain''"
| "mapKindToBnsPath (RenewDomain _) = Some ''account/renew_domain''"
| "mapKindToBnsPath (DeleteDomain _) = Some ''account/delete_domain''"
| "mapKindToBnsPath (RegisterAccount _) = Some ''account/register_account''"
| "mapKindToBnsPath (TransferAccount _) = Some ''account/transfer_account''"
| "mapKindToBnsPath (ReplaceAccountTargets _) = Some ''account/replace_account_targets''"
| "mapKindToBnsPath (DeleteAccount _) = Some ''account/delete_account''"
| "mapKindToBnsPath (DeleteAllAccounts _) = Some ''account/delete_all_accounts''"
| "mapKindToBnsPath (RenewAccount _) = Some ''account/renew_account''"
| "mapKindToBnsPath (AddAccountCertificate _) = Some ''account/add_account_certificate''"
| "mapKindToBnsPath (ReplaceAccountMsgFees _) = Some ''account/replace_account_msg_fees''"
| "mapKindToBnsPath (DeleteAccountCertificate _) = Some ''account/delete_account_certificate''"
| "mapKindToBnsPath (CreateEscrow _) = Some ''escrow/create''"
| "mapKindToBnsPath (ReleaseEscrowT _) = Some ''escrow/release''"
| "mapKindToBnsPath (ReturnEscrow _) = Some ''escrow/return''"
| "mapKindToBnsPath (UpdateEscrowParties _) = Some ''escrow/update''"
| "mapKindToBnsPath (CreateMultisignature _) = Some ''multisig/create''"
| "mapKindToBnsPath (UpdateMultisignature _) = Some ''multisig/update''"
| "mapKindToBnsPath (CreateProposal _) = Some ''gov/create_proposal''"
| "mapKindToBnsPath (VoteT _) = Some ''gov/vote''"
| "mapKindToBnsPath (OtherKind _) = None"

definition maxSafeNonce :: Nonce where
  "maxSafeNonce = int_num (2 ^ 53 - 1)"

definition estimateTxSize :: "bns_client \<Rightarrow> UnsignedTransaction \<Rightarrow> nat \<Rightarrow> Nonce option \<Rightarrow> nat result" where
  "estimateTxSize C transaction numberOfSignatures nonce =
     (let signatures = replicate numberOfSignatures (createDummySignature (case nonce of None \<Rightarrow> maxSafeNonce | Some n \<Rightarrow> n)) in
      if \<not> isNonEmptyArray signatures then throw ''Cannot get transaction size with fewer than one signature''
      else andThen (case tx_fee transaction of
          Some _ \<Rightarrow> ok transaction
        | None \<Rightarrow> andThen (createDummyFee (bx_libs C)) (\<lambda>fee. ok (transaction\<lparr>tx_fee := Some fee\<rparr>))) (\<lambda>transactionWithFee.
      andThen (bytesToPost (bx_libs C) \<lparr>stx_transaction = transactionWithFee, stx_signatures = signatures\<rparr>) (\<lambda>bytes.
      ok (length bytes))))"

definition getTxFeeConfiguration :: "bns_client \<Rightarrow> TxFeeConfiguration option result" where
  "getTxFeeConfiguration C =
     andThen (toAscii ''_c:txfee'') (\<lambda>key.
     andThen (bns_query C ''/'' key) (\<lambda>results.
     case results of
       [] \<Rightarrow> ok None
     | [(_, val)] \<Rightarrow>
         andThen (decode_message (decode_txfee_Configuration (bx_proto C)) val) (\<lambda>m.
         andThen (decodeTxFeeConfiguration (bx_libs C) (bx_prefix C) m) (\<lambda>config. ok (Some config)))
     | _ \<Rightarrow> throw ''Unexpected number of results for tx fee configuration.''))"

definition getDefaultFee :: "bns_client \<Rightarrow> Amount option result" where
  "getDefaultFee C =
     andThen (toAscii ''_c:cash'') (\<lambda>key.
     andThen (bns_query C ''/'' key) (\<lambda>results.
     case results of
       [(_, val)] \<Rightarrow>
         andThen (decode_message (decode_cash_Configuration (bx_proto C)) val) (\<lambda>m.
         andThen (decodeCashConfiguration (bx_libs C) (bx_prefix C) m) (\<lambda>config. ok (cash_minimalFee config)))
     | _ \<Rightarrow> throw ''Unexpected number of results for minimal fee.''))"

text \<open>\<open>x ** 2\<close>.\<close>

definition squared :: "number \<Rightarrow> number" where
  "squared x = (case x of Num q \<Rightarrow> double_of_rat (q * q) | NaN \<Rightarrow> NaN | _ \<Rightarrow> PosInfinity)"

definition getSizeFee :: "bns_client \<Rightarrow> UnsignedTransaction \<Rightarrow> nat \<Rightarrow> Nonce option \<Rightarrow> Amount option result" where
  "getSizeFee C tx numberOfSignatures nonce =
     andThen (getTxFeeConfiguration C) (\<lambda>config.
     case config of
       None \<Rightarrow> ok None
     | Some c \<Rightarrow> (case (txf_baseFee c, txf_freeBytes c) of
         (Some baseFee, Some freeBytes) \<Rightarrow>
           andThen (estimateTxSize C tx numberOfSignatures nonce) (\<lambda>txSize.
           let over = js_sub (int_num (int txSize)) freeBytes;
               charged = (if num_less (int_num 0) over then over else int_num 0);
               multiplier = squared charged
           in andThen (bn_assert (bn_fromNumber (bx_libs C) multiplier)) (\<lambda>m.
           ok (Some (baseFee\<lparr>am_quantity := bn_toString (bx_libs C)
             (bn_mul (bx_libs C) m (bn_fromString (bx_libs C) (am_quantity baseFee)))\<rparr>))))
       | _ \<Rightarrow> ok None))"

definition getProductFee :: "bns_client \<Rightarrow> UnsignedTransaction \<Rightarrow> Amount option result" where
  "getProductFee C transaction =
     (let path = (case mapKindToBnsPath (tx_content transaction) of None \<Rightarrow> ''undefined'' | Some p \<Rightarrow> p) in
      andThen (toAscii (''msgfee:'' @ path)) (\<lambda>key.
      andThen (bns_query C ''/'' key) (\<lambda>results.
      if length results > 1 then throw ''Unexpected number of results for product fee.''
      else
        andThen (mapM (createParser (bx_proto C) (field_msgfee_MsgFee (bx_proto C)) own_msgfee_MsgFee ''msgfee:'') results) (\<lambda>msgs.
        andThen (mapM (\<lambda>msg. case msgfee_MsgFee_fee (keyed msg) of
            None \<Rightarrow> throw ''Could not decode missing fee''
          | Some x \<Rightarrow> decodeAmount (bx_libs C) x) msgs) (\<lambda>fees.
        ok (case fees of [] \<Rightarrow> None | fee # _ \<Rightarrow> Some fee))))))"

text \<open>The fee as a function of the three amounts.\<close>

definition combine_fees :: "bns_libs \<Rightarrow> Amount option \<Rightarrow> Amount option \<Rightarrow> Amount option \<Rightarrow> Amount option result" where
  "combine_fees L explicitProductFee minProductFee sizeFee =
     (let validProductFees = List.map_filter (\<lambda>x. x) [explicitProductFee, minProductFee];
          productFee = (case validProductFees of [] \<Rightarrow> None | first # rest \<Rightarrow> Some (maxAmount L first rest))
      in case List.map_filter (\<lambda>x. x) [productFee, sizeFee] of
           [] \<Rightarrow> ok None
         | first # rest \<Rightarrow> andThen (addAmounts L first rest) (\<lambda>fee. ok (Some fee)))"

definition getFeeQuote :: "bns_client \<Rightarrow> UnsignedTransaction \<Rightarrow> nat \<Rightarrow> Nonce option \<Rightarrow> Fee result" where
  "getFeeQuote C transaction numberOfSignatures nonce =
     (if \<not> isBnsTx transaction then throw ''Received transaction of unsupported kind.''
      else
        andThen (getProductFee C transaction) (\<lambda>explicitProductFee.
        andThen (getDefaultFee C) (\<lambda>minProductFee.
        andThen (getSizeFee C transaction numberOfSignatures nonce) (\<lambda>sizeFee.
        andThen (combine_fees (bx_libs C) explicitProductFee minProductFee sizeFee) (\<lambda>fee.
        ok \<lparr>fee_tokens = fee, fee_gasPrice = None, fee_gasLimit = None, fee_payer = None\<rparr>)))))"

definition withDefaultFee :: "bns_client \<Rightarrow> UnsignedTransaction \<Rightarrow> Address option \<Rightarrow> UnsignedTransaction result" where
  "withDefaultFee C transaction payer =
     andThen (getFeeQuote C transaction 1 None) (\<lambda>feeQuote.
     ok (transaction\<lparr>tx_fee := Some (feeQuote\<lparr>fee_payer := payer\<rparr>)\<rparr>))"

end
