(* ===== verification/Bns_Queries.thy ===== *)
theory Bns_Queries
  imports Bns_Connection
begin

text \<open>
  What the connection of \<open>packages/iov-bns/src/bnsconnection.ts\<close> gives to its callers
  when the node answers as its interface says: objects of the store are read back,
  nonces are consecutive, swaps are merged, and the fee covers what the chain asks for.
\<close>

section \<open>What a node answers\<close>

text \<open>The node answers a query with these keys and values, in messages of less than 4 GiB.\<close>

definition answers :: "bns_client \<Rightarrow> string \<Rightarrow> byte list \<Rightarrow> (byte list \<times> byte list) list \<Rightarrow> bool" where
  "answers C path data kvs \<longleftrightarrow>
     (let encode = (\<lambda>bs. encode_app_ResultSet (bx_proto C) \<lparr>app_ResultSet_results = Some bs\<rparr>) in
      bx_abciQuery C path data = ok (encode (map fst kvs), encode (map snd kvs)) \<and>
      length (encode (map fst kvs)) < 2 ^ 32 \<and> length (encode (map snd kvs)) < 2 ^ 32)"

lemma decode_message_decodes:
  "decodes decode w m \<Longrightarrow> length w < 2 ^ 32 \<Longrightarrow> decode_message decode w = ok m"
  using append_Nil2 [of w] unfolding decodes_def decode_message_def by (metis andThen_simps(2) prod.case)

lemma bns_query_answers:
  assumes "proto_laws (bx_proto C)" "answers C path data kvs"
  shows "bns_query C path data = ok kvs"
proof -
  have r: "result_set C (encode_app_ResultSet (bx_proto C) \<lparr>app_ResultSet_results = Some bs\<rparr>) = ok bs"
    if "length (encode_app_ResultSet (bx_proto C) \<lparr>app_ResultSet_results = Some bs\<rparr>) < 2 ^ 32" for bs
    using decode_message_decodes [OF decodes_app_ResultSet [OF assms(1)] that]
    by (simp add: result_set_def norm_app_IResultSet_def norm_repeated_def)
  show ?thesis
    using assms(2) r [of "map fst kvs"] r [of "map snd kvs"]
    by (simp add: answers_def Let_def bns_query_def zip_results_def zip_map_fst_snd)
qed

text \<open>An object under the key of its bucket is parsed to what is kept of it.\<close>

lemma createParser_keeps:
  assumes "toAscii keyPrefix = ok p" "decodes (read_message P field own) w m" "length w < 2 ^ 32"
  shows "createParser P field own keyPrefix (p @ i, w) = ok \<lparr>keyed_id = i, keyed = m\<rparr>"
proof -
  have "length p = length keyPrefix" using assms(1) by (auto simp: toAscii_iff)
  then show ?thesis by (simp add: createParser_def assms(1) decode_message_decodes [OF assms(2,3)])
qed

lemma query_objects_keeps:
  assumes "proto_laws (bx_proto C)" "toAscii keyPrefix = ok p"
    and "answers C path data (map (\<lambda>(i, m). (p @ i, encode m)) objects)"
    and "\<And>i m. (i, m) \<in> set objects \<Longrightarrow> decodes (read_message (bx_proto C) field own) (encode m) (keep m) \<and> length (encode m) < 2 ^ 32"
  shows "query_objects C field own keyPrefix path data decode =
    mapM decode (map (\<lambda>(i, m). \<lparr>keyed_id = i, keyed = keep m\<rparr>) objects)"
proof -
  have step: "createParser (bx_proto C) field own keyPrefix (p @ i, encode m) = ok \<lparr>keyed_id = i, keyed = keep m\<rparr>"
    if "(i, m) \<in> set objects" for i m
    using assms(4) [OF that] by (intro createParser_keeps [OF assms(2)]) blast+
  have "mapM (createParser (bx_proto C) field own keyPrefix) (map (\<lambda>(i, m). (p @ i, encode m)) os)
      = ok (map (\<lambda>(i, m). \<lparr>keyed_id = i, keyed = keep m\<rparr>) os)" if "set os \<subseteq> set objects" for os
    using that by (induction os) (auto simp: step)
  then show ?thesis using bns_query_answers [OF assms(1,3)] by (simp add: query_objects_def)
qed

section \<open>A node for the witnesses\<close>

text \<open>It answers from a store and from a list of transactions.\<close>

definition demo_client :: "(string \<Rightarrow> byte list \<Rightarrow> (byte list \<times> byte list) list) \<Rightarrow> (string \<Rightarrow> TxResponse list) \<Rightarrow>
    (byte list \<Rightarrow> UnsignedTransaction) \<Rightarrow> bns_client" where
  "demo_client store search parse = \<lparr>
     bx_libs = with_proto demo_proto demo_chain, bx_proto = demo_proto, bx_fromUtf8 = demo_utf8_decode,
     bx_localeCompare = (\<lambda>a b. True),
     bx_codec = (bnsCodec demo_chain)\<lparr>codec_parseBytes := (\<lambda>b c. ok \<lparr>stx_transaction = parse b, stx_signatures = []\<rparr>)\<rparr>,
     bx_chainId = ''test'', bx_height = ok (int_num 9),
     bx_abciQuery = (\<lambda>path data.
       ok (encode_app_ResultSet demo_proto \<lparr>app_ResultSet_results = Some (map fst (store path data))\<rparr>,
           encode_app_ResultSet demo_proto \<lparr>app_ResultSet_results = Some (map snd (store path data))\<rparr>)),
     bx_txSearchAll = (\<lambda>q. ok (search q)), bx_blockchain = (\<lambda>a b. ok []), bx_validators = ok []\<rparr>"

lemma demo_client_simps [simp]:
  "bx_libs (demo_client store search parse) = with_proto demo_proto demo_chain"
  "bx_proto (demo_client store search parse) = demo_proto"
  "bx_chainId (demo_client store search parse) = ''test''"
  "bx_height (demo_client store search parse) = ok (int_num 9)"
  "bx_txSearchAll (demo_client store search parse) q = ok (search q)"
  "codec_parseBytes (bx_codec (demo_client store search parse)) b c = ok \<lparr>stx_transaction = parse b, stx_signatures = []\<rparr>"
  "bx_prefix (demo_client store search parse) = ''tiov''"
  by (simp_all add: demo_client_def bx_prefix_def addressPrefix_def mainnetChainId_def)

lemma demo_client_laws: "bns_laws (with_proto demo_proto demo_chain)"
  by (rule with_proto_laws [OF demo_laws])

lemma length_result_set:
  "list_all (\<lambda>b. length b < 2 ^ 14) bs \<Longrightarrow>
   length (put_each demo_proto 10 (pw_bytes demo_proto) (Some bs)) \<le> (2 ^ 14 + 2) * length bs"
proof (induction bs)
  case (Cons b bs)
  have "length (varint n) \<le> 2" if "n < 2 ^ 14" for n
    using that by (cases "n < 128") (simp_all add: div_less_iff_less_mult)
  then have "length (varint (length b)) \<le> 2" "length b < 2 ^ 14" using Cons.prems by simp_all
  with Cons show ?case by simp
qed simp

lemma demo_client_answers:
  assumes "list_all (\<lambda>kv. length (fst kv) < 2 ^ 14 \<and> length (snd kv) < 2 ^ 14) (store path data)" "length (store path data) < 2 ^ 14"
  shows "answers (demo_client store search parse) path data (store path data)"
proof -
  have l: "length (encode_app_ResultSet demo_proto \<lparr>app_ResultSet_results = Some bs\<rparr>) < 2 ^ 32"
    if "list_all (\<lambda>b. length b < 2 ^ 14) bs" "length bs < 2 ^ 14" for bs
  proof -
    have "(2 ^ 14 + 2) * length bs < (2::nat) ^ 32" using that(2) by simp
    with length_result_set [OF that(1)] show ?thesis unfolding encode_app_ResultSet_def by (simp only: app_IResultSet.simps)
  qed
  have "list_all (\<lambda>b. length b < 2 ^ 14) (map fst (store path data))" "list_all (\<lambda>b. length b < 2 ^ 14) (map snd (store path data))"
    using assms(1) by (auto simp: list_all_iff)
  with assms(2) show ?thesis
    using l [of "map fst (store path data)"] l [of "map snd (store path data)"]
    by (simp add: answers_def Let_def demo_client_def)
qed

section \<open>Votes\<close>

text \<open>How a node stores a vote: the key is the address of the voter and the id of the proposal.\<close>

definition stored_vote :: "bns_libs \<Rightarrow> byte list \<Rightarrow> Vote \<Rightarrow> byte list \<times> gov_IVote" where
  "stored_vote L voter v = (voter @ raw_id L (vt_proposalId v),
     \<lparr>gov_Vote_metadata = metadata1,
      gov_Vote_elector = Some \<lparr>ge_address = Some voter, ge_weight = Some (elector_weight (vt_elector v))\<rparr>,
      gov_Vote_voted = Some (encodeVoteOption (vt_selection v))\<rparr>)"

definition vote_of :: "Address \<Rightarrow> Vote \<Rightarrow> bool" where
  "vote_of voter v \<longleftrightarrow> elector_address (vt_elector v) = voter \<and> numeric_id (vt_proposalId v) \<and>
     is_uint32 (elector_weight (vt_elector v))"

lemma encodeVoteOption_int32: "is_int32 (encodeVoteOption v)"
  by (cases v) (simp_all add: is_int32_def)

lemma int_num_floor: "isInteger n \<Longrightarrow> int_num (floor_num n) = n"
  by (auto simp: isInteger_iff)

lemma decodeVote_stored:
  assumes "bns_laws L" "length d = 20" "encodeBnsAddress L prefix d = ok voter" "vote_of voter v"
  shows "decodeVote L prefix \<lparr>keyed_id = fst (stored_vote L d v), keyed = kept_gov_Vote (snd (stored_vote L d v))\<rparr> = ok v"
proof -
  have "decodeVoteId L prefix (d @ raw_id L (vt_proposalId v)) = ok (voter, vt_proposalId v)"
    using assms id_wire(2) [OF assms(1)] by (simp add: decodeVoteId_def slice_def vote_of_def)
  moreover have "decodeElector L prefix (norm_gov_IElector \<lparr>ge_address = Some d, ge_weight = Some (elector_weight (vt_elector v))\<rparr>)
      = ok (vt_elector v)"
    using assms(3,4) by (simp add: decodeElector_def norm_gov_IElector_def norm_bytes_def norm_number_def ensureAddress_def vote_of_def)
  ultimately show ?thesis
    by (simp add: decodeVote_def stored_vote_def kept_gov_Vote_def vote_option_wire)
qed

text \<open>
  C29. A node that stores votes of a voter, each as a protobuf message under the key of
  the voter and the proposal, and answers the query for them: \<open>getVotes\<close> gives exactly
  these votes, through the result sets, the keys and the messages.
\<close>

theorem stored_votes_are_read:
  assumes "bns_laws (bx_libs C)" "proto_laws (bx_proto C)"
    and "address_of (bx_libs C) (bx_prefix C) voter" "addressData (bx_libs C) voter = ok d"
    and "\<forall>v \<in> set votes. vote_of voter v \<and> length (encode_gov_Vote (bx_proto C) (snd (stored_vote (bx_libs C) d v))) < 2 ^ 32"
    and "answers C ''/votes/electors?prefix'' d (map (\<lambda>v. case stored_vote (bx_libs C) d v of (i, m) \<Rightarrow>
      (map ascii_byte ''vote:'' @ i, encode_gov_Vote (bx_proto C) m)) votes)"
  shows "getVotes C voter = ok votes"
proof -
  let ?L = "bx_libs C"
  obtain d' where "length d' = 20" "addressData ?L voter = ok d'" "encodeBnsAddress ?L (bx_prefix C) d' = ok voter"
    using address_ofE [OF assms(1)] assms(3) unfolding bx_prefix_def by metis
  with assms(4) have d: "length d = 20" "encodeBnsAddress ?L (bx_prefix C) d = ok voter" by simp_all
  have ascii: "toAscii ''vote:'' = ok (map ascii_byte ''vote:'')" by (rule toAscii_ok) (simp add: printable_def)
  have valid: "valid_gov_Vote (snd (stored_vote ?L d v))" if "v \<in> set votes" for v
    using assms(5) that by (simp add: stored_vote_def valid_gov_Vote_def valid_weave_Metadata_def valid_gov_Elector_def
        vote_of_def encodeVoteOption_int32 is_uint32_def)
  have "query_objects C (field_gov_Vote (bx_proto C)) own_gov_Vote ''vote:'' ''/votes/electors?prefix'' d (decodeVote ?L (bx_prefix C))
      = mapM (decodeVote ?L (bx_prefix C)) (map (\<lambda>(i, m). \<lparr>keyed_id = i, keyed = kept_gov_Vote m\<rparr>) (map (stored_vote ?L d) votes))"
  proof (rule query_objects_keeps [OF assms(2) ascii])
    show "answers C ''/votes/electors?prefix'' d
        (map (\<lambda>(i, m). (map ascii_byte ''vote:'' @ i, encode_gov_Vote (bx_proto C) m)) (map (stored_vote ?L d) votes))"
      using assms(6) by (simp only: map_map comp_def split_beta)
  next
    fix i m assume "(i, m) \<in> set (map (stored_vote ?L d) votes)"
    then obtain v where "v \<in> set votes" "m = snd (stored_vote ?L d v)" by (metis (no_types, lifting) imageE list.set_map snd_conv)
    then show "decodes (read_message (bx_proto C) (field_gov_Vote (bx_proto C)) own_gov_Vote) (encode_gov_Vote (bx_proto C) m)
        (kept_gov_Vote m) \<and> length (encode_gov_Vote (bx_proto C) m) < 2 ^ 32"
      using assms(5) keeps_gov_Vote [OF assms(2) valid] by blast
  qed
  also have "\<dots> = ok (map (\<lambda>v. v) votes)"
    unfolding map_map mapM_map comp_def split_beta
    using decodeVote_stored [OF assms(1) d] assms(5) by (intro mapM_ok) simp
  finally show ?thesis by (simp add: getVotes_def assms(4))
qed

definition demo_vote :: Vote where
  "demo_vote = \<lparr>vt_proposalId = int_num 3, vt_elector = \<lparr>elector_address = demo_party 1, elector_weight = int_num 5\<rparr>,
     vt_selection = No\<rparr>"

lemmas demo_proto_sizes = encode_gov_Vote_def encode_gov_Elector_def encode_weave_Metadata_def encode_account_Domain_def
  encode_txfee_Configuration_def encode_cash_Configuration_def encode_coin_Coin_def demo_coin_def demo_sizes

lemma demo_raw_id: "length (raw_id (with_proto demo_proto demo_chain) (int_num 3)) = 8"
  using encodeNumericId_length [OF demo_client_laws _ id_wire(1) [OF demo_client_laws]]
  by (simp add: numeric_id_def safe_nonce_def)

lemma stored_votes_are_read_witness:
  "\<exists>store. getVotes (demo_client store (\<lambda>_. []) (\<lambda>_. demo_tx)) (demo_party 1) = ok [demo_vote]"
proof -
  let ?L = "with_proto demo_proto demo_chain"
  define store where "store = (\<lambda>(path :: string) (data :: byte list). map (\<lambda>v. case stored_vote ?L (replicate 20 1) v of (i, m) \<Rightarrow>
    (map ascii_byte ''vote:'' @ i, encode_gov_Vote demo_proto m)) [demo_vote])"
  let ?C = "demo_client store (\<lambda>_. []) (\<lambda>_. demo_tx)"
  have n: "numeric_id (int_num 3)" by (simp add: numeric_id_def safe_nonce_def)
  have small: "length (encode_gov_Vote demo_proto (snd (stored_vote ?L (replicate 20 1) demo_vote))) < 100"
    by (simp add: stored_vote_def demo_vote_def demo_proto_sizes)
  have "getVotes ?C (demo_party 1) = ok [demo_vote]"
  proof (rule stored_votes_are_read [where d = "replicate 20 1"])
    show "address_of (bx_libs ?C) (bx_prefix ?C) (demo_party 1)" "addressData (bx_libs ?C) (demo_party 1) = ok (replicate 20 1)"
      by (simp_all add: with_proto_demo demo_party_address)
    show "answers ?C ''/votes/electors?prefix'' (replicate 20 1) (map (\<lambda>v. case stored_vote (bx_libs ?C) (replicate 20 1) v of (i, m) \<Rightarrow>
        (map ascii_byte ''vote:'' @ i, encode_gov_Vote (bx_proto ?C) m)) [demo_vote])"
      using demo_client_answers [of store "''/votes/electors?prefix''" "replicate 20 1"] small demo_raw_id
      by (simp add: store_def split_beta) (simp add: stored_vote_def demo_vote_def)
    show "\<forall>v \<in> set [demo_vote]. vote_of (demo_party 1) v \<and>
        length (encode_gov_Vote (bx_proto ?C) (snd (stored_vote (bx_libs ?C) (replicate 20 1) v))) < 2 ^ 32"
      using small n by (simp add: vote_of_def demo_vote_def is_uint32_def)
  qed (simp_all add: demo_client_laws demo_proto_laws)
  then show ?thesis by blast
qed

section \<open>Domains\<close>

text \<open>
  The defaults of a message are lost on the way to the decoder. A domain whose
  period of renewal is zero, which is not written, can not be read: \<open>getDomains\<close> throws
  for the whole query, although the other properties are there.
\<close>

lemma domain_without_renewal_unreadable:
  assumes "bns_laws (bx_libs C)" "proto_laws (bx_proto C)"
    and "account_Domain_accountRenew m = None" "valid_account_Domain m"
    and "length (encode_account_Domain (bx_proto C) m) < 2 ^ 32"
    and "account_Domain_domain m = Some name" "account_Domain_admin m = Some admin" "length admin = 20"
    and "account_Domain_validUntil m = Some t" "account_Domain_msgFees m = None"
    and "answers C ''/domains'' (toUtf8 name) [(map ascii_byte ''domain:'' @ toUtf8 name, encode_account_Domain (bx_proto C) m)]"
  shows "getDomains C (DomainByName name) = throw ''missing accountRenew''"
proof -
  have ascii: "toAscii ''domain:'' = ok (map ascii_byte ''domain:'')" by (rule toAscii_ok) (simp add: printable_def)
  have "query_objects C (field_account_Domain (bx_proto C)) own_account_Domain ''domain:'' ''/domains'' (toUtf8 name) decode
      = mapM decode (map (\<lambda>(i, m). \<lparr>keyed_id = i, keyed = kept_account_Domain m\<rparr>) [(toUtf8 name, m)])"
    for decode :: "account_IDomain Keyed \<Rightarrow> Domain result"
    using assms(5,11) keeps_account_Domain [OF assms(2,4)]
    by (intro query_objects_keeps [OF assms(2) ascii, where encode = "encode_account_Domain (bx_proto C)"]) simp_all
  moreover obtain a where "encodeBnsAddress (bx_libs C) (bx_prefix C) admin = ok a"
    using encodeBnsAddress_ok [OF assms(1,8), of "bx_chainId C"] unfolding bx_prefix_def by blast
  then have "decodeDomain (bx_libs C) (bx_prefix C) (kept_account_Domain m) = throw ''missing accountRenew''"
    using assms(3,6,7,9,10)
    by (simp add: decodeDomain_def kept_account_Domain_def ensureAddress_def ensureInteger_def kept_int64_def
        asIntegerNumber_def norm_repeated_def) (simp add: ensure_def)
  ultimately show ?thesis by (simp add: getDomains_def)
qed

section \<open>Nonces\<close>

text \<open>\<open>getNonces\<close> gives consecutive nonces, the first of which is that of the account.\<close>

lemma getNonces_consecutive:
  assumes "getNonce C query = ok (int_num n)" "0 \<le> n" "0 < k" "n + int k < 2 ^ 53" "int k \<le> 9007199254740991"
  shows "getNonces C query (int_num (int k)) = ok (map (\<lambda>i. int_num (n + int i)) [0 ..< k])"
proof -
  obtain u where u: "new_Uint53 (int_num (int k)) = ok u" "Uint53_toNumber u = int_num (int k)"
    using new_Uint53_int [of "int k"] assms(5) by (simp add: Uint53_toNumber_def Int53_toNumber_def)
  have "map (\<lambda>i. js_add (int_num n) (int_num (int i))) [1 ..< k] = map (\<lambda>i. int_num (n + int i)) [1 ..< k]"
    using assms(2,4) by (intro map_cong refl js_add_int) auto
  moreover have "[0 ..< k] = 0 # [1 ..< k]" using assms(3) by (simp add: upt_conv_Cons)
  ultimately show ?thesis using assms(1,3) u by (simp add: getNonces_def)
qed

section \<open>Swaps\<close>

lemma find_key_absent: "i \<notin> f ` set xs \<Longrightarrow> find (\<lambda>x. f x = i) xs = None"
  by (metis find_key_None imageI)

lemma process_offers:
  assumes "distinct (map sd_id (m_open m @ ds))" "m_settling m = []"
  shows "process_all m (map OpenEvent ds) = ok (m\<lparr>m_open := m_open m @ ds\<rparr>, map (\<lambda>d. Some (OpenSwap d)) ds)"
  using assms
proof (induction ds arbitrary: m)
  case (Cons d ds)
  have "find (\<lambda>x. sd_id x = sd_id d) (m_open m) = None"
    using Cons.prems(1) by (intro find_key_absent) auto
  then have "process m (OpenEvent d) = ok (m\<lparr>m_open := m_open m @ [d]\<rparr>, Some (OpenSwap d))"
    using Cons.prems(2) by simp
  then show ?case using Cons.IH [of "m\<lparr>m_open := m_open m @ [d]\<rparr>"] Cons.prems by simp
qed simp

text \<open>What a release makes of the open swaps: the swap it settles, if there is one.\<close>

definition settled_by :: "SwapData list \<Rightarrow> settle_event \<Rightarrow> AtomicSwap option" where
  "settled_by ds e = map_option (\<lambda>d. settleAtomicSwap d e) (find (\<lambda>d. sd_id d = settle_swapId e) ds)"

lemma process_releases:
  assumes "distinct (map sd_id (m_open m))" "distinct (map settle_swapId (m_settling m @ es))"
  shows "\<exists>m'. process_all m (map SettleEvent es) = ok (m', map (settled_by (m_open m)) es) \<and>
    m_open m' = filter (\<lambda>d. sd_id d \<notin> settle_swapId ` set es) (m_open m)"
  using assms
proof (induction es arbitrary: m)
  case (Cons e es)
  have d: "distinct (map settle_swapId (m_settling m @ es))" "settle_swapId e \<notin> settle_swapId ` set es"
    "settle_swapId e \<notin> settle_swapId ` set (m_settling m)"
    using Cons.prems(2) by auto
  show ?case
  proof (cases "find (\<lambda>x. sd_id x = settle_swapId e) (m_open m)")
    case None
    let ?m = "m\<lparr>m_settling := m_settling m @ [e]\<rparr>"
    have "find (\<lambda>x. settle_swapId x = settle_swapId e) (m_settling m) = None"
      using d(3) by (rule find_key_absent)
    then have p: "process m (SettleEvent e) = ok (?m, None)" using None by simp
    obtain m' where m': "process_all ?m (map SettleEvent es) = ok (m', map (settled_by (m_open m)) es)"
      "m_open m' = filter (\<lambda>d. sd_id d \<notin> settle_swapId ` set es) (m_open m)"
      using Cons.IH [of ?m] Cons.prems by auto
    moreover have "filter (\<lambda>d. sd_id d \<notin> settle_swapId ` set es) (m_open m)
        = filter (\<lambda>d. sd_id d \<notin> settle_swapId ` set (e # es)) (m_open m)"
      using None by (intro filter_cong refl) (auto simp: find_key_None)
    ultimately show ?thesis using p None by (simp add: settled_by_def)
  next
    case (Some x)
    let ?rest = "filter (\<lambda>d. sd_id d \<noteq> settle_swapId e) (m_open m)"
    let ?m = "m\<lparr>m_open := ?rest\<rparr>"
    have p: "process m (SettleEvent e) = ok (?m, Some (settleAtomicSwap x e))"
      using Some splice_findIndex [OF Cons.prems(1), of "settle_swapId e"] by simp
    obtain m' where m': "process_all ?m (map SettleEvent es) = ok (m', map (settled_by ?rest) es)"
      "m_open m' = filter (\<lambda>d. sd_id d \<notin> settle_swapId ` set es) ?rest"
      using Cons.IH [of ?m] d(1) distinct_map_filter_key [OF Cons.prems(1)] by auto
    have "map (settled_by ?rest) es = map (settled_by (m_open m)) es"
      using d(2) by (intro map_cong refl) (auto simp: settled_by_def find_filter_neq image_def)
    moreover have "m_open m' = filter (\<lambda>d. sd_id d \<notin> settle_swapId ` set (e # es)) (m_open m)"
      unfolding m'(2) by (auto simp: intro!: filter_cong)
    ultimately show ?thesis using p m' Some by (simp add: settled_by_def)
  qed
qed simp

text \<open>
  C30. \<open>getSwaps\<close>: of the offers that the chain confirmed, with different ids, those that no
  transaction releases are open, in their order, and every release settles the swap it
  names, as claimed with its preimage or as aborted. No swap is lost or given twice.
\<close>

theorem swaps_are_merged:
  assumes "bnsSwapQueryTag (bx_libs C) query True = ok setTag" "bnsSwapQueryTag (bx_libs C) query False = ok delTag"
    and "searchTx C (any_transaction\<lparr>tq_tags := Some [setTag]\<rparr>) = ok setResults"
    and "searchTx C (any_transaction\<lparr>tq_tags := Some [delTag]\<rparr>) = ok delResults"
    and "mapM (\<lambda>r. r) (List.map_filter offer_event (confirmed_txs setResults)) = ok (map OpenEvent ds)"
    and "List.map_filter release_event (confirmed_txs setResults @ confirmed_txs delResults) = map SettleEvent es"
    and "distinct (map sd_id ds)" "distinct (map settle_swapId es)"
  shows "getSwaps C query = ok (map OpenSwap (filter (\<lambda>d. sd_id d \<notin> settle_swapId ` set es) ds) @
    List.map_filter (settled_by ds) es)"
proof -
  have "process_all new_merger (map OpenEvent ds) = ok (new_merger\<lparr>m_open := ds\<rparr>, map (\<lambda>d. Some (OpenSwap d)) ds)"
    using process_offers [of new_merger ds] assms(7) by (simp add: new_merger_def)
  moreover obtain m where "process_all (new_merger\<lparr>m_open := ds\<rparr>) (map SettleEvent es) = ok (m, map (settled_by ds) es)"
    "m_open m = filter (\<lambda>d. sd_id d \<notin> settle_swapId ` set es) ds"
    using process_releases [of "new_merger\<lparr>m_open := ds\<rparr>" es] assms(7,8) by (auto simp: new_merger_def)
  ultimately have "swaps_of_events (map OpenEvent ds) (map SettleEvent es)
      = ok (map OpenSwap (filter (\<lambda>d. sd_id d \<notin> settle_swapId ` set es) ds) @ List.map_filter (settled_by ds) es)"
    by (simp add: swaps_of_events_def openSwaps_def List.map_filter_def filter_map comp_def)
  then show ?thesis using assms(1-6) by (simp add: getSwaps_def Let_def)
qed

definition demo_offer :: SwapOfferTransaction where
  "demo_offer = \<lparr>offer_swapId = None, offer_amounts = [demo_amount], offer_sender = demo_party 1,
     offer_recipient = demo_party 2, offer_timeout = TimestampTimeout (int_num 9), offer_hash = replicate 32 7, offer_memo = None\<rparr>"

definition demo_claim :: SwapClaimTransaction where
  "demo_claim = \<lparr>claim_preimage = [1, 2], claim_swapId = \<lparr>swap_prefix = None, swap_data = [0, 5]\<rparr>\<rparr>"

text \<open>The transactions under the tag for sets are the offer, those under the tag for deletions the claim.\<close>

definition demo_search :: "string \<Rightarrow> TxResponse list" where
  "demo_search q = [\<lparr>tr_tx = (if last (butlast q) = CHR ''s'' then [1] else [2]), tr_hash = [3], tr_height = int_num 4,
     tr_code = int_num 0, tr_log = None, tr_data = Some [0, 5]\<rparr>]"

definition demo_parse :: "byte list \<Rightarrow> UnsignedTransaction" where
  "demo_parse b = demo_tx\<lparr>tx_content := (if b = [1] then SwapOffer demo_offer else SwapClaim demo_claim)\<rparr>"

lemma swaps_are_merged_witness:
  "getSwaps (demo_client (\<lambda>_ _. []) demo_search demo_parse) (SwapByHash (replicate 32 7))
    = ok [ClaimedSwap (swapOfferFromTx demo_offer [0, 5]) [1, 2]]"
proof -
  let ?C = "demo_client (\<lambda>_ _. []) demo_search demo_parse" and ?q = "SwapByHash (replicate 32 7)"
  have "is_ok (indexKey ''swap'' ''preimage_hash'')" by (simp add: indexKey_def toAscii_ok printable_def is_ok_def)
  then obtain k where k: "indexKey ''swap'' ''preimage_hash'' = ok k" by (auto simp: is_ok_iff)
  define tag where "tag = (\<lambda>v. \<lparr>tag_key = upperHex (k @ replicate 32 7), tag_value = v\<rparr>)"
  define found where "found = (\<lambda>b. [ConfirmedTx \<lparr>ctx_height = int_num 4, ctx_confirmations = int_num 6,
    ctx_transactionId = upperHex [3], ctx_log = None, ctx_result = Some [0, 5], ctx_transaction = demo_parse b, ctx_signatures = []\<rparr>])"
  have t: "bnsSwapQueryTag (bx_libs ?C) ?q True = ok (tag ''s'')" "bnsSwapQueryTag (bx_libs ?C) ?q False = ok (tag ''d'')"
    by (simp_all add: bnsSwapQueryTag_def k tag_def)
  have c: "js_add (js_sub (int_num 9) (int_num 4)) (int_num 1) = int_num 6" by (simp add: js_sub_int js_add_int)
  have search: "searchTx ?C (any_transaction\<lparr>tq_tags := Some [tag ''s'']\<rparr>) = ok (found [1])"
    "searchTx ?C (any_transaction\<lparr>tq_tags := Some [tag ''d'']\<rparr>) = ok (found [2])"
    by (simp_all add: searchTx_def buildQueryString_def any_transaction_def component_def tag_def quote_def demo_search_def
        txResult_def found_def c butlast_append)
  have "getSwaps ?C ?q = ok (map OpenSwap (filter (\<lambda>d. sd_id d \<notin> settle_swapId ` set [ClaimTx demo_claim])
      [swapOfferFromTx demo_offer [0, 5]]) @ List.map_filter (settled_by [swapOfferFromTx demo_offer [0, 5]]) [ClaimTx demo_claim])"
    by (rule swaps_are_merged [OF t search])
       (simp_all add: found_def List.map_filter_def offer_event_def release_event_def demo_parse_def)
  then show ?thesis
    by (simp add: List.map_filter_def settled_by_def swapOfferFromTx_def demo_claim_def)
qed

section \<open>Fees\<close>

lemma squared_int: "x * x < 2 ^ 53 \<Longrightarrow> squared (int_num x) = int_num (x * x)"
  using double_of_int_exact [of "x * x"] by (simp add: squared_def int_num_def)

definition optional_quantity :: "Amount option \<Rightarrow> nat" where
  "optional_quantity a = (case a of None \<Rightarrow> 0 | Some x \<Rightarrow> quantity_value x)"

lemma combine_fees_exact:
  assumes "bns_laws L" "has_quantity s"
    and "\<forall>a \<in> {s} \<union> set_option p \<union> set_option d. has_quantity a \<and> am_tokenTicker a = ticker"
  shows "\<exists>a. combine_fees L p d (Some s) = ok (Some a) \<and> am_tokenTicker a = ticker \<and> has_quantity a \<and>
    quantity_value a = max (optional_quantity p) (optional_quantity d) + quantity_value s"
proof (cases "p = None \<and> d = None")
  case True
  then show ?thesis
    using assms by (simp add: combine_fees_def List.map_filter_def addAmounts_def optional_quantity_def)
next
  case False
  then obtain first rest where f: "List.map_filter (\<lambda>x. x) [p, d] = first # rest"
    by (cases p; cases d) (auto simp: List.map_filter_def)
  then have set_f: "set (first # rest) = set_option p \<union> set_option d"
    by (cases p; cases d) (auto simp: List.map_filter_def)
  define m where "m = maxAmount L first rest"
  have "has_quantity first" "list_all has_quantity rest"
    using assms(3) set_f unfolding list_all_iff by (metis UnCI Un_assoc list.set_intros(1,2))+
  note max = maxAmount_fold [OF bns_bn [OF assms(1)] this, folded m_def]
  then have m: "has_quantity m" "am_tokenTicker m = ticker" using assms(3) set_f by blast+
  have "quantity_value m = max (optional_quantity p) (optional_quantity d)"
  proof (rule antisym)
    have "m \<in> set_option p \<union> set_option d" using max set_f by blast
    then show "quantity_value m \<le> max (optional_quantity p) (optional_quantity d)"
      by (cases p; cases d) (auto simp: optional_quantity_def)
    have "quantity_value b \<le> quantity_value m" if "b \<in> set_option p \<union> set_option d" for b
      using max set_f that by blast
    then show "max (optional_quantity p) (optional_quantity d) \<le> quantity_value m"
      by (cases p; cases d) (auto simp: optional_quantity_def)
  qed
  moreover have "combine_fees L p d (Some s) = andThen (addAmounts L m [s]) (\<lambda>fee. ok (Some fee))"
    using f by (simp add: combine_fees_def m_def List.map_filter_def)
  ultimately show ?thesis
    using addAmounts_exact [OF assms(1) m(1), of "[s]"] assms(2,3) m(2)
    by (simp add: has_quantity_def quantity_value_def)
qed

text \<open>
  C31. \<open>getFeeQuote\<close>: the quote is the larger of the product fee of the transaction and the
  minimal fee of the chain, if they are there, and the square of the bytes over the free
  ones times the base fee. Nothing is lost in the arithmetic below \<open>2\<^sup>5\<^sup>3\<close>.
\<close>

theorem fee_quote_is_exact:
  assumes "bns_laws (bx_libs C)" "isBnsTx tx"
    and "getProductFee C tx = ok p" "getDefaultFee C = ok d"
    and "getTxFeeConfiguration C = ok (Some \<lparr>txf_owner = owner, txf_freeBytes = Some (int_num free), txf_baseFee = Some base\<rparr>)"
    and "estimateTxSize C tx n nonce = ok txSize"
    and "0 \<le> free" "free < 2 ^ 32" "txSize < 2 ^ 26"
    and "\<forall>a \<in> {base} \<union> set_option p \<union> set_option d. has_quantity a \<and> am_tokenTicker a = ticker"
  shows "\<exists>a. getFeeQuote C tx n nonce = ok \<lparr>fee_tokens = Some a, fee_gasPrice = None, fee_gasLimit = None, fee_payer = None\<rparr> \<and>
    am_tokenTicker a = ticker \<and>
    quantity_value a = max (optional_quantity p) (optional_quantity d) + (txSize - nat free) ^ 2 * quantity_value base"
proof -
  let ?L = "bx_libs C"
  note B = bns_bn [OF assms(1)]
  define x where "x = int (txSize - nat free)"
  have x: "0 \<le> x" "x < 2 ^ 26" using assms(9) by (simp_all add: x_def)
  then have xx: "0 \<le> x * x" "x * x < 2 ^ 52" using mult_strict_mono [of x "2 ^ 26" x "2 ^ 26"] by simp_all
  have over: "js_sub (int_num (int txSize)) (int_num free) = int_num (int txSize - free)"
    using assms(7-9) by (intro js_sub_int) auto
  have charged: "x = (if free < int txSize then int txSize - free else 0)"
    using assms(7) by (auto simp: x_def)
  define q where "q = to_base 10 (nat (x * x) * quantity_value base)"
  have "0 \<le> x * x * int (quantity_value base)" using xx(1) by (rule mult_nonneg_nonneg) simp
  then have "\<not> x * x * int (quantity_value base) < 0" by linarith
  then have "bn_toString ?L (bn_mul ?L (x * x) (bn_fromString ?L (am_quantity base))) = q"
    using assms(10) xx
    by (simp add: q_def bn_toString [OF B] bn_mul [OF B] bn_fromString_quantity [OF B] int_to_string_def nat_mult_distrib)
  moreover have "bn_fromNumber ?L (squared (int_num x)) = Some (x * x)"
    using squared_int [of x] bn_fromNumber [OF B, of "x * x"] xx by (simp add: safe_int_def)
  ultimately have s: "getSizeFee C tx n nonce = ok (Some (base\<lparr>am_quantity := q\<rparr>))"
    using assms(5,6) over charged by (cases "free < int txSize") (simp_all add: getSizeFee_def Let_def bn_assert_def)
  have v: "quantity_value (base\<lparr>am_quantity := q\<rparr>) = (txSize - nat free) ^ 2 * quantity_value base"
    "has_quantity (base\<lparr>am_quantity := q\<rparr>)"
    by (simp_all add: quantity_value_def has_quantity_def q_def x_def nat_mult_distrib power2_eq_square)
  obtain a where "combine_fees ?L p d (Some (base\<lparr>am_quantity := q\<rparr>)) = ok (Some a)" "am_tokenTicker a = ticker"
    "quantity_value a = max (optional_quantity p) (optional_quantity d) + (txSize - nat free) ^ 2 * quantity_value base"
    using combine_fees_exact [OF assms(1) v(2), of p d ticker] assms(10) v by auto
  then show ?thesis using assms(2-4) s by (simp add: getFeeQuote_def)
qed

definition demo_txfee :: txfee_IConfiguration where
  "demo_txfee = \<lparr>tfc_metadata = None, tfc_owner = Some (replicate 20 1), tfc_freeBytes = Some (int_num 100), tfc_baseFee = Some demo_coin\<rparr>"

definition demo_cash :: cash_IConfiguration where
  "demo_cash = \<lparr>csc_metadata = None, csc_owner = Some (replicate 20 1), csc_collectorAddress = Some (replicate 20 1),
     csc_minimalFee = Some demo_coin\<rparr>"

definition demo_fees :: "string \<Rightarrow> byte list \<Rightarrow> (byte list \<times> byte list) list" where
  "demo_fees path data =
     (if data = map ascii_byte ''_c:txfee'' then [(data, encode_txfee_Configuration demo_proto demo_txfee)]
      else if data = map ascii_byte ''_c:cash'' then [(data, encode_cash_Configuration demo_proto demo_cash)] else [])"

definition fee_client :: bns_client where
  "fee_client = demo_client demo_fees (\<lambda>_. []) (\<lambda>_. demo_tx)"

lemma fee_client_simps [simp]:
  "bx_libs fee_client = with_proto demo_proto demo_chain" "bx_proto fee_client = demo_proto" "bx_prefix fee_client = ''tiov''"
  by (simp_all add: fee_client_def)

lemma demo_fees_small:
  "length (encode_txfee_Configuration demo_proto demo_txfee) < 100" "length (encode_cash_Configuration demo_proto demo_cash) < 100"
  by (simp_all add: demo_txfee_def demo_cash_def demo_proto_sizes)

lemma fee_client_query: "length data < 2 ^ 14 \<Longrightarrow> bns_query fee_client ''/'' data = ok (demo_fees ''/'' data)"
  using demo_fees_small demo_proto_laws unfolding fee_client_def
  by (intro bns_query_answers demo_client_answers) (auto simp: demo_fees_def)

lemma demo_fees_decode:
  "decode_message (decode_txfee_Configuration demo_proto) (encode_txfee_Configuration demo_proto demo_txfee)
     = ok \<lparr>tfc_metadata = None, tfc_owner = Some (replicate 20 1),
          tfc_freeBytes = Some (int_num 100), tfc_baseFee = Some (norm_coin_ICoin demo_coin)\<rparr>"
  "decode_message (decode_cash_Configuration demo_proto) (encode_cash_Configuration demo_proto demo_cash)
     = ok \<lparr>csc_metadata = None, csc_owner = Some (replicate 20 1),
          csc_collectorAddress = Some (replicate 20 1), csc_minimalFee = Some (norm_coin_ICoin demo_coin)\<rparr>"
proof -
  have coin: "valid_coin_Coin demo_coin" by (simp add: demo_coin_def valid_coin_Coin_def is_int64_def safe_int_def)
  have valid: "valid_txfee_Configuration demo_txfee" "valid_cash_Configuration demo_cash"
    by (simp_all add: demo_txfee_def demo_cash_def valid_txfee_Configuration_def valid_cash_Configuration_def is_int32_def coin)
  have norm: "norm_txfee_IConfiguration demo_txfee = \<lparr>tfc_metadata = None, tfc_owner = Some (replicate 20 1),
      tfc_freeBytes = Some (int_num 100), tfc_baseFee = Some (norm_coin_ICoin demo_coin)\<rparr>"
    "norm_cash_IConfiguration demo_cash = \<lparr>csc_metadata = None, csc_owner = Some (replicate 20 1),
      csc_collectorAddress = Some (replicate 20 1), csc_minimalFee = Some (norm_coin_ICoin demo_coin)\<rparr>"
    by (simp_all add: norm_txfee_IConfiguration_def norm_cash_IConfiguration_def demo_txfee_def demo_cash_def norm_bytes_def
        norm_number_def)
  show "decode_message (decode_txfee_Configuration demo_proto) (encode_txfee_Configuration demo_proto demo_txfee)
      = ok \<lparr>tfc_metadata = None, tfc_owner = Some (replicate 20 1),
          tfc_freeBytes = Some (int_num 100), tfc_baseFee = Some (norm_coin_ICoin demo_coin)\<rparr>"
    using decode_message_decodes [OF decodes_txfee_Configuration [OF demo_proto_laws valid(1)]] demo_fees_small norm by simp
  show "decode_message (decode_cash_Configuration demo_proto) (encode_cash_Configuration demo_proto demo_cash)
      = ok \<lparr>csc_metadata = None, csc_owner = Some (replicate 20 1),
          csc_collectorAddress = Some (replicate 20 1), csc_minimalFee = Some (norm_coin_ICoin demo_coin)\<rparr>"
    using decode_message_decodes [OF decodes_cash_Configuration [OF demo_proto_laws valid(2)]] demo_fees_small norm by simp
qed

lemma demo_amount_decode: "decodeAmount (with_proto demo_proto demo_chain) (norm_coin_ICoin demo_coin) = ok demo_amount"
  using amount_decode [OF demo_client_laws, of demo_amount]
  by (simp add: raw_amount_def wire_amount_def canonical_decimal_def demo_amount_def is_digit_def parse_base_def digit_val_def
      flip: demo_coin_ok) (simp add: demo_coin_ok [unfolded demo_amount_def])

lemma fee_client_fees:
  "getProductFee fee_client demo_tx = ok None"
  "getDefaultFee fee_client = ok (Some demo_amount)"
  "getTxFeeConfiguration fee_client
     = ok (Some \<lparr>txf_owner = demo_party 1, txf_freeBytes = Some (int_num 100), txf_baseFee = Some demo_amount\<rparr>)"
proof -
  have ascii: "toAscii s = ok (map ascii_byte s)" if "list_all printable s" for s using that by (rule toAscii_ok)
  have path: "mapKindToBnsPath (tx_content demo_tx) = Some ''cash/send''" by (simp add: demo_tx_def)
  have party: "encodeBnsAddress (with_proto demo_proto demo_chain) ''tiov'' (replicate 20 1) = ok (demo_party 1)"
    by (simp add: with_proto_demo encodeBnsAddress_def demo_party_def)
  have zero: "isZeroCoin (with_proto demo_proto demo_chain) (norm_coin_ICoin demo_coin) = ok False"
    by (simp add: isZeroCoin_def demo_coin_def norm_coin_ICoin_def norm_int64_def asIntegerNumber_def with_proto_demo sint_word32 int32_def)
  note query = ascii printable_def fee_client_query demo_fees_def demo_fees_decode ensureAddress_def party demo_amount_decode
  show "getProductFee fee_client demo_tx = ok None"
    by (simp add: getProductFee_def path query)
  show "getDefaultFee fee_client = ok (Some demo_amount)"
    by (simp add: getDefaultFee_def decodeCashConfiguration_def zero query)
  show "getTxFeeConfiguration fee_client
      = ok (Some \<lparr>txf_owner = demo_party 1, txf_freeBytes = Some (int_num 100), txf_baseFee = Some demo_amount\<rparr>)"
    by (simp add: getTxFeeConfiguration_def decodeTxFeeConfiguration_def ensureAmount_def query)
qed

lemma fee_client_size: "\<exists>txSize < 2 ^ 26. estimateTxSize fee_client demo_tx 1 None = ok txSize"
proof -
  let ?L = "with_proto demo_proto demo_chain"
  let ?signed = "\<lparr>stx_transaction = demo_tx, stx_signatures = [createDummySignature maxSafeNonce]\<rparr>"
  define w where "w = demo_built\<lparr>itx_signatures := Some [\<lparr>ss_sequence = Some (JsNumber maxSafeNonce),
    ss_pubkey = Some \<lparr>pub_ed25519 = Some (replicate 32 0)\<rparr>, ss_signature = Some \<lparr>sg_ed25519 = Some (replicate 64 0)\<rparr>\<rparr>]\<rparr>"
  have "encodeSignedTx ?L ?signed = ok w"
    by (simp add: encodeSignedTx_def with_proto_demo demo_encode createDummySignature_def encodeFullSignature_def
        encodePubkey_def encodeSignature_def w_def)
  then have bytes: "bytesToPost ?L ?signed = ok (encode_bnsd_Tx demo_proto w)"
    by (simp add: bytesToPost_def) (simp add: with_proto_demo)
  have "tx_fee demo_tx \<noteq> None" by (simp add: demo_tx_def)
  with bytes have "estimateTxSize fee_client demo_tx 1 None = ok (length (encode_bnsd_Tx demo_proto w))"
    by (auto simp: estimateTxSize_def isNonEmptyArray_def)
  moreover have "length (encode_bnsd_Tx demo_proto w) < 2 ^ 26"
    by (simp add: w_def demo_built_def demo_messages demo_sizes maxSafeNonce_def)
  ultimately show ?thesis by blast
qed

lemma fee_quote_is_exact_witness:
  "\<exists>txSize a. estimateTxSize fee_client demo_tx 1 None = ok txSize \<and>
    getFeeQuote fee_client demo_tx 1 None
      = ok \<lparr>fee_tokens = Some a, fee_gasPrice = None, fee_gasLimit = None, fee_payer = None\<rparr> \<and>
    quantity_value a = 1500000000 + (txSize - 100) ^ 2 * 1500000000"
proof -
  obtain txSize where size: "txSize < 2 ^ 26" "estimateTxSize fee_client demo_tx 1 None = ok txSize"
    using fee_client_size by blast
  have amounts: "\<forall>a \<in> {demo_amount} \<union> set_option None \<union> set_option (Some demo_amount). has_quantity a \<and> am_tokenTicker a = ''CASH''"
    by (simp add: has_quantity_def demo_amount_def matches_digits_def is_digit_def)
  have "isBnsTx demo_tx" by (rule isBnsTx_known) (simp add: demo_tx_def)
  moreover have "quantity_value demo_amount = 1500000000"
    by (simp add: quantity_value_def demo_amount_def parse_base_def digit_val_def)
  ultimately show ?thesis
    using fee_quote_is_exact [OF _ _ fee_client_fees size(2) _ _ size(1) amounts] size(2) demo_client_laws
    by (simp add: optional_quantity_def) blast
qed

end
