(* ===== verification/Tendermint_Rpc.thy ===== *)
theory Tendermint_Rpc
  imports Tendermint_Hash Iov_Base64 Iov_Integers Iov_Rfc3339 Bcp_Types
begin

text \<open>
  \<open>packages/iov-tendermint-rpc/src\<close>: the checkers and decoders of \<open>encodings.ts\<close>, the
  responses of \<open>responses.ts\<close> and their parsers in \<open>v0-31/responses.ts\<close>; those of
  \<open>v0-32/responses.ts\<close> where the two files differ. The answer of a node is a value of
  JSON. A value that the code passes on without a check of its type stays one.
\<close>

section \<open>Checkers\<close>

text \<open>The member \<open>data.key\<close>; there are no members of undefined and null.\<close>

definition tm_get :: "js_value \<Rightarrow> string \<Rightarrow> js_value result" where
  "tm_get data key = (if data = Undefined \<or> data = Null then throw ''TypeError'' else ok (js_get data key))"

text \<open>The member \<open>length\<close>, for the values that have one.\<close>

definition js_length :: "js_value \<Rightarrow> js_value" where
  "js_length v = (case v of
     Str s \<Rightarrow> Number (int_num (int (length s)))
   | Arr vs \<Rightarrow> Number (int_num (int (length vs)))
   | Uint8Arr bs \<Rightarrow> Number (int_num (int (length bs)))
   | BufferObj bs \<Rightarrow> Number (int_num (int (length bs)))
   | _ \<Rightarrow> js_get v ''length'')"

definition assertSet :: "js_value \<Rightarrow> js_value result" where
  "assertSet v = (if v = Undefined then throw ''Value must not be undefined''
     else if v = Null then throw ''Value must not be null'' else ok v)"

definition assertBoolean :: "js_value \<Rightarrow> bool result" where
  "assertBoolean v = andThen (assertSet v) (\<lambda>v. case v of
     Boolean b \<Rightarrow> ok b | _ \<Rightarrow> throw ''Value must be a boolean'')"

definition assertNumber :: "js_value \<Rightarrow> js_value result" where
  "assertNumber v = andThen (assertSet v) (\<lambda>v.
     if js_typeof v \<noteq> ''number'' then throw ''Value must be a number'' else ok v)"

definition assertArray :: "js_value \<Rightarrow> js_value list result" where
  "assertArray v = andThen (assertSet v) (\<lambda>v. case v of
     Arr vs \<Rightarrow> ok vs | _ \<Rightarrow> throw ''Value must be a an array'')"

definition assertObject :: "js_value \<Rightarrow> js_value result" where
  "assertObject v = andThen (assertSet v) (\<lambda>v.
     if js_typeof v \<noteq> ''object'' then throw ''Value must be an object''
     else if js_tag v \<noteq> ''[object Object]'' then throw ''Value must be a simple object'' else ok v)"

definition assertNotEmpty :: "js_value \<Rightarrow> js_value result" where
  "assertNotEmpty v = andThen (assertSet v) (\<lambda>v.
     if v = Number (int_num 0) then throw ''must provide a non-zero value''
     else if js_length v = Number (int_num 0) then throw ''must provide a non-empty value'' else ok v)"

definition tm_optional :: "js_value \<Rightarrow> js_value \<Rightarrow> js_value" where
  "tm_optional v fallback = (if v = Undefined \<or> v = Null then fallback else v)"

definition tm_may :: "(js_value \<Rightarrow> 'a result) \<Rightarrow> js_value \<Rightarrow> 'a option result" where
  "tm_may transform v = (if v = Undefined \<or> v = Null then ok None else andThen (transform v) (\<lambda>x. ok (Some x)))"

text \<open>\<open>Object.keys\<close> with the values: arrays and strings have their indices as keys.\<close>

definition own_entries :: "js_value \<Rightarrow> (string \<times> js_value) list result" where
  "own_entries v = (case v of
     Undefined \<Rightarrow> throw ''TypeError'' | Null \<Rightarrow> throw ''TypeError''
   | Obj kvs \<Rightarrow> ok kvs
   | Arr vs \<Rightarrow> ok (zip (map (to_base 10) [0..<length vs]) vs)
   | Str s \<Rightarrow> ok (zip (map (to_base 10) [0..<length s]) (map (\<lambda>c. Str [c]) s))
   | Uint8Arr bs \<Rightarrow> ok (zip (map (to_base 10) [0..<length bs]) (map (\<lambda>b. Number (int_num (uint b))) bs))
   | BufferObj bs \<Rightarrow> ok (zip (map (to_base 10) [0..<length bs]) (map (\<lambda>b. Number (int_num (uint b))) bs))
   | _ \<Rightarrow> ok [])"

definition dictionaryToStringMap :: "js_value \<Rightarrow> (string \<times> string) list result" where
  "dictionaryToStringMap obj = andThen (own_entries obj) (mapM (\<lambda>(key, val). case val of
     Str s \<Rightarrow> ok (key, s) | _ \<Rightarrow> throw ''Found dictionary value of type other than string''))"

section \<open>Integers, bytes and times\<close>

text \<open>A value without the methods of a string is a TypeError.\<close>

definition Integer_parse :: "js_value \<Rightarrow> int result" where
  "Integer_parse input = andThen (case input of
       Number n \<Rightarrow> new_Int53 n
     | Str s \<Rightarrow> Int53_fromString s
     | _ \<Rightarrow> throw ''TypeError'') (\<lambda>asInt. ok (i53_data asInt))"

definition Integer_encode :: "number \<Rightarrow> string result" where
  "Integer_encode num = andThen (new_Int53 num) (\<lambda>i. ok (Int53_toString i))"

definition Base64_decode :: "('e) base64_lib_scheme \<Rightarrow> js_value \<Rightarrow> byte list result" where
  "Base64_decode S v = (case v of Str s \<Rightarrow> fromBase64 S s | _ \<Rightarrow> throw ''TypeError'')"

text \<open>\<open>fromHex\<close> runs through what has an even length; an empty array gives no bytes.\<close>

definition Hex_decode :: "js_value \<Rightarrow> byte list result" where
  "Hex_decode v = (case v of
     Str s \<Rightarrow> fromHex s
   | _ \<Rightarrow> if js_length v = Number (int_num 0) then ok [] else throw ''TypeError'')"

text \<open>The expression \<open>\.(\d+)Z$\<close>: the digits.\<close>

definition fraction_digits :: "string \<Rightarrow> string option" where
  "fraction_digits s = (case rev s of
     [] \<Rightarrow> None
   | c # r \<Rightarrow> let d = takeWhile is_digit r in
       if c = CHR ''Z'' \<and> d \<noteq> [] \<and> startsWith (drop (length d) r) ''.'' then Some (rev d) else None)"

definition padEnd :: "string \<Rightarrow> nat \<Rightarrow> char \<Rightarrow> string" where
  "padEnd s n c = s @ replicate (n - length s) c"

definition DateTime_decode :: "js_value \<Rightarrow> tm_time result" where
  "DateTime_decode v = (case v of
     Str dateTimeString \<Rightarrow>
       andThen (fromRfc3339 dateTimeString) (\<lambda>readonlyDate.
       let nanoseconds = (case fraction_digits dateTimeString of None \<Rightarrow> [] | Some d \<Rightarrow> drop 3 d)
       in ok \<lparr>time_ms = readonlyDate, time_nanoseconds = Some (int (parse_base 10 (padEnd nanoseconds 6 (CHR ''0''))))\<rparr>)
   | _ \<Rightarrow> throw ''Date string is not in RFC3339 format'')"

text \<open>\<open>f(assertNotEmpty(data.key))\<close>, \<open>f(data.key)\<close> and \<open>assertArray(data.key).map(f)\<close>.\<close>

definition need :: "(js_value \<Rightarrow> 'a result) \<Rightarrow> js_value \<Rightarrow> string \<Rightarrow> 'a result" where
  "need f data key = andThen (tm_get data key) (\<lambda>v. andThen (assertNotEmpty v) f)"

definition from_member :: "(js_value \<Rightarrow> 'a result) \<Rightarrow> js_value \<Rightarrow> string \<Rightarrow> 'a result" where
  "from_member f data key = andThen (tm_get data key) f"

definition from_object :: "(js_value \<Rightarrow> 'a result) \<Rightarrow> js_value \<Rightarrow> string \<Rightarrow> 'a result" where
  "from_object f data key = andThen (tm_get data key) (\<lambda>v. andThen (assertObject v) f)"

definition from_array :: "(js_value \<Rightarrow> 'a result) \<Rightarrow> js_value \<Rightarrow> string \<Rightarrow> 'a list result" where
  "from_array f data key = andThen (tm_get data key) (\<lambda>v. andThen (assertArray v) (mapM f))"

end
