(* ===== verification/Tendermint_Responses.thy ===== *)
theory Tendermint_Responses
  imports Tendermint_Rpc
begin

text \<open>
  \<open>packages/iov-tendermint-rpc/src\<close>: the types of \<open>responses.ts\<close> and the parsers of
  \<open>v0-31/responses.ts\<close>. The file \<open>v0-32/responses.ts\<close> has events instead of tags and
  other names in the results of a block; the definitions with the suffix \<open>32\<close> are
  its functions, the other functions are the same in both.
\<close>

section \<open>Transactions\<close>

record tm_AbciInfo =
  ai_data :: js_value
  ai_lastBlockHeight :: "int option"
  ai_lastBlockAppHash :: "byte list option"

definition tm_decodeAbciInfo :: "('e) base64_lib_scheme \<Rightarrow> js_value \<Rightarrow> tm_AbciInfo result" where
  "tm_decodeAbciInfo S data =
     andThen (tm_get data ''data'') (\<lambda>d.
     andThen (from_member (tm_may Integer_parse) data ''last_block_height'') (\<lambda>height.
     andThen (from_member (tm_may (Base64_decode S)) data ''last_block_app_hash'') (\<lambda>hash.
     ok \<lparr>ai_data = d, ai_lastBlockHeight = height, ai_lastBlockAppHash = hash\<rparr>)))"

record tm_AbciQuery =
  aq_key :: "byte list"
  aq_value :: "byte list"
  aq_height :: "int option"
  aq_index :: "int option"
  aq_code :: "int option"
  aq_log :: js_value

definition tm_decodeAbciQuery :: "('e) base64_lib_scheme \<Rightarrow> js_value \<Rightarrow> tm_AbciQuery result" where
  "tm_decodeAbciQuery S data =
     andThen (from_member (\<lambda>v. Base64_decode S (tm_optional v (Str []))) data ''key'') (\<lambda>key.
     andThen (from_member (\<lambda>v. Base64_decode S (tm_optional v (Str []))) data ''value'') (\<lambda>val.
     andThen (from_member (tm_may Integer_parse) data ''height'') (\<lambda>height.
     andThen (from_member (tm_may Integer_parse) data ''code'') (\<lambda>code.
     andThen (from_member (tm_may Integer_parse) data ''index'') (\<lambda>index.
     andThen (tm_get data ''log'') (\<lambda>log.
     ok \<lparr>aq_key = key, aq_value = val, aq_height = height, aq_index = index, aq_code = code, aq_log = log\<rparr>))))))"

record tm_Tag =
  tmtag_key :: "byte list"
  tmtag_value :: "byte list"

record tm_Event =
  ev_type :: js_value
  ev_attributes :: "tm_Tag list"

record tm_TxData =
  td_code :: int
  td_log :: js_value
  td_data :: "byte list option"
  td_tags :: "tm_Tag list option"
  td_events :: "tm_Event list option"

definition tm_decodeTag :: "('e) base64_lib_scheme \<Rightarrow> js_value \<Rightarrow> tm_Tag result" where
  "tm_decodeTag S tag =
     andThen (need (Base64_decode S) tag ''key'') (\<lambda>key.
     andThen (need (Base64_decode S) tag ''value'') (\<lambda>val.
     ok \<lparr>tmtag_key = key, tmtag_value = val\<rparr>))"

definition tm_decodeTags :: "('e) base64_lib_scheme \<Rightarrow> js_value \<Rightarrow> tm_Tag list result" where
  "tm_decodeTags S tags = andThen (assertArray tags) (mapM (tm_decodeTag S))"

text \<open>The code of the result; a missing code is 0.\<close>

definition tm_code :: "js_value \<Rightarrow> int result" where
  "tm_code v = andThen (assertNumber (tm_optional v (Number (int_num 0)))) Integer_parse"

definition tm_decodeTxData :: "('e) base64_lib_scheme \<Rightarrow> js_value \<Rightarrow> tm_TxData result" where
  "tm_decodeTxData S data =
     andThen (from_member (tm_may (Base64_decode S)) data ''data'') (\<lambda>d.
     andThen (tm_get data ''log'') (\<lambda>log.
     andThen (from_member tm_code data ''code'') (\<lambda>code.
     andThen (from_member (tm_may (tm_decodeTags S)) data ''tags'') (\<lambda>tags.
     ok \<lparr>td_code = code, td_log = log, td_data = d, td_tags = tags, td_events = None\<rparr>))))"

definition tm_decodeEvent32 :: "('e) base64_lib_scheme \<Rightarrow> js_value \<Rightarrow> tm_Event result" where
  "tm_decodeEvent32 S event =
     andThen (tm_get event ''type'') (\<lambda>t.
     andThen (from_member (tm_decodeTags S) event ''attributes'') (\<lambda>attributes.
     ok \<lparr>ev_type = t, ev_attributes = attributes\<rparr>))"

definition tm_decodeEvents32 :: "('e) base64_lib_scheme \<Rightarrow> js_value \<Rightarrow> tm_Event list result" where
  "tm_decodeEvents32 S events = andThen (assertArray events) (mapM (tm_decodeEvent32 S))"

definition tm_decodeTxData32 :: "('e) base64_lib_scheme \<Rightarrow> js_value \<Rightarrow> tm_TxData result" where
  "tm_decodeTxData32 S data =
     andThen (from_member (tm_may (Base64_decode S)) data ''data'') (\<lambda>d.
     andThen (tm_get data ''log'') (\<lambda>log.
     andThen (from_member tm_code data ''code'') (\<lambda>code.
     andThen (from_member (tm_may (tm_decodeEvents32 S)) data ''events'') (\<lambda>events.
     ok \<lparr>td_code = code, td_log = log, td_data = d, td_tags = None, td_events = events\<rparr>))))"

section \<open>Validators and parameters\<close>

text \<open>The only algorithm is ed25519.\<close>

record tm_Validator =
  val_address :: "byte list option"
  val_pubkey :: "byte list"
  val_votingPower :: int
  val_accum :: "int option"
  val_name :: js_value

definition tm_decodePubkey :: "('e) base64_lib_scheme \<Rightarrow> js_value \<Rightarrow> byte list result" where
  "tm_decodePubkey S data =
     andThen (tm_get data ''type'') (\<lambda>t.
     if t = Str ''tendermint/PubKeyEd25519'' then need (Base64_decode S) data ''value''
     else throw ''unknown pubkey type'')"

definition tm_decodeValidatorUpdate :: "('e) base64_lib_scheme \<Rightarrow> js_value \<Rightarrow> tm_Validator result" where
  "tm_decodeValidatorUpdate S data =
     andThen (from_object (tm_decodePubkey S) data ''pub_key'') (\<lambda>pubkey.
     andThen (need Integer_parse data ''voting_power'') (\<lambda>votingPower.
     andThen (need Hex_decode data ''address'') (\<lambda>address.
     ok \<lparr>val_address = Some address, val_pubkey = pubkey, val_votingPower = votingPower, val_accum = None,
       val_name = Undefined\<rparr>)))"

record tm_BlockParams =
  bp_maxBytes :: int
  bp_maxGas :: int

record tm_ConsensusParams =
  cp_block :: tm_BlockParams
  cp_evidence_maxAge :: int

definition tm_decodeBlockParams :: "js_value \<Rightarrow> tm_BlockParams result" where
  "tm_decodeBlockParams data =
     andThen (need Integer_parse data ''max_bytes'') (\<lambda>maxBytes.
     andThen (need Integer_parse data ''max_gas'') (\<lambda>maxGas.
     ok \<lparr>bp_maxBytes = maxBytes, bp_maxGas = maxGas\<rparr>))"

definition tm_decodeEvidenceParams :: "js_value \<Rightarrow> int result" where
  "tm_decodeEvidenceParams data = need Integer_parse data ''max_age''"

definition tm_decodeConsensusParams :: "js_value \<Rightarrow> tm_ConsensusParams result" where
  "tm_decodeConsensusParams data =
     andThen (from_object tm_decodeBlockParams data ''block'') (\<lambda>block.
     andThen (from_object tm_decodeEvidenceParams data ''evidence'') (\<lambda>maxAge.
     ok \<lparr>cp_block = block, cp_evidence_maxAge = maxAge\<rparr>))"

record tm_BlockResults =
  br_height :: int
  br_results :: "tm_TxData list"
  br_validatorUpdates :: "tm_Validator list"
  br_consensusUpdates :: "tm_ConsensusParams option"
  br_tags :: "tm_Tag list option"

text \<open>The results of a block, for the names of the members and the parser of the transactions.\<close>

definition block_results :: "('e) base64_lib_scheme \<Rightarrow> (js_value \<Rightarrow> tm_TxData result) \<Rightarrow> string \<Rightarrow> string \<Rightarrow> js_value \<Rightarrow>
    tm_BlockResults result" where
  "block_results S txData deliver end_block data =
     andThen (tm_get data ''results'') (\<lambda>results.
     andThen (tm_get results deliver) (\<lambda>deliverTx.
     let res = tm_optional deliverTx (Arr []) in
     andThen (tm_get results end_block) (\<lambda>end.
     andThen (tm_get end ''validator_updates'') (\<lambda>updates.
     let validators = tm_optional updates (Arr []) in
     andThen (need Integer_parse data ''height'') (\<lambda>height.
     andThen (andThen (assertArray res) (mapM txData)) (\<lambda>txs.
     andThen (andThen (assertArray validators) (mapM (tm_decodeValidatorUpdate S))) (\<lambda>validatorUpdates.
     andThen (from_member (tm_may tm_decodeConsensusParams) end ''consensus_param_updates'') (\<lambda>consensusUpdates.
     andThen (from_member (tm_may (tm_decodeTags S)) end ''tags'') (\<lambda>tags.
     ok \<lparr>br_height = height, br_results = txs, br_validatorUpdates = validatorUpdates,
       br_consensusUpdates = consensusUpdates, br_tags = tags\<rparr>)))))))))"

definition tm_decodeBlockResults :: "('e) base64_lib_scheme \<Rightarrow> js_value \<Rightarrow> tm_BlockResults result" where
  "tm_decodeBlockResults S data = block_results S (tm_decodeTxData S) ''DeliverTx'' ''EndBlock'' data"

definition tm_decodeBlockResults32 :: "('e) base64_lib_scheme \<Rightarrow> js_value \<Rightarrow> tm_BlockResults result" where
  "tm_decodeBlockResults32 S data = block_results S (tm_decodeTxData32 S) ''deliver_tx'' ''end_block'' data"

section \<open>Headers and commits\<close>

definition tm_decodeBlockId :: "js_value \<Rightarrow> BlockId result" where
  "tm_decodeBlockId data =
     andThen (need Hex_decode data ''hash'') (\<lambda>hash.
     andThen (tm_get data ''parts'') (\<lambda>parts.
     andThen (need Integer_parse parts ''total'') (\<lambda>total.
     andThen (need Hex_decode parts ''hash'') (\<lambda>parts_hash.
     ok \<lparr>bid_hash = hash, parts_total = total, parts_hash = parts_hash\<rparr>))))"

definition tm_decodeBlockVersion :: "js_value \<Rightarrow> Version result" where
  "tm_decodeBlockVersion data =
     andThen (from_member Integer_parse data ''block'') (\<lambda>block.
     andThen (from_member Integer_parse data ''app'') (\<lambda>app.
     ok \<lparr>version_block = block, version_app = app\<rparr>))"

text \<open>\<open>Encoding.fromHex(assertSet(data.key))\<close>: the empty string is allowed.\<close>

definition set_hash :: "js_value \<Rightarrow> string \<Rightarrow> byte list result" where
  "set_hash data key = andThen (tm_get data key) (\<lambda>v. andThen (assertSet v) Hex_decode)"

definition tm_decodeHeader :: "js_value \<Rightarrow> js_value Header result" where
  "tm_decodeHeader data =
     andThen (from_member tm_decodeBlockVersion data ''version'') (\<lambda>version.
     andThen (need ok data ''chain_id'') (\<lambda>chainId.
     andThen (need Integer_parse data ''height'') (\<lambda>height.
     andThen (need DateTime_decode data ''time'') (\<lambda>time.
     andThen (need Integer_parse data ''num_txs'') (\<lambda>numTxs.
     andThen (need Integer_parse data ''total_txs'') (\<lambda>totalTxs.
     andThen (from_member tm_decodeBlockId data ''last_block_id'') (\<lambda>lastBlockId.
     andThen (need Hex_decode data ''last_commit_hash'') (\<lambda>lastCommitHash.
     andThen (set_hash data ''data_hash'') (\<lambda>dataHash.
     andThen (need Hex_decode data ''validators_hash'') (\<lambda>validatorsHash.
     andThen (need Hex_decode data ''next_validators_hash'') (\<lambda>nextValidatorsHash.
     andThen (need Hex_decode data ''consensus_hash'') (\<lambda>consensusHash.
     andThen (need Hex_decode data ''app_hash'') (\<lambda>appHash.
     andThen (set_hash data ''last_results_hash'') (\<lambda>lastResultsHash.
     andThen (set_hash data ''evidence_hash'') (\<lambda>evidenceHash.
     andThen (need Hex_decode data ''proposer_address'') (\<lambda>proposerAddress.
     ok \<lparr>hdr_version = version, hdr_chainId = chainId, hdr_height = height, hdr_time = time, hdr_numTxs = numTxs,
       hdr_totalTxs = totalTxs, hdr_lastBlockId = lastBlockId, hdr_lastCommitHash = lastCommitHash,
       hdr_dataHash = dataHash, hdr_validatorsHash = validatorsHash, hdr_nextValidatorsHash = nextValidatorsHash,
       hdr_consensusHash = consensusHash, hdr_appHash = appHash, hdr_lastResultsHash = lastResultsHash,
       hdr_evidenceHash = evidenceHash, hdr_proposerAddress = proposerAddress\<rparr>))))))))))))))))"

record tm_BlockMeta =
  bm_blockId :: BlockId
  bm_header :: "js_value Header"

definition tm_decodeBlockMeta :: "js_value \<Rightarrow> tm_BlockMeta result" where
  "tm_decodeBlockMeta data =
     andThen (from_member tm_decodeBlockId data ''block_id'') (\<lambda>blockId.
     andThen (from_member tm_decodeHeader data ''header'') (\<lambda>header.
     ok \<lparr>bm_blockId = blockId, bm_header = header\<rparr>))"

record tm_Blockchain =
  bc_lastHeight :: int
  bc_blockMetas :: "tm_BlockMeta list"

definition tm_decodeBlockchain :: "js_value \<Rightarrow> tm_Blockchain result" where
  "tm_decodeBlockchain data =
     andThen (need Integer_parse data ''last_height'') (\<lambda>lastHeight.
     andThen (from_array tm_decodeBlockMeta data ''block_metas'') (\<lambda>blockMetas.
     ok \<lparr>bc_lastHeight = lastHeight, bc_blockMetas = blockMetas\<rparr>))"

text \<open>The algorithm of a signature is always ed25519.\<close>

definition tm_decodeSignature :: "('e) base64_lib_scheme \<Rightarrow> js_value \<Rightarrow> byte list result" where
  "tm_decodeSignature S data = andThen (assertNotEmpty data) (Base64_decode S)"

record tm_Vote =
  tv_type :: int
  tv_validatorAddress :: "byte list"
  tv_validatorIndex :: int
  tv_height :: int
  tv_round :: int
  tv_timestamp :: tm_time
  tv_blockId :: BlockId
  tv_signature :: "byte list"

definition tm_decodeVote :: "('e) base64_lib_scheme \<Rightarrow> js_value \<Rightarrow> tm_Vote result" where
  "tm_decodeVote S data =
     andThen (from_member (\<lambda>v. andThen (assertNumber v) Integer_parse) data ''type'') (\<lambda>t.
     andThen (need Hex_decode data ''validator_address'') (\<lambda>validatorAddress.
     andThen (need Integer_parse data ''validator_index'') (\<lambda>validatorIndex.
     andThen (need Integer_parse data ''height'') (\<lambda>height.
     andThen (need Integer_parse data ''round'') (\<lambda>round.
     andThen (need DateTime_decode data ''timestamp'') (\<lambda>timestamp.
     andThen (from_object tm_decodeBlockId data ''block_id'') (\<lambda>blockId.
     andThen (need (tm_decodeSignature S) data ''signature'') (\<lambda>signature.
     ok \<lparr>tv_type = t, tv_validatorAddress = validatorAddress, tv_validatorIndex = validatorIndex, tv_height = height,
       tv_round = round, tv_timestamp = timestamp, tv_blockId = blockId, tv_signature = signature\<rparr>))))))))"

record tm_Commit =
  tc_blockId :: BlockId
  tc_precommits :: "tm_Vote list"

definition tm_decodeCommit :: "('e) base64_lib_scheme \<Rightarrow> js_value \<Rightarrow> tm_Commit result" where
  "tm_decodeCommit S data =
     andThen (from_object tm_decodeBlockId data ''block_id'') (\<lambda>blockId.
     andThen (from_array (tm_decodeVote S) data ''precommits'') (\<lambda>precommits.
     ok \<lparr>tc_blockId = blockId, tc_precommits = precommits\<rparr>))"

record tm_CommitResponse =
  cr_header :: "js_value Header"
  cr_commit :: tm_Commit
  cr_canonical :: bool

definition tm_decodeCommitResponse :: "('e) base64_lib_scheme \<Rightarrow> js_value \<Rightarrow> tm_CommitResponse result" where
  "tm_decodeCommitResponse S data =
     andThen (from_member assertBoolean data ''canonical'') (\<lambda>canonical.
     andThen (tm_get data ''signed_header'') (\<lambda>signed_header.
     andThen (from_member tm_decodeHeader signed_header ''header'') (\<lambda>header.
     andThen (from_member (tm_decodeCommit S) signed_header ''commit'') (\<lambda>commit.
     ok \<lparr>cr_header = header, cr_commit = commit, cr_canonical = canonical\<rparr>))))"

section \<open>Genesis and status\<close>

definition tm_decodeValidatorGenesis :: "('e) base64_lib_scheme \<Rightarrow> js_value \<Rightarrow> tm_Validator result" where
  "tm_decodeValidatorGenesis S data =
     andThen (from_object (tm_decodePubkey S) data ''pub_key'') (\<lambda>pubkey.
     andThen (need Integer_parse data ''power'') (\<lambda>votingPower.
     andThen (tm_get data ''name'') (\<lambda>name.
     ok \<lparr>val_address = None, val_pubkey = pubkey, val_votingPower = votingPower, val_accum = None, val_name = name\<rparr>)))"

record tm_Genesis =
  gen_genesisTime :: tm_time
  gen_chainId :: js_value
  gen_consensusParams :: tm_ConsensusParams
  gen_validators :: "tm_Validator list"
  gen_appHash :: "byte list"
  gen_appState :: js_value

definition tm_decodeGenesis :: "('e) base64_lib_scheme \<Rightarrow> js_value \<Rightarrow> tm_Genesis result" where
  "tm_decodeGenesis S data =
     andThen (need DateTime_decode data ''genesis_time'') (\<lambda>genesisTime.
     andThen (need ok data ''chain_id'') (\<lambda>chainId.
     andThen (from_member tm_decodeConsensusParams data ''consensus_params'') (\<lambda>consensusParams.
     andThen (from_array (tm_decodeValidatorGenesis S) data ''validators'') (\<lambda>validators.
     andThen (set_hash data ''app_hash'') (\<lambda>appHash.
     andThen (tm_get data ''app_state'') (\<lambda>appState.
     ok \<lparr>gen_genesisTime = genesisTime, gen_chainId = chainId, gen_consensusParams = consensusParams,
       gen_validators = validators, gen_appHash = appHash, gen_appState = appState\<rparr>))))))"

definition tm_decodeValidatorInfo :: "('e) base64_lib_scheme \<Rightarrow> js_value \<Rightarrow> tm_Validator result" where
  "tm_decodeValidatorInfo S data =
     andThen (from_object (tm_decodePubkey S) data ''pub_key'') (\<lambda>pubkey.
     andThen (need Integer_parse data ''voting_power'') (\<lambda>votingPower.
     andThen (need Hex_decode data ''address'') (\<lambda>address.
     ok \<lparr>val_address = Some address, val_pubkey = pubkey, val_votingPower = votingPower, val_accum = None,
       val_name = Undefined\<rparr>)))"

record tm_NodeInfo =
  ni_id :: "byte list"
  ni_listenAddr :: js_value
  ni_network :: js_value
  ni_version :: js_value
  ni_channels :: js_value
  ni_moniker :: js_value
  ni_other :: "(string \<times> string) list"
  ni_app :: int
  ni_block :: int
  ni_p2p :: int

definition tm_decodeNodeInfo :: "js_value \<Rightarrow> tm_NodeInfo result" where
  "tm_decodeNodeInfo data =
     andThen (need Hex_decode data ''id'') (\<lambda>i.
     andThen (need ok data ''listen_addr'') (\<lambda>listenAddr.
     andThen (need ok data ''network'') (\<lambda>network.
     andThen (need ok data ''version'') (\<lambda>version.
     andThen (need ok data ''channels'') (\<lambda>channels.
     andThen (need ok data ''moniker'') (\<lambda>moniker.
     andThen (from_member dictionaryToStringMap data ''other'') (\<lambda>other.
     andThen (tm_get data ''protocol_version'') (\<lambda>protocol.
     andThen (need Integer_parse protocol ''app'') (\<lambda>app.
     andThen (need Integer_parse protocol ''block'') (\<lambda>block.
     andThen (need Integer_parse protocol ''p2p'') (\<lambda>p2p.
     ok \<lparr>ni_id = i, ni_listenAddr = listenAddr, ni_network = network, ni_version = version, ni_channels = channels,
       ni_moniker = moniker, ni_other = other, ni_app = app, ni_block = block, ni_p2p = p2p\<rparr>)))))))))))"

record tm_SyncInfo =
  si_latestBlockHash :: "byte list"
  si_latestAppHash :: "byte list"
  si_latestBlockHeight :: int
  si_latestBlockTime :: tm_time
  si_catchingUp :: bool

definition tm_decodeSyncInfo :: "js_value \<Rightarrow> tm_SyncInfo result" where
  "tm_decodeSyncInfo data =
     andThen (need Hex_decode data ''latest_block_hash'') (\<lambda>latestBlockHash.
     andThen (need Hex_decode data ''latest_app_hash'') (\<lambda>latestAppHash.
     andThen (need DateTime_decode data ''latest_block_time'') (\<lambda>latestBlockTime.
     andThen (need Integer_parse data ''latest_block_height'') (\<lambda>latestBlockHeight.
     andThen (from_member assertBoolean data ''catching_up'') (\<lambda>catchingUp.
     ok \<lparr>si_latestBlockHash = latestBlockHash, si_latestAppHash = latestAppHash,
       si_latestBlockHeight = latestBlockHeight, si_latestBlockTime = latestBlockTime, si_catchingUp = catchingUp\<rparr>)))))"

record tm_Status =
  st_nodeInfo :: tm_NodeInfo
  st_syncInfo :: tm_SyncInfo
  st_validatorInfo :: tm_Validator

definition tm_decodeStatus :: "('e) base64_lib_scheme \<Rightarrow> js_value \<Rightarrow> tm_Status result" where
  "tm_decodeStatus S data =
     andThen (from_member tm_decodeNodeInfo data ''node_info'') (\<lambda>nodeInfo.
     andThen (from_member tm_decodeSyncInfo data ''sync_info'') (\<lambda>syncInfo.
     andThen (from_member (tm_decodeValidatorInfo S) data ''validator_info'') (\<lambda>validatorInfo.
     ok \<lparr>st_nodeInfo = nodeInfo, st_syncInfo = syncInfo, st_validatorInfo = validatorInfo\<rparr>)))"

section \<open>Broadcast and search\<close>

text \<open>A response with a hash is the pair of the transaction data and the hash.\<close>

definition broadcast_sync :: "(js_value \<Rightarrow> tm_TxData result) \<Rightarrow> js_value \<Rightarrow> (tm_TxData \<times> byte list) result" where
  "broadcast_sync txData data = andThen (txData data) (\<lambda>d. andThen (need Hex_decode data ''hash'') (\<lambda>hash. ok (d, hash)))"

definition tm_decodeBroadcastTxSync :: "('e) base64_lib_scheme \<Rightarrow> js_value \<Rightarrow> (tm_TxData \<times> byte list) result" where
  "tm_decodeBroadcastTxSync S = broadcast_sync (tm_decodeTxData S)"

definition tm_decodeBroadcastTxSync32 :: "('e) base64_lib_scheme \<Rightarrow> js_value \<Rightarrow> (tm_TxData \<times> byte list) result" where
  "tm_decodeBroadcastTxSync32 S = broadcast_sync (tm_decodeTxData32 S)"

definition broadcastTxSyncSuccess :: "tm_TxData \<times> byte list \<Rightarrow> bool" where
  "broadcastTxSyncSuccess res \<longleftrightarrow> td_code (fst res) = 0"

record tm_BroadcastTxCommit =
  btc_height :: "int option"
  btc_hash :: "byte list"
  btc_checkTx :: tm_TxData
  btc_deliverTx :: "tm_TxData option"

definition broadcast_commit :: "(js_value \<Rightarrow> tm_TxData result) \<Rightarrow> js_value \<Rightarrow> tm_BroadcastTxCommit result" where
  "broadcast_commit txData data =
     andThen (from_member (tm_may Integer_parse) data ''height'') (\<lambda>height.
     andThen (need Hex_decode data ''hash'') (\<lambda>hash.
     andThen (from_object txData data ''check_tx'') (\<lambda>checkTx.
     andThen (from_member (tm_may txData) data ''deliver_tx'') (\<lambda>deliverTx.
     ok \<lparr>btc_height = height, btc_hash = hash, btc_checkTx = checkTx, btc_deliverTx = deliverTx\<rparr>))))"

definition tm_decodeBroadcastTxCommit :: "('e) base64_lib_scheme \<Rightarrow> js_value \<Rightarrow> tm_BroadcastTxCommit result" where
  "tm_decodeBroadcastTxCommit S = broadcast_commit (tm_decodeTxData S)"

definition tm_decodeBroadcastTxCommit32 :: "('e) base64_lib_scheme \<Rightarrow> js_value \<Rightarrow> tm_BroadcastTxCommit result" where
  "tm_decodeBroadcastTxCommit32 S = broadcast_commit (tm_decodeTxData32 S)"

definition broadcastTxCommitSuccess :: "tm_BroadcastTxCommit \<Rightarrow> bool" where
  "broadcastTxCommitSuccess res \<longleftrightarrow> td_code (btc_checkTx res) = 0 \<and>
     (case btc_deliverTx res of None \<Rightarrow> False | Some d \<Rightarrow> td_code d = 0)"

record tm_TxProof =
  tp_data :: "byte list"
  tp_rootHash :: "byte list"
  tp_total :: int
  tp_index :: int
  tp_leafHash :: "byte list"
  tp_aunts :: "byte list list"

definition tm_decodeTxProof :: "('e) base64_lib_scheme \<Rightarrow> js_value \<Rightarrow> tm_TxProof result" where
  "tm_decodeTxProof S data =
     andThen (need (Base64_decode S) data ''Data'') (\<lambda>d.
     andThen (need Hex_decode data ''RootHash'') (\<lambda>rootHash.
     andThen (tm_get data ''Proof'') (\<lambda>proof.
     andThen (need Integer_parse proof ''total'') (\<lambda>total.
     andThen (need Integer_parse proof ''index'') (\<lambda>index.
     andThen (need (Base64_decode S) proof ''leaf_hash'') (\<lambda>leafHash.
     andThen (from_array (Base64_decode S) proof ''aunts'') (\<lambda>aunts.
     ok \<lparr>tp_data = d, tp_rootHash = rootHash, tp_total = total, tp_index = index, tp_leafHash = leafHash,
       tp_aunts = aunts\<rparr>)))))))"

record tm_Tx =
  tx_tx :: "byte list"
  tx_hash :: "byte list"
  tx_height :: int
  tx_index :: int
  tx_result :: tm_TxData
  tx_proof :: "tm_TxProof option"

definition tx_response :: "('e) base64_lib_scheme \<Rightarrow> (js_value \<Rightarrow> tm_TxData result) \<Rightarrow> js_value \<Rightarrow> tm_Tx result" where
  "tx_response S txData data =
     andThen (need (Base64_decode S) data ''tx'') (\<lambda>tx.
     andThen (from_object txData data ''tx_result'') (\<lambda>outcome.
     andThen (need Integer_parse data ''height'') (\<lambda>height.
     andThen (from_member (\<lambda>v. andThen (assertNumber v) Integer_parse) data ''index'') (\<lambda>index.
     andThen (need Hex_decode data ''hash'') (\<lambda>hash.
     andThen (from_member (tm_may (tm_decodeTxProof S)) data ''proof'') (\<lambda>proof.
     ok \<lparr>tx_tx = tx, tx_hash = hash, tx_height = height, tx_index = index, tx_result = outcome, tx_proof = proof\<rparr>))))))"

definition tm_decodeTxResponse :: "('e) base64_lib_scheme \<Rightarrow> js_value \<Rightarrow> tm_Tx result" where
  "tm_decodeTxResponse S = tx_response S (tm_decodeTxData S)"

definition tm_decodeTxResponse32 :: "('e) base64_lib_scheme \<Rightarrow> js_value \<Rightarrow> tm_Tx result" where
  "tm_decodeTxResponse32 S = tx_response S (tm_decodeTxData32 S)"

record tm_TxSearch =
  ts_txs :: "tm_Tx list"
  ts_totalCount :: int

definition tx_search :: "(js_value \<Rightarrow> tm_Tx result) \<Rightarrow> js_value \<Rightarrow> tm_TxSearch result" where
  "tx_search tx data =
     andThen (need Integer_parse data ''total_count'') (\<lambda>totalCount.
     andThen (from_array tx data ''txs'') (\<lambda>txs.
     ok \<lparr>ts_txs = txs, ts_totalCount = totalCount\<rparr>))"

definition tm_decodeTxSearch :: "('e) base64_lib_scheme \<Rightarrow> js_value \<Rightarrow> tm_TxSearch result" where
  "tm_decodeTxSearch S = tx_search (tm_decodeTxResponse S)"

definition tm_decodeTxSearch32 :: "('e) base64_lib_scheme \<Rightarrow> js_value \<Rightarrow> tm_TxSearch result" where
  "tm_decodeTxSearch32 S = tx_search (tm_decodeTxResponse32 S)"

text \<open>An event has no hash; \<open>hashTx\<close> is SHA-256, a parameter.\<close>

definition tx_event :: "('e) base64_lib_scheme \<Rightarrow> (byte list \<Rightarrow> byte list) \<Rightarrow> (js_value \<Rightarrow> tm_TxData result) \<Rightarrow> js_value \<Rightarrow> tm_Tx result" where
  "tx_event S sha txData data =
     andThen (need (Base64_decode S) data ''tx'') (\<lambda>tx.
     andThen (from_member txData data ''result'') (\<lambda>outcome.
     andThen (need Integer_parse data ''height'') (\<lambda>height.
     andThen (from_member (\<lambda>v. andThen (assertNumber v) Integer_parse) data ''index'') (\<lambda>index.
     ok \<lparr>tx_tx = tx, tx_hash = sha tx, tx_height = height, tx_index = index, tx_result = outcome, tx_proof = None\<rparr>))))"

definition tm_decodeTxEvent :: "('e) base64_lib_scheme \<Rightarrow> (byte list \<Rightarrow> byte list) \<Rightarrow> js_value \<Rightarrow> tm_Tx result" where
  "tm_decodeTxEvent S sha = tx_event S sha (tm_decodeTxData S)"

definition tm_decodeTxEvent32 :: "('e) base64_lib_scheme \<Rightarrow> (byte list \<Rightarrow> byte list) \<Rightarrow> js_value \<Rightarrow> tm_Tx result" where
  "tm_decodeTxEvent32 S sha = tx_event S sha (tm_decodeTxData32 S)"

section \<open>Validators and blocks\<close>

definition tm_decodeValidatorData :: "('e) base64_lib_scheme \<Rightarrow> js_value \<Rightarrow> tm_Validator result" where
  "tm_decodeValidatorData S data =
     andThen (tm_decodeValidatorUpdate S data) (\<lambda>validator.
     andThen (from_member (tm_may Integer_parse) data ''accum'') (\<lambda>accum.
     ok (validator\<lparr>val_accum := accum\<rparr>)))"

record tm_Validators =
  vs_blockHeight :: int
  vs_results :: "tm_Validator list"

definition tm_decodeValidators :: "('e) base64_lib_scheme \<Rightarrow> js_value \<Rightarrow> tm_Validators result" where
  "tm_decodeValidators S data =
     andThen (need Integer_parse data ''block_height'') (\<lambda>blockHeight.
     andThen (from_array (tm_decodeValidatorData S) data ''validators'') (\<lambda>results.
     ok \<lparr>vs_blockHeight = blockHeight, vs_results = results\<rparr>))"

record tm_Evidence =
  evi_type :: js_value
  evi_validator :: tm_Validator
  evi_height :: int
  evi_time :: int
  evi_totalVotingPower :: int

definition tm_decodeEvidence :: "('e) base64_lib_scheme \<Rightarrow> js_value \<Rightarrow> tm_Evidence result" where
  "tm_decodeEvidence S data =
     andThen (need ok data ''type'') (\<lambda>t.
     andThen (need Integer_parse data ''height'') (\<lambda>height.
     andThen (need Integer_parse data ''time'') (\<lambda>time.
     andThen (need Integer_parse data ''totalVotingPower'') (\<lambda>totalVotingPower.
     andThen (from_member (tm_decodeValidatorUpdate S) data ''validator'') (\<lambda>validator.
     ok \<lparr>evi_type = t, evi_validator = validator, evi_height = height, evi_time = time,
       evi_totalVotingPower = totalVotingPower\<rparr>)))))"

definition tm_decodeEvidences :: "('e) base64_lib_scheme \<Rightarrow> js_value \<Rightarrow> tm_Evidence list result" where
  "tm_decodeEvidences S ev = andThen (assertArray ev) (mapM (tm_decodeEvidence S))"

definition js_truthy :: "js_value \<Rightarrow> bool" where
  "js_truthy v = (case v of
     Undefined \<Rightarrow> False | Null \<Rightarrow> False | Boolean b \<Rightarrow> b | Number n \<Rightarrow> truthy_num n | Str s \<Rightarrow> s \<noteq> [] | _ \<Rightarrow> True)"

record tm_Block =
  blk_header :: "js_value Header"
  blk_lastCommit :: tm_Commit
  blk_txs :: "byte list list"
  blk_evidence :: "tm_Evidence list option"

text \<open>An evidence that is not truthy is passed on; it has the value \<open>None\<close> here.\<close>

definition tm_decodeBlock :: "('e) base64_lib_scheme \<Rightarrow> js_value \<Rightarrow> tm_Block result" where
  "tm_decodeBlock S data =
     andThen (from_object tm_decodeHeader data ''header'') (\<lambda>header.
     andThen (from_object (tm_decodeCommit S) data ''last_commit'') (\<lambda>lastCommit.
     andThen (from_member (\<lambda>d. andThen (tm_get d ''txs'') (\<lambda>txs.
         if js_truthy txs then andThen (assertArray txs) (mapM (Base64_decode S)) else ok [])) data ''data'') (\<lambda>txs.
     andThen (from_member (\<lambda>e. if js_truthy e then from_member (tm_may (tm_decodeEvidences S)) e ''evidence'' else ok None)
         data ''evidence'') (\<lambda>evidence.
     ok \<lparr>blk_header = header, blk_lastCommit = lastCommit, blk_txs = txs, blk_evidence = evidence\<rparr>))))"

definition tm_decodeBlockResponse :: "('e) base64_lib_scheme \<Rightarrow> js_value \<Rightarrow> (tm_BlockMeta \<times> tm_Block) result" where
  "tm_decodeBlockResponse S data =
     andThen (from_member tm_decodeBlockMeta data ''block_meta'') (\<lambda>blockMeta.
     andThen (from_member (tm_decodeBlock S) data ''block'') (\<lambda>block.
     ok (blockMeta, block)))"

section \<open>The class Responses\<close>

text \<open>
  The functions that take a part of the result or of an event; the others pass the
  result to the parser of the same name.
\<close>

definition Responses_decodeAbciInfo :: "('e) base64_lib_scheme \<Rightarrow> js_value \<Rightarrow> tm_AbciInfo result" where
  "Responses_decodeAbciInfo S result = from_object (tm_decodeAbciInfo S) result ''response''"

definition Responses_decodeAbciQuery :: "('e) base64_lib_scheme \<Rightarrow> js_value \<Rightarrow> tm_AbciQuery result" where
  "Responses_decodeAbciQuery S result = from_object (tm_decodeAbciQuery S) result ''response''"

definition Responses_decodeGenesis :: "('e) base64_lib_scheme \<Rightarrow> js_value \<Rightarrow> tm_Genesis result" where
  "Responses_decodeGenesis S result = from_object (tm_decodeGenesis S) result ''genesis''"

text \<open>\<open>event.data.value.key\<close>.\<close>

definition from_event :: "(js_value \<Rightarrow> 'a result) \<Rightarrow> js_value \<Rightarrow> string \<Rightarrow> 'a result" where
  "from_event f event key =
     andThen (tm_get event ''data'') (\<lambda>data. andThen (tm_get data ''value'') (\<lambda>val. from_member f val key))"

definition decodeNewBlockEvent :: "('e) base64_lib_scheme \<Rightarrow> js_value \<Rightarrow> tm_Block result" where
  "decodeNewBlockEvent S event = from_event (tm_decodeBlock S) event ''block''"

definition decodeNewBlockHeaderEvent :: "js_value \<Rightarrow> js_value Header result" where
  "decodeNewBlockHeaderEvent event = from_event tm_decodeHeader event ''header''"

definition Responses_decodeTxEvent :: "('e) base64_lib_scheme \<Rightarrow> (byte list \<Rightarrow> byte list) \<Rightarrow> js_value \<Rightarrow> tm_Tx result" where
  "Responses_decodeTxEvent S sha event = from_event (tm_decodeTxEvent S sha) event ''TxResult''"

definition Responses_decodeTxEvent32 :: "('e) base64_lib_scheme \<Rightarrow> (byte list \<Rightarrow> byte list) \<Rightarrow> js_value \<Rightarrow> tm_Tx result" where
  "Responses_decodeTxEvent32 S sha event = from_event (tm_decodeTxEvent32 S sha) event ''TxResult''"

end
