(* ===== verification/Tendermint_Header.thy ===== *)
theory Tendermint_Header
  imports Tendermint_Responses Js_Json
begin

text \<open>
  The header of a block on its way from the node: the JSON that a node sends for it is
  read back by \<open>decodeHeader\<close> without loss, to the nanosecond and for every number of
  digits in the fraction of the second.
\<close>

section \<open>Times\<close>

text \<open>The date and the time of day, as \<open>toRfc3339\<close> prints them, without the fraction.\<close>

definition seconds_text :: "date \<Rightarrow> string" where
  "seconds_text date =
     int_to_string (getUTCFullYear date) @ ''-'' @ padded (getUTCMonth date + 1) 2 @ ''-'' @ padded (getUTCDate date) 2
     @ ''T'' @ padded (getUTCHours date) 2 @ '':'' @ padded (getUTCMinutes date) 2 @ '':'' @ padded (getUTCSeconds date) 2"

definition nine_digits :: "string \<Rightarrow> string" where
  "nine_digits ds = ds @ replicate (9 - length ds) (CHR ''0'')"

text \<open>
  A text of a time: full seconds, in a year of four digits, and a fraction of one to
  nine digits, or none. It is read as milliseconds and the nanoseconds below them.
\<close>

definition time_text :: "tm_time \<Rightarrow> string \<Rightarrow> bool" where
  "time_text t s \<longleftrightarrow> (\<exists>base ds.
     base mod 1000 = 0 \<and> 1000 \<le> getUTCFullYear base \<and> getUTCFullYear base < 10000 \<and>
     length ds \<le> 9 \<and> list_all is_digit ds \<and>
     s = seconds_text base @ (if ds = [] then [] else ''.'' @ ds) @ ''Z'' \<and>
     t = \<lparr>time_ms = base + int (parse_base 10 (take 3 (nine_digits ds))),
          time_nanoseconds = Some (int (parse_base 10 (drop 3 (nine_digits ds))))\<rparr>)"

lemma parse_zeros [simp]: "parse_base 10 (replicate k (CHR ''0'')) = 0"
proof (induction k)
  case (Suc k)
  then show ?case using parse_base_snoc [of 10 "replicate k (CHR ''0'')" "CHR ''0''"]
    by (simp add: digit_val_def replicate_append_same)
qed simp

lemma parse_bound: "list_all is_digit s \<Longrightarrow> parse_base 10 s < 10 ^ length s"
proof (induction s rule: rev_induct)
  case (snoc c s)
  then obtain d where "digit_val c = Some d" "d < 10" using is_digit_val [of c] by auto
  with snoc show ?case by simp
qed simp

text \<open>The first three of nine digits are the milliseconds.\<close>

lemma milliseconds:
  assumes "length ds \<le> 9" "list_all is_digit ds"
  shows "\<lfloor>(of_nat (parse_base 10 ds) / 10 ^ length ds :: rat) * 1000\<rfloor> = int (parse_base 10 (take 3 (nine_digits ds)))"
proof -
  define n where "n = nine_digits ds"
  have len: "length n = 9" and digits: "list_all is_digit n"
    using assms by (auto simp: n_def nine_digits_def list_all_iff is_digit_def)
  have "parse_base 10 n = parse_base 10 ds * 10 ^ (9 - length ds)"
    by (simp add: n_def nine_digits_def parse_base_append)
  then have "(of_nat (parse_base 10 n) :: rat) = of_nat (parse_base 10 ds) * 10 ^ (9 - length ds)" by simp
  moreover have "(10 :: rat) ^ (9 - length ds) * 10 ^ length ds = 10 ^ 9"
    using assms(1) by (simp only: power_add [symmetric]) simp
  ultimately have "(of_nat (parse_base 10 ds) / 10 ^ length ds :: rat) * 1000 = of_nat (parse_base 10 n) / of_nat (10 ^ 6)"
    by (simp add: field_simps)
  then have "\<lfloor>(of_nat (parse_base 10 ds) / 10 ^ length ds :: rat) * 1000\<rfloor> = int (parse_base 10 n div 10 ^ 6)"
    by (simp only: floor_divide_of_nat_eq)
  moreover have "parse_base 10 n = parse_base 10 (take 3 n) * 10 ^ 6 + parse_base 10 (drop 3 n)"
    using parse_base_append [of 10 "take 3 n" "drop 3 n"] len by simp
  moreover have "parse_base 10 (drop 3 n) < 10 ^ 6"
    using parse_bound [of "drop 3 n"] digits len by (simp add: list_all_iff in_set_dropD)
  ultimately show ?thesis unfolding n_def [symmetric] by simp
qed

lemma fraction_digits_read:
  assumes "length ds \<le> 9" "list_all is_digit ds"
  shows "fraction ((if ds = [] then [] else ''.'' @ ds) @ ''Z'') = Some (int (parse_base 10 (take 3 (nine_digits ds))), ''Z'')"
proof (cases "ds = []")
  case True
  have "nine_digits [] = replicate 9 (CHR ''0'')" by (simp add: nine_digits_def)
  then have "take 3 (nine_digits []) = replicate 3 (CHR ''0'')" by simp
  with True show ?thesis by (simp add: fraction_def)
next
  case False
  have z: "\<not> is_digit (CHR ''Z'')" by code_simp
  have "takeWhile is_digit (ds @ ''Z'') = ds"
    using assms(2) z by (simp add: takeWhile_append2 list_all_iff)
  moreover have "1 \<le> length ds" using False by (cases ds) simp_all
  ultimately show ?thesis using False assms milliseconds [OF assms] by (simp add: fraction_def)
qed

lemma fromRfc3339_seconds:
  assumes "base mod 1000 = 0" "1000 \<le> getUTCFullYear base" "getUTCFullYear base < 10000"
    and "length ds \<le> 9" "list_all is_digit ds"
  shows "fromRfc3339 (seconds_text base @ (if ds = [] then [] else ''.'' @ ds) @ ''Z'')
    = ok (base + int (parse_base 10 (take 3 (nine_digits ds))))"
proof -
  have month: "0 \<le> getUTCMonth base + 1" "getUTCMonth base + 1 < 100" and date: "0 \<le> getUTCDate base" "getUTCDate base < 100"
    and time: "getUTCHours base < 100" "getUTCMinutes base < 100" "getUTCSeconds base < 100" using parts_range [of base] by linarith+
  note parts = digits_year [OF assms(2,3)] digits_padded [OF month] digits_padded [OF date]
    digits_padded [OF parts_range(5) time(1)] digits_padded [OF parts_range(7) time(2)] digits_padded [OF parts_range(9) time(3)]
    fraction_digits_read [OF assms(4,5)]
  have "timezone ''Z'' = Some 0" by (simp add: timezone_def)
  moreover have "date_UTC (getUTCFullYear base) (getUTCMonth base) (getUTCDate base) (getUTCHours base) (getUTCMinutes base)
      (getUTCSeconds base) ms = base + ms" for ms
    using UTC_of_parts [of base] assms(1-3) by (simp add: date_UTC_def Let_def getUTCMilliseconds_def)
  ultimately show ?thesis by (simp add: fromRfc3339_def seconds_text_def parts del: if_split)
qed

lemma fraction_digits_text:
  assumes "list_all is_digit ds"
  shows "fraction_digits (seconds_text base @ (if ds = [] then [] else ''.'' @ ds) @ ''Z'') = (if ds = [] then None else Some ds)"
proof -
  have dot: "\<not> is_digit (CHR ''.'')" by code_simp
  have "takeWhile is_digit (rev ds @ CHR ''.'' # r) = rev ds" for r
    using assms dot by (subst takeWhile_append2) (auto simp: list_all_iff)
  moreover obtain a b r where "rev (seconds_text base) = a # b # CHR '':'' # r" "is_digit a" "is_digit b"
  proof -
    have s: "0 \<le> getUTCSeconds base" "getUTCSeconds base < 100" using parts_range [of base] by linarith+
    define a b where "a = nat (getUTCSeconds base) div 10" and "b = nat (getUTCSeconds base) mod 10"
    have "a < 10" "b < 10" using s by (simp_all add: a_def b_def less_mult_imp_div_less)
    moreover have "padded (getUTCSeconds base) 2 = [digit_char a, digit_char b]" using s by (simp add: padded_2 a_def b_def)
    ultimately show ?thesis using that by (simp add: seconds_text_def)
  qed
  moreover have "takeWhile is_digit (a # b # CHR '':'' # r) = [a, b]" if "is_digit a" "is_digit b" for a b r
    using that by (simp add: is_digit_def)
  ultimately show ?thesis by (simp add: fraction_digits_def startsWith_def)
qed

lemma DateTime_decode_text:
  assumes "time_text t s"
  shows "DateTime_decode (Str s) = ok t"
proof -
  obtain base ds where b: "base mod 1000 = 0" "1000 \<le> getUTCFullYear base" "getUTCFullYear base < 10000"
    "length ds \<le> 9" "list_all is_digit ds"
    and s: "s = seconds_text base @ (if ds = [] then [] else ''.'' @ ds) @ ''Z''"
    and t: "t = \<lparr>time_ms = base + int (parse_base 10 (take 3 (nine_digits ds))),
          time_nanoseconds = Some (int (parse_base 10 (drop 3 (nine_digits ds))))\<rparr>"
    using assms unfolding time_text_def by (elim exE conjE) (rule that; assumption)
  have "padEnd (case (if ds = [] then None else Some ds) of None \<Rightarrow> [] | Some d \<Rightarrow> drop 3 d) 6 (CHR ''0'') = drop 3 (nine_digits ds)"
    by (cases "length ds < 3") (auto simp: padEnd_def nine_digits_def)
  then show ?thesis
    unfolding s t DateTime_decode_def js_value.case fromRfc3339_seconds [OF b] fraction_digits_text [OF b(5)] by simp
qed

section \<open>The header as a node sends it\<close>

definition sent_int :: "int \<Rightarrow> js_value" where
  "sent_int i = Str (int_to_string i)"

definition sent_hex :: "byte list \<Rightarrow> js_value" where
  "sent_hex bs = Str (toHex bs)"

definition sent_blockId :: "BlockId \<Rightarrow> js_value" where
  "sent_blockId b = Obj [(''hash'', sent_hex (bid_hash b)),
     (''parts'', Obj [(''total'', sent_int (parts_total b)), (''hash'', sent_hex (parts_hash b))])]"

definition sent_header :: "js_value Header \<Rightarrow> string \<Rightarrow> js_value" where
  "sent_header h time = Obj [
     (''version'', Obj [(''block'', sent_int (version_block (hdr_version h))), (''app'', sent_int (version_app (hdr_version h)))]),
     (''chain_id'', hdr_chainId h), (''height'', sent_int (hdr_height h)), (''time'', Str time),
     (''num_txs'', sent_int (hdr_numTxs h)), (''total_txs'', sent_int (hdr_totalTxs h)),
     (''last_block_id'', sent_blockId (hdr_lastBlockId h)),
     (''last_commit_hash'', sent_hex (hdr_lastCommitHash h)), (''data_hash'', sent_hex (hdr_dataHash h)),
     (''validators_hash'', sent_hex (hdr_validatorsHash h)), (''next_validators_hash'', sent_hex (hdr_nextValidatorsHash h)),
     (''consensus_hash'', sent_hex (hdr_consensusHash h)), (''app_hash'', sent_hex (hdr_appHash h)),
     (''last_results_hash'', sent_hex (hdr_lastResultsHash h)), (''evidence_hash'', sent_hex (hdr_evidenceHash h)),
     (''proposer_address'', sent_hex (hdr_proposerAddress h))]"

definition blockId_ok :: "BlockId \<Rightarrow> bool" where
  "blockId_ok b \<longleftrightarrow> bid_hash b \<noteq> [] \<and> parts_hash b \<noteq> [] \<and> safe_int (parts_total b)"

text \<open>The hashes of the data, of the last results and of the evidence may be empty.\<close>

definition header_ok :: "js_value Header \<Rightarrow> bool" where
  "header_ok h \<longleftrightarrow> (\<exists>c. hdr_chainId h = Str c \<and> c \<noteq> []) \<and>
     list_all safe_int [version_block (hdr_version h), version_app (hdr_version h), hdr_height h, hdr_numTxs h, hdr_totalTxs h] \<and>
     blockId_ok (hdr_lastBlockId h) \<and>
     list_all (\<lambda>bs. bs \<noteq> []) [hdr_lastCommitHash h, hdr_validatorsHash h, hdr_nextValidatorsHash h, hdr_consensusHash h, hdr_appHash h,
       hdr_proposerAddress h]"

lemma js_get_member [simp]: "js_get (Obj ((k, v) # kvs)) key = (if key = k then v else js_get (Obj kvs) key)"
  by (auto simp: js_get_def)

lemma tm_get_member [simp]: "tm_get (Obj kvs) key = ok (js_get (Obj kvs) key)"
  by (simp add: tm_get_def)

lemma assert_string [simp]:
  "s \<noteq> [] \<Longrightarrow> assertNotEmpty (Str s) = ok (Str s)" "assertSet (Str s) = ok (Str s)"
  by (simp_all add: assertNotEmpty_def assertSet_def js_length_def int_num_def)

lemma toHex_not_Nil: "bs \<noteq> [] \<Longrightarrow> toHex bs \<noteq> []"
  by (cases bs) (simp_all add: toHex_def toHexByte_digits)

lemma sent_hex_read:
  "Hex_decode (sent_hex bs) = ok bs" "assertSet (sent_hex bs) = ok (sent_hex bs)"
  "bs \<noteq> [] \<Longrightarrow> assertNotEmpty (sent_hex bs) = ok (sent_hex bs)"
  by (simp_all add: sent_hex_def Hex_decode_def fromHex_of_toHex toHex_not_Nil)

lemma sent_int_read:
  "safe_int i \<Longrightarrow> Integer_parse (sent_int i) = ok i" "assertNotEmpty (sent_int i) = ok (sent_int i)"
proof -
  show "assertNotEmpty (sent_int i) = ok (sent_int i)"
    using int_to_string_shape [of i] by (metis assert_string(1) list.distinct(1) sent_int_def)
  assume "safe_int i"
  then have "Int53_fromString (Int53_toString (Int53 i)) = ok (Int53 i)"
    using int53_string.dec_after_enc [of "Int53 i"] by (simp add: valid_Int53_def)
  then show "Integer_parse (sent_int i) = ok i"
    by (simp add: Integer_parse_def sent_int_def Int53_toString_def)
qed

lemmas sent_simps = need_def from_member_def set_hash_def sent_hex_read sent_int_read

lemma blockId_read: "blockId_ok b \<Longrightarrow> tm_decodeBlockId (sent_blockId b) = ok b"
  by (simp add: tm_decodeBlockId_def sent_blockId_def blockId_ok_def sent_simps)

text \<open>
  C33. A header of a block that a node sends as JSON, with any text of its time, is read
  back exactly: no integer, no hash and no nanosecond is lost.
\<close>

theorem header_read_back:
  assumes "header_ok h" "time_text (hdr_time h) time"
  shows "tm_decodeHeader (sent_header h time) = ok h"
proof -
  obtain base ds where "time = seconds_text base @ (if ds = [] then [] else ''.'' @ ds) @ ''Z''"
    using assms(2) unfolding time_text_def by (elim exE conjE) (rule that; assumption)
  then have "time \<noteq> []" by simp
  then have time: "need DateTime_decode (sent_header h time) ''time'' = ok (hdr_time h)"
    using DateTime_decode_text [OF assms(2)] by (simp add: need_def sent_header_def)
  obtain c where "hdr_chainId h = Str c" "c \<noteq> []" using assms(1) unfolding header_ok_def by blast
  then have chain: "need ok (sent_header h time) ''chain_id'' = ok (hdr_chainId h)"
    by (simp add: need_def sent_header_def)
  have version: "from_member tm_decodeBlockVersion (sent_header h time) ''version'' = ok (hdr_version h)"
    using assms(1) by (simp add: tm_decodeBlockVersion_def sent_header_def header_ok_def sent_simps)
  have ints: "need Integer_parse (sent_header h time) ''height'' = ok (hdr_height h)"
    "need Integer_parse (sent_header h time) ''num_txs'' = ok (hdr_numTxs h)"
    "need Integer_parse (sent_header h time) ''total_txs'' = ok (hdr_totalTxs h)"
    using assms(1) by (simp_all add: sent_header_def header_ok_def sent_simps)
  have block: "from_member tm_decodeBlockId (sent_header h time) ''last_block_id'' = ok (hdr_lastBlockId h)"
    using assms(1) by (simp add: sent_header_def header_ok_def blockId_read from_member_def)
  have hashes: "need Hex_decode (sent_header h time) ''last_commit_hash'' = ok (hdr_lastCommitHash h)"
    "set_hash (sent_header h time) ''data_hash'' = ok (hdr_dataHash h)"
    "need Hex_decode (sent_header h time) ''validators_hash'' = ok (hdr_validatorsHash h)"
    "need Hex_decode (sent_header h time) ''next_validators_hash'' = ok (hdr_nextValidatorsHash h)"
    "need Hex_decode (sent_header h time) ''consensus_hash'' = ok (hdr_consensusHash h)"
    "need Hex_decode (sent_header h time) ''app_hash'' = ok (hdr_appHash h)"
    "set_hash (sent_header h time) ''last_results_hash'' = ok (hdr_lastResultsHash h)"
    "set_hash (sent_header h time) ''evidence_hash'' = ok (hdr_evidenceHash h)"
    "need Hex_decode (sent_header h time) ''proposer_address'' = ok (hdr_proposerAddress h)"
    using assms(1) by (simp_all add: sent_header_def header_ok_def sent_simps)
  show ?thesis by (simp add: tm_decodeHeader_def time chain version ints block hashes)
qed

definition demo_header :: "js_value Header" where
  "demo_header = \<lparr>hdr_version = \<lparr>version_block = 10, version_app = 0\<rparr>, hdr_chainId = Str ''test-chain'', hdr_height = 30,
     hdr_time = \<lparr>time_ms = 1546300800942, time_nanoseconds = Some 780000\<rparr>, hdr_numTxs = 0, hdr_totalTxs = 1,
     hdr_lastBlockId = \<lparr>bid_hash = [1, 2], parts_total = 1, parts_hash = [3]\<rparr>, hdr_lastCommitHash = [4], hdr_dataHash = [],
     hdr_validatorsHash = [5], hdr_nextValidatorsHash = [6], hdr_consensusHash = [7], hdr_appHash = [8],
     hdr_lastResultsHash = [], hdr_evidenceHash = [], hdr_proposerAddress = [9]\<rparr>"

lemma demo_seconds: "seconds_text 1546300800000 = ''2019-01-01T00:00:00''" "getUTCFullYear 1546300800000 = 2019"
  by code_simp+

lemma demo_time: "time_text \<lparr>time_ms = 1546300800942, time_nanoseconds = Some 780000\<rparr> ''2019-01-01T00:00:00.94278Z''"
proof -
  have "nine_digits ''94278'' = ''942780000''" by (simp add: nine_digits_def numeral_eq_Suc)
  then have "take 3 (nine_digits ''94278'') = ''942''" "drop 3 (nine_digits ''94278'') = ''780000''" by simp_all
  moreover have "parse_base 10 ''942'' = 942" "parse_base 10 ''780000'' = 780000" "list_all is_digit ''94278''"
    by (simp_all add: parse_base_def digit_val_def is_digit_def)
  ultimately show ?thesis
    unfolding time_text_def by (intro exI [of _ 1546300800000] exI [of _ "''94278''"]) (simp add: demo_seconds)
qed

lemma header_read_back_witness:
  "tm_decodeHeader (sent_header demo_header ''2019-01-01T00:00:00.94278Z'') = ok demo_header"
  by (rule header_read_back) (simp_all add: header_ok_def demo_header_def blockId_ok_def safe_int_def demo_time)

end
