(* ===== verification/Tendermint_Client.thy ===== *)
theory Tendermint_Client
  imports Tendermint_Header "HOL-Library.Multiset"
begin

text \<open>
  \<open>packages/iov-tendermint-rpc/src\<close>: the requests (\<open>requests.ts\<close>, \<open>jsonrpc.ts\<close> and the
  parameters of \<open>v0-31/requests.ts\<close>, the same in \<open>v0-32\<close>), the choice of the adaptor,
  and \<open>client.ts\<close>. The RPC client below is a parameter: \<open>execute\<close> takes a request and
  gives the member \<open>result\<close> of the response, or throws.
\<close>

section \<open>Requests\<close>

text \<open>An absent parameter is a member with the value undefined.\<close>

definition opt_value :: "'a option \<Rightarrow> ('a \<Rightarrow> js_value) \<Rightarrow> js_value" where
  "opt_value v f = (case v of None \<Rightarrow> Undefined | Some x \<Rightarrow> f x)"

definition may_encode :: "number option \<Rightarrow> js_value result" where
  "may_encode n = (case n of None \<Rightarrow> ok Undefined | Some x \<Rightarrow> andThen (Integer_encode x) (\<lambda>s. ok (Str s)))"

definition createJsonRpcRequest :: "string \<Rightarrow> string \<Rightarrow> (string \<times> js_value) list \<Rightarrow> js_value" where
  "createJsonRpcRequest randomId methodName params =
     Obj [(''jsonrpc'', Str ''2.0''), (''id'', Str randomId), (''method'', Str methodName), (''params'', Obj params)]"

definition encodeHeightParam :: "number option \<Rightarrow> (string \<times> js_value) list result" where
  "encodeHeightParam height = andThen (may_encode height) (\<lambda>h. ok [(''height'', h)])"

definition encodeBlockchainRequestParams :: "number option \<Rightarrow> number option \<Rightarrow> (string \<times> js_value) list result" where
  "encodeBlockchainRequestParams minHeight maxHeight =
     andThen (may_encode minHeight) (\<lambda>lo. andThen (may_encode maxHeight) (\<lambda>hi.
     ok [(''minHeight'', lo), (''maxHeight'', hi)]))"

record AbciQueryParams =
  aqp_path :: string
  aqp_data :: "byte list"
  aqp_height :: "number option"
  aqp_prove :: "bool option"

definition encodeAbciQueryParams :: "AbciQueryParams \<Rightarrow> (string \<times> js_value) list result" where
  "encodeAbciQueryParams params =
     andThen (assertNotEmpty (Str (aqp_path params))) (\<lambda>path.
     andThen (may_encode (aqp_height params)) (\<lambda>height.
     ok [(''path'', path), (''data'', Str (toHex (aqp_data params))), (''height'', height),
       (''prove'', opt_value (aqp_prove params) Boolean)]))"

definition encodeBroadcastTxParams :: "('e) base64_lib_scheme \<Rightarrow> byte list \<Rightarrow> (string \<times> js_value) list result" where
  "encodeBroadcastTxParams S tx = andThen (assertNotEmpty (Uint8Arr tx)) (\<lambda>_. ok [(''tx'', Str (toBase64 S tx))])"

definition encodeTxParams :: "('e) base64_lib_scheme \<Rightarrow> byte list \<Rightarrow> bool option \<Rightarrow> (string \<times> js_value) list result" where
  "encodeTxParams S hash prove = andThen (assertNotEmpty (Uint8Arr hash)) (\<lambda>_.
     ok [(''hash'', Str (toBase64 S hash)), (''prove'', opt_value prove Boolean)])"

record TxSearchParams =
  tsp_query :: string
  tsp_prove :: "bool option"
  tsp_page :: "number option"
  tsp_per_page :: "number option"

definition encodeTxSearchParams :: "TxSearchParams \<Rightarrow> (string \<times> js_value) list result" where
  "encodeTxSearchParams params =
     andThen (may_encode (tsp_page params)) (\<lambda>page.
     andThen (may_encode (tsp_per_page params)) (\<lambda>per_page.
     ok [(''query'', Str (tsp_query params)), (''prove'', opt_value (tsp_prove params) Boolean), (''page'', page),
       (''per_page'', per_page)]))"

text \<open>The components of a query are joined with AND.\<close>

definition buildQuery :: "(string \<times> string) list \<Rightarrow> string option \<Rightarrow> string" where
  "buildQuery tags raw =
     (let tagComponents = map (\<lambda>(key, val). key @ ''='' @ [CHR 0x27] @ val @ [CHR 0x27]) tags;
          rawComponents = (case raw of None \<Rightarrow> [] | Some r \<Rightarrow> if r = [] then [] else [r])
      in (case tagComponents @ rawComponents of [] \<Rightarrow> [] | c # cs \<Rightarrow> concat (c # map (\<lambda>x. '' AND '' @ x) cs)))"

definition encodeSubscribe :: "string \<Rightarrow> string \<Rightarrow> string option \<Rightarrow> js_value" where
  "encodeSubscribe randomId eventType raw =
     createJsonRpcRequest randomId ''subscribe'' [(''query'', Str (buildQuery [(''tm.event'', eventType)] raw))]"

section \<open>The client\<close>

datatype tm_adaptor = V0_31 | V0_32

definition adaptorForVersion :: "string \<Rightarrow> tm_adaptor result" where
  "adaptorForVersion version =
     (if startsWith version ''0.31.'' then ok V0_31
      else if startsWith version ''0.32.'' then ok V0_32
      else throw ''Unsupported tendermint version'')"

record tm_client =
  tmc_base64 :: base64_lib
  tmc_randomId :: string
  tmc_execute :: "js_value \<Rightarrow> js_value result"
  tmc_adaptor :: tm_adaptor

definition detectVersion :: "base64_lib \<Rightarrow> string \<Rightarrow> (js_value \<Rightarrow> js_value result) \<Rightarrow> tm_client result" where
  "detectVersion S randomId execute =
     andThen (execute (createJsonRpcRequest randomId ''status'' [])) (\<lambda>result.
     if \<not> js_truthy result \<or> \<not> js_truthy (js_get result ''node_info'')
     then throw ''Unrecognized format for status response''
     else case js_get (js_get result ''node_info'') ''version'' of
       Str version \<Rightarrow> andThen (adaptorForVersion version) (\<lambda>adaptor.
         ok \<lparr>tmc_base64 = S, tmc_randomId = randomId, tmc_execute = execute, tmc_adaptor = adaptor\<rparr>)
     | _ \<Rightarrow> throw ''Unrecognized version format: must be string'')"

definition doCall :: "tm_client \<Rightarrow> string \<Rightarrow> (string \<times> js_value) list result \<Rightarrow> (js_value \<Rightarrow> 'r result) \<Rightarrow> 'r result" where
  "doCall C methodName encoded decode =
     andThen encoded (\<lambda>params.
     andThen (tmc_execute C (createJsonRpcRequest (tmc_randomId C) methodName params)) decode)"

text \<open>The parser of the adaptor.\<close>

definition versioned :: "tm_client \<Rightarrow> (base64_lib \<Rightarrow> 'x) \<Rightarrow> (base64_lib \<Rightarrow> 'x) \<Rightarrow> 'x" where
  "versioned C v31 v32 = (case tmc_adaptor C of V0_31 \<Rightarrow> v31 (tmc_base64 C) | V0_32 \<Rightarrow> v32 (tmc_base64 C))"

definition client_abciInfo :: "tm_client \<Rightarrow> tm_AbciInfo result" where
  "client_abciInfo C = doCall C ''abci_info'' (ok []) (Responses_decodeAbciInfo (tmc_base64 C))"

definition client_abciQuery :: "tm_client \<Rightarrow> AbciQueryParams \<Rightarrow> tm_AbciQuery result" where
  "client_abciQuery C params = doCall C ''abci_query'' (encodeAbciQueryParams params) (Responses_decodeAbciQuery (tmc_base64 C))"

definition client_block :: "tm_client \<Rightarrow> number option \<Rightarrow> (tm_BlockMeta \<times> tm_Block) result" where
  "client_block C height = doCall C ''block'' (encodeHeightParam height) (tm_decodeBlockResponse (tmc_base64 C))"

definition client_blockResults :: "tm_client \<Rightarrow> number option \<Rightarrow> tm_BlockResults result" where
  "client_blockResults C height =
     doCall C ''block_results'' (encodeHeightParam height) (versioned C tm_decodeBlockResults tm_decodeBlockResults32)"

definition client_blockchain :: "tm_client \<Rightarrow> number option \<Rightarrow> number option \<Rightarrow> tm_Blockchain result" where
  "client_blockchain C minHeight maxHeight =
     doCall C ''blockchain'' (encodeBlockchainRequestParams minHeight maxHeight) tm_decodeBlockchain"

definition client_broadcastTxSync :: "tm_client \<Rightarrow> byte list \<Rightarrow> (tm_TxData \<times> byte list) result" where
  "client_broadcastTxSync C tx =
     doCall C ''broadcast_tx_sync'' (encodeBroadcastTxParams (tmc_base64 C) tx)
       (versioned C tm_decodeBroadcastTxSync tm_decodeBroadcastTxSync32)"

text \<open>
  \<open>decodeBroadcastTxAsync\<close> calls \<open>this.decodeBroadcastTxSync\<close>. The client hands the
  function to \<open>doCall\<close>, which calls it without an object: then \<open>this\<close> is undefined.
\<close>

definition decodeBroadcastTxAsync :: "(js_value \<Rightarrow> (tm_TxData \<times> byte list) result) option \<Rightarrow> js_value \<Rightarrow> (tm_TxData \<times> byte list) result" where
  "decodeBroadcastTxAsync this_decodeBroadcastTxSync result = (case this_decodeBroadcastTxSync of
     None \<Rightarrow> throw ''TypeError'' | Some decode \<Rightarrow> decode result)"

definition client_broadcastTxAsync :: "tm_client \<Rightarrow> byte list \<Rightarrow> (tm_TxData \<times> byte list) result" where
  "client_broadcastTxAsync C tx =
     doCall C ''broadcast_tx_async'' (encodeBroadcastTxParams (tmc_base64 C) tx) (decodeBroadcastTxAsync None)"

definition client_broadcastTxCommit :: "tm_client \<Rightarrow> byte list \<Rightarrow> tm_BroadcastTxCommit result" where
  "client_broadcastTxCommit C tx =
     doCall C ''broadcast_tx_commit'' (encodeBroadcastTxParams (tmc_base64 C) tx)
       (versioned C tm_decodeBroadcastTxCommit tm_decodeBroadcastTxCommit32)"

definition client_commit :: "tm_client \<Rightarrow> number option \<Rightarrow> tm_CommitResponse result" where
  "client_commit C height = doCall C ''commit'' (encodeHeightParam height) (tm_decodeCommitResponse (tmc_base64 C))"

definition client_genesis :: "tm_client \<Rightarrow> tm_Genesis result" where
  "client_genesis C = doCall C ''genesis'' (ok []) (Responses_decodeGenesis (tmc_base64 C))"

definition client_health :: "tm_client \<Rightarrow> unit result" where
  "client_health C = doCall C ''health'' (ok []) (\<lambda>_. ok ())"

definition client_status :: "tm_client \<Rightarrow> tm_Status result" where
  "client_status C = doCall C ''status'' (ok []) (tm_decodeStatus (tmc_base64 C))"

definition client_tx :: "tm_client \<Rightarrow> byte list \<Rightarrow> bool option \<Rightarrow> tm_Tx result" where
  "client_tx C hash prove =
     doCall C ''tx'' (encodeTxParams (tmc_base64 C) hash prove) (versioned C tm_decodeTxResponse tm_decodeTxResponse32)"

definition client_validators :: "tm_client \<Rightarrow> number option \<Rightarrow> tm_Validators result" where
  "client_validators C height = doCall C ''validators'' (encodeHeightParam height) (tm_decodeValidators (tmc_base64 C))"

text \<open>\<open>Array.prototype.sort\<close> by the height is stable.\<close>

definition txSearch :: "tm_client \<Rightarrow> TxSearchParams \<Rightarrow> tm_TxSearch result" where
  "txSearch C params =
     andThen (doCall C ''tx_search'' (encodeTxSearchParams params) (versioned C tm_decodeTxSearch tm_decodeTxSearch32))
       (\<lambda>resp. ok (resp\<lparr>ts_txs := sort_key tx_height (ts_txs resp)\<rparr>))"

text \<open>The loop over the pages; it may run forever, which is the value \<open>None\<close>.\<close>

partial_function (option) search_pages :: "tm_client \<Rightarrow> TxSearchParams \<Rightarrow> number \<Rightarrow> tm_Tx list \<Rightarrow> tm_Tx list result option" where
  "search_pages C params page txs =
     (case txSearch C (params\<lparr>tsp_page := Some page\<rparr>) of
        Inl e \<Rightarrow> Some (throw e)
      | Inr resp \<Rightarrow>
          if int (length (txs @ ts_txs resp)) < ts_totalCount resp
          then search_pages C params (js_add page (int_num 1)) (txs @ ts_txs resp)
          else Some (ok (txs @ ts_txs resp)))"

definition first_page :: "TxSearchParams \<Rightarrow> number" where
  "first_page params = (case tsp_page params of None \<Rightarrow> int_num 1 | Some p \<Rightarrow> if truthy_num p then p else int_num 1)"

definition txSearchAll :: "tm_client \<Rightarrow> TxSearchParams \<Rightarrow> tm_TxSearch result option" where
  "txSearchAll C params = map_option (\<lambda>r. andThen r (\<lambda>txs.
     ok \<lparr>ts_txs = sort_key tx_height txs, ts_totalCount = int (length txs)\<rparr>)) (search_pages C params (first_page params) [])"

section \<open>Searching all pages\<close>

text \<open>What the node answers to the request for a page.\<close>

definition page_answer :: "tm_client \<Rightarrow> TxSearchParams \<Rightarrow> nat \<Rightarrow> js_value result" where
  "page_answer C params p =
     andThen (encodeTxSearchParams (params\<lparr>tsp_page := Some (int_num (int p))\<rparr>)) (\<lambda>ps.
       tmc_execute C (createJsonRpcRequest (tmc_randomId C) ''tx_search'' ps))"

text \<open>The node has these transactions, on pages of \<open>k\<close>; there is a first page if there are none.\<close>

definition serves :: "tm_client \<Rightarrow> TxSearchParams \<Rightarrow> nat \<Rightarrow> tm_Tx list \<Rightarrow> bool" where
  "serves C params k found \<longleftrightarrow> 0 < k \<and> length found < 2 ^ 52 \<and>
     (\<forall>p. 1 \<le> p \<and> (p - 1) * k < max 1 (length found) \<longrightarrow>
       (\<exists>j. page_answer C params p = ok j \<and>
         versioned C tm_decodeTxSearch tm_decodeTxSearch32 j
           = ok \<lparr>ts_txs = take k (drop ((p - 1) * k) found), ts_totalCount = int (length found)\<rparr>))"

fun sorted_pages :: "nat \<Rightarrow> tm_Tx list \<Rightarrow> tm_Tx list" where
  "sorted_pages k xs = (if k = 0 \<or> xs = [] then [] else sort_key tx_height (take k xs) @ sorted_pages k (drop k xs))"

declare sorted_pages.simps [simp del]

lemma sort_key_stable': "filter (\<lambda>x. f k = f x) (sort_key f xs) = filter (\<lambda>x. f k = f x) xs"
  using sort_key_stable [of f "f k" xs] by (simp add: eq_commute)

lemma sort_key_append: "sort_key f (sort_key f xs @ ys) = sort_key f (xs @ ys)"
  by (rule properties_for_sort_key) (simp_all add: sort_key_stable')

lemma sort_key_append_right:
  assumes "sort_key f ys = sort_key f zs"
  shows "sort_key f (xs @ ys) = sort_key f (xs @ zs)"
proof -
  have "mset ys = mset zs" using assms by (metis mset_sort)
  moreover have "filter (\<lambda>y. f k = f y) ys = filter (\<lambda>y. f k = f y) zs" for k
    using assms by (metis sort_key_stable')
  ultimately show ?thesis
    by (intro properties_for_sort_key) (simp_all add: sort_key_stable')
qed

lemma sort_sorted_pages: "0 < k \<Longrightarrow> sort_key tx_height (sorted_pages k xs) = sort_key tx_height xs"
proof (induction k xs rule: sorted_pages.induct)
  case (1 k xs)
  show ?case
  proof (cases "xs = []")
    case True
    then show ?thesis by (simp add: sorted_pages.simps)
  next
    case False
    then have "sort_key tx_height (sorted_pages k xs) = sort_key tx_height (take k xs @ sorted_pages k (drop k xs))"
      using 1 by (simp add: sorted_pages.simps sort_key_append)
    also have "\<dots> = sort_key tx_height (take k xs @ drop k xs)"
      using 1 False by (intro sort_key_append_right) simp
    finally show ?thesis by simp
  qed
qed

lemma length_sorted_pages: "0 < k \<Longrightarrow> length (sorted_pages k xs) = length xs"
  using arg_cong [OF sort_sorted_pages, of k length xs] by simp

text \<open>One page: what the loop does with it.\<close>

lemma search_pages_page:
  assumes "serves C params k found" "1 \<le> p" "(p - 1) * k < max 1 (length found)"
  defines "page \<equiv> sort_key tx_height (take k (drop ((p - 1) * k) found))"
  shows "search_pages C params (int_num (int p)) acc =
    (if length (acc @ page) < length found then search_pages C params (int_num (int (p + 1))) (acc @ page)
     else Some (ok (acc @ page)))"
proof -
  obtain j where j: "page_answer C params p = ok j"
      "versioned C tm_decodeTxSearch tm_decodeTxSearch32 j
        = ok \<lparr>ts_txs = take k (drop ((p - 1) * k) found), ts_totalCount = int (length found)\<rparr>"
    using assms(1-3) unfolding serves_def by blast
  then have s: "txSearch C (params\<lparr>tsp_page := Some (int_num (int p))\<rparr>) = ok \<lparr>ts_txs = page, ts_totalCount = int (length found)\<rparr>"
    by (auto simp: txSearch_def doCall_def page_answer_def andThen_eq_Inr page_def)
  have "p - 1 \<le> (p - 1) * k" "length found < 2 ^ 52" using assms(1) by (simp_all add: serves_def)
  with assms(3) have "p < 2 ^ 52 + 1" by linarith
  then have "\<bar>int p + 1\<bar> < 2 ^ 53" by simp
  then have "js_add (int_num (int p)) (int_num 1) = int_num (int (p + 1))" using js_add_int [of "int p" 1] by simp
  with s show ?thesis by (subst search_pages.simps) (simp add: of_nat_less_iff flip: of_nat_add)
qed

text \<open>The next page starts where this one ends.\<close>

lemma next_page: "1 \<le> p \<Longrightarrow> p * k = (p - 1) * k + (k :: nat)"
  by (cases p) simp_all

lemma search_pages_all:
  assumes "serves C params k found" "1 \<le> p" "(p - 1) * k < max 1 (length found)" "length acc = (p - 1) * k"
  shows "search_pages C params (int_num (int p)) acc = Some (ok (acc @ sorted_pages k (drop ((p - 1) * k) found)))"
  using assms(2-4)
proof (induction "length found - (p - 1) * k" arbitrary: p acc rule: less_induct)
  case less
  have k: "0 < k" using assms(1) by (simp add: serves_def)
  define start where "start = (p - 1) * k"
  define page where "page = sort_key tx_height (take k (drop start found))"
  have step: "search_pages C params (int_num (int p)) acc =
    (if length (acc @ page) < length found then search_pages C params (int_num (int (p + 1))) (acc @ page)
     else Some (ok (acc @ page)))"
    using search_pages_page [OF assms(1) less.prems(1,2)] by (simp add: page_def start_def)
  have starts: "(p - Suc 0) * k = start" "p * k = start + k"
    using next_page [OF less.prems(1), of k] by (simp_all add: start_def)
  have len: "length (acc @ page) = start + min k (length found - start)"
    using less.prems(3) by (simp add: page_def start_def)
  have split: "sorted_pages k (drop start found) = page @ sorted_pages k (drop (start + k) found)"
  proof (cases "drop start found = []")
    case True
    then show ?thesis by (simp add: page_def sorted_pages.simps)
  next
    case False
    with k have "sorted_pages k (drop start found) = page @ sorted_pages k (drop k (drop start found))"
      unfolding page_def by (subst sorted_pages.simps) simp
    then show ?thesis by (simp add: add.commute)
  qed
  show ?case
  proof (cases "length (acc @ page) < length found")
    case True
    then have "start + k < length found" using len by simp
    then have "search_pages C params (int_num (int (p + 1))) (acc @ page)
        = Some (ok ((acc @ page) @ sorted_pages k (drop ((p + 1 - 1) * k) found)))"
      using k len starts by (intro less.hyps) simp_all
    with True step starts show ?thesis
      unfolding start_def [symmetric] split by simp
  next
    case False
    then have "sorted_pages k (drop (start + k) found) = []"
      using len by (subst sorted_pages.simps) auto
    with False step show ?thesis unfolding start_def [symmetric] split by simp
  qed
qed

text \<open>From a later page on the loop never has as many transactions as there are.\<close>

lemma search_pages_overrun:
  assumes "serves C params k found" "page_answer C params (Suc ((length found - 1) div k) + 1) = throw e" "1 < p0"
    and "p0 \<le> p" "(p - 1) * k < length found" "length acc = (p - 1) * k - (p0 - 1) * k"
  shows "search_pages C params (int_num (int p)) acc = Some (throw e)"
  using assms(4-6)
proof (induction "length found - (p - 1) * k" arbitrary: p acc rule: less_induct)
  case less
  have k: "0 < k" using assms(1) by (simp add: serves_def)
  define start where "start = (p - 1) * k"
  define page where "page = sort_key tx_height (take k (drop start found))"
  define start0 where "start0 = (p0 - 1) * k"
  have p: "1 \<le> p" "0 < start0" "start0 \<le> start"
    using assms(3) less.prems(1) k by (simp_all add: start_def start0_def)
  have starts: "(p - Suc 0) * k = start" "p * k = start + k"
    using next_page [OF p(1), of k] by (simp_all add: start_def)
  have len: "length (acc @ page) = start - start0 + min k (length found - start)"
    using less.prems(3) by (simp add: page_def start_def start0_def)
  have "start < length found" using less.prems(2) by (simp add: start_def)
  with p have "length (acc @ page) < length found" unfolding len by linarith
  then have step: "search_pages C params (int_num (int p)) acc = search_pages C params (int_num (int (p + 1))) (acc @ page)"
    using search_pages_page [OF assms(1) p(1)] less.prems(2) by (simp add: page_def start_def less_max_iff_disj)
  show ?case
  proof (cases "start + k < length found")
    case True
    then have "search_pages C params (int_num (int (p + 1))) (acc @ page) = Some (throw e)"
      using k less.prems(1) p len starts by (intro less.hyps) (simp_all add: start0_def)
    with step show ?thesis by simp
  next
    case False
    have "(length found - 1) div k = p - 1"
    proof (rule div_nat_eqI)
      show "k * (p - 1) \<le> length found - 1" using less.prems(2) by (simp add: mult.commute)
      show "length found - 1 < k * Suc (p - 1)"
        using False less.prems(2) k by (simp add: start_def mult.commute)
    qed
    then have "page_answer C params (p + 1) = throw e" using assms(2) p(1) by simp
    then have "txSearch C (params\<lparr>tsp_page := Some (int_num (int (p + 1)))\<rparr>) = throw e"
      by (cases "encodeTxSearchParams (params\<lparr>tsp_page := Some (int_num (int (p + 1)))\<rparr>)")
        (simp_all add: txSearch_def doCall_def page_answer_def)
    then show ?thesis unfolding step by (subst search_pages.simps) simp
  qed
qed

text \<open>
  C32. \<open>txSearchAll\<close> from the first page on ends and gives all the transactions that the
  node has for the query, sorted by height, and those of one height in the order of the
  node, although every page is sorted before.
\<close>

theorem search_collects_all_pages:
  assumes "serves C params k found" "tsp_page params = None"
  shows "txSearchAll C params = Some (ok \<lparr>ts_txs = sort_key tx_height found, ts_totalCount = int (length found)\<rparr>)"
proof -
  have "0 < k" using assms(1) by (simp add: serves_def)
  then show ?thesis
    using search_pages_all [OF assms(1), of 1 "[]"] assms(2)
    by (simp add: txSearchAll_def first_page_def sort_sorted_pages length_sorted_pages)
qed

text \<open>
  \<open>txSearchAll\<close> counts only the transactions it has collected itself. Asked to start
  on a later page it does not stop after the last page but asks for the page after it; if
  the node refuses that page, the whole search throws.
\<close>

lemma search_from_later_page_overruns:
  assumes "serves C params k found" "tsp_page params = Some (int_num (int p))"
    and "1 < p" "(p - 1) * k < length found"
    and "page_answer C params (Suc ((length found - 1) div k) + 1) = throw e"
  shows "txSearchAll C params = Some (throw e)"
  using search_pages_overrun [OF assms(1,5,3) order_refl assms(4), of "[]"] assms(2,3)
  by (simp add: txSearchAll_def first_page_def)

lemma async_broadcast_always_throws:
  assumes "tx \<noteq> []"
    and "tmc_execute C (createJsonRpcRequest (tmc_randomId C) ''broadcast_tx_async'' [(''tx'', Str (toBase64 (tmc_base64 C) tx))]) = ok r"
  shows "client_broadcastTxAsync C tx = throw ''TypeError''"
  using assms
  by (simp add: client_broadcastTxAsync_def doCall_def encodeBroadcastTxParams_def assertNotEmpty_def assertSet_def js_length_def
      decodeBroadcastTxAsync_def)

section \<open>A node for the witnesses\<close>

text \<open>Three transactions, on two pages; another page is refused.\<close>

definition demo_tx_sent :: "nat \<Rightarrow> js_value" where
  "demo_tx_sent h = Obj [(''tx'', Str (toBase64 demo_base64 [1])), (''tx_result'', Obj []), (''height'', sent_int (int h)),
     (''index'', Number (int_num 0)), (''hash'', sent_hex [0xaa])]"

definition demo_tx_found :: "nat \<Rightarrow> tm_Tx" where
  "demo_tx_found h = \<lparr>tx_tx = [1], tx_hash = [0xaa], tx_height = int h, tx_index = 0,
     tx_result = \<lparr>td_code = 0, td_log = Undefined, td_data = None, td_tags = None, td_events = None\<rparr>, tx_proof = None\<rparr>"

definition demo_page :: "nat list \<Rightarrow> js_value" where
  "demo_page hs = Obj [(''txs'', Arr (map demo_tx_sent hs)), (''total_count'', sent_int 3)]"

definition demo_execute :: "js_value \<Rightarrow> js_value result" where
  "demo_execute request = (case js_get (js_get request ''params'') ''page'' of
     Str p \<Rightarrow> if p = ''1'' then ok (demo_page [5, 3]) else if p = ''2'' then ok (demo_page [4]) else throw ''page out of range''
   | _ \<Rightarrow> throw ''no page'')"

definition demo_node :: tm_client where
  "demo_node = \<lparr>tmc_base64 = demo_base64, tmc_randomId = ''abc'', tmc_execute = demo_execute, tmc_adaptor = V0_32\<rparr>"

definition demo_search :: "number option \<Rightarrow> TxSearchParams" where
  "demo_search page = \<lparr>tsp_query = ''tx.height>0'', tsp_prove = None, tsp_page = page, tsp_per_page = None\<rparr>"

lemma demo_tx_decode:
  assumes "safe_int (int h)"
  shows "tm_decodeTxResponse32 demo_base64 (demo_tx_sent h) = ok (demo_tx_found h)"
proof -
  have "toBase64 demo_base64 [1] \<noteq> []" by (simp add: toBase64_def demo_base64_def toHex_not_Nil toHexByte_digits)
  then have tx: "need (Base64_decode demo_base64) (demo_tx_sent h) ''tx'' = ok [1]"
    using fromBase64_toBase64 [OF demo_base64_laws] by (simp add: need_def demo_tx_sent_def Base64_decode_def)
  have data: "from_object (tm_decodeTxData32 demo_base64) (demo_tx_sent h) ''tx_result''
      = ok \<lparr>td_code = 0, td_log = Undefined, td_data = None, td_tags = None, td_events = None\<rparr>"
    by (simp add: demo_tx_sent_def from_object_def from_member_def assertObject_def assertSet_def tm_decodeTxData32_def tm_may_def
        tm_code_def tm_optional_def assertNumber_def Integer_parse_def safe_int_def js_get_def)
  have height: "need Integer_parse (demo_tx_sent h) ''height'' = ok (int h)"
    using assms by (simp add: demo_tx_sent_def sent_simps)
  have rest: "from_member (\<lambda>v. andThen (assertNumber v) Integer_parse) (demo_tx_sent h) ''index'' = ok 0"
    "need Hex_decode (demo_tx_sent h) ''hash'' = ok [0xaa]"
    "from_member (tm_may (tm_decodeTxProof demo_base64)) (demo_tx_sent h) ''proof'' = ok None"
    by (simp_all add: demo_tx_sent_def sent_simps assertNumber_def assertSet_def Integer_parse_def safe_int_def
        tm_may_def js_get_def)
  show ?thesis by (simp add: tm_decodeTxResponse32_def tx_response_def tx data height rest demo_tx_found_def)
qed

lemma demo_page_decode:
  assumes "list_all (\<lambda>h. safe_int (int h)) hs"
  shows "tm_decodeTxSearch32 demo_base64 (demo_page hs) = ok \<lparr>ts_txs = map demo_tx_found hs, ts_totalCount = 3\<rparr>"
proof -
  have "mapM (tm_decodeTxResponse32 demo_base64) (map demo_tx_sent hs) = ok (map demo_tx_found hs)"
    unfolding mapM_map using assms demo_tx_decode by (intro mapM_ok) (simp add: list_all_iff)
  moreover have "safe_int 3" by (simp add: safe_int_def)
  ultimately show ?thesis
    by (simp add: tm_decodeTxSearch32_def tx_search_def demo_page_def sent_simps from_array_def assertArray_def assertSet_def)
qed

lemma demo_page_answer:
  assumes "p < 2 ^ 52"
  shows "page_answer demo_node (demo_search page) p = (if p = 1 then ok (demo_page [5, 3])
    else if p = 2 then ok (demo_page [4]) else throw ''page out of range'')"
proof -
  have "Integer_encode (int_num (int p)) = ok (int_to_string (int p))"
    using assms by (simp add: Integer_encode_def safe_int_def Int53_toString_def)
  moreover have "int_to_string (int p) = ''1'' \<longleftrightarrow> p = 1" "int_to_string (int p) = ''2'' \<longleftrightarrow> p = 2"
  proof -
    have "to_base 10 p = to_base 10 q \<longleftrightarrow> p = q" for q by (metis parse_to_base_10)
    moreover have "''1'' = to_base 10 1" "''2'' = to_base 10 2" by code_simp+
    ultimately show "int_to_string (int p) = ''1'' \<longleftrightarrow> p = 1" "int_to_string (int p) = ''2'' \<longleftrightarrow> p = 2"
      by (simp_all only: int_to_string_def) simp_all
  qed
  ultimately show ?thesis
    by (simp add: page_answer_def demo_search_def encodeTxSearchParams_def may_encode_def demo_node_def demo_execute_def
        createJsonRpcRequest_def opt_value_def)
qed

lemma demo_pages:
  "page_answer demo_node (demo_search page) 1 = ok (demo_page [5, 3])"
  "page_answer demo_node (demo_search page) 2 = ok (demo_page [4])"
  "page_answer demo_node (demo_search page) 3 = throw ''page out of range''"
  by (subst demo_page_answer; simp)+

lemma demo_serves: "serves demo_node (demo_search page) 2 (map demo_tx_found [5, 3, 4])"
proof -
  have decode: "versioned demo_node tm_decodeTxSearch tm_decodeTxSearch32 (demo_page hs)
      = ok \<lparr>ts_txs = map demo_tx_found hs, ts_totalCount = 3\<rparr>" if "hs = [5, 3] \<or> hs = [4]" for hs
    using that demo_page_decode [of hs] by (auto simp: versioned_def demo_node_def safe_int_def)
  have "\<exists>j. page_answer demo_node (demo_search page) p = ok j \<and>
      versioned demo_node tm_decodeTxSearch tm_decodeTxSearch32 j
        = ok \<lparr>ts_txs = take 2 (drop ((p - 1) * 2) (map demo_tx_found [5, 3, 4])), ts_totalCount = 3\<rparr>"
    if "1 \<le> p" "(p - 1) * 2 < max 1 (3 :: nat)" for p
  proof -
    consider "p = 1" | "p = 2" using \<open>1 \<le> p\<close> \<open>(p - 1) * 2 < max 1 3\<close> by force
    then show ?thesis
    proof cases
      case 1
      then show ?thesis using demo_pages(1) decode [of "[5, 3]"] by simp
    next
      case 2
      then show ?thesis using demo_pages(2) decode [of "[4]"] by simp
    qed
  qed
  then show ?thesis by (simp add: serves_def)
qed

lemma search_collects_all_pages_witness:
  "txSearchAll demo_node (demo_search None) = Some (ok \<lparr>ts_txs = map demo_tx_found [3, 4, 5], ts_totalCount = 3\<rparr>)"
  using search_collects_all_pages [OF demo_serves, of None] by (simp add: demo_search_def) (simp add: demo_tx_found_def)

end
