(* ===== verification/Cosmos_Codec.thy ===== *)
theory Cosmos_Codec
  imports Crypto_Keys Bcp_Types Iov_Base64 Js_Json
begin

text \<open>
  \<open>packages/iov-cosmoshub/src\<close>: \<open>caip5.ts\<close>, \<open>address.ts\<close>, \<open>encode.ts\<close>, \<open>decode.ts\<close> and
  \<open>cosmoshubcodec.ts\<close>. The package amino-js, bech32, RIPEMD-160 and the order of the
  locale are parameters. The lemmas show that what is posted is read back, what the
  signed text determines, and when a chain id survives.
\<close>

section \<open>Values of amino-js\<close>

text \<open>A message or a transaction of another type has the value \<open>Other...\<close>.\<close>

record amino_Coin =
  aco_denom :: string
  aco_amount :: string

record amino_MsgSend =
  ams_from_address :: string
  ams_to_address :: string
  ams_amount :: "amino_Coin list"

datatype amino_MsgValue = MsgSendValue amino_MsgSend | OtherMsgValue

record amino_Msg =
  amsg_type :: string
  amsg_value :: amino_MsgValue

record amino_StdFee =
  asf_amount :: "amino_Coin list"
  asf_gas :: string

record amino_PubKey =
  apk_type :: string
  apk_value :: string

record amino_StdSignature =
  ass_pub_key :: amino_PubKey
  ass_signature :: string

record amino_StdTx =
  ast_msg :: "amino_Msg list"
  ast_fee :: amino_StdFee
  ast_signatures :: "amino_StdSignature list"
  ast_memo :: string

datatype amino_TxValue = StdTxValue amino_StdTx | OtherTxValue

record amino_Tx =
  atx_type :: string
  atx_value :: amino_TxValue

section \<open>The libraries\<close>

text \<open>The order of the locale is \<open>String.prototype.localeCompare\<close>: not after.\<close>

record 'h cosmos_lib = "'h crypto_lib" +
  cos_ripemd160 :: "byte list \<Rightarrow> byte list"
  cos_bech32_encode :: "string \<Rightarrow> byte list \<Rightarrow> string option"
  cos_bech32_decode :: "string \<Rightarrow> (string \<times> byte list) option"
  cos_base64 :: base64_lib
  cos_marshalTx :: "amino_Tx \<Rightarrow> byte list result"
  cos_unmarshalTx :: "byte list \<Rightarrow> amino_Tx result"
  cos_localeCompare :: "string \<Rightarrow> string \<Rightarrow> bool"

section \<open>Chain ids\<close>

definition hashedPrefix :: string where
  "hashedPrefix = ''hashed-''"

definition is_caip_char :: "char \<Rightarrow> bool" where
  "is_caip_char c \<longleftrightarrow> (let n = of_char c :: nat in
     97 \<le> n \<and> n \<le> 122 \<or> 65 \<le> n \<and> n \<le> 90 \<or> 48 \<le> n \<and> n \<le> 57) \<or> c = CHR ''-''"

text \<open>The expression \<open>^[-a-zA-Z0-9]{1,47}$\<close>.\<close>

definition matches_reference :: "string \<Rightarrow> bool" where
  "matches_reference s \<longleftrightarrow> 1 \<le> length s \<and> length s \<le> 47 \<and> list_all is_caip_char s"

definition Caip5_encode :: "('h, 'a) cosmos_lib_scheme \<Rightarrow> string \<Rightarrow> ChainId result" where
  "Caip5_encode L native =
     (if native = [] then throw ''Input must not be empty''
      else if \<not> matches_reference native \<or> startsWith native hashedPrefix
      then let hash = slice 0 16 (toHex (digest_with (Sha256 (cl_sha L)) (toUtf8 native)))
           in ok (''cosmos:'' @ hashedPrefix @ hash)
      else ok (''cosmos:'' @ native))"

definition Caip5_decode :: "ChainId \<Rightarrow> string result" where
  "Caip5_decode chainId =
     (let reference = drop 7 chainId in
      if \<not> (startsWith chainId ''cosmos:'' \<and> matches_reference reference) then throw ''Chain ID not compatible with CAIP-5''
      else if startsWith reference hashedPrefix then throw ''Hashed chain IDs cannot be decoded''
      else ok reference)"

section \<open>Addresses\<close>

definition pubkeyAminoPrefix :: "byte list" where
  "pubkeyAminoPrefix = [0xeb, 0x5a, 0xe9, 0x87, 0x21]"

definition isCosmosAddressBech32Prefix :: "string \<Rightarrow> bool" where
  "isCosmosAddressBech32Prefix bechPrefix \<longleftrightarrow> bechPrefix \<in> {''cosmos'', ''cosmosvalcons'', ''cosmosvaloper''}"

definition isCosmosPubkeyBech32Prefix :: "string \<Rightarrow> bool" where
  "isCosmosPubkeyBech32Prefix bechPrefix \<longleftrightarrow> bechPrefix \<in> {''cosmospub'', ''cosmosvalconspub'', ''cosmosvaloperpub''}"

definition decodeCosmosAddress :: "('h, 'a) cosmos_lib_scheme \<Rightarrow> Address \<Rightarrow> (string \<times> byte list) result" where
  "decodeCosmosAddress L address = (case cos_bech32_decode L address of
     None \<Rightarrow> throw ''Invalid bech32''
   | Some (bechPrefix, data) \<Rightarrow>
       if \<not> isCosmosAddressBech32Prefix bechPrefix then throw ''Invalid bech32 prefix.''
       else if length data \<noteq> 20 then throw ''Invalid data length. Expected 20 bytes.''
       else ok (bechPrefix, data))"

definition decodeCosmosPubkey :: "('h, 'a) cosmos_lib_scheme \<Rightarrow> string \<Rightarrow> (string \<times> byte list) result" where
  "decodeCosmosPubkey L encodedPubkey = (case cos_bech32_decode L encodedPubkey of
     None \<Rightarrow> throw ''Invalid bech32''
   | Some (bechPrefix, data) \<Rightarrow>
       if \<not> isCosmosPubkeyBech32Prefix bechPrefix then throw ''Invalid bech32 prefix.''
       else if take (length pubkeyAminoPrefix) data \<noteq> pubkeyAminoPrefix
       then throw ''Pubkey does not have the expected amino prefix''
       else let rest = drop (length pubkeyAminoPrefix) data in
         if length rest \<noteq> 33 then throw ''Invalid rest data length.''
         else ok (bechPrefix, rest))"

definition cosmos_isValidAddress :: "('h, 'a) cosmos_lib_scheme \<Rightarrow> string \<Rightarrow> bool" where
  "cosmos_isValidAddress L address = (case decodeCosmosAddress L address of Inl _ \<Rightarrow> False | Inr _ \<Rightarrow> True)"

definition bech32_text :: "('h, 'a) cosmos_lib_scheme \<Rightarrow> string \<Rightarrow> byte list \<Rightarrow> Address result" where
  "bech32_text L bechPrefix data = (case cos_bech32_encode L bechPrefix data of None \<Rightarrow> throw ''Invalid bech32'' | Some a \<Rightarrow> ok a)"

definition cosmos_pubkeyToAddress :: "('h, 'a) cosmos_lib_scheme \<Rightarrow> PubkeyBundle \<Rightarrow> string \<Rightarrow> Address result" where
  "cosmos_pubkeyToAddress L pubkey bechPrefix =
     andThen (if pk_algo pubkey = Secp256k1 then compressPubkey L (pk_data pubkey) else ok (pk_data pubkey)) (\<lambda>pubkeyData.
     case pk_algo pubkey of
       Secp256k1 \<Rightarrow>
         (let hash1 = digest_with (Sha256 (cl_sha L)) pubkeyData; hash2 = cos_ripemd160 L hash1 in bech32_text L bechPrefix hash2)
     | Ed25519 \<Rightarrow> bech32_text L bechPrefix (slice 0 20 (digest_with (Sha256 (cl_sha L)) pubkeyData)))"

section \<open>Encoding\<close>

text \<open>The content of a transaction is a send or another kind, by its name.\<close>

record CosmosTransaction =
  ctx_chainId :: ChainId
  ctx_fee :: "Fee option"
  ctx_content :: "SendTransaction + string"

definition cosmos_encodePubkey :: "('h, 'a) cosmos_lib_scheme \<Rightarrow> PubkeyBundle \<Rightarrow> amino_PubKey" where
  "cosmos_encodePubkey L pubkey = (case pk_algo pubkey of
     Secp256k1 \<Rightarrow> \<lparr>apk_type = ''tendermint/PubKeySecp256k1'', apk_value = toBase64 (cos_base64 L) (pk_data pubkey)\<rparr>
   | Ed25519 \<Rightarrow> \<lparr>apk_type = ''tendermint/PubKeyEd25519'', apk_value = toBase64 (cos_base64 L) (pk_data pubkey)\<rparr>)"

definition cosmos_encodeAmount :: "Amount \<Rightarrow> amino_Coin result" where
  "cosmos_encodeAmount amount =
     (if am_tokenTicker amount \<noteq> ''ATOM'' then throw ''Only ATOM amounts are supported''
      else ok \<lparr>aco_denom = ''uatom'', aco_amount = am_quantity amount\<rparr>)"

definition cosmos_encodeFee :: "Fee \<Rightarrow> amino_StdFee result" where
  "cosmos_encodeFee fee = (case fee_tokens fee of
     None \<Rightarrow> throw ''Cannot encode fee without tokens''
   | Some tokens \<Rightarrow> (case fee_gasLimit fee of
       None \<Rightarrow> throw ''Cannot encode fee without gas limit''
     | Some gasLimit \<Rightarrow> andThen (cosmos_encodeAmount tokens) (\<lambda>coin. ok \<lparr>asf_amount = [coin], asf_gas = gasLimit\<rparr>)))"

definition cosmos_encodeFullSignature :: "('h, 'a) cosmos_lib_scheme \<Rightarrow> FullSignature \<Rightarrow> amino_StdSignature result" where
  "cosmos_encodeFullSignature L fullSignature =
     andThen (compressPubkey L (pk_data (sig_pubkey fullSignature))) (\<lambda>compressed.
     andThen (trimRecoveryByte (sig_signature fullSignature)) (\<lambda>trimmed.
     ok \<lparr>ass_pub_key = \<lparr>apk_type = ''tendermint/PubKeySecp256k1'', apk_value = toBase64 (cos_base64 L) compressed\<rparr>,
       ass_signature = toBase64 (cos_base64 L) trimmed\<rparr>))"

definition buildUnsignedTx :: "CosmosTransaction \<Rightarrow> amino_StdTx result" where
  "buildUnsignedTx tx = (case ctx_content tx of
     Inr kind \<Rightarrow> throw ''Received transaction of unsupported kind''
   | Inl send \<Rightarrow>
       andThen (cosmos_encodeAmount (send_amount send)) (\<lambda>coin.
       andThen (case ctx_fee tx of Some fee \<Rightarrow> cosmos_encodeFee fee | None \<Rightarrow> ok \<lparr>asf_amount = [], asf_gas = []\<rparr>) (\<lambda>fee.
       ok \<lparr>ast_msg = [\<lparr>amsg_type = ''cosmos-sdk/MsgSend'', amsg_value = MsgSendValue
              \<lparr>ams_from_address = send_sender send, ams_to_address = send_recipient send, ams_amount = [coin]\<rparr>\<rparr>],
         ast_fee = fee, ast_signatures = [],
         ast_memo = (case send_memo send of None \<Rightarrow> [] | Some m \<Rightarrow> m)\<rparr>)))"

definition buildSignedTx :: "('h, 'a) cosmos_lib_scheme \<Rightarrow> CosmosTransaction SignedTx \<Rightarrow> amino_StdTx result" where
  "buildSignedTx L tx =
     andThen (buildUnsignedTx (stx_transaction tx)) (\<lambda>built.
     andThen (mapM (cosmos_encodeFullSignature L) (stx_signatures tx)) (\<lambda>signatures.
     ok (built\<lparr>ast_signatures := signatures\<rparr>)))"

section \<open>Decoding\<close>

definition cosmos_decodePubkey :: "('h, 'a) cosmos_lib_scheme \<Rightarrow> amino_PubKey \<Rightarrow> PubkeyBundle result" where
  "cosmos_decodePubkey L pubkey =
     (if apk_type pubkey = ''tendermint/PubKeySecp256k1''
      then andThen (fromBase64 (cos_base64 L) (apk_value pubkey)) (\<lambda>d. ok \<lparr>pk_algo = Secp256k1, pk_data = d\<rparr>)
      else if apk_type pubkey = ''tendermint/PubKeyEd25519''
      then andThen (fromBase64 (cos_base64 L) (apk_value pubkey)) (\<lambda>d. ok \<lparr>pk_algo = Ed25519, pk_data = d\<rparr>)
      else throw ''Unsupported pubkey type'')"

definition cosmos_decodeFullSignature :: "('h, 'a) cosmos_lib_scheme \<Rightarrow> amino_StdSignature \<Rightarrow> Nonce \<Rightarrow> FullSignature result" where
  "cosmos_decodeFullSignature L signature nonce =
     andThen (cosmos_decodePubkey L (ass_pub_key signature)) (\<lambda>pubkey.
     andThen (fromBase64 (cos_base64 L) (ass_signature signature)) (\<lambda>bytes.
     ok \<lparr>sig_nonce = nonce, sig_pubkey = pubkey, sig_signature = bytes\<rparr>))"

definition cosmos_decodeAmount :: "amino_Coin \<Rightarrow> Amount result" where
  "cosmos_decodeAmount amount =
     (if aco_denom amount \<noteq> ''uatom'' then throw ''Only ATOM amounts are supported''
      else ok \<lparr>am_quantity = aco_amount amount, am_fractionalDigits = int_num 6, am_tokenTicker = ''ATOM''\<rparr>)"

definition parseMsg :: "amino_Msg \<Rightarrow> SendTransaction result" where
  "parseMsg msg =
     (if amsg_type msg \<noteq> ''cosmos-sdk/MsgSend'' then throw ''Unknown message type in transaction''
      else case amsg_value msg of
        OtherMsgValue \<Rightarrow> throw ''Only MsgSend is supported''
      | MsgSendValue v \<Rightarrow>
          if ams_from_address v = [] then throw ''Only MsgSend is supported''
          else (case ams_amount v of
            [coin] \<Rightarrow> andThen (cosmos_decodeAmount coin) (\<lambda>amount.
              ok \<lparr>send_amount = amount, send_sender = ams_from_address v, send_senderPubkey = None,
                send_recipient = ams_to_address v, send_memo = None\<rparr>)
          | _ \<Rightarrow> throw ''Only MsgSend with one amount is supported''))"

definition parseFee :: "amino_StdFee \<Rightarrow> Fee result" where
  "parseFee fee = (case asf_amount fee of
     [coin] \<Rightarrow> andThen (cosmos_decodeAmount coin) (\<lambda>tokens.
       ok \<lparr>fee_tokens = Some tokens, fee_gasPrice = None, fee_gasLimit = Some (asf_gas fee), fee_payer = None\<rparr>)
   | _ \<Rightarrow> throw ''Only fee with one amount is supported'')"

text \<open>
  The first signature is the primary one. The chain has no transactions without
  signatures; the code would give the list with the value undefined for them, which the
  type of signatures does not have.
\<close>

definition parseTx :: "('h, 'a) cosmos_lib_scheme \<Rightarrow> amino_Tx \<Rightarrow> ChainId \<Rightarrow> Nonce \<Rightarrow> CosmosTransaction SignedTx result" where
  "parseTx L tx chainId nonce = (case atx_value tx of
     OtherTxValue \<Rightarrow> throw ''Only Amino StdTx is supported''
   | StdTxValue txValue \<Rightarrow> (case ast_msg txValue of
       [m] \<Rightarrow>
         andThen (mapM (\<lambda>signature. cosmos_decodeFullSignature L signature nonce) (ast_signatures txValue)) (\<lambda>signatures.
         andThen (parseMsg m) (\<lambda>msg.
         andThen (parseFee (ast_fee txValue)) (\<lambda>fee.
         case signatures of
           [] \<Rightarrow> throw ''undefined signature''
         | primarySignature # _ \<Rightarrow>
             ok \<lparr>stx_transaction = \<lparr>ctx_chainId = chainId, ctx_fee = Some fee,
                   ctx_content = Inl (msg\<lparr>send_memo := Some (ast_memo txValue)\<rparr>)\<rparr>,
                 stx_signatures = [primarySignature]\<rparr>)))
     | _ \<Rightarrow> throw ''Only single-message transactions currently supported''))"

section \<open>The codec\<close>

text \<open>Objects of JSON with members of other names than integers; other values are left alone.\<close>

fun sortJson :: "(string \<Rightarrow> string \<Rightarrow> bool) \<Rightarrow> js_value \<Rightarrow> js_value" where
  "sortJson le (Arr vs) = Arr (map (sortJson le) vs)"
| "sortJson le (Obj kvs) = Obj (stable_sort (\<lambda>a b. le (fst a) (fst b)) (map (\<lambda>(k, v). (k, sortJson le v)) kvs))"
| "sortJson le v = v"

definition coin_json :: "amino_Coin \<Rightarrow> js_value" where
  "coin_json c = Obj [(''denom'', Str (aco_denom c)), (''amount'', Str (aco_amount c))]"

definition fee_json :: "amino_StdFee \<Rightarrow> js_value" where
  "fee_json f = Obj [(''amount'', Arr (map coin_json (asf_amount f))), (''gas'', Str (asf_gas f))]"

definition msg_json :: "amino_Msg \<Rightarrow> js_value" where
  "msg_json m = Obj [(''type'', Str (amsg_type m)), (''value'', case amsg_value m of
     MsgSendValue v \<Rightarrow> Obj [(''from_address'', Str (ams_from_address v)), (''to_address'', Str (ams_to_address v)),
       (''amount'', Arr (map coin_json (ams_amount v)))]
   | OtherMsgValue \<Rightarrow> Obj [])]"

text \<open>The memo that is signed is the member of the transaction, not the one that is built.\<close>

definition sign_document :: "string \<Rightarrow> amino_StdTx \<Rightarrow> string option \<Rightarrow> Nonce \<Rightarrow> js_value" where
  "sign_document reference built memo nonce = Obj [
     (''account_number'', Str ''0''), (''chain_id'', Str reference), (''fee'', fee_json (ast_fee built)),
     (''memo'', case memo of None \<Rightarrow> Undefined | Some m \<Rightarrow> Str m), (''msgs'', Arr (map msg_json (ast_msg built))),
     (''sequence'', Str (number_text nonce))]"

definition cosmos_bytesToSign :: "('h, 'a) cosmos_lib_scheme \<Rightarrow> CosmosTransaction \<Rightarrow> Nonce \<Rightarrow> SigningJob result" where
  "cosmos_bytesToSign L unsignedTx nonce =
     (let memo = (case ctx_content unsignedTx of Inl send \<Rightarrow> send_memo send | Inr _ \<Rightarrow> None) in
      andThen (buildUnsignedTx unsignedTx) (\<lambda>built.
      andThen (Caip5_decode (ctx_chainId unsignedTx)) (\<lambda>reference.
      case JSON_stringify (sortJson (cos_localeCompare L) (sign_document reference built memo nonce)) of
        None \<Rightarrow> throw ''TypeError''
      | Some text \<Rightarrow> ok \<lparr>job_bytes = toUtf8 text, job_prehashType = PrehashSha256\<rparr>)))"

definition cosmos_bytesToPost :: "('h, 'a) cosmos_lib_scheme \<Rightarrow> CosmosTransaction SignedTx \<Rightarrow> byte list result" where
  "cosmos_bytesToPost L signedTx =
     andThen (buildSignedTx L signedTx) (\<lambda>built.
     cos_marshalTx L \<lparr>atx_type = ''cosmos-sdk/StdTx'', atx_value = StdTxValue built\<rparr>)"

definition cosmos_identifier :: "('h, 'a) cosmos_lib_scheme \<Rightarrow> CosmosTransaction SignedTx \<Rightarrow> string result" where
  "cosmos_identifier L signedTx =
     andThen (cosmos_bytesToPost L signedTx) (\<lambda>bytes.
     ok (map upper_char (toHex (digest_with (Sha256 (cl_sha L)) bytes))))"

definition cosmos_parseBytes :: "('h, 'a) cosmos_lib_scheme \<Rightarrow> byte list \<Rightarrow> ChainId \<Rightarrow> Nonce option \<Rightarrow>
    CosmosTransaction SignedTx result" where
  "cosmos_parseBytes L bytes chainId nonce = (case nonce of
     None \<Rightarrow> throw ''Nonce is required''
   | Some n \<Rightarrow> andThen (cos_unmarshalTx L bytes) (\<lambda>parsed. parseTx L parsed chainId n))"

definition cosmos_identityToAddress :: "('h, 'a) cosmos_lib_scheme \<Rightarrow> Identity \<Rightarrow> Address result" where
  "cosmos_identityToAddress L ident = cosmos_pubkeyToAddress L (id_pubkey ident) ''cosmos''"

text \<open>\<open>parseTxsResponse\<close>: a transaction that the node reports. The height is a decimal number.\<close>

record TxsResponse =
  txr_height :: string
  txr_txhash :: string
  txr_raw_log :: string
  txr_tx :: amino_Tx

record ConfirmedAndSignedTx =
  ctd_signed :: "CosmosTransaction SignedTx"
  ctd_height :: number
  ctd_confirmations :: number
  ctd_transactionId :: string
  ctd_log :: string

definition parseTxsResponse :: "('h, 'a) cosmos_lib_scheme \<Rightarrow> ChainId \<Rightarrow> number \<Rightarrow> Nonce \<Rightarrow> TxsResponse \<Rightarrow> ConfirmedAndSignedTx result" where
  "parseTxsResponse L chainId currentHeight nonce response =
     (let height = parseInt10 (takeWhile is_digit (txr_height response)) in
      andThen (parseTx L (txr_tx response) chainId nonce) (\<lambda>signed.
      ok \<lparr>ctd_signed = signed, ctd_height = height,
        ctd_confirmations = js_add (js_sub currentHeight height) (int_num 1),
        ctd_transactionId = txr_txhash response, ctd_log = txr_raw_log response\<rparr>))"

section \<open>Sorted objects\<close>

lemma map_of_stable_sort: "distinct (map fst kvs) \<Longrightarrow> map_of (stable_sort (\<lambda>a b. le (fst a) (fst b)) kvs) = map_of kvs"
  by (subst map_of_inject_set) (simp_all add: stable_sort_map stable_sort_distinct)

lemma keys_sorted: "map fst (stable_sort (\<lambda>a b. le (fst a) (fst b)) (map (\<lambda>(k, v). (k, f v)) kvs)) = stable_sort le (map fst kvs)"
  by (simp add: stable_sort_map comp_def case_prod_beta')

lemma js_get_sortJson: "distinct (map fst kvs) \<Longrightarrow> js_get (sortJson le (Obj kvs)) k = sortJson le (js_get (Obj kvs) k)"
  by (simp add: js_get_def map_of_stable_sort comp_def case_prod_beta' map_of_map [of "sortJson le" kvs, unfolded case_prod_beta']
      split: option.split)

lemma sortJson_data: "json_data v \<Longrightarrow> json_data (sortJson le v)"
proof (induction v)
  case (Obj kvs)
  then show ?case using keys_sorted [of le "sortJson le" kvs]
    by (auto simp: list_all_iff stable_sort_distinct)
qed (auto simp: list_all_iff)

text \<open>A member that is undefined is not printed.\<close>

lemma stringify_defined: "JSON_stringify (Obj kvs) = JSON_stringify (Obj (filter (\<lambda>kv. snd kv \<noteq> Undefined) kvs))"
proof -
  have "concat (map (\<lambda>(k, v). case JSON_stringify v of None \<Rightarrow> [] | Some t \<Rightarrow> [(k, t)]) kvs) =
    concat (map (\<lambda>(k, v). case JSON_stringify v of None \<Rightarrow> [] | Some t \<Rightarrow> [(k, t)]) (filter (\<lambda>kv. snd kv \<noteq> Undefined) kvs))"
    by (induction kvs) auto
  then show ?thesis by simp
qed

lemma js_get_defined: "distinct (map fst kvs) \<Longrightarrow> js_get (Obj (filter (\<lambda>kv. snd kv \<noteq> Undefined) kvs)) k = js_get (Obj kvs) k"
proof (induction kvs)
  case (Cons kv kvs)
  have "map_of kvs (fst kv) = None" using Cons.prems by (simp add: map_of_eq_None_iff)
  moreover have "map_of (filter (\<lambda>kv. snd kv \<noteq> Undefined) kvs) (fst kv) = None"
    using Cons.prems by (auto simp: map_of_eq_None_iff)
  ultimately show ?case using Cons by (cases kv) (auto simp: js_get_def split: option.splits)
qed simp

lemma signed_members:
  assumes "distinct (map fst kvs)" "\<And>k v. (k, v) \<in> set kvs \<Longrightarrow> json_data v \<or> v = Undefined"
    and "JSON_stringify (sortJson le (Obj kvs)) = Some t"
  obtains ws where "JSON_parse t = ok (Obj ws)" "\<And>k. js_get (Obj ws) k = sortJson le (js_get (Obj kvs) k)"
proof -
  define ss where "ss = stable_sort (\<lambda>a b. le (fst a) (fst b)) (map (\<lambda>(k, v). (k, sortJson le v)) kvs)"
  define ws where "ws = filter (\<lambda>kv. snd kv \<noteq> Undefined) ss"
  have d: "distinct (map fst ss)" using assms(1) by (simp add: ss_def keys_sorted stable_sort_distinct)
  have "json_data v" if "(k, v) \<in> set ws" for k v
    using that assms(2) by (fastforce simp: ws_def ss_def intro: sortJson_data)
  then have "json_data (Obj ws)" using d by (auto simp: list_all_iff ws_def distinct_map_filter)
  moreover have "JSON_stringify (Obj ws) = Some t" using assms(3) stringify_defined [of ss] by (simp add: ws_def ss_def)
  ultimately have "JSON_parse t = ok (Obj ws)" by (rule JSON_parse_stringify)
  moreover have "js_get (Obj ws) k = sortJson le (js_get (Obj kvs) k)" for k
    using js_get_defined [OF d] js_get_sortJson [OF assms(1), of le k] by (simp add: ws_def) (simp add: ss_def)
  ultimately show thesis by (rule that)
qed

lemma same_sorted_member:
  assumes "sortJson le (Obj kvs) = sortJson le (Obj lvs)" "distinct (map fst kvs)" "distinct (map fst lvs)"
  shows "sortJson le (js_get (Obj kvs) k) = sortJson le (js_get (Obj lvs) k)"
  using assms by (metis js_get_sortJson)

lemma coin_json_inj: "sortJson le (coin_json c) = sortJson le (coin_json d) \<longleftrightarrow> c = d"
proof
  assume "sortJson le (coin_json c) = sortJson le (coin_json d)"
  from same_sorted_member [OF this [unfolded coin_json_def]]
  have "sortJson le (js_get (coin_json c) k) = sortJson le (js_get (coin_json d) k)" for k by (simp add: coin_json_def)
  from this [of "''denom''"] this [of "''amount''"] show "c = d" by (simp add: coin_json_def js_get_def amino_Coin.equality)
qed simp

lemma coins_json_inj: "map (sortJson le \<circ> coin_json) cs = map (sortJson le \<circ> coin_json) ds \<Longrightarrow> cs = ds"
  by (rule map_injective [of "sortJson le \<circ> coin_json"]) (auto simp: inj_def coin_json_inj)

lemma fee_json_inj: "sortJson le (fee_json f) = sortJson le (fee_json g) \<Longrightarrow> f = g"
proof -
  assume "sortJson le (fee_json f) = sortJson le (fee_json g)"
  from same_sorted_member [OF this [unfolded fee_json_def]]
  have "sortJson le (js_get (fee_json f) k) = sortJson le (js_get (fee_json g) k)" for k by (simp add: fee_json_def)
  from this [of "''amount''"] this [of "''gas''"] show "f = g"
    using coins_json_inj [of le "asf_amount f" "asf_amount g"] by (simp add: fee_json_def js_get_def amino_StdFee.equality)
qed

lemma send_json_inj:
  assumes "sortJson le (msg_json \<lparr>amsg_type = a, amsg_value = MsgSendValue v\<rparr>) = sortJson le (msg_json \<lparr>amsg_type = b, amsg_value = MsgSendValue w\<rparr>)"
  shows "v = w"
proof -
  let ?j = "\<lambda>v. Obj [(''from_address'', Str (ams_from_address v)), (''to_address'', Str (ams_to_address v)), (''amount'', Arr (map coin_json (ams_amount v)))]"
  have "sortJson le (?j v) = sortJson le (?j w)"
    using same_sorted_member [OF assms [unfolded msg_json_def], of "''value''"] by (simp add: js_get_def)
  from same_sorted_member [OF this]
  have "sortJson le (js_get (?j v) k) = sortJson le (js_get (?j w) k)" for k by simp
  from this [of "''from_address''"] this [of "''to_address''"] this [of "''amount''"] show "v = w"
    using coins_json_inj [of le "ams_amount v" "ams_amount w"] by (simp add: js_get_def amino_MsgSend.equality)
qed

lemma json_data_parts: "json_data (coin_json c)" "json_data (fee_json f)" "json_data (msg_json m)"
proof -
  show c: "json_data (coin_json c)" for c by (simp add: coin_json_def)
  show "json_data (fee_json f)" "json_data (msg_json m)"
    by (auto simp: fee_json_def msg_json_def list_all_iff c split: amino_MsgValue.split)
qed

lemma sign_document_members:
  "js_get (sign_document r b m n) ''chain_id'' = Str r" "js_get (sign_document r b m n) ''fee'' = fee_json (ast_fee b)"
  "js_get (sign_document r b m n) ''memo'' = (case m of None \<Rightarrow> Undefined | Some m \<Rightarrow> Str m)"
  "js_get (sign_document r b m n) ''msgs'' = Arr (map msg_json (ast_msg b))"
  "js_get (sign_document r b m n) ''sequence'' = Str (number_text n)"
  by (simp_all add: sign_document_def js_get_def)

lemma sign_document_determines:
  assumes "JSON_stringify (sortJson le (sign_document r b m n)) = Some t" "JSON_stringify (sortJson le (sign_document r' b' m' n')) = Some t"
  shows "r = r'" "m = m'" "number_text n = number_text n'" "ast_fee b = ast_fee b'"
    "map (\<lambda>x. sortJson le (msg_json x)) (ast_msg b) = map (\<lambda>x. sortJson le (msg_json x)) (ast_msg b')"
proof -
  have doc: "\<exists>ws. JSON_parse t = ok (Obj ws) \<and> (\<forall>k. js_get (Obj ws) k = sortJson le (js_get (sign_document r b m n) k))"
    if "JSON_stringify (sortJson le (sign_document r b m n)) = Some t" for r b m n
    unfolding sign_document_def
    by (rule signed_members [OF _ _ that [unfolded sign_document_def]])
      (auto simp: json_data_parts list_all_iff split: option.splits)
  from doc [OF assms(1)] obtain ws where ws: "JSON_parse t = ok (Obj ws)"
      "\<And>k. js_get (Obj ws) k = sortJson le (js_get (sign_document r b m n) k)" by blast
  from doc [OF assms(2)] obtain us where us: "JSON_parse t = ok (Obj us)"
      "\<And>k. js_get (Obj us) k = sortJson le (js_get (sign_document r' b' m' n') k)" by blast
  have "sortJson le (js_get (sign_document r b m n) k) = sortJson le (js_get (sign_document r' b' m' n') k)" for k
    using ws(2) [of k] us(2) [of k] ws(1) us(1) by simp
  note members = this [of "''chain_id''"] this [of "''memo''"] this [of "''sequence''"] this [of "''fee''"] this [of "''msgs''"]
  show "r = r'" "number_text n = number_text n'" using members(1,3) by (simp_all add: sign_document_members)
  show "m = m'" using members(2) by (cases m; cases m') (simp_all add: sign_document_members)
  show "ast_fee b = ast_fee b'" using members(4) unfolding sign_document_members by (rule fee_json_inj)
  show "map (\<lambda>x. sortJson le (msg_json x)) (ast_msg b) = map (\<lambda>x. sortJson le (msg_json x)) (ast_msg b')"
    using members(5) by (simp add: sign_document_members comp_def)
qed

lemma number_text_inj:
  assumes "\<bar>n\<bar> < 10 ^ 15" "\<bar>n'\<bar> < 10 ^ 15" "number_text (int_num n) = number_text (int_num n')"
  shows "n = n'"
proof -
  have "JSON_parse (number_text (int_num m)) = ok (Number (int_num m))" if "\<bar>m\<bar> < 10 ^ 15" for m
  proof (rule JSON_parse_stringify)
    show "json_data (Number (int_num m))" using that by (auto simp del: power_numeral)
    show "JSON_stringify (Number (int_num m)) = Some (number_text (int_num m))" by (simp add: int_num_def)
  qed
  with assms have "ok (Number (int_num n)) = (ok (Number (int_num n')) :: js_value result)" by metis
  then show ?thesis by (simp add: int_num_def)
qed

section \<open>The law of amino-js, and libraries that satisfy it\<close>

text \<open>
  amino-js reads back what it wrote for a signed transaction of one message that sends
  one amount of uatom for one amount of uatom as fee, when numbers have their shortest
  decimal form, the addresses are set and in lower case, and keys and signatures are base64
  of some bytes: the Go code below parses all of them. Nothing is said of
  other transactions, nor that a transaction can be written.
\<close>

definition uatom_coin :: "amino_Coin \<Rightarrow> bool" where
  "uatom_coin c \<longleftrightarrow> aco_denom c = ''uatom'' \<and> canonical_decimal (aco_amount c)"

definition lower_address :: "string \<Rightarrow> bool" where
  "lower_address a \<longleftrightarrow> a \<noteq> [] \<and> map lower_char a = a"

definition amino_send :: "base64_lib \<Rightarrow> amino_StdTx \<Rightarrow> bool" where
  "amino_send B t \<longleftrightarrow>
     (\<exists>v c f. ast_msg t = [\<lparr>amsg_type = ''cosmos-sdk/MsgSend'', amsg_value = MsgSendValue v\<rparr>] \<and>
        lower_address (ams_from_address v) \<and> lower_address (ams_to_address v) \<and> ams_amount v = [c] \<and> uatom_coin c \<and>
        asf_amount (ast_fee t) = [f] \<and> uatom_coin f) \<and>
     canonical_decimal (asf_gas (ast_fee t)) \<and> ast_signatures t \<noteq> [] \<and>
     list_all (\<lambda>s. apk_type (ass_pub_key s) = ''tendermint/PubKeySecp256k1'' \<and>
       (\<exists>k d. apk_value (ass_pub_key s) = toBase64 B k \<and> ass_signature s = toBase64 B d)) (ast_signatures t)"

definition amino_laws :: "('h, 'a) cosmos_lib_scheme \<Rightarrow> bool" where
  "amino_laws L \<longleftrightarrow> (\<forall>t bytes. amino_send (cos_base64 L) t \<longrightarrow>
     cos_marshalTx L \<lparr>atx_type = ''cosmos-sdk/StdTx'', atx_value = StdTxValue t\<rparr> = ok bytes \<longrightarrow>
     cos_unmarshalTx L bytes = ok \<lparr>atx_type = ''cosmos-sdk/StdTx'', atx_value = StdTxValue t\<rparr>)"

definition demo_atom :: "string \<Rightarrow> Amount" where
  "demo_atom q = \<lparr>am_quantity = q, am_fractionalDigits = int_num 6, am_tokenTicker = ''ATOM''\<rparr>"

definition demo_atom_fee :: Fee where
  "demo_atom_fee = \<lparr>fee_tokens = Some (demo_atom ''7''), fee_gasPrice = None, fee_gasLimit = Some ''200'', fee_payer = None\<rparr>"

definition demo_atom_send :: "string option \<Rightarrow> SendTransaction" where
  "demo_atom_send memo = \<lparr>send_amount = demo_atom ''5'', send_sender = ''cosmos1a'', send_senderPubkey = None,
     send_recipient = ''cosmos1b'', send_memo = memo\<rparr>"

definition demo_cosmos_tx :: "string option \<Rightarrow> CosmosTransaction" where
  "demo_cosmos_tx memo = \<lparr>ctx_chainId = ''cosmos:hub'', ctx_fee = Some demo_atom_fee, ctx_content = Inl (demo_atom_send memo)\<rparr>"

definition demo_cosmos_signature :: FullSignature where
  "demo_cosmos_signature = \<lparr>sig_nonce = int_num 3, sig_pubkey = \<lparr>pk_algo = Secp256k1, pk_data = replicate 33 2\<rparr>, sig_signature = replicate 64 1\<rparr>"

text \<open>
  The libraries of the witnesses write every such transaction: as the list of its texts,
  a character as a byte 1 and its code, the end of a text as a byte 0.
\<close>

definition text_bytes :: "string \<Rightarrow> byte list" where
  "text_bytes s = concat (map (\<lambda>c. [1, word_of_nat (of_char c)]) s) @ [0]"

fun read_texts :: "string \<Rightarrow> byte list \<Rightarrow> string list" where
  "read_texts acc [] = []"
| "read_texts acc [b] = [acc]"
| "read_texts acc (b # c # bytes) =
     (if b = 0 then acc # read_texts [] (c # bytes) else read_texts (acc @ [char_of (unat c)]) bytes)"

lemma read_text_bytes: "read_texts acc (text_bytes s @ bytes) = (acc @ s) # read_texts [] bytes"
proof (induction s arbitrary: acc)
  case Nil
  then show ?case by (cases bytes) (simp_all add: text_bytes_def)
next
  case (Cons c s)
  have "char_of (unat (word_of_nat (of_char c) :: byte)) = c" by (simp add: unat_of_nat)
  with Cons [of "acc @ [c]"] show ?case by (simp add: text_bytes_def)
qed

lemma read_all_texts: "read_texts [] (concat (map text_bytes ss)) = ss"
  by (induction ss) (simp_all add: read_text_bytes)

fun signature_texts :: "amino_StdSignature list \<Rightarrow> string list" where
  "signature_texts [] = []"
| "signature_texts (s # ss) = apk_type (ass_pub_key s) # apk_value (ass_pub_key s) # ass_signature s # signature_texts ss"

fun read_signatures :: "string list \<Rightarrow> amino_StdSignature list" where
  "read_signatures (t # v # s # rest) = \<lparr>ass_pub_key = \<lparr>apk_type = t, apk_value = v\<rparr>, ass_signature = s\<rparr> # read_signatures rest"
| "read_signatures _ = []"

lemma read_signature_texts: "read_signatures (signature_texts ss) = ss"
  by (induction ss) simp_all

definition demo_marshal :: "amino_Tx \<Rightarrow> byte list result" where
  "demo_marshal tx = (case atx_value tx of
     StdTxValue t \<Rightarrow> (case (ast_msg t, asf_amount (ast_fee t)) of
         ([m], [f]) \<Rightarrow> (case amsg_value m of
             MsgSendValue v \<Rightarrow> (case ams_amount v of
                 [c] \<Rightarrow> ok (concat (map text_bytes ([ams_from_address v, ams_to_address v, aco_denom c, aco_amount c,
                     aco_denom f, aco_amount f, asf_gas (ast_fee t), ast_memo t] @ signature_texts (ast_signatures t))))
               | _ \<Rightarrow> throw ''unsupported'')
           | OtherMsgValue \<Rightarrow> throw ''unsupported'')
       | _ \<Rightarrow> throw ''unsupported'')
   | OtherTxValue \<Rightarrow> throw ''unsupported'')"

definition demo_unmarshal :: "byte list \<Rightarrow> amino_Tx result" where
  "demo_unmarshal bytes = (case read_texts [] bytes of
     sender # recipient # d # q # fd # fq # gas # memo # rest \<Rightarrow> ok \<lparr>atx_type = ''cosmos-sdk/StdTx'', atx_value = StdTxValue \<lparr>
       ast_msg = [\<lparr>amsg_type = ''cosmos-sdk/MsgSend'', amsg_value = MsgSendValue
         \<lparr>ams_from_address = sender, ams_to_address = recipient, ams_amount = [\<lparr>aco_denom = d, aco_amount = q\<rparr>]\<rparr>\<rparr>],
       ast_fee = \<lparr>asf_amount = [\<lparr>aco_denom = fd, aco_amount = fq\<rparr>], asf_gas = gas\<rparr>,
       ast_signatures = read_signatures rest, ast_memo = memo\<rparr>\<rparr>
   | _ \<Rightarrow> throw ''invalid'')"

definition demo_cosmos :: "string cosmos_lib" where
  "demo_cosmos = crypto_lib.extend demo_crypto
     \<lparr>cos_ripemd160 = (\<lambda>d. replicate 20 1), cos_bech32_encode = (\<lambda>p d. Some (p @ ''1'' @ toHex d)), cos_bech32_decode = (\<lambda>a. None),
      cos_base64 = demo_base64, cos_marshalTx = demo_marshal, cos_unmarshalTx = demo_unmarshal,
      cos_localeCompare = (\<lambda>a b. length a \<le> length b)\<rparr>"

lemma demo_cosmos_simps [simp]:
  "cos_base64 demo_cosmos = demo_base64" "cos_marshalTx demo_cosmos = demo_marshal" "cos_unmarshalTx demo_cosmos = demo_unmarshal"
  by (simp_all add: demo_cosmos_def crypto_lib.defs)

lemma mapM_member: "mapM f xs = ok ys \<Longrightarrow> y \<in> set ys \<Longrightarrow> \<exists>x. f x = ok y"
  by (auto simp: mapM_eq_Inr list_all2_conv_all_nth in_set_conv_nth)

lemma demo_amino_laws: "amino_laws demo_cosmos"
proof -
  have "demo_unmarshal bytes = ok \<lparr>atx_type = ''cosmos-sdk/StdTx'', atx_value = StdTxValue t\<rparr>"
    if t: "amino_send demo_base64 t" and bytes: "demo_marshal \<lparr>atx_type = ''cosmos-sdk/StdTx'', atx_value = StdTxValue t\<rparr> = ok bytes" for t bytes
  proof -
    from t obtain v c f where shape: "ast_msg t = [\<lparr>amsg_type = ''cosmos-sdk/MsgSend'', amsg_value = MsgSendValue v\<rparr>]"
        "ams_amount v = [c]" "asf_amount (ast_fee t) = [f]" by (auto simp: amino_send_def)
    with bytes have "bytes = concat (map text_bytes ([ams_from_address v, ams_to_address v, aco_denom c, aco_amount c,
        aco_denom f, aco_amount f, asf_gas (ast_fee t), ast_memo t] @ signature_texts (ast_signatures t)))"
      by (simp add: demo_marshal_def)
    then have "read_texts [] bytes = [ams_from_address v, ams_to_address v, aco_denom c, aco_amount c,
        aco_denom f, aco_amount f, asf_gas (ast_fee t), ast_memo t] @ signature_texts (ast_signatures t)"
      by (simp only: read_all_texts)
    with shape show ?thesis
      by (cases t; cases v; cases c; cases f; cases "ast_fee t") (simp add: demo_unmarshal_def read_signature_texts)
  qed
  then show ?thesis by (simp add: amino_laws_def)
qed

section \<open>Chain ids and built transactions\<close>

lemma Caip5_decode_ok: "Caip5_decode chainId = ok r \<Longrightarrow> chainId = ''cosmos:'' @ r"
proof -
  assume "Caip5_decode chainId = ok r"
  then have "take (length ''cosmos:'') chainId = ''cosmos:''" "r = drop 7 chainId"
    by (auto simp: Caip5_decode_def startsWith_def Let_def split: if_splits)
  moreover have "length ''cosmos:'' = 7" by simp
  ultimately have "take 7 chainId = ''cosmos:''" "r = drop 7 chainId" by metis+
  then show ?thesis using append_take_drop_id [of 7 chainId] by simp
qed

text \<open>The transaction that is built for a send, with the fee in coins.\<close>

lemma buildUnsignedTx_send:
  assumes "buildUnsignedTx tx = ok built" "ctx_content tx = Inl send"
  obtains fee where "built = \<lparr>ast_msg = [\<lparr>amsg_type = ''cosmos-sdk/MsgSend'', amsg_value = MsgSendValue
        \<lparr>ams_from_address = send_sender send, ams_to_address = send_recipient send,
         ams_amount = [\<lparr>aco_denom = ''uatom'', aco_amount = am_quantity (send_amount send)\<rparr>]\<rparr>\<rparr>],
      ast_fee = fee, ast_signatures = [], ast_memo = (case send_memo send of None \<Rightarrow> [] | Some m \<Rightarrow> m)\<rparr>"
    "am_tokenTicker (send_amount send) = ''ATOM''"
    "case ctx_fee tx of None \<Rightarrow> fee = \<lparr>asf_amount = [], asf_gas = []\<rparr>
      | Some f \<Rightarrow> \<exists>tokens gas. fee_tokens f = Some tokens \<and> fee_gasLimit f = Some gas \<and> am_tokenTicker tokens = ''ATOM'' \<and>
          fee = \<lparr>asf_amount = [\<lparr>aco_denom = ''uatom'', aco_amount = am_quantity tokens\<rparr>], asf_gas = gas\<rparr>"
  using assms by (auto simp: buildUnsignedTx_def andThen_eq_Inr cosmos_encodeAmount_def cosmos_encodeFee_def
      split: if_splits option.splits)

lemma built_send_parts:
  assumes "buildUnsignedTx tx = ok built" "ctx_content tx = Inl send"
  shows "ast_msg built = [\<lparr>amsg_type = ''cosmos-sdk/MsgSend'', amsg_value = MsgSendValue
        \<lparr>ams_from_address = send_sender send, ams_to_address = send_recipient send,
         ams_amount = [\<lparr>aco_denom = ''uatom'', aco_amount = am_quantity (send_amount send)\<rparr>]\<rparr>\<rparr>]"
    and "case ctx_fee tx of None \<Rightarrow> ast_fee built = \<lparr>asf_amount = [], asf_gas = []\<rparr>
      | Some f \<Rightarrow> \<exists>tokens gas. fee_tokens f = Some tokens \<and> fee_gasLimit f = Some gas \<and>
          ast_fee built = \<lparr>asf_amount = [\<lparr>aco_denom = ''uatom'', aco_amount = am_quantity tokens\<rparr>], asf_gas = gas\<rparr>"
  by (rule buildUnsignedTx_send [OF assms], simp, rule buildUnsignedTx_send [OF assms], auto split: option.splits)

section \<open>Properties\<close>

text \<open>
  C34. What is posted for a signed send of ATOM with a fee in ATOM and a gas limit is read
  back as the same transaction, with the chain and the nonce that are given and a memo that is
  empty when there was none. Of the signatures only the first comes back, with the nonce that
  is given, its public key compressed and its signature without the recovery byte. Amounts and gas limit are in
  their shortest decimal form and have six digits, the addresses are in lower case, and the sender's public key is not
  part of the transaction.
\<close>

lemma cosmos_posted_transaction_read:
  assumes "base64_laws (cos_base64 L)" "amino_laws L" "cosmos_bytesToPost L stx = ok b"
    and "stx_transaction stx = \<lparr>ctx_chainId = c, ctx_fee = Some fee, ctx_content = Inl send\<rparr>" "stx_signatures stx = s # others"
    and "fee_tokens fee = Some tokens" "fee_gasLimit fee = Some gas" "fee_gasPrice fee = None" "fee_payer fee = None"
    and "am_fractionalDigits tokens = int_num 6" "am_fractionalDigits (send_amount send) = int_num 6"
    and "canonical_decimal (am_quantity tokens)" "canonical_decimal gas" "canonical_decimal (am_quantity (send_amount send))"
    and "lower_address (send_sender send)" "lower_address (send_recipient send)" "send_senderPubkey send = None"
  shows "\<exists>compressed trimmed. compressPubkey L (pk_data (sig_pubkey s)) = ok compressed \<and> trimRecoveryByte (sig_signature s) = ok trimmed \<and>
    cosmos_parseBytes L b c (Some nonce) = ok \<lparr>
      stx_transaction = \<lparr>ctx_chainId = c, ctx_fee = Some fee,
        ctx_content = Inl (send\<lparr>send_memo := Some (case send_memo send of None \<Rightarrow> [] | Some m \<Rightarrow> m)\<rparr>)\<rparr>,
      stx_signatures = [\<lparr>sig_nonce = nonce, sig_pubkey = \<lparr>pk_algo = Secp256k1, pk_data = compressed\<rparr>, sig_signature = trimmed\<rparr>]\<rparr>"
proof -
  from assms(3) obtain built sigs where built: "buildUnsignedTx (stx_transaction stx) = ok built"
      and sigs: "mapM (cosmos_encodeFullSignature L) (s # others) = ok sigs"
      and b: "cos_marshalTx L \<lparr>atx_type = ''cosmos-sdk/StdTx'', atx_value = StdTxValue (built\<lparr>ast_signatures := sigs\<rparr>)\<rparr> = ok b"
    by (auto simp: cosmos_bytesToPost_def buildSignedTx_def andThen_eq_Inr assms(5))
  from buildUnsignedTx_send [OF built] assms(4,6,7)
  have shape: "built = \<lparr>ast_msg = [\<lparr>amsg_type = ''cosmos-sdk/MsgSend'', amsg_value = MsgSendValue
        \<lparr>ams_from_address = send_sender send, ams_to_address = send_recipient send,
         ams_amount = [\<lparr>aco_denom = ''uatom'', aco_amount = am_quantity (send_amount send)\<rparr>]\<rparr>\<rparr>],
      ast_fee = \<lparr>asf_amount = [\<lparr>aco_denom = ''uatom'', aco_amount = am_quantity tokens\<rparr>], asf_gas = gas\<rparr>,
      ast_signatures = [], ast_memo = (case send_memo send of None \<Rightarrow> [] | Some m \<Rightarrow> m)\<rparr>"
    "am_tokenTicker (send_amount send) = ''ATOM''" "am_tokenTicker tokens = ''ATOM''" by auto
  from sigs obtain sig rest where split: "sigs = sig # rest" "cosmos_encodeFullSignature L s = ok sig"
      "mapM (cosmos_encodeFullSignature L) others = ok rest" by (auto simp: andThen_eq_Inr)
  have texts: "apk_type (ass_pub_key y) = ''tendermint/PubKeySecp256k1'' \<and>
      (\<exists>k d. apk_value (ass_pub_key y) = toBase64 (cos_base64 L) k \<and> ass_signature y = toBase64 (cos_base64 L) d)" if "y \<in> set sigs" for y
  proof -
    from mapM_member [OF sigs that] obtain x where "cosmos_encodeFullSignature L x = ok y" by blast
    then show ?thesis by (auto simp: cosmos_encodeFullSignature_def andThen_eq_Inr)
  qed
  have "amino_send (cos_base64 L) (built\<lparr>ast_signatures := sigs\<rparr>)"
    using assms(12-16) split(1) texts by (simp add: shape(1) amino_send_def uatom_coin_def list_all_iff)
  with b assms(2) have unmarshal: "cos_unmarshalTx L b =
      ok \<lparr>atx_type = ''cosmos-sdk/StdTx'', atx_value = StdTxValue (built\<lparr>ast_signatures := sigs\<rparr>)\<rparr>"
    by (simp add: amino_laws_def)
  note base64 = fromBase64_toBase64 [OF assms(1)]
  have decoded: "\<exists>compressed trimmed. compressPubkey L (pk_data (sig_pubkey x)) = ok compressed \<and> trimRecoveryByte (sig_signature x) = ok trimmed \<and>
      cosmos_decodeFullSignature L y nonce = ok \<lparr>sig_nonce = nonce, sig_pubkey = \<lparr>pk_algo = Secp256k1, pk_data = compressed\<rparr>, sig_signature = trimmed\<rparr>"
    if "cosmos_encodeFullSignature L x = ok y" for x y
    using that by (auto simp: cosmos_encodeFullSignature_def cosmos_decodeFullSignature_def cosmos_decodePubkey_def andThen_eq_Inr base64)
  obtain decodedRest where "mapM (\<lambda>y. cosmos_decodeFullSignature L y nonce) rest = ok decodedRest"
  proof -
    have "\<exists>z. cosmos_decodeFullSignature L y nonce = ok z" if "y \<in> set rest" for y
      using split(3) that decoded by (fastforce simp: mapM_eq_Inr in_set_conv_nth list_all2_conv_all_nth)
    then have "mapM (\<lambda>y. cosmos_decodeFullSignature L y nonce) rest = ok (map (\<lambda>y. projr (cosmos_decodeFullSignature L y nonce)) rest)"
      by (intro mapM_ok) fastforce
    with that show thesis .
  qed
  with decoded [OF split(2)] show ?thesis using assms(4,6-11,15,17) shape(2,3)
    by (auto simp: lower_address_def cosmos_parseBytes_def unmarshal parseTx_def parseMsg_def parseFee_def cosmos_decodeAmount_def shape(1) split(1)
        intro!: Fee.equality SendTransaction.equality Amount.equality)
qed

lemma cosmos_posted_transaction_read_witness:
  "\<exists>b. cosmos_bytesToPost demo_cosmos \<lparr>stx_transaction = demo_cosmos_tx None, stx_signatures = [demo_cosmos_signature]\<rparr> = ok b \<and>
    cosmos_parseBytes demo_cosmos b ''cosmos:hub'' (Some (int_num 3)) =
      ok \<lparr>stx_transaction = demo_cosmos_tx (Some []), stx_signatures = [demo_cosmos_signature]\<rparr>"
proof -
  let ?stx = "\<lparr>stx_transaction = demo_cosmos_tx None, stx_signatures = [demo_cosmos_signature]\<rparr>"
  have compressed: "compressPubkey demo_cosmos (replicate 33 2) = ok (replicate 33 2)" by (simp add: compressPubkey_def)
  have trimmed: "trimRecoveryByte (replicate 64 1) = ok (replicate 64 1)" by (simp add: trimRecoveryByte_def)
  obtain b where b: "cosmos_bytesToPost demo_cosmos ?stx = ok b"
    by (simp add: cosmos_bytesToPost_def buildSignedTx_def buildUnsignedTx_def cosmos_encodeAmount_def cosmos_encodeFee_def
        cosmos_encodeFullSignature_def demo_cosmos_tx_def demo_atom_send_def demo_atom_fee_def demo_atom_def
        demo_cosmos_signature_def compressed trimmed demo_marshal_def del: replicate.simps)
  with cosmos_posted_transaction_read [where L = demo_cosmos and stx = ?stx and b = b and c = "''cosmos:hub''" and fee = demo_atom_fee
      and send = "demo_atom_send None" and s = demo_cosmos_signature and others = "[]" and tokens = "demo_atom ''7''" and gas = "''200''"
      and nonce = "int_num 3"]
  show ?thesis
    by (auto simp: demo_base64_laws demo_amino_laws demo_cosmos_tx_def demo_atom_send_def demo_atom_fee_def demo_atom_def lower_address_def
        demo_cosmos_signature_def compressed trimmed canonical_decimal_def is_digit_def lower_char_def Let_def simp del: demo_cosmos_simps(2,3))
qed

lemma cosmos_bytesToSign_ok:
  assumes "cosmos_bytesToSign L tx nonce = ok job" "ctx_content tx = Inl send"
  obtains built reference signText where "buildUnsignedTx tx = ok built" "ctx_chainId tx = ''cosmos:'' @ reference"
    "JSON_stringify (sortJson (cos_localeCompare L) (sign_document reference built (send_memo send) nonce)) = Some signText"
    "job = \<lparr>job_bytes = toUtf8 signText, job_prehashType = PrehashSha256\<rparr>"
  using assms by (auto simp: cosmos_bytesToSign_def andThen_eq_Inr dest!: Caip5_decode_ok split: option.splits)

text \<open>
  C35. The bytes that are signed for a send on the Cosmos Hub determine the chain, the
  nonce, the sender, the recipient, the quantity, the memo, and the quantity and gas
  limit of the fee.
\<close>

lemma cosmos_signed_text_determines:
  assumes "cosmos_bytesToSign L tx (int_num n) = ok job" "cosmos_bytesToSign L tx' (int_num n') = ok job'"
    and "job_bytes job = job_bytes job'" "\<bar>n\<bar> < 10 ^ 15" "\<bar>n'\<bar> < 10 ^ 15"
    and "ctx_content tx = Inl send" "ctx_content tx' = Inl send'"
  shows "ctx_chainId tx = ctx_chainId tx' \<and> n = n' \<and> send_sender send = send_sender send' \<and> send_recipient send = send_recipient send' \<and>
    am_quantity (send_amount send) = am_quantity (send_amount send') \<and> send_memo send = send_memo send' \<and>
    map_option (\<lambda>fee. (map_option am_quantity (fee_tokens fee), fee_gasLimit fee)) (ctx_fee tx) =
    map_option (\<lambda>fee. (map_option am_quantity (fee_tokens fee), fee_gasLimit fee)) (ctx_fee tx')"
proof -
  obtain built r t where tx: "buildUnsignedTx tx = ok built" "ctx_chainId tx = ''cosmos:'' @ r"
      "JSON_stringify (sortJson (cos_localeCompare L) (sign_document r built (send_memo send) (int_num n))) = Some t" "job_bytes job = toUtf8 t"
    using cosmos_bytesToSign_ok [OF assms(1,6)] by (metis SigningJob.select_convs(1))
  obtain built' r' t' where tx': "buildUnsignedTx tx' = ok built'" "ctx_chainId tx' = ''cosmos:'' @ r'"
      "JSON_stringify (sortJson (cos_localeCompare L) (sign_document r' built' (send_memo send') (int_num n'))) = Some t'" "job_bytes job' = toUtf8 t'"
    using cosmos_bytesToSign_ok [OF assms(2,7)] by (metis SigningJob.select_convs(1))
  have "t = t'" using assms(3) tx(4) tx'(4) by (simp add: toUtf8_inj)
  note same = sign_document_determines [OF tx(3) tx'(3) [folded \<open>t = t'\<close>]]
  note built = built_send_parts [OF tx(1) assms(6)] and built' = built_send_parts [OF tx'(1) assms(7)]
  have "\<lparr>ams_from_address = send_sender send, ams_to_address = send_recipient send,
         ams_amount = [\<lparr>aco_denom = ''uatom'', aco_amount = am_quantity (send_amount send)\<rparr>]\<rparr> =
        \<lparr>ams_from_address = send_sender send', ams_to_address = send_recipient send',
         ams_amount = [\<lparr>aco_denom = ''uatom'', aco_amount = am_quantity (send_amount send')\<rparr>]\<rparr>"
    by (rule send_json_inj) (use same(5) in \<open>simp add: built(1) built'(1)\<close>)
  moreover have "map_option (\<lambda>fee. (map_option am_quantity (fee_tokens fee), fee_gasLimit fee)) (ctx_fee tx) =
    map_option (\<lambda>fee. (map_option am_quantity (fee_tokens fee), fee_gasLimit fee)) (ctx_fee tx')"
    using same(4) built(2) built'(2) by (auto split: option.splits)
  ultimately show ?thesis
    using same(1,2) number_text_inj [OF assms(4,5) same(3)] tx(2) tx'(2) by simp
qed

lemma cosmos_signed_text_determines_witness:
  "\<exists>job. cosmos_bytesToSign demo_cosmos (demo_cosmos_tx None) (int_num 3) = ok job \<and>
    cosmos_bytesToSign demo_cosmos (demo_cosmos_tx None\<lparr>ctx_fee := Some (demo_atom_fee\<lparr>fee_payer := Some ''x''\<rparr>)\<rparr>) (int_num 3) = ok job \<and>
    ctx_chainId (demo_cosmos_tx None) = ''cosmos:hub'' \<and> fee_gasLimit demo_atom_fee = fee_gasLimit (demo_atom_fee\<lparr>fee_payer := Some ''x''\<rparr>)"
proof -
  let ?tx = "demo_cosmos_tx None" and ?tx' = "demo_cosmos_tx None\<lparr>ctx_fee := Some (demo_atom_fee\<lparr>fee_payer := Some ''x''\<rparr>)\<rparr>"
  have hub: "Caip5_decode ''cosmos:hub'' = ok ''hub''"
    by (simp add: Caip5_decode_def startsWith_def matches_reference_def is_caip_char_def hashedPrefix_def)
  obtain job where job: "cosmos_bytesToSign demo_cosmos ?tx (int_num 3) = ok job" "cosmos_bytesToSign demo_cosmos ?tx' (int_num 3) = ok job"
    by (simp add: cosmos_bytesToSign_def buildUnsignedTx_def cosmos_encodeAmount_def cosmos_encodeFee_def demo_cosmos_tx_def
        demo_atom_send_def demo_atom_fee_def demo_atom_def hub sign_document_def)
  with cosmos_signed_text_determines [OF job refl, of "demo_atom_send None" "demo_atom_send None"]
  show ?thesis by (auto simp: demo_cosmos_tx_def demo_atom_fee_def)
qed

text \<open>
  C36. A send without memo is signed without the member memo, but posted with an empty
  memo: what the node reads is the transaction with an empty memo, for which other
  bytes are to be signed.
\<close>

lemma cosmos_missing_memo_signs_other_text:
  assumes "cosmos_bytesToSign L \<lparr>ctx_chainId = c, ctx_fee = fee, ctx_content = Inl (send\<lparr>send_memo := None\<rparr>)\<rparr> nonce = ok job"
  shows "cosmos_bytesToPost L \<lparr>stx_transaction = \<lparr>ctx_chainId = c, ctx_fee = fee, ctx_content = Inl (send\<lparr>send_memo := None\<rparr>)\<rparr>, stx_signatures = sigs\<rparr> =
      cosmos_bytesToPost L \<lparr>stx_transaction = \<lparr>ctx_chainId = c, ctx_fee = fee, ctx_content = Inl (send\<lparr>send_memo := Some []\<rparr>)\<rparr>, stx_signatures = sigs\<rparr> \<and>
    (\<exists>job'. cosmos_bytesToSign L \<lparr>ctx_chainId = c, ctx_fee = fee, ctx_content = Inl (send\<lparr>send_memo := Some []\<rparr>)\<rparr> nonce = ok job' \<and>
      job_bytes job' \<noteq> job_bytes job)"
proof -
  let ?tx = "\<lambda>memo. \<lparr>ctx_chainId = c, ctx_fee = fee, ctx_content = Inl (send\<lparr>send_memo := memo\<rparr>)\<rparr>"
  have built: "buildUnsignedTx (?tx None) = buildUnsignedTx (?tx (Some []))" by (simp add: buildUnsignedTx_def)
  obtain b r t where old: "buildUnsignedTx (?tx None) = ok b" "Caip5_decode c = ok r"
      "JSON_stringify (sortJson (cos_localeCompare L) (sign_document r b None nonce)) = Some t" "job_bytes job = toUtf8 t"
    using assms by (auto simp: cosmos_bytesToSign_def andThen_eq_Inr split: option.splits)
  obtain t' where new: "JSON_stringify (sortJson (cos_localeCompare L) (sign_document r b (Some []) nonce)) = Some t'"
    by (simp add: sign_document_def)
  have "t \<noteq> t'" using sign_document_determines(2) [OF old(3)] new by blast
  then have "toUtf8 t \<noteq> toUtf8 t'" using toUtf8_inj by blast
  moreover from built old(1) have "buildUnsignedTx (?tx (Some [])) = ok b" by simp
  ultimately show ?thesis using old new
    by (simp add: cosmos_bytesToPost_def buildSignedTx_def cosmos_bytesToSign_def)
qed

lemma cosmos_missing_memo_signs_other_text_witness:
  "\<exists>job job'. cosmos_bytesToSign demo_cosmos (demo_cosmos_tx None) (int_num 3) = ok job \<and>
    cosmos_bytesToSign demo_cosmos (demo_cosmos_tx (Some [])) (int_num 3) = ok job' \<and> job_bytes job' \<noteq> job_bytes job"
proof -
  have hub: "Caip5_decode ''cosmos:hub'' = ok ''hub''"
    by (simp add: Caip5_decode_def startsWith_def matches_reference_def is_caip_char_def hashedPrefix_def)
  have send: "demo_atom_send m = demo_atom_send None\<lparr>send_memo := m\<rparr>" for m by (simp add: demo_atom_send_def)
  obtain job where job: "cosmos_bytesToSign demo_cosmos (demo_cosmos_tx None) (int_num 3) = ok job"
    by (simp add: cosmos_bytesToSign_def buildUnsignedTx_def cosmos_encodeAmount_def cosmos_encodeFee_def demo_cosmos_tx_def
        demo_atom_send_def demo_atom_fee_def demo_atom_def hub sign_document_def)
  from cosmos_missing_memo_signs_other_text [of demo_cosmos "''cosmos:hub''" "Some demo_atom_fee" "demo_atom_send None" "int_num 3" job "[]"] job
  show ?thesis by (simp add: demo_cosmos_tx_def demo_atom_send_def)
qed

lemma hex_caip_chars: "list_all is_caip_char (toHex data)"
proof -
  have digit: "is_caip_char (digit_char n)" if "n < 16" for n using that by (auto simp: is_caip_char_def digit_char_def)
  have "list_all is_caip_char (toHexByte b)" for b
    unfolding toHexByte_digits by (simp add: digit [OF byte_nibbles(1) [of b]] digit [OF byte_nibbles(2) [of b]])
  then show ?thesis by (induction data) simp_all
qed

text \<open>
  The CAIP-5 chain id of a native chain id is decoded to the native id when that
  has at most 47 letters, digits and dashes and does not start as a hash; otherwise it
  is a valid chain id that is refused as a hash.
\<close>

lemma caip5_reads_native_ids:
  assumes "Caip5_encode L native = ok c"
  shows "Caip5_decode c = (if matches_reference native \<and> \<not> startsWith native hashedPrefix then ok native
    else throw ''Hashed chain IDs cannot be decoded'')"
proof (cases "matches_reference native \<and> \<not> startsWith native hashedPrefix")
  case True
  then have "c = ''cosmos:'' @ native" using assms by (auto simp: Caip5_encode_def split: if_splits)
  then show ?thesis using True by (simp add: Caip5_decode_def startsWith_def)
next
  case False
  let ?r = "hashedPrefix @ slice 0 16 (toHex (digest_with (Sha256 (cl_sha L)) (toUtf8 native)))"
  have c: "c = ''cosmos:'' @ ?r" using assms False by (auto simp: Caip5_encode_def Let_def split: if_splits)
  have "list_all is_caip_char (slice 0 16 (toHex (digest_with (Sha256 (cl_sha L)) (toUtf8 native))))"
    using hex_caip_chars [of "digest_with (Sha256 (cl_sha L)) (toUtf8 native)"]
    by (auto simp: slice_def list_all_iff dest: in_set_takeD)
  moreover have "list_all is_caip_char hashedPrefix" "length hashedPrefix = 7" by (simp_all add: hashedPrefix_def is_caip_char_def)
  ultimately have "matches_reference ?r" by (simp add: matches_reference_def slice_def)
  then show ?thesis using False by (auto simp: c Caip5_decode_def startsWith_def Let_def)
qed

end
