(* ===== verification/Bns_Governor.thy ===== *)
theory Bns_Governor
  imports Bns_Connection
begin

text \<open>
  \<open>packages/iov-bns-governance/src\<close>: \<open>utils.ts\<close>, \<open>proposals.ts\<close> and \<open>governor.ts\<close>. The
  governor reads electorates, rules and balances over the connection to BNS and builds
  proposals and votes with their fees. \<open>BN.muln\<close> and \<open>BN.divn\<close> are parameters. The lemmas
  show which electorates are read and that a distribution of funds adds up.
\<close>

section \<open>Groups and maxima\<close>

text \<open>The keys are numbers, compared with \<open>===\<close>.\<close>

fun add_to_group :: "number \<Rightarrow> 'a \<Rightarrow> (number \<times> 'a list) list \<Rightarrow> (number \<times> 'a list) list" where
  "add_to_group k v [] = [(k, [v])]"
| "add_to_group k v ((key, vs) # groups) =
     (if key = k \<and> k \<noteq> NaN then (key, vs @ [v]) # groups else (key, vs) # add_to_group k v groups)"

definition groupByCallback :: "'a list \<Rightarrow> ('a \<Rightarrow> number) \<Rightarrow> (number \<times> 'a list) list" where
  "groupByCallback vals callback = foldl (\<lambda>grouped v. add_to_group (callback v) v grouped) [] vals"

definition is_positive :: "number \<Rightarrow> bool" where
  "is_positive x = (case x of Num q \<Rightarrow> 0 < q | PosInfinity \<Rightarrow> True | _ \<Rightarrow> False)"

definition maxWithComparatorCallback :: "'a list \<Rightarrow> ('a \<Rightarrow> 'a \<Rightarrow> number) \<Rightarrow> 'a result" where
  "maxWithComparatorCallback vals callback = (case vals of
     [] \<Rightarrow> throw ''No values to compare''
   | first # others \<Rightarrow> ok (foldl (\<lambda>previous next. if is_positive (callback previous next) then previous else next) first others))"

section \<open>Options of proposals\<close>

datatype ProposalType =
    AddCommitteeMember (acm_committee: number) (acm_address: Address) (acm_weight: number)
  | RemoveCommitteeMember (rcm_committee: number) (rcm_address: Address)
  | AmendElectionRuleThreshold (art_targetElectionRuleId: number) (art_threshold: Fraction)
  | AmendElectionRuleQuorum (arq_targetElectionRuleId: number) (arq_quorum: "Fraction option")
  | AddValidator (av_pubkey: PubkeyBundle) (av_power: number)
  | RemoveValidator (rv_pubkey: PubkeyBundle)
  | ReleaseGuaranteeFunds (rgf_amount: Amount)
  | DistributeFunds (df_recipients: "(Address \<times> number) list")
  | AmendProtocol (ap_text: string)
  | ExecuteMigrationOptions (em_id: string)

text \<open>The start time is the time value of the date, in milliseconds.\<close>

record ProposalOptions =
  po_title :: string
  po_description :: string
  po_startTime :: number
  po_electionRuleId :: number
  po_type :: ProposalType

section \<open>The governor\<close>

record Governor =
  gov_connection :: bns_client
  gov_identity :: Identity
  gov_address :: Address
  gov_guaranteeFundEscrowId :: "number option"
  gov_rewardFundAddress :: "Address option"

record governor_lib =
  bn_muln :: "int \<Rightarrow> number \<Rightarrow> int result"
  bn_divn :: "int \<Rightarrow> number \<Rightarrow> int result"

definition new_Governor :: "bns_client \<Rightarrow> Identity \<Rightarrow> number option \<Rightarrow> Address option \<Rightarrow> Governor result" where
  "new_Governor C ident guaranteeFundEscrowId rewardFundAddress =
     andThen (identityToAddress (bx_libs C) ident) (\<lambda>address.
     ok \<lparr>gov_connection = C, gov_identity = ident, gov_address = address,
       gov_guaranteeFundEscrowId = guaranteeFundEscrowId, gov_rewardFundAddress = rewardFundAddress\<rparr>)"

text \<open>The filter, the groups and the maxima of the electorates that the connection gives.\<close>

definition select_electorates :: "bool \<Rightarrow> Address \<Rightarrow> Electorate list \<Rightarrow> Electorate list result" where
  "select_electorates skipFiltering address allElectorates =
     (let filtered = filter (\<lambda>e. skipFiltering \<or> address \<in> fst ` set (elt_electors e)) allElectorates;
          groupedById = groupByCallback filtered elt_id
      in mapM (\<lambda>(key, vals). maxWithComparatorCallback vals (\<lambda>e1 e2. js_sub (elt_version e1) (elt_version e2))) groupedById)"

definition governor_getElectorates :: "Governor \<Rightarrow> bool \<Rightarrow> Electorate list result" where
  "governor_getElectorates G skipFiltering =
     andThen (getElectorates (gov_connection G)) (select_electorates skipFiltering (gov_address G))"

definition compare_rules :: "ElectionRule \<Rightarrow> ElectionRule \<Rightarrow> number" where
  "compare_rules r1 r2 = js_sub (rule_version r1) (rule_version r2)"

text \<open>Ids are integers, so that equality of numbers is \<open>===\<close>.\<close>

definition governor_getElectionRules :: "Governor \<Rightarrow> number \<Rightarrow> ElectionRule list result" where
  "governor_getElectionRules G electorateId =
     andThen (getElectionRules (gov_connection G)) (\<lambda>electionRules.
     let filteredRules = filter (\<lambda>rule. rule_electorateId rule = electorateId) electionRules;
         groupedRules = groupByCallback filteredRules rule_id
     in mapM (\<lambda>(key, vals). maxWithComparatorCallback vals compare_rules) groupedRules)"

definition getElectionRuleById :: "Governor \<Rightarrow> number \<Rightarrow> ElectionRule result" where
  "getElectionRuleById G electionRuleId =
     andThen (getElectionRules (gov_connection G)) (\<lambda>allRules.
     let electionRules = filter (\<lambda>rule. rule_id rule = electionRuleId) allRules
     in if electionRules = [] then throw ''Election rule not found''
        else maxWithComparatorCallback electionRules compare_rules)"

text \<open>The id of an electorate goes through a big number.\<close>

definition governor_getProposals :: "Governor \<Rightarrow> Proposal list result" where
  "governor_getProposals G =
     andThen (governor_getElectorates G False) (\<lambda>electorates.
     andThen (getProposals (gov_connection G)) (\<lambda>proposals.
     andThen (mapM (\<lambda>proposal.
         andThen (bn_assert (bn_fromNumber (bx_libs (gov_connection G)) (vid_id (pro_electorate proposal)))) (\<lambda>n.
         andThen (bn_assert (bn_toNumber (bx_libs (gov_connection G)) n)) (\<lambda>electorateId.
         ok (proposal, list_ex (\<lambda>e. elt_id e = electorateId) electorates)))) proposals) (\<lambda>decided.
     ok (map fst (filter snd decided)))))"

definition governor_getVotes :: "Governor \<Rightarrow> Vote list result" where
  "governor_getVotes G = getVotes (gov_connection G) (gov_address G)"

section \<open>Transactions\<close>

text \<open>The share of every recipient in every token of the fund.\<close>

definition share :: "bns_libs \<Rightarrow> governor_lib \<Rightarrow> Address \<Rightarrow> number \<Rightarrow> Amount \<Rightarrow> Address \<times> number \<Rightarrow> SendAction result" where
  "share L S fund totalWeight amount recipient = (case recipient of (address, weight) \<Rightarrow>
     andThen (bn_muln S (bn_fromString L (am_quantity amount)) weight) (\<lambda>product.
     andThen (bn_divn S product totalWeight) (\<lambda>quotient.
     ok \<lparr>sa_sender = fund, sa_recipient = address, sa_amount = amount\<lparr>am_quantity := bn_toString L quotient\<rparr>, sa_memo = None\<rparr>)))"

definition distribution :: "bns_libs \<Rightarrow> governor_lib \<Rightarrow> Address \<Rightarrow> Amount list \<Rightarrow> (Address \<times> number) list \<Rightarrow> SendAction list result" where
  "distribution L S fund balance recipients =
     (let totalWeight = foldl (\<lambda>total r. js_add total (snd r)) (int_num 0) recipients
      in andThen (mapM (\<lambda>amount. mapM (share L S fund totalWeight amount) recipients) balance) (\<lambda>messages. ok (concat messages)))"

definition validator_key :: "PubkeyBundle \<Rightarrow> string" where
  "validator_key pubkey = ''ed25519_'' @ toHex (pk_data pubkey)"

text \<open>The action of a proposal, with the queries and checks that it needs.\<close>

definition proposal_action :: "governor_lib \<Rightarrow> Governor \<Rightarrow> ProposalType \<Rightarrow> ProposalAction result" where
  "proposal_action S G options = (case options of
     AddCommitteeMember committee address weight \<Rightarrow> ok (UpdateElectorate committee [(address, weight)])
   | RemoveCommitteeMember committee address \<Rightarrow> ok (UpdateElectorate committee [(address, int_num 0)])
   | AmendElectionRuleThreshold ruleId threshold \<Rightarrow>
       andThen (getElectionRuleById G ruleId) (\<lambda>rule.
       ok (UpdateElectionRule \<lparr>uer_electionRuleId = ruleId, uer_threshold = Some threshold, uer_quorum = rule_quorum rule,
         uer_votingPeriod = rule_votingPeriod rule\<rparr>))
   | AmendElectionRuleQuorum ruleId quorum \<Rightarrow>
       andThen (getElectionRuleById G ruleId) (\<lambda>rule.
       ok (UpdateElectionRule \<lparr>uer_electionRuleId = ruleId, uer_threshold = Some (rule_threshold rule), uer_quorum = quorum,
         uer_votingPeriod = rule_votingPeriod rule\<rparr>))
   | AddValidator pubkey votingPower \<Rightarrow> ok (SetValidators [(validator_key pubkey, votingPower)])
   | RemoveValidator pubkey \<Rightarrow> ok (SetValidators [(validator_key pubkey, int_num 0)])
   | ReleaseGuaranteeFunds amount \<Rightarrow> (case gov_guaranteeFundEscrowId G of
       None \<Rightarrow> throw ''This Governor instance was not initialised with a guaranteeFundEscrowId''
     | Some escrowId \<Rightarrow>
         if escrowId = int_num 0 \<or> escrowId = NaN
         then throw ''This Governor instance was not initialised with a guaranteeFundEscrowId''
         else ok (ReleaseEscrow escrowId amount))
   | DistributeFunds recipients \<Rightarrow> (case gov_rewardFundAddress G of
       None \<Rightarrow> throw ''This Governor instance was not initialised with a rewardFundAddress''
     | Some rewardFundAddress \<Rightarrow>
         if rewardFundAddress = [] then throw ''This Governor instance was not initialised with a rewardFundAddress''
         else if recipients = [] then throw ''Cannot distribute funds to 0 recipients''
         else andThen (getAccount (gov_connection G) (ByAddress rewardFundAddress)) (\<lambda>rewardFund.
           case rewardFund of
             None \<Rightarrow> throw ''Could not find reward fund account''
           | Some fund \<Rightarrow>
               andThen (distribution (bx_libs (gov_connection G)) S rewardFundAddress (ac_balance fund) recipients) (\<lambda>messages.
               ok (ExecuteProposalBatch (map SendAct messages)))))
   | AmendProtocol resolution \<Rightarrow> ok (CreateTextResolution resolution)
   | ExecuteMigrationOptions i \<Rightarrow> ok (ExecuteMigration i))"

definition buildCreateProposalTx :: "governor_lib \<Rightarrow> Governor \<Rightarrow> ProposalOptions \<Rightarrow> UnsignedTransaction result" where
  "buildCreateProposalTx S G options =
     andThen (proposal_action S G (po_type options)) (\<lambda>action.
     withDefaultFee (gov_connection G)
       \<lparr>tx_chainId = id_chainId (gov_identity G), tx_fee = None, tx_multisig = None, tx_content = CreateProposal
         \<lparr>cp_title = po_title options, cp_action = action, cp_description = po_description options,
          cp_electionRuleId = po_electionRuleId options, cp_startTime = Math_floor (js_over (po_startTime options) 1000),
          cp_author = gov_address G\<rparr>\<rparr>
       (Some (gov_address G)))"

definition buildVoteTx :: "Governor \<Rightarrow> number \<Rightarrow> VoteOption \<Rightarrow> UnsignedTransaction result" where
  "buildVoteTx G proposalId selection =
     withDefaultFee (gov_connection G)
       \<lparr>tx_chainId = id_chainId (gov_identity G), tx_fee = None, tx_multisig = None, tx_content = VoteT
         \<lparr>vote_proposalId = proposalId, vote_selection = selection, vote_voter = Some (gov_address G)\<rparr>\<rparr>
       (Some (gov_address G))"

section \<open>Facts about groups and maxima\<close>

text \<open>Every key once, with its values in their order.\<close>

definition grouped_as :: "('a \<Rightarrow> number) \<Rightarrow> 'a list \<Rightarrow> (number \<times> 'a list) list \<Rightarrow> bool" where
  "grouped_as f vals groups \<longleftrightarrow> distinct (map fst groups) \<and> set (map fst groups) = f ` set vals \<and>
     (\<forall>(k, vs) \<in> set groups. vs = filter (\<lambda>v. f v = k) vals)"

lemma add_to_group_keys: "fst ` set (add_to_group k v groups) = insert k (fst ` set groups)" if "k \<noteq> NaN"
  using that by (induction k v groups rule: add_to_group.induct) auto

lemma add_to_group_distinct: "k \<noteq> NaN \<Longrightarrow> distinct (map fst groups) \<Longrightarrow> distinct (map fst (add_to_group k v groups))"
  by (induction k v groups rule: add_to_group.induct) (auto simp: add_to_group_keys [unfolded image_set [symmetric]])

lemma add_to_group_members:
  assumes "k \<noteq> NaN" "distinct (map fst groups)" "(k', vs) \<in> set (add_to_group k v groups)"
  shows "if k' = k then vs = (case map_of groups k of None \<Rightarrow> [v] | Some us \<Rightarrow> us @ [v]) else (k', vs) \<in> set groups"
  using assms
proof (induction k v groups rule: add_to_group.induct)
  case (2 k v key us groups)
  then show ?case by (cases "key = k") (force split: option.splits if_splits)+
qed (auto split: if_splits)

lemma groupByCallback_groups:
  assumes "\<And>v. v \<in> set vals \<Longrightarrow> f v \<noteq> NaN"
  shows "grouped_as f vals (groupByCallback vals f)"
  using assms
proof (induction vals rule: rev_induct)
  case Nil
  then show ?case by (simp add: grouped_as_def groupByCallback_def)
next
  case (snoc v vals)
  define groups where "groups = groupByCallback vals f"
  have step: "groupByCallback (vals @ [v]) f = add_to_group (f v) v groups" by (simp add: groups_def groupByCallback_def)
  have old: "distinct (map fst groups)" "fst ` set groups = f ` set vals" "\<And>k vs. (k, vs) \<in> set groups \<Longrightarrow> vs = filter (\<lambda>v. f v = k) vals"
    using snoc by (auto simp: grouped_as_def groups_def)
  have nan: "f v \<noteq> NaN" using snoc.prems by simp
  have "vs = filter (\<lambda>w. f w = k) (vals @ [v])" if "(k, vs) \<in> set (add_to_group (f v) v groups)" for k vs
  proof (cases "k = f v")
    case True
    show ?thesis
    proof (cases "map_of groups k")
      case None
      then have "k \<notin> f ` set vals" using old(2) by (simp add: map_of_eq_None_iff)
      then have "filter (\<lambda>w. f w = k) vals = []" by (auto simp: filter_empty_conv)
      then show ?thesis using add_to_group_members [OF nan old(1) that] True None by simp
    next
      case (Some us)
      then show ?thesis using add_to_group_members [OF nan old(1) that] True old(3) [OF map_of_SomeD [OF Some]] by simp
    qed
  next
    case False
    then show ?thesis using add_to_group_members [OF nan old(1) that] old(3) by simp
  qed
  then show ?case unfolding grouped_as_def step
    using add_to_group_distinct [OF nan old(1)] add_to_group_keys [OF nan, of v groups] old(2) by auto
qed

lemma is_positive_int: "\<bar>i - j\<bar> < 2 ^ 53 \<Longrightarrow> is_positive (js_sub (int_num i) (int_num j)) \<longleftrightarrow> j < i"
  by (simp add: js_sub_int) (simp add: is_positive_def int_num_def)

text \<open>The maximum of integers by their difference.\<close>

lemma max_of_versions:
  assumes "\<And>x. x \<in> set vals \<Longrightarrow> ver x = int_num (int (n x)) \<and> n x < 2 ^ 53" "vals \<noteq> []"
  shows "\<exists>m. maxWithComparatorCallback vals (\<lambda>x y. js_sub (ver x) (ver y)) = ok m \<and> m \<in> set vals \<and> (\<forall>x \<in> set vals. n x \<le> n m)"
proof -
  have compare: "is_positive (js_sub (ver x) (ver y)) \<longleftrightarrow> n y < n x" if "x \<in> set vals" "y \<in> set vals" for x y
    using assms(1) [OF that(1)] assms(1) [OF that(2)] is_positive_int [of "int (n x)" "int (n y)"] by auto
  obtain first others where vals: "vals = first # others" using assms(2) by (cases vals) auto
  have "set others \<subseteq> set vals \<Longrightarrow> first \<in> set vals \<Longrightarrow>
      foldl (\<lambda>previous next. if is_positive (js_sub (ver previous) (ver next)) then previous else next) first others \<in> insert first (set others) \<and>
      (\<forall>x \<in> insert first (set others). n x \<le> n (foldl (\<lambda>previous next. if is_positive (js_sub (ver previous) (ver next)) then previous else next) first others))"
    for first others
  proof (induction others arbitrary: first)
    case (Cons y ys)
    then show ?case using compare [of first y] by (cases "n y < n first") fastforce+
  qed simp
  from this [of others first] show ?thesis unfolding vals maxWithComparatorCallback_def
    by (simp only: list.case list.set) blast
qed

text \<open>For every id of the electorates that pass the filter, one of the highest version among them.\<close>

lemma select_electorates_max:
  assumes "\<And>e. e \<in> set es \<Longrightarrow> elt_version e = int_num (int (ver e)) \<and> ver e < 2 ^ 53 \<and> elt_id e \<noteq> NaN"
    and "passing = filter (\<lambda>e. everyone \<or> address \<in> fst ` set (elt_electors e)) es"
  shows "\<exists>rs. select_electorates everyone address es = ok rs \<and> distinct (map elt_id rs) \<and> elt_id ` set rs = elt_id ` set passing \<and>
    (\<forall>r \<in> set rs. r \<in> set passing \<and> (\<forall>e \<in> set passing. elt_id e = elt_id r \<longrightarrow> ver e \<le> ver r))"
proof -
  define groups where "groups = groupByCallback passing elt_id"
  define cmp :: "Electorate \<Rightarrow> Electorate \<Rightarrow> number" where "cmp = (\<lambda>e1 e2. js_sub (elt_version e1) (elt_version e2))"
  have g: "distinct (map fst groups)" "fst ` set groups = elt_id ` set passing"
      "\<And>k vs. (k, vs) \<in> set groups \<Longrightarrow> vs = filter (\<lambda>e. elt_id e = k) passing"
    using groupByCallback_groups [of passing elt_id] assms by (auto simp: grouped_as_def groups_def)
  have best: "\<exists>m. maxWithComparatorCallback vs cmp = ok m \<and> m \<in> set passing \<and> elt_id m = k \<and> (\<forall>e \<in> set passing. elt_id e = k \<longrightarrow> ver e \<le> ver m)"
    if "(k, vs) \<in> set groups" for k vs
  proof -
    have vs: "vs = filter (\<lambda>e. elt_id e = k) passing" using g(3) that .
    have "k \<in> elt_id ` set passing" using that g(2) by force
    then have "vs \<noteq> []" by (auto simp: vs filter_empty_conv)
    moreover have "elt_version x = int_num (int (ver x)) \<and> ver x < 2 ^ 53" if "x \<in> set vs" for x
      using assms that vs by auto
    ultimately obtain m where "maxWithComparatorCallback vs cmp = ok m" "m \<in> set vs" "\<forall>x \<in> set vs. ver x \<le> ver m"
      using max_of_versions [of vs elt_version ver] unfolding cmp_def by blast
    then show ?thesis by (auto simp: vs)
  qed
  define pick where "pick = (\<lambda>(k :: number, vs). projr (maxWithComparatorCallback vs cmp))"
  have pick: "(\<lambda>(key, vals). maxWithComparatorCallback vals cmp) kv = ok (pick kv) \<and> pick kv \<in> set passing \<and> elt_id (pick kv) = fst kv \<and>
      (\<forall>e \<in> set passing. elt_id e = fst kv \<longrightarrow> ver e \<le> ver (pick kv))" if "kv \<in> set groups" for kv
    using best [of "fst kv" "snd kv"] that by (auto simp: pick_def split: prod.splits)
  have "select_electorates everyone address es = ok (map pick groups)"
    unfolding select_electorates_def assms(2) [symmetric] Let_def groups_def [symmetric] cmp_def [symmetric]
    by (rule mapM_ok) (use pick in blast)
  moreover have ids: "map elt_id (map pick groups) = map fst groups" using pick by simp
  then have "elt_id ` set (map pick groups) = fst ` set groups" by (metis set_map)
  moreover have "distinct (map elt_id (map pick groups))" using ids g(1) by metis
  ultimately show ?thesis using pick g(2)
    by (intro exI [of _ "map pick groups"]) (simp del: map_map)
qed

text \<open>What the libraries do with small weights, and the numbers of a distribution.\<close>

definition governor_laws :: "governor_lib \<Rightarrow> bool" where
  "governor_laws S \<longleftrightarrow> (\<forall>x w. 0 \<le> x \<longrightarrow> 0 \<le> w \<longrightarrow> w < 2 ^ 26 \<longrightarrow> bn_muln S x (int_num w) = ok (x * w)) \<and>
     (\<forall>x d. 0 \<le> x \<longrightarrow> 0 < d \<longrightarrow> d < 2 ^ 26 \<longrightarrow> bn_divn S x (int_num d) = ok (x div d))"

definition demo_governor_lib :: governor_lib where
  "demo_governor_lib = \<lparr>bn_muln = (\<lambda>x w. ok (x * floor_num w)), bn_divn = (\<lambda>x d. ok (x div floor_num d))\<rparr>"

lemma demo_governor_laws: "governor_laws demo_governor_lib"
  by (simp add: governor_laws_def demo_governor_lib_def)

lemma total_weight:
  "int n + int (sum_list (map snd rs)) < 2 ^ 53 \<Longrightarrow>
    foldl (\<lambda>total r. js_add total (snd r)) (int_num (int n)) (map (\<lambda>(a, w). (a, int_num (int w))) rs) = int_num (int (n + sum_list (map snd rs)))"
proof (induction rs arbitrary: n)
  case (Cons r rs)
  have "js_add (int_num (int n)) (int_num (int (snd r))) = int_num (int (n + snd r))"
    using Cons.prems by (subst js_add_int) auto
  with Cons.IH [of "n + snd r"] Cons.prems show ?case by (cases r) (simp add: add.assoc)
qed simp

lemma shares_of_quantity:
  fixes q :: nat
  assumes "0 < sum_list ws"
  shows "sum_list (map (\<lambda>w. q * w div sum_list ws) ws) \<le> q" "q < sum_list (map (\<lambda>w. q * w div sum_list ws) ws) + length ws"
proof -
  define t where "t = sum_list ws"
  have t: "0 < t" using assms by (simp add: t_def)
  have le: "t * (\<Sum>w\<leftarrow>vs. q * w div t) \<le> q * sum_list vs" for vs
  proof (induction vs)
    case (Cons v vs)
    have "t * (q * v div t) \<le> q * v" by simp
    from add_mono [OF this Cons.IH] show ?case by (simp add: distrib_left)
  qed simp
  from le [of ws] t show "sum_list (map (\<lambda>w. q * w div sum_list ws) ws) \<le> q" by (simp add: t_def mult.commute)
  have less: "q * sum_list vs < t * ((\<Sum>w\<leftarrow>vs. q * w div t) + length vs)" if "vs \<noteq> []" for vs
    using that
  proof (induction vs)
    case (Cons v vs)
    have "q * v < t * (q * v div t) + t" using t dividend_less_times_div [of t "q * v"] by simp
    show ?case
    proof (cases "vs = []")
      case True
      then show ?thesis using \<open>q * v < _\<close> by (simp add: distrib_left)
    next
      case False
      from add_strict_mono [OF \<open>q * v < _\<close> Cons.IH [OF False]] show ?thesis by (simp add: distrib_left algebra_simps)
    qed
  qed simp
  have "ws \<noteq> []" using assms by auto
  from less [OF this] have "t * q < t * ((\<Sum>w\<leftarrow>ws. q * w div t) + length ws)" by (simp add: t_def mult.commute)
  then show "q < sum_list (map (\<lambda>w. q * w div sum_list ws) ws) + length ws" by (simp add: t_def)
qed

text \<open>The messages of a distribution, for integer weights.\<close>

definition share_message :: "Address \<Rightarrow> nat \<Rightarrow> Amount \<Rightarrow> Address \<times> nat \<Rightarrow> SendAction" where
  "share_message fund totalWeight amount r = \<lparr>sa_sender = fund, sa_recipient = fst r,
     sa_amount = amount\<lparr>am_quantity := to_base 10 (quantity_value amount * snd r div totalWeight)\<rparr>, sa_memo = None\<rparr>"

lemma distribution_messages:
  assumes "bns_laws L" "governor_laws S" "list_all has_quantity balance"
    and "0 < sum_list (map snd rs)" "sum_list (map snd rs) < 2 ^ 26"
  shows "distribution L S fund balance (map (\<lambda>(a, w). (a, int_num (int w))) rs)
    = ok (concat (map (\<lambda>amount. map (share_message fund (sum_list (map snd rs)) amount) rs) balance))"
proof -
  let ?t = "sum_list (map snd rs)"
  have total: "foldl (\<lambda>total r. js_add total (snd r)) (int_num 0) (map (\<lambda>(a, w). (a, int_num (int w))) rs) = int_num (int ?t)"
    using total_weight [of 0 rs] assms(5) by simp
  have one: "share L S fund (int_num (int ?t)) amount (a, int_num (int w)) = ok (share_message fund ?t amount (a, w))"
    if "has_quantity amount" "(a, w) \<in> set rs" for amount a w
  proof -
    have "w \<le> ?t" using that(2) by (intro member_le_sum_list) (force, simp)
    then have "w < 2 ^ 26" using assms(5) by (rule order.strict_trans1)
    then have w: "int w < 2 ^ 26" by simp
    have t: "0 < int ?t" "int ?t < 2 ^ 26" using assms(4,5) by simp_all
    have "bn_muln S (int (quantity_value amount)) (int_num (int w)) = ok (int (quantity_value amount) * int w)"
      using assms(2) w unfolding governor_laws_def by simp
    moreover have "bn_divn S (int (quantity_value amount) * int w) (int_num (int ?t)) = ok (int (quantity_value amount) * int w div int ?t)"
      using assms(2) t unfolding governor_laws_def by simp
    moreover have "int (quantity_value amount) * int w div int ?t = int (quantity_value amount * w div ?t)" by (simp add: zdiv_int)
    ultimately show ?thesis
      by (simp only: share_def share_message_def prod.case bn_fromString_quantity [OF bns_bn [OF assms(1)] that(1)] andThen_simps
          bn_toString [OF bns_bn [OF assms(1)]] fst_conv snd_conv) (simp add: int_to_string_def)
  qed
  have "mapM (share L S fund (int_num (int ?t)) amount) (map (\<lambda>(a, w). (a, int_num (int w))) rs) = ok (map (share_message fund ?t amount) rs)"
    if "amount \<in> set balance" for amount
    unfolding mapM_map by (rule mapM_ok) (use one that assms(3) in \<open>auto simp: list_all_iff\<close>)
  then have "mapM (\<lambda>amount. mapM (share L S fund (int_num (int ?t)) amount) (map (\<lambda>(a, w). (a, int_num (int w))) rs)) balance
      = ok (map (\<lambda>amount. map (share_message fund ?t amount) rs) balance)"
    by (rule mapM_ok)
  then show ?thesis by (simp add: distribution_def total Let_def)
qed

text \<open>The messages that pay one token.\<close>

lemma messages_of_token:
  assumes "distinct (map am_tokenTicker balance)" "amount \<in> set balance"
  shows "filter (\<lambda>m. am_tokenTicker (sa_amount m) = am_tokenTicker amount) (concat (map (\<lambda>amount. map (share_message fund t amount) rs) balance))
    = map (share_message fund t amount) rs"
  using assms
proof (induction balance)
  case (Cons b balance)
  have none: "filter (\<lambda>m. am_tokenTicker (sa_amount m) = k) (concat (map (\<lambda>amount. map (share_message fund t amount) rs) balance)) = []"
    if "k \<notin> am_tokenTicker ` set balance" for k
    using that by (auto simp: filter_empty_conv share_message_def)
  show ?case
  proof (cases "amount = b")
    case True
    moreover have "am_tokenTicker (sa_amount (share_message fund t b r)) = am_tokenTicker b" for r by (simp add: share_message_def)
    ultimately show ?thesis using Cons.prems none [of "am_tokenTicker b"] by (simp add: filter_map comp_def)
  next
    case False
    then have "am_tokenTicker b \<noteq> am_tokenTicker amount" using Cons.prems by force
    moreover have "am_tokenTicker (sa_amount (share_message fund t b r)) = am_tokenTicker b" for r by (simp add: share_message_def)
    ultimately show ?thesis using Cons False by (simp add: filter_map comp_def)
  qed
qed simp

text \<open>Every proposal is made by the governor, on its chain, with the governor as payer of the fee.\<close>

lemma governor_builds_own_proposals:
  assumes "buildCreateProposalTx S G options = ok tx"
  obtains action fee where "proposal_action S G (po_type options) = ok action" "tx_chainId tx = id_chainId (gov_identity G)"
    "tx_fee tx = Some fee" "fee_payer fee = Some (gov_address G)"
    "tx_content tx = CreateProposal \<lparr>cp_title = po_title options, cp_action = action, cp_description = po_description options,
       cp_electionRuleId = po_electionRuleId options, cp_startTime = Math_floor (js_over (po_startTime options) 1000),
       cp_author = gov_address G\<rparr>"
  using assms by (auto simp: buildCreateProposalTx_def withDefaultFee_def andThen_eq_Inr)

text \<open>The messages of the batch that distributes funds are those of the balance of the fund.\<close>

lemma governor_distributes:
  assumes "proposal_action S G (DistributeFunds recipients) = ok action"
  obtains fund wallet messages where "gov_rewardFundAddress G = Some fund" "getAccount (gov_connection G) (ByAddress fund) = ok (Some wallet)"
    "distribution (bx_libs (gov_connection G)) S fund (ac_balance wallet) recipients = ok messages"
    "action = ExecuteProposalBatch (map SendAct messages)"
  using assms by (auto simp: proposal_action_def andThen_eq_Inr split: option.splits if_splits)

section \<open>Properties\<close>

text \<open>
  C37. A distribution of funds pays, for every token of the fund, all recipients
  together at most the balance, and leaves less than one unit for every recipient.
\<close>

theorem distribution_within_balance:
  assumes "bns_laws L" "governor_laws S" "list_all has_quantity balance" "distinct (map am_tokenTicker balance)"
    and "0 < sum_list (map snd rs)" "sum_list (map snd rs) < 2 ^ 26"
  shows "\<exists>messages. distribution L S fund balance (map (\<lambda>(a, w). (a, int_num (int w))) rs) = ok messages \<and>
    (\<forall>amount \<in> set balance.
      let paid = filter (\<lambda>m. am_tokenTicker (sa_amount m) = am_tokenTicker amount) messages;
          total = sum_list (map (\<lambda>m. quantity_value (sa_amount m)) paid)
      in map sa_recipient paid = map fst rs \<and> (\<forall>m \<in> set paid. sa_sender m = fund) \<and>
         total \<le> quantity_value amount \<and> quantity_value amount < total + length rs)"
proof -
  let ?t = "sum_list (map snd rs)"
  have worth: "quantity_value (sa_amount (share_message fund ?t amount r)) = quantity_value amount * snd r div ?t" for amount r
    by (simp add: share_message_def quantity_value_def)
  have parties: "sa_recipient (share_message fund ?t amount r) = fst r" "sa_sender (share_message fund ?t amount r) = fund" for amount r
    by (simp_all add: share_message_def)
  let ?messages = "concat (map (\<lambda>amount. map (share_message fund ?t amount) rs) balance)"
  have "let paid = filter (\<lambda>m. am_tokenTicker (sa_amount m) = am_tokenTicker amount) ?messages;
          total = sum_list (map (\<lambda>m. quantity_value (sa_amount m)) paid)
      in map sa_recipient paid = map fst rs \<and> (\<forall>m \<in> set paid. sa_sender m = fund) \<and>
         total \<le> quantity_value amount \<and> quantity_value amount < total + length rs" if "amount \<in> set balance" for amount
  proof -
    show ?thesis using shares_of_quantity [OF assms(5), of "quantity_value amount"]
      unfolding messages_of_token [OF assms(4) that] Let_def by (simp add: parties worth comp_def)
  qed
  with distribution_messages [OF assms(1-3,5,6), of fund] show ?thesis by blast
qed

lemma distribution_within_balance_witness:
  "\<exists>messages. distribution demo_chain demo_governor_lib ''fund'' [\<lparr>am_quantity = ''10'', am_fractionalDigits = int_num 9, am_tokenTicker = ''IOV''\<rparr>]
      [(''a'', int_num 1), (''b'', int_num 2)] = ok messages \<and> sum_list (map (\<lambda>m. quantity_value (sa_amount m)) messages) \<le> 10"
proof -
  let ?a = "\<lparr>am_quantity = ''10'', am_fractionalDigits = int_num 9, am_tokenTicker = ''IOV''\<rparr>"
  have "\<exists>messages. distribution demo_chain demo_governor_lib ''fund'' [?a] (map (\<lambda>(a, w). (a, int_num (int w))) [(''a'', 1), (''b'', 2)]) = ok messages \<and>
    (\<forall>amount \<in> set [?a].
      let paid = filter (\<lambda>m. am_tokenTicker (sa_amount m) = am_tokenTicker amount) messages;
          total = sum_list (map (\<lambda>m. quantity_value (sa_amount m)) paid)
      in map sa_recipient paid = map fst [(''a'', 1 :: nat), (''b'', 2)] \<and> (\<forall>m \<in> set paid. sa_sender m = ''fund'') \<and>
         total \<le> quantity_value amount \<and> quantity_value amount < total + length [(''a'', 1 :: nat), (''b'', 2)])"
    by (rule distribution_within_balance [OF demo_laws demo_governor_laws])
      (simp_all add: has_quantity_def matches_digits_def is_digit_def)
  then obtain messages where m: "distribution demo_chain demo_governor_lib ''fund'' [?a] [(''a'', int_num 1), (''b'', int_num 2)] = ok messages"
      "sum_list (map (\<lambda>m. quantity_value (sa_amount m)) (filter (\<lambda>m. am_tokenTicker (sa_amount m) = ''IOV'') messages)) \<le> quantity_value ?a"
    by (auto simp: Let_def)
  have "\<forall>m \<in> set messages. am_tokenTicker (sa_amount m) = ''IOV''"
    using m(1) by (auto simp: distribution_def share_def andThen_eq_Inr Let_def)
  then have "filter (\<lambda>m. am_tokenTicker (sa_amount m) = ''IOV'') messages = messages" by (simp add: filter_id_conv)
  moreover have "quantity_value ?a = 10" by (simp add: quantity_value_def parse_base_def digit_val_def)
  ultimately show ?thesis using m by auto
qed

text \<open>
  Without the filter by electors, the governor gives for every id of an electorate
  exactly one electorate, and it is one of the highest version.
\<close>

lemma unfiltered_electorates_are_current:
  assumes "\<And>e. e \<in> set es \<Longrightarrow> elt_version e = int_num (int (ver e)) \<and> ver e < 2 ^ 53 \<and> elt_id e \<noteq> NaN"
  shows "\<exists>rs. select_electorates True address es = ok rs \<and> distinct (map elt_id rs) \<and> elt_id ` set rs = elt_id ` set es \<and>
    (\<forall>r \<in> set rs. r \<in> set es \<and> (\<forall>e \<in> set es. elt_id e = elt_id r \<longrightarrow> ver e \<le> ver r))"
  using select_electorates_max [OF assms refl, where everyone = True] by simp

definition demo_electorate :: "int \<Rightarrow> Electors \<Rightarrow> Electorate" where
  "demo_electorate v electors = \<lparr>elt_id = int_num 1, elt_version = int_num v, elt_admin = ''admin'', elt_title = ''board'',
     elt_electors = electors, elt_totalWeight = int_num 1\<rparr>"

lemma demo_electorate_simps [simp]:
  "elt_id (demo_electorate v es) = int_num 1" "elt_version (demo_electorate v es) = int_num v" "elt_electors (demo_electorate v es) = es"
  by (simp_all add: demo_electorate_def)

text \<open>
  C38. The filter by electors is applied to all versions before the latest one is
  chosen: a governor who is an elector of an old version, but not of the latest one,
  is given an outdated electorate.
\<close>

theorem former_elector_gets_old_electorate:
  assumes "\<And>e. e \<in> set es \<Longrightarrow> elt_version e = int_num (int (ver e)) \<and> ver e < 2 ^ 53 \<and> elt_id e \<noteq> NaN"
    and "old \<in> set es" "address \<in> fst ` set (elt_electors old)" "latest \<in> set es" "elt_id latest = elt_id old"
    and "\<And>e. e \<in> set es \<Longrightarrow> elt_id e = elt_id old \<Longrightarrow> address \<in> fst ` set (elt_electors e) \<Longrightarrow> ver e < ver latest"
  shows "\<exists>rs r. select_electorates False address es = ok rs \<and> r \<in> set rs \<and> elt_id r = elt_id latest \<and> ver r < ver latest"
proof -
  let ?passing = "filter (\<lambda>e. False \<or> address \<in> fst ` set (elt_electors e)) es"
  have "\<exists>rs. select_electorates False address es = ok rs \<and> distinct (map elt_id rs) \<and> elt_id ` set rs = elt_id ` set ?passing \<and>
      (\<forall>r \<in> set rs. r \<in> set ?passing \<and> (\<forall>e \<in> set ?passing. elt_id e = elt_id r \<longrightarrow> ver e \<le> ver r))"
    by (rule select_electorates_max [OF assms(1) refl])
  then obtain rs where rs: "select_electorates False address es = ok rs" "elt_id ` set rs = elt_id ` set ?passing"
      "\<forall>r \<in> set rs. r \<in> set ?passing \<and> (\<forall>e \<in> set ?passing. elt_id e = elt_id r \<longrightarrow> ver e \<le> ver r)" by (elim exE conjE) (rule that)
  have "elt_id old \<in> elt_id ` set rs" unfolding rs(2) using assms(2,3) by auto
  then obtain r where r: "r \<in> set rs" "elt_id r = elt_id old" by auto
  from rs(3) r(1) have "r \<in> set es" "address \<in> fst ` set (elt_electors r)" by auto
  from assms(6) [OF this(1) r(2) this(2)] r rs(1) assms(5) show ?thesis by metis
qed

lemma former_elector_gets_old_electorate_witness:
  "\<exists>rs r. select_electorates False ''a'' [demo_electorate 1 [(''a'', int_num 1)], demo_electorate 2 [(''b'', int_num 1)]] = ok rs \<and>
    r \<in> set rs \<and> elt_version r = int_num 1"
proof -
  let ?old = "demo_electorate 1 [(''a'', int_num 1)]" and ?latest = "demo_electorate 2 [(''b'', int_num 1)]"
  let ?ver = "\<lambda>e :: Electorate. nat (floor_num (elt_version e))"
  have "\<exists>rs r. select_electorates False ''a'' [?old, ?latest] = ok rs \<and> r \<in> set rs \<and> elt_id r = elt_id ?latest \<and> ?ver r < ?ver ?latest"
    by (rule former_elector_gets_old_electorate [where old = ?old]) auto
  then obtain rs r where rs: "select_electorates False ''a'' [?old, ?latest] = ok rs" "r \<in> set rs" "?ver r < ?ver ?latest" by blast
  moreover have "r = ?old \<or> r = ?latest"
  proof -
    have "select_electorates False ''a'' [?old, ?latest] = ok [?old]"
      by (simp add: select_electorates_def groupByCallback_def maxWithComparatorCallback_def)
    with rs(1,2) show ?thesis by auto
  qed
  ultimately show ?thesis by auto
qed

end
