(* ===== verification/Eth_Connection.thy ===== *)
theory Eth_Connection
  imports Eth_Reports Js_Json Bcp_Connection
begin

text \<open>
  \<open>packages/iov-ethereum/src/ethereumconnection.ts\<close> and \<open>erc20reader.ts\<close>: what a
  connection computes from the answers of a node. The node and the scraper are
  parameters: functions of the requests. The subscriptions and the streams that poll are
  not modelled here.
\<close>

section \<open>The connection\<close>

text \<open>
  \<open>cn_run\<close> is \<open>rpcClient.run\<close>, \<open>cn_requestId\<close> the id that is made for a request,
  \<open>cn_scraper\<close> the body of the answer of the scraper when its URL is set, and
  \<open>cn_localeCompare\<close> is \<open>String.prototype.localeCompare\<close>: not after.
\<close>

record EthereumConnection =
  cn_run :: "JsonRpcRequest \<Rightarrow> JsonRpcResponse result"
  cn_requestId :: JsonRpcId
  cn_chainId :: ChainId
  cn_codec :: EthereumCodec
  cn_customSmartContractConfig :: "SmartContractConfig option"
  cn_scraper :: "(Address \<Rightarrow> number \<Rightarrow> number \<Rightarrow> js_value result) option"
  cn_localeCompare :: "string \<Rightarrow> string \<Rightarrow> bool"

record EthereumConnectionOptions =
  eo_scraper :: "(Address \<Rightarrow> number \<Rightarrow> number \<Rightarrow> js_value result) option"
  eo_atomicSwapEtherContractAddress :: "Address option"
  eo_atomicSwapErc20ContractAddress :: "Address option"
  eo_customSmartContractConfig :: "SmartContractConfig option"
  eo_erc20Tokens :: "Erc20TokensMap option"

definition isHttpUrl :: "string \<Rightarrow> bool" where
  "isHttpUrl url \<longleftrightarrow> list_ex (startsWith url) [''http://'', ''https://'']"

definition isWsUrl :: "string \<Rightarrow> bool" where
  "isWsUrl url \<longleftrightarrow> list_ex (startsWith url) [''ws://'', ''wss://'']"

text \<open>The codec of the connection is made without the custom contract.\<close>

definition new_EthereumConnection :: "string \<Rightarrow> ChainId \<Rightarrow> EthereumConnectionOptions \<Rightarrow> (JsonRpcRequest \<Rightarrow> JsonRpcResponse result)
    \<Rightarrow> JsonRpcId \<Rightarrow> (string \<Rightarrow> string \<Rightarrow> bool) \<Rightarrow> EthereumConnection result" where
  "new_EthereumConnection baseUrl chainId options run requestId le =
     (if \<not> isHttpUrl baseUrl \<and> \<not> isWsUrl baseUrl
      then throw ''Unsupported protocol for baseUrl: must be one of http, https, ws or wss''
      else ok \<lparr>cn_run = run, cn_requestId = requestId, cn_chainId = chainId,
        cn_codec = \<lparr>ec_atomicSwapEtherContractAddress = eo_atomicSwapEtherContractAddress options,
          ec_atomicSwapErc20ContractAddress = eo_atomicSwapErc20ContractAddress options, ec_customSmartContractConfig = None,
          ec_erc20Tokens = (case eo_erc20Tokens options of None \<Rightarrow> [] | Some tokens \<Rightarrow> tokens)\<rparr>,
        cn_customSmartContractConfig = eo_customSmartContractConfig options, cn_scraper = eo_scraper options,
        cn_localeCompare = le\<rparr>)"

definition cn_tokens :: "EthereumConnection \<Rightarrow> Erc20TokensMap" where
  "cn_tokens C = ec_erc20Tokens (cn_codec C)"

definition eth_request :: "EthereumConnection \<Rightarrow> string \<Rightarrow> js_value list \<Rightarrow> js_value result" where
  "eth_request C requestMethod params =
     andThen (cn_run C \<lparr>req_id = cn_requestId C, req_method = requestMethod, req_params = Arr params\<rparr>) (\<lambda>response.
     case response of ErrorResponse _ error \<Rightarrow> throw ''error of the node'' | SuccessResponse _ v \<Rightarrow> ok v)"

text \<open>A value that is used as a string; another value has no methods of a string.\<close>

definition need_text :: "js_value \<Rightarrow> string result" where
  "need_text v = (case v of Str s \<Rightarrow> ok s | _ \<Rightarrow> throw ''TypeError'')"

definition loadChainId :: "EthereumConnection \<Rightarrow> ChainId result" where
  "loadChainId C =
     andThen (eth_request C ''net_version'' []) (\<lambda>v.
     andThen (need_text v) (\<lambda>s.
     andThen (Uint53_fromString s) (\<lambda>numericChainId. toBcpChainId (Uint53_toNumber numericChainId))))"

definition eth_height :: "EthereumConnection \<Rightarrow> number result" where
  "eth_height C = andThen (eth_request C ''eth_blockNumber'' []) (\<lambda>v. andThen (need_text v) decodeHexQuantity)"

definition ethCall :: "EthereumConnection \<Rightarrow> Address \<Rightarrow> byte list \<Rightarrow> byte list result" where
  "ethCall C contractAddress data =
     andThen (toEthereumHex_bytes data) (\<lambda>hex.
     andThen (eth_request C ''eth_call'' [Obj [(''to'', Str contractAddress), (''data'', Str hex)], Str ''latest'']) (\<lambda>v.
     andThen (need_text v) (\<lambda>s. fromHex (normalizeHex s))))"

section \<open>Reading a token contract\<close>

definition reader_totalSupply :: "('h, 'a) eth_lib_scheme \<Rightarrow> EthereumConnection \<Rightarrow> Erc20Options \<Rightarrow> int result" where
  "reader_totalSupply L C options =
     andThen (calculateMethodId L ''totalSupply()'') (\<lambda>data.
     andThen (ethCall C (erc_contractAddress options) data) (\<lambda>r. ok (bn_fromBytes L r)))"

definition reader_balanceOf :: "('h, 'a) eth_lib_scheme \<Rightarrow> EthereumConnection \<Rightarrow> Erc20Options \<Rightarrow> Address \<Rightarrow> int result" where
  "reader_balanceOf L C options address =
     andThen (calculateMethodId L ''balanceOf(address)'') (\<lambda>methodId.
     andThen (encodeAddress L address) (\<lambda>a.
     andThen (ethCall C (erc_contractAddress options) (methodId @ a)) (\<lambda>r. ok (bn_fromBytes L r))))"

text \<open>A call whose result is one string.\<close>

definition reader_text :: "('h, 'a) eth_lib_scheme \<Rightarrow> EthereumConnection \<Rightarrow> Erc20Options \<Rightarrow> string \<Rightarrow> string result" where
  "reader_text L C options signature =
     andThen (calculateMethodId L signature) (\<lambda>data.
     andThen (ethCall C (erc_contractAddress options) data) (\<lambda>r.
     andThen (decodeHeadTail L r) (\<lambda>ht.
     case ht_tail ht of
       [] \<Rightarrow> throw ''TypeError''
     | binary # _ \<Rightarrow> andThen (decodeVariableLength L binary) (utf8_decode L))))"

definition reader_name :: "('h, 'a) eth_lib_scheme \<Rightarrow> EthereumConnection \<Rightarrow> Erc20Options \<Rightarrow> string result" where
  "reader_name L C options = (case erc_name options of
     Some n \<Rightarrow> if n \<noteq> [] then ok n else reader_text L C options ''name()''
   | None \<Rightarrow> reader_text L C options ''name()'')"

definition reader_symbol :: "('h, 'a) eth_lib_scheme \<Rightarrow> EthereumConnection \<Rightarrow> Erc20Options \<Rightarrow> string result" where
  "reader_symbol L C options = (if erc_symbol options \<noteq> [] then ok (erc_symbol options) else reader_text L C options ''symbol()'')"

definition reader_decimals :: "('h, 'a) eth_lib_scheme \<Rightarrow> EthereumConnection \<Rightarrow> Erc20Options \<Rightarrow> number result" where
  "reader_decimals L C options =
     (if truthy_num (erc_decimals options) then ok (erc_decimals options)
      else andThen (calculateMethodId L ''decimals()'') (\<lambda>data.
        andThen (ethCall C (erc_contractAddress options) data) (bn_number L)))"

section \<open>Tokens, accounts and blocks\<close>

record EthToken =
  ek_tokenTicker :: string
  ek_tokenName :: string
  ek_fractionalDigits :: number

text \<open>The symbol of a contract, which has to be the ticker that it is configured for.\<close>

definition check_ticker :: "('h, 'a) eth_lib_scheme \<Rightarrow> EthereumConnection \<Rightarrow> string \<Rightarrow> Erc20Options \<Rightarrow> string result" where
  "check_ticker L C ticker options =
     andThen (reader_symbol L C options) (\<lambda>symbol.
     if ticker \<noteq> symbol then throw ''Configured ticker does not match contract symbol'' else ok symbol)"

definition eth_getAllTokens :: "('h, 'a) eth_lib_scheme \<Rightarrow> EthereumConnection \<Rightarrow> EthToken list result" where
  "eth_getAllTokens L C =
     andThen (mapM (\<lambda>(ticker, options).
         andThen (check_ticker L C ticker options) (\<lambda>symbol.
         andThen (reader_name L C options) (\<lambda>tokenName.
         andThen (reader_decimals L C options) (\<lambda>decimals.
         ok \<lparr>ek_tokenTicker = symbol, ek_tokenName = tokenName, ek_fractionalDigits = decimals\<rparr>)))) (cn_tokens C)) (\<lambda>erc20s.
     ok (stable_sort (\<lambda>a b. cn_localeCompare C (ek_tokenTicker a) (ek_tokenTicker b))
       (\<lparr>ek_tokenTicker = primaryTokenTicker, ek_tokenName = ''Ether'', ek_fractionalDigits = primaryTokenFractionalDigits\<rparr> # erc20s)))"

definition eth_getToken :: "('h, 'a) eth_lib_scheme \<Rightarrow> EthereumConnection \<Rightarrow> string \<Rightarrow> EthToken option result" where
  "eth_getToken L C searchTicker =
     andThen (eth_getAllTokens L C) (\<lambda>tokens. ok (find (\<lambda>t. ek_tokenTicker t = searchTicker) tokens))"

definition eth_query_address :: "('h, 'a) eth_lib_scheme \<Rightarrow> AccountQuery \<Rightarrow> Address result" where
  "eth_query_address L query = (case query of ByPubkey pubkey \<Rightarrow> eth_pubkeyToAddress L pubkey | ByAddress address \<Rightarrow> ok address)"

definition eth_getAccount :: "('h, 'a) eth_lib_scheme \<Rightarrow> EthereumConnection \<Rightarrow> AccountQuery \<Rightarrow> BcpAccount option result" where
  "eth_getAccount L C query =
     andThen (eth_query_address L query) (\<lambda>address.
     andThen (eth_request C ''eth_getBalance'' [Str address, Str ''latest'']) (\<lambda>v.
     andThen (need_text v) (\<lambda>s.
     andThen (decodeHexQuantityString L s) (\<lambda>q.
     andThen (ethereumAmount q) (\<lambda>ethBalance.
     andThen (mapM (\<lambda>(ticker, options).
         andThen (check_ticker L C ticker options) (\<lambda>symbol.
         andThen (reader_balanceOf L C options address) (\<lambda>balance.
         andThen (reader_decimals L C options) (\<lambda>decimals.
         ok \<lparr>am_quantity = bn_toString L balance, am_fractionalDigits = decimals, am_tokenTicker = ticker\<rparr>)))) (cn_tokens C)) (\<lambda>erc20Balances.
     let nonEmptyErc20Balances = filter (\<lambda>balance. am_quantity balance \<noteq> ''0'') erc20Balances in
     if am_quantity ethBalance = ''0'' \<and> nonEmptyErc20Balances = [] then ok None
     else ok (Some \<lparr>ac_address = address,
       ac_balance = stable_sort (\<lambda>a b. cn_localeCompare C (am_tokenTicker a) (am_tokenTicker b)) (ethBalance # nonEmptyErc20Balances),
       ac_pubkey = None\<rparr>)))))))"

definition eth_getNonce :: "('h, 'a) eth_lib_scheme \<Rightarrow> EthereumConnection \<Rightarrow> AccountQuery \<Rightarrow> Nonce result" where
  "eth_getNonce L C query =
     andThen (eth_query_address L query) (\<lambda>address.
     andThen (eth_request C ''eth_getTransactionCount'' [Str address, Str ''latest'']) (\<lambda>v.
     andThen (need_text v) decodeHexQuantityNonce))"

definition eth_getNonces :: "('h, 'a) eth_lib_scheme \<Rightarrow> EthereumConnection \<Rightarrow> AccountQuery \<Rightarrow> number \<Rightarrow> Nonce list result" where
  "eth_getNonces L C query count =
     andThen (new_Uint53 count) (\<lambda>u.
     let checkedCount = Uint53_toNumber u in
     if checkedCount = int_num 0 then ok []
     else andThen (eth_getNonce L C query) (\<lambda>firstNonce.
       ok (firstNonce # map (\<lambda>index. js_add firstNonce (int_num (int index))) [1 ..< nat (floor_num checkedCount)])))"

definition eth_getBlockHeader :: "('h, 'a) eth_lib_scheme \<Rightarrow> EthereumConnection \<Rightarrow> number \<Rightarrow> TimedBlockHeader result" where
  "eth_getBlockHeader L C height =
     andThen (encodeQuantity L height) (\<lambda>q.
     andThen (eth_request C ''eth_getBlockByNumber'' [Str q, Boolean True]) (\<lambda>blockData.
     if blockData = Null then throw ''Header does not exist yet''
     else andThen (need_text (js_get blockData ''hash'')) (\<lambda>hash.
       andThen (andThen (need_text (js_get blockData ''number'')) decodeHexQuantity) (\<lambda>blockHeight.
       andThen (andThen (need_text (js_get blockData ''timestamp'')) decodeHexQuantity) (\<lambda>timestamp.
       case js_get blockData ''transactions'' of
         Arr txs \<Rightarrow> ok \<lparr>bh_id = hash, bh_height = blockHeight, bh_transactionCount = int_num (int (length txs)),
           bh_time = date_time (js_times timestamp 1000)\<rparr>
       | _ \<Rightarrow> throw ''TypeError'')))))"

section \<open>Fees\<close>

definition eth_getFeeQuote :: "EthTransaction \<Rightarrow> Fee result" where
  "eth_getFeeQuote transaction =
     (if eth_kind (eth_content transaction) \<in> {''smartcontract/escrow_open'', ''smartcontract/escrow_abort'', ''smartcontract/escrow_claim'',
        ''bcp/send'', ''bcp/swap_offer'', ''bcp/swap_claim'', ''bcp/swap_abort'', ''erc20/approve''}
      then ok \<lparr>fee_tokens = None, fee_gasPrice = Some \<lparr>am_quantity = ''20000000000'', am_fractionalDigits = primaryTokenFractionalDigits,
          am_tokenTicker = primaryTokenTicker\<rparr>, fee_gasLimit = Some ''2100000'', fee_payer = None\<rparr>
      else throw ''Received transaction of unsupported kind.'')"

definition eth_withDefaultFee :: "EthTransaction \<Rightarrow> EthTransaction result" where
  "eth_withDefaultFee transaction = andThen (eth_getFeeQuote transaction) (\<lambda>fee. ok (transaction\<lparr>eth_fee := Some fee\<rparr>))"

section \<open>Searching transactions\<close>

text \<open>\<open>JSON.parse\<close> of the bytes, and the members that \<open>parseBytes\<close> uses.\<close>

definition read_report :: "js_value \<Rightarrow> EthereumRpcTransactionResult result" where
  "read_report json =
     andThen (need_text (js_get json ''gas'')) (\<lambda>gas. andThen (need_text (js_get json ''gasPrice'')) (\<lambda>gasPrice.
     andThen (need_text (js_get json ''input'')) (\<lambda>input. andThen (need_text (js_get json ''nonce'')) (\<lambda>nonce.
     andThen (need_text (js_get json ''r'')) (\<lambda>r. andThen (need_text (js_get json ''s'')) (\<lambda>s.
     andThen (need_text (js_get json ''to'')) (\<lambda>to. andThen (need_text (js_get json ''v'')) (\<lambda>v.
     andThen (need_text (js_get json ''value'')) (\<lambda>amount.
     ok \<lparr>rpc_gas = gas, rpc_gasPrice = gasPrice, rpc_input = input, rpc_nonce = nonce, rpc_r = r, rpc_s = s, rpc_to = to,
       rpc_v = v, rpc_value = amount\<rparr>)))))))))"

definition parse_report :: "('h, 'a) eth_lib_scheme \<Rightarrow> byte list \<Rightarrow> EthereumRpcTransactionResult result" where
  "parse_report L bytes = andThen (utf8_decode L bytes) (\<lambda>jsonText. andThen (JSON_parse jsonText) read_report)"

text \<open>A found transaction; those of the scraper have no signatures.\<close>

record EthConfirmed =
  ecf_transaction :: EthTransaction
  ecf_signatures :: "FullSignature list option"
  ecf_height :: number
  ecf_confirmations :: number
  ecf_transactionId :: string

definition searchTransactionsById :: "('h, 'a) eth_lib_scheme \<Rightarrow> EthereumConnection \<Rightarrow> string \<Rightarrow> EthConfirmed list result" where
  "searchTransactionsById L C i =
     andThen (eth_request C ''eth_getTransactionByHash'' [Str i]) (\<lambda>r.
     if r = Null then ok []
     else if js_get r ''blockNumber'' = Null then ok []
     else andThen (andThen (need_text (js_get r ''blockNumber'')) decodeHexQuantity) (\<lambda>transactionHeight.
       andThen (eth_height C) (\<lambda>currentHeight.
       case JSON_stringify r of
         None \<Rightarrow> throw ''TypeError''
       | Some jsonText \<Rightarrow>
           andThen (codec_parseBytes (ethereumCodec L (parse_report L) (cn_codec C)) (toUtf8 jsonText) (cn_chainId C)) (\<lambda>stx.
           andThen (andThen (need_text (js_get r ''hash'')) parse_transactionId) (\<lambda>transactionId.
           ok [\<lparr>ecf_transaction = stx_transaction stx, ecf_signatures = Some (stx_signatures stx), ecf_height = transactionHeight,
             ecf_confirmations = js_add (js_sub currentHeight transactionHeight) (int_num 1), ecf_transactionId = transactionId\<rparr>])))))"

definition eth_getTx :: "('h, 'a) eth_lib_scheme \<Rightarrow> EthereumConnection \<Rightarrow> string \<Rightarrow> EthConfirmed result" where
  "eth_getTx L C i =
     andThen (searchTransactionsById L C i) (\<lambda>searchResults. case searchResults of
       [] \<Rightarrow> throw ''Transaction does not exist''
     | [r] \<Rightarrow> ok r
     | _ \<Rightarrow> throw ''More than one transaction exists with this ID'')"

text \<open>A row of the scraper that is taken, and what it says; numbers are in decimal digits.\<close>

definition scraper_success :: "js_value \<Rightarrow> bool" where
  "scraper_success row \<longleftrightarrow> js_get row ''isError'' = Str ''0'' \<and> js_get row ''txreceipt_status'' = Str ''1''"

definition scraper_number :: "js_value \<Rightarrow> string \<Rightarrow> number result" where
  "scraper_number row key = andThen (need_text (js_get row key)) (\<lambda>s. ok (parseInt10 (takeWhile is_digit s)))"

definition scraper_row :: "('h, 'a) eth_lib_scheme \<Rightarrow> EthereumConnection \<Rightarrow> js_value \<Rightarrow> EthConfirmed result" where
  "scraper_row L C row =
     andThen (andThen (need_text (js_get row ''from'')) (toChecksummedAddress L)) (\<lambda>sender.
     andThen (andThen (need_text (js_get row ''to'')) (toChecksummedAddress L)) (\<lambda>recipient.
     andThen (need_text (js_get row ''value'')) (\<lambda>quantity0.
     andThen (need_text (js_get row ''gas'')) (\<lambda>gasLimit.
     andThen (need_text (js_get row ''gasPrice'')) (\<lambda>gasPrice.
     andThen (scraper_number row ''blockNumber'') (\<lambda>height.
     andThen (scraper_number row ''confirmations'') (\<lambda>confirmations.
     andThen (andThen (need_text (js_get row ''hash'')) parse_transactionId) (\<lambda>transactionId.
     ok \<lparr>ecf_transaction = \<lparr>eth_chainId = cn_chainId C,
         eth_fee = Some \<lparr>fee_tokens = None, fee_gasPrice = Some \<lparr>am_quantity = gasPrice, am_fractionalDigits = primaryTokenFractionalDigits,
           am_tokenTicker = primaryTokenTicker\<rparr>, fee_gasLimit = Some gasLimit, fee_payer = None\<rparr>,
         eth_content = EthSend \<lparr>send_amount = \<lparr>am_quantity = quantity0, am_fractionalDigits = primaryTokenFractionalDigits,
           am_tokenTicker = primaryTokenTicker\<rparr>, send_sender = sender, send_senderPubkey = None, send_recipient = recipient,
           send_memo = None\<rparr>\<rparr>,
       ecf_signatures = None, ecf_height = height, ecf_confirmations = confirmations, ecf_transactionId = transactionId\<rparr>))))))))"

definition searchOnScraper :: "('h, 'a) eth_lib_scheme \<Rightarrow> EthereumConnection \<Rightarrow> Address \<Rightarrow> number \<Rightarrow> number \<Rightarrow> EthConfirmed list result" where
  "searchOnScraper L C address minHeight maxHeight = (case cn_scraper C of
     None \<Rightarrow> throw ''No scraper API URL specified.''
   | Some scraper \<Rightarrow>
       if num_less maxHeight minHeight then ok []
       else andThen (scraper address minHeight maxHeight) (\<lambda>responseBody.
         case js_get responseBody ''result'' of
           Null \<Rightarrow> ok []
         | Arr rows \<Rightarrow> mapM (scraper_row L C) (filter scraper_success rows)
         | _ \<Rightarrow> throw ''TypeError''))"

text \<open>
  The transactions of the transfers in the logs. A transaction that the search by its
  id does not find is undefined in the list.
\<close>

definition topic_address :: "('h, 'a) eth_lib_scheme \<Rightarrow> Address option \<Rightarrow> js_value result" where
  "topic_address L a = (case a of
     None \<Rightarrow> ok Null
   | Some address \<Rightarrow>
       if address = [] then ok Null
       else andThen (encodeAddress L address) (\<lambda>bytes. andThen (toEthereumHex_bytes bytes) (\<lambda>hex. ok (Str hex))))"

definition searchErc20Transfers :: "('h, 'a) eth_lib_scheme \<Rightarrow> EthereumConnection \<Rightarrow> Address option \<Rightarrow> Address option \<Rightarrow> number \<Rightarrow> number
    \<Rightarrow> EthConfirmed option list result" where
  "searchErc20Transfers L C sender recipient minHeight maxHeight =
     (if num_less maxHeight minHeight then ok []
      else let contractAddresses = map (\<lambda>(ticker, options). erc_contractAddress options) (cn_tokens C) in
        if contractAddresses = [] then ok []
        else andThen (encodeQuantity L minHeight) (\<lambda>fromBlock.
          andThen (encodeQuantity L maxHeight) (\<lambda>toBlock.
          andThen (andThen (calculateMethodHash L ''Transfer(address,address,uint256)'') toEthereumHex_bytes) (\<lambda>signature.
          andThen (topic_address L sender) (\<lambda>senderTopic.
          andThen (topic_address L recipient) (\<lambda>recipientTopic.
          andThen (eth_request C ''eth_getLogs'' [Obj [(''fromBlock'', Str fromBlock), (''toBlock'', Str toBlock),
              (''address'', Arr (map Str contractAddresses)), (''topics'', Arr [Str signature, senderTopic, recipientTopic])]]) (\<lambda>r.
          case r of
            Arr rows \<Rightarrow>
              andThen (mapM (\<lambda>row. andThen (need_text (js_get row ''transactionHash'')) parse_transactionId) rows) (\<lambda>ids.
              andThen (mapM (searchTransactionsById L C) ids) (\<lambda>searches.
              ok (map (\<lambda>search. case search of [] \<Rightarrow> None | tx # _ \<Rightarrow> Some tx) searches)))
          | _ \<Rightarrow> throw ''Expected result to be an array'')))))))"

text \<open>\<open>sort((a, b) => b.height - a.height)\<close>; elements that are undefined go to the end.\<close>

definition sort_by_height :: "EthConfirmed option list \<Rightarrow> EthConfirmed option list" where
  "sort_by_height xs =
     map Some (stable_sort (\<lambda>a b. \<not> num_less (ecf_height a) (ecf_height b)) (List.map_filter id xs)) @ filter (\<lambda>x. x = None) xs"

definition searchInLogs :: "('h, 'a) eth_lib_scheme \<Rightarrow> EthereumConnection \<Rightarrow> Address \<Rightarrow> number \<Rightarrow> number \<Rightarrow> EthConfirmed option list result" where
  "searchInLogs L C address minHeight maxHeight =
     andThen (searchErc20Transfers L C (Some address) None minHeight maxHeight) (\<lambda>erc20Outgoing.
     andThen (searchErc20Transfers L C None (Some address) minHeight maxHeight) (\<lambda>erc20Incoming.
     ok (sort_by_height (erc20Outgoing @ erc20Incoming))))"

definition searchByAddress :: "('h, 'a) eth_lib_scheme \<Rightarrow> EthereumConnection \<Rightarrow> Address \<Rightarrow> number \<Rightarrow> number \<Rightarrow> EthConfirmed option list result" where
  "searchByAddress L C address minHeight maxHeight =
     andThen (case cn_scraper C of None \<Rightarrow> ok [] | Some _ \<Rightarrow> searchOnScraper L C address minHeight maxHeight) (\<lambda>fromScraper.
     andThen (searchInLogs L C address minHeight maxHeight) (\<lambda>fromLogs.
     ok (sort_by_height (map Some fromScraper @ fromLogs))))"

text \<open>\<open>value || fallback\<close> for a number that may be undefined, and the truth of one.\<close>

definition number_or :: "number option \<Rightarrow> number \<Rightarrow> number" where
  "number_or n fallback = (case n of Some x \<Rightarrow> if truthy_num x then x else fallback | None \<Rightarrow> fallback)"

definition unsupported_query :: "TransactionQuery \<Rightarrow> bool" where
  "unsupported_query query \<longleftrightarrow> (case tq_height query of Some h \<Rightarrow> truthy_num h | None \<Rightarrow> False) \<or> tq_tags query \<noteq> None \<or>
     (case tq_signedBy query of Some a \<Rightarrow> a \<noteq> [] | None \<Rightarrow> False)"

definition eth_searchTx :: "('h, 'a) eth_lib_scheme \<Rightarrow> EthereumConnection \<Rightarrow> TransactionQuery \<Rightarrow> EthConfirmed option list result" where
  "eth_searchTx L C query =
     (if unsupported_query query then throw ''Query by height, tags or signedBy not supported''
      else case tq_id query of
        Some i \<Rightarrow>
          andThen (parse_transactionId i) (\<lambda>_.
          if tq_minHeight query \<noteq> None then throw ''Min height is not supported for queries by transaction ID''
          else if tq_maxHeight query \<noteq> None then throw ''Max height is not supported for queries by transaction ID''
          else andThen (searchTransactionsById L C i) (\<lambda>found. ok (map Some found)))
      | None \<Rightarrow> (case tq_sentFromOrTo query of
          None \<Rightarrow> throw ''Unsupported query.''
        | Some address \<Rightarrow>
            if address = [] then throw ''Unsupported query.''
            else searchByAddress L C address (number_or (tq_minHeight query) (int_num 0)) (number_or (tq_maxHeight query) (int_num 9007199254740991))))"

section \<open>Atomic swaps\<close>

definition swap_of :: "AtomicSwap \<Rightarrow> SwapData" where
  "swap_of w = (case w of OpenSwap d \<Rightarrow> d | ClaimedSwap d preimage \<Rightarrow> d | AbortedSwap d \<Rightarrow> d)"

text \<open>
  \<open>parseOpenedEventBytes\<close>: the value null is \<open>None\<close>. The prefix of a swap is one of
  the two of the connection.
\<close>

definition parseOpenedEventBytes :: "('h, 'a) eth_lib_scheme \<Rightarrow> byte list \<Rightarrow> string \<Rightarrow> Erc20TokensMap \<Rightarrow> AtomicSwap option result" where
  "parseOpenedEventBytes L bytes swapPrefix erc20Tokens =
     andThen (if swapPrefix = SwapIdPrefix_Ether then ok None
       else andThen (decodeAddress L (slice 192 224 bytes)) (\<lambda>a. ok (Some (map lower_char a)))) (\<lambda>erc20ContractAddress.
     let erc20Token = (case erc20ContractAddress of None \<Rightarrow> None
           | Some a \<Rightarrow> find (\<lambda>token. map lower_char (erc_contractAddress token) = a) (map snd erc20Tokens)) in
     if swapPrefix = SwapIdPrefix_Erc20 \<and> erc20Token = None then ok None
     else let amount = \<lparr>am_quantity = bn_toString L (bn_fromBytes L (slice 128 160 bytes)),
            am_fractionalDigits = (case erc20Token of None \<Rightarrow> primaryTokenFractionalDigits | Some t \<Rightarrow> erc_decimals t),
            am_tokenTicker = (case erc20Token of None \<Rightarrow> primaryTokenTicker | Some t \<Rightarrow> erc_symbol t)\<rparr> in
       andThen (decodeAddress L (slice 32 64 bytes)) (\<lambda>sender.
       andThen (decodeAddress L (slice 64 96 bytes)) (\<lambda>recipient.
       andThen (bn_number L (slice 160 192 bytes)) (\<lambda>height.
       ok (Some (OpenSwap \<lparr>sd_id = \<lparr>swap_prefix = Some swapPrefix, swap_data = slice 0 32 bytes\<rparr>, sd_sender = sender,
         sd_recipient = recipient, sd_hash = slice 96 128 bytes, sd_amounts = [amount], sd_timeout = BlockHeightTimeout height,
         sd_memo = None\<rparr>))))))"

datatype AtomicSwapUpdate = ClaimedUpdate "byte list" "byte list" | AbortedUpdate "byte list"

definition parseClaimedEventBytes :: "byte list \<Rightarrow> AtomicSwapUpdate" where
  "parseClaimedEventBytes bytes = ClaimedUpdate (slice 0 32 bytes) (slice 32 64 bytes)"

definition parseAbortedEventBytes :: "byte list \<Rightarrow> AtomicSwapUpdate" where
  "parseAbortedEventBytes bytes = AbortedUpdate (slice 0 32 bytes)"

fun update_id :: "AtomicSwapUpdate \<Rightarrow> byte list" where
  "update_id (ClaimedUpdate i preimage) = i"
| "update_id (AbortedUpdate i) = i"

fun updated :: "AtomicSwapUpdate \<Rightarrow> SwapData \<Rightarrow> AtomicSwap" where
  "updated (ClaimedUpdate i preimage) d = ClaimedSwap d preimage"
| "updated (AbortedUpdate i) d = AbortedSwap d"

text \<open>The updated swap goes to the end of the list.\<close>

fun index_where :: "('a \<Rightarrow> bool) \<Rightarrow> 'a list \<Rightarrow> nat option" where
  "index_where p [] = None"
| "index_where p (x # xs) = (if p x then Some 0 else map_option Suc (index_where p xs))"

definition updateSwapInList :: "AtomicSwap list \<Rightarrow> AtomicSwapUpdate \<Rightarrow> string \<Rightarrow> AtomicSwap list" where
  "updateSwapInList swaps update swapPrefix =
     (case index_where (\<lambda>w. swapIdEquals (sd_id (swap_of w)) \<lparr>swap_prefix = Some swapPrefix, swap_data = update_id update\<rparr>) swaps of
        None \<Rightarrow> swaps
      | Some i \<Rightarrow> take i swaps @ drop (i + 1) swaps @ [updated update (swap_of (swaps ! i))])"

definition hex_member :: "js_value \<Rightarrow> byte list result" where
  "hex_member v = andThen (need_text v) (\<lambda>s. fromHex (normalizeHex s))"

text \<open>The callback of the reduction: a log with the prefix of its contract.\<close>

definition process_log :: "('h, 'a) eth_lib_scheme \<Rightarrow> Erc20TokensMap \<Rightarrow> AtomicSwap list \<Rightarrow> js_value \<times> string \<Rightarrow> AtomicSwap list result" where
  "process_log L erc20Tokens accumulator logWithPrefix = (case logWithPrefix of (entry, swapPrefix) \<Rightarrow>
     andThen (hex_member (js_get entry ''data'')) (\<lambda>dataArray.
     andThen (case js_get entry ''topics'' of Arr (t # _) \<Rightarrow> hex_member t | _ \<Rightarrow> throw ''TypeError'') (\<lambda>topic.
     andThen (abiDecodeEventSignature L topic) (\<lambda>event. case event of
       EventOpened \<Rightarrow>
         andThen (parseOpenedEventBytes L dataArray swapPrefix erc20Tokens) (\<lambda>parsed.
         ok (case parsed of None \<Rightarrow> accumulator | Some w \<Rightarrow> accumulator @ [w]))
     | EventClaimed \<Rightarrow> ok (updateSwapInList accumulator (parseClaimedEventBytes dataArray) swapPrefix)
     | EventAborted \<Rightarrow> ok (updateSwapInList accumulator (parseAbortedEventBytes dataArray) swapPrefix)))))"

fun process_logs :: "('h, 'a) eth_lib_scheme \<Rightarrow> Erc20TokensMap \<Rightarrow> AtomicSwap list \<Rightarrow> (js_value \<times> string) list \<Rightarrow> AtomicSwap list result" where
  "process_logs L tokens accumulator [] = ok accumulator"
| "process_logs L tokens accumulator (entry # logs) =
     andThen (process_log L tokens accumulator entry) (\<lambda>next. process_logs L tokens next logs)"

text \<open>\<open>swapsResponse.result || []\<close>, a list of logs.\<close>

definition getSwapLogs :: "('h, 'a) eth_lib_scheme \<Rightarrow> EthereumConnection \<Rightarrow> Address \<Rightarrow> number \<Rightarrow> number \<Rightarrow> js_value list result" where
  "getSwapLogs L C contract minHeight maxHeight =
     andThen (encodeQuantity L minHeight) (\<lambda>fromBlock.
     andThen (encodeQuantity L maxHeight) (\<lambda>toBlock.
     andThen (eth_request C ''eth_getLogs'' [Obj [(''fromBlock'', Str fromBlock), (''toBlock'', Str toBlock), (''address'', Str contract)]]) (\<lambda>r.
     case r of Arr logs \<Rightarrow> ok logs | Null \<Rightarrow> ok [] | Undefined \<Rightarrow> ok [] | _ \<Rightarrow> throw ''TypeError'')))"

definition matches_query :: "AtomicSwapQuery \<Rightarrow> AtomicSwap \<Rightarrow> bool" where
  "matches_query query w = (case query of
     SwapByRecipient recipient \<Rightarrow> sd_recipient (swap_of w) = recipient
   | SwapBySender sender \<Rightarrow> sd_sender (swap_of w) = sender
   | SwapByHash hash \<Rightarrow> toHex (sd_hash (swap_of w)) = toHex hash
   | SwapById i \<Rightarrow> False)"

text \<open>An address that is set: not undefined and not empty.\<close>

definition set_address :: "Address option \<Rightarrow> Address option" where
  "set_address a = (case a of Some x \<Rightarrow> if x = [] then None else Some x | None \<Rightarrow> None)"

definition contract_logs :: "('h, 'a) eth_lib_scheme \<Rightarrow> EthereumConnection \<Rightarrow> Address option \<Rightarrow> string \<Rightarrow> number \<Rightarrow> number
    \<Rightarrow> (js_value \<times> string) list result" where
  "contract_logs L C contract swapPrefix minHeight maxHeight = (case set_address contract of
     None \<Rightarrow> ok []
   | Some address \<Rightarrow> andThen (getSwapLogs L C address minHeight maxHeight) (\<lambda>logs. ok (map (\<lambda>entry. (entry, swapPrefix)) logs)))"

definition getSwapsWithFilter :: "('h, 'a) eth_lib_scheme \<Rightarrow> EthereumConnection \<Rightarrow> AtomicSwapQuery \<Rightarrow> number \<Rightarrow> number \<Rightarrow> AtomicSwap list result" where
  "getSwapsWithFilter L C query minHeight maxHeight =
     (let etherContract = ec_atomicSwapEtherContractAddress (cn_codec C); erc20Contract = ec_atomicSwapErc20ContractAddress (cn_codec C) in
      if set_address etherContract = None \<and> set_address erc20Contract = None
      then throw ''Ethereum connection was not initialized with any atomic swap contract addresses''
      else andThen (contract_logs L C etherContract SwapIdPrefix_Ether minHeight maxHeight) (\<lambda>etherLogs.
        andThen (contract_logs L C erc20Contract SwapIdPrefix_Erc20 minHeight maxHeight) (\<lambda>erc20Logs.
        andThen (process_logs L (cn_tokens C) [] (etherLogs @ erc20Logs)) (\<lambda>swaps.
        ok (filter (matches_query query) swaps)))))"

text \<open>The token of a swap by its id is looked up with the letters as they are configured.\<close>

definition getSwapsById :: "('h, 'a) eth_lib_scheme \<Rightarrow> EthereumConnection \<Rightarrow> SwapId \<Rightarrow> AtomicSwap list result" where
  "getSwapsById L C i =
     andThen (calculateMethodId L ''get(bytes32)'') (\<lambda>methodId.
     let atomicSwapContractAddress = (if swap_prefix i = Some SwapIdPrefix_Ether then ec_atomicSwapEtherContractAddress (cn_codec C)
           else ec_atomicSwapErc20ContractAddress (cn_codec C)) in
     case set_address atomicSwapContractAddress of
       None \<Rightarrow> throw ''No contract address for swaps''
     | Some contract \<Rightarrow>
         andThen (toEthereumHex_bytes (methodId @ swap_data i)) (\<lambda>hex.
         andThen (eth_request C ''eth_call'' [Obj [(''to'', Str contract), (''data'', Str hex)]]) (\<lambda>r.
         if r = Null then ok []
         else andThen (hex_member r) (\<lambda>resultArray.
           andThen (if swap_prefix i = Some SwapIdPrefix_Erc20
             then andThen (decodeAddress L (slice 224 256 resultArray)) (\<lambda>a. ok (Some a)) else ok None) (\<lambda>erc20ContractAddress.
           let erc20Token = (case erc20ContractAddress of None \<Rightarrow> None
                 | Some a \<Rightarrow> find (\<lambda>token. erc_contractAddress token = a) (map snd (cn_tokens C))) in
           andThen (decodeAddress L (slice 0 32 resultArray)) (\<lambda>sender.
           andThen (decodeAddress L (slice 32 64 resultArray)) (\<lambda>recipient.
           andThen (bn_number L (slice 96 128 resultArray)) (\<lambda>height.
           let swapData = \<lparr>sd_id = i, sd_sender = sender, sd_recipient = recipient, sd_hash = slice 64 96 resultArray,
                 sd_amounts = [\<lparr>am_quantity = bn_toString L (bn_fromBytes L (slice 128 160 resultArray)),
                   am_fractionalDigits = (case erc20Token of None \<Rightarrow> primaryTokenFractionalDigits | Some t \<Rightarrow> erc_decimals t),
                   am_tokenTicker = (case erc20Token of None \<Rightarrow> primaryTokenTicker | Some t \<Rightarrow> erc_symbol t)\<rparr>],
                 sd_timeout = BlockHeightTimeout height, sd_memo = None\<rparr> in
           andThen (abiDecodeSwapProcessState L (slice 192 224 resultArray)) (\<lambda>state.
           ok [case state of
             SwapStateOpen \<Rightarrow> OpenSwap swapData
           | SwapStateClaimed \<Rightarrow> ClaimedSwap swapData (slice 160 192 resultArray)
           | SwapStateAborted \<Rightarrow> AbortedSwap swapData])))))))))"

definition eth_getSwaps :: "('h, 'a) eth_lib_scheme \<Rightarrow> EthereumConnection \<Rightarrow> AtomicSwapQuery \<Rightarrow> number \<Rightarrow> number \<Rightarrow> AtomicSwap list result" where
  "eth_getSwaps L C query minHeight maxHeight = (case query of
     SwapById i \<Rightarrow> getSwapsById L C i
   | _ \<Rightarrow> getSwapsWithFilter L C query minHeight maxHeight)"

definition connection_getEscrowById :: "('h, 'a) eth_lib_scheme \<Rightarrow> EthereumConnection \<Rightarrow> byte list \<Rightarrow> Escrow option result" where
  "connection_getEscrowById L C i = (case cn_customSmartContractConfig C of
     None \<Rightarrow> throw ''Connection is not configured to use a custom smart contract''
   | Some config \<Rightarrow> (case getEscrowById L (cn_run C) (cn_requestId C) i config of Inl e \<Rightarrow> ok None | Inr escrow \<Rightarrow> ok escrow))"

section \<open>What the contracts report\<close>

text \<open>
  The events of a swap contract, their data, and the ledger of swaps that they describe:
  a map from ids to swaps.
\<close>

record swap_opening =
  op_id :: "byte list"
  op_sender :: "byte list"
  op_recipient :: "byte list"
  op_hash :: "byte list"
  op_amount :: nat
  op_timeout :: nat
  op_token :: "byte list"

datatype contract_event = Opened swap_opening | Claimed "byte list" "byte list" | Aborted "byte list"

definition opening_bytes :: "swap_opening \<Rightarrow> byte list" where
  "opening_bytes e = op_id e @ (replicate 12 0 @ op_sender e) @ (replicate 12 0 @ op_recipient e) @ op_hash e @
     be_bytes 32 (int (op_amount e)) @ be_bytes 32 (int (op_timeout e)) @ (if op_token e = [] then [] else replicate 12 0 @ op_token e)"

fun event_bytes :: "contract_event \<Rightarrow> byte list" where
  "event_bytes (Opened e) = opening_bytes e"
| "event_bytes (Claimed i preimage) = i @ preimage"
| "event_bytes (Aborted i) = i"

fun event_kind :: "contract_event \<Rightarrow> SwapContractEvent" where
  "event_kind (Opened e) = EventOpened"
| "event_kind (Claimed i preimage) = EventClaimed"
| "event_kind (Aborted i) = EventAborted"

definition valid_opening :: "string \<Rightarrow> swap_opening \<Rightarrow> bool" where
  "valid_opening p e \<longleftrightarrow> length (op_id e) = 32 \<and> length (op_sender e) = 20 \<and> length (op_recipient e) = 20 \<and> length (op_hash e) = 32 \<and>
     op_amount e < 2 ^ 256 \<and> op_timeout e \<le> 9007199254740991 \<and>
     (p = SwapIdPrefix_Ether \<and> op_token e = [] \<or> p = SwapIdPrefix_Erc20 \<and> length (op_token e) = 20)"

fun valid_event :: "string \<Rightarrow> contract_event \<Rightarrow> bool" where
  "valid_event p (Opened e) = valid_opening p e"
| "valid_event p (Claimed i preimage) \<longleftrightarrow> length i = 32 \<and> length preimage = 32"
| "valid_event p (Aborted i) \<longleftrightarrow> length i = 32"

text \<open>A log of the node that reports an event.\<close>

definition reports :: "('h, 'a) eth_lib_scheme \<Rightarrow> js_value \<times> string \<Rightarrow> string \<times> contract_event \<Rightarrow> bool" where
  "reports L entry event \<longleftrightarrow> snd entry = fst event \<and> valid_event (fst event) (snd event) \<and>
     hex_member (js_get (fst entry) ''data'') = ok (event_bytes (snd event)) \<and>
     (\<exists>topic more bytes. js_get (fst entry) ''topics'' = Arr (topic # more) \<and> hex_member topic = ok bytes \<and>
       abiDecodeEventSignature L bytes = ok (event_kind (snd event)))"

definition tracked_token :: "Erc20TokensMap \<Rightarrow> byte list \<Rightarrow> Erc20Options option" where
  "tracked_token tokens token = find (\<lambda>t. map lower_char (erc_contractAddress t) = ''0x'' @ toHex token) (map snd tokens)"

definition opened_amount :: "Erc20TokensMap \<Rightarrow> swap_opening \<Rightarrow> Amount option" where
  "opened_amount tokens e = (if op_token e = [] then Some (ether (op_amount e))
     else map_option (\<lambda>t. token_amount t (op_amount e)) (tracked_token tokens (op_token e)))"

definition opened_swap :: "('h, 'a) eth_lib_scheme \<Rightarrow> string \<Rightarrow> swap_opening \<Rightarrow> Amount \<Rightarrow> SwapData" where
  "opened_swap L p e a = \<lparr>sd_id = \<lparr>swap_prefix = Some p, swap_data = op_id e\<rparr>, sd_sender = address_of L (op_sender e),
     sd_recipient = address_of L (op_recipient e), sd_hash = op_hash e, sd_amounts = [a],
     sd_timeout = BlockHeightTimeout (int_num (int (op_timeout e))), sd_memo = None\<rparr>"

fun ledger_step :: "('h, 'a) eth_lib_scheme \<Rightarrow> Erc20TokensMap \<Rightarrow> (SwapId \<rightharpoonup> AtomicSwap) \<Rightarrow> string \<times> contract_event \<Rightarrow> (SwapId \<rightharpoonup> AtomicSwap)" where
  "ledger_step L tokens m (p, Opened e) = (case opened_amount tokens e of
     None \<Rightarrow> m | Some a \<Rightarrow> m(\<lparr>swap_prefix = Some p, swap_data = op_id e\<rparr> \<mapsto> OpenSwap (opened_swap L p e a)))"
| "ledger_step L tokens m (p, Claimed i preimage) = (let k = \<lparr>swap_prefix = Some p, swap_data = i\<rparr> in
     case m k of None \<Rightarrow> m | Some w \<Rightarrow> m(k \<mapsto> ClaimedSwap (swap_of w) preimage))"
| "ledger_step L tokens m (p, Aborted i) = (let k = \<lparr>swap_prefix = Some p, swap_data = i\<rparr> in
     case m k of None \<Rightarrow> m | Some w \<Rightarrow> m(k \<mapsto> AbortedSwap (swap_of w)))"

fun opened_ids :: "(string \<times> contract_event) list \<Rightarrow> SwapId list" where
  "opened_ids [] = []"
| "opened_ids ((p, Opened e) # history) = \<lparr>swap_prefix = Some p, swap_data = op_id e\<rparr> # opened_ids history"
| "opened_ids ((p, Claimed i preimage) # history) = opened_ids history"
| "opened_ids ((p, Aborted i) # history) = opened_ids history"

section \<open>The list of swaps refines the ledger\<close>

definition swap_key :: "AtomicSwap \<Rightarrow> SwapId" where
  "swap_key w = sd_id (swap_of w)"

definition ledger_of :: "AtomicSwap list \<Rightarrow> (SwapId \<rightharpoonup> AtomicSwap)" where
  "ledger_of swaps = map_of (map (\<lambda>w. (swap_key w, w)) swaps)"

lemma ledger_of_Nil [simp]: "ledger_of [] = Map.empty"
  by (simp add: ledger_of_def)

lemma ledger_of_append [simp]: "swap_key w \<notin> swap_key ` set swaps \<Longrightarrow> ledger_of (swaps @ [w]) = (ledger_of swaps)(swap_key w \<mapsto> w)"
  unfolding ledger_of_def
  by (induction swaps) (auto simp: fun_eq_iff)

lemma ledger_of_ids: "dom (ledger_of swaps) = swap_key ` set swaps"
  by (simp add: ledger_of_def dom_map_of_conv_image_fst image_image)

lemma index_where_None: "index_where p xs = None \<longleftrightarrow> (\<forall>x \<in> set xs. \<not> p x)"
  by (induction xs) auto

lemma index_where_Some: "index_where p xs = Some i \<Longrightarrow> i < length xs \<and> p (xs ! i)"
  by (induction xs arbitrary: i) (auto split: if_splits)

lemma swap_key_updated [simp]: "swap_key (updated u d) = sd_id d"
  by (cases u) (simp_all add: swap_key_def swap_of_def)

lemma updateSwapInList_ledger:
  fixes swaps u p
  assumes "distinct (map swap_key swaps)" and k_def: "k = \<lparr>swap_prefix = Some p, swap_data = update_id u\<rparr>"
  shows "distinct (map swap_key (updateSwapInList swaps u p)) \<and>
    ledger_of (updateSwapInList swaps u p) = (case ledger_of swaps k of None \<Rightarrow> ledger_of swaps
      | Some w \<Rightarrow> (ledger_of swaps)(k \<mapsto> updated u (swap_of w)))"
proof (cases "index_where (\<lambda>w. swap_key w = k) swaps")
  case None
  then have "k \<notin> dom (ledger_of swaps)" by (auto simp: ledger_of_ids index_where_None)
  then have "ledger_of swaps k = None" by blast
  with None assms(1) show ?thesis by (simp add: updateSwapInList_def k_def swap_key_def)
next
  case (Some i)
  define w where "w = swaps ! i"
  from index_where_Some [OF Some] have i: "i < length swaps" and key: "swap_key w = k" by (simp_all add: w_def)
  define ys zs where "ys = take i swaps" and "zs = drop (i + 1) swaps"
  have swaps: "swaps = ys @ w # zs" using id_take_nth_drop [OF i] by (simp add: ys_def zs_def w_def)
  have upd: "updateSwapInList swaps u p = ys @ zs @ [updated u (swap_of w)]"
    using Some by (simp add: updateSwapInList_def k_def swap_key_def ys_def zs_def w_def)
  have keys: "distinct (map swap_key ys)" "distinct (map swap_key zs)" "swap_key ` set ys \<inter> swap_key ` set zs = {}"
      "k \<notin> swap_key ` set ys" "k \<notin> swap_key ` set zs"
    using assms(1) key by (auto simp: swaps)
  have same: "swap_key (updated u (swap_of w)) = k" unfolding swap_key_updated using key by (simp add: swap_key_def)
  then have distinct: "distinct (map swap_key (updateSwapInList swaps u p))" using keys by (auto simp: upd)
  have parts: "ledger_of (xs @ ys) = ledger_of ys ++ ledger_of xs" for xs ys by (simp add: ledger_of_def)
  have absent: "ledger_of ys k = None" "ledger_of zs k = None"
    using keys(4,5) ledger_of_ids [of ys] ledger_of_ids [of zs] by blast+
  have one: "ledger_of [v] j = (if j = swap_key v then Some v else None)" "ledger_of (v # vs) j = (if j = swap_key v then Some v else ledger_of vs j)"
    for v vs j by (simp_all add: ledger_of_def)
  have old: "ledger_of swaps k = Some w" using key by (simp add: swaps parts map_add_def one absent)
  have "ledger_of (ys @ zs @ [updated u (swap_of w)]) j = ((ledger_of swaps)(k \<mapsto> updated u (swap_of w))) j" for j
    using same key by (simp add: swaps parts map_add_def one absent split: option.split)
  then show ?thesis using distinct by (simp add: upd old fun_eq_iff)
qed

lemma parseOpened_bytes:
  assumes "eth_laws L" "valid_opening p e"
  shows "parseOpenedEventBytes L (opening_bytes e) p tokens = ok (map_option (\<lambda>a. OpenSwap (opened_swap L p e a)) (opened_amount tokens e))"
proof -
  note v = assms(2) [unfolded valid_opening_def]
  have slices: "slice 0 32 (opening_bytes e) = op_id e" "slice 32 64 (opening_bytes e) = replicate 12 0 @ op_sender e"
      "slice 64 96 (opening_bytes e) = replicate 12 0 @ op_recipient e" "slice 96 128 (opening_bytes e) = op_hash e"
      "slice 128 160 (opening_bytes e) = be_bytes 32 (int (op_amount e))" "slice 160 192 (opening_bytes e) = be_bytes 32 (int (op_timeout e))"
      "op_token e \<noteq> [] \<Longrightarrow> slice 192 224 (opening_bytes e) = replicate 12 0 @ op_token e"
    using v by (auto simp: opening_bytes_def slice_def)
  have "int (op_amount e) < 256 ^ 32" using v by simp
  then have amount: "bn_fromBytes L (be_bytes 32 (int (op_amount e))) = int (op_amount e)"
    using bn_fromBytes [OF eth_bn [OF assms(1)]] by (simp add: be_value_bytes)
  have quantity: "bn_toString L (int (op_amount e)) = to_base 10 (op_amount e)"
    by (simp add: bn_toString [OF eth_bn [OF assms(1)]] int_to_string_def)
  have height: "bn_number L (be_bytes 32 (int (op_timeout e))) = ok (int_num (int (op_timeout e)))"
    using v by (intro bn_number_natural [OF assms(1)]) simp
  have addresses: "decodeAddress L (replicate 12 0 @ op_sender e) = ok (address_of L (op_sender e))"
      "decodeAddress L (replicate 12 0 @ op_recipient e) = ok (address_of L (op_recipient e))"
      "length (op_token e) = 20 \<Longrightarrow> decodeAddress L (replicate 12 0 @ op_token e) = ok (address_of L (op_token e))"
    using v by (simp_all add: decodeAddress_padded address_of_def del: replicate_Suc)
  have prefixes: "SwapIdPrefix_Ether \<noteq> SwapIdPrefix_Erc20" by (simp add: SwapIdPrefix_Ether_def SwapIdPrefix_Erc20_def)
  consider "p = SwapIdPrefix_Ether" "op_token e = []" | "p = SwapIdPrefix_Erc20" "length (op_token e) = 20" using v by auto
  then show ?thesis
  proof cases
    case 1
    then show ?thesis using prefixes
      by (simp add: parseOpenedEventBytes_def slices addresses amount quantity height opened_amount_def opened_swap_def ether_def Let_def)
  next
    case 2
    then have "op_token e \<noteq> []" by auto
    moreover have "map lower_char (address_of L (op_token e)) = ''0x'' @ toHex (op_token e)" using address_of_forms(4) [OF 2(2)] by simp
    ultimately show ?thesis using 2 prefixes
      by (cases "tracked_token tokens (op_token e)")
        (simp_all add: parseOpenedEventBytes_def slices addresses amount quantity height opened_amount_def opened_swap_def token_amount_def
          tracked_token_def Let_def)
  qed
qed

text \<open>One log is one step of the ledger.\<close>

lemma process_log_step:
  assumes "eth_laws L" "reports L entry (p, e)" "distinct (map swap_key swaps)" "set (opened_ids [(p, e)]) \<inter> dom (ledger_of swaps) = {}"
  shows "\<exists>swaps'. process_log L tokens swaps entry = ok swaps' \<and> distinct (map swap_key swaps') \<and>
    ledger_of swaps' = ledger_step L tokens (ledger_of swaps) (p, e)"
proof -
  obtain v where entry: "entry = (v, p)" using assms(2) by (cases entry) (simp add: reports_def)
  from assms(2) obtain topic others bytes where r: "valid_event p e" "hex_member (js_get v ''data'') = ok (event_bytes e)"
      "js_get v ''topics'' = Arr (topic # others)" "hex_member topic = ok bytes" "abiDecodeEventSignature L bytes = ok (event_kind e)"
    by (auto simp: reports_def entry)
  note run = process_log_def entry r(2-5)
  show ?thesis
  proof (cases e)
    case (Opened q)
    have parsed: "parseOpenedEventBytes L (opening_bytes q) p tokens = ok (map_option (\<lambda>a. OpenSwap (opened_swap L p q a)) (opened_amount tokens q))"
      by (rule parseOpened_bytes [OF assms(1)]) (use r(1) Opened in simp)
    show ?thesis
    proof (cases "opened_amount tokens q")
      case None
      then show ?thesis using assms(3) by (simp add: run Opened parsed)
    next
      case (Some a)
      have key: "swap_key (OpenSwap (opened_swap L p q a)) = \<lparr>swap_prefix = Some p, swap_data = op_id q\<rparr>"
        by (simp add: swap_key_def swap_of_def opened_swap_def)
      have "swap_key (OpenSwap (opened_swap L p q a)) \<notin> swap_key ` set swaps"
        using assms(4) by (simp add: Opened key ledger_of_ids)
      then show ?thesis using assms(3) Some by (simp add: run Opened parsed key)
    qed
  next
    case (Claimed i preimage)
    have "parseClaimedEventBytes (i @ preimage) = ClaimedUpdate i preimage"
      using r(1) by (simp add: Claimed parseClaimedEventBytes_def slice_def)
    with updateSwapInList_ledger [OF assms(3) refl, of "ClaimedUpdate i preimage" p] show ?thesis
      by (simp add: run Claimed Let_def cong: option.case_cong)
  next
    case (Aborted i)
    have "parseAbortedEventBytes i = AbortedUpdate i" using r(1) by (simp add: Aborted parseAbortedEventBytes_def slice_def)
    with updateSwapInList_ledger [OF assms(3) refl, of "AbortedUpdate i" p] show ?thesis
      by (simp add: run Aborted Let_def cong: option.case_cong)
  qed
qed

lemma ledger_step_dom: "dom (ledger_step L tokens m (p, e)) \<subseteq> dom m \<union> set (opened_ids [(p, e)])"
  by (cases e) (auto simp: Let_def split: option.splits)

lemma opened_ids_Cons: "opened_ids (pe # history) = opened_ids [pe] @ opened_ids history"
  by (cases pe; cases "snd pe") auto

lemma process_logs_ledger:
  assumes "eth_laws L" "list_all2 (reports L) logs history" "distinct (map swap_key swaps)"
    and "distinct (opened_ids history)" "set (opened_ids history) \<inter> dom (ledger_of swaps) = {}"
  shows "\<exists>swaps'. process_logs L tokens swaps logs = ok swaps' \<and> distinct (map swap_key swaps') \<and>
    ledger_of swaps' = foldl (ledger_step L tokens) (ledger_of swaps) history"
  using assms(2-5)
proof (induction arbitrary: swaps rule: list_all2_induct)
  case Nil
  then show ?case by simp
next
  case (Cons entry logs event history)
  obtain p e where event: "event = (p, e)" by (cases event)
  have ids: "opened_ids (event # history) = opened_ids [(p, e)] @ opened_ids history" unfolding event by (rule opened_ids_Cons)
  obtain swaps' where s: "process_log L tokens swaps entry = ok swaps'" "distinct (map swap_key swaps')"
      "ledger_of swaps' = ledger_step L tokens (ledger_of swaps) (p, e)"
    using process_log_step [OF assms(1), of entry p e swaps tokens] Cons.hyps(1) Cons.prems ids event by auto
  have "set (opened_ids history) \<inter> dom (ledger_of swaps') = {}"
    using ledger_step_dom [of L tokens "ledger_of swaps" p e] Cons.prems(2,3) unfolding s(3) ids by auto
  moreover have "distinct (opened_ids history)" using Cons.prems(2) by (simp add: ids)
  ultimately show ?case using Cons.IH [OF s(2)] s by (simp add: event)
qed

lemma ledger_of_ran: "distinct (map swap_key swaps) \<Longrightarrow> ran (ledger_of swaps) = set swaps"
  by (simp add: ledger_of_def ran_distinct comp_def image_image)

section \<open>Properties\<close>

text \<open>
  C39. The swaps of a query by sender, recipient or hash are exactly those of the
  ledger that the events of the two contracts describe, each once and in its last
  state: opened, claimed with its preimage, or aborted.
\<close>

theorem swaps_follow_the_ledger:
  assumes "eth_laws L" "set_address (ec_atomicSwapEtherContractAddress (cn_codec C)) \<noteq> None \<or> set_address (ec_atomicSwapErc20ContractAddress (cn_codec C)) \<noteq> None"
    and "contract_logs L C (ec_atomicSwapEtherContractAddress (cn_codec C)) SwapIdPrefix_Ether minHeight maxHeight = ok etherLogs"
    and "contract_logs L C (ec_atomicSwapErc20ContractAddress (cn_codec C)) SwapIdPrefix_Erc20 minHeight maxHeight = ok erc20Logs"
    and "list_all2 (reports L) (etherLogs @ erc20Logs) history" "distinct (opened_ids history)" "\<And>i. query \<noteq> SwapById i"
  shows "\<exists>swaps. eth_getSwaps L C query minHeight maxHeight = ok swaps \<and> distinct (map swap_key swaps) \<and>
    set swaps = {w \<in> ran (foldl (ledger_step L (cn_tokens C)) Map.empty history). matches_query query w}"
proof -
  obtain swaps where swaps: "process_logs L (cn_tokens C) [] (etherLogs @ erc20Logs) = ok swaps" "distinct (map swap_key swaps)"
      "ledger_of swaps = foldl (ledger_step L (cn_tokens C)) Map.empty history"
    using process_logs_ledger [OF assms(1,5), of "[]" "cn_tokens C"] assms(6) by auto
  have "eth_getSwaps L C query minHeight maxHeight = getSwapsWithFilter L C query minHeight maxHeight"
    using assms(7) by (cases query) (auto simp: eth_getSwaps_def)
  also have "\<dots> = ok (filter (matches_query query) swaps)"
    using assms(2-4) swaps(1) by (auto simp: getSwapsWithFilter_def Let_def)
  finally show ?thesis using swaps(2) ledger_of_ran [OF swaps(2)] unfolding swaps(3) [symmetric]
    by (intro exI [of _ "filter (matches_query query) swaps"]) (auto simp: distinct_map_filter)
qed

text \<open>A node whose logs report a swap that is opened and claimed, and a connection to it.\<close>

definition demo_opening :: swap_opening where
  "demo_opening = \<lparr>op_id = replicate 32 1, op_sender = replicate 20 2, op_recipient = replicate 20 3, op_hash = replicate 32 4,
     op_amount = 5, op_timeout = 6, op_token = []\<rparr>"

definition demo_log :: "string \<Rightarrow> contract_event \<Rightarrow> js_value" where
  "demo_log signature e = Obj [(''data'', Str (''0x'' @ toHex (event_bytes e))),
     (''topics'', Arr [Str (''0x'' @ toHex (projr (calculateMethodHash demo_eth signature)))])]"

definition demo_connection :: "js_value \<Rightarrow> EthereumCodec \<Rightarrow> EthereumConnection" where
  "demo_connection answer cdc = \<lparr>cn_run = (\<lambda>request. ok (SuccessResponse (req_id request) answer)), cn_requestId = IdNumber (int_num 1),
     cn_chainId = ''ethereum-eip155-1'', cn_codec = cdc, cn_customSmartContractConfig = None, cn_scraper = None,
     cn_localeCompare = (\<lambda>a b. True)\<rparr>"

lemma demo_connection_request [simp]: "eth_request (demo_connection answer cdc) m params = ok answer" "cn_codec (demo_connection answer cdc) = cdc"
    "cn_tokens (demo_connection answer cdc) = ec_erc20Tokens cdc"
  by (simp_all add: eth_request_def demo_connection_def cn_tokens_def)

lemma hex_member_hex: "hex_member (Str (''0x'' @ toHex bytes)) = ok bytes"
  using fromHex_iff_toHex [of "toHex bytes" bytes] toHex_lower [of bytes]
  by (simp add: hex_member_def need_text_def normalizeHex_def)

lemma demo_hash: "list_all printable s \<Longrightarrow> calculateMethodHash demo_eth s = ok (toUint8 (int (length s)) # replicate 31 1)"
  by (simp add: calculateMethodHash_def toAscii_ok)

lemma demo_topics:
  "calculateMethodHash demo_eth ''Opened(bytes32,address,address,bytes32,uint256,uint256)'' = ok (55 # replicate 31 1)"
  "calculateMethodHash demo_eth ''Claimed(bytes32,bytes32)'' = ok (24 # replicate 31 1)"
  "abiDecodeEventSignature demo_eth (55 # replicate 31 1) = ok EventOpened"
  "abiDecodeEventSignature demo_eth (24 # replicate 31 1) = ok EventClaimed"
proof -
  have hashes: "calculateMethodHash demo_eth ''Opened(bytes32,address,address,bytes32,uint256,uint256)'' = ok (55 # replicate 31 1)"
    "calculateMethodHash demo_eth ''Opened(bytes32,address,address,bytes32,uint256,uint256,address)'' = ok (63 # replicate 31 1)"
    "calculateMethodHash demo_eth ''Claimed(bytes32,bytes32)'' = ok (24 # replicate 31 1)"
    "calculateMethodHash demo_eth ''Aborted(bytes32)'' = ok (16 # replicate 31 1)"
    by (simp_all add: demo_hash printable_def toUint8_def)
  then show "calculateMethodHash demo_eth ''Opened(bytes32,address,address,bytes32,uint256,uint256)'' = ok (55 # replicate 31 1)"
    "calculateMethodHash demo_eth ''Claimed(bytes32,bytes32)'' = ok (24 # replicate 31 1)" by blast+
  show "abiDecodeEventSignature demo_eth (55 # replicate 31 1) = ok EventOpened"
    "abiDecodeEventSignature demo_eth (24 # replicate 31 1) = ok EventClaimed"
    by (simp_all add: abiDecodeEventSignature_def signature_table_def abiEventSignatures_def hashes del: toHex_Cons)
qed

lemma demo_reports:
  assumes "valid_event p e" "calculateMethodHash demo_eth signature = ok topic" "abiDecodeEventSignature demo_eth topic = ok (event_kind e)"
  shows "reports demo_eth (demo_log signature e, p) (p, e)"
  using assms by (simp add: reports_def demo_log_def js_get_def hex_member_hex [simplified])

lemma swaps_follow_the_ledger_witness:
  "\<exists>swaps. eth_getSwaps demo_eth (demo_connection (Arr [demo_log ''Opened(bytes32,address,address,bytes32,uint256,uint256)'' (Opened demo_opening),
        demo_log ''Claimed(bytes32,bytes32)'' (Claimed (replicate 32 1) (replicate 32 9))])
      (demo_ethereum\<lparr>ec_atomicSwapEtherContractAddress := Some ''0x''\<rparr>)) (SwapByHash (replicate 32 4)) (int_num 0) (int_num 9) = ok swaps \<and>
    set swaps = {ClaimedSwap (opened_swap demo_eth SwapIdPrefix_Ether demo_opening (ether 5)) (replicate 32 9)}"
proof -
  let ?o = "demo_log ''Opened(bytes32,address,address,bytes32,uint256,uint256)'' (Opened demo_opening)"
  let ?c = "demo_log ''Claimed(bytes32,bytes32)'' (Claimed (replicate 32 1) (replicate 32 9))"
  let ?C = "demo_connection (Arr [?o, ?c]) (demo_ethereum\<lparr>ec_atomicSwapEtherContractAddress := Some ''0x''\<rparr>)"
  let ?h = "[(SwapIdPrefix_Ether, Opened demo_opening), (SwapIdPrefix_Ether, Claimed (replicate 32 1) (replicate 32 9))]"
  have quantities: "encodeQuantity demo_eth (int_num (int n)) = ok (quantity n)" if "n \<le> 9007199254740991" for n
    using encodeQuantity_safe [OF demo_eth_laws, of "int n"] that by simp
  have logs: "contract_logs demo_eth ?C (ec_atomicSwapEtherContractAddress (cn_codec ?C)) SwapIdPrefix_Ether (int_num 0) (int_num 9)
      = ok [(?o, SwapIdPrefix_Ether), (?c, SwapIdPrefix_Ether)]"
    using quantities [of 0] quantities [of 9] by (simp add: contract_logs_def set_address_def getSwapLogs_def)
  have none: "contract_logs demo_eth ?C (ec_atomicSwapErc20ContractAddress (cn_codec ?C)) SwapIdPrefix_Erc20 (int_num 0) (int_num 9) = ok []"
    by (simp add: contract_logs_def set_address_def demo_ethereum_def)
  have valid: "valid_event SwapIdPrefix_Ether (Opened demo_opening)" "valid_event SwapIdPrefix_Ether (Claimed (replicate 32 1) (replicate 32 9))"
    by (simp_all add: valid_opening_def demo_opening_def)
  have reported: "list_all2 (reports demo_eth) ([(?o, SwapIdPrefix_Ether), (?c, SwapIdPrefix_Ether)] @ []) ?h"
    using demo_reports [OF valid(1)] demo_reports [OF valid(2)] demo_topics by simp
  have ledger: "foldl (ledger_step demo_eth (cn_tokens ?C)) Map.empty ?h =
      [\<lparr>swap_prefix = Some SwapIdPrefix_Ether, swap_data = replicate 32 1\<rparr> \<mapsto>
        ClaimedSwap (opened_swap demo_eth SwapIdPrefix_Ether demo_opening (ether 5)) (replicate 32 9)]"
    by (simp add: opened_amount_def demo_opening_def swap_of_def)
  have "set_address (ec_atomicSwapEtherContractAddress (cn_codec ?C)) \<noteq> None \<or> set_address (ec_atomicSwapErc20ContractAddress (cn_codec ?C)) \<noteq> None"
    by (simp add: set_address_def)
  from swaps_follow_the_ledger [OF demo_eth_laws this logs none reported, of "SwapByHash (replicate 32 4)"]
  show ?thesis unfolding ledger
    by (auto simp: matches_query_def swap_of_def opened_swap_def demo_opening_def)
qed

text \<open>What the contract answers for the id of an open swap.\<close>

definition stored_swap :: "swap_opening \<Rightarrow> byte list" where
  "stored_swap e = (replicate 12 0 @ op_sender e) @ (replicate 12 0 @ op_recipient e) @ op_hash e @ be_bytes 32 (int (op_timeout e)) @
     be_bytes 32 (int (op_amount e)) @ replicate 32 0 @ be_bytes 32 1 @ (replicate 12 0 @ op_token e)"

text \<open>
  C40. When the address of a token contract is configured in lower case, the swap of an
  amount of this token that is looked up by its id is given as a swap of as many wei,
  although the event of the same swap is given with the token.
\<close>

theorem swap_by_id_loses_lower_case_token:
  assumes "eth_laws L" "valid_opening SwapIdPrefix_Erc20 e" "cn_tokens C = [(ticker, token)]"
    and "erc_contractAddress token = ''0x'' @ toHex (op_token e)" "address_of L (op_token e) \<noteq> ''0x'' @ toHex (op_token e)"
    and "calculateMethodId L ''get(bytes32)'' = ok m" "set_address (ec_atomicSwapErc20ContractAddress (cn_codec C)) = Some contract"
    and "eth_request C ''eth_call'' [Obj [(''to'', Str contract), (''data'', Str (''0x'' @ toHex (m @ op_id e)))]]
      = ok (Str (''0x'' @ toHex (stored_swap e)))"
  shows "eth_getSwaps L C (SwapById \<lparr>swap_prefix = Some SwapIdPrefix_Erc20, swap_data = op_id e\<rparr>) minHeight maxHeight
      = ok [OpenSwap (opened_swap L SwapIdPrefix_Erc20 e (ether (op_amount e)))] \<and>
    parseOpenedEventBytes L (opening_bytes e) SwapIdPrefix_Erc20 (cn_tokens C)
      = ok (Some (OpenSwap (opened_swap L SwapIdPrefix_Erc20 e (token_amount token (op_amount e)))))"
proof
  have prefixes: "SwapIdPrefix_Erc20 \<noteq> SwapIdPrefix_Ether" by (simp add: SwapIdPrefix_Ether_def SwapIdPrefix_Erc20_def)
  note v = assms(2) [unfolded valid_opening_def]
  have token: "length (op_token e) = 20" using v prefixes by simp
  have slices: "slice 0 32 (stored_swap e) = replicate 12 0 @ op_sender e" "slice 32 64 (stored_swap e) = replicate 12 0 @ op_recipient e"
      "slice 64 96 (stored_swap e) = op_hash e" "slice 96 128 (stored_swap e) = be_bytes 32 (int (op_timeout e))"
      "slice 128 160 (stored_swap e) = be_bytes 32 (int (op_amount e))" "slice 192 224 (stored_swap e) = be_bytes 32 1"
      "slice 224 256 (stored_swap e) = replicate 12 0 @ op_token e"
    using v token by (simp_all add: stored_swap_def slice_def)
  have "int (op_amount e) < 256 ^ 32" using v by simp
  then have amount: "bn_toString L (bn_fromBytes L (be_bytes 32 (int (op_amount e)))) = to_base 10 (op_amount e)"
    by (simp add: bn_fromBytes [OF eth_bn [OF assms(1)]] bn_toString [OF eth_bn [OF assms(1)]] be_value_bytes int_to_string_def)
  have height: "bn_number L (be_bytes 32 (int (op_timeout e))) = ok (int_num (int (op_timeout e)))"
    using v by (intro bn_number_natural [OF assms(1)]) simp
  have "to_base 10 1 = ''1''" by code_simp
  then have state: "abiDecodeSwapProcessState L (be_bytes 32 1) = ok SwapStateOpen"
    by (simp add: abiDecodeSwapProcessState_def decodeUint256_def bn_fromBytes [OF eth_bn [OF assms(1)]] bn_toString [OF eth_bn [OF assms(1)]]
        be_value_bytes int_to_string_def)
  have addresses: "decodeAddress L (replicate 12 0 @ op_sender e) = ok (address_of L (op_sender e))"
      "decodeAddress L (replicate 12 0 @ op_recipient e) = ok (address_of L (op_recipient e))"
      "decodeAddress L (replicate 12 0 @ op_token e) = ok (address_of L (op_token e))"
    using v token by (simp_all add: decodeAddress_padded address_of_def)
  have hex: "toEthereumHex_bytes (m @ op_id e) = ok (''0x'' @ toHex (m @ op_id e))"
    unfolding toEthereumHex_bytes_def by (rule toEthereumHex_hex) (rule toHex_lower_hex)
  show "eth_getSwaps L C (SwapById \<lparr>swap_prefix = Some SwapIdPrefix_Erc20, swap_data = op_id e\<rparr>) minHeight maxHeight
      = ok [OpenSwap (opened_swap L SwapIdPrefix_Erc20 e (ether (op_amount e)))]"
    using assms(5,8) prefixes
    by (simp add: eth_getSwaps_def getSwapsById_def assms(3,4,6,7) hex hex_member_hex [of "stored_swap e", simplified] slices addresses height amount state
        opened_swap_def ether_def Let_def del: toHex_append toHex_Cons)
  have "opened_amount (cn_tokens C) e = Some (token_amount token (op_amount e))"
    using token assms(3,4) toHex_lower [of "op_token e"] by (auto simp: opened_amount_def tracked_token_def lower_char_def)
  then show "parseOpenedEventBytes L (opening_bytes e) SwapIdPrefix_Erc20 (cn_tokens C)
      = ok (Some (OpenSwap (opened_swap L SwapIdPrefix_Erc20 e (token_amount token (op_amount e)))))"
    using parseOpened_bytes [OF assms(1,2), of "cn_tokens C"] by simp
qed

definition demo_token_opening :: swap_opening where
  "demo_token_opening = demo_opening\<lparr>op_token := replicate 20 0x1a\<rparr>"

definition demo_lower_token :: Erc20Options where
  "demo_lower_token = \<lparr>erc_contractAddress = ''0x'' @ toHex (replicate 20 0x1a), erc_symbol = ''ASH'', erc_decimals = int_num 12, erc_name = None\<rparr>"

lemma swap_by_id_loses_lower_case_token_witness:
  "eth_getSwaps demo_eth (demo_connection (Str (''0x'' @ toHex (stored_swap demo_token_opening)))
      (demo_ethereum\<lparr>ec_atomicSwapErc20ContractAddress := Some ''0x'', ec_erc20Tokens := [(''ASH'', demo_lower_token)]\<rparr>))
      (SwapById \<lparr>swap_prefix = Some SwapIdPrefix_Erc20, swap_data = replicate 32 1\<rparr>) (int_num 0) (int_num 9)
    = ok [OpenSwap (opened_swap demo_eth SwapIdPrefix_Erc20 demo_token_opening (ether 5))]"
proof -
  let ?C = "demo_connection (Str (''0x'' @ toHex (stored_swap demo_token_opening)))
    (demo_ethereum\<lparr>ec_atomicSwapErc20ContractAddress := Some ''0x'', ec_erc20Tokens := [(''ASH'', demo_lower_token)]\<rparr>)"
  have valid: "valid_opening SwapIdPrefix_Erc20 demo_token_opening" by (simp add: valid_opening_def demo_token_opening_def demo_opening_def)
  have "address_of demo_eth (replicate 20 0x1a) \<noteq> ''0x'' @ toHex (replicate 20 0x1a)"
    by code_simp
  then have upper: "address_of demo_eth (op_token demo_token_opening) \<noteq> ''0x'' @ toHex (op_token demo_token_opening)"
    by (simp add: demo_token_opening_def)
  obtain m where m: "calculateMethodId demo_eth ''get(bytes32)'' = ok m" by (simp add: calculateMethodId_def demo_hash printable_def)
  have "eth_getSwaps demo_eth ?C (SwapById \<lparr>swap_prefix = Some SwapIdPrefix_Erc20, swap_data = op_id demo_token_opening\<rparr>) (int_num 0) (int_num 9)
    = ok [OpenSwap (opened_swap demo_eth SwapIdPrefix_Erc20 demo_token_opening (ether (op_amount demo_token_opening)))]"
    using swap_by_id_loses_lower_case_token [OF demo_eth_laws valid _ _ upper m, of ?C "''ASH''" demo_lower_token "''0x''"]
    by (simp add: demo_lower_token_def set_address_def demo_token_opening_def)
  then show ?thesis by (simp add: demo_token_opening_def demo_opening_def)
qed

text \<open>The codec of a connection does not know the custom contract, so that it signs none of its transactions.\<close>

lemma connection_codec_signs_no_escrow:
  assumes "new_EthereumConnection baseUrl chainId options run i le = ok C" "isEscrowTransaction (eth_content tx)"
  shows "\<exists>e. eth_bytesToSign L (cn_codec C) tx nonce = Inl e"
proof -
  have "getCustomSmartContractAddress (cn_codec C) = None"
    using assms(1) by (auto simp: new_EthereumConnection_def getCustomSmartContractAddress_def split: if_splits)
  then show ?thesis using assms(2)
    by (cases "eth_content tx"; cases "getChainIdHex L tx"; cases "getGasPriceHex L tx"; cases "getGasLimitHex L tx")
      (simp_all add: eth_bytesToSign_def serializeUnsignedTransaction_def escrow_serializeUnsigned_def Let_def need_contract_def
        serializeUnsignedOpenTransaction_def serializeUnsignedClaimTransaction_def serializeUnsignedAbortTransaction_def
        isEscrowTransaction_def startsWith_def)
qed

end
