(* ===== verification/Spec2Isabelle.thy ===== *)
theory Spec2Isabelle
  imports Bns_TxCodec Bcp_Swap_Merger Iov_Decimal Crypto_Signature Iov_Stream Iov_Socket Tendermint_Hash Key_Keyring Signing_Server Eth_Reports Lisk_Codec Pb_Objects Pb_Codec Bns_Queries Tendermint_Client Cosmos_Codec Bns_Governor Eth_Connection
begin

text \<open>
  A model of the core of iov-core, a client library for several blockchains
  written in TypeScript (the packages under \<open>src/packages\<close>), and the properties
  that make it correct.

  The program. An application keeps secrets in a user profile
  (\<open>iov-keycontrol\<close>): a keyring of wallets, which derive key pairs from
  mnemonics (\<open>iov-crypto\<close>) and sign transactions. The multi chain signer
  (\<open>iov-multichain\<close>) connects the profile to blockchains. For each chain a codec
  turns the transactions of the common data model (\<open>iov-bcp\<close>) into bytes to sign
  and bytes to post and parses them again: \<open>iov-bns\<close> for the chains of IOV,
  \<open>iov-ethereum\<close> for Ethereum, \<open>iov-lisk\<close> for Lisk, \<open>iov-cosmoshub\<close> for the Cosmos Hub. \<open>iov-encoding\<close> has the data types all of them use,
  \<open>iov-stream\<close> and \<open>iov-socket\<close> the streams and sockets below the connections,
  \<open>iov-jsonrpc\<close> the messages between signing server and client, and
  \<open>iov-tendermint-rpc\<close> the hash of the blocks of a node.

  Conventions. A thrown error is the value \<open>Inl e\<close> of \<open>'a result\<close>, a function that
  awaits is the function of the values it gets, a method that mutates its object
  returns the new state. Numbers of JavaScript are the type \<open>number\<close> (rational
  values, infinities and NaN); bytes are \<open>8 word\<close>. A loop that may run forever is
  a partial function into an option type, where \<open>None\<close> means that it never returns.
  Strings are lists of code units up to 255; other text is data the code passes on.

  Theories, in the order of their dependencies:

  \<^item> \<open>Iov_Prelude\<close>: results, loops that may throw, and the interfaces of the
    library. The locale \<open>codec\<close> is the contract of an encoder and a decoder
    (instances: hex, ASCII, the integer classes, DER, JSON-RPC messages),
    \<open>state_machine\<close> a machine with an invariant and \<open>refined_machine\<close> its
    extension by an abstract machine (instance: the swap merger).
    \<open>Js_Runtime\<close>: the language's numbers, strings and slices. \<open>Js_Json\<close>: arithmetic
    of doubles, \<open>JSON.parse\<close> (a lexer and a stack machine) and \<open>JSON.stringify\<close>.
  \<^item> \<open>Iov_Encoding\<close>, \<open>Iov_Base64\<close>, \<open>Iov_Rfc3339\<close>, \<open>Iov_Integers\<close>, \<open>Iov_Decimal\<close>, \<open>Iov_Json\<close>
    (\<open>iov-encoding\<close>): hex, ASCII, UTF-8 and dates; \<open>Uint32\<close>, \<open>Int53\<close>, \<open>Uint53\<close> and
    \<open>Uint64\<close>; fixed point decimals; JSON values and the \<open>TransactionEncoder\<close>.
  \<^item> \<open>Bcp_Types\<close>, \<open>Bcp_Swap_Merger\<close>, \<open>Bcp_Connection\<close> (\<open>iov-bcp\<close>): transactions, identities
    and codecs; the merger of swap events, which refines a set of pending events; the
    queries and answers of a connection.
  \<^item> \<open>Bns_Wire\<close>, \<open>Bns_Types\<close>, \<open>Bns_Util\<close>, \<open>Bns_Encode\<close>, \<open>Bns_Decode\<close>, \<open>Bns_Codec\<close>,
    \<open>Bns_TxCodec\<close> (\<open>iov-bns\<close>): the protobuf objects, the transactions, addresses,
    conditions and sign bytes, the encoder and the decoder of every kind of
    transaction, and the codec object. \<open>wire_tx\<close> describes the transactions that
    survive the way over the wire; what falls outside is stated as well.
  \<^item> \<open>Pb_Core\<close>, \<open>Pb_Basic\<close>, \<open>Pb_Account\<close>, \<open>Pb_Gov\<close>, \<open>Pb_Unread\<close>, \<open>Pb_Objects\<close>,
    \<open>Pb_Tx\<close>, \<open>Pb_Wire\<close>, \<open>Pb_Codec\<close> (\<open>iov-bns/src/generated/codecimpl.js\<close>): all 126 protobuf
    message classes over the writer and the reader of protobufjs, with defaults,
    \<open>encode\<close> and \<open>decode\<close>; a lemma \<open>decodes_X\<close> per class shows that a message with
    integers in range (\<open>valid_X\<close>) is read back. \<open>Pb_Wire\<close> is the wire format of
    protocol buffers, which keeps the laws; \<open>Pb_Codec\<close> puts the classes below the codec.
  \<^item> \<open>Pb_Stored\<close>, \<open>Bns_Objects\<close>, \<open>Bns_Connection\<close>, \<open>Bns_Queries\<close> (\<open>iov-bns/src/decodeobjects.ts\<close>,
    \<open>context.ts\<close>, \<open>tags.ts\<close>, \<open>bnsconnection.ts\<close>): what a parsed message keeps when its
    defaults are dropped; the objects of the store; the queries of the connection
    as functions of the answers of the node (\<open>bns_client\<close>), with swaps and fees.
  \<^item> \<open>Crypto_Slip10\<close>, \<open>Crypto_Signature\<close>, \<open>Crypto_Keys\<close> (\<open>iov-crypto\<close>): HMAC and
    SLIP-0010 key derivation, secp256k1 signatures with DER, key pairs, encryption
    and mnemonics.
  \<^item> \<open>Key_Wallet\<close>, \<open>Key_Keyring\<close>, \<open>Key_UserProfile\<close> (\<open>iov-keycontrol\<close>): the wallets
    of both classes behind the interface \<open>WalletOps\<close>, whose laws are the locale
    \<open>wallet_contract\<close> (interpreted on the wallets of the code); the keyring and the
    profile for every wallet that keeps this contract.
  \<^item> \<open>Json_Rpc\<close> (\<open>iov-jsonrpc\<close>), \<open>Multichain_Signer\<close>, \<open>Signing_Server\<close> (\<open>iov-multichain\<close>):
    messages and client, the signer, the JSON-RPC server; the core of the signing server as a
    machine over the calls that requests make and the promises they wait for.
  \<^item> \<open>Eth_Basics\<close>, \<open>Eth_Contracts\<close>, \<open>Eth_Codec\<close>, \<open>Eth_Reports\<close> (\<open>iov-ethereum\<close>):
    quantities, addresses and ABI arguments; tokens, escrow and atomic swap
    contracts; the serialization of every kind of transaction and the codec; what
    the codec reads from the report of a node.
  \<^item> \<open>Eth_Connection\<close> (\<open>iov-ethereum/src/ethereumconnection.ts\<close>, \<open>erc20reader.ts\<close>): the
    queries as functions of the answers of the node and the scraper, and the ledger
    of swaps that the events of the swap contracts describe, which \<open>getSwaps\<close> refines.
  \<^item> \<open>Lisk_Codec\<close> (\<open>iov-lisk\<close>): addresses, times, serialization and the codec, down
    to the JSON text that is posted.
  \<^item> \<open>Iov_Stream\<close>, \<open>Iov_Socket\<close> (\<open>iov-stream\<close>, \<open>iov-socket\<close>): the stream operators
    as functions of the events of their sources; the queueing and the reconnecting
    socket as step functions over the events of the socket below.
  \<^item> \<open>Tendermint_Hash\<close>, \<open>Tendermint_Rpc\<close>, \<open>Tendermint_Responses\<close>, \<open>Tendermint_Header\<close>,
    \<open>Tendermint_Client\<close> (\<open>iov-tendermint-rpc\<close>): Amino encoders, Merkle tree and block
    hash; the checkers and parsers of the answers of a node of both versions, headers
    as they are sent, requests and the client with its search over all pages.
  \<^item> \<open>Cosmos_Codec\<close> (\<open>iov-cosmoshub\<close>): chain ids, addresses, amino objects, and the codec
    with the sorted JSON text that is signed.
  \<^item> \<open>Bns_Governor\<close> (\<open>iov-bns-governance\<close>): electorates, rules and proposals that a governor
    reads, and the proposals and votes that it builds, with the distribution of funds.
  \<^item> This theory: the way of a transaction from the wallet to the chain.

  Packages from outside the repository are arguments of the definitions: bn.js,
  long.js and bech32 (\<open>bns_libs\<close>), the writer and the reader of protobufjs
  (\<open>proto_lib\<close>), sha.js, elliptic, libsodium and bip39
  (\<open>crypto_lib\<close>), rlp (\<open>eth_lib\<close>), amino-js (\<open>cosmos_lib\<close>), base64-js (\<open>base64_lib\<close>), the text codecs (\<open>storage_lib\<close>). Where
  a property relies on their documented behaviour it has a hypothesis \<open>..._laws\<close>;
  definitions \<open>demo_...\<close> give a package that keeps the laws, for the witnesses.
  No hypothesis says that a hash has no collisions: the property
  \<open>merkle_root_binds\<close> exhibits the colliding inputs.

  What the properties show: what is signed is what is posted and what is parsed
  (BNS and Ethereum, for all kinds of transactions but the ones named); identities
  are unique in a keyring and a profile shows its state after every history of
  operations; stored profiles, keyrings and wallets load again; derived keys are
  valid and the derivation ends on the curve ed25519; the signing server signs only
  with consent, whatever requests are under way, and posts to the chain of the identity; the swap merger settles
  swaps in whatever order their events come; streams keep the order and sockets
  the requests; the integer, decimal, date and JSON conversions are exact where
  they succeed. Properties of the kind error state where the code does not do what
  it means to: they are proved of the model and listed as findings.

  Bounds. Integers are 53-bit safe integers where the code checks it; dates
  survive printing exactly in the years 1000 to 9999. Loops are structural
  recursions, or partial functions (the retry loops of SLIP-0010) whose termination is a
  property. The one loop with fuel is \<open>read_fields\<close> of \<open>Pb_Core\<close>, the loop over the fields of a
  protobuf message: its fuel is the number of bytes that are left, and every field takes one at
  least.

  Not modelled: network access (the connections of Lisk and the Cosmos Hub, the
  streams of the connections of \<open>iov-bns\<close> and \<open>iov-ethereum\<close>, HTTP and WebSocket clients,
  faucets, the WebSocket wrappers, subscriptions), the
  command line (terminal and process), random ids (a
  parameter), the printable secret of \<open>Ed25519Wallet\<close> (a sort by the locale), and of
  the generated protobuf classes the functions that nothing calls (\<open>verify\<close>,
  \<open>fromObject\<close>, \<open>toObject\<close>, the delimited forms).
\<close>

section \<open>From the wallet to the chain\<close>








end
